(* ===== verification/Prelude.thy ===== *)
theory Prelude
  imports Main "HOL-Library.Char_ord" "HOL-Library.List_Lexorder" "HOL-Library.Sublist"
    "HOL-Library.Word" "HOL-Library.Multiset"
begin

text \<open>
  The shared vocabulary of the development: results of JavaScript code that may throw, the
  operations on JavaScript strings and numbers that the sources use, the UTF-8 encoding of
  \<^verbatim>\<open>TextEncoder\<close>, and the generic lemmas on them that the components rely on.

  A JavaScript string is a list of characters, each character one UTF-16 code unit. Isabelle's
  type \<^typ>\<open>char\<close> has 256 values, so the strings of the model are the JavaScript strings whose code
  units are below 256 (ASCII and Latin-1); on these every operation below agrees with
  ECMAScript, and the order of \<^verbatim>\<open>Array.prototype.sort\<close> on strings (code units, lexicographically)
  is the order of the theories \<^verbatim>\<open>Char_ord\<close> and \<^verbatim>\<open>List_Lexorder\<close>.
\<close>

section \<open>Collections of facts\<close>

named_theorems res_simps \<open>equations of the result type\<close>
named_theorems frame_simps \<open>fields that an operation leaves unchanged\<close>

section \<open>Code that may throw\<close>

text \<open>\<^verbatim>\<open>throw new Error(m)\<close> is \<open>Inl m\<close>; returning \<open>x\<close> is \<open>Inr x\<close>.\<close>

type_synonym 'a res = "string + 'a"

definition bindE :: "'a res \<Rightarrow> ('a \<Rightarrow> 'b res) \<Rightarrow> 'b res" where
  "bindE m f = (case m of Inl e \<Rightarrow> Inl e | Inr x \<Rightarrow> f x)"

fun sequenceE :: "'a res list \<Rightarrow> 'a list res" where
  "sequenceE [] = Inr []"
| "sequenceE (m # ms) = bindE m (\<lambda>x. bindE (sequenceE ms) (\<lambda>xs. Inr (x # xs)))"

fun foldE :: "('a \<Rightarrow> 's \<Rightarrow> 's res) \<Rightarrow> 'a list \<Rightarrow> 's \<Rightarrow> 's res" where
  "foldE f [] s = Inr s"
| "foldE f (x # xs) s = bindE (f x s) (foldE f xs)"

definition guardE :: "bool \<Rightarrow> string \<Rightarrow> unit res" where
  "guardE b msg = (if b then Inr () else Inl msg)"

text \<open>\<^verbatim>\<open>try { ... } catch { ... }\<close>\<close>

definition catchE :: "'a res \<Rightarrow> 'a \<Rightarrow> 'a" where
  "catchE m d = (case m of Inl _ \<Rightarrow> d | Inr x \<Rightarrow> x)"

lemma bindE_simps [simp, res_simps]:
  "bindE (Inl e) f = Inl e" "bindE (Inr x) f = f x"
  by (simp_all add: bindE_def)

lemma catchE_simps [simp, res_simps]:
  "catchE (Inl e) d = d" "catchE (Inr x) d = x"
  by (simp_all add: catchE_def)

lemma bindE_total: "\<exists>x. m = Inr x \<Longrightarrow> (\<And>x. m = Inr x \<Longrightarrow> \<exists>y. f x = Inr y) \<Longrightarrow> \<exists>y. bindE m f = Inr y"
  by auto

lemma bindE_eq_Inr: "bindE m f = Inr y \<longleftrightarrow> (\<exists>x. m = Inr x \<and> f x = Inr y)"
  by (cases m) auto

lemma bindE_eq_Inl: "bindE m f = Inl e \<longleftrightarrow> m = Inl e \<or> (\<exists>x. m = Inr x \<and> f x = Inl e)"
  by (cases m) auto

lemma bindE_assoc: "bindE (bindE m f) g = bindE m (\<lambda>x. bindE (f x) g)"
  by (cases m) auto

lemma guardE_eq_Inr [simp]: "guardE b m = Inr u \<longleftrightarrow> b"
  by (simp add: guardE_def)

lemma bindE_guardE [simp]: "bindE (guardE b m) f = (if b then f () else Inl m)"
  by (simp add: guardE_def)

lemma sequenceE_eq_Inr: "sequenceE ms = Inr xs \<longleftrightarrow> ms = map Inr xs"
  by (induction ms arbitrary: xs) (auto simp: bindE_eq_Inr)

lemma sequenceE_map_Inr [simp]: "sequenceE (map Inr xs) = Inr xs"
  by (simp add: sequenceE_eq_Inr)

text \<open>An invariant kept by every turn of a loop holds after it, if the loop does not throw.\<close>

lemma foldE_invariant:
  assumes "foldE f xs s = Inr t" and "P s"
    and "\<And>x s s'. x \<in> set xs \<Longrightarrow> P s \<Longrightarrow> f x s = Inr s' \<Longrightarrow> P s'"
  shows "P t"
  using assms
proof (induction xs arbitrary: s)
  case Nil
  then show ?case by simp
next
  case (Cons x xs)
  from Cons.prems(1) obtain s' where "f x s = Inr s'" "foldE f xs s' = Inr t"
    by (auto simp: bindE_eq_Inr)
  with Cons show ?case by (metis list.set_intros(1) list.set_intros(2))
qed

lemma foldE_Inr: "foldE (\<lambda>x s. Inr (h x s)) xs s = Inr (fold h xs s)"
  by (induction xs arbitrary: s) simp_all

lemma foldE_append: "foldE f (xs @ ys) s = bindE (foldE f xs s) (foldE f ys)"
  by (induction xs arbitrary: s) (auto simp: bindE_def split: sum.split)

lemma find_SomeD: "find P xs = Some x \<Longrightarrow> x \<in> set xs \<and> P x"
  by (auto simp: find_Some_iff)

section \<open>Strings\<close>

definition startsWith :: "string \<Rightarrow> string \<Rightarrow> bool" where
  "startsWith s p \<longleftrightarrow> take (length p) s = p"

definition endsWith :: "string \<Rightarrow> string \<Rightarrow> bool" where
  "endsWith s p \<longleftrightarrow> length p \<le> length s \<and> drop (length s - length p) s = p"

fun includesSub :: "string \<Rightarrow> string \<Rightarrow> bool" where
  "includesSub [] p = (p = [])"
| "includesSub (c # s) p = (startsWith (c # s) p \<or> includesSub s p)"

text \<open>\<^verbatim>\<open>toLowerCase\<close>: ASCII and Latin-1 capital letters (U+00D7 is not a letter).\<close>

definition lowerChar :: "char \<Rightarrow> char" where
  "lowerChar c =
     (let n = (of_char c :: nat) in
      if (65 \<le> n \<and> n \<le> 90) \<or> (192 \<le> n \<and> n \<le> 222 \<and> n \<noteq> 215) then char_of (n + 32) else c)"

definition toLowerCase :: "string \<Rightarrow> string" where
  "toLowerCase s = map lowerChar s"

text \<open>\<^verbatim>\<open>Boolean(s)\<close> of an optional string: neither undefined (or null) nor empty.\<close>

definition truthyStr :: "string option \<Rightarrow> bool" where
  "truthyStr s = (case s of None \<Rightarrow> False | Some t \<Rightarrow> t \<noteq> [])"

text \<open>\<^verbatim>\<open>x?.length\<close> used as a condition: present and non-empty.\<close>

definition truthyList :: "'a list option \<Rightarrow> bool" where
  "truthyList xs = (case xs of None \<Rightarrow> False | Some ys \<Rightarrow> ys \<noteq> [])"

text \<open>\<^verbatim>\<open>x ?? d\<close>\<close>

definition orElse :: "'a option \<Rightarrow> 'a \<Rightarrow> 'a" where
  "orElse x d = (case x of None \<Rightarrow> d | Some y \<Rightarrow> y)"

lemma orElse_simps [simp]: "orElse None d = d" "orElse (Some x) d = x"
  by (simp_all add: orElse_def)

lemma truthyStr_simps [simp]: "truthyStr None = False" "truthyStr (Some s) = (s \<noteq> [])"
  by (simp_all add: truthyStr_def)

lemma truthyList_simps [simp]: "truthyList None = False" "truthyList (Some xs) = (xs \<noteq> [])"
  by (simp_all add: truthyList_def)

lemma startsWith_append [simp]: "startsWith (p @ s) p"
  by (simp add: startsWith_def)

lemma startsWith_iff: "startsWith s p \<longleftrightarrow> (\<exists>t. s = p @ t)"
  by (metis append_take_drop_id startsWith_append startsWith_def)

lemma length_toLowerCase [simp]: "length (toLowerCase s) = length s"
  by (simp add: toLowerCase_def)

fun joinStr :: "string \<Rightarrow> string list \<Rightarrow> string" where
  "joinStr sep [] = []"
| "joinStr sep [x] = x"
| "joinStr sep (x # y # xs) = x @ sep @ joinStr sep (y # xs)"

section \<open>Decimal numerals: \<^verbatim>\<open>String(n)\<close> for an integer\<close>

definition digitChar :: "nat \<Rightarrow> char" where
  "digitChar n = char_of (48 + n)"

fun string_of_nat :: "nat \<Rightarrow> string" where
  "string_of_nat n =
     (if n < 10 then [digitChar n] else string_of_nat (n div 10) @ [digitChar (n mod 10)])"

declare string_of_nat.simps [simp del]

definition string_of_int :: "int \<Rightarrow> string" where
  "string_of_int i = (if i < 0 then CHR ''-'' # string_of_nat (nat (- i)) else string_of_nat (nat i))"

definition isDigit :: "char \<Rightarrow> bool" where
  "isDigit c \<longleftrightarrow> 48 \<le> (of_char c :: nat) \<and> (of_char c :: nat) \<le> 57"

definition digitVal :: "char \<Rightarrow> nat" where
  "digitVal c = of_char c - 48"

definition nat_of_string :: "string \<Rightarrow> nat" where
  "nat_of_string s = foldl (\<lambda>n c. 10 * n + digitVal c) 0 s"

lemma of_char_lt_256 [simp]: "(of_char c :: nat) < 256"
  by (metis of_char_mod_256 mod_less_divisor zero_less_numeral)

lemma of_char_inject: "(of_char c :: nat) = of_char d \<longleftrightarrow> c = d"
  by simp

lemma of_char_char_of_nat: "n < 256 \<Longrightarrow> (of_char (char_of n :: char) :: nat) = n"
  by (simp add: of_char_of)

lemma of_char_digitChar [simp]: "n < 10 \<Longrightarrow> (of_char (digitChar n) :: nat) = 48 + n"
  unfolding digitChar_def by (rule of_char_char_of_nat) simp

lemma isDigit_digitChar [simp]: "n < 10 \<Longrightarrow> isDigit (digitChar n)"
  by (simp add: isDigit_def)

lemma digitVal_digitChar [simp]: "n < 10 \<Longrightarrow> digitVal (digitChar n) = n"
  by (simp add: digitVal_def)

lemma nat_of_string_snoc: "nat_of_string (s @ [c]) = 10 * nat_of_string s + digitVal c"
  by (simp add: nat_of_string_def)

lemma string_of_nat_round_trip [simp]: "nat_of_string (string_of_nat n) = n"
proof (induction n rule: string_of_nat.induct)
  case (1 n)
  show ?case
  proof (cases "n < 10")
    case True
    then show ?thesis
      by (simp add: string_of_nat.simps [of n] nat_of_string_def)
  next
    case False
    with 1 show ?thesis
      by (simp add: string_of_nat.simps [of n] nat_of_string_snoc)
  qed
qed

lemma string_of_nat_digits: "c \<in> set (string_of_nat n) \<Longrightarrow> isDigit c"
proof (induction n rule: string_of_nat.induct)
  case (1 n)
  then show ?case
    by (cases "n < 10") (auto simp: string_of_nat.simps [of n])
qed

lemma string_of_nat_nonempty [simp]: "string_of_nat n \<noteq> []"
  by (subst string_of_nat.simps) simp

lemma not_isDigit_minus [simp]: "\<not> isDigit (CHR ''-'')"
  by (simp add: isDigit_def)

text \<open>A numeral ends where its digits end.\<close>

lemma takeWhile_string_of_nat:
  assumes "rest = [] \<or> \<not> isDigit (hd rest)"
  shows "takeWhile isDigit (string_of_nat n @ rest) = string_of_nat n"
proof -
  have "takeWhile isDigit (string_of_nat n @ rest) = string_of_nat n @ takeWhile isDigit rest"
    by (rule takeWhile_append2) (rule string_of_nat_digits)
  moreover have "takeWhile isDigit rest = []"
    using assms by (cases rest) auto
  ultimately show ?thesis by simp
qed

section \<open>Bytes and \<^verbatim>\<open>TextEncoder\<close>\<close>

type_synonym bytes = "8 word list"

fun utf8Codes :: "nat \<Rightarrow> nat list" where
  "utf8Codes n = (if n < 128 then [n] else [192 + n div 64, 128 + n mod 64])"

definition utf8Char :: "char \<Rightarrow> bytes" where
  "utf8Char c = map word_of_nat (utf8Codes (of_char c))"

definition utf8 :: "string \<Rightarrow> bytes" where
  "utf8 s = concat (map utf8Char s)"

lemma utf8_append [simp]: "utf8 (s @ t) = utf8 s @ utf8 t"
  by (simp add: utf8_def)

lemma utf8_Nil [simp]: "utf8 [] = []"
  by (simp add: utf8_def)

lemma utf8_Cons: "utf8 (c # s) = utf8Char c @ utf8 s"
  by (simp add: utf8_def)

lemma unat_byte [simp]: "n < 256 \<Longrightarrow> unat (word_of_nat n :: 8 word) = n"
  by (simp add: unat_of_nat)

lemma word_of_nat_byte_inject:
  assumes "m < 256" "n < 256"
  shows "(word_of_nat m :: 8 word) = word_of_nat n \<longleftrightarrow> m = n"
  using assms by (metis unat_byte)

lemma map_unat_utf8Char: "map unat (utf8Char c) = utf8Codes (of_char c)"
proof -
  have "of_char c div 64 < (4 :: nat)"
    using of_char_lt_256 [of c] by (simp add: less_mult_imp_div_less)
  then show ?thesis
    by (simp add: utf8Char_def del: of_nat_add)
qed

lemma utf8Codes_prefix_free: "utf8Codes m @ r = utf8Codes n @ r' \<Longrightarrow> m = n"
  by (simp split: if_splits) (metis div_mult_mod_eq)

lemma utf8Char_prefix_free:
  assumes "utf8Char c @ r = utf8Char d @ r'"
  shows "c = d \<and> r = r'"
proof -
  have "utf8Codes (of_char c) @ map unat r = utf8Codes (of_char d) @ map unat r'"
    using arg_cong [OF assms, of "map unat"] by (simp only: map_append map_unat_utf8Char)
  then have "(of_char c :: nat) = of_char d"
    by (rule utf8Codes_prefix_free)
  then have "c = d" by simp
  with assms show ?thesis by simp
qed

lemma utf8Char_nonempty [simp]: "utf8Char c \<noteq> []"
  by (simp add: utf8Char_def)

text \<open>UTF-8 is injective.\<close>

lemma utf8_inject: "utf8 s = utf8 t \<longleftrightarrow> s = t"
proof
  show "utf8 s = utf8 t \<Longrightarrow> s = t"
  proof (induction s arbitrary: t)
    case Nil
    then show ?case by (cases t) (auto simp: utf8_Cons)
  next
    case (Cons c s)
    then obtain d t' where t: "t = d # t'"
      by (cases t) (auto simp: utf8_Cons)
    with Cons.prems have "c = d \<and> utf8 s = utf8 t'"
      by (intro utf8Char_prefix_free) (simp add: utf8_Cons)
    with Cons.IH t show ?case by simp
  qed
qed simp

text \<open>No byte of an encoded string is zero unless the string has a NUL character.\<close>

lemma zero_notin_utf8: "CHR 0x00 \<notin> set s \<Longrightarrow> 0 \<notin> set (utf8 s)"
proof -
  have "c = CHR 0x00" if "0 \<in> set (utf8Char c)" for c
  proof -
    from that have "unat (0 :: 8 word) \<in> set (map unat (utf8Char c))"
      by (metis image_eqI list.set_map)
    then have "0 \<in> set (utf8Codes (of_char c))"
      by (simp only: map_unat_utf8Char unat_0)
    then have "(of_char c :: nat) = of_char (CHR 0x00)"
      by (simp split: if_splits)
    then show ?thesis by (simp only: of_char_inject)
  qed
  then show "CHR 0x00 \<notin> set s \<Longrightarrow> 0 \<notin> set (utf8 s)"
    by (auto simp: utf8_def)
qed

text \<open>Splitting at the first occurrence of a separator is unique.\<close>

lemma separator_split_unique:
  assumes "xs @ z # ys = xs' @ z # ys'" "z \<notin> set xs" "z \<notin> set xs'"
  shows "xs = xs' \<and> ys = ys'"
  using assms
proof (induction xs arbitrary: xs')
  case Nil
  then show ?case by (cases xs') auto
next
  case (Cons x xs)
  then show ?case by (cases xs') auto
qed

section \<open>Sorting by a key\<close>

lemma insort_key_map: "insort_key f (h x) (map h xs) = map h (insort_key (\<lambda>y. f (h y)) x xs)"
  by (induction xs) auto

lemma sort_key_map: "sort_key f (map h xs) = map h (sort_key (\<lambda>y. f (h y)) xs)"
  by (induction xs) (auto simp: insort_key_map)

lemma sort_key_idem [simp]: "sort_key f (sort_key f xs) = sort_key f xs"
  by (rule sort_key_id_if_sorted) simp

text \<open>Sorting entries by distinct keys forgets the order they came in.\<close>

lemma sort_key_perm:
  assumes "mset xs = mset ys" "distinct (map f xs)"
  shows "sort_key f xs = sort_key f ys"
  by (rule sort_key_inj_key_eq) (use assms in \<open>auto simp: distinct_map\<close>)

section \<open>Encodings read from the left\<close>

text \<open>\<open>joinStr\<close> as a first element followed by separated ones.\<close>

lemma joinStr_Cons: "joinStr sep (x # xs) = x @ concat (map (\<lambda>y. sep @ y) xs)"
  by (induction xs arbitrary: x) auto

text \<open>A text after which a numeral cannot go on.\<close>

definition delimited :: "string \<Rightarrow> bool" where
  "delimited r \<longleftrightarrow> r = [] \<or> \<not> isDigit (hd r)"

lemma delimited_Cons [simp]: "delimited (c # r) \<longleftrightarrow> \<not> isDigit c"
  by (simp add: delimited_def)

lemma delimited_Nil [simp]: "delimited []"
  by (simp add: delimited_def)

lemma string_of_nat_unique:
  assumes "string_of_nat m @ r = string_of_nat n @ r'" "delimited r" "delimited r'"
  shows "m = n \<and> r = r'"
proof -
  have "string_of_nat m = string_of_nat n"
    using assms takeWhile_string_of_nat unfolding delimited_def by metis
  then show ?thesis
    using assms(1) by (metis append_same_eq same_append_eq string_of_nat_round_trip)
qed

lemma hd_string_of_nat: "isDigit (hd (string_of_nat n))"
  by (metis hd_in_set string_of_nat_digits string_of_nat_nonempty)

lemma string_of_int_unique:
  assumes "string_of_int i @ r = string_of_int j @ r'" "delimited r" "delimited r'"
  shows "i = j \<and> r = r'"
proof (cases "(i < 0) = (j < 0)")
  case True
  then have "nat \<bar>i\<bar> = nat \<bar>j\<bar> \<and> r = r'"
    using assms string_of_nat_unique [of "nat \<bar>i\<bar>" r "nat \<bar>j\<bar>" r']
    by (auto simp: string_of_int_def split: if_splits)
  with True show ?thesis by auto
next
  case False
  have "hd (string_of_nat n @ t) \<noteq> CHR ''-''" for n t
    using hd_string_of_nat [of n] by (cases "string_of_nat n") auto
  then show ?thesis
    using False assms(1) by (metis append_Cons list.sel(1) string_of_int_def)
qed

text \<open>
  \<open>decodable E n x\<close>: whatever else begins like the encoding of \<open>x\<close> encodes the same value, up to
  the normal form \<open>n\<close>. A separated and closed list of decodable items is decodable.
\<close>

definition decodable :: "('a \<Rightarrow> string res) \<Rightarrow> ('a \<Rightarrow> 'b) \<Rightarrow> 'a \<Rightarrow> bool" where
  "decodable E n x \<longleftrightarrow> (\<forall>y s t r r'. E x = Inr s \<longrightarrow> E y = Inr t \<longrightarrow> s @ r = t @ r' \<longrightarrow>
      delimited r \<longrightarrow> delimited r' \<longrightarrow> n x = n y \<and> r = r')"

lemma decodableD:
  assumes "decodable E n x" "E x = Inr s" "E y = Inr t" "s @ r = t @ r'" "delimited r" "delimited r'"
  shows "n x = n y \<and> r = r'"
  using assms unfolding decodable_def by blast

lemma decodable_tail:
  assumes "list_all (decodable E n) xs" "map E xs = map Inr ss" "map E ys = map Inr ts"
    and "concat (map (\<lambda>s. CHR '','' # s) ss) @ c # r = concat (map (\<lambda>s. CHR '','' # s) ts) @ c # r'"
    and "c \<noteq> CHR '',''" "\<not> isDigit c"
  shows "map n xs = map n ys \<and> r = r'"
  using assms
proof (induction xs arbitrary: ys ss ts)
  case Nil
  then show ?case by (cases ts) auto
next
  case (Cons x xs)
  from Cons.prems obtain s ss' where ss: "ss = s # ss'" by auto
  with Cons.prems obtain t ts' where ts: "ts = t # ts'" by (cases ts) auto
  with Cons.prems obtain y ys' where ys: "ys = y # ys'" by auto
  let ?rest = "\<lambda>us r. concat (map (\<lambda>s. CHR '','' # s) us) @ c # r"
  have del: "delimited (?rest us r)" for us r
    using Cons.prems(6) by (cases us) (auto simp: isDigit_def)
  have "n x = n y \<and> ?rest ss' r = ?rest ts' r'"
    using Cons.prems ss ts ys del
    by (intro decodableD [where E = E and s = s and t = t]) auto
  moreover from this have "map n xs = map n ys' \<and> r = r'"
    using Cons.prems ss ts ys by (intro Cons.IH [where ss = ss' and ts = ts']) auto
  ultimately show ?case using ys by simp
qed

lemma decodable_join:
  assumes "list_all (decodable E n) xs" "sequenceE (map E xs) = Inr ss" "sequenceE (map E ys) = Inr ts"
    and "joinStr '','' ss @ c # r = joinStr '','' ts @ c # r'"
    and "c \<noteq> CHR '',''" "\<not> isDigit c"
    and hd: "\<And>z u. E z = Inr u \<Longrightarrow> u \<noteq> [] \<and> hd u \<noteq> c"
  shows "map n xs = map n ys \<and> r = r'"
proof -
  have maps: "map E xs = map Inr ss" "map E ys = map Inr ts"
    using assms(2,3) by (simp_all add: sequenceE_eq_Inr)
  have nonempty: "\<exists>a w. joinStr '','' us = a # w \<and> a \<noteq> c"
    if "map E zs = map Inr us" "us \<noteq> []" for zs us
  proof -
    from that obtain z u us' where "us = u # us'" "E z = Inr u" by (cases us; cases zs) auto
    with hd [of z u] show ?thesis by (cases u) (auto simp: joinStr_Cons)
  qed
  show ?thesis
  proof (cases "ss = [] \<or> ts = []")
    case True
    then show ?thesis
      using maps assms(4) nonempty [OF maps(1)] nonempty [OF maps(2)]
      by (cases ss; cases ts) auto
  next
    case False
    then have "CHR '','' # joinStr '','' us = concat (map (\<lambda>s. CHR '','' # s) us)"
      if "us \<in> {ss, ts}" for us
      using that by (cases us) (auto simp: joinStr_Cons)
    then have "concat (map (\<lambda>s. CHR '','' # s) ss) @ c # r = concat (map (\<lambda>s. CHR '','' # s) ts) @ c # r'"
      using assms(4) by (metis append_Cons insertCI)
    then show ?thesis
      using assms maps by (intro decodable_tail) auto
  qed
qed

section \<open>JavaScript maps\<close>

text \<open>
  A \<^verbatim>\<open>Map\<close> is the list of its entries in insertion order, in which a key occurs once; \<^verbatim>\<open>set\<close> on a
  present key keeps the key's position.
\<close>

fun mapSet :: "('k \<times> 'v) list \<Rightarrow> 'k \<Rightarrow> 'v \<Rightarrow> ('k \<times> 'v) list" where
  "mapSet [] k v = [(k, v)]"
| "mapSet (e # m) k v = (if fst e = k then (k, v) # m else e # mapSet m k v)"

lemma map_of_mapSet [simp]: "map_of (mapSet m k v) = (map_of m)(k \<mapsto> v)"
  by (induction m) (auto simp: fun_eq_iff)

lemma keys_mapSet: "map fst (mapSet m k v) = (if k \<in> fst ` set m then map fst m else map fst m @ [k])"
  by (induction m) auto

lemma distinct_mapSet: "distinct (map fst m) \<Longrightarrow> distinct (map fst (mapSet m k v))"
  by (auto simp: keys_mapSet)

lemma length_mapSet: "length (mapSet m k v) = (if k \<in> fst ` set m then length m else Suc (length m))"
  using arg_cong [OF keys_mapSet, of length m k v] by (simp split: if_splits)

lemma mapSet_new: "k \<notin> fst ` set m \<Longrightarrow> mapSet m k v = m @ [(k, v)]"
  by (induction m) auto

lemma map_of_eq_None_keys: "map_of m k = None \<longleftrightarrow> k \<notin> fst ` set m"
  by (induction m) auto

section \<open>Sets and sorting\<close>

text \<open>\<^verbatim>\<open>[...new Set(xs)]\<close> keeps the first occurrence of every element.\<close>

definition uniqueInOrder :: "'a list \<Rightarrow> 'a list" where
  "uniqueInOrder xs = rev (remdups (rev xs))"

lemma set_uniqueInOrder [simp]: "set (uniqueInOrder xs) = set xs"
  by (simp add: uniqueInOrder_def)

lemma distinct_uniqueInOrder [simp]: "distinct (uniqueInOrder xs)"
  by (simp add: uniqueInOrder_def)

text \<open>\<^verbatim>\<open>xs.sort(cmp)\<close>: a stable sort; \<open>cmp\<close> returns a number whose sign decides.\<close>

fun insertCmp :: "('a \<Rightarrow> 'a \<Rightarrow> int) \<Rightarrow> 'a \<Rightarrow> 'a list \<Rightarrow> 'a list" where
  "insertCmp cmp x [] = [x]"
| "insertCmp cmp x (y # ys) = (if cmp x y \<le> 0 then x # y # ys else y # insertCmp cmp x ys)"

definition sortCmp :: "('a \<Rightarrow> 'a \<Rightarrow> int) \<Rightarrow> 'a list \<Rightarrow> 'a list" where
  "sortCmp cmp xs = foldr (insertCmp cmp) xs []"

lemma mset_sortCmp [simp]: "mset (sortCmp cmp xs) = mset xs"
proof -
  have "mset (insertCmp cmp x ys) = add_mset x (mset ys)" for x ys by (induction ys) auto
  then show ?thesis by (induction xs) (auto simp: sortCmp_def)
qed

lemma set_sortCmp [simp]: "set (sortCmp cmp xs) = set xs"
  by (metis mset_sortCmp set_mset_mset)

text \<open>\<^verbatim>\<open>f(a, b) || g(a, b)\<close> on numbers.\<close>

definition cmpOr :: "int \<Rightarrow> int \<Rightarrow> int" where
  "cmpOr a b = (if a \<noteq> 0 then a else b)"

text \<open>\<^verbatim>\<open>m.set(k, (m.get(k) ?? 0) + w)\<close>\<close>

definition mapAdd :: "('k \<times> 'v) list \<Rightarrow> 'k \<Rightarrow> 'v \<Rightarrow> ('k \<times> ('v :: {plus, zero})) list" where
  "mapAdd m k w = mapSet m k (orElse (map_of m k) 0 + w)"

end
