(* ===== verification/Canonicalize.thy ===== *)
theory Canonicalize
  imports Prelude
begin

text \<open>
  Canonical JSON (\<^verbatim>\<open>src/packages/core-ts/src/canonicalize.ts\<close>): the encoding that every hash and
  signature of the protocol is computed over.

  A JavaScript value is a \<open>jsval\<close>; a plain object is the list of its own enumerable entries, in
  which a key occurs once (\<open>wf_js\<close>). The theorems show that the encoding does not depend on the
  order in which an object's entries were inserted, and that it is injective up to that order:
  two values with the same canonical bytes are the same value (\<open>normKeys\<close>).
\<close>

section \<open>JavaScript values\<close>

text \<open>
  Numbers: an integer (exactly), negative zero, or any number that is not an integer (fractions,
  NaN and the infinities, which the encoder treats alike), with the text that \<^verbatim>\<open>JSON.stringify\<close> prints for it. \<open>JOther t\<close> is a value of another kind
  (function, symbol, bigint, class instance) whose \<^verbatim>\<open>typeof\<close> is \<open>t\<close>.
\<close>

datatype jsnum = JInt int | JNegZero | JNonInteger string

datatype jsval =
    JUndefined
  | JNull
  | JBool bool
  | JNum jsnum
  | JStr string
  | JArr "jsval list"
  | JObj "(string \<times> jsval) list"
  | JOther string

type_synonym jsobj = "(string \<times> jsval) list"

text \<open>\<^verbatim>\<open>Number.MAX_SAFE_INTEGER\<close> is \<open>2 ^ 53 - 1\<close>.\<close>

definition isSafeInteger :: "int \<Rightarrow> bool" where
  "isSafeInteger i \<longleftrightarrow> - (2 ^ 53 - 1) \<le> i \<and> i \<le> 2 ^ 53 - 1"

section \<open>\<^verbatim>\<open>JSON.stringify\<close> of a string\<close>

definition hexDigit :: "nat \<Rightarrow> char" where
  "hexDigit n = (if n < 10 then char_of (48 + n) else char_of (87 + n))"

definition escapeChar :: "char \<Rightarrow> string" where
  "escapeChar c =
     (let n = (of_char c :: nat) in
      if c = CHR 0x22 then [CHR 0x5C, CHR 0x22]
      else if c = CHR 0x5C then [CHR 0x5C, CHR 0x5C]
      else if c = CHR 0x08 then [CHR 0x5C, CHR ''b'']
      else if c = CHR 0x09 then [CHR 0x5C, CHR ''t'']
      else if c = CHR 0x0A then [CHR 0x5C, CHR ''n'']
      else if c = CHR 0x0C then [CHR 0x5C, CHR ''f'']
      else if c = CHR 0x0D then [CHR 0x5C, CHR ''r'']
      else if n < 32 then [CHR 0x5C, CHR ''u'', CHR ''0'', CHR ''0'', hexDigit (n div 16), hexDigit (n mod 16)]
      else [c])"

definition quoteStr :: "string \<Rightarrow> string" where
  "quoteStr s = CHR 0x22 # concat (map escapeChar s) @ [CHR 0x22]"

text \<open>
  \<^verbatim>\<open>JSON.stringify\<close> of a value: \<open>None\<close> for \<^verbatim>\<open>undefined\<close> and functions, which are left out of objects and become
  \<^verbatim>\<open>null\<close> in arrays; entries stay in insertion order.
\<close>

fun jsonStringify :: "jsval \<Rightarrow> string option" where
  "jsonStringify JUndefined = None"
| "jsonStringify (JOther t) = None"
| "jsonStringify JNull = Some ''null''"
| "jsonStringify (JBool b) = Some (if b then ''true'' else ''false'')"
| "jsonStringify (JNum n) = Some (case n of JInt i \<Rightarrow> string_of_int i | JNegZero \<Rightarrow> ''0'' | JNonInteger t \<Rightarrow> t)"
| "jsonStringify (JStr s) = Some (quoteStr s)"
| "jsonStringify (JArr xs) =
     Some (''['' @ joinStr '','' (map (\<lambda>x. case jsonStringify x of None \<Rightarrow> ''null'' | Some t \<Rightarrow> t) xs) @ '']'')"
| "jsonStringify (JObj kvs) =
     Some (''{'' @ joinStr '','' (concat (map (\<lambda>kv. case jsonStringify (snd kv) of None \<Rightarrow> []
                                               | Some t \<Rightarrow> [quoteStr (fst kv) @ '':'' @ t]) kvs)) @ ''}'')"

section \<open>The encoder\<close>

definition encodeNum :: "jsnum \<Rightarrow> string res" where
  "encodeNum n = (case n of
       JInt i \<Rightarrow> (if isSafeInteger i then Inr (string_of_int i)
                  else Inl ''TSL canonicalization only allows safe integers in signed core objects'')
     | JNegZero \<Rightarrow> Inl ''TSL canonicalization rejects negative zero''
     | JNonInteger t \<Rightarrow> Inl ''TSL canonicalization only allows safe integers in signed core objects'')"

definition encodeField :: "string \<Rightarrow> jsval \<Rightarrow> string res \<Rightarrow> string res" where
  "encodeField key child enc =
     (if child = JUndefined then Inl (''TSL canonicalization rejects undefined field: '' @ key)
      else bindE enc (\<lambda>s. Inr (quoteStr key @ '':'' @ s)))"

text \<open>
  The source sorts the keys and encodes the children in that order; the model encodes the
  children, sorts the results by key and then looks for the first failure, which is the same
  since encoding a child has no effect.
\<close>

fun encodeCanonical :: "jsval \<Rightarrow> string res" where
  "encodeCanonical JNull = Inr ''null''"
| "encodeCanonical (JStr s) = Inr (quoteStr s)"
| "encodeCanonical (JBool b) = Inr (if b then ''true'' else ''false'')"
| "encodeCanonical (JNum n) = encodeNum n"
| "encodeCanonical (JArr xs) =
     bindE (sequenceE (map encodeCanonical xs)) (\<lambda>ss. Inr (''['' @ joinStr '','' ss @ '']''))"
| "encodeCanonical (JObj kvs) =
     bindE (sequenceE (map snd (sort_key fst
              (map (\<lambda>kv. (fst kv, encodeField (fst kv) (snd kv) (encodeCanonical (snd kv)))) kvs))))
       (\<lambda>fs. Inr (''{'' @ joinStr '','' fs @ ''}''))"
| "encodeCanonical JUndefined = Inl ''Unsupported value in TSL canonicalization: undefined''"
| "encodeCanonical (JOther t) = Inl (''Unsupported value in TSL canonicalization: '' @ t)"

definition canonicalize :: "jsval \<Rightarrow> string res" where
  "canonicalize v = encodeCanonical v"

definition canonicalBytes :: "jsval \<Rightarrow> bytes res" where
  "canonicalBytes v = bindE (canonicalize v) (\<lambda>s. Inr (utf8 s))"

definition withoutField :: "jsobj \<Rightarrow> string \<Rightarrow> jsobj" where
  "withoutField kvs field = filter (\<lambda>(k, v). k \<noteq> field \<and> v \<noteq> JUndefined) kvs"

definition withoutSignature :: "jsobj \<Rightarrow> jsobj" where
  "withoutSignature kvs = withoutField kvs ''signature''"

section \<open>Values up to the order of keys\<close>

fun wf_js :: "jsval \<Rightarrow> bool" where
  "wf_js (JArr xs) = list_all wf_js xs"
| "wf_js (JObj kvs) = (distinct (map fst kvs) \<and> list_all (\<lambda>kv. wf_js (snd kv)) kvs)"
| "wf_js _ = True"

fun normKeys :: "jsval \<Rightarrow> jsval" where
  "normKeys (JArr xs) = JArr (map normKeys xs)"
| "normKeys (JObj kvs) = JObj (sort_key fst (map (\<lambda>kv. (fst kv, normKeys (snd kv))) kvs))"
| "normKeys v = v"

section \<open>The order of keys does not matter\<close>

lemma normKeys_JUndefined [simp]: "normKeys v = JUndefined \<longleftrightarrow> v = JUndefined"
  by (cases v) auto

lemma encodeCanonical_JObj:
  "encodeCanonical (JObj kvs) =
     bindE (sequenceE (map (\<lambda>kv. encodeField (fst kv) (snd kv) (encodeCanonical (snd kv))) (sort_key fst kvs)))
       (\<lambda>fs. Inr (''{'' @ joinStr '','' fs @ ''}''))"
  by (simp add: sort_key_map comp_def)

lemma normKeys_JObj:
  "normKeys (JObj kvs) = JObj (map (\<lambda>kv. (fst kv, normKeys (snd kv))) (sort_key fst kvs))"
  by (simp add: sort_key_map)

declare encodeCanonical.simps(6) [simp del] normKeys.simps(2) [simp del]

lemma encodeCanonical_normKeys: "encodeCanonical (normKeys v) = encodeCanonical v"
proof (induction v rule: encodeCanonical.induct)
  case (5 xs)
  then have "map (encodeCanonical \<circ> normKeys) xs = map encodeCanonical xs" by simp
  then show ?case by (simp only: normKeys.simps encodeCanonical.simps map_map)
next
  case (6 kvs)
  let ?ks = "sort_key fst kvs"
  have "map ((\<lambda>kv. encodeField (fst kv) (snd kv) (encodeCanonical (snd kv))) \<circ> (\<lambda>kv. (fst kv, normKeys (snd kv)))) ?ks =
        map (\<lambda>kv. encodeField (fst kv) (snd kv) (encodeCanonical (snd kv))) ?ks"
    using "6.IH" by (auto simp: encodeField_def)
  then show ?case
    by (simp only: normKeys_JObj encodeCanonical_JObj sort_key_map fst_conv sort_key_idem map_map)
qed simp_all

lemma normKeys_perm:
  assumes "mset kvs = mset kvs'" "distinct (map fst kvs)"
  shows "normKeys (JObj kvs) = normKeys (JObj kvs')"
  by (simp add: normKeys_JObj sort_key_perm [OF assms])

section \<open>The encoding is injective\<close>

text \<open>Reading one escaped character back: the escapes form a prefix code.\<close>

definition hexVal :: "char \<Rightarrow> nat" where
  "hexVal c = (if (of_char c :: nat) < 58 then of_char c - 48 else of_char c - 87)"

fun unescape :: "string \<Rightarrow> char \<times> string" where
  "unescape (a # b # s) =
     (if a \<noteq> CHR 0x5C then (a, b # s)
      else if b = CHR ''u'' then (char_of (16 * hexVal (s ! 2) + hexVal (s ! 3)), drop 4 s)
      else if b = CHR ''b'' then (CHR 0x08, s)
      else if b = CHR ''t'' then (CHR 0x09, s)
      else if b = CHR ''n'' then (CHR 0x0A, s)
      else if b = CHR ''f'' then (CHR 0x0C, s)
      else if b = CHR ''r'' then (CHR 0x0D, s)
      else (b, s))"
| "unescape s = (hd s, tl s)"

lemma hexVal_hexDigit [simp]: "n < 16 \<Longrightarrow> hexVal (hexDigit n) = n"
  by (simp add: hexVal_def hexDigit_def of_char_char_of_nat)

lemma unescape_escapeChar: "unescape (escapeChar c @ r) = (c, r)"
proof -
  let ?n = "of_char c :: nat"
  have digits: "?n < 32 \<Longrightarrow> ?n div 16 < 16"
    by (simp add: less_mult_imp_div_less)
  show ?thesis
  proof (cases "c \<in> {CHR 0x22, CHR 0x5C, CHR 0x08, CHR 0x09, CHR 0x0A, CHR 0x0C, CHR 0x0D}")
    case True
    then show ?thesis by (auto simp: escapeChar_def)
  next
    case False
    then show ?thesis
      using digits by (cases r) (auto simp: escapeChar_def Let_def)
  qed
qed

lemma escapeChar_prefix_free:
  assumes "escapeChar c @ r = escapeChar d @ r'"
  shows "c = d \<and> r = r'"
  using assms by (metis prod.inject unescape_escapeChar)

lemma escapeChar_nonempty [simp]: "escapeChar c \<noteq> []"
  by (simp add: escapeChar_def Let_def)

lemma hd_escapeChar: "hd (escapeChar c) \<noteq> CHR 0x22"
  by (simp add: escapeChar_def Let_def)

lemma escapeChar_not_quote: "escapeChar c @ r \<noteq> CHR 0x22 # r'"
  using hd_escapeChar [of c] by (cases "escapeChar c") auto

lemma quoteStr_unique:
  assumes "quoteStr s @ r = quoteStr t @ r'"
  shows "s = t \<and> r = r'"
proof -
  have "concat (map escapeChar s) @ CHR 0x22 # r = concat (map escapeChar t) @ CHR 0x22 # r' \<Longrightarrow>
      s = t \<and> r = r'"
  proof (induction s arbitrary: t)
    case Nil
    then show ?case by (cases t) (auto simp: escapeChar_not_quote [symmetric])
  next
    case (Cons c s)
    from Cons.prems escapeChar_not_quote obtain d t' where t: "t = d # t'"
      by (cases t) auto
    with Cons.prems have "c = d \<and>
        concat (map escapeChar s) @ CHR 0x22 # r = concat (map escapeChar t') @ CHR 0x22 # r'"
      by (intro escapeChar_prefix_free) simp
    with Cons.IH t show ?case by blast
  qed
  with assms show ?thesis by (simp add: quoteStr_def)
qed

text \<open>The first character tells the kind of value.\<close>

definition leads :: "jsval \<Rightarrow> char \<Rightarrow> bool" where
  "leads v c = (case v of
       JNull \<Rightarrow> c = CHR ''n''
     | JStr _ \<Rightarrow> c = CHR 0x22
     | JBool b \<Rightarrow> c = (if b then CHR ''t'' else CHR ''f'')
     | JNum _ \<Rightarrow> isDigit c \<or> c = CHR ''-''
     | JArr _ \<Rightarrow> c = CHR ''[''
     | JObj _ \<Rightarrow> c = CHR ''{''
     | _ \<Rightarrow> False)"

lemma encodeNum_Inr: "encodeNum n = Inr s \<longleftrightarrow> (\<exists>i. n = JInt i \<and> isSafeInteger i \<and> s = string_of_int i)"
  by (auto simp: encodeNum_def split: jsnum.splits if_splits)

lemma string_of_int_leads: "\<exists>c w. string_of_int i = c # w \<and> (isDigit c \<or> c = CHR ''-'')"
  using hd_string_of_nat [of "nat i"]
  by (cases "string_of_nat (nat i)") (auto simp: string_of_int_def)

lemma encodeCanonical_leads:
  assumes "encodeCanonical v = Inr s"
  shows "\<exists>c w. s = c # w \<and> leads v c"
  using assms string_of_int_leads
  by (cases v) (auto simp: leads_def quoteStr_def encodeCanonical_JObj bindE_eq_Inr encodeNum_Inr split: if_splits)

lemma leads_kind:
  assumes "leads v c" "leads w c"
  shows "(\<exists>m n. v = JNum m \<and> w = JNum n) \<or> (\<exists>x y. v = JStr x \<and> w = JStr y) \<or> (\<exists>b. v = JBool b \<and> w = JBool b)
    \<or> v = JNull \<and> w = JNull \<or> (\<exists>xs ys. v = JArr xs \<and> w = JArr ys) \<or> (\<exists>ks ls. v = JObj ks \<and> w = JObj ls)"
  using assms by (auto simp: leads_def isDigit_def split: jsval.splits if_splits)

lemma encodeCanonical_same_kind:
  assumes "encodeCanonical v = Inr s" "encodeCanonical w = Inr t" "s @ r = t @ r'"
  shows "\<exists>c. leads v c \<and> leads w c"
proof -
  obtain c s' d t' where "s = c # s'" "leads v c" "t = d # t'" "leads w d"
    using encodeCanonical_leads [OF assms(1)] encodeCanonical_leads [OF assms(2)] by blast
  with assms(3) show ?thesis by auto
qed

lemma decodable_field:
  assumes "decodable encodeCanonical normKeys (snd kv)"
  shows "decodable (\<lambda>kv. encodeField (fst kv) (snd kv) (encodeCanonical (snd kv)))
           (\<lambda>kv. (fst kv, normKeys (snd kv))) kv"
  unfolding decodable_def
proof (intro allI impI)
  fix kw s t r r'
  assume enc: "encodeField (fst kv) (snd kv) (encodeCanonical (snd kv)) = Inr s"
    "encodeField (fst kw) (snd kw) (encodeCanonical (snd kw)) = Inr t"
    and eq: "s @ r = t @ r'" and del: "delimited r" "delimited r'"
  obtain u v where uv: "encodeCanonical (snd kv) = Inr u" "encodeCanonical (snd kw) = Inr v"
    "s = quoteStr (fst kv) @ '':'' @ u" "t = quoteStr (fst kw) @ '':'' @ v"
    using enc by (auto simp: encodeField_def bindE_eq_Inr split: if_splits)
  have keys: "fst kv = fst kw \<and> '':'' @ u @ r = '':'' @ v @ r'"
    using eq uv by (intro quoteStr_unique) simp
  then have "normKeys (snd kv) = normKeys (snd kw) \<and> r = r'"
    using decodableD [OF assms uv(1,2) _ del] by simp
  with keys show "(fst kv, normKeys (snd kv)) = (fst kw, normKeys (snd kw)) \<and> r = r'" by simp
qed

lemma encodeField_hd: "encodeField k v e = Inr u \<Longrightarrow> u \<noteq> [] \<and> hd u \<noteq> CHR ''}''"
  by (auto simp: encodeField_def quoteStr_def bindE_eq_Inr split: if_splits)

lemma encodeCanonical_hd: "encodeCanonical v = Inr u \<Longrightarrow> u \<noteq> [] \<and> hd u \<noteq> CHR '']''"
  by (drule encodeCanonical_leads, cases v) (auto simp: leads_def isDigit_def split: if_splits)

lemma decodable_JArr:
  assumes "\<And>x. x \<in> set xs \<Longrightarrow> decodable encodeCanonical normKeys x"
  shows "decodable encodeCanonical normKeys (JArr xs)"
proof -
  show ?thesis
    unfolding decodable_def
  proof (intro allI impI)
    fix w s t r r'
    assume enc: "encodeCanonical (JArr xs) = Inr s" "encodeCanonical w = Inr t" and eq: "s @ r = t @ r'"
    obtain ys where w: "w = JArr ys"
      using encodeCanonical_same_kind [OF enc eq] leads_kind by blast
    obtain ss ts where st: "sequenceE (map encodeCanonical xs) = Inr ss"
      "sequenceE (map encodeCanonical ys) = Inr ts"
      "s = ''['' @ joinStr '','' ss @ '']''" "t = ''['' @ joinStr '','' ts @ '']''"
      using enc w by (auto simp: bindE_eq_Inr)
    have "map normKeys xs = map normKeys ys \<and> r = r'"
      using st eq assms encodeCanonical_hd
      by (intro decodable_join [where E = encodeCanonical and c = "CHR '']''"])
        (auto simp: list_all_iff isDigit_def)
    then show "normKeys (JArr xs) = normKeys w \<and> r = r'" by (simp add: w)
  qed
qed

lemma decodable_JObj:
  assumes "\<And>kv. kv \<in> set kvs \<Longrightarrow> decodable encodeCanonical normKeys (snd kv)"
  shows "decodable encodeCanonical normKeys (JObj kvs)"
proof -
  let ?E = "\<lambda>kv. encodeField (fst kv) (snd kv) (encodeCanonical (snd kv))"
  show ?thesis
    unfolding decodable_def
  proof (intro allI impI)
    fix w s t r r'
    assume enc: "encodeCanonical (JObj kvs) = Inr s" "encodeCanonical w = Inr t" and eq: "s @ r = t @ r'"
    obtain kws where w: "w = JObj kws"
      using encodeCanonical_same_kind [OF enc eq] leads_kind by blast
    obtain ss ts where st: "sequenceE (map ?E (sort_key fst kvs)) = Inr ss"
      "sequenceE (map ?E (sort_key fst kws)) = Inr ts"
      "s = ''{'' @ joinStr '','' ss @ ''}''" "t = ''{'' @ joinStr '','' ts @ ''}''"
      using enc w by (auto simp: bindE_eq_Inr encodeCanonical_JObj)
    have "map (\<lambda>kv. (fst kv, normKeys (snd kv))) (sort_key fst kvs) =
          map (\<lambda>kv. (fst kv, normKeys (snd kv))) (sort_key fst kws) \<and> r = r'"
      using st eq assms encodeField_hd
      by (intro decodable_join [where E = ?E and c = "CHR ''}''"])
        (auto simp: list_all_iff isDigit_def intro!: decodable_field)
    then show "normKeys (JObj kvs) = normKeys w \<and> r = r'" by (simp add: w normKeys_JObj)
  qed
qed

lemma decodable_JNum:
  shows "decodable encodeCanonical normKeys (JNum n)"
proof -
  show ?thesis
    unfolding decodable_def
  proof (intro allI impI)
    fix w s t r r'
    assume enc: "encodeCanonical (JNum n) = Inr s" "encodeCanonical w = Inr t" and eq: "s @ r = t @ r'"
      and del: "delimited r" "delimited r'"
    obtain m where w: "w = JNum m"
      using encodeCanonical_same_kind [OF enc eq] leads_kind by blast
    obtain i j where ij: "n = JInt i" "s = string_of_int i" "m = JInt j" "t = string_of_int j"
      using enc w by (auto simp: encodeNum_Inr)
    with string_of_int_unique [of i r j r'] eq del w show "normKeys (JNum n) = normKeys w \<and> r = r'" by simp
  qed
qed

lemma decodable_JStr:
  shows "decodable encodeCanonical normKeys (JStr x)"
proof -
  show ?thesis
    unfolding decodable_def
  proof (intro allI impI)
    fix w s t r r'
    assume enc: "encodeCanonical (JStr x) = Inr s" "encodeCanonical w = Inr t" and eq: "s @ r = t @ r'"
    obtain y where "w = JStr y"
      using encodeCanonical_same_kind [OF enc eq] leads_kind by blast
    with enc eq quoteStr_unique [of x r y r'] show "normKeys (JStr x) = normKeys w \<and> r = r'" by simp
  qed
qed

lemma decodable_JNull:
  shows "decodable encodeCanonical normKeys (JNull)"
proof -
  show ?thesis
    unfolding decodable_def
  proof (intro allI impI)
    fix w s t r r'
    assume enc: "encodeCanonical JNull = Inr s" "encodeCanonical w = Inr t" and eq: "s @ r = t @ r'"
    have "w = JNull"
      using encodeCanonical_same_kind [OF enc eq] leads_kind by blast
    with enc eq show "normKeys JNull = normKeys w \<and> r = r'" by simp
  qed
qed

lemma decodable_JBool:
  shows "decodable encodeCanonical normKeys (JBool b)"
proof -
  show ?thesis
    unfolding decodable_def
  proof (intro allI impI)
    fix w s t r r'
    assume enc: "encodeCanonical (JBool b) = Inr s" "encodeCanonical w = Inr t" and eq: "s @ r = t @ r'"
    have "w = JBool b"
      using encodeCanonical_same_kind [OF enc eq] leads_kind by blast
    with enc eq show "normKeys (JBool b) = normKeys w \<and> r = r'" by (auto split: if_splits)
  qed
qed

lemma decodable_encodeCanonical: "decodable encodeCanonical normKeys v"
  by (induction v rule: encodeCanonical.induct)
    (auto intro: decodable_JArr decodable_JObj decodable_JNum decodable_JStr decodable_JNull decodable_JBool,
      simp_all add: decodable_def)

text \<open>Two values have the same canonical text exactly if they are equal up to the order of keys.\<close>

lemma canonicalize_eq_iff:
  assumes "canonicalize v = Inr s"
  shows "canonicalize w = Inr s \<longleftrightarrow> normKeys v = normKeys w"
proof
  assume "canonicalize w = Inr s"
  then show "normKeys v = normKeys w"
    using assms decodableD [OF decodable_encodeCanonical, of v s w s "[]" "[]"]
    by (simp add: canonicalize_def)
next
  assume "normKeys v = normKeys w"
  then show "canonicalize w = Inr s"
    using assms by (metis canonicalize_def encodeCanonical_normKeys)
qed

lemma canonicalBytes_eq_iff:
  assumes "canonicalBytes v = Inr b"
  shows "canonicalBytes w = Inr b \<longleftrightarrow> normKeys v = normKeys w"
  using assms canonicalize_eq_iff
  by (fastforce simp: canonicalBytes_def bindE_eq_Inr utf8_inject)

section \<open>When the encoder throws\<close>

fun jsonSafe :: "jsval \<Rightarrow> bool" where
  "jsonSafe (JNum n) = (case n of JInt i \<Rightarrow> isSafeInteger i | _ \<Rightarrow> False)"
| "jsonSafe (JArr xs) = list_all jsonSafe xs"
| "jsonSafe (JObj kvs) = list_all (\<lambda>kv. jsonSafe (snd kv)) kvs"
| "jsonSafe JUndefined = False"
| "jsonSafe (JOther t) = False"
| "jsonSafe _ = True"

lemma sequenceE_ex: "(\<exists>xs. sequenceE ms = Inr xs) \<longleftrightarrow> (\<forall>m \<in> set ms. \<exists>x. m = Inr x)"
proof
  assume "\<forall>m \<in> set ms. \<exists>x. m = Inr x"
  then have "ms = map Inr (map projr ms)" by (induction ms) auto
  then show "\<exists>xs. sequenceE ms = Inr xs" by (metis sequenceE_map_Inr)
qed (auto simp: sequenceE_eq_Inr)

lemma jsonSafe_iff: "(\<exists>s. encodeCanonical v = Inr s) \<longleftrightarrow> jsonSafe v"
proof (induction v rule: encodeCanonical.induct)
  case (4 n)
  then show ?case by (auto simp: encodeNum_Inr split: jsnum.splits)
next
  case (5 xs)
  then show ?case using sequenceE_ex [of "map encodeCanonical xs"] by (auto simp: bindE_eq_Inr list_all_iff)
next
  case (6 kvs)
  have "(\<exists>s. encodeField (fst kv) (snd kv) (encodeCanonical (snd kv)) = Inr s) \<longleftrightarrow> jsonSafe (snd kv)"
    if "kv \<in> set kvs" for kv
    using "6.IH" [of kv] that by (auto simp: encodeField_def bindE_eq_Inr)
  then show ?case
    using sequenceE_ex [of "map (\<lambda>kv. encodeField (fst kv) (snd kv) (encodeCanonical (snd kv))) (sort_key fst kvs)"]
    by (auto simp: encodeCanonical_JObj bindE_eq_Inr list_all_iff)
qed simp_all

lemma canonicalBytes_total: "jsonSafe v \<Longrightarrow> \<exists>b. canonicalBytes v = Inr b"
  using jsonSafe_iff [of v] by (auto simp: canonicalBytes_def canonicalize_def)

section \<open>Properties\<close>

text \<open>
  C38: Canonical JSON identifies a value. If a value has canonical bytes, another value has the same bytes exactly if the two
  are equal up to the order in which the entries of their objects were inserted: no two different values that
  are hashed or signed can be confused.
\<close>

theorem canonicalBytes_injective:
  assumes "canonicalBytes v = Inr b"
  shows "canonicalBytes w = Inr b \<longleftrightarrow> normKeys v = normKeys w"
  by (rule canonicalBytes_eq_iff [OF assms])

theorem canonicalBytes_injective_witness:
  "canonicalBytes (JObj [(''b'', JNum (JInt 1)), (''a'', JStr ''x'')]) =
     Inr (utf8 ([CHR ''{'', CHR 0x22, CHR ''a'', CHR 0x22, CHR '':'', CHR 0x22, CHR ''x'', CHR 0x22, CHR '','',
       CHR 0x22, CHR ''b'', CHR 0x22, CHR '':'', CHR ''1'', CHR ''}'']))
   \<and> canonicalBytes (JObj [(''a'', JStr ''x''), (''b'', JNum (JInt 1))]) =
     canonicalBytes (JObj [(''b'', JNum (JInt 1)), (''a'', JStr ''x'')])"
proof -
  let ?b = "utf8 ([CHR ''{'', CHR 0x22, CHR ''a'', CHR 0x22, CHR '':'', CHR 0x22, CHR ''x'', CHR 0x22, CHR '','',
       CHR 0x22, CHR ''b'', CHR 0x22, CHR '':'', CHR ''1'', CHR ''}''])"
  have v: "canonicalBytes (JObj [(''b'', JNum (JInt 1)), (''a'', JStr ''x'')]) = Inr ?b"
    by code_simp
  moreover have "canonicalBytes (JObj [(''a'', JStr ''x''), (''b'', JNum (JInt 1))]) = Inr ?b"
    by (subst canonicalBytes_injective [OF v]) code_simp
  ultimately show ?thesis by simp
qed

text \<open>
  C39: The encoder throws exactly on what the protocol forbids in signed objects: it returns bytes if and only if the value holds, at
  every depth, only null, booleans, strings, safe integers, arrays and plain objects without undefined fields.
\<close>

theorem canonicalBytes_defined: "(\<exists>b. canonicalBytes v = Inr b) \<longleftrightarrow> jsonSafe v"
  using jsonSafe_iff [of v] by (auto simp: canonicalBytes_def canonicalize_def bindE_eq_Inr)

end
