(* ===== verification/Runtime.thy ===== *)
theory Runtime
  imports Canonicalize
begin

text \<open>
  What the TypeScript code gets from outside the repository. The record \<open>env\<close> holds the clock, the
  process environment and the third-party packages (\<^verbatim>\<open>@noble/hashes\<close>, \<^verbatim>\<open>@noble/curves\<close>, \<^verbatim>\<open>ajv\<close>) as
  functions: every definition that uses them takes an \<open>env\<close>. What a theorem needs of a package is a
  named hypothesis below, stating its documented behaviour.

  The JavaScript \<^verbatim>\<open>Date\<close> functions the sources use are modelled here as well. One call of a modelled
  function sees one value of the clock.
\<close>

section \<open>The environment\<close>

record env =
  now_ms :: int
  dateParseOther :: "string \<Rightarrow> int option"
  getenv :: "string \<Rightarrow> string option"
  randomBytes32 :: "nat \<Rightarrow> bytes"
  sha256 :: "bytes \<Rightarrow> bytes"
  nobleBytesToHex :: "bytes \<Rightarrow> string"
  nobleHexToBytes :: "string \<Rightarrow> bytes"
  edGetPublicKey :: "bytes \<Rightarrow> bytes res"
  edSign :: "bytes \<Rightarrow> bytes \<Rightarrow> bytes res"
  edVerify :: "bytes \<Rightarrow> bytes \<Rightarrow> bytes \<Rightarrow> bool res"
  ajvValidate :: "string \<Rightarrow> jsval \<Rightarrow> (string \<times> string option) list option"

text \<open>\<^verbatim>\<open>process.env.X === "true"\<close>\<close>

definition envFlag :: "env \<Rightarrow> string \<Rightarrow> bool" where
  "envFlag E name \<longleftrightarrow> getenv E name = Some ''true''"

definition onMainnet :: "env \<Rightarrow> bool" where
  "onMainnet E \<longleftrightarrow> getenv E ''TSL_NETWORK'' = Some ''mainnet''"

section \<open>Documented behaviour of the packages\<close>

definition isHexDigitLower :: "char \<Rightarrow> bool" where
  "isHexDigitLower c \<longleftrightarrow> isDigit c \<or> (97 \<le> (of_char c :: nat) \<and> (of_char c :: nat) \<le> 102)"

text \<open>\<^verbatim>\<open>bytesToHex\<close> writes two lower-case hexadecimal digits per byte and \<^verbatim>\<open>hexToBytes\<close> reads them back.\<close>

definition hex_codec :: "env \<Rightarrow> bool" where
  "hex_codec E \<longleftrightarrow>
     (\<forall>b. nobleHexToBytes E (nobleBytesToHex E b) = b \<and>
          length (nobleBytesToHex E b) = 2 * length b \<and>
          list_all isHexDigitLower (nobleBytesToHex E b))"

text \<open>SHA-256 digests have 32 bytes.\<close>

definition sha256_length :: "env \<Rightarrow> bool" where
  "sha256_length E \<longleftrightarrow> (\<forall>b. length (sha256 E b) = 32)"

text \<open>Ed25519: a signature made with a 32-byte seed verifies under the public key of that seed.\<close>

definition ed25519_correct :: "env \<Rightarrow> bool" where
  "ed25519_correct E \<longleftrightarrow>
     (\<forall>seed msg. length seed = 32 \<longrightarrow>
        (\<exists>pk sig. edGetPublicKey E seed = Inr pk \<and> edSign E msg seed = Inr sig \<and> edVerify E sig msg pk = Inr True))"

text \<open>A collision of SHA-256 between a preimage of one set and a preimage of another.\<close>

definition sha256_collision :: "env \<Rightarrow> bytes set \<Rightarrow> bytes set \<Rightarrow> bool" where
  "sha256_collision E A B \<longleftrightarrow> (\<exists>x \<in> A. \<exists>y \<in> B. x \<noteq> y \<and> sha256 E x = sha256 E y)"

section \<open>Dates\<close>

definition days_from_civil :: "int \<Rightarrow> int \<Rightarrow> int \<Rightarrow> int" where
  "days_from_civil y m d =
     (let y' = (if m \<le> 2 then y - 1 else y);
          yoe = y' mod 400;
          doy = (153 * (if m > 2 then m - 3 else m + 9) + 2) div 5 + d - 1;
          doe = yoe * 365 + yoe div 4 - yoe div 100 + doy
      in (y' div 400) * 146097 + doe - 719468)"

definition civil_from_days :: "int \<Rightarrow> int \<times> int \<times> int" where
  "civil_from_days n =
     (let z = n + 719468;
          doe = z mod 146097;
          yoe = (doe - doe div 1460 + doe div 36524 - doe div 146096) div 365;
          doy = doe - (365 * yoe + yoe div 4 - yoe div 100);
          mp = (5 * doy + 2) div 153;
          d = doy - (153 * mp + 2) div 5 + 1;
          m = (if mp < 10 then mp + 3 else mp - 9)
      in (yoe + (z div 146097) * 400 + (if m \<le> 2 then 1 else 0), m, d))"

definition isLeap :: "int \<Rightarrow> bool" where
  "isLeap y \<longleftrightarrow> 4 dvd y \<and> (\<not> 100 dvd y \<or> 400 dvd y)"

definition daysInMonth :: "int \<Rightarrow> int \<Rightarrow> int" where
  "daysInMonth y m =
     (if m = 2 then (if isLeap y then 29 else 28) else if m \<in> {4, 6, 9, 11} then 30 else 31)"

text \<open>
  \<^verbatim>\<open>Date.parse\<close> on the ECMAScript date-time format \<^verbatim>\<open>YYYY-MM-DDTHH:mm:ss\<close>, with an optional
  \<^verbatim>\<open>.sss\<close> and a zone \<^verbatim>\<open>Z\<close> or \<^verbatim>\<open>+HH:mm\<close> / \<^verbatim>\<open>-HH:mm\<close>, which is what the protocol's RFC 3339 timestamps
  look like. What an engine does with any other text is implementation-defined or depends on
  the local zone: there the environment's \<open>dateParseOther\<close> answers. \<open>None\<close> is NaN.
\<close>

definition num2 :: "string \<Rightarrow> int option" where
  "num2 s = (if length s = 2 \<and> list_all isDigit s then Some (int (nat_of_string s)) else None)"

definition parseZone :: "string \<Rightarrow> int option" where
  "parseZone s =
     (if s = ''Z'' then Some 0
      else if length s = 6 \<and> (s ! 0 = CHR ''+'' \<or> s ! 0 = CHR ''-'') \<and> s ! 3 = CHR '':'' then
        (case (num2 (take 2 (drop 1 s)), num2 (drop 4 s)) of
           (Some h, Some m) \<Rightarrow>
             (if h \<le> 23 \<and> m \<le> 59 then Some ((if s ! 0 = CHR ''-'' then -1 else 1) * (h * 60 + m)) else None)
         | _ \<Rightarrow> None)
      else None)"

definition parseMillisAndZone :: "string \<Rightarrow> (int \<times> int) option" where
  "parseMillisAndZone s =
     (if length s \<ge> 4 \<and> s ! 0 = CHR ''.'' \<and> list_all isDigit (take 3 (drop 1 s))
      then map_option (\<lambda>z. (int (nat_of_string (take 3 (drop 1 s))), z)) (parseZone (drop 4 s))
      else map_option (\<lambda>z. (0, z)) (parseZone s))"

definition parseIso :: "string \<Rightarrow> int option" where
  "parseIso s =
     (if length s \<ge> 20 \<and> list_all isDigit (take 4 s) \<and> s ! 4 = CHR ''-'' \<and> s ! 7 = CHR ''-''
         \<and> s ! 10 = CHR ''T'' \<and> s ! 13 = CHR '':'' \<and> s ! 16 = CHR '':''
      then (case (num2 (take 2 (drop 5 s)), num2 (take 2 (drop 8 s)), num2 (take 2 (drop 11 s)),
                  num2 (take 2 (drop 14 s)), num2 (take 2 (drop 17 s)), parseMillisAndZone (drop 19 s)) of
              (Some mo, Some d, Some h, Some mi, Some sec, Some (ms, off)) \<Rightarrow>
                (let y = int (nat_of_string (take 4 s)) in
                 if 1 \<le> mo \<and> mo \<le> 12 \<and> 1 \<le> d \<and> d \<le> daysInMonth y mo \<and> mi \<le> 59 \<and> sec \<le> 59
                    \<and> (h \<le> 23 \<or> h = 24 \<and> mi = 0 \<and> sec = 0 \<and> ms = 0)
                 then Some (days_from_civil y mo d * 86400000 + (h * 60 + mi - off) * 60000 + sec * 1000 + ms)
                 else None)
            | _ \<Rightarrow> None)
      else None)"

definition dateParse :: "env \<Rightarrow> string \<Rightarrow> int option" where
  "dateParse E s = (case parseIso s of Some t \<Rightarrow> Some t | None \<Rightarrow> dateParseOther E s)"

text \<open>\<^verbatim>\<open>new Date(t).toISOString()\<close>\<close>

definition pad :: "nat \<Rightarrow> int \<Rightarrow> string" where
  "pad w i = (let s = string_of_nat (nat i) in replicate (w - length s) (CHR ''0'') @ s)"

definition isoOf :: "int \<Rightarrow> string" where
  "isoOf t =
     (let (y, m, d) = civil_from_days (t div 86400000); r = t mod 86400000
      in (if 0 \<le> y \<and> y \<le> 9999 then pad 4 y else (if y < 0 then CHR ''-'' else CHR ''+'') # pad 6 \<bar>y\<bar>)
         @ ''-'' @ pad 2 m @ ''-'' @ pad 2 d @ ''T''
         @ pad 2 (r div 3600000) @ '':'' @ pad 2 (r div 60000 mod 60) @ '':'' @ pad 2 (r div 1000 mod 60)
         @ ''.'' @ pad 3 (r mod 1000) @ ''Z'')"

definition toISOString :: "int \<Rightarrow> string res" where
  "toISOString t = (if \<bar>t\<bar> \<le> 8640000000000000 then Inr (isoOf t) else Inl ''Invalid time value'')"

text \<open>Comparisons with NaN are false.\<close>

definition dateLe :: "int option \<Rightarrow> int option \<Rightarrow> bool" where
  "dateLe a b = (case (a, b) of (Some x, Some y) \<Rightarrow> x \<le> y | _ \<Rightarrow> False)"

definition dateLt :: "int option \<Rightarrow> int option \<Rightarrow> bool" where
  "dateLt a b = (case (a, b) of (Some x, Some y) \<Rightarrow> x < y | _ \<Rightarrow> False)"

lemma dateLe_Some [simp]: "dateLe a b \<longleftrightarrow> (\<exists>x y. a = Some x \<and> b = Some y \<and> x \<le> y)"
  by (auto simp: dateLe_def split: option.splits)

lemma dateLt_Some [simp]: "dateLt a b \<longleftrightarrow> (\<exists>x y. a = Some x \<and> b = Some y \<and> x < y)"
  by (auto simp: dateLt_def split: option.splits)

section \<open>Schema validation (\<^verbatim>\<open>validation.ts\<close>)\<close>

text \<open>
  \<^verbatim>\<open>ajvValidate E name value\<close> is the compiled validator of the schema \<^verbatim>\<open>name\<close>: \<open>None\<close> for a valid value,
  else the path and message of every violation.
\<close>

record SchemaValidationResult =
  sv_valid :: bool
  sv_errors :: "string list"

definition validateSchema :: "env \<Rightarrow> string \<Rightarrow> jsval \<Rightarrow> SchemaValidationResult" where
  "validateSchema E name value =
     (case ajvValidate E name value of
        None \<Rightarrow> \<lparr>sv_valid = True, sv_errors = []\<rparr>
      | Some errs \<Rightarrow> \<lparr>sv_valid = False,
          sv_errors = map (\<lambda>(path, message).
             (if path = [] then ''/'' else path) @ '' '' @ orElse message ''failed validation'') errs\<rparr>)"

lemma validateSchema_valid_errors: "sv_valid (validateSchema E n v) \<Longrightarrow> sv_errors (validateSchema E n v) = []"
  by (auto simp: validateSchema_def split: option.splits)

end
