(* ===== verification/Types.thy ===== *)
theory Types
  imports Runtime
begin

text \<open>
  The wire objects of the protocol (\<^verbatim>\<open>src/packages/core-ts/src/types.ts\<close>): one record per interface, with
  the interface's fields in its order, and the JavaScript object (\<open>..._obj\<close>) that a value of the
  interface is. An interface that extends another extends its record. An optional property is an \<open>option\<close>:
  absent properties have no entry in the object. The string-literal unions of the wire format are strings, since the objects
  arrive as JSON and may hold any string until their schema was checked.
\<close>

definition optField :: "string \<Rightarrow> ('a \<Rightarrow> jsval) \<Rightarrow> 'a option \<Rightarrow> jsobj" where
  "optField k f v = (case v of None \<Rightarrow> [] | Some y \<Rightarrow> [(k, f y)])"

lemma optField_simps [simp]: "optField k f None = []" "optField k f (Some y) = [(k, f y)]"
  by (simp_all add: optField_def)

text \<open>A property that is written out with a value that may be \<^verbatim>\<open>undefined\<close>.\<close>

definition undefStr :: "string option \<Rightarrow> jsval" where
  "undefStr v = (case v of None \<Rightarrow> JUndefined | Some s \<Rightarrow> JStr s)"

definition undefInt :: "int option \<Rightarrow> jsval" where
  "undefInt v = (case v of None \<Rightarrow> JUndefined | Some i \<Rightarrow> JNum (JInt i))"

definition intArr :: "int list \<Rightarrow> jsval" where
  "intArr xs = JArr (map (\<lambda>i. JNum (JInt i)) xs)"

record VerificationMethodV1 = 
  vm_id :: "string"
  vm_type :: "string"
  vm_public_key :: "string"
  vm_status :: "string"
  vm_created_at :: "string"
  vm_expires_at :: "string option"
  vm_revoked_at :: "string option"

definition VerificationMethodV1_obj :: "VerificationMethodV1 \<Rightarrow> jsobj" where
  "VerificationMethodV1_obj x =
     [(''id'', JStr (vm_id x))]
     @ [(''type'', JStr (vm_type x))]
     @ [(''public_key'', JStr (vm_public_key x))]
     @ [(''status'', JStr (vm_status x))]
     @ [(''created_at'', JStr (vm_created_at x))]
     @ optField ''expires_at'' (\<lambda>v. JStr v) (vm_expires_at x)
     @ optField ''revoked_at'' (\<lambda>v. JStr v) (vm_revoked_at x)"

record IdentityDocumentV1 = 
  idd_type :: "string"
  idd_id :: "string"
  idd_controller :: "string"
  idd_created_at :: "string"
  idd_verification_methods :: "VerificationMethodV1 list"
  idd_recovery :: "jsval option"
  idd_privacy_policy_commitment :: "string option"

definition IdentityDocumentV1_obj :: "IdentityDocumentV1 \<Rightarrow> jsobj" where
  "IdentityDocumentV1_obj x =
     [(''type'', JStr (idd_type x))]
     @ [(''id'', JStr (idd_id x))]
     @ [(''controller'', JStr (idd_controller x))]
     @ [(''created_at'', JStr (idd_created_at x))]
     @ [(''verification_methods'', JArr (map (\<lambda>y. JObj (VerificationMethodV1_obj y)) (idd_verification_methods x)))]
     @ optField ''recovery'' (\<lambda>v. v) (idd_recovery x)
     @ optField ''privacy_policy_commitment'' (\<lambda>v. JStr v) (idd_privacy_policy_commitment x)"

record EventCommitmentUnsignedV1 = 
  ev_type :: "string"
  ev_event_class :: "string"
  ev_sender :: "string"
  ev_signing_key_id :: "string"
  ev_receiver_commitment :: "string option"
  ev_content_commitment :: "string"
  ev_metadata_commitment :: "string option"
  ev_previous_event_commitment :: "string option"
  ev_timestamp :: "string"
  ev_nonce :: "string"
  ev_disclosure_policy :: "string"

definition EventCommitmentUnsignedV1_obj :: "'a EventCommitmentUnsignedV1_scheme \<Rightarrow> jsobj" where
  "EventCommitmentUnsignedV1_obj x =
     [(''type'', JStr (ev_type x))]
     @ [(''event_class'', JStr (ev_event_class x))]
     @ [(''sender'', JStr (ev_sender x))]
     @ [(''signing_key_id'', JStr (ev_signing_key_id x))]
     @ optField ''receiver_commitment'' (\<lambda>v. JStr v) (ev_receiver_commitment x)
     @ [(''content_commitment'', JStr (ev_content_commitment x))]
     @ optField ''metadata_commitment'' (\<lambda>v. JStr v) (ev_metadata_commitment x)
     @ optField ''previous_event_commitment'' (\<lambda>v. JStr v) (ev_previous_event_commitment x)
     @ [(''timestamp'', JStr (ev_timestamp x))]
     @ [(''nonce'', JStr (ev_nonce x))]
     @ [(''disclosure_policy'', JStr (ev_disclosure_policy x))]"

record EventCommitmentV1 = EventCommitmentUnsignedV1 +
  ev_signature :: "string"

definition EventCommitmentV1_obj :: "EventCommitmentV1 \<Rightarrow> jsobj" where
  "EventCommitmentV1_obj x =
     EventCommitmentUnsignedV1_obj x
     @ [(''signature'', JStr (ev_signature x))]"

record ReceiptCommitmentUnsignedV1 = 
  rc_type :: "string"
  rc_event_commitment :: "string"
  rc_receiver :: "string"
  rc_signing_key_id :: "string"
  rc_receipt_class :: "string"
  rc_timestamp :: "string"
  rc_metadata_commitment :: "string option"

definition ReceiptCommitmentUnsignedV1_obj :: "'a ReceiptCommitmentUnsignedV1_scheme \<Rightarrow> jsobj" where
  "ReceiptCommitmentUnsignedV1_obj x =
     [(''type'', JStr (rc_type x))]
     @ [(''event_commitment'', JStr (rc_event_commitment x))]
     @ [(''receiver'', JStr (rc_receiver x))]
     @ [(''signing_key_id'', JStr (rc_signing_key_id x))]
     @ [(''receipt_class'', JStr (rc_receipt_class x))]
     @ [(''timestamp'', JStr (rc_timestamp x))]
     @ optField ''metadata_commitment'' (\<lambda>v. JStr v) (rc_metadata_commitment x)"

record ReceiptCommitmentV1 = ReceiptCommitmentUnsignedV1 +
  rc_signature :: "string"

definition ReceiptCommitmentV1_obj :: "ReceiptCommitmentV1 \<Rightarrow> jsobj" where
  "ReceiptCommitmentV1_obj x =
     ReceiptCommitmentUnsignedV1_obj x
     @ [(''signature'', JStr (rc_signature x))]"

record ReceiptDisputeMetadataV1 = 
  rd_evidence_commitment :: "string"
  rd_appeal_uri :: "string option"
  rd_appeal_status :: "string option"
  rd_reversal_status :: "string option"
  rd_severity :: "string option"

definition ReceiptDisputeMetadataV1_obj :: "ReceiptDisputeMetadataV1 \<Rightarrow> jsobj" where
  "ReceiptDisputeMetadataV1_obj x =
     [(''evidence_commitment'', JStr (rd_evidence_commitment x))]
     @ optField ''appeal_uri'' (\<lambda>v. JStr v) (rd_appeal_uri x)
     @ optField ''appeal_status'' (\<lambda>v. JStr v) (rd_appeal_status x)
     @ optField ''reversal_status'' (\<lambda>v. JStr v) (rd_reversal_status x)
     @ optField ''severity'' (\<lambda>v. JStr v) (rd_severity x)"

record AttestationUnsignedV1 = 
  att_type :: "string"
  att_issuer :: "string"
  att_subject :: "string"
  att_attestation_class :: "string"
  att_claim_commitment :: "string"
  att_visibility :: "string"
  att_issued_at :: "string"
  att_expires_at :: "string option"

definition AttestationUnsignedV1_obj :: "'a AttestationUnsignedV1_scheme \<Rightarrow> jsobj" where
  "AttestationUnsignedV1_obj x =
     [(''type'', JStr (att_type x))]
     @ [(''issuer'', JStr (att_issuer x))]
     @ [(''subject'', JStr (att_subject x))]
     @ [(''attestation_class'', JStr (att_attestation_class x))]
     @ [(''claim_commitment'', JStr (att_claim_commitment x))]
     @ [(''visibility'', JStr (att_visibility x))]
     @ [(''issued_at'', JStr (att_issued_at x))]
     @ optField ''expires_at'' (\<lambda>v. JStr v) (att_expires_at x)"

record AttestationV1 = AttestationUnsignedV1 +
  att_signature :: "string"

definition AttestationV1_obj :: "AttestationV1 \<Rightarrow> jsobj" where
  "AttestationV1_obj x =
     AttestationUnsignedV1_obj x
     @ [(''signature'', JStr (att_signature x))]"

record RevocationUnsignedV1 = 
  rev_type :: "string"
  rev_trust_id :: "string"
  rev_revoked_key :: "string"
  rev_replacement_key :: "string option"
  rev_reason_class :: "string"
  rev_effective_at :: "string"

definition RevocationUnsignedV1_obj :: "'a RevocationUnsignedV1_scheme \<Rightarrow> jsobj" where
  "RevocationUnsignedV1_obj x =
     [(''type'', JStr (rev_type x))]
     @ [(''trust_id'', JStr (rev_trust_id x))]
     @ [(''revoked_key'', JStr (rev_revoked_key x))]
     @ optField ''replacement_key'' (\<lambda>v. JStr v) (rev_replacement_key x)
     @ [(''reason_class'', JStr (rev_reason_class x))]
     @ [(''effective_at'', JStr (rev_effective_at x))]"

record RevocationV1 = RevocationUnsignedV1 +
  rev_signature :: "string"

definition RevocationV1_obj :: "RevocationV1 \<Rightarrow> jsobj" where
  "RevocationV1_obj x =
     RevocationUnsignedV1_obj x
     @ [(''signature'', JStr (rev_signature x))]"

record KeyRotationV1 = 
  kr_type :: "string"
  kr_trust_id :: "string"
  kr_old_key :: "string"
  kr_new_key :: "string"
  kr_effective_at :: "string"
  kr_signature :: "string"

definition KeyRotationV1_obj :: "KeyRotationV1 \<Rightarrow> jsobj" where
  "KeyRotationV1_obj x =
     [(''type'', JStr (kr_type x))]
     @ [(''trust_id'', JStr (kr_trust_id x))]
     @ [(''old_key'', JStr (kr_old_key x))]
     @ [(''new_key'', JStr (kr_new_key x))]
     @ [(''effective_at'', JStr (kr_effective_at x))]
     @ [(''signature'', JStr (kr_signature x))]"

record InclusionProofStep = 
  ips_side :: "string"
  ips_hash :: "string"

definition InclusionProofStep_obj :: "InclusionProofStep \<Rightarrow> jsobj" where
  "InclusionProofStep_obj x =
     [(''side'', JStr (ips_side x))]
     @ [(''hash'', JStr (ips_hash x))]"

record InclusionProofV1 = 
  ip_type :: "string"
  ip_tree_kind :: "string"
  ip_commitment :: "string"
  ip_leaf_index :: "int"
  ip_leaf_hash :: "string"
  ip_root :: "string"
  ip_epoch_start_ms :: "int"
  ip_epoch_duration_ms :: "int"
  ip_shard :: "string"
  ip_path :: "InclusionProofStep list"
  ip_checkpoint_hash :: "string"

definition InclusionProofV1_obj :: "InclusionProofV1 \<Rightarrow> jsobj" where
  "InclusionProofV1_obj x =
     [(''type'', JStr (ip_type x))]
     @ [(''tree_kind'', JStr (ip_tree_kind x))]
     @ [(''commitment'', JStr (ip_commitment x))]
     @ [(''leaf_index'', JNum (JInt (ip_leaf_index x)))]
     @ [(''leaf_hash'', JStr (ip_leaf_hash x))]
     @ [(''root'', JStr (ip_root x))]
     @ [(''epoch_start_ms'', JNum (JInt (ip_epoch_start_ms x)))]
     @ [(''epoch_duration_ms'', JNum (JInt (ip_epoch_duration_ms x)))]
     @ [(''shard'', JStr (ip_shard x))]
     @ [(''path'', JArr (map (\<lambda>y. JObj (InclusionProofStep_obj y)) (ip_path x)))]
     @ [(''checkpoint_hash'', JStr (ip_checkpoint_hash x))]"

record ConsistencyLink = 
  cl_checkpoint_hash :: "string"
  cl_previous_checkpoint :: "string"
  cl_epoch_start_ms :: "int"

definition ConsistencyLink_obj :: "ConsistencyLink \<Rightarrow> jsobj" where
  "ConsistencyLink_obj x =
     [(''checkpoint_hash'', JStr (cl_checkpoint_hash x))]
     @ [(''previous_checkpoint'', JStr (cl_previous_checkpoint x))]
     @ [(''epoch_start_ms'', JNum (JInt (cl_epoch_start_ms x)))]"

record ConsistencyProofV1 = 
  cp_type :: "string"
  cp_shard :: "string"
  cp_from_checkpoint :: "string"
  cp_to_checkpoint :: "string"
  cp_chain :: "ConsistencyLink list"
  cp_auditor :: "string option"
  cp_signature :: "string option"

definition ConsistencyProofV1_obj :: "ConsistencyProofV1 \<Rightarrow> jsobj" where
  "ConsistencyProofV1_obj x =
     [(''type'', JStr (cp_type x))]
     @ [(''shard'', JStr (cp_shard x))]
     @ [(''from_checkpoint'', JStr (cp_from_checkpoint x))]
     @ [(''to_checkpoint'', JStr (cp_to_checkpoint x))]
     @ [(''chain'', JArr (map (\<lambda>y. JObj (ConsistencyLink_obj y)) (cp_chain x)))]
     @ optField ''auditor'' (\<lambda>v. JStr v) (cp_auditor x)
     @ optField ''signature'' (\<lambda>v. JStr v) (cp_signature x)"

record BatchCheckpointV1 = 
  bc_type :: "string"
  bc_epoch_start_ms :: "int"
  bc_epoch_duration_ms :: "int"
  bc_shard :: "string"
  bc_event_root :: "string"
  bc_receipt_root :: "string"
  bc_attestation_root :: "string"
  bc_revocation_root :: "string"
  bc_event_count :: "int"
  bc_receipt_count :: "int"
  bc_previous_checkpoint :: "string"
  bc_checkpoint_identity_hash :: "string option"
  bc_settlement_backend :: "string option"
  bc_settlement_tx :: "string option"
  bc_relay_id :: "string"
  bc_relay_signature :: "string"

definition BatchCheckpointV1_obj :: "BatchCheckpointV1 \<Rightarrow> jsobj" where
  "BatchCheckpointV1_obj x =
     [(''type'', JStr (bc_type x))]
     @ [(''epoch_start_ms'', JNum (JInt (bc_epoch_start_ms x)))]
     @ [(''epoch_duration_ms'', JNum (JInt (bc_epoch_duration_ms x)))]
     @ [(''shard'', JStr (bc_shard x))]
     @ [(''event_root'', JStr (bc_event_root x))]
     @ [(''receipt_root'', JStr (bc_receipt_root x))]
     @ [(''attestation_root'', JStr (bc_attestation_root x))]
     @ [(''revocation_root'', JStr (bc_revocation_root x))]
     @ [(''event_count'', JNum (JInt (bc_event_count x)))]
     @ [(''receipt_count'', JNum (JInt (bc_receipt_count x)))]
     @ [(''previous_checkpoint'', JStr (bc_previous_checkpoint x))]
     @ optField ''checkpoint_identity_hash'' (\<lambda>v. JStr v) (bc_checkpoint_identity_hash x)
     @ optField ''settlement_backend'' (\<lambda>v. JStr v) (bc_settlement_backend x)
     @ optField ''settlement_tx'' (\<lambda>v. JStr v) (bc_settlement_tx x)
     @ [(''relay_id'', JStr (bc_relay_id x))]
     @ [(''relay_signature'', JStr (bc_relay_signature x))]"

record FinalityProof = 
  fp_type :: "string"
  fp_finalized_block_hash :: "string option"
  fp_confirmations :: "int option"
  fp_source_commitment :: "string"

definition FinalityProof_obj :: "FinalityProof \<Rightarrow> jsobj" where
  "FinalityProof_obj x =
     [(''type'', JStr (fp_type x))]
     @ optField ''finalized_block_hash'' (\<lambda>v. JStr v) (fp_finalized_block_hash x)
     @ optField ''confirmations'' (\<lambda>v. JNum (JInt v)) (fp_confirmations x)
     @ [(''source_commitment'', JStr (fp_source_commitment x))]"

record SettlementEvidenceV1 = 
  se_type :: "string"
  se_checkpoint_hash :: "string"
  se_checkpoint_identity_hash :: "string"
  se_settlement_backend :: "string"
  se_chain_id :: "int"
  se_contract_address :: "string"
  se_contract_checkpoint_hash :: "string option"
  se_contract_checkpoint_fields_hash :: "string"
  se_settlement_tx :: "string"
  se_evidence_kind :: "string"
  se_block_header_rlp :: "string option"
  se_receipt_rlp :: "string option"
  se_receipt_proof_nodes :: "string list option"
  se_finality_proof :: "FinalityProof option"
  se_transaction_receipt_hash :: "string option"
  se_block_hash :: "string option"
  se_block_number :: "int option"
  se_receipt_root :: "string option"
  se_transaction_index :: "int option"
  se_receipt_status :: "string option"
  se_chain_proof_commitment :: "string option"
  se_settlement_event_hash :: "string option"
  se_settlement_event_index :: "int option"
  se_event_topic_hash :: "string option"
  se_event_topics :: "string list option"
  se_event_data :: "string option"
  se_log_index :: "int option"
  se_receipt_proof_source_commitment :: "string option"
  se_finality_source_commitment :: "string option"
  se_submitter :: "string"
  se_submitted_at :: "string"
  se_status :: "string"

definition SettlementEvidenceV1_obj :: "SettlementEvidenceV1 \<Rightarrow> jsobj" where
  "SettlementEvidenceV1_obj x =
     [(''type'', JStr (se_type x))]
     @ [(''checkpoint_hash'', JStr (se_checkpoint_hash x))]
     @ [(''checkpoint_identity_hash'', JStr (se_checkpoint_identity_hash x))]
     @ [(''settlement_backend'', JStr (se_settlement_backend x))]
     @ [(''chain_id'', JNum (JInt (se_chain_id x)))]
     @ [(''contract_address'', JStr (se_contract_address x))]
     @ optField ''contract_checkpoint_hash'' (\<lambda>v. JStr v) (se_contract_checkpoint_hash x)
     @ [(''contract_checkpoint_fields_hash'', JStr (se_contract_checkpoint_fields_hash x))]
     @ [(''settlement_tx'', JStr (se_settlement_tx x))]
     @ [(''evidence_kind'', JStr (se_evidence_kind x))]
     @ optField ''block_header_rlp'' (\<lambda>v. JStr v) (se_block_header_rlp x)
     @ optField ''receipt_rlp'' (\<lambda>v. JStr v) (se_receipt_rlp x)
     @ optField ''receipt_proof_nodes'' (\<lambda>v. JArr (map JStr v)) (se_receipt_proof_nodes x)
     @ optField ''finality_proof'' (\<lambda>v. JObj (FinalityProof_obj v)) (se_finality_proof x)
     @ optField ''transaction_receipt_hash'' (\<lambda>v. JStr v) (se_transaction_receipt_hash x)
     @ optField ''block_hash'' (\<lambda>v. JStr v) (se_block_hash x)
     @ optField ''block_number'' (\<lambda>v. JNum (JInt v)) (se_block_number x)
     @ optField ''receipt_root'' (\<lambda>v. JStr v) (se_receipt_root x)
     @ optField ''transaction_index'' (\<lambda>v. JNum (JInt v)) (se_transaction_index x)
     @ optField ''receipt_status'' (\<lambda>v. JStr v) (se_receipt_status x)
     @ optField ''chain_proof_commitment'' (\<lambda>v. JStr v) (se_chain_proof_commitment x)
     @ optField ''settlement_event_hash'' (\<lambda>v. JStr v) (se_settlement_event_hash x)
     @ optField ''settlement_event_index'' (\<lambda>v. JNum (JInt v)) (se_settlement_event_index x)
     @ optField ''event_topic_hash'' (\<lambda>v. JStr v) (se_event_topic_hash x)
     @ optField ''event_topics'' (\<lambda>v. JArr (map JStr v)) (se_event_topics x)
     @ optField ''event_data'' (\<lambda>v. JStr v) (se_event_data x)
     @ optField ''log_index'' (\<lambda>v. JNum (JInt v)) (se_log_index x)
     @ optField ''receipt_proof_source_commitment'' (\<lambda>v. JStr v) (se_receipt_proof_source_commitment x)
     @ optField ''finality_source_commitment'' (\<lambda>v. JStr v) (se_finality_source_commitment x)
     @ [(''submitter'', JStr (se_submitter x))]
     @ [(''submitted_at'', JStr (se_submitted_at x))]
     @ [(''status'', JStr (se_status x))]"

record TrustAssessmentUnsignedV1 = 
  ta_type :: "string"
  ta_subject :: "string"
  ta_issuer :: "string"
  ta_score_bps :: "int"
  ta_label :: "string"
  ta_model_version :: "string"
  ta_evidence_commitment :: "string"
  ta_features_disclosed :: "string list option"
  ta_explanation :: "string list option"
  ta_issued_at :: "string"
  ta_expires_at :: "string"

definition TrustAssessmentUnsignedV1_obj :: "'a TrustAssessmentUnsignedV1_scheme \<Rightarrow> jsobj" where
  "TrustAssessmentUnsignedV1_obj x =
     [(''type'', JStr (ta_type x))]
     @ [(''subject'', JStr (ta_subject x))]
     @ [(''issuer'', JStr (ta_issuer x))]
     @ [(''score_bps'', JNum (JInt (ta_score_bps x)))]
     @ [(''label'', JStr (ta_label x))]
     @ [(''model_version'', JStr (ta_model_version x))]
     @ [(''evidence_commitment'', JStr (ta_evidence_commitment x))]
     @ optField ''features_disclosed'' (\<lambda>v. JArr (map JStr v)) (ta_features_disclosed x)
     @ optField ''explanation'' (\<lambda>v. JArr (map JStr v)) (ta_explanation x)
     @ [(''issued_at'', JStr (ta_issued_at x))]
     @ [(''expires_at'', JStr (ta_expires_at x))]"

record TrustAssessmentV1 = TrustAssessmentUnsignedV1 +
  ta_signature :: "string"

definition TrustAssessmentV1_obj :: "TrustAssessmentV1 \<Rightarrow> jsobj" where
  "TrustAssessmentV1_obj x =
     TrustAssessmentUnsignedV1_obj x
     @ [(''signature'', JStr (ta_signature x))]"

record ScoringProfileV2 = 
  sp_type :: "string"
  sp_profile_id :: "string"
  sp_provider :: "string"
  sp_domain :: "string"
  sp_model_family :: "string"
  sp_model_version :: "string"
  sp_feature_registry_uri :: "string option"
  sp_feature_registry_commitment :: "string"
  sp_normalization_profile_commitment :: "string"
  sp_weight_profile_commitment :: "string"
  sp_calibration_profile_commitment :: "string"
  sp_threshold_policy_commitment :: "string"
  sp_privacy_policy_commitment :: "string"
  sp_evaluation_report_commitment :: "string"
  sp_appeal_policy_uri :: "string option"
  sp_issued_at :: "string"
  sp_valid_after :: "string"
  sp_expires_at :: "string"
  sp_signature :: "string"

definition ScoringProfileV2_obj :: "ScoringProfileV2 \<Rightarrow> jsobj" where
  "ScoringProfileV2_obj x =
     [(''type'', JStr (sp_type x))]
     @ [(''profile_id'', JStr (sp_profile_id x))]
     @ [(''provider'', JStr (sp_provider x))]
     @ [(''domain'', JStr (sp_domain x))]
     @ [(''model_family'', JStr (sp_model_family x))]
     @ [(''model_version'', JStr (sp_model_version x))]
     @ optField ''feature_registry_uri'' (\<lambda>v. JStr v) (sp_feature_registry_uri x)
     @ [(''feature_registry_commitment'', JStr (sp_feature_registry_commitment x))]
     @ [(''normalization_profile_commitment'', JStr (sp_normalization_profile_commitment x))]
     @ [(''weight_profile_commitment'', JStr (sp_weight_profile_commitment x))]
     @ [(''calibration_profile_commitment'', JStr (sp_calibration_profile_commitment x))]
     @ [(''threshold_policy_commitment'', JStr (sp_threshold_policy_commitment x))]
     @ [(''privacy_policy_commitment'', JStr (sp_privacy_policy_commitment x))]
     @ [(''evaluation_report_commitment'', JStr (sp_evaluation_report_commitment x))]
     @ optField ''appeal_policy_uri'' (\<lambda>v. JStr v) (sp_appeal_policy_uri x)
     @ [(''issued_at'', JStr (sp_issued_at x))]
     @ [(''valid_after'', JStr (sp_valid_after x))]
     @ [(''expires_at'', JStr (sp_expires_at x))]
     @ [(''signature'', JStr (sp_signature x))]"

record FeatureRange = 
  fr_min :: "int"
  fr_max :: "int"

definition FeatureRange_obj :: "FeatureRange \<Rightarrow> jsobj" where
  "FeatureRange_obj x =
     [(''min'', JNum (JInt (fr_min x)))]
     @ [(''max'', JNum (JInt (fr_max x)))]"

record FeatureDefinitionV2 = 
  fd_type :: "string"
  fd_feature_id :: "string"
  fd_name :: "string"
  fd_family :: "string"
  fd_value_type :: "string"
  fd_unit :: "string"
  fd_range :: "FeatureRange"
  fd_normalization_method :: "string"
  fd_privacy_class :: "string"
  fd_spoofing_cost_class :: "string"
  fd_missing_value_policy :: "string"
  fd_attack_notes :: "string list"

definition FeatureDefinitionV2_obj :: "FeatureDefinitionV2 \<Rightarrow> jsobj" where
  "FeatureDefinitionV2_obj x =
     [(''type'', JStr (fd_type x))]
     @ [(''feature_id'', JStr (fd_feature_id x))]
     @ [(''name'', JStr (fd_name x))]
     @ [(''family'', JStr (fd_family x))]
     @ [(''value_type'', JStr (fd_value_type x))]
     @ [(''unit'', JStr (fd_unit x))]
     @ [(''range'', JObj (FeatureRange_obj (fd_range x)))]
     @ [(''normalization_method'', JStr (fd_normalization_method x))]
     @ [(''privacy_class'', JStr (fd_privacy_class x))]
     @ [(''spoofing_cost_class'', JStr (fd_spoofing_cost_class x))]
     @ [(''missing_value_policy'', JStr (fd_missing_value_policy x))]
     @ [(''attack_notes'', JArr (map JStr (fd_attack_notes x)))]"

record ThresholdPolicy = 
  th_trusted_bps :: "int"
  th_likely_trusted_bps :: "int"
  th_medium_bps :: "int"
  th_suspicious_bps :: "int"
  th_high_risk_bps :: "int"

definition ThresholdPolicy_obj :: "ThresholdPolicy \<Rightarrow> jsobj" where
  "ThresholdPolicy_obj x =
     [(''trusted_bps'', JNum (JInt (th_trusted_bps x)))]
     @ [(''likely_trusted_bps'', JNum (JInt (th_likely_trusted_bps x)))]
     @ [(''medium_bps'', JNum (JInt (th_medium_bps x)))]
     @ [(''suspicious_bps'', JNum (JInt (th_suspicious_bps x)))]
     @ [(''high_risk_bps'', JNum (JInt (th_high_risk_bps x)))]"

record DomainPolicyV1 = 
  dp_type :: "string"
  dp_domain :: "string"
  dp_policy_version :: "string"
  dp_requires_settlement :: "bool"
  dp_requires_delegation_check :: "bool option"
  dp_requires_content_opening :: "bool option"
  dp_min_coverage_bps :: "int"
  dp_max_assessment_age_seconds :: "int"
  dp_false_positive_cost_class :: "string"
  dp_false_negative_cost_class :: "string"
  dp_sparse_identity_default :: "string"
  dp_thresholds :: "ThresholdPolicy"

definition DomainPolicyV1_obj :: "DomainPolicyV1 \<Rightarrow> jsobj" where
  "DomainPolicyV1_obj x =
     [(''type'', JStr (dp_type x))]
     @ [(''domain'', JStr (dp_domain x))]
     @ [(''policy_version'', JStr (dp_policy_version x))]
     @ [(''requires_settlement'', JBool (dp_requires_settlement x))]
     @ optField ''requires_delegation_check'' (\<lambda>v. JBool v) (dp_requires_delegation_check x)
     @ optField ''requires_content_opening'' (\<lambda>v. JBool v) (dp_requires_content_opening x)
     @ [(''min_coverage_bps'', JNum (JInt (dp_min_coverage_bps x)))]
     @ [(''max_assessment_age_seconds'', JNum (JInt (dp_max_assessment_age_seconds x)))]
     @ [(''false_positive_cost_class'', JStr (dp_false_positive_cost_class x))]
     @ [(''false_negative_cost_class'', JStr (dp_false_negative_cost_class x))]
     @ [(''sparse_identity_default'', JStr (dp_sparse_identity_default x))]
     @ [(''thresholds'', JObj (ThresholdPolicy_obj (dp_thresholds x)))]"

record EvidenceCoverageV1 = 
  ec_type :: "string"
  ec_subject :: "string"
  ec_computed_at :: "string"
  ec_valid_signed_event_count :: "int"
  ec_valid_receipt_count :: "int"
  ec_unique_counterparty_count :: "int"
  ec_distinct_community_count :: "int"
  ec_attestation_count :: "int"
  ec_recent_revocation_count :: "int"
  ec_coverage_bps :: "int"
  ec_coverage_label :: "string"
  ec_missing_evidence :: "string list"
  ec_evidence_commitment :: "string option"

definition EvidenceCoverageV1_obj :: "EvidenceCoverageV1 \<Rightarrow> jsobj" where
  "EvidenceCoverageV1_obj x =
     [(''type'', JStr (ec_type x))]
     @ [(''subject'', JStr (ec_subject x))]
     @ [(''computed_at'', JStr (ec_computed_at x))]
     @ [(''valid_signed_event_count'', JNum (JInt (ec_valid_signed_event_count x)))]
     @ [(''valid_receipt_count'', JNum (JInt (ec_valid_receipt_count x)))]
     @ [(''unique_counterparty_count'', JNum (JInt (ec_unique_counterparty_count x)))]
     @ [(''distinct_community_count'', JNum (JInt (ec_distinct_community_count x)))]
     @ [(''attestation_count'', JNum (JInt (ec_attestation_count x)))]
     @ [(''recent_revocation_count'', JNum (JInt (ec_recent_revocation_count x)))]
     @ [(''coverage_bps'', JNum (JInt (ec_coverage_bps x)))]
     @ [(''coverage_label'', JStr (ec_coverage_label x))]
     @ [(''missing_evidence'', JArr (map JStr (ec_missing_evidence x)))]
     @ optField ''evidence_commitment'' (\<lambda>v. JStr v) (ec_evidence_commitment x)"

record GateResult = 
  gr_schema_valid :: "bool"
  gr_canonicalization_valid :: "bool option"
  gr_signature_valid :: "bool"
  gr_key_active :: "bool"
  gr_not_revoked :: "bool"
  gr_included_in_log :: "bool option"
  gr_checkpoint_valid :: "bool option"
  gr_settlement_satisfied :: "bool option"
  gr_delegation_valid :: "bool option"

definition GateResult_obj :: "GateResult \<Rightarrow> jsobj" where
  "GateResult_obj x =
     [(''schema_valid'', JBool (gr_schema_valid x))]
     @ optField ''canonicalization_valid'' (\<lambda>v. JBool v) (gr_canonicalization_valid x)
     @ [(''signature_valid'', JBool (gr_signature_valid x))]
     @ [(''key_active'', JBool (gr_key_active x))]
     @ [(''not_revoked'', JBool (gr_not_revoked x))]
     @ optField ''included_in_log'' (\<lambda>v. JBool v) (gr_included_in_log x)
     @ optField ''checkpoint_valid'' (\<lambda>v. JBool v) (gr_checkpoint_valid x)
     @ optField ''settlement_satisfied'' (\<lambda>v. JBool v) (gr_settlement_satisfied x)
     @ optField ''delegation_valid'' (\<lambda>v. JBool v) (gr_delegation_valid x)"

record TrustAssessmentUnsignedV2 = 
  ta2_type :: "string"
  ta2_assessment_id :: "string"
  ta2_subject :: "string"
  ta2_issuer :: "string"
  ta2_domain :: "string"
  ta2_scoring_profile_id :: "string"
  ta2_model_version :: "string"
  ta2_gate_result :: "GateResult"
  ta2_score_bps :: "int option"
  ta2_confidence_interval_bps :: "(int \<times> int) option"
  ta2_coverage_bps :: "int"
  ta2_label :: "string"
  ta2_reason_codes :: "string list"
  ta2_risk_codes :: "string list"
  ta2_evidence_commitment :: "string option"
  ta2_feature_vector_commitment :: "string option"
  ta2_evidence_coverage_commitment :: "string option"
  ta2_privacy_disclosure_level :: "string option"
  ta2_appeal_uri :: "string option"
  ta2_issued_at :: "string"
  ta2_expires_at :: "string"

definition TrustAssessmentUnsignedV2_obj :: "'a TrustAssessmentUnsignedV2_scheme \<Rightarrow> jsobj" where
  "TrustAssessmentUnsignedV2_obj x =
     [(''type'', JStr (ta2_type x))]
     @ [(''assessment_id'', JStr (ta2_assessment_id x))]
     @ [(''subject'', JStr (ta2_subject x))]
     @ [(''issuer'', JStr (ta2_issuer x))]
     @ [(''domain'', JStr (ta2_domain x))]
     @ [(''scoring_profile_id'', JStr (ta2_scoring_profile_id x))]
     @ [(''model_version'', JStr (ta2_model_version x))]
     @ [(''gate_result'', JObj (GateResult_obj (ta2_gate_result x)))]
     @ optField ''score_bps'' (\<lambda>v. JNum (JInt v)) (ta2_score_bps x)
     @ optField ''confidence_interval_bps'' (\<lambda>v. JArr [JNum (JInt (fst v)), JNum (JInt (snd v))]) (ta2_confidence_interval_bps x)
     @ [(''coverage_bps'', JNum (JInt (ta2_coverage_bps x)))]
     @ [(''label'', JStr (ta2_label x))]
     @ [(''reason_codes'', JArr (map JStr (ta2_reason_codes x)))]
     @ [(''risk_codes'', JArr (map JStr (ta2_risk_codes x)))]
     @ optField ''evidence_commitment'' (\<lambda>v. JStr v) (ta2_evidence_commitment x)
     @ optField ''feature_vector_commitment'' (\<lambda>v. JStr v) (ta2_feature_vector_commitment x)
     @ optField ''evidence_coverage_commitment'' (\<lambda>v. JStr v) (ta2_evidence_coverage_commitment x)
     @ optField ''privacy_disclosure_level'' (\<lambda>v. JStr v) (ta2_privacy_disclosure_level x)
     @ optField ''appeal_uri'' (\<lambda>v. JStr v) (ta2_appeal_uri x)
     @ [(''issued_at'', JStr (ta2_issued_at x))]
     @ [(''expires_at'', JStr (ta2_expires_at x))]"

record TrustAssessmentV2 = TrustAssessmentUnsignedV2 +
  ta2_signature :: "string"

definition TrustAssessmentV2_obj :: "TrustAssessmentV2 \<Rightarrow> jsobj" where
  "TrustAssessmentV2_obj x =
     TrustAssessmentUnsignedV2_obj x
     @ [(''signature'', JStr (ta2_signature x))]"

record MetadataFingerprintCommitmentV1 = 
  mf_type :: "string"
  mf_subject :: "string"
  mf_scope_class :: "string"
  mf_scope_commitment :: "string"
  mf_bucket_profile :: "string"
  mf_fingerprint_commitment :: "string"
  mf_salt_commitment :: "string option"
  mf_created_at_bucket :: "string"
  mf_expires_at :: "string"
  mf_disclosure_policy :: "string"
  mf_signature :: "string"

definition MetadataFingerprintCommitmentV1_obj :: "MetadataFingerprintCommitmentV1 \<Rightarrow> jsobj" where
  "MetadataFingerprintCommitmentV1_obj x =
     [(''type'', JStr (mf_type x))]
     @ [(''subject'', JStr (mf_subject x))]
     @ [(''scope_class'', JStr (mf_scope_class x))]
     @ [(''scope_commitment'', JStr (mf_scope_commitment x))]
     @ [(''bucket_profile'', JStr (mf_bucket_profile x))]
     @ [(''fingerprint_commitment'', JStr (mf_fingerprint_commitment x))]
     @ optField ''salt_commitment'' (\<lambda>v. JStr v) (mf_salt_commitment x)
     @ [(''created_at_bucket'', JStr (mf_created_at_bucket x))]
     @ [(''expires_at'', JStr (mf_expires_at x))]
     @ [(''disclosure_policy'', JStr (mf_disclosure_policy x))]
     @ [(''signature'', JStr (mf_signature x))]"

record DisclosureConsentV1 = 
  dc_type :: "string"
  dc_subject :: "string"
  dc_verifier_or_provider :: "string"
  dc_allowed_field_classes :: "string list"
  dc_forbidden_field_classes :: "string list"
  dc_purpose :: "string"
  dc_issued_at :: "string"
  dc_expires_at :: "string"
  dc_revocation_pointer :: "string"
  dc_signature :: "string"

definition DisclosureConsentV1_obj :: "DisclosureConsentV1 \<Rightarrow> jsobj" where
  "DisclosureConsentV1_obj x =
     [(''type'', JStr (dc_type x))]
     @ [(''subject'', JStr (dc_subject x))]
     @ [(''verifier_or_provider'', JStr (dc_verifier_or_provider x))]
     @ [(''allowed_field_classes'', JArr (map JStr (dc_allowed_field_classes x)))]
     @ [(''forbidden_field_classes'', JArr (map JStr (dc_forbidden_field_classes x)))]
     @ [(''purpose'', JStr (dc_purpose x))]
     @ [(''issued_at'', JStr (dc_issued_at x))]
     @ [(''expires_at'', JStr (dc_expires_at x))]
     @ [(''revocation_pointer'', JStr (dc_revocation_pointer x))]
     @ [(''signature'', JStr (dc_signature x))]"

record CommunityDetection = 
  cd_algorithm :: "string"
  cd_resolution_bps :: "int"
  cd_min_cluster_size :: "int"
  cd_edge_weight_floor_bps :: "int option"
  cd_deterministic_ordering :: "string option"
  cd_max_passes :: "int option"
  cd_approximation_tolerance_bps :: "int option"
  cd_refinement_threshold_bps :: "int option"
  cd_projection :: "string option"
  cd_negative_edge_treatment :: "string option"

definition CommunityDetection_obj :: "CommunityDetection \<Rightarrow> jsobj" where
  "CommunityDetection_obj x =
     [(''algorithm'', JStr (cd_algorithm x))]
     @ [(''resolution_bps'', JNum (JInt (cd_resolution_bps x)))]
     @ [(''min_cluster_size'', JNum (JInt (cd_min_cluster_size x)))]
     @ optField ''edge_weight_floor_bps'' (\<lambda>v. JNum (JInt v)) (cd_edge_weight_floor_bps x)
     @ optField ''deterministic_ordering'' (\<lambda>v. JStr v) (cd_deterministic_ordering x)
     @ optField ''max_passes'' (\<lambda>v. JNum (JInt v)) (cd_max_passes x)
     @ optField ''approximation_tolerance_bps'' (\<lambda>v. JNum (JInt v)) (cd_approximation_tolerance_bps x)
     @ optField ''refinement_threshold_bps'' (\<lambda>v. JNum (JInt v)) (cd_refinement_threshold_bps x)
     @ optField ''projection'' (\<lambda>v. JStr v) (cd_projection x)
     @ optField ''negative_edge_treatment'' (\<lambda>v. JStr v) (cd_negative_edge_treatment x)"

record SeedSets = 
  ss_trusted_seed_commitment :: "string"
  ss_adversarial_seed_commitment :: "string"
  ss_trusted_seed_governance_commitment :: "string option"
  ss_adversarial_seed_governance_commitment :: "string option"

definition SeedSets_obj :: "SeedSets \<Rightarrow> jsobj" where
  "SeedSets_obj x =
     [(''trusted_seed_commitment'', JStr (ss_trusted_seed_commitment x))]
     @ [(''adversarial_seed_commitment'', JStr (ss_adversarial_seed_commitment x))]
     @ optField ''trusted_seed_governance_commitment'' (\<lambda>v. JStr v) (ss_trusted_seed_governance_commitment x)
     @ optField ''adversarial_seed_governance_commitment'' (\<lambda>v. JStr v) (ss_adversarial_seed_governance_commitment x)"

record NegativeEdgePolicy = 
  ne_requires_evidence_commitment :: "bool"
  ne_requires_appeal_uri :: "bool"
  ne_max_single_negative_weight_bps :: "int"
  ne_decay_days :: "int"

definition NegativeEdgePolicy_obj :: "NegativeEdgePolicy \<Rightarrow> jsobj" where
  "NegativeEdgePolicy_obj x =
     [(''requires_evidence_commitment'', JBool (ne_requires_evidence_commitment x))]
     @ [(''requires_appeal_uri'', JBool (ne_requires_appeal_uri x))]
     @ [(''max_single_negative_weight_bps'', JNum (JInt (ne_max_single_negative_weight_bps x)))]
     @ [(''decay_days'', JNum (JInt (ne_decay_days x)))]"

record GraphPrivacyPolicy = 
  pp_raw_counterparty_upload_required :: "bool"
  pp_allows_pairwise_private_features :: "bool"

definition GraphPrivacyPolicy_obj :: "GraphPrivacyPolicy \<Rightarrow> jsobj" where
  "GraphPrivacyPolicy_obj x =
     [(''raw_counterparty_upload_required'', JBool (pp_raw_counterparty_upload_required x))]
     @ [(''allows_pairwise_private_features'', JBool (pp_allows_pairwise_private_features x))]"

record PagerankProfile = 
  pr_iterations :: "int"
  pr_damping_bps :: "int"
  pr_personalization :: "string option"

definition PagerankProfile_obj :: "PagerankProfile \<Rightarrow> jsobj" where
  "PagerankProfile_obj x =
     [(''iterations'', JNum (JInt (pr_iterations x)))]
     @ [(''damping_bps'', JNum (JInt (pr_damping_bps x)))]
     @ optField ''personalization'' (\<lambda>v. JStr v) (pr_personalization x)"

record ManifoldProfile = 
  mp_algorithm :: "string"
  mp_feature_ordering :: "string list option"
  mp_trusted_centroid_commitment :: "string option"
  mp_adversarial_centroid_commitment :: "string option"
  mp_cluster_centroid_commitment :: "string option"
  mp_covariance_commitment :: "string option"
  mp_seed_commitment :: "string option"
  mp_trusted_centroid_bps :: "int list option"
  mp_adversarial_centroid_bps :: "int list option"
  mp_cluster_centroid_bps :: "int list option"
  mp_inverse_covariance_bps :: "int list list option"

definition ManifoldProfile_obj :: "ManifoldProfile \<Rightarrow> jsobj" where
  "ManifoldProfile_obj x =
     [(''algorithm'', JStr (mp_algorithm x))]
     @ optField ''feature_ordering'' (\<lambda>v. JArr (map JStr v)) (mp_feature_ordering x)
     @ optField ''trusted_centroid_commitment'' (\<lambda>v. JStr v) (mp_trusted_centroid_commitment x)
     @ optField ''adversarial_centroid_commitment'' (\<lambda>v. JStr v) (mp_adversarial_centroid_commitment x)
     @ optField ''cluster_centroid_commitment'' (\<lambda>v. JStr v) (mp_cluster_centroid_commitment x)
     @ optField ''covariance_commitment'' (\<lambda>v. JStr v) (mp_covariance_commitment x)
     @ optField ''seed_commitment'' (\<lambda>v. JStr v) (mp_seed_commitment x)
     @ optField ''trusted_centroid_bps'' (\<lambda>v. intArr v) (mp_trusted_centroid_bps x)
     @ optField ''adversarial_centroid_bps'' (\<lambda>v. intArr v) (mp_adversarial_centroid_bps x)
     @ optField ''cluster_centroid_bps'' (\<lambda>v. intArr v) (mp_cluster_centroid_bps x)
     @ optField ''inverse_covariance_bps'' (\<lambda>v. JArr (map intArr v)) (mp_inverse_covariance_bps x)"

record GraphProfileV2 = 
  gpr_type :: "string"
  gpr_profile_id :: "string"
  gpr_edge_weight_profile :: "string"
  gpr_temporal_decay_profile :: "string"
  gpr_community_detection :: "CommunityDetection"
  gpr_seed_sets :: "SeedSets"
  gpr_negative_edge_policy :: "NegativeEdgePolicy"
  gpr_privacy_policy :: "GraphPrivacyPolicy"
  gpr_edge_weights :: "(string \<times> int) list option"
  gpr_half_life_days :: "(string \<times> int) list option"
  gpr_issuer_quality_bps :: "(string \<times> int) list option"
  gpr_pagerank :: "PagerankProfile option"
  gpr_manifold_profile :: "ManifoldProfile option"

definition GraphProfileV2_obj :: "GraphProfileV2 \<Rightarrow> jsobj" where
  "GraphProfileV2_obj x =
     [(''type'', JStr (gpr_type x))]
     @ [(''profile_id'', JStr (gpr_profile_id x))]
     @ [(''edge_weight_profile'', JStr (gpr_edge_weight_profile x))]
     @ [(''temporal_decay_profile'', JStr (gpr_temporal_decay_profile x))]
     @ [(''community_detection'', JObj (CommunityDetection_obj (gpr_community_detection x)))]
     @ [(''seed_sets'', JObj (SeedSets_obj (gpr_seed_sets x)))]
     @ [(''negative_edge_policy'', JObj (NegativeEdgePolicy_obj (gpr_negative_edge_policy x)))]
     @ [(''privacy_policy'', JObj (GraphPrivacyPolicy_obj (gpr_privacy_policy x)))]
     @ optField ''edge_weights'' (\<lambda>v. JObj (map (\<lambda>(k, i). (k, JNum (JInt i))) v)) (gpr_edge_weights x)
     @ optField ''half_life_days'' (\<lambda>v. JObj (map (\<lambda>(k, i). (k, JNum (JInt i))) v)) (gpr_half_life_days x)
     @ optField ''issuer_quality_bps'' (\<lambda>v. JObj (map (\<lambda>(k, i). (k, JNum (JInt i))) v)) (gpr_issuer_quality_bps x)
     @ optField ''pagerank'' (\<lambda>v. JObj (PagerankProfile_obj v)) (gpr_pagerank x)
     @ optField ''manifold_profile'' (\<lambda>v. JObj (ManifoldProfile_obj v)) (gpr_manifold_profile x)"

record SeedGovernanceProfileV1 = 
  sg_type :: "string"
  sg_profile_id :: "string"
  sg_issuer :: "string"
  sg_review_state :: "string"
  sg_source_class :: "string"
  sg_seed_class :: "string"
  sg_seeds :: "string list"
  sg_seed_set_commitment :: "string"
  sg_governance_policy_commitment :: "string"
  sg_reviewed_at :: "string"
  sg_signature :: "string option"

definition SeedGovernanceProfileV1_obj :: "SeedGovernanceProfileV1 \<Rightarrow> jsobj" where
  "SeedGovernanceProfileV1_obj x =
     [(''type'', JStr (sg_type x))]
     @ [(''profile_id'', JStr (sg_profile_id x))]
     @ [(''issuer'', JStr (sg_issuer x))]
     @ [(''review_state'', JStr (sg_review_state x))]
     @ [(''source_class'', JStr (sg_source_class x))]
     @ [(''seed_class'', JStr (sg_seed_class x))]
     @ [(''seeds'', JArr (map JStr (sg_seeds x)))]
     @ [(''seed_set_commitment'', JStr (sg_seed_set_commitment x))]
     @ [(''governance_policy_commitment'', JStr (sg_governance_policy_commitment x))]
     @ [(''reviewed_at'', JStr (sg_reviewed_at x))]
     @ optField ''signature'' (\<lambda>v. JStr v) (sg_signature x)"

record GraphFeatureVectorV1 = 
  gv_type :: "string"
  gv_subject :: "string"
  gv_graph_profile_id :: "string"
  gv_computed_at :: "string"
  gv_weighted_degree_bps :: "int"
  gv_reciprocity_bps :: "int"
  gv_counterparty_hhi_bps :: "int"
  gv_counterparty_entropy_bps :: "int"
  gv_effective_counterparty_count_milli :: "int"
  gv_seed_escape_bps :: "int"
  gv_adversarial_proximity_bps :: "int"
  gv_community_algorithm_id :: "string option"
  gv_community_escape_bps :: "int option"
  gv_community_diversity_bps :: "int option"
  gv_conductance_bps :: "int option"
  gv_trusted_neighbor_mass_bps :: "int option"
  gv_trusted_seed_distance_bps :: "int option"
  gv_adversarial_seed_distance_bps :: "int option"
  gv_pagerank_bps :: "int option"
  gv_ppr_lite_bps :: "int option"
  gv_ppr_distance_bps :: "int option"
  gv_trusted_seed_distance_proxy_bps :: "int option"
  gv_adversarial_seed_distance_proxy_bps :: "int option"
  gv_cluster_distance_proxy_bps :: "int option"
  gv_trusted_manifold_distance_bps :: "int option"
  gv_adversarial_manifold_distance_bps :: "int option"
  gv_cluster_distance_bps :: "int option"
  gv_modularity_bps :: "int option"
  gv_community_pass_count :: "int option"
  gv_cluster_concentration_bps :: "int option"
  gv_feature_commitment :: "string option"
  gv_recomputation_commitment :: "string option"
  gv_privacy_disclosure_level :: "string"
  gv_signature :: "string"

definition GraphFeatureVectorV1_obj :: "GraphFeatureVectorV1 \<Rightarrow> jsobj" where
  "GraphFeatureVectorV1_obj x =
     [(''type'', JStr (gv_type x))]
     @ [(''subject'', JStr (gv_subject x))]
     @ [(''graph_profile_id'', JStr (gv_graph_profile_id x))]
     @ [(''computed_at'', JStr (gv_computed_at x))]
     @ [(''weighted_degree_bps'', JNum (JInt (gv_weighted_degree_bps x)))]
     @ [(''reciprocity_bps'', JNum (JInt (gv_reciprocity_bps x)))]
     @ [(''counterparty_hhi_bps'', JNum (JInt (gv_counterparty_hhi_bps x)))]
     @ [(''counterparty_entropy_bps'', JNum (JInt (gv_counterparty_entropy_bps x)))]
     @ [(''effective_counterparty_count_milli'', JNum (JInt (gv_effective_counterparty_count_milli x)))]
     @ [(''seed_escape_bps'', JNum (JInt (gv_seed_escape_bps x)))]
     @ [(''adversarial_proximity_bps'', JNum (JInt (gv_adversarial_proximity_bps x)))]
     @ optField ''community_algorithm_id'' (\<lambda>v. JStr v) (gv_community_algorithm_id x)
     @ optField ''community_escape_bps'' (\<lambda>v. JNum (JInt v)) (gv_community_escape_bps x)
     @ optField ''community_diversity_bps'' (\<lambda>v. JNum (JInt v)) (gv_community_diversity_bps x)
     @ optField ''conductance_bps'' (\<lambda>v. JNum (JInt v)) (gv_conductance_bps x)
     @ optField ''trusted_neighbor_mass_bps'' (\<lambda>v. JNum (JInt v)) (gv_trusted_neighbor_mass_bps x)
     @ optField ''trusted_seed_distance_bps'' (\<lambda>v. JNum (JInt v)) (gv_trusted_seed_distance_bps x)
     @ optField ''adversarial_seed_distance_bps'' (\<lambda>v. JNum (JInt v)) (gv_adversarial_seed_distance_bps x)
     @ optField ''pagerank_bps'' (\<lambda>v. JNum (JInt v)) (gv_pagerank_bps x)
     @ optField ''ppr_lite_bps'' (\<lambda>v. JNum (JInt v)) (gv_ppr_lite_bps x)
     @ optField ''ppr_distance_bps'' (\<lambda>v. JNum (JInt v)) (gv_ppr_distance_bps x)
     @ optField ''trusted_seed_distance_proxy_bps'' (\<lambda>v. JNum (JInt v)) (gv_trusted_seed_distance_proxy_bps x)
     @ optField ''adversarial_seed_distance_proxy_bps'' (\<lambda>v. JNum (JInt v)) (gv_adversarial_seed_distance_proxy_bps x)
     @ optField ''cluster_distance_proxy_bps'' (\<lambda>v. JNum (JInt v)) (gv_cluster_distance_proxy_bps x)
     @ optField ''trusted_manifold_distance_bps'' (\<lambda>v. JNum (JInt v)) (gv_trusted_manifold_distance_bps x)
     @ optField ''adversarial_manifold_distance_bps'' (\<lambda>v. JNum (JInt v)) (gv_adversarial_manifold_distance_bps x)
     @ optField ''cluster_distance_bps'' (\<lambda>v. JNum (JInt v)) (gv_cluster_distance_bps x)
     @ optField ''modularity_bps'' (\<lambda>v. JNum (JInt v)) (gv_modularity_bps x)
     @ optField ''community_pass_count'' (\<lambda>v. JNum (JInt v)) (gv_community_pass_count x)
     @ optField ''cluster_concentration_bps'' (\<lambda>v. JNum (JInt v)) (gv_cluster_concentration_bps x)
     @ optField ''feature_commitment'' (\<lambda>v. JStr v) (gv_feature_commitment x)
     @ optField ''recomputation_commitment'' (\<lambda>v. JStr v) (gv_recomputation_commitment x)
     @ [(''privacy_disclosure_level'', JStr (gv_privacy_disclosure_level x))]
     @ [(''signature'', JStr (gv_signature x))]"

record SybilCompromiseSignalsV1 = 
  scs_key_revocation_bps :: "int option"
  scs_severe_drift_bps :: "int option"
  scs_recovery_anomaly_bps :: "int option"

definition SybilCompromiseSignalsV1_obj :: "SybilCompromiseSignalsV1 \<Rightarrow> jsobj" where
  "SybilCompromiseSignalsV1_obj x =
     optField ''key_revocation_bps'' (\<lambda>v. JNum (JInt v)) (scs_key_revocation_bps x)
     @ optField ''severe_drift_bps'' (\<lambda>v. JNum (JInt v)) (scs_severe_drift_bps x)
     @ optField ''recovery_anomaly_bps'' (\<lambda>v. JNum (JInt v)) (scs_recovery_anomaly_bps x)"

record SybilIssuerCollusionSignalsV1 = 
  sis_issuer_reversal_bps :: "int option"
  sis_issuer_reuse_bps :: "int option"
  sis_low_quality_issuer_bps :: "int option"
  sis_collusion_indicator_bps :: "int option"

definition SybilIssuerCollusionSignalsV1_obj :: "SybilIssuerCollusionSignalsV1 \<Rightarrow> jsobj" where
  "SybilIssuerCollusionSignalsV1_obj x =
     optField ''issuer_reversal_bps'' (\<lambda>v. JNum (JInt v)) (sis_issuer_reversal_bps x)
     @ optField ''issuer_reuse_bps'' (\<lambda>v. JNum (JInt v)) (sis_issuer_reuse_bps x)
     @ optField ''low_quality_issuer_bps'' (\<lambda>v. JNum (JInt v)) (sis_low_quality_issuer_bps x)
     @ optField ''collusion_indicator_bps'' (\<lambda>v. JNum (JInt v)) (sis_collusion_indicator_bps x)"

record SybilInfrastructureCollusionSignalsV1 = 
  sns_checkpoint_conflict_bps :: "int option"
  sns_provider_auditor_disagreement_bps :: "int option"
  sns_settlement_anomaly_bps :: "int option"

definition SybilInfrastructureCollusionSignalsV1_obj :: "SybilInfrastructureCollusionSignalsV1 \<Rightarrow> jsobj" where
  "SybilInfrastructureCollusionSignalsV1_obj x =
     optField ''checkpoint_conflict_bps'' (\<lambda>v. JNum (JInt v)) (sns_checkpoint_conflict_bps x)
     @ optField ''provider_auditor_disagreement_bps'' (\<lambda>v. JNum (JInt v)) (sns_provider_auditor_disagreement_bps x)
     @ optField ''settlement_anomaly_bps'' (\<lambda>v. JNum (JInt v)) (sns_settlement_anomaly_bps x)"

record SybilCompromiseEvidenceV1 = 
  sce_evidence_commitment :: "string"
  sce_key_revocation_count :: "int option"
  sce_severe_drift_count :: "int option"
  sce_recovery_anomaly_count :: "int option"

definition SybilCompromiseEvidenceV1_obj :: "SybilCompromiseEvidenceV1 \<Rightarrow> jsobj" where
  "SybilCompromiseEvidenceV1_obj x =
     [(''evidence_commitment'', JStr (sce_evidence_commitment x))]
     @ optField ''key_revocation_count'' (\<lambda>v. JNum (JInt v)) (sce_key_revocation_count x)
     @ optField ''severe_drift_count'' (\<lambda>v. JNum (JInt v)) (sce_severe_drift_count x)
     @ optField ''recovery_anomaly_count'' (\<lambda>v. JNum (JInt v)) (sce_recovery_anomaly_count x)"

record SybilIssuerCollusionEvidenceV1 = 
  sie_evidence_commitment :: "string"
  sie_issuer_reversal_count :: "int option"
  sie_low_quality_issuer_count :: "int option"
  sie_false_attestation_count :: "int option"
  sie_collusion_indicator_count :: "int option"

definition SybilIssuerCollusionEvidenceV1_obj :: "SybilIssuerCollusionEvidenceV1 \<Rightarrow> jsobj" where
  "SybilIssuerCollusionEvidenceV1_obj x =
     [(''evidence_commitment'', JStr (sie_evidence_commitment x))]
     @ optField ''issuer_reversal_count'' (\<lambda>v. JNum (JInt v)) (sie_issuer_reversal_count x)
     @ optField ''low_quality_issuer_count'' (\<lambda>v. JNum (JInt v)) (sie_low_quality_issuer_count x)
     @ optField ''false_attestation_count'' (\<lambda>v. JNum (JInt v)) (sie_false_attestation_count x)
     @ optField ''collusion_indicator_count'' (\<lambda>v. JNum (JInt v)) (sie_collusion_indicator_count x)"

record SybilInfrastructureCollusionEvidenceV1 = 
  sne_evidence_commitment :: "string"
  sne_checkpoint_conflict_count :: "int option"
  sne_provider_auditor_disagreement_count :: "int option"
  sne_settlement_anomaly_count :: "int option"
  sne_selective_visibility_count :: "int option"

definition SybilInfrastructureCollusionEvidenceV1_obj :: "SybilInfrastructureCollusionEvidenceV1 \<Rightarrow> jsobj" where
  "SybilInfrastructureCollusionEvidenceV1_obj x =
     [(''evidence_commitment'', JStr (sne_evidence_commitment x))]
     @ optField ''checkpoint_conflict_count'' (\<lambda>v. JNum (JInt v)) (sne_checkpoint_conflict_count x)
     @ optField ''provider_auditor_disagreement_count'' (\<lambda>v. JNum (JInt v)) (sne_provider_auditor_disagreement_count x)
     @ optField ''settlement_anomaly_count'' (\<lambda>v. JNum (JInt v)) (sne_settlement_anomaly_count x)
     @ optField ''selective_visibility_count'' (\<lambda>v. JNum (JInt v)) (sne_selective_visibility_count x)"

record SybilCostComponents = 
  sco_identity_cost_minor_units :: "int"
  sco_time_aging_cost_minor_units :: "int"
  sco_external_receipt_cost_minor_units :: "int"
  sco_attestation_cost_minor_units :: "int"
  sco_compromise_cost_minor_units :: "int"
  sco_evasion_cost_minor_units :: "int"
  sco_issuer_collusion_cost_minor_units :: "int option"
  sco_infrastructure_consistency_cost_minor_units :: "int option"

definition SybilCostComponents_obj :: "SybilCostComponents \<Rightarrow> jsobj" where
  "SybilCostComponents_obj x =
     [(''identity_cost_minor_units'', JNum (JInt (sco_identity_cost_minor_units x)))]
     @ [(''time_aging_cost_minor_units'', JNum (JInt (sco_time_aging_cost_minor_units x)))]
     @ [(''external_receipt_cost_minor_units'', JNum (JInt (sco_external_receipt_cost_minor_units x)))]
     @ [(''attestation_cost_minor_units'', JNum (JInt (sco_attestation_cost_minor_units x)))]
     @ [(''compromise_cost_minor_units'', JNum (JInt (sco_compromise_cost_minor_units x)))]
     @ [(''evasion_cost_minor_units'', JNum (JInt (sco_evasion_cost_minor_units x)))]
     @ optField ''issuer_collusion_cost_minor_units'' (\<lambda>v. JNum (JInt v)) (sco_issuer_collusion_cost_minor_units x)
     @ optField ''infrastructure_consistency_cost_minor_units'' (\<lambda>v. JNum (JInt v)) (sco_infrastructure_consistency_cost_minor_units x)"

record SybilAssessmentV1 = 
  sa_type :: "string"
  sa_subject :: "string"
  sa_issuer :: "string"
  sa_sybil_profile_id :: "string"
  sa_graph_profile_id :: "string"
  sa_seed_set_commitment :: "string"
  sa_evidence_commitment :: "string"
  sa_cluster_id_commitment :: "string"
  sa_computed_at :: "string"
  sa_adversary_tier_assumed :: "string"
  sa_cluster_size_bucket :: "string option"
  sa_cluster_concentration_bps :: "int"
  sa_trusted_escape_bps :: "int"
  sa_internal_receipt_ratio_bps :: "int"
  sa_creation_sync_bps :: "int option"
  sa_issuer_reuse_bps :: "int option"
  sa_external_diversity_bps :: "int option"
  sa_seed_contamination_bps :: "int option"
  sa_receipt_symmetry_bps :: "int option"
  sa_attack_cost_minor_units :: "int"
  sa_cost_components :: "SybilCostComponents"
  sa_expected_benefit_minor_units :: "int"
  sa_attack_scenario :: "string"
  sa_compromise_signals :: "SybilCompromiseSignalsV1 option"
  sa_issuer_collusion_signals :: "SybilIssuerCollusionSignalsV1 option"
  sa_infrastructure_collusion_signals :: "SybilInfrastructureCollusionSignalsV1 option"
  sa_compromise_evidence :: "SybilCompromiseEvidenceV1 option"
  sa_issuer_collusion_evidence :: "SybilIssuerCollusionEvidenceV1 option"
  sa_infrastructure_collusion_evidence :: "SybilInfrastructureCollusionEvidenceV1 option"
  sa_scenario_evidence_checks :: "string list option"
  sa_risk_score_bps :: "int"
  sa_risk_label :: "string"
  sa_privacy_level :: "string"
  sa_signature :: "string"

definition SybilAssessmentV1_obj :: "SybilAssessmentV1 \<Rightarrow> jsobj" where
  "SybilAssessmentV1_obj x =
     [(''type'', JStr (sa_type x))]
     @ [(''subject'', JStr (sa_subject x))]
     @ [(''issuer'', JStr (sa_issuer x))]
     @ [(''sybil_profile_id'', JStr (sa_sybil_profile_id x))]
     @ [(''graph_profile_id'', JStr (sa_graph_profile_id x))]
     @ [(''seed_set_commitment'', JStr (sa_seed_set_commitment x))]
     @ [(''evidence_commitment'', JStr (sa_evidence_commitment x))]
     @ [(''cluster_id_commitment'', JStr (sa_cluster_id_commitment x))]
     @ [(''computed_at'', JStr (sa_computed_at x))]
     @ [(''adversary_tier_assumed'', JStr (sa_adversary_tier_assumed x))]
     @ optField ''cluster_size_bucket'' (\<lambda>v. JStr v) (sa_cluster_size_bucket x)
     @ [(''cluster_concentration_bps'', JNum (JInt (sa_cluster_concentration_bps x)))]
     @ [(''trusted_escape_bps'', JNum (JInt (sa_trusted_escape_bps x)))]
     @ [(''internal_receipt_ratio_bps'', JNum (JInt (sa_internal_receipt_ratio_bps x)))]
     @ optField ''creation_sync_bps'' (\<lambda>v. JNum (JInt v)) (sa_creation_sync_bps x)
     @ optField ''issuer_reuse_bps'' (\<lambda>v. JNum (JInt v)) (sa_issuer_reuse_bps x)
     @ optField ''external_diversity_bps'' (\<lambda>v. JNum (JInt v)) (sa_external_diversity_bps x)
     @ optField ''seed_contamination_bps'' (\<lambda>v. JNum (JInt v)) (sa_seed_contamination_bps x)
     @ optField ''receipt_symmetry_bps'' (\<lambda>v. JNum (JInt v)) (sa_receipt_symmetry_bps x)
     @ [(''attack_cost_minor_units'', JNum (JInt (sa_attack_cost_minor_units x)))]
     @ [(''cost_components'', JObj (SybilCostComponents_obj (sa_cost_components x)))]
     @ [(''expected_benefit_minor_units'', JNum (JInt (sa_expected_benefit_minor_units x)))]
     @ [(''attack_scenario'', JStr (sa_attack_scenario x))]
     @ optField ''compromise_signals'' (\<lambda>v. JObj (SybilCompromiseSignalsV1_obj v)) (sa_compromise_signals x)
     @ optField ''issuer_collusion_signals'' (\<lambda>v. JObj (SybilIssuerCollusionSignalsV1_obj v)) (sa_issuer_collusion_signals x)
     @ optField ''infrastructure_collusion_signals'' (\<lambda>v. JObj (SybilInfrastructureCollusionSignalsV1_obj v)) (sa_infrastructure_collusion_signals x)
     @ optField ''compromise_evidence'' (\<lambda>v. JObj (SybilCompromiseEvidenceV1_obj v)) (sa_compromise_evidence x)
     @ optField ''issuer_collusion_evidence'' (\<lambda>v. JObj (SybilIssuerCollusionEvidenceV1_obj v)) (sa_issuer_collusion_evidence x)
     @ optField ''infrastructure_collusion_evidence'' (\<lambda>v. JObj (SybilInfrastructureCollusionEvidenceV1_obj v)) (sa_infrastructure_collusion_evidence x)
     @ optField ''scenario_evidence_checks'' (\<lambda>v. JArr (map JStr v)) (sa_scenario_evidence_checks x)
     @ [(''risk_score_bps'', JNum (JInt (sa_risk_score_bps x)))]
     @ [(''risk_label'', JStr (sa_risk_label x))]
     @ [(''privacy_level'', JStr (sa_privacy_level x))]
     @ [(''signature'', JStr (sa_signature x))]"

record SybilProfile = 
  spf_profile_id :: "string"
  spf_adversary_tier :: "string option"
  spf_min_evidence_mass :: "int option"
  spf_base_identity_cost_minor_units :: "int option"
  spf_time_aging_cost_minor_units :: "int option"
  spf_external_receipt_cost_minor_units :: "int option"
  spf_attestation_cost_minor_units :: "int option"
  spf_compromise_cost_minor_units :: "int option"
  spf_evasion_cost_minor_units :: "int option"
  spf_internal_edge_cost_minor_units :: "int option"
  spf_expected_benefit_minor_units :: "int option"
  spf_attack_scenario :: "string option"
  spf_compromise_signals :: "SybilCompromiseSignalsV1 option"
  spf_issuer_collusion_signals :: "SybilIssuerCollusionSignalsV1 option"
  spf_infrastructure_collusion_signals :: "SybilInfrastructureCollusionSignalsV1 option"
  spf_compromise_evidence :: "SybilCompromiseEvidenceV1 option"
  spf_issuer_collusion_evidence :: "SybilIssuerCollusionEvidenceV1 option"
  spf_infrastructure_collusion_evidence :: "SybilInfrastructureCollusionEvidenceV1 option"

definition SybilProfile_obj :: "SybilProfile \<Rightarrow> jsobj" where
  "SybilProfile_obj x =
     [(''profile_id'', JStr (spf_profile_id x))]
     @ optField ''adversary_tier'' (\<lambda>v. JStr v) (spf_adversary_tier x)
     @ optField ''min_evidence_mass'' (\<lambda>v. JNum (JInt v)) (spf_min_evidence_mass x)
     @ optField ''base_identity_cost_minor_units'' (\<lambda>v. JNum (JInt v)) (spf_base_identity_cost_minor_units x)
     @ optField ''time_aging_cost_minor_units'' (\<lambda>v. JNum (JInt v)) (spf_time_aging_cost_minor_units x)
     @ optField ''external_receipt_cost_minor_units'' (\<lambda>v. JNum (JInt v)) (spf_external_receipt_cost_minor_units x)
     @ optField ''attestation_cost_minor_units'' (\<lambda>v. JNum (JInt v)) (spf_attestation_cost_minor_units x)
     @ optField ''compromise_cost_minor_units'' (\<lambda>v. JNum (JInt v)) (spf_compromise_cost_minor_units x)
     @ optField ''evasion_cost_minor_units'' (\<lambda>v. JNum (JInt v)) (spf_evasion_cost_minor_units x)
     @ optField ''internal_edge_cost_minor_units'' (\<lambda>v. JNum (JInt v)) (spf_internal_edge_cost_minor_units x)
     @ optField ''expected_benefit_minor_units'' (\<lambda>v. JNum (JInt v)) (spf_expected_benefit_minor_units x)
     @ optField ''attack_scenario'' (\<lambda>v. JStr v) (spf_attack_scenario x)
     @ optField ''compromise_signals'' (\<lambda>v. JObj (SybilCompromiseSignalsV1_obj v)) (spf_compromise_signals x)
     @ optField ''issuer_collusion_signals'' (\<lambda>v. JObj (SybilIssuerCollusionSignalsV1_obj v)) (spf_issuer_collusion_signals x)
     @ optField ''infrastructure_collusion_signals'' (\<lambda>v. JObj (SybilInfrastructureCollusionSignalsV1_obj v)) (spf_infrastructure_collusion_signals x)
     @ optField ''compromise_evidence'' (\<lambda>v. JObj (SybilCompromiseEvidenceV1_obj v)) (spf_compromise_evidence x)
     @ optField ''issuer_collusion_evidence'' (\<lambda>v. JObj (SybilIssuerCollusionEvidenceV1_obj v)) (spf_issuer_collusion_evidence x)
     @ optField ''infrastructure_collusion_evidence'' (\<lambda>v. JObj (SybilInfrastructureCollusionEvidenceV1_obj v)) (spf_infrastructure_collusion_evidence x)"

record DriftReportV1 = 
  dr_type :: "string"
  dr_subject :: "string"
  dr_issuer :: "string option"
  dr_drift_profile_id :: "string option"
  dr_computed_at :: "string"
  dr_baseline_window_days :: "int"
  dr_observation_window_days :: "int"
  dr_coverage_bps :: "int option"
  dr_dcrit_bps :: "int option"
  dr_dormant_penalty_bps :: "int option"
  dr_key_penalty_bps :: "int option"
  dr_feature_history_commitment :: "string option"
  dr_baseline_profile_commitment :: "string option"
  dr_covariance_profile_commitment :: "string option"
  dr_robust_covariance_commitment :: "string option"
  dr_mahalanobis_bps :: "int option"
  dr_cohort_baseline_profile_commitment :: "string option"
  dr_uncertainty_widening_bps :: "int option"
  dr_last_verified_event_at :: "string option"
  dr_days_since_last_verified_event :: "int option"
  dr_sparse_mode :: "string option"
  dr_recomputation_status :: "string option"
  dr_drift_score_bps :: "int"
  dr_drift_label :: "string"
  dr_action :: "string"
  dr_reason_codes :: "string list"
  dr_component_scores_bps :: "(string \<times> int) list option"
  dr_signature :: "string"

definition DriftReportV1_obj :: "DriftReportV1 \<Rightarrow> jsobj" where
  "DriftReportV1_obj x =
     [(''type'', JStr (dr_type x))]
     @ [(''subject'', JStr (dr_subject x))]
     @ optField ''issuer'' (\<lambda>v. JStr v) (dr_issuer x)
     @ optField ''drift_profile_id'' (\<lambda>v. JStr v) (dr_drift_profile_id x)
     @ [(''computed_at'', JStr (dr_computed_at x))]
     @ [(''baseline_window_days'', JNum (JInt (dr_baseline_window_days x)))]
     @ [(''observation_window_days'', JNum (JInt (dr_observation_window_days x)))]
     @ optField ''coverage_bps'' (\<lambda>v. JNum (JInt v)) (dr_coverage_bps x)
     @ optField ''dcrit_bps'' (\<lambda>v. JNum (JInt v)) (dr_dcrit_bps x)
     @ optField ''dormant_penalty_bps'' (\<lambda>v. JNum (JInt v)) (dr_dormant_penalty_bps x)
     @ optField ''key_penalty_bps'' (\<lambda>v. JNum (JInt v)) (dr_key_penalty_bps x)
     @ optField ''feature_history_commitment'' (\<lambda>v. JStr v) (dr_feature_history_commitment x)
     @ optField ''baseline_profile_commitment'' (\<lambda>v. JStr v) (dr_baseline_profile_commitment x)
     @ optField ''covariance_profile_commitment'' (\<lambda>v. JStr v) (dr_covariance_profile_commitment x)
     @ optField ''robust_covariance_commitment'' (\<lambda>v. JStr v) (dr_robust_covariance_commitment x)
     @ optField ''mahalanobis_bps'' (\<lambda>v. JNum (JInt v)) (dr_mahalanobis_bps x)
     @ optField ''cohort_baseline_profile_commitment'' (\<lambda>v. JStr v) (dr_cohort_baseline_profile_commitment x)
     @ optField ''uncertainty_widening_bps'' (\<lambda>v. JNum (JInt v)) (dr_uncertainty_widening_bps x)
     @ optField ''last_verified_event_at'' (\<lambda>v. JStr v) (dr_last_verified_event_at x)
     @ optField ''days_since_last_verified_event'' (\<lambda>v. JNum (JInt v)) (dr_days_since_last_verified_event x)
     @ optField ''sparse_mode'' (\<lambda>v. JStr v) (dr_sparse_mode x)
     @ optField ''recomputation_status'' (\<lambda>v. JStr v) (dr_recomputation_status x)
     @ [(''drift_score_bps'', JNum (JInt (dr_drift_score_bps x)))]
     @ [(''drift_label'', JStr (dr_drift_label x))]
     @ [(''action'', JStr (dr_action x))]
     @ [(''reason_codes'', JArr (map JStr (dr_reason_codes x)))]
     @ optField ''component_scores_bps'' (\<lambda>v. JObj (map (\<lambda>(k, i). (k, JNum (JInt i))) v)) (dr_component_scores_bps x)
     @ [(''signature'', JStr (dr_signature x))]"

record DriftFeatureEntry = 
  dfe_timestamp :: "string"
  dfe_components :: "(string \<times> int) list"
  dfe_verified_event :: "bool option"
  dfe_high_value_action :: "bool option"
  dfe_new_delegation_pattern :: "bool option"
  dfe_adverse_evidence :: "bool option"

definition DriftFeatureEntry_obj :: "DriftFeatureEntry \<Rightarrow> jsobj" where
  "DriftFeatureEntry_obj x =
     [(''timestamp'', JStr (dfe_timestamp x))]
     @ [(''components'', JObj (map (\<lambda>(k, i). (k, JNum (JInt i))) (dfe_components x)))]
     @ optField ''verified_event'' (\<lambda>v. JBool v) (dfe_verified_event x)
     @ optField ''high_value_action'' (\<lambda>v. JBool v) (dfe_high_value_action x)
     @ optField ''new_delegation_pattern'' (\<lambda>v. JBool v) (dfe_new_delegation_pattern x)
     @ optField ''adverse_evidence'' (\<lambda>v. JBool v) (dfe_adverse_evidence x)"

record FeatureRegistryEntry = 
  fre_feature_id :: "string"
  fre_value_type :: "string"
  fre_privacy_class :: "string"
  fre_attack_model :: "string list option"
  fre_source :: "string"

definition FeatureRegistryEntry_obj :: "FeatureRegistryEntry \<Rightarrow> jsobj" where
  "FeatureRegistryEntry_obj x =
     [(''feature_id'', JStr (fre_feature_id x))]
     @ [(''value_type'', JStr (fre_value_type x))]
     @ [(''privacy_class'', JStr (fre_privacy_class x))]
     @ optField ''attack_model'' (\<lambda>v. JArr (map JStr v)) (fre_attack_model x)
     @ [(''source'', JStr (fre_source x))]"

record FeatureRegistryV1 = 
  frg_type :: "string"
  frg_registry_id :: "string"
  frg_feature_ids :: "string list"
  frg_feature_definitions :: "FeatureRegistryEntry list option"
  frg_issued_at :: "string"
  frg_signature :: "string option"

definition FeatureRegistryV1_obj :: "FeatureRegistryV1 \<Rightarrow> jsobj" where
  "FeatureRegistryV1_obj x =
     [(''type'', JStr (frg_type x))]
     @ [(''registry_id'', JStr (frg_registry_id x))]
     @ [(''feature_ids'', JArr (map JStr (frg_feature_ids x)))]
     @ optField ''feature_definitions'' (\<lambda>v. JArr (map (\<lambda>y. JObj (FeatureRegistryEntry_obj y)) v)) (frg_feature_definitions x)
     @ [(''issued_at'', JStr (frg_issued_at x))]
     @ optField ''signature'' (\<lambda>v. JStr v) (frg_signature x)"

record NormalizationProfileV1 = 
  np_type :: "string"
  np_profile_id :: "string"
  np_feature_ranges_bps :: "jsval"
  np_feature_methods :: "jsval option"
  np_asinh_scales_bps :: "(string \<times> int) list option"
  np_training_window :: "jsval option"
  np_percentiles_bps :: "jsval option"
  np_missing_value_policy :: "string option"
  np_time_split_fit_status :: "string option"
  np_issued_at :: "string"
  np_signature :: "string option"

definition NormalizationProfileV1_obj :: "NormalizationProfileV1 \<Rightarrow> jsobj" where
  "NormalizationProfileV1_obj x =
     [(''type'', JStr (np_type x))]
     @ [(''profile_id'', JStr (np_profile_id x))]
     @ [(''feature_ranges_bps'', (np_feature_ranges_bps x))]
     @ optField ''feature_methods'' (\<lambda>v. v) (np_feature_methods x)
     @ optField ''asinh_scales_bps'' (\<lambda>v. JObj (map (\<lambda>(k, i). (k, JNum (JInt i))) v)) (np_asinh_scales_bps x)
     @ optField ''training_window'' (\<lambda>v. v) (np_training_window x)
     @ optField ''percentiles_bps'' (\<lambda>v. v) (np_percentiles_bps x)
     @ optField ''missing_value_policy'' (\<lambda>v. JStr v) (np_missing_value_policy x)
     @ optField ''time_split_fit_status'' (\<lambda>v. JStr v) (np_time_split_fit_status x)
     @ [(''issued_at'', JStr (np_issued_at x))]
     @ optField ''signature'' (\<lambda>v. JStr v) (np_signature x)"

record WeightProfileV1 = 
  wp_type :: "string"
  wp_profile_id :: "string"
  wp_weights_bps :: "(string \<times> int) list"
  wp_feature_directions :: "jsval option"
  wp_issued_at :: "string"
  wp_signature :: "string option"

definition WeightProfileV1_obj :: "WeightProfileV1 \<Rightarrow> jsobj" where
  "WeightProfileV1_obj x =
     [(''type'', JStr (wp_type x))]
     @ [(''profile_id'', JStr (wp_profile_id x))]
     @ [(''weights_bps'', JObj (map (\<lambda>(k, i). (k, JNum (JInt i))) (wp_weights_bps x)))]
     @ optField ''feature_directions'' (\<lambda>v. v) (wp_feature_directions x)
     @ [(''issued_at'', JStr (wp_issued_at x))]
     @ optField ''signature'' (\<lambda>v. JStr v) (wp_signature x)"

record CalibrationPoint = 
  cpt_raw_bps :: "int"
  cpt_calibrated_bps :: "int"

definition CalibrationPoint_obj :: "CalibrationPoint \<Rightarrow> jsobj" where
  "CalibrationPoint_obj x =
     [(''raw_bps'', JNum (JInt (cpt_raw_bps x)))]
     @ [(''calibrated_bps'', JNum (JInt (cpt_calibrated_bps x)))]"

record CalibrationProfileV1 = 
  cal_type :: "string"
  cal_profile_id :: "string"
  cal_points :: "CalibrationPoint list"
  cal_issued_at :: "string"
  cal_signature :: "string option"

definition CalibrationProfileV1_obj :: "CalibrationProfileV1 \<Rightarrow> jsobj" where
  "CalibrationProfileV1_obj x =
     [(''type'', JStr (cal_type x))]
     @ [(''profile_id'', JStr (cal_profile_id x))]
     @ [(''points'', JArr (map (\<lambda>y. JObj (CalibrationPoint_obj y)) (cal_points x)))]
     @ [(''issued_at'', JStr (cal_issued_at x))]
     @ optField ''signature'' (\<lambda>v. JStr v) (cal_signature x)"

record ConfidenceProfileV1 = 
  cf_type :: "string"
  cf_profile_id :: "string"
  cf_method :: "string option"
  cf_bootstrap_unit :: "string option"
  cf_min_width_bps :: "int"
  cf_max_width_bps :: "int"
  cf_coverage_weight_bps :: "int"
  cf_evidence_weight_bps :: "int option"
  cf_bootstrap_seed :: "string option"
  cf_bootstrap_rounds :: "int option"
  cf_issued_at :: "string"
  cf_signature :: "string option"

definition ConfidenceProfileV1_obj :: "ConfidenceProfileV1 \<Rightarrow> jsobj" where
  "ConfidenceProfileV1_obj x =
     [(''type'', JStr (cf_type x))]
     @ [(''profile_id'', JStr (cf_profile_id x))]
     @ optField ''method'' (\<lambda>v. JStr v) (cf_method x)
     @ optField ''bootstrap_unit'' (\<lambda>v. JStr v) (cf_bootstrap_unit x)
     @ [(''min_width_bps'', JNum (JInt (cf_min_width_bps x)))]
     @ [(''max_width_bps'', JNum (JInt (cf_max_width_bps x)))]
     @ [(''coverage_weight_bps'', JNum (JInt (cf_coverage_weight_bps x)))]
     @ optField ''evidence_weight_bps'' (\<lambda>v. JNum (JInt v)) (cf_evidence_weight_bps x)
     @ optField ''bootstrap_seed'' (\<lambda>v. JStr v) (cf_bootstrap_seed x)
     @ optField ''bootstrap_rounds'' (\<lambda>v. JNum (JInt v)) (cf_bootstrap_rounds x)
     @ [(''issued_at'', JStr (cf_issued_at x))]
     @ optField ''signature'' (\<lambda>v. JStr v) (cf_signature x)"

record AttestationV2 = 
  at2_type :: "string"
  at2_attestation_id :: "string"
  at2_issuer :: "string"
  at2_signing_key_id :: "string"
  at2_subject :: "string"
  at2_claim_class :: "string"
  at2_claim_polarity :: "string"
  at2_severity :: "string"
  at2_claim_commitment :: "string"
  at2_evidence_commitment :: "string"
  at2_evidence_policy :: "string"
  at2_visibility :: "string"
  at2_appeal_uri :: "string"
  at2_issued_at :: "string"
  at2_valid_after :: "string"
  at2_expires_at :: "string"
  at2_revocation_pointer :: "string"
  at2_appeal_status :: "string option"
  at2_signature :: "string"

definition AttestationV2_obj :: "AttestationV2 \<Rightarrow> jsobj" where
  "AttestationV2_obj x =
     [(''type'', JStr (at2_type x))]
     @ [(''attestation_id'', JStr (at2_attestation_id x))]
     @ [(''issuer'', JStr (at2_issuer x))]
     @ [(''signing_key_id'', JStr (at2_signing_key_id x))]
     @ [(''subject'', JStr (at2_subject x))]
     @ [(''claim_class'', JStr (at2_claim_class x))]
     @ [(''claim_polarity'', JStr (at2_claim_polarity x))]
     @ [(''severity'', JStr (at2_severity x))]
     @ [(''claim_commitment'', JStr (at2_claim_commitment x))]
     @ [(''evidence_commitment'', JStr (at2_evidence_commitment x))]
     @ [(''evidence_policy'', JStr (at2_evidence_policy x))]
     @ [(''visibility'', JStr (at2_visibility x))]
     @ [(''appeal_uri'', JStr (at2_appeal_uri x))]
     @ [(''issued_at'', JStr (at2_issued_at x))]
     @ [(''valid_after'', JStr (at2_valid_after x))]
     @ [(''expires_at'', JStr (at2_expires_at x))]
     @ [(''revocation_pointer'', JStr (at2_revocation_pointer x))]
     @ optField ''appeal_status'' (\<lambda>v. JStr v) (at2_appeal_status x)
     @ [(''signature'', JStr (at2_signature x))]"

record SetNonMembershipProofV1 = 
  nm_type :: "string"
  nm_claim :: "string"
  nm_subject :: "string"
  nm_set_root :: "string"
  nm_value_commitment :: "string"
  nm_tree_id :: "string option"
  nm_tree_depth :: "int option"
  nm_leaf_index_commitment :: "string option"
  nm_leaf_value_commitment :: "string option"
  nm_empty_leaf_commitment :: "string option"
  nm_root :: "string option"
  nm_root_checkpoint :: "string option"
  nm_lower_neighbor :: "string option"
  nm_upper_neighbor :: "string option"
  nm_leaf_index :: "int option"
  nm_sibling_path :: "InclusionProofStep list option"
  nm_proof :: "string"
  nm_issued_at :: "string"

definition SetNonMembershipProofV1_obj :: "SetNonMembershipProofV1 \<Rightarrow> jsobj" where
  "SetNonMembershipProofV1_obj x =
     [(''type'', JStr (nm_type x))]
     @ [(''claim'', JStr (nm_claim x))]
     @ [(''subject'', JStr (nm_subject x))]
     @ [(''set_root'', JStr (nm_set_root x))]
     @ [(''value_commitment'', JStr (nm_value_commitment x))]
     @ optField ''tree_id'' (\<lambda>v. JStr v) (nm_tree_id x)
     @ optField ''tree_depth'' (\<lambda>v. JNum (JInt v)) (nm_tree_depth x)
     @ optField ''leaf_index_commitment'' (\<lambda>v. JStr v) (nm_leaf_index_commitment x)
     @ optField ''leaf_value_commitment'' (\<lambda>v. JStr v) (nm_leaf_value_commitment x)
     @ optField ''empty_leaf_commitment'' (\<lambda>v. JStr v) (nm_empty_leaf_commitment x)
     @ optField ''root'' (\<lambda>v. JStr v) (nm_root x)
     @ optField ''root_checkpoint'' (\<lambda>v. JStr v) (nm_root_checkpoint x)
     @ optField ''lower_neighbor'' (\<lambda>v. JStr v) (nm_lower_neighbor x)
     @ optField ''upper_neighbor'' (\<lambda>v. JStr v) (nm_upper_neighbor x)
     @ optField ''leaf_index'' (\<lambda>v. JNum (JInt v)) (nm_leaf_index x)
     @ optField ''sibling_path'' (\<lambda>v. JArr (map (\<lambda>y. JObj (InclusionProofStep_obj y)) v)) (nm_sibling_path x)
     @ [(''proof'', JStr (nm_proof x))]
     @ [(''issued_at'', JStr (nm_issued_at x))]"

record AgentDelegationUnsignedV1 = 
  ad_type :: "string"
  ad_controller :: "string"
  ad_controller_key_id :: "string"
  ad_agent :: "string"
  ad_agent_key_id :: "string"
  ad_scope :: "string list"
  ad_session_key :: "string option"
  ad_max_uses :: "int option"
  ad_spending_limit_commitment :: "string option"
  ad_issued_at :: "string"
  ad_expires_at :: "string"
  ad_nonce :: "string"

definition AgentDelegationUnsignedV1_obj :: "'a AgentDelegationUnsignedV1_scheme \<Rightarrow> jsobj" where
  "AgentDelegationUnsignedV1_obj x =
     [(''type'', JStr (ad_type x))]
     @ [(''controller'', JStr (ad_controller x))]
     @ [(''controller_key_id'', JStr (ad_controller_key_id x))]
     @ [(''agent'', JStr (ad_agent x))]
     @ [(''agent_key_id'', JStr (ad_agent_key_id x))]
     @ [(''scope'', JArr (map JStr (ad_scope x)))]
     @ optField ''session_key'' (\<lambda>v. JStr v) (ad_session_key x)
     @ optField ''max_uses'' (\<lambda>v. JNum (JInt v)) (ad_max_uses x)
     @ optField ''spending_limit_commitment'' (\<lambda>v. JStr v) (ad_spending_limit_commitment x)
     @ [(''issued_at'', JStr (ad_issued_at x))]
     @ [(''expires_at'', JStr (ad_expires_at x))]
     @ [(''nonce'', JStr (ad_nonce x))]"

record AgentDelegationV1 = AgentDelegationUnsignedV1 +
  ad_controller_signature :: "string"
  ad_agent_signature :: "string"

definition AgentDelegationV1_obj :: "AgentDelegationV1 \<Rightarrow> jsobj" where
  "AgentDelegationV1_obj x =
     AgentDelegationUnsignedV1_obj x
     @ [(''controller_signature'', JStr (ad_controller_signature x))]
     @ [(''agent_signature'', JStr (ad_agent_signature x))]"

record AuditFindingUnsignedV1 = 
  af_type :: "string"
  af_auditor :: "string"
  af_checkpoint_hash :: "string option"
  af_epoch_start_ms :: "int option"
  af_shard :: "string option"
  af_finding_class :: "string"
  af_severity :: "string"
  af_evidence_commitment :: "string"
  af_issued_at :: "string"

definition AuditFindingUnsignedV1_obj :: "'a AuditFindingUnsignedV1_scheme \<Rightarrow> jsobj" where
  "AuditFindingUnsignedV1_obj x =
     [(''type'', JStr (af_type x))]
     @ [(''auditor'', JStr (af_auditor x))]
     @ optField ''checkpoint_hash'' (\<lambda>v. JStr v) (af_checkpoint_hash x)
     @ optField ''epoch_start_ms'' (\<lambda>v. JNum (JInt v)) (af_epoch_start_ms x)
     @ optField ''shard'' (\<lambda>v. JStr v) (af_shard x)
     @ [(''finding_class'', JStr (af_finding_class x))]
     @ [(''severity'', JStr (af_severity x))]
     @ [(''evidence_commitment'', JStr (af_evidence_commitment x))]
     @ [(''issued_at'', JStr (af_issued_at x))]"

record AuditFindingV1 = AuditFindingUnsignedV1 +
  af_signature :: "string"

definition AuditFindingV1_obj :: "AuditFindingV1 \<Rightarrow> jsobj" where
  "AuditFindingV1_obj x =
     AuditFindingUnsignedV1_obj x
     @ [(''signature'', JStr (af_signature x))]"

record GovernancePolicyUnsignedV1 = 
  gp_type :: "string"
  gp_policy_id :: "string"
  gp_authority :: "string"
  gp_authority_key_id :: "string"
  gp_protocol_schema_commitment :: "string"
  gp_provider_rules_commitment :: "string"
  gp_appeal_policy_commitment :: "string"
  gp_model_card_commitment :: "string option"
  gp_emergency_pause :: "bool"
  gp_issued_at :: "string"
  gp_expires_at :: "string option"

definition GovernancePolicyUnsignedV1_obj :: "'a GovernancePolicyUnsignedV1_scheme \<Rightarrow> jsobj" where
  "GovernancePolicyUnsignedV1_obj x =
     [(''type'', JStr (gp_type x))]
     @ [(''policy_id'', JStr (gp_policy_id x))]
     @ [(''authority'', JStr (gp_authority x))]
     @ [(''authority_key_id'', JStr (gp_authority_key_id x))]
     @ [(''protocol_schema_commitment'', JStr (gp_protocol_schema_commitment x))]
     @ [(''provider_rules_commitment'', JStr (gp_provider_rules_commitment x))]
     @ [(''appeal_policy_commitment'', JStr (gp_appeal_policy_commitment x))]
     @ optField ''model_card_commitment'' (\<lambda>v. JStr v) (gp_model_card_commitment x)
     @ [(''emergency_pause'', JBool (gp_emergency_pause x))]
     @ [(''issued_at'', JStr (gp_issued_at x))]
     @ optField ''expires_at'' (\<lambda>v. JStr v) (gp_expires_at x)"

record GovernancePolicyV1 = GovernancePolicyUnsignedV1 +
  gp_signature :: "string"

definition GovernancePolicyV1_obj :: "GovernancePolicyV1 \<Rightarrow> jsobj" where
  "GovernancePolicyV1_obj x =
     GovernancePolicyUnsignedV1_obj x
     @ [(''signature'', JStr (gp_signature x))]"

record ProviderGovernanceStatusV1 = 
  pg_type :: "string"
  pg_provider :: "string"
  pg_status :: "string"
  pg_model_registered :: "bool"
  pg_evaluation_report_commitment :: "string"
  pg_red_team_result :: "string"
  pg_privacy_leakage_bps :: "int"
  pg_promotion_gate_result :: "string"
  pg_issued_at :: "string"
  pg_signature :: "string option"

definition ProviderGovernanceStatusV1_obj :: "ProviderGovernanceStatusV1 \<Rightarrow> jsobj" where
  "ProviderGovernanceStatusV1_obj x =
     [(''type'', JStr (pg_type x))]
     @ [(''provider'', JStr (pg_provider x))]
     @ [(''status'', JStr (pg_status x))]
     @ [(''model_registered'', JBool (pg_model_registered x))]
     @ [(''evaluation_report_commitment'', JStr (pg_evaluation_report_commitment x))]
     @ [(''red_team_result'', JStr (pg_red_team_result x))]
     @ [(''privacy_leakage_bps'', JNum (JInt (pg_privacy_leakage_bps x)))]
     @ [(''promotion_gate_result'', JStr (pg_promotion_gate_result x))]
     @ [(''issued_at'', JStr (pg_issued_at x))]
     @ optField ''signature'' (\<lambda>v. JStr v) (pg_signature x)"

record MessageDisclosure = 
  md_raw_message :: "string option"
  md_content_salt :: "string option"

definition MessageDisclosure_obj :: "MessageDisclosure \<Rightarrow> jsobj" where
  "MessageDisclosure_obj x =
     optField ''raw_message'' (\<lambda>v. JStr v) (md_raw_message x)
     @ optField ''content_salt'' (\<lambda>v. JStr v) (md_content_salt x)"

record RedactionManifest = 
  rm_raw_content_included :: "bool"
  rm_content_salt_included :: "bool option"
  rm_exact_counterparties_included :: "bool"
  rm_metadata_fields_redacted :: "string list"

definition RedactionManifest_obj :: "RedactionManifest \<Rightarrow> jsobj" where
  "RedactionManifest_obj x =
     [(''raw_content_included'', JBool (rm_raw_content_included x))]
     @ optField ''content_salt_included'' (\<lambda>v. JBool v) (rm_content_salt_included x)
     @ [(''exact_counterparties_included'', JBool (rm_exact_counterparties_included x))]
     @ [(''metadata_fields_redacted'', JArr (map JStr (rm_metadata_fields_redacted x)))]"

record DelegationPolicyUnsignedV2 = 
  dl_type :: "string"
  dl_policy_id :: "string"
  dl_principal :: "string"
  dl_delegate :: "string"
  dl_effect :: "string"
  dl_actions :: "string list"
  dl_resources :: "string list"
  dl_constraints :: "jsobj"
  dl_subdelegation :: "jsobj option"
  dl_parent_policy_id :: "string option option"
  dl_valid_from :: "string"
  dl_valid_until :: "string"
  dl_revocation_pointer :: "string"
  dl_nonce :: "string option"

definition DelegationPolicyUnsignedV2_obj :: "'a DelegationPolicyUnsignedV2_scheme \<Rightarrow> jsobj" where
  "DelegationPolicyUnsignedV2_obj x =
     [(''type'', JStr (dl_type x))]
     @ [(''policy_id'', JStr (dl_policy_id x))]
     @ [(''principal'', JStr (dl_principal x))]
     @ [(''delegate'', JStr (dl_delegate x))]
     @ [(''effect'', JStr (dl_effect x))]
     @ [(''actions'', JArr (map JStr (dl_actions x)))]
     @ [(''resources'', JArr (map JStr (dl_resources x)))]
     @ [(''constraints'', JObj (dl_constraints x))]
     @ optField ''subdelegation'' (\<lambda>v. JObj v) (dl_subdelegation x)
     @ optField ''parent_policy_id'' (\<lambda>v. (case v of None \<Rightarrow> JNull | Some s \<Rightarrow> JStr s)) (dl_parent_policy_id x)
     @ [(''valid_from'', JStr (dl_valid_from x))]
     @ [(''valid_until'', JStr (dl_valid_until x))]
     @ [(''revocation_pointer'', JStr (dl_revocation_pointer x))]
     @ optField ''nonce'' (\<lambda>v. JStr v) (dl_nonce x)"

record DelegationPolicyV2 = DelegationPolicyUnsignedV2 +
  dl_signature :: "string"

definition DelegationPolicyV2_obj :: "DelegationPolicyV2 \<Rightarrow> jsobj" where
  "DelegationPolicyV2_obj x =
     DelegationPolicyUnsignedV2_obj x
     @ [(''signature'', JStr (dl_signature x))]"

record AgentActionUnsignedV2 = 
  aa_type :: "string"
  aa_action_id :: "string"
  aa_agent :: "string"
  aa_principal :: "string"
  aa_action :: "string"
  aa_resource :: "string"
  aa_tool :: "string option"
  aa_parameters_commitment :: "string"
  aa_parameter_disclosure_policy :: "string option"
  aa_delegation_chain_root :: "string"
  aa_nonce :: "string"
  aa_value_minor_units :: "int option"
  aa_human_approval_proof :: "string option"
  aa_issued_at :: "string"

definition AgentActionUnsignedV2_obj :: "'a AgentActionUnsignedV2_scheme \<Rightarrow> jsobj" where
  "AgentActionUnsignedV2_obj x =
     [(''type'', JStr (aa_type x))]
     @ [(''action_id'', JStr (aa_action_id x))]
     @ [(''agent'', JStr (aa_agent x))]
     @ [(''principal'', JStr (aa_principal x))]
     @ [(''action'', JStr (aa_action x))]
     @ [(''resource'', JStr (aa_resource x))]
     @ optField ''tool'' (\<lambda>v. JStr v) (aa_tool x)
     @ [(''parameters_commitment'', JStr (aa_parameters_commitment x))]
     @ optField ''parameter_disclosure_policy'' (\<lambda>v. JStr v) (aa_parameter_disclosure_policy x)
     @ [(''delegation_chain_root'', JStr (aa_delegation_chain_root x))]
     @ [(''nonce'', JStr (aa_nonce x))]
     @ optField ''value_minor_units'' (\<lambda>v. JNum (JInt v)) (aa_value_minor_units x)
     @ optField ''human_approval_proof'' (\<lambda>v. JStr v) (aa_human_approval_proof x)
     @ [(''issued_at'', JStr (aa_issued_at x))]"

record AgentActionV2 = AgentActionUnsignedV2 +
  aa_signature :: "string"

definition AgentActionV2_obj :: "AgentActionV2 \<Rightarrow> jsobj" where
  "AgentActionV2_obj x =
     AgentActionUnsignedV2_obj x
     @ [(''signature'', JStr (aa_signature x))]"

record Groth16Artifact = 
  g16_protocol :: "string"
  g16_curve :: "string"
  g16_proof :: "jsval"
  g16_public_signals :: "string list"
  g16_verification_key :: "jsval option"

definition Groth16Artifact_obj :: "Groth16Artifact \<Rightarrow> jsobj" where
  "Groth16Artifact_obj x =
     [(''protocol'', JStr (g16_protocol x))]
     @ [(''curve'', JStr (g16_curve x))]
     @ [(''proof'', (g16_proof x))]
     @ [(''public_signals'', JArr (map JStr (g16_public_signals x)))]
     @ optField ''verification_key'' (\<lambda>v. v) (g16_verification_key x)"

record ZkThresholdProofV1 = 
  zk_type :: "string"
  zk_claim :: "string"
  zk_subject :: "string"
  zk_threshold :: "int"
  zk_witness_commitment :: "string"
  zk_public_input_hash :: "string"
  zk_proof :: "string"
  zk_circuit_id :: "string option"
  zk_verification_key_id :: "string option"
  zk_public_signal_commitment :: "string option"
  zk_release_manifest_hash :: "string option"
  zk_groth16 :: "Groth16Artifact option"
  zk_issued_at :: "string"

definition ZkThresholdProofV1_obj :: "ZkThresholdProofV1 \<Rightarrow> jsobj" where
  "ZkThresholdProofV1_obj x =
     [(''type'', JStr (zk_type x))]
     @ [(''claim'', JStr (zk_claim x))]
     @ [(''subject'', JStr (zk_subject x))]
     @ [(''threshold'', JNum (JInt (zk_threshold x)))]
     @ [(''witness_commitment'', JStr (zk_witness_commitment x))]
     @ [(''public_input_hash'', JStr (zk_public_input_hash x))]
     @ [(''proof'', JStr (zk_proof x))]
     @ optField ''circuit_id'' (\<lambda>v. JStr v) (zk_circuit_id x)
     @ optField ''verification_key_id'' (\<lambda>v. JStr v) (zk_verification_key_id x)
     @ optField ''public_signal_commitment'' (\<lambda>v. JStr v) (zk_public_signal_commitment x)
     @ optField ''release_manifest_hash'' (\<lambda>v. JStr v) (zk_release_manifest_hash x)
     @ optField ''groth16'' (\<lambda>v. JObj (Groth16Artifact_obj v)) (zk_groth16 x)
     @ [(''issued_at'', JStr (zk_issued_at x))]"

record ZkCircuitReleaseManifestV1 = 
  zm_type :: "string"
  zm_circuit_id :: "string"
  zm_claim :: "string"
  zm_version :: "string"
  zm_hash_suite :: "string"
  zm_witness_interface :: "string"
  zm_circuit_hash :: "string"
  zm_r1cs_hash :: "string"
  zm_wasm_hash :: "string"
  zm_zkey_hash :: "string"
  zm_verification_key_id :: "string"
  zm_verification_key_hash :: "string"
  zm_verification_key :: "jsval option"
  zm_public_signal_schema :: "jsobj option"
  zm_private_witness_schema :: "jsobj option"
  zm_soundness_bits :: "int option"
  zm_privacy_notes :: "string list option"
  zm_ceremony_transcript_hash :: "string"
  zm_auditor :: "string"
  zm_reviewer :: "string"
  zm_status :: "string"
  zm_signature_status :: "string"
  zm_issued_at :: "string"
  zm_signature :: "string option"

definition ZkCircuitReleaseManifestV1_obj :: "ZkCircuitReleaseManifestV1 \<Rightarrow> jsobj" where
  "ZkCircuitReleaseManifestV1_obj x =
     [(''type'', JStr (zm_type x))]
     @ [(''circuit_id'', JStr (zm_circuit_id x))]
     @ [(''claim'', JStr (zm_claim x))]
     @ [(''version'', JStr (zm_version x))]
     @ [(''hash_suite'', JStr (zm_hash_suite x))]
     @ [(''witness_interface'', JStr (zm_witness_interface x))]
     @ [(''circuit_hash'', JStr (zm_circuit_hash x))]
     @ [(''r1cs_hash'', JStr (zm_r1cs_hash x))]
     @ [(''wasm_hash'', JStr (zm_wasm_hash x))]
     @ [(''zkey_hash'', JStr (zm_zkey_hash x))]
     @ [(''verification_key_id'', JStr (zm_verification_key_id x))]
     @ [(''verification_key_hash'', JStr (zm_verification_key_hash x))]
     @ optField ''verification_key'' (\<lambda>v. v) (zm_verification_key x)
     @ optField ''public_signal_schema'' (\<lambda>v. JObj v) (zm_public_signal_schema x)
     @ optField ''private_witness_schema'' (\<lambda>v. JObj v) (zm_private_witness_schema x)
     @ optField ''soundness_bits'' (\<lambda>v. JNum (JInt v)) (zm_soundness_bits x)
     @ optField ''privacy_notes'' (\<lambda>v. JArr (map JStr v)) (zm_privacy_notes x)
     @ [(''ceremony_transcript_hash'', JStr (zm_ceremony_transcript_hash x))]
     @ [(''auditor'', JStr (zm_auditor x))]
     @ [(''reviewer'', JStr (zm_reviewer x))]
     @ [(''status'', JStr (zm_status x))]
     @ [(''signature_status'', JStr (zm_signature_status x))]
     @ [(''issued_at'', JStr (zm_issued_at x))]
     @ optField ''signature'' (\<lambda>v. JStr v) (zm_signature x)"

record ZkVerificationKeyRegistryV1 = 
  zr_type :: "string"
  zr_registry_id :: "string"
  zr_active_manifest_hashes :: "string list"
  zr_revoked_manifest_hashes :: "string list"
  zr_issued_at :: "string"
  zr_signature_status :: "string"
  zr_signature :: "string option"

definition ZkVerificationKeyRegistryV1_obj :: "ZkVerificationKeyRegistryV1 \<Rightarrow> jsobj" where
  "ZkVerificationKeyRegistryV1_obj x =
     [(''type'', JStr (zr_type x))]
     @ [(''registry_id'', JStr (zr_registry_id x))]
     @ [(''active_manifest_hashes'', JArr (map JStr (zr_active_manifest_hashes x)))]
     @ [(''revoked_manifest_hashes'', JArr (map JStr (zr_revoked_manifest_hashes x)))]
     @ [(''issued_at'', JStr (zr_issued_at x))]
     @ [(''signature_status'', JStr (zr_signature_status x))]
     @ optField ''signature'' (\<lambda>v. JStr v) (zr_signature x)"

end
