(* ===== verification/Demo.thy ===== *)
theory Demo
  imports Types
begin

text \<open>
  A concrete environment. It shows that the hypotheses on the packages can hold together, and the
  concrete runs of the other theories evaluate in it: hexadecimal text as the codec writes it, a digest of 32 bytes computed
  from the input, signatures that carry the key and the message, and a validator that accepts every object.
\<close>

definition demoBytesToHex :: "bytes \<Rightarrow> string" where
  "demoBytesToHex b = concat (map (\<lambda>w. [hexDigit (unat w div 16), hexDigit (unat w mod 16)]) b)"

fun demoHexToBytes :: "string \<Rightarrow> bytes" where
  "demoHexToBytes (a # b # s) = word_of_nat (16 * hexVal a + hexVal b) # demoHexToBytes s"
| "demoHexToBytes _ = []"

definition demoSha256 :: "bytes \<Rightarrow> bytes" where
  "demoSha256 b = replicate 28 0 @ [word_of_nat (length b), foldl (\<lambda>a w. 31 * a + w) 7 b, foldl (\<lambda>a w. 5 * a + 3 * w) 1 b, last (0 # b)]"

definition demoEnv :: env where
  "demoEnv = \<lparr>now_ms = 1767225600000, dateParseOther = (\<lambda>_. None), getenv = (\<lambda>_. None),
     randomBytes32 = (\<lambda>n. replicate 31 1 @ [word_of_nat n]),
     sha256 = demoSha256, nobleBytesToHex = demoBytesToHex, nobleHexToBytes = demoHexToBytes,
     edGetPublicKey = Inr, edSign = (\<lambda>msg seed. Inr (seed @ msg)), edVerify = (\<lambda>sig msg pk. Inr (sig = pk @ msg)),
     ajvValidate = (\<lambda>_ _. None)\<rparr>"

lemma unat_byte_bound: "unat (w :: 8 word) < 256"
proof -
  have "unat w < 2 ^ LENGTH(8)" by (rule unsigned_less)
  then show ?thesis by simp
qed

lemma demoHex_round_trip: "demoHexToBytes (demoBytesToHex b) = b"
proof (induction b)
  case (Cons w b)
  have "unat w div 16 < 16" "unat w mod 16 < 16"
    using unat_byte_bound [of w] by (simp_all add: less_mult_imp_div_less)
  then have "word_of_nat (16 * hexVal (hexDigit (unat w div 16)) + hexVal (hexDigit (unat w mod 16))) = w"
    by simp
  with Cons show ?case by (simp add: demoBytesToHex_def)
qed (simp add: demoBytesToHex_def)

lemma isHexDigitLower_hexDigit: "n < 16 \<Longrightarrow> isHexDigitLower (hexDigit n)"
  by (simp add: isHexDigitLower_def isDigit_def hexDigit_def of_char_char_of_nat)

lemma hex_codec_demo: "hex_codec demoEnv"
proof -
  have "length (demoBytesToHex b) = 2 * length b" for b
    by (induction b) (simp_all add: demoBytesToHex_def)
  moreover have "list_all isHexDigitLower (demoBytesToHex b)" for b
    using unat_byte_bound by (induction b) (auto simp: demoBytesToHex_def isHexDigitLower_hexDigit less_mult_imp_div_less)
  ultimately show ?thesis
    by (simp add: hex_codec_def demoEnv_def demoHex_round_trip)
qed

lemma sha256_length_demo: "sha256_length demoEnv"
  by (simp add: sha256_length_def demoEnv_def demoSha256_def)

lemma ed25519_correct_demo: "ed25519_correct demoEnv"
  by (simp add: ed25519_correct_def demoEnv_def)

lemmas demo_hyps = hex_codec_demo sha256_length_demo ed25519_correct_demo

section \<open>Objects for concrete runs\<close>

definition demoSeed :: string where
  "demoSeed = ''0x'' @ replicate 64 (CHR ''7'')"

definition demoEvent :: EventCommitmentUnsignedV1 where
  "demoEvent = \<lparr>ev_type = ''tsl.event_commitment.v1'', ev_event_class = ''message.signed'', ev_sender = ''tsl:alice'',
     ev_signing_key_id = ''tsl:alice#key-1'', ev_receiver_commitment = None, ev_content_commitment = ''0x'' @ replicate 64 (CHR ''a''),
     ev_metadata_commitment = None, ev_previous_event_commitment = None, ev_timestamp = ''2026-01-01T00:00:00.000Z'',
     ev_nonce = ''0x'' @ replicate 64 (CHR ''1''), ev_disclosure_policy = ''commitment_only''\<rparr>"

definition demoSigned :: "string \<Rightarrow> EventCommitmentV1" where
  "demoSigned sig = EventCommitmentUnsignedV1.extend demoEvent (EventCommitmentV1.fields sig)"

lemma demoSigned_sel [simp]: "ev_signature (demoSigned sig) = sig" "EventCommitmentUnsignedV1.truncate (demoSigned sig) = demoEvent"
  by (simp_all add: demoSigned_def EventCommitmentUnsignedV1.defs EventCommitmentV1.defs demoEvent_def)

end
