(* ===== verification/Crypto.thy ===== *)
theory Crypto
  imports Demo
begin

text \<open>
  Hashing, hexadecimal text, Ed25519 signatures and commitments
  (\<^verbatim>\<open>src/packages/core-ts/src/crypto.ts\<close>). A function that throws returns \<open>Inl\<close> the message. The digest, the
  curve and the hexadecimal codec are the packages of the environment.

  The locale \<open>signing_scheme\<close> is the contract that the signed objects of the protocol share: the hash covers every
  field but the signature, signing and verifying agree, and two objects with the same hash or commitment are equal unless
  SHA-256 has a collision on two inputs that are written out. It is interpreted for events, receipts, attestations,
  revocations and trust assessments.
\<close>

section \<open>Tags\<close>

definition IDENTITY_V1 :: string where "IDENTITY_V1 = ''tsl.identity.v1''"
definition EVENT_V1 :: string where "EVENT_V1 = ''tsl.event_commitment.v1''"
definition RECEIPT_V1 :: string where "RECEIPT_V1 = ''tsl.receipt_commitment.v1''"
definition ATTESTATION_V1 :: string where "ATTESTATION_V1 = ''tsl.attestation.v1''"
definition REVOCATION_V1 :: string where "REVOCATION_V1 = ''tsl.revocation.v1''"
definition CHECKPOINT_V1 :: string where "CHECKPOINT_V1 = ''tsl.batch_checkpoint.v1''"
definition MERKLE_LEAF_V1 :: string where "MERKLE_LEAF_V1 = ''tsl.merkle.leaf.v1''"
definition MERKLE_NODE_V1 :: string where "MERKLE_NODE_V1 = ''tsl.merkle.node.v1''"
definition ASSESSMENT_V1 :: string where "ASSESSMENT_V1 = ''tsl.trust_assessment.v1''"
definition ASSESSMENT_V2 :: string where "ASSESSMENT_V2 = ''tsl.trust_assessment.v2''"
definition PROOF_BUNDLE_V1 :: string where "PROOF_BUNDLE_V1 = ''tsl.proof_bundle.v1''"
definition COMMITMENT_V1 :: string where "COMMITMENT_V1 = ''tsl.commitment.v1''"
definition COMMITMENT_LEGACY_V1 :: string where "COMMITMENT_LEGACY_V1 = ''tsl.commitment.legacy.v1''"
definition DELEGATION_V2 :: string where "DELEGATION_V2 = ''tsl.delegation_policy.v2''"
definition AGENT_ACTION_V2 :: string where "AGENT_ACTION_V2 = ''tsl.agent_action.v2''"
definition AGENT_DELEGATION_V1 :: string where "AGENT_DELEGATION_V1 = ''tsl.agent_delegation.v1''"
definition AUDIT_FINDING_V1 :: string where "AUDIT_FINDING_V1 = ''tsl.audit.finding.v1''"
definition CONSISTENCY_PROOF_V1 :: string where "CONSISTENCY_PROOF_V1 = ''tsl.consistency_proof.v1''"
definition GOVERNANCE_POLICY_V1 :: string where "GOVERNANCE_POLICY_V1 = ''tsl.governance_policy.v1''"
definition NON_MEMBERSHIP_PROOF_V1 :: string where "NON_MEMBERSHIP_PROOF_V1 = ''tsl.zk.non_membership_proof.v1''"
definition ZK_THRESHOLD_V1 :: string where "ZK_THRESHOLD_V1 = ''tsl.zk.threshold_proof.v1''"
definition CONTENT_V1 :: string where "CONTENT_V1 = ''tsl.content.v1''"
definition METADATA_V1 :: string where "METADATA_V1 = ''tsl.metadata.v1''"
definition RECEIVER_V1 :: string where "RECEIVER_V1 = ''tsl.receiver.v1''"

lemmas tag_defs = IDENTITY_V1_def EVENT_V1_def RECEIPT_V1_def ATTESTATION_V1_def REVOCATION_V1_def
  CHECKPOINT_V1_def MERKLE_LEAF_V1_def MERKLE_NODE_V1_def ASSESSMENT_V1_def ASSESSMENT_V2_def PROOF_BUNDLE_V1_def
  COMMITMENT_V1_def COMMITMENT_LEGACY_V1_def DELEGATION_V2_def AGENT_ACTION_V2_def AGENT_DELEGATION_V1_def
  AUDIT_FINDING_V1_def CONSISTENCY_PROOF_V1_def GOVERNANCE_POLICY_V1_def NON_MEMBERSHIP_PROOF_V1_def
  ZK_THRESHOLD_V1_def CONTENT_V1_def METADATA_V1_def RECEIVER_V1_def

definition DOMAIN_TAGS :: "string list" where
  "DOMAIN_TAGS = [IDENTITY_V1, EVENT_V1, RECEIPT_V1, ATTESTATION_V1, REVOCATION_V1, CHECKPOINT_V1, MERKLE_LEAF_V1,
     MERKLE_NODE_V1, ASSESSMENT_V1, ASSESSMENT_V2, PROOF_BUNDLE_V1, COMMITMENT_V1, COMMITMENT_LEGACY_V1, DELEGATION_V2,
     AGENT_ACTION_V2, AGENT_DELEGATION_V1, AUDIT_FINDING_V1, CONSISTENCY_PROOF_V1, GOVERNANCE_POLICY_V1,
     NON_MEMBERSHIP_PROOF_V1, ZK_THRESHOLD_V1, CONTENT_V1, METADATA_V1, RECEIVER_V1]"

definition ZERO_HASH :: string where
  "ZERO_HASH = ''0x'' @ replicate 64 (CHR ''0'')"

section \<open>Hexadecimal text\<close>

definition isHexDigit :: "char \<Rightarrow> bool" where
  "isHexDigit c \<longleftrightarrow> isHexDigitLower c \<or> (65 \<le> (of_char c :: nat) \<and> (of_char c :: nat) \<le> 70)"

definition normalizeHex :: "string \<Rightarrow> string res" where
  "normalizeHex hex =
     (let stripped = (if startsWith hex ''0x'' then drop 2 hex else hex) in
      if length stripped mod 2 \<noteq> 0 then Inl ''Hex string must have an even number of characters''
      else if \<not> list_all isHexDigit stripped then Inl ''Invalid hex string''
      else Inr (toLowerCase stripped))"

definition hexToBytes :: "env \<Rightarrow> string \<Rightarrow> bytes res" where
  "hexToBytes E hex = bindE (normalizeHex hex) (\<lambda>s. Inr (nobleHexToBytes E s))"

definition bytesToHex :: "env \<Rightarrow> bytes \<Rightarrow> string" where
  "bytesToHex E b = ''0x'' @ nobleBytesToHex E b"

definition randomHex32 :: "env \<Rightarrow> nat \<Rightarrow> string" where
  "randomHex32 E n = bytesToHex E (randomBytes32 E n)"

section \<open>Hashing\<close>

text \<open>The argument of a hash or signature function is \<^verbatim>\<open>Uint8Array | string\<close>.\<close>

datatype data = DBytes bytes | DText string

definition encodeText :: "data \<Rightarrow> bytes" where
  "encodeText d = (case d of DBytes b \<Rightarrow> b | DText s \<Rightarrow> utf8 s)"

definition sha256Bytes :: "env \<Rightarrow> data \<Rightarrow> bytes" where
  "sha256Bytes E d = sha256 E (encodeText d)"

definition sha256Hex :: "env \<Rightarrow> data \<Rightarrow> string" where
  "sha256Hex E d = bytesToHex E (sha256Bytes E d)"

definition concatBytes :: "bytes list \<Rightarrow> bytes" where
  "concatBytes parts = concat parts"

definition writeBigUInt64BE :: "int \<Rightarrow> bytes" where
  "writeBigUInt64BE n = map (\<lambda>i. word_of_int (n div 256 ^ (7 - i))) [0..<8]"

definition uint64be :: "int \<Rightarrow> bytes res" where
  "uint64be n =
     (if n < 0 \<or> n > 0xffffffffffffffff then Inl ''uint64be value out of range''
      else Inr (writeBigUInt64BE n))"

definition hashDomain :: "env \<Rightarrow> string \<Rightarrow> data \<Rightarrow> string" where
  "hashDomain E tag d = sha256Hex E (DBytes (concatBytes [utf8 tag, [0], encodeText d]))"

section \<open>Ed25519\<close>

definition deriveEd25519PublicKey :: "env \<Rightarrow> string \<Rightarrow> string res" where
  "deriveEd25519PublicKey E seedHex =
     bindE (hexToBytes E seedHex) (\<lambda>seed. bindE (edGetPublicKey E seed) (\<lambda>pk. Inr (nobleBytesToHex E pk)))"

text \<open>A text message is hexadecimal, other than in the hash functions.\<close>

definition messageBytes :: "env \<Rightarrow> data \<Rightarrow> bytes res" where
  "messageBytes E m = (case m of DText s \<Rightarrow> hexToBytes E s | DBytes b \<Rightarrow> Inr b)"

definition signEd25519 :: "env \<Rightarrow> data \<Rightarrow> string \<Rightarrow> string res" where
  "signEd25519 E message seedHex =
     bindE (messageBytes E message) (\<lambda>b. bindE (hexToBytes E seedHex) (\<lambda>seed.
       bindE (edSign E b seed) (\<lambda>s. Inr (bytesToHex E s))))"

definition verifyEd25519 :: "env \<Rightarrow> string \<Rightarrow> data \<Rightarrow> string \<Rightarrow> bool res" where
  "verifyEd25519 E publicKeyHex message signatureHex =
     bindE (messageBytes E message) (\<lambda>b. Inr (catchE
       (bindE (hexToBytes E signatureHex) (\<lambda>s. bindE (hexToBytes E publicKeyHex) (\<lambda>pk. edVerify E s b pk)))
       False))"

section \<open>Object hashes and signatures\<close>

text \<open>\<^verbatim>\<open>"signature" in x ? withoutSignature(x) : x\<close>\<close>

definition unsignedPayload :: "jsobj \<Rightarrow> jsobj" where
  "unsignedPayload x = (if ''signature'' \<in> set (map fst x) then withoutSignature x else x)"

definition domainHash :: "env \<Rightarrow> string \<Rightarrow> jsobj \<Rightarrow> string res" where
  "domainHash E tag x = bindE (canonicalBytes (JObj x)) (\<lambda>b. Inr (hashDomain E tag (DBytes b)))"

definition commitmentHashFromParts :: "env \<Rightarrow> string \<Rightarrow> string \<Rightarrow> string res" where
  "commitmentHashFromParts E eventHashHex signatureHex =
     bindE (hexToBytes E eventHashHex) (\<lambda>h. bindE (hexToBytes E signatureHex) (\<lambda>s.
       Inr (hashDomain E COMMITMENT_V1 (DBytes (concatBytes [h, s])))))"

definition eventHash :: "env \<Rightarrow> jsobj \<Rightarrow> string res" where
  "eventHash E x = domainHash E EVENT_V1 (unsignedPayload x)"

definition signEvent :: "env \<Rightarrow> EventCommitmentUnsignedV1 \<Rightarrow> string \<Rightarrow> EventCommitmentV1 res" where
  "signEvent E u seedHex =
     bindE (eventHash E (EventCommitmentUnsignedV1_obj u)) (\<lambda>h. bindE (signEd25519 E (DText h) seedHex) (\<lambda>s.
       Inr (EventCommitmentUnsignedV1.extend u (EventCommitmentV1.fields s))))"

definition receiptHash :: "env \<Rightarrow> jsobj \<Rightarrow> string res" where
  "receiptHash E x = domainHash E RECEIPT_V1 (unsignedPayload x)"

definition signReceipt :: "env \<Rightarrow> ReceiptCommitmentUnsignedV1 \<Rightarrow> string \<Rightarrow> ReceiptCommitmentV1 res" where
  "signReceipt E u seedHex =
     bindE (receiptHash E (ReceiptCommitmentUnsignedV1_obj u)) (\<lambda>h. bindE (signEd25519 E (DText h) seedHex) (\<lambda>s.
       Inr (ReceiptCommitmentUnsignedV1.extend u (ReceiptCommitmentV1.fields s))))"

definition receiptCommitmentHash :: "env \<Rightarrow> ReceiptCommitmentV1 \<Rightarrow> string res" where
  "receiptCommitmentHash E r =
     bindE (receiptHash E (ReceiptCommitmentV1_obj r)) (\<lambda>h. commitmentHashFromParts E h (rc_signature r))"

definition attestationHash :: "env \<Rightarrow> jsobj \<Rightarrow> string res" where
  "attestationHash E x = domainHash E ATTESTATION_V1 (unsignedPayload x)"

definition signAttestation :: "env \<Rightarrow> AttestationUnsignedV1 \<Rightarrow> string \<Rightarrow> AttestationV1 res" where
  "signAttestation E u seedHex =
     bindE (attestationHash E (AttestationUnsignedV1_obj u)) (\<lambda>h. bindE (signEd25519 E (DText h) seedHex) (\<lambda>s.
       Inr (AttestationUnsignedV1.extend u (AttestationV1.fields s))))"

definition attestationCommitmentHash :: "env \<Rightarrow> AttestationV1 \<Rightarrow> string res" where
  "attestationCommitmentHash E a =
     bindE (attestationHash E (AttestationV1_obj a)) (\<lambda>h. commitmentHashFromParts E h (att_signature a))"

definition revocationHash :: "env \<Rightarrow> jsobj \<Rightarrow> string res" where
  "revocationHash E x = domainHash E REVOCATION_V1 (unsignedPayload x)"

definition signRevocation :: "env \<Rightarrow> RevocationUnsignedV1 \<Rightarrow> string \<Rightarrow> RevocationV1 res" where
  "signRevocation E u seedHex =
     bindE (revocationHash E (RevocationUnsignedV1_obj u)) (\<lambda>h. bindE (signEd25519 E (DText h) seedHex) (\<lambda>s.
       Inr (RevocationUnsignedV1.extend u (RevocationV1.fields s))))"

definition revocationCommitmentHash :: "env \<Rightarrow> RevocationV1 \<Rightarrow> string res" where
  "revocationCommitmentHash E r =
     bindE (revocationHash E (RevocationV1_obj r)) (\<lambda>h. commitmentHashFromParts E h (rev_signature r))"

definition assessmentHash :: "env \<Rightarrow> jsobj \<Rightarrow> string res" where
  "assessmentHash E x = domainHash E ASSESSMENT_V1 (unsignedPayload x)"

definition signTrustAssessment :: "env \<Rightarrow> TrustAssessmentUnsignedV1 \<Rightarrow> string \<Rightarrow> TrustAssessmentV1 res" where
  "signTrustAssessment E u seedHex =
     bindE (assessmentHash E (TrustAssessmentUnsignedV1_obj u)) (\<lambda>h. bindE (signEd25519 E (DText h) seedHex) (\<lambda>s.
       Inr (TrustAssessmentUnsignedV1.extend u (TrustAssessmentV1.fields s))))"

definition assessmentCommitmentHash :: "env \<Rightarrow> TrustAssessmentV1 \<Rightarrow> string res" where
  "assessmentCommitmentHash E a =
     bindE (assessmentHash E (TrustAssessmentV1_obj a)) (\<lambda>h. commitmentHashFromParts E h (ta_signature a))"

definition verifyReceipt :: "env \<Rightarrow> ReceiptCommitmentV1 \<Rightarrow> string \<Rightarrow> bool res" where
  "verifyReceipt E r publicKeyHex =
     bindE (receiptHash E (ReceiptCommitmentV1_obj r)) (\<lambda>h. verifyEd25519 E publicKeyHex (DText h) (rc_signature r))"

definition verifyAttestation :: "env \<Rightarrow> AttestationV1 \<Rightarrow> string \<Rightarrow> bool res" where
  "verifyAttestation E a publicKeyHex =
     bindE (attestationHash E (AttestationV1_obj a)) (\<lambda>h. verifyEd25519 E publicKeyHex (DText h) (att_signature a))"

definition verifyRevocation :: "env \<Rightarrow> RevocationV1 \<Rightarrow> string \<Rightarrow> bool res" where
  "verifyRevocation E r publicKeyHex =
     bindE (revocationHash E (RevocationV1_obj r)) (\<lambda>h. verifyEd25519 E publicKeyHex (DText h) (rev_signature r))"

definition verifyTrustAssessment :: "env \<Rightarrow> TrustAssessmentV1 \<Rightarrow> string \<Rightarrow> bool res" where
  "verifyTrustAssessment E a publicKeyHex =
     bindE (assessmentHash E (TrustAssessmentV1_obj a)) (\<lambda>h. verifyEd25519 E publicKeyHex (DText h) (ta_signature a))"

text \<open>The payload of a delegation is a copy of the object from which the two signatures are deleted.\<close>

definition agentDelegationHash :: "env \<Rightarrow> jsobj \<Rightarrow> string res" where
  "agentDelegationHash E x =
     domainHash E AGENT_DELEGATION_V1 (filter (\<lambda>(k, v). k \<noteq> ''controller_signature'' \<and> k \<noteq> ''agent_signature'') x)"

definition signAgentDelegation :: "env \<Rightarrow> AgentDelegationUnsignedV1 \<Rightarrow> string \<Rightarrow> string \<Rightarrow> AgentDelegationV1 res" where
  "signAgentDelegation E u controllerSeedHex agentSeedHex =
     bindE (agentDelegationHash E (AgentDelegationUnsignedV1_obj u)) (\<lambda>h.
     bindE (signEd25519 E (DText h) controllerSeedHex) (\<lambda>cs.
     bindE (signEd25519 E (DText h) agentSeedHex) (\<lambda>as.
       Inr (AgentDelegationUnsignedV1.extend u (AgentDelegationV1.fields cs as)))))"

definition auditFindingHash :: "env \<Rightarrow> jsobj \<Rightarrow> string res" where
  "auditFindingHash E x = domainHash E AUDIT_FINDING_V1 (unsignedPayload x)"

definition signAuditFinding :: "env \<Rightarrow> AuditFindingUnsignedV1 \<Rightarrow> string \<Rightarrow> AuditFindingV1 res" where
  "signAuditFinding E u auditorSeedHex =
     bindE (auditFindingHash E (AuditFindingUnsignedV1_obj u)) (\<lambda>h. bindE (signEd25519 E (DText h) auditorSeedHex) (\<lambda>s.
       Inr (AuditFindingUnsignedV1.extend u (AuditFindingV1.fields s))))"

definition governancePolicyHash :: "env \<Rightarrow> jsobj \<Rightarrow> string res" where
  "governancePolicyHash E x = domainHash E GOVERNANCE_POLICY_V1 (unsignedPayload x)"

definition signGovernancePolicy :: "env \<Rightarrow> GovernancePolicyUnsignedV1 \<Rightarrow> string \<Rightarrow> GovernancePolicyV1 res" where
  "signGovernancePolicy E u authoritySeedHex =
     bindE (governancePolicyHash E (GovernancePolicyUnsignedV1_obj u)) (\<lambda>h. bindE (signEd25519 E (DText h) authoritySeedHex) (\<lambda>s.
       Inr (GovernancePolicyUnsignedV1.extend u (GovernancePolicyV1.fields s))))"

definition verifyGovernancePolicy :: "env \<Rightarrow> GovernancePolicyV1 \<Rightarrow> string \<Rightarrow> bool res" where
  "verifyGovernancePolicy E p publicKeyHex =
     bindE (governancePolicyHash E (GovernancePolicyV1_obj p)) (\<lambda>h. verifyEd25519 E publicKeyHex (DText h) (gp_signature p))"

section \<open>Commitments\<close>

definition legacyCommitmentHashFromParts :: "env \<Rightarrow> string \<Rightarrow> string \<Rightarrow> string res" where
  "legacyCommitmentHashFromParts E eventHashHex signatureHex =
     bindE (hexToBytes E eventHashHex) (\<lambda>h. bindE (hexToBytes E signatureHex) (\<lambda>s.
       Inr (sha256Hex E (DBytes (concatBytes [h, s])))))"

definition legacyCommitmentHash :: "env \<Rightarrow> EventCommitmentV1 \<Rightarrow> string res" where
  "legacyCommitmentHash E ev =
     bindE (eventHash E (EventCommitmentV1_obj ev)) (\<lambda>h. legacyCommitmentHashFromParts E h (ev_signature ev))"

definition commitmentHash :: "env \<Rightarrow> EventCommitmentV1 \<Rightarrow> string res" where
  "commitmentHash E ev =
     bindE (eventHash E (EventCommitmentV1_obj ev)) (\<lambda>h. commitmentHashFromParts E h (ev_signature ev))"

definition contentCommitment :: "env \<Rightarrow> string \<Rightarrow> string \<Rightarrow> string res" where
  "contentCommitment E rawMessage saltHex =
     bindE (hexToBytes E saltHex) (\<lambda>salt. Inr (hashDomain E CONTENT_V1 (DBytes (concatBytes [utf8 rawMessage, salt]))))"

definition metadataCommitment :: "env \<Rightarrow> jsval \<Rightarrow> string \<Rightarrow> string res" where
  "metadataCommitment E canonicalMetadata saltHex =
     bindE (canonicalBytes canonicalMetadata) (\<lambda>m. bindE (hexToBytes E saltHex) (\<lambda>salt.
       Inr (hashDomain E METADATA_V1 (DBytes (concatBytes [m, salt])))))"

definition receiverCommitment :: "env \<Rightarrow> string \<Rightarrow> string \<Rightarrow> string res" where
  "receiverCommitment E receiverTrustId saltHex =
     bindE (hexToBytes E saltHex) (\<lambda>salt. Inr (hashDomain E RECEIVER_V1 (DBytes (concatBytes [utf8 receiverTrustId, salt]))))"

section \<open>Hexadecimal text and integers\<close>

lemma isHexDigitLower_isHexDigit: "isHexDigitLower c \<Longrightarrow> isHexDigit c"
  by (simp add: isHexDigit_def)

lemma lowerChar_isHexDigitLower: "isHexDigitLower c \<Longrightarrow> lowerChar c = c"
  by (auto simp: isHexDigitLower_def isDigit_def lowerChar_def)

lemma toLowerCase_hex: "list_all isHexDigitLower s \<Longrightarrow> toLowerCase s = s"
  by (induction s) (simp_all add: toLowerCase_def lowerChar_isHexDigitLower)

lemma not_isHexDigit_x: "\<not> isHexDigit (CHR ''x'')"
  by (simp add: isHexDigit_def isHexDigitLower_def isDigit_def)

lemma hex_not_0x: "list_all isHexDigit s \<Longrightarrow> \<not> startsWith s ''0x''"
  by (auto simp: startsWith_iff not_isHexDigit_x)

lemma normalizeHex_lower:
  assumes "list_all isHexDigitLower s" "even (length s)"
  shows "normalizeHex s = Inr s" "normalizeHex (''0x'' @ s) = Inr s"
proof -
  have d: "list_all isHexDigit s"
    using assms(1) isHexDigitLower_isHexDigit list.pred_mono_strong by blast
  then show "normalizeHex s = Inr s"
    using assms hex_not_0x [OF d] by (simp add: normalizeHex_def toLowerCase_hex even_iff_mod_2_eq_zero)
  show "normalizeHex (''0x'' @ s) = Inr s"
    using d assms by (simp add: normalizeHex_def startsWith_def toLowerCase_hex even_iff_mod_2_eq_zero)
qed

lemma hexToBytes_bytesToHex:
  assumes "hex_codec E"
  shows "hexToBytes E (bytesToHex E b) = Inr b" "hexToBytes E (nobleBytesToHex E b) = Inr b"
  using assms normalizeHex_lower [of "nobleBytesToHex E b"]
  by (simp_all add: hexToBytes_def bytesToHex_def hex_codec_def)

lemma bytesToHex_inject: "hex_codec E \<Longrightarrow> bytesToHex E a = bytesToHex E b \<longleftrightarrow> a = b"
  by (metis hexToBytes_bytesToHex(1) sum.inject(2))

lemma length_bytesToHex: "hex_codec E \<Longrightarrow> length (bytesToHex E b) = 2 + 2 * length b"
  by (simp add: bytesToHex_def hex_codec_def)

definition readUint64be :: "bytes \<Rightarrow> int" where
  "readUint64be b = foldl (\<lambda>a w. a * 256 + uint w) 0 b"

lemma readUint64be_uint64be:
  assumes "uint64be n = Inr b"
  shows "readUint64be b = n" "length b = 8"
proof -
  have r: "0 \<le> n" "n < 256 ^ 8" and b: "b = map (\<lambda>i. word_of_int (n div 256 ^ (7 - i))) [0..<8]"
    using assms by (auto simp: uint64be_def writeBigUInt64BE_def split: if_splits)
  show "length b = 8" by (simp add: b)
  have step: "n div 256 ^ Suc k * 256 + n div 256 ^ k mod 256 = n div 256 ^ k" for k
    by (simp add: power_Suc2 zdiv_zmult2_eq del: power_Suc)
  have "foldl (\<lambda>a w. a * 256 + uint w) 0 (map (\<lambda>i. word_of_int (n div 256 ^ (7 - i)) :: 8 word) [0..<k]) = n div 256 ^ (8 - k)"
    if "k \<le> 8" for k
    using that
  proof (induction k)
    case 0
    then show ?case using r by simp
  next
    case (Suc k)
    then have "8 - k = Suc (7 - k)" "8 - Suc k = 7 - k" by simp_all
    then show ?case using Suc step [of "7 - k"] by (simp add: uint_word_of_int del: power_Suc)
  qed
  from this [of 8] show "readUint64be b = n" by (simp add: b readUint64be_def)
qed

lemma uint64be_range: "(\<exists>b. uint64be n = Inr b) \<longleftrightarrow> 0 \<le> n \<and> n < 2 ^ 64"
  by (auto simp: uint64be_def)

section \<open>Domain separation\<close>

text \<open>What SHA-256 is applied to: the tag, a zero byte and the payload.\<close>

definition domainInput :: "string \<Rightarrow> bytes \<Rightarrow> bytes" where
  "domainInput tag b = utf8 tag @ 0 # b"

lemma hashDomain_eq: "hashDomain E tag d = bytesToHex E (sha256 E (domainInput tag (encodeText d)))"
  by (simp add: hashDomain_def sha256Hex_def sha256Bytes_def encodeText_def concatBytes_def domainInput_def)

lemma domainInput_inject:
  assumes "CHR 0x00 \<notin> set t" "CHR 0x00 \<notin> set t'"
  shows "domainInput t b = domainInput t' b' \<longleftrightarrow> t = t' \<and> b = b'"
  using separator_split_unique [of "utf8 t" 0 b "utf8 t'" b'] zero_notin_utf8 assms
  by (auto simp: domainInput_def utf8_inject)

lemma hashDomain_binding:
  assumes "hex_codec E" "CHR 0x00 \<notin> set t" "CHR 0x00 \<notin> set t'" "hashDomain E t (DBytes b) = hashDomain E t' (DBytes b')"
  shows "t = t' \<and> b = b' \<or> sha256_collision E {domainInput t b} {domainInput t' b'}"
  using assms domainInput_inject [OF assms(2,3)]
  by (auto simp: hashDomain_eq bytesToHex_inject sha256_collision_def encodeText_def)

lemma hexToBytes_hashDomain:
  assumes "hex_codec E"
  shows "hexToBytes E (hashDomain E t d) = Inr (sha256 E (domainInput t (encodeText d)))"
  by (simp add: hashDomain_eq hexToBytes_bytesToHex(1) [OF assms])

lemma domainHash_Inr:
  "domainHash E t x = Inr h \<longleftrightarrow> (\<exists>b. canonicalBytes (JObj x) = Inr b \<and> h = hashDomain E t (DBytes b))"
  by (auto simp: domainHash_def bindE_eq_Inr)

lemma domainHash_defined: "(\<exists>h. domainHash E t x = Inr h) \<longleftrightarrow> jsonSafe (JObj x)"
  using jsonSafe_iff [of "JObj x"] by (auto simp: domainHash_Inr canonicalBytes_def canonicalize_def bindE_eq_Inr)

lemma tags_plain: "t \<in> set DOMAIN_TAGS \<Longrightarrow> CHR 0x00 \<notin> set t"
  by (auto simp: DOMAIN_TAGS_def tag_defs)

lemma tags_distinct: "distinct DOMAIN_TAGS"
  by (simp add: DOMAIN_TAGS_def tag_defs)

text \<open>The two inputs that are hashed for the commitment of a signed object.\<close>

definition commitInputs :: "env \<Rightarrow> string \<Rightarrow> jsobj \<Rightarrow> string \<Rightarrow> bytes list" where
  "commitInputs E tag x signatureHex =
     (case (canonicalBytes (JObj x), hexToBytes E signatureHex) of
        (Inr b, Inr s) \<Rightarrow> [domainInput tag b, domainInput COMMITMENT_V1 (sha256 E (domainInput tag b) @ s)]
      | _ \<Rightarrow> [])"

section \<open>Fields of an object, up to the order of keys\<close>

definition objGet :: "jsobj \<Rightarrow> string \<Rightarrow> jsval option" where
  "objGet x k = map_option normKeys (map_of x k)"

lemma map_of_filter_key: "map_of xs k = map_of (filter (\<lambda>y. fst y = k) xs) k"
  by (induction xs) auto

lemma map_of_sort_key: "map_of (sort_key fst xs) = map_of (xs :: (string \<times> 'a) list)"
proof
  fix k
  show "map_of (sort_key fst xs) k = map_of xs k"
    by (subst (1 2) map_of_filter_key) (simp only: sort_key_stable)
qed

lemma objGet_eq: "normKeys (JObj x) = normKeys (JObj y) \<Longrightarrow> objGet x k = objGet y k"
proof -
  assume "normKeys (JObj x) = normKeys (JObj y)"
  then have "map_of (map (\<lambda>kv. (fst kv, normKeys (snd kv))) (sort_key fst x)) k =
      map_of (map (\<lambda>kv. (fst kv, normKeys (snd kv))) (sort_key fst y)) k"
    by (simp add: normKeys_JObj)
  then show ?thesis
    by (simp add: objGet_def map_of_map [of normKeys, unfolded case_prod_beta] map_of_sort_key)
qed

lemma objGet_simps [simp]:
  "objGet [] k = None"
  "objGet ((k', v) # r) k = (if k = k' then Some (normKeys v) else objGet r k)"
  "k \<noteq> k' \<Longrightarrow> objGet (optField k' f w @ r) k = objGet r k"
  "objGet r k = None \<Longrightarrow> objGet (optField k f w @ r) k = map_option (\<lambda>y. normKeys (f y)) w"
  "objGet (optField k' f w) k = (if k = k' then map_option (\<lambda>y. normKeys (f y)) w else None)"
  by (cases w; auto simp: objGet_def)+

lemma map_option_wire_inject [simp]:
  "map_option JStr a = map_option JStr b \<longleftrightarrow> a = b"
  "map_option (\<lambda>i. JNum (JInt i)) c = map_option (\<lambda>i. JNum (JInt i)) d \<longleftrightarrow> c = d"
  "map_option JBool e = map_option JBool f \<longleftrightarrow> e = f"
  by (auto simp: map_option_case split: option.splits)

lemma map_JStr_inject [simp]: "map JStr xs = map JStr ys \<longleftrightarrow> xs = ys"
  by (rule inj_map_eq_map) (simp add: inj_def)

lemma map_option_map_JStr_inject [simp]:
  "map_option (\<lambda>v. JArr (map JStr v)) a = map_option (\<lambda>v. JArr (map JStr v)) b \<longleftrightarrow> a = b"
  by (auto simp: map_option_case split: option.splits)

lemma normKeys_comp_JStr [simp]: "normKeys \<circ> JStr = JStr"
  by auto

section \<open>The contract of the signed objects\<close>

locale signing_scheme =
  fixes tag :: string
    and unsignedObj :: "'u \<Rightarrow> jsobj"
    and signedObj :: "'s \<Rightarrow> jsobj"
    and attach :: "'u \<Rightarrow> string \<Rightarrow> 's"
    and unsignedOf :: "'s \<Rightarrow> 'u"
    and sigOf :: "'s \<Rightarrow> string"
    and hashOf :: "env \<Rightarrow> jsobj \<Rightarrow> string res"
    and sign :: "env \<Rightarrow> 'u \<Rightarrow> string \<Rightarrow> 's res"
    and commit :: "env \<Rightarrow> 's \<Rightarrow> string res"
  assumes hashOf: "hashOf E x = domainHash E tag (unsignedPayload x)"
    and sign: "sign E u seedHex =
      bindE (hashOf E (unsignedObj u)) (\<lambda>h. bindE (signEd25519 E (DText h) seedHex) (\<lambda>s. Inr (attach u s)))"
    and commit: "commit E y = bindE (hashOf E (signedObj y)) (\<lambda>h. commitmentHashFromParts E h (sigOf y))"
    and signedObj: "signedObj (attach u s) = unsignedObj u @ [(''signature'', JStr s)]"
    and sigOf: "sigOf (attach u s) = s"
    and attach: "attach (unsignedOf y) (sigOf y) = y"
    and plain: "kv \<in> set (unsignedObj u) \<Longrightarrow> fst kv \<noteq> ''signature'' \<and> snd kv \<noteq> JUndefined"
    and binding: "normKeys (JObj (unsignedObj u)) = normKeys (JObj (unsignedObj v)) \<Longrightarrow> u = v"
    and tag: "tag \<in> set DOMAIN_TAGS"
begin

lemma payload_unsigned: "unsignedPayload (unsignedObj u) = unsignedObj u"
  by (auto simp: unsignedPayload_def dest: plain)

lemma payload_signed: "unsignedPayload (signedObj y) = unsignedObj (unsignedOf y)"
proof -
  have "signedObj y = unsignedObj (unsignedOf y) @ [(''signature'', JStr (sigOf y))]"
    by (metis attach signedObj)
  moreover have "filter (\<lambda>(k, v). k \<noteq> ''signature'' \<and> v \<noteq> JUndefined) (unsignedObj u) = unsignedObj u" for u
    by (auto simp: filter_id_conv dest: plain)
  ultimately show ?thesis
    by (simp add: unsignedPayload_def withoutSignature_def withoutField_def)
qed

lemma hash_ignores_signature: "hashOf E (signedObj y) = hashOf E (unsignedObj (unsignedOf y))"
  by (simp add: hashOf payload_signed payload_unsigned)

lemma hash_Inr:
  "hashOf E (unsignedObj u) = Inr h \<longleftrightarrow>
     (\<exists>b. canonicalBytes (JObj (unsignedObj u)) = Inr b \<and> h = hashDomain E tag (DBytes b))"
  by (simp add: hashOf payload_unsigned domainHash_Inr)

lemma hash_binding:
  assumes "hex_codec E" "hashOf E (unsignedObj u) = Inr h" "hashOf E (unsignedObj v) = Inr h"
  obtains "u = v"
  | b b' where "canonicalBytes (JObj (unsignedObj u)) = Inr b" "canonicalBytes (JObj (unsignedObj v)) = Inr b'"
      "sha256_collision E {domainInput tag b} {domainInput tag b'}"
proof -
  obtain b b' where b: "canonicalBytes (JObj (unsignedObj u)) = Inr b" "canonicalBytes (JObj (unsignedObj v)) = Inr b'"
    and h: "hashDomain E tag (DBytes b) = hashDomain E tag (DBytes b')"
    using assms(2,3) by (auto simp: hash_Inr)
  show thesis
  proof (cases "b = b'")
    case True
    then have "u = v" using canonicalBytes_eq_iff b binding by metis
    then show thesis by (rule that(1))
  next
    case False
    then show thesis using that(2) [OF b] hashDomain_binding [OF assms(1) tags_plain [OF tag] tags_plain [OF tag] h] by blast
  qed
qed

lemma sign_verify:
  assumes E: "hex_codec E" "ed25519_correct E"
    and seed: "hexToBytes E seedHex = Inr seed" "length seed = 32"
    and h: "hashOf E (unsignedObj u) = Inr h"
  shows "\<exists>pk y. deriveEd25519PublicKey E seedHex = Inr pk \<and> sign E u seedHex = Inr y \<and> unsignedOf y = u
     \<and> hashOf E (signedObj y) = Inr h \<and> verifyEd25519 E pk (DText h) (sigOf y) = Inr True"
proof -
  obtain b where m: "hexToBytes E h = Inr b"
    using h hexToBytes_hashDomain [OF E(1)] by (auto simp: hash_Inr)
  obtain pk s where k: "edGetPublicKey E seed = Inr pk" "edSign E b seed = Inr s" "edVerify E s b pk = Inr True"
    using E(2) seed(2) unfolding ed25519_correct_def by blast
  let ?y = "attach u (bytesToHex E s)"
  have "sign E u seedHex = Inr ?y"
    by (simp add: sign h signEd25519_def messageBytes_def m seed k)
  moreover have u: "unsignedOf ?y = u"
    using attach [of ?y] signedObj binding append_same_eq
    by (metis append1_eq_conv)
  moreover have "hashOf E (signedObj ?y) = Inr h"
    by (simp add: hash_ignores_signature u h)
  ultimately show ?thesis
    by (intro exI [of _ "nobleBytesToHex E pk"] exI [of _ ?y])
      (simp add: deriveEd25519PublicKey_def seed k verifyEd25519_def messageBytes_def m sigOf hexToBytes_bytesToHex [OF E(1)])
qed

lemma commit_Inr:
  assumes "hex_codec E" "commit E y = Inr c"
  obtains b s where "canonicalBytes (JObj (unsignedObj (unsignedOf y))) = Inr b" "hexToBytes E (sigOf y) = Inr s"
    "c = hashDomain E COMMITMENT_V1 (DBytes (sha256 E (domainInput tag b) @ s))"
  using assms(2) that
  by (auto simp: commit bindE_eq_Inr hash_ignores_signature hash_Inr commitmentHashFromParts_def concatBytes_def
      hexToBytes_hashDomain [OF assms(1)] encodeText_def)

lemma commit_binding:
  assumes E: "hex_codec E" "sha256_length E" and c: "commit E x = Inr c" "commit E y = Inr c"
  shows "unsignedOf x = unsignedOf y \<and> hexToBytes E (sigOf x) = hexToBytes E (sigOf y)
    \<or> sha256_collision E (set (commitInputs E tag (unsignedObj (unsignedOf x)) (sigOf x)))
        (set (commitInputs E tag (unsignedObj (unsignedOf y)) (sigOf y)))"
proof -
  obtain b s where x: "canonicalBytes (JObj (unsignedObj (unsignedOf x))) = Inr b" "hexToBytes E (sigOf x) = Inr s"
    "c = hashDomain E COMMITMENT_V1 (DBytes (sha256 E (domainInput tag b) @ s))"
    using commit_Inr [OF E(1) c(1)] by blast
  obtain b' s' where y: "canonicalBytes (JObj (unsignedObj (unsignedOf y))) = Inr b'" "hexToBytes E (sigOf y) = Inr s'"
    "c = hashDomain E COMMITMENT_V1 (DBytes (sha256 E (domainInput tag b') @ s'))"
    using commit_Inr [OF E(1) c(2)] by blast
  let ?h = "sha256 E (domainInput tag b)" and ?h' = "sha256 E (domainInput tag b')"
  have t: "CHR 0x00 \<notin> set COMMITMENT_V1" by (simp add: tag_defs)
  have "?h @ s = ?h' @ s' \<or> sha256_collision E {domainInput COMMITMENT_V1 (?h @ s)} {domainInput COMMITMENT_V1 (?h' @ s')}"
    using hashDomain_binding [OF E(1) t t] x(3) y(3) by blast
  moreover have "length ?h = length ?h'" using E(2) by (simp add: sha256_length_def)
  ultimately have "?h = ?h' \<and> s = s' \<or> sha256_collision E {domainInput COMMITMENT_V1 (?h @ s)} {domainInput COMMITMENT_V1 (?h' @ s')}"
    by auto
  moreover have "b = b' \<Longrightarrow> unsignedOf x = unsignedOf y" using canonicalBytes_eq_iff x(1) y(1) binding by metis
  moreover have "domainInput tag b = domainInput tag b' \<Longrightarrow> b = b'" by (simp add: domainInput_def)
  ultimately show ?thesis
    by (auto simp: commitInputs_def x y sha256_collision_def)
qed

end

section \<open>The signed objects of the protocol\<close>

lemma EventCommitmentUnsignedV1_obj_inject:
  assumes "normKeys (JObj (EventCommitmentUnsignedV1_obj x)) = normKeys (JObj (EventCommitmentUnsignedV1_obj (y :: EventCommitmentUnsignedV1)))"
  shows "x = y"
  using
    objGet_eq [OF assms, of "''type''"] objGet_eq [OF assms, of "''event_class''"] objGet_eq [OF assms, of "''sender''"]
    objGet_eq [OF assms, of "''signing_key_id''"] objGet_eq [OF assms, of "''receiver_commitment''"]
    objGet_eq [OF assms, of "''content_commitment''"] objGet_eq [OF assms, of "''metadata_commitment''"]
    objGet_eq [OF assms, of "''previous_event_commitment''"] objGet_eq [OF assms, of "''timestamp''"]
    objGet_eq [OF assms, of "''nonce''"] objGet_eq [OF assms, of "''disclosure_policy''"]
  by (cases x; cases y) (simp add: EventCommitmentUnsignedV1_obj_def)

interpretation event: signing_scheme EVENT_V1 EventCommitmentUnsignedV1_obj EventCommitmentV1_obj
  "\<lambda>u s. EventCommitmentUnsignedV1.extend u (EventCommitmentV1.fields s)" EventCommitmentUnsignedV1.truncate ev_signature eventHash signEvent commitmentHash
proof unfold_locales
  show "u = v" if "normKeys (JObj (EventCommitmentUnsignedV1_obj u)) = normKeys (JObj (EventCommitmentUnsignedV1_obj v))" for u v :: EventCommitmentUnsignedV1
    using that by (rule EventCommitmentUnsignedV1_obj_inject)
qed (auto simp: eventHash_def signEvent_def commitmentHash_def EventCommitmentUnsignedV1_obj_def EventCommitmentV1_obj_def DOMAIN_TAGS_def
      EventCommitmentUnsignedV1.defs EventCommitmentV1.defs optField_def split: option.splits)

lemma ReceiptCommitmentUnsignedV1_obj_inject:
  assumes "normKeys (JObj (ReceiptCommitmentUnsignedV1_obj x)) = normKeys (JObj (ReceiptCommitmentUnsignedV1_obj (y :: ReceiptCommitmentUnsignedV1)))"
  shows "x = y"
  using
    objGet_eq [OF assms, of "''type''"] objGet_eq [OF assms, of "''event_commitment''"]
    objGet_eq [OF assms, of "''receiver''"] objGet_eq [OF assms, of "''signing_key_id''"]
    objGet_eq [OF assms, of "''receipt_class''"] objGet_eq [OF assms, of "''timestamp''"]
    objGet_eq [OF assms, of "''metadata_commitment''"]
  by (cases x; cases y) (simp add: ReceiptCommitmentUnsignedV1_obj_def)

interpretation receipt: signing_scheme RECEIPT_V1 ReceiptCommitmentUnsignedV1_obj ReceiptCommitmentV1_obj
  "\<lambda>u s. ReceiptCommitmentUnsignedV1.extend u (ReceiptCommitmentV1.fields s)" ReceiptCommitmentUnsignedV1.truncate rc_signature receiptHash signReceipt receiptCommitmentHash
proof unfold_locales
  show "u = v" if "normKeys (JObj (ReceiptCommitmentUnsignedV1_obj u)) = normKeys (JObj (ReceiptCommitmentUnsignedV1_obj v))" for u v :: ReceiptCommitmentUnsignedV1
    using that by (rule ReceiptCommitmentUnsignedV1_obj_inject)
qed (auto simp: receiptHash_def signReceipt_def receiptCommitmentHash_def ReceiptCommitmentUnsignedV1_obj_def ReceiptCommitmentV1_obj_def DOMAIN_TAGS_def
      ReceiptCommitmentUnsignedV1.defs ReceiptCommitmentV1.defs optField_def split: option.splits)

lemma AttestationUnsignedV1_obj_inject:
  assumes "normKeys (JObj (AttestationUnsignedV1_obj x)) = normKeys (JObj (AttestationUnsignedV1_obj (y :: AttestationUnsignedV1)))"
  shows "x = y"
  using
    objGet_eq [OF assms, of "''type''"] objGet_eq [OF assms, of "''issuer''"] objGet_eq [OF assms, of "''subject''"]
    objGet_eq [OF assms, of "''attestation_class''"] objGet_eq [OF assms, of "''claim_commitment''"]
    objGet_eq [OF assms, of "''visibility''"] objGet_eq [OF assms, of "''issued_at''"]
    objGet_eq [OF assms, of "''expires_at''"]
  by (cases x; cases y) (simp add: AttestationUnsignedV1_obj_def)

interpretation attestation: signing_scheme ATTESTATION_V1 AttestationUnsignedV1_obj AttestationV1_obj
  "\<lambda>u s. AttestationUnsignedV1.extend u (AttestationV1.fields s)" AttestationUnsignedV1.truncate att_signature attestationHash signAttestation attestationCommitmentHash
proof unfold_locales
  show "u = v" if "normKeys (JObj (AttestationUnsignedV1_obj u)) = normKeys (JObj (AttestationUnsignedV1_obj v))" for u v :: AttestationUnsignedV1
    using that by (rule AttestationUnsignedV1_obj_inject)
qed (auto simp: attestationHash_def signAttestation_def attestationCommitmentHash_def AttestationUnsignedV1_obj_def AttestationV1_obj_def DOMAIN_TAGS_def
      AttestationUnsignedV1.defs AttestationV1.defs optField_def split: option.splits)

lemma RevocationUnsignedV1_obj_inject:
  assumes "normKeys (JObj (RevocationUnsignedV1_obj x)) = normKeys (JObj (RevocationUnsignedV1_obj (y :: RevocationUnsignedV1)))"
  shows "x = y"
  using
    objGet_eq [OF assms, of "''type''"] objGet_eq [OF assms, of "''trust_id''"]
    objGet_eq [OF assms, of "''revoked_key''"] objGet_eq [OF assms, of "''replacement_key''"]
    objGet_eq [OF assms, of "''reason_class''"] objGet_eq [OF assms, of "''effective_at''"]
  by (cases x; cases y) (simp add: RevocationUnsignedV1_obj_def)

interpretation revocation: signing_scheme REVOCATION_V1 RevocationUnsignedV1_obj RevocationV1_obj
  "\<lambda>u s. RevocationUnsignedV1.extend u (RevocationV1.fields s)" RevocationUnsignedV1.truncate rev_signature revocationHash signRevocation revocationCommitmentHash
proof unfold_locales
  show "u = v" if "normKeys (JObj (RevocationUnsignedV1_obj u)) = normKeys (JObj (RevocationUnsignedV1_obj v))" for u v :: RevocationUnsignedV1
    using that by (rule RevocationUnsignedV1_obj_inject)
qed (auto simp: revocationHash_def signRevocation_def revocationCommitmentHash_def RevocationUnsignedV1_obj_def RevocationV1_obj_def DOMAIN_TAGS_def
      RevocationUnsignedV1.defs RevocationV1.defs optField_def split: option.splits)

lemma TrustAssessmentUnsignedV1_obj_inject:
  assumes "normKeys (JObj (TrustAssessmentUnsignedV1_obj x)) = normKeys (JObj (TrustAssessmentUnsignedV1_obj (y :: TrustAssessmentUnsignedV1)))"
  shows "x = y"
  using
    objGet_eq [OF assms, of "''type''"] objGet_eq [OF assms, of "''subject''"] objGet_eq [OF assms, of "''issuer''"]
    objGet_eq [OF assms, of "''score_bps''"] objGet_eq [OF assms, of "''label''"]
    objGet_eq [OF assms, of "''model_version''"] objGet_eq [OF assms, of "''evidence_commitment''"]
    objGet_eq [OF assms, of "''features_disclosed''"] objGet_eq [OF assms, of "''explanation''"]
    objGet_eq [OF assms, of "''issued_at''"] objGet_eq [OF assms, of "''expires_at''"]
  by (cases x; cases y) (simp add: TrustAssessmentUnsignedV1_obj_def)

interpretation assessment: signing_scheme ASSESSMENT_V1 TrustAssessmentUnsignedV1_obj TrustAssessmentV1_obj
  "\<lambda>u s. TrustAssessmentUnsignedV1.extend u (TrustAssessmentV1.fields s)" TrustAssessmentUnsignedV1.truncate ta_signature assessmentHash signTrustAssessment assessmentCommitmentHash
proof unfold_locales
  show "u = v" if "normKeys (JObj (TrustAssessmentUnsignedV1_obj u)) = normKeys (JObj (TrustAssessmentUnsignedV1_obj v))" for u v :: TrustAssessmentUnsignedV1
    using that by (rule TrustAssessmentUnsignedV1_obj_inject)
qed (auto simp: assessmentHash_def signTrustAssessment_def assessmentCommitmentHash_def TrustAssessmentUnsignedV1_obj_def TrustAssessmentV1_obj_def DOMAIN_TAGS_def
      TrustAssessmentUnsignedV1.defs TrustAssessmentV1.defs optField_def split: option.splits)

lemma eventHash_total: "\<exists>h. eventHash E (EventCommitmentUnsignedV1_obj (u :: EventCommitmentUnsignedV1)) = Inr h"
proof -
  have "jsonSafe (JObj (EventCommitmentUnsignedV1_obj u))"
    by (auto simp: EventCommitmentUnsignedV1_obj_def optField_def split: option.splits)
  then show ?thesis
    using canonicalBytes_total by (fastforce simp: event.hash_Inr)
qed

lemma commitmentHash_total:
  assumes "hex_codec E" "hexToBytes E (ev_signature x) = Inr s"
  shows "\<exists>c. commitmentHash E x = Inr c"
proof -
  obtain h where h: "eventHash E (EventCommitmentV1_obj x) = Inr h"
    using eventHash_total event.hash_ignores_signature by metis
  moreover from h obtain b where "hexToBytes E h = Inr b"
    using hexToBytes_hashDomain [OF assms(1)] by (auto simp: eventHash_def domainHash_Inr)
  ultimately show ?thesis
    using assms(2) by (simp add: commitmentHash_def commitmentHashFromParts_def)
qed

lemma commitmentHash_cong:
  assumes "EventCommitmentUnsignedV1.truncate x = EventCommitmentUnsignedV1.truncate y"
    and "hexToBytes E (ev_signature x) = hexToBytes E (ev_signature y)"
  shows "commitmentHash E x = commitmentHash E y"
  using assms by (simp add: commitmentHash_def event.hash_ignores_signature commitmentHashFromParts_def)

lemma demoSeed_bytes: "hexToBytes demoEnv demoSeed = Inr (replicate 32 0x77)"
  by code_simp

section \<open>Properties\<close>

text \<open>
  Signing an event and verifying it agree. With a seed of 32 bytes, \<^verbatim>\<open>signEvent\<close> never throws, leaves every field of the event
  as it was, and the signature verifies under the key derived from the seed against the hash recomputed from the
  signed object.
\<close>

theorem signEvent_verifies:
  assumes "hex_codec E" "ed25519_correct E" "hexToBytes E seedHex = Inr seed" "length seed = 32"
  shows "\<exists>h pk ev. eventHash E (EventCommitmentV1_obj ev) = Inr h \<and> signEvent E u seedHex = Inr ev
     \<and> EventCommitmentUnsignedV1.truncate ev = u \<and> deriveEd25519PublicKey E seedHex = Inr pk
     \<and> verifyEd25519 E pk (DText h) (ev_signature ev) = Inr True"
  using eventHash_total [of E u] event.sign_verify [OF assms] by blast

theorem signEvent_verifies_witness:
  "\<exists>h pk ev. eventHash demoEnv (EventCommitmentV1_obj ev) = Inr h \<and> signEvent demoEnv demoEvent demoSeed = Inr ev
     \<and> EventCommitmentUnsignedV1.truncate ev = demoEvent \<and> deriveEd25519PublicKey demoEnv demoSeed = Inr pk
     \<and> verifyEd25519 demoEnv pk (DText h) (ev_signature ev) = Inr True"
  using signEvent_verifies [OF demo_hyps(1,3) demoSeed_bytes, of demoEvent] by simp

text \<open>
  C28: The commitment of an event binds the event. Two events with the same commitment have the same fields and the same signature bytes, or
  one of the two inputs hashed for the first and one of the two hashed for the second are a collision of SHA-256.
\<close>

theorem commitmentHash_binding:
  assumes "hex_codec E" "sha256_length E" "commitmentHash E x = Inr c" "commitmentHash E y = Inr c"
  shows "EventCommitmentUnsignedV1.truncate x = EventCommitmentUnsignedV1.truncate y
       \<and> hexToBytes E (ev_signature x) = hexToBytes E (ev_signature y)
     \<or> sha256_collision E (set (commitInputs E EVENT_V1 (unsignedPayload (EventCommitmentV1_obj x)) (ev_signature x)))
          (set (commitInputs E EVENT_V1 (unsignedPayload (EventCommitmentV1_obj y)) (ev_signature y)))"
  using event.commit_binding [OF assms] by (simp only: event.payload_signed)

theorem commitmentHash_binding_witness:
  "\<exists>c. commitmentHash demoEnv (demoSigned ''0xAb'') = Inr c \<and> commitmentHash demoEnv (demoSigned ''0xaB'') = Inr c
     \<and> (EventCommitmentUnsignedV1.truncate (demoSigned ''0xAb'') = EventCommitmentUnsignedV1.truncate (demoSigned ''0xaB'')
         \<and> hexToBytes demoEnv (ev_signature (demoSigned ''0xAb'')) = hexToBytes demoEnv (ev_signature (demoSigned ''0xaB''))
       \<or> sha256_collision demoEnv
          (set (commitInputs demoEnv EVENT_V1 (unsignedPayload (EventCommitmentV1_obj (demoSigned ''0xAb''))) ''0xAb''))
          (set (commitInputs demoEnv EVENT_V1 (unsignedPayload (EventCommitmentV1_obj (demoSigned ''0xaB''))) ''0xaB'')))"
proof -
  have s: "hexToBytes demoEnv ''0xAb'' = Inr [0xab]" "hexToBytes demoEnv ''0xaB'' = Inr [0xab]"
    by code_simp+
  then obtain c where c: "commitmentHash demoEnv (demoSigned ''0xAb'') = Inr c"
    using commitmentHash_total [OF demo_hyps(1), of "demoSigned ''0xAb''"] by auto
  moreover have d: "commitmentHash demoEnv (demoSigned ''0xAb'') = commitmentHash demoEnv (demoSigned ''0xaB'')"
    by (rule commitmentHash_cong) (simp_all add: s)
  ultimately show ?thesis
    using commitmentHash_binding [OF demo_hyps(1,2), of "demoSigned ''0xAb''" c "demoSigned ''0xaB''"] by simp
qed

text \<open>
  Hashes of different domains are separated. If two hashes computed under protocol tags agree, then tag and payload agree, or
  the two tagged inputs are a collision of SHA-256.
\<close>

lemma hashDomain_separation:
  assumes "hex_codec E" "t \<in> set DOMAIN_TAGS" "t' \<in> set DOMAIN_TAGS"
    and "hashDomain E t (DBytes b) = hashDomain E t' (DBytes b')"
  shows "t = t' \<and> b = b' \<or> sha256_collision E {domainInput t b} {domainInput t' b'}"
  using hashDomain_binding [OF assms(1) tags_plain tags_plain assms(4)] assms(2,3) by blast

text \<open>
  \<^verbatim>\<open>uint64be\<close> throws exactly outside the unsigned 64-bit range, and inside it writes the eight bytes whose big-endian value is the
  argument.
\<close>

theorem uint64be_round_trip:
  "(if 0 \<le> n \<and> n < 2 ^ 64 then \<exists>b. uint64be n = Inr b \<and> length b = 8 \<and> readUint64be b = n
    else uint64be n = Inl ''uint64be value out of range'')"
proof (cases "0 \<le> n \<and> n < 2 ^ 64")
  case True
  then obtain b where "uint64be n = Inr b" using uint64be_range by blast
  then show ?thesis using True readUint64be_uint64be by auto
qed (auto simp: uint64be_def)

text \<open>
  A content commitment binds the message among openings whose salts have the same number of bytes: two such openings of one
  commitment have the same message and the same salt, or they are a collision of SHA-256.
\<close>

lemma contentCommitment_binding:
  assumes "hex_codec E" "hexToBytes E saltHex = Inr salt" "hexToBytes E saltHex' = Inr salt'" "length salt = length salt'"
    and "contentCommitment E m saltHex = contentCommitment E m' saltHex'"
  shows "m = m' \<and> salt = salt' \<or> sha256_collision E {domainInput CONTENT_V1 (utf8 m @ salt)} {domainInput CONTENT_V1 (utf8 m' @ salt')}"
proof -
  have "hashDomain E CONTENT_V1 (DBytes (utf8 m @ salt)) = hashDomain E CONTENT_V1 (DBytes (utf8 m' @ salt'))"
    using assms(5) by (simp add: contentCommitment_def assms(2,3) concatBytes_def)
  moreover have "CHR 0x00 \<notin> set CONTENT_V1" by (simp add: tag_defs)
  ultimately show ?thesis
    using hashDomain_binding [OF assms(1)] assms(4) by (fastforce simp: utf8_inject)
qed

text \<open>
  The boundary between message and salt is not committed to. Whoever knows an opening of a content commitment has another opening to every
  prefix of the message, with the rest of the message moved to the front of the salt.
\<close>

theorem contentCommitment_moves_boundary:
  assumes "hex_codec E" "hexToBytes E saltHex = Inr salt"
  shows "contentCommitment E (m @ t) saltHex = contentCommitment E m (bytesToHex E (utf8 t @ salt))"
  by (simp add: contentCommitment_def assms(2) hexToBytes_bytesToHex [OF assms(1)] concatBytes_def)

theorem contentCommitment_moves_boundary_witness:
  "contentCommitment demoEnv ''pay 100'' ''0x01'' = contentCommitment demoEnv ''pay 1'' ''0x303001''"
proof -
  have "hexToBytes demoEnv ''0x01'' = Inr [1]" "bytesToHex demoEnv (utf8 ''00'' @ [1]) = ''0x303001''"
    by code_simp+
  then show ?thesis
    using contentCommitment_moves_boundary [OF demo_hyps(1), of "''0x01''" "[1]" "''pay 1''" "''00''"] by simp
qed

end
