(* ===== verification/NonMembership.thy ===== *)
theory NonMembership
  imports Crypto
begin

text \<open>
  Sparse Merkle trees and non-membership proofs (\<^verbatim>\<open>src/packages/core-ts/src/nonMembership.ts\<close>).

  A tree of depth \<open>d\<close> has \<open>2 ^ d\<close> positions; a value stands at the position given by its low \<open>d\<close> bits. The code keeps, per level, only the nodes
  that differ from the hash of an empty subtree. \<open>nodeAt\<close> is the reference definition, the full tree; the
  optimised code is shown to compute its root and its paths.
\<close>

section \<open>\<^verbatim>\<open>BigInt\<close> of a string\<close>

definition isJsSpace :: "char \<Rightarrow> bool" where
  "isJsSpace c \<longleftrightarrow> c \<in> set [CHR 0x09, CHR 0x0A, CHR 0x0B, CHR 0x0C, CHR 0x0D, CHR 0x20, CHR 0xA0]"

definition trimStr :: "string \<Rightarrow> string" where
  "trimStr s = rev (dropWhile isJsSpace (rev (dropWhile isJsSpace s)))"

definition digitIn :: "nat \<Rightarrow> char \<Rightarrow> nat option" where
  "digitIn base c =
     (let n = (of_char c :: nat);
          d = (if 48 \<le> n \<and> n \<le> 57 then n - 48 else if 97 \<le> n \<and> n \<le> 122 then n - 87
               else if 65 \<le> n \<and> n \<le> 90 then n - 55 else 36)
      in if d < base then Some d else None)"

fun digitsVal :: "nat \<Rightarrow> string \<Rightarrow> nat \<Rightarrow> nat option" where
  "digitsVal base [] acc = Some acc"
| "digitsVal base (c # s) acc = (case digitIn base c of None \<Rightarrow> None | Some d \<Rightarrow> digitsVal base s (base * acc + d))"

definition digits1 :: "nat \<Rightarrow> string \<Rightarrow> int option" where
  "digits1 base s = (if s = [] then None else map_option int (digitsVal base s 0))"

definition bigInt :: "string \<Rightarrow> int res" where
  "bigInt value =
     (let s = trimStr value; p = take 2 s;
          n = (if s = [] then Some 0
               else if p = ''0x'' \<or> p = ''0X'' then digits1 16 (drop 2 s)
               else if p = ''0o'' \<or> p = ''0O'' then digits1 8 (drop 2 s)
               else if p = ''0b'' \<or> p = ''0B'' then digits1 2 (drop 2 s)
               else if hd s = CHR ''-'' then map_option uminus (digits1 10 (tl s))
               else if hd s = CHR ''+'' then digits1 10 (tl s)
               else digits1 10 s)
      in case n of None \<Rightarrow> Inl (''Cannot convert '' @ value @ '' to a BigInt'') | Some i \<Rightarrow> Inr i)"

section \<open>The tree\<close>

definition buildSetRoot :: "env \<Rightarrow> string list \<Rightarrow> string res" where
  "buildSetRoot E values =
     bindE (canonicalBytes (JArr (map JStr (sort values)))) (\<lambda>b. Inr (hashDomain E NON_MEMBERSHIP_PROOF_V1 (DBytes b)))"

record SparseMerkleProfileV1 =
  sm_tree_id :: string
  sm_tree_depth :: int

record SparseMerkleTreeV1 =
  st_profile :: SparseMerkleProfileV1
  st_root :: string
  st_leaves :: "(int \<times> string) list"
  st_zero_hashes :: "string list"

definition sparseHash :: "env \<Rightarrow> string \<Rightarrow> jsval \<Rightarrow> string res" where
  "sparseHash E label value = domainHash E NON_MEMBERSHIP_PROOF_V1 [(''label'', JStr label), (''value'', value)]"

definition sparseMerkleLeaf :: "env \<Rightarrow> string \<Rightarrow> string res" where
  "sparseMerkleLeaf E value = sparseHash E ''leaf'' (JStr value)"

definition sparseMerkleNode :: "env \<Rightarrow> string \<Rightarrow> string \<Rightarrow> string res" where
  "sparseMerkleNode E left right = sparseHash E ''node'' (JObj [(''left'', JStr left), (''right'', JStr right)])"

fun zeroHashesTo :: "env \<Rightarrow> nat \<Rightarrow> string list res" where
  "zeroHashesTo E 0 = bindE (sparseHash E ''zero-leaf'' (JNum (JInt 0))) (\<lambda>z. Inr [z])"
| "zeroHashesTo E (Suc n) =
     bindE (zeroHashesTo E n) (\<lambda>zeroes.
       bindE (sparseHash E ''node'' (JObj [(''left'', JStr (zeroes ! n)), (''right'', JStr (zeroes ! n))])) (\<lambda>z.
         Inr (zeroes @ [z])))"

definition sparseMerkleZeroHashes :: "env \<Rightarrow> int \<Rightarrow> string list res" where
  "sparseMerkleZeroHashes E depth = zeroHashesTo E (nat depth)"

definition sparseMerkleIndex :: "string \<Rightarrow> int \<Rightarrow> int res" where
  "sparseMerkleIndex value depth =
     (if \<not> isSafeInteger depth \<or> depth < 1 \<or> depth > 30 then Inl ''TSL_SPARSE_MERKLE_DEPTH_INVALID''
      else bindE (bigInt value) (\<lambda>digest. Inr (digest mod 2 ^ nat depth)))"

text \<open>One level up; \<open>current\<close> holds the nodes that are not empty.\<close>

definition levelGet :: "(int \<times> string) list \<Rightarrow> string list \<Rightarrow> nat \<Rightarrow> int \<Rightarrow> string" where
  "levelGet current zeroes level i = orElse (map_of current i) (zeroes ! level)"

definition sparseNext :: "env \<Rightarrow> string list \<Rightarrow> nat \<Rightarrow> (int \<times> string) list \<Rightarrow> (int \<times> string) list res" where
  "sparseNext E zeroes level current =
     foldE (\<lambda>parent next.
         bindE (sparseMerkleNode E (levelGet current zeroes level (parent * 2)) (levelGet current zeroes level (parent * 2 + 1)))
           (\<lambda>node. Inr (if node \<noteq> zeroes ! Suc level then mapSet next parent node else next)))
       (sort (remdups (map (\<lambda>(i, h). i div 2) current))) []"

definition leafHashes :: "env \<Rightarrow> (int \<times> string) list \<Rightarrow> (int \<times> string) list res" where
  "leafHashes E leaves = sequenceE (map (\<lambda>(i, v). bindE (sparseMerkleLeaf E v) (\<lambda>h. Inr (i, h))) leaves)"

fun sparseUp :: "env \<Rightarrow> string list \<Rightarrow> nat \<Rightarrow> nat \<Rightarrow> (int \<times> string) list \<Rightarrow> (int \<times> string) list res" where
  "sparseUp E zeroes level 0 current = Inr current"
| "sparseUp E zeroes level (Suc n) current = bindE (sparseNext E zeroes level current) (sparseUp E zeroes (Suc level) n)"

definition sparseMerkleRootFromLeaves :: "env \<Rightarrow> (int \<times> string) list \<Rightarrow> int \<Rightarrow> string list \<Rightarrow> string res" where
  "sparseMerkleRootFromLeaves E leaves depth zeroes =
     bindE (leafHashes E leaves) (\<lambda>current.
       bindE (sparseUp E zeroes 0 (nat depth) current) (\<lambda>top. Inr (levelGet top zeroes (nat depth) 0)))"

fun sparsePathUp :: "env \<Rightarrow> string list \<Rightarrow> nat \<Rightarrow> nat \<Rightarrow> (int \<times> string) list \<Rightarrow> int \<Rightarrow> InclusionProofStep list res" where
  "sparsePathUp E zeroes level 0 current cursor = Inr []"
| "sparsePathUp E zeroes level (Suc n) current cursor =
     bindE (sparseNext E zeroes level current) (\<lambda>next.
       bindE (sparsePathUp E zeroes (Suc level) n next (cursor div 2)) (\<lambda>path.
         Inr (\<lparr>ips_side = (if cursor mod 2 = 0 then ''right'' else ''left''),
               ips_hash = levelGet current zeroes level (if cursor mod 2 = 0 then cursor + 1 else cursor - 1)\<rparr> # path)))"

definition sparseMerklePath :: "env \<Rightarrow> (int \<times> string) list \<Rightarrow> int \<Rightarrow> int \<Rightarrow> string list \<Rightarrow> InclusionProofStep list res" where
  "sparseMerklePath E leaves index depth zeroes =
     bindE (leafHashes E leaves) (\<lambda>current. sparsePathUp E zeroes 0 (nat depth) current index)"

definition insertLeaf :: "int \<Rightarrow> string \<Rightarrow> (int \<times> string) list \<Rightarrow> (int \<times> string) list res" where
  "insertLeaf depth value leaves =
     bindE (sparseMerkleIndex value depth) (\<lambda>index.
       case map_of leaves index of
         Some v \<Rightarrow> (if v \<noteq> value then Inl ''TSL_SPARSE_MERKLE_INDEX_COLLISION'' else Inr (mapSet leaves index value))
       | None \<Rightarrow> Inr (mapSet leaves index value))"

definition buildSparseMerkleTree :: "env \<Rightarrow> string list \<Rightarrow> SparseMerkleProfileV1 \<Rightarrow> SparseMerkleTreeV1 res" where
  "buildSparseMerkleTree E values profile =
     bindE (sparseMerkleZeroHashes E (sm_tree_depth profile)) (\<lambda>zeroes.
     bindE (foldE (insertLeaf (sm_tree_depth profile)) (sort values) []) (\<lambda>leaves.
     bindE (sparseMerkleRootFromLeaves E leaves (sm_tree_depth profile) zeroes) (\<lambda>root.
       Inr \<lparr>st_profile = profile, st_root = root, st_leaves = leaves, st_zero_hashes = zeroes\<rparr>)))"

section \<open>Proofs\<close>

definition pathVal :: "InclusionProofStep list \<Rightarrow> jsval" where
  "pathVal path = JArr (map (\<lambda>s. JObj (InclusionProofStep_obj s)) path)"

definition sparseProofHash :: "env \<Rightarrow> string \<Rightarrow> string \<Rightarrow> string \<Rightarrow> int \<Rightarrow> int \<Rightarrow> InclusionProofStep list \<Rightarrow> string res" where
  "sparseProofHash E label root value index depth path =
     sparseHash E label (JObj [(''root'', JStr root), (''value_commitment'', JStr value), (''leaf_index'', JNum (JInt index)),
       (''tree_depth'', JNum (JInt depth)), (''sibling_path'', pathVal path)])"

definition indexCommitment :: "env \<Rightarrow> string \<Rightarrow> int \<Rightarrow> string res" where
  "indexCommitment E treeId index = sparseHash E ''leaf-index'' (JObj [(''tree_id'', JStr treeId), (''index'', JNum (JInt index))])"

definition rootCheckpoint :: "env \<Rightarrow> SparseMerkleTreeV1 \<Rightarrow> string option \<Rightarrow> string res" where
  "rootCheckpoint E tree root_checkpoint =
     (case root_checkpoint of
        Some r \<Rightarrow> Inr r
      | None \<Rightarrow> sparseHash E ''uncheckpointed-root''
          (JObj [(''tree_id'', JStr (sm_tree_id (st_profile tree))), (''root'', JStr (st_root tree))]))"

text \<open>The object literal of the two provers; they differ in the label and in the empty-leaf field.\<close>

definition sparseProofObject ::
    "env \<Rightarrow> string \<Rightarrow> string option \<Rightarrow> string \<Rightarrow> SparseMerkleTreeV1 \<Rightarrow> int \<Rightarrow> InclusionProofStep list \<Rightarrow> string \<Rightarrow> string
      \<Rightarrow> string option \<Rightarrow> SetNonMembershipProofV1 res" where
  "sparseProofObject E label emptyLeaf value tree index path subject issued_at root_checkpoint =
     (let profile = st_profile tree in
      bindE (rootCheckpoint E tree root_checkpoint) (\<lambda>checkpoint.
      bindE (indexCommitment E (sm_tree_id profile) index) (\<lambda>indexHash.
      bindE (sparseMerkleLeaf E value) (\<lambda>leafHash.
      bindE (sparseProofHash E label (st_root tree) value index (sm_tree_depth profile) path) (\<lambda>proofHash.
        Inr \<lparr>nm_type = ''tsl.zk.non_membership_proof.v1'', nm_claim = ''revocation_set_non_membership'', nm_subject = subject,
          nm_set_root = st_root tree, nm_value_commitment = value, nm_tree_id = Some (sm_tree_id profile),
          nm_tree_depth = Some (sm_tree_depth profile), nm_leaf_index_commitment = Some indexHash,
          nm_leaf_value_commitment = Some leafHash, nm_empty_leaf_commitment = emptyLeaf, nm_root = Some (st_root tree),
          nm_root_checkpoint = Some checkpoint, nm_lower_neighbor = None, nm_upper_neighbor = None,
          nm_leaf_index = Some index, nm_sibling_path = Some path, nm_proof = proofHash, nm_issued_at = issued_at\<rparr>)))))"

definition issuedAt :: "env \<Rightarrow> string option \<Rightarrow> string res" where
  "issuedAt E issued_at = (case issued_at of Some t \<Rightarrow> Inr t | None \<Rightarrow> toISOString (now_ms E))"

definition proveSparseMerkleInclusion ::
    "env \<Rightarrow> string \<Rightarrow> SparseMerkleTreeV1 \<Rightarrow> string \<Rightarrow> string option \<Rightarrow> string option \<Rightarrow> SetNonMembershipProofV1 res" where
  "proveSparseMerkleInclusion E value tree subject issued_at root_checkpoint =
     bindE (issuedAt E issued_at) (\<lambda>at.
     bindE (sparseMerkleIndex value (sm_tree_depth (st_profile tree))) (\<lambda>index.
       if map_of (st_leaves tree) index \<noteq> Some value then Inl ''TSL_SPARSE_MERKLE_VALUE_MISSING''
       else bindE (sparseMerklePath E (st_leaves tree) index (sm_tree_depth (st_profile tree)) (st_zero_hashes tree)) (\<lambda>path.
         sparseProofObject E ''sparse-merkle-inclusion-proof'' None value tree index path subject at root_checkpoint)))"

definition proveSparseMerkleNonMembership ::
    "env \<Rightarrow> string \<Rightarrow> SparseMerkleTreeV1 \<Rightarrow> string \<Rightarrow> string option \<Rightarrow> string option \<Rightarrow> SetNonMembershipProofV1 res" where
  "proveSparseMerkleNonMembership E value tree subject issued_at root_checkpoint =
     bindE (issuedAt E issued_at) (\<lambda>at.
     bindE (sparseMerkleIndex value (sm_tree_depth (st_profile tree))) (\<lambda>index.
       if map_of (st_leaves tree) index \<noteq> None then Inl ''TSL_NON_MEMBERSHIP_VALUE_PRESENT''
       else bindE (sparseMerklePath E (st_leaves tree) index (sm_tree_depth (st_profile tree)) (st_zero_hashes tree)) (\<lambda>path.
         sparseProofObject E ''sparse-merkle-non-membership-proof'' (Some (st_zero_hashes tree ! 0)) value tree index path subject at
           root_checkpoint)))"

text \<open>
  The older proof over neighbours. A missing neighbour is left out of the returned object, but the hashed object has the field
  with the value \<^verbatim>\<open>undefined\<close>. An empty string counts as missing in the former place only.
\<close>

definition buildNonMembershipProof :: "env \<Rightarrow> string \<Rightarrow> string \<Rightarrow> string list \<Rightarrow> string option \<Rightarrow> SetNonMembershipProofV1 res" where
  "buildNonMembershipProof E subject value set_values issued_at =
     (let sorted = sort set_values in
      if value \<in> set sorted then Inl ''TSL_NON_MEMBERSHIP_VALUE_PRESENT''
      else
        let below = filter (\<lambda>v. v < value) sorted;
            lower = (if below = [] then None else Some (last below));
            upper = find (\<lambda>v. v > value) sorted
        in bindE (buildSetRoot E sorted) (\<lambda>setRoot.
           bindE (domainHash E NON_MEMBERSHIP_PROOF_V1 [(''set_root'', JStr setRoot), (''value_commitment'', JStr value),
                    (''lower'', undefStr lower), (''upper'', undefStr upper)]) (\<lambda>proofHash.
           bindE (issuedAt E issued_at) (\<lambda>at.
             Inr \<lparr>nm_type = ''tsl.zk.non_membership_proof.v1'', nm_claim = ''revocation_set_non_membership'', nm_subject = subject,
               nm_set_root = setRoot, nm_value_commitment = value, nm_tree_id = None, nm_tree_depth = None,
               nm_leaf_index_commitment = None, nm_leaf_value_commitment = None, nm_empty_leaf_commitment = None, nm_root = None,
               nm_root_checkpoint = None, nm_lower_neighbor = (if truthyStr lower then lower else None),
               nm_upper_neighbor = (if truthyStr upper then upper else None), nm_leaf_index = None, nm_sibling_path = None,
               nm_proof = proofHash, nm_issued_at = at\<rparr>))))"

section \<open>Verification\<close>

fun sparseClimb :: "env \<Rightarrow> InclusionProofStep list \<Rightarrow> string \<Rightarrow> string res" where
  "sparseClimb E [] current = Inr current"
| "sparseClimb E (step # path) current =
     bindE (if ips_side step = ''left'' then sparseMerkleNode E (ips_hash step) current
            else sparseMerkleNode E current (ips_hash step)) (sparseClimb E path)"

definition verifySparseMerkleProof :: "env \<Rightarrow> SetNonMembershipProofV1 \<Rightarrow> string \<Rightarrow> SparseMerkleProfileV1 \<Rightarrow> bool res" where
  "verifySparseMerkleProof E proof root profile =
     (if nm_tree_id proof \<noteq> Some (sm_tree_id profile) \<or> nm_tree_depth proof \<noteq> Some (sm_tree_depth profile) then Inr False
      else if truthyStr (nm_root proof) \<and> nm_root proof \<noteq> Some root then Inr False
      else if nm_set_root proof \<noteq> root then Inr False
      else case (nm_leaf_index proof, nm_sibling_path proof) of
        (Some leaf_index, Some path) \<Rightarrow>
          (if int (length path) \<noteq> sm_tree_depth profile then Inr False
           else bindE (sparseMerkleIndex (nm_value_commitment proof) (sm_tree_depth profile)) (\<lambda>expectedLeafIndex.
             if leaf_index \<noteq> expectedLeafIndex then Inr False
             else bindE (indexCommitment E (sm_tree_id profile) leaf_index) (\<lambda>expectedIndexCommitment.
               if nm_leaf_index_commitment proof \<noteq> Some expectedIndexCommitment then Inr False
               else bindE (sparseMerkleZeroHashes E (sm_tree_depth profile)) (\<lambda>zeroes.
                 let isNonMembership = truthyStr (nm_empty_leaf_commitment proof) in
                 bindE (sparseMerkleLeaf E (nm_value_commitment proof)) (\<lambda>leaf.
                 if isNonMembership \<and> nm_empty_leaf_commitment proof \<noteq> Some (zeroes ! 0) then Inr False
                 else if nm_leaf_value_commitment proof \<noteq> Some leaf then Inr False
                 else bindE (sparseClimb E path (if isNonMembership then zeroes ! 0 else leaf)) (\<lambda>current.
                   if current \<noteq> root then Inr False
                   else bindE (sparseProofHash E
                          (if isNonMembership then ''sparse-merkle-non-membership-proof'' else ''sparse-merkle-inclusion-proof'')
                          root (nm_value_commitment proof) leaf_index (sm_tree_depth profile) path)
                        (\<lambda>expectedProof. Inr (nm_proof proof = expectedProof))))))))
      | _ \<Rightarrow> Inr False)"

fun legacyClimb :: "env \<Rightarrow> InclusionProofStep list \<Rightarrow> string \<Rightarrow> string res" where
  "legacyClimb E [] current = Inr current"
| "legacyClimb E (step # path) current =
     bindE (canonicalBytes (JArr (map JStr (if ips_side step = ''left'' then [ips_hash step, current] else [current, ips_hash step]))))
       (\<lambda>b. legacyClimb E path (hashDomain E NON_MEMBERSHIP_PROOF_V1 (DBytes b)))"

definition verifyNonMembershipProof :: "env \<Rightarrow> SetNonMembershipProofV1 \<Rightarrow> bool res" where
  "verifyNonMembershipProof E proof =
     (let value = nm_value_commitment proof; lower = nm_lower_neighbor proof; upper = nm_upper_neighbor proof;
          neighbours = [(''lower'', undefStr lower), (''upper'', undefStr upper)] in
      if nm_type proof \<noteq> ''tsl.zk.non_membership_proof.v1'' then Inr False
      else if nm_claim proof \<noteq> ''revocation_set_non_membership'' then Inr False
      else if truthyStr lower \<and> the lower \<ge> value then Inr False
      else if truthyStr upper \<and> the upper \<le> value then Inr False
      else if truthyStr (nm_tree_id proof) \<and> truthyList (nm_sibling_path proof) \<and> nm_leaf_index proof \<noteq> None
           \<and> nm_tree_depth proof \<noteq> None \<and> truthyStr (nm_leaf_index_commitment proof) \<and> truthyStr (nm_leaf_value_commitment proof)
           \<and> (truthyStr (nm_empty_leaf_commitment proof) \<or> truthyStr (nm_root proof))
      then verifySparseMerkleProof E proof (orElse (nm_root proof) (nm_set_root proof))
             \<lparr>sm_tree_id = the (nm_tree_id proof), sm_tree_depth = the (nm_tree_depth proof)\<rparr>
      else if \<not> truthyList (nm_sibling_path proof) \<or> nm_leaf_index proof = None \<or> nm_tree_depth proof = None
      then (if \<not> envFlag E ''ALLOW_UNSAFE_NON_MEMBERSHIP_FIXTURES'' then Inr False
            else bindE (domainHash E NON_MEMBERSHIP_PROOF_V1
                   ([(''set_root'', JStr (nm_set_root proof)), (''value_commitment'', JStr value)] @ neighbours))
                 (\<lambda>h. Inr (nm_proof proof = h)))
      else if int (length (the (nm_sibling_path proof))) \<noteq> the (nm_tree_depth proof) then Inr False
      else bindE (domainHash E NON_MEMBERSHIP_PROOF_V1
                   ([(''absent_leaf'', JStr value)] @ neighbours @ [(''index'', JNum (JInt (the (nm_leaf_index proof))))])) (\<lambda>start.
           bindE (legacyClimb E (the (nm_sibling_path proof)) start) (\<lambda>current.
             if current \<noteq> nm_set_root proof then Inr False
             else bindE (domainHash E NON_MEMBERSHIP_PROOF_V1
                    ([(''set_root'', JStr (nm_set_root proof)), (''value_commitment'', JStr value)] @ neighbours
                     @ [(''leaf_index'', JNum (JInt (the (nm_leaf_index proof)))), (''tree_depth'', JNum (JInt (the (nm_tree_depth proof))))]))
                  (\<lambda>expected. Inr (nm_proof proof = expected)))))"

section \<open>The full tree\<close>

text \<open>
  The interface of the hash functions of a sparse tree: the input of a node determines its children, and the input of a leaf is
  never that of an empty leaf.
\<close>

locale sparse_hash =
  fixes H :: "'i \<Rightarrow> 'h" and leafIn :: "'v \<Rightarrow> 'i" and nodeIn :: "'h \<Rightarrow> 'h \<Rightarrow> 'i" and zeroIn :: 'i
  assumes node_inj: "nodeIn l r = nodeIn l' r' \<longleftrightarrow> l = l' \<and> r = r'"
    and leaf_zero: "leafIn v \<noteq> zeroIn"
begin

primrec zeroAt :: "nat \<Rightarrow> 'h" where
  "zeroAt 0 = H zeroIn"
| "zeroAt (Suc n) = H (nodeIn (zeroAt n) (zeroAt n))"

fun nodeAt :: "(int \<Rightarrow> 'v option) \<Rightarrow> nat \<Rightarrow> int \<Rightarrow> 'h" where
  "nodeAt leaves 0 i = (case leaves i of Some v \<Rightarrow> H (leafIn v) | None \<Rightarrow> zeroAt 0)"
| "nodeAt leaves (Suc l) i = H (nodeIn (nodeAt leaves l (2 * i)) (nodeAt leaves l (2 * i + 1)))"

text \<open>The nodes above a position, and what is hashed to climb from it.\<close>

fun pathInputs :: "(int \<Rightarrow> 'v option) \<Rightarrow> nat \<Rightarrow> nat \<Rightarrow> int \<Rightarrow> 'i list" where
  "pathInputs leaves l 0 i = []"
| "pathInputs leaves l (Suc n) i =
     nodeIn (nodeAt leaves l (2 * (i div 2))) (nodeAt leaves l (2 * (i div 2) + 1)) # pathInputs leaves (Suc l) n (i div 2)"

definition stepIn :: "bool \<times> 'h \<Rightarrow> 'h \<Rightarrow> 'i" where
  "stepIn s d = (if fst s then nodeIn (snd s) d else nodeIn d (snd s))"

primrec climb :: "(bool \<times> 'h) list \<Rightarrow> 'h \<Rightarrow> 'h" where
  "climb [] d = d"
| "climb (s # p) d = climb p (H (stepIn s d))"

primrec climbInputs :: "(bool \<times> 'h) list \<Rightarrow> 'h \<Rightarrow> 'i list" where
  "climbInputs [] d = []"
| "climbInputs (s # p) d = stepIn s d # climbInputs p (H (stepIn s d))"

text \<open>The sides of a path are the bits of a position, lowest first.\<close>

fun sidesOf :: "(bool \<times> 'h) list \<Rightarrow> int \<Rightarrow> bool" where
  "sidesOf [] i = True"
| "sidesOf (s # p) i = (fst s = (i mod 2 = 1) \<and> sidesOf p (i div 2))"

definition clash :: "'i set \<Rightarrow> 'i set \<Rightarrow> bool" where
  "clash A B \<longleftrightarrow> (\<exists>a \<in> A. \<exists>b \<in> B. a \<noteq> b \<and> H a = H b)"

lemma nodeAt_empty: "leaves = (\<lambda>_. None) \<Longrightarrow> nodeAt leaves l i = zeroAt l"
  by (induction l arbitrary: i) simp_all

lemma step_pair:
  "H (stepIn (i mod 2 = 1, nodeAt leaves l (if i mod 2 = 1 then i - 1 else i + 1)) (nodeAt leaves l i)) = nodeAt leaves (Suc l) (i div 2)"
proof -
  have "2 * (i div 2) = (if i mod 2 = 1 then i - 1 else i)" by presburger
  then show ?thesis by (simp add: stepIn_def)
qed

lemma climb_sound:
  assumes "climb p d = nodeAt leaves (l + length p) (i div 2 ^ length p)" "sidesOf p i"
  shows "d = nodeAt leaves l i \<or> clash (set (climbInputs p d)) (set (pathInputs leaves l (length p) i))"
  using assms
proof (induction p arbitrary: d l i)
  case (Cons s p)
  have e: "i div 2 ^ length (s # p) = (i div 2) div 2 ^ length p"
    by (simp add: zdiv_zmult2_eq)
  have IH: "H (stepIn s d) = nodeAt leaves (Suc l) (i div 2) \<or>
      clash (set (climbInputs p (H (stepIn s d)))) (set (pathInputs leaves (Suc l) (length p) (i div 2)))"
    using Cons.IH [of "H (stepIn s d)" "Suc l" "i div 2"] Cons.prems e by simp
  show ?case
  proof (cases "stepIn s d = nodeIn (nodeAt leaves l (2 * (i div 2))) (nodeAt leaves l (2 * (i div 2) + 1))")
    case True
    have side: "fst s \<longleftrightarrow> i mod 2 = 1" using Cons.prems(2) by simp
    have "d = nodeAt leaves l i"
    proof (cases "i mod 2 = 1")
      case odd: True
      then have "2 * (i div 2) + 1 = i" by presburger
      then show ?thesis using True side odd by (simp add: stepIn_def node_inj)
    next
      case even: False
      then have "2 * (i div 2) = i" by presburger
      then show ?thesis using True side even by (simp add: stepIn_def node_inj)
    qed
    then show ?thesis ..
  next
    case False
    then show ?thesis using IH by (auto simp: clash_def)
  qed
qed simp

lemma nonmember_sound:
  assumes "climb p (zeroAt 0) = nodeAt leaves (length p) (i div 2 ^ length p)" "sidesOf p i"
  shows "leaves i = None \<or>
    clash (insert zeroIn (set (climbInputs p (zeroAt 0))))
      (set (pathInputs leaves 0 (length p) i) \<union> leafIn ` set_option (leaves i))"
proof (cases "leaves i")
  case (Some v)
  then show ?thesis
    using climb_sound [of p "zeroAt 0" leaves 0 i] assms leaf_zero [of v] by (force simp: clash_def)
qed simp

end

section \<open>The hash functions of the code\<close>

definition hexDigest :: "env \<Rightarrow> bytes \<Rightarrow> string" where
  "hexDigest E x = bytesToHex E (sha256 E x)"

definition sparseInput :: "string \<Rightarrow> jsval \<Rightarrow> bytes" where
  "sparseInput label value =
     domainInput NON_MEMBERSHIP_PROOF_V1
       (case canonicalBytes (JObj [(''label'', JStr label), (''value'', value)]) of Inr b \<Rightarrow> b | Inl e \<Rightarrow> [])"

definition sparseLeafInput :: "string \<Rightarrow> bytes" where
  "sparseLeafInput v = sparseInput ''leaf'' (JStr v)"

definition sparseNodeInput :: "string \<Rightarrow> string \<Rightarrow> bytes" where
  "sparseNodeInput l r = sparseInput ''node'' (JObj [(''left'', JStr l), (''right'', JStr r)])"

definition sparseZeroInput :: bytes where
  "sparseZeroInput = sparseInput ''zero-leaf'' (JNum (JInt 0))"

lemma labelled_bytes:
  assumes "jsonSafe v"
  obtains b where "canonicalBytes (JObj [(''label'', JStr l), (''value'', v)]) = Inr b"
  using canonicalBytes_total [of "JObj [(''label'', JStr l), (''value'', v)]"] assms by auto

lemma sparseHash_Inr: "jsonSafe v \<Longrightarrow> sparseHash E l v = Inr (hexDigest E (sparseInput l v))"
  by (erule labelled_bytes [of v l])
    (simp add: sparseHash_def domainHash_def sparseInput_def hexDigest_def hashDomain_eq encodeText_def)

lemma sparseInput_inject:
  assumes "jsonSafe v" "jsonSafe w" "sparseInput l v = sparseInput l' w"
  shows "l = l' \<and> normKeys v = normKeys w"
proof -
  let ?x = "[(''label'', JStr l), (''value'', v)]" and ?y = "[(''label'', JStr l'), (''value'', w)]"
  obtain b where b: "canonicalBytes (JObj ?x) = Inr b" using assms(1) by (rule labelled_bytes)
  obtain c where c: "canonicalBytes (JObj ?y) = Inr c" using assms(2) by (rule labelled_bytes)
  have "b = c" using assms(3) by (simp add: sparseInput_def domainInput_def b c)
  then have "normKeys (JObj ?x) = normKeys (JObj ?y)" using canonicalBytes_eq_iff [OF b] c by simp
  from objGet_eq [OF this, of "''label''"] objGet_eq [OF this, of "''value''"] show ?thesis by simp
qed

lemma isSafeInteger_0 [simp]: "isSafeInteger 0"
  by (simp add: isSafeInteger_def)

interpretation sparse: sparse_hash "hexDigest E" sparseLeafInput sparseNodeInput sparseZeroInput for E
proof unfold_locales
  show "sparseNodeInput l r = sparseNodeInput l' r' \<longleftrightarrow> l = l' \<and> r = r'" for l r l' r'
  proof
    let ?x = "[(''left'', JStr l), (''right'', JStr r)]" and ?y = "[(''left'', JStr l'), (''right'', JStr r')]"
    assume "sparseNodeInput l r = sparseNodeInput l' r'"
    then have n: "normKeys (JObj ?x) = normKeys (JObj ?y)"
      using sparseInput_inject [of "JObj ?x" "JObj ?y" "''node''" "''node''"] by (simp add: sparseNodeInput_def)
    from objGet_eq [OF n, of "''left''"] objGet_eq [OF n, of "''right''"] show "l = l' \<and> r = r'" by simp
  qed simp
  show "sparseLeafInput v \<noteq> sparseZeroInput" for v
    using sparseInput_inject [of "JStr v" "JNum (JInt 0)" "''leaf''" "''zero-leaf''"]
    by (auto simp: sparseLeafInput_def sparseZeroInput_def)
qed

lemma sparseMerkleLeaf_Inr [simp]: "sparseMerkleLeaf E v = Inr (hexDigest E (sparseLeafInput v))"
  by (simp add: sparseMerkleLeaf_def sparseHash_Inr sparseLeafInput_def)

lemma sparseMerkleNode_Inr [simp]: "sparseMerkleNode E l r = Inr (hexDigest E (sparseNodeInput l r))"
  by (simp add: sparseMerkleNode_def sparseHash_Inr sparseNodeInput_def)

lemma zeroHashesTo_Inr: "zeroHashesTo E n = Inr (map (sparse.zeroAt E) [0..<Suc n])"
proof (induction n)
  case 0
  have "sparseHash E ''zero-leaf'' (JNum (JInt 0)) = Inr (sparse.zeroAt E 0)"
    by (subst sparseHash_Inr) (simp_all add: sparseZeroInput_def [symmetric])
  then show ?case by simp
next
  case (Suc n)
  have "map (sparse.zeroAt E) [0..<Suc n] ! n = sparse.zeroAt E n" by (simp del: upt_Suc)
  then show ?case by (simp add: Suc sparseMerkleNode_def [symmetric] del: upt_Suc) (simp add: upt_Suc)
qed

section \<open>The optimised levels compute the full tree\<close>

lemma map_of_fold_mapSet:
  "map_of (fold (\<lambda>p m. if g p \<noteq> z then mapSet m p (g p) else m) ps m) p =
     (if p \<in> set ps \<and> g p \<noteq> z then Some (g p) else map_of m p)"
  by (induction ps arbitrary: m) auto

lemma sparseNext_nodeAt:
  assumes cur: "\<And>i. levelGet cur zs l i = sparse.nodeAt E leaves l i"
    and zs: "zs ! l = sparse.zeroAt E l" "zs ! Suc l = sparse.zeroAt E (Suc l)"
  shows "\<exists>next. sparseNext E zs l cur = Inr next \<and> (\<forall>i. levelGet next zs (Suc l) i = sparse.nodeAt E leaves (Suc l) i)"
proof -
  let ?g = "\<lambda>p. hexDigest E (sparseNodeInput (levelGet cur zs l (p * 2)) (levelGet cur zs l (p * 2 + 1)))"
  let ?ps = "sort (remdups (map (\<lambda>(i, h). i div 2) cur))"
  let ?next = "fold (\<lambda>p m. if ?g p \<noteq> zs ! Suc l then mapSet m p (?g p) else m) ?ps []"
  have "sparseNext E zs l cur = Inr ?next"
    by (simp add: sparseNext_def foldE_Inr)
  moreover have "levelGet ?next zs (Suc l) p = sparse.nodeAt E leaves (Suc l) p" for p
  proof -
    have g: "?g p = sparse.nodeAt E leaves (Suc l) p" by (simp add: cur mult.commute)
    have "?g p = zs ! Suc l" if "p \<notin> set ?ps"
    proof -
      have "map_of cur (p * 2) = None" "map_of cur (p * 2 + 1) = None"
        using that by (force simp: map_of_eq_None_keys)+
      then show ?thesis by (simp add: levelGet_def zs)
    qed
    then show ?thesis
      using g by (auto simp: levelGet_def [of ?next] map_of_fold_mapSet)
  qed
  ultimately show ?thesis by blast
qed

definition stepOf :: "InclusionProofStep \<Rightarrow> bool \<times> string" where
  "stepOf s = (ips_side s = ''left'', ips_hash s)"

lemma stepOf_make [simp]: "stepOf \<lparr>ips_side = s, ips_hash = h\<rparr> = (s = ''left'', h)"
  by (simp add: stepOf_def)

lemma sparseClimb_climb: "sparseClimb E path d = Inr (sparse.climb E (map stepOf path) d)"
  by (induction path arbitrary: d) (simp_all add: stepOf_def sparse.stepIn_def)

lemma sparseUp_nodeAt:
  assumes "\<And>i. levelGet cur zs l i = sparse.nodeAt E leaves l i"
    and zs: "\<And>k. k \<le> l + n \<Longrightarrow> zs ! k = sparse.zeroAt E k"
  shows "\<exists>top. sparseUp E zs l n cur = Inr top \<and> (\<forall>i. levelGet top zs (l + n) i = sparse.nodeAt E leaves (l + n) i)"
  using assms
proof (induction n arbitrary: l cur)
  case (Suc n)
  obtain nxt where n: "sparseNext E zs l cur = Inr nxt" "\<And>i. levelGet nxt zs (Suc l) i = sparse.nodeAt E leaves (Suc l) i"
    using sparseNext_nodeAt [OF Suc.prems(1)] Suc.prems(2) by (metis Suc_leI le_add1 less_add_Suc1 add_Suc_right less_or_eq_imp_le)
  then show ?case using Suc.IH [OF n(2)] Suc.prems(2) by simp
qed simp

lemma sparsePathUp_nodeAt:
  assumes "\<And>i. levelGet cur zs l i = sparse.nodeAt E leaves l i"
    and zs: "\<And>k. k \<le> l + n \<Longrightarrow> zs ! k = sparse.zeroAt E k"
  shows "\<exists>path. sparsePathUp E zs l n cur c = Inr path \<and> length path = n \<and> sparse.sidesOf (map stepOf path) c
     \<and> sparse.climb E (map stepOf path) (sparse.nodeAt E leaves l c) = sparse.nodeAt E leaves (l + n) (c div 2 ^ n)"
  using assms
proof (induction n arbitrary: l cur c)
  case (Suc n)
  obtain nxt where n: "sparseNext E zs l cur = Inr nxt" "\<And>i. levelGet nxt zs (Suc l) i = sparse.nodeAt E leaves (Suc l) i"
    using sparseNext_nodeAt [OF Suc.prems(1)] Suc.prems(2) by (metis Suc_leI le_add1 less_add_Suc1 add_Suc_right less_or_eq_imp_le)
  obtain path where p: "sparsePathUp E zs (Suc l) n nxt (c div 2) = Inr path" "length path = n"
    "sparse.sidesOf (map stepOf path) (c div 2)"
    "sparse.climb E (map stepOf path) (sparse.nodeAt E leaves (Suc l) (c div 2)) = sparse.nodeAt E leaves (Suc l + n) (c div 2 div 2 ^ n)"
    using Suc.IH [OF n(2), of "c div 2"] Suc.prems(2) by auto
  have side: "(if c mod 2 = 0 then ''right'' else ''left'') = ''left'' \<longleftrightarrow> c mod 2 = 1"
    "(if c mod 2 = 0 then c + 1 else c - 1) = (if c mod 2 = 1 then c - 1 else c + 1)"
    by (auto simp: odd_iff_mod_2_eq_one even_iff_mod_2_eq_zero [symmetric])
  have "sparse.climb E (map stepOf path) (hexDigest E (sparse.stepIn (c mod 2 = 1,
      sparse.nodeAt E leaves l (if c mod 2 = 1 then c - 1 else c + 1)) (sparse.nodeAt E leaves l c))) = sparse.nodeAt E leaves (Suc l + n) (c div 2 div 2 ^ n)"
    unfolding sparse.step_pair by (fact p(4))
  then show ?case
    using n(1) p(1-3) by (simp add: side Suc.prems(1) zdiv_zmult2_eq)
qed simp

section \<open>Trees that were built\<close>

lemma leafHashes_Inr: "leafHashes E leaves = Inr (map (\<lambda>(i, v). (i, hexDigest E (sparseLeafInput v))) leaves)"
  by (simp add: leafHashes_def sequenceE_eq_Inr case_prod_beta)

lemma leafHashes_nodeAt:
  assumes "zs ! 0 = sparse.zeroAt E 0"
  shows "levelGet (map (\<lambda>(i, v). (i, hexDigest E (sparseLeafInput v))) leaves) zs 0 i = sparse.nodeAt E (map_of leaves) 0 i"
  using assms by (simp add: levelGet_def map_of_map split: option.splits)

lemma zeroHashes_nth: "k \<le> n \<Longrightarrow> map (sparse.zeroAt E) [0..<Suc n] ! k = sparse.zeroAt E k"
  by (simp del: upt_Suc)

lemma sparseRoot_nodeAt:
  "sparseMerkleRootFromLeaves E leaves depth (map (sparse.zeroAt E) [0..<Suc (nat depth)]) =
     Inr (sparse.nodeAt E (map_of leaves) (nat depth) 0)"
proof -
  let ?zs = "map (sparse.zeroAt E) [0..<Suc (nat depth)]"
  have z: "k \<le> 0 + nat depth \<Longrightarrow> ?zs ! k = sparse.zeroAt E k" for k by (simp del: upt_Suc)
  then have "?zs ! 0 = sparse.zeroAt E 0" by simp
  from sparseUp_nodeAt [OF leafHashes_nodeAt [OF this], of "nat depth", OF z]
  obtain top where "sparseUp E ?zs 0 (nat depth) (map (\<lambda>(i, v). (i, hexDigest E (sparseLeafInput v))) leaves) = Inr top"
    "\<forall>i. levelGet top ?zs (nat depth) i = sparse.nodeAt E (map_of leaves) (nat depth) i" by auto
  then show ?thesis by (simp add: sparseMerkleRootFromLeaves_def leafHashes_Inr del: upt_Suc)
qed

lemma sparsePath_nodeAt:
  "\<exists>path. sparseMerklePath E leaves c depth (map (sparse.zeroAt E) [0..<Suc (nat depth)]) = Inr path \<and> length path = nat depth
     \<and> sparse.sidesOf (map stepOf path) c
     \<and> sparse.climb E (map stepOf path) (sparse.nodeAt E (map_of leaves) 0 c) = sparse.nodeAt E (map_of leaves) (nat depth) (c div 2 ^ nat depth)"
proof -
  let ?zs = "map (sparse.zeroAt E) [0..<Suc (nat depth)]"
  have z: "k \<le> 0 + nat depth \<Longrightarrow> ?zs ! k = sparse.zeroAt E k" for k by (simp del: upt_Suc)
  then have "?zs ! 0 = sparse.zeroAt E 0" by simp
  from sparsePathUp_nodeAt [OF leafHashes_nodeAt [OF this], of "nat depth", OF z] show ?thesis
    by (simp add: sparseMerklePath_def leafHashes_Inr del: upt_Suc)
qed

lemma insertLeaf_Inr:
  "insertLeaf d v m = Inr m' \<Longrightarrow>
     \<exists>i. sparseMerkleIndex v d = Inr i \<and> (map_of m i = None \<or> map_of m i = Some v) \<and> m' = mapSet m i v"
  by (auto simp: insertLeaf_def bindE_eq_Inr split: if_splits) (auto split: option.splits if_splits)

lemma insertLeaf_fold:
  assumes "foldE (insertLeaf d) vs m = Inr m'"
  shows "(\<forall>v \<in> set vs. \<exists>i. sparseMerkleIndex v d = Inr i \<and> map_of m' i = Some v)
    \<and> (\<forall>i v. map_of m i = Some v \<longrightarrow> map_of m' i = Some v)
    \<and> (\<forall>i v. map_of m' i = Some v \<longrightarrow> map_of m i = Some v \<or> v \<in> set vs \<and> sparseMerkleIndex v d = Inr i)"
  using assms
proof (induction vs arbitrary: m)
  case (Cons v vs)
  obtain i where i: "sparseMerkleIndex v d = Inr i" "map_of m i = None \<or> map_of m i = Some v"
    and rest: "foldE (insertLeaf d) vs (mapSet m i v) = Inr m'"
    using Cons.prems by (auto simp: bindE_eq_Inr dest!: insertLeaf_Inr)
  have a: "\<And>w. w \<in> set vs \<Longrightarrow> \<exists>j. sparseMerkleIndex w d = Inr j \<and> map_of m' j = Some w"
    and b: "\<And>j w. ((map_of m)(i \<mapsto> v)) j = Some w \<Longrightarrow> map_of m' j = Some w"
    and c: "\<And>j w. map_of m' j = Some w \<Longrightarrow> ((map_of m)(i \<mapsto> v)) j = Some w \<or> w \<in> set vs \<and> sparseMerkleIndex w d = Inr j"
    using Cons.IH [OF rest] by auto
  have "map_of m' i = Some v" using b [of i v] by simp
  moreover have "map_of m' j = Some w" if "map_of m j = Some w" for j w
    using b [of j w] that i(2) by (cases "j = i") auto
  moreover have "map_of m j = Some w \<or> w \<in> set (v # vs) \<and> sparseMerkleIndex w d = Inr j" if "map_of m' j = Some w" for j w
    using c [OF that] i(1) by (cases "j = i") auto
  ultimately show ?case using a i(1) by auto
qed simp

lemma buildSparse_Inr:
  assumes "buildSparseMerkleTree E values profile = Inr tree"
  shows "st_profile tree = profile" "st_zero_hashes tree = map (sparse.zeroAt E) [0..<Suc (nat (sm_tree_depth profile))]"
    "st_root tree = sparse.nodeAt E (map_of (st_leaves tree)) (nat (sm_tree_depth profile)) 0"
    "map_of (st_leaves tree) i = Some v \<longleftrightarrow> v \<in> set values \<and> sparseMerkleIndex v (sm_tree_depth profile) = Inr i"
proof -
  obtain leaves where l: "foldE (insertLeaf (sm_tree_depth profile)) (sort values) [] = Inr leaves" "st_leaves tree = leaves"
    and t: "st_profile tree = profile" "st_zero_hashes tree = map (sparse.zeroAt E) [0..<Suc (nat (sm_tree_depth profile))]"
      "st_root tree = sparse.nodeAt E (map_of leaves) (nat (sm_tree_depth profile)) 0"
    using assms by (auto simp: buildSparseMerkleTree_def bindE_eq_Inr sparseMerkleZeroHashes_def zeroHashesTo_Inr sparseRoot_nodeAt simp del: upt_Suc)
  then show "st_profile tree = profile" "st_zero_hashes tree = map (sparse.zeroAt E) [0..<Suc (nat (sm_tree_depth profile))]"
    "st_root tree = sparse.nodeAt E (map_of (st_leaves tree)) (nat (sm_tree_depth profile)) 0" by simp_all
  show "map_of (st_leaves tree) i = Some v \<longleftrightarrow> v \<in> set values \<and> sparseMerkleIndex v (sm_tree_depth profile) = Inr i"
    using insertLeaf_fold [OF l(1)] l(2) by force
qed

lemma sparseIndex_range:
  assumes "sparseMerkleIndex v d = Inr i"
  shows "1 \<le> d" "d \<le> 30" "0 \<le> i" "i div 2 ^ nat d = 0" "isSafeInteger i" "isSafeInteger d"
proof -
  have d: "1 \<le> d" "d \<le> 30" and i: "0 \<le> i" "i < 2 ^ nat d"
    using assms by (auto simp: sparseMerkleIndex_def bindE_eq_Inr split: if_splits)
  then show "1 \<le> d" "d \<le> 30" "0 \<le> i" "i div 2 ^ nat d = 0" by simp_all
  have "(2::int) ^ nat d \<le> 2 ^ 30" using d by (intro power_increasing) auto
  then show "isSafeInteger i" "isSafeInteger d" using i d by (auto simp: isSafeInteger_def)
qed

section \<open>Proofs that verify\<close>

lemma indexCommitment_Inr: "isSafeInteger i \<Longrightarrow> \<exists>h. indexCommitment E t i = Inr h"
  unfolding indexCommitment_def by (subst sparseHash_Inr) simp_all

lemma sparseProofHash_Inr: "isSafeInteger i \<Longrightarrow> isSafeInteger d \<Longrightarrow> \<exists>h. sparseProofHash E l r v i d path = Inr h"
  unfolding sparseProofHash_def
  by (subst sparseHash_Inr) (simp_all add: pathVal_def list_all_iff InclusionProofStep_obj_def)

lemma rootCheckpoint_Inr: "\<exists>h. rootCheckpoint E tree rc = Inr h"
  unfolding rootCheckpoint_def by (cases rc) (simp_all add: sparseHash_Inr)

lemma hexDigest_nonempty [simp]: "hexDigest E x \<noteq> []"
  by (simp add: hexDigest_def bytesToHex_def)

definition proofLabel :: "bool \<Rightarrow> string" where
  "proofLabel nonMember = (if nonMember then ''sparse-merkle-non-membership-proof'' else ''sparse-merkle-inclusion-proof'')"

text \<open>
  An object built for a value verifies as soon as its path leads from the start (the empty leaf, or the value's leaf) to the root. The
  path need not be the one of the value's position.
\<close>

lemma sparseProofObject_verifies:
  assumes t: "buildSparseMerkleTree E values profile = Inr tree"
    and i: "sparseMerkleIndex v (sm_tree_depth profile) = Inr i"
    and p: "length path = nat (sm_tree_depth profile)"
      "sparse.climb E (map stepOf path) (if nonMember then sparse.zeroAt E 0 else hexDigest E (sparseLeafInput v)) = st_root tree"
  shows "\<exists>proof. sparseProofObject E (proofLabel nonMember) (if nonMember then Some (sparse.zeroAt E 0) else None) v tree i path subject at rc = Inr proof
     \<and> nm_value_commitment proof = v \<and> nm_sibling_path proof = Some path \<and> nm_leaf_index proof = Some i
     \<and> truthyStr (nm_empty_leaf_commitment proof) = nonMember
     \<and> verifySparseMerkleProof E proof (st_root tree) profile = Inr True"
proof -
  note tree = buildSparse_Inr [OF t]
  note r = sparseIndex_range [OF i]
  obtain a where a: "rootCheckpoint E tree rc = Inr a" using rootCheckpoint_Inr by blast
  obtain b where b: "indexCommitment E (sm_tree_id profile) i = Inr b" using indexCommitment_Inr [OF r(5)] by blast
  obtain c where c: "sparseProofHash E (proofLabel nonMember) (st_root tree) v i (sm_tree_depth profile) path = Inr c"
    using sparseProofHash_Inr [OF r(5,6)] by blast
  have z: "map (sparse.zeroAt E) [0..<Suc (nat (sm_tree_depth profile))] ! 0 = sparse.zeroAt E 0" by (rule zeroHashes_nth) simp
  have len: "int (length path) = sm_tree_depth profile" using p(1) r(1) by simp
  show ?thesis
    using p(2) c
    by (cases nonMember) (simp_all add: sparseProofObject_def verifySparseMerkleProof_def tree(1) a b i len sparseClimb_climb
        sparseMerkleZeroHashes_def zeroHashesTo_Inr z proofLabel_def del: upt_Suc)
qed

lemma nonMembership_verifies:
  assumes t: "buildSparseMerkleTree E values profile = Inr tree"
    and pr: "proveSparseMerkleNonMembership E v tree subject at rc = Inr proof"
  shows "verifySparseMerkleProof E proof (st_root tree) profile = Inr True" "v \<notin> set values"
    "nm_value_commitment proof = v" "truthyStr (nm_empty_leaf_commitment proof)"
proof -
  note tree = buildSparse_Inr [OF t]
  obtain a i path where i: "sparseMerkleIndex v (sm_tree_depth profile) = Inr i" "map_of (st_leaves tree) i = None"
    and path: "sparseMerklePath E (st_leaves tree) i (sm_tree_depth profile) (st_zero_hashes tree) = Inr path"
    and obj: "sparseProofObject E (proofLabel True) (Some (st_zero_hashes tree ! 0)) v tree i path subject a rc = Inr proof"
    using pr by (auto simp: proveSparseMerkleNonMembership_def bindE_eq_Inr tree(1) proofLabel_def split: if_splits)
  have z: "st_zero_hashes tree ! 0 = sparse.zeroAt E 0" unfolding tree(2) by (rule zeroHashes_nth) simp
  have p: "length path = nat (sm_tree_depth profile)" "sparse.climb E (map stepOf path) (sparse.zeroAt E 0) = st_root tree"
    using sparsePath_nodeAt [of E "st_leaves tree" i "sm_tree_depth profile"] path i(2) sparseIndex_range(4) [OF i(1)]
    by (auto simp: tree(2,3) simp del: upt_Suc)
  show "verifySparseMerkleProof E proof (st_root tree) profile = Inr True"
    "nm_value_commitment proof = v" "truthyStr (nm_empty_leaf_commitment proof)"
    using sparseProofObject_verifies [OF t i(1) p(1), of True subject a rc] p(2) obj z by simp_all
  show "v \<notin> set values" using tree(4) [of i v] i by auto
qed

section \<open>What verification shows\<close>

lemma verifySparse_True:
  assumes "verifySparseMerkleProof E proof root profile = Inr True" "truthyStr (nm_empty_leaf_commitment proof)"
  obtains i path where "nm_leaf_index proof = Some i" "nm_sibling_path proof = Some path"
    "int (length path) = sm_tree_depth profile" "sparseMerkleIndex (nm_value_commitment proof) (sm_tree_depth profile) = Inr i"
    "sparse.climb E (map stepOf path) (sparse.zeroAt E 0) = root"
proof -
  have z: "map (sparse.zeroAt E) [0..<Suc n] ! 0 = sparse.zeroAt E 0" for n by (rule zeroHashes_nth) simp
  show thesis
    using assms that
    by (auto simp: verifySparseMerkleProof_def bindE_eq_Inr sparseClimb_climb sparseMerkleZeroHashes_def zeroHashesTo_Inr z Let_def
        simp del: upt_Suc split: if_splits option.splits)
qed

definition sidesMatch :: "SetNonMembershipProofV1 \<Rightarrow> bool" where
  "sidesMatch proof =
     (case (nm_sibling_path proof, nm_leaf_index proof) of (Some path, Some i) \<Rightarrow> sparse.sidesOf (map stepOf path) i | _ \<Rightarrow> False)"

definition sparseVerifyInputs :: "env \<Rightarrow> SetNonMembershipProofV1 \<Rightarrow> bytes list" where
  "sparseVerifyInputs E proof =
     sparseZeroInput # sparse.climbInputs E (map stepOf (orElse (nm_sibling_path proof) [])) (sparse.zeroAt E 0)"

definition sparseTreeInputs :: "env \<Rightarrow> SparseMerkleTreeV1 \<Rightarrow> int \<Rightarrow> bytes list" where
  "sparseTreeInputs E tree i =
     sparse.pathInputs E (map_of (st_leaves tree)) 0 (nat (sm_tree_depth (st_profile tree))) i
     @ (case map_of (st_leaves tree) i of Some v \<Rightarrow> [sparseLeafInput v] | None \<Rightarrow> [])"

lemma nonMembership_sides:
  assumes t: "buildSparseMerkleTree E values profile = Inr tree"
    and pr: "proveSparseMerkleNonMembership E v tree subject at rc = Inr proof"
  shows "sidesMatch proof" "\<exists>i. nm_leaf_index proof = Some i" "\<exists>path. nm_sibling_path proof = Some path
     \<and> length path = nat (sm_tree_depth profile) \<and> sparse.climb E (map stepOf path) (sparse.zeroAt E 0) = st_root tree"
proof -
  note tree = buildSparse_Inr [OF t]
  obtain a i path where i: "sparseMerkleIndex v (sm_tree_depth profile) = Inr i" "map_of (st_leaves tree) i = None"
    and path: "sparseMerklePath E (st_leaves tree) i (sm_tree_depth profile) (st_zero_hashes tree) = Inr path"
    and obj: "nm_leaf_index proof = Some i" "nm_sibling_path proof = Some path"
    using pr by (auto simp: proveSparseMerkleNonMembership_def bindE_eq_Inr tree(1) sparseProofObject_def Let_def split: if_splits)
  have "length path = nat (sm_tree_depth profile)" "sparse.sidesOf (map stepOf path) i"
    "sparse.climb E (map stepOf path) (sparse.zeroAt E 0) = st_root tree"
    using sparsePath_nodeAt [of E "st_leaves tree" i "sm_tree_depth profile"] path i(2) sparseIndex_range(4) [OF i(1)]
    by (auto simp: tree(2,3) simp del: upt_Suc)
  then show "sidesMatch proof" "\<exists>i. nm_leaf_index proof = Some i" "\<exists>path. nm_sibling_path proof = Some path
     \<and> length path = nat (sm_tree_depth profile) \<and> sparse.climb E (map stepOf path) (sparse.zeroAt E 0) = st_root tree"
    using obj by (simp_all add: sidesMatch_def)
qed

lemma nonMembership_total:
  assumes t: "buildSparseMerkleTree E values profile = Inr tree"
    and i: "sparseMerkleIndex v (sm_tree_depth profile) = Inr i"
    and free: "\<forall>w \<in> set values. sparseMerkleIndex w (sm_tree_depth profile) \<noteq> Inr i"
  shows "\<exists>proof. proveSparseMerkleNonMembership E v tree subject (Some at) rc = Inr proof"
proof -
  note tree = buildSparse_Inr [OF t]
  have none: "map_of (st_leaves tree) i = None"
    using tree(4) [of i] free by (cases "map_of (st_leaves tree) i") auto
  obtain path where path: "sparseMerklePath E (st_leaves tree) i (sm_tree_depth profile) (st_zero_hashes tree) = Inr path"
    using sparsePath_nodeAt [of E "st_leaves tree" i "sm_tree_depth profile"] by (auto simp: tree(2) simp del: upt_Suc)
  obtain a b c where "rootCheckpoint E tree rc = Inr a" "indexCommitment E (sm_tree_id profile) i = Inr b"
    "sparseProofHash E ''sparse-merkle-non-membership-proof'' (st_root tree) v i (sm_tree_depth profile) path = Inr c"
    using rootCheckpoint_Inr indexCommitment_Inr sparseProofHash_Inr sparseIndex_range(5,6) [OF i] by metis
  then show ?thesis
    by (simp add: proveSparseMerkleNonMembership_def issuedAt_def tree(1) i none path sparseProofObject_def)
qed

definition demoProfile :: SparseMerkleProfileV1 where
  "demoProfile = \<lparr>sm_tree_id = ''revocations'', sm_tree_depth = 2\<rparr>"

lemma demoSparse_built: "\<exists>tree. buildSparseMerkleTree E [''0x01'', ''0x06''] demoProfile = Inr tree"
proof -
  have "foldE (insertLeaf 2) (sort [''0x01'', ''0x06'']) [] = Inr [(1, ''0x01''), (2, ''0x06'')]" by code_simp
  then show ?thesis
    using sparseRoot_nodeAt [of E "[(1, ''0x01''), (2, ''0x06'')]" 2]
    by (simp add: buildSparseMerkleTree_def demoProfile_def sparseMerkleZeroHashes_def zeroHashesTo_Inr del: upt_Suc)
qed

lemma demoSparse_index:
  "sparseMerkleIndex ''0x01'' (sm_tree_depth demoProfile) = Inr 1"
  "sparseMerkleIndex ''0x03'' (sm_tree_depth demoProfile) = Inr 3"
  "\<forall>w \<in> set [''0x01'', ''0x06'']. sparseMerkleIndex w (sm_tree_depth demoProfile) \<noteq> Inr 3"
proof -
  have "sparseMerkleIndex ''0x03'' 2 = Inr 3 \<and> sparseMerkleIndex ''0x01'' 2 = Inr 1 \<and> sparseMerkleIndex ''0x06'' 2 = Inr 2" by code_simp
  then show "sparseMerkleIndex ''0x01'' (sm_tree_depth demoProfile) = Inr 1"
    "sparseMerkleIndex ''0x03'' (sm_tree_depth demoProfile) = Inr 3"
    "\<forall>w \<in> set [''0x01'', ''0x06'']. sparseMerkleIndex w (sm_tree_depth demoProfile) \<noteq> Inr 3"
    by (simp_all add: demoProfile_def)
qed

section \<open>Properties\<close>

text \<open>
  C31: The optimised sparse tree is the full tree. The root that \<^verbatim>\<open>buildSparseMerkleTree\<close> computes, keeping only the nodes that are
  not empty, is the root of the full binary tree in which exactly the given values stand at their positions.
\<close>

theorem buildSparseMerkleTree_full_tree:
  assumes "buildSparseMerkleTree E values profile = Inr tree"
  shows "st_root tree = sparse.nodeAt E (map_of (st_leaves tree)) (nat (sm_tree_depth profile)) 0
    \<and> (\<forall>i v. map_of (st_leaves tree) i = Some v \<longleftrightarrow> v \<in> set values \<and> sparseMerkleIndex v (sm_tree_depth profile) = Inr i)"
  using buildSparse_Inr(3,4) [OF assms] by blast

theorem buildSparseMerkleTree_full_tree_witness:
  "\<exists>tree. buildSparseMerkleTree demoEnv [''0x01'', ''0x06''] demoProfile = Inr tree
    \<and> st_root tree = sparse.nodeAt demoEnv (map_of (st_leaves tree)) (nat (sm_tree_depth demoProfile)) 0
    \<and> (\<forall>i v. map_of (st_leaves tree) i = Some v \<longleftrightarrow>
         v \<in> set [''0x01'', ''0x06''] \<and> sparseMerkleIndex v (sm_tree_depth demoProfile) = Inr i)"
  using demoSparse_built buildSparseMerkleTree_full_tree by blast

text \<open>
  C33: Non-membership proofs are complete and truthful on the prover's side. If no value of the set stands at the position of
  \<open>v\<close>, \<^verbatim>\<open>proveSparseMerkleNonMembership\<close> returns a proof that \<^verbatim>\<open>verifySparseMerkleProof\<close> accepts; whenever the
  prover returns a proof, \<open>v\<close> is not in the set.
\<close>

theorem proveSparseMerkleNonMembership_verifies:
  assumes t: "buildSparseMerkleTree E values profile = Inr tree"
    and i: "sparseMerkleIndex v (sm_tree_depth profile) = Inr i"
    and free: "\<forall>w \<in> set values. sparseMerkleIndex w (sm_tree_depth profile) \<noteq> Inr i"
  shows "\<exists>proof. proveSparseMerkleNonMembership E v tree subject (Some at) rc = Inr proof
     \<and> verifySparseMerkleProof E proof (st_root tree) profile = Inr True \<and> nm_value_commitment proof = v \<and> v \<notin> set values"
  using nonMembership_total [OF t i free] nonMembership_verifies [OF t] by blast

theorem proveSparseMerkleNonMembership_verifies_witness:
  "\<exists>tree proof. buildSparseMerkleTree demoEnv [''0x01'', ''0x06''] demoProfile = Inr tree
     \<and> proveSparseMerkleNonMembership demoEnv ''0x03'' tree ''tsl:alice'' (Some ''2026-01-01T00:00:00Z'') None = Inr proof
     \<and> verifySparseMerkleProof demoEnv proof (st_root tree) demoProfile = Inr True \<and> nm_value_commitment proof = ''0x03''
     \<and> ''0x03'' \<notin> set [''0x01'', ''0x06'']"
proof -
  obtain tree where "buildSparseMerkleTree demoEnv [''0x01'', ''0x06''] demoProfile = Inr tree" using demoSparse_built by blast
  then show ?thesis using proveSparseMerkleNonMembership_verifies [OF _ demoSparse_index(2,3)] by blast
qed

text \<open>
  C32: Non-membership proofs are sound if the sides of their path are the bits of the leaf index. A non-membership proof that
  \<^verbatim>\<open>verifySparseMerkleProof\<close> accepts against the root of a tree, and whose sides match its index, is for a value that is not in the
  set, or an input the verifier hashed and an input of the tree are a collision of SHA-256.
\<close>

theorem verifySparseMerkleProof_sound:
  assumes E: "hex_codec E" and t: "buildSparseMerkleTree E values profile = Inr tree"
    and v: "verifySparseMerkleProof E proof (st_root tree) profile = Inr True" "truthyStr (nm_empty_leaf_commitment proof)"
    and s: "sidesMatch proof" "nm_leaf_index proof = Some i"
  shows "nm_value_commitment proof \<notin> set values
     \<or> sha256_collision E (set (sparseVerifyInputs E proof)) (set (sparseTreeInputs E tree i))"
proof -
  note tree = buildSparse_Inr [OF t]
  obtain path where p: "nm_sibling_path proof = Some path" "int (length path) = sm_tree_depth profile"
    "sparseMerkleIndex (nm_value_commitment proof) (sm_tree_depth profile) = Inr i"
    "sparse.climb E (map stepOf path) (sparse.zeroAt E 0) = st_root tree"
    using verifySparse_True [OF v] s(2) by (metis option.inject)
  have n: "nat (sm_tree_depth profile) = length (map stepOf path)" using p(2) by simp
  have "sparse.climb E (map stepOf path) (sparse.zeroAt E 0) =
      sparse.nodeAt E (map_of (st_leaves tree)) (length (map stepOf path)) (i div 2 ^ length (map stepOf path))"
    using p(4) tree(3) n sparseIndex_range(4) [OF p(3)] by simp
  moreover have "sparse.sidesOf (map stepOf path) i" using s p(1) by (simp add: sidesMatch_def)
  moreover have ti: "set (sparseTreeInputs E tree i) =
      set (sparse.pathInputs E (map_of (st_leaves tree)) 0 (length (map stepOf path)) i) \<union> sparseLeafInput ` set_option (map_of (st_leaves tree) i)"
    by (cases "map_of (st_leaves tree) i") (simp_all add: sparseTreeInputs_def tree(1) n)
  moreover have vi: "set (sparseVerifyInputs E proof) = insert sparseZeroInput (set (sparse.climbInputs E (map stepOf path) (sparse.zeroAt E 0)))"
    by (simp add: sparseVerifyInputs_def p(1))
  ultimately have "map_of (st_leaves tree) i = None \<or>
      sparse.clash E (set (sparseVerifyInputs E proof)) (set (sparseTreeInputs E tree i))"
    using sparse.nonmember_sound [of E "map stepOf path" "map_of (st_leaves tree)" i] ti vi by simp
  moreover have "map_of (st_leaves tree) i = None \<Longrightarrow> nm_value_commitment proof \<notin> set values"
    using tree(4) [of i] p(3) by auto
  ultimately show ?thesis
    by (auto simp: sparse.clash_def sha256_collision_def hexDigest_def bytesToHex_inject [OF E])
qed

theorem verifySparseMerkleProof_sound_witness:
  "\<exists>tree proof i. buildSparseMerkleTree demoEnv [''0x01'', ''0x06''] demoProfile = Inr tree
     \<and> verifySparseMerkleProof demoEnv proof (st_root tree) demoProfile = Inr True
     \<and> truthyStr (nm_empty_leaf_commitment proof) \<and> sidesMatch proof \<and> nm_leaf_index proof = Some i
     \<and> (nm_value_commitment proof \<notin> set [''0x01'', ''0x06'']
        \<or> sha256_collision demoEnv (set (sparseVerifyInputs demoEnv proof)) (set (sparseTreeInputs demoEnv tree i)))"
proof -
  obtain tree where t: "buildSparseMerkleTree demoEnv [''0x01'', ''0x06''] demoProfile = Inr tree" using demoSparse_built by blast
  obtain pf where p: "proveSparseMerkleNonMembership demoEnv ''0x03'' tree ''tsl:alice'' (Some ''2026-01-01T00:00:00Z'') None = Inr pf"
    using nonMembership_total [OF t demoSparse_index(2,3)] by blast
  obtain i where "nm_leaf_index pf = Some i" using nonMembership_sides(2) [OF t p] by blast
  then show ?thesis
    using verifySparseMerkleProof_sound [OF demo_hyps(1) t] nonMembership_verifies [OF t p] nonMembership_sides(1) [OF t p] t by blast
qed

text \<open>
  Without that check a non-membership proof shows nothing. \<^verbatim>\<open>verifySparseMerkleProof\<close> compares the leaf index with the value but never
  with the sides of the path, so as soon as one position of the tree is empty, every value, the members of the set included, has a
  non-membership proof that it accepts.
\<close>

theorem nonMembership_proof_forgeable:
  assumes t: "buildSparseMerkleTree E values profile = Inr tree"
    and free: "sparseMerkleIndex w (sm_tree_depth profile) = Inr j" "\<forall>u \<in> set values. sparseMerkleIndex u (sm_tree_depth profile) \<noteq> Inr j"
    and v: "v \<in> set values"
  shows "\<exists>proof. nm_value_commitment proof = v \<and> truthyStr (nm_empty_leaf_commitment proof)
     \<and> verifySparseMerkleProof E proof (st_root tree) profile = Inr True"
proof -
  obtain pw where pw: "proveSparseMerkleNonMembership E w tree [] (Some []) None = Inr pw"
    using nonMembership_total [OF t free] by blast
  obtain path where path: "length path = nat (sm_tree_depth profile)" "sparse.climb E (map stepOf path) (sparse.zeroAt E 0) = st_root tree"
    using nonMembership_sides(3) [OF t pw] by blast
  obtain i where i: "sparseMerkleIndex v (sm_tree_depth profile) = Inr i"
    using t v insertLeaf_fold by (fastforce simp: buildSparseMerkleTree_def bindE_eq_Inr)
  show ?thesis
    using sparseProofObject_verifies [OF t i path(1), of True "[]" "[]" None] path(2) by auto
qed

theorem nonMembership_proof_forgeable_witness:
  "\<exists>tree proof. buildSparseMerkleTree demoEnv [''0x01'', ''0x06''] demoProfile = Inr tree \<and> ''0x01'' \<in> set [''0x01'', ''0x06'']
     \<and> nm_value_commitment proof = ''0x01'' \<and> truthyStr (nm_empty_leaf_commitment proof)
     \<and> verifySparseMerkleProof demoEnv proof (st_root tree) demoProfile = Inr True"
proof -
  obtain tree where t: "buildSparseMerkleTree demoEnv [''0x01'', ''0x06''] demoProfile = Inr tree" using demoSparse_built by blast
  then show ?thesis using nonMembership_proof_forgeable [OF t demoSparse_index(2,3), of "''0x01''"] by auto
qed

text \<open>
  The older prover fails at the ends of the set. \<^verbatim>\<open>buildNonMembershipProof\<close> throws for every value that lies below or above all values of the
  set, in particular for every value if the set is empty: it hashes an object in which the missing neighbour is \<^verbatim>\<open>undefined\<close>, which the
  canonical encoder rejects.
\<close>

theorem buildNonMembershipProof_throws_at_ends:
  assumes "(\<forall>w \<in> set values. v < w) \<or> (\<forall>w \<in> set values. w < v)"
  shows "\<exists>e. buildNonMembershipProof E subject v values at = Inl e"
proof (cases "v \<in> set values")
  case False
  let ?lower = "if filter (\<lambda>w. w < v) (sort values) = [] then None else Some (last (filter (\<lambda>w. w < v) (sort values)))"
  let ?upper = "find (\<lambda>w. w > v) (sort values)"
  have "?lower = None \<or> ?upper = None"
    using assms by (auto simp: filter_empty_conv find_None_iff dest: less_asym)
  then have "\<not> jsonSafe (JObj [(''set_root'', JStr r), (''value_commitment'', JStr v), (''lower'', undefStr ?lower), (''upper'', undefStr ?upper)])" for r
    by (auto simp: undefStr_def)
  then have e: "\<exists>e. domainHash E NON_MEMBERSHIP_PROOF_V1
      [(''set_root'', JStr r), (''value_commitment'', JStr v), (''lower'', undefStr ?lower), (''upper'', undefStr ?upper)] = Inl e" for r
    using domainHash_defined by (metis sum.exhaust)
  show ?thesis
  proof (cases "buildSetRoot E (sort values)")
    case (Inr r)
    obtain m where "domainHash E NON_MEMBERSHIP_PROOF_V1
      [(''set_root'', JStr r), (''value_commitment'', JStr v), (''lower'', undefStr ?lower), (''upper'', undefStr ?upper)] = Inl m"
      using e by blast
    then show ?thesis using False Inr by (simp add: buildNonMembershipProof_def Let_def)
  qed (simp add: buildNonMembershipProof_def Let_def False)
qed (simp add: buildNonMembershipProof_def)

theorem buildNonMembershipProof_throws_at_ends_witness:
  "\<exists>e. buildNonMembershipProof demoEnv ''tsl:alice'' ''0x05'' [''0x01'', ''0x02''] None = Inl e"
  using buildNonMembershipProof_throws_at_ends [of "[''0x01'', ''0x02'']" "''0x05''"] by (simp add: less_char_def)

end
