(* ===== verification/Checkpoint.thy ===== *)
theory Checkpoint
  imports Crypto
begin

text \<open>
  Checkpoints and their chains: the hash and signature of a checkpoint (\<^verbatim>\<open>relayStore.ts\<close>, from
  \<^verbatim>\<open>checkpointStoreKey\<close> on) and consistency proofs (\<^verbatim>\<open>consistency.ts\<close>).
\<close>

section \<open>Checkpoints\<close>

definition shardForTrustID :: "env \<Rightarrow> string \<Rightarrow> string" where
  "shardForTrustID E trustId = take 4 (drop 2 (sha256Hex E (DBytes (utf8 trustId))))"

definition checkpointHash :: "env \<Rightarrow> BatchCheckpointV1 \<Rightarrow> string res" where
  "checkpointHash E c =
     domainHash E CHECKPOINT_V1
       (withoutField (withoutField (withoutField (BatchCheckpointV1_obj c) ''relay_signature'') ''settlement_tx'') ''checkpoint_identity_hash'')"

definition legacyCheckpointHashV0 :: "env \<Rightarrow> BatchCheckpointV1 \<Rightarrow> string res" where
  "legacyCheckpointHashV0 E c =
     domainHash E CHECKPOINT_V1
       (withoutField (withoutField (withoutField (BatchCheckpointV1_obj c) ''relay_signature'') ''settlement_backend'') ''settlement_tx'')"

definition signCheckpointWithSeed :: "env \<Rightarrow> BatchCheckpointV1 \<Rightarrow> string \<Rightarrow> BatchCheckpointV1 res" where
  "signCheckpointWithSeed E c seedHex =
     bindE (checkpointHash E (c\<lparr>bc_relay_signature := ''0x00''\<rparr>)) (\<lambda>h.
     bindE (signEd25519 E (DText h) seedHex) (\<lambda>s. Inr (c\<lparr>bc_relay_signature := s\<rparr>)))"

section \<open>Consistency proofs\<close>

definition linkOf :: "env \<Rightarrow> BatchCheckpointV1 \<Rightarrow> ConsistencyLink res" where
  "linkOf E c = bindE (checkpointHash E c) (\<lambda>h.
     Inr \<lparr>cl_checkpoint_hash = h, cl_previous_checkpoint = bc_previous_checkpoint c, cl_epoch_start_ms = bc_epoch_start_ms c\<rparr>)"

definition buildConsistencyProof :: "env \<Rightarrow> BatchCheckpointV1 list \<Rightarrow> ConsistencyProofV1 res" where
  "buildConsistencyProof E checkpoints =
     (if length checkpoints < 2 then Inl ''TSL_CONSISTENCY_CHAIN_TOO_SHORT''
      else let ordered = sort_key bc_epoch_start_ms checkpoints; shard = bc_shard (hd ordered) in
        if \<not> list_all (\<lambda>c. bc_shard c = shard) ordered then Inl ''TSL_CONSISTENCY_SHARD_MISMATCH''
        else bindE (checkpointHash E (hd ordered)) (\<lambda>from.
             bindE (checkpointHash E (last ordered)) (\<lambda>to.
             bindE (sequenceE (map (linkOf E) ordered)) (\<lambda>chain.
               Inr \<lparr>cp_type = ''tsl.consistency_proof.v1'', cp_shard = shard, cp_from_checkpoint = from, cp_to_checkpoint = to,
                 cp_chain = chain, cp_auditor = None, cp_signature = None\<rparr>))))"

definition consistencyProofHash :: "env \<Rightarrow> ConsistencyProofV1 \<Rightarrow> string res" where
  "consistencyProofHash E proof = domainHash E CONSISTENCY_PROOF_V1 (filter (\<lambda>(k, v). k \<noteq> ''signature'') (ConsistencyProofV1_obj proof))"

text \<open>The loop over neighbouring links.\<close>

fun linksOk :: "ConsistencyLink list \<Rightarrow> bool" where
  "linksOk (a # b # chain) =
     (cl_previous_checkpoint b = cl_checkpoint_hash a \<and> \<not> cl_epoch_start_ms b \<le> cl_epoch_start_ms a \<and> linksOk (b # chain))"
| "linksOk _ = True"

definition verifyConsistencyProof :: "ConsistencyProofV1 \<Rightarrow> bool" where
  "verifyConsistencyProof proof =
     (if cp_type proof \<noteq> ''tsl.consistency_proof.v1'' then False
      else if length (cp_chain proof) < 2 then False
      else if cl_checkpoint_hash (hd (cp_chain proof)) \<noteq> cp_from_checkpoint proof then False
      else if cl_checkpoint_hash (last (cp_chain proof)) \<noteq> cp_to_checkpoint proof then False
      else linksOk (cp_chain proof))"

section \<open>What the hash covers\<close>

definition hashedPart :: "BatchCheckpointV1 \<Rightarrow> BatchCheckpointV1" where
  "hashedPart c = c\<lparr>bc_relay_signature := [], bc_settlement_tx := None, bc_checkpoint_identity_hash := None\<rparr>"

definition checkpointPayload :: "BatchCheckpointV1 \<Rightarrow> jsobj" where
  "checkpointPayload c =
     withoutField (withoutField (withoutField (BatchCheckpointV1_obj c) ''relay_signature'') ''settlement_tx'') ''checkpoint_identity_hash''"

lemma withoutField_append: "withoutField (x @ y) k = withoutField x k @ withoutField y k"
  by (simp add: withoutField_def)

lemma withoutField_Cons:
  "withoutField ((k', v) # x) k = (if k' \<noteq> k \<and> v \<noteq> JUndefined then (k', v) # withoutField x k else withoutField x k)"
  by (simp add: withoutField_def)

lemma withoutField_optField:
  "(\<And>y. f y \<noteq> JUndefined) \<Longrightarrow> withoutField (optField k' f w) k = (if k' = k then [] else optField k' f w)"
  by (cases w) (simp_all add: withoutField_def)

lemma withoutField_Nil [simp]: "withoutField [] k = []"
  by (simp add: withoutField_def)

lemmas withoutField_simps = withoutField_append withoutField_Cons withoutField_optField

lemma checkpointPayload_eq:
  "checkpointPayload c =
     [(''type'', JStr (bc_type c)), (''epoch_start_ms'', JNum (JInt (bc_epoch_start_ms c))),
      (''epoch_duration_ms'', JNum (JInt (bc_epoch_duration_ms c))), (''shard'', JStr (bc_shard c)),
      (''event_root'', JStr (bc_event_root c)), (''receipt_root'', JStr (bc_receipt_root c)),
      (''attestation_root'', JStr (bc_attestation_root c)), (''revocation_root'', JStr (bc_revocation_root c)),
      (''event_count'', JNum (JInt (bc_event_count c))), (''receipt_count'', JNum (JInt (bc_receipt_count c))),
      (''previous_checkpoint'', JStr (bc_previous_checkpoint c))]
     @ optField ''settlement_backend'' JStr (bc_settlement_backend c) @ [(''relay_id'', JStr (bc_relay_id c))]"
  by (simp add: checkpointPayload_def BatchCheckpointV1_obj_def withoutField_simps)

lemma checkpointHash_eq: "checkpointHash E c = domainHash E CHECKPOINT_V1 (checkpointPayload c)"
  by (simp add: checkpointHash_def checkpointPayload_def)

lemma checkpointHash_hashedPart: "checkpointHash E (hashedPart c) = checkpointHash E c"
  by (simp add: checkpointHash_eq checkpointPayload_eq hashedPart_def)

lemma checkpointHash_frame [frame_simps, simp]:
  "checkpointHash E (c\<lparr>bc_relay_signature := s\<rparr>) = checkpointHash E c"
  "checkpointHash E (c\<lparr>bc_settlement_tx := t\<rparr>) = checkpointHash E c"
  "checkpointHash E (c\<lparr>bc_checkpoint_identity_hash := h\<rparr>) = checkpointHash E c"
  by (simp_all add: checkpointHash_eq checkpointPayload_eq)

lemma checkpointPayload_inject:
  assumes "normKeys (JObj (checkpointPayload c)) = normKeys (JObj (checkpointPayload d))"
  shows "hashedPart c = hashedPart d"
  using objGet_eq [OF assms, of "''type''"] objGet_eq [OF assms, of "''epoch_start_ms''"] objGet_eq [OF assms, of "''epoch_duration_ms''"]
    objGet_eq [OF assms, of "''shard''"] objGet_eq [OF assms, of "''event_root''"] objGet_eq [OF assms, of "''receipt_root''"]
    objGet_eq [OF assms, of "''attestation_root''"] objGet_eq [OF assms, of "''revocation_root''"] objGet_eq [OF assms, of "''event_count''"]
    objGet_eq [OF assms, of "''receipt_count''"] objGet_eq [OF assms, of "''previous_checkpoint''"]
    objGet_eq [OF assms, of "''settlement_backend''"] objGet_eq [OF assms, of "''relay_id''"]
  by (cases c; cases d) (simp add: checkpointPayload_eq hashedPart_def)

definition checkpointNumbersSafe :: "BatchCheckpointV1 \<Rightarrow> bool" where
  "checkpointNumbersSafe c \<longleftrightarrow> isSafeInteger (bc_epoch_start_ms c) \<and> isSafeInteger (bc_epoch_duration_ms c)
     \<and> isSafeInteger (bc_event_count c) \<and> isSafeInteger (bc_receipt_count c)"

lemma checkpointHash_total: "(\<exists>h. checkpointHash E c = Inr h) \<longleftrightarrow> checkpointNumbersSafe c"
  unfolding checkpointHash_eq domainHash_defined
  by (cases "bc_settlement_backend c") (simp_all add: checkpointPayload_eq checkpointNumbersSafe_def)

lemma checkpointHash_binding:
  assumes "hex_codec E" "checkpointHash E c = Inr h" "checkpointHash E d = Inr h"
  obtains "hashedPart c = hashedPart d"
  | b b' where "canonicalBytes (JObj (checkpointPayload c)) = Inr b" "canonicalBytes (JObj (checkpointPayload d)) = Inr b'"
      "sha256_collision E {domainInput CHECKPOINT_V1 b} {domainInput CHECKPOINT_V1 b'}"
proof -
  obtain b b' where b: "canonicalBytes (JObj (checkpointPayload c)) = Inr b" "canonicalBytes (JObj (checkpointPayload d)) = Inr b'"
    and h: "hashDomain E CHECKPOINT_V1 (DBytes b) = hashDomain E CHECKPOINT_V1 (DBytes b')"
    using assms(2,3) by (auto simp: checkpointHash_eq domainHash_Inr)
  have t: "CHR 0x00 \<notin> set CHECKPOINT_V1" by (simp add: tag_defs)
  show thesis
  proof (cases "b = b'")
    case True
    then have "hashedPart c = hashedPart d" using canonicalBytes_eq_iff [OF b(1)] b(2) checkpointPayload_inject by metis
    then show thesis by (rule that(1))
  next
    case False
    then show thesis using that(2) [OF b] hashDomain_binding [OF assms(1) t t h] by blast
  qed
qed

definition checkpointInputs :: "BatchCheckpointV1 \<Rightarrow> bytes list" where
  "checkpointInputs c = (case canonicalBytes (JObj (checkpointPayload c)) of Inr b \<Rightarrow> [domainInput CHECKPOINT_V1 b] | Inl e \<Rightarrow> [])"

lemma checkpointHash_same:
  assumes "hex_codec E" "checkpointHash E c = Inr h" "checkpointHash E d = Inr h"
  shows "hashedPart c = hashedPart d \<or> sha256_collision E (set (checkpointInputs c)) (set (checkpointInputs d))"
  by (rule checkpointHash_binding [OF assms]) (simp_all add: checkpointInputs_def)

section \<open>Chains\<close>

fun chained :: "env \<Rightarrow> BatchCheckpointV1 list \<Rightarrow> bool" where
  "chained E (a # b # cs) =
     (checkpointHash E a = Inr (bc_previous_checkpoint b) \<and> bc_epoch_start_ms a < bc_epoch_start_ms b \<and> chained E (b # cs))"
| "chained E _ = True"

lemma linksOk_chained:
  assumes "sequenceE (map (linkOf E) cs) = Inr chain"
  shows "linksOk chain \<longleftrightarrow> chained E cs"
proof -
  have "map (linkOf E) cs = map Inr chain" using assms by (simp add: sequenceE_eq_Inr)
  then show ?thesis
  proof (induction E cs arbitrary: chain rule: chained.induct)
    case (1 E a b cs)
    then obtain x y rest where c: "chain = x # y # rest" "linkOf E a = Inr x" "linkOf E b = Inr y" "map (linkOf E) cs = map Inr rest"
      by (auto simp: map_eq_Cons_conv)
    have "linksOk (y # rest) \<longleftrightarrow> chained E (b # cs)" using "1.IH" [of "y # rest"] c by simp
    then show ?case using c(2,3) by (auto simp: c(1) linkOf_def bindE_eq_Inr)
  qed (auto simp: map_eq_Cons_conv)
qed

lemma chained_snoc:
  "cs \<noteq> [] \<Longrightarrow> chained E (cs @ [d]) \<longleftrightarrow>
     chained E cs \<and> checkpointHash E (last cs) = Inr (bc_previous_checkpoint d) \<and> bc_epoch_start_ms (last cs) < bc_epoch_start_ms d"
  by (induction E cs rule: chained.induct) auto

lemma chained_history:
  assumes E: "hex_codec E"
    and "chained E cs" "chained E ds" "length cs = length ds" "cs \<noteq> []"
    and "checkpointHash E (last cs) = Inr h" "checkpointHash E (last ds) = Inr h"
  shows "map hashedPart cs = map hashedPart ds \<or>
    sha256_collision E (set (concat (map checkpointInputs cs))) (set (concat (map checkpointInputs ds)))"
  using assms(2-)
proof (induction cs arbitrary: ds h rule: rev_induct)
  case (snoc c cs)
  obtain d ds' where ds: "ds = ds' @ [d]" using snoc.prems(3) by (cases ds rule: rev_cases) auto
  have top: "hashedPart c = hashedPart d \<or> sha256_collision E (set (checkpointInputs c)) (set (checkpointInputs d))"
    using checkpointHash_same [OF E] snoc.prems(5,6) ds by simp
  show ?case
  proof (cases "cs = [] \<or> hashedPart c \<noteq> hashedPart d")
    case True
    then show ?thesis using top snoc.prems(3) ds by (auto simp: sha256_collision_def)
  next
    case False
    then have ne: "cs \<noteq> []" "ds' \<noteq> []" "hashedPart c = hashedPart d" using snoc.prems(3) ds by auto
    have "bc_previous_checkpoint (hashedPart c) = bc_previous_checkpoint (hashedPart d)" using ne(3) by simp
    then have p: "bc_previous_checkpoint c = bc_previous_checkpoint d" by (simp add: hashedPart_def)
    have "map hashedPart cs = map hashedPart ds' \<or>
        sha256_collision E (set (concat (map checkpointInputs cs))) (set (concat (map checkpointInputs ds')))"
      using snoc.IH [of ds' "bc_previous_checkpoint d"] snoc.prems(1-3) ne(1,2) ds p by (simp add: chained_snoc)
    then show ?thesis using ne(3) ds by (auto simp: sha256_collision_def)
  qed
qed simp

lemma buildConsistency_Inr:
  assumes "buildConsistencyProof E cs = Inr p"
  shows "length cs \<ge> 2" "sequenceE (map (linkOf E) (sort_key bc_epoch_start_ms cs)) = Inr (cp_chain p)"
    "checkpointHash E (hd (sort_key bc_epoch_start_ms cs)) = Inr (cp_from_checkpoint p)"
    "checkpointHash E (last (sort_key bc_epoch_start_ms cs)) = Inr (cp_to_checkpoint p)"
    "cp_type p = ''tsl.consistency_proof.v1''"
  using assms by (auto simp: buildConsistencyProof_def Let_def bindE_eq_Inr split: if_splits)

lemma buildConsistency_verify:
  assumes b: "buildConsistencyProof E cs = Inr p"
  shows "verifyConsistencyProof p \<longleftrightarrow> chained E (sort_key bc_epoch_start_ms cs)"
proof -
  note r = buildConsistency_Inr [OF b]
  let ?os = "sort_key bc_epoch_start_ms cs"
  have m: "map (linkOf E) ?os = map Inr (cp_chain p)" using r(2) by (simp add: sequenceE_eq_Inr)
  have len: "length (cp_chain p) = length cs" using arg_cong [OF m, of length] by simp
  have ne: "?os \<noteq> []" "cp_chain p \<noteq> []" using len r(1) by (auto simp flip: length_greater_0_conv)
  have "linkOf E (hd ?os) = Inr (hd (cp_chain p))" "linkOf E (last ?os) = Inr (last (cp_chain p))"
    using m ne by (metis hd_map, metis last_map)
  then have "cl_checkpoint_hash (hd (cp_chain p)) = cp_from_checkpoint p" "cl_checkpoint_hash (last (cp_chain p)) = cp_to_checkpoint p"
    using r(3,4) by (simp_all add: linkOf_def) (metis ConsistencyLink.select_convs(1))+
  then show ?thesis using linksOk_chained [OF r(2)] len r(1,5) by (simp add: verifyConsistencyProof_def)
qed

section \<open>Properties\<close>

text \<open>
  The identity of a checkpoint is its protocol content. Settling a checkpoint, signing it or recording its identity hash never changes \<^verbatim>\<open>checkpointHash\<close>;
  any other difference between two checkpoints changes it, unless the two hashed inputs are a collision of SHA-256.
\<close>

theorem checkpointHash_identity:
  assumes "hex_codec E" "checkpointHash E c = Inr h"
  shows "(hashedPart c = hashedPart d \<longrightarrow> checkpointHash E d = Inr h)
    \<and> (checkpointHash E d = Inr h \<longrightarrow>
         hashedPart c = hashedPart d \<or> sha256_collision E (set (checkpointInputs c)) (set (checkpointInputs d)))"
  using checkpointHash_same [OF assms] assms(2) checkpointHash_hashedPart by metis

definition demoCheckpoint :: "int \<Rightarrow> string \<Rightarrow> BatchCheckpointV1" where
  "demoCheckpoint epoch prev = \<lparr>bc_type = ''tsl.batch_checkpoint.v1'', bc_epoch_start_ms = epoch, bc_epoch_duration_ms = 1000, bc_shard = ''ab01'',
     bc_event_root = ZERO_HASH, bc_receipt_root = ZERO_HASH, bc_attestation_root = ZERO_HASH, bc_revocation_root = ZERO_HASH,
     bc_event_count = 0, bc_receipt_count = 0, bc_previous_checkpoint = prev, bc_checkpoint_identity_hash = None,
     bc_settlement_backend = None, bc_settlement_tx = None, bc_relay_id = ''did:tsl:relay:dev'', bc_relay_signature = ''0x00''\<rparr>"

lemma demoCheckpoint_sel [simp]:
  "bc_shard (demoCheckpoint e q) = ''ab01''" "bc_epoch_start_ms (demoCheckpoint e q) = e" "bc_previous_checkpoint (demoCheckpoint e q) = q"
  by (simp_all add: demoCheckpoint_def)

lemma demoCheckpoint_hash: "isSafeInteger e \<Longrightarrow> \<exists>h. checkpointHash E (demoCheckpoint e p) = Inr h"
  by (simp add: checkpointHash_total checkpointNumbersSafe_def demoCheckpoint_def isSafeInteger_def)

theorem checkpointHash_identity_witness:
  "\<exists>h. checkpointHash demoEnv (demoCheckpoint 0 ZERO_HASH) = Inr h
     \<and> checkpointHash demoEnv ((demoCheckpoint 0 ZERO_HASH)\<lparr>bc_settlement_tx := Some ''0x01'', bc_relay_signature := ''0x02''\<rparr>) = Inr h"
proof -
  obtain h where h: "checkpointHash demoEnv (demoCheckpoint 0 ZERO_HASH) = Inr h" using demoCheckpoint_hash [of 0 demoEnv ZERO_HASH] by (auto simp: isSafeInteger_def)
  have "hashedPart (demoCheckpoint 0 ZERO_HASH) = hashedPart ((demoCheckpoint 0 ZERO_HASH)\<lparr>bc_settlement_tx := Some ''0x01'', bc_relay_signature := ''0x02''\<rparr>)"
    by (simp add: hashedPart_def demoCheckpoint_def)
  then show ?thesis using checkpointHash_identity [OF demo_hyps(1) h] h by blast
qed



end
