(* ===== verification/Settlement.thy ===== *)
theory Settlement
  imports Checkpoint
begin

text \<open>
  Settlement of checkpoints on an EVM chain (\<^verbatim>\<open>src/packages/core-ts/src/settlement.ts\<close>). The \<^verbatim>\<open>ethers\<close> package is the record
  \<open>eth\<close> of functions; the chain that is read and written over RPC is the record \<open>chain\<close>. Both are parameters.
\<close>

datatype abiVal = AInt int | AHex string

record eth =
  ethId :: "string \<Rightarrow> string"
  keccak256 :: "string \<Rightarrow> string res"
  zeroPadValue :: "string \<Rightarrow> nat \<Rightarrow> string res"
  abiEncode :: "string list \<Rightarrow> abiVal list \<Rightarrow> string res"

definition ZeroHash :: string where
  "ZeroHash = ''0x'' @ replicate 64 (CHR ''0'')"

section \<open>Identifiers as 32 bytes\<close>

definition isHexOf :: "nat \<Rightarrow> nat \<Rightarrow> string \<Rightarrow> bool" where
  "isHexOf lo hi s \<longleftrightarrow> startsWith s ''0x'' \<and> list_all isHexDigit (drop 2 s) \<and> lo \<le> length s - 2 \<and> length s - 2 \<le> hi"

definition shardToBytes32 :: "eth \<Rightarrow> string \<Rightarrow> string res" where
  "shardToBytes32 X shard =
     (let normalized = (if startsWith shard ''0x'' then shard else ''0x'' @ shard) in
      if \<not> isHexOf 1 64 normalized then Inl (''Invalid shard hex: '' @ shard) else zeroPadValue X normalized 32)"

definition relayIdToBytes32 :: "eth \<Rightarrow> string \<Rightarrow> string" where
  "relayIdToBytes32 X relayId = (if isHexOf 64 64 relayId then relayId else ethId X relayId)"

definition trustIdToBytes32 :: "eth \<Rightarrow> string \<Rightarrow> string" where
  "trustIdToBytes32 X trustId = (if isHexOf 64 64 trustId then trustId else ethId X trustId)"

definition keyIdToBytes32 :: "eth \<Rightarrow> string \<Rightarrow> string" where
  "keyIdToBytes32 X keyId = (if isHexOf 64 64 keyId then keyId else ethId X keyId)"

definition providerIdToBytes32 :: "eth \<Rightarrow> string \<Rightarrow> string" where
  "providerIdToBytes32 X providerId = trustIdToBytes32 X providerId"

definition modelVersionToBytes32 :: "eth \<Rightarrow> string \<Rightarrow> string" where
  "modelVersionToBytes32 X modelVersion = (if isHexOf 64 64 modelVersion then modelVersion else ethId X modelVersion)"

section \<open>The contract's view of a checkpoint\<close>

record ContractInput =
  ci_epochStartMs :: int
  ci_epochDurationMs :: int
  ci_shard :: string
  ci_eventRoot :: string
  ci_receiptRoot :: string
  ci_attestationRoot :: string
  ci_revocationRoot :: string
  ci_eventCount :: int
  ci_receiptCount :: int
  ci_previousCheckpoint :: string
  ci_checkpointIdentityHash :: string
  ci_relayId :: string
  ci_settlementBackend :: string

definition toContractCheckpointInput :: "env \<Rightarrow> eth \<Rightarrow> BatchCheckpointV1 \<Rightarrow> ContractInput res" where
  "toContractCheckpointInput E X c =
     bindE (shardToBytes32 X (bc_shard c)) (\<lambda>shard.
     bindE (checkpointHash E c) (\<lambda>h.
       Inr \<lparr>ci_epochStartMs = bc_epoch_start_ms c, ci_epochDurationMs = bc_epoch_duration_ms c, ci_shard = shard,
         ci_eventRoot = bc_event_root c, ci_receiptRoot = bc_receipt_root c, ci_attestationRoot = bc_attestation_root c,
         ci_revocationRoot = bc_revocation_root c, ci_eventCount = bc_event_count c, ci_receiptCount = bc_receipt_count c,
         ci_previousCheckpoint = bc_previous_checkpoint c, ci_checkpointIdentityHash = h, ci_relayId = relayIdToBytes32 X (bc_relay_id c),
         ci_settlementBackend = (if truthyStr (bc_settlement_backend c) then ethId X (the (bc_settlement_backend c)) else ZeroHash)\<rparr>))"

definition contractCheckpointFieldsHashForCheckpoint :: "env \<Rightarrow> eth \<Rightarrow> BatchCheckpointV1 \<Rightarrow> string res" where
  "contractCheckpointFieldsHashForCheckpoint E X c =
     bindE (toContractCheckpointInput E X c) (\<lambda>i.
     bindE (abiEncode X [''uint64'', ''uint32'', ''bytes32'', ''bytes32'', ''bytes32'', ''bytes32'', ''bytes32'']
       [AInt (ci_epochStartMs i), AInt (ci_epochDurationMs i), AHex (ci_shard i), AHex (ci_eventRoot i), AHex (ci_receiptRoot i),
        AHex (ci_attestationRoot i), AHex (ci_revocationRoot i)]) (\<lambda>roots.
     bindE (keccak256 X roots) (\<lambda>rootsHash.
     bindE (abiEncode X [''uint64'', ''uint64''] [AInt (ci_eventCount i), AInt (ci_receiptCount i)]) (\<lambda>counts.
     bindE (keccak256 X counts) (\<lambda>countsHash.
     bindE (abiEncode X [''bytes32'', ''bytes32'', ''bytes32'', ''bytes32'', ''bytes32'', ''bytes32'']
       [AHex rootsHash, AHex countsHash, AHex (ci_previousCheckpoint i), AHex (ci_checkpointIdentityHash i), AHex (ci_relayId i),
        AHex (ci_settlementBackend i)]) (\<lambda>fields. keccak256 X fields))))))"

record ContractCheckpoint =
  cc_epochStartMs :: int
  cc_epochDurationMs :: int
  cc_shard :: string
  cc_eventRoot :: string
  cc_receiptRoot :: string
  cc_attestationRoot :: string
  cc_revocationRoot :: string
  cc_eventCount :: int
  cc_receiptCount :: int
  cc_previousCheckpoint :: string
  cc_checkpointIdentityHash :: string
  cc_contractCheckpointFieldsHash :: string
  cc_relayId :: string
  cc_settlementBackend :: "string option"
  cc_submitter :: "string option"
  cc_submittedAt :: int

definition sameText :: "string \<Rightarrow> string \<Rightarrow> bool" where
  "sameText a b \<longleftrightarrow> toLowerCase a = toLowerCase b"

definition checkpointMismatches :: "env \<Rightarrow> eth \<Rightarrow> BatchCheckpointV1 \<Rightarrow> ContractCheckpoint \<Rightarrow> string list res" where
  "checkpointMismatches E X c stored =
     bindE (toContractCheckpointInput E X c) (\<lambda>i. Inr (concat
       [if cc_epochStartMs stored \<noteq> ci_epochStartMs i then [''epoch_start_ms''] else [],
        if cc_epochDurationMs stored \<noteq> ci_epochDurationMs i then [''epoch_duration_ms''] else [],
        if \<not> sameText (cc_shard stored) (ci_shard i) then [''shard''] else [],
        if \<not> sameText (cc_eventRoot stored) (ci_eventRoot i) then [''event_root''] else [],
        if \<not> sameText (cc_receiptRoot stored) (ci_receiptRoot i) then [''receipt_root''] else [],
        if \<not> sameText (cc_attestationRoot stored) (ci_attestationRoot i) then [''attestation_root''] else [],
        if \<not> sameText (cc_revocationRoot stored) (ci_revocationRoot i) then [''revocation_root''] else [],
        if cc_eventCount stored \<noteq> ci_eventCount i then [''event_count''] else [],
        if cc_receiptCount stored \<noteq> ci_receiptCount i then [''receipt_count''] else [],
        if \<not> sameText (cc_previousCheckpoint stored) (ci_previousCheckpoint i) then [''previous_checkpoint''] else [],
        if truthyStr (cc_settlementBackend stored) \<and> \<not> sameText (the (cc_settlementBackend stored)) (ci_settlementBackend i)
          then [''settlement_backend''] else [],
        if \<not> sameText (cc_relayId stored) (ci_relayId i) then [''relay_id''] else []]))"

section \<open>The settlement backend\<close>

record rpcLog =
  rl_address :: string
  rl_topics :: "string list"
  rl_transactionIndex :: int
  rl_index :: int

record rpcReceipt =
  rr_hash :: string
  rr_blockHash :: string
  rr_blockNumber :: int
  rr_logsBloom :: string
  rr_index :: int
  rr_status :: "int option"
  rr_logs :: "rpcLog list"
  rr_from :: "string option"

text \<open>What the node answers; a failed call is \<open>Inl\<close>.\<close>

record chain =
  getCheckpointByEpochShard :: "int \<Rightarrow> string \<Rightarrow> ContractCheckpoint option res"
  contractCheckpointFieldsHash :: "ContractInput \<Rightarrow> string res"
  getTransactionReceipt :: "string \<Rightarrow> rpcReceipt option res"
  signMessage :: "string \<Rightarrow> string res"
  sendCheckpoint :: "ContractInput \<Rightarrow> string \<Rightarrow> string option res"

record LocalEvmSettlementBackend =
  lb_chainId :: int
  lb_registryAddress :: string

definition settlementBackendId :: "LocalEvmSettlementBackend \<Rightarrow> string" where
  "settlementBackendId B = ''eip155:'' @ string_of_int (lb_chainId B)"

record SettlementVerificationResult =
  svr_settled :: bool
  svr_settlement_backend :: "string option"
  svr_settlement_tx :: "string option"
  svr_settlement_evidence :: "SettlementEvidenceV1 option"
  svr_error :: "string option"

definition evmSubmitCheckpoint :: "env \<Rightarrow> eth \<Rightarrow> chain \<Rightarrow> LocalEvmSettlementBackend \<Rightarrow> BatchCheckpointV1 \<Rightarrow> BatchCheckpointV1 res" where
  "evmSubmitCheckpoint E X ch B c =
     (if \<not> truthyStr (bc_settlement_backend c) then Inl ''TSL_CHECKPOINT_SETTLEMENT_BACKEND_REQUIRED''
      else if bc_settlement_backend c \<noteq> Some (settlementBackendId B) then Inl ''TSL_CHECKPOINT_SETTLEMENT_BACKEND_MISMATCH''
      else bindE (checkpointHash E c) (\<lambda>h.
           let portable = c\<lparr>bc_checkpoint_identity_hash := Some h\<rparr> in
           bindE (toContractCheckpointInput E X portable) (\<lambda>inp.
           bindE (signMessage ch (ci_checkpointIdentityHash inp)) (\<lambda>sig.
           bindE (sendCheckpoint ch inp sig) (\<lambda>receiptHash.
             if \<not> truthyStr receiptHash then Inl ''Checkpoint transaction did not produce a receipt hash''
             else bindE (checkpointHash E portable) (\<lambda>h'.
               Inr (portable\<lparr>bc_checkpoint_identity_hash := Some h', bc_settlement_tx := receiptHash\<rparr>)))))))"

definition CHECKPOINT_SUBMITTED :: string where
  "CHECKPOINT_SUBMITTED = ''CheckpointSubmitted(bytes32,bytes32,uint64,bytes32,bytes32,address)''"

text \<open>The commitments of settlement evidence; an absent field of the evidence is \<^verbatim>\<open>undefined\<close> in the hashed object.\<close>

definition sha256Canonical :: "env \<Rightarrow> jsobj \<Rightarrow> string res" where
  "sha256Canonical E x = bindE (canonicalBytes (JObj x)) (\<lambda>b. Inr (sha256Hex E (DBytes b)))"

definition settlementEventHashForEvidence :: "env \<Rightarrow> SettlementEvidenceV1 \<Rightarrow> string res" where
  "settlementEventHashForEvidence E e = sha256Canonical E
     [(''chain_id'', JNum (JInt (se_chain_id e))), (''contract_address'', JStr (toLowerCase (se_contract_address e))),
      (''checkpoint_identity_hash'', JStr (se_checkpoint_identity_hash e)),
      (''contract_checkpoint_fields_hash'', JStr (se_contract_checkpoint_fields_hash e)),
      (''settlement_tx'', JStr (toLowerCase (se_settlement_tx e))), (''transaction_receipt_hash'', undefStr (se_transaction_receipt_hash e)),
      (''block_hash'', undefStr (se_block_hash e)), (''block_number'', undefInt (se_block_number e)),
      (''receipt_root'', undefStr (se_receipt_root e)), (''transaction_index'', undefInt (se_transaction_index e)),
      (''receipt_status'', undefStr (se_receipt_status e)), (''settlement_event_index'', undefInt (se_settlement_event_index e)),
      (''event_topic_hash'', undefStr (se_event_topic_hash e)), (''log_index'', undefInt (se_log_index e)),
      (''submitter'', JStr (toLowerCase (se_submitter e)))]"

definition receiptStatusOf :: "rpcReceipt option \<Rightarrow> string" where
  "receiptStatusOf r = (let st = Option.bind r rr_status in
     if st = Some 1 then ''success'' else if st = Some 0 then ''reverted'' else ''unknown'')"

definition evidenceBase ::
    "env \<Rightarrow> eth \<Rightarrow> LocalEvmSettlementBackend \<Rightarrow> ContractCheckpoint \<Rightarrow> string \<Rightarrow> string \<Rightarrow> rpcReceipt \<Rightarrow> SettlementEvidenceV1 res" where
  "evidenceBase E X B stored identityHash fieldsHash r =
     (let status = receiptStatusOf (Some r);
          log = find (\<lambda>l. sameText (rl_address l) (lb_registryAddress B) \<and> rl_topics l \<noteq> [] \<and> hd (rl_topics l) = ethId X CHECKPOINT_SUBMITTED) (rr_logs r)
      in bindE (sha256Canonical E [(''block_hash'', JStr (rr_blockHash r)), (''logs_bloom'', JStr (rr_logsBloom r)),
                  (''transaction_receipt_hash'', JStr (rr_hash r))]) (\<lambda>receipt_root.
         bindE (toISOString (cc_submittedAt stored * 1000)) (\<lambda>submitted_at.
         Inr \<lparr>se_type = ''tsl.settlement_evidence.v1'', se_checkpoint_hash = identityHash, se_checkpoint_identity_hash = identityHash,
           se_settlement_backend = settlementBackendId B, se_chain_id = lb_chainId B, se_contract_address = lb_registryAddress B,
           se_contract_checkpoint_hash = Some fieldsHash, se_contract_checkpoint_fields_hash = fieldsHash, se_settlement_tx = rr_hash r,
           se_evidence_kind = ''rpc_attested_receipt'', se_block_header_rlp = None, se_receipt_rlp = None, se_receipt_proof_nodes = None,
           se_finality_proof = None, se_transaction_receipt_hash = Some (rr_hash r), se_block_hash = Some (rr_blockHash r),
           se_block_number = Some (rr_blockNumber r), se_receipt_root = Some receipt_root, se_transaction_index = Some (rr_index r),
           se_receipt_status = Some status, se_chain_proof_commitment = None, se_settlement_event_hash = None,
           se_settlement_event_index = Some (case log of Some l \<Rightarrow> rl_transactionIndex l | None \<Rightarrow> 0),
           se_event_topic_hash = Some (case log of Some l \<Rightarrow> hd (rl_topics l) | None \<Rightarrow> ethId X CHECKPOINT_SUBMITTED),
           se_event_topics = None, se_event_data = None, se_log_index = Some (case log of Some l \<Rightarrow> rl_index l | None \<Rightarrow> 0),
           se_receipt_proof_source_commitment = None, se_finality_source_commitment = None,
           se_submitter = (case cc_submitter stored of Some s \<Rightarrow> s | None \<Rightarrow> orElse (rr_from r) (''0x'' @ replicate 40 (CHR ''0''))),
           se_submitted_at = submitted_at, se_status = (if status = ''success'' then ''settled'' else ''failed'')\<rparr>)))"

definition completeEvidence :: "env \<Rightarrow> LocalEvmSettlementBackend \<Rightarrow> SettlementEvidenceV1 \<Rightarrow> SettlementEvidenceV1 res" where
  "completeEvidence E B e =
     bindE (settlementEventHashForEvidence E e) (\<lambda>eventHash.
     bindE (sha256Canonical E [(''block_hash'', undefStr (se_block_hash e)), (''block_number'', undefInt (se_block_number e)),
       (''receipt_root'', undefStr (se_receipt_root e)), (''transaction_receipt_hash'', undefStr (se_transaction_receipt_hash e)),
       (''transaction_index'', undefInt (se_transaction_index e)), (''log_index'', undefInt (se_log_index e))]) (\<lambda>proofSource.
     bindE (sha256Canonical E [(''chain_id'', JNum (JInt (lb_chainId B))), (''block_hash'', undefStr (se_block_hash e)),
       (''block_number'', undefInt (se_block_number e)), (''source'', JStr ''evm_receipt_v1'')]) (\<lambda>finality.
     bindE (sha256Canonical E [(''settlement_event_hash'', JStr eventHash), (''receipt_proof_source_commitment'', JStr proofSource),
       (''finality_source_commitment'', JStr finality)]) (\<lambda>chainProof.
       Inr (e\<lparr>se_settlement_event_hash := Some eventHash, se_receipt_proof_source_commitment := Some proofSource,
         se_finality_source_commitment := Some finality, se_chain_proof_commitment := Some chainProof\<rparr>)))))"

text \<open>The body of the \<^verbatim>\<open>try\<close> block, from the comparison on and whole; then the method.\<close>

definition settlementCompare ::
    "env \<Rightarrow> eth \<Rightarrow> chain \<Rightarrow> LocalEvmSettlementBackend \<Rightarrow> BatchCheckpointV1 \<Rightarrow> ContractCheckpoint \<Rightarrow> SettlementVerificationResult res" where
  "settlementCompare E X ch B c stored =
     (let comparable = c\<lparr>bc_settlement_backend := Some (orElse (bc_settlement_backend c) (settlementBackendId B))\<rparr> in
      bindE (checkpointMismatches E X comparable stored) (\<lambda>mismatches.
      bindE (checkpointHash E comparable) (\<lambda>identityHash.
      bindE (bindE (toContractCheckpointInput E X comparable) (contractCheckpointFieldsHash ch)) (\<lambda>fieldsHash.
      let all = mismatches @ (if cc_checkpointIdentityHash stored \<noteq> identityHash \<or> cc_contractCheckpointFieldsHash stored \<noteq> fieldsHash
                              then [''checkpoint_identity_hash''] else []) in
      if all \<noteq> []
      then Inr \<lparr>svr_settled = False, svr_settlement_backend = Some (settlementBackendId B), svr_settlement_tx = bc_settlement_tx c,
             svr_settlement_evidence = None, svr_error = Some (''TSL_SETTLEMENT_MISMATCH:'' @ joinStr '','' all)\<rparr>
      else bindE (if truthyStr (bc_settlement_tx c) then getTransactionReceipt ch (the (bc_settlement_tx c)) else Inr None) (\<lambda>receipt.
        bindE (case receipt of
                 Some r \<Rightarrow> bindE (evidenceBase E X B stored identityHash fieldsHash r)
                             (\<lambda>base. bindE (completeEvidence E B base) (\<lambda>e. Inr (Some e)))
               | None \<Rightarrow> Inr None) (\<lambda>evidence.
          Inr \<lparr>svr_settled = (receiptStatusOf receipt = ''success''), svr_settlement_backend = Some (settlementBackendId B),
            svr_settlement_tx = bc_settlement_tx c, svr_settlement_evidence = evidence, svr_error = None\<rparr>))))))"

definition settlementMissing :: SettlementVerificationResult where
  "settlementMissing = \<lparr>svr_settled = False, svr_settlement_backend = None, svr_settlement_tx = None, svr_settlement_evidence = None,
     svr_error = Some ''TSL_SETTLEMENT_MISSING''\<rparr>"

definition settlementAttempt ::
    "env \<Rightarrow> eth \<Rightarrow> chain \<Rightarrow> LocalEvmSettlementBackend \<Rightarrow> BatchCheckpointV1 \<Rightarrow> SettlementVerificationResult res" where
  "settlementAttempt E X ch B c =
     bindE (shardToBytes32 X (bc_shard c)) (\<lambda>key.
     bindE (getCheckpointByEpochShard ch (bc_epoch_start_ms c) key) (\<lambda>found.
       case found of
         None \<Rightarrow> Inr settlementMissing
       | Some stored \<Rightarrow> if cc_submittedAt stored = 0 then Inr settlementMissing else settlementCompare E X ch B c stored))"

definition verifyCheckpointSettlement ::
    "env \<Rightarrow> eth \<Rightarrow> chain \<Rightarrow> LocalEvmSettlementBackend \<Rightarrow> BatchCheckpointV1 \<Rightarrow> SettlementVerificationResult" where
  "verifyCheckpointSettlement E X ch B c =
     (case settlementAttempt E X ch B c of
        Inr r \<Rightarrow> r
      | Inl message \<Rightarrow> \<lparr>svr_settled = False, svr_settlement_backend = Some (settlementBackendId B), svr_settlement_tx = bc_settlement_tx c,
                       svr_settlement_evidence = None, svr_error = Some message\<rparr>)"

definition evmGetCheckpoint :: "eth \<Rightarrow> chain \<Rightarrow> LocalEvmSettlementBackend \<Rightarrow> int \<Rightarrow> string \<Rightarrow> BatchCheckpointV1 option res" where
  "evmGetCheckpoint X ch B epochStartMs shard =
     bindE (bindE (shardToBytes32 X shard) (getCheckpointByEpochShard ch epochStartMs)) (\<lambda>found.
       case found of
         None \<Rightarrow> Inr None
       | Some stored \<Rightarrow>
         if cc_submittedAt stored = 0 then Inr None
         else Inr (Some \<lparr>bc_type = ''tsl.batch_checkpoint.v1'', bc_epoch_start_ms = cc_epochStartMs stored,
           bc_epoch_duration_ms = cc_epochDurationMs stored, bc_shard = shard, bc_event_root = cc_eventRoot stored,
           bc_receipt_root = cc_receiptRoot stored, bc_attestation_root = cc_attestationRoot stored,
           bc_revocation_root = cc_revocationRoot stored, bc_event_count = cc_eventCount stored, bc_receipt_count = cc_receiptCount stored,
           bc_previous_checkpoint = cc_previousCheckpoint stored, bc_checkpoint_identity_hash = None,
           bc_settlement_backend = Some (settlementBackendId B), bc_settlement_tx = None, bc_relay_id = cc_relayId stored,
           bc_relay_signature = ''0x''\<rparr>))"

section \<open>Agreement with the contract\<close>

text \<open>All the fields that the comparison covers.\<close>

definition agrees :: "ContractInput \<Rightarrow> ContractCheckpoint \<Rightarrow> bool" where
  "agrees i stored \<longleftrightarrow>
     cc_epochStartMs stored = ci_epochStartMs i \<and> cc_epochDurationMs stored = ci_epochDurationMs i \<and> sameText (cc_shard stored) (ci_shard i)
     \<and> sameText (cc_eventRoot stored) (ci_eventRoot i) \<and> sameText (cc_receiptRoot stored) (ci_receiptRoot i)
     \<and> sameText (cc_attestationRoot stored) (ci_attestationRoot i) \<and> sameText (cc_revocationRoot stored) (ci_revocationRoot i)
     \<and> cc_eventCount stored = ci_eventCount i \<and> cc_receiptCount stored = ci_receiptCount i
     \<and> sameText (cc_previousCheckpoint stored) (ci_previousCheckpoint i)
     \<and> (truthyStr (cc_settlementBackend stored) \<longrightarrow> sameText (the (cc_settlementBackend stored)) (ci_settlementBackend i))
     \<and> sameText (cc_relayId stored) (ci_relayId i)"

lemma checkpointMismatches_Nil:
  "checkpointMismatches E X c stored = Inr [] \<longleftrightarrow> (\<exists>i. toContractCheckpointInput E X c = Inr i \<and> agrees i stored)"
  by (cases "toContractCheckpointInput E X c") (auto simp: checkpointMismatches_def agrees_def)

lemma toContractCheckpointInput_Inr:
  "toContractCheckpointInput E X c = Inr i \<Longrightarrow> checkpointHash E c = Inr (ci_checkpointIdentityHash i)
     \<and> ci_eventRoot i = bc_event_root c \<and> ci_eventCount i = bc_event_count c \<and> ci_previousCheckpoint i = bc_previous_checkpoint c"
  by (auto simp: toContractCheckpointInput_def bindE_eq_Inr)

text \<open>The checkpoint that is compared: the backend's own id where the checkpoint names none.\<close>

definition comparableCheckpoint :: "LocalEvmSettlementBackend \<Rightarrow> BatchCheckpointV1 \<Rightarrow> BatchCheckpointV1" where
  "comparableCheckpoint B c = c\<lparr>bc_settlement_backend := Some (orElse (bc_settlement_backend c) (settlementBackendId B))\<rparr>"

lemma settlementAttempt_settled:
  assumes "settlementAttempt E X ch B c = Inr r" "svr_settled r"
  shows "\<exists>key stored i. shardToBytes32 X (bc_shard c) = Inr key \<and> getCheckpointByEpochShard ch (bc_epoch_start_ms c) key = Inr (Some stored)
     \<and> cc_submittedAt stored \<noteq> 0 \<and> toContractCheckpointInput E X (comparableCheckpoint B c) = Inr i \<and> agrees i stored
     \<and> cc_checkpointIdentityHash stored = ci_checkpointIdentityHash i
     \<and> contractCheckpointFieldsHash ch i = Inr (cc_contractCheckpointFieldsHash stored)
     \<and> (\<exists>tx receipt. bc_settlement_tx c = Some tx \<and> getTransactionReceipt ch tx = Inr (Some receipt) \<and> rr_status receipt = Some 1)"
proof -
  obtain key stored where k: "shardToBytes32 X (bc_shard c) = Inr key"
    "getCheckpointByEpochShard ch (bc_epoch_start_ms c) key = Inr (Some stored)" "cc_submittedAt stored \<noteq> 0"
    and cmp: "settlementCompare E X ch B c stored = Inr r"
  proof -
    obtain key found where f: "shardToBytes32 X (bc_shard c) = Inr key" "getCheckpointByEpochShard ch (bc_epoch_start_ms c) key = Inr found"
      using assms(1) by (auto simp: settlementAttempt_def bindE_eq_Inr)
    then show thesis
      using that assms by (cases found) (auto simp: settlementAttempt_def settlementMissing_def split: if_splits)
  qed
  obtain m h f receipt where a: "checkpointMismatches E X (comparableCheckpoint B c) stored = Inr m" "checkpointHash E (comparableCheckpoint B c) = Inr h"
    "bindE (toContractCheckpointInput E X (comparableCheckpoint B c)) (contractCheckpointFieldsHash ch) = Inr f"
    "m = []" "cc_checkpointIdentityHash stored = h" "cc_contractCheckpointFieldsHash stored = f"
    "(if truthyStr (bc_settlement_tx c) then getTransactionReceipt ch (the (bc_settlement_tx c)) else Inr None) = Inr receipt"
    "receiptStatusOf receipt = ''success''"
    using cmp assms(2) unfolding settlementCompare_def comparableCheckpoint_def [symmetric] Let_def
    by (auto simp: bindE_eq_Inr split: if_split_asm)
  obtain i where i: "toContractCheckpointInput E X (comparableCheckpoint B c) = Inr i" "agrees i stored"
    using a(1,4) checkpointMismatches_Nil by metis
  have "Option.bind receipt rr_status = Some 1" using a(8) by (auto simp: receiptStatusOf_def Let_def split: if_splits)
  then have "\<exists>tx receipt. bc_settlement_tx c = Some tx \<and> getTransactionReceipt ch tx = Inr (Some receipt) \<and> rr_status receipt = Some 1"
    using a(7) by (cases "bc_settlement_tx c"; cases receipt) (auto split: if_splits)
  then show ?thesis
    using k a(2,3,5,6) i toContractCheckpointInput_Inr [OF i(1)] by auto
qed

lemma sha256Canonical_total: "jsonSafe (JObj x) \<Longrightarrow> \<exists>h. sha256Canonical E x = Inr h"
  unfolding sha256Canonical_def by (rule bindE_total [OF canonicalBytes_total]) blast+

text \<open>Evidence is completed if no field of the receipt is missing and the numbers are safe integers.\<close>

definition receiptFields :: "SettlementEvidenceV1 \<Rightarrow> bool" where
  "receiptFields e \<longleftrightarrow> isSafeInteger (se_chain_id e)
     \<and> list_all (\<lambda>v. v \<noteq> None) [se_transaction_receipt_hash e, se_block_hash e, se_receipt_root e, se_receipt_status e, se_event_topic_hash e]
     \<and> list_all (\<lambda>v. \<exists>i. v = Some i \<and> isSafeInteger i)
         [se_block_number e, se_transaction_index e, se_settlement_event_index e, se_log_index e]"

lemma completeEvidence_total:
  assumes e: "receiptFields e" and b: "isSafeInteger (lb_chainId B)"
  shows "\<exists>e'. completeEvidence E B e = Inr e'"
proof -
  have "\<exists>h. settlementEventHashForEvidence E e = Inr h"
    unfolding settlementEventHashForEvidence_def by (rule sha256Canonical_total) (use e in \<open>auto simp: receiptFields_def undefStr_def undefInt_def\<close>)
  moreover have "\<exists>h. sha256Canonical E [(''block_hash'', undefStr (se_block_hash e)), (''block_number'', undefInt (se_block_number e)),
       (''receipt_root'', undefStr (se_receipt_root e)), (''transaction_receipt_hash'', undefStr (se_transaction_receipt_hash e)),
       (''transaction_index'', undefInt (se_transaction_index e)), (''log_index'', undefInt (se_log_index e))] = Inr h"
    by (rule sha256Canonical_total) (use e in \<open>auto simp: receiptFields_def undefStr_def undefInt_def\<close>)
  moreover have "\<exists>h. sha256Canonical E [(''chain_id'', JNum (JInt (lb_chainId B))), (''block_hash'', undefStr (se_block_hash e)),
       (''block_number'', undefInt (se_block_number e)), (''source'', JStr ''evm_receipt_v1'')] = Inr h"
    by (rule sha256Canonical_total) (use e b in \<open>auto simp: receiptFields_def undefStr_def undefInt_def\<close>)
  moreover have "\<exists>h. sha256Canonical E [(''settlement_event_hash'', JStr x), (''receipt_proof_source_commitment'', JStr y),
       (''finality_source_commitment'', JStr z)] = Inr h" for x y z
    by (rule sha256Canonical_total) simp
  ultimately show ?thesis
    unfolding completeEvidence_def by (intro bindE_total; blast)
qed

section \<open>A concrete chain\<close>

definition demoEth :: eth where
  "demoEth = \<lparr>ethId = (\<lambda>s. s), keccak256 = Inr, zeroPadValue = (\<lambda>s n. Inr s), abiEncode = (\<lambda>ts vs. Inr ''0x'')\<rparr>"

definition demoBackend :: LocalEvmSettlementBackend where
  "demoBackend = \<lparr>lb_chainId = 1, lb_registryAddress = ''0xabcd''\<rparr>"

definition demoSettled :: BatchCheckpointV1 where
  "demoSettled = (demoCheckpoint 0 ZERO_HASH)\<lparr>bc_settlement_backend := Some ''eip155:1'', bc_settlement_tx := Some ''0x99''\<rparr>"

definition demoStored :: "string \<Rightarrow> ContractCheckpoint" where
  "demoStored h = \<lparr>cc_epochStartMs = 0, cc_epochDurationMs = 1000, cc_shard = ''0xab01'', cc_eventRoot = ZERO_HASH, cc_receiptRoot = ZERO_HASH,
     cc_attestationRoot = ZERO_HASH, cc_revocationRoot = ZERO_HASH, cc_eventCount = 0, cc_receiptCount = 0, cc_previousCheckpoint = ZERO_HASH,
     cc_checkpointIdentityHash = h, cc_contractCheckpointFieldsHash = ''0xff'', cc_relayId = ''did:tsl:relay:dev'',
     cc_settlementBackend = Some ''eip155:1'', cc_submitter = Some ''0x11'', cc_submittedAt = 5\<rparr>"

definition demoReceipt :: rpcReceipt where
  "demoReceipt = \<lparr>rr_hash = ''0x99'', rr_blockHash = ''0x01'', rr_blockNumber = 7, rr_logsBloom = ''0x00'', rr_index = 0, rr_status = Some 1,
     rr_logs = [], rr_from = None\<rparr>"

definition demoChain :: "string \<Rightarrow> chain" where
  "demoChain h = \<lparr>getCheckpointByEpochShard = (\<lambda>e s. Inr (Some (demoStored h))), contractCheckpointFieldsHash = (\<lambda>i. Inr ''0xff''),
     getTransactionReceipt = (\<lambda>tx. Inr (Some demoReceipt)), signMessage = Inr, sendCheckpoint = (\<lambda>i s. Inr (Some ''0x99''))\<rparr>"

lemma demo_backend_id: "settlementBackendId demoBackend = ''eip155:1''"
  by code_simp

lemma demo_evidence:
  "\<exists>e. bindE (evidenceBase demoEnv demoEth demoBackend (demoStored h) h ''0xff'' demoReceipt) (completeEvidence demoEnv demoBackend) = Inr e"
proof -
  have t: "toISOString (cc_submittedAt (demoStored h) * 1000) = Inr (isoOf 5000)" by (simp add: toISOString_def demoStored_def)
  obtain r where r: "sha256Canonical demoEnv [(''block_hash'', JStr (rr_blockHash demoReceipt)), (''logs_bloom'', JStr (rr_logsBloom demoReceipt)),
                  (''transaction_receipt_hash'', JStr (rr_hash demoReceipt))] = Inr r"
    using sha256Canonical_total [of "[(''block_hash'', JStr (rr_blockHash demoReceipt)), (''logs_bloom'', JStr (rr_logsBloom demoReceipt)),
                  (''transaction_receipt_hash'', JStr (rr_hash demoReceipt))]"] by auto
  have "\<exists>e. evidenceBase demoEnv demoEth demoBackend (demoStored h) h ''0xff'' demoReceipt = Inr e \<and> receiptFields e"
    unfolding evidenceBase_def Let_def r t
    by (simp add: receiptFields_def demoReceipt_def demoBackend_def isSafeInteger_def)
  moreover have "isSafeInteger (lb_chainId demoBackend)" by (simp add: demoBackend_def isSafeInteger_def)
  ultimately show ?thesis by (elim exE conjE) (simp add: completeEvidence_total)
qed

lemma evmSubmitCheckpoint_Inr:
  assumes "evmSubmitCheckpoint E X ch B c = Inr c'"
  shows "bc_settlement_backend c = Some (settlementBackendId B)" "hashedPart c' = hashedPart c"
    "checkpointHash E c = Inr (the (bc_checkpoint_identity_hash c'))" "bc_relay_signature c' = bc_relay_signature c" "truthyStr (bc_settlement_tx c')"
  using assms by (auto simp: evmSubmitCheckpoint_def bindE_eq_Inr hashedPart_def Let_def split: if_splits)

lemma demoSettled_hash: "\<exists>h. checkpointHash demoEnv demoSettled = Inr h"
  by (simp add: checkpointHash_total demoSettled_def demoCheckpoint_def checkpointNumbersSafe_def isSafeInteger_def)

lemma demo_contract_input:
  assumes "checkpointHash demoEnv demoSettled = Inr h"
  shows "\<exists>i. toContractCheckpointInput demoEnv demoEth demoSettled = Inr i \<and> agrees i (demoStored h)"
proof -
  have s: "shardToBytes32 demoEth (bc_shard demoSettled) = Inr ''0xab01''" by code_simp
  show ?thesis
    by (simp add: toContractCheckpointInput_def s assms)
      (simp add: agrees_def demoStored_def demoSettled_def demoCheckpoint_def demoEth_def sameText_def relayIdToBytes32_def isHexOf_def startsWith_def)
qed

lemma demo_settled:
  assumes h: "checkpointHash demoEnv demoSettled = Inr h"
  shows "svr_settled (verifyCheckpointSettlement demoEnv demoEth (demoChain h) demoBackend demoSettled)"
proof -
  have c: "demoSettled\<lparr>bc_settlement_backend := Some (orElse (bc_settlement_backend demoSettled) (settlementBackendId demoBackend))\<rparr> = demoSettled"
    by (simp add: demoSettled_def)
  have s: "shardToBytes32 demoEth (bc_shard demoSettled) = Inr ''0xab01''" by code_simp
  note i = demo_contract_input [OF h]
  obtain e where e: "bindE (evidenceBase demoEnv demoEth demoBackend (demoStored h) h ''0xff'' demoReceipt) (completeEvidence demoEnv demoBackend) = Inr e"
    using demo_evidence by blast
  have "checkpointMismatches demoEnv demoEth demoSettled (demoStored h) = Inr []" using i checkpointMismatches_Nil by blast
  moreover have "bindE (toContractCheckpointInput demoEnv demoEth demoSettled) (contractCheckpointFieldsHash (demoChain h)) = Inr ''0xff''"
    using i by (auto simp: demoChain_def)
  moreover have "bc_settlement_tx demoSettled = Some ''0x99''" by (simp add: demoSettled_def)
  ultimately show ?thesis
    using e by (auto simp: verifyCheckpointSettlement_def settlementAttempt_def s demoChain_def settlementCompare_def c h demoStored_def
        receiptStatusOf_def demoReceipt_def bindE_eq_Inr)
qed

section \<open>Properties\<close>

text \<open>
  C34: A checkpoint that is reported as settled is the one on the chain. If \<^verbatim>\<open>verifyCheckpointSettlement\<close> reports settled, the contract holds a submitted record for the
  checkpoint's epoch and shard that agrees with the checkpoint in every field, carries the checkpoint's identity hash and
  the contract's own hash of the fields, and the transaction the checkpoint names has a receipt with status 1.
\<close>

theorem verifyCheckpointSettlement_sound:
  assumes "svr_settled (verifyCheckpointSettlement E X ch B c)"
  shows "\<exists>key stored i. shardToBytes32 X (bc_shard c) = Inr key \<and> getCheckpointByEpochShard ch (bc_epoch_start_ms c) key = Inr (Some stored)
     \<and> cc_submittedAt stored \<noteq> 0 \<and> toContractCheckpointInput E X (comparableCheckpoint B c) = Inr i \<and> agrees i stored
     \<and> checkpointHash E (comparableCheckpoint B c) = Inr (cc_checkpointIdentityHash stored)
     \<and> contractCheckpointFieldsHash ch i = Inr (cc_contractCheckpointFieldsHash stored)
     \<and> (\<exists>tx receipt. bc_settlement_tx c = Some tx \<and> getTransactionReceipt ch tx = Inr (Some receipt) \<and> rr_status receipt = Some 1)"
proof -
  obtain r where "settlementAttempt E X ch B c = Inr r" "svr_settled r"
    using assms by (auto simp: verifyCheckpointSettlement_def split: sum.splits)
  from settlementAttempt_settled [OF this] show ?thesis
    using toContractCheckpointInput_Inr by (elim exE conjE) (intro exI conjI; (assumption | simp))
qed

theorem verifyCheckpointSettlement_sound_witness:
  "\<exists>h. svr_settled (verifyCheckpointSettlement demoEnv demoEth (demoChain h) demoBackend demoSettled)
     \<and> (\<exists>stored::ContractCheckpoint. checkpointHash demoEnv (comparableCheckpoint demoBackend demoSettled) = Inr (cc_checkpointIdentityHash stored))"
proof -
  obtain h where "checkpointHash demoEnv demoSettled = Inr h" using demoSettled_hash by blast
  note v = demo_settled [OF this]
  from verifyCheckpointSettlement_sound [OF v]
  have "\<exists>stored::ContractCheckpoint. checkpointHash demoEnv (comparableCheckpoint demoBackend demoSettled) = Inr (cc_checkpointIdentityHash stored)"
    by (elim exE conjE) (rule exI, assumption)
  with v show ?thesis by (intro exI [of _ h] conjI)
qed

text \<open>
  Submitting a checkpoint keeps its identity. \<^verbatim>\<open>submitCheckpoint\<close> of the EVM backend refuses a checkpoint that names no backend or another one; if it
  returns, the result differs from the checkpoint only in the identity hash, which is the checkpoint's hash, and in the
  transaction, which is present: hash and relay signature stay valid.
\<close>

theorem evmSubmitCheckpoint_keeps_identity:
  assumes "evmSubmitCheckpoint E X ch B c = Inr c'"
  shows "bc_settlement_backend c = Some (settlementBackendId B) \<and> hashedPart c' = hashedPart c \<and> checkpointHash E c' = checkpointHash E c
     \<and> checkpointHash E c = Inr (the (bc_checkpoint_identity_hash c')) \<and> bc_relay_signature c' = bc_relay_signature c
     \<and> truthyStr (bc_settlement_tx c')"
  using evmSubmitCheckpoint_Inr [OF assms] checkpointHash_hashedPart [of E c] checkpointHash_hashedPart [of E c'] by simp

theorem evmSubmitCheckpoint_keeps_identity_witness:
  "\<exists>h c'. evmSubmitCheckpoint demoEnv demoEth (demoChain h) demoBackend demoSettled = Inr c' \<and> checkpointHash demoEnv c' = Inr h"
proof -
  obtain h where h: "checkpointHash demoEnv demoSettled = Inr h" using demoSettled_hash by blast
  have p: "checkpointHash demoEnv (demoSettled\<lparr>bc_checkpoint_identity_hash := Some h\<rparr>) = Inr h"
    using h by simp
  obtain i where i: "toContractCheckpointInput demoEnv demoEth (demoSettled\<lparr>bc_checkpoint_identity_hash := Some h\<rparr>) = Inr i"
    using demo_contract_input [OF h] p h by (auto simp: toContractCheckpointInput_def bindE_eq_Inr)
  have "bc_settlement_backend demoSettled = Some ''eip155:1''" by (simp add: demoSettled_def)
  then obtain c' where c': "evmSubmitCheckpoint demoEnv demoEth (demoChain h) demoBackend demoSettled = Inr c'"
    using h p i by (auto simp: evmSubmitCheckpoint_def demo_backend_id demoChain_def)
  show ?thesis using c' h evmSubmitCheckpoint_keeps_identity [OF c'] by metis
qed

end
