(* ===== verification/Identity.thy ===== *)
theory Identity
  imports Crypto
begin

text \<open>
  Identity documents, their keys and resolvers (\<^verbatim>\<open>identity.ts\<close> and \<^verbatim>\<open>resolver.ts\<close> of
  \<^verbatim>\<open>src/packages/core-ts/src\<close>).

  A resolver maps a trust id and a time to a document or null; a resolver that fails returns \<open>Inl\<close>. The state of
  \<^verbatim>\<open>MemoryTrustResolver\<close> is its map of documents. The locale \<open>trust_store\<close> states what its operations promise.
\<close>

type_synonym resolver = "string \<Rightarrow> string option \<Rightarrow> IdentityDocumentV1 option res"

section \<open>\<^verbatim>\<open>MemoryTrustResolver\<close>\<close>

type_synonym memoryResolver = "(string \<times> IdentityDocumentV1) list"

definition upsertIdentity :: "memoryResolver \<Rightarrow> IdentityDocumentV1 \<Rightarrow> memoryResolver" where
  "upsertIdentity m identity = mapSet m (idd_id identity) identity"

definition newMemoryResolver :: "IdentityDocumentV1 list \<Rightarrow> memoryResolver" where
  "newMemoryResolver identities = foldl upsertIdentity [] identities"

definition memoryResolve :: "memoryResolver \<Rightarrow> string \<Rightarrow> IdentityDocumentV1 option" where
  "memoryResolve m trustId = map_of m trustId"

definition memoryResolverFn :: "memoryResolver \<Rightarrow> resolver" where
  "memoryResolverFn m trustId atTime = Inr (memoryResolve m trustId)"

text \<open>The first method with the key id gets the status \<^verbatim>\<open>revoked\<close>.\<close>

fun revokeMethod :: "string \<Rightarrow> VerificationMethodV1 list \<Rightarrow> VerificationMethodV1 list" where
  "revokeMethod keyId [] = []"
| "revokeMethod keyId (m # ms) = (if vm_id m = keyId then m\<lparr>vm_status := ''revoked''\<rparr> # ms else m # revokeMethod keyId ms)"

definition revokeKey :: "memoryResolver \<Rightarrow> string \<Rightarrow> string \<Rightarrow> memoryResolver" where
  "revokeKey m trustId keyId =
     (case map_of m trustId of
        None \<Rightarrow> m
      | Some identity \<Rightarrow> mapSet m trustId (identity\<lparr>idd_verification_methods := revokeMethod keyId (idd_verification_methods identity)\<rparr>))"

text \<open>\<^verbatim>\<open>CompositeTrustResolver\<close>: the first resolver that knows the identity.\<close>

fun compositeResolve :: "resolver list \<Rightarrow> resolver" where
  "compositeResolve [] trustId atTime = Inr None"
| "compositeResolve (r # rs) trustId atTime =
     bindE (r trustId atTime) (\<lambda>identity. case identity of Some d \<Rightarrow> Inr (Some d) | None \<Rightarrow> compositeResolve rs trustId atTime)"

section \<open>Keys\<close>

definition findVerificationMethod :: "IdentityDocumentV1 \<Rightarrow> string \<Rightarrow> VerificationMethodV1 option" where
  "findVerificationMethod identity keyId = find (\<lambda>m. vm_id m = keyId) (idd_verification_methods identity)"

definition keyActiveAt :: "env \<Rightarrow> VerificationMethodV1 option \<Rightarrow> string \<Rightarrow> bool" where
  "keyActiveAt E k timestamp =
     (case k of
        None \<Rightarrow> False
      | Some key \<Rightarrow>
          (case (dateParse E timestamp, dateParse E (vm_created_at key)) of
             (Some at, Some created) \<Rightarrow>
               (if created > at then False
                else if vm_status key = ''revoked'' \<and>
                        (\<not> truthyStr (vm_revoked_at key) \<or> \<not> dateLt (Some at) (dateParse E (the (vm_revoked_at key)))) then False
                else if vm_status key \<noteq> ''revoked'' \<and> vm_status key \<noteq> ''active'' then False
                else if truthyStr (vm_expires_at key) \<and> \<not> dateLt (Some at) (dateParse E (the (vm_expires_at key))) then False
                else True)
           | _ \<Rightarrow> False))"

definition notRevokedAt :: "env \<Rightarrow> VerificationMethodV1 option \<Rightarrow> string option \<Rightarrow> bool" where
  "notRevokedAt E k timestamp =
     (case k of
        None \<Rightarrow> False
      | Some key \<Rightarrow>
          (if vm_status key \<noteq> ''revoked'' then True
           else if \<not> truthyStr timestamp \<or> \<not> truthyStr (vm_revoked_at key) then False
           else dateLt (dateParse E (the timestamp)) (dateParse E (the (vm_revoked_at key)))))"

section \<open>The contract of a store of identities\<close>

lemma find_revokeMethod:
  "find (\<lambda>m. vm_id m = k) (revokeMethod keyId ms) =
     map_option (\<lambda>m. if k = keyId then m\<lparr>vm_status := ''revoked''\<rparr> else m) (find (\<lambda>m. vm_id m = k) ms)"
  by (induction ms) (auto simp: option.map_ident)

lemma find_eq_Some: "find (\<lambda>m. vm_id m = k) ms = Some m \<Longrightarrow> vm_id m = k"
  by (induction ms) (auto split: if_splits)

locale trust_store =
  fixes resolve :: "'s \<Rightarrow> string \<Rightarrow> IdentityDocumentV1 option"
    and upsert :: "'s \<Rightarrow> IdentityDocumentV1 \<Rightarrow> 's"
    and revoke :: "'s \<Rightarrow> string \<Rightarrow> string \<Rightarrow> 's"
  assumes resolve_upsert: "resolve (upsert s d) i = (if i = idd_id d then Some d else resolve s i)"
    and resolve_revoke: "resolve (revoke s t k) i =
      map_option (\<lambda>d. if i = t then d\<lparr>idd_verification_methods := revokeMethod k (idd_verification_methods d)\<rparr> else d) (resolve s i)"
begin

definition keyOf :: "'s \<Rightarrow> string \<Rightarrow> string \<Rightarrow> VerificationMethodV1 option" where
  "keyOf s t k = Option.bind (resolve s t) (\<lambda>d. findVerificationMethod d k)"

lemma keyOf_revoke:
  "keyOf (revoke s t k) u j = map_option (\<lambda>m. if u = t \<and> j = k then m\<lparr>vm_status := ''revoked''\<rparr> else m) (keyOf s u j)"
  by (cases "resolve s u")
    (auto simp: keyOf_def resolve_revoke findVerificationMethod_def find_revokeMethod map_option_case split: option.splits)

lemma revoked_inactive:
  assumes "\<And>m. keyOf s t k = Some m \<Longrightarrow> vm_revoked_at m = None"
  shows "\<not> keyActiveAt E (keyOf (revoke s t k) t k) at" "\<not> notRevokedAt E (keyOf (revoke s t k) t k) (Some at)"
  using assms by (auto simp: keyOf_revoke keyActiveAt_def notRevokedAt_def split: option.splits)

lemma revoke_other:
  "u \<noteq> t \<or> j \<noteq> k \<Longrightarrow> keyActiveAt E (keyOf (revoke s t k) u j) at = keyActiveAt E (keyOf s u j) at"
  by (cases "keyOf s u j") (auto simp: keyOf_revoke)

lemma upsert_restores: "keyOf (upsert s d) (idd_id d) k = findVerificationMethod d k"
  by (simp add: keyOf_def resolve_upsert)

end

interpretation memory: trust_store memoryResolve upsertIdentity revokeKey
proof unfold_locales
  show "memoryResolve (upsertIdentity m d) i = (if i = idd_id d then Some d else memoryResolve m i)" for m d i
    by (simp add: memoryResolve_def upsertIdentity_def)
  show "memoryResolve (revokeKey m t k) i =
      map_option (\<lambda>d. if i = t then d\<lparr>idd_verification_methods := revokeMethod k (idd_verification_methods d)\<rparr> else d) (memoryResolve m i)" for m t k i
    by (cases "map_of m t") (auto simp: memoryResolve_def revokeKey_def map_option_case split: option.splits)
qed

section \<open>When a key is active\<close>

lemma keyActive_notRevoked: "keyActiveAt E k at \<Longrightarrow> at \<noteq> [] \<Longrightarrow> notRevokedAt E k (Some at)"
  by (auto simp: keyActiveAt_def notRevokedAt_def split: option.splits if_splits)

lemma keyActiveAt_Some: "keyActiveAt E k at \<Longrightarrow> \<exists>key. k = Some key"
  by (cases k) (simp_all add: keyActiveAt_def)

text \<open>The end of a key's life: the time of a limit, or none; \<open>None\<close> if the limit cannot be read.\<close>

definition limitOf :: "env \<Rightarrow> string option \<Rightarrow> int option option" where
  "limitOf E s = (if truthyStr s then map_option Some (dateParse E (the s)) else Some None)"

definition before :: "int \<Rightarrow> int option option \<Rightarrow> bool" where
  "before t l = (case l of None \<Rightarrow> False | Some None \<Rightarrow> True | Some (Some u) \<Rightarrow> t < u)"

section \<open>Properties\<close>

text \<open>
  A key is active exactly on an interval. At a time \<open>t\<close>, \<^verbatim>\<open>keyActiveAt\<close> holds if and only if the key was created at or before \<open>t\<close>, its
  status is active, or revoked with a recorded revocation time after \<open>t\<close>, and \<open>t\<close> is before its expiry, if it has
  one; unreadable dates make it inactive.
\<close>

lemma keyActiveAt_interval:
  assumes "dateParse E at = Some t"
  shows "keyActiveAt E (Some key) at \<longleftrightarrow>
     (\<exists>created. dateParse E (vm_created_at key) = Some created \<and> created \<le> t)
     \<and> (vm_status key = ''active'' \<or> vm_status key = ''revoked'' \<and> truthyStr (vm_revoked_at key) \<and> before t (limitOf E (vm_revoked_at key)))
     \<and> before t (limitOf E (vm_expires_at key))"
  using assms by (auto simp: keyActiveAt_def limitOf_def before_def split: option.splits)

text \<open>
  Revoking a key in a resolver takes effect at once, for that key and no other: a key without a recorded revocation time is afterwards neither
  active nor unrevoked at any time, before or after the call, and every other key of every identity stays as active as it was.
\<close>

theorem revokeKey_effect:
  assumes "\<And>m. memory.keyOf s t k = Some m \<Longrightarrow> vm_revoked_at m = None"
  shows "\<not> keyActiveAt E (memory.keyOf (revokeKey s t k) t k) at \<and> \<not> notRevokedAt E (memory.keyOf (revokeKey s t k) t k) (Some at)
     \<and> (u \<noteq> t \<or> j \<noteq> k \<longrightarrow> keyActiveAt E (memory.keyOf (revokeKey s t k) u j) at = keyActiveAt E (memory.keyOf s u j) at)"
  using memory.revoked_inactive [OF assms] memory.revoke_other by blast

definition demoKey :: VerificationMethodV1 where
  "demoKey = \<lparr>vm_id = ''#k'', vm_type = ''ed25519'', vm_public_key = ''aa'', vm_status = ''revoked'', vm_created_at = ''2026-01-01T00:00:00Z'',
     vm_expires_at = None, vm_revoked_at = Some ''2026-02-01T00:00:00Z''\<rparr>"

definition demoIdentity :: IdentityDocumentV1 where
  "demoIdentity = \<lparr>idd_type = ''tsl.identity.v1'', idd_id = ''tsl:alice'', idd_controller = ''tsl:alice'', idd_created_at = ''2026-01-01T00:00:00Z'',
     idd_verification_methods = [demoKey\<lparr>vm_status := ''active'', vm_revoked_at := None\<rparr>],
     idd_recovery = None, idd_privacy_policy_commitment = None\<rparr>"

theorem revokeKey_effect_witness:
  "memory.keyOf (newMemoryResolver [demoIdentity]) ''tsl:alice'' ''#k'' = Some (demoKey\<lparr>vm_status := ''active'', vm_revoked_at := None\<rparr>)
   \<and> \<not> keyActiveAt demoEnv (memory.keyOf (revokeKey (newMemoryResolver [demoIdentity]) ''tsl:alice'' ''#k'') ''tsl:alice'' ''#k'') ''2026-01-15T00:00:00Z''"
proof -
  have k: "memory.keyOf (newMemoryResolver [demoIdentity]) ''tsl:alice'' ''#k'' = Some (demoKey\<lparr>vm_status := ''active'', vm_revoked_at := None\<rparr>)"
    by (simp add: memory.keyOf_def newMemoryResolver_def memoryResolve_def upsertIdentity_def demoIdentity_def findVerificationMethod_def demoKey_def)
  then show ?thesis
    using revokeKey_effect [of "newMemoryResolver [demoIdentity]" "''tsl:alice''" "''#k''" demoEnv] by simp
qed

end
