(* ===== verification/Commitments.thy ===== *)
theory Commitments
  imports Identity
begin

text \<open>
  Building and signing the protocol's objects (\<^verbatim>\<open>src/packages/core-ts/src/commitments.ts\<close>). The argument \<open>n\<close> numbers the draws from the
  random generator: the first draw of a call is \<open>n\<close>, the second \<open>n + 1\<close>. An absent optional argument is \<open>None\<close>.
\<close>

definition nowIso :: "env \<Rightarrow> string option \<Rightarrow> string res" where
  "nowIso E t = (case t of Some s \<Rightarrow> Inr s | None \<Rightarrow> toISOString (now_ms E))"

text \<open>\<^verbatim>\<open>...(x ? { field: x } : {})\<close>\<close>

definition ifTruthy :: "string option \<Rightarrow> string option" where
  "ifTruthy s = (if truthyStr s then s else None)"

section \<open>Events\<close>

record BuildMessageEventInput =
  bm_sender :: string
  bm_signing_key_id :: string
  bm_message :: string
  bm_event_class :: "string option"
  bm_timestamp :: "string option"
  bm_nonce :: "string option"
  bm_content_salt :: "string option"
  bm_disclosure_policy :: "string option"
  bm_receiver_commitment :: "string option"
  bm_metadata_commitment :: "string option"
  bm_previous_event_commitment :: "string option"

record BuiltMessageEvent =
  be_unsignedEvent :: EventCommitmentUnsignedV1
  be_content_salt :: string

definition buildMessageEvent :: "env \<Rightarrow> nat \<Rightarrow> BuildMessageEventInput \<Rightarrow> BuiltMessageEvent res" where
  "buildMessageEvent E n inp =
     (let contentSalt = orElse (bm_content_salt inp) (randomHex32 E n) in
      bindE (contentCommitment E (bm_message inp) contentSalt) (\<lambda>content.
      bindE (nowIso E (bm_timestamp inp)) (\<lambda>timestamp.
        Inr \<lparr>be_unsignedEvent =
               \<lparr>ev_type = ''tsl.event_commitment.v1'', ev_event_class = orElse (bm_event_class inp) ''message'',
                ev_sender = bm_sender inp, ev_signing_key_id = bm_signing_key_id inp,
                ev_receiver_commitment = ifTruthy (bm_receiver_commitment inp), ev_content_commitment = content,
                ev_metadata_commitment = ifTruthy (bm_metadata_commitment inp),
                ev_previous_event_commitment = ifTruthy (bm_previous_event_commitment inp), ev_timestamp = timestamp,
                ev_nonce = orElse (bm_nonce inp) (randomHex32 E (Suc n)),
                ev_disclosure_policy = orElse (bm_disclosure_policy inp) ''commitment_only''\<rparr>,
             be_content_salt = contentSalt\<rparr>)))"

definition buildIdentityFromSeed :: "env \<Rightarrow> string \<Rightarrow> string \<Rightarrow> string \<Rightarrow> string option \<Rightarrow> string option \<Rightarrow> IdentityDocumentV1 res" where
  "buildIdentityFromSeed E trust_id key_id seed_hex created_at controller =
     bindE (deriveEd25519PublicKey E seed_hex) (\<lambda>publicKey.
     bindE (nowIso E created_at) (\<lambda>createdAt.
       Inr \<lparr>idd_type = ''tsl.identity.v1'', idd_id = trust_id, idd_controller = orElse controller trust_id, idd_created_at = createdAt,
         idd_verification_methods = [\<lparr>vm_id = key_id, vm_type = ''ed25519'', vm_public_key = publicKey, vm_status = ''active'',
           vm_created_at = createdAt, vm_expires_at = None, vm_revoked_at = None\<rparr>],
         idd_recovery = None, idd_privacy_policy_commitment = None\<rparr>))"

record SignedMessageEvent =
  sme_identityPublicKey :: string
  sme_content_salt :: string
  sme_envelope :: EventCommitmentV1
  sme_event_hash :: string
  sme_commitment_hash :: string
  sme_canonical_unsigned_event :: string

definition signMessageEvent :: "env \<Rightarrow> nat \<Rightarrow> BuildMessageEventInput \<Rightarrow> string \<Rightarrow> SignedMessageEvent res" where
  "signMessageEvent E n inp seed_hex =
     bindE (buildMessageEvent E n inp) (\<lambda>built.
     bindE (signEvent E (be_unsignedEvent built) seed_hex) (\<lambda>envelope.
     bindE (deriveEd25519PublicKey E seed_hex) (\<lambda>publicKey.
     bindE (eventHash E (EventCommitmentUnsignedV1_obj (be_unsignedEvent built))) (\<lambda>event_hash.
     bindE (commitmentHash E envelope) (\<lambda>commitment_hash.
     bindE (canonicalize (JObj (EventCommitmentUnsignedV1_obj (be_unsignedEvent built)))) (\<lambda>canonical.
       Inr \<lparr>sme_identityPublicKey = publicKey, sme_content_salt = be_content_salt built, sme_envelope = envelope,
         sme_event_hash = event_hash, sme_commitment_hash = commitment_hash, sme_canonical_unsigned_event = canonical\<rparr>))))))"

section \<open>Receipts\<close>

text \<open>The metadata argument is any value; \<open>None\<close> and \<^verbatim>\<open>undefined\<close> are the same.\<close>

record BuildReceiptInput =
  br_event_commitment :: string
  br_receiver :: string
  br_signing_key_id :: string
  br_receipt_class :: string
  br_timestamp :: "string option"
  br_metadata :: "jsval option"
  br_metadata_salt :: "string option"
  br_metadata_commitment :: "string option"

definition buildReceiptCommitment :: "env \<Rightarrow> nat \<Rightarrow> BuildReceiptInput \<Rightarrow> (ReceiptCommitmentUnsignedV1 \<times> string option) res" where
  "buildReceiptCommitment E n inp =
     (let metadataSalt = (case br_metadata inp of None \<Rightarrow> None | Some m \<Rightarrow> Some (orElse (br_metadata_salt inp) (randomHex32 E n))) in
      bindE (nowIso E (br_timestamp inp)) (\<lambda>timestamp.
      bindE (if truthyStr (br_metadata_commitment inp) then Inr (br_metadata_commitment inp)
             else (case br_metadata inp of
                     Some m \<Rightarrow> (if truthyStr metadataSalt then bindE (metadataCommitment E m (the metadataSalt)) (\<lambda>c. Inr (Some c)) else Inr None)
                   | None \<Rightarrow> Inr None)) (\<lambda>metadata_commitment.
        Inr (\<lparr>rc_type = ''tsl.receipt_commitment.v1'', rc_event_commitment = br_event_commitment inp, rc_receiver = br_receiver inp,
              rc_signing_key_id = br_signing_key_id inp, rc_receipt_class = br_receipt_class inp, rc_timestamp = timestamp,
              rc_metadata_commitment = metadata_commitment\<rparr>, metadataSalt))))"

definition signReceiptCommitment :: "env \<Rightarrow> nat \<Rightarrow> BuildReceiptInput \<Rightarrow> string \<Rightarrow> (ReceiptCommitmentV1 \<times> string \<times> string option) res" where
  "signReceiptCommitment E n inp seed_hex =
     bindE (buildReceiptCommitment E n inp) (\<lambda>(unsignedReceipt, salt).
     bindE (signReceipt E unsignedReceipt seed_hex) (\<lambda>receipt.
     bindE (receiptCommitmentHash E receipt) (\<lambda>h. Inr (receipt, h, salt))))"

section \<open>Attestations, revocations, assessments\<close>

record BuildAttestationInput =
  ba_issuer :: string
  ba_subject :: string
  ba_attestation_class :: string
  ba_visibility :: string
  ba_expires_at :: "string option"
  ba_claim :: "jsval option"
  ba_claim_salt :: "string option"
  ba_claim_commitment :: "string option"
  ba_issued_at :: "string option"

definition buildAttestation :: "env \<Rightarrow> nat \<Rightarrow> BuildAttestationInput \<Rightarrow> (AttestationUnsignedV1 \<times> string option) res" where
  "buildAttestation E n inp =
     (let claimSalt = (case ba_claim inp of None \<Rightarrow> None | Some m \<Rightarrow> Some (orElse (ba_claim_salt inp) (randomHex32 E n))) in
      bindE (case ba_claim_commitment inp of
               Some c \<Rightarrow> Inr (Some c)
             | None \<Rightarrow> (case ba_claim inp of
                 Some m \<Rightarrow> (if truthyStr claimSalt then bindE (metadataCommitment E m (the claimSalt)) (\<lambda>c. Inr (Some c)) else Inr None)
               | None \<Rightarrow> Inr None)) (\<lambda>claimCommitment.
      if \<not> truthyStr claimCommitment then Inl ''Attestation requires claim or claim_commitment''
      else bindE (nowIso E (ba_issued_at inp)) (\<lambda>issued_at.
        Inr (\<lparr>att_type = ''tsl.attestation.v1'', att_issuer = ba_issuer inp, att_subject = ba_subject inp,
              att_attestation_class = ba_attestation_class inp, att_claim_commitment = the claimCommitment,
              att_visibility = ba_visibility inp, att_issued_at = issued_at, att_expires_at = ifTruthy (ba_expires_at inp)\<rparr>, claimSalt))))"

definition signAttestationObject :: "env \<Rightarrow> nat \<Rightarrow> BuildAttestationInput \<Rightarrow> string \<Rightarrow> (AttestationV1 \<times> string \<times> string option) res" where
  "signAttestationObject E n inp seed_hex =
     bindE (buildAttestation E n inp) (\<lambda>(unsignedAttestation, salt).
     bindE (signAttestation E unsignedAttestation seed_hex) (\<lambda>attestation.
     bindE (attestationCommitmentHash E attestation) (\<lambda>h. Inr (attestation, h, salt))))"

definition buildRevocation :: "env \<Rightarrow> string \<Rightarrow> string \<Rightarrow> string option \<Rightarrow> string \<Rightarrow> string option \<Rightarrow> RevocationUnsignedV1 res" where
  "buildRevocation E trust_id revoked_key replacement_key reason_class effective_at =
     bindE (nowIso E effective_at) (\<lambda>at.
       Inr \<lparr>rev_type = ''tsl.revocation.v1'', rev_trust_id = trust_id, rev_revoked_key = revoked_key,
         rev_replacement_key = ifTruthy replacement_key, rev_reason_class = reason_class, rev_effective_at = at\<rparr>)"

definition signRevocationObject ::
    "env \<Rightarrow> string \<Rightarrow> string \<Rightarrow> string option \<Rightarrow> string \<Rightarrow> string option \<Rightarrow> string \<Rightarrow> (RevocationV1 \<times> string) res" where
  "signRevocationObject E trust_id revoked_key replacement_key reason_class effective_at seed_hex =
     bindE (buildRevocation E trust_id revoked_key replacement_key reason_class effective_at) (\<lambda>u.
     bindE (signRevocation E u seed_hex) (\<lambda>revocation.
     bindE (revocationCommitmentHash E revocation) (\<lambda>h. Inr (revocation, h))))"

definition signTrustAssessmentObject :: "env \<Rightarrow> TrustAssessmentUnsignedV1 \<Rightarrow> string \<Rightarrow> (TrustAssessmentV1 \<times> string) res" where
  "signTrustAssessmentObject E inp seed_hex =
     bindE (signTrustAssessment E inp seed_hex) (\<lambda>assessment.
     bindE (assessmentCommitmentHash E assessment) (\<lambda>h. Inr (assessment, h)))"

section \<open>Properties\<close>

lemma buildMessageEvent_total:
  assumes "hex_codec E" "hexToBytes E salt = Inr s"
    and "bm_content_salt inp = Some salt" "bm_timestamp inp = Some t"
  shows "\<exists>built. buildMessageEvent E n inp = Inr built \<and> be_content_salt built = salt
     \<and> contentCommitment E (bm_message inp) salt = Inr (ev_content_commitment (be_unsignedEvent built))
     \<and> ev_sender (be_unsignedEvent built) = bm_sender inp"
  using assms by (simp add: buildMessageEvent_def contentCommitment_def nowIso_def Let_def)


definition demoMessage :: BuildMessageEventInput where
  "demoMessage = \<lparr>bm_sender = ''tsl:alice'', bm_signing_key_id = ''#k'', bm_message = ''hello'', bm_event_class = None,
     bm_timestamp = Some ''2026-01-15T00:00:00Z'', bm_nonce = None, bm_content_salt = Some ''0x01'', bm_disclosure_policy = None,
     bm_receiver_commitment = None, bm_metadata_commitment = None, bm_previous_event_commitment = None\<rparr>"


end
