(* ===== verification/Agent.thy ===== *)
theory Agent
  imports Commitments
begin

text \<open>
  Agent delegations (\<^verbatim>\<open>src/packages/core-ts/src/agent.ts\<close>): a controller and an agent both sign the scope that is delegated.
\<close>

record BuildAgentDelegationInput =
  bd_controller :: string
  bd_controller_key_id :: string
  bd_agent :: string
  bd_agent_key_id :: string
  bd_scope :: "string list"
  bd_session_key :: "string option"
  bd_max_uses :: "int option"
  bd_spending_limit_commitment :: "string option"
  bd_issued_at :: "string option"
  bd_expires_at :: string
  bd_nonce :: string

definition buildAgentDelegation :: "env \<Rightarrow> BuildAgentDelegationInput \<Rightarrow> AgentDelegationUnsignedV1 res" where
  "buildAgentDelegation E inp =
     bindE (nowIso E (bd_issued_at inp)) (\<lambda>issued_at.
       Inr \<lparr>ad_type = ''tsl.agent_delegation.v1'', ad_controller = bd_controller inp, ad_controller_key_id = bd_controller_key_id inp,
         ad_agent = bd_agent inp, ad_agent_key_id = bd_agent_key_id inp, ad_scope = sort (bd_scope inp),
         ad_session_key = ifTruthy (bd_session_key inp), ad_max_uses = bd_max_uses inp,
         ad_spending_limit_commitment = ifTruthy (bd_spending_limit_commitment inp), ad_issued_at = issued_at,
         ad_expires_at = bd_expires_at inp, ad_nonce = bd_nonce inp\<rparr>)"

definition delegateKey :: "resolver \<Rightarrow> string \<Rightarrow> string \<Rightarrow> string \<Rightarrow> VerificationMethodV1 option res" where
  "delegateKey resolve trustId keyId at =
     bindE (resolve trustId (Some at)) (\<lambda>identity.
       Inr (Option.bind identity (\<lambda>d. findVerificationMethod d keyId)))"

text \<open>The conjunction is evaluated from the left and stops at the first conjunct that fails.\<close>

definition verifyAgentDelegation :: "env \<Rightarrow> AgentDelegationV1 \<Rightarrow> resolver \<Rightarrow> string option \<Rightarrow> string \<Rightarrow> bool res" where
  "verifyAgentDelegation E d resolve requiredScope atTime =
     (if ad_type d \<noteq> ''tsl.agent_delegation.v1'' then Inr False
      else if dateLe (dateParse E (ad_expires_at d)) (dateParse E atTime) then Inr False
      else if truthyStr requiredScope \<and> the requiredScope \<notin> set (ad_scope d) then Inr False
      else bindE (delegateKey resolve (ad_controller d) (ad_controller_key_id d) (ad_issued_at d)) (\<lambda>controllerKey.
           bindE (delegateKey resolve (ad_agent d) (ad_agent_key_id d) (ad_issued_at d)) (\<lambda>agentKey.
           bindE (agentDelegationHash E (AgentDelegationV1_obj d)) (\<lambda>h.
             if map_option vm_type controllerKey = Some ''ed25519'' \<and> map_option vm_type agentKey = Some ''ed25519''
                \<and> keyActiveAt E controllerKey (ad_issued_at d) \<and> keyActiveAt E agentKey (ad_issued_at d)
             then bindE (verifyEd25519 E (vm_public_key (the controllerKey)) (DText h) (ad_controller_signature d)) (\<lambda>c.
                    if c then verifyEd25519 E (vm_public_key (the agentKey)) (DText h) (ad_agent_signature d) else Inr False)
             else Inr False))))"

section \<open>The hash of a delegation covers what both sign\<close>

lemma agentDelegationHash_signed:
  "agentDelegationHash E (AgentDelegationV1_obj (AgentDelegationUnsignedV1.extend u (AgentDelegationV1.fields cs as))) =
   agentDelegationHash E (AgentDelegationUnsignedV1_obj u)"
  by (simp add: agentDelegationHash_def AgentDelegationV1_obj_def AgentDelegationUnsignedV1_obj_def
      AgentDelegationUnsignedV1.defs AgentDelegationV1.defs optField_def split: option.splits)

lemma agentDelegationHash_total:
  assumes "\<And>n. ad_max_uses u = Some n \<Longrightarrow> isSafeInteger n"
  shows "\<exists>h. agentDelegationHash E (AgentDelegationUnsignedV1_obj (u :: AgentDelegationUnsignedV1)) = Inr h"
proof -
  have "jsonSafe (JObj (filter (\<lambda>(k, v). k \<noteq> ''controller_signature'' \<and> k \<noteq> ''agent_signature'') (AgentDelegationUnsignedV1_obj u)))"
    using assms by (auto simp: AgentDelegationUnsignedV1_obj_def optField_def list_all_iff split: option.splits)
  then show ?thesis using domainHash_defined by (fastforce simp: agentDelegationHash_def)
qed

lemma seed_signs_hex:
  assumes E: "hex_codec E" "ed25519_correct E" and seed: "hexToBytes E seedHex = Inr seed" "length seed = 32" and m: "hexToBytes E h = Inr b"
  shows "\<exists>pk s. deriveEd25519PublicKey E seedHex = Inr pk \<and> signEd25519 E (DText h) seedHex = Inr s \<and> verifyEd25519 E pk (DText h) s = Inr True"
proof -
  obtain pk s where k: "edGetPublicKey E seed = Inr pk" "edSign E b seed = Inr s" "edVerify E s b pk = Inr True"
    using E(2) seed(2) unfolding ed25519_correct_def by blast
  then show ?thesis
    by (intro exI [of _ "nobleBytesToHex E pk"] exI [of _ "bytesToHex E s"])
      (simp add: deriveEd25519PublicKey_def signEd25519_def verifyEd25519_def messageBytes_def m seed hexToBytes_bytesToHex [OF E(1)])
qed

lemma seed_signs_domainHash:
  assumes E: "hex_codec E" "ed25519_correct E" and seed: "hexToBytes E seedHex = Inr seed" "length seed = 32" and h: "domainHash E t x = Inr h"
  shows "\<exists>pk s. deriveEd25519PublicKey E seedHex = Inr pk \<and> signEd25519 E (DText h) seedHex = Inr s \<and> verifyEd25519 E pk (DText h) s = Inr True"
  using h hexToBytes_hashDomain [OF E(1)] seed_signs_hex [OF E seed] by (auto simp: domainHash_Inr)

text \<open>The key of an identity built from a seed is active from its creation on.\<close>

lemma seedIdentity_key:
  assumes "deriveEd25519PublicKey E seedHex = Inr pk" "buildIdentityFromSeed E tid kid seedHex (Some created) ctl = Inr d"
    and "dateParse E created = Some c" "dateParse E at = Some t" "c \<le> t"
  shows "\<exists>k. idd_id d = tid
     \<and> findVerificationMethod d kid = Some k \<and> vm_type k = ''ed25519'' \<and> vm_public_key k = pk \<and> keyActiveAt E (Some k) at"
  using assms by (auto simp: buildIdentityFromSeed_def nowIso_def findVerificationMethod_def keyActiveAt_def)

lemma delegation_verifies:
  assumes E: "hex_codec E" "ed25519_correct E"
    and seeds: "hexToBytes E cseed = Inr cb" "length cb = 32" "hexToBytes E aseed = Inr ab" "length ab = 32"
    and docs: "buildIdentityFromSeed E (ad_controller u) (ad_controller_key_id u) cseed (Some created) cc = Inr c"
      "buildIdentityFromSeed E (ad_agent u) (ad_agent_key_id u) aseed (Some created) ac = Inr a" "ad_controller u \<noteq> ad_agent u"
    and times: "dateParse E created = Some t0" "dateParse E (ad_issued_at u) = Some t1" "t0 \<le> t1"
      "dateParse E (ad_expires_at u) = Some t2" "dateParse E at = Some t" "t < t2"
    and u: "ad_type u = ''tsl.agent_delegation.v1''" "scope \<in> set (ad_scope u)" "\<And>n. ad_max_uses u = Some n \<Longrightarrow> isSafeInteger n"
  shows "\<exists>d. signAgentDelegation E u cseed aseed = Inr d \<and>
     verifyAgentDelegation E d (memoryResolverFn (newMemoryResolver [c, a])) (Some scope) at = Inr True"
proof -
  obtain h where h: "agentDelegationHash E (AgentDelegationUnsignedV1_obj u) = Inr h" using agentDelegationHash_total [OF u(3)] by blast
  obtain cpk cs where k: "deriveEd25519PublicKey E cseed = Inr cpk" "signEd25519 E (DText h) cseed = Inr cs" "verifyEd25519 E cpk (DText h) cs = Inr True"
    using seed_signs_domainHash [OF E seeds(1,2) h [unfolded agentDelegationHash_def]] by blast
  obtain apk as where j: "deriveEd25519PublicKey E aseed = Inr apk" "signEd25519 E (DText h) aseed = Inr as" "verifyEd25519 E apk (DText h) as = Inr True"
    using seed_signs_domainHash [OF E seeds(3,4) h [unfolded agentDelegationHash_def]] by blast
  obtain ck where ck: "findVerificationMethod c (ad_controller_key_id u) = Some ck" "vm_type ck = ''ed25519''" "vm_public_key ck = cpk"
    "keyActiveAt E (Some ck) (ad_issued_at u)" "idd_id c = ad_controller u"
    using seedIdentity_key [OF k(1) docs(1) times(1-3)] by blast
  obtain ak where ak: "findVerificationMethod a (ad_agent_key_id u) = Some ak" "vm_type ak = ''ed25519''" "vm_public_key ak = apk"
    "keyActiveAt E (Some ak) (ad_issued_at u)" "idd_id a = ad_agent u"
    using seedIdentity_key [OF j(1) docs(2) times(1-3)] by blast
  let ?d = "AgentDelegationUnsignedV1.extend u (AgentDelegationV1.fields cs as)"
  have "memoryResolve (newMemoryResolver [c, a]) (ad_controller u) = Some c" "memoryResolve (newMemoryResolver [c, a]) (ad_agent u) = Some a"
    using docs(3) ck(5) ak(5) by (simp_all add: newMemoryResolver_def memory.resolve_upsert)
  then have "verifyAgentDelegation E ?d (memoryResolverFn (newMemoryResolver [c, a])) (Some scope) at = Inr True"
    using u(1,2) times(4-6) k(3) j(3) ck ak h agentDelegationHash_signed [of E u cs as]
    by (simp add: verifyAgentDelegation_def delegateKey_def memoryResolverFn_def)
      (simp add: AgentDelegationUnsignedV1.defs AgentDelegationV1.defs)
  moreover have "signAgentDelegation E u cseed aseed = Inr ?d"
    by (simp add: signAgentDelegation_def h k j)
  ultimately show ?thesis by blast
qed

definition demoDelegation :: AgentDelegationUnsignedV1 where
  "demoDelegation = \<lparr>ad_type = ''tsl.agent_delegation.v1'', ad_controller = ''tsl:alice'', ad_controller_key_id = ''#k'', ad_agent = ''tsl:bot'',
     ad_agent_key_id = ''#b'', ad_scope = [''mail.send''], ad_session_key = None, ad_max_uses = Some 3, ad_spending_limit_commitment = None,
     ad_issued_at = ''2026-01-15T00:00:00Z'', ad_expires_at = ''2026-02-01T00:00:00Z'', ad_nonce = ''0x01''\<rparr>"

lemma demo_dates:
  "dateParse demoEnv ''2026-01-01T00:00:00Z'' = Some 1767225600000"
  "dateParse demoEnv ''2026-01-15T00:00:00Z'' = Some 1768435200000"
  "dateParse demoEnv ''2026-02-01T00:00:00Z'' = Some 1769904000000"
  by code_simp+

lemma demo_identity: "\<exists>d. buildIdentityFromSeed demoEnv t k demoSeed (Some ''2026-01-01T00:00:00Z'') c = Inr d"
  by (simp add: buildIdentityFromSeed_def nowIso_def deriveEd25519PublicKey_def demoSeed_bytes) (simp add: demoEnv_def)

section \<open>Properties\<close>

text \<open>
  What a verified delegation means. If \<^verbatim>\<open>verifyAgentDelegation\<close> returns true, both parties' keys were found, are Ed25519 keys active
  when the delegation was issued, both signatures verify against one hash of the delegation, the required scope is among the
  delegated ones, and the delegation has not expired (if both times can be read).
\<close>

theorem verifyAgentDelegation_sound:
  assumes "verifyAgentDelegation E d resolve requiredScope atTime = Inr True"
  shows "\<exists>ck ak h. delegateKey resolve (ad_controller d) (ad_controller_key_id d) (ad_issued_at d) = Inr (Some ck)
     \<and> delegateKey resolve (ad_agent d) (ad_agent_key_id d) (ad_issued_at d) = Inr (Some ak)
     \<and> vm_type ck = ''ed25519'' \<and> vm_type ak = ''ed25519''
     \<and> keyActiveAt E (Some ck) (ad_issued_at d) \<and> keyActiveAt E (Some ak) (ad_issued_at d)
     \<and> agentDelegationHash E (AgentDelegationV1_obj d) = Inr h
     \<and> verifyEd25519 E (vm_public_key ck) (DText h) (ad_controller_signature d) = Inr True
     \<and> verifyEd25519 E (vm_public_key ak) (DText h) (ad_agent_signature d) = Inr True
     \<and> (\<forall>s. requiredScope = Some s \<and> s \<noteq> [] \<longrightarrow> s \<in> set (ad_scope d))
     \<and> (\<forall>e t. dateParse E (ad_expires_at d) = Some e \<and> dateParse E atTime = Some t \<longrightarrow> t < e)"
  using assms
  by (auto simp: verifyAgentDelegation_def bindE_eq_Inr not_le split: if_splits)

theorem verifyAgentDelegation_sound_witness:
  "\<exists>c a d. verifyAgentDelegation demoEnv d (memoryResolverFn (newMemoryResolver [c, a])) (Some ''mail.send'') ''2026-01-15T00:00:00Z'' = Inr True
     \<and> (\<exists>ck h. delegateKey (memoryResolverFn (newMemoryResolver [c, a])) (ad_controller d) (ad_controller_key_id d) (ad_issued_at d) = Inr (Some ck)
       \<and> agentDelegationHash demoEnv (AgentDelegationV1_obj d) = Inr h
       \<and> verifyEd25519 demoEnv (vm_public_key ck) (DText h) (ad_controller_signature d) = Inr True)"
proof -
  obtain c where c: "buildIdentityFromSeed demoEnv (ad_controller demoDelegation) (ad_controller_key_id demoDelegation) demoSeed (Some ''2026-01-01T00:00:00Z'') None = Inr c"
    using demo_identity by blast
  obtain a where a: "buildIdentityFromSeed demoEnv (ad_agent demoDelegation) (ad_agent_key_id demoDelegation) demoSeed (Some ''2026-01-01T00:00:00Z'') None = Inr a"
    using demo_identity by blast
  have "\<exists>d. signAgentDelegation demoEnv demoDelegation demoSeed demoSeed = Inr d \<and>
     verifyAgentDelegation demoEnv d (memoryResolverFn (newMemoryResolver [c, a])) (Some ''mail.send'') ''2026-01-15T00:00:00Z'' = Inr True"
    by (rule delegation_verifies [OF demo_hyps(1,3) demoSeed_bytes _ demoSeed_bytes _ c a])
      (simp_all add: demoDelegation_def demo_dates isSafeInteger_def, simp_all)
  then obtain d where v: "verifyAgentDelegation demoEnv d (memoryResolverFn (newMemoryResolver [c, a])) (Some ''mail.send'') ''2026-01-15T00:00:00Z'' = Inr True"
    by blast
  have "\<exists>ck h. delegateKey (memoryResolverFn (newMemoryResolver [c, a])) (ad_controller d) (ad_controller_key_id d) (ad_issued_at d) = Inr (Some ck)
       \<and> agentDelegationHash demoEnv (AgentDelegationV1_obj d) = Inr h
       \<and> verifyEd25519 demoEnv (vm_public_key ck) (DText h) (ad_controller_signature d) = Inr True"
    using verifyAgentDelegation_sound [OF v] by auto
  with v show ?thesis by blast
qed

text \<open>
  Delegating and verifying agree. A delegation that two registered identities, built from seeds before it was issued, sign with those seeds verifies for every scope it
  names, at every time before it expires.
\<close>

theorem agentDelegation_round_trip:
  assumes E: "hex_codec E" "ed25519_correct E"
    and seeds: "hexToBytes E cseed = Inr cb" "length cb = 32" "hexToBytes E aseed = Inr ab" "length ab = 32"
    and docs: "buildIdentityFromSeed E (ad_controller u) (ad_controller_key_id u) cseed (Some created) cc = Inr c"
      "buildIdentityFromSeed E (ad_agent u) (ad_agent_key_id u) aseed (Some created) ac = Inr a" "ad_controller u \<noteq> ad_agent u"
    and times: "dateParse E created = Some t0" "dateParse E (ad_issued_at u) = Some t1" "t0 \<le> t1"
      "dateParse E (ad_expires_at u) = Some t2" "dateParse E at = Some t" "t < t2"
    and u: "ad_type u = ''tsl.agent_delegation.v1''" "scope \<in> set (ad_scope u)" "\<And>n. ad_max_uses u = Some n \<Longrightarrow> isSafeInteger n"
  shows "\<exists>d. signAgentDelegation E u cseed aseed = Inr d \<and>
     verifyAgentDelegation E d (memoryResolverFn (newMemoryResolver [c, a])) (Some scope) at = Inr True"
  by (rule delegation_verifies [OF assms])

theorem agentDelegation_round_trip_witness:
  "\<exists>c a d. signAgentDelegation demoEnv demoDelegation demoSeed demoSeed = Inr d \<and>
     verifyAgentDelegation demoEnv d (memoryResolverFn (newMemoryResolver [c, a])) (Some ''mail.send'') ''2026-01-15T00:00:00Z'' = Inr True"
proof -
  obtain c where c: "buildIdentityFromSeed demoEnv (ad_controller demoDelegation) (ad_controller_key_id demoDelegation) demoSeed (Some ''2026-01-01T00:00:00Z'') None = Inr c"
    using demo_identity by blast
  obtain a where a: "buildIdentityFromSeed demoEnv (ad_agent demoDelegation) (ad_agent_key_id demoDelegation) demoSeed (Some ''2026-01-01T00:00:00Z'') None = Inr a"
    using demo_identity by blast
  show ?thesis
    by (intro exI [of _ c] exI [of _ a], rule agentDelegation_round_trip [OF demo_hyps(1,3) demoSeed_bytes _ demoSeed_bytes _ c a])
      (simp_all add: demoDelegation_def demo_dates isSafeInteger_def, simp_all)
qed

end
