(* ===== verification/CheckpointImport.thy ===== *)
theory CheckpointImport
  imports Settlement Agent
begin

text \<open>
  Import of checkpoints from other nodes (\<^verbatim>\<open>src/packages/core-ts/src/checkpointImport.ts\<close>): the hash chain, the relay's signature and the evidence of
  settlement are checked before a checkpoint is stored.
\<close>

record CheckpointImportValidationInput =
  im_checkpoint :: BatchCheckpointV1
  im_resolver :: resolver
  im_previous_checkpoint :: "BatchCheckpointV1 option"
  im_existing_checkpoint :: "BatchCheckpointV1 option"
  im_authorized_relays :: "string list option"
  im_require_authorized_relay :: "bool option"
  im_require_settlement_evidence_for_settled :: "bool option"
  im_settlement_evidence :: "SettlementEvidenceV1 list option"
  im_at_time :: "string option"

record CheckpointImportValidationResult =
  ir_ok :: bool
  ir_checkpoint_hash :: "string option"
  ir_error_code :: "string option"
  ir_errors :: "string list"

text \<open>\<open>None\<close> is \<^verbatim>\<open>undefined\<close>: the evidence fits.\<close>

definition settlementEvidenceError :: "env \<Rightarrow> eth \<Rightarrow> BatchCheckpointV1 \<Rightarrow> string \<Rightarrow> SettlementEvidenceV1 option \<Rightarrow> string option res" where
  "settlementEvidenceError E X c h evidence =
     (let bad = Inr (Some ''TSL_SETTLEMENT_EVIDENCE_INVALID'') in
      case evidence of
        None \<Rightarrow> bad
      | Some e \<Rightarrow>
        if \<not> sv_valid (validateSchema E ''settlementEvidenceV1'' (JObj (SettlementEvidenceV1_obj e))) then bad
        else if se_status e \<noteq> ''settled'' \<or> se_receipt_status e \<noteq> Some ''success'' then bad
        else if se_checkpoint_hash e \<noteq> h \<or> se_checkpoint_identity_hash e \<noteq> h then bad
        else bindE (contractCheckpointFieldsHashForCheckpoint E X c) (\<lambda>f.
          if se_contract_checkpoint_fields_hash e \<noteq> f then bad
          else if truthyStr (bc_settlement_backend c) \<and> Some (se_settlement_backend e) \<noteq> bc_settlement_backend c then bad
          else if truthyStr (bc_settlement_tx c) \<and> Some (se_settlement_tx e) \<noteq> bc_settlement_tx c then bad
          else if \<not> truthyStr (se_transaction_receipt_hash e) \<or> \<not> truthyStr (se_block_hash e) \<or> \<not> truthyStr (se_receipt_root e)
               \<or> \<not> truthyStr (se_receipt_proof_source_commitment e) \<or> \<not> truthyStr (se_finality_source_commitment e) then bad
          else Inr None))"

definition activeRelayKey :: "env \<Rightarrow> string \<Rightarrow> IdentityDocumentV1 option \<Rightarrow> VerificationMethodV1 option" where
  "activeRelayKey E atTime identity = Option.bind identity (\<lambda>d.
     find (\<lambda>m. vm_type m = ''ed25519'' \<and> keyActiveAt E (Some m) atTime \<and> notRevokedAt E (Some m) (Some atTime)) (idd_verification_methods d))"

definition differsFromHash :: "env \<Rightarrow> BatchCheckpointV1 option \<Rightarrow> string \<Rightarrow> bool res" where
  "differsFromHash E c h = (case c of None \<Rightarrow> Inr False | Some d \<Rightarrow> bindE (checkpointHash E d) (\<lambda>g. Inr (g \<noteq> h)))"

definition relaySigned :: "env \<Rightarrow> CheckpointImportValidationInput \<Rightarrow> string \<Rightarrow> string \<Rightarrow> bool res" where
  "relaySigned E inp atTime h =
     bindE (im_resolver inp (bc_relay_id (im_checkpoint inp)) (Some atTime)) (\<lambda>identity.
       case activeRelayKey E atTime identity of
         None \<Rightarrow> Inr False
       | Some key \<Rightarrow> verifyEd25519 E (vm_public_key key) (DText h) (bc_relay_signature (im_checkpoint inp)))"

definition importEvidenceError :: "env \<Rightarrow> eth \<Rightarrow> CheckpointImportValidationInput \<Rightarrow> string \<Rightarrow> string option res" where
  "importEvidenceError E X inp h =
     (let c = im_checkpoint inp in
      if truthyStr (bc_settlement_tx c) \<and> im_require_settlement_evidence_for_settled inp = Some True
      then settlementEvidenceError E X c h (find (\<lambda>e. se_checkpoint_identity_hash e = h \<or> se_checkpoint_hash e = h
             \<or> Some (se_settlement_tx e) = bc_settlement_tx c) (orElse (im_settlement_evidence inp) []))
      else Inr None)"

definition validateCheckpointImport :: "env \<Rightarrow> eth \<Rightarrow> CheckpointImportValidationInput \<Rightarrow> CheckpointImportValidationResult res" where
  "validateCheckpointImport E X inp =
     (let c = im_checkpoint inp in
      bindE (checkpointHash E c) (\<lambda>h.
      bindE (differsFromHash E (im_existing_checkpoint inp) h) (\<lambda>conflict.
      bindE (differsFromHash E (im_previous_checkpoint inp) (bc_previous_checkpoint c)) (\<lambda>broken.
      bindE (case im_at_time inp of Some t \<Rightarrow> Inr t | None \<Rightarrow> toISOString (bc_epoch_start_ms c)) (\<lambda>atTime.
      bindE (relaySigned E inp atTime h) (\<lambda>signed.
      bindE (importEvidenceError E X inp h) (\<lambda>evidenceError.
        let errors = concat
          [if \<not> sv_valid (validateSchema E ''checkpoint'' (JObj (BatchCheckpointV1_obj c))) then [''TSL_CHECKPOINT_SCHEMA_INVALID''] else [],
           if truthyStr (bc_checkpoint_identity_hash c) \<and> bc_checkpoint_identity_hash c \<noteq> Some h then [''TSL_CHECKPOINT_IDENTITY_MISMATCH''] else [],
           if conflict then [''TSL_CHECKPOINT_CONFLICT''] else [],
           if broken then [''TSL_CHECKPOINT_CHAIN_BROKEN''] else [],
           if \<not> signed then [''TSL_CHECKPOINT_SIGNATURE_INVALID''] else [],
           if im_require_authorized_relay inp = Some True \<and> bc_relay_id c \<notin> set (orElse (im_authorized_relays inp) [])
             then [''TSL_RELAY_NOT_AUTHORIZED''] else [],
           case evidenceError of Some e \<Rightarrow> [e] | None \<Rightarrow> []]
        in Inr \<lparr>ir_ok = (errors = []), ir_checkpoint_hash = Some h,
             ir_error_code = (case errors of [] \<Rightarrow> None | x # _ \<Rightarrow> Some x), ir_errors = errors\<rparr>)))))))"

section \<open>A sequence of imports\<close>

text \<open>A node that imports checkpoints one after the other hands the last accepted one to the next validation.\<close>

fun importedInOrder :: "env \<Rightarrow> eth \<Rightarrow> (BatchCheckpointV1 \<Rightarrow> CheckpointImportValidationInput) \<Rightarrow> BatchCheckpointV1 list \<Rightarrow> bool" where
  "importedInOrder E X inp (a # b # cs) =
     ((\<exists>r. validateCheckpointImport E X ((inp b)\<lparr>im_checkpoint := b, im_previous_checkpoint := Some a\<rparr>) = Inr r \<and> ir_ok r)
      \<and> importedInOrder E X inp (b # cs))"
| "importedInOrder E X inp _ = True"

lemma differsFromHash_False: "differsFromHash E c h = Inr False \<longleftrightarrow> (\<forall>d. c = Some d \<longrightarrow> checkpointHash E d = Inr h)"
  by (cases c) (auto simp: differsFromHash_def bindE_eq_Inr)

lemma guarded_Nil: "(if b then [x] else []) = [] \<longleftrightarrow> \<not> b" "(case m of Some e \<Rightarrow> [e] | None \<Rightarrow> []) = [] \<longleftrightarrow> m = None"
  by (simp_all split: option.split)

lemma validateCheckpointImport_ok:
  assumes "validateCheckpointImport E X inp = Inr r" "ir_ok r"
  shows "\<exists>h atTime. checkpointHash E (im_checkpoint inp) = Inr h \<and> ir_checkpoint_hash r = Some h
     \<and> sv_valid (validateSchema E ''checkpoint'' (JObj (BatchCheckpointV1_obj (im_checkpoint inp))))
     \<and> differsFromHash E (im_existing_checkpoint inp) h = Inr False
     \<and> differsFromHash E (im_previous_checkpoint inp) (bc_previous_checkpoint (im_checkpoint inp)) = Inr False
     \<and> relaySigned E inp atTime h = Inr True
     \<and> (im_at_time inp = Some atTime \<or> im_at_time inp = None \<and> toISOString (bc_epoch_start_ms (im_checkpoint inp)) = Inr atTime)
     \<and> (im_require_authorized_relay inp = Some True \<longrightarrow> bc_relay_id (im_checkpoint inp) \<in> set (orElse (im_authorized_relays inp) []))
     \<and> importEvidenceError E X inp h = Inr None"
proof -
  obtain h conflict broken atTime signed ee where p: "checkpointHash E (im_checkpoint inp) = Inr h"
    "differsFromHash E (im_existing_checkpoint inp) h = Inr conflict"
    "differsFromHash E (im_previous_checkpoint inp) (bc_previous_checkpoint (im_checkpoint inp)) = Inr broken"
    "(case im_at_time inp of Some t \<Rightarrow> Inr t | None \<Rightarrow> toISOString (bc_epoch_start_ms (im_checkpoint inp))) = Inr atTime"
    "relaySigned E inp atTime h = Inr signed" "importEvidenceError E X inp h = Inr ee"
    using assms(1) unfolding validateCheckpointImport_def Let_def bindE_eq_Inr by blast
  have r: "\<not> conflict" "\<not> broken" "signed" "ee = None" "ir_checkpoint_hash r = Some h"
    "sv_valid (validateSchema E ''checkpoint'' (JObj (BatchCheckpointV1_obj (im_checkpoint inp))))"
    "im_require_authorized_relay inp = Some True \<longrightarrow> bc_relay_id (im_checkpoint inp) \<in> set (orElse (im_authorized_relays inp) [])"
    using assms unfolding validateCheckpointImport_def Let_def p bindE_simps sum.inject by (auto simp: guarded_Nil)
  moreover have "im_at_time inp = Some atTime \<or> im_at_time inp = None \<and> toISOString (bc_epoch_start_ms (im_checkpoint inp)) = Inr atTime"
    using p(4) by (simp split: option.split_asm)
  ultimately show ?thesis using p by auto
qed

lemma importedInOrder_chained:
  assumes "importedInOrder E X inp cs" "sorted_wrt (<) (map bc_epoch_start_ms cs)"
  shows "chained E cs"
  using assms
proof (induction E X inp cs rule: importedInOrder.induct)
  case (1 E X inp a b cs)
  obtain r where r: "validateCheckpointImport E X ((inp b)\<lparr>im_checkpoint := b, im_previous_checkpoint := Some a\<rparr>) = Inr r" "ir_ok r"
    using "1.prems"(1) by auto
  have "checkpointHash E a = Inr (bc_previous_checkpoint b)"
    using validateCheckpointImport_ok [OF r] by (auto simp: differsFromHash_False)
  then show ?case using 1 by simp
qed auto

lemma settlementEvidenceError_None:
  assumes "settlementEvidenceError E X c h (Some e) = Inr None"
  shows "se_status e = ''settled'' \<and> se_receipt_status e = Some ''success'' \<and> se_checkpoint_identity_hash e = h
     \<and> contractCheckpointFieldsHashForCheckpoint E X c = Inr (se_contract_checkpoint_fields_hash e)
     \<and> (truthyStr (bc_settlement_tx c) \<longrightarrow> bc_settlement_tx c = Some (se_settlement_tx e))"
  using assms by (auto simp: settlementEvidenceError_def Let_def bindE_eq_Inr split: if_split_asm)

lemma importEvidenceError_None:
  assumes "importEvidenceError E X inp h = Inr None" "truthyStr (bc_settlement_tx (im_checkpoint inp))"
    "im_require_settlement_evidence_for_settled inp = Some True"
  shows "\<exists>e \<in> set (orElse (im_settlement_evidence inp) []). settlementEvidenceError E X (im_checkpoint inp) h (Some e) = Inr None"
proof -
  let ?f = "find (\<lambda>e. se_checkpoint_identity_hash e = h \<or> se_checkpoint_hash e = h
     \<or> Some (se_settlement_tx e) = bc_settlement_tx (im_checkpoint inp)) (orElse (im_settlement_evidence inp) [])"
  have "settlementEvidenceError E X (im_checkpoint inp) h ?f = Inr None" using assms by (simp add: importEvidenceError_def Let_def)
  moreover obtain e where "?f = Some e"
    using calculation by (cases ?f) (auto simp: settlementEvidenceError_def)
  ultimately show ?thesis by (auto simp: find_Some_iff)
qed

lemma relaySigned_True:
  assumes "relaySigned E inp atTime h = Inr True"
  shows "\<exists>d key. im_resolver inp (bc_relay_id (im_checkpoint inp)) (Some atTime) = Inr (Some d) \<and> key \<in> set (idd_verification_methods d)
     \<and> vm_type key = ''ed25519'' \<and> keyActiveAt E (Some key) atTime \<and> notRevokedAt E (Some key) (Some atTime)
     \<and> verifyEd25519 E (vm_public_key key) (DText h) (bc_relay_signature (im_checkpoint inp)) = Inr True"
proof -
  obtain identity key where i: "im_resolver inp (bc_relay_id (im_checkpoint inp)) (Some atTime) = Inr identity" "activeRelayKey E atTime identity = Some key"
    "verifyEd25519 E (vm_public_key key) (DText h) (bc_relay_signature (im_checkpoint inp)) = Inr True"
    using assms by (auto simp: relaySigned_def bindE_eq_Inr split: option.split_asm)
  then show ?thesis by (cases identity) (auto simp: activeRelayKey_def dest!: find_SomeD)
qed

section \<open>A concrete import\<close>

definition demoImport :: "BatchCheckpointV1 \<Rightarrow> IdentityDocumentV1 \<Rightarrow> CheckpointImportValidationInput" where
  "demoImport c d = \<lparr>im_checkpoint = c, im_resolver = (\<lambda>t a. Inr (Some d)), im_previous_checkpoint = None, im_existing_checkpoint = None,
     im_authorized_relays = None, im_require_authorized_relay = None, im_require_settlement_evidence_for_settled = None,
     im_settlement_evidence = None, im_at_time = Some ''2026-01-15T00:00:00Z''\<rparr>"

lemma signCheckpoint_hash:
  assumes "checkpointHash E c = Inr h"
  shows "checkpointHash E (c\<lparr>bc_relay_signature := s\<rparr>) = Inr h"
proof -
  have "hashedPart (c\<lparr>bc_relay_signature := s\<rparr>) = hashedPart c" by (simp add: hashedPart_def)
  then show ?thesis using assms checkpointHash_hashedPart by metis
qed


lemma importErrors_none:
  assumes "checkpointHash E (im_checkpoint inp) = Inr h" "differsFromHash E (im_existing_checkpoint inp) h = Inr False"
    "differsFromHash E (im_previous_checkpoint inp) (bc_previous_checkpoint (im_checkpoint inp)) = Inr False" "im_at_time inp = Some t"
    "relaySigned E inp t h = Inr True" "importEvidenceError E X inp h = Inr None" "im_require_authorized_relay inp = None"
    "sv_valid (validateSchema E ''checkpoint'' (JObj (BatchCheckpointV1_obj (im_checkpoint inp))))" "bc_checkpoint_identity_hash (im_checkpoint inp) = None"
  shows "\<exists>r. validateCheckpointImport E X inp = Inr r \<and> ir_ok r"
  using assms by (simp add: validateCheckpointImport_def truthyStr_def)

lemma demo_valid: "sv_valid (validateSchema demoEnv n v)"
  by (simp add: validateSchema_def demoEnv_def)

text \<open>A checkpoint signed by the key of a resolved identity is imported.\<close>

lemma demo_import:
  assumes h: "checkpointHash demoEnv c = Inr h" "bc_checkpoint_identity_hash c = None" "bc_settlement_tx c = None"
    and prev: "differsFromHash demoEnv prev (bc_previous_checkpoint c) = Inr False"
  shows "\<exists>d s r. validateCheckpointImport demoEnv X ((demoImport c d)\<lparr>im_checkpoint := c\<lparr>bc_relay_signature := s\<rparr>, im_previous_checkpoint := prev\<rparr>) = Inr r \<and> ir_ok r"
proof -
  have len: "length (replicate 32 0x77 :: bytes) = 32" by simp
  obtain d where d: "buildIdentityFromSeed demoEnv (bc_relay_id c) ''#k'' demoSeed (Some ''2026-01-01T00:00:00Z'') None = Inr d"
    using demo_identity by blast
  have "\<exists>b. hexToBytes demoEnv h = Inr b" using h(1) hexToBytes_hashDomain [OF demo_hyps(1)] by (auto simp: checkpointHash_def domainHash_Inr)
  then obtain pk s where k: "deriveEd25519PublicKey demoEnv demoSeed = Inr pk" "verifyEd25519 demoEnv pk (DText h) s = Inr True"
    using seed_signs_hex [OF demo_hyps(1,3) demoSeed_bytes len] by blast
  let ?c = "c\<lparr>bc_relay_signature := s\<rparr>"
  let ?i = "(demoImport c d)\<lparr>im_checkpoint := ?c, im_previous_checkpoint := prev\<rparr>"
  let ?m = "\<lparr>vm_id = ''#k'', vm_type = ''ed25519'', vm_public_key = pk, vm_status = ''active'', vm_created_at = ''2026-01-01T00:00:00Z'',
     vm_expires_at = None, vm_revoked_at = None\<rparr>"
  have "idd_verification_methods d = [?m]" using d k(1) by (auto simp: buildIdentityFromSeed_def nowIso_def)
  moreover have "keyActiveAt demoEnv (Some ?m) ''2026-01-15T00:00:00Z''" by (simp add: keyActiveAt_def demo_dates truthyStr_def)
  ultimately have "relaySigned demoEnv ?i ''2026-01-15T00:00:00Z'' h = Inr True"
    using k(2) by (simp add: relaySigned_def demoImport_def activeRelayKey_def notRevokedAt_def)
  moreover have "checkpointHash demoEnv (im_checkpoint ?i) = Inr h" using signCheckpoint_hash [OF h(1)] by simp
  ultimately have "\<exists>r. validateCheckpointImport demoEnv X ?i = Inr r \<and> ir_ok r"
    using h prev demo_valid by (intro importErrors_none) (simp_all add: demoImport_def differsFromHash_def importEvidenceError_def truthyStr_def)
  then show ?thesis by blast
qed

section \<open>Properties\<close>



end
