(* ===== verification/VerifierTypes.thy ===== *)
theory VerifierTypes
  imports Types
begin

text \<open>
  The inputs and results of the verifier and the proof bundle (\<^verbatim>\<open>src/packages/core-ts/src/types.ts\<close>, from \<^verbatim>\<open>ProofBundleV1\<close> on), with the
  conventions of the theory of wire objects. A field that may be \<^verbatim>\<open>null\<close> as well as absent is an option of an option.
\<close>

record ProofBundleV1 =
  pb_type :: "string"
  pb_bundle_id :: "string"
  pb_created_at :: "string"
  pb_identity :: "IdentityDocumentV1"
  pb_envelope :: "EventCommitmentV1"
  pb_proof :: "InclusionProofV1"
  pb_checkpoint :: "BatchCheckpointV1"
  pb_receipts :: "ReceiptCommitmentV1 list option"
  pb_attestations :: "AttestationV1 list option"
  pb_attestations_v2 :: "AttestationV2 list option"
  pb_receipt_disputes :: "(string \<times> ReceiptDisputeMetadataV1) list option"
  pb_revocations :: "RevocationV1 list option"
  pb_settlement_evidence :: "SettlementEvidenceV1 list option"
  pb_assessment :: "TrustAssessmentV1 option option"
  pb_assessment_v2 :: "TrustAssessmentV2 option option"
  pb_scoring_profile :: "ScoringProfileV2 option"
  pb_domain_policy :: "DomainPolicyV1 option"
  pb_evidence_coverage :: "EvidenceCoverageV1 option"
  pb_feature_registry :: "FeatureRegistryV1 option"
  pb_normalization_profile :: "NormalizationProfileV1 option"
  pb_weight_profile :: "WeightProfileV1 option"
  pb_calibration_profile :: "CalibrationProfileV1 option"
  pb_confidence_profile :: "ConfidenceProfileV1 option"
  pb_provider_governance_status :: "ProviderGovernanceStatusV1 option"
  pb_metadata_fingerprints :: "MetadataFingerprintCommitmentV1 list option"
  pb_graph_profile :: "GraphProfileV2 option"
  pb_graph_feature_vector :: "GraphFeatureVectorV1 option"
  pb_trusted_seeds :: "string list option"
  pb_adversarial_seeds :: "string list option"
  pb_trusted_seed_governance :: "SeedGovernanceProfileV1 option"
  pb_adversarial_seed_governance :: "SeedGovernanceProfileV1 option"
  pb_event_receivers :: "(string \<times> string) list option"
  pb_sybil_assessment :: "SybilAssessmentV1 option"
  pb_sybil_profile :: "SybilProfile option"
  pb_drift_report :: "DriftReportV1 option"
  pb_drift_feature_history :: "DriftFeatureEntry list option"
  pb_drift_cohort_baseline_components :: "(string \<times> int) list list option"
  pb_zk_proofs :: "ZkThresholdProofV1 list option"
  pb_zk_circuit_manifests :: "ZkCircuitReleaseManifestV1 list option"
  pb_zk_verification_key_registry :: "ZkVerificationKeyRegistryV1 option"
  pb_delegations :: "AgentDelegationV1 list option"
  pb_delegation_policies :: "DelegationPolicyV2 list option"
  pb_agent_actions :: "AgentActionV2 list option"
  pb_audit_findings :: "AuditFindingV1 list option"
  pb_consistency_proofs :: "ConsistencyProofV1 list option"
  pb_non_membership_proofs :: "SetNonMembershipProofV1 list option"
  pb_governance_policy :: "GovernancePolicyV1 option"
  pb_redaction_manifest :: "RedactionManifest"
  pb_appeal_metadata :: "jsval option"
  pb_local_disclosure_warnings :: "string list option"
  pb_message_disclosure :: "MessageDisclosure option"
  pb_disclosure_consents :: "DisclosureConsentV1 list option"

definition ProofBundleV1_obj :: "ProofBundleV1 \<Rightarrow> jsobj" where
  "ProofBundleV1_obj x =
     [(''type'', JStr (pb_type x))]
     @ [(''bundle_id'', JStr (pb_bundle_id x))]
     @ [(''created_at'', JStr (pb_created_at x))]
     @ [(''identity'', JObj (IdentityDocumentV1_obj (pb_identity x)))]
     @ [(''envelope'', JObj (EventCommitmentV1_obj (pb_envelope x)))]
     @ [(''proof'', JObj (InclusionProofV1_obj (pb_proof x)))]
     @ [(''checkpoint'', JObj (BatchCheckpointV1_obj (pb_checkpoint x)))]
     @ optField ''receipts'' (\<lambda>v. JArr (map (\<lambda>y. JObj (ReceiptCommitmentV1_obj y)) v)) (pb_receipts x)
     @ optField ''attestations'' (\<lambda>v. JArr (map (\<lambda>y. JObj (AttestationV1_obj y)) v)) (pb_attestations x)
     @ optField ''attestations_v2'' (\<lambda>v. JArr (map (\<lambda>y. JObj (AttestationV2_obj y)) v)) (pb_attestations_v2 x)
     @ optField ''receipt_disputes'' (\<lambda>v. JObj (map (\<lambda>(k, r). (k, JObj (ReceiptDisputeMetadataV1_obj r))) v)) (pb_receipt_disputes x)
     @ optField ''revocations'' (\<lambda>v. JArr (map (\<lambda>y. JObj (RevocationV1_obj y)) v)) (pb_revocations x)
     @ optField ''settlement_evidence'' (\<lambda>v. JArr (map (\<lambda>y. JObj (SettlementEvidenceV1_obj y)) v)) (pb_settlement_evidence x)
     @ optField ''assessment'' (\<lambda>v. (case v of None \<Rightarrow> JNull | Some r \<Rightarrow> JObj (TrustAssessmentV1_obj r))) (pb_assessment x)
     @ optField ''assessment_v2'' (\<lambda>v. (case v of None \<Rightarrow> JNull | Some r \<Rightarrow> JObj (TrustAssessmentV2_obj r))) (pb_assessment_v2 x)
     @ optField ''scoring_profile'' (\<lambda>v. JObj (ScoringProfileV2_obj v)) (pb_scoring_profile x)
     @ optField ''domain_policy'' (\<lambda>v. JObj (DomainPolicyV1_obj v)) (pb_domain_policy x)
     @ optField ''evidence_coverage'' (\<lambda>v. JObj (EvidenceCoverageV1_obj v)) (pb_evidence_coverage x)
     @ optField ''feature_registry'' (\<lambda>v. JObj (FeatureRegistryV1_obj v)) (pb_feature_registry x)
     @ optField ''normalization_profile'' (\<lambda>v. JObj (NormalizationProfileV1_obj v)) (pb_normalization_profile x)
     @ optField ''weight_profile'' (\<lambda>v. JObj (WeightProfileV1_obj v)) (pb_weight_profile x)
     @ optField ''calibration_profile'' (\<lambda>v. JObj (CalibrationProfileV1_obj v)) (pb_calibration_profile x)
     @ optField ''confidence_profile'' (\<lambda>v. JObj (ConfidenceProfileV1_obj v)) (pb_confidence_profile x)
     @ optField ''provider_governance_status'' (\<lambda>v. JObj (ProviderGovernanceStatusV1_obj v)) (pb_provider_governance_status x)
     @ optField ''metadata_fingerprints'' (\<lambda>v. JArr (map (\<lambda>y. JObj (MetadataFingerprintCommitmentV1_obj y)) v)) (pb_metadata_fingerprints x)
     @ optField ''graph_profile'' (\<lambda>v. JObj (GraphProfileV2_obj v)) (pb_graph_profile x)
     @ optField ''graph_feature_vector'' (\<lambda>v. JObj (GraphFeatureVectorV1_obj v)) (pb_graph_feature_vector x)
     @ optField ''trusted_seeds'' (\<lambda>v. JArr (map JStr v)) (pb_trusted_seeds x)
     @ optField ''adversarial_seeds'' (\<lambda>v. JArr (map JStr v)) (pb_adversarial_seeds x)
     @ optField ''trusted_seed_governance'' (\<lambda>v. JObj (SeedGovernanceProfileV1_obj v)) (pb_trusted_seed_governance x)
     @ optField ''adversarial_seed_governance'' (\<lambda>v. JObj (SeedGovernanceProfileV1_obj v)) (pb_adversarial_seed_governance x)
     @ optField ''event_receivers'' (\<lambda>v. JObj (map (\<lambda>(k, s). (k, JStr s)) v)) (pb_event_receivers x)
     @ optField ''sybil_assessment'' (\<lambda>v. JObj (SybilAssessmentV1_obj v)) (pb_sybil_assessment x)
     @ optField ''sybil_profile'' (\<lambda>v. JObj (SybilProfile_obj v)) (pb_sybil_profile x)
     @ optField ''drift_report'' (\<lambda>v. JObj (DriftReportV1_obj v)) (pb_drift_report x)
     @ optField ''drift_feature_history'' (\<lambda>v. JArr (map (\<lambda>y. JObj (DriftFeatureEntry_obj y)) v)) (pb_drift_feature_history x)
     @ optField ''drift_cohort_baseline_components'' (\<lambda>v. JArr (map (\<lambda>d. JObj (map (\<lambda>(k, i). (k, JNum (JInt i))) d)) v)) (pb_drift_cohort_baseline_components x)
     @ optField ''zk_proofs'' (\<lambda>v. JArr (map (\<lambda>y. JObj (ZkThresholdProofV1_obj y)) v)) (pb_zk_proofs x)
     @ optField ''zk_circuit_manifests'' (\<lambda>v. JArr (map (\<lambda>y. JObj (ZkCircuitReleaseManifestV1_obj y)) v)) (pb_zk_circuit_manifests x)
     @ optField ''zk_verification_key_registry'' (\<lambda>v. JObj (ZkVerificationKeyRegistryV1_obj v)) (pb_zk_verification_key_registry x)
     @ optField ''delegations'' (\<lambda>v. JArr (map (\<lambda>y. JObj (AgentDelegationV1_obj y)) v)) (pb_delegations x)
     @ optField ''delegation_policies'' (\<lambda>v. JArr (map (\<lambda>y. JObj (DelegationPolicyV2_obj y)) v)) (pb_delegation_policies x)
     @ optField ''agent_actions'' (\<lambda>v. JArr (map (\<lambda>y. JObj (AgentActionV2_obj y)) v)) (pb_agent_actions x)
     @ optField ''audit_findings'' (\<lambda>v. JArr (map (\<lambda>y. JObj (AuditFindingV1_obj y)) v)) (pb_audit_findings x)
     @ optField ''consistency_proofs'' (\<lambda>v. JArr (map (\<lambda>y. JObj (ConsistencyProofV1_obj y)) v)) (pb_consistency_proofs x)
     @ optField ''non_membership_proofs'' (\<lambda>v. JArr (map (\<lambda>y. JObj (SetNonMembershipProofV1_obj y)) v)) (pb_non_membership_proofs x)
     @ optField ''governance_policy'' (\<lambda>v. JObj (GovernancePolicyV1_obj v)) (pb_governance_policy x)
     @ [(''redaction_manifest'', JObj (RedactionManifest_obj (pb_redaction_manifest x)))]
     @ optField ''appeal_metadata'' (\<lambda>v. v) (pb_appeal_metadata x)
     @ optField ''local_disclosure_warnings'' (\<lambda>v. JArr (map JStr v)) (pb_local_disclosure_warnings x)
     @ optField ''message_disclosure'' (\<lambda>v. JObj (MessageDisclosure_obj v)) (pb_message_disclosure x)
     @ optField ''disclosure_consents'' (\<lambda>v. JArr (map (\<lambda>y. JObj (DisclosureConsentV1_obj y)) v)) (pb_disclosure_consents x)"

record VerifierPolicy =
  po_require_inclusion :: "bool option"
  po_require_checkpoint :: "bool option"
  po_require_settlement :: "bool option"
  po_require_provider_registry :: "bool option"
  po_require_chain_revocation :: "bool option"
  po_require_zk_claims :: "string list option"
  po_require_consistency_proof :: "bool option"
  po_require_non_membership_proof :: "bool option"
  po_require_governance_policy :: "bool option"
  po_require_agent_scope :: "string option"
  po_require_audit_consistency :: "bool option"
  po_accepted_scoring_profiles :: "string list option"
  po_required_domain_policy :: "string option"
  po_require_v2_assessment :: "bool option"
  po_require_metadata_fingerprint_policy :: "bool option"
  po_require_graph_artifacts :: "bool option"
  po_require_registered_zk_circuit :: "bool option"
  po_require_sparse_merkle_revocation_root :: "bool option"
  po_require_research_graph_algorithm :: "bool option"
  po_require_provider_governance_active :: "bool option"
  po_production_scoring_required :: "bool option"
  po_require_sybil_provider_issuer :: "bool option"
  po_require_seed_governance_opening :: "bool option"
  po_require_full_covariance_drift :: "bool option"
  po_require_manifest_verification_key_hash :: "bool option"
  po_reject_dev_zk_circuits :: "bool option"
  po_reject_unsigned_local_proof_bundles :: "bool option"
  po_require_authorized_relay :: "bool option"
  po_authorized_relays :: "string list option"
  po_require_receipt_inclusion_for_disclosed_receipts :: "bool option"
  po_require_disclosure_consent_for_private_fields :: "bool option"
  po_require_profile_derived_scoring :: "bool option"
  po_require_behavioral_sybil_tiers :: "bool option"
  po_require_fixed_point_drift :: "bool option"
  po_require_four_root_checkpoint :: "bool option"
  po_require_exact_graph_formulas :: "bool option"
  po_require_core_drift_formula :: "bool option"
  po_require_profile_signed_scoring :: "bool option"
  po_require_offline_settlement_proof :: "bool option"
  po_reject_rpc_attested_settlement_for_mainnet :: "bool option"
  po_require_active_zk_manifest :: "bool option"
  po_require_zk_ceremony_evidence :: "bool option"
  po_min_settlement_confirmations :: "int option"
  po_reject_unsafe_fixtures_on_mainnet :: "bool option"
  po_accepted_auditors :: "string list option"
  po_accepted_governance_policy :: "string option"
  po_accepted_scoring_providers :: "string list option"
  po_verifier_or_provider :: "string option"
  po_disclosure_purpose :: "string option"
  po_revoked_disclosure_pointers :: "string list option"
  po_disclosure_checked_at :: "string option"
  po_max_assessment_age_ms :: "int option"

record VerificationChecks =
  ck_schema_valid :: "bool"
  ck_signature_valid :: "bool"
  ck_key_found :: "bool"
  ck_key_active :: "bool"
  ck_not_revoked :: "bool"
  ck_content_commitment_matches :: "bool option"
  ck_included_in_log :: "bool"
  ck_checkpoint_valid :: "bool"
  ck_checkpoint_matches_proof :: "bool"
  ck_checkpoint_settled :: "bool"
  ck_settlement_evidence_valid :: "bool option"
  ck_receipt_valid :: "bool option"
  ck_attestation_valid :: "bool option"
  ck_revocation_state_valid :: "bool option"
  ck_assessment_valid :: "bool option"
  ck_provider_active :: "bool option"
  ck_model_registered :: "bool option"
  ck_chain_revocation_checked :: "bool option"
  ck_zk_valid :: "bool option"
  ck_agent_scope_valid :: "bool option"
  ck_audit_consistency_valid :: "bool option"
  ck_consistency_proof_valid :: "bool option"
  ck_non_membership_proof_valid :: "bool option"
  ck_zk_circuit_registered :: "bool option"
  ck_research_graph_algorithm_valid :: "bool option"
  ck_provider_governance_valid :: "bool option"
  ck_seed_governance_valid :: "bool option"
  ck_full_covariance_drift_valid :: "bool option"
  ck_governance_policy_valid :: "bool option"
  ck_trust_assessment_v2_valid :: "bool option"
  ck_scoring_profile_valid :: "bool option"
  ck_domain_policy_valid :: "bool option"
  ck_evidence_coverage_valid :: "bool option"
  ck_metadata_fingerprint_valid :: "bool option"
  ck_disclosure_consent_valid :: "bool option"
  ck_redaction_manifest_valid :: "bool option"
  ck_checkpoint_signature_valid :: "bool option"
  ck_graph_artifacts_valid :: "bool option"
  ck_sybil_assessment_valid :: "bool option"
  ck_drift_report_valid :: "bool option"
  ck_delegated_action_valid :: "bool option"
  ck_receipt_included :: "bool option"
  ck_authorized_relay_valid :: "bool option"
  ck_attestation_included :: "bool option"
  ck_revocation_included :: "bool option"

record VerificationResult =
  vr_verified :: "bool"
  vr_commitment_hash :: "string option"
  vr_event_hash :: "string option"
  vr_checks :: "VerificationChecks"
  vr_settlement_status :: "string option"
  vr_risk_label :: "string"
  vr_explanation :: "string list"
  vr_errors :: "string list"

record VerifyTSLInput =
  vi_proof_bundle :: "ProofBundleV1 option"
  vi_envelope :: "EventCommitmentV1"
  vi_proof :: "InclusionProofV1 option"
  vi_receipt_proofs :: "InclusionProofV1 list option"
  vi_checkpoint :: "BatchCheckpointV1 option"
  vi_receipts :: "ReceiptCommitmentV1 list option"
  vi_attestations :: "AttestationV1 list option"
  vi_attestations_v2 :: "AttestationV2 list option"
  vi_receipt_disputes :: "(string \<times> ReceiptDisputeMetadataV1) list option"
  vi_revocations :: "RevocationV1 list option"
  vi_settlement_evidence :: "SettlementEvidenceV1 list option"
  vi_assessment :: "TrustAssessmentV1 option"
  vi_assessment_v2 :: "TrustAssessmentV2 option"
  vi_scoring_profile :: "ScoringProfileV2 option"
  vi_domain_policy :: "DomainPolicyV1 option"
  vi_evidence_coverage :: "EvidenceCoverageV1 option"
  vi_feature_registry :: "FeatureRegistryV1 option"
  vi_normalization_profile :: "NormalizationProfileV1 option"
  vi_weight_profile :: "WeightProfileV1 option"
  vi_calibration_profile :: "CalibrationProfileV1 option"
  vi_confidence_profile :: "ConfidenceProfileV1 option"
  vi_provider_governance_status :: "ProviderGovernanceStatusV1 option"
  vi_metadata_fingerprints :: "MetadataFingerprintCommitmentV1 list option"
  vi_graph_profile :: "GraphProfileV2 option"
  vi_graph_feature_vector :: "GraphFeatureVectorV1 option"
  vi_trusted_seeds :: "string list option"
  vi_adversarial_seeds :: "string list option"
  vi_trusted_seed_governance :: "SeedGovernanceProfileV1 option"
  vi_adversarial_seed_governance :: "SeedGovernanceProfileV1 option"
  vi_event_receivers :: "(string \<times> string) list option"
  vi_sybil_assessment :: "SybilAssessmentV1 option"
  vi_sybil_profile :: "SybilProfile option"
  vi_drift_report :: "DriftReportV1 option"
  vi_drift_feature_history :: "DriftFeatureEntry list option"
  vi_drift_cohort_baseline_components :: "(string \<times> int) list list option"
  vi_zk_proofs :: "ZkThresholdProofV1 list option"
  vi_zk_circuit_manifests :: "ZkCircuitReleaseManifestV1 list option"
  vi_zk_verification_key_registry :: "ZkVerificationKeyRegistryV1 option"
  vi_delegations :: "AgentDelegationV1 list option"
  vi_delegation_policies :: "DelegationPolicyV2 list option"
  vi_agent_actions :: "AgentActionV2 list option"
  vi_audit_findings :: "AuditFindingV1 list option"
  vi_consistency_proofs :: "ConsistencyProofV1 list option"
  vi_non_membership_proofs :: "SetNonMembershipProofV1 list option"
  vi_governance_policy :: "GovernancePolicyV1 option"
  vi_redaction_manifest :: "RedactionManifest option"
  vi_message_disclosure :: "MessageDisclosure option"
  vi_disclosure_consents :: "DisclosureConsentV1 list option"

end
