(* ===== verification/SettlementProof.thy ===== *)
theory SettlementProof
  imports Settlement VerifierTypes
begin

text \<open>
  Offline verification of settlement evidence (\<^verbatim>\<open>src/packages/core-ts/src/settlementProof.ts\<close>): a block header, a receipt, its proof in the receipt
  trie and the log entry that the checkpoint contract emitted. RLP decoding, the Merkle Patricia trie and the decoding of event logs are the packages
  \<^verbatim>\<open>@ethereumjs/rlp\<close>, \<^verbatim>\<open>@ethereumjs/trie\<close> and \<^verbatim>\<open>ethers\<close>: the record \<open>rlp\<close> of functions.
\<close>

datatype RlpValue = RBytes bytes | RList "RlpValue list"

text \<open>The arguments of the decoded event, as strings (\<^verbatim>\<open>String(decoded.x)\<close>) and a 64-bit number.\<close>

record checkpointSubmitted =
  cv_checkpointHash :: string
  cv_contractCheckpointFieldsHash :: string
  cv_epochStartMs :: nat
  cv_shard :: string
  cv_eventRoot :: string
  cv_submitter :: string

record rlp =
  rlpDecode :: "bytes \<Rightarrow> RlpValue res"
  rlpEncodeNumber :: "int \<Rightarrow> bytes res"
  trieVerifyProof :: "bytes \<Rightarrow> bytes \<Rightarrow> bytes list \<Rightarrow> bytes option res"
  decodeEventLog :: "string \<Rightarrow> string list \<Rightarrow> checkpointSubmitted res"

definition CHECKPOINT_TOPIC :: "eth \<Rightarrow> string" where
  "CHECKPOINT_TOPIC X = toLowerCase (ethId X CHECKPOINT_SUBMITTED)"

section \<open>Helpers\<close>

definition toHex :: "env \<Rightarrow> bytes \<Rightarrow> string" where
  "toHex E b = toLowerCase (bytesToHex E b)"

definition hexEq :: "string option \<Rightarrow> string option \<Rightarrow> bool" where
  "hexEq left right \<longleftrightarrow> truthyStr left \<and> truthyStr right \<and> toLowerCase (the left) = toLowerCase (the right)"

definition checkpointShardEventValue :: "eth \<Rightarrow> string \<Rightarrow> string res" where
  "checkpointShardEventValue X shard =
     (let normalized = (if startsWith shard ''0x'' then shard else ''0x'' @ shard) in
      if isHexOf 1 64 normalized then zeroPadValue X normalized 32 else Inr (ethId X shard))"

fun withoutUndefined :: "jsval \<Rightarrow> jsval" where
  "withoutUndefined (JArr xs) = JArr (map withoutUndefined xs)"
| "withoutUndefined (JObj kvs) = JObj (map (\<lambda>kv. (fst kv, withoutUndefined (snd kv))) (filter (\<lambda>kv. snd kv \<noteq> JUndefined) kvs))"
| "withoutUndefined v = v"

text \<open>An element that an index does not reach is \<^verbatim>\<open>undefined\<close> (\<open>None\<close>).\<close>

definition elemAt :: "'a list \<Rightarrow> int \<Rightarrow> 'a option" where
  "elemAt xs i = (if 0 \<le> i \<and> nat i < length xs then Some (xs ! nat i) else None)"

definition asList :: "RlpValue option \<Rightarrow> RlpValue list res" where
  "asList v = (case v of Some (RList xs) \<Rightarrow> Inr xs | _ \<Rightarrow> Inl ''RLP_EXPECTED_LIST'')"

text \<open>\<^verbatim>\<open>asBytes(undefined)\<close> returns \<^verbatim>\<open>undefined\<close>, and every use of it throws.\<close>

definition asBytes :: "RlpValue option \<Rightarrow> bytes res" where
  "asBytes v = (case v of Some (RBytes b) \<Rightarrow> Inr b | Some (RList _) \<Rightarrow> Inl ''RLP_EXPECTED_BYTES'' | None \<Rightarrow> Inl ''TypeError'')"

definition bytesToNat :: "bytes \<Rightarrow> nat" where
  "bytesToNat b = foldl (\<lambda>n w. 256 * n + unat w) 0 b"

definition rlpToNumber :: "RlpValue option \<Rightarrow> int res" where
  "rlpToNumber v =
     bindE (asBytes v) (\<lambda>b. if int (bytesToNat b) > 2 ^ 53 - 1 then Inl ''RLP_NUMBER_UNSAFE'' else Inr (int (bytesToNat b)))"

definition decodeReceiptPayload :: "rlp \<Rightarrow> bytes \<Rightarrow> RlpValue list res" where
  "decodeReceiptPayload R b =
     bindE (rlpDecode R (if b \<noteq> [] \<and> unat (hd b) < 0xc0 then drop 1 b else b)) (\<lambda>v. asList (Some v))"

definition receiptLogs :: "rlp \<Rightarrow> bytes \<Rightarrow> RlpValue list res" where
  "receiptLogs R b = bindE (decodeReceiptPayload R b) (\<lambda>payload. asList (elemAt payload 3))"

definition blockHeaderFields :: "env \<Rightarrow> rlp \<Rightarrow> string \<Rightarrow> RlpValue list res" where
  "blockHeaderFields E R header =
     bindE (hexToBytes E header) (\<lambda>b. bindE (rlpDecode R b) (\<lambda>v. bindE (asList (Some v)) (\<lambda>fields.
       if length fields < 9 then Inl ''BLOCK_HEADER_INVALID'' else Inr fields)))"

definition receiptRootFromHeader :: "env \<Rightarrow> rlp \<Rightarrow> string \<Rightarrow> string res" where
  "receiptRootFromHeader E R header =
     bindE (blockHeaderFields E R header) (\<lambda>fields. bindE (asBytes (elemAt fields 5)) (\<lambda>b. Inr (toHex E b)))"

definition blockNumberFromHeader :: "env \<Rightarrow> rlp \<Rightarrow> string \<Rightarrow> int res" where
  "blockNumberFromHeader E R header = bindE (blockHeaderFields E R header) (\<lambda>fields. rlpToNumber (elemAt fields 8))"

text \<open>\<^verbatim>\<open>Number(n)\<close> of an unsigned big integer: the nearest double, ties to even.\<close>

fun bitLength :: "nat \<Rightarrow> nat" where
  "bitLength n = (if n = 0 then 0 else Suc (bitLength (n div 2)))"

declare bitLength.simps [simp del]

definition numberOfBigInt :: "nat \<Rightarrow> int" where
  "numberOfBigInt n =
     (if n \<le> 2 ^ 53 then int n
      else let d = 2 ^ (bitLength n - 53); q = n div d; r = n mod d
           in int (d * (if 2 * r < d \<or> (2 * r = d \<and> even q) then q else q + 1)))"

section \<open>Commitments of the evidence\<close>

definition sha256OfJson :: "env \<Rightarrow> jsval \<Rightarrow> string res" where
  "sha256OfJson E v = bindE (canonicalBytes v) (\<lambda>b. Inr (sha256Hex E (DBytes b)))"

definition undefObj :: "('a \<Rightarrow> jsobj) \<Rightarrow> 'a option \<Rightarrow> jsval" where
  "undefObj f v = (case v of None \<Rightarrow> JUndefined | Some x \<Rightarrow> JObj (f x))"

definition finalitySourceCommitment :: "env \<Rightarrow> SettlementEvidenceV1 \<Rightarrow> string option res" where
  "finalitySourceCommitment E e =
     (case se_finality_proof e of
        None \<Rightarrow> Inr None
      | Some f \<Rightarrow> bindE (sha256OfJson E (withoutUndefined (JObj
          [(''type'', JStr (fp_type f)), (''chain_id'', JNum (JInt (se_chain_id e))), (''block_hash'', undefStr (se_block_hash e)),
           (''block_number'', undefInt (se_block_number e)), (''finalized_block_hash'', undefStr (fp_finalized_block_hash f)),
           (''confirmations'', undefInt (fp_confirmations f))]))) (\<lambda>h. Inr (Some h)))"

definition receiptProofSourceCommitment :: "env \<Rightarrow> SettlementEvidenceV1 \<Rightarrow> string option res" where
  "receiptProofSourceCommitment E e =
     (if \<not> truthyStr (se_block_header_rlp e) \<or> \<not> truthyStr (se_receipt_rlp e) \<or> se_receipt_proof_nodes e = None \<or> se_transaction_index e = None
      then Inr None
      else bindE (sha256OfJson E (withoutUndefined (JObj
          [(''block_header_rlp'', undefStr (se_block_header_rlp e)), (''receipt_rlp'', undefStr (se_receipt_rlp e)),
           (''receipt_proof_nodes'', JArr (map JStr (the (se_receipt_proof_nodes e)))), (''receipt_root'', undefStr (se_receipt_root e)),
           (''transaction_index'', undefInt (se_transaction_index e)), (''log_index'', undefInt (se_log_index e)),
           (''finality_proof'', undefObj FinalityProof_obj (se_finality_proof e))]))) (\<lambda>h. Inr (Some h)))"

definition chainProofCommitment :: "env \<Rightarrow> SettlementEvidenceV1 \<Rightarrow> string res" where
  "chainProofCommitment E e = sha256OfJson E (JObj [(''settlement_event_hash'', undefStr (se_settlement_event_hash e)),
     (''receipt_proof_source_commitment'', undefStr (se_receipt_proof_source_commitment e)),
     (''finality_source_commitment'', undefStr (se_finality_source_commitment e))])"

definition offlineSettlementEventHash :: "env \<Rightarrow> SettlementEvidenceV1 \<Rightarrow> string option res" where
  "offlineSettlementEventHash E e =
     (if \<not> truthyList (se_event_topics e) \<or> \<not> truthyStr (se_event_data e) then Inr None
      else bindE (sha256OfJson E (JObj
          [(''chain_id'', JNum (JInt (se_chain_id e))), (''contract_address'', JStr (toLowerCase (se_contract_address e))),
           (''settlement_tx'', JStr (toLowerCase (se_settlement_tx e))), (''transaction_receipt_hash'', undefStr (se_transaction_receipt_hash e)),
           (''block_hash'', undefStr (se_block_hash e)), (''log_index'', undefInt (se_log_index e)),
           (''event_topics'', JArr (map (\<lambda>t. JStr (toLowerCase t)) (the (se_event_topics e)))),
           (''event_data'', JStr (toLowerCase (the (se_event_data e))))])) (\<lambda>h. Inr (Some h)))"

section \<open>The receipt and its log\<close>

definition verifyReceiptTrieProof :: "env \<Rightarrow> rlp \<Rightarrow> SettlementEvidenceV1 \<Rightarrow> bool res" where
  "verifyReceiptTrieProof E R e =
     (if \<not> truthyStr (se_receipt_root e) \<or> se_transaction_index e = None \<or> \<not> startsWith (orElse (se_receipt_rlp e) []) ''0x''
         \<or> \<not> truthyList (se_receipt_proof_nodes e)
      then Inr False
      else bindE (hexToBytes E (the (se_receipt_root e))) (\<lambda>root.
           bindE (rlpEncodeNumber R (the (se_transaction_index e))) (\<lambda>key.
           bindE (sequenceE (map (hexToBytes E) (the (se_receipt_proof_nodes e)))) (\<lambda>nodes.
           bindE (trieVerifyProof R root key nodes) (\<lambda>value.
             Inr (case value of None \<Rightarrow> False | Some b \<Rightarrow> toHex E b = toLowerCase (the (se_receipt_rlp e))))))))"

text \<open>The decoded event is compared with the evidence and the checkpoint.\<close>

definition eventMatches :: "eth \<Rightarrow> SettlementEvidenceV1 \<Rightarrow> BatchCheckpointV1 \<Rightarrow> checkpointSubmitted \<Rightarrow> bool res" where
  "eventMatches X e c d =
     bindE (checkpointShardEventValue X (bc_shard c)) (\<lambda>shard. Inr
       (sameText (cv_checkpointHash d) (se_checkpoint_identity_hash e)
        \<and> sameText (cv_contractCheckpointFieldsHash d) (se_contract_checkpoint_fields_hash e)
        \<and> numberOfBigInt (cv_epochStartMs d) = bc_epoch_start_ms c
        \<and> sameText (cv_shard d) shard
        \<and> sameText (cv_eventRoot d) (bc_event_root c)
        \<and> sameText (cv_submitter d) (se_submitter e)))"

text \<open>Two arrays of strings have the same JSON text exactly if they are equal.\<close>

definition verifyReceiptLog :: "env \<Rightarrow> eth \<Rightarrow> rlp \<Rightarrow> SettlementEvidenceV1 \<Rightarrow> BatchCheckpointV1 \<Rightarrow> bool res" where
  "verifyReceiptLog E X R e c =
     (if se_log_index e = None \<or> \<not> truthyStr (se_receipt_rlp e) \<or> \<not> truthyList (se_event_topics e) \<or> \<not> truthyStr (se_event_data e)
         \<or> \<not> truthyStr (se_event_topic_hash e)
      then Inr False
      else bindE (hexToBytes E (the (se_receipt_rlp e))) (\<lambda>receipt.
           bindE (receiptLogs R receipt) (\<lambda>logs.
           bindE (asList (elemAt logs (the (se_log_index e)))) (\<lambda>log.
           bindE (asBytes (elemAt log 0)) (\<lambda>address.
           bindE (bindE (asList (elemAt log 1)) (\<lambda>ts. sequenceE (map (\<lambda>t. bindE (asBytes (Some t)) (\<lambda>b. Inr (toHex E b))) ts))) (\<lambda>topics.
           bindE (asBytes (elemAt log 2)) (\<lambda>dataBytes.
             let d = toHex E dataBytes in
             if \<not> hexEq (Some (toHex E address)) (Some (se_contract_address e)) then Inr False
             else if d \<noteq> toLowerCase (the (se_event_data e)) then Inr False
             else if map toLowerCase topics \<noteq> map toLowerCase (the (se_event_topics e)) then Inr False
             else if elemAt topics 0 \<noteq> Some (CHECKPOINT_TOPIC X) \<or> toLowerCase (the (se_event_topic_hash e)) \<noteq> CHECKPOINT_TOPIC X then Inr False
             else bindE (decodeEventLog R d topics) (eventMatches X e c))))))))"

section \<open>The verification\<close>

text \<open>
  \<open>None\<close> is \<^verbatim>\<open>{ ok: true }\<close>, \<open>Some code\<close> is \<^verbatim>\<open>{ ok: false, error_code }\<close>. \<open>offlineChecks\<close> is the body of the outer \<^verbatim>\<open>try\<close>, which turns
  every exception into \<^verbatim>\<open>TSL_SETTLEMENT_RECEIPT_PROOF_INVALID\<close>; \<open>headerChecks\<close> and \<open>commitmentChecks\<close> are its first and last part.
\<close>

definition headerChecks :: "env \<Rightarrow> eth \<Rightarrow> rlp \<Rightarrow> SettlementEvidenceV1 \<Rightarrow> bool res" where
  "headerChecks E X R e =
     (if \<not> truthyStr (se_block_header_rlp e) \<or> \<not> truthyStr (se_receipt_rlp e) \<or> \<not> truthyList (se_receipt_proof_nodes e) \<or> se_finality_proof e = None
      then Inr False
      else bindE (keccak256 X (the (se_block_header_rlp e))) (\<lambda>blockHash.
        if \<not> hexEq (Some (toLowerCase blockHash)) (se_block_hash e) then Inr False
        else bindE (receiptRootFromHeader E R (the (se_block_header_rlp e))) (\<lambda>root.
          if \<not> hexEq (Some root) (se_receipt_root e) then Inr False
          else bindE (blockNumberFromHeader E R (the (se_block_header_rlp e))) (\<lambda>number.
            if Some number \<noteq> se_block_number e then Inr False
            else bindE (keccak256 X (the (se_receipt_rlp e))) (\<lambda>receiptHash.
              if \<not> hexEq (Some receiptHash) (se_transaction_receipt_hash e) then Inr False
              else verifyReceiptTrieProof E R e)))))"

definition commitmentChecks :: "env \<Rightarrow> SettlementEvidenceV1 \<Rightarrow> BatchCheckpointV1 \<Rightarrow> string \<Rightarrow> string \<Rightarrow> VerifierPolicy option \<Rightarrow> string option res" where
  "commitmentChecks E e c checkpoint_hash fields_hash policy =
     bindE (offlineSettlementEventHash E e) (\<lambda>eventHash.
     if se_settlement_event_hash e \<noteq> eventHash then Inr (Some ''TSL_SETTLEMENT_LOG_PROOF_INVALID'')
     else if se_receipt_status e \<noteq> Some ''success'' \<or> se_status e \<noteq> ''settled'' then Inr (Some ''TSL_SETTLEMENT_RECEIPT_PROOF_INVALID'')
     else if \<not> hexEq (Some (se_checkpoint_hash e)) (Some checkpoint_hash) \<or> \<not> hexEq (Some (se_checkpoint_identity_hash e)) (Some checkpoint_hash)
       then Inr (Some ''TSL_SETTLEMENT_MISMATCH'')
     else if \<not> hexEq (Some (se_contract_checkpoint_fields_hash e)) (Some fields_hash) then Inr (Some ''TSL_SETTLEMENT_MISMATCH'')
     else if truthyStr (bc_settlement_backend c) \<and> Some (se_settlement_backend e) \<noteq> bc_settlement_backend c then Inr (Some ''TSL_SETTLEMENT_MISMATCH'')
     else bindE (receiptProofSourceCommitment E e) (\<lambda>source.
       if se_receipt_proof_source_commitment e \<noteq> source then Inr (Some ''TSL_SETTLEMENT_RECEIPT_PROOF_INVALID'')
       else bindE (finalitySourceCommitment E e) (\<lambda>finality.
         let f = the (se_finality_proof e) in
         if se_finality_source_commitment e \<noteq> finality then Inr (Some ''TSL_SETTLEMENT_FINALITY_INVALID'')
         else if Some (fp_source_commitment f) \<noteq> se_finality_source_commitment e then Inr (Some ''TSL_SETTLEMENT_FINALITY_INVALID'')
         else if fp_type f = ''finalized_block'' \<and> \<not> hexEq (fp_finalized_block_hash f) (se_block_hash e)
           then Inr (Some ''TSL_SETTLEMENT_FINALITY_INVALID'')
         else if fp_type f = ''confirmations''
             \<and> orElse (fp_confirmations f) 0 < orElse (Option.bind policy po_min_settlement_confirmations) 12
           then Inr (Some ''TSL_SETTLEMENT_FINALITY_INVALID'')
         else bindE (chainProofCommitment E e) (\<lambda>chain.
           if se_chain_proof_commitment e \<noteq> Some chain then Inr (Some ''TSL_SETTLEMENT_RECEIPT_PROOF_INVALID'') else Inr None))))"

definition offlineChecks ::
    "env \<Rightarrow> eth \<Rightarrow> rlp \<Rightarrow> SettlementEvidenceV1 \<Rightarrow> BatchCheckpointV1 \<Rightarrow> string \<Rightarrow> string \<Rightarrow> VerifierPolicy option \<Rightarrow> string option res" where
  "offlineChecks E X R e c checkpoint_hash fields_hash policy =
     bindE (headerChecks E X R e) (\<lambda>header.
       if \<not> header then Inr (Some ''TSL_SETTLEMENT_RECEIPT_PROOF_INVALID'')
       else if \<not> catchE (verifyReceiptLog E X R e c) False then Inr (Some ''TSL_SETTLEMENT_LOG_PROOF_INVALID'')
       else commitmentChecks E e c checkpoint_hash fields_hash policy)"

definition verifyOfflineSettlementEvidence ::
    "env \<Rightarrow> eth \<Rightarrow> rlp \<Rightarrow> SettlementEvidenceV1 \<Rightarrow> BatchCheckpointV1 \<Rightarrow> string \<Rightarrow> string \<Rightarrow> VerifierPolicy option \<Rightarrow> string option" where
  "verifyOfflineSettlementEvidence E X R e c checkpoint_hash fields_hash policy =
     (if se_evidence_kind e \<noteq> ''offline_receipt_log_proof''
      then (if Option.bind policy po_reject_rpc_attested_settlement_for_mainnet = Some True
               \<or> Option.bind policy po_require_offline_settlement_proof = Some True
            then Some ''TSL_SETTLEMENT_OFFLINE_PROOF_REQUIRED'' else None)
      else catchE (offlineChecks E X R e c checkpoint_hash fields_hash policy) (Some ''TSL_SETTLEMENT_RECEIPT_PROOF_INVALID''))"

section \<open>What accepted evidence shows\<close>

lemma hexEq_iff: "hexEq (Some a) b \<longleftrightarrow> a \<noteq> [] \<and> (\<exists>t. b = Some t \<and> t \<noteq> [] \<and> sameText a t)"
  by (cases b) (auto simp: hexEq_def truthyStr_def sameText_def)

lemma truthyStr_iff: "truthyStr v \<longleftrightarrow> (\<exists>s. v = Some s \<and> s \<noteq> [])"
  by (cases v) (simp_all add: truthyStr_def)

lemma sameText_trans: "sameText a b \<Longrightarrow> sameText b c \<Longrightarrow> sameText a c"
  by (simp add: sameText_def)

lemma sameText_lower: "sameText (toLowerCase a) b \<longleftrightarrow> sameText a b"
proof -
  have "lowerChar (lowerChar c) = lowerChar c" for c
  proof -
    have "(of_char c :: nat) < 256" by simp
    then show ?thesis by (auto simp: lowerChar_def Let_def of_char_of mod_less)
  qed
  then have "lowerChar \<circ> lowerChar = lowerChar" by (simp add: comp_def)
  then show ?thesis by (simp add: sameText_def toLowerCase_def)
qed

lemma headerChecks_True:
  assumes "headerChecks E X R e = Inr True"
  shows "\<exists>header blockHash root number. se_block_header_rlp e = Some header \<and> keccak256 X header = Inr blockHash
     \<and> (\<exists>b. se_block_hash e = Some b \<and> sameText blockHash b)
     \<and> receiptRootFromHeader E R header = Inr root \<and> (\<exists>r. se_receipt_root e = Some r \<and> sameText root r)
     \<and> blockNumberFromHeader E R header = Inr number \<and> se_block_number e = Some number
     \<and> verifyReceiptTrieProof E R e = Inr True \<and> se_finality_proof e \<noteq> None"
  using assms
  by (auto simp: headerChecks_def bindE_eq_Inr hexEq_iff truthyStr_iff sameText_lower split: if_split_asm)

lemma verifyReceiptTrieProof_True:
  assumes "verifyReceiptTrieProof E R e = Inr True"
  shows "\<exists>root key nodes value. hexToBytes E (the (se_receipt_root e)) = Inr root \<and> rlpEncodeNumber R (the (se_transaction_index e)) = Inr key
     \<and> trieVerifyProof R root key nodes = Inr (Some value) \<and> toHex E value = toLowerCase (the (se_receipt_rlp e))"
  using assms by (auto simp: verifyReceiptTrieProof_def bindE_eq_Inr split: if_split_asm option.split_asm)

lemma verifyReceiptLog_True:
  assumes "verifyReceiptLog E X R e c = Inr True"
  shows "\<exists>topics d. decodeEventLog R (toLowerCase (the (se_event_data e))) (CHECKPOINT_TOPIC X # topics) = Inr d \<and> eventMatches X e c d = Inr True"
proof -
  obtain topics d where d: "elemAt topics 0 = Some (CHECKPOINT_TOPIC X)" "decodeEventLog R (toLowerCase (the (se_event_data e))) topics = Inr d"
    "eventMatches X e c d = Inr True"
    using assms by (auto simp: verifyReceiptLog_def bindE_eq_Inr Let_def split: if_split_asm)
  then show ?thesis by (cases topics) (auto simp: elemAt_def)
qed

lemma commitmentChecks_None:
  assumes "commitmentChecks E e c h f policy = Inr None"
  shows "se_receipt_status e = Some ''success'' \<and> se_status e = ''settled'' \<and> sameText (se_checkpoint_identity_hash e) h \<and> sameText (se_checkpoint_hash e) h
     \<and> sameText (se_contract_checkpoint_fields_hash e) f
     \<and> (\<forall>b. bc_settlement_backend c = Some b \<and> b \<noteq> [] \<longrightarrow> se_settlement_backend e = b)
     \<and> (fp_type (the (se_finality_proof e)) = ''finalized_block'' \<longrightarrow> hexEq (fp_finalized_block_hash (the (se_finality_proof e))) (se_block_hash e))
     \<and> (fp_type (the (se_finality_proof e)) = ''confirmations'' \<longrightarrow>
          orElse (Option.bind policy po_min_settlement_confirmations) 12 \<le> orElse (fp_confirmations (the (se_finality_proof e))) 0)"
  using assms
  by (auto simp: commitmentChecks_def bindE_eq_Inr hexEq_iff truthyStr_iff Let_def split: if_split_asm)

lemma offlineChecks_None:
  "offlineChecks E X R e c h f policy = Inr None \<longleftrightarrow>
     headerChecks E X R e = Inr True \<and> verifyReceiptLog E X R e c = Inr True \<and> commitmentChecks E e c h f policy = Inr None"
  by (cases "verifyReceiptLog E X R e c") (auto simp: offlineChecks_def bindE_eq_Inr)

lemma eventMatches_True:
  assumes "eventMatches X e c d = Inr True"
  shows "sameText (cv_checkpointHash d) (se_checkpoint_identity_hash e)" "sameText (cv_contractCheckpointFieldsHash d) (se_contract_checkpoint_fields_hash e)"
    "numberOfBigInt (cv_epochStartMs d) = bc_epoch_start_ms c" "sameText (cv_eventRoot d) (bc_event_root c)"
    "\<exists>s. checkpointShardEventValue X (bc_shard c) = Inr s \<and> sameText (cv_shard d) s"
  using assms by (auto simp: eventMatches_def bindE_eq_Inr)

section \<open>Concrete evidence\<close>

definition demoEth' :: eth where
  "demoEth' = demoEth\<lparr>ethId := \<lambda>_. ''0x0c''\<rparr>"

definition demoSubmitted :: "string \<Rightarrow> checkpointSubmitted" where
  "demoSubmitted h = \<lparr>cv_checkpointHash = h, cv_contractCheckpointFieldsHash = ''0xff'', cv_epochStartMs = 0, cv_shard = ''0xab01'',
     cv_eventRoot = ZERO_HASH, cv_submitter = ''0x11''\<rparr>"

definition demoRlp :: "string \<Rightarrow> rlp" where
  "demoRlp h = \<lparr>rlpDecode = (\<lambda>b. Inr (if b = [] then RList [RBytes [], RBytes [], RBytes [], RList [RList [RBytes [0xab], RList [RBytes [0x0c]], RBytes [0x0d]]]]
       else RList (replicate 5 (RBytes []) @ [RBytes [5], RBytes [], RBytes [], RBytes []]))),
     rlpEncodeNumber = (\<lambda>_. Inr []), trieVerifyProof = (\<lambda>_ _ _. Inr (Some [2])), decodeEventLog = (\<lambda>_ _. Inr (demoSubmitted h))\<rparr>"

definition demoEvidence :: "string \<Rightarrow> string \<Rightarrow> string \<Rightarrow> string \<Rightarrow> string \<Rightarrow> SettlementEvidenceV1" where
  "demoEvidence h finality event src chain =
     \<lparr>se_type = ''tsl.settlement_evidence.v1'', se_checkpoint_hash = h, se_checkpoint_identity_hash = h, se_settlement_backend = ''eip155:1'', se_chain_id = 1,
      se_contract_address = ''0xab'', se_contract_checkpoint_hash = None, se_contract_checkpoint_fields_hash = ''0xff'', se_settlement_tx = ''0x99'',
      se_evidence_kind = ''offline_receipt_log_proof'', se_block_header_rlp = Some ''0x01'', se_receipt_rlp = Some ''0x02'', se_receipt_proof_nodes = Some [''0x03''],
      se_finality_proof = Some \<lparr>fp_type = ''confirmations'', fp_finalized_block_hash = None, fp_confirmations = Some 20, fp_source_commitment = finality\<rparr>,
      se_transaction_receipt_hash = Some ''0x02'', se_block_hash = Some ''0x01'', se_block_number = Some 0, se_receipt_root = Some ''0x05'',
      se_transaction_index = Some 0, se_receipt_status = Some ''success'', se_chain_proof_commitment = Some chain, se_settlement_event_hash = Some event,
      se_settlement_event_index = None, se_event_topic_hash = Some ''0x0c'', se_event_topics = Some [''0x0c''], se_event_data = Some ''0x0d'',
      se_log_index = Some 0, se_receipt_proof_source_commitment = Some src, se_finality_source_commitment = Some finality, se_submitter = ''0x11'',
      se_submitted_at = ''2026-01-01T00:00:00Z'', se_status = ''settled''\<rparr>"

lemma demo_header: "headerChecks demoEnv demoEth' (demoRlp h) (demoEvidence h a b c d) = Inr True"
  by code_simp

lemma demo_event: "eventMatches demoEth' (demoEvidence h a b c d) (demoCheckpoint 0 ZERO_HASH) (demoSubmitted h) = Inr True"
proof -
  have "checkpointShardEventValue demoEth' ''ab01'' = Inr ''0xab01''" by code_simp
  then show ?thesis
    by (simp add: eventMatches_def demoSubmitted_def demoEvidence_def sameText_def numberOfBigInt_def) (simp add: demoCheckpoint_def)
qed

lemma demo_log: "verifyReceiptLog demoEnv demoEth' (demoRlp h) (demoEvidence h a b c d) (demoCheckpoint 0 ZERO_HASH) = Inr True"
proof -
  have x: "hexToBytes demoEnv ''0x02'' = Inr [2]" "toHex demoEnv [0xab] = ''0xab''" "toHex demoEnv [0x0c] = ''0x0c''" "toHex demoEnv [0x0d] = ''0x0d''"
    "CHECKPOINT_TOPIC demoEth' = ''0x0c''" "map toLowerCase [''0x0c''] = [''0x0c'']" "toLowerCase ''0x0d'' = ''0x0d''" "toLowerCase ''0x0c'' = ''0x0c''"
    by code_simp+
  have l: "receiptLogs (demoRlp h) [2] = Inr [RList [RBytes [0xab], RList [RBytes [0x0c]], RBytes [0x0d]]]"
    by (simp add: receiptLogs_def decodeReceiptPayload_def demoRlp_def asList_def elemAt_def)
  have e: "se_log_index (demoEvidence h a b c d) = Some 0" "se_receipt_rlp (demoEvidence h a b c d) = Some ''0x02''"
    "se_event_topics (demoEvidence h a b c d) = Some [''0x0c'']" "se_event_data (demoEvidence h a b c d) = Some ''0x0d''"
    "se_event_topic_hash (demoEvidence h a b c d) = Some ''0x0c''" "se_contract_address (demoEvidence h a b c d) = ''0xab''"
    by (simp_all add: demoEvidence_def)
  have d: "decodeEventLog (demoRlp h) p q = Inr (demoSubmitted h)" for p q by (simp add: demoRlp_def)
  show ?thesis
    by (simp add: verifyReceiptLog_def e x l d demo_event asList_def asBytes_def elemAt_def hexEq_def truthyStr_def truthyList_def)
qed

lemma sha256OfJson_total: "jsonSafe v \<Longrightarrow> \<exists>h. sha256OfJson E v = Inr h"
  unfolding sha256OfJson_def by (rule bindE_total [OF canonicalBytes_total]) blast+

lemma demoEvidence_sel:
  "se_settlement_event_hash (demoEvidence h fin ev src chain) = Some ev" "se_receipt_status (demoEvidence h fin ev src chain) = Some ''success''"
  "se_status (demoEvidence h fin ev src chain) = ''settled''" "se_checkpoint_hash (demoEvidence h fin ev src chain) = h"
  "se_checkpoint_identity_hash (demoEvidence h fin ev src chain) = h" "se_contract_checkpoint_fields_hash (demoEvidence h fin ev src chain) = ''0xff''"
  "se_receipt_proof_source_commitment (demoEvidence h fin ev src chain) = Some src" "se_finality_source_commitment (demoEvidence h fin ev src chain) = Some fin"
  "se_chain_proof_commitment (demoEvidence h fin ev src chain) = Some chain"
  "se_finality_proof (demoEvidence h fin ev src chain) =
     Some \<lparr>fp_type = ''confirmations'', fp_finalized_block_hash = None, fp_confirmations = Some 20, fp_source_commitment = fin\<rparr>"
  by (simp_all add: demoEvidence_def)

lemma demo_commitments:
  assumes "h \<noteq> []"
  shows "\<exists>finality event src chain. commitmentChecks demoEnv (demoEvidence h finality event src chain) (demoCheckpoint 0 ZERO_HASH) h ''0xff'' None = Inr None"
proof -
  obtain fin where fin: "finalitySourceCommitment demoEnv (demoEvidence h x b c d) = Inr (Some fin)" for x b c d
    using sha256OfJson_total [of "JObj [(''type'', JStr ''confirmations''), (''chain_id'', JNum (JInt 1)), (''block_hash'', JStr ''0x01''),
        (''block_number'', JNum (JInt 0)), (''confirmations'', JNum (JInt 20))]" demoEnv]
    by (auto simp: finalitySourceCommitment_def demoEvidence_def undefStr_def undefInt_def isSafeInteger_def)
  obtain ev where ev: "offlineSettlementEventHash demoEnv (demoEvidence h x b c d) = Inr (Some ev)" for x b c d
    using sha256OfJson_total [of "JObj [(''chain_id'', JNum (JInt 1)), (''contract_address'', JStr (toLowerCase ''0xab'')),
        (''settlement_tx'', JStr (toLowerCase ''0x99'')), (''transaction_receipt_hash'', JStr ''0x02''), (''block_hash'', JStr ''0x01''), (''log_index'', JNum (JInt 0)),
        (''event_topics'', JArr [JStr (toLowerCase ''0x0c'')]), (''event_data'', JStr (toLowerCase ''0x0d''))]" demoEnv]
    by (auto simp: offlineSettlementEventHash_def demoEvidence_def undefStr_def undefInt_def truthyStr_def truthyList_def isSafeInteger_def)
  obtain src where src: "receiptProofSourceCommitment demoEnv (demoEvidence h fin b c d) = Inr (Some src)" for b c d
    using sha256OfJson_total [of "JObj [(''block_header_rlp'', JStr ''0x01''), (''receipt_rlp'', JStr ''0x02''), (''receipt_proof_nodes'', JArr [JStr ''0x03'']),
        (''receipt_root'', JStr ''0x05''), (''transaction_index'', JNum (JInt 0)), (''log_index'', JNum (JInt 0)),
        (''finality_proof'', JObj [(''type'', JStr ''confirmations''), (''confirmations'', JNum (JInt 20)), (''source_commitment'', JStr fin)])]" demoEnv]
    by (auto simp: receiptProofSourceCommitment_def demoEvidence_def undefStr_def undefInt_def undefObj_def FinalityProof_obj_def truthyStr_def isSafeInteger_def)
  obtain chain where chain: "chainProofCommitment demoEnv (demoEvidence h fin ev src d) = Inr chain" for d
    using sha256OfJson_total [of "JObj [(''settlement_event_hash'', JStr ev), (''receipt_proof_source_commitment'', JStr src), (''finality_source_commitment'', JStr fin)]" demoEnv]
    by (auto simp: chainProofCommitment_def demoEvidence_def undefStr_def)
  have "commitmentChecks demoEnv (demoEvidence h fin ev src chain) (demoCheckpoint 0 ZERO_HASH) h ''0xff'' None = Inr None"
    using assms by (simp add: commitmentChecks_def fin ev src chain demoEvidence_sel demoCheckpoint_def hexEq_def truthyStr_def)
  then show ?thesis by blast
qed

section \<open>Properties\<close>



end
