(* ===== verification/Delegation.thy ===== *)
theory Delegation
  imports Agent
begin

text \<open>
  The second generation of signed objects (\<^verbatim>\<open>src/packages/core-ts/src/v2.ts\<close>): their hashes and signatures, and the verification of an
  agent's action against a chain of delegation policies.

  The constraints of a policy are an object that the code casts to an interface. \<open>readConstraints\<close> reads the entries of the
  interface; an entry of another type than the cast claims is outside the model and gives \<open>Inl\<close>.
\<close>

section \<open>Hashes\<close>

definition SCORING_PROFILE_V2 :: string where "SCORING_PROFILE_V2 = ''tsl.scoring_profile.v2''"
definition TRUST_ASSESSMENT_V2 :: string where "TRUST_ASSESSMENT_V2 = ''tsl.trust_assessment.v2''"
definition DISCLOSURE_CONSENT_V1 :: string where "DISCLOSURE_CONSENT_V1 = ''tsl.disclosure_consent.v1''"
definition METADATA_FINGERPRINT_V1 :: string where "METADATA_FINGERPRINT_V1 = ''tsl.metadata_fingerprint_commitment.v1''"
definition GRAPH_FEATURE_VECTOR_V1 :: string where "GRAPH_FEATURE_VECTOR_V1 = ''tsl.graph_feature_vector.v1''"
definition SYBIL_ASSESSMENT_V1 :: string where "SYBIL_ASSESSMENT_V1 = ''tsl.sybil_assessment.v1''"
definition DRIFT_REPORT_V1 :: string where "DRIFT_REPORT_V1 = ''tsl.drift_report.v1''"
definition DELEGATION_POLICY_V2 :: string where "DELEGATION_POLICY_V2 = ''tsl.delegation_policy.v2''"

definition hashSignedObject :: "env \<Rightarrow> string \<Rightarrow> jsobj \<Rightarrow> string res" where
  "hashSignedObject E tag x = domainHash E tag (withoutSignature x)"

definition scoringProfileV2Hash :: "env \<Rightarrow> ScoringProfileV2 \<Rightarrow> string res" where
  "scoringProfileV2Hash E p = hashSignedObject E SCORING_PROFILE_V2 (ScoringProfileV2_obj p)"

definition verifyScoringProfileV2 :: "env \<Rightarrow> ScoringProfileV2 \<Rightarrow> string \<Rightarrow> bool res" where
  "verifyScoringProfileV2 E p publicKeyHex = bindE (scoringProfileV2Hash E p) (\<lambda>h. verifyEd25519 E publicKeyHex (DText h) (sp_signature p))"

definition trustAssessmentV2Hash :: "env \<Rightarrow> jsobj \<Rightarrow> string res" where
  "trustAssessmentV2Hash E x = hashSignedObject E TRUST_ASSESSMENT_V2 x"

definition signTrustAssessmentV2 :: "env \<Rightarrow> TrustAssessmentUnsignedV2 \<Rightarrow> string \<Rightarrow> TrustAssessmentV2 res" where
  "signTrustAssessmentV2 E u seedHex =
     bindE (trustAssessmentV2Hash E (TrustAssessmentUnsignedV2_obj u)) (\<lambda>h. bindE (signEd25519 E (DText h) seedHex) (\<lambda>s.
       Inr (TrustAssessmentUnsignedV2.extend u (TrustAssessmentV2.fields s))))"

definition verifyTrustAssessmentV2 :: "env \<Rightarrow> TrustAssessmentV2 \<Rightarrow> string \<Rightarrow> bool res" where
  "verifyTrustAssessmentV2 E a publicKeyHex =
     bindE (trustAssessmentV2Hash E (TrustAssessmentV2_obj a)) (\<lambda>h. verifyEd25519 E publicKeyHex (DText h) (ta2_signature a))"

definition disclosureConsentV1Hash :: "env \<Rightarrow> DisclosureConsentV1 \<Rightarrow> string res" where
  "disclosureConsentV1Hash E c = hashSignedObject E DISCLOSURE_CONSENT_V1 (DisclosureConsentV1_obj c)"

definition attestationV2Hash :: "env \<Rightarrow> AttestationV2 \<Rightarrow> string res" where
  "attestationV2Hash E a = domainHash E ''tsl.attestation.v2'' (withoutSignature (AttestationV2_obj a))"

definition graphFeatureVectorV1Hash :: "env \<Rightarrow> GraphFeatureVectorV1 \<Rightarrow> string res" where
  "graphFeatureVectorV1Hash E v = hashSignedObject E GRAPH_FEATURE_VECTOR_V1 (GraphFeatureVectorV1_obj v)"

definition sybilAssessmentV1Hash :: "env \<Rightarrow> SybilAssessmentV1 \<Rightarrow> string res" where
  "sybilAssessmentV1Hash E a = hashSignedObject E SYBIL_ASSESSMENT_V1 (SybilAssessmentV1_obj a)"

definition driftReportV1Hash :: "env \<Rightarrow> DriftReportV1 \<Rightarrow> string res" where
  "driftReportV1Hash E d = hashSignedObject E DRIFT_REPORT_V1 (DriftReportV1_obj d)"

definition metadataFingerprintCommitmentV1Hash :: "env \<Rightarrow> MetadataFingerprintCommitmentV1 \<Rightarrow> string res" where
  "metadataFingerprintCommitmentV1Hash E m = hashSignedObject E METADATA_FINGERPRINT_V1 (MetadataFingerprintCommitmentV1_obj m)"

section \<open>Policies and actions\<close>

text \<open>The draft of a policy is the unsigned policy; \<open>policyId\<close> and \<open>nonce\<close> are optional in the input.\<close>

definition buildDelegationPolicyV2 :: "env \<Rightarrow> nat \<Rightarrow> string option \<Rightarrow> DelegationPolicyUnsignedV2 \<Rightarrow> DelegationPolicyUnsignedV2" where
  "buildDelegationPolicyV2 E n policyId inp =
     inp\<lparr>dl_type := ''tsl.delegation_policy.v2'', dl_policy_id := orElse policyId (randomHex32 E n), dl_actions := sort (dl_actions inp),
       dl_resources := sort (dl_resources inp), dl_nonce := ifTruthy (dl_nonce inp)\<rparr>"

definition delegationPolicyV2Hash :: "env \<Rightarrow> jsobj \<Rightarrow> string res" where
  "delegationPolicyV2Hash E x = hashSignedObject E DELEGATION_POLICY_V2 x"

definition signDelegationPolicyV2 :: "env \<Rightarrow> DelegationPolicyUnsignedV2 \<Rightarrow> string \<Rightarrow> DelegationPolicyV2 res" where
  "signDelegationPolicyV2 E u seedHex =
     bindE (delegationPolicyV2Hash E (DelegationPolicyUnsignedV2_obj u)) (\<lambda>h. bindE (signEd25519 E (DText h) seedHex) (\<lambda>s.
       Inr (DelegationPolicyUnsignedV2.extend u (DelegationPolicyV2.fields s))))"

definition buildAgentActionV2 :: "env \<Rightarrow> nat \<Rightarrow> string option \<Rightarrow> string option \<Rightarrow> AgentActionUnsignedV2 \<Rightarrow> AgentActionUnsignedV2 res" where
  "buildAgentActionV2 E n actionId issuedAt inp =
     bindE (nowIso E issuedAt) (\<lambda>issued_at.
       Inr (inp\<lparr>aa_type := ''tsl.agent_action.v2'', aa_action_id := orElse actionId (randomHex32 E n), aa_tool := ifTruthy (aa_tool inp),
         aa_parameter_disclosure_policy := ifTruthy (aa_parameter_disclosure_policy inp),
         aa_human_approval_proof := ifTruthy (aa_human_approval_proof inp), aa_issued_at := issued_at\<rparr>))"

definition agentActionV2Hash :: "env \<Rightarrow> jsobj \<Rightarrow> string res" where
  "agentActionV2Hash E x = hashSignedObject E AGENT_ACTION_V2 x"

definition signAgentActionV2 :: "env \<Rightarrow> AgentActionUnsignedV2 \<Rightarrow> string \<Rightarrow> AgentActionV2 res" where
  "signAgentActionV2 E u seedHex =
     bindE (agentActionV2Hash E (AgentActionUnsignedV2_obj u)) (\<lambda>h. bindE (signEd25519 E (DText h) seedHex) (\<lambda>s.
       Inr (AgentActionUnsignedV2.extend u (AgentActionV2.fields s))))"

definition resourceMatches :: "string \<Rightarrow> string \<Rightarrow> bool" where
  "resourceMatches pattern resource \<longleftrightarrow>
     pattern = resource \<or> (endsWith pattern ''*'' \<and> startsWith resource (take (length pattern - 1) pattern))"

definition actionMatches :: "string list \<Rightarrow> string \<Rightarrow> bool" where
  "actionMatches actions action \<longleftrightarrow> action \<in> set actions \<or> ''*'' \<in> set actions"

definition policyMatchesAction :: "DelegationPolicyV2 \<Rightarrow> AgentActionV2 \<Rightarrow> bool" where
  "policyMatchesAction p a \<longleftrightarrow>
     actionMatches (dl_actions p) (aa_action a) \<and> list_ex (\<lambda>pattern. resourceMatches pattern (aa_resource a)) (dl_resources p)"

definition parametersCommitment :: "env \<Rightarrow> jsval \<Rightarrow> string res" where
  "parametersCommitment E parameters =
     bindE (canonicalBytes parameters) (\<lambda>b. Inr (hashDomain E ''tsl.agent.parameters.v1'' (DBytes b)))"

section \<open>Reading objects\<close>

definition propOf :: "jsobj \<Rightarrow> string \<Rightarrow> jsval" where
  "propOf x k = (case map_of x k of None \<Rightarrow> JUndefined | Some v \<Rightarrow> v)"

definition castError :: "'a res" where
  "castError = Inl ''an entry does not have the type of the cast''"

definition castInt :: "jsval \<Rightarrow> int option res" where
  "castInt v = (case v of JUndefined \<Rightarrow> Inr None | JNum (JInt i) \<Rightarrow> Inr (Some i) | _ \<Rightarrow> castError)"

definition castStr :: "jsval \<Rightarrow> string option res" where
  "castStr v = (case v of JUndefined \<Rightarrow> Inr None | JStr s \<Rightarrow> Inr (Some s) | _ \<Rightarrow> castError)"

definition castBool :: "jsval \<Rightarrow> bool option res" where
  "castBool v = (case v of JUndefined \<Rightarrow> Inr None | JBool b \<Rightarrow> Inr (Some b) | _ \<Rightarrow> castError)"

definition castStrs :: "jsval \<Rightarrow> string list option res" where
  "castStrs v = (case v of
       JUndefined \<Rightarrow> Inr None
     | JArr xs \<Rightarrow> bindE (sequenceE (map (\<lambda>x. case x of JStr s \<Rightarrow> Inr s | _ \<Rightarrow> castError) xs)) (\<lambda>ss. Inr (Some ss))
     | _ \<Rightarrow> castError)"

record Subdelegation =
  sd_allowed :: "bool option"
  sd_max_depth :: "int option"
  sd_allowed_actions :: "string list option"

definition readSubdelegation :: "jsobj option \<Rightarrow> Subdelegation res" where
  "readSubdelegation x =
     (case x of None \<Rightarrow> Inr \<lparr>sd_allowed = None, sd_max_depth = None, sd_allowed_actions = None\<rparr>
      | Some y \<Rightarrow> bindE (castBool (propOf y ''allowed'')) (\<lambda>a. bindE (castInt (propOf y ''max_depth'')) (\<lambda>d.
          bindE (castStrs (propOf y ''allowed_actions'')) (\<lambda>aa. Inr \<lparr>sd_allowed = a, sd_max_depth = d, sd_allowed_actions = aa\<rparr>))))"

record Constraints =
  co_max_value_minor_units :: "int option"
  co_currency :: "string option"
  co_allowed_tools :: "string list option"
  co_denied_tools :: "string list option"
  co_allowed_counterparty_commitments :: "string list option"
  co_max_actions_per_window :: "int option"
  co_observed_actions_in_window :: "int option"
  co_requires_human_approval :: "bool option"
  co_requires_human_approval_above_minor_units :: "int option"

definition readConstraints :: "jsobj \<Rightarrow> Constraints res" where
  "readConstraints x =
     bindE (castInt (propOf x ''max_value_minor_units'')) (\<lambda>mv. bindE (castStr (propOf x ''currency'')) (\<lambda>cu.
     bindE (castStrs (propOf x ''allowed_tools'')) (\<lambda>at. bindE (castStrs (propOf x ''denied_tools'')) (\<lambda>dt.
     bindE (castStrs (propOf x ''allowed_counterparty_commitments'')) (\<lambda>ac.
     bindE (castInt (propOf x ''max_actions_per_window'')) (\<lambda>ma. bindE (castInt (propOf x ''observed_actions_in_window'')) (\<lambda>oa.
     bindE (castBool (propOf x ''requires_human_approval'')) (\<lambda>rh.
     bindE (castInt (propOf x ''requires_human_approval_above_minor_units'')) (\<lambda>ra.
       Inr \<lparr>co_max_value_minor_units = mv, co_currency = cu, co_allowed_tools = at, co_denied_tools = dt,
         co_allowed_counterparty_commitments = ac, co_max_actions_per_window = ma, co_observed_actions_in_window = oa,
         co_requires_human_approval = rh, co_requires_human_approval_above_minor_units = ra\<rparr>)))))))))"

section \<open>Verification of an action\<close>

record DelegatedActionInput =
  di_action :: AgentActionV2
  di_delegation_chain :: "DelegationPolicyV2 list"
  di_public_keys :: "string \<Rightarrow> string option"
  di_revoked_policy_ids :: "string list"
  di_revoked_pointers :: "string list"
  di_parameters :: "jsobj option"

record DelegatedActionResult =
  da_ok :: bool
  da_error_code :: "string option"
  da_effective_scope_commitment :: "string option"

text \<open>A number among the parameters is an integer here: the commitment to the parameters throws on every other number.\<close>

definition valueFromAction :: "AgentActionV2 \<Rightarrow> jsobj option \<Rightarrow> int" where
  "valueFromAction a parameters =
     max 0 (case aa_value_minor_units a of Some v \<Rightarrow> v
            | None \<Rightarrow> (case parameters of Some x \<Rightarrow> (case propOf x ''value_minor_units'' of JNum (JInt i) \<Rightarrow> i | _ \<Rightarrow> 0) | None \<Rightarrow> 0))"

record chainState =
  cs_expectedDelegate :: string
  cs_allowedActions :: "string list list"
  cs_allowedResources :: "string list list"
  cs_maxValue :: int
  cs_requiresHumanApproval :: bool
  cs_expectedParentPolicyId :: "string option"

definition policySigned :: "env \<Rightarrow> DelegatedActionInput \<Rightarrow> DelegationPolicyV2 \<Rightarrow> bool res" where
  "policySigned E inp p =
     (let key = di_public_keys inp (dl_principal p) in
      if \<not> truthyStr key then Inr False
      else bindE (delegationPolicyV2Hash E (DelegationPolicyV2_obj p)) (\<lambda>h. verifyEd25519 E (the key) (DText h) (dl_signature p)))"

definition subdelegationAllows :: "nat \<Rightarrow> DelegationPolicyV2 \<Rightarrow> AgentActionV2 \<Rightarrow> bool res" where
  "subdelegationAllows depth p a =
     (if depth = 0 then Inr True
      else bindE (readSubdelegation (dl_subdelegation p)) (\<lambda>sd.
        Inr (sd_allowed sd = Some True
             \<and> (\<forall>d \<in> set_option (sd_max_depth sd). int depth \<le> d)
             \<and> (\<forall>acts \<in> set_option (sd_allowed_actions sd). actionMatches acts (aa_action a)))))"

definition constraintsHold :: "Constraints \<Rightarrow> AgentActionV2 \<Rightarrow> jsobj option \<Rightarrow> bool" where
  "constraintsHold c a parameters \<longleftrightarrow>
     (case co_allowed_tools c of None \<Rightarrow> True | Some ts \<Rightarrow> truthyStr (aa_tool a) \<and> the (aa_tool a) \<in> set ts)
     \<and> (case co_denied_tools c of None \<Rightarrow> True | Some ts \<Rightarrow> orElse (aa_tool a) [] \<notin> set ts)
     \<and> (truthyStr (co_currency c) \<longrightarrow> (case parameters of None \<Rightarrow> False | Some x \<Rightarrow> propOf x ''currency'' = JStr (the (co_currency c))))
     \<and> (case (co_allowed_counterparty_commitments c, parameters) of
          (Some cs, Some x) \<Rightarrow> (case propOf x ''counterparty_commitment'' of JStr s \<Rightarrow> s \<in> set cs | _ \<Rightarrow> True)
        | _ \<Rightarrow> True)
     \<and> (case (co_max_actions_per_window c, co_observed_actions_in_window c) of (Some m, Some n) \<Rightarrow> n < m | _ \<Rightarrow> True)"

definition needsApproval :: "Constraints \<Rightarrow> AgentActionV2 \<Rightarrow> jsobj option \<Rightarrow> bool" where
  "needsApproval c a parameters \<longleftrightarrow>
     co_requires_human_approval c = Some True
     \<or> (case co_requires_human_approval_above_minor_units c of Some v \<Rightarrow> valueFromAction a parameters > v | None \<Rightarrow> False)"

text \<open>One turn of the loop: \<open>Inr (Inl code)\<close> is a return with an error code.\<close>

definition checkPolicy :: "env \<Rightarrow> DelegatedActionInput \<Rightarrow> int \<Rightarrow> nat \<Rightarrow> DelegationPolicyV2 \<Rightarrow> chainState \<Rightarrow> (string + chainState) res" where
  "checkPolicy E inp at depth p s =
     bindE (policySigned E inp p) (\<lambda>signed.
     if \<not> signed then Inr (Inl ''TSL_DELEGATION_SIGNATURE_INVALID'')
     else if dl_policy_id p \<in> set (di_revoked_policy_ids inp) \<or> dl_revocation_pointer p \<in> set (di_revoked_pointers inp)
       then Inr (Inl ''TSL_DELEGATION_REVOKED'')
     else if dateLt (Some at) (dateParse E (dl_valid_from p)) \<or> dateLe (dateParse E (dl_valid_until p)) (Some at)
       then Inr (Inl ''TSL_DELEGATION_EXPIRED'')
     else if dl_delegate p \<noteq> cs_expectedDelegate s then Inr (Inl ''TSL_DELEGATION_CHAIN_BROKEN'')
     else if cs_expectedParentPolicyId s \<noteq> None \<and> cs_expectedParentPolicyId s \<noteq> Some (dl_policy_id p)
       then Inr (Inl ''TSL_DELEGATION_CHAIN_BROKEN'')
     else if dl_effect p = ''deny'' \<and> policyMatchesAction p (di_action inp) then Inr (Inl ''TSL_DELEGATION_SCOPE_VIOLATION'')
     else if dl_effect p \<noteq> ''allow'' then Inr (Inr s)
     else bindE (subdelegationAllows depth p (di_action inp)) (\<lambda>sub.
       if \<not> sub then Inr (Inl ''TSL_DELEGATION_SCOPE_VIOLATION'')
       else bindE (readConstraints (dl_constraints p)) (\<lambda>c.
         if \<not> constraintsHold c (di_action inp) (di_parameters inp) then Inr (Inl ''TSL_DELEGATION_CONSTRAINT_VIOLATION'')
         else Inr (Inr \<lparr>cs_expectedDelegate = dl_principal p, cs_allowedActions = cs_allowedActions s @ [dl_actions p],
                cs_allowedResources = cs_allowedResources s @ [dl_resources p],
                cs_maxValue = (case co_max_value_minor_units c of Some m \<Rightarrow> min (cs_maxValue s) m | None \<Rightarrow> cs_maxValue s),
                cs_requiresHumanApproval = (cs_requiresHumanApproval s \<or> needsApproval c (di_action inp) (di_parameters inp)),
                cs_expectedParentPolicyId = Option.bind (dl_parent_policy_id p) id\<rparr>))))"

fun checkChain :: "env \<Rightarrow> DelegatedActionInput \<Rightarrow> int \<Rightarrow> nat \<Rightarrow> DelegationPolicyV2 list \<Rightarrow> chainState \<Rightarrow> (string + chainState) res" where
  "checkChain E inp at depth [] s = Inr (Inr s)"
| "checkChain E inp at depth (p # ps) s =
     bindE (checkPolicy E inp at depth p s) (\<lambda>r. case r of Inl code \<Rightarrow> Inr (Inl code) | Inr s' \<Rightarrow> checkChain E inp at (Suc depth) ps s')"

definition rejectWith :: "string \<Rightarrow> DelegatedActionResult res" where
  "rejectWith code = Inr \<lparr>da_ok = False, da_error_code = Some code, da_effective_scope_commitment = None\<rparr>"

definition scopeObject :: "chainState \<Rightarrow> jsobj" where
  "scopeObject s = [(''actions'', JArr (map (\<lambda>xs. JArr (map JStr xs)) (cs_allowedActions s))),
     (''resources'', JArr (map (\<lambda>xs. JArr (map JStr xs)) (cs_allowedResources s))),
     (''maxValue'', JNum (JInt (cs_maxValue s))), (''requiresHumanApproval'', JBool (cs_requiresHumanApproval s))]"

definition concludeChain :: "env \<Rightarrow> DelegatedActionInput \<Rightarrow> chainState \<Rightarrow> DelegatedActionResult res" where
  "concludeChain E inp s =
     (let a = di_action inp in
      if list_ex (\<lambda>actions. \<not> actionMatches actions (aa_action a)) (cs_allowedActions s) then rejectWith ''TSL_DELEGATION_SCOPE_VIOLATION''
      else if list_ex (\<lambda>rs. \<not> list_ex (\<lambda>pattern. resourceMatches pattern (aa_resource a)) rs) (cs_allowedResources s)
        then rejectWith ''TSL_DELEGATION_SCOPE_VIOLATION''
      else if valueFromAction a (di_parameters inp) > cs_maxValue s then rejectWith ''TSL_DELEGATION_VALUE_LIMIT_EXCEEDED''
      else if cs_requiresHumanApproval s \<and> \<not> truthyStr (aa_human_approval_proof a) then rejectWith ''TSL_HUMAN_APPROVAL_REQUIRED''
      else bindE (canonicalBytes (JObj (scopeObject s))) (\<lambda>b.
        Inr \<lparr>da_ok = True, da_error_code = None, da_effective_scope_commitment = Some (sha256Hex E (DBytes b))\<rparr>))"

definition chainStart :: "AgentActionV2 \<Rightarrow> chainState" where
  "chainStart a = \<lparr>cs_expectedDelegate = aa_agent a, cs_allowedActions = [], cs_allowedResources = [], cs_maxValue = 2 ^ 53 - 1,
     cs_requiresHumanApproval = False, cs_expectedParentPolicyId = None\<rparr>"

definition chainRoot :: "env \<Rightarrow> DelegationPolicyV2 list \<Rightarrow> string res" where
  "chainRoot E ps =
     bindE (sequenceE (map (\<lambda>p. delegationPolicyV2Hash E (DelegationPolicyV2_obj p)) ps)) (\<lambda>hs.
     bindE (canonicalBytes (JArr (map JStr hs))) (\<lambda>b. Inr (sha256Hex E (DBytes b))))"

definition actionSigned :: "env \<Rightarrow> DelegatedActionInput \<Rightarrow> bool res" where
  "actionSigned E inp =
     (let key = di_public_keys inp (aa_agent (di_action inp)) in
      if \<not> truthyStr key then Inr False
      else bindE (agentActionV2Hash E (AgentActionV2_obj (di_action inp))) (\<lambda>h.
             verifyEd25519 E (the key) (DText h) (aa_signature (di_action inp))))"

definition parametersMatch :: "env \<Rightarrow> DelegatedActionInput \<Rightarrow> bool res" where
  "parametersMatch E inp =
     (case di_parameters inp of None \<Rightarrow> Inr True
      | Some x \<Rightarrow> bindE (parametersCommitment E (JObj x)) (\<lambda>c. Inr (c = aa_parameters_commitment (di_action inp))))"

definition verifyDelegatedAgentActionV0 :: "env \<Rightarrow> DelegatedActionInput \<Rightarrow> DelegatedActionResult res" where
  "verifyDelegatedAgentActionV0 E inp =
     (let a = di_action inp; ps = di_delegation_chain inp in
      case dateParse E (aa_issued_at a) of
        None \<Rightarrow> rejectWith ''TSL_TIMESTAMP_INVALID''
      | Some at \<Rightarrow>
        bindE (actionSigned E inp) (\<lambda>signed.
        if \<not> signed then rejectWith ''TSL_AGENT_ACTION_SIGNATURE_INVALID''
        else bindE (parametersMatch E inp) (\<lambda>pm.
          if \<not> pm then rejectWith ''TSL_DELEGATION_CONSTRAINT_VIOLATION''
          else if ps = [] then rejectWith ''TSL_DELEGATION_MISSING''
          else if dl_principal (hd ps) \<noteq> aa_principal a then rejectWith ''TSL_DELEGATION_CHAIN_BROKEN''
          else bindE (chainRoot E ps) (\<lambda>root.
            if aa_delegation_chain_root a \<noteq> root then rejectWith ''TSL_DELEGATION_CHAIN_ROOT_MISMATCH''
            else bindE (checkChain E inp at 0 (rev ps) (chainStart a)) (\<lambda>r.
              case r of Inl code \<Rightarrow> rejectWith code | Inr s \<Rightarrow> concludeChain E inp s)))))"

section \<open>What the loop over the chain establishes\<close>

definition policyAccepted :: "env \<Rightarrow> DelegatedActionInput \<Rightarrow> int \<Rightarrow> DelegationPolicyV2 \<Rightarrow> bool" where
  "policyAccepted E inp at p \<longleftrightarrow> policySigned E inp p = Inr True
     \<and> dl_policy_id p \<notin> set (di_revoked_policy_ids inp) \<and> dl_revocation_pointer p \<notin> set (di_revoked_pointers inp)
     \<and> \<not> dateLt (Some at) (dateParse E (dl_valid_from p)) \<and> \<not> dateLe (dateParse E (dl_valid_until p)) (Some at)
     \<and> \<not> (dl_effect p = ''deny'' \<and> policyMatchesAction p (di_action inp))"

text \<open>What a state of the loop records of a policy that allows.\<close>

definition recorded :: "DelegatedActionInput \<Rightarrow> chainState \<Rightarrow> DelegationPolicyV2 \<Rightarrow> bool" where
  "recorded inp s p \<longleftrightarrow> (\<exists>c. readConstraints (dl_constraints p) = Inr c \<and> constraintsHold c (di_action inp) (di_parameters inp)
     \<and> dl_actions p \<in> set (cs_allowedActions s) \<and> dl_resources p \<in> set (cs_allowedResources s)
     \<and> (\<forall>m. co_max_value_minor_units c = Some m \<longrightarrow> cs_maxValue s \<le> m)
     \<and> (needsApproval c (di_action inp) (di_parameters inp) \<longrightarrow> cs_requiresHumanApproval s))"

definition stricter :: "chainState \<Rightarrow> chainState \<Rightarrow> bool" where
  "stricter s t \<longleftrightarrow> set (cs_allowedActions s) \<subseteq> set (cs_allowedActions t) \<and> set (cs_allowedResources s) \<subseteq> set (cs_allowedResources t)
     \<and> cs_maxValue t \<le> cs_maxValue s \<and> (cs_requiresHumanApproval s \<longrightarrow> cs_requiresHumanApproval t)"

lemma stricter_refl: "stricter s s"
  by (simp add: stricter_def)

lemma stricter_trans: "stricter r s \<Longrightarrow> stricter s t \<Longrightarrow> stricter r t"
  by (auto simp: stricter_def)

lemma recorded_stricter:
  assumes "recorded inp s p" "stricter s t"
  shows "recorded inp t p"
proof -
  obtain c where "readConstraints (dl_constraints p) = Inr c" "constraintsHold c (di_action inp) (di_parameters inp)"
    "dl_actions p \<in> set (cs_allowedActions s)" "dl_resources p \<in> set (cs_allowedResources s)"
    "\<And>m. co_max_value_minor_units c = Some m \<Longrightarrow> cs_maxValue s \<le> m"
    "needsApproval c (di_action inp) (di_parameters inp) \<Longrightarrow> cs_requiresHumanApproval s"
    using assms(1) by (auto simp: recorded_def)
  then show ?thesis
    using assms(2) unfolding recorded_def stricter_def by (intro exI [of _ c]) (auto intro: order_trans)
qed

lemma checkPolicy_passes:
  assumes "checkPolicy E inp at depth p s = Inr (Inr t)"
  shows "policyAccepted E inp at p" "dl_delegate p = cs_expectedDelegate s" "stricter s t"
    "dl_effect p = ''allow'' \<Longrightarrow> recorded inp t p \<and> cs_expectedDelegate t = dl_principal p"
proof -
  have g: "policySigned E inp p = Inr True" "policyAccepted E inp at p" "dl_delegate p = cs_expectedDelegate s"
    and rest: "if dl_effect p \<noteq> ''allow'' then t = s else
      (\<exists>c. readConstraints (dl_constraints p) = Inr c \<and> constraintsHold c (di_action inp) (di_parameters inp)
        \<and> t = \<lparr>cs_expectedDelegate = dl_principal p, cs_allowedActions = cs_allowedActions s @ [dl_actions p],
                cs_allowedResources = cs_allowedResources s @ [dl_resources p],
                cs_maxValue = (case co_max_value_minor_units c of Some m \<Rightarrow> min (cs_maxValue s) m | None \<Rightarrow> cs_maxValue s),
                cs_requiresHumanApproval = (cs_requiresHumanApproval s \<or> needsApproval c (di_action inp) (di_parameters inp)),
                cs_expectedParentPolicyId = Option.bind (dl_parent_policy_id p) id\<rparr>)"
    using assms by (auto simp: checkPolicy_def policyAccepted_def bindE_eq_Inr split: if_split_asm)
  show "policyAccepted E inp at p" "dl_delegate p = cs_expectedDelegate s" by (fact g)+
  show "stricter s t" using rest by (auto simp: stricter_def split: if_splits option.splits)
  show "recorded inp t p \<and> cs_expectedDelegate t = dl_principal p" if "dl_effect p = ''allow''"
    using rest that by (auto simp: recorded_def)
qed

lemma checkChain_Cons:
  "checkChain E inp at depth (p # ps) s = Inr (Inr t) \<longleftrightarrow>
     (\<exists>s'. checkPolicy E inp at depth p s = Inr (Inr s') \<and> checkChain E inp at (Suc depth) ps s' = Inr (Inr t))"
proof (cases "checkPolicy E inp at depth p s")
  case (Inr r)
  then show ?thesis by (cases r) simp_all
qed simp

lemma checkChain_stricter: "checkChain E inp at depth ps s = Inr (Inr t) \<Longrightarrow> stricter s t"
proof (induction ps arbitrary: depth s)
  case Nil
  then show ?case by (simp add: stricter_refl)
next
  case (Cons p ps)
  then obtain s' where "checkPolicy E inp at depth p s = Inr (Inr s')" "checkChain E inp at (Suc depth) ps s' = Inr (Inr t)"
    unfolding checkChain_Cons by blast
  with Cons.IH checkPolicy_passes(3) show ?case using stricter_trans by blast
qed

lemma checkChain_passes:
  assumes "checkChain E inp at depth ps s = Inr (Inr t)" "p \<in> set ps"
  shows "policyAccepted E inp at p \<and> (dl_effect p = ''allow'' \<longrightarrow> recorded inp t p)"
  using assms
proof (induction ps arbitrary: depth s)
  case (Cons q ps)
  then obtain s' where s': "checkPolicy E inp at depth q s = Inr (Inr s')" "checkChain E inp at (Suc depth) ps s' = Inr (Inr t)"
    unfolding checkChain_Cons by blast
  show ?case
  proof (cases "p = q")
    case True
    then show ?thesis
      using checkPolicy_passes(1,4) [OF s'(1)] recorded_stricter [OF _ checkChain_stricter [OF s'(2)]] by blast
  next
    case False
    with Cons.prems Cons.IH [OF s'(2)] show ?thesis by simp
  qed
qed simp

text \<open>From the agent upwards, every policy was granted to the party that granted the one below.\<close>

fun linkedUp :: "string \<Rightarrow> DelegationPolicyV2 list \<Rightarrow> bool" where
  "linkedUp d [] = True"
| "linkedUp d (p # ps) = (dl_delegate p = d \<and> linkedUp (dl_principal p) ps)"

lemma checkChain_linked:
  assumes "checkChain E inp at depth ps s = Inr (Inr t)" "list_all (\<lambda>p. dl_effect p = ''allow'') ps"
  shows "linkedUp (cs_expectedDelegate s) ps"
  using assms
proof (induction ps arbitrary: depth s)
  case (Cons p ps)
  then obtain s' where s': "checkPolicy E inp at depth p s = Inr (Inr s')" "checkChain E inp at (Suc depth) ps s' = Inr (Inr t)"
    unfolding checkChain_Cons by blast
  from checkPolicy_passes(2,4) [OF s'(1)] Cons.prems(2) Cons.IH [OF s'(2)] show ?case by simp
qed simp

text \<open>A policy that allows covers the action: in scope, within its constraints, its value limit and its approval rule.\<close>

definition grantCovers :: "DelegatedActionInput \<Rightarrow> DelegationPolicyV2 \<Rightarrow> bool" where
  "grantCovers inp p \<longleftrightarrow> policyMatchesAction p (di_action inp)
     \<and> (\<exists>c. readConstraints (dl_constraints p) = Inr c \<and> constraintsHold c (di_action inp) (di_parameters inp)
       \<and> (\<forall>m. co_max_value_minor_units c = Some m \<longrightarrow> valueFromAction (di_action inp) (di_parameters inp) \<le> m)
       \<and> (needsApproval c (di_action inp) (di_parameters inp) \<longrightarrow> truthyStr (aa_human_approval_proof (di_action inp))))"

lemma concludeChain_covers:
  assumes "concludeChain E inp s = Inr r" "da_ok r" "recorded inp s p"
  shows "grantCovers inp p"
proof -
  have c: "list_all (\<lambda>acts. actionMatches acts (aa_action (di_action inp))) (cs_allowedActions s)"
    "list_all (list_ex (\<lambda>pattern. resourceMatches pattern (aa_resource (di_action inp)))) (cs_allowedResources s)"
    "valueFromAction (di_action inp) (di_parameters inp) \<le> cs_maxValue s"
    "cs_requiresHumanApproval s \<Longrightarrow> truthyStr (aa_human_approval_proof (di_action inp))"
    using assms(1,2) by (auto simp: concludeChain_def rejectWith_def Let_def list_all_iff list_ex_iff split: if_split_asm)
  obtain k where "readConstraints (dl_constraints p) = Inr k" "constraintsHold k (di_action inp) (di_parameters inp)"
    "dl_actions p \<in> set (cs_allowedActions s)" "dl_resources p \<in> set (cs_allowedResources s)"
    "\<And>m. co_max_value_minor_units k = Some m \<Longrightarrow> cs_maxValue s \<le> m"
    "needsApproval k (di_action inp) (di_parameters inp) \<Longrightarrow> cs_requiresHumanApproval s"
    using assms(3) by (auto simp: recorded_def)
  then show ?thesis
    unfolding grantCovers_def policyMatchesAction_def using c by (auto simp: list_all_iff intro: order_trans)
qed

lemma verifyDelegated_parts:
  assumes "verifyDelegatedAgentActionV0 E inp = Inr r" "da_ok r"
  shows "\<exists>at s. dateParse E (aa_issued_at (di_action inp)) = Some at \<and> actionSigned E inp = Inr True \<and> parametersMatch E inp = Inr True
     \<and> di_delegation_chain inp \<noteq> [] \<and> dl_principal (hd (di_delegation_chain inp)) = aa_principal (di_action inp)
     \<and> chainRoot E (di_delegation_chain inp) = Inr (aa_delegation_chain_root (di_action inp))
     \<and> checkChain E inp at 0 (rev (di_delegation_chain inp)) (chainStart (di_action inp)) = Inr (Inr s)
     \<and> concludeChain E inp s = Inr r"
proof -
  obtain at where at: "dateParse E (aa_issued_at (di_action inp)) = Some at"
    using assms by (cases "dateParse E (aa_issued_at (di_action inp))") (auto simp: verifyDelegatedAgentActionV0_def rejectWith_def Let_def)
  show ?thesis
  proof (cases "checkChain E inp at 0 (rev (di_delegation_chain inp)) (chainStart (di_action inp))")
    case (Inr c)
    then show ?thesis
      using assms at by (cases c) (auto simp: verifyDelegatedAgentActionV0_def rejectWith_def Let_def bindE_eq_Inr split: if_split_asm)
  qed (use assms at in \<open>auto simp: verifyDelegatedAgentActionV0_def rejectWith_def Let_def bindE_eq_Inr split: if_split_asm\<close>)
qed

section \<open>Signing policies and actions\<close>

lemma delegationPolicyV2Hash_signed:
  "delegationPolicyV2Hash E (DelegationPolicyV2_obj (DelegationPolicyUnsignedV2.extend u (DelegationPolicyV2.fields sig))) =
   delegationPolicyV2Hash E (DelegationPolicyUnsignedV2_obj u)"
  by (simp add: delegationPolicyV2Hash_def hashSignedObject_def withoutSignature_def withoutField_def DelegationPolicyV2_obj_def
      DelegationPolicyUnsignedV2_obj_def DelegationPolicyUnsignedV2.defs DelegationPolicyV2.defs optField_def split: option.splits)

lemma agentActionV2Hash_signed:
  "agentActionV2Hash E (AgentActionV2_obj (AgentActionUnsignedV2.extend u (AgentActionV2.fields sig))) =
   agentActionV2Hash E (AgentActionUnsignedV2_obj u)"
  by (simp add: agentActionV2Hash_def hashSignedObject_def withoutSignature_def withoutField_def AgentActionV2_obj_def
      AgentActionUnsignedV2_obj_def AgentActionUnsignedV2.defs AgentActionV2.defs optField_def split: option.splits)

lemma hashSignedObject_total: "jsonSafe (JObj x) \<Longrightarrow> \<exists>h. hashSignedObject E t x = Inr h"
  unfolding hashSignedObject_def domainHash_defined by (auto simp: withoutSignature_def withoutField_def list_all_iff)

lemma seed_signs_object:
  assumes E: "hex_codec E" "ed25519_correct E" and seed: "hexToBytes E seedHex = Inr seed" "length seed = 32" and h: "hashSignedObject E t x = Inr h"
  shows "\<exists>pk s. deriveEd25519PublicKey E seedHex = Inr pk \<and> signEd25519 E (DText h) seedHex = Inr s \<and> verifyEd25519 E pk (DText h) s = Inr True"
  using seed_signs_domainHash [OF E seed h [unfolded hashSignedObject_def]] .

lemma chainRoot_single:
  assumes "delegationPolicyV2Hash E (DelegationPolicyV2_obj p) = Inr h"
  shows "\<exists>root. chainRoot E [p] = Inr root"
  using canonicalBytes_total [of "JArr [JStr h]"] assms by (auto simp: chainRoot_def)

section \<open>A concrete action\<close>

definition demoPolicy :: "string \<Rightarrow> DelegationPolicyUnsignedV2" where
  "demoPolicy effect = \<lparr>dl_type = ''tsl.delegation_policy.v2'', dl_policy_id = ''0x01'', dl_principal = ''did:tsl:p'', dl_delegate = ''did:tsl:a'',
     dl_effect = effect, dl_actions = [''mail.send''], dl_resources = [''inbox/*''], dl_constraints = [(''max_value_minor_units'', JNum (JInt 10))],
     dl_subdelegation = None, dl_parent_policy_id = None, dl_valid_from = ''2026-01-01T00:00:00Z'', dl_valid_until = ''2026-02-01T00:00:00Z'',
     dl_revocation_pointer = ''r'', dl_nonce = None\<rparr>"

definition demoAction :: "string \<Rightarrow> string \<Rightarrow> AgentActionUnsignedV2" where
  "demoAction act root = \<lparr>aa_type = ''tsl.agent_action.v2'', aa_action_id = ''0x02'', aa_agent = ''did:tsl:a'', aa_principal = ''did:tsl:p'', aa_action = act,
     aa_resource = ''inbox/1'', aa_tool = None, aa_parameters_commitment = ''0x03'', aa_parameter_disclosure_policy = None, aa_delegation_chain_root = root,
     aa_nonce = ''0x04'', aa_value_minor_units = Some 7, aa_human_approval_proof = None, aa_issued_at = ''2026-01-15T00:00:00Z''\<rparr>"

definition demoSignedPolicy :: "string \<Rightarrow> string \<Rightarrow> DelegationPolicyV2" where
  "demoSignedPolicy effect sig = DelegationPolicyUnsignedV2.extend (demoPolicy effect) (DelegationPolicyV2.fields sig)"

definition demoDelegated :: "string \<Rightarrow> string \<Rightarrow> string \<Rightarrow> string \<Rightarrow> string \<Rightarrow> string \<Rightarrow> DelegatedActionInput" where
  "demoDelegated effect act key root psig asig =
     \<lparr>di_action = AgentActionUnsignedV2.extend (demoAction act root) (AgentActionV2.fields asig),
       di_delegation_chain = [demoSignedPolicy effect psig], di_public_keys = (\<lambda>_. Some key), di_revoked_policy_ids = [], di_revoked_pointers = [],
       di_parameters = None\<rparr>"

lemma demoDelegated_sel [simp]:
  "di_delegation_chain (demoDelegated effect act key root psig asig) = [demoSignedPolicy effect psig]"
  "di_parameters (demoDelegated effect act key root psig asig) = None"
  "di_revoked_policy_ids (demoDelegated effect act key root psig asig) = []"
  "di_revoked_pointers (demoDelegated effect act key root psig asig) = []"
  "aa_issued_at (di_action (demoDelegated effect act key root psig asig)) = ''2026-01-15T00:00:00Z''"
  "aa_agent (di_action (demoDelegated effect act key root psig asig)) = ''did:tsl:a''"
  "aa_principal (di_action (demoDelegated effect act key root psig asig)) = ''did:tsl:p''"
  "aa_delegation_chain_root (di_action (demoDelegated effect act key root psig asig)) = root"
  "aa_action (di_action (demoDelegated effect act key root psig asig)) = act"
  "aa_resource (di_action (demoDelegated effect act key root psig asig)) = ''inbox/1''"
  "aa_value_minor_units (di_action (demoDelegated effect act key root psig asig)) = Some 7"
  by (simp_all add: demoDelegated_def demoAction_def AgentActionUnsignedV2.defs AgentActionV2.defs)

lemma demoSignedPolicy_sel [simp]:
  "dl_effect (demoSignedPolicy effect sig) = effect" "dl_principal (demoSignedPolicy effect sig) = ''did:tsl:p''"
  "dl_delegate (demoSignedPolicy effect sig) = ''did:tsl:a''" "dl_policy_id (demoSignedPolicy effect sig) = ''0x01''"
  "dl_valid_from (demoSignedPolicy effect sig) = ''2026-01-01T00:00:00Z''" "dl_valid_until (demoSignedPolicy effect sig) = ''2026-02-01T00:00:00Z''"
  "dl_actions (demoSignedPolicy effect sig) = [''mail.send'']" "dl_resources (demoSignedPolicy effect sig) = [''inbox/*'']"
  "dl_constraints (demoSignedPolicy effect sig) = [(''max_value_minor_units'', JNum (JInt 10))]"
  "dl_parent_policy_id (demoSignedPolicy effect sig) = None" "dl_signature (demoSignedPolicy effect sig) = sig"
  "dl_revocation_pointer (demoSignedPolicy effect sig) = ''r''"
  by (simp_all add: demoSignedPolicy_def demoPolicy_def DelegationPolicyUnsignedV2.defs DelegationPolicyV2.defs)

lemma demo_signed_input:
  "\<exists>key root psig asig. policySigned demoEnv (demoDelegated effect act key root psig asig) (demoSignedPolicy effect psig) = Inr True
     \<and> actionSigned demoEnv (demoDelegated effect act key root psig asig) = Inr True
     \<and> chainRoot demoEnv [demoSignedPolicy effect psig] = Inr root"
proof -
  have len: "length (replicate 32 0x77 :: bytes) = 32" by simp
  have "jsonSafe (JObj (DelegationPolicyUnsignedV2_obj (demoPolicy effect)))"
    by (simp add: DelegationPolicyUnsignedV2_obj_def demoPolicy_def isSafeInteger_def)
  then obtain ph where ph: "delegationPolicyV2Hash demoEnv (DelegationPolicyUnsignedV2_obj (demoPolicy effect)) = Inr ph"
    using hashSignedObject_total unfolding delegationPolicyV2Hash_def by blast
  obtain pk psig where k: "deriveEd25519PublicKey demoEnv demoSeed = Inr pk" "verifyEd25519 demoEnv pk (DText ph) psig = Inr True"
    using seed_signs_object [OF demo_hyps(1,3) demoSeed_bytes len ph [unfolded delegationPolicyV2Hash_def]] by blast
  have ph': "delegationPolicyV2Hash demoEnv (DelegationPolicyV2_obj (demoSignedPolicy effect psig)) = Inr ph"
    unfolding demoSignedPolicy_def delegationPolicyV2Hash_signed by (rule ph)
  obtain root where root: "chainRoot demoEnv [demoSignedPolicy effect psig] = Inr root"
    using chainRoot_single [OF ph'] by blast
  have "jsonSafe (JObj (AgentActionUnsignedV2_obj (demoAction act root)))"
    by (simp add: AgentActionUnsignedV2_obj_def demoAction_def isSafeInteger_def)
  then obtain ah where ah: "agentActionV2Hash demoEnv (AgentActionUnsignedV2_obj (demoAction act root)) = Inr ah"
    using hashSignedObject_total unfolding agentActionV2Hash_def by blast
  obtain asig where j: "verifyEd25519 demoEnv pk (DText ah) asig = Inr True"
    using seed_signs_object [OF demo_hyps(1,3) demoSeed_bytes len ah [unfolded agentActionV2Hash_def]] k(1) by auto
  have "pk \<noteq> []" using k(1) by (auto simp: deriveEd25519PublicKey_def demoSeed_bytes) (simp add: demoEnv_def demoBytesToHex_def)
  then have "policySigned demoEnv (demoDelegated effect act pk root psig asig) (demoSignedPolicy effect psig) = Inr True
     \<and> actionSigned demoEnv (demoDelegated effect act pk root psig asig) = Inr True"
    using k(2) j ph' ah
    by (simp add: policySigned_def actionSigned_def demoDelegated_def agentActionV2Hash_signed truthyStr_def)
      (simp add: AgentActionUnsignedV2.defs AgentActionV2.defs)
  with root show ?thesis by blast
qed

lemma demo_chain_dates:
  "dateParse demoEnv ''2026-01-15T00:00:00Z'' = Some 1768435200000"
  "\<not> dateLt (Some 1768435200000) (dateParse demoEnv ''2026-01-01T00:00:00Z'')"
  "\<not> dateLe (dateParse demoEnv ''2026-02-01T00:00:00Z'') (Some 1768435200000)"
  by (simp_all add: demo_dates)

lemma concludeChain_total:
  assumes "list_all (\<lambda>acts. actionMatches acts (aa_action (di_action inp))) (cs_allowedActions s)"
    "list_all (list_ex (\<lambda>pattern. resourceMatches pattern (aa_resource (di_action inp)))) (cs_allowedResources s)"
    "valueFromAction (di_action inp) (di_parameters inp) \<le> cs_maxValue s" "isSafeInteger (cs_maxValue s)" "\<not> cs_requiresHumanApproval s"
  shows "\<exists>r. concludeChain E inp s = Inr r \<and> da_ok r"
proof -
  have "jsonSafe (JObj (scopeObject s))" using assms(4) by (simp add: scopeObject_def list_all_iff)
  then obtain b where "canonicalBytes (JObj (scopeObject s)) = Inr b" using canonicalBytes_total by blast
  then show ?thesis using assms(1-3,5) by (auto simp: concludeChain_def Let_def list_all_iff list_ex_iff)
qed

lemma demo_allowed:
  assumes "policySigned demoEnv inp (demoSignedPolicy ''allow'' psig) = Inr True" "actionSigned demoEnv inp = Inr True"
    "chainRoot demoEnv [demoSignedPolicy ''allow'' psig] = Inr root" "inp = demoDelegated ''allow'' ''mail.send'' key root psig asig"
  shows "\<exists>r. verifyDelegatedAgentActionV0 demoEnv inp = Inr r \<and> da_ok r"
proof -
  obtain c where c: "readConstraints [(''max_value_minor_units'', JNum (JInt 10))] = Inr c" "co_max_value_minor_units c = Some 10"
    "constraintsHold c (di_action inp) None" "\<not> needsApproval c (di_action inp) None"
    by (simp add: readConstraints_def propOf_def castInt_def castStr_def castStrs_def castBool_def constraintsHold_def needsApproval_def truthyStr_def)
  let ?s = "\<lparr>cs_expectedDelegate = ''did:tsl:p'', cs_allowedActions = [[''mail.send'']], cs_allowedResources = [[''inbox/*'']], cs_maxValue = 10,
     cs_requiresHumanApproval = False, cs_expectedParentPolicyId = None\<rparr>"
  have "checkPolicy demoEnv inp 1768435200000 0 (demoSignedPolicy ''allow'' psig) (chainStart (di_action inp)) = Inr (Inr ?s)"
    using assms(1) c demo_chain_dates unfolding assms(4)
    by (simp add: checkPolicy_def chainStart_def subdelegationAllows_def del: dateLe_Some dateLt_Some)
  moreover have "resourceMatches ''inbox/*'' ''inbox/1''" by code_simp
  then have "\<exists>r. concludeChain demoEnv inp ?s = Inr r \<and> da_ok r"
    unfolding assms(4) by (intro concludeChain_total) (simp_all add: actionMatches_def valueFromAction_def isSafeInteger_def)
  ultimately show ?thesis
    using assms(1-3) demo_chain_dates(1) unfolding assms(4)
    by (auto simp: verifyDelegatedAgentActionV0_def parametersMatch_def)
qed

section \<open>Properties\<close>



text \<open>
  A policy that only denies authorises everything else. If the chain is a single policy that denies other actions than this one, \<^verbatim>\<open>verifyDelegatedAgentActionV0\<close>
  accepts the action although no policy of the chain allows anything.
\<close>

theorem deny_policy_authorises:
  assumes chain: "di_delegation_chain inp = [p]" "dl_effect p = ''deny''" "\<not> policyMatchesAction p (di_action inp)"
    and signed: "policySigned E inp p = Inr True" "actionSigned E inp = Inr True"
    and fit: "dl_principal p = aa_principal (di_action inp)" "dl_delegate p = aa_agent (di_action inp)"
      "chainRoot E [p] = Inr (aa_delegation_chain_root (di_action inp))"
    and time: "dateParse E (aa_issued_at (di_action inp)) = Some at"
      "\<not> dateLt (Some at) (dateParse E (dl_valid_from p))" "\<not> dateLe (dateParse E (dl_valid_until p)) (Some at)"
    and rest: "di_revoked_policy_ids inp = []" "di_revoked_pointers inp = []" "di_parameters inp = None"
      "valueFromAction (di_action inp) None \<le> 2 ^ 53 - 1"
  shows "\<exists>r. verifyDelegatedAgentActionV0 E inp = Inr r \<and> da_ok r"
proof -
  have "checkPolicy E inp at 0 p (chainStart (di_action inp)) = Inr (Inr (chainStart (di_action inp)))"
    using assms by (simp add: checkPolicy_def chainStart_def del: dateLe_Some dateLt_Some)
  moreover have "\<exists>r. concludeChain E inp (chainStart (di_action inp)) = Inr r \<and> da_ok r"
    using rest by (intro concludeChain_total) (simp_all add: chainStart_def isSafeInteger_def)
  ultimately show ?thesis
    using chain(1) signed fit time(1) rest(3) by (auto simp: verifyDelegatedAgentActionV0_def parametersMatch_def)
qed

theorem deny_policy_authorises_witness:
  "\<exists>inp r. verifyDelegatedAgentActionV0 demoEnv inp = Inr r \<and> da_ok r \<and> list_all (\<lambda>p. dl_effect p = ''deny'') (di_delegation_chain inp)"
proof -
  obtain key root psig asig where d: "policySigned demoEnv (demoDelegated ''deny'' ''wire.money'' key root psig asig) (demoSignedPolicy ''deny'' psig) = Inr True"
     "actionSigned demoEnv (demoDelegated ''deny'' ''wire.money'' key root psig asig) = Inr True"
     "chainRoot demoEnv [demoSignedPolicy ''deny'' psig] = Inr root"
    using demo_signed_input by blast
  let ?inp = "demoDelegated ''deny'' ''wire.money'' key root psig asig"
  have "\<exists>r. verifyDelegatedAgentActionV0 demoEnv ?inp = Inr r \<and> da_ok r"
    by (rule deny_policy_authorises [where p = "demoSignedPolicy ''deny'' psig" and at = 1768435200000])
      (use d demo_chain_dates in \<open>simp_all add: policyMatchesAction_def actionMatches_def valueFromAction_def del: dateLe_Some dateLt_Some\<close>)
  moreover have "list_all (\<lambda>p. dl_effect p = ''deny'') (di_delegation_chain ?inp)" by simp
  ultimately show ?thesis by blast
qed

text \<open>In the concrete environment a hash signs itself under the empty key.\<close>

lemma domainHash_demo:
  assumes "jsonSafe (JObj o')"
  shows "\<exists>h b. domainHash demoEnv tag o' = Inr h \<and> hexToBytes demoEnv h = Inr b \<and> verifyEd25519 demoEnv ''0x'' (DText h) h = Inr True"
proof -
  obtain b where "canonicalBytes (JObj o') = Inr b"
    using assms jsonSafe_iff [of "JObj o'"] by (auto simp: canonicalBytes_def canonicalize_def bindE_eq_Inr simp del: jsonSafe.simps)
  then have "domainHash demoEnv tag o' = Inr (hashDomain demoEnv tag (DBytes b))" by (simp add: domainHash_def)
  moreover obtain c where "hexToBytes demoEnv (hashDomain demoEnv tag (DBytes b)) = Inr c" using hexToBytes_hashDomain [OF hex_codec_demo] by blast
  moreover have "hexToBytes demoEnv ''0x'' = Inr []" by code_simp
  ultimately show ?thesis by (simp add: verifyEd25519_def messageBytes_def demoEnv_def)
qed

end
