(* ===== verification/VerifierInput.thy ===== *)
theory VerifierInput
  imports SettlementProof Delegation
begin

text \<open>
  The parts of the verifier (\<^verbatim>\<open>src/packages/core-ts/src/verifier.ts\<close>) before its entry point: the expansion of a proof bundle into the input, the
  redaction manifest, the match of settlement evidence with a checkpoint, disclosure consents and the governance of seed sets. A field of an input
  object that is absent is \<open>None\<close>.
\<close>

section \<open>Helpers\<close>

text \<open>A flag of the policy used as a condition; \<^verbatim>\<open>a && b\<close> where \<^verbatim>\<open>b\<close> may throw.\<close>

definition isOn :: "bool option \<Rightarrow> bool" where
  "isOn flag \<longleftrightarrow> flag = Some True"

definition andE :: "bool \<Rightarrow> bool res \<Rightarrow> bool res" where
  "andE b m = (if b then m else Inr False)"

lemma andE_True [simp]: "andE b m = Inr True \<longleftrightarrow> b \<and> m = Inr True"
  by (simp add: andE_def)

definition orFrom :: "'a option \<Rightarrow> 'a option \<Rightarrow> 'a option" where
  "orFrom a b = (case a of None \<Rightarrow> b | Some x \<Rightarrow> Some x)"

lemma orFrom_simps [simp]: "orFrom None b = b" "orFrom (Some x) b = Some x" "orFrom a None = a"
  by (simp_all add: orFrom_def split: option.split)

text \<open>\<^verbatim>\<open>key?.type === "ed25519" && verifyEd25519(key.public_key, hash, signature)\<close>, where the hash is computed only for a key of that type.\<close>

definition edSigned :: "env \<Rightarrow> VerificationMethodV1 option \<Rightarrow> string res \<Rightarrow> string \<Rightarrow> bool res" where
  "edSigned E key hash signature =
     (if map_option vm_type key = Some ''ed25519''
      then bindE hash (\<lambda>h. verifyEd25519 E (vm_public_key (the key)) (DText h) signature) else Inr False)"

lemma edSigned_True:
  "edSigned E key hash sig = Inr True \<longleftrightarrow>
     (\<exists>k h. key = Some k \<and> vm_type k = ''ed25519'' \<and> hash = Inr h \<and> verifyEd25519 E (vm_public_key k) (DText h) sig = Inr True)"
  by (auto simp: edSigned_def bindE_eq_Inr)

text \<open>\<^verbatim>\<open>identity?.verification_methods.find(...)\<close>: the first key that is active, or active and not revoked, at a time.\<close>

definition activeKey :: "env \<Rightarrow> string \<Rightarrow> IdentityDocumentV1 option \<Rightarrow> VerificationMethodV1 option" where
  "activeKey E t identity = Option.bind identity (\<lambda>d. find (\<lambda>m. keyActiveAt E (Some m) t) (idd_verification_methods d))"

definition activeUnrevokedKey :: "env \<Rightarrow> string \<Rightarrow> IdentityDocumentV1 option \<Rightarrow> VerificationMethodV1 option" where
  "activeUnrevokedKey E t identity =
     Option.bind identity (\<lambda>d. find (\<lambda>m. keyActiveAt E (Some m) t \<and> notRevokedAt E (Some m) (Some t)) (idd_verification_methods d))"

lemma activeKey_Some:
  "activeKey E t identity = Some k \<Longrightarrow> \<exists>d. identity = Some d \<and> k \<in> set (idd_verification_methods d) \<and> keyActiveAt E (Some k) t"
  by (cases identity) (auto simp: activeKey_def dest: find_SomeD)

lemma activeUnrevokedKey_Some:
  "activeUnrevokedKey E t identity = Some k \<Longrightarrow>
     \<exists>d. identity = Some d \<and> k \<in> set (idd_verification_methods d) \<and> keyActiveAt E (Some k) t \<and> notRevokedAt E (Some k) (Some t)"
  by (cases identity) (auto simp: activeUnrevokedKey_def dest: find_SomeD)

definition checkpointHashForPolicy :: "env \<Rightarrow> BatchCheckpointV1 \<Rightarrow> string res" where
  "checkpointHashForPolicy E c = (if envFlag E ''ALLOW_LEGACY_CHECKPOINT_HASH_V0'' then legacyCheckpointHashV0 E c else checkpointHash E c)"

definition normalizeGraphAlgorithm :: "string option \<Rightarrow> string option" where
  "normalizeGraphAlgorithm algorithm =
     (if algorithm = Some ''louvain'' then Some ''louvain_modularity_v1''
      else if algorithm = Some ''leiden'' then Some ''leiden_refinement_v1'' else algorithm)"

definition defaultChecks :: VerificationChecks where
  "defaultChecks = \<lparr>ck_schema_valid = False, ck_signature_valid = False, ck_key_found = False, ck_key_active = False, ck_not_revoked = False,
     ck_content_commitment_matches = None, ck_included_in_log = False, ck_checkpoint_valid = False, ck_checkpoint_matches_proof = False,
     ck_checkpoint_settled = False, ck_settlement_evidence_valid = None, ck_receipt_valid = None, ck_attestation_valid = None,
     ck_revocation_state_valid = None, ck_assessment_valid = None, ck_provider_active = None, ck_model_registered = None,
     ck_chain_revocation_checked = None, ck_zk_valid = None, ck_agent_scope_valid = None, ck_audit_consistency_valid = None,
     ck_consistency_proof_valid = None, ck_non_membership_proof_valid = None, ck_zk_circuit_registered = None,
     ck_research_graph_algorithm_valid = None, ck_provider_governance_valid = None, ck_seed_governance_valid = None,
     ck_full_covariance_drift_valid = None, ck_governance_policy_valid = None, ck_trust_assessment_v2_valid = None, ck_scoring_profile_valid = None,
     ck_domain_policy_valid = None, ck_evidence_coverage_valid = None, ck_metadata_fingerprint_valid = None, ck_disclosure_consent_valid = None,
     ck_redaction_manifest_valid = None, ck_checkpoint_signature_valid = None, ck_graph_artifacts_valid = None, ck_sybil_assessment_valid = None,
     ck_drift_report_valid = None, ck_delegated_action_valid = None, ck_receipt_included = None, ck_authorized_relay_valid = None,
     ck_attestation_included = None, ck_revocation_included = None\<rparr>"

text \<open>\<^verbatim>\<open>{ ...STRICT_POLICY_DEFAULTS, ...policy }\<close>\<close>

definition withStrictDefaults :: "VerifierPolicy \<Rightarrow> VerifierPolicy" where
  "withStrictDefaults p = p\<lparr>
     po_require_disclosure_consent_for_private_fields := Some (orElse (po_require_disclosure_consent_for_private_fields p) True),
     po_reject_dev_zk_circuits := Some (orElse (po_reject_dev_zk_circuits p) True),
     po_reject_unsafe_fixtures_on_mainnet := Some (orElse (po_reject_unsafe_fixtures_on_mainnet p) True),
     po_reject_rpc_attested_settlement_for_mainnet := Some (orElse (po_reject_rpc_attested_settlement_for_mainnet p) True),
     po_require_four_root_checkpoint := Some (orElse (po_require_four_root_checkpoint p) True),
     po_require_exact_graph_formulas := Some (orElse (po_require_exact_graph_formulas p) True),
     po_require_behavioral_sybil_tiers := Some (orElse (po_require_behavioral_sybil_tiers p) True),
     po_require_core_drift_formula := Some (orElse (po_require_core_drift_formula p) True),
     po_require_profile_signed_scoring := Some (orElse (po_require_profile_signed_scoring p) True)\<rparr>"

section \<open>Proof bundles\<close>

definition sameCanonical :: "jsval \<Rightarrow> jsval \<Rightarrow> bool" where
  "sameCanonical left right =
     (if left = JUndefined \<or> right = JUndefined then True
      else catchE (bindE (canonicalBytes left) (\<lambda>l. bindE (canonicalBytes right) (\<lambda>r. Inr (l = r)))) (jsonStringify left = jsonStringify right))"

text \<open>The input as an object.\<close>

definition VerifyTSLInput_obj :: "VerifyTSLInput \<Rightarrow> jsobj" where
  "VerifyTSLInput_obj x =
     optField ''proof_bundle'' (\<lambda>b. JObj (ProofBundleV1_obj b)) (vi_proof_bundle x)
     @ [(''envelope'', JObj (EventCommitmentV1_obj (vi_envelope x)))]
     @ optField ''proof'' (\<lambda>v. JObj (InclusionProofV1_obj v)) (vi_proof x)
     @ optField ''receipt_proofs'' (\<lambda>v. JArr (map (\<lambda>y. JObj (InclusionProofV1_obj y)) v)) (vi_receipt_proofs x)
     @ optField ''checkpoint'' (\<lambda>v. JObj (BatchCheckpointV1_obj v)) (vi_checkpoint x)
     @ optField ''receipts'' (\<lambda>v. JArr (map (\<lambda>y. JObj (ReceiptCommitmentV1_obj y)) v)) (vi_receipts x)
     @ optField ''attestations'' (\<lambda>v. JArr (map (\<lambda>y. JObj (AttestationV1_obj y)) v)) (vi_attestations x)
     @ optField ''attestations_v2'' (\<lambda>v. JArr (map (\<lambda>y. JObj (AttestationV2_obj y)) v)) (vi_attestations_v2 x)
     @ optField ''receipt_disputes'' (\<lambda>v. JObj (map (\<lambda>(k, r). (k, JObj (ReceiptDisputeMetadataV1_obj r))) v)) (vi_receipt_disputes x)
     @ optField ''revocations'' (\<lambda>v. JArr (map (\<lambda>y. JObj (RevocationV1_obj y)) v)) (vi_revocations x)
     @ optField ''settlement_evidence'' (\<lambda>v. JArr (map (\<lambda>y. JObj (SettlementEvidenceV1_obj y)) v)) (vi_settlement_evidence x)
     @ optField ''assessment'' (\<lambda>v. JObj (TrustAssessmentV1_obj v)) (vi_assessment x)
     @ optField ''assessment_v2'' (\<lambda>v. JObj (TrustAssessmentV2_obj v)) (vi_assessment_v2 x)
     @ optField ''scoring_profile'' (\<lambda>v. JObj (ScoringProfileV2_obj v)) (vi_scoring_profile x)
     @ optField ''domain_policy'' (\<lambda>v. JObj (DomainPolicyV1_obj v)) (vi_domain_policy x)
     @ optField ''evidence_coverage'' (\<lambda>v. JObj (EvidenceCoverageV1_obj v)) (vi_evidence_coverage x)
     @ optField ''feature_registry'' (\<lambda>v. JObj (FeatureRegistryV1_obj v)) (vi_feature_registry x)
     @ optField ''normalization_profile'' (\<lambda>v. JObj (NormalizationProfileV1_obj v)) (vi_normalization_profile x)
     @ optField ''weight_profile'' (\<lambda>v. JObj (WeightProfileV1_obj v)) (vi_weight_profile x)
     @ optField ''calibration_profile'' (\<lambda>v. JObj (CalibrationProfileV1_obj v)) (vi_calibration_profile x)
     @ optField ''confidence_profile'' (\<lambda>v. JObj (ConfidenceProfileV1_obj v)) (vi_confidence_profile x)
     @ optField ''provider_governance_status'' (\<lambda>v. JObj (ProviderGovernanceStatusV1_obj v)) (vi_provider_governance_status x)
     @ optField ''metadata_fingerprints'' (\<lambda>v. JArr (map (\<lambda>y. JObj (MetadataFingerprintCommitmentV1_obj y)) v)) (vi_metadata_fingerprints x)
     @ optField ''graph_profile'' (\<lambda>v. JObj (GraphProfileV2_obj v)) (vi_graph_profile x)
     @ optField ''graph_feature_vector'' (\<lambda>v. JObj (GraphFeatureVectorV1_obj v)) (vi_graph_feature_vector x)
     @ optField ''trusted_seeds'' (\<lambda>v. JArr (map JStr v)) (vi_trusted_seeds x)
     @ optField ''adversarial_seeds'' (\<lambda>v. JArr (map JStr v)) (vi_adversarial_seeds x)
     @ optField ''trusted_seed_governance'' (\<lambda>v. JObj (SeedGovernanceProfileV1_obj v)) (vi_trusted_seed_governance x)
     @ optField ''adversarial_seed_governance'' (\<lambda>v. JObj (SeedGovernanceProfileV1_obj v)) (vi_adversarial_seed_governance x)
     @ optField ''event_receivers'' (\<lambda>v. JObj (map (\<lambda>(k, s). (k, JStr s)) v)) (vi_event_receivers x)
     @ optField ''sybil_assessment'' (\<lambda>v. JObj (SybilAssessmentV1_obj v)) (vi_sybil_assessment x)
     @ optField ''sybil_profile'' (\<lambda>v. JObj (SybilProfile_obj v)) (vi_sybil_profile x)
     @ optField ''drift_report'' (\<lambda>v. JObj (DriftReportV1_obj v)) (vi_drift_report x)
     @ optField ''drift_feature_history'' (\<lambda>v. JArr (map (\<lambda>y. JObj (DriftFeatureEntry_obj y)) v)) (vi_drift_feature_history x)
     @ optField ''drift_cohort_baseline_components'' (\<lambda>v. JArr (map (\<lambda>d. JObj (map (\<lambda>(k, i). (k, JNum (JInt i))) d)) v)) (vi_drift_cohort_baseline_components x)
     @ optField ''zk_proofs'' (\<lambda>v. JArr (map (\<lambda>y. JObj (ZkThresholdProofV1_obj y)) v)) (vi_zk_proofs x)
     @ optField ''zk_circuit_manifests'' (\<lambda>v. JArr (map (\<lambda>y. JObj (ZkCircuitReleaseManifestV1_obj y)) v)) (vi_zk_circuit_manifests x)
     @ optField ''zk_verification_key_registry'' (\<lambda>v. JObj (ZkVerificationKeyRegistryV1_obj v)) (vi_zk_verification_key_registry x)
     @ optField ''delegations'' (\<lambda>v. JArr (map (\<lambda>y. JObj (AgentDelegationV1_obj y)) v)) (vi_delegations x)
     @ optField ''delegation_policies'' (\<lambda>v. JArr (map (\<lambda>y. JObj (DelegationPolicyV2_obj y)) v)) (vi_delegation_policies x)
     @ optField ''agent_actions'' (\<lambda>v. JArr (map (\<lambda>y. JObj (AgentActionV2_obj y)) v)) (vi_agent_actions x)
     @ optField ''audit_findings'' (\<lambda>v. JArr (map (\<lambda>y. JObj (AuditFindingV1_obj y)) v)) (vi_audit_findings x)
     @ optField ''consistency_proofs'' (\<lambda>v. JArr (map (\<lambda>y. JObj (ConsistencyProofV1_obj y)) v)) (vi_consistency_proofs x)
     @ optField ''non_membership_proofs'' (\<lambda>v. JArr (map (\<lambda>y. JObj (SetNonMembershipProofV1_obj y)) v)) (vi_non_membership_proofs x)
     @ optField ''governance_policy'' (\<lambda>v. JObj (GovernancePolicyV1_obj v)) (vi_governance_policy x)
     @ optField ''redaction_manifest'' (\<lambda>v. JObj (RedactionManifest_obj v)) (vi_redaction_manifest x)
     @ optField ''message_disclosure'' (\<lambda>v. JObj (MessageDisclosure_obj v)) (vi_message_disclosure x)
     @ optField ''disclosure_consents'' (\<lambda>v. JArr (map (\<lambda>y. JObj (DisclosureConsentV1_obj y)) v)) (vi_disclosure_consents x)"

definition conflictFields :: "string list" where
  "conflictFields = [''envelope'', ''proof'', ''checkpoint'', ''receipts'', ''attestations'', ''attestations_v2'', ''receipt_disputes'', ''revocations'',
     ''settlement_evidence'', ''assessment'', ''assessment_v2'', ''scoring_profile'', ''domain_policy'', ''evidence_coverage'', ''metadata_fingerprints'',
     ''graph_profile'', ''graph_feature_vector'', ''trusted_seeds'', ''adversarial_seeds'', ''trusted_seed_governance'', ''adversarial_seed_governance'',
     ''event_receivers'', ''sybil_assessment'', ''sybil_profile'', ''drift_report'', ''drift_feature_history'', ''drift_cohort_baseline_components'',
     ''zk_proofs'', ''zk_circuit_manifests'', ''zk_verification_key_registry'', ''delegations'', ''delegation_policies'', ''agent_actions'', ''audit_findings'',
     ''consistency_proofs'', ''non_membership_proofs'', ''governance_policy'', ''message_disclosure'', ''disclosure_consents'']"

definition fieldConflict :: "VerifyTSLInput \<Rightarrow> ProofBundleV1 \<Rightarrow> string \<Rightarrow> bool" where
  "fieldConflict inp b field = (case (map_of (VerifyTSLInput_obj inp) field, map_of (ProofBundleV1_obj b) field) of
       (Some l, Some r) \<Rightarrow> \<not> sameCanonical l r | _ \<Rightarrow> False)"

text \<open>
  The spread of the entries of the bundle that are not \<^verbatim>\<open>null\<close>, then of the input: the input comes first, field by field. The envelope of the input is
  always present.
\<close>

definition mergeBundle :: "VerifyTSLInput \<Rightarrow> ProofBundleV1 \<Rightarrow> VerifyTSLInput" where
  "mergeBundle inp b =
     \<lparr>vi_proof_bundle = Some b, vi_envelope = vi_envelope inp, vi_proof = Some (orElse (vi_proof inp) (pb_proof b)),
       vi_receipt_proofs = vi_receipt_proofs inp, vi_checkpoint = Some (orElse (vi_checkpoint inp) (pb_checkpoint b)),
       vi_receipts = orFrom (vi_receipts inp) (pb_receipts b), vi_attestations = orFrom (vi_attestations inp) (pb_attestations b),
       vi_attestations_v2 = orFrom (vi_attestations_v2 inp) (pb_attestations_v2 b),
       vi_receipt_disputes = orFrom (vi_receipt_disputes inp) (pb_receipt_disputes b), vi_revocations = orFrom (vi_revocations inp) (pb_revocations b),
       vi_settlement_evidence = orFrom (vi_settlement_evidence inp) (pb_settlement_evidence b),
       vi_assessment = orFrom (vi_assessment inp) (Option.bind (pb_assessment b) (\<lambda>v. v)),
       vi_assessment_v2 = orFrom (vi_assessment_v2 inp) (Option.bind (pb_assessment_v2 b) (\<lambda>v. v)),
       vi_scoring_profile = orFrom (vi_scoring_profile inp) (pb_scoring_profile b), vi_domain_policy = orFrom (vi_domain_policy inp) (pb_domain_policy b),
       vi_evidence_coverage = orFrom (vi_evidence_coverage inp) (pb_evidence_coverage b),
       vi_feature_registry = orFrom (vi_feature_registry inp) (pb_feature_registry b),
       vi_normalization_profile = orFrom (vi_normalization_profile inp) (pb_normalization_profile b),
       vi_weight_profile = orFrom (vi_weight_profile inp) (pb_weight_profile b),
       vi_calibration_profile = orFrom (vi_calibration_profile inp) (pb_calibration_profile b),
       vi_confidence_profile = orFrom (vi_confidence_profile inp) (pb_confidence_profile b),
       vi_provider_governance_status = orFrom (vi_provider_governance_status inp) (pb_provider_governance_status b),
       vi_metadata_fingerprints = orFrom (vi_metadata_fingerprints inp) (pb_metadata_fingerprints b),
       vi_graph_profile = orFrom (vi_graph_profile inp) (pb_graph_profile b),
       vi_graph_feature_vector = orFrom (vi_graph_feature_vector inp) (pb_graph_feature_vector b),
       vi_trusted_seeds = orFrom (vi_trusted_seeds inp) (pb_trusted_seeds b),
       vi_adversarial_seeds = orFrom (vi_adversarial_seeds inp) (pb_adversarial_seeds b),
       vi_trusted_seed_governance = orFrom (vi_trusted_seed_governance inp) (pb_trusted_seed_governance b),
       vi_adversarial_seed_governance = orFrom (vi_adversarial_seed_governance inp) (pb_adversarial_seed_governance b),
       vi_event_receivers = orFrom (vi_event_receivers inp) (pb_event_receivers b),
       vi_sybil_assessment = orFrom (vi_sybil_assessment inp) (pb_sybil_assessment b), vi_sybil_profile = orFrom (vi_sybil_profile inp) (pb_sybil_profile b),
       vi_drift_report = orFrom (vi_drift_report inp) (pb_drift_report b),
       vi_drift_feature_history = orFrom (vi_drift_feature_history inp) (pb_drift_feature_history b),
       vi_drift_cohort_baseline_components = orFrom (vi_drift_cohort_baseline_components inp) (pb_drift_cohort_baseline_components b),
       vi_zk_proofs = orFrom (vi_zk_proofs inp) (pb_zk_proofs b), vi_zk_circuit_manifests = orFrom (vi_zk_circuit_manifests inp) (pb_zk_circuit_manifests b),
       vi_zk_verification_key_registry = orFrom (vi_zk_verification_key_registry inp) (pb_zk_verification_key_registry b),
       vi_delegations = orFrom (vi_delegations inp) (pb_delegations b),
       vi_delegation_policies = orFrom (vi_delegation_policies inp) (pb_delegation_policies b),
       vi_agent_actions = orFrom (vi_agent_actions inp) (pb_agent_actions b), vi_audit_findings = orFrom (vi_audit_findings inp) (pb_audit_findings b),
       vi_consistency_proofs = orFrom (vi_consistency_proofs inp) (pb_consistency_proofs b),
       vi_non_membership_proofs = orFrom (vi_non_membership_proofs inp) (pb_non_membership_proofs b),
       vi_governance_policy = orFrom (vi_governance_policy inp) (pb_governance_policy b),
       vi_redaction_manifest = Some (orElse (vi_redaction_manifest inp) (pb_redaction_manifest b)),
       vi_message_disclosure = orFrom (vi_message_disclosure inp) (pb_message_disclosure b),
       vi_disclosure_consents = orFrom (vi_disclosure_consents inp) (pb_disclosure_consents b)\<rparr>"

definition expandProofBundleInput :: "VerifyTSLInput \<Rightarrow> VerifyTSLInput \<times> string list" where
  "expandProofBundleInput inp = (case vi_proof_bundle inp of
       None \<Rightarrow> (inp, [])
     | Some b \<Rightarrow> (mergeBundle inp b, map (\<lambda>_. ''TSL_PROOF_BUNDLE_FIELD_CONFLICT'') (filter (fieldConflict inp b) conflictFields)))"

section \<open>The redaction manifest\<close>

definition someList :: "('a \<Rightarrow> bool) \<Rightarrow> 'a list option \<Rightarrow> bool" where
  "someList p xs = (case xs of None \<Rightarrow> False | Some ys \<Rightarrow> list_ex p ys)"

definition restrictedAttestations :: "VerifyTSLInput \<Rightarrow> bool" where
  "restrictedAttestations inp \<longleftrightarrow> someList (\<lambda>a. att_visibility a \<noteq> ''public'') (vi_attestations inp) \<or> someList (\<lambda>a. at2_visibility a \<noteq> ''public'') (vi_attestations_v2 inp)"

definition privateGraph :: "VerifyTSLInput \<Rightarrow> bool" where
  "privateGraph inp = (case vi_graph_feature_vector inp of None \<Rightarrow> False | Some v \<Rightarrow> gv_privacy_disclosure_level v \<notin> {''aggregate_only'', ''public''})"

definition privateMetadata :: "VerifyTSLInput \<Rightarrow> bool" where
  "privateMetadata inp = someList (\<lambda>f. mf_scope_class f \<noteq> ''public_commitment'') (vi_metadata_fingerprints inp)"

definition actualRedactionState :: "VerifyTSLInput \<Rightarrow> RedactionManifest" where
  "actualRedactionState inp =
     (let rawContent = (Option.bind (vi_message_disclosure inp) md_raw_message \<noteq> None);
          contentSalt = (Option.bind (vi_message_disclosure inp) md_content_salt \<noteq> None);
          exactCounterparties = truthyList (vi_receipts inp);
          redacted = (if rawContent then [] else [''raw_content'']) @ (if contentSalt then [] else [''content_salt''])
            @ (if exactCounterparties then [] else [''exact_counterparties'']) @ (if restrictedAttestations inp then [] else [''restricted_attestations''])
            @ (if privateGraph inp then [] else [''private_graph'']) @ (if privateMetadata inp then [] else [''private_metadata''])
            @ (if vi_proof_bundle inp = None then [] else [''platform'', ''ip_address'', ''user_agent''])
      in \<lparr>rm_raw_content_included = rawContent, rm_content_salt_included = Some contentSalt, rm_exact_counterparties_included = exactCounterparties,
          rm_metadata_fields_redacted = sort redacted\<rparr>)"

definition redactionManifestMatches :: "VerifyTSLInput \<Rightarrow> bool" where
  "redactionManifestMatches inp = (case vi_redaction_manifest inp of
       None \<Rightarrow> \<not> (vi_proof_bundle inp \<noteq> None \<or> truthyList (vi_receipts inp) \<or> vi_message_disclosure inp \<noteq> None \<or> restrictedAttestations inp)
     | Some m \<Rightarrow> (let actual = actualRedactionState inp in
         rm_raw_content_included m = rm_raw_content_included actual
         \<and> (rm_content_salt_included m = None \<or> rm_content_salt_included m = rm_content_salt_included actual)
         \<and> rm_exact_counterparties_included m = rm_exact_counterparties_included actual
         \<and> sort (remdups (rm_metadata_fields_redacted m)) = sort (remdups (rm_metadata_fields_redacted actual))))"

section \<open>Checkpoints and settlement evidence\<close>

definition checkpointRootForKind :: "BatchCheckpointV1 \<Rightarrow> string \<Rightarrow> string option" where
  "checkpointRootForKind c kind =
     (if kind = ''event'' then Some (bc_event_root c) else if kind = ''receipt'' then Some (bc_receipt_root c)
      else if kind = ''attestation'' then Some (bc_attestation_root c) else if kind = ''revocation'' then Some (bc_revocation_root c) else None)"

definition settlementEventHash :: "env \<Rightarrow> SettlementEvidenceV1 \<Rightarrow> string res" where
  "settlementEventHash E e = sha256OfJson E (JObj
     [(''chain_id'', JNum (JInt (se_chain_id e))), (''contract_address'', JStr (toLowerCase (se_contract_address e))),
      (''checkpoint_identity_hash'', JStr (se_checkpoint_identity_hash e)),
      (''contract_checkpoint_fields_hash'', JStr (se_contract_checkpoint_fields_hash e)),
      (''settlement_tx'', JStr (toLowerCase (se_settlement_tx e))), (''transaction_receipt_hash'', undefStr (se_transaction_receipt_hash e)),
      (''block_hash'', undefStr (se_block_hash e)), (''block_number'', undefInt (se_block_number e)),
      (''receipt_root'', undefStr (se_receipt_root e)), (''transaction_index'', undefInt (se_transaction_index e)),
      (''receipt_status'', undefStr (se_receipt_status e)), (''settlement_event_index'', undefInt (se_settlement_event_index e)),
      (''event_topic_hash'', undefStr (se_event_topic_hash e)), (''log_index'', undefInt (se_log_index e)),
      (''submitter'', JStr (toLowerCase (se_submitter e)))])"

definition receiptProofPresent :: "SettlementEvidenceV1 \<Rightarrow> bool" where
  "receiptProofPresent e \<longleftrightarrow>
     se_receipt_status e = Some ''success'' \<and> truthyStr (se_transaction_receipt_hash e) \<and> truthyStr (se_block_hash e) \<and> se_block_number e \<noteq> None
     \<and> truthyStr (se_receipt_root e) \<and> se_transaction_index e \<noteq> None \<and> truthyStr (se_event_topic_hash e) \<and> se_log_index e \<noteq> None
     \<and> truthyStr (se_finality_source_commitment e) \<and> truthyStr (se_chain_proof_commitment e) \<and> se_settlement_tx e \<noteq> []"

text \<open>The body of the loop over the evidence: \<open>None\<close> if the entry is accepted, else the code that becomes \<^verbatim>\<open>lastError\<close>.\<close>

definition evidenceError ::
    "env \<Rightarrow> eth \<Rightarrow> rlp \<Rightarrow> VerifierPolicy \<Rightarrow> BatchCheckpointV1 \<Rightarrow> string \<Rightarrow> string \<Rightarrow> SettlementEvidenceV1 \<Rightarrow> string option res" where
  "evidenceError E X R policy c h fieldsHash e =
     (if \<not> sv_valid (validateSchema E ''settlementEvidenceV1'' (JObj (SettlementEvidenceV1_obj e))) then Inr (Some ''TSL_SETTLEMENT_EVIDENCE_INVALID'')
      else case verifyOfflineSettlementEvidence E X R e c h fieldsHash (Some policy) of
        Some code \<Rightarrow> Inr (Some code)
      | None \<Rightarrow>
        let offline = (se_evidence_kind e = ''offline_receipt_log_proof'');
            identityMatches = (se_checkpoint_hash e = h \<and> se_checkpoint_identity_hash e = h);
            fieldsHashMatches = (se_contract_checkpoint_fields_hash e = fieldsHash
               \<and> (se_contract_checkpoint_hash e = None \<or> se_contract_checkpoint_hash e = Some fieldsHash));
            backendMatches = (\<not> truthyStr (bc_settlement_backend c) \<or> Some (se_settlement_backend e) = bc_settlement_backend c)
        in bindE (if offline then offlineSettlementEventHash E e
                  else if truthyStr (se_settlement_event_hash e) then bindE (settlementEventHash E e) (\<lambda>x. Inr (Some x)) else Inr None) (\<lambda>eventHash.
           bindE (if truthyStr (se_receipt_proof_source_commitment e)
                  then bindE (chainProofCommitment E e) (\<lambda>x. Inr (se_chain_proof_commitment e = Some x)) else Inr False) (\<lambda>proofCommitmentMatches.
           bindE (if offline then receiptProofSourceCommitment E e else Inr None) (\<lambda>source.
             let eventHashMatches = (truthyStr eventHash \<and> se_settlement_event_hash e = eventHash);
                 offlineProofMatches = (\<not> offline \<or> truthyStr (se_block_header_rlp e) \<and> truthyStr (se_receipt_rlp e) \<and> truthyList (se_receipt_proof_nodes e)
                   \<and> se_finality_proof e \<noteq> None \<and> se_receipt_proof_source_commitment e = source
                   \<and> se_finality_source_commitment e = map_option fp_source_commitment (se_finality_proof e))
             in Inr (if identityMatches \<and> fieldsHashMatches \<and> backendMatches \<and> eventHashMatches \<and> proofCommitmentMatches \<and> offlineProofMatches
                        \<and> se_status e = ''settled'' \<and> receiptProofPresent e
                     then None else Some ''TSL_SETTLEMENT_EVIDENCE_INVALID'')))))"

fun firstAccepted :: "('a \<Rightarrow> string option res) \<Rightarrow> 'a list \<Rightarrow> string \<Rightarrow> string option res" where
  "firstAccepted f [] lastError = Inr (Some lastError)"
| "firstAccepted f (x # xs) lastError = bindE (f x) (\<lambda>r. case r of None \<Rightarrow> Inr None | Some code \<Rightarrow> firstAccepted f xs code)"

definition settlementEvidenceMatchesCheckpoint ::
    "env \<Rightarrow> eth \<Rightarrow> rlp \<Rightarrow> VerifyTSLInput \<Rightarrow> string \<Rightarrow> VerifierPolicy \<Rightarrow> string option res" where
  "settlementEvidenceMatchesCheckpoint E X R inp h policy = (case vi_checkpoint inp of
       None \<Rightarrow> Inr (Some ''TSL_SETTLEMENT_EVIDENCE_INVALID'')
     | Some c \<Rightarrow>
       if \<not> truthyList (vi_settlement_evidence inp) then Inr (Some ''TSL_SETTLEMENT_EVIDENCE_INVALID'')
       else bindE (contractCheckpointFieldsHashForCheckpoint E X c) (\<lambda>fieldsHash.
         firstAccepted (evidenceError E X R policy c h fieldsHash) (the (vi_settlement_evidence inp)) ''TSL_SETTLEMENT_EVIDENCE_INVALID''))"

lemma firstAccepted_None: "firstAccepted f xs lastError = Inr None \<Longrightarrow> \<exists>x \<in> set xs. f x = Inr None"
proof (induction xs arbitrary: lastError)
  case (Cons x xs)
  then obtain r where "f x = Inr r" "(case r of None \<Rightarrow> Inr None | Some code \<Rightarrow> firstAccepted f xs code) = Inr None"
    by (auto simp: bindE_eq_Inr)
  with Cons.IH show ?case by (cases r) auto
qed simp

section \<open>Disclosure consents\<close>

definition consentApplies :: "env \<Rightarrow> VerifyTSLInput \<Rightarrow> VerifierPolicy \<Rightarrow> string list \<Rightarrow> int option \<Rightarrow> DisclosureConsentV1 \<Rightarrow> bool" where
  "consentApplies E inp policy fieldClasses at_ms k \<longleftrightarrow>
     sv_valid (validateSchema E ''disclosureConsentV1'' (JObj (DisclosureConsentV1_obj k))) \<and> dc_subject k = ev_sender (vi_envelope inp)
     \<and> \<not> dateLt at_ms (dateParse E (dc_issued_at k)) \<and> \<not> dateLe (dateParse E (dc_expires_at k)) at_ms
     \<and> Some (dc_verifier_or_provider k) = po_verifier_or_provider policy \<and> Some (dc_purpose k) = po_disclosure_purpose policy
     \<and> dc_revocation_pointer k \<notin> set (orElse (po_revoked_disclosure_pointers policy) [])
     \<and> list_all (\<lambda>f. f \<in> set (dc_allowed_field_classes k) \<and> f \<notin> set (dc_forbidden_field_classes k)) fieldClasses"

fun anyConsent :: "env \<Rightarrow> resolver \<Rightarrow> VerifyTSLInput \<Rightarrow> VerifierPolicy \<Rightarrow> string list \<Rightarrow> int option \<Rightarrow> DisclosureConsentV1 list \<Rightarrow> bool res" where
  "anyConsent E resolve inp policy fieldClasses at_ms [] = Inr False"
| "anyConsent E resolve inp policy fieldClasses at_ms (k # ks) =
     (if \<not> consentApplies E inp policy fieldClasses at_ms k then anyConsent E resolve inp policy fieldClasses at_ms ks
      else bindE (resolve (dc_subject k) (Some (dc_issued_at k))) (\<lambda>identity.
           bindE (edSigned E (activeUnrevokedKey E (dc_issued_at k) identity) (disclosureConsentV1Hash E k) (dc_signature k)) (\<lambda>signed.
             if signed then Inr True else anyConsent E resolve inp policy fieldClasses at_ms ks)))"

definition disclosureConsentAllows :: "env \<Rightarrow> resolver \<Rightarrow> VerifyTSLInput \<Rightarrow> VerifierPolicy \<Rightarrow> string list \<Rightarrow> bool res" where
  "disclosureConsentAllows E resolve inp policy fieldClasses =
     (if \<not> truthyStr (po_verifier_or_provider policy) \<or> \<not> truthyStr (po_disclosure_purpose policy) then Inr False
      else bindE (nowIso E (orFrom (po_disclosure_checked_at policy) (map_option pb_created_at (vi_proof_bundle inp)))) (\<lambda>t.
        anyConsent E resolve inp policy fieldClasses (dateParse E t) (orElse (vi_disclosure_consents inp) [])))"

text \<open>A consent that counts is signed by a key of the subject and covers every class of fields.\<close>

definition consentGiven :: "env \<Rightarrow> resolver \<Rightarrow> VerifyTSLInput \<Rightarrow> VerifierPolicy \<Rightarrow> string list \<Rightarrow> bool" where
  "consentGiven E resolve inp policy fieldClasses \<longleftrightarrow>
     (\<exists>k at_ms d key h. k \<in> set (orElse (vi_disclosure_consents inp) []) \<and> consentApplies E inp policy fieldClasses at_ms k
        \<and> resolve (dc_subject k) (Some (dc_issued_at k)) = Inr (Some d) \<and> key \<in> set (idd_verification_methods d) \<and> keyActiveAt E (Some key) (dc_issued_at k)
        \<and> disclosureConsentV1Hash E k = Inr h \<and> verifyEd25519 E (vm_public_key key) (DText h) (dc_signature k) = Inr True)"

lemma anyConsent_True:
  assumes "anyConsent E resolve inp policy fieldClasses at_ms ks = Inr True" "set ks \<subseteq> set (orElse (vi_disclosure_consents inp) [])"
  shows "consentGiven E resolve inp policy fieldClasses"
  using assms
proof (induction ks)
  case (Cons k ks)
  show ?case
  proof (cases "consentApplies E inp policy fieldClasses at_ms k")
    case True
    obtain identity b where i: "resolve (dc_subject k) (Some (dc_issued_at k)) = Inr identity"
       "edSigned E (activeUnrevokedKey E (dc_issued_at k) identity) (disclosureConsentV1Hash E k) (dc_signature k) = Inr b"
      using Cons.prems(1) True by (auto simp: bindE_eq_Inr)
    show ?thesis
    proof (cases b)
      case True
      then show ?thesis using i Cons.prems(2) \<open>consentApplies E inp policy fieldClasses at_ms k\<close>
        by (auto simp: edSigned_True consentGiven_def dest!: activeUnrevokedKey_Some)
    qed (use Cons i True in \<open>auto simp: bindE_eq_Inr\<close>)
  qed (use Cons in auto)
qed simp

lemma disclosureConsentAllows_True:
  "disclosureConsentAllows E resolve inp policy fieldClasses = Inr True \<Longrightarrow> consentGiven E resolve inp policy fieldClasses"
  by (auto simp: disclosureConsentAllows_def bindE_eq_Inr split: if_split_asm intro: anyConsent_True)

section \<open>Seed governance\<close>

definition unsignedObjectHash :: "env \<Rightarrow> jsobj \<Rightarrow> string res" where
  "unsignedObjectHash E x = sha256OfJson E (JObj (withoutSignature x))"

definition seedGovernanceProfileHash :: "env \<Rightarrow> SeedGovernanceProfileV1 \<Rightarrow> string res" where
  "seedGovernanceProfileHash E p = sha256OfJson E (JObj (withoutSignature (SeedGovernanceProfileV1_obj p)))"

definition seedCommitment :: "env \<Rightarrow> string list \<Rightarrow> string res" where
  "seedCommitment E seeds = sha256OfJson E (JArr (map JStr (sort seeds)))"

definition seedGovernanceProfileValid ::
    "env \<Rightarrow> resolver \<Rightarrow> SeedGovernanceProfileV1 option \<Rightarrow> string \<Rightarrow> string list \<Rightarrow> string option \<Rightarrow> string option \<Rightarrow> bool res" where
  "seedGovernanceProfileValid E resolve profile expectedClass seeds expectedSeedCommitment expectedGovernanceCommitment = (case profile of
       None \<Rightarrow> Inr False
     | Some p \<Rightarrow>
       if sg_seed_class p \<noteq> expectedClass \<or> sg_review_state p \<noteq> ''approved'' then Inr False
       else if \<not> sv_valid (validateSchema E ''seedGovernanceProfileV1'' (JObj (SeedGovernanceProfileV1_obj p))) then Inr False
       else bindE (seedCommitment E seeds) (\<lambda>commitment.
         if sg_seed_set_commitment p \<noteq> commitment \<or> expectedSeedCommitment \<noteq> Some commitment then Inr False
         else bindE (if truthyStr expectedGovernanceCommitment
                     then bindE (seedGovernanceProfileHash E p) (\<lambda>h. Inr (expectedGovernanceCommitment = Some h)) else Inr True) (\<lambda>governed.
           if \<not> governed \<or> \<not> truthyStr (sg_signature p) then Inr False
           else bindE (resolve (sg_issuer p) (Some (sg_reviewed_at p))) (\<lambda>issuer.
             edSigned E (activeUnrevokedKey E (sg_reviewed_at p) issuer) (seedGovernanceProfileHash E p) (the (sg_signature p))))))"

end
