(* ===== verification/Zk.thy ===== *)
theory Zk
  imports NonMembership
begin

text \<open>
  Zero-knowledge threshold proofs (\<^verbatim>\<open>src/packages/core-ts/src/zk.ts\<close>): the hash-only fixture proofs, the registry of circuits and the verification of
  Groth16 proofs. The pairing check of the package \<^verbatim>\<open>snarkjs\<close> is the function \<open>groth16Verify\<close> of a verification key, public signals and a
  proof. Building Groth16 proofs needs circuit files and is not modelled.
\<close>

section \<open>JavaScript helpers\<close>

text \<open>\<^verbatim>\<open>Boolean(v)\<close> and \<^verbatim>\<open>String(v)\<close>\<close>

definition jsTruthy :: "jsval \<Rightarrow> bool" where
  "jsTruthy v = (case v of JUndefined \<Rightarrow> False | JNull \<Rightarrow> False | JBool b \<Rightarrow> b
     | JNum n \<Rightarrow> (case n of JInt i \<Rightarrow> i \<noteq> 0 | JNegZero \<Rightarrow> False | JNonInteger t \<Rightarrow> t \<noteq> ''null'') | JStr s \<Rightarrow> s \<noteq> [] | _ \<Rightarrow> True)"

lemma jsTruthy_object: "jsTruthy v \<Longrightarrow> v \<noteq> JNull \<and> v \<noteq> JUndefined"
  by (auto simp: jsTruthy_def)

fun jsString :: "jsval \<Rightarrow> string" where
  "jsString (JStr s) = s"
| "jsString (JNum n) = (case n of JInt i \<Rightarrow> string_of_int i | JNegZero \<Rightarrow> ''0'' | JNonInteger t \<Rightarrow> t)"
| "jsString (JBool b) = (if b then ''true'' else ''false'')"
| "jsString JNull = ''null''"
| "jsString JUndefined = ''undefined''"
| "jsString (JArr xs) = joinStr '','' (map (\<lambda>x. if x = JNull \<or> x = JUndefined then [] else jsString x) xs)"
| "jsString (JObj kvs) = ''[object Object]''"
| "jsString (JOther t) = t"

fun findE :: "('a \<Rightarrow> bool res) \<Rightarrow> 'a list \<Rightarrow> 'a option res" where
  "findE p [] = Inr None"
| "findE p (x # xs) = bindE (p x) (\<lambda>b. if b then Inr (Some x) else findE p xs)"

lemma findE_Some: "findE p xs = Inr (Some x) \<Longrightarrow> x \<in> set xs \<and> p x = Inr True"
  by (induction xs) (auto simp: bindE_eq_Inr split: if_split_asm)

section \<open>Building and hashing\<close>

record BuildThresholdProofInput =
  bt_claim :: string
  bt_subject :: string
  bt_value :: int
  bt_threshold :: int
  bt_witness_salt :: string
  bt_issued_at :: "string option"

definition bn254Field :: int where
  "bn254Field = 21888242871839275222246405745257275088548364400416034343698204186575808495617"

definition subjectHashField :: "env \<Rightarrow> string \<Rightarrow> string res" where
  "subjectHashField E subject = bindE (bigInt (sha256Hex E (DText subject))) (\<lambda>digest. Inr (string_of_int (digest mod bn254Field)))"

definition publicInput :: "string \<Rightarrow> string \<Rightarrow> int \<Rightarrow> string \<Rightarrow> jsobj" where
  "publicInput claim subject threshold witness = [(''claim'', JStr claim), (''subject'', JStr subject), (''threshold'', JNum (JInt threshold)),
     (''witness_commitment'', JStr witness)]"

definition buildThresholdProof :: "env \<Rightarrow> BuildThresholdProofInput \<Rightarrow> ZkThresholdProofV1 res" where
  "buildThresholdProof E inp =
     (if \<not> isSafeInteger (bt_value inp) \<or> bt_value inp < 0 then Inl ''TSL_ZK_VALUE_INVALID''
      else if \<not> isSafeInteger (bt_threshold inp) \<or> bt_threshold inp < 0 then Inl ''TSL_ZK_THRESHOLD_INVALID''
      else if bt_value inp < bt_threshold inp then Inl ''TSL_ZK_THRESHOLD_NOT_MET''
      else bindE (domainHash E ZK_THRESHOLD_V1 [(''claim'', JStr (bt_claim inp)), (''subject'', JStr (bt_subject inp)),
                   (''value'', JNum (JInt (bt_value inp))), (''salt'', JStr (bt_witness_salt inp))]) (\<lambda>witness.
           bindE (domainHash E ZK_THRESHOLD_V1 (publicInput (bt_claim inp) (bt_subject inp) (bt_threshold inp) witness)) (\<lambda>publicHash.
           bindE (domainHash E ZK_THRESHOLD_V1 [(''public_input_hash'', JStr publicHash), (''value'', JNum (JInt (bt_value inp))),
                   (''salt'', JStr (bt_witness_salt inp))]) (\<lambda>pf.
           bindE (issuedAt E (bt_issued_at inp)) (\<lambda>issued_at.
             Inr \<lparr>zk_type = ''tsl.zk.threshold_proof.v1'', zk_claim = bt_claim inp, zk_subject = bt_subject inp, zk_threshold = bt_threshold inp,
               zk_witness_commitment = witness, zk_public_input_hash = publicHash, zk_proof = pf, zk_circuit_id = None, zk_verification_key_id = None,
               zk_public_signal_commitment = None, zk_release_manifest_hash = None, zk_groth16 = None, zk_issued_at = issued_at\<rparr>)))))"

definition publicSignalCommitment :: "env \<Rightarrow> string list \<Rightarrow> string res" where
  "publicSignalCommitment E signals =
     bindE (canonicalBytes (JArr (map JStr signals))) (\<lambda>b. Inr (hashDomain E ZK_THRESHOLD_V1 (DBytes b)))"

definition zkCircuitReleaseManifestHash :: "env \<Rightarrow> ZkCircuitReleaseManifestV1 \<Rightarrow> string res" where
  "zkCircuitReleaseManifestHash E m = domainHash E ''tsl.zk.circuit_release_manifest.v1'' (ZkCircuitReleaseManifestV1_obj m)"

definition zkVerificationKeyRegistryHash :: "env \<Rightarrow> ZkVerificationKeyRegistryV1 \<Rightarrow> string res" where
  "zkVerificationKeyRegistryHash E r = domainHash E ''tsl.zk.verification_key_registry.v1'' (ZkVerificationKeyRegistryV1_obj r)"

definition zkVerificationKeyObjectHash :: "env \<Rightarrow> jsval \<Rightarrow> string res" where
  "zkVerificationKeyObjectHash E key = bindE (canonicalBytes key) (\<lambda>b. Inr (sha256Hex E (DBytes b)))"

section \<open>Registered circuits\<close>

definition manifestFits :: "env \<Rightarrow> ZkThresholdProofV1 \<Rightarrow> ZkCircuitReleaseManifestV1 \<Rightarrow> bool res" where
  "manifestFits E pf m = bindE (zkCircuitReleaseManifestHash E m) (\<lambda>h. Inr
     (zm_claim m = zk_claim pf \<and> Some (zm_circuit_id m) = zk_circuit_id pf \<and> Some (zm_verification_key_id m) = zk_verification_key_id pf
      \<and> Some h = zk_release_manifest_hash pf))"

definition manifestForProof :: "env \<Rightarrow> ZkThresholdProofV1 \<Rightarrow> ZkCircuitReleaseManifestV1 list option \<Rightarrow> ZkCircuitReleaseManifestV1 option res" where
  "manifestForProof E pf manifests = (case manifests of None \<Rightarrow> Inr None | Some ms \<Rightarrow> findE (manifestFits E pf) ms)"

definition isDevCircuitId :: "string option \<Rightarrow> bool" where
  "isDevCircuitId circuitId \<longleftrightarrow>
     \<not> truthyStr circuitId \<or> startsWith (the circuitId) ''dev_'' \<or> includesSub (the circuitId) '':dev'' \<or> includesSub (the circuitId) ''fixture''
     \<or> includesSub (the circuitId) ''prototype''
     \<or> the circuitId \<in> {''identity-age-threshold-v1'', ''reciprocal-receipt-count-threshold-v1'', ''revocation-set-non-membership-v1'',
                        ''agent-scope-compliance-v1''}"

definition REQUIRED_WITNESS_FIELDS :: "(string \<times> string list list) list" where
  "REQUIRED_WITNESS_FIELDS =
     [(''identity_age_days'', [[''creation_proof'', ''creation_epoch_day''], [''salt'', ''registry_salt''], [''registry_path'', ''registry_siblings'']]),
      (''reciprocal_receipt_count'', [[''receipt_leaves''], [''counterparty_salts'', ''receipt_salts''], [''counterparties'', ''counterparty_commitments''],
         [''merkle_paths'', ''receipt_siblings'']]),
      (''dispute_rate_bound'', [[''completed_receipt_leaves'', ''completed_leaves''], [''disputed_receipt_leaves'', ''disputed_leaves''],
         [''merkle_paths'', ''completed_siblings'']]),
      (''set_membership'', [[''membership_leaf'', ''membership_salt''], [''salt'', ''membership_salt''], [''merkle_path'', ''membership_siblings'']]),
      (''revocation_set_non_membership'', [[''sparse_merkle_non_membership_path'', ''sibling_path''], [''leaf_index'', ''sparse_leaf_index''], [''value_commitment'']]),
      (''organization_membership'', [[''attestation_witness'', ''attestation_siblings''], [''issuer_path'', ''issuer_siblings'']]),
      (''agent_scope_compliance'', [[''parameter_values'', ''parameter_values_hash''], [''policy_witness'', ''policy_constraints_hash''],
         [''delegation_path'', ''delegation_siblings'']]),
      (''private_graph_distance'', [[''committed_local_neighborhood'', ''committed_local_neighborhood_root''], [''aggregate_proof'', ''aggregate_proof_commitment''],
         [''seed_commitments'', ''trusted_seed_commitment'']])]"

text \<open>The operator \<^verbatim>\<open>in\<close> throws if its right operand is not an object; an array has only index keys.\<close>

definition schemaKeys :: "jsval option \<Rightarrow> string list res" where
  "schemaKeys v = (case v of
       None \<Rightarrow> Inr [] | Some JNull \<Rightarrow> Inr [] | Some JUndefined \<Rightarrow> Inr [] | Some (JObj kvs) \<Rightarrow> Inr (map fst kvs) | Some (JArr xs) \<Rightarrow> Inr []
     | Some _ \<Rightarrow> Inl ''TypeError'')"

definition manifestDeclaresWitnessInterface :: "ZkCircuitReleaseManifestV1 \<Rightarrow> bool res" where
  "manifestDeclaresWitnessInterface m =
     (let required = orElse (map_of REQUIRED_WITNESS_FIELDS (zm_claim m)) [];
          schema = orElse (zm_private_witness_schema m) [];
          requiredList = (case map_of schema ''required'' of Some (JArr xs) \<Rightarrow> map jsString xs | _ \<Rightarrow> []) in
      if required = [] then Inr True
      else bindE (schemaKeys (map_of schema ''properties'')) (\<lambda>properties.
        Inr (list_all (list_ex (\<lambda>field. field \<in> set properties \<or> field \<in> set requiredList)) required)))"

definition registryAllows :: "ZkVerificationKeyRegistryV1 option \<Rightarrow> string \<Rightarrow> bool" where
  "registryAllows registry h \<longleftrightarrow>
     (case registry of None \<Rightarrow> False | Some r \<Rightarrow> h \<in> set (zr_active_manifest_hashes r) \<and> h \<notin> set (zr_revoked_manifest_hashes r))"

definition manifestReviewed :: "ZkThresholdProofV1 \<Rightarrow> ZkVerificationKeyRegistryV1 option \<Rightarrow> ZkCircuitReleaseManifestV1 \<Rightarrow> bool" where
  "manifestReviewed pf registry m \<longleftrightarrow>
     zm_status m = ''active'' \<and> \<not> isDevCircuitId (Some (zm_circuit_id m)) \<and> \<not> isDevCircuitId (zk_circuit_id pf)
     \<and> truthyStr (zm_signature m) \<and> truthyStr (Option.bind registry zr_signature)
     \<and> zm_signature_status m = ''externally_signed'' \<and> zr_signature_status (the registry) = ''externally_signed''
     \<and> zm_hash_suite m \<noteq> [] \<and> zm_witness_interface m \<noteq> []
     \<and> zm_public_signal_schema m \<noteq> None \<and> zm_private_witness_schema m \<noteq> None \<and> orElse (zm_soundness_bits m) 0 \<noteq> 0 \<and> truthyList (zm_privacy_notes m)
     \<and> 100 \<le> the (zm_soundness_bits m)"

definition zkProofUsesRegisteredCircuit ::
    "env \<Rightarrow> ZkThresholdProofV1 \<Rightarrow> ZkCircuitReleaseManifestV1 list option \<Rightarrow> ZkVerificationKeyRegistryV1 option \<Rightarrow> bool res" where
  "zkProofUsesRegisteredCircuit E pf manifests registry =
     bindE (manifestForProof E pf manifests) (\<lambda>found.
       case found of
         None \<Rightarrow> Inr False
       | Some m \<Rightarrow>
         if \<not> manifestReviewed pf registry m then Inr False
         else bindE (manifestDeclaresWitnessInterface m) (\<lambda>declared.
           if \<not> declared then Inr False
           else bindE (zkCircuitReleaseManifestHash E m) (\<lambda>h. Inr (registryAllows registry h))))"

section \<open>Verification\<close>

definition lowerHex32 :: "string \<Rightarrow> bool" where
  "lowerHex32 s \<longleftrightarrow> startsWith s ''0x'' \<and> length s = 66 \<and> list_all isHexDigitLower (drop 2 s)"

definition verifyThresholdProof :: "env \<Rightarrow> ZkThresholdProofV1 \<Rightarrow> bool res" where
  "verifyThresholdProof E pf =
     (if zk_type pf \<noteq> ''tsl.zk.threshold_proof.v1'' then Inr False
      else if \<not> isSafeInteger (zk_threshold pf) \<or> zk_threshold pf < 0 then Inr False
      else bindE (domainHash E ZK_THRESHOLD_V1 (publicInput (zk_claim pf) (zk_subject pf) (zk_threshold pf) (zk_witness_commitment pf))) (\<lambda>h.
        Inr (h = zk_public_input_hash pf \<and> lowerHex32 (zk_proof pf))))"

record ZkOptions =
  zo_require_registered_circuit :: "bool option"
  zo_require_manifest_verification_key_hash :: "bool option"
  zo_reject_dev_circuits :: "bool option"
  zo_manifests :: "ZkCircuitReleaseManifestV1 list option"
  zo_registry :: "ZkVerificationKeyRegistryV1 option"

definition unsafeZkFlags :: "string list" where
  "unsafeZkFlags = [''ALLOW_UNSAFE_ZK_HASH_FIXTURES'', ''ALLOW_UNSAFE_ZK_SYNTHETIC_RECEIPTS'', ''ALLOW_UNSAFE_ZK_UNSUPPORTED_CIRCUITS'']"

text \<open>The part for Groth16 proofs, from the commitment to the public signals on.\<close>

definition verifyGroth16 ::
    "env \<Rightarrow> (jsval \<Rightarrow> string list \<Rightarrow> jsval \<Rightarrow> bool res) \<Rightarrow> ZkThresholdProofV1 \<Rightarrow> ZkOptions \<Rightarrow> Groth16Artifact \<Rightarrow> bool res" where
  "verifyGroth16 E groth16Verify pf opts g =
     (let signals = g16_public_signals g; rejectDev = (zo_reject_dev_circuits opts = Some True);
          registered = (zo_require_registered_circuit opts = Some True);
          keyHash = (zo_require_manifest_verification_key_hash opts = Some True \<or> registered \<or> rejectDev);
          thresholdClaim = (zk_claim pf \<in> {''identity_age_days'', ''reciprocal_receipt_count''}) in
      bindE (if truthyStr (zk_public_signal_commitment pf)
             then bindE (publicSignalCommitment E signals) (\<lambda>c. Inr (Some c = zk_public_signal_commitment pf)) else Inr True) (\<lambda>committed.
      if \<not> committed then Inr False
      else bindE (manifestForProof E pf (zo_manifests opts)) (\<lambda>manifest.
      bindE (if registered \<or> rejectDev then zkProofUsesRegisteredCircuit E pf (zo_manifests opts) (zo_registry opts) else Inr True) (\<lambda>reg.
      if \<not> reg then Inr False
      else if rejectDev \<and> map_option zm_status manifest \<noteq> Some ''active'' then Inr False
      else if keyHash \<and> \<not> jsTruthy (orElse (Option.bind manifest zm_verification_key) JUndefined) then Inr False
      else let key = (case Option.bind manifest zm_verification_key of Some k \<Rightarrow> if k = JNull then the (g16_verification_key g) else k
                      | None \<Rightarrow> the (g16_verification_key g)) in
        bindE (if keyHash then bindE (zkVerificationKeyObjectHash E key) (\<lambda>h. Inr (map_option zm_verification_key_hash manifest = Some h)) else Inr True) (\<lambda>pinned.
        if \<not> pinned then Inr False
        else if \<not> thresholdClaim \<and> \<not> registered then Inr False
        else bindE (subjectHashField E (zk_subject pf)) (\<lambda>subjectHash.
          if subjectHash \<notin> set signals then Inr False
          else if thresholdClaim \<and> string_of_int (zk_threshold pf) \<notin> set signals then Inr False
          else groth16Verify key signals (g16_proof g)))))))"

definition verifyThresholdProofAsync ::
    "env \<Rightarrow> (jsval \<Rightarrow> string list \<Rightarrow> jsval \<Rightarrow> bool res) \<Rightarrow> ZkThresholdProofV1 \<Rightarrow> ZkOptions \<Rightarrow> bool res" where
  "verifyThresholdProofAsync E groth16Verify pf opts =
     (let rejectDev = (zo_reject_dev_circuits opts = Some True) in
      bindE (verifyThresholdProof E pf) (\<lambda>shape.
      if \<not> shape then Inr False
      else if rejectDev \<and> onMainnet E \<and> list_ex (envFlag E) unsafeZkFlags then Inr False
      else case zk_groth16 pf of
        None \<Rightarrow> Inr (envFlag E ''ALLOW_UNSAFE_ZK_HASH_FIXTURES'' \<and> \<not> (rejectDev \<and> onMainnet E))
      | Some g \<Rightarrow>
        if \<not> jsTruthy (orElse (g16_verification_key g) JUndefined) then Inr False
        else if rejectDev \<and> isDevCircuitId (zk_circuit_id pf) then Inr False
        else verifyGroth16 E groth16Verify pf opts g))"

section \<open>What an accepted proof shows\<close>

lemma manifestForProof_Some:
  assumes "manifestForProof E pf ms = Inr (Some m)"
  shows "m \<in> set (the ms) \<and> zm_claim m = zk_claim pf \<and> Some (zm_circuit_id m) = zk_circuit_id pf
     \<and> (\<exists>h. zkCircuitReleaseManifestHash E m = Inr h \<and> zk_release_manifest_hash pf = Some h)"
  using assms by (auto simp: manifestForProof_def manifestFits_def bindE_eq_Inr dest!: findE_Some split: option.split_asm)

lemma zkProofUsesRegisteredCircuit_True:
  assumes "zkProofUsesRegisteredCircuit E pf ms registry = Inr True"
  shows "\<exists>m h. manifestForProof E pf ms = Inr (Some m) \<and> manifestReviewed pf registry m \<and> zkCircuitReleaseManifestHash E m = Inr h \<and> registryAllows registry h"
proof -
  obtain found where f: "manifestForProof E pf ms = Inr found" using assms by (auto simp: zkProofUsesRegisteredCircuit_def bindE_eq_Inr)
  then show ?thesis
    using assms by (cases found) (auto simp: zkProofUsesRegisteredCircuit_def bindE_eq_Inr split: if_split_asm)
qed

text \<open>Under \<^verbatim>\<open>reject_dev_circuits\<close> the key comes from a reviewed manifest.\<close>

lemma verifyGroth16_production:
  assumes v: "verifyGroth16 E groth16Verify pf opts g = Inr True" and r: "zo_reject_dev_circuits opts = Some True"
  shows "\<exists>m h key subjectHash. manifestForProof E pf (zo_manifests opts) = Inr (Some m) \<and> manifestReviewed pf (zo_registry opts) m
     \<and> zkCircuitReleaseManifestHash E m = Inr h \<and> registryAllows (zo_registry opts) h
     \<and> zm_verification_key m = Some key \<and> zkVerificationKeyObjectHash E key = Inr (zm_verification_key_hash m)
     \<and> subjectHashField E (zk_subject pf) = Inr subjectHash \<and> subjectHash \<in> set (g16_public_signals g)
     \<and> (zk_claim pf \<in> {''identity_age_days'', ''reciprocal_receipt_count''} \<longrightarrow> string_of_int (zk_threshold pf) \<in> set (g16_public_signals g))
     \<and> groth16Verify key (g16_public_signals g) (g16_proof g) = Inr True"
proof -
  obtain manifest where m: "manifestForProof E pf (zo_manifests opts) = Inr manifest"
    and u: "zkProofUsesRegisteredCircuit E pf (zo_manifests opts) (zo_registry opts) = Inr True"
    using v r by (auto simp: verifyGroth16_def Let_def bindE_eq_Inr split: if_split_asm)
  obtain k h where k: "manifest = Some k" "manifestReviewed pf (zo_registry opts) k" "zkCircuitReleaseManifestHash E k = Inr h"
     "registryAllows (zo_registry opts) h"
    using zkProofUsesRegisteredCircuit_True [OF u] m by auto
  have "jsTruthy (orElse (zm_verification_key k) JUndefined)"
    using v r unfolding k(1) by (auto simp: verifyGroth16_def Let_def bindE_eq_Inr m k(1) u split: if_split_asm)
  then obtain key where key: "zm_verification_key k = Some key" "key \<noteq> JNull"
    by (cases "zm_verification_key k") (auto dest: jsTruthy_object)
  have "zkVerificationKeyObjectHash E key = Inr (zm_verification_key_hash k) \<and> (\<exists>s. subjectHashField E (zk_subject pf) = Inr s \<and> s \<in> set (g16_public_signals g))
     \<and> (zk_claim pf \<in> {''identity_age_days'', ''reciprocal_receipt_count''} \<longrightarrow> string_of_int (zk_threshold pf) \<in> set (g16_public_signals g))
     \<and> groth16Verify key (g16_public_signals g) (g16_proof g) = Inr True"
    using v r by (auto simp: verifyGroth16_def Let_def bindE_eq_Inr m u k(1) key split: if_split_asm)
  then show ?thesis using m k key(1) by auto
qed

lemma verifyThresholdProofAsync_parts:
  assumes "verifyThresholdProofAsync E groth16Verify pf opts = Inr True"
  shows "verifyThresholdProof E pf = Inr True \<and>
     (case zk_groth16 pf of
        None \<Rightarrow> envFlag E ''ALLOW_UNSAFE_ZK_HASH_FIXTURES'' \<and> \<not> (zo_reject_dev_circuits opts = Some True \<and> onMainnet E)
      | Some g \<Rightarrow> verifyGroth16 E groth16Verify pf opts g = Inr True)"
  using assms by (auto simp: verifyThresholdProofAsync_def Let_def bindE_eq_Inr split: if_split_asm option.split_asm)

section \<open>A concrete proof\<close>

definition demoManifest :: "string \<Rightarrow> ZkCircuitReleaseManifestV1" where
  "demoManifest keyHash = \<lparr>zm_type = ''tsl.zk.circuit_release_manifest.v1'', zm_circuit_id = ''age-v2'', zm_claim = ''identity_age_days'', zm_version = ''2'',
     zm_hash_suite = ''poseidon'', zm_witness_interface = ''v2'', zm_circuit_hash = ''0x01'', zm_r1cs_hash = ''0x02'', zm_wasm_hash = ''0x03'', zm_zkey_hash = ''0x04'',
     zm_verification_key_id = ''vk'', zm_verification_key_hash = keyHash, zm_verification_key = Some (JStr ''key''), zm_public_signal_schema = Some [],
     zm_private_witness_schema = Some [(''required'', JArr [JStr ''creation_proof'', JStr ''salt'', JStr ''registry_path''])], zm_soundness_bits = Some 128,
     zm_privacy_notes = Some [''n''], zm_ceremony_transcript_hash = ''0x05'', zm_auditor = ''a'', zm_reviewer = ''r'', zm_status = ''active'',
     zm_signature_status = ''externally_signed'', zm_issued_at = ''2026-01-01T00:00:00Z'', zm_signature = Some ''0x06''\<rparr>"

definition demoRegistry :: "string \<Rightarrow> ZkVerificationKeyRegistryV1" where
  "demoRegistry h = \<lparr>zr_type = ''tsl.zk.verification_key_registry.v1'', zr_registry_id = ''r'', zr_active_manifest_hashes = [h], zr_revoked_manifest_hashes = [],
     zr_issued_at = ''2026-01-01T00:00:00Z'', zr_signature_status = ''externally_signed'', zr_signature = Some ''0x07''\<rparr>"

definition demoZkProof :: "string \<Rightarrow> string \<Rightarrow> string \<Rightarrow> ZkThresholdProofV1" where
  "demoZkProof h publicHash subjectHash = \<lparr>zk_type = ''tsl.zk.threshold_proof.v1'', zk_claim = ''identity_age_days'', zk_subject = ''tsl:alice'', zk_threshold = 5,
     zk_witness_commitment = ''0x08'', zk_public_input_hash = publicHash, zk_proof = ''0x'' @ replicate 64 (CHR ''0''), zk_circuit_id = Some ''age-v2'',
     zk_verification_key_id = Some ''vk'', zk_public_signal_commitment = None, zk_release_manifest_hash = Some h,
     zk_groth16 = Some \<lparr>g16_protocol = ''groth16'', g16_curve = ''bn128'', g16_proof = JStr ''pf'', g16_public_signals = [subjectHash, string_of_int 5],
       g16_verification_key = Some (JStr ''other'')\<rparr>, zk_issued_at = ''2026-01-01T00:00:00Z''\<rparr>"

lemma demoZkProof_sel [simp]:
  "zk_claim (demoZkProof h p s) = ''identity_age_days''" "zk_subject (demoZkProof h p s) = ''tsl:alice''" "zk_threshold (demoZkProof h p s) = 5"
  "zk_circuit_id (demoZkProof h p s) = Some ''age-v2''" "zk_public_signal_commitment (demoZkProof h p s) = None"
  "zk_groth16 (demoZkProof h p s) = Some \<lparr>g16_protocol = ''groth16'', g16_curve = ''bn128'', g16_proof = JStr ''pf'',
     g16_public_signals = [s, string_of_int 5], g16_verification_key = Some (JStr ''other'')\<rparr>"
  by (simp_all add: demoZkProof_def)

lemma demoManifest_sel [simp]: "zm_status (demoManifest k) = ''active''" "zm_verification_key (demoManifest k) = Some (JStr ''key'')"
  "zm_verification_key_hash (demoManifest k) = k"
  by (simp_all add: demoManifest_def)

definition demoZkOptions :: "string \<Rightarrow> string \<Rightarrow> ZkOptions" where
  "demoZkOptions keyHash h = \<lparr>zo_require_registered_circuit = None, zo_require_manifest_verification_key_hash = None, zo_reject_dev_circuits = Some True,
     zo_manifests = Some [demoManifest keyHash], zo_registry = Some (demoRegistry h)\<rparr>"

definition demoGroth16 :: "jsval \<Rightarrow> string list \<Rightarrow> jsval \<Rightarrow> bool res" where
  "demoGroth16 key signals pf = Inr (key = JStr ''key'' \<and> pf = JStr ''pf'')"

lemma demoManifest_reviewed:
  "manifestReviewed (demoZkProof h p s) (Some (demoRegistry h)) (demoManifest k)" "manifestDeclaresWitnessInterface (demoManifest k) = Inr True"
  "registryAllows (Some (demoRegistry h)) h"
  by (simp_all add: manifestReviewed_def demoManifest_def demoZkProof_def demoRegistry_def isDevCircuitId_def startsWith_def manifestDeclaresWitnessInterface_def
      REQUIRED_WITNESS_FIELDS_def schemaKeys_def registryAllows_def)

lemma demoManifest_hash: "\<exists>h. zkCircuitReleaseManifestHash E (demoManifest k) = Inr h"
  by (simp add: zkCircuitReleaseManifestHash_def domainHash_defined ZkCircuitReleaseManifestV1_obj_def demoManifest_def optField_def isSafeInteger_def)

lemma digitIn_hex: "isHexDigitLower c \<Longrightarrow> \<exists>d. digitIn 16 c = Some d"
  by (auto simp: isHexDigitLower_def isDigit_def digitIn_def Let_def)

lemma digitsVal_hex: "list_all isHexDigitLower s \<Longrightarrow> \<exists>n. digitsVal 16 s acc = Some n"
  by (induction s arbitrary: acc) (auto dest!: digitIn_hex)

lemma trimStr_hex:
  assumes "list_all isHexDigitLower s"
  shows "trimStr (''0x'' @ s) = ''0x'' @ s"
proof -
  have sp: "\<not> isJsSpace c" if "isHexDigitLower c" for c
    using that by (auto simp: isHexDigitLower_def isDigit_def isJsSpace_def)
  have "\<not> isJsSpace (last (''0x'' @ s))"
    using assms sp by (cases s rule: rev_cases) (auto simp: isJsSpace_def)
  then have "dropWhile isJsSpace (rev (''0x'' @ s)) = rev (''0x'' @ s)"
    by (simp only: dropWhile_eq_self_iff hd_rev simp_thms)
  moreover have "dropWhile isJsSpace (''0x'' @ s) = ''0x'' @ s" by (simp add: isJsSpace_def)
  ultimately show ?thesis by (simp only: trimStr_def rev_rev_ident)
qed

lemma bigInt_sha256Hex:
  assumes "hex_codec E" "sha256_length E"
  shows "\<exists>i. bigInt (sha256Hex E d) = Inr i"
proof -
  let ?t = "nobleBytesToHex E (sha256Bytes E d)"
  have t: "list_all isHexDigitLower ?t" "?t \<noteq> []"
    using assms by (auto simp: hex_codec_def sha256_length_def sha256Bytes_def simp flip: length_0_conv)
  obtain n where "digitsVal 16 ?t 0 = Some n" using digitsVal_hex [OF t(1)] by blast
  then show ?thesis using trimStr_hex [OF t(1)] t(2) by (simp add: bigInt_def Let_def digits1_def sha256Hex_def bytesToHex_def)
qed

lemma subjectHash_total: "hex_codec E \<Longrightarrow> sha256_length E \<Longrightarrow> \<exists>s. subjectHashField E subject = Inr s"
  using bigInt_sha256Hex [of E "DText subject"] by (auto simp: subjectHashField_def)

section \<open>Properties\<close>

text \<open>
  C37: A production verifier, one that sets \<^verbatim>\<open>reject_dev_circuits\<close> on mainnet, accepts a threshold proof only if it is a Groth16 proof that the pairing check
  accepts under a verification key that the prover did not choose: the key is the one of a release manifest that is active, externally signed, of at least 100 bits,
  listed and not revoked in the registry, its hash is the one the manifest pins, and the subject of the proof and, for the threshold claims, the threshold are
  among the public signals. The hash-only fixture proofs are never accepted there.
\<close>

theorem verifyThresholdProofAsync_production:
  assumes "verifyThresholdProofAsync E groth16Verify pf opts = Inr True" "zo_reject_dev_circuits opts = Some True" "onMainnet E"
  shows "\<exists>g m h key subjectHash. zk_groth16 pf = Some g \<and> m \<in> set (the (zo_manifests opts)) \<and> zm_claim m = zk_claim pf
     \<and> manifestReviewed pf (zo_registry opts) m \<and> zkCircuitReleaseManifestHash E m = Inr h \<and> registryAllows (zo_registry opts) h
     \<and> zm_verification_key m = Some key \<and> zkVerificationKeyObjectHash E key = Inr (zm_verification_key_hash m)
     \<and> subjectHashField E (zk_subject pf) = Inr subjectHash \<and> subjectHash \<in> set (g16_public_signals g)
     \<and> (zk_claim pf \<in> {''identity_age_days'', ''reciprocal_receipt_count''} \<longrightarrow> string_of_int (zk_threshold pf) \<in> set (g16_public_signals g))
     \<and> groth16Verify key (g16_public_signals g) (g16_proof g) = Inr True"
proof -
  obtain g where g: "zk_groth16 pf = Some g" "verifyGroth16 E groth16Verify pf opts g = Inr True"
    using verifyThresholdProofAsync_parts [OF assms(1)] assms(2,3) by (auto split: option.split_asm)
  obtain m h key s where m: "manifestForProof E pf (zo_manifests opts) = Inr (Some m)" and rest: "manifestReviewed pf (zo_registry opts) m"
     "zkCircuitReleaseManifestHash E m = Inr h" "registryAllows (zo_registry opts) h" "zm_verification_key m = Some key"
     "zkVerificationKeyObjectHash E key = Inr (zm_verification_key_hash m)" "subjectHashField E (zk_subject pf) = Inr s" "s \<in> set (g16_public_signals g)"
     "zk_claim pf \<in> {''identity_age_days'', ''reciprocal_receipt_count''} \<longrightarrow> string_of_int (zk_threshold pf) \<in> set (g16_public_signals g)"
     "groth16Verify key (g16_public_signals g) (g16_proof g) = Inr True"
    using verifyGroth16_production [OF g(2) assms(2)] by (elim exE conjE) (rule that)
  show ?thesis using g(1) manifestForProof_Some [OF m] rest by (intro exI [of _ g] exI [of _ m] exI [of _ h] exI [of _ key] exI [of _ s]) simp
qed

definition demoMainnet :: env where
  "demoMainnet = demoEnv\<lparr>getenv := (\<lambda>n. if n = ''TSL_NETWORK'' then Some ''mainnet'' else None)\<rparr>"

lemma demoMainnet_hyps: "hex_codec demoMainnet" "sha256_length demoMainnet"
  using demo_hyps by (simp_all add: demoMainnet_def hex_codec_def sha256_length_def)

lemma demoZkProof_accepted:
  assumes m: "zkCircuitReleaseManifestHash demoMainnet (demoManifest k) = Inr h" and k: "zkVerificationKeyObjectHash demoMainnet (JStr ''key'') = Inr k"
    and s: "subjectHashField demoMainnet ''tsl:alice'' = Inr s"
    and p: "domainHash demoMainnet ZK_THRESHOLD_V1 (publicInput ''identity_age_days'' ''tsl:alice'' 5 ''0x08'') = Inr p"
  shows "verifyThresholdProofAsync demoMainnet demoGroth16 (demoZkProof h p s) (demoZkOptions k h) = Inr True"
proof -
  have f: "manifestForProof demoMainnet (demoZkProof h p s) (Some [demoManifest k]) = Inr (Some (demoManifest k))"
    using m by (simp add: manifestForProof_def manifestFits_def) (simp add: demoManifest_def demoZkProof_def)
  have u: "zkProofUsesRegisteredCircuit demoMainnet (demoZkProof h p s) (Some [demoManifest k]) (Some (demoRegistry h)) = Inr True"
    using m by (simp add: zkProofUsesRegisteredCircuit_def f demoManifest_reviewed)
  have v: "verifyThresholdProof demoMainnet (demoZkProof h p s) = Inr True"
    using p by (simp add: verifyThresholdProof_def demoZkProof_def isSafeInteger_def lowerHex32_def startsWith_def isHexDigitLower_def isDigit_def list_all_iff)
  have flags: "\<not> list_ex (envFlag demoMainnet) unsafeZkFlags" by (simp add: unsafeZkFlags_def envFlag_def demoMainnet_def)
  have "verifyGroth16 demoMainnet demoGroth16 (demoZkProof h p s) (demoZkOptions k h) (the (zk_groth16 (demoZkProof h p s))) = Inr True"
    using k s by (simp add: verifyGroth16_def demoZkOptions_def f u demoGroth16_def jsTruthy_def Let_def)
  then show ?thesis
    by (simp add: verifyThresholdProofAsync_def v jsTruthy_def isDevCircuitId_def startsWith_def flags)
qed

theorem verifyThresholdProofAsync_production_witness:
  "\<exists>pf opts. verifyThresholdProofAsync demoMainnet demoGroth16 pf opts = Inr True \<and> zo_reject_dev_circuits opts = Some True
     \<and> (\<exists>g m. zk_groth16 pf = Some g \<and> m \<in> set (the (zo_manifests opts)) \<and> manifestReviewed pf (zo_registry opts) m)"
proof -
  obtain k where k: "zkVerificationKeyObjectHash demoMainnet (JStr ''key'') = Inr k"
    using canonicalBytes_total [of "JStr ''key''"] by (auto simp: zkVerificationKeyObjectHash_def)
  obtain h where h: "zkCircuitReleaseManifestHash demoMainnet (demoManifest k) = Inr h" using demoManifest_hash by blast
  obtain s where s: "subjectHashField demoMainnet ''tsl:alice'' = Inr s" using subjectHash_total demoMainnet_hyps by blast
  have "\<exists>p. domainHash demoMainnet ZK_THRESHOLD_V1 (publicInput ''identity_age_days'' ''tsl:alice'' 5 ''0x08'') = Inr p"
    by (simp add: domainHash_defined publicInput_def isSafeInteger_def)
  then obtain p where p: "domainHash demoMainnet ZK_THRESHOLD_V1 (publicInput ''identity_age_days'' ''tsl:alice'' 5 ''0x08'') = Inr p" ..
  have a: "zo_reject_dev_circuits (demoZkOptions k h) = Some True" "onMainnet demoMainnet"
    by (simp_all add: demoZkOptions_def onMainnet_def demoMainnet_def)
  note v = demoZkProof_accepted [OF h k s p]
  from verifyThresholdProofAsync_production [OF v a] v a show ?thesis by blast
qed

end
