(* ===== verification/Merkle.thy ===== *)
theory Merkle
  imports Crypto
begin

text \<open>
  Merkle trees and inclusion proofs (\<^verbatim>\<open>src/packages/core-ts/src/merkle.ts\<close>).

  The locale \<open>merkle_hash\<close> is the interface of the two hash functions of a tree: leaf and node inputs never
  coincide, a leaf input determines index and commitment, a node input determines its two children. What a path proves is shown
  there once, over binary trees, and applied to the hash functions of the code.
\<close>

section \<open>Building a tree\<close>

record MerkleTree =
  mt_leaves :: "string list"
  mt_levels :: "string list list"
  mt_root :: string

definition hashLeaf :: "env \<Rightarrow> int \<Rightarrow> string \<Rightarrow> string res" where
  "hashLeaf E index commitment =
     bindE (uint64be index) (\<lambda>i. bindE (hexToBytes E commitment) (\<lambda>c.
       Inr (hashDomain E MERKLE_LEAF_V1 (DBytes (concatBytes [i, c])))))"

definition hashNode :: "env \<Rightarrow> string \<Rightarrow> string \<Rightarrow> string res" where
  "hashNode E left right =
     bindE (hexToBytes E left) (\<lambda>l. bindE (hexToBytes E right) (\<lambda>r.
       Inr (hashDomain E MERKLE_NODE_V1 (DBytes (concatBytes [l, r])))))"

text \<open>One round of the \<^verbatim>\<open>while\<close> loop: neighbours are hashed in pairs, a last single one is kept.\<close>

fun nextLevel :: "env \<Rightarrow> string list \<Rightarrow> string list res" where
  "nextLevel E (left # right # current) =
     bindE (if right \<noteq> [] then hashNode E left right else Inr left) (\<lambda>h.
       bindE (nextLevel E current) (\<lambda>hs. Inr (h # hs)))"
| "nextLevel E [left] = Inr [left]"
| "nextLevel E [] = Inr []"

lemma length_nextLevel: "nextLevel E xs = Inr ys \<Longrightarrow> length ys = (length xs + 1) div 2"
  by (induction E xs arbitrary: ys rule: nextLevel.induct) (auto simp: bindE_eq_Inr)

function levelsFrom :: "env \<Rightarrow> string list \<Rightarrow> string list list res" where
  "levelsFrom E current =
     (if length current > 1
      then (case nextLevel E current of
              Inl e \<Rightarrow> Inl e
            | Inr next \<Rightarrow> (case levelsFrom E next of Inl e \<Rightarrow> Inl e | Inr levels \<Rightarrow> Inr (current # levels)))
      else Inr [current])"
  by auto
termination
  by (relation "measure (length \<circ> snd)") (auto dest: length_nextLevel)

declare levelsFrom.simps [simp del]

definition buildMerkleTree :: "env \<Rightarrow> string list \<Rightarrow> MerkleTree res" where
  "buildMerkleTree E commitments =
     (if commitments = [] then Inr \<lparr>mt_leaves = [], mt_levels = [[]], mt_root = ZERO_HASH\<rparr>
      else bindE (sequenceE (map (\<lambda>(index, c). hashLeaf E (int index) c) (enumerate 0 commitments))) (\<lambda>leaves.
           bindE (levelsFrom E leaves) (\<lambda>levels.
             Inr \<lparr>mt_leaves = leaves, mt_levels = levels, mt_root = hd (last levels)\<rparr>)))"

section \<open>Inclusion proofs\<close>

fun pathFrom :: "string list list \<Rightarrow> nat \<Rightarrow> InclusionProofStep list" where
  "pathFrom [] index = []"
| "pathFrom (level # levels) index =
     (let isRight = (index mod 2 = 1);
          siblingIndex = (if isRight then index - 1 else index + 1);
          sibling = (if siblingIndex < length level then Some (level ! siblingIndex) else None)
      in (if truthyStr sibling
          then [\<lparr>ips_side = (if isRight then ''left'' else ''right''), ips_hash = the sibling\<rparr>] else [])
         @ pathFrom levels (index div 2))"

record inclusionInput =
  ii_commitments :: "string list"
  ii_leaf_index :: int
  ii_tree_kind :: string
  ii_epoch_start_ms :: int
  ii_epoch_duration_ms :: int
  ii_shard :: string
  ii_checkpoint_hash :: "string option"

definition buildInclusionProof :: "env \<Rightarrow> inclusionInput \<Rightarrow> InclusionProofV1 res" where
  "buildInclusionProof E inp =
     bindE (buildMerkleTree E (ii_commitments inp)) (\<lambda>tree.
       let i = ii_leaf_index inp;
           commitment = (if 0 \<le> i \<and> i < int (length (ii_commitments inp)) then Some (ii_commitments inp ! nat i) else None)
       in if \<not> truthyStr commitment then Inl ''Cannot build inclusion proof for missing leaf''
          else Inr \<lparr>ip_type = ''tsl.inclusion_proof.v1'', ip_tree_kind = ii_tree_kind inp, ip_commitment = the commitment,
                 ip_leaf_index = i, ip_leaf_hash = mt_leaves tree ! nat i, ip_root = mt_root tree,
                 ip_epoch_start_ms = ii_epoch_start_ms inp, ip_epoch_duration_ms = ii_epoch_duration_ms inp,
                 ip_shard = ii_shard inp, ip_path = pathFrom (butlast (mt_levels tree)) (nat i),
                 ip_checkpoint_hash = orElse (ii_checkpoint_hash inp) ZERO_HASH\<rparr>)"

text \<open>The loop over the path; \<open>None\<close> is the early \<^verbatim>\<open>return false\<close> on an unknown side.\<close>

fun climbPath :: "env \<Rightarrow> InclusionProofStep list \<Rightarrow> string \<Rightarrow> string option res" where
  "climbPath E [] current = Inr (Some current)"
| "climbPath E (step # path) current =
     (if ips_side step = ''left'' then bindE (hashNode E (ips_hash step) current) (climbPath E path)
      else if ips_side step = ''right'' then bindE (hashNode E current (ips_hash step)) (climbPath E path)
      else Inr None)"

definition verifyInclusion :: "env \<Rightarrow> InclusionProofV1 \<Rightarrow> bool res" where
  "verifyInclusion E proof =
     bindE (hashLeaf E (ip_leaf_index proof) (ip_commitment proof)) (\<lambda>current.
       if current \<noteq> ip_leaf_hash proof then Inr False
       else bindE (climbPath E (ip_path proof) current) (\<lambda>c.
         Inr (case c of None \<Rightarrow> False | Some c \<Rightarrow> c = ip_root proof)))"

section \<open>What a path proves\<close>

datatype 'c htree = HLeaf int 'c | HNode "'c htree" "'c htree"

primrec leavesOf :: "'c htree \<Rightarrow> (int \<times> 'c) set" where
  "leavesOf (HLeaf i c) = {(i, c)}"
| "leavesOf (HNode l r) = leavesOf l \<union> leavesOf r"

locale merkle_hash =
  fixes H :: "'i \<Rightarrow> 'h" and leafIn :: "int \<Rightarrow> 'c \<Rightarrow> 'i" and nodeIn :: "'h \<Rightarrow> 'h \<Rightarrow> 'i" and digest :: "'h \<Rightarrow> bool"
  assumes digest: "digest (H x)"
    and leaf_node: "leafIn i c \<noteq> nodeIn l r"
    and leaf_inj: "\<lbrakk>leafIn i c = leafIn j d; 0 \<le> i; i < 2 ^ 64; 0 \<le> j; j < 2 ^ 64\<rbrakk> \<Longrightarrow> i = j \<and> c = d"
    and node_inj: "\<lbrakk>nodeIn l r = nodeIn l' r'; digest l \<or> digest r; digest l'; digest r'\<rbrakk> \<Longrightarrow> l = l' \<and> r = r'"
begin

primrec treeHash :: "'c htree \<Rightarrow> 'h" where
  "treeHash (HLeaf i c) = H (leafIn i c)"
| "treeHash (HNode l r) = H (nodeIn (treeHash l) (treeHash r))"

primrec treeInputs :: "'c htree \<Rightarrow> 'i set" where
  "treeInputs (HLeaf i c) = {leafIn i c}"
| "treeInputs (HNode l r) = insert (nodeIn (treeHash l) (treeHash r)) (treeInputs l \<union> treeInputs r)"

text \<open>A step carries the sibling's digest and whether it stands on the left.\<close>

definition stepIn :: "bool \<times> 'h \<Rightarrow> 'h \<Rightarrow> 'i" where
  "stepIn s d = (if fst s then nodeIn (snd s) d else nodeIn d (snd s))"

primrec climb :: "(bool \<times> 'h) list \<Rightarrow> 'h \<Rightarrow> 'h" where
  "climb [] d = d"
| "climb (s # p) d = climb p (H (stepIn s d))"

primrec climbInputs :: "(bool \<times> 'h) list \<Rightarrow> 'h \<Rightarrow> 'i set" where
  "climbInputs [] d = {}"
| "climbInputs (s # p) d = insert (stepIn s d) (climbInputs p (H (stepIn s d)))"

definition clash :: "'i set \<Rightarrow> 'i set \<Rightarrow> bool" where
  "clash A B \<longleftrightarrow> (\<exists>a \<in> A. \<exists>b \<in> B. a \<noteq> b \<and> H a = H b)"

lemma climb_snoc: "climb (p @ [s]) d = H (stepIn s (climb p d))"
  by (induction p arbitrary: d) simp_all

lemma climbInputs_snoc: "climbInputs (p @ [s]) d = insert (stepIn s (climb p d)) (climbInputs p d)"
  by (induction p arbitrary: d) auto

lemma digest_treeHash: "digest (treeHash t)"
  by (cases t) (simp_all add: digest)

lemma digest_climb: "digest d \<Longrightarrow> digest (climb p d)"
  by (induction p arbitrary: d) (simp_all add: digest)

lemma clash_mono: "clash A B \<Longrightarrow> A \<subseteq> A' \<Longrightarrow> B \<subseteq> B' \<Longrightarrow> clash A' B'"
  by (auto simp: clash_def)

lemma clashI: "H a = H b \<Longrightarrow> a \<in> A \<Longrightarrow> b \<in> B \<Longrightarrow> a = b \<or> clash A B"
  by (auto simp: clash_def)

theorem climb_sound:
  assumes "climb p (H (leafIn i c)) = treeHash t" "0 \<le> i" "i < 2 ^ 64" "\<forall>(j, d) \<in> leavesOf t. 0 \<le> j \<and> j < 2 ^ 64"
  shows "(i, c) \<in> leavesOf t \<or> clash (insert (leafIn i c) (climbInputs p (H (leafIn i c)))) (treeInputs t)"
  using assms
proof (induction p arbitrary: t rule: rev_induct)
  case Nil
  show ?case
  proof (cases t)
    case (HLeaf j d)
    then show ?thesis
      using Nil clashI [of "leafIn i c" "leafIn j d" "{leafIn i c}" "treeInputs t"] leaf_inj [of i c j d] by auto
  next
    case (HNode l r)
    then show ?thesis using Nil leaf_node by (auto simp: clash_def)
  qed
next
  case (snoc s p)
  let ?d = "climb p (H (leafIn i c))"
  have eq: "H (stepIn s ?d) = treeHash t" using snoc.prems(1) by (simp add: climb_snoc)
  show ?case
  proof (cases t)
    case (HLeaf j d)
    then have "leafIn j d \<noteq> stepIn s ?d" using leaf_node by (simp add: stepIn_def)
    then show ?thesis using HLeaf eq by (auto simp: clash_def climbInputs_snoc)
  next
    case (HNode l r)
    then have b: "\<forall>(j, d) \<in> leavesOf l. 0 \<le> j \<and> j < 2 ^ 64" "\<forall>(j, d) \<in> leavesOf r. 0 \<le> j \<and> j < 2 ^ 64"
      using snoc.prems(4) by auto
    show ?thesis
    proof (cases "stepIn s ?d = nodeIn (treeHash l) (treeHash r)")
      case True
      have "?d = (if fst s then treeHash r else treeHash l)"
        using True node_inj digest_treeHash digest_climb [OF digest] by (auto simp: stepIn_def split: if_splits)
      then have "?d = treeHash r \<or> ?d = treeHash l" by (simp split: if_splits)
      then show ?thesis
        using snoc.IH [OF _ snoc.prems(2,3) b(2)] snoc.IH [OF _ snoc.prems(2,3) b(1)] HNode
        by (auto simp: climbInputs_snoc intro: clash_mono)
    next
      case False
      then show ?thesis using HNode eq by (auto simp: clash_def climbInputs_snoc)
    qed
  qed
qed

end

section \<open>The hash functions of the code\<close>

definition digest32 :: "env \<Rightarrow> bytes \<Rightarrow> bytes" where
  "digest32 E x = take 32 (sha256 E x @ replicate 32 0)"

lemma digest32_sha256: "sha256_length E \<Longrightarrow> digest32 E = sha256 E"
  by (auto simp: digest32_def sha256_length_def)

definition u64 :: "int \<Rightarrow> bytes" where
  "u64 i = (case uint64be i of Inl e \<Rightarrow> [] | Inr b \<Rightarrow> b)"

definition leafInput :: "int \<Rightarrow> bytes \<Rightarrow> bytes" where
  "leafInput i c = domainInput MERKLE_LEAF_V1 (u64 i @ c)"

definition nodeInput :: "bytes \<Rightarrow> bytes \<Rightarrow> bytes" where
  "nodeInput l r = domainInput MERKLE_NODE_V1 (l @ r)"

lemma u64_inject:
  assumes "0 \<le> i" "i < 2 ^ 64" "0 \<le> j" "j < 2 ^ 64" "u64 i @ c = u64 j @ d"
  shows "i = j \<and> c = d"
proof -
  obtain b b' where b: "uint64be i = Inr b" "uint64be j = Inr b'"
    using assms(1-4) uint64be_range [of i] uint64be_range [of j] by blast
  have r: "length b = length b'" "readUint64be b = i" "readUint64be b' = j"
    using readUint64be_uint64be [OF b(1)] readUint64be_uint64be [OF b(2)] by simp_all
  then have "b = b' \<and> c = d" using assms(5) b by (simp add: u64_def)
  then show ?thesis using r by simp
qed

lemma merkle_tags_plain: "CHR 0x00 \<notin> set MERKLE_LEAF_V1" "CHR 0x00 \<notin> set MERKLE_NODE_V1"
  by (simp_all add: tag_defs)

lemma merkle_tags_differ: "MERKLE_LEAF_V1 \<noteq> MERKLE_NODE_V1"
  by (simp add: tag_defs)

interpretation merkle: merkle_hash "digest32 E" leafInput nodeInput "\<lambda>d. length d = 32" for E
proof unfold_locales
  show "leafInput i c \<noteq> nodeInput l r" for i c l r
    by (simp add: leafInput_def nodeInput_def domainInput_inject [OF merkle_tags_plain] merkle_tags_differ)
  show "i = j \<and> c = d" if "leafInput i c = leafInput j d" "0 \<le> i" "i < 2 ^ 64" "0 \<le> j" "j < 2 ^ 64" for i c j d
    using that(1) u64_inject [OF that(2-5)] by (simp add: leafInput_def domainInput_def)
  show "l = l' \<and> r = r'" if "nodeInput l r = nodeInput l' r'" "length l = 32 \<or> length r = 32" "length l' = 32" "length r' = 32"
    for l r l' r' :: bytes
  proof -
    have e: "l @ r = l' @ r'" using that(1) by (simp add: nodeInput_def domainInput_def)
    then have "length l + length r = 64" using that(3,4) by (metis length_append numeral_Bit0)
    then have "length l = length l'" using that(2,3) by auto
    with e show ?thesis by simp
  qed
qed (simp add: digest32_def)

lemma hashLeaf_Inr:
  assumes "sha256_length E"
  shows "hashLeaf E i c = Inr h \<longleftrightarrow>
    (\<exists>b. 0 \<le> i \<and> i < 2 ^ 64 \<and> hexToBytes E c = Inr b \<and> h = bytesToHex E (digest32 E (leafInput i b)))"
  using uint64be_range [of i]
  by (auto simp: hashLeaf_def bindE_eq_Inr hashDomain_eq digest32_sha256 [OF assms] leafInput_def u64_def
      concatBytes_def encodeText_def)

lemma hashNode_Inr:
  assumes "sha256_length E"
  shows "hashNode E l r = Inr h \<longleftrightarrow>
    (\<exists>a b. hexToBytes E l = Inr a \<and> hexToBytes E r = Inr b \<and> h = bytesToHex E (digest32 E (nodeInput a b)))"
  by (auto simp: hashNode_def bindE_eq_Inr hashDomain_eq digest32_sha256 [OF assms] nodeInput_def concatBytes_def encodeText_def)

section \<open>The inputs that are hashed\<close>

text \<open>By \<^verbatim>\<open>verifyInclusion\<close>, and by \<^verbatim>\<open>buildMerkleTree\<close>.\<close>

fun climbIns :: "env \<Rightarrow> InclusionProofStep list \<Rightarrow> string \<Rightarrow> bytes list" where
  "climbIns E [] current = []"
| "climbIns E (step # path) current =
     (case (hexToBytes E (ips_hash step), hexToBytes E current) of
        (Inr s, Inr c) \<Rightarrow> (let i = (if ips_side step = ''left'' then nodeInput s c else nodeInput c s)
                          in i # climbIns E path (bytesToHex E (sha256 E i)))
      | _ \<Rightarrow> [])"

definition leafIns :: "env \<Rightarrow> int \<Rightarrow> string \<Rightarrow> bytes list" where
  "leafIns E i c = (case hexToBytes E c of Inr b \<Rightarrow> [leafInput i b] | Inl e \<Rightarrow> [])"

definition verifyInputs :: "env \<Rightarrow> InclusionProofV1 \<Rightarrow> bytes list" where
  "verifyInputs E proof = leafIns E (ip_leaf_index proof) (ip_commitment proof) @ climbIns E (ip_path proof) (ip_leaf_hash proof)"

fun levelInputs :: "env \<Rightarrow> string list \<Rightarrow> bytes list" where
  "levelInputs E (l # r # current) =
     (case (hexToBytes E l, hexToBytes E r) of (Inr a, Inr b) \<Rightarrow> [nodeInput a b] | _ \<Rightarrow> []) @ levelInputs E current"
| "levelInputs E current = []"

definition treeInputs :: "env \<Rightarrow> string list \<Rightarrow> bytes list" where
  "treeInputs E commitments =
     (case buildMerkleTree E commitments of
        Inl e \<Rightarrow> []
      | Inr tree \<Rightarrow> concat (map (\<lambda>(i, c). leafIns E (int i) c) (enumerate 0 commitments))
                    @ concat (map (levelInputs E) (mt_levels tree)))"

lemma climbPath_climb:
  assumes E: "hex_codec E" "sha256_length E" and "climbPath E path (bytesToHex E d) = Inr (Some r)"
  shows "\<exists>p. r = bytesToHex E (merkle.climb E p d) \<and> merkle.climbInputs E p d = set (climbIns E path (bytesToHex E d))"
  using assms(3)
proof (induction path arbitrary: d)
  case Nil
  then show ?case by (intro exI [of _ "[]"]) simp
next
  case (Cons step path)
  let ?left = "ips_side step = ''left''"
  obtain b where b: "hexToBytes E (ips_hash step) = Inr b"
    and up: "climbPath E path (bytesToHex E (digest32 E (merkle.stepIn (?left, b) d))) = Inr (Some r)"
    using Cons.prems by (auto simp: bindE_eq_Inr hashNode_Inr [OF E(2)] hexToBytes_bytesToHex [OF E(1)] merkle.stepIn_def split: if_splits)
  obtain p where "r = bytesToHex E (merkle.climb E p (digest32 E (merkle.stepIn (?left, b) d)))"
    "merkle.climbInputs E p (digest32 E (merkle.stepIn (?left, b) d)) =
       set (climbIns E path (bytesToHex E (digest32 E (merkle.stepIn (?left, b) d))))"
    using Cons.IH [OF up] by blast
  then show ?case
    by (intro exI [of _ "(?left, b) # p"])
      (cases ?left, simp_all add: b hexToBytes_bytesToHex [OF E(1)] merkle.stepIn_def digest32_sha256 [OF E(2), symmetric] Let_def)
qed

section \<open>The tree behind the levels\<close>

fun pairTrees :: "'c htree list \<Rightarrow> 'c htree list" where
  "pairTrees (l # r # ts) = HNode l r # pairTrees ts"
| "pairTrees ts = ts"

definition treeHex :: "env \<Rightarrow> bytes htree \<Rightarrow> string" where
  "treeHex E t = bytesToHex E (merkle.treeHash E t)"

lemma nextLevel_trees:
  assumes "hex_codec E" "sha256_length E"
  shows "nextLevel E (map (treeHex E) ts) = Inr (map (treeHex E) (pairTrees ts))"
proof (induction ts rule: pairTrees.induct)
  case (1 l r ts)
  have "hashNode E (treeHex E l) (treeHex E r) = Inr (treeHex E (HNode l r))"
    by (simp add: hashNode_Inr [OF assms(2)] treeHex_def hexToBytes_bytesToHex [OF assms(1)])
  moreover have "treeHex E r \<noteq> []" by (simp add: treeHex_def bytesToHex_def)
  ultimately show ?case using 1 by simp
qed simp_all

lemma pairTrees_leaves: "\<Union> (leavesOf ` set (pairTrees ts)) = \<Union> (leavesOf ` set ts)"
  by (induction ts rule: pairTrees.induct) auto

lemma pairTrees_inputs:
  assumes "hex_codec E"
  shows "\<Union> (merkle.treeInputs E ` set (pairTrees ts)) \<subseteq>
    \<Union> (merkle.treeInputs E ` set ts) \<union> set (levelInputs E (map (treeHex E) ts))"
  by (induction ts rule: pairTrees.induct) (auto simp: treeHex_def hexToBytes_bytesToHex [OF assms])

lemma pairTrees_eq_Nil [simp]: "pairTrees ts = [] \<longleftrightarrow> ts = []"
  by (cases ts rule: pairTrees.cases) simp_all

lemma levelsFrom_nonempty: "levelsFrom E xs = Inr lv \<Longrightarrow> lv \<noteq> []"
  by (subst (asm) levelsFrom.simps) (auto split: if_splits sum.splits)

lemma levelsFrom_tree:
  assumes E: "hex_codec E" "sha256_length E"
    and "levelsFrom E (map (treeHex E) ts) = Inr levels" "ts \<noteq> []"
  shows "\<exists>t. hd (last levels) = treeHex E t \<and> leavesOf t = \<Union> (leavesOf ` set ts)
     \<and> merkle.treeInputs E t \<subseteq> \<Union> (merkle.treeInputs E ` set ts) \<union> set (concat (map (levelInputs E) levels))"
  using assms(3,4)
proof (induction "length ts" arbitrary: ts levels rule: less_induct)
  case less
  show ?case
  proof (cases "length ts > 1")
    case False
    then obtain t where t: "ts = [t]" using less.prems(2) by (cases ts) auto
    then have "levels = [[treeHex E t]]" using less.prems(1) by (simp add: levelsFrom.simps)
    then show ?thesis by (intro exI [of _ t]) (simp add: t)
  next
    case True
    let ?ps = "pairTrees ts"
    obtain lv where lv: "levelsFrom E (map (treeHex E) ?ps) = Inr lv" "levels = map (treeHex E) ts # lv"
      using less.prems(1) True levelsFrom.simps [of E "map (treeHex E) ts"] by (auto simp: nextLevel_trees [OF E] split: sum.splits)
    have "length ?ps < length ts"
      using length_nextLevel [OF nextLevel_trees [OF E]] True by simp
    from less.hyps [OF this lv(1)] less.prems(2)
    obtain t where t: "hd (last lv) = treeHex E t" "leavesOf t = \<Union> (leavesOf ` set ?ps)"
      "merkle.treeInputs E t \<subseteq> \<Union> (merkle.treeInputs E ` set ?ps) \<union> set (concat (map (levelInputs E) lv))"
      by auto
    have "hd (last levels) = treeHex E t" using t(1) lv levelsFrom_nonempty [OF lv(1)] by simp
    moreover have "merkle.treeInputs E t \<subseteq> \<Union> (merkle.treeInputs E ` set ts) \<union> set (concat (map (levelInputs E) levels))"
    proof -
      have "set (concat (map (levelInputs E) levels)) = set (levelInputs E (map (treeHex E) ts)) \<union> set (concat (map (levelInputs E) lv))"
        by (simp add: lv(2))
      then show ?thesis using order_trans [OF t(3) Un_mono [OF pairTrees_inputs [OF E(1), of ts] subset_refl]] by (simp add: Un_assoc)
    qed
    ultimately show ?thesis
      by (intro exI [of _ t] conjI) (simp_all only: t(2) pairTrees_leaves)
  qed
qed

lemma buildMerkleTree_Inr:
  assumes "buildMerkleTree E cs = Inr tree" "cs \<noteq> []"
  shows "length (mt_leaves tree) = length cs" "levelsFrom E (mt_leaves tree) = Inr (mt_levels tree)"
    "mt_root tree = hd (last (mt_levels tree))"
    "\<And>i. i < length cs \<Longrightarrow> hashLeaf E (int i) (cs ! i) = Inr (mt_leaves tree ! i)"
proof -
  have seq: "map (\<lambda>(index, c). hashLeaf E (int index) c) (enumerate 0 cs) = map Inr (mt_leaves tree)"
    and rest: "levelsFrom E (mt_leaves tree) = Inr (mt_levels tree)" "mt_root tree = hd (last (mt_levels tree))"
    using assms by (auto simp: buildMerkleTree_def bindE_eq_Inr sequenceE_eq_Inr)
  show len: "length (mt_leaves tree) = length cs" using arg_cong [OF seq, of length] by simp
  show "levelsFrom E (mt_leaves tree) = Inr (mt_levels tree)" "mt_root tree = hd (last (mt_levels tree))" by (fact rest)+
  show "hashLeaf E (int i) (cs ! i) = Inr (mt_leaves tree ! i)" if "i < length cs" for i
    using arg_cong [OF seq, of "\<lambda>xs. xs ! i"] that len by (simp add: nth_enumerate_eq)
qed

lemma buildMerkleTree_tree:
  assumes E: "hex_codec E" "sha256_length E" and b: "buildMerkleTree E cs = Inr tree" "cs \<noteq> []"
  shows "\<exists>t. mt_root tree = treeHex E t
     \<and> leavesOf t \<subseteq> {(int i, d) |i d. i < length cs \<and> int i < 2 ^ 64 \<and> hexToBytes E (cs ! i) = Inr d}
     \<and> merkle.treeInputs E t \<subseteq> set (treeInputs E cs)"
proof -
  note tree = buildMerkleTree_Inr [OF b]
  define mk where "mk i = HLeaf (int i) (projr (hexToBytes E (cs ! i)))" for i
  define ts where "ts = map mk [0..<length cs]"
  have leaf: "mt_leaves tree ! i = treeHex E (mk i)" "hexToBytes E (cs ! i) = Inr (projr (hexToBytes E (cs ! i)))" "int i < 2 ^ 64"
    if "i < length cs" for i
    using tree(4) [OF that] by (auto simp: hashLeaf_Inr [OF E(2)] mk_def treeHex_def)
  have "mt_leaves tree = map (treeHex E) ts"
    by (rule nth_equalityI) (simp_all add: ts_def tree(1) leaf)
  then have lv: "levelsFrom E (map (treeHex E) ts) = Inr (mt_levels tree)" "ts \<noteq> []"
    using tree(2) b(2) by (simp_all add: ts_def)
  obtain t where t: "mt_root tree = treeHex E t" "leavesOf t = \<Union> (leavesOf ` set ts)"
    "merkle.treeInputs E t \<subseteq> \<Union> (merkle.treeInputs E ` set ts) \<union> set (concat (map (levelInputs E) (mt_levels tree)))"
    using levelsFrom_tree [OF E lv] tree(3) by auto
  have "leavesOf t \<subseteq> {(int i, d) |i d. i < length cs \<and> int i < 2 ^ 64 \<and> hexToBytes E (cs ! i) = Inr d}"
    using leaf by (auto simp: t(2) ts_def mk_def)
  moreover have "leafInput (int i) (projr (hexToBytes E (cs ! i))) \<in> set (leafIns E (int i) (cs ! i))" if "i < length cs" for i
    by (subst leafIns_def, subst leaf(2) [OF that]) simp
  then have "\<Union> (merkle.treeInputs E ` set ts) \<subseteq> set (concat (map (\<lambda>(i, c). leafIns E (int i) c) (enumerate 0 cs)))"
    by (auto simp: ts_def mk_def in_set_enumerate_eq Bex_def) (metis add_0 fst_conv snd_conv diff_zero)
  then have "merkle.treeInputs E t \<subseteq> set (treeInputs E cs)"
    using t(3) by (auto simp: treeInputs_def b(1))
  ultimately show ?thesis using t(1) by blast
qed

section \<open>The path that is built leads to the root\<close>

lemma hashNode_nonempty: "hashNode E l r = Inr h \<Longrightarrow> h \<noteq> []"
  by (auto simp: hashNode_def bindE_eq_Inr hashDomain_eq bytesToHex_def)

lemma nextLevel_nonempty: "nextLevel E xs = Inr ys \<Longrightarrow> [] \<notin> set xs \<Longrightarrow> [] \<notin> set ys"
  by (induction E xs arbitrary: ys rule: nextLevel.induct) (auto simp: bindE_eq_Inr dest: hashNode_nonempty split: if_splits)

lemma nextLevel_nth:
  assumes "nextLevel E xs = Inr ys" "[] \<notin> set xs" "i < length xs"
  shows "if 2 * (i div 2) + 1 < length xs
     then hashNode E (xs ! (2 * (i div 2))) (xs ! (2 * (i div 2) + 1)) = Inr (ys ! (i div 2))
     else ys ! (i div 2) = xs ! i"
  using assms
proof (induction E xs arbitrary: ys i rule: nextLevel.induct)
  case (1 E left right current)
  then obtain h hs where h: "hashNode E left right = Inr h" "nextLevel E current = Inr hs" "ys = h # hs"
    by (auto simp: bindE_eq_Inr split: if_splits)
  show ?case
  proof (cases "i < 2")
    case True
    then have "i div 2 = 0" by simp
    then show ?thesis using h by simp
  next
    case False
    then obtain j where j: "i = Suc (Suc j)" by (metis add_2_eq_Suc le_Suc_ex not_less)
    have p: "right \<noteq> []" "[] \<notin> set current" "j < length current" using "1.prems"(2,3) j by auto
    then show ?thesis using "1.IH" [OF h(2) p(2,3)] h by (simp add: j split: if_splits)
  qed
qed auto

lemma pathFrom_step:
  assumes "nextLevel E xs = Inr ys" "[] \<notin> set xs" "i < length xs"
  shows "climbPath E (pathFrom (xs # lv) i) (xs ! i) = climbPath E (pathFrom lv (i div 2)) (ys ! (i div 2))"
proof (cases "i mod 2 = 1")
  case True
  then have "2 * (i div 2) + 1 = i" "2 * (i div 2) = i - 1" by presburger+
  moreover have "xs ! (i - 1) \<noteq> []" using assms(2,3) by (metis less_imp_diff_less nth_mem)
  moreover have "i - 1 < length xs" using assms(3) by simp
  ultimately show ?thesis using nextLevel_nth [OF assms] assms(3) True by (simp add: Let_def)
next
  case False
  then have e: "2 * (i div 2) = i" by presburger
  show ?thesis
  proof (cases "Suc i < length xs")
    case True
    then have "xs ! Suc i \<noteq> []" using assms(2) by (metis nth_mem)
    then show ?thesis using nextLevel_nth [OF assms] True e False by (simp add: Let_def)
  qed (use nextLevel_nth [OF assms] e False in \<open>simp add: Let_def\<close>)
qed

lemma climbPath_pathFrom:
  assumes "levelsFrom E xs = Inr lv" "[] \<notin> set xs" "i < length xs"
  shows "climbPath E (pathFrom (butlast lv) i) (xs ! i) = Inr (Some (hd (last lv)))"
  using assms
proof (induction E xs arbitrary: lv i rule: levelsFrom.induct)
  case (1 E xs)
  show ?case
  proof (cases "length xs > 1")
    case False
    then have "lv = [xs]" using "1.prems" by (simp add: levelsFrom.simps)
    moreover obtain x where "xs = [x]" using False "1.prems"(3) by (cases xs) auto
    ultimately show ?thesis using "1.prems"(3) by simp
  next
    case True
    then obtain ys lv' where ys: "nextLevel E xs = Inr ys" "levelsFrom E ys = Inr lv'" "lv = xs # lv'"
      using "1.prems"(1) levelsFrom.simps [of E xs] by (auto split: sum.splits)
    have i: "i div 2 < length ys" using length_nextLevel [OF ys(1)] "1.prems"(3) by simp
    have "climbPath E (pathFrom (butlast lv') (i div 2)) (ys ! (i div 2)) = Inr (Some (hd (last lv')))"
      using "1.IH" [OF True ys(1) ys(2) nextLevel_nonempty [OF ys(1) "1.prems"(2)] i] .
    then show ?thesis
      using pathFrom_step [OF ys(1) "1.prems"(2,3)] ys levelsFrom_nonempty [OF ys(2)] by simp
  qed
qed

lemma hashLeaf_nonempty: "hashLeaf E i c = Inr h \<Longrightarrow> h \<noteq> []"
  by (auto simp: hashLeaf_def bindE_eq_Inr hashDomain_eq bytesToHex_def)

lemma inclusion_complete:
  assumes "buildMerkleTree E (ii_commitments inp) = Inr tree"
    and "ii_leaf_index inp = int i" "i < length (ii_commitments inp)" "ii_commitments inp ! i \<noteq> []"
  shows "\<exists>proof. buildInclusionProof E inp = Inr proof \<and> verifyInclusion E proof = Inr True
     \<and> ip_commitment proof = ii_commitments inp ! i \<and> ip_leaf_index proof = int i \<and> ip_root proof = mt_root tree"
proof -
  let ?cs = "ii_commitments inp"
  have ne: "?cs \<noteq> []" using assms(3) by auto
  note t = buildMerkleTree_Inr [OF assms(1) ne]
  have "[] \<notin> set (mt_leaves tree)"
    using t(1,4) hashLeaf_nonempty by (metis in_set_conv_nth)
  then have "climbPath E (pathFrom (butlast (mt_levels tree)) i) (mt_leaves tree ! i) = Inr (Some (mt_root tree))"
    using climbPath_pathFrom [OF t(2)] assms(3) t(1,3) by simp
  then show ?thesis
    using assms t(4) [OF assms(3)] by (simp add: buildInclusionProof_def verifyInclusion_def)
qed

section \<open>Trees of valid commitments\<close>

lemma levelsFrom_total:
  assumes "hex_codec E" "sha256_length E"
  shows "\<exists>lv. levelsFrom E (map (treeHex E) ts) = Inr lv"
proof (induction "length ts" arbitrary: ts rule: less_induct)
  case less
  show ?case
  proof (cases "length ts > 1")
    case True
    then have "length (pairTrees ts) < length ts"
      using length_nextLevel [OF nextLevel_trees [OF assms, of ts]] by simp
    then obtain lv where "levelsFrom E (map (treeHex E) (pairTrees ts)) = Inr lv" using less by blast
    then show ?thesis using True by (subst levelsFrom.simps) (simp add: nextLevel_trees [OF assms])
  qed (simp add: levelsFrom.simps)
qed

lemma buildMerkleTree_total:
  assumes E: "hex_codec E" "sha256_length E"
    and cs: "\<forall>c \<in> set cs. \<exists>b. hexToBytes E c = Inr b" "length cs \<le> 2 ^ 64"
  shows "\<exists>tree. buildMerkleTree E cs = Inr tree"
proof (cases "cs = []")
  case False
  define mk where "mk i = HLeaf (int i) (projr (hexToBytes E (cs ! i)))" for i
  have "hashLeaf E (int i) (cs ! i) = Inr (treeHex E (mk i))" if il: "i < length cs" for i
  proof -
    obtain b where "hexToBytes E (cs ! i) = Inr b" using cs(1) il nth_mem by blast
    moreover have "int i < int (2 ^ 64)"
      using less_le_trans [OF il cs(2)] by (simp only: of_nat_less_iff)
    ultimately show ?thesis by (simp add: hashLeaf_Inr [OF E(2)] mk_def treeHex_def)
  qed
  then have "map (\<lambda>(index, c). hashLeaf E (int index) c) (enumerate 0 cs) = map Inr (map (treeHex E) (map mk [0..<length cs]))"
    by (intro nth_equalityI) (simp_all add: nth_enumerate_eq)
  then have "sequenceE (map (\<lambda>(index, c). hashLeaf E (int index) c) (enumerate 0 cs)) = Inr (map (treeHex E) (map mk [0..<length cs]))"
    by (simp only: sequenceE_map_Inr)
  then show ?thesis using False levelsFrom_total [OF E, of "map mk [0..<length cs]"] by (auto simp: buildMerkleTree_def)
qed (simp add: buildMerkleTree_def)

text \<open>A verified proof against the root of a tree is a climb to that root, and a climb ends at a leaf unless two inputs collide.\<close>

lemma verifyInclusion_member:
  assumes E: "hex_codec E" "sha256_length E"
    and tree: "buildMerkleTree E cs = Inr tree" "cs \<noteq> []"
    and v: "verifyInclusion E proof = Inr True" "ip_root proof = mt_root tree"
  shows "(\<exists>i < length cs. ip_leaf_index proof = int i \<and> hexToBytes E (ip_commitment proof) = hexToBytes E (cs ! i))
    \<or> sha256_collision E (set (verifyInputs E proof)) (set (treeInputs E cs))"
proof -
  let ?i = "ip_leaf_index proof"
  obtain c where c: "0 \<le> ?i" "?i < 2 ^ 64" "hexToBytes E (ip_commitment proof) = Inr c"
    "ip_leaf_hash proof = bytesToHex E (digest32 E (leafInput ?i c))"
    "climbPath E (ip_path proof) (ip_leaf_hash proof) = Inr (Some (ip_root proof))"
    using v(1) by (auto simp: verifyInclusion_def bindE_eq_Inr hashLeaf_Inr [OF E(2)] split: if_splits option.splits)
  obtain p where p: "ip_root proof = bytesToHex E (merkle.climb E p (digest32 E (leafInput ?i c)))"
    "merkle.climbInputs E p (digest32 E (leafInput ?i c)) = set (climbIns E (ip_path proof) (ip_leaf_hash proof))"
    using climbPath_climb [OF E] c(4,5) by metis
  obtain t where t: "mt_root tree = treeHex E t" "merkle.treeInputs E t \<subseteq> set (treeInputs E cs)"
    "leavesOf t \<subseteq> {(int i, d) |i d. i < length cs \<and> int i < 2 ^ 64 \<and> hexToBytes E (cs ! i) = Inr d}"
    using buildMerkleTree_tree [OF E tree] by blast
  have "merkle.climb E p (digest32 E (leafInput ?i c)) = merkle.treeHash E t"
    using p(1) v(2) t(1) by (simp add: treeHex_def bytesToHex_inject [OF E(1)])
  moreover have "\<forall>(j, d) \<in> leavesOf t. 0 \<le> j \<and> j < 2 ^ 64" using t(3) by auto
  ultimately have "(?i, c) \<in> leavesOf t \<or>
      merkle.clash E (insert (leafInput ?i c) (set (climbIns E (ip_path proof) (ip_leaf_hash proof)))) (merkle.treeInputs E t)"
    using merkle.climb_sound [of E p ?i c t] c(1,2) p(2) by simp
  then show ?thesis
  proof
    assume "(?i, c) \<in> leavesOf t"
    then show ?thesis using t(3) c(3) by auto
  next
    assume "merkle.clash E (insert (leafInput ?i c) (set (climbIns E (ip_path proof) (ip_leaf_hash proof)))) (merkle.treeInputs E t)"
    then have "sha256_collision E (insert (leafInput ?i c) (set (climbIns E (ip_path proof) (ip_leaf_hash proof)))) (set (treeInputs E cs))"
      using subsetD [OF t(2)] fun_cong [OF digest32_sha256 [OF E(2)]]
      by (simp only: merkle.clash_def sha256_collision_def) metis
    then show ?thesis by (simp add: verifyInputs_def leafIns_def c(3))
  qed
qed

definition demoInput :: inclusionInput where
  "demoInput = \<lparr>ii_commitments = [''0x01'', ''0x02'', ''0x03''], ii_leaf_index = 1, ii_tree_kind = ''event'', ii_epoch_start_ms = 0,
     ii_epoch_duration_ms = 1000, ii_shard = ''global'', ii_checkpoint_hash = None\<rparr>"

lemma demoInput_valid:
  "\<forall>c \<in> set (ii_commitments demoInput). \<exists>b. hexToBytes demoEnv c = Inr b"
proof -
  have "hexToBytes demoEnv ''0x01'' = Inr [1] \<and> hexToBytes demoEnv ''0x02'' = Inr [2] \<and> hexToBytes demoEnv ''0x03'' = Inr [3]"
    by code_simp
  then show ?thesis by (simp add: demoInput_def)
qed

section \<open>Properties\<close>

text \<open>
  C26: Inclusion proofs are sound. If \<^verbatim>\<open>verifyInclusion\<close> accepts a proof against the root of the tree over a list of commitments, then the
  proof's leaf index is a position of that list and the commitment there is the proof's commitment, or one of the inputs
  the verifier hashed and one of the inputs of the tree are a collision of SHA-256. The path may be any path: its length, sides and
  hashes are the prover's choice.
\<close>

theorem verifyInclusion_sound:
  assumes E: "hex_codec E" "sha256_length E"
    and tree: "buildMerkleTree E cs = Inr tree" "cs \<noteq> []"
    and v: "verifyInclusion E proof = Inr True" "ip_root proof = mt_root tree"
  shows "(\<exists>i < length cs. ip_leaf_index proof = int i \<and> hexToBytes E (ip_commitment proof) = hexToBytes E (cs ! i))
    \<or> sha256_collision E (set (verifyInputs E proof)) (set (treeInputs E cs))"
  by (rule verifyInclusion_member [OF assms])

theorem verifyInclusion_sound_witness:
  "\<exists>tree proof. buildMerkleTree demoEnv (ii_commitments demoInput) = Inr tree \<and>
     verifyInclusion demoEnv proof = Inr True \<and> ip_root proof = mt_root tree \<and> ip_commitment proof = ''0x02'' \<and>
     ((\<exists>i < length (ii_commitments demoInput). ip_leaf_index proof = int i \<and>
         hexToBytes demoEnv (ip_commitment proof) = hexToBytes demoEnv (ii_commitments demoInput ! i))
      \<or> sha256_collision demoEnv (set (verifyInputs demoEnv proof)) (set (treeInputs demoEnv (ii_commitments demoInput))))"
proof -
  obtain tree where t: "buildMerkleTree demoEnv (ii_commitments demoInput) = Inr tree"
    using buildMerkleTree_total [OF demo_hyps(1,2) demoInput_valid] by (auto simp: demoInput_def)
  obtain pf where p: "verifyInclusion demoEnv pf = Inr True" "ip_root pf = mt_root tree" "ip_commitment pf = ''0x02''"
    using inclusion_complete [OF t, of 1] by (auto simp: demoInput_def)
  have "ii_commitments demoInput \<noteq> []" by (simp add: demoInput_def)
  then show ?thesis
    using verifyInclusion_sound [OF demo_hyps(1,2) t _ p(1,2)] t p by blast
qed

text \<open>
  C27: Inclusion proofs are complete. For a list of hexadecimal commitments (at most \<open>2 ^ 64\<close> of them) the tree can be built, and for
  every position that holds a commitment \<^verbatim>\<open>buildInclusionProof\<close> returns a proof for that position and commitment with
  the root of that tree, which \<^verbatim>\<open>verifyInclusion\<close> accepts.
\<close>

theorem buildInclusionProof_verifies:
  assumes E: "hex_codec E" "sha256_length E"
    and cs: "\<forall>c \<in> set (ii_commitments inp). \<exists>b. hexToBytes E c = Inr b" "length (ii_commitments inp) \<le> 2 ^ 64"
    and i: "ii_leaf_index inp = int i" "i < length (ii_commitments inp)" "ii_commitments inp ! i \<noteq> []"
  shows "\<exists>tree proof. buildMerkleTree E (ii_commitments inp) = Inr tree \<and> buildInclusionProof E inp = Inr proof
     \<and> verifyInclusion E proof = Inr True \<and> ip_root proof = mt_root tree
     \<and> ip_commitment proof = ii_commitments inp ! i \<and> ip_leaf_index proof = int i"
  using buildMerkleTree_total [OF E cs] inclusion_complete [OF _ i] by blast

theorem buildInclusionProof_verifies_witness:
  "\<exists>tree proof. buildMerkleTree demoEnv (ii_commitments demoInput) = Inr tree \<and> buildInclusionProof demoEnv demoInput = Inr proof
     \<and> verifyInclusion demoEnv proof = Inr True \<and> ip_root proof = mt_root tree
     \<and> ip_commitment proof = ii_commitments demoInput ! 1 \<and> ip_leaf_index proof = int 1"
  by (rule buildInclusionProof_verifies [OF demo_hyps(1,2) demoInput_valid]) (simp_all add: demoInput_def)

end
