(* ===== verification/VerifierSections.thy ===== *)
theory VerifierSections
  imports VerifierInput Zk Merkle
begin

text \<open>
  The first sections of \<^verbatim>\<open>verifyTSL\<close> (\<^verbatim>\<open>src/packages/core-ts/src/verifier.ts\<close>, from the chain revocation to the attestations). The local variables that
  the function assigns form a state; each block \<^verbatim>\<open>if (input.x) { ... }\<close> is a function from states to states that may throw. The locale
  \<open>verifier_section\<close> is their common contract: a section only adds errors, and what it does not own of the checks it leaves alone.
\<close>

section \<open>State and context\<close>

record vstate =
  vs_checks :: VerificationChecks
  vs_errors :: "string list"
  vs_explanation :: "string list"
  vs_settlementStatus :: string
  vs_riskLabel :: string

text \<open>The settlement backend; its registries are optional (\<^verbatim>\<open>Partial\<close> interfaces of \<^verbatim>\<open>settlement.ts\<close>).\<close>

record SettlementBackend =
  sb_verifyCheckpointSettlement :: "BatchCheckpointV1 \<Rightarrow> SettlementVerificationResult res"
  sb_isKeyRevokedAt :: "(string \<Rightarrow> string \<Rightarrow> int option \<Rightarrow> bool res) option"
  sb_isProviderActive :: "(string \<Rightarrow> bool res) option"
  sb_isModelRegistered :: "(string \<Rightarrow> string \<Rightarrow> bool res) option"

text \<open>
  The computations on floating-point numbers of \<^verbatim>\<open>v2.ts\<close> that the verifier repeats to compare their results with the disclosed artifacts: the graph
  from the evidence (of type \<open>'g\<close>), its feature vector, the sybil assessment and the drift report. The theory \<^verbatim>\<open>VerifierGraph\<close> instantiates them.
\<close>

record 'g graphOps =
  go_construct :: "VerifyTSLInput \<Rightarrow> resolver \<Rightarrow> GraphProfileV2 \<Rightarrow> string \<Rightarrow> 'g res"
  go_features :: "string \<Rightarrow> 'g \<Rightarrow> GraphProfileV2 \<Rightarrow> string list option \<Rightarrow> string list option \<Rightarrow> string \<Rightarrow> GraphFeatureVectorV1 res"
  go_sybil :: "string \<Rightarrow> string \<Rightarrow> 'g \<Rightarrow> GraphProfileV2 \<Rightarrow> string list option \<Rightarrow> string list option \<Rightarrow> string \<Rightarrow> SybilProfile option \<Rightarrow> SybilAssessmentV1 res"
  go_drift :: "DriftReportV1 \<Rightarrow> DriftFeatureEntry list \<Rightarrow> (string \<times> int) list list option \<Rightarrow> DriftReportV1 res"

text \<open>What stays fixed during a run: the environment and the packages, the expanded input, the policy with its defaults, and the hashes of the event.\<close>

record 'g vctx =
  vc_env :: env
  vc_eth :: eth
  vc_rlp :: rlp
  vc_groth16 :: "jsval \<Rightarrow> string list \<Rightarrow> jsval \<Rightarrow> bool res"
  vc_graphOps :: "'g graphOps"
  vc_resolver :: resolver
  vc_backend :: "SettlementBackend option"
  vc_input :: VerifyTSLInput
  vc_policy :: VerifierPolicy
  vc_eventHash :: string
  vc_commitmentHash :: string
  vc_legacyCommitmentHash :: string

definition push :: "string list \<Rightarrow> vstate \<Rightarrow> vstate" where
  "push es s = s\<lparr>vs_errors := vs_errors s @ es\<rparr>"

definition pushIf :: "bool \<Rightarrow> string list \<Rightarrow> vstate \<Rightarrow> vstate" where
  "pushIf b es s = (if b then push es s else s)"

definition explainIf :: "bool \<Rightarrow> string \<Rightarrow> vstate \<Rightarrow> vstate" where
  "explainIf b m s = (if b then s\<lparr>vs_explanation := vs_explanation s @ [m]\<rparr> else s)"

definition onChecks :: "(VerificationChecks \<Rightarrow> VerificationChecks) \<Rightarrow> vstate \<Rightarrow> vstate" where
  "onChecks u s = s\<lparr>vs_checks := u (vs_checks s)\<rparr>"

text \<open>\<^verbatim>\<open>if (b) { checks.x = false; errors.push(...) }\<close>\<close>

definition rejectIf :: "bool \<Rightarrow> (VerificationChecks \<Rightarrow> VerificationChecks) \<Rightarrow> string list \<Rightarrow> vstate \<Rightarrow> vstate" where
  "rejectIf b u es s = (if b then push es (onChecks u s) else s)"

lemma vs_errors_simps [simp]:
  "vs_errors (push es s) = vs_errors s @ es" "vs_errors (pushIf b es s) = vs_errors s @ (if b then es else [])"
  "vs_errors (explainIf b m s) = vs_errors s" "vs_errors (onChecks u s) = vs_errors s"
  "vs_errors (rejectIf b u es s) = vs_errors s @ (if b then es else [])"
  by (simp_all add: push_def pushIf_def explainIf_def onChecks_def rejectIf_def)

lemma vs_checks_simps [simp]:
  "vs_checks (push es s) = vs_checks s" "vs_checks (pushIf b es s) = vs_checks s" "vs_checks (explainIf b m s) = vs_checks s"
  "vs_checks (onChecks u s) = u (vs_checks s)" "vs_checks (rejectIf b u es s) = (if b then u (vs_checks s) else vs_checks s)"
  by (simp_all add: push_def pushIf_def explainIf_def onChecks_def rejectIf_def)

definition schemaOf :: "'g vctx \<Rightarrow> string \<Rightarrow> jsobj \<Rightarrow> SchemaValidationResult" where
  "schemaOf c name x = validateSchema (vc_env c) name (JObj x)"

definition consentRequired :: "'g vctx \<Rightarrow> bool" where
  "consentRequired c \<longleftrightarrow> po_require_disclosure_consent_for_private_fields (vc_policy c) \<noteq> Some False"

definition consentAllows :: "'g vctx \<Rightarrow> string list \<Rightarrow> bool res" where
  "consentAllows c fieldClasses = disclosureConsentAllows (vc_env c) (vc_resolver c) (vc_input c) (vc_policy c) fieldClasses"

text \<open>The block that asks for a consent to a class of fields and rejects with \<open>u\<close> without it.\<close>

definition consentGate :: "'g vctx \<Rightarrow> string list \<Rightarrow> (VerificationChecks \<Rightarrow> VerificationChecks) \<Rightarrow> vstate \<Rightarrow> vstate res" where
  "consentGate c fieldClasses u s =
     bindE (consentAllows c fieldClasses) (\<lambda>consent.
       Inr (rejectIf (\<not> consent) u [''TSL_DISCLOSURE_CONSENT_REQUIRED'']
         (onChecks (\<lambda>k. k\<lparr>ck_disclosure_consent_valid := Some (ck_disclosure_consent_valid k \<noteq> Some False \<and> consent)\<rparr>) s)))"

section \<open>Revocation\<close>

definition chainRevocation :: "'g vctx \<Rightarrow> vstate \<Rightarrow> vstate res" where
  "chainRevocation c s =
     (let ev = vi_envelope (vc_input c) in
      if \<not> isOn (po_require_chain_revocation (vc_policy c)) then Inr s
      else case Option.bind (vc_backend c) sb_isKeyRevokedAt of
        Some isKeyRevokedAt \<Rightarrow>
          bindE (isKeyRevokedAt (ev_sender ev) (ev_signing_key_id ev) (dateParse (vc_env c) (ev_timestamp ev))) (\<lambda>revokedOnChain.
            Inr (rejectIf revokedOnChain (\<lambda>k. k\<lparr>ck_not_revoked := False\<rparr>) [''TSL_KEY_REVOKED'']
              (onChecks (\<lambda>k. k\<lparr>ck_chain_revocation_checked := Some True\<rparr>) s)))
      | None \<Rightarrow> Inr (push [''TSL_CHAIN_REVOCATION_UNAVAILABLE''] (onChecks (\<lambda>k. k\<lparr>ck_chain_revocation_checked := Some False\<rparr>) s)))"

definition keyExplanations :: "'g vctx \<Rightarrow> vstate \<Rightarrow> vstate res" where
  "keyExplanations c s = Inr
     (explainIf (ck_not_revoked (vs_checks s)) ''No active key revocation in resolved identity state''
     (explainIf (ck_key_active (vs_checks s)) ''Key active at event timestamp''
     (explainIf (ck_signature_valid (vs_checks s)) ''Signature valid'' s)))"

definition revocationHits :: "'g vctx \<Rightarrow> RevocationV1 \<Rightarrow> bool" where
  "revocationHits c r \<longleftrightarrow>
     (let E = vc_env c; ev = vi_envelope (vc_input c) in
      rev_trust_id r = ev_sender ev \<and> rev_revoked_key r = ev_signing_key_id ev
      \<and> dateLe (dateParse E (rev_effective_at r)) (dateParse E (ev_timestamp ev)))"

definition revocationStep :: "'g vctx \<Rightarrow> RevocationV1 \<Rightarrow> vstate \<Rightarrow> vstate res" where
  "revocationStep c r s =
     (let E = vc_env c; v = schemaOf c ''revocation'' (RevocationV1_obj r); invalid = (\<lambda>k. k\<lparr>ck_revocation_state_valid := Some False\<rparr>) in
      if \<not> sv_valid v then Inr (rejectIf True invalid (''TSL_REVOCATION_INVALID'' # sv_errors v) s)
      else bindE (vc_resolver c (rev_trust_id r) (Some (rev_effective_at r))) (\<lambda>identity.
        let key = orFrom (Option.bind identity (\<lambda>d. find (\<lambda>m. vm_status m = ''active'') (idd_verification_methods d)))
                    (Option.bind identity (\<lambda>d. findVerificationMethod d (rev_revoked_key r)))
        in bindE (edSigned E key (revocationHash E (RevocationV1_obj r)) (rev_signature r)) (\<lambda>signed.
          Inr (rejectIf (revocationHits c r) (\<lambda>k. k\<lparr>ck_not_revoked := False, ck_revocation_state_valid := Some False\<rparr>) [''TSL_KEY_REVOKED'']
            (rejectIf (\<not> signed) invalid [''TSL_REVOCATION_SIGNATURE_INVALID''] s)))))"

definition revocationSection :: "'g vctx \<Rightarrow> vstate \<Rightarrow> vstate res" where
  "revocationSection c s =
     (if \<not> truthyList (vi_revocations (vc_input c)) then Inr s
      else bindE (foldE (revocationStep c) (the (vi_revocations (vc_input c))) (onChecks (\<lambda>k. k\<lparr>ck_revocation_state_valid := Some True\<rparr>) s)) (\<lambda>t.
        Inr (explainIf (ck_revocation_state_valid (vs_checks t) = Some True) ''Signed revocation state is valid'' t)))"

section \<open>The disclosed message\<close>

definition messageSection :: "'g vctx \<Rightarrow> vstate \<Rightarrow> vstate res" where
  "messageSection c s =
     (let E = vc_env c; inp = vc_input c;
          raw = Option.bind (vi_message_disclosure inp) md_raw_message; salt = Option.bind (vi_message_disclosure inp) md_content_salt in
      if raw = None \<and> salt = None then Inr s
      else bindE (if \<not> consentRequired c then Inr True
                  else consentAllows c ((if raw = None then [] else [''raw_content'']) @ (if salt = None then [] else [''content_salt'']))) (\<lambda>consent.
           bindE (case raw of
                    None \<Rightarrow> Inr None
                  | Some message \<Rightarrow> (case salt of
                      None \<Rightarrow> Inr (Some False)
                    | Some x \<Rightarrow> if consent then bindE (contentCommitment E message x) (\<lambda>h. Inr (Some (h = ev_content_commitment (vi_envelope inp))))
                               else Inr (Some False))) (\<lambda>matches.
             Inr (explainIf (matches = Some True) ''Disclosed message matches content commitment''
               (onChecks (\<lambda>k. k\<lparr>ck_content_commitment_matches := matches\<rparr>)
               (pushIf (\<not> consent) [''TSL_DISCLOSURE_CONSENT_REQUIRED'']
               (onChecks (\<lambda>k. k\<lparr>ck_disclosure_consent_valid := Some consent\<rparr>) s)))))))"

section \<open>Inclusion\<close>

definition otherInclusion :: "'g vctx \<Rightarrow> InclusionProofV1 \<Rightarrow> vstate \<Rightarrow> vstate res" where
  "otherInclusion c p s =
     (if ip_tree_kind p = ''receipt'' then bindE (verifyInclusion (vc_env c) p) (\<lambda>b. Inr (onChecks (\<lambda>k. k\<lparr>ck_receipt_included := Some b\<rparr>) s))
      else if ip_tree_kind p = ''attestation'' then bindE (verifyInclusion (vc_env c) p) (\<lambda>b. Inr (onChecks (\<lambda>k. k\<lparr>ck_attestation_included := Some b\<rparr>) s))
      else if ip_tree_kind p = ''revocation'' then bindE (verifyInclusion (vc_env c) p) (\<lambda>b. Inr (onChecks (\<lambda>k. k\<lparr>ck_revocation_included := Some b\<rparr>) s))
      else Inr s)"

definition inclusionSection :: "'g vctx \<Rightarrow> vstate \<Rightarrow> vstate res" where
  "inclusionSection c s = (case vi_proof (vc_input c) of
       None \<Rightarrow> Inr s
     | Some p \<Rightarrow>
       let v = schemaOf c ''inclusionProof'' (InclusionProofV1_obj p) in
       if \<not> sv_valid v then Inr (push (''TSL_INCLUSION_INVALID'' # sv_errors v) s)
       else bindE (andE (ip_tree_kind p = ''event'' \<and> (ip_commitment p = vc_commitmentHash c \<or> ip_commitment p = vc_legacyCommitmentHash c))
                     (verifyInclusion (vc_env c) p)) (\<lambda>included.
         otherInclusion c p (explainIf included ''Event included in Merkle log proof'' (onChecks (\<lambda>k. k\<lparr>ck_included_in_log := included\<rparr>) s))))"

section \<open>Receipts\<close>

definition receiptProofValid :: "'g vctx \<Rightarrow> InclusionProofV1 option \<Rightarrow> bool res" where
  "receiptProofValid c pf = (case pf of
       None \<Rightarrow> Inr False
     | Some p \<Rightarrow>
       if \<not> sv_valid (schemaOf c ''inclusionProof'' (InclusionProofV1_obj p)) \<or> ip_tree_kind p \<noteq> ''receipt'' then Inr False
       else bindE (verifyInclusion (vc_env c) p) (\<lambda>included.
         if \<not> included then Inr False
         else case vi_checkpoint (vc_input c) of
           None \<Rightarrow> Inr True
         | Some cp \<Rightarrow> bindE (checkpointHashForPolicy (vc_env c) cp) (\<lambda>h.
             Inr (ip_checkpoint_hash p = h \<and> ip_root p = bc_receipt_root cp \<and> ip_epoch_start_ms p = bc_epoch_start_ms cp \<and> ip_shard p = bc_shard cp))))"

definition receiptInclusion :: "'g vctx \<Rightarrow> ReceiptCommitmentV1 \<Rightarrow> vstate \<Rightarrow> vstate res" where
  "receiptInclusion c r s =
     (if isOn (po_require_receipt_inclusion_for_disclosed_receipts (vc_policy c)) \<or> consentRequired c
      then bindE (receiptHash (vc_env c) (ReceiptCommitmentV1_obj r)) (\<lambda>commitment.
           bindE (receiptProofValid c (find (\<lambda>p. ip_commitment p = commitment) (orElse (vi_receipt_proofs (vc_input c)) []))) (\<lambda>ok.
             Inr (rejectIf (\<not> ok) (\<lambda>k. k\<lparr>ck_receipt_valid := Some False\<rparr>) [''TSL_RECEIPT_INCLUSION_INVALID'']
               (onChecks (\<lambda>k. k\<lparr>ck_receipt_included := Some (ck_receipt_included k \<noteq> Some False \<and> ok)\<rparr>) s))))
      else Inr s)"

definition receiptStep :: "'g vctx \<Rightarrow> ReceiptCommitmentV1 \<Rightarrow> vstate \<Rightarrow> vstate res" where
  "receiptStep c r s =
     (let E = vc_env c; v = schemaOf c ''receipt'' (ReceiptCommitmentV1_obj r); invalid = (\<lambda>k. k\<lparr>ck_receipt_valid := Some False\<rparr>) in
      if \<not> sv_valid v then Inr (rejectIf True invalid (''TSL_RECEIPT_INVALID'' # sv_errors v) s)
      else bindE (vc_resolver c (rc_receiver r) (Some (rc_timestamp r))) (\<lambda>identity.
        let key = Option.bind identity (\<lambda>d. findVerificationMethod d (rc_signing_key_id r)) in
        bindE (andE ((rc_event_commitment r = vc_commitmentHash c \<or> rc_event_commitment r = vc_legacyCommitmentHash c)
                     \<and> map_option vm_type key = Some ''ed25519'' \<and> keyActiveAt E key (rc_timestamp r))
                 (edSigned E key (receiptHash E (ReceiptCommitmentV1_obj r)) (rc_signature r))) (\<lambda>valid.
          receiptInclusion c r (rejectIf (\<not> valid) invalid [''TSL_RECEIPT_INVALID''] s))))"

definition receiptsSection :: "'g vctx \<Rightarrow> vstate \<Rightarrow> vstate res" where
  "receiptsSection c s =
     (if \<not> truthyList (vi_receipts (vc_input c)) then Inr s
      else bindE (if consentRequired c then consentGate c [''exact_counterparties''] (\<lambda>k. k\<lparr>ck_receipt_valid := Some False\<rparr>)
                    (onChecks (\<lambda>k. k\<lparr>ck_receipt_valid := Some True\<rparr>) s)
                  else Inr (onChecks (\<lambda>k. k\<lparr>ck_receipt_valid := Some True\<rparr>) s)) (\<lambda>s1.
           bindE (foldE (receiptStep c) (the (vi_receipts (vc_input c))) s1) (\<lambda>t.
             Inr (explainIf (ck_receipt_valid (vs_checks t) = Some True) ''Receipt signatures valid'' t))))"

section \<open>Attestations\<close>

definition attestationStep :: "'g vctx \<Rightarrow> AttestationV1 \<Rightarrow> vstate \<Rightarrow> vstate res" where
  "attestationStep c a s =
     (let E = vc_env c; v = schemaOf c ''attestation'' (AttestationV1_obj a); invalid = (\<lambda>k. k\<lparr>ck_attestation_valid := Some False\<rparr>) in
      if \<not> sv_valid v then Inr (rejectIf True invalid (''TSL_ATTESTATION_INVALID'' # sv_errors v) s)
      else bindE (vc_resolver c (att_issuer a) (Some (att_issued_at a))) (\<lambda>issuer.
        bindE (andE (att_subject a = ev_sender (vi_envelope (vc_input c)))
                 (edSigned E (activeKey E (att_issued_at a) issuer) (attestationHash E (AttestationV1_obj a)) (att_signature a))) (\<lambda>valid.
          Inr (rejectIf (\<not> valid) invalid [''TSL_ATTESTATION_INVALID''] s))))"

definition attestationsSection :: "'g vctx \<Rightarrow> vstate \<Rightarrow> vstate res" where
  "attestationsSection c s =
     (let inp = vc_input c; s0 = onChecks (\<lambda>k. k\<lparr>ck_attestation_valid := Some True\<rparr>) s in
      if \<not> truthyList (vi_attestations inp) then Inr s
      else bindE (if consentRequired c \<and> someList (\<lambda>a. att_visibility a \<noteq> ''public'') (vi_attestations inp)
                  then consentGate c [''attestations''] (\<lambda>k. k\<lparr>ck_attestation_valid := Some False\<rparr>) s0 else Inr s0) (\<lambda>s1.
           bindE (foldE (attestationStep c) (the (vi_attestations inp)) s1) (\<lambda>t.
             Inr (explainIf (ck_attestation_valid (vs_checks t) = Some True) ''Attestation signatures valid'' t))))"

definition attestationV2Step :: "'g vctx \<Rightarrow> AttestationV2 \<Rightarrow> vstate \<Rightarrow> vstate res" where
  "attestationV2Step c a s =
     (let E = vc_env c; v = schemaOf c ''attestationV2'' (AttestationV2_obj a); invalid = (\<lambda>k. k\<lparr>ck_attestation_valid := Some False\<rparr>) in
      if \<not> sv_valid v then Inr (rejectIf True invalid (''TSL_ATTESTATION_INVALID'' # sv_errors v) s)
      else bindE (vc_resolver c (at2_issuer a) (Some (at2_issued_at a))) (\<lambda>issuer.
        bindE (andE (at2_subject a = ev_sender (vi_envelope (vc_input c)))
                 (edSigned E (Option.bind issuer (\<lambda>d. findVerificationMethod d (at2_signing_key_id a))) (attestationV2Hash E a) (at2_signature a))) (\<lambda>valid.
          Inr (rejectIf (\<not> valid) invalid [''TSL_ATTESTATION_INVALID''] s))))"

definition attestationsV2Section :: "'g vctx \<Rightarrow> vstate \<Rightarrow> vstate res" where
  "attestationsV2Section c s =
     (let inp = vc_input c; s0 = onChecks (\<lambda>k. k\<lparr>ck_attestation_valid := Some (ck_attestation_valid k \<noteq> Some False)\<rparr>) s in
      if \<not> truthyList (vi_attestations_v2 inp) then Inr s
      else bindE (if consentRequired c \<and> someList (\<lambda>a. at2_visibility a \<noteq> ''public'') (vi_attestations_v2 inp)
                  then consentGate c [''attestations''] (\<lambda>k. k\<lparr>ck_attestation_valid := Some False\<rparr>) s0 else Inr s0) (\<lambda>s1.
           bindE (foldE (attestationV2Step c) (the (vi_attestations_v2 inp)) s1) (\<lambda>t.
             Inr (explainIf (ck_attestation_valid (vs_checks t) = Some True) ''v2 attestation signatures valid'' t))))"

definition privateFieldsSection :: "'g vctx \<Rightarrow> vstate \<Rightarrow> vstate res" where
  "privateFieldsSection c s =
     (let classes = (if privateMetadata (vc_input c) then [''private_metadata''] else []) @ (if privateGraph (vc_input c) then [''private_graph''] else []) in
      if \<not> consentRequired c \<or> classes = [] then Inr s else consentGate c classes (\<lambda>k. k) s)"

section \<open>The contract of a section\<close>

text \<open>The checks that decide the verdict and that later sections must not touch, in groups.\<close>

datatype gate = Core | Content | Included | CheckpointValid | CheckpointSigned | MatchesProof | Settled

fun gateOf :: "gate \<Rightarrow> VerificationChecks \<Rightarrow> bool option list" where
  "gateOf Core k = [Some (ck_schema_valid k), Some (ck_signature_valid k), Some (ck_key_found k), Some (ck_key_active k)]"
| "gateOf Content k = [ck_content_commitment_matches k]"
| "gateOf Included k = [Some (ck_included_in_log k)]"
| "gateOf CheckpointValid k = [Some (ck_checkpoint_valid k)]"
| "gateOf CheckpointSigned k = [ck_checkpoint_signature_valid k]"
| "gateOf MatchesProof k = [Some (ck_checkpoint_matches_proof k)]"
| "gateOf Settled k = [Some (ck_checkpoint_settled k)]"

text \<open>From \<open>s\<close> to \<open>t\<close> errors are only added, a revoked key stays revoked, and only the gates in \<open>W\<close> may change.\<close>

definition steps :: "gate set \<Rightarrow> vstate \<Rightarrow> vstate \<Rightarrow> bool" where
  "steps W s t \<longleftrightarrow> prefix (vs_errors s) (vs_errors t) \<and> (ck_not_revoked (vs_checks t) \<longrightarrow> ck_not_revoked (vs_checks s))
     \<and> (\<forall>g. g \<notin> W \<longrightarrow> gateOf g (vs_checks t) = gateOf g (vs_checks s))"

definition goes :: "gate set \<Rightarrow> vstate \<Rightarrow> vstate res \<Rightarrow> bool" where
  "goes W s m \<longleftrightarrow> (\<forall>t. m = Inr t \<longrightarrow> steps W s t)"

text \<open>An update of the checks that leaves the gates outside \<open>W\<close> alone.\<close>

definition mild :: "gate set \<Rightarrow> (VerificationChecks \<Rightarrow> VerificationChecks) \<Rightarrow> bool" where
  "mild W u \<longleftrightarrow> (\<forall>k. (ck_not_revoked (u k) \<longrightarrow> ck_not_revoked k) \<and> (\<forall>g. g \<notin> W \<longrightarrow> gateOf g (u k) = gateOf g k))"

lemma mildI: "(\<And>k. ck_not_revoked (u k) \<Longrightarrow> ck_not_revoked k) \<Longrightarrow> (\<And>k g. g \<notin> W \<Longrightarrow> gateOf g (u k) = gateOf g k) \<Longrightarrow> mild W u"
  by (simp add: mild_def)

lemma steps_refl [simp]: "steps W s s"
  by (simp add: steps_def)

lemma steps_trans: "steps W s t \<Longrightarrow> steps W t u \<Longrightarrow> steps W s u"
  by (auto simp: steps_def)

lemma steps_mono: "steps W s t \<Longrightarrow> W \<subseteq> V \<Longrightarrow> steps V s t"
  by (auto simp: steps_def)

lemma steps_ops:
  "steps W s t \<Longrightarrow> steps W s (push es t)"
  "steps W s t \<Longrightarrow> steps W s (pushIf b es t)"
  "steps W s t \<Longrightarrow> steps W s (explainIf b m t)"
  "mild W u \<Longrightarrow> steps W s t \<Longrightarrow> steps W s (onChecks u t)"
  "mild W u \<Longrightarrow> steps W s t \<Longrightarrow> steps W s (rejectIf b u es t)"
  by (auto simp: steps_def mild_def)

lemma steps_status: "steps W s t \<Longrightarrow> steps W s (t\<lparr>vs_settlementStatus := x\<rparr>)" "steps W s t \<Longrightarrow> steps W s (t\<lparr>vs_riskLabel := y\<rparr>)"
  by (simp_all add: steps_def)

lemma steps_if: "steps W s t \<Longrightarrow> steps W s u \<Longrightarrow> steps W s (if b then t else u)"
  by simp

lemma goes_Inr: "steps W s t \<Longrightarrow> goes W s (Inr t)"
  by (simp add: goes_def)

lemma goes_Inl: "goes W s (Inl e)"
  by (simp add: goes_def)

lemma goes_bind: "(\<And>x. goes W s (f x)) \<Longrightarrow> goes W s (bindE m f)"
  by (auto simp: goes_def bindE_eq_Inr)

lemma goes_trans: "goes W s m \<Longrightarrow> steps W r s \<Longrightarrow> goes W r m"
  by (auto simp: goes_def intro: steps_trans)

lemma goes_bind_state:
  assumes "goes W s m" "\<And>t. goes W t (f t)"
  shows "goes W s (bindE m f)"
  using assms by (fastforce simp: goes_def bindE_eq_Inr intro: steps_trans)

lemma goes_foldE:
  assumes "\<And>x t. goes W t (f x t)" "steps W r s"
  shows "goes W r (foldE f xs s)"
proof -
  have "goes W s (foldE f xs s)" for s
  proof (induction xs arbitrary: s)
    case (Cons x xs)
    show ?case unfolding foldE.simps by (rule goes_bind_state [OF assms(1)]) (rule Cons)
  qed (simp add: goes_def)
  then show ?thesis using assms(2) by (rule goes_trans)
qed

lemma goes_if: "(b \<Longrightarrow> goes W s m) \<Longrightarrow> (\<not> b \<Longrightarrow> goes W s n) \<Longrightarrow> goes W s (if b then m else n)"
  by simp

lemma goes_option: "goes W s m \<Longrightarrow> (\<And>x. goes W s (f x)) \<Longrightarrow> goes W s (case v of None \<Rightarrow> m | Some x \<Rightarrow> f x)"
  by (cases v) simp_all

lemmas goes_rules = goes_foldE goes_bind_state goes_if goes_option goes_bind goes_Inr goes_Inl steps_if steps_ops steps_status steps_refl mildI

text \<open>The rules for the gates, used to show that an update is mild.\<close>

lemma gateOf_cases: "gateOf g k = gateOf g k' \<longleftrightarrow> (case g of
     Core \<Rightarrow> ck_schema_valid k = ck_schema_valid k' \<and> ck_signature_valid k = ck_signature_valid k' \<and> ck_key_found k = ck_key_found k'
       \<and> ck_key_active k = ck_key_active k'
   | Content \<Rightarrow> ck_content_commitment_matches k = ck_content_commitment_matches k'
   | Included \<Rightarrow> ck_included_in_log k = ck_included_in_log k'
   | CheckpointValid \<Rightarrow> ck_checkpoint_valid k = ck_checkpoint_valid k'
   | CheckpointSigned \<Rightarrow> ck_checkpoint_signature_valid k = ck_checkpoint_signature_valid k'
   | MatchesProof \<Rightarrow> ck_checkpoint_matches_proof k = ck_checkpoint_matches_proof k'
   | Settled \<Rightarrow> ck_checkpoint_settled k = ck_checkpoint_settled k')"
  by (cases g) simp_all

locale verifier_section =
  fixes sec :: "'g vctx \<Rightarrow> vstate \<Rightarrow> vstate res" and writes :: "gate set"
  assumes contract: "goes writes s (sec c s)"
begin

lemma run: "sec c s = Inr t \<Longrightarrow> steps writes s t"
  using contract by (simp add: goes_def)

lemma error_free: "sec c s = Inr t \<Longrightarrow> vs_errors t = [] \<Longrightarrow> vs_errors s = []"
  using run by (fastforce simp: steps_def)

lemma revoked_stays: "sec c s = Inr t \<Longrightarrow> \<not> ck_not_revoked (vs_checks s) \<Longrightarrow> \<not> ck_not_revoked (vs_checks t)"
  using run by (fastforce simp: steps_def)

end

lemma consentGate_goes: "mild W u \<Longrightarrow> steps W r s \<Longrightarrow> goes W r (consentGate c fieldClasses u s)"
  unfolding consentGate_def by (assumption | rule goes_rules | simp add: gateOf_cases split: gate.split)+

interpretation chainRevocation: verifier_section chainRevocation "{}"
  by unfold_locales (unfold chainRevocation_def Let_def, (rule goes_rules consentGate_goes | simp add: gateOf_cases split: gate.split)+)

interpretation keyExplanations: verifier_section keyExplanations "{}"
  by unfold_locales (unfold keyExplanations_def Let_def, (rule goes_rules consentGate_goes | simp add: gateOf_cases split: gate.split)+)

interpretation revocationSection: verifier_section revocationSection "{}"
  by unfold_locales (unfold revocationSection_def revocationStep_def Let_def, (rule goes_rules consentGate_goes | simp add: gateOf_cases split: gate.split)+)

interpretation messageSection: verifier_section messageSection "{Content}"
  by unfold_locales (unfold messageSection_def Let_def, (rule goes_rules consentGate_goes | simp add: gateOf_cases split: gate.split)+)

interpretation inclusionSection: verifier_section inclusionSection "{Included}"
  by unfold_locales (unfold inclusionSection_def otherInclusion_def Let_def, (rule goes_rules consentGate_goes | simp add: gateOf_cases split: gate.split)+)

interpretation receiptsSection: verifier_section receiptsSection "{}"
  by unfold_locales (unfold receiptsSection_def receiptStep_def receiptInclusion_def Let_def, (rule goes_rules consentGate_goes | simp add: gateOf_cases split: gate.split)+)

interpretation attestationsSection: verifier_section attestationsSection "{}"
  by unfold_locales (unfold attestationsSection_def attestationStep_def Let_def, (rule goes_rules consentGate_goes | simp add: gateOf_cases split: gate.split)+)

interpretation attestationsV2Section: verifier_section attestationsV2Section "{}"
  by unfold_locales (unfold attestationsV2Section_def attestationV2Step_def Let_def, (rule goes_rules consentGate_goes | simp add: gateOf_cases split: gate.split)+)

interpretation privateFieldsSection: verifier_section privateFieldsSection "{}"
  by unfold_locales (unfold privateFieldsSection_def Let_def, (rule goes_rules consentGate_goes | simp add: gateOf_cases split: gate.split)+)

end
