(* ===== verification/VerifierScoring.thy ===== *)
theory VerifierScoring
  imports VerifierSections
begin

text \<open>
  The sections of \<^verbatim>\<open>verifyTSL\<close> (\<^verbatim>\<open>src/packages/core-ts/src/verifier.ts\<close>) on assessments, scoring profiles, metadata fingerprints and graph
  artifacts. Objects that the code compares by their JSON text have their keys in the order of the interface.
\<close>

section \<open>Assessments of the first generation\<close>

definition providerRegistry :: "'g vctx \<Rightarrow> TrustAssessmentV1 \<Rightarrow> vstate \<Rightarrow> vstate res" where
  "providerRegistry c a s =
     (if \<not> isOn (po_require_provider_registry (vc_policy c)) then Inr s
      else case Option.bind (vc_backend c) sb_isProviderActive of
        None \<Rightarrow> Inr (rejectIf True (\<lambda>k. k\<lparr>ck_provider_active := Some False, ck_model_registered := Some False\<rparr>) [''TSL_PROVIDER_REGISTRY_UNAVAILABLE''] s)
      | Some isProviderActive \<Rightarrow> (case Option.bind (vc_backend c) sb_isModelRegistered of
          None \<Rightarrow> Inr (rejectIf True (\<lambda>k. k\<lparr>ck_provider_active := Some False, ck_model_registered := Some False\<rparr>) [''TSL_PROVIDER_REGISTRY_UNAVAILABLE''] s)
        | Some isModelRegistered \<Rightarrow>
          bindE (isProviderActive (ta_issuer a)) (\<lambda>active. bindE (isModelRegistered (ta_issuer a) (ta_model_version a)) (\<lambda>registered.
            Inr (onChecks (\<lambda>k. k\<lparr>ck_provider_active := Some active, ck_model_registered := Some registered\<rparr>) s)))))"

definition providerAllowed :: "'g vctx \<Rightarrow> TrustAssessmentV1 \<Rightarrow> bool" where
  "providerAllowed c a \<longleftrightarrow> \<not> truthyList (po_accepted_scoring_providers (vc_policy c)) \<or> ta_issuer a \<in> set (the (po_accepted_scoring_providers (vc_policy c)))"

definition maxAgeOk :: "'g vctx \<Rightarrow> TrustAssessmentV1 \<Rightarrow> bool" where
  "maxAgeOk c a = (case po_max_assessment_age_ms (vc_policy c) of
       None \<Rightarrow> True
     | Some limit \<Rightarrow> (case dateParse (vc_env c) (ta_issued_at a) of None \<Rightarrow> False | Some t \<Rightarrow> now_ms (vc_env c) - t \<le> limit))"

definition hasEvidence :: "TrustAssessmentV1 \<Rightarrow> bool" where
  "hasEvidence a \<longleftrightarrow> ta_evidence_commitment a \<noteq> [] \<and> truthyList (ta_features_disclosed a) \<and> truthyList (ta_explanation a)"

definition assessmentSection :: "'g vctx \<Rightarrow> vstate \<Rightarrow> vstate res" where
  "assessmentSection c s = (case vi_assessment (vc_input c) of
       None \<Rightarrow> Inr s
     | Some a \<Rightarrow>
       let E = vc_env c; v = schemaOf c ''trustAssessment'' (TrustAssessmentV1_obj a); registry = isOn (po_require_provider_registry (vc_policy c)) in
       bindE (if sv_valid v then vc_resolver c (ta_issuer a) (Some (ta_issued_at a)) else Inr None) (\<lambda>issuer.
       bindE (providerRegistry c a s) (\<lambda>s1.
       bindE (andE (sv_valid v \<and> ta_subject a = ev_sender (vi_envelope (vc_input c)) \<and> dateLt (Some (now_ms E)) (dateParse E (ta_expires_at a))
                    \<and> providerAllowed c a \<and> maxAgeOk c a \<and> hasEvidence a
                    \<and> (\<not> registry \<or> ck_provider_active (vs_checks s1) = Some True \<and> ck_model_registered (vs_checks s1) = Some True))
                (edSigned E (activeKey E (ta_issued_at a) issuer) (assessmentHash E (TrustAssessmentV1_obj a)) (ta_signature a))) (\<lambda>ok.
         let s2 = onChecks (\<lambda>k. k\<lparr>ck_assessment_valid := Some ok\<rparr>) s1 in
         Inr (if ok then (explainIf True ''Signed trust assessment is valid'' s2)\<lparr>vs_riskLabel := ta_label a\<rparr>
              else pushIf (registry \<and> ck_model_registered (vs_checks s1) = Some False) [''TSL_MODEL_NOT_REGISTERED'']
                   (pushIf (registry \<and> ck_provider_active (vs_checks s1) = Some False) [''TSL_PROVIDER_INACTIVE'']
                   (pushIf (\<not> hasEvidence a) [''TSL_ASSESSMENT_EVIDENCE_INCOMPLETE'']
                   (pushIf (\<not> maxAgeOk c a) [''TSL_ASSESSMENT_TOO_OLD'']
                   (pushIf (\<not> providerAllowed c a) [''TSL_PROVIDER_NOT_ACCEPTED'']
                   (push (''TSL_ASSESSMENT_INVALID'' # sv_errors v) s2))))))))))"

section \<open>Scoring profiles and assessments of the second generation\<close>

definition scoringProfileStep :: "'g vctx \<Rightarrow> vstate \<Rightarrow> vstate res" where
  "scoringProfileStep c s = (case vi_scoring_profile (vc_input c) of
       Some p \<Rightarrow>
       let E = vc_env c; v = schemaOf c ''scoringProfileV2'' (ScoringProfileV2_obj p); t = dateParse E (ev_timestamp (vi_envelope (vc_input c)));
           accepted = (\<not> truthyList (po_accepted_scoring_profiles (vc_policy c)) \<or> sp_profile_id p \<in> set (the (po_accepted_scoring_profiles (vc_policy c)))) in
       bindE (if sv_valid v then vc_resolver c (sp_provider p) (Some (sp_issued_at p)) else Inr None) (\<lambda>provider.
       bindE (andE (sv_valid v \<and> accepted \<and> dateLe (dateParse E (sp_valid_after p)) t \<and> dateLt t (dateParse E (sp_expires_at p)))
                (edSigned E (activeKey E (sp_issued_at p) provider) (scoringProfileV2Hash E p) (sp_signature p))) (\<lambda>ok.
         Inr (pushIf (\<not> ok \<and> \<not> accepted) [''TSL_SCORING_PROFILE_NOT_ACCEPTED'']
             (pushIf (\<not> ok) (''TSL_SCORING_PROFILE_INVALID'' # sv_errors v)
             (onChecks (\<lambda>k. k\<lparr>ck_scoring_profile_valid := Some ok\<rparr>) s)))))
     | None \<Rightarrow> Inr (rejectIf (isOn (po_require_v2_assessment (vc_policy c))) (\<lambda>k. k\<lparr>ck_scoring_profile_valid := Some False\<rparr>) [''TSL_SCORING_PROFILE_MISSING''] s))"

definition domainPolicyStep :: "'g vctx \<Rightarrow> vstate \<Rightarrow> vstate res" where
  "domainPolicyStep c s =
     (let required = po_required_domain_policy (vc_policy c) in
      case vi_domain_policy (vc_input c) of
        Some p \<Rightarrow>
        let v = schemaOf c ''domainPolicyV1'' (DomainPolicyV1_obj p); ok = (sv_valid v \<and> (\<not> truthyStr required \<or> Some (dp_domain p) = required)) in
        Inr (pushIf (\<not> ok) (''TSL_DOMAIN_POLICY_INVALID'' # sv_errors v) (onChecks (\<lambda>k. k\<lparr>ck_domain_policy_valid := Some ok\<rparr>) s))
      | None \<Rightarrow> Inr (rejectIf (truthyStr required) (\<lambda>k. k\<lparr>ck_domain_policy_valid := Some False\<rparr>) [''TSL_DOMAIN_POLICY_MISSING''] s))"

definition evidenceCoverageStep :: "'g vctx \<Rightarrow> vstate \<Rightarrow> vstate res" where
  "evidenceCoverageStep c s = (case vi_evidence_coverage (vc_input c) of
       None \<Rightarrow> Inr s
     | Some x \<Rightarrow> let v = schemaOf c ''evidenceCoverageV1'' (EvidenceCoverageV1_obj x) in
         Inr (pushIf (\<not> sv_valid v) (''TSL_EVIDENCE_COVERAGE_INVALID'' # sv_errors v) (onChecks (\<lambda>k. k\<lparr>ck_evidence_coverage_valid := Some (sv_valid v)\<rparr>) s)))"

definition providerGovernanceStep :: "'g vctx \<Rightarrow> vstate \<Rightarrow> vstate res" where
  "providerGovernanceStep c s =
     (let E = vc_env c; inp = vc_input c; governance = vi_provider_governance_status inp;
          v = (case governance of Some g \<Rightarrow> schemaOf c ''providerGovernanceStatusV1'' (ProviderGovernanceStatusV1_obj g) | None \<Rightarrow> \<lparr>sv_valid = False, sv_errors = []\<rparr>);
          expectedProvider = orFrom (map_option sp_provider (vi_scoring_profile inp)) (map_option ta2_issuer (vi_assessment_v2 inp)) in
      if \<not> isOn (po_require_provider_governance_active (vc_policy c)) then Inr s
      else bindE (case governance of Some g \<Rightarrow> if truthyStr expectedProvider then vc_resolver c (the expectedProvider) (Some (pg_issued_at g)) else Inr None
                  | None \<Rightarrow> Inr None) (\<lambda>provider.
           bindE (case governance of
                    Some g \<Rightarrow> if truthyStr (pg_signature g)
                              then edSigned E (activeUnrevokedKey E (pg_issued_at g) provider) (unsignedObjectHash E (ProviderGovernanceStatusV1_obj g)) (the (pg_signature g))
                              else Inr False
                  | None \<Rightarrow> Inr False) (\<lambda>signed.
             let ok = (case governance of None \<Rightarrow> False | Some g \<Rightarrow> sv_valid v \<and> Some (pg_provider g) = expectedProvider \<and> pg_status g = ''active''
                        \<and> pg_model_registered g \<and> pg_promotion_gate_result g = ''pass'' \<and> pg_red_team_result g = ''pass'' \<and> pg_privacy_leakage_bps g \<le> 1000 \<and> signed) in
             Inr (pushIf (\<not> ok) (sv_errors v @ [''TSL_SCORING_GOVERNANCE_INVALID''] @ (if signed then [] else [''TSL_PROVIDER_GOVERNANCE_SIGNATURE_INVALID''])
                    @ [''TSL_PROVIDER_INACTIVE''] @ (if map_option pg_model_registered governance = Some False then [''TSL_MODEL_NOT_REGISTERED''] else []))
                 (onChecks (\<lambda>k. k\<lparr>ck_provider_governance_valid := Some ok\<rparr>) s)))))"

definition gateMatches :: "GateResult \<Rightarrow> VerificationChecks \<Rightarrow> bool" where
  "gateMatches g k \<longleftrightarrow> gr_schema_valid g = ck_schema_valid k \<and> gr_signature_valid g = ck_signature_valid k \<and> gr_key_active g = ck_key_active k
     \<and> gr_not_revoked g = ck_not_revoked k \<and> (gr_included_in_log g = None \<or> gr_included_in_log g = Some (ck_included_in_log k))"

definition riskLabelOf :: "string \<Rightarrow> string" where
  "riskLabelOf label = (if label \<in> {''cryptographic_failure'', ''settlement_missing'', ''unsettled_or_unproven'', ''delegation_missing'', ''revoked_or_compromised''}
     then ''high_risk'' else label)"

definition assessmentV2Step :: "'g vctx \<Rightarrow> vstate \<Rightarrow> vstate res" where
  "assessmentV2Step c s = (case vi_assessment_v2 (vc_input c) of
       Some a \<Rightarrow>
       let E = vc_env c; inp = vc_input c; v = schemaOf c ''trustAssessmentV2'' (TrustAssessmentV2_obj a);
           profileMatches = (case vi_scoring_profile inp of None \<Rightarrow> True | Some p \<Rightarrow> ta2_scoring_profile_id a = sp_profile_id p);
           domainMatches = (case vi_domain_policy inp of None \<Rightarrow> True | Some p \<Rightarrow> ta2_domain a = dp_domain p);
           providerMatches = (case vi_scoring_profile inp of None \<Rightarrow> True | Some p \<Rightarrow> ta2_issuer a = sp_provider p);
           gate = gateMatches (ta2_gate_result a) (vs_checks s) in
       bindE (if sv_valid v then vc_resolver c (ta2_issuer a) (Some (ta2_issued_at a)) else Inr None) (\<lambda>issuer.
       bindE (andE (sv_valid v \<and> ta2_subject a = ev_sender (vi_envelope inp) \<and> dateLt (Some (now_ms E)) (dateParse E (ta2_expires_at a))
                    \<and> profileMatches \<and> domainMatches \<and> gate \<and> providerMatches)
                (edSigned E (activeKey E (ta2_issued_at a) issuer) (trustAssessmentV2Hash E (TrustAssessmentV2_obj a)) (ta2_signature a))) (\<lambda>ok.
         let s1 = onChecks (\<lambda>k. k\<lparr>ck_trust_assessment_v2_valid := Some ok\<rparr>) s in
         Inr (if ok then (explainIf True ''Signed v2 trust assessment is valid'' s1)\<lparr>vs_riskLabel := riskLabelOf (ta2_label a)\<rparr>
              else pushIf (\<not> gate) [''TSL_ASSESSMENT_GATE_MISMATCH''] (push (''TSL_TRUST_ASSESSMENT_V2_INVALID'' # sv_errors v) s1))))
     | None \<Rightarrow> Inr (rejectIf (isOn (po_require_v2_assessment (vc_policy c))) (\<lambda>k. k\<lparr>ck_trust_assessment_v2_valid := Some False\<rparr>)
                 [''TSL_TRUST_ASSESSMENT_V2_MISSING''] s))"

definition scoringSection :: "'g vctx \<Rightarrow> vstate \<Rightarrow> vstate res" where
  "scoringSection c s =
     (if vi_scoring_profile (vc_input c) = None \<and> vi_assessment_v2 (vc_input c) = None \<and> \<not> isOn (po_require_v2_assessment (vc_policy c)) then Inr s
      else bindE (scoringProfileStep c s) (\<lambda>s1. bindE (domainPolicyStep c s1) (\<lambda>s2. bindE (evidenceCoverageStep c s2) (\<lambda>s3.
           bindE (providerGovernanceStep c s3) (assessmentV2Step c)))))"

section \<open>Metadata fingerprints\<close>

definition fingerprintStep :: "'g vctx \<Rightarrow> MetadataFingerprintCommitmentV1 \<Rightarrow> vstate \<Rightarrow> vstate res" where
  "fingerprintStep c f s =
     (let E = vc_env c; ev = vi_envelope (vc_input c); v = schemaOf c ''metadataFingerprintCommitmentV1'' (MetadataFingerprintCommitmentV1_obj f) in
      bindE (if sv_valid v then vc_resolver c (mf_subject f) (Some (mf_expires_at f)) else Inr None) (\<lambda>subject.
      bindE (andE (sv_valid v \<and> mf_subject f = ev_sender ev)
               (edSigned E (activeKey E (ev_timestamp ev) subject) (metadataFingerprintCommitmentV1Hash E f) (mf_signature f))) (\<lambda>valid.
        Inr (rejectIf (\<not> valid) (\<lambda>k. k\<lparr>ck_metadata_fingerprint_valid := Some False\<rparr>) (''TSL_METADATA_FINGERPRINT_INVALID'' # sv_errors v) s))))"

definition metadataSection :: "'g vctx \<Rightarrow> vstate \<Rightarrow> vstate res" where
  "metadataSection c s =
     (let fingerprints = vi_metadata_fingerprints (vc_input c); required = isOn (po_require_metadata_fingerprint_policy (vc_policy c)) in
      if \<not> truthyList fingerprints \<and> \<not> required then Inr s
      else bindE (foldE (fingerprintStep c) (orElse fingerprints []) (onChecks (\<lambda>k. k\<lparr>ck_metadata_fingerprint_valid := Some True\<rparr>) s)) (\<lambda>t.
        Inr (rejectIf (required \<and> \<not> truthyList fingerprints) (\<lambda>k. k\<lparr>ck_metadata_fingerprint_valid := Some False\<rparr>) [''TSL_METADATA_FINGERPRINT_MISSING''] t)))"

section \<open>Graph artifacts\<close>

text \<open>\<^verbatim>\<open>checks.graph_artifacts_valid = checks.graph_artifacts_valid && b\<close>\<close>

definition andGraph :: "bool \<Rightarrow> VerificationChecks \<Rightarrow> VerificationChecks" where
  "andGraph b k = k\<lparr>ck_graph_artifacts_valid := Some (ck_graph_artifacts_valid k = Some True \<and> b)\<rparr>"

definition optValid :: "SchemaValidationResult option \<Rightarrow> bool" where
  "optValid v = (case v of None \<Rightarrow> True | Some x \<Rightarrow> sv_valid x)"

record graphValidations =
  gx_profile :: "SchemaValidationResult option"
  gx_vector :: "SchemaValidationResult option"
  gx_sybil :: "SchemaValidationResult option"
  gx_drift :: "SchemaValidationResult option"

definition graphValidationsOf :: "'g vctx \<Rightarrow> graphValidations" where
  "graphValidationsOf c = (let inp = vc_input c in
     \<lparr>gx_profile = map_option (\<lambda>x. schemaOf c ''graphProfileV2'' (GraphProfileV2_obj x)) (vi_graph_profile inp),
      gx_vector = map_option (\<lambda>x. schemaOf c ''graphFeatureVectorV1'' (GraphFeatureVectorV1_obj x)) (vi_graph_feature_vector inp),
      gx_sybil = map_option (\<lambda>x. schemaOf c ''sybilAssessmentV1'' (SybilAssessmentV1_obj x)) (vi_sybil_assessment inp),
      gx_drift = map_option (\<lambda>x. schemaOf c ''driftReportV1'' (DriftReportV1_obj x)) (vi_drift_report inp)\<rparr>)"

definition requireGraphArtifacts :: "'g vctx \<Rightarrow> bool" where
  "requireGraphArtifacts c \<longleftrightarrow> isOn (po_require_graph_artifacts (vc_policy c)) \<or> isOn (po_require_exact_graph_formulas (vc_policy c))"

definition graphShapeStep :: "'g vctx \<Rightarrow> graphValidations \<Rightarrow> vstate \<Rightarrow> vstate" where
  "graphShapeStep c vs s =
     (let missing = (requireGraphArtifacts c \<and> (vi_graph_profile (vc_input c) = None \<or> vi_graph_feature_vector (vc_input c) = None)) in
      onChecks (\<lambda>k. k\<lparr>ck_graph_artifacts_valid := Some (ck_graph_artifacts_valid k \<noteq> Some False \<and> optValid (gx_profile vs) \<and> optValid (gx_vector vs)
          \<and> optValid (gx_sybil vs) \<and> optValid (gx_drift vs))\<rparr>)
        (rejectIf missing (\<lambda>k. k\<lparr>ck_graph_artifacts_valid := Some False\<rparr>) [''TSL_GRAPH_ARTIFACT_REQUIRED''] s))"

definition profileAlgorithm :: "'g vctx \<Rightarrow> string option" where
  "profileAlgorithm c = normalizeGraphAlgorithm (map_option (\<lambda>p. cd_algorithm (gpr_community_detection p)) (vi_graph_profile (vc_input c)))"

definition graphVectorStep :: "'g vctx \<Rightarrow> vstate \<Rightarrow> vstate res" where
  "graphVectorStep c s = (case vi_graph_feature_vector (vc_input c) of
       None \<Rightarrow> Inr s
     | Some v \<Rightarrow>
       bindE (vc_resolver c (gv_subject v) (Some (gv_computed_at v))) (\<lambda>subject.
       bindE (andE (ck_graph_artifacts_valid (vs_checks s) = Some True \<and> gv_subject v = ev_sender (vi_envelope (vc_input c))
                    \<and> (\<not> isOn (po_require_research_graph_algorithm (vc_policy c)) \<or> gv_community_algorithm_id v = profileAlgorithm c))
                (edSigned (vc_env c) (activeKey (vc_env c) (gv_computed_at v) subject) (graphFeatureVectorV1Hash (vc_env c) v) (gv_signature v))) (\<lambda>ok.
         Inr (onChecks (\<lambda>k. k\<lparr>ck_graph_artifacts_valid := Some ok\<rparr>) s))))"

definition graphAlgorithmStep :: "'g vctx \<Rightarrow> vstate \<Rightarrow> vstate" where
  "graphAlgorithmStep c s =
     (let ok = (profileAlgorithm c \<in> {Some ''louvain_modularity_v1'', Some ''leiden_refinement_v1''}) in
      if \<not> isOn (po_require_research_graph_algorithm (vc_policy c)) then s
      else onChecks (andGraph ok) (pushIf (\<not> ok) [''TSL_GRAPH_ARTIFACTS_INVALID''] (onChecks (\<lambda>k. k\<lparr>ck_research_graph_algorithm_valid := Some ok\<rparr>) s)))"

definition intsCommitment :: "env \<Rightarrow> int list \<Rightarrow> string res" where
  "intsCommitment E xs = sha256OfJson E (JArr (map (\<lambda>i. JNum (JInt i)) xs))"

definition matrixCommitment :: "env \<Rightarrow> int list list \<Rightarrow> string res" where
  "matrixCommitment E xs = sha256OfJson E (JArr (map (\<lambda>r. JArr (map (\<lambda>i. JNum (JInt i)) r)) xs))"

text \<open>\<^verbatim>\<open>commitment === sha256Hex(...) && ...\<close>: the next hash is computed only if the last one matched.\<close>

definition manifoldCommitmentsMatch :: "env \<Rightarrow> ManifoldProfile \<Rightarrow> bool res" where
  "manifoldCommitmentsMatch E m =
     bindE (intsCommitment E (orElse (mp_trusted_centroid_bps m) [])) (\<lambda>h1. andE (mp_trusted_centroid_commitment m = Some h1)
       (bindE (intsCommitment E (orElse (mp_adversarial_centroid_bps m) [])) (\<lambda>h2. andE (mp_adversarial_centroid_commitment m = Some h2)
       (bindE (intsCommitment E (orElse (mp_cluster_centroid_bps m) [])) (\<lambda>h3. andE (mp_cluster_centroid_commitment m = Some h3)
       (bindE (matrixCommitment E (orElse (mp_inverse_covariance_bps m) [])) (\<lambda>h4. Inr (mp_covariance_commitment m = Some h4))))))))"

definition manifoldStep :: "'g vctx \<Rightarrow> vstate \<Rightarrow> vstate res" where
  "manifoldStep c s =
     (let invalid = (\<lambda>k. k\<lparr>ck_graph_artifacts_valid := Some False\<rparr>); code = [''TSL_MANIFOLD_PROFILE_UNSUPPORTED'']; vector = vi_graph_feature_vector (vc_input c);
          profile = Option.bind (vi_graph_profile (vc_input c)) gpr_manifold_profile in
      if \<not> isOn (po_require_exact_graph_formulas (vc_policy c)) \<or> vector = None then Inr s
      else let v = the vector;
               fieldsPresent = (gv_ppr_distance_bps v \<noteq> None \<and> gv_trusted_manifold_distance_bps v \<noteq> None \<and> gv_adversarial_manifold_distance_bps v \<noteq> None
                 \<and> gv_cluster_distance_bps v \<noteq> None);
               s1 = rejectIf (profile = None) invalid code (rejectIf (\<not> fieldsPresent) invalid code s)
           in case profile of
                None \<Rightarrow> Inr s1
              | Some m \<Rightarrow>
                if mp_algorithm m \<noteq> ''centroid_covariance_v1'' then Inr s1
                else bindE (manifoldCommitmentsMatch (vc_env c) m) (\<lambda>match.
                  let present = (truthyStr (mp_trusted_centroid_commitment m) \<and> truthyStr (mp_adversarial_centroid_commitment m)
                        \<and> truthyStr (mp_cluster_centroid_commitment m) \<and> truthyStr (mp_covariance_commitment m));
                      openings = (truthyList (mp_trusted_centroid_bps m) \<and> truthyList (mp_adversarial_centroid_bps m)
                        \<and> truthyList (mp_cluster_centroid_bps m) \<and> truthyList (mp_inverse_covariance_bps m))
                  in Inr (rejectIf (\<not> present \<or> \<not> openings \<or> \<not> match) invalid code s1)))"

definition seedGovernanceStep :: "'g vctx \<Rightarrow> vstate \<Rightarrow> vstate res" where
  "seedGovernanceStep c s =
     (let E = vc_env c; inp = vc_input c; sets = map_option gpr_seed_sets (vi_graph_profile inp);
          trusted = orElse (vi_trusted_seeds inp) []; adversarial = orElse (vi_adversarial_seeds inp) [] in
      if \<not> isOn (po_require_seed_governance_opening (vc_policy c)) then Inr s
      else bindE (seedCommitment E trusted) (\<lambda>trustedCommitment. bindE (seedCommitment E adversarial) (\<lambda>adversarialCommitment.
           bindE (seedGovernanceProfileValid E (vc_resolver c) (vi_trusted_seed_governance inp) ''trusted'' trusted
             (map_option ss_trusted_seed_commitment sets) (Option.bind sets ss_trusted_seed_governance_commitment)) (\<lambda>t.
           bindE (seedGovernanceProfileValid E (vc_resolver c) (vi_adversarial_seed_governance inp) ''adversarial'' adversarial
             (map_option ss_adversarial_seed_commitment sets) (Option.bind sets ss_adversarial_seed_governance_commitment)) (\<lambda>a.
             let ok = (Some trustedCommitment = map_option ss_trusted_seed_commitment sets
                       \<and> Some adversarialCommitment = map_option ss_adversarial_seed_commitment sets \<and> t \<and> a) in
             Inr (onChecks (andGraph ok) (pushIf (\<not> ok) [''TSL_SEED_GOVERNANCE_OPENING_INVALID''] (onChecks (\<lambda>k. k\<lparr>ck_seed_governance_valid := Some ok\<rparr>) s))))))))"

definition sybilSignatureStep :: "'g vctx \<Rightarrow> vstate \<Rightarrow> vstate res" where
  "sybilSignatureStep c s = (case vi_sybil_assessment (vc_input c) of
       None \<Rightarrow> Inr s
     | Some a \<Rightarrow>
       let s1 = rejectIf (isOn (po_require_sybil_provider_issuer (vc_policy c)) \<and> sa_issuer a = [])
                  (\<lambda>k. k\<lparr>ck_sybil_assessment_valid := Some False, ck_graph_artifacts_valid := Some False\<rparr>) [''TSL_SYBIL_PROVIDER_ISSUER_REQUIRED''] s in
       bindE (vc_resolver c (sa_issuer a) (Some (sa_computed_at a))) (\<lambda>issuer.
       bindE (andE (ck_sybil_assessment_valid (vs_checks s1) \<noteq> Some False \<and> sa_subject a = ev_sender (vi_envelope (vc_input c)))
                (edSigned (vc_env c) (activeKey (vc_env c) (sa_computed_at a) issuer) (sybilAssessmentV1Hash (vc_env c) a) (sa_signature a))) (\<lambda>ok.
         Inr (onChecks (andGraph ok) (onChecks (\<lambda>k. k\<lparr>ck_sybil_assessment_valid := Some ok\<rparr>) s1)))))"

definition driftSignatureStep :: "'g vctx \<Rightarrow> vstate \<Rightarrow> vstate res" where
  "driftSignatureStep c s = (case vi_drift_report (vc_input c) of
       None \<Rightarrow> Inr s
     | Some d \<Rightarrow>
       let s1 = rejectIf (isOn (po_require_core_drift_formula (vc_policy c)) \<and> (\<not> truthyStr (dr_issuer d) \<or> dr_signature d = ''0x00''))
                  (\<lambda>k. k\<lparr>ck_drift_report_valid := Some False, ck_graph_artifacts_valid := Some False\<rparr>) [''TSL_DRIFT_RECOMPUTATION_REQUIRED''] s in
       bindE (vc_resolver c (orElse (dr_issuer d) (dr_subject d)) (Some (dr_computed_at d))) (\<lambda>issuer.
       bindE (andE (dr_subject d = ev_sender (vi_envelope (vc_input c)))
                (edSigned (vc_env c) (activeKey (vc_env c) (dr_computed_at d) issuer) (driftReportV1Hash (vc_env c) d) (dr_signature d))) (\<lambda>ok.
         Inr (onChecks (andGraph ok) (onChecks (\<lambda>k. k\<lparr>ck_drift_report_valid := Some ok\<rparr>) s1)))))"

text \<open>The graph from the evidence; an exception becomes an error and no graph.\<close>

definition evidenceGraphOf :: "'g vctx \<Rightarrow> ('g res) option" where
  "evidenceGraphOf c =
     (let inp = vc_input c in
      case vi_graph_profile inp of
        None \<Rightarrow> None
      | Some p \<Rightarrow>
        if vi_graph_feature_vector inp = None \<and> vi_sybil_assessment inp = None then None
        else Some (go_construct (vc_graphOps c) inp (vc_resolver c) p
               (orElse (orFrom (map_option gv_computed_at (vi_graph_feature_vector inp)) (map_option sa_computed_at (vi_sybil_assessment inp)))
                  (ev_timestamp (vi_envelope inp)))))"

definition graphEvidenceStep :: "'g vctx \<Rightarrow> vstate \<Rightarrow> vstate" where
  "graphEvidenceStep c s = (case evidenceGraphOf c of
       Some (Inl message) \<Rightarrow>
         rejectIf True (\<lambda>k. k\<lparr>ck_graph_artifacts_valid := Some False\<rparr>)
           [if message \<in> {''TSL_NEGATIVE_EVIDENCE_INCOMPLETE'', ''TSL_GRAPH_EVENT_REPLAY_DETECTED''} then message else ''TSL_GRAPH_EVIDENCE_INVALID''] s
     | _ \<Rightarrow> s)"

definition fullGraphMatches :: "GraphFeatureVectorV1 \<Rightarrow> GraphFeatureVectorV1 \<Rightarrow> bool" where
  "fullGraphMatches r v \<longleftrightarrow>
     gv_weighted_degree_bps r = gv_weighted_degree_bps v \<and> gv_reciprocity_bps r = gv_reciprocity_bps v
      \<and> gv_counterparty_hhi_bps r = gv_counterparty_hhi_bps v \<and> gv_counterparty_entropy_bps r = gv_counterparty_entropy_bps v
      \<and> gv_effective_counterparty_count_milli r = gv_effective_counterparty_count_milli v \<and> gv_seed_escape_bps r = gv_seed_escape_bps v
      \<and> gv_adversarial_proximity_bps r = gv_adversarial_proximity_bps v \<and> gv_community_algorithm_id r = gv_community_algorithm_id v
      \<and> gv_community_escape_bps r = gv_community_escape_bps v \<and> gv_community_diversity_bps r = gv_community_diversity_bps v
      \<and> gv_conductance_bps r = gv_conductance_bps v \<and> gv_trusted_neighbor_mass_bps r = gv_trusted_neighbor_mass_bps v
      \<and> gv_trusted_seed_distance_bps r = gv_trusted_seed_distance_bps v
      \<and> gv_adversarial_seed_distance_bps r = gv_adversarial_seed_distance_bps v \<and> gv_pagerank_bps r = gv_pagerank_bps v
      \<and> gv_ppr_lite_bps r = gv_ppr_lite_bps v \<and> gv_ppr_distance_bps r = gv_ppr_distance_bps v
      \<and> gv_trusted_seed_distance_proxy_bps r = gv_trusted_seed_distance_proxy_bps v
      \<and> gv_adversarial_seed_distance_proxy_bps r = gv_adversarial_seed_distance_proxy_bps v
      \<and> gv_cluster_distance_proxy_bps r = gv_cluster_distance_proxy_bps v
      \<and> gv_trusted_manifold_distance_bps r = gv_trusted_manifold_distance_bps v
      \<and> gv_adversarial_manifold_distance_bps r = gv_adversarial_manifold_distance_bps v \<and> gv_cluster_distance_bps r = gv_cluster_distance_bps v
      \<and> gv_modularity_bps r = gv_modularity_bps v \<and> gv_community_pass_count r = gv_community_pass_count v
      \<and> gv_cluster_concentration_bps r = gv_cluster_concentration_bps v \<and> gv_recomputation_commitment r = gv_recomputation_commitment v
      \<and> gv_feature_commitment r = gv_feature_commitment v \<and> gv_privacy_disclosure_level r = gv_privacy_disclosure_level v"

definition graphRecomputeStep :: "'g vctx \<Rightarrow> vstate \<Rightarrow> vstate" where
  "graphRecomputeStep c s =
     (let inp = vc_input c in
      case (vi_graph_profile inp, vi_graph_feature_vector inp, evidenceGraphOf c) of
        (Some p, Some v, Some (Inr graph)) \<Rightarrow>
          (case go_features (vc_graphOps c) (gv_subject v) graph p (vi_trusted_seeds inp) (vi_adversarial_seeds inp) (gv_computed_at v) of
             Inl message \<Rightarrow> rejectIf True (\<lambda>k. k\<lparr>ck_graph_artifacts_valid := Some False\<rparr>)
               [if message = ''TSL_MANIFOLD_PROFILE_UNSUPPORTED'' then message else ''TSL_GRAPH_ARTIFACTS_INVALID''] s
           | Inr r \<Rightarrow> pushIf (\<not> fullGraphMatches r v) [''TSL_GRAPH_ARTIFACTS_INVALID''] (onChecks (andGraph (fullGraphMatches r v)) s))
      | _ \<Rightarrow> s)"

text \<open>\<^verbatim>\<open>JSON.stringify(x ?? {})\<close>\<close>

definition jsonOf :: "('a \<Rightarrow> jsobj) \<Rightarrow> 'a option \<Rightarrow> string option" where
  "jsonOf f x = jsonStringify (JObj (case x of None \<Rightarrow> [] | Some y \<Rightarrow> f y))"

definition sybilMatches :: "SybilAssessmentV1 \<Rightarrow> SybilAssessmentV1 \<Rightarrow> bool" where
  "sybilMatches r a \<longleftrightarrow>
     sa_cluster_concentration_bps r = sa_cluster_concentration_bps a \<and> sa_trusted_escape_bps r = sa_trusted_escape_bps a
      \<and> sa_internal_receipt_ratio_bps r = sa_internal_receipt_ratio_bps a \<and> sa_seed_set_commitment r = sa_seed_set_commitment a
      \<and> sa_evidence_commitment r = sa_evidence_commitment a \<and> sa_cluster_id_commitment r = sa_cluster_id_commitment a
      \<and> sa_adversary_tier_assumed r = sa_adversary_tier_assumed a \<and> sa_creation_sync_bps r = sa_creation_sync_bps a
      \<and> sa_issuer_reuse_bps r = sa_issuer_reuse_bps a \<and> sa_external_diversity_bps r = sa_external_diversity_bps a
      \<and> sa_seed_contamination_bps r = sa_seed_contamination_bps a \<and> sa_receipt_symmetry_bps r = sa_receipt_symmetry_bps a
      \<and> sa_attack_cost_minor_units r = sa_attack_cost_minor_units a
     \<and> jsonOf SybilCostComponents_obj (Some (sa_cost_components r)) = jsonOf SybilCostComponents_obj (Some (sa_cost_components a))
     \<and> sa_expected_benefit_minor_units r = sa_expected_benefit_minor_units a \<and> sa_attack_scenario r = sa_attack_scenario a
     \<and> jsonOf SybilCompromiseSignalsV1_obj (sa_compromise_signals r) = jsonOf SybilCompromiseSignalsV1_obj (sa_compromise_signals a)
     \<and> jsonOf SybilIssuerCollusionSignalsV1_obj (sa_issuer_collusion_signals r) = jsonOf SybilIssuerCollusionSignalsV1_obj (sa_issuer_collusion_signals a)
     \<and> jsonOf SybilInfrastructureCollusionSignalsV1_obj (sa_infrastructure_collusion_signals r) = jsonOf SybilInfrastructureCollusionSignalsV1_obj (sa_infrastructure_collusion_signals a)
     \<and> jsonOf SybilCompromiseEvidenceV1_obj (sa_compromise_evidence r) = jsonOf SybilCompromiseEvidenceV1_obj (sa_compromise_evidence a)
     \<and> jsonOf SybilIssuerCollusionEvidenceV1_obj (sa_issuer_collusion_evidence r) = jsonOf SybilIssuerCollusionEvidenceV1_obj (sa_issuer_collusion_evidence a)
     \<and> jsonOf SybilInfrastructureCollusionEvidenceV1_obj (sa_infrastructure_collusion_evidence r) = jsonOf SybilInfrastructureCollusionEvidenceV1_obj (sa_infrastructure_collusion_evidence a)
     \<and> jsonStringify (JArr (map JStr (orElse (sa_scenario_evidence_checks r) []))) = jsonStringify (JArr (map JStr (orElse (sa_scenario_evidence_checks a) [])))
     \<and> sa_risk_score_bps r = sa_risk_score_bps a \<and> sa_risk_label r = sa_risk_label a"

definition tierEvidencePresent :: "SybilAssessmentV1 \<Rightarrow> bool" where
  "tierEvidencePresent a =
     (if sa_adversary_tier_assumed a = ''B3'' then sa_compromise_evidence a \<noteq> None
      else if sa_adversary_tier_assumed a = ''B4'' then sa_issuer_collusion_evidence a \<noteq> None
      else if sa_adversary_tier_assumed a = ''B5'' then sa_infrastructure_collusion_evidence a \<noteq> None else True)"

definition sybilRecomputeStep :: "'g vctx \<Rightarrow> vstate \<Rightarrow> vstate res" where
  "sybilRecomputeStep c s =
     (let inp = vc_input c; tiers = isOn (po_require_behavioral_sybil_tiers (vc_policy c)) in
      case vi_graph_profile inp of
        None \<Rightarrow> Inr s
      | Some p \<Rightarrow> (case vi_sybil_assessment inp of
          None \<Rightarrow> Inr s
        | Some a \<Rightarrow> (case Option.bind (evidenceGraphOf c) (\<lambda>m. case m of Inl _ \<Rightarrow> None | Inr g \<Rightarrow> Some g) of
            None \<Rightarrow> Inr s
          | Some graph \<Rightarrow>
            bindE (go_sybil (vc_graphOps c) (sa_subject a) (sa_issuer a) graph p (vi_trusted_seeds inp) (vi_adversarial_seeds inp) (sa_computed_at a)
                     (vi_sybil_profile inp)) (\<lambda>r.
              Inr (pushIf (\<not> sybilMatches r a) [''TSL_SYBIL_ARTIFACT_INVALID'']
                (onChecks (andGraph (sybilMatches r a \<and> (\<not> tiers \<or> tierEvidencePresent a)))
                (pushIf (tiers \<and> \<not> tierEvidencePresent a) [''TSL_SYBIL_EVIDENCE_INCOMPLETE''] s)))))))"

definition driftMatches :: "DriftReportV1 \<Rightarrow> DriftReportV1 \<Rightarrow> bool" where
  "driftMatches r d \<longleftrightarrow>
     dr_drift_score_bps r = dr_drift_score_bps d \<and> dr_drift_label r = dr_drift_label d \<and> dr_action r = dr_action d
      \<and> dr_feature_history_commitment r = dr_feature_history_commitment d \<and> dr_baseline_profile_commitment r = dr_baseline_profile_commitment d
      \<and> dr_covariance_profile_commitment r = dr_covariance_profile_commitment d
      \<and> dr_robust_covariance_commitment r = dr_robust_covariance_commitment d \<and> dr_mahalanobis_bps r = dr_mahalanobis_bps d
      \<and> dr_cohort_baseline_profile_commitment r = dr_cohort_baseline_profile_commitment d
      \<and> dr_uncertainty_widening_bps r = dr_uncertainty_widening_bps d \<and> dr_sparse_mode r = dr_sparse_mode d
      \<and> dr_recomputation_status r = dr_recomputation_status d \<and> dr_last_verified_event_at r = dr_last_verified_event_at d
      \<and> dr_days_since_last_verified_event r = dr_days_since_last_verified_event d \<and> dr_coverage_bps r = dr_coverage_bps d
      \<and> dr_dcrit_bps r = dr_dcrit_bps d \<and> dr_dormant_penalty_bps r = dr_dormant_penalty_bps d
      \<and> dr_key_penalty_bps r = dr_key_penalty_bps d
     \<and> jsonOf (map (\<lambda>(k, i). (k, JNum (JInt i)))) (dr_component_scores_bps r) = jsonOf (map (\<lambda>(k, i). (k, JNum (JInt i)))) (dr_component_scores_bps d)
     \<and> jsonStringify (JArr (map JStr (dr_reason_codes r))) = jsonStringify (JArr (map JStr (dr_reason_codes d)))"

definition driftRecomputeStep :: "'g vctx \<Rightarrow> vstate \<Rightarrow> vstate res" where
  "driftRecomputeStep c s =
     (let inp = vc_input c in
      case vi_drift_report inp of
        None \<Rightarrow> Inr s
      | Some d \<Rightarrow>
        let s1 = rejectIf (isOn (po_require_core_drift_formula (vc_policy c)) \<and> \<not> truthyList (vi_drift_feature_history inp))
                   (\<lambda>k. k\<lparr>ck_drift_report_valid := Some False, ck_graph_artifacts_valid := Some False\<rparr>) [''TSL_DRIFT_RECOMPUTATION_REQUIRED''] s
        in case vi_drift_feature_history inp of
             None \<Rightarrow> Inr s1
           | Some history \<Rightarrow>
             bindE (go_drift (vc_graphOps c) d history (vi_drift_cohort_baseline_components inp)) (\<lambda>r.
               Inr (pushIf (\<not> driftMatches r d) [''TSL_DRIFT_ARTIFACT_INVALID''] (onChecks (andGraph (driftMatches r d)) s1))))"

definition covarianceStep :: "'g vctx \<Rightarrow> vstate \<Rightarrow> vstate" where
  "covarianceStep c s = (case vi_drift_report (vc_input c) of
       None \<Rightarrow> s
     | Some d \<Rightarrow>
       let ok = (truthyList (vi_drift_feature_history (vc_input c)) \<and> truthyStr (dr_covariance_profile_commitment d) \<and> truthyStr (dr_feature_history_commitment d)) in
       if \<not> isOn (po_require_full_covariance_drift (vc_policy c)) then s
       else onChecks (andGraph ok) (pushIf (\<not> ok) [''TSL_FULL_COVARIANCE_DRIFT_REQUIRED''] (onChecks (\<lambda>k. k\<lparr>ck_full_covariance_drift_valid := Some ok\<rparr>) s)))"

definition optErrors :: "SchemaValidationResult option \<Rightarrow> string list" where
  "optErrors v = (case v of None \<Rightarrow> [] | Some x \<Rightarrow> sv_errors x)"

definition graphConclude :: "'g vctx \<Rightarrow> graphValidations \<Rightarrow> vstate \<Rightarrow> vstate" where
  "graphConclude c vs s =
     pushIf (requireGraphArtifacts c \<and> ck_graph_artifacts_valid (vs_checks s) \<noteq> Some True)
       (''TSL_GRAPH_ARTIFACTS_INVALID'' # optErrors (gx_profile vs) @ optErrors (gx_vector vs) @ optErrors (gx_sybil vs) @ optErrors (gx_drift vs)) s"

definition graphScoped :: "'g vctx \<Rightarrow> bool" where
  "graphScoped c \<longleftrightarrow> (let inp = vc_input c in vi_graph_profile inp \<noteq> None \<or> vi_graph_feature_vector inp \<noteq> None \<or> vi_sybil_assessment inp \<noteq> None
     \<or> vi_drift_report inp \<noteq> None \<or> isOn (po_require_graph_artifacts (vc_policy c)))"

definition graphSection :: "'g vctx \<Rightarrow> vstate \<Rightarrow> vstate res" where
  "graphSection c s =
     (let vs = graphValidationsOf c in
      if \<not> graphScoped c then Inr s
      else bindE (graphVectorStep c (graphShapeStep c vs s)) (\<lambda>s1.
           bindE (manifoldStep c (graphAlgorithmStep c s1)) (\<lambda>s2.
           bindE (seedGovernanceStep c s2) (\<lambda>s3.
           bindE (sybilSignatureStep c s3) (\<lambda>s4.
           bindE (driftSignatureStep c s4) (\<lambda>s5.
           bindE (sybilRecomputeStep c (graphRecomputeStep c (graphEvidenceStep c s5))) (\<lambda>s6.
           bindE (driftRecomputeStep c s6) (\<lambda>s7.
             Inr (graphConclude c vs (covarianceStep c s7))))))))))"

section \<open>The sections keep the contract\<close>

lemma providerRegistry_goes: "steps W r s \<Longrightarrow> goes W r (providerRegistry c a s)"
  unfolding providerRegistry_def by (assumption | rule goes_rules | simp add: gateOf_cases split: gate.split)+

interpretation assessmentSection: verifier_section assessmentSection "{}"
  by unfold_locales (unfold assessmentSection_def Let_def, (rule goes_rules providerRegistry_goes | simp add: gateOf_cases split: gate.split)+)

interpretation scoringProfileStep: verifier_section scoringProfileStep "{}"
  by unfold_locales (unfold scoringProfileStep_def Let_def, (rule goes_rules | simp add: gateOf_cases split: gate.split)+)

interpretation domainPolicyStep: verifier_section domainPolicyStep "{}"
  by unfold_locales (unfold domainPolicyStep_def Let_def, (rule goes_rules | simp add: gateOf_cases split: gate.split)+)

interpretation evidenceCoverageStep: verifier_section evidenceCoverageStep "{}"
  by unfold_locales (unfold evidenceCoverageStep_def Let_def, (rule goes_rules | simp add: gateOf_cases split: gate.split)+)

interpretation providerGovernanceStep: verifier_section providerGovernanceStep "{}"
  by unfold_locales (unfold providerGovernanceStep_def Let_def, (rule goes_rules | simp add: gateOf_cases split: gate.split)+)

interpretation assessmentV2Step: verifier_section assessmentV2Step "{}"
  by unfold_locales (unfold assessmentV2Step_def Let_def, (rule goes_rules | simp add: gateOf_cases split: gate.split)+)

interpretation scoringSection: verifier_section scoringSection "{}"
  by unfold_locales (unfold scoringSection_def, (rule goes_rules scoringProfileStep.contract domainPolicyStep.contract evidenceCoverageStep.contract
      providerGovernanceStep.contract assessmentV2Step.contract)+)

interpretation metadataSection: verifier_section metadataSection "{}"
  by unfold_locales (unfold metadataSection_def fingerprintStep_def Let_def, (rule goes_rules | simp add: gateOf_cases split: gate.split)+)

lemma andGraph_mild: "mild W (andGraph b)"
  by (rule mildI) (simp_all add: andGraph_def gateOf_cases split: gate.split)

lemma graph_pure_steps:
  assumes "steps W r s"
  shows "steps W r (graphShapeStep c vs s)" "steps W r (graphAlgorithmStep c s)" "steps W r (graphEvidenceStep c s)"
    "steps W r (graphRecomputeStep c s)" "steps W r (covarianceStep c s)" "steps W r (graphConclude c vs s)"
proof -
  show "steps W r (graphShapeStep c vs s)"
    unfolding graphShapeStep_def Let_def by (rule assms | rule goes_rules | simp add: gateOf_cases split: gate.split)+
  show "steps W r (graphAlgorithmStep c s)"
    unfolding graphAlgorithmStep_def Let_def by (rule assms andGraph_mild | rule goes_rules | simp add: gateOf_cases split: gate.split)+
  have inv: "mild W (\<lambda>k. k\<lparr>ck_graph_artifacts_valid := Some False\<rparr>)"
    by (rule mildI) (simp_all add: gateOf_cases split: gate.split)
  show "steps W r (graphEvidenceStep c s)"
    using assms steps_ops(5) [OF inv] by (auto simp: graphEvidenceStep_def split: option.split sum.split)
  show "steps W r (graphRecomputeStep c s)"
    using assms steps_ops(5) [OF inv] steps_ops(2) steps_ops(4) [OF andGraph_mild] by (auto simp: graphRecomputeStep_def Let_def split: option.split sum.split)
  have "mild W (\<lambda>k. k\<lparr>ck_full_covariance_drift_valid := Some b\<rparr>)" for b
    by (rule mildI) (simp_all add: gateOf_cases split: gate.split)
  then show "steps W r (covarianceStep c s)"
    using assms by (auto simp: covarianceStep_def Let_def intro!: steps_ops andGraph_mild split: option.split)
  show "steps W r (graphConclude c vs s)"
    unfolding graphConclude_def by (rule steps_ops assms)+
qed

lemma graph_step_goes:
  assumes r: "steps W r s"
  shows "goes W r (graphVectorStep c s)" "goes W r (manifoldStep c s)" "goes W r (seedGovernanceStep c s)" "goes W r (sybilSignatureStep c s)"
    "goes W r (driftSignatureStep c s)" "goes W r (sybilRecomputeStep c s)" "goes W r (driftRecomputeStep c s)"
  unfolding graphVectorStep_def manifoldStep_def seedGovernanceStep_def sybilSignatureStep_def driftSignatureStep_def sybilRecomputeStep_def driftRecomputeStep_def
    Let_def
  by (rule r andGraph_mild | rule goes_rules | simp add: gateOf_cases split: gate.split)+

interpretation graphSection: verifier_section graphSection "{}"
  by unfold_locales (unfold graphSection_def Let_def, (rule graph_step_goes graph_pure_steps steps_refl | rule goes_rules)+)

end
