(* ===== verification/VerifierLog.thy ===== *)
theory VerifierLog
  imports VerifierSections
begin

text \<open>
  The sections of \<^verbatim>\<open>verifyTSL\<close> (\<^verbatim>\<open>src/packages/core-ts/src/verifier.ts\<close>) on zero-knowledge proofs, delegations, consistency and non-membership proofs,
  governance, audits, the checkpoint and its settlement.
\<close>

section \<open>Loops that carry a value beside the state\<close>

definition goesPair :: "gate set \<Rightarrow> vstate \<Rightarrow> (vstate \<times> 'a) res \<Rightarrow> bool" where
  "goesPair W s m \<longleftrightarrow> (\<forall>t a. m = Inr (t, a) \<longrightarrow> steps W s t)"

lemma goesPair_bind: "(\<And>x. goesPair W s (f x)) \<Longrightarrow> goesPair W s (bindE m f)"
  by (auto simp: goesPair_def bindE_eq_Inr)

lemma goesPair_Inr: "steps W s t \<Longrightarrow> goesPair W s (Inr (t, a))"
  by (simp add: goesPair_def)

lemma goesPair_if: "goesPair W s m \<Longrightarrow> goesPair W s n \<Longrightarrow> goesPair W s (if b then m else n)"
  by simp

lemma goesPair_option: "goesPair W s m \<Longrightarrow> (\<And>x. goesPair W s (f x)) \<Longrightarrow> goesPair W s (case v of None \<Rightarrow> m | Some x \<Rightarrow> f x)"
  by (cases v) simp_all

lemma goesPair_foldE:
  assumes "\<And>x t a. goesPair W t (f x (t, a))" "steps W r s"
  shows "goesPair W r (foldE f xs (s, a))"
  using assms(2)
proof (induction xs arbitrary: s a)
  case (Cons x xs)
  have "steps W r t" if "f x (s, a) = Inr (t, b)" for t b
    using assms(1) [of s x a] Cons.prems that by (auto simp: goesPair_def intro: steps_trans)
  then show ?case using Cons.IH by (fastforce simp: goesPair_def bindE_eq_Inr)
qed (simp add: goesPair_def)

lemma goes_bind_pair:
  assumes "goesPair W s m" "\<And>t a. goes W t (g (t, a))"
  shows "goes W s (bindE m g)"
  using assms by (fastforce simp: goesPair_def goes_def bindE_eq_Inr intro: steps_trans)

lemmas pair_rules = goes_bind_pair goesPair_foldE goesPair_if goesPair_option goesPair_bind goesPair_Inr

section \<open>Zero-knowledge proofs\<close>

definition zkOptionsOf :: "'g vctx \<Rightarrow> ZkOptions" where
  "zkOptionsOf c = (let po = vc_policy c in
     \<lparr>zo_require_registered_circuit = po_require_registered_zk_circuit po, zo_require_manifest_verification_key_hash = po_require_manifest_verification_key_hash po,
      zo_reject_dev_circuits = po_reject_dev_zk_circuits po, zo_manifests = vi_zk_circuit_manifests (vc_input c),
      zo_registry = vi_zk_verification_key_registry (vc_input c)\<rparr>)"

definition zkStep :: "'g vctx \<Rightarrow> ZkThresholdProofV1 \<Rightarrow> vstate \<times> string list \<Rightarrow> (vstate \<times> string list) res" where
  "zkStep c p acc =
     (let s = fst acc; v = schemaOf c ''zkThresholdProof'' (ZkThresholdProofV1_obj p) in
      bindE (andE (sv_valid v \<and> zk_subject p = ev_sender (vi_envelope (vc_input c))) (verifyThresholdProofAsync (vc_env c) (vc_groth16 c) p (zkOptionsOf c))) (\<lambda>valid.
        if valid then Inr (if isOn (po_require_registered_zk_circuit (vc_policy c)) then onChecks (\<lambda>k. k\<lparr>ck_zk_circuit_registered := Some True\<rparr>) s else s, zk_claim p # snd acc)
        else Inr (push (''TSL_ZK_PROOF_INVALID'' # sv_errors v)
                   (pushIf (isOn (po_reject_dev_zk_circuits (vc_policy c)) \<and> (\<not> truthyStr (zk_circuit_id p) \<or> startsWith (the (zk_circuit_id p)) ''dev_''))
                     [''TSL_ZK_DEV_CIRCUIT_REJECTED''] (onChecks (\<lambda>k. k\<lparr>ck_zk_valid := Some False\<rparr>) s)), snd acc)))"

definition zkSection :: "'g vctx \<Rightarrow> vstate \<Rightarrow> vstate res" where
  "zkSection c s =
     (if \<not> truthyList (vi_zk_proofs (vc_input c)) \<and> \<not> truthyList (po_require_zk_claims (vc_policy c)) then Inr s
      else bindE (foldE (zkStep c) (orElse (vi_zk_proofs (vc_input c)) []) (onChecks (\<lambda>k. k\<lparr>ck_zk_valid := Some True\<rparr>) s, [])) (\<lambda>acc.
           bindE (foldE (\<lambda>claim t. Inr (rejectIf (claim \<notin> set (snd acc)) (\<lambda>k. k\<lparr>ck_zk_valid := Some False\<rparr>) [''TSL_ZK_CLAIM_MISSING''] t))
                    (orElse (po_require_zk_claims (vc_policy c)) []) (fst acc)) (\<lambda>t.
             Inr (explainIf (ck_zk_valid (vs_checks t) = Some True) ''Required selective-disclosure threshold proofs are valid'' t))))"

section \<open>Agent delegations and delegated actions\<close>

definition delegationStep :: "'g vctx \<Rightarrow> AgentDelegationV1 \<Rightarrow> vstate \<times> bool \<Rightarrow> (vstate \<times> bool) res" where
  "delegationStep c d acc =
     (let ev = vi_envelope (vc_input c); scope = po_require_agent_scope (vc_policy c); v = schemaOf c ''agentDelegation'' (AgentDelegationV1_obj d) in
      bindE (andE (sv_valid v \<and> ad_agent d = ev_sender ev)
               (verifyAgentDelegation (vc_env c) d (vc_resolver c) (if ad_agent d = ev_sender ev then scope else None) (ev_timestamp ev))) (\<lambda>valid.
        Inr (rejectIf (\<not> valid) (\<lambda>k. k\<lparr>ck_agent_scope_valid := Some False\<rparr>) (''TSL_AGENT_SCOPE_INVALID'' # sv_errors v) (fst acc),
             snd acc \<or> valid \<and> (\<not> truthyStr scope \<or> the scope \<in> set (ad_scope d)))))"

definition agentScopeSection :: "'g vctx \<Rightarrow> vstate \<Rightarrow> vstate res" where
  "agentScopeSection c s =
     (let required = truthyStr (po_require_agent_scope (vc_policy c)) in
      if \<not> truthyList (vi_delegations (vc_input c)) \<and> \<not> required then Inr s
      else bindE (foldE (delegationStep c) (orElse (vi_delegations (vc_input c)) []) (onChecks (\<lambda>k. k\<lparr>ck_agent_scope_valid := Some True\<rparr>) s, False)) (\<lambda>acc.
        let t = rejectIf (required \<and> \<not> snd acc) (\<lambda>k. k\<lparr>ck_agent_scope_valid := Some False\<rparr>) [''TSL_AGENT_SCOPE_INVALID''] (fst acc) in
        Inr (explainIf (ck_agent_scope_valid (vs_checks t) = Some True) ''Agent delegation scope is valid'' t)))"

type_synonym publicKeys = "string \<Rightarrow> string option"

definition policyStep :: "'g vctx \<Rightarrow> DelegationPolicyV2 \<Rightarrow> vstate \<times> publicKeys \<Rightarrow> (vstate \<times> publicKeys) res" where
  "policyStep c p acc =
     (let E = vc_env c; v = schemaOf c ''delegationPolicyV2'' (DelegationPolicyV2_obj p) in
      bindE (if sv_valid v then vc_resolver c (dl_principal p) (Some (dl_valid_from p)) else Inr None) (\<lambda>principal.
      let key = activeKey E (dl_valid_from p) principal in
      bindE (andE (sv_valid v) (edSigned E key (delegationPolicyV2Hash E (DelegationPolicyV2_obj p)) (dl_signature p))) (\<lambda>signed.
        if signed then Inr (fst acc, (snd acc)(dl_principal p \<mapsto> vm_public_key (the key)))
        else Inr (rejectIf True (\<lambda>k. k\<lparr>ck_delegated_action_valid := Some False\<rparr>) (''TSL_DELEGATION_POLICY_INVALID'' # sv_errors v) (fst acc), snd acc))))"

definition actionStep :: "'g vctx \<Rightarrow> AgentActionV2 \<Rightarrow> vstate \<times> publicKeys \<Rightarrow> (vstate \<times> publicKeys) res" where
  "actionStep c a acc =
     (let E = vc_env c; v = schemaOf c ''agentActionV2'' (AgentActionV2_obj a); policies = vi_delegation_policies (vc_input c) in
      bindE (if sv_valid v then vc_resolver c (aa_agent a) (Some (aa_issued_at a)) else Inr None) (\<lambda>agent.
      let key = activeKey E (aa_issued_at a) agent;
          keys = (if map_option vm_type key = Some ''ed25519'' then (snd acc)(aa_agent a \<mapsto> vm_public_key (the key)) else snd acc) in
      bindE (if sv_valid v \<and> policies \<noteq> None
             then verifyDelegatedAgentActionV0 E \<lparr>di_action = a, di_delegation_chain = the policies, di_public_keys = keys, di_revoked_policy_ids = [],
                    di_revoked_pointers = [], di_parameters = None\<rparr>
             else rejectWith ''TSL_DELEGATION_POLICY_MISSING'') (\<lambda>r.
        Inr (rejectIf (\<not> da_ok r) (\<lambda>k. k\<lparr>ck_delegated_action_valid := Some False\<rparr>)
               (orElse (da_error_code r) ''TSL_DELEGATED_ACTION_INVALID'' # sv_errors v) (fst acc), keys))))"

definition delegatedActionsSection :: "'g vctx \<Rightarrow> vstate \<Rightarrow> vstate res" where
  "delegatedActionsSection c s =
     (let inp = vc_input c in
      if \<not> truthyList (vi_agent_actions inp) \<and> \<not> truthyList (vi_delegation_policies inp) then Inr s
      else bindE (foldE (policyStep c) (orElse (vi_delegation_policies inp) []) (onChecks (\<lambda>k. k\<lparr>ck_delegated_action_valid := Some True\<rparr>) s, \<lambda>_. None)) (\<lambda>acc.
           bindE (foldE (actionStep c) (orElse (vi_agent_actions inp) []) (fst acc, snd acc)) (\<lambda>t. Inr (fst t))))"

section \<open>Consistency and non-membership\<close>

definition currentCheckpointHash :: "'g vctx \<Rightarrow> string option res" where
  "currentCheckpointHash c = (case vi_checkpoint (vc_input c) of None \<Rightarrow> Inr None | Some cp \<Rightarrow> bindE (checkpointHashForPolicy (vc_env c) cp) (\<lambda>h. Inr (Some h)))"

definition consistencyStep :: "'g vctx \<Rightarrow> ConsistencyProofV1 \<Rightarrow> vstate \<times> bool \<Rightarrow> (vstate \<times> bool) res" where
  "consistencyStep c p acc =
     (let v = schemaOf c ''consistencyProof'' (ConsistencyProofV1_obj p) in
      bindE (currentCheckpointHash c) (\<lambda>current.
        let valid = (sv_valid v \<and> verifyConsistencyProof p \<and> (\<not> truthyStr current \<or> Some (cp_to_checkpoint p) = current)) in
        Inr (rejectIf (\<not> valid) (\<lambda>k. k\<lparr>ck_consistency_proof_valid := Some False\<rparr>) (''TSL_CONSISTENCY_PROOF_INVALID'' # sv_errors v) (fst acc), snd acc \<or> valid)))"

definition consistencySection :: "'g vctx \<Rightarrow> vstate \<Rightarrow> vstate res" where
  "consistencySection c s =
     (let required = isOn (po_require_consistency_proof (vc_policy c)) in
      if \<not> truthyList (vi_consistency_proofs (vc_input c)) \<and> \<not> required then Inr s
      else bindE (foldE (consistencyStep c) (orElse (vi_consistency_proofs (vc_input c)) []) (onChecks (\<lambda>k. k\<lparr>ck_consistency_proof_valid := Some True\<rparr>) s, False)) (\<lambda>acc.
        let t = rejectIf (required \<and> \<not> snd acc) (\<lambda>k. k\<lparr>ck_consistency_proof_valid := Some False\<rparr>) [''TSL_CONSISTENCY_PROOF_MISSING''] (fst acc) in
        Inr (explainIf (ck_consistency_proof_valid (vs_checks t) = Some True) ''Checkpoint consistency proof is valid'' t)))"

definition sparseShape :: "SetNonMembershipProofV1 \<Rightarrow> bool" where
  "sparseShape p \<longleftrightarrow> truthyStr (nm_tree_id p) \<and> truthyStr (nm_root p) \<and> truthyStr (nm_root_checkpoint p) \<and> truthyStr (nm_leaf_index_commitment p)
     \<and> truthyStr (nm_leaf_value_commitment p) \<and> truthyList (nm_sibling_path p)"

definition checkpointRootBound :: "'g vctx \<Rightarrow> SetNonMembershipProofV1 \<Rightarrow> bool res" where
  "checkpointRootBound c p =
     (if \<not> isOn (po_require_sparse_merkle_revocation_root (vc_policy c)) then Inr True
      else case vi_checkpoint (vc_input c) of
        None \<Rightarrow> Inr False
      | Some cp \<Rightarrow> bindE (checkpointHashForPolicy (vc_env c) cp) (\<lambda>h.
          Inr (nm_root_checkpoint p = Some h \<and> nm_root p = Some (bc_revocation_root cp) \<and> nm_set_root p = bc_revocation_root cp)))"

definition nonMembershipStep :: "'g vctx \<Rightarrow> SetNonMembershipProofV1 \<Rightarrow> vstate \<times> bool \<Rightarrow> (vstate \<times> bool) res" where
  "nonMembershipStep c p acc =
     (let v = schemaOf c ''nonMembershipProof'' (SetNonMembershipProofV1_obj p) in
      bindE (checkpointRootBound c p) (\<lambda>bound.
      bindE (andE (sv_valid v \<and> nm_subject p = ev_sender (vi_envelope (vc_input c))
                   \<and> (\<not> isOn (po_require_sparse_merkle_revocation_root (vc_policy c)) \<or> sparseShape p) \<and> bound) (verifyNonMembershipProof (vc_env c) p)) (\<lambda>valid.
        Inr (rejectIf (\<not> valid) (\<lambda>k. k\<lparr>ck_non_membership_proof_valid := Some False\<rparr>) (''TSL_NON_MEMBERSHIP_PROOF_INVALID'' # sv_errors v) (fst acc), snd acc \<or> valid))))"

definition nonMembershipSection :: "'g vctx \<Rightarrow> vstate \<Rightarrow> vstate res" where
  "nonMembershipSection c s =
     (let required = isOn (po_require_non_membership_proof (vc_policy c)) in
      if \<not> truthyList (vi_non_membership_proofs (vc_input c)) \<and> \<not> required then Inr s
      else bindE (foldE (nonMembershipStep c) (orElse (vi_non_membership_proofs (vc_input c)) []) (onChecks (\<lambda>k. k\<lparr>ck_non_membership_proof_valid := Some True\<rparr>) s, False)) (\<lambda>acc.
        let t = rejectIf (required \<and> \<not> snd acc) (\<lambda>k. k\<lparr>ck_non_membership_proof_valid := Some False\<rparr>) [''TSL_NON_MEMBERSHIP_PROOF_MISSING''] (fst acc) in
        Inr (explainIf (ck_non_membership_proof_valid (vs_checks t) = Some True) ''Required non-membership proof is valid'' t)))"

section \<open>Governance and audits\<close>

definition governanceSection :: "'g vctx \<Rightarrow> vstate \<Rightarrow> vstate res" where
  "governanceSection c s =
     (let E = vc_env c; s0 = onChecks (\<lambda>k. k\<lparr>ck_governance_policy_valid := Some False\<rparr>) s in
      case vi_governance_policy (vc_input c) of
        None \<Rightarrow> Inr (if isOn (po_require_governance_policy (vc_policy c)) then push [''TSL_GOVERNANCE_POLICY_MISSING''] s0 else s)
      | Some p \<Rightarrow>
        let v = schemaOf c ''governancePolicy'' (GovernancePolicyV1_obj p); wanted = po_accepted_governance_policy (vc_policy c);
            accepted = (\<not> truthyStr wanted \<or> wanted = Some (gp_policy_id p));
            notExpired = (\<not> truthyStr (gp_expires_at p) \<or> dateLt (Some (now_ms E)) (dateParse E (the (gp_expires_at p)))) in
        bindE (vc_resolver c (gp_authority p) (Some (gp_issued_at p))) (\<lambda>authority.
        bindE (andE (accepted \<and> sv_valid v \<and> notExpired \<and> \<not> gp_emergency_pause p)
                 (edSigned E (Option.bind authority (\<lambda>d. findVerificationMethod d (gp_authority_key_id p))) (governancePolicyHash E (GovernancePolicyV1_obj p)) (gp_signature p))) (\<lambda>ok.
          Inr (explainIf ok ''Accepted governance policy is valid''
            (pushIf (\<not> ok) (''TSL_GOVERNANCE_POLICY_INVALID'' # sv_errors v @ (if accepted then [] else [''TSL_GOVERNANCE_POLICY_NOT_ACCEPTED''])
                @ (if notExpired then [] else [''TSL_GOVERNANCE_POLICY_EXPIRED'']) @ (if gp_emergency_pause p then [''TSL_GOVERNANCE_EMERGENCY_PAUSED''] else []))
            (onChecks (\<lambda>k. k\<lparr>ck_governance_policy_valid := Some ok\<rparr>) s0))))))"

definition auditStep :: "'g vctx \<Rightarrow> AuditFindingV1 \<Rightarrow> vstate \<times> nat \<Rightarrow> (vstate \<times> nat) res" where
  "auditStep c f acc =
     (let E = vc_env c; v = schemaOf c ''auditFinding'' (AuditFindingV1_obj f); auditors = po_accepted_auditors (vc_policy c);
          allowed = (\<not> truthyList auditors \<or> af_auditor f \<in> set (the auditors)) in
      bindE (if sv_valid v then vc_resolver c (af_auditor f) (Some (af_issued_at f)) else Inr None) (\<lambda>auditor.
      bindE (edSigned E (activeKey E (af_issued_at f) auditor) (auditFindingHash E (AuditFindingV1_obj f)) (af_signature f)) (\<lambda>signed.
      bindE (currentCheckpointHash c) (\<lambda>expected.
        let matches = (vi_checkpoint (vc_input c) = None \<or> af_checkpoint_hash f \<noteq> None \<and> af_checkpoint_hash f = expected) in
        if sv_valid v \<and> allowed \<and> signed \<and> matches \<and> af_severity f \<noteq> ''critical'' then Inr (fst acc, Suc (snd acc))
        else Inr (rejectIf True (\<lambda>k. k\<lparr>ck_audit_consistency_valid := Some False\<rparr>)
                   (''TSL_AUDIT_FINDING_INVALID'' # sv_errors v @ (if allowed then [] else [''TSL_AUDITOR_NOT_ACCEPTED'']) @ (if signed then [] else [''TSL_AUDIT_SIGNATURE_INVALID''])
                    @ (if matches then [] else [''TSL_AUDIT_CHECKPOINT_MISMATCH'']) @ (if af_severity f = ''critical'' then [''TSL_AUDIT_CRITICAL_FINDING''] else [])) (fst acc), snd acc)))))"

definition auditSection :: "'g vctx \<Rightarrow> vstate \<Rightarrow> vstate res" where
  "auditSection c s =
     (let required = isOn (po_require_audit_consistency (vc_policy c)) in
      if \<not> truthyList (vi_audit_findings (vc_input c)) \<and> \<not> required then Inr s
      else bindE (foldE (auditStep c) (orElse (vi_audit_findings (vc_input c)) []) (onChecks (\<lambda>k. k\<lparr>ck_audit_consistency_valid := Some True\<rparr>) s, 0)) (\<lambda>acc.
        let t = rejectIf (required \<and> snd acc = 0) (\<lambda>k. k\<lparr>ck_audit_consistency_valid := Some False\<rparr>) [''TSL_AUDIT_CONSISTENCY_INVALID''] (fst acc) in
        Inr (explainIf (ck_audit_consistency_valid (vs_checks t) = Some True) ''Accepted audit findings are valid and non-critical'' t)))"

section \<open>The checkpoint\<close>

definition unsafeFixtureSignatureAllowed :: "'g vctx \<Rightarrow> bool" where
  "unsafeFixtureSignatureAllowed c \<longleftrightarrow> envFlag (vc_env c) ''ALLOW_UNSAFE_CHECKPOINT_SIGNATURE_FIXTURES''
     \<and> \<not> (isOn (po_reject_unsafe_fixtures_on_mainnet (vc_policy c)) \<and> onMainnet (vc_env c))"

definition relayAuthorization :: "'g vctx \<Rightarrow> BatchCheckpointV1 \<Rightarrow> bool \<Rightarrow> vstate \<Rightarrow> vstate" where
  "relayAuthorization c cp sigOk s =
     (let relays = po_authorized_relays (vc_policy c); ok = (sigOk \<and> (\<not> truthyList relays \<or> bc_relay_id cp \<in> set (the relays))) in
      if \<not> isOn (po_require_authorized_relay (vc_policy c)) then s
      else pushIf (\<not> ok) [''TSL_RELAY_NOT_AUTHORIZED''] (onChecks (\<lambda>k. k\<lparr>ck_authorized_relay_valid := Some ok\<rparr>) s))"

definition checkpointSignature :: "'g vctx \<Rightarrow> BatchCheckpointV1 \<Rightarrow> vstate \<Rightarrow> vstate res" where
  "checkpointSignature c cp s =
     (let E = vc_env c; t = ev_timestamp (vi_envelope (vc_input c)) in
      bindE (vc_resolver c (bc_relay_id cp) (Some t)) (\<lambda>relay.
      bindE (if unsafeFixtureSignatureAllowed c \<and> bc_relay_signature cp = ''0x00'' then Inr True
             else edSigned E (activeKey E t relay) (checkpointHashForPolicy E cp) (bc_relay_signature cp)) (\<lambda>signed.
        Inr (relayAuthorization c cp signed
          (pushIf (\<not> signed) [''TSL_CHECKPOINT_SIGNATURE_INVALID''] (onChecks (\<lambda>k. k\<lparr>ck_checkpoint_signature_valid := Some signed\<rparr>) s))))))"

definition checkpointSection :: "'g vctx \<Rightarrow> vstate \<Rightarrow> vstate res" where
  "checkpointSection c s = (case vi_checkpoint (vc_input c) of
       None \<Rightarrow> Inr s
     | Some cp \<Rightarrow>
       let v = schemaOf c ''checkpoint'' (BatchCheckpointV1_obj cp); s0 = onChecks (\<lambda>k. k\<lparr>ck_checkpoint_valid := sv_valid v\<rparr>) s in
       if \<not> sv_valid v then Inr (push (''TSL_CHECKPOINT_INVALID'' # sv_errors v) s0)
       else bindE (if truthyStr (bc_checkpoint_identity_hash cp)
                   then bindE (checkpointHashForPolicy (vc_env c) cp) (\<lambda>h. Inr (bc_checkpoint_identity_hash cp \<noteq> Some h)) else Inr False) (\<lambda>mismatch.
            checkpointSignature c cp (rejectIf mismatch (\<lambda>k. k\<lparr>ck_checkpoint_valid := False\<rparr>) [''TSL_CHECKPOINT_IDENTITY_MISMATCH''] s0)))"

definition checkpointMatch :: "'g vctx \<Rightarrow> vstate \<Rightarrow> vstate res" where
  "checkpointMatch c s = (case vi_proof (vc_input c) of
       None \<Rightarrow> Inr s
     | Some p \<Rightarrow> (case vi_checkpoint (vc_input c) of
         None \<Rightarrow> Inr s
       | Some cp \<Rightarrow>
         if \<not> ck_checkpoint_valid (vs_checks s) then Inr s
         else bindE (andE (ip_epoch_start_ms p = bc_epoch_start_ms cp \<and> ip_epoch_duration_ms p = bc_epoch_duration_ms cp \<and> ip_shard p = bc_shard cp)
                       (bindE (checkpointHashForPolicy (vc_env c) cp) (\<lambda>h.
                          Inr (ip_checkpoint_hash p = h \<and> checkpointRootForKind cp (ip_tree_kind p) = Some (ip_root p))))) (\<lambda>ok.
           Inr (explainIf ok ''Checkpoint root matches inclusion proof'' (onChecks (\<lambda>k. k\<lparr>ck_checkpoint_matches_proof := ok\<rparr>) s)))))"

section \<open>Settlement\<close>

definition settlementEvidenceSection :: "'g vctx \<Rightarrow> vstate \<Rightarrow> vstate res" where
  "settlementEvidenceSection c s = (case vi_checkpoint (vc_input c) of
       None \<Rightarrow> Inr s
     | Some cp \<Rightarrow>
       if \<not> truthyList (vi_settlement_evidence (vc_input c)) then Inr s
       else bindE (checkpointHashForPolicy (vc_env c) cp) (\<lambda>h.
            bindE (settlementEvidenceMatchesCheckpoint (vc_env c) (vc_eth c) (vc_rlp c) (vc_input c) h (vc_policy c)) (\<lambda>r.
              let s1 = onChecks (\<lambda>k. k\<lparr>ck_settlement_evidence_valid := Some (r = None), ck_checkpoint_settled := (r = None)\<rparr>) s in
              case r of
                None \<Rightarrow> Inr (explainIf True ''Checkpoint settlement evidence is valid'' (s1\<lparr>vs_settlementStatus := ''settled''\<rparr>))
              | Some code \<Rightarrow> Inr ((push [code] s1)\<lparr>vs_settlementStatus := ''mismatch''\<rparr>))))"

definition settlementBackendSection :: "'g vctx \<Rightarrow> vstate \<Rightarrow> vstate res" where
  "settlementBackendSection c s = (case vi_checkpoint (vc_input c) of
       None \<Rightarrow> Inr s
     | Some cp \<Rightarrow> (case vc_backend c of
         None \<Rightarrow> Inr s
       | Some backend \<Rightarrow>
         if ck_checkpoint_settled (vs_checks s) then Inr s
         else bindE (sb_verifyCheckpointSettlement backend cp) (\<lambda>r.
           let s1 = onChecks (\<lambda>k. k\<lparr>ck_checkpoint_settled := svr_settled r\<rparr>) s in
           if svr_settled r then Inr ((explainIf True ''Checkpoint is settled in configured settlement backend'' s1)\<lparr>vs_settlementStatus := ''settled''\<rparr>)
           else if truthyStr (svr_error r) then
             Inr ((push [the (svr_error r)] s1)\<lparr>vs_settlementStatus := (if includesSub (the (svr_error r)) ''MISMATCH'' then ''mismatch''
                else if includesSub (the (svr_error r)) ''UNAVAILABLE'' then ''unavailable'' else ''pending'')\<rparr>)
           else Inr s1)))"

section \<open>The last comparisons\<close>

definition finalGateMatches :: "GateResult \<Rightarrow> VerificationChecks \<Rightarrow> bool" where
  "finalGateMatches g k \<longleftrightarrow>
     (gr_checkpoint_valid g = None \<or> gr_checkpoint_valid g = Some (ck_checkpoint_matches_proof k))
     \<and> (gr_settlement_satisfied g = None \<or> gr_settlement_satisfied g = Some (ck_checkpoint_settled k))
     \<and> (gr_delegation_valid g = None \<or> gr_delegation_valid g = ck_delegated_action_valid k)"

definition finalGateSection :: "'g vctx \<Rightarrow> vstate \<Rightarrow> vstate res" where
  "finalGateSection c s = (case vi_assessment_v2 (vc_input c) of
       None \<Rightarrow> Inr s
     | Some a \<Rightarrow>
       bindE (case vi_evidence_coverage (vc_input c) of
                None \<Rightarrow> Inr True
              | Some x \<Rightarrow> andE (ta2_coverage_bps a = ec_coverage_bps x)
                  (if \<not> truthyStr (ta2_evidence_coverage_commitment a) then Inr True
                   else bindE (sha256OfJson (vc_env c) (JObj (EvidenceCoverageV1_obj x))) (\<lambda>h. Inr (ta2_evidence_coverage_commitment a = Some h)))) (\<lambda>coverageMatches.
         let gate = finalGateMatches (ta2_gate_result a) (vs_checks s) in
         Inr (rejectIf (\<not> gate \<or> \<not> coverageMatches) (\<lambda>k. k\<lparr>ck_trust_assessment_v2_valid := Some False\<rparr>)
               ((if gate then [] else [''TSL_ASSESSMENT_GATE_MISMATCH'']) @ (if coverageMatches then [] else [''TSL_EVIDENCE_COVERAGE_INVALID''])) s)))"

definition finalErrors :: "'g vctx \<Rightarrow> vstate \<Rightarrow> vstate res" where
  "finalErrors c s =
     (let k = vs_checks s; po = vc_policy c in
      Inr (pushIf (isOn (po_require_settlement po) \<and> \<not> ck_checkpoint_settled k) [''TSL_SETTLEMENT_MISSING'']
          (pushIf (isOn (po_require_checkpoint po) \<and> \<not> ck_checkpoint_matches_proof k) [''TSL_CHECKPOINT_INVALID'']
          (pushIf (isOn (po_require_inclusion po) \<and> \<not> ck_included_in_log k) [''TSL_INCLUSION_INVALID'']
          (pushIf (ck_content_commitment_matches k = Some False) [''TSL_CONTENT_COMMITMENT_MISMATCH'']
          (pushIf (\<not> ck_signature_valid k) [''TSL_SIGNATURE_INVALID'']
          (pushIf (\<not> ck_not_revoked k) [''TSL_KEY_REVOKED'']
          (pushIf (ck_key_found k \<and> \<not> ck_key_active k) [''TSL_KEY_INACTIVE'']
          (pushIf (\<not> ck_key_found k) [''TSL_KEY_NOT_FOUND''] s)))))))))"

section \<open>The sections keep the contract\<close>

interpretation zkSection: verifier_section zkSection "{}"
  by unfold_locales (unfold zkSection_def zkStep_def Let_def fst_conv snd_conv,
      (rule pair_rules goes_rules | simp add: gateOf_cases split: gate.split)+)

interpretation agentScopeSection: verifier_section agentScopeSection "{}"
  by unfold_locales (unfold agentScopeSection_def delegationStep_def Let_def fst_conv snd_conv,
      (rule pair_rules goes_rules | simp add: gateOf_cases split: gate.split)+)

interpretation delegatedActionsSection: verifier_section delegatedActionsSection "{}"
  by unfold_locales (unfold delegatedActionsSection_def policyStep_def actionStep_def Let_def fst_conv snd_conv,
      (rule pair_rules goes_rules | simp add: gateOf_cases split: gate.split)+)

interpretation consistencySection: verifier_section consistencySection "{}"
  by unfold_locales (unfold consistencySection_def consistencyStep_def Let_def fst_conv snd_conv,
      (rule pair_rules goes_rules | simp add: gateOf_cases split: gate.split)+)

interpretation nonMembershipSection: verifier_section nonMembershipSection "{}"
  by unfold_locales (unfold nonMembershipSection_def nonMembershipStep_def Let_def fst_conv snd_conv,
      (rule pair_rules goes_rules | simp add: gateOf_cases split: gate.split)+)

interpretation governanceSection: verifier_section governanceSection "{}"
  by unfold_locales (unfold governanceSection_def Let_def fst_conv snd_conv,
      (rule pair_rules goes_rules | simp add: gateOf_cases split: gate.split)+)

interpretation auditSection: verifier_section auditSection "{}"
  by unfold_locales (unfold auditSection_def auditStep_def Let_def fst_conv snd_conv,
      (rule pair_rules goes_rules | simp add: gateOf_cases split: gate.split)+)

interpretation checkpointSection: verifier_section checkpointSection "{CheckpointValid, CheckpointSigned}"
  by unfold_locales (unfold checkpointSection_def checkpointSignature_def relayAuthorization_def Let_def fst_conv snd_conv,
      (rule pair_rules goes_rules | simp add: gateOf_cases split: gate.split)+)

interpretation checkpointMatch: verifier_section checkpointMatch "{MatchesProof}"
  by unfold_locales (unfold checkpointMatch_def Let_def fst_conv snd_conv,
      (rule pair_rules goes_rules | simp add: gateOf_cases split: gate.split)+)

interpretation settlementEvidenceSection: verifier_section settlementEvidenceSection "{Settled}"
  by unfold_locales (unfold settlementEvidenceSection_def Let_def fst_conv snd_conv,
      (rule pair_rules goes_rules | simp add: gateOf_cases split: gate.split)+)

interpretation settlementBackendSection: verifier_section settlementBackendSection "{Settled}"
  by unfold_locales (unfold settlementBackendSection_def Let_def fst_conv snd_conv,
      (rule pair_rules goes_rules | simp add: gateOf_cases split: gate.split)+)

interpretation finalGateSection: verifier_section finalGateSection "{}"
  by unfold_locales (unfold finalGateSection_def Let_def fst_conv snd_conv,
      (rule pair_rules goes_rules | simp add: gateOf_cases split: gate.split)+)

interpretation finalErrors: verifier_section finalErrors "{}"
  by unfold_locales (unfold finalErrors_def Let_def fst_conv snd_conv,
      (rule pair_rules goes_rules | simp add: gateOf_cases split: gate.split)+)

end
