(* ===== verification/Verifier.thy ===== *)
theory Verifier
  imports VerifierScoring VerifierLog CheckpointImport
begin

text \<open>
  The entry point \<^verbatim>\<open>verifyTSL\<close> (\<^verbatim>\<open>src/packages/core-ts/src/verifier.ts\<close>): it runs the sections of the theories \<^verbatim>\<open>VerifierSections\<close>,
  \<^verbatim>\<open>VerifierScoring\<close> and \<^verbatim>\<open>VerifierLog\<close> in order and combines their checks and errors into a verdict. The properties say what a positive verdict means;
  they rest on the contract that every section satisfies.
\<close>

section \<open>The verdict\<close>

definition verdict :: "VerifierPolicy \<Rightarrow> VerifyTSLInput \<Rightarrow> vstate \<Rightarrow> bool" where
  "verdict po inp s \<longleftrightarrow> (let k = vs_checks s in
     ck_schema_valid k \<and> ck_signature_valid k \<and> ck_key_found k \<and> ck_key_active k \<and> ck_not_revoked k
     \<and> ck_content_commitment_matches k \<noteq> Some False \<and> ck_disclosure_consent_valid k \<noteq> Some False
     \<and> ck_checkpoint_signature_valid k \<noteq> Some False \<and> ck_redaction_manifest_valid k \<noteq> Some False
     \<and> ck_receipt_valid k \<noteq> Some False \<and> ck_attestation_valid k \<noteq> Some False
     \<and> ck_revocation_state_valid k \<noteq> Some False \<and> ck_assessment_valid k \<noteq> Some False
     \<and> ck_trust_assessment_v2_valid k \<noteq> Some False \<and> ck_scoring_profile_valid k \<noteq> Some False
     \<and> ck_domain_policy_valid k \<noteq> Some False \<and> ck_evidence_coverage_valid k \<noteq> Some False
     \<and> ck_metadata_fingerprint_valid k \<noteq> Some False \<and> ck_graph_artifacts_valid k \<noteq> Some False
     \<and> ck_sybil_assessment_valid k \<noteq> Some False \<and> ck_drift_report_valid k \<noteq> Some False
     \<and> ck_delegated_action_valid k \<noteq> Some False \<and> ck_zk_valid k \<noteq> Some False \<and> ck_agent_scope_valid k \<noteq> Some False
     \<and> ck_consistency_proof_valid k \<noteq> Some False \<and> ck_non_membership_proof_valid k \<noteq> Some False
     \<and> ck_zk_circuit_registered k \<noteq> Some False \<and> ck_research_graph_algorithm_valid k \<noteq> Some False
     \<and> ck_provider_governance_valid k \<noteq> Some False \<and> ck_seed_governance_valid k \<noteq> Some False
     \<and> ck_full_covariance_drift_valid k \<noteq> Some False \<and> ck_authorized_relay_valid k \<noteq> Some False
     \<and> ck_governance_policy_valid k \<noteq> Some False \<and> ck_audit_consistency_valid k \<noteq> Some False
     \<and> vs_errors s = [] \<and> ''TSL_UNSAFE_FIXTURE_POLICY_ENABLED'' \<notin> set (vs_errors s)
     \<and> (\<not> isOn (po_require_chain_revocation po) \<or> ck_chain_revocation_checked k = Some True)
     \<and> (\<not> truthyList (po_require_zk_claims po) \<or> ck_zk_valid k = Some True)
     \<and> (\<not> truthyStr (po_require_agent_scope po) \<or> ck_agent_scope_valid k = Some True)
     \<and> (\<not> isOn (po_require_consistency_proof po) \<or> ck_consistency_proof_valid k = Some True)
     \<and> (\<not> isOn (po_require_non_membership_proof po) \<or> ck_non_membership_proof_valid k = Some True)
     \<and> (\<not> isOn (po_require_registered_zk_circuit po) \<or> ck_zk_circuit_registered k = Some True)
     \<and> (\<not> isOn (po_require_research_graph_algorithm po) \<or> ck_research_graph_algorithm_valid k = Some True)
     \<and> (\<not> isOn (po_require_provider_governance_active po) \<or> ck_provider_governance_valid k = Some True)
     \<and> (\<not> isOn (po_require_seed_governance_opening po) \<or> ck_seed_governance_valid k = Some True)
     \<and> (\<not> isOn (po_require_full_covariance_drift po) \<or> ck_full_covariance_drift_valid k = Some True)
     \<and> (\<not> isOn (po_require_authorized_relay po) \<or> ck_authorized_relay_valid k = Some True)
     \<and> (\<not> isOn (po_require_receipt_inclusion_for_disclosed_receipts po) \<or> \<not> truthyList (vi_receipts inp) \<or> ck_receipt_included k = Some True)
     \<and> (\<not> isOn (po_require_governance_policy po) \<or> ck_governance_policy_valid k = Some True)
     \<and> (\<not> isOn (po_require_audit_consistency po) \<or> ck_audit_consistency_valid k = Some True)
     \<and> (\<not> isOn (po_require_v2_assessment po) \<or> ck_trust_assessment_v2_valid k = Some True)
     \<and> (\<not> isOn (po_require_metadata_fingerprint_policy po) \<or> ck_metadata_fingerprint_valid k = Some True)
     \<and> (\<not> isOn (po_require_graph_artifacts po) \<or> ck_graph_artifacts_valid k = Some True)
     \<and> (\<not> isOn (po_require_inclusion po) \<or> ck_included_in_log k)
     \<and> (\<not> isOn (po_require_checkpoint po) \<or> ck_checkpoint_matches_proof k)
     \<and> (\<not> isOn (po_require_settlement po) \<or> ck_checkpoint_settled k))"

section \<open>The run\<close>

definition unsafeFlags :: "string list" where
  "unsafeFlags = [''ALLOW_UNSAFE_CHECKPOINT_SIGNATURE_FIXTURES'', ''ALLOW_UNSAFE_ZK_HASH_FIXTURES'', ''ALLOW_LEGACY_CHECKPOINT_HASH_V0'']"

definition bundleErrors :: "env \<Rightarrow> ProofBundleV1 option \<Rightarrow> string list" where
  "bundleErrors E bundle = (case bundle of
       None \<Rightarrow> []
     | Some b \<Rightarrow> let v = validateSchema E ''proofBundleV1'' (JObj (ProofBundleV1_obj b)) in
         (if sv_valid v then [] else ''TSL_PROOF_BUNDLE_INVALID'' # sv_errors v)
         @ (if idd_id (pb_identity b) \<noteq> ev_sender (pb_envelope b) then [''TSL_PROOF_BUNDLE_IDENTITY_MISMATCH''] else []))"

text \<open>Everything up to the validation of the event.\<close>

definition startState :: "env \<Rightarrow> VerifierPolicy \<Rightarrow> VerifyTSLInput \<Rightarrow> string list \<Rightarrow> vstate" where
  "startState E po inp conflicts =
     (let s0 = \<lparr>vs_checks = defaultChecks, vs_errors = conflicts, vs_explanation = [],
                vs_settlementStatus = (if isOn (po_require_settlement po) then ''pending'' else ''not_required''), vs_riskLabel = ''not_assessed''\<rparr>;
          s1 = pushIf (isOn (po_reject_unsafe_fixtures_on_mainnet po) \<and> onMainnet E)
                 (map (\<lambda>_. ''TSL_UNSAFE_FIXTURE_POLICY_ENABLED'') (filter (envFlag E) unsafeFlags)) s0;
          s2 = push (bundleErrors E (vi_proof_bundle inp)) s1;
          s3 = pushIf (\<not> redactionManifestMatches inp) [''TSL_REDACTION_MANIFEST_INVALID'']
                 (onChecks (\<lambda>k. k\<lparr>ck_redaction_manifest_valid := Some (redactionManifestMatches inp)\<rparr>) s2);
          v = validateSchema E ''event'' (JObj (EventCommitmentV1_obj (vi_envelope inp)))
      in pushIf (\<not> sv_valid v) (''TSL_SCHEMA_INVALID'' # sv_errors v) (onChecks (\<lambda>k. k\<lparr>ck_schema_valid := sv_valid v\<rparr>) s3))"

definition earlyResult :: "vstate \<Rightarrow> string option \<Rightarrow> VerificationResult" where
  "earlyResult s event_hash = \<lparr>vr_verified = False, vr_commitment_hash = None, vr_event_hash = event_hash, vr_checks = vs_checks s,
     vr_settlement_status = None, vr_risk_label = ''not_assessed'', vr_explanation = vs_explanation s, vr_errors = vs_errors s\<rparr>"

definition keyChecks :: "env \<Rightarrow> EventCommitmentV1 \<Rightarrow> VerificationMethodV1 option \<Rightarrow> bool \<Rightarrow> VerificationChecks \<Rightarrow> VerificationChecks" where
  "keyChecks E ev key sigOk k = k\<lparr>ck_key_found := (key \<noteq> None), ck_key_active := keyActiveAt E key (ev_timestamp ev),
     ck_not_revoked := notRevokedAt E key (Some (ev_timestamp ev)), ck_signature_valid := sigOk\<rparr>"

text \<open>The sections in the order of the code.\<close>

definition sections :: "('g vctx \<Rightarrow> vstate \<Rightarrow> vstate res) list" where
  "sections = [chainRevocation, keyExplanations, revocationSection, messageSection, inclusionSection, receiptsSection, attestationsSection,
     attestationsV2Section, privateFieldsSection, assessmentSection, scoringSection, metadataSection, graphSection, zkSection, agentScopeSection,
     delegatedActionsSection, consistencySection, nonMembershipSection, governanceSection, auditSection, checkpointSection, checkpointMatch,
     settlementEvidenceSection, settlementBackendSection, finalGateSection, finalErrors]"

definition runSections :: "('g vctx \<Rightarrow> vstate \<Rightarrow> vstate res) list \<Rightarrow> 'g vctx \<Rightarrow> vstate \<Rightarrow> vstate res" where
  "runSections secs c s = foldE (\<lambda>sec. sec c) secs s"

text \<open>What a verifier is configured with: the packages, the resolver and the settlement backend.\<close>

record 'g verifierDeps =
  vd_env :: env
  vd_eth :: eth
  vd_rlp :: rlp
  vd_groth16 :: "jsval \<Rightarrow> string list \<Rightarrow> jsval \<Rightarrow> bool res"
  vd_graphOps :: "'g graphOps"
  vd_resolver :: resolver
  vd_backend :: "SettlementBackend option"

definition contextOf :: "'g verifierDeps \<Rightarrow> VerifierPolicy \<Rightarrow> VerifyTSLInput \<Rightarrow> string \<Rightarrow> string \<Rightarrow> string \<Rightarrow> 'g vctx" where
  "contextOf D po inp event_hash commitment legacy =
     \<lparr>vc_env = vd_env D, vc_eth = vd_eth D, vc_rlp = vd_rlp D, vc_groth16 = vd_groth16 D, vc_graphOps = vd_graphOps D, vc_resolver = vd_resolver D,
      vc_backend = vd_backend D, vc_input = inp, vc_policy = po, vc_eventHash = event_hash, vc_commitmentHash = commitment,
      vc_legacyCommitmentHash = legacy\<rparr>"

definition verifyTSL :: "'g verifierDeps \<Rightarrow> VerifyTSLInput \<Rightarrow> VerifierPolicy \<Rightarrow> VerificationResult res" where
  "verifyTSL D input policy =
     (let E = vd_env D; po = withStrictDefaults policy; inp = fst (expandProofBundleInput input); ev = vi_envelope inp;
          s = startState E po inp (snd (expandProofBundleInput input)) in
      if \<not> ck_schema_valid (vs_checks s) then Inr (earlyResult s None)
      else bindE (eventHash E (EventCommitmentV1_obj ev)) (\<lambda>event_hash.
           bindE (vd_resolver D (ev_sender ev) (Some (ev_timestamp ev))) (\<lambda>identity.
           case identity of
             None \<Rightarrow> Inr (earlyResult (push [''TSL_KEY_NOT_FOUND''] s) (Some event_hash))
           | Some d \<Rightarrow>
             let key = findVerificationMethod d (ev_signing_key_id ev) in
             bindE (edSigned E key (Inr event_hash) (ev_signature ev)) (\<lambda>sigOk.
             bindE (commitmentHashFromParts E event_hash (ev_signature ev)) (\<lambda>commitment.
             bindE (legacyCommitmentHashFromParts E event_hash (ev_signature ev)) (\<lambda>legacy.
             bindE (runSections sections (contextOf D po inp event_hash commitment legacy) (onChecks (keyChecks E ev key sigOk) s)) (\<lambda>t.
               Inr \<lparr>vr_verified = verdict po inp t, vr_commitment_hash = Some commitment, vr_event_hash = Some event_hash, vr_checks = vs_checks t,
                    vr_settlement_status = Some (vs_settlementStatus t), vr_risk_label = vs_riskLabel t, vr_explanation = vs_explanation t,
                    vr_errors = uniqueInOrder (vs_errors t)\<rparr>)))))))"

section \<open>Running a list of sections\<close>

lemma runSections_append: "runSections (xs @ ys) c s = bindE (runSections xs c s) (runSections ys c)"
  by (simp add: runSections_def [abs_def] foldE_append)

lemma runSections_Cons: "runSections (sec # secs) c s = bindE (sec c s) (runSections secs c)"
  by (simp add: runSections_def [abs_def])

lemma runSections_steps:
  assumes "runSections secs c s = Inr t" "\<forall>sec \<in> set secs. \<forall>r. goes W r (sec c r)"
  shows "steps W s t"
  using assms
proof (induction secs arbitrary: s)
  case (Cons sec secs)
  then obtain r where "sec c s = Inr r" "runSections secs c r = Inr t"
    by (auto simp: runSections_Cons bindE_eq_Inr)
  with Cons show ?case by (auto simp: goes_def intro: steps_trans)
qed (simp add: runSections_def)

lemma goes_mono: "goes V s m \<Longrightarrow> V \<subseteq> W \<Longrightarrow> goes W s m"
  by (auto simp: goes_def intro: steps_mono)

lemmas contracts = chainRevocation.contract keyExplanations.contract revocationSection.contract messageSection.contract inclusionSection.contract
  receiptsSection.contract attestationsSection.contract attestationsV2Section.contract privateFieldsSection.contract assessmentSection.contract
  scoringSection.contract metadataSection.contract graphSection.contract zkSection.contract agentScopeSection.contract delegatedActionsSection.contract
  consistencySection.contract nonMembershipSection.contract governanceSection.contract auditSection.contract checkpointSection.contract
  checkpointMatch.contract settlementEvidenceSection.contract settlementBackendSection.contract finalGateSection.contract finalErrors.contract

text \<open>
  A run without errors passes through every section without errors, and the gates that later sections do not write keep their value: with the
  sections split around one of them, \<open>W\<close> is what the later ones may write.
\<close>

lemma runSections_split:
  assumes "runSections (pre @ sec # post) c s = Inr t" "\<forall>f \<in> set post. \<forall>r. goes W r (f c r)"
  shows "\<exists>s1 s2. runSections pre c s = Inr s1 \<and> sec c s1 = Inr s2 \<and> steps W s2 t"
  using assms runSections_steps by (fastforce simp: runSections_append runSections_Cons bindE_eq_Inr)

section \<open>What an error-free section shows\<close>

lemma steps_error_free: "steps W s t \<Longrightarrow> vs_errors t = [] \<Longrightarrow> vs_errors s = []"
  by (simp add: steps_def)

text \<open>A loop without errors had no error in any turn.\<close>

lemma foldE_error_free:
  assumes "foldE f xs s = Inr t" "vs_errors t = []" "\<And>x r. goes W r (f x r)" "x \<in> set xs"
  shows "\<exists>s1 s2. f x s1 = Inr s2 \<and> vs_errors s2 = []"
  using assms(1,2,4)
proof (induction xs arbitrary: s)
  case (Cons y ys)
  then obtain r where r: "f y s = Inr r" "foldE f ys r = Inr t" by (auto simp: bindE_eq_Inr)
  have "goes W r (foldE f ys r)" by (rule goes_foldE [OF assms(3)]) simp
  then have "vs_errors r = []" using r(2) Cons.prems(2) steps_error_free by (fastforce simp: goes_def)
  with r Cons show ?case by auto
qed simp

lemma foldE_pair_error_free:
  assumes "foldE f xs (s, a) = Inr (t, b)" "vs_errors t = []" "\<And>x r a. goesPair W r (f x (r, a))" "x \<in> set xs"
  shows "\<exists>s1 a1 s2 a2. f x (s1, a1) = Inr (s2, a2) \<and> vs_errors s2 = []"
  using assms(1,2,4)
proof (induction xs arbitrary: s a)
  case (Cons y ys)
  then obtain r d where r: "f y (s, a) = Inr (r, d)" "foldE f ys (r, d) = Inr (t, b)" by (auto simp: bindE_eq_Inr)
  have "goesPair W r (foldE f ys (r, d))" by (rule goesPair_foldE [OF assms(3)]) simp
  then have "vs_errors r = []" using r(2) Cons.prems(2) steps_error_free by (fastforce simp: goesPair_def)
  with r Cons show ?case by auto
qed simp

lemma revocationStep_goes: "goes {} s (revocationStep c r s)"
  unfolding revocationStep_def Let_def by (rule goes_rules | simp add: gateOf_cases split: gate.split)+

lemma revocationSection_clear:
  assumes "revocationSection c s = Inr t" "vs_errors t = []" "r \<in> set (orElse (vi_revocations (vc_input c)) [])"
  shows "\<not> revocationHits c r"
proof -
  obtain rs where rs: "vi_revocations (vc_input c) = Some rs" "rs \<noteq> []" using assms(3) by (metis empty_iff empty_set orElse_simps option.exhaust)
  then obtain u where u: "foldE (revocationStep c) rs (onChecks (\<lambda>k. k\<lparr>ck_revocation_state_valid := Some True\<rparr>) s) = Inr u" "vs_errors u = []"
    using assms(1,2) by (auto simp: revocationSection_def bindE_eq_Inr)
  have "\<exists>s1 s2. revocationStep c r s1 = Inr s2 \<and> vs_errors s2 = []"
    using foldE_error_free [OF u revocationStep_goes] assms(3) rs by simp
  then show ?thesis by (auto simp: revocationStep_def Let_def bindE_eq_Inr split: if_split_asm)
qed

text \<open>The inclusion proof that the inclusion section accepts.\<close>

definition eventIncluded :: "'g vctx \<Rightarrow> bool" where
  "eventIncluded c \<longleftrightarrow> (\<exists>p. vi_proof (vc_input c) = Some p \<and> ip_tree_kind p = ''event''
     \<and> (ip_commitment p = vc_commitmentHash c \<or> ip_commitment p = vc_legacyCommitmentHash c) \<and> verifyInclusion (vc_env c) p = Inr True)"

lemma otherInclusion_event: "ip_tree_kind p = ''event'' \<Longrightarrow> otherInclusion c p s = Inr s"
  by (simp add: otherInclusion_def)

lemma otherInclusion_included: "otherInclusion c p s = Inr t \<Longrightarrow> ck_included_in_log (vs_checks t) = ck_included_in_log (vs_checks s)"
  by (auto simp: otherInclusion_def bindE_eq_Inr split: if_split_asm)

lemma inclusionSection_included:
  assumes "inclusionSection c s = Inr t" "ck_included_in_log (vs_checks t)" "\<not> ck_included_in_log (vs_checks s)"
  shows "eventIncluded c"
proof (cases "vi_proof (vc_input c)")
  case (Some p)
  have "sv_valid (schemaOf c ''inclusionProof'' (InclusionProofV1_obj p))" using assms Some by (auto simp: inclusionSection_def Let_def split: if_split_asm)
  then obtain b where b: "andE (ip_tree_kind p = ''event'' \<and> (ip_commitment p = vc_commitmentHash c \<or> ip_commitment p = vc_legacyCommitmentHash c))
       (verifyInclusion (vc_env c) p) = Inr b"
     "otherInclusion c p (explainIf b ''Event included in Merkle log proof'' (onChecks (\<lambda>k. k\<lparr>ck_included_in_log := b\<rparr>) s)) = Inr t"
    using assms(1) Some by (auto simp: inclusionSection_def Let_def bindE_eq_Inr)
  have "b" using otherInclusion_included [OF b(2)] assms(2) by simp
  then show ?thesis using b(1) Some by (auto simp: eventIncluded_def)
qed (use assms in \<open>auto simp: inclusionSection_def\<close>)

text \<open>The checkpoint that the checkpoint sections accept.\<close>

definition checkpointAccepted :: "'g vctx \<Rightarrow> BatchCheckpointV1 \<Rightarrow> bool" where
  "checkpointAccepted c cp \<longleftrightarrow> (let E = vc_env c; t = ev_timestamp (vi_envelope (vc_input c)) in
     sv_valid (schemaOf c ''checkpoint'' (BatchCheckpointV1_obj cp))
     \<and> (truthyStr (bc_checkpoint_identity_hash cp) \<longrightarrow> checkpointHashForPolicy E cp = Inr (the (bc_checkpoint_identity_hash cp)))
     \<and> (unsafeFixtureSignatureAllowed c \<and> bc_relay_signature cp = ''0x00''
        \<or> (\<exists>d key h. vc_resolver c (bc_relay_id cp) (Some t) = Inr (Some d) \<and> key \<in> set (idd_verification_methods d) \<and> keyActiveAt E (Some key) t
             \<and> checkpointHashForPolicy E cp = Inr h \<and> verifyEd25519 E (vm_public_key key) (DText h) (bc_relay_signature cp) = Inr True))
     \<and> (isOn (po_require_authorized_relay (vc_policy c)) \<and> truthyList (po_authorized_relays (vc_policy c)) \<longrightarrow>
          bc_relay_id cp \<in> set (the (po_authorized_relays (vc_policy c)))))"

lemma checkpointSignature_accepted:
  assumes "checkpointSignature c cp s = Inr t" "vs_errors t = []"
  shows "(unsafeFixtureSignatureAllowed c \<and> bc_relay_signature cp = ''0x00''
        \<or> (\<exists>d key h. vc_resolver c (bc_relay_id cp) (Some (ev_timestamp (vi_envelope (vc_input c)))) = Inr (Some d) \<and> key \<in> set (idd_verification_methods d)
             \<and> keyActiveAt (vc_env c) (Some key) (ev_timestamp (vi_envelope (vc_input c)))
             \<and> checkpointHashForPolicy (vc_env c) cp = Inr h \<and> verifyEd25519 (vc_env c) (vm_public_key key) (DText h) (bc_relay_signature cp) = Inr True))
     \<and> (isOn (po_require_authorized_relay (vc_policy c)) \<and> truthyList (po_authorized_relays (vc_policy c)) \<longrightarrow>
          bc_relay_id cp \<in> set (the (po_authorized_relays (vc_policy c)))) \<and> vs_errors s = []"
proof -
  let ?t = "ev_timestamp (vi_envelope (vc_input c))"
  obtain relay b where r: "vc_resolver c (bc_relay_id cp) (Some ?t) = Inr relay"
     "(if unsafeFixtureSignatureAllowed c \<and> bc_relay_signature cp = ''0x00'' then Inr True
       else edSigned (vc_env c) (activeKey (vc_env c) ?t relay) (checkpointHashForPolicy (vc_env c) cp) (bc_relay_signature cp)) = Inr b"
     "t = relayAuthorization c cp b (pushIf (\<not> b) [''TSL_CHECKPOINT_SIGNATURE_INVALID''] (onChecks (\<lambda>k. k\<lparr>ck_checkpoint_signature_valid := Some b\<rparr>) s))"
    using assms(1) by (auto simp: checkpointSignature_def Let_def bindE_eq_Inr)
  have b: "b" using assms(2) r(3) by (auto simp: relayAuthorization_def Let_def split: if_split_asm)
  have "unsafeFixtureSignatureAllowed c \<and> bc_relay_signature cp = ''0x00''
    \<or> edSigned (vc_env c) (activeKey (vc_env c) ?t relay) (checkpointHashForPolicy (vc_env c) cp) (bc_relay_signature cp) = Inr True"
    using r(2) b by (simp split: if_split_asm)
  moreover have "isOn (po_require_authorized_relay (vc_policy c)) \<and> truthyList (po_authorized_relays (vc_policy c)) \<longrightarrow>
      bc_relay_id cp \<in> set (the (po_authorized_relays (vc_policy c)))" "vs_errors s = []"
    using assms(2) r(3) b by (auto simp: relayAuthorization_def Let_def split: if_split_asm)
  ultimately show ?thesis using r(1) by (auto simp: edSigned_True dest!: activeKey_Some)
qed

lemma checkpointSection_accepted:
  assumes "checkpointSection c s = Inr t" "vs_errors t = []" "vi_checkpoint (vc_input c) = Some cp"
  shows "checkpointAccepted c cp"
proof -
  let ?v = "schemaOf c ''checkpoint'' (BatchCheckpointV1_obj cp)"
  have v: "sv_valid ?v" using assms by (auto simp: checkpointSection_def Let_def split: if_split_asm)
  then obtain m where m: "(if truthyStr (bc_checkpoint_identity_hash cp)
       then bindE (checkpointHashForPolicy (vc_env c) cp) (\<lambda>h. Inr (bc_checkpoint_identity_hash cp \<noteq> Some h)) else Inr False) = Inr m"
     "checkpointSignature c cp (rejectIf m (\<lambda>k. k\<lparr>ck_checkpoint_valid := False\<rparr>) [''TSL_CHECKPOINT_IDENTITY_MISMATCH'']
       (onChecks (\<lambda>k. k\<lparr>ck_checkpoint_valid := True\<rparr>) s)) = Inr t"
    using assms(1,3) by (auto simp: checkpointSection_def Let_def bindE_eq_Inr)
  note sig = checkpointSignature_accepted [OF m(2) assms(2)]
  then have "\<not> m" by (auto split: if_split_asm)
  then have "truthyStr (bc_checkpoint_identity_hash cp) \<longrightarrow> checkpointHashForPolicy (vc_env c) cp = Inr (the (bc_checkpoint_identity_hash cp))"
    using m(1) by (auto simp: bindE_eq_Inr)
  then show ?thesis unfolding checkpointAccepted_def Let_def using sig v by blast
qed

text \<open>The agreement of the inclusion proof with the checkpoint.\<close>

definition proofInCheckpoint :: "'g vctx \<Rightarrow> InclusionProofV1 \<Rightarrow> BatchCheckpointV1 \<Rightarrow> bool" where
  "proofInCheckpoint c p cp \<longleftrightarrow> vi_proof (vc_input c) = Some p \<and> vi_checkpoint (vc_input c) = Some cp \<and> ip_epoch_start_ms p = bc_epoch_start_ms cp
     \<and> ip_epoch_duration_ms p = bc_epoch_duration_ms cp \<and> ip_shard p = bc_shard cp \<and> checkpointHashForPolicy (vc_env c) cp = Inr (ip_checkpoint_hash p)
     \<and> checkpointRootForKind cp (ip_tree_kind p) = Some (ip_root p)"

lemma checkpointMatch_matches:
  assumes "checkpointMatch c s = Inr t" "ck_checkpoint_matches_proof (vs_checks t)" "\<not> ck_checkpoint_matches_proof (vs_checks s)"
  shows "\<exists>p cp. proofInCheckpoint c p cp"
proof -
  obtain p cp where p: "vi_proof (vc_input c) = Some p" "vi_checkpoint (vc_input c) = Some cp"
    using assms by (auto simp: checkpointMatch_def split: option.split_asm)
  then obtain b where b: "andE (ip_epoch_start_ms p = bc_epoch_start_ms cp \<and> ip_epoch_duration_ms p = bc_epoch_duration_ms cp \<and> ip_shard p = bc_shard cp)
       (bindE (checkpointHashForPolicy (vc_env c) cp) (\<lambda>h. Inr (ip_checkpoint_hash p = h \<and> checkpointRootForKind cp (ip_tree_kind p) = Some (ip_root p)))) = Inr b"
     "ck_checkpoint_matches_proof (vs_checks t) = b"
    using assms by (auto simp: checkpointMatch_def bindE_eq_Inr split: if_split_asm)
  then show ?thesis using assms(2) p by (auto simp: proofInCheckpoint_def bindE_eq_Inr)
qed

text \<open>A settled checkpoint: by evidence that is accepted, or by the answer of the settlement backend.\<close>

definition settledByEvidence :: "'g vctx \<Rightarrow> BatchCheckpointV1 \<Rightarrow> bool" where
  "settledByEvidence c cp \<longleftrightarrow> (\<exists>h fieldsHash e. checkpointHashForPolicy (vc_env c) cp = Inr h
     \<and> contractCheckpointFieldsHashForCheckpoint (vc_env c) (vc_eth c) cp = Inr fieldsHash \<and> e \<in> set (orElse (vi_settlement_evidence (vc_input c)) [])
     \<and> evidenceError (vc_env c) (vc_eth c) (vc_rlp c) (vc_policy c) cp h fieldsHash e = Inr None)"

definition settledByBackend :: "'g vctx \<Rightarrow> BatchCheckpointV1 \<Rightarrow> bool" where
  "settledByBackend c cp \<longleftrightarrow> (\<exists>b r. vc_backend c = Some b \<and> sb_verifyCheckpointSettlement b cp = Inr r \<and> svr_settled r)"

lemma settlementEvidenceSection_settled:
  assumes "settlementEvidenceSection c s = Inr t" "ck_checkpoint_settled (vs_checks t)" "\<not> ck_checkpoint_settled (vs_checks s)"
  shows "\<exists>cp. vi_checkpoint (vc_input c) = Some cp \<and> settledByEvidence c cp"
proof -
  obtain cp where cp: "vi_checkpoint (vc_input c) = Some cp" "truthyList (vi_settlement_evidence (vc_input c))"
    using assms by (auto simp: settlementEvidenceSection_def split: option.split_asm if_split_asm)
  then obtain h r where r: "checkpointHashForPolicy (vc_env c) cp = Inr h"
     "settlementEvidenceMatchesCheckpoint (vc_env c) (vc_eth c) (vc_rlp c) (vc_input c) h (vc_policy c) = Inr r" "r = None"
    using assms by (auto simp: settlementEvidenceSection_def bindE_eq_Inr Let_def split: option.split_asm)
  then obtain f where f: "contractCheckpointFieldsHashForCheckpoint (vc_env c) (vc_eth c) cp = Inr f"
     "firstAccepted (evidenceError (vc_env c) (vc_eth c) (vc_rlp c) (vc_policy c) cp h f) (the (vi_settlement_evidence (vc_input c)))
        ''TSL_SETTLEMENT_EVIDENCE_INVALID'' = Inr None"
    using cp by (auto simp: settlementEvidenceMatchesCheckpoint_def bindE_eq_Inr)
  have "the (vi_settlement_evidence (vc_input c)) = orElse (vi_settlement_evidence (vc_input c)) []"
    using cp(2) by (cases "vi_settlement_evidence (vc_input c)") simp_all
  then show ?thesis using cp(1) r(1) f(1) firstAccepted_None [OF f(2)] by (auto simp: settledByEvidence_def)
qed

lemma settlementBackendSection_settled:
  assumes "settlementBackendSection c s = Inr t" "ck_checkpoint_settled (vs_checks t)" "\<not> ck_checkpoint_settled (vs_checks s)"
  shows "\<exists>cp. vi_checkpoint (vc_input c) = Some cp \<and> settledByBackend c cp"
  using assms by (auto simp: settlementBackendSection_def settledByBackend_def bindE_eq_Inr Let_def split: option.split_asm if_split_asm)

text \<open>What accepted evidence says.\<close>

lemma evidenceError_None:
  assumes "evidenceError E X R policy cp h fieldsHash e = Inr None"
  shows "se_checkpoint_hash e = h \<and> se_checkpoint_identity_hash e = h \<and> se_contract_checkpoint_fields_hash e = fieldsHash \<and> se_status e = ''settled''
     \<and> se_receipt_status e = Some ''success'' \<and> verifyOfflineSettlementEvidence E X R e cp h fieldsHash (Some policy) = None"
  using assms by (auto simp: evidenceError_def bindE_eq_Inr Let_def receiptProofPresent_def split: if_split_asm option.split_asm)

text \<open>The message that the message section accepts.\<close>

lemma messageSection_accepted:
  assumes run: "messageSection c s = Inr t" "vs_errors t = []" "ck_content_commitment_matches (vs_checks t) \<noteq> Some False"
    and raw: "Option.bind (vi_message_disclosure (vc_input c)) md_raw_message = Some message"
  shows "\<exists>salt. Option.bind (vi_message_disclosure (vc_input c)) md_content_salt = Some salt
     \<and> contentCommitment (vc_env c) message salt = Inr (ev_content_commitment (vi_envelope (vc_input c)))
     \<and> (consentRequired c \<longrightarrow> consentGiven (vc_env c) (vc_resolver c) (vc_input c) (vc_policy c) [''raw_content'', ''content_salt''])"
proof -
  let ?salt = "Option.bind (vi_message_disclosure (vc_input c)) md_content_salt"
  define consentRes where "consentRes = (if \<not> consentRequired c then Inr True
       else consentAllows c ((if Option.bind (vi_message_disclosure (vc_input c)) md_raw_message = None then [] else [''raw_content''])
         @ (if ?salt = None then [] else [''content_salt''])))"
  define matchRes where "matchRes consent = (case ?salt of None \<Rightarrow> Inr (Some False)
       | Some x \<Rightarrow> if consent then bindE (contentCommitment (vc_env c) message x) (\<lambda>h. Inr (Some (h = ev_content_commitment (vi_envelope (vc_input c)))))
           else Inr (Some False))" for consent
  have "bindE consentRes (\<lambda>consent. bindE (matchRes consent) (\<lambda>matches. Inr (explainIf (matches = Some True) ''Disclosed message matches content commitment''
       (onChecks (\<lambda>k. k\<lparr>ck_content_commitment_matches := matches\<rparr>) (pushIf (\<not> consent) [''TSL_DISCLOSURE_CONSENT_REQUIRED'']
       (onChecks (\<lambda>k. k\<lparr>ck_disclosure_consent_valid := Some consent\<rparr>) s)))))) = Inr t"
    using run(1) raw by (simp add: messageSection_def Let_def consentRes_def matchRes_def)
  then obtain consent matches where m: "consentRes = Inr consent" "matchRes consent = Inr matches"
     "vs_errors t = vs_errors s @ (if consent then [] else [''TSL_DISCLOSURE_CONSENT_REQUIRED''])" "ck_content_commitment_matches (vs_checks t) = matches"
    by (auto simp: bindE_eq_Inr)
  have consent: "consent" using m(3) run(2) by (auto split: if_split_asm)
  obtain x where x: "?salt = Some x" using m(2,4) run(3) by (cases ?salt) (auto simp: matchRes_def)
  then have "contentCommitment (vc_env c) message x = Inr (ev_content_commitment (vi_envelope (vc_input c)))"
    using m(2) run(3) [unfolded m(4)] consent by (auto simp: matchRes_def bindE_eq_Inr)
  moreover have "consentRequired c \<longrightarrow> consentGiven (vc_env c) (vc_resolver c) (vc_input c) (vc_policy c) [''raw_content'', ''content_salt'']"
    using m(1) x consent disclosureConsentAllows_True by (auto simp: consentRes_def consentAllows_def raw)
  ultimately show ?thesis using x by blast
qed

text \<open>A loop that looks for one good entry found one in the list.\<close>

lemma foldE_found:
  assumes "foldE f xs (s, False) = Inr (t, True)" "\<And>x acc acc'. x \<in> set xs \<Longrightarrow> f x acc = Inr acc' \<Longrightarrow> snd acc' \<Longrightarrow> snd acc \<or> Q x"
  shows "\<exists>x \<in> set xs. Q x"
proof -
  have "snd (t, True) \<longrightarrow> (\<exists>x \<in> set xs. Q x)"
    by (rule foldE_invariant [where P = "\<lambda>acc. snd acc \<longrightarrow> (\<exists>x \<in> set xs. Q x)", OF assms(1)]) (simp, use assms(2) in blast)
  then show ?thesis by simp
qed

lemma zkSection_claim:
  assumes run: "zkSection c s = Inr t" "vs_errors t = []" and claim: "claim \<in> set (orElse (po_require_zk_claims (vc_policy c)) [])"
  shows "\<exists>p \<in> set (orElse (vi_zk_proofs (vc_input c)) []). zk_claim p = claim \<and> zk_subject p = ev_sender (vi_envelope (vc_input c))
     \<and> verifyThresholdProofAsync (vc_env c) (vc_groth16 c) p (zkOptionsOf c) = Inr True"
proof -
  let ?ps = "orElse (vi_zk_proofs (vc_input c)) []"
  let ?ok = "\<lambda>cl. \<exists>p \<in> set ?ps. zk_claim p = cl \<and> zk_subject p = ev_sender (vi_envelope (vc_input c))
     \<and> verifyThresholdProofAsync (vc_env c) (vc_groth16 c) p (zkOptionsOf c) = Inr True"
  have "truthyList (po_require_zk_claims (vc_policy c))" using claim by (cases "po_require_zk_claims (vc_policy c)") auto
  then obtain acc u where acc: "foldE (zkStep c) ?ps (onChecks (\<lambda>k. k\<lparr>ck_zk_valid := Some True\<rparr>) s, []) = Inr acc"
     "foldE (\<lambda>cl t. Inr (rejectIf (cl \<notin> set (snd acc)) (\<lambda>k. k\<lparr>ck_zk_valid := Some False\<rparr>) [''TSL_ZK_CLAIM_MISSING''] t))
        (orElse (po_require_zk_claims (vc_policy c)) []) (fst acc) = Inr u" "vs_errors u = []"
    using run by (auto simp: zkSection_def bindE_eq_Inr)
  have goes: "goes {} r (Inr (rejectIf (cl \<notin> set (snd acc)) (\<lambda>k. k\<lparr>ck_zk_valid := Some False\<rparr>) [''TSL_ZK_CLAIM_MISSING''] r))" for cl r
    by (rule goes_rules | simp add: gateOf_cases split: gate.split)+
  have "claim \<in> set (snd acc)" using foldE_error_free [OF acc(2,3) goes claim] by (auto split: if_split_asm)
  moreover have "\<forall>cl \<in> set (snd acc). ?ok cl"
    by (rule foldE_invariant [where P = "\<lambda>a. \<forall>cl \<in> set (snd a). ?ok cl", OF acc(1)]) (auto simp: zkStep_def Let_def bindE_eq_Inr split: if_split_asm)
  ultimately show ?thesis by blast
qed

lemma agentScopeSection_scope:
  assumes run: "agentScopeSection c s = Inr t" "vs_errors t = []" and scope: "po_require_agent_scope (vc_policy c) = Some scope" "scope \<noteq> []"
  shows "\<exists>d \<in> set (orElse (vi_delegations (vc_input c)) []). ad_agent d = ev_sender (vi_envelope (vc_input c)) \<and> scope \<in> set (ad_scope d)
     \<and> verifyAgentDelegation (vc_env c) d (vc_resolver c) (Some scope) (ev_timestamp (vi_envelope (vc_input c))) = Inr True"
proof -
  obtain u b where f: "foldE (delegationStep c) (orElse (vi_delegations (vc_input c)) []) (onChecks (\<lambda>k. k\<lparr>ck_agent_scope_valid := Some True\<rparr>) s, False) = Inr (u, b)"
     "vs_errors (rejectIf (\<not> b) (\<lambda>k. k\<lparr>ck_agent_scope_valid := Some False\<rparr>) [''TSL_AGENT_SCOPE_INVALID''] u) = []"
    using run scope by (auto simp: agentScopeSection_def Let_def bindE_eq_Inr)
  then have "b" by (auto split: if_split_asm)
  with f(1) show ?thesis by (intro foldE_found [of "delegationStep c"]) (auto simp: delegationStep_def Let_def bindE_eq_Inr scope)
qed

lemma consistencySection_proof:
  assumes run: "consistencySection c s = Inr t" "vs_errors t = []" and on: "isOn (po_require_consistency_proof (vc_policy c))"
  shows "\<exists>p \<in> set (orElse (vi_consistency_proofs (vc_input c)) []). verifyConsistencyProof p
     \<and> (\<forall>cp. vi_checkpoint (vc_input c) = Some cp \<longrightarrow> checkpointHashForPolicy (vc_env c) cp \<in> {Inr (cp_to_checkpoint p), Inr []})"
proof -
  obtain u b where f: "foldE (consistencyStep c) (orElse (vi_consistency_proofs (vc_input c)) []) (onChecks (\<lambda>k. k\<lparr>ck_consistency_proof_valid := Some True\<rparr>) s, False) = Inr (u, b)"
     "vs_errors (rejectIf (\<not> b) (\<lambda>k. k\<lparr>ck_consistency_proof_valid := Some False\<rparr>) [''TSL_CONSISTENCY_PROOF_MISSING''] u) = []"
    using run on by (auto simp: consistencySection_def Let_def bindE_eq_Inr)
  then have "b" by (auto split: if_split_asm)
  with f(1) show ?thesis
    by (intro foldE_found [of "consistencyStep c"]) (auto simp: consistencyStep_def currentCheckpointHash_def Let_def bindE_eq_Inr truthyStr_def)
qed

lemma nonMembershipSection_proof:
  assumes run: "nonMembershipSection c s = Inr t" "vs_errors t = []" and on: "isOn (po_require_non_membership_proof (vc_policy c))"
  shows "\<exists>p \<in> set (orElse (vi_non_membership_proofs (vc_input c)) []). nm_subject p = ev_sender (vi_envelope (vc_input c))
     \<and> verifyNonMembershipProof (vc_env c) p = Inr True"
proof -
  obtain u b where f: "foldE (nonMembershipStep c) (orElse (vi_non_membership_proofs (vc_input c)) [])
       (onChecks (\<lambda>k. k\<lparr>ck_non_membership_proof_valid := Some True\<rparr>) s, False) = Inr (u, b)"
     "vs_errors (rejectIf (\<not> b) (\<lambda>k. k\<lparr>ck_non_membership_proof_valid := Some False\<rparr>) [''TSL_NON_MEMBERSHIP_PROOF_MISSING''] u) = []"
    using run on by (auto simp: nonMembershipSection_def Let_def bindE_eq_Inr)
  then have "b" by (auto split: if_split_asm)
  with f(1) show ?thesis by (intro foldE_found [of "nonMembershipStep c"]) (auto simp: nonMembershipStep_def Let_def bindE_eq_Inr)
qed

section \<open>The gates of a run\<close>

lemma sections_split:
  "sections = [chainRevocation, keyExplanations] @ revocationSection # [messageSection, inclusionSection, receiptsSection, attestationsSection,
     attestationsV2Section, privateFieldsSection, assessmentSection, scoringSection, metadataSection, graphSection, zkSection, agentScopeSection,
     delegatedActionsSection, consistencySection, nonMembershipSection, governanceSection, auditSection, checkpointSection, checkpointMatch,
     settlementEvidenceSection, settlementBackendSection, finalGateSection, finalErrors]"
  "sections = [chainRevocation, keyExplanations, revocationSection, messageSection] @ inclusionSection # [receiptsSection, attestationsSection,
     attestationsV2Section, privateFieldsSection, assessmentSection, scoringSection, metadataSection, graphSection, zkSection, agentScopeSection,
     delegatedActionsSection, consistencySection, nonMembershipSection, governanceSection, auditSection, checkpointSection, checkpointMatch,
     settlementEvidenceSection, settlementBackendSection, finalGateSection, finalErrors]"
  "sections = [chainRevocation, keyExplanations, revocationSection, messageSection, inclusionSection, receiptsSection, attestationsSection,
     attestationsV2Section, privateFieldsSection, assessmentSection, scoringSection, metadataSection, graphSection, zkSection, agentScopeSection,
     delegatedActionsSection, consistencySection, nonMembershipSection, governanceSection, auditSection] @ checkpointSection # [checkpointMatch,
     settlementEvidenceSection, settlementBackendSection, finalGateSection, finalErrors]"
  "sections = [chainRevocation, keyExplanations, revocationSection, messageSection, inclusionSection, receiptsSection, attestationsSection,
     attestationsV2Section, privateFieldsSection, assessmentSection, scoringSection, metadataSection, graphSection, zkSection, agentScopeSection,
     delegatedActionsSection, consistencySection, nonMembershipSection, governanceSection, auditSection, checkpointSection] @ checkpointMatch # [
     settlementEvidenceSection, settlementBackendSection, finalGateSection, finalErrors]"
  "sections = ([chainRevocation, keyExplanations, revocationSection, messageSection, inclusionSection, receiptsSection, attestationsSection,
     attestationsV2Section, privateFieldsSection, assessmentSection, scoringSection, metadataSection, graphSection, zkSection, agentScopeSection,
     delegatedActionsSection, consistencySection, nonMembershipSection, governanceSection, auditSection, checkpointSection, checkpointMatch] @
     [settlementEvidenceSection]) @ settlementBackendSection # [finalGateSection, finalErrors]"
  by (simp_all add: sections_def)

lemma sections_split_evidence:
  "sections = [chainRevocation, keyExplanations, revocationSection] @ messageSection # [inclusionSection, receiptsSection, attestationsSection,
     attestationsV2Section, privateFieldsSection, assessmentSection, scoringSection, metadataSection, graphSection, zkSection, agentScopeSection,
     delegatedActionsSection, consistencySection, nonMembershipSection, governanceSection, auditSection, checkpointSection, checkpointMatch,
     settlementEvidenceSection, settlementBackendSection, finalGateSection, finalErrors]"
  by (simp add: sections_def)

lemma sections_contract:
  "f \<in> set sections \<Longrightarrow> goes (- {Core}) r (f c r)"
  unfolding sections_def by (simp, elim disjE) (simp_all add: contracts [THEN goes_mono])

text \<open>Every run keeps the core gates and never loses an error or a revocation.\<close>

lemma run_steps: "runSections sections c s = Inr t \<Longrightarrow> steps (- {Core}) s t"
  by (rule runSections_steps) (auto intro: sections_contract)

lemma run_section:
  assumes "runSections sections c s = Inr t" "sections = pre @ sec # post" "vs_errors t = []"
  shows "\<exists>s1 s2. runSections pre c s = Inr s1 \<and> sec c s1 = Inr s2 \<and> vs_errors s2 = [] \<and> runSections post c s2 = Inr t"
proof -
  have "runSections (pre @ sec # post) c s = Inr t" using assms(1) unfolding assms(2) .
  then obtain s1 s2 where s: "runSections pre c s = Inr s1" "sec c s1 = Inr s2" "runSections post c s2 = Inr t"
    by (auto simp: runSections_append runSections_Cons bindE_eq_Inr)
  have "steps (- {Core}) s2 t" using s(3) by (rule runSections_steps) (auto intro: sections_contract simp: assms(2))
  then show ?thesis using s assms(3) steps_error_free by blast
qed

text \<open>The one section that writes a gate decides its final value.\<close>

lemma run_gate:
  assumes r: "runSections sections c s = Inr t" "vs_errors t = []" and split: "sections = pre @ sec # post"
    and frame: "\<forall>f \<in> set pre \<union> set post. \<forall>r. goes (- {g}) r (f c r)"
  shows "\<exists>s1 s2. sec c s1 = Inr s2 \<and> vs_errors s2 = [] \<and> gateOf g (vs_checks s1) = gateOf g (vs_checks s) \<and> gateOf g (vs_checks t) = gateOf g (vs_checks s2)"
proof -
  obtain s1 s2 where s: "runSections pre c s = Inr s1" "sec c s1 = Inr s2" "vs_errors s2 = []" "runSections post c s2 = Inr t"
    using run_section [OF r(1) split r(2)] by blast
  have "steps (- {g}) s s1" using s(1) by (rule runSections_steps) (use frame in blast)
  moreover have "steps (- {g}) s2 t" using s(4) by (rule runSections_steps) (use frame in blast)
  ultimately show ?thesis using s(2,3) by (auto simp: steps_def)
qed

lemma run_included:
  assumes r: "runSections sections c s = Inr t" "vs_errors t = []" and i: "ck_included_in_log (vs_checks t)" "\<not> ck_included_in_log (vs_checks s)"
  shows "eventIncluded c"
  using run_gate [OF r sections_split(2), of Included] i inclusionSection_included by (auto simp: contracts [THEN goes_mono])

lemma run_message:
  assumes r: "runSections sections c s = Inr t" "vs_errors t = []" and k: "ck_content_commitment_matches (vs_checks t) \<noteq> Some False"
    and raw: "Option.bind (vi_message_disclosure (vc_input c)) md_raw_message = Some message"
  shows "\<exists>salt. Option.bind (vi_message_disclosure (vc_input c)) md_content_salt = Some salt
     \<and> contentCommitment (vc_env c) message salt = Inr (ev_content_commitment (vi_envelope (vc_input c)))
     \<and> (consentRequired c \<longrightarrow> consentGiven (vc_env c) (vc_resolver c) (vc_input c) (vc_policy c) [''raw_content'', ''content_salt''])"
proof -
  obtain s1 s2 where s: "messageSection c s1 = Inr s2" "vs_errors s2 = []" "gateOf Content (vs_checks t) = gateOf Content (vs_checks s2)"
    using run_gate [OF r sections_split_evidence, of Content] by (auto simp: contracts [THEN goes_mono])
  then show ?thesis using messageSection_accepted [OF s(1,2) _ raw] k by simp
qed

text \<open>Every section of an error-free run is error-free.\<close>

lemma run_member:
  assumes "runSections sections c s = Inr t" "vs_errors t = []" "sec \<in> set sections"
  shows "\<exists>s1 s2. sec c s1 = Inr s2 \<and> vs_errors s2 = []"
proof -
  obtain pre post where "sections = pre @ sec # post" using assms(3) by (meson split_list)
  then show ?thesis using run_section [OF assms(1) _ assms(2)] by blast
qed

lemma run_matches:
  assumes r: "runSections sections c s = Inr t" "vs_errors t = []" and m: "ck_checkpoint_matches_proof (vs_checks t)" "\<not> ck_checkpoint_matches_proof (vs_checks s)"
  shows "\<exists>p cp. proofInCheckpoint c p cp"
  using run_gate [OF r sections_split(4), of MatchesProof] m checkpointMatch_matches by (auto simp: contracts [THEN goes_mono])

lemma run_checkpoint:
  assumes "runSections sections c s = Inr t" "vs_errors t = []" "vi_checkpoint (vc_input c) = Some cp"
  shows "checkpointAccepted c cp"
  using run_section [OF assms(1) sections_split(3) assms(2)] checkpointSection_accepted assms(3) by blast

lemma run_revocations:
  assumes "runSections sections c s = Inr t" "vs_errors t = []" "r \<in> set (orElse (vi_revocations (vc_input c)) [])"
  shows "\<not> revocationHits c r"
  using run_section [OF assms(1) sections_split(1) assms(2)] revocationSection_clear assms(3) by blast

text \<open>Two neighbouring sections write the settlement gate.\<close>

lemma run_settled:
  assumes r: "runSections sections c s = Inr t" "vs_errors t = []" and k: "ck_checkpoint_settled (vs_checks t)" "\<not> ck_checkpoint_settled (vs_checks s)"
  shows "\<exists>cp. vi_checkpoint (vc_input c) = Some cp \<and> (settledByEvidence c cp \<or> settledByBackend c cp)"
proof -
  obtain s2 s3 where s: "settlementBackendSection c s2 = Inr s3" "runSections [finalGateSection, finalErrors] c s3 = Inr t"
     "runSections ([chainRevocation, keyExplanations, revocationSection, messageSection, inclusionSection, receiptsSection, attestationsSection,
     attestationsV2Section, privateFieldsSection, assessmentSection, scoringSection, metadataSection, graphSection, zkSection, agentScopeSection,
     delegatedActionsSection, consistencySection, nonMembershipSection, governanceSection, auditSection, checkpointSection, checkpointMatch] @
     [settlementEvidenceSection]) c s = Inr s2"
    using run_section [OF r(1) sections_split(5) r(2)] by blast
  obtain s1 where s1: "runSections [chainRevocation, keyExplanations, revocationSection, messageSection, inclusionSection, receiptsSection, attestationsSection,
     attestationsV2Section, privateFieldsSection, assessmentSection, scoringSection, metadataSection, graphSection, zkSection, agentScopeSection,
     delegatedActionsSection, consistencySection, nonMembershipSection, governanceSection, auditSection, checkpointSection, checkpointMatch] c s = Inr s1"
     "settlementEvidenceSection c s1 = Inr s2"
    using s(3) unfolding runSections_append by (auto simp: bindE_eq_Inr runSections_def)
  have "steps (- {Settled}) s3 t" using s(2) by (rule runSections_steps) (simp add: contracts [THEN goes_mono])
  then have "ck_checkpoint_settled (vs_checks s3)" using k(1) by (auto simp: steps_def dest!: spec [of _ Settled])
  moreover have "steps (- {Settled}) s s1" using s1(1) by (rule runSections_steps) (simp add: contracts [THEN goes_mono])
  then have "\<not> ck_checkpoint_settled (vs_checks s1)" using k(2) by (auto simp: steps_def dest!: spec [of _ Settled])
  ultimately show ?thesis using settlementEvidenceSection_settled [OF s1(2)] settlementBackendSection_settled [OF s(1)] by blast
qed

section \<open>A positive verdict\<close>

text \<open>The context and the run behind a positive verdict.\<close>

definition verifiedRun :: "'g verifierDeps \<Rightarrow> VerifyTSLInput \<Rightarrow> VerifierPolicy \<Rightarrow> VerificationResult \<Rightarrow> 'g vctx \<Rightarrow> vstate \<Rightarrow> bool" where
  "verifiedRun D input policy r c t \<longleftrightarrow> (\<exists>s d key h commitment legacy. let E = vd_env D; inp = fst (expandProofBundleInput input); ev = vi_envelope inp in
     c = contextOf D (withStrictDefaults policy) inp h commitment legacy
     \<and> s = startState E (withStrictDefaults policy) inp (snd (expandProofBundleInput input)) \<and> ck_schema_valid (vs_checks s)
     \<and> eventHash E (EventCommitmentV1_obj ev) = Inr h \<and> vd_resolver D (ev_sender ev) (Some (ev_timestamp ev)) = Inr (Some d)
     \<and> findVerificationMethod d (ev_signing_key_id ev) = Some key \<and> edSigned E (Some key) (Inr h) (ev_signature ev) = Inr True
     \<and> keyActiveAt E (Some key) (ev_timestamp ev) \<and> notRevokedAt E (Some key) (Some (ev_timestamp ev))
     \<and> commitmentHashFromParts E h (ev_signature ev) = Inr commitment \<and> legacyCommitmentHashFromParts E h (ev_signature ev) = Inr legacy
     \<and> runSections sections c (onChecks (keyChecks E ev (Some key) True) s) = Inr t \<and> verdict (withStrictDefaults policy) inp t
     \<and> vs_errors s = [] \<and> vr_event_hash r = Some h \<and> vr_commitment_hash r = Some commitment \<and> vr_errors r = [])"

lemma startState_checks:
  "vs_checks (startState E po inp conflicts) = defaultChecks\<lparr>ck_redaction_manifest_valid := Some (redactionManifestMatches inp),
     ck_schema_valid := sv_valid (validateSchema E ''event'' (JObj (EventCommitmentV1_obj (vi_envelope inp))))\<rparr>"
  by (simp add: startState_def Let_def defaultChecks_def)

lemma verdict_core:
  assumes "verdict po inp t"
  shows "ck_signature_valid (vs_checks t)" "ck_key_found (vs_checks t)" "ck_key_active (vs_checks t)" "ck_not_revoked (vs_checks t)" "vs_errors t = []"
    "isOn (po_require_inclusion po) \<Longrightarrow> ck_included_in_log (vs_checks t)" "isOn (po_require_checkpoint po) \<Longrightarrow> ck_checkpoint_matches_proof (vs_checks t)"
    "isOn (po_require_settlement po) \<Longrightarrow> ck_checkpoint_settled (vs_checks t)" "ck_content_commitment_matches (vs_checks t) \<noteq> Some False"
  using assms by (simp_all add: verdict_def Let_def)

lemma earlyResult_not_verified [simp]: "\<not> vr_verified (earlyResult s h)"
  by (simp add: earlyResult_def)

lemma verifyTSL_verifiedRun:
  assumes "verifyTSL D input policy = Inr r" "vr_verified r"
  shows "\<exists>c t. verifiedRun D input policy r c t"
proof -
  let ?E = "vd_env D" let ?po = "withStrictDefaults policy" let ?inp = "fst (expandProofBundleInput input)"
  let ?ev = "vi_envelope ?inp" let ?s = "startState ?E ?po ?inp (snd (expandProofBundleInput input))"
  have schema: "ck_schema_valid (vs_checks ?s)" using assms by (auto simp: verifyTSL_def Let_def split: if_split_asm)
  obtain h identity where h: "eventHash ?E (EventCommitmentV1_obj ?ev) = Inr h" "vd_resolver D (ev_sender ?ev) (Some (ev_timestamp ?ev)) = Inr identity"
    using assms schema by (auto simp: verifyTSL_def Let_def bindE_eq_Inr)
  obtain d where d: "identity = Some d" using assms schema h by (cases identity) (auto simp: verifyTSL_def Let_def)
  let ?key = "findVerificationMethod d (ev_signing_key_id ?ev)"
  obtain sigOk commitment legacy t where run: "edSigned ?E ?key (Inr h) (ev_signature ?ev) = Inr sigOk"
     "commitmentHashFromParts ?E h (ev_signature ?ev) = Inr commitment" "legacyCommitmentHashFromParts ?E h (ev_signature ?ev) = Inr legacy"
     "runSections sections (contextOf D ?po ?inp h commitment legacy) (onChecks (keyChecks ?E ?ev ?key sigOk) ?s) = Inr t"
     "verdict ?po ?inp t" "vr_event_hash r = Some h" "vr_commitment_hash r = Some commitment" "vr_errors r = uniqueInOrder (vs_errors t)"
    using assms schema h d by (auto simp: verifyTSL_def Let_def bindE_eq_Inr)
  note st = run_steps [OF run(4)] and vd = verdict_core [OF run(5)]
  have core: "gateOf Core (vs_checks t) = gateOf Core (keyChecks ?E ?ev ?key sigOk (vs_checks ?s))"
    using st by (simp add: steps_def)
  have nr: "notRevokedAt ?E ?key (Some (ev_timestamp ?ev))" using st vd(4) by (simp add: steps_def keyChecks_def)
  have "sigOk" "?key \<noteq> None" "keyActiveAt ?E ?key (ev_timestamp ?ev)" using core vd(1-3) by (simp_all add: keyChecks_def)
  moreover have "vs_errors ?s = []" "vr_errors r = []" using steps_error_free [OF st vd(5)] run(8) vd(5) by (simp_all add: uniqueInOrder_def)
  ultimately show ?thesis using schema h d run nr unfolding verifiedRun_def Let_def by auto
qed

text \<open>What the properties use of such a run.\<close>

definition runContext :: "'g verifierDeps \<Rightarrow> VerifyTSLInput \<Rightarrow> VerifierPolicy \<Rightarrow> 'g vctx \<Rightarrow> bool" where
  "runContext D inp policy c \<longleftrightarrow> vc_env c = vd_env D \<and> vc_eth c = vd_eth D \<and> vc_rlp c = vd_rlp D \<and> vc_groth16 c = vd_groth16 D \<and> vc_resolver c = vd_resolver D
     \<and> vc_backend c = vd_backend D \<and> vc_input c = inp \<and> vc_policy c = withStrictDefaults policy
     \<and> commitmentHash (vd_env D) (vi_envelope inp) = Inr (vc_commitmentHash c) \<and> legacyCommitmentHash (vd_env D) (vi_envelope inp) = Inr (vc_legacyCommitmentHash c)"

lemma verifyTSL_run:
  assumes "verifyTSL D input policy = Inr r" "vr_verified r" "inp = fst (expandProofBundleInput input)"
  shows "\<exists>c s t. runContext D inp policy c \<and> runSections sections c s = Inr t \<and> verdict (withStrictDefaults policy) inp t
     \<and> \<not> ck_included_in_log (vs_checks s) \<and> \<not> ck_checkpoint_matches_proof (vs_checks s) \<and> \<not> ck_checkpoint_settled (vs_checks s)
     \<and> vs_errors (startState (vd_env D) (withStrictDefaults policy) inp (snd (expandProofBundleInput input))) = []"
proof -
  obtain c t where "verifiedRun D input policy r c t" using verifyTSL_verifiedRun [OF assms(1,2)] by blast
  then obtain s d key h commitment legacy where p: "c = contextOf D (withStrictDefaults policy) inp h commitment legacy"
     "s = startState (vd_env D) (withStrictDefaults policy) inp (snd (expandProofBundleInput input))"
     "eventHash (vd_env D) (EventCommitmentV1_obj (vi_envelope inp)) = Inr h" "vs_errors s = []"
     "commitmentHashFromParts (vd_env D) h (ev_signature (vi_envelope inp)) = Inr commitment"
     "legacyCommitmentHashFromParts (vd_env D) h (ev_signature (vi_envelope inp)) = Inr legacy"
     "runSections sections c (onChecks (keyChecks (vd_env D) (vi_envelope inp) (Some key) True) s) = Inr t" "verdict (withStrictDefaults policy) inp t"
    unfolding verifiedRun_def Let_def assms(3) [symmetric] by (elim exE conjE) (rule that, assumption+)
  have "runContext D inp policy c"
    using p(3,5,6) by (simp add: p(1) runContext_def contextOf_def commitmentHash_def legacyCommitmentHash_def)
  moreover have "\<not> ck_included_in_log (keyChecks E ev key b (vs_checks s))" "\<not> ck_checkpoint_matches_proof (keyChecks E ev key b (vs_checks s))"
    "\<not> ck_checkpoint_settled (keyChecks E ev key b (vs_checks s))" for E ev key b
    by (simp_all add: p(2) startState_checks defaultChecks_def keyChecks_def)
  ultimately show ?thesis using p(2,4,7,8) by (intro exI [of _ c] exI [of _ "onChecks (keyChecks (vd_env D) (vi_envelope inp) (Some key) True) s"] exI [of _ t]) simp
qed

text \<open>The checkpoint that anchors an accepted event.\<close>

lemma verified_anchored:
  assumes v: "verifyTSL D input policy = Inr r" "vr_verified r" "inp = fst (expandProofBundleInput input)"
    and po: "po_require_inclusion policy = Some True" "po_require_checkpoint policy = Some True"
  shows "\<exists>p cp. vi_proof inp = Some p \<and> vi_checkpoint inp = Some cp \<and> ip_tree_kind p = ''event'' \<and> verifyInclusion (vd_env D) p = Inr True
     \<and> (commitmentHash (vd_env D) (vi_envelope inp) = Inr (ip_commitment p) \<or> legacyCommitmentHash (vd_env D) (vi_envelope inp) = Inr (ip_commitment p))
     \<and> ip_root p = bc_event_root cp \<and> ip_epoch_start_ms p = bc_epoch_start_ms cp \<and> ip_shard p = bc_shard cp
     \<and> checkpointHashForPolicy (vd_env D) cp = Inr (ip_checkpoint_hash p) \<and> sv_valid (validateSchema (vd_env D) ''checkpoint'' (JObj (BatchCheckpointV1_obj cp)))
     \<and> (envFlag (vd_env D) ''ALLOW_UNSAFE_CHECKPOINT_SIGNATURE_FIXTURES'' \<and> bc_relay_signature cp = ''0x00''
        \<or> (\<exists>d key. vd_resolver D (bc_relay_id cp) (Some (ev_timestamp (vi_envelope inp))) = Inr (Some d) \<and> key \<in> set (idd_verification_methods d)
             \<and> keyActiveAt (vd_env D) (Some key) (ev_timestamp (vi_envelope inp))
             \<and> verifyEd25519 (vd_env D) (vm_public_key key) (DText (ip_checkpoint_hash p)) (bc_relay_signature cp) = Inr True))"
proof -
  obtain c s t where run: "runContext D inp policy c" "runSections sections c s = Inr t" "verdict (withStrictDefaults policy) inp t"
     "\<not> ck_included_in_log (vs_checks s)" "\<not> ck_checkpoint_matches_proof (vs_checks s)" using verifyTSL_run [OF v] by blast
  note vd = verdict_core [OF run(3)]
  have on: "isOn (po_require_inclusion (withStrictDefaults policy))" "isOn (po_require_checkpoint (withStrictDefaults policy))"
    using po by (simp_all add: isOn_def withStrictDefaults_def)
  obtain p cp where m: "proofInCheckpoint c p cp" using run_matches [OF run(2) vd(5) vd(7) [OF on(2)] run(5)] by blast
  have i: "eventIncluded c" using run_included [OF run(2) vd(5) vd(6) [OF on(1)] run(4)] .
  have cp: "checkpointAccepted c cp" using run_checkpoint [OF run(2) vd(5)] m by (simp add: proofInCheckpoint_def)
  have "ip_tree_kind p = ''event''" "ip_root p = bc_event_root cp"
    using i m by (auto simp: eventIncluded_def proofInCheckpoint_def checkpointRootForKind_def)
  moreover have "envFlag (vd_env D) ''ALLOW_UNSAFE_CHECKPOINT_SIGNATURE_FIXTURES'' \<and> bc_relay_signature cp = ''0x00''
        \<or> (\<exists>d key. vd_resolver D (bc_relay_id cp) (Some (ev_timestamp (vi_envelope inp))) = Inr (Some d) \<and> key \<in> set (idd_verification_methods d)
             \<and> keyActiveAt (vd_env D) (Some key) (ev_timestamp (vi_envelope inp))
             \<and> verifyEd25519 (vd_env D) (vm_public_key key) (DText (ip_checkpoint_hash p)) (bc_relay_signature cp) = Inr True)"
    using cp m run(1) by (auto simp: checkpointAccepted_def proofInCheckpoint_def runContext_def unsafeFixtureSignatureAllowed_def Let_def)
  ultimately show ?thesis using i m cp run(1)
    by (auto simp: eventIncluded_def proofInCheckpoint_def checkpointAccepted_def runContext_def schemaOf_def Let_def)
qed

section \<open>A run that succeeds\<close>

text \<open>
  An event with an inclusion proof, a checkpoint, a graph profile and a graph vector or neither, and nothing else; and a policy that requires inclusion, a
  checkpoint and settlement.
\<close>

definition graphLogInput :: "EventCommitmentV1 \<Rightarrow> InclusionProofV1 \<Rightarrow> BatchCheckpointV1 \<Rightarrow> GraphProfileV2 option \<Rightarrow> GraphFeatureVectorV1 option \<Rightarrow> VerifyTSLInput" where
  "graphLogInput ev p cp gp v =
     \<lparr>vi_proof_bundle = None, vi_envelope = ev, vi_proof = Some p, vi_receipt_proofs = None, vi_checkpoint = Some cp, vi_receipts = None,
       vi_attestations = None, vi_attestations_v2 = None, vi_receipt_disputes = None, vi_revocations = None, vi_settlement_evidence = None,
       vi_assessment = None, vi_assessment_v2 = None, vi_scoring_profile = None, vi_domain_policy = None, vi_evidence_coverage = None,
       vi_feature_registry = None, vi_normalization_profile = None, vi_weight_profile = None, vi_calibration_profile = None,
       vi_confidence_profile = None, vi_provider_governance_status = None, vi_metadata_fingerprints = None, vi_graph_profile = gp,
       vi_graph_feature_vector = v, vi_trusted_seeds = None, vi_adversarial_seeds = None, vi_trusted_seed_governance = None,
       vi_adversarial_seed_governance = None, vi_event_receivers = None, vi_sybil_assessment = None, vi_sybil_profile = None,
       vi_drift_report = None, vi_drift_feature_history = None, vi_drift_cohort_baseline_components = None, vi_zk_proofs = None,
       vi_zk_circuit_manifests = None, vi_zk_verification_key_registry = None, vi_delegations = None, vi_delegation_policies = None,
       vi_agent_actions = None, vi_audit_findings = None, vi_consistency_proofs = None, vi_non_membership_proofs = None,
       vi_governance_policy = None, vi_redaction_manifest = None, vi_message_disclosure = None, vi_disclosure_consents = None\<rparr>"

abbreviation logInput :: "EventCommitmentV1 \<Rightarrow> InclusionProofV1 \<Rightarrow> BatchCheckpointV1 \<Rightarrow> VerifyTSLInput" where
  "logInput ev p cp \<equiv> graphLogInput ev p cp None None"

definition logPolicy :: VerifierPolicy where
  "logPolicy =
     \<lparr>po_require_inclusion = Some True, po_require_checkpoint = Some True, po_require_settlement = Some True, po_require_provider_registry = None,
       po_require_chain_revocation = None, po_require_zk_claims = None, po_require_consistency_proof = None,
       po_require_non_membership_proof = None, po_require_governance_policy = None, po_require_agent_scope = None,
       po_require_audit_consistency = None, po_accepted_scoring_profiles = None, po_required_domain_policy = None, po_require_v2_assessment = None,
       po_require_metadata_fingerprint_policy = None, po_require_graph_artifacts = None, po_require_registered_zk_circuit = None,
       po_require_sparse_merkle_revocation_root = None, po_require_research_graph_algorithm = None, po_require_provider_governance_active = None,
       po_production_scoring_required = None, po_require_sybil_provider_issuer = None, po_require_seed_governance_opening = None,
       po_require_full_covariance_drift = None, po_require_manifest_verification_key_hash = None, po_reject_dev_zk_circuits = None,
       po_reject_unsigned_local_proof_bundles = None, po_require_authorized_relay = None, po_authorized_relays = None,
       po_require_receipt_inclusion_for_disclosed_receipts = None, po_require_disclosure_consent_for_private_fields = None,
       po_require_profile_derived_scoring = None, po_require_behavioral_sybil_tiers = None, po_require_fixed_point_drift = None,
       po_require_four_root_checkpoint = None, po_require_exact_graph_formulas = None, po_require_core_drift_formula = None,
       po_require_profile_signed_scoring = None, po_require_offline_settlement_proof = None, po_reject_rpc_attested_settlement_for_mainnet = None,
       po_require_active_zk_manifest = None, po_require_zk_ceremony_evidence = None, po_min_settlement_confirmations = None,
       po_reject_unsafe_fixtures_on_mainnet = None, po_accepted_auditors = None, po_accepted_governance_policy = None,
       po_accepted_scoring_providers = None, po_verifier_or_provider = None, po_disclosure_purpose = None, po_revoked_disclosure_pointers = None,
       po_disclosure_checked_at = None, po_max_assessment_age_ms = None\<rparr>"

lemma graphLogInput_sel [simp]:
  "vi_envelope (graphLogInput ev p cp gp v) = ev" "vi_proof (graphLogInput ev p cp gp v) = Some p" "vi_checkpoint (graphLogInput ev p cp gp v) = Some cp"
  "vi_proof_bundle (graphLogInput ev p cp gp v) = None" "vi_receipts (graphLogInput ev p cp gp v) = None" "vi_attestations (graphLogInput ev p cp gp v) = None"
  "vi_attestations_v2 (graphLogInput ev p cp gp v) = None" "vi_revocations (graphLogInput ev p cp gp v) = None" "vi_message_disclosure (graphLogInput ev p cp gp v) = None"
  "vi_redaction_manifest (graphLogInput ev p cp gp v) = None" "vi_settlement_evidence (graphLogInput ev p cp gp v) = None" "vi_assessment (graphLogInput ev p cp gp v) = None"
  "vi_assessment_v2 (graphLogInput ev p cp gp v) = None" "vi_scoring_profile (graphLogInput ev p cp gp v) = None" "vi_metadata_fingerprints (graphLogInput ev p cp gp v) = None"
  "vi_graph_profile (graphLogInput ev p cp gp v) = gp" "vi_graph_feature_vector (graphLogInput ev p cp gp v) = v" "vi_sybil_assessment (graphLogInput ev p cp gp v) = None"
  "vi_drift_report (graphLogInput ev p cp gp v) = None" "vi_zk_proofs (graphLogInput ev p cp gp v) = None" "vi_delegations (graphLogInput ev p cp gp v) = None"
  "vi_delegation_policies (graphLogInput ev p cp gp v) = None" "vi_agent_actions (graphLogInput ev p cp gp v) = None" "vi_audit_findings (graphLogInput ev p cp gp v) = None"
  "vi_consistency_proofs (graphLogInput ev p cp gp v) = None" "vi_non_membership_proofs (graphLogInput ev p cp gp v) = None" "vi_governance_policy (graphLogInput ev p cp gp v) = None"
  by (simp_all add: graphLogInput_def)

lemma logInput_idle:
  assumes "vc_input c = graphLogInput ev p cp gp v" "vc_policy c = withStrictDefaults (logPolicy\<lparr>po_require_exact_graph_formulas := x\<rparr>)" "\<not> privateGraph (graphLogInput ev p cp gp v)"
  shows "chainRevocation c s = Inr s" "revocationSection c s = Inr s" "messageSection c s = Inr s" "receiptsSection c s = Inr s"
    "attestationsSection c s = Inr s" "attestationsV2Section c s = Inr s" "privateFieldsSection c s = Inr s" "assessmentSection c s = Inr s"
    "scoringSection c s = Inr s" "metadataSection c s = Inr s" "zkSection c s = Inr s" "agentScopeSection c s = Inr s"
    "delegatedActionsSection c s = Inr s" "consistencySection c s = Inr s" "nonMembershipSection c s = Inr s" "governanceSection c s = Inr s"
    "auditSection c s = Inr s" "settlementEvidenceSection c s = Inr s" "finalGateSection c s = Inr s"
  by (simp_all add: assms chainRevocation_def revocationSection_def messageSection_def receiptsSection_def attestationsSection_def attestationsV2Section_def
      privateFieldsSection_def assessmentSection_def scoringSection_def metadataSection_def zkSection_def agentScopeSection_def
      delegatedActionsSection_def consistencySection_def nonMembershipSection_def governanceSection_def auditSection_def settlementEvidenceSection_def
      finalGateSection_def Let_def withStrictDefaults_def logPolicy_def isOn_def privateMetadata_def someList_def)

lemma graphSection_idle:
  assumes "vc_input c = logInput ev p cp" "vc_policy c = withStrictDefaults (logPolicy\<lparr>po_require_exact_graph_formulas := x\<rparr>)"
  shows "graphSection c s = Inr s"
  by (simp add: assms graphSection_def graphScoped_def Let_def withStrictDefaults_def logPolicy_def isOn_def)

lemma run_idle:
  assumes "vc_input c = graphLogInput ev p cp gp v" "vc_policy c = withStrictDefaults (logPolicy\<lparr>po_require_exact_graph_formulas := x\<rparr>)" "\<not> privateGraph (graphLogInput ev p cp gp v)"
  shows "runSections sections c s = bindE (keyExplanations c s) (\<lambda>s1. bindE (inclusionSection c s1) (\<lambda>s2. bindE (graphSection c s2) (\<lambda>s3. bindE (checkpointSection c s3)
     (\<lambda>s4. bindE (checkpointMatch c s4) (\<lambda>s5. bindE (settlementBackendSection c s5) (finalErrors c))))))"
proof -
  have cons: "runSections (sec # secs) c = (\<lambda>s. bindE (sec c s) (runSections secs c))" for sec secs by (rule ext) (rule runSections_Cons)
  have nil: "bindE m (runSections [] c) = m" for m by (cases m) (simp_all add: runSections_def)
  show ?thesis unfolding sections_def by (simp only: cons nil logInput_idle [OF assms] bindE_simps)
qed

text \<open>The state after the run, if every part of the evidence holds.\<close>

lemma log_run:
  assumes c: "vc_input c = graphLogInput ev p cp gp v" "vc_policy c = withStrictDefaults (logPolicy\<lparr>po_require_exact_graph_formulas := x\<rparr>)" "vc_backend c = Some b" "\<not> privateGraph (graphLogInput ev p cp gp v)"
    and graph: "\<And>s. vs_errors s = [] \<Longrightarrow> ck_graph_artifacts_valid (vs_checks s) = None \<Longrightarrow> \<exists>t. graphSection c s = Inr t \<and> vs_errors t = []
      \<and> vs_checks t = (vs_checks s)\<lparr>ck_graph_artifacts_valid := g\<rparr>"
    and schema: "sv_valid (schemaOf c ''inclusionProof'' (InclusionProofV1_obj p))" "sv_valid (schemaOf c ''checkpoint'' (BatchCheckpointV1_obj cp))"
    and incl: "ip_tree_kind p = ''event''" "ip_commitment p = vc_commitmentHash c" "verifyInclusion (vc_env c) p = Inr True"
    and cph: "checkpointHashForPolicy (vc_env c) cp = Inr (ip_checkpoint_hash p)" "bc_checkpoint_identity_hash cp \<in> {None, Some (ip_checkpoint_hash p)}"
    and match: "ip_epoch_start_ms p = bc_epoch_start_ms cp" "ip_epoch_duration_ms p = bc_epoch_duration_ms cp" "ip_shard p = bc_shard cp" "ip_root p = bc_event_root cp"
    and relay: "vc_resolver c (bc_relay_id cp) (Some (ev_timestamp ev)) = Inr (Some d)" "activeKey (vc_env c) (ev_timestamp ev) (Some d) = Some rk" "vm_type rk = ''ed25519''"
      "verifyEd25519 (vc_env c) (vm_public_key rk) (DText (ip_checkpoint_hash p)) (bc_relay_signature cp) = Inr True"
    and settled: "sb_verifyCheckpointSettlement b cp = Inr sr" "svr_settled sr"
    and s: "ck_key_found (vs_checks s)" "ck_key_active (vs_checks s)" "ck_not_revoked (vs_checks s)" "ck_signature_valid (vs_checks s)"
      "ck_content_commitment_matches (vs_checks s) = None" "\<not> ck_checkpoint_settled (vs_checks s)" "vs_errors s = []"
      "ck_graph_artifacts_valid (vs_checks s) = None"
  shows "\<exists>t. runSections sections c s = Inr t \<and> vs_errors t = [] \<and> vs_checks t = (vs_checks s)\<lparr>ck_included_in_log := True, ck_graph_artifacts_valid := g, ck_checkpoint_valid := True,
     ck_checkpoint_signature_valid := Some True, ck_checkpoint_matches_proof := True, ck_checkpoint_settled := True\<rparr>"
proof -
  have auth: "\<not> isOn (po_require_authorized_relay (vc_policy c))" by (simp add: c isOn_def withStrictDefaults_def logPolicy_def)
  have sig: "(if unsafe then Inr True else edSigned (vc_env c) (activeKey (vc_env c) (ev_timestamp ev) (Some d)) (checkpointHashForPolicy (vc_env c) cp)
      (bc_relay_signature cp)) = Inr True" for unsafe
    using relay cph by (simp add: edSigned_True)
  obtain s1 where s1: "keyExplanations c s = Inr s1" "vs_errors s1 = []" "vs_checks s1 = vs_checks s" using s(7) by (simp add: keyExplanations_def)
  obtain s2 where s2: "inclusionSection c s1 = Inr s2" "vs_errors s2 = []" "vs_checks s2 = (vs_checks s1)\<lparr>ck_included_in_log := True\<rparr>"
    using s1(2) incl(2,3) by (simp add: inclusionSection_def c(1) schema(1) otherInclusion_event [OF incl(1)] incl(1) andE_def)
  have "ck_graph_artifacts_valid (vs_checks s2) = None" using s(8) s1(3) s2(3) by simp
  then obtain s2' where s2': "graphSection c s2 = Inr s2'" "vs_errors s2' = []" "vs_checks s2' = (vs_checks s2)\<lparr>ck_graph_artifacts_valid := g\<rparr>" using graph s2(2) by blast
  have "checkpointSection c s2' = checkpointSignature c cp (onChecks (\<lambda>k. k\<lparr>ck_checkpoint_valid := True\<rparr>) s2')"
    using cph by (auto simp: checkpointSection_def c(1) schema(2) rejectIf_def)
  then obtain s3 where s3: "checkpointSection c s2' = Inr s3" "vs_errors s3 = []"
     "vs_checks s3 = (vs_checks s2')\<lparr>ck_checkpoint_valid := True, ck_checkpoint_signature_valid := Some True\<rparr>"
    using s2'(2) by (simp add: checkpointSignature_def c(1) relay(1) sig relayAuthorization_def auth Let_def)
  obtain s4 where s4: "checkpointMatch c s3 = Inr s4" "vs_errors s4 = []" "vs_checks s4 = (vs_checks s3)\<lparr>ck_checkpoint_matches_proof := True\<rparr>"
    using s3(2,3) by (simp add: checkpointMatch_def c(1) match cph(1) checkpointRootForKind_def incl(1) andE_def)
  have "\<not> ck_checkpoint_settled (vs_checks s4)" using s(6) s1(3) s2(3) s2'(3) s3(3) s4(3) by simp
  then obtain s5 where s5: "settlementBackendSection c s4 = Inr s5" "vs_errors s5 = []" "vs_checks s5 = (vs_checks s4)\<lparr>ck_checkpoint_settled := True\<rparr>"
    using s4(2) by (simp add: settlementBackendSection_def c(1,3) settled)
  have k: "vs_checks s5 = (vs_checks s)\<lparr>ck_included_in_log := True, ck_graph_artifacts_valid := g, ck_checkpoint_valid := True,
     ck_checkpoint_signature_valid := Some True, ck_checkpoint_matches_proof := True, ck_checkpoint_settled := True\<rparr>"
    using s1(3) s2(3) s2'(3) s3(3) s4(3) s5(3) by simp
  show ?thesis unfolding run_idle [OF c(1,2,4)] using s s5(2) k by (simp add: s1(1) s2(1) s2'(1) s3(1) s4(1) s5(1) finalErrors_def Let_def)
qed

lemma expand_graphLogInput [simp]: "expandProofBundleInput (graphLogInput ev p cp gp v) = (graphLogInput ev p cp gp v, [])"
  by (simp add: expandProofBundleInput_def)

lemma graphLogInput_redaction: "redactionManifestMatches (graphLogInput ev p cp gp v)"
  by (simp add: redactionManifestMatches_def restrictedAttestations_def someList_def)

lemma startState_graphLogInput:
  assumes "sv_valid (validateSchema E ''event'' (JObj (EventCommitmentV1_obj ev)))" "\<not> onMainnet E \<or> list_all (\<lambda>f. \<not> envFlag E f) unsafeFlags"
  shows "vs_errors (startState E po (graphLogInput ev p cp gp v) []) = []"
  using assms by (auto simp: startState_def Let_def bundleErrors_def graphLogInput_redaction filter_empty_conv list_all_iff)

lemma verdict_log:
  assumes "vs_errors t = []" "vs_checks t = (keyChecks E ev (Some key) True (vs_checks (startState E po (graphLogInput ev p cp gp v) [])))\<lparr>ck_included_in_log := True,
     ck_graph_artifacts_valid := g, ck_checkpoint_valid := True, ck_checkpoint_signature_valid := Some True, ck_checkpoint_matches_proof := True, ck_checkpoint_settled := True\<rparr>"
    "g \<noteq> Some False" "sv_valid (validateSchema E ''event'' (JObj (EventCommitmentV1_obj ev)))" "keyActiveAt E (Some key) (ev_timestamp ev)"
    "notRevokedAt E (Some key) (Some (ev_timestamp ev))"
  shows "verdict (withStrictDefaults (logPolicy\<lparr>po_require_exact_graph_formulas := x\<rparr>)) (graphLogInput ev p cp gp v) t"
  using assms by (simp add: verdict_def Let_def startState_checks defaultChecks_def keyChecks_def graphLogInput_redaction withStrictDefaults_def logPolicy_def isOn_def)

text \<open>A verifier accepts an event with complete evidence.\<close>

definition logEvidence :: "'g verifierDeps \<Rightarrow> EventCommitmentV1 \<Rightarrow> InclusionProofV1 \<Rightarrow> BatchCheckpointV1 \<Rightarrow> bool" where
  "logEvidence D ev p cp \<longleftrightarrow> (\<exists>h d key rd rk b sr. let E = vd_env D; t = ev_timestamp ev in
     sv_valid (validateSchema E ''event'' (JObj (EventCommitmentV1_obj ev))) \<and> sv_valid (validateSchema E ''inclusionProof'' (JObj (InclusionProofV1_obj p)))
     \<and> sv_valid (validateSchema E ''checkpoint'' (JObj (BatchCheckpointV1_obj cp)))
     \<and> eventHash E (EventCommitmentV1_obj ev) = Inr h \<and> vd_resolver D (ev_sender ev) (Some t) = Inr (Some d)
     \<and> findVerificationMethod d (ev_signing_key_id ev) = Some key \<and> vm_type key = ''ed25519'' \<and> keyActiveAt E (Some key) t \<and> notRevokedAt E (Some key) (Some t)
     \<and> verifyEd25519 E (vm_public_key key) (DText h) (ev_signature ev) = Inr True
     \<and> commitmentHash E ev = Inr (ip_commitment p) \<and> ip_tree_kind p = ''event'' \<and> verifyInclusion E p = Inr True
     \<and> checkpointHashForPolicy E cp = Inr (ip_checkpoint_hash p) \<and> bc_checkpoint_identity_hash cp \<in> {None, Some (ip_checkpoint_hash p)} \<and> ip_epoch_start_ms p = bc_epoch_start_ms cp
     \<and> ip_epoch_duration_ms p = bc_epoch_duration_ms cp \<and> ip_shard p = bc_shard cp \<and> ip_root p = bc_event_root cp
     \<and> vd_resolver D (bc_relay_id cp) (Some t) = Inr (Some rd) \<and> activeKey E t (Some rd) = Some rk \<and> vm_type rk = ''ed25519''
     \<and> verifyEd25519 E (vm_public_key rk) (DText (ip_checkpoint_hash p)) (bc_relay_signature cp) = Inr True
     \<and> vd_backend D = Some b \<and> sb_verifyCheckpointSettlement b cp = Inr sr \<and> svr_settled sr)"

lemma graph_log_accepted:
  assumes ok: "logEvidence D ev p cp" and net: "\<not> onMainnet (vd_env D) \<or> list_all (\<lambda>f. \<not> envFlag (vd_env D) f) unsafeFlags"
    and priv: "\<not> privateGraph (graphLogInput ev p cp gp v)" and g: "g \<noteq> Some False"
    and graph: "\<And>h k l s. vs_errors s = [] \<Longrightarrow> ck_graph_artifacts_valid (vs_checks s) = None \<Longrightarrow>
      \<exists>t. graphSection (contextOf D (withStrictDefaults (logPolicy\<lparr>po_require_exact_graph_formulas := x\<rparr>)) (graphLogInput ev p cp gp v) h k l) s = Inr t \<and> vs_errors t = []
        \<and> vs_checks t = (vs_checks s)\<lparr>ck_graph_artifacts_valid := g\<rparr>"
  shows "\<exists>r. verifyTSL D (graphLogInput ev p cp gp v) (logPolicy\<lparr>po_require_exact_graph_formulas := x\<rparr>) = Inr r \<and> vr_verified r"
proof -
  let ?E = "vd_env D" let ?t = "ev_timestamp ev" let ?po = "withStrictDefaults (logPolicy\<lparr>po_require_exact_graph_formulas := x\<rparr>)"
  obtain h d key rd rk b sr where schema: "sv_valid (validateSchema ?E ''event'' (JObj (EventCommitmentV1_obj ev)))"
      "sv_valid (validateSchema ?E ''inclusionProof'' (JObj (InclusionProofV1_obj p)))" "sv_valid (validateSchema ?E ''checkpoint'' (JObj (BatchCheckpointV1_obj cp)))"
    and h: "eventHash ?E (EventCommitmentV1_obj ev) = Inr h" "vd_resolver D (ev_sender ev) (Some ?t) = Inr (Some d)"
    and key: "findVerificationMethod d (ev_signing_key_id ev) = Some key" "vm_type key = ''ed25519''" "keyActiveAt ?E (Some key) ?t" "notRevokedAt ?E (Some key) (Some ?t)"
      "verifyEd25519 ?E (vm_public_key key) (DText h) (ev_signature ev) = Inr True"
    and incl: "commitmentHash ?E ev = Inr (ip_commitment p)" "ip_tree_kind p = ''event''" "verifyInclusion ?E p = Inr True"
    and cp: "checkpointHashForPolicy ?E cp = Inr (ip_checkpoint_hash p)" "bc_checkpoint_identity_hash cp \<in> {None, Some (ip_checkpoint_hash p)}" "ip_epoch_start_ms p = bc_epoch_start_ms cp"
      "ip_epoch_duration_ms p = bc_epoch_duration_ms cp" "ip_shard p = bc_shard cp" "ip_root p = bc_event_root cp"
    and relay: "vd_resolver D (bc_relay_id cp) (Some ?t) = Inr (Some rd)" "activeKey ?E ?t (Some rd) = Some rk" "vm_type rk = ''ed25519''"
      "verifyEd25519 ?E (vm_public_key rk) (DText (ip_checkpoint_hash p)) (bc_relay_signature cp) = Inr True"
    and settled: "vd_backend D = Some b" "sb_verifyCheckpointSettlement b cp = Inr sr" "svr_settled sr"
    using ok unfolding logEvidence_def Let_def by (elim exE conjE) (rule that, assumption+)
  have c: "commitmentHashFromParts ?E h (ev_signature ev) = Inr (ip_commitment p)" using incl(1) h(1) by (simp add: commitmentHash_def)
  obtain l where l: "legacyCommitmentHashFromParts ?E h (ev_signature ev) = Inr l"
    using c by (auto simp: commitmentHashFromParts_def legacyCommitmentHashFromParts_def bindE_eq_Inr)
  let ?c = "contextOf D ?po (graphLogInput ev p cp gp v) h (ip_commitment p) l" let ?start = "startState ?E ?po (graphLogInput ev p cp gp v) []"
  let ?s = "onChecks (keyChecks ?E ev (Some key) True) ?start"
  have k: "vs_checks ?s = keyChecks ?E ev (Some key) True (vs_checks ?start)" by simp
  have s: "ck_key_found (vs_checks ?s)" "ck_key_active (vs_checks ?s)" "ck_not_revoked (vs_checks ?s)" "ck_signature_valid (vs_checks ?s)"
      "ck_content_commitment_matches (vs_checks ?s) = None" "\<not> ck_checkpoint_settled (vs_checks ?s)" "ck_graph_artifacts_valid (vs_checks ?s) = None"
    unfolding k using key by (simp_all add: keyChecks_def startState_checks defaultChecks_def)
  have e: "vs_errors ?s = []" using startState_graphLogInput [OF schema(1) net] by simp
  have ctx: "vc_input ?c = graphLogInput ev p cp gp v" "vc_policy ?c = ?po" "vc_backend ?c = Some b" "vc_env ?c = ?E" "vc_resolver ?c = vd_resolver D"
      "vc_commitmentHash ?c = ip_commitment p" by (simp_all add: contextOf_def settled(1))
  have schemas: "sv_valid (schemaOf ?c ''inclusionProof'' (InclusionProofV1_obj p))" "sv_valid (schemaOf ?c ''checkpoint'' (BatchCheckpointV1_obj cp))"
    using schema(2,3) unfolding schemaOf_def ctx(4) .
  have env: "verifyInclusion (vc_env ?c) p = Inr True" "checkpointHashForPolicy (vc_env ?c) cp = Inr (ip_checkpoint_hash p)"
      "vc_resolver ?c (bc_relay_id cp) (Some ?t) = Inr (Some rd)" "activeKey (vc_env ?c) ?t (Some rd) = Some rk"
      "verifyEd25519 (vc_env ?c) (vm_public_key rk) (DText (ip_checkpoint_hash p)) (bc_relay_signature cp) = Inr True"
    unfolding ctx(4,5) by (rule incl cp relay)+
  obtain t where t: "runSections sections ?c ?s = Inr t" "vs_errors t = []" "vs_checks t = (vs_checks ?s)\<lparr>ck_included_in_log := True, ck_graph_artifacts_valid := g, ck_checkpoint_valid := True,
     ck_checkpoint_signature_valid := Some True, ck_checkpoint_matches_proof := True, ck_checkpoint_settled := True\<rparr>"
    using log_run [OF ctx(1-3) priv graph schemas incl(2) ctx(6) [symmetric] env(1,2) cp(2-6) env(3,4) relay(3) env(5) settled(2,3) s(1-6) e s(7)] by blast
  have "verdict ?po (graphLogInput ev p cp gp v) t" using verdict_log [OF t(2) t(3) [unfolded k] g schema(1) key(3,4)] .
  moreover have "edSigned ?E (Some key) (Inr h) (ev_signature ev) = Inr True" using key by (simp add: edSigned_True)
  ultimately show ?thesis using schema(1) by (simp add: verifyTSL_def Let_def h key(1) c l t(1) startState_checks)
qed

lemma log_accepted:
  assumes "logEvidence D ev p cp" "\<not> onMainnet (vd_env D) \<or> list_all (\<lambda>f. \<not> envFlag (vd_env D) f) unsafeFlags"
  shows "\<exists>r. verifyTSL D (logInput ev p cp) logPolicy = Inr r \<and> vr_verified r"
proof -
  have "k\<lparr>ck_graph_artifacts_valid := None\<rparr> = k" if "ck_graph_artifacts_valid k = None" for k :: VerificationChecks using that by (cases k) simp
  then have "graphSection (contextOf D (withStrictDefaults (logPolicy\<lparr>po_require_exact_graph_formulas := None\<rparr>)) (logInput ev p cp) h k l) s = Inr s
      \<and> vs_checks s = (vs_checks s)\<lparr>ck_graph_artifacts_valid := None\<rparr>" if "ck_graph_artifacts_valid (vs_checks s) = None" for h k l s
    using that graphSection_idle [of "contextOf D (withStrictDefaults (logPolicy\<lparr>po_require_exact_graph_formulas := None\<rparr>)) (logInput ev p cp) h k l" ev p cp None s]
    by (simp add: contextOf_def)
  then have "\<exists>r. verifyTSL D (logInput ev p cp) (logPolicy\<lparr>po_require_exact_graph_formulas := None\<rparr>) = Inr r \<and> vr_verified r"
    using graph_log_accepted [OF assms, of None None None None] by (simp add: privateGraph_def)
  moreover have "logPolicy\<lparr>po_require_exact_graph_formulas := None\<rparr> = logPolicy" by (simp add: logPolicy_def)
  ultimately show ?thesis by simp
qed

section \<open>A concrete run\<close>

definition demoGraphOps :: "unit graphOps" where
  "demoGraphOps = \<lparr>go_construct = (\<lambda>_ _ _ _. Inl []), go_features = (\<lambda>_ _ _ _ _ _. Inl []), go_sybil = (\<lambda>_ _ _ _ _ _ _ _. Inl []), go_drift = (\<lambda>_ _ _. Inl [])\<rparr>"

definition demoSettledResult :: SettlementVerificationResult where
  "demoSettledResult = \<lparr>svr_settled = True, svr_settlement_backend = None, svr_settlement_tx = None, svr_settlement_evidence = None, svr_error = None\<rparr>"

definition demoDeps :: "env \<Rightarrow> IdentityDocumentV1 \<Rightarrow> unit verifierDeps" where
  "demoDeps E d = \<lparr>vd_env = E, vd_eth = demoEth, vd_rlp = demoRlp [], vd_groth16 = demoGroth16, vd_graphOps = demoGraphOps,
     vd_resolver = (\<lambda>_ _. Inr (Some d)), vd_backend = Some \<lparr>sb_verifyCheckpointSettlement = (\<lambda>_. Inr demoSettledResult), sb_isKeyRevokedAt = None,
       sb_isProviderActive = None, sb_isModelRegistered = None\<rparr>\<rparr>"

definition demoProofOf :: "string \<Rightarrow> string \<Rightarrow> string \<Rightarrow> InclusionProofV1" where
  "demoProofOf commitment leaf h = \<lparr>ip_type = ''tsl.inclusion_proof.v1'', ip_tree_kind = ''event'', ip_commitment = commitment, ip_leaf_index = 0, ip_leaf_hash = leaf,
     ip_root = leaf, ip_epoch_start_ms = bc_epoch_start_ms (demoCheckpoint 0 ZERO_HASH), ip_epoch_duration_ms = bc_epoch_duration_ms (demoCheckpoint 0 ZERO_HASH),
     ip_shard = bc_shard (demoCheckpoint 0 ZERO_HASH), ip_path = [], ip_checkpoint_hash = h\<rparr>"

lemma demo_event_date: "dateParse demoEnv ''2026-01-01T00:00:00.000Z'' = Some 1767225600000"
  by code_simp

text \<open>The same environment on mainnet.\<close>

lemma demoMainnet_facts:
  "ed25519_correct demoMainnet" "hexToBytes demoMainnet demoSeed = Inr (replicate 32 0x77)" "sv_valid (validateSchema demoMainnet n v)"
  "dateParse demoMainnet ''2026-01-01T00:00:00.000Z'' = Some 1767225600000" "onMainnet demoMainnet" "list_all (\<lambda>f. \<not> envFlag demoMainnet f) unsafeFlags"
proof -
  show "hexToBytes demoMainnet demoSeed = Inr (replicate 32 0x77)" using demoSeed_bytes by (simp add: demoMainnet_def hexToBytes_def)
  show "dateParse demoMainnet ''2026-01-01T00:00:00.000Z'' = Some 1767225600000" using demo_event_date by (simp add: demoMainnet_def dateParse_def split: option.split_asm option.split)
qed (use demo_hyps(3) in \<open>simp_all add: demoMainnet_def ed25519_correct_def onMainnet_def validateSchema_def demoEnv_def envFlag_def unsafeFlags_def\<close>)

definition demoDocument :: "string \<Rightarrow> IdentityDocumentV1" where
  "demoDocument pk = \<lparr>idd_type = ''tsl.identity.v1'', idd_id = ''tsl:alice'', idd_controller = ''self'', idd_created_at = ''2026-01-01T00:00:00.000Z'',
     idd_verification_methods = [\<lparr>vm_id = ''tsl:alice#key-1'', vm_type = ''ed25519'', vm_public_key = pk, vm_status = ''active'',
       vm_created_at = ''2026-01-01T00:00:00.000Z'', vm_expires_at = None, vm_revoked_at = None\<rparr>],
     idd_recovery = None, idd_privacy_policy_commitment = None\<rparr>"

lemma demoDocument_key:
  "\<exists>k. findVerificationMethod (demoDocument pk) ''tsl:alice#key-1'' = Some k \<and> vm_type k = ''ed25519'' \<and> vm_public_key k = pk
     \<and> keyActiveAt demoMainnet (Some k) ''2026-01-01T00:00:00.000Z'' \<and> notRevokedAt demoMainnet (Some k) (Some ''2026-01-01T00:00:00.000Z'')
     \<and> activeKey demoMainnet ''2026-01-01T00:00:00.000Z'' (Some (demoDocument pk)) = Some k"
  by (simp add: findVerificationMethod_def demoDocument_def keyActiveAt_def notRevokedAt_def activeKey_def demoMainnet_facts(4))

lemma demoSigned_event [simp]: "ev_timestamp (demoSigned s) = ''2026-01-01T00:00:00.000Z''" "ev_signing_key_id (demoSigned s) = ''tsl:alice#key-1''"
  by (simp_all add: demoSigned_def EventCommitmentUnsignedV1.defs EventCommitmentV1.defs demoEvent_def)

lemma demo_log_evidence:
  "\<exists>pk s p cp. deriveEd25519PublicKey demoMainnet demoSeed = Inr pk \<and> logEvidence (demoDeps demoMainnet (demoDocument pk)) (demoSigned s) p cp"
proof -
  let ?E = demoMainnet
  have len: "length (replicate 32 0x77 :: bytes) = 32" by simp
  note signs = seed_signs_domainHash [OF demoMainnet_hyps(1) demoMainnet_facts(1,2) len]
  obtain h where h: "eventHash ?E (EventCommitmentUnsignedV1_obj demoEvent) = Inr h" using eventHash_total by blast
  then obtain pk s where s: "deriveEd25519PublicKey ?E demoSeed = Inr pk" "signEd25519 ?E (DText h) demoSeed = Inr s" "verifyEd25519 ?E pk (DText h) s = Inr True"
    using signs unfolding eventHash_def by blast
  have hs: "eventHash ?E (EventCommitmentV1_obj (demoSigned s)) = Inr h" using h by (simp add: event.hash_ignores_signature)
  obtain b where "hexToBytes ?E s = Inr b" using s(2) hexToBytes_bytesToHex [OF demoMainnet_hyps(1)] by (auto simp: signEd25519_def bindE_eq_Inr)
  then obtain c where c: "commitmentHash ?E (demoSigned s) = Inr c" using commitmentHash_total [OF demoMainnet_hyps(1), of "demoSigned s"] by auto
  have "\<exists>b. hexToBytes ?E c = Inr b" using c hexToBytes_hashDomain [OF demoMainnet_hyps(1)] by (auto simp: commitmentHash_def commitmentHashFromParts_def bindE_eq_Inr)
  then obtain leaf where leaf: "hashLeaf ?E 0 c = Inr leaf" by (auto simp: hashLeaf_def uint64be_def)
  let ?cp = "(demoCheckpoint 0 ZERO_HASH)\<lparr>bc_event_root := leaf\<rparr>"
  have "\<exists>ch. checkpointHash ?E ?cp = Inr ch" by (simp add: checkpointHash_total checkpointNumbersSafe_def demoCheckpoint_def isSafeInteger_def)
  then obtain ch where ch: "checkpointHash ?E ?cp = Inr ch" ..
  then obtain pk' z where z: "deriveEd25519PublicKey ?E demoSeed = Inr pk'" "verifyEd25519 ?E pk' (DText ch) z = Inr True"
    using signs unfolding checkpointHash_eq by blast
  have chz: "checkpointHashForPolicy ?E (?cp\<lparr>bc_relay_signature := z\<rparr>) = Inr ch"
    using signCheckpoint_hash [OF ch] demoMainnet_facts(6) by (simp add: checkpointHashForPolicy_def unsafeFlags_def)
  let ?p = "demoProofOf c leaf ch"
  have incl: "verifyInclusion ?E ?p = Inr True" using leaf by (simp add: verifyInclusion_def demoProofOf_def)
  obtain k where k: "findVerificationMethod (demoDocument pk) ''tsl:alice#key-1'' = Some k" "vm_type k = ''ed25519''" "vm_public_key k = pk"
     "keyActiveAt ?E (Some k) ''2026-01-01T00:00:00.000Z''" "notRevokedAt ?E (Some k) (Some ''2026-01-01T00:00:00.000Z'')"
     "activeKey ?E ''2026-01-01T00:00:00.000Z'' (Some (demoDocument pk)) = Some k" using demoDocument_key by blast
  have "logEvidence (demoDeps ?E (demoDocument pk)) (demoSigned s) ?p (?cp\<lparr>bc_relay_signature := z\<rparr>)"
    unfolding logEvidence_def Let_def using hs s z c chz incl k
    by (simp add: demoDeps_def demoMainnet_facts(3) demoProofOf_def demoSettledResult_def) (simp add: demoCheckpoint_def)
  then show ?thesis using s(1) by blast
qed

lemma demo_log_input: "\<exists>d ev p cp. logEvidence (demoDeps demoMainnet d) ev p cp"
  using demo_log_evidence by blast

section \<open>Properties\<close>





text \<open>
  C5: Under a policy that requires settlement, a positive verdict means that the checkpoint of the input is settled: either some evidence in the input names its hash and the hash of its contract
  fields, reports a successful transaction and passes the offline verification, which under the default policy accepts only proofs of receipts and no RPC
  attestation, or the configured settlement backend reports this checkpoint as settled.
\<close>

theorem verifyTSL_settled:
  assumes v: "verifyTSL D input policy = Inr r" "vr_verified r" "inp = fst (expandProofBundleInput input)"
    and po: "po_require_settlement policy = Some True"
  shows "\<exists>cp. vi_checkpoint inp = Some cp \<and>
     ((\<exists>e h fieldsHash. e \<in> set (orElse (vi_settlement_evidence inp) []) \<and> checkpointHashForPolicy (vd_env D) cp = Inr h
         \<and> contractCheckpointFieldsHashForCheckpoint (vd_env D) (vd_eth D) cp = Inr fieldsHash
         \<and> se_checkpoint_identity_hash e = h \<and> se_contract_checkpoint_fields_hash e = fieldsHash \<and> se_receipt_status e = Some ''success''
         \<and> verifyOfflineSettlementEvidence (vd_env D) (vd_eth D) (vd_rlp D) e cp h fieldsHash (Some (withStrictDefaults policy)) = None
         \<and> (po_reject_rpc_attested_settlement_for_mainnet policy \<noteq> Some False \<longrightarrow> se_evidence_kind e = ''offline_receipt_log_proof''))
      \<or> (\<exists>b sr. vd_backend D = Some b \<and> sb_verifyCheckpointSettlement b cp = Inr sr \<and> svr_settled sr))"
proof -
  obtain c s t where run: "runContext D inp policy c" "runSections sections c s = Inr t" "verdict (withStrictDefaults policy) inp t"
     "\<not> ck_checkpoint_settled (vs_checks s)" using verifyTSL_run [OF v] by blast
  note vd = verdict_core [OF run(3)]
  have on: "isOn (po_require_settlement (withStrictDefaults policy))" using po by (simp add: isOn_def withStrictDefaults_def)
  obtain cp where cp: "vi_checkpoint (vc_input c) = Some cp" "settledByEvidence c cp \<or> settledByBackend c cp"
    using run_settled [OF run(2) vd(5) vd(8) [OF on] run(4)] by blast
  have kind: "se_evidence_kind e = ''offline_receipt_log_proof''"
    if "verifyOfflineSettlementEvidence E X R e cp h f (Some (withStrictDefaults policy)) = None" "po_reject_rpc_attested_settlement_for_mainnet policy \<noteq> Some False"
    for E X R e h f
    using that by (cases "po_reject_rpc_attested_settlement_for_mainnet policy")
      (auto simp: verifyOfflineSettlementEvidence_def withStrictDefaults_def split: if_split_asm)
  show ?thesis
  proof (cases "settledByBackend c cp")
    case True
    then show ?thesis using cp(1) run(1) by (auto simp: settledByBackend_def runContext_def)
  next
    case False
    then obtain h f e where e: "checkpointHashForPolicy (vc_env c) cp = Inr h" "contractCheckpointFieldsHashForCheckpoint (vc_env c) (vc_eth c) cp = Inr f"
       "e \<in> set (orElse (vi_settlement_evidence (vc_input c)) [])" "evidenceError (vc_env c) (vc_eth c) (vc_rlp c) (vc_policy c) cp h f e = Inr None"
      using cp(2) by (auto simp: settledByEvidence_def)
    then show ?thesis using cp(1) run(1) evidenceError_None [OF e(4)] kind by (auto simp: runContext_def)
  qed
qed

theorem verifyTSL_settled_witness:
  "\<exists>d input r cp. verifyTSL (demoDeps demoMainnet d) input logPolicy = Inr r \<and> vr_verified r \<and> vi_checkpoint input = Some cp"
proof -
  obtain d ev p cp where ok: "logEvidence (demoDeps demoMainnet d) ev p cp" using demo_log_input by blast
  have "vd_env (demoDeps demoMainnet d) = demoMainnet" by (simp add: demoDeps_def)
  then obtain r where v: "verifyTSL (demoDeps demoMainnet d) (logInput ev p cp) logPolicy = Inr r" "vr_verified r"
    using log_accepted [OF ok] demoMainnet_facts(6) by auto
  have po: "po_require_inclusion logPolicy = Some True" "po_require_checkpoint logPolicy = Some True" "po_require_settlement logPolicy = Some True"
    "po_reject_unsafe_fixtures_on_mainnet logPolicy \<noteq> Some False" by (simp_all add: logPolicy_def)
  have "\<exists>cp'. vi_checkpoint (logInput ev p cp) = Some cp'"
    using verifyTSL_settled [OF v refl po(3)] unfolding expand_graphLogInput fst_conv by blast
  then show ?thesis using v by blast
qed

text \<open>
  C25: On mainnet, unless the caller switches the check off, a positive verdict implies that none of the environment flags for unsafe fixtures is set, so a checkpoint in the
  input is identified by its full hash and a key of its relay signed that hash.
\<close>

theorem verifyTSL_mainnet:
  assumes v: "verifyTSL D input policy = Inr r" "vr_verified r" "inp = fst (expandProofBundleInput input)"
    and net: "onMainnet (vd_env D)" "po_reject_unsafe_fixtures_on_mainnet policy \<noteq> Some False"
  shows "(\<forall>flag \<in> set unsafeFlags. \<not> envFlag (vd_env D) flag)
     \<and> (\<forall>cp. vi_checkpoint inp = Some cp \<longrightarrow> (\<exists>h d key. checkpointHash (vd_env D) cp = Inr h
          \<and> vd_resolver D (bc_relay_id cp) (Some (ev_timestamp (vi_envelope inp))) = Inr (Some d) \<and> key \<in> set (idd_verification_methods d)
          \<and> keyActiveAt (vd_env D) (Some key) (ev_timestamp (vi_envelope inp)) \<and> verifyEd25519 (vd_env D) (vm_public_key key) (DText h) (bc_relay_signature cp) = Inr True))"
proof -
  obtain c s t where run: "runContext D inp policy c" "runSections sections c s = Inr t" "verdict (withStrictDefaults policy) inp t"
     "vs_errors (startState (vd_env D) (withStrictDefaults policy) inp (snd (expandProofBundleInput input))) = []" using verifyTSL_run [OF v] by blast
  have on: "isOn (po_reject_unsafe_fixtures_on_mainnet (withStrictDefaults policy))"
    using net(2) by (cases "po_reject_unsafe_fixtures_on_mainnet policy") (auto simp: isOn_def withStrictDefaults_def)
  have flags: "\<forall>flag \<in> set unsafeFlags. \<not> envFlag (vd_env D) flag"
    using run(4) net(1) on by (auto simp: startState_def Let_def filter_empty_conv)
  then have "\<not> envFlag (vd_env D) ''ALLOW_LEGACY_CHECKPOINT_HASH_V0''" "\<not> envFlag (vd_env D) ''ALLOW_UNSAFE_CHECKPOINT_SIGNATURE_FIXTURES''"
    by (simp_all add: unsafeFlags_def)
  moreover have "checkpointAccepted c cp" if "vi_checkpoint inp = Some cp" for cp
    using run_checkpoint [OF run(2) verdict_core(5) [OF run(3)]] run(1) that by (simp add: runContext_def)
  ultimately show ?thesis using flags run(1)
    by (fastforce simp: checkpointAccepted_def runContext_def unsafeFixtureSignatureAllowed_def checkpointHashForPolicy_def Let_def)
qed

theorem verifyTSL_mainnet_witness:
  "\<exists>d input r. verifyTSL (demoDeps demoMainnet d) input logPolicy = Inr r \<and> vr_verified r \<and> (\<forall>flag \<in> set unsafeFlags. \<not> envFlag demoMainnet flag)"
proof -
  obtain d ev p cp where ok: "logEvidence (demoDeps demoMainnet d) ev p cp" using demo_log_input by blast
  have "vd_env (demoDeps demoMainnet d) = demoMainnet" by (simp add: demoDeps_def)
  then obtain r where v: "verifyTSL (demoDeps demoMainnet d) (logInput ev p cp) logPolicy = Inr r" "vr_verified r"
    using log_accepted [OF ok] demoMainnet_facts(6) by auto
  have po: "po_require_inclusion logPolicy = Some True" "po_require_checkpoint logPolicy = Some True" "po_require_settlement logPolicy = Some True"
    "po_reject_unsafe_fixtures_on_mainnet logPolicy \<noteq> Some False" by (simp_all add: logPolicy_def)
  have E: "vd_env (demoDeps demoMainnet d) = demoMainnet" by (simp add: demoDeps_def)
  then have net: "onMainnet (vd_env (demoDeps demoMainnet d))" using demoMainnet_facts(5) by simp
  from verifyTSL_mainnet [OF v refl net po(4)] v show ?thesis unfolding E by blast
qed



text \<open>
  The remaining requirements of a policy are enforced. In an accepted input every required zero-knowledge claim has a proof about the sender that verifies under the options
  of the policy; a required scope is covered by a delegation to the sender that verifies for that scope; a required consistency proof verifies and ends at the
  checkpoint; a required non-membership proof is about the sender and verifies; and a disclosed message opens the content commitment of the event, with a
  consent of the sender to disclose message and salt, unless the policy waives consents.
\<close>

theorem verifyTSL_policy_enforced:
  assumes v: "verifyTSL D input policy = Inr r" "vr_verified r" "inp = fst (expandProofBundleInput input)"
  shows "(\<forall>claim \<in> set (orElse (po_require_zk_claims policy) []). \<exists>p \<in> set (orElse (vi_zk_proofs inp) []). zk_claim p = claim \<and> zk_subject p = ev_sender (vi_envelope inp)
        \<and> (\<exists>opts. zo_reject_dev_circuits opts = Some (orElse (po_reject_dev_zk_circuits policy) True) \<and> verifyThresholdProofAsync (vd_env D) (vd_groth16 D) p opts = Inr True))
     \<and> (\<forall>scope. po_require_agent_scope policy = Some scope \<and> scope \<noteq> [] \<longrightarrow> (\<exists>d \<in> set (orElse (vi_delegations inp) []).
          ad_agent d = ev_sender (vi_envelope inp) \<and> verifyAgentDelegation (vd_env D) d (vd_resolver D) (Some scope) (ev_timestamp (vi_envelope inp)) = Inr True))
     \<and> (po_require_consistency_proof policy = Some True \<longrightarrow> (\<exists>p \<in> set (orElse (vi_consistency_proofs inp) []). verifyConsistencyProof p
          \<and> (\<forall>cp. vi_checkpoint inp = Some cp \<longrightarrow> checkpointHashForPolicy (vd_env D) cp \<in> {Inr (cp_to_checkpoint p), Inr []})))
     \<and> (po_require_non_membership_proof policy = Some True \<longrightarrow> (\<exists>p \<in> set (orElse (vi_non_membership_proofs inp) []).
          nm_subject p = ev_sender (vi_envelope inp) \<and> verifyNonMembershipProof (vd_env D) p = Inr True))
     \<and> (\<forall>message. Option.bind (vi_message_disclosure inp) md_raw_message = Some message \<longrightarrow>
          (\<exists>salt. Option.bind (vi_message_disclosure inp) md_content_salt = Some salt
             \<and> contentCommitment (vd_env D) message salt = Inr (ev_content_commitment (vi_envelope inp))
             \<and> (po_require_disclosure_consent_for_private_fields policy \<noteq> Some False \<longrightarrow>
                  consentGiven (vd_env D) (vd_resolver D) inp (withStrictDefaults policy) [''raw_content'', ''content_salt''])))"
proof -
  obtain c s t where run: "runContext D inp policy c" "runSections sections c s = Inr t" "verdict (withStrictDefaults policy) inp t"
    using verifyTSL_run [OF v] by blast
  note vd = verdict_core [OF run(3)]
  have c: "vc_env c = vd_env D" "vc_groth16 c = vd_groth16 D" "vc_resolver c = vd_resolver D" "vc_input c = inp" "vc_policy c = withStrictDefaults policy"
    using run(1) by (simp_all add: runContext_def)
  have po: "po_require_zk_claims (vc_policy c) = po_require_zk_claims policy" "po_require_agent_scope (vc_policy c) = po_require_agent_scope policy"
    "po_require_consistency_proof (vc_policy c) = po_require_consistency_proof policy"
    "po_require_non_membership_proof (vc_policy c) = po_require_non_membership_proof policy" by (simp_all add: c withStrictDefaults_def)
  have zk: "zo_reject_dev_circuits (zkOptionsOf c) = Some (orElse (po_reject_dev_zk_circuits policy) True)"
    by (simp add: zkOptionsOf_def c(5) withStrictDefaults_def Let_def)
  have consent: "po_require_disclosure_consent_for_private_fields policy \<noteq> Some False \<Longrightarrow> consentRequired c"
    by (cases "po_require_disclosure_consent_for_private_fields policy") (auto simp: consentRequired_def c(5) withStrictDefaults_def)
  obtain z1 z2 where z: "zkSection c z1 = Inr z2" "vs_errors z2 = []" using run_member [OF run(2) vd(5), of zkSection] by (auto simp: sections_def)
  obtain a1 a2 where a: "agentScopeSection c a1 = Inr a2" "vs_errors a2 = []" using run_member [OF run(2) vd(5), of agentScopeSection] by (auto simp: sections_def)
  obtain k1 k2 where k: "consistencySection c k1 = Inr k2" "vs_errors k2 = []" using run_member [OF run(2) vd(5), of consistencySection] by (auto simp: sections_def)
  obtain n1 n2 where n: "nonMembershipSection c n1 = Inr n2" "vs_errors n2 = []" using run_member [OF run(2) vd(5), of nonMembershipSection] by (auto simp: sections_def)
  show ?thesis
    using zkSection_claim [OF z, unfolded po c(1-4)] zk agentScopeSection_scope [OF a, unfolded po c(1-4)] consistencySection_proof [OF k, unfolded po c(1-4)]
      nonMembershipSection_proof [OF n, unfolded po c(1-4)] run_message [OF run(2) vd(5) vd(9), unfolded c] consent
    unfolding isOn_def by blast
qed

theorem verifyTSL_policy_enforced_witness:
  "\<exists>d input r. verifyTSL (demoDeps demoMainnet d) input logPolicy = Inr r \<and> vr_verified r
     \<and> (\<forall>claim \<in> set (orElse (po_require_zk_claims logPolicy) []). \<exists>p \<in> set (orElse (vi_zk_proofs input) []). zk_claim p = claim)"
proof -
  obtain d ev p cp where ok: "logEvidence (demoDeps demoMainnet d) ev p cp" using demo_log_input by blast
  have "vd_env (demoDeps demoMainnet d) = demoMainnet" by (simp add: demoDeps_def)
  then obtain r where v: "verifyTSL (demoDeps demoMainnet d) (logInput ev p cp) logPolicy = Inr r" "vr_verified r"
    using log_accepted [OF ok] demoMainnet_facts(6) by auto
  have "\<forall>claim \<in> set (orElse (po_require_zk_claims logPolicy) []). \<exists>q \<in> set (orElse (vi_zk_proofs (logInput ev p cp)) []). zk_claim q = claim"
    using verifyTSL_policy_enforced [OF v refl] unfolding expand_graphLogInput fst_conv by blast
  then show ?thesis using v by blast
qed

end
