(* ===== verification/RelayStore.thy ===== *)
theory RelayStore
  imports Verifier Commitments
begin

text \<open>
  The in-memory relay (\<^verbatim>\<open>relayStore.ts\<close> of \<^verbatim>\<open>src/packages/core-ts/src\<close>; its checkpoint hashes are in \<open>Checkpoint\<close>).

  The state of \<^verbatim>\<open>InMemoryRelayStore\<close> is a record; its \<^verbatim>\<open>Map\<close>s are association lists in the order of insertion and its \<^verbatim>\<open>Set\<close> of nonces is a list.
  A method takes the store and returns the result with the new store, or the code of the error it throws; a method that throws
  has written nothing. The two methods that wait (\<^verbatim>\<open>acceptEvent\<close> for the verifier, \<^verbatim>\<open>submitCheckpoint\<close> for the backend) are split where they
  wait, into the part before and the part after, so that other calls can come in between.

  An epoch start is \<^verbatim>\<open>NaN\<close> for an object whose date does not parse, and for every object if the epochs have length 0: \<open>None\<close>.
\<close>

section \<open>State\<close>

record AcceptedEvent =
  ae_event :: EventCommitmentV1
  ae_commitment_hash :: string
  ae_relay_id :: string
  ae_shard :: string
  ae_epoch_start_ms :: "int option"
  ae_epoch_duration_ms :: int
  ae_log_index :: int
  ae_accepted_at :: string

record AcceptedLogObject =
  ao_commitment_hash :: string
  ao_shard :: string
  ao_epoch_start_ms :: "int option"
  ao_epoch_duration_ms :: int
  ao_log_index :: int
  ao_accepted_at :: string

text \<open>What the relay uses of a settlement backend, beside what the verifier uses.\<close>

record RelayBackend = SettlementBackend +
  sb_settlementBackendId :: "string option"
  sb_submitCheckpoint :: "BatchCheckpointV1 \<Rightarrow> BatchCheckpointV1 res"

record RelayStoreOptions =
  ro_relay_id :: "string option"
  ro_relay_signing_key_id :: "string option"
  ro_relay_signing_seed_hex :: "string option"
  ro_epoch_duration_ms :: "int option"
  ro_timestamp_window_ms :: "int option"
  ro_settlement_backend :: "RelayBackend option"

record InMemoryRelayStore =
  rs_resolver :: memoryResolver
  rs_relay_id :: string
  rs_relay_identity :: "IdentityDocumentV1 option"
  rs_epoch_duration_ms :: int
  rs_timestamp_window_ms :: int
  rs_settlement_backend :: "RelayBackend option"
  rs_relay_signing_seed_hex :: "string option"
  rs_events :: "(string \<times> AcceptedEvent) list"
  rs_receipts :: "(string \<times> AcceptedLogObject) list"
  rs_attestations :: "(string \<times> AcceptedLogObject) list"
  rs_revocations :: "(string \<times> AcceptedLogObject) list"
  rs_nonces :: "string list"
  rs_settledCheckpoints :: "(string \<times> BatchCheckpointV1) list"
  rs_closedSegments :: "(string \<times> string list) list"

definition newRelayStore :: "env \<Rightarrow> RelayStoreOptions \<Rightarrow> InMemoryRelayStore res" where
  "newRelayStore E options =
     (let relay_id = orElse (ro_relay_id options) ''did:tsl:relay:dev'' in
      bindE (if truthyStr (ro_relay_signing_seed_hex options)
             then bindE (buildIdentityFromSeed E relay_id (orElse (ro_relay_signing_key_id options) ''#relay-checkpoint'')
                           (the (ro_relay_signing_seed_hex options)) (Some ''2026-01-01T00:00:00Z'') None) (\<lambda>d. Inr (Some d))
             else Inr None) (\<lambda>identity.
        Inr \<lparr>rs_resolver = (case identity of Some d \<Rightarrow> upsertIdentity (newMemoryResolver []) d | None \<Rightarrow> newMemoryResolver []),
          rs_relay_id = relay_id, rs_relay_identity = identity, rs_epoch_duration_ms = orElse (ro_epoch_duration_ms options) 300000,
          rs_timestamp_window_ms = orElse (ro_timestamp_window_ms options) 600000, rs_settlement_backend = ro_settlement_backend options,
          rs_relay_signing_seed_hex = ro_relay_signing_seed_hex options, rs_events = [], rs_receipts = [], rs_attestations = [],
          rs_revocations = [], rs_nonces = [], rs_settledCheckpoints = [], rs_closedSegments = []\<rparr>))"

definition relayUpsertIdentity :: "env \<Rightarrow> InMemoryRelayStore \<Rightarrow> IdentityDocumentV1 \<Rightarrow> InMemoryRelayStore res" where
  "relayUpsertIdentity E S identity =
     (if sv_valid (validateSchema E ''identity'' (JObj (IdentityDocumentV1_obj identity)))
      then Inr (S\<lparr>rs_resolver := upsertIdentity (rs_resolver S) identity\<rparr>) else Inl ''TSL_SCHEMA_INVALID'')"

section \<open>Segments of the log\<close>

definition checkpointStoreKey :: "int option \<Rightarrow> string \<Rightarrow> string" where
  "checkpointStoreKey epoch shard = (case epoch of None \<Rightarrow> ''NaN'' | Some n \<Rightarrow> string_of_int n) @ '':'' @ shard"

text \<open>\<^verbatim>\<open>Math.floor(t / d) * d\<close>\<close>

definition epochStart :: "int option \<Rightarrow> int \<Rightarrow> int option" where
  "epochStart t d = (if d = 0 then None else map_option (\<lambda>n. n div d * d) t)"

text \<open>Strict equality of numbers: \<^verbatim>\<open>NaN\<close> differs from itself.\<close>

definition sameNumber :: "int option \<Rightarrow> int option \<Rightarrow> bool" where
  "sameNumber a b \<longleftrightarrow> a \<noteq> None \<and> a = b"

definition eventsFor :: "InMemoryRelayStore \<Rightarrow> int option \<Rightarrow> string \<Rightarrow> AcceptedEvent list" where
  "eventsFor S epoch shard =
     sort_key ae_log_index (filter (\<lambda>a. sameNumber (ae_epoch_start_ms a) epoch \<and> ae_shard a = shard) (map snd (rs_events S)))"

definition objectsFor :: "(string \<times> AcceptedLogObject) list \<Rightarrow> int option \<Rightarrow> string \<Rightarrow> AcceptedLogObject list" where
  "objectsFor store epoch shard =
     sort_key ao_log_index (filter (\<lambda>a. sameNumber (ao_epoch_start_ms a) epoch \<and> ao_shard a = shard) (map snd store))"

section \<open>Accepting events\<close>

definition nonceKey :: "EventCommitmentV1 \<Rightarrow> string" where
  "nonceKey event = ev_sender event @ '':'' @ ev_signing_key_id event @ '':'' @ ev_nonce event"

text \<open>The input and the policy of \<^verbatim>\<open>verifyTSL({ envelope: event }, this.resolver)\<close>.\<close>

definition envelopeInput :: "EventCommitmentV1 \<Rightarrow> VerifyTSLInput" where
  "envelopeInput ev =
     \<lparr>vi_proof_bundle = None, vi_envelope = ev, vi_proof = None, vi_receipt_proofs = None, vi_checkpoint = None, vi_receipts = None,
       vi_attestations = None, vi_attestations_v2 = None, vi_receipt_disputes = None, vi_revocations = None, vi_settlement_evidence = None,
       vi_assessment = None, vi_assessment_v2 = None, vi_scoring_profile = None, vi_domain_policy = None, vi_evidence_coverage = None,
       vi_feature_registry = None, vi_normalization_profile = None, vi_weight_profile = None, vi_calibration_profile = None,
       vi_confidence_profile = None, vi_provider_governance_status = None, vi_metadata_fingerprints = None, vi_graph_profile = None,
       vi_graph_feature_vector = None, vi_trusted_seeds = None, vi_adversarial_seeds = None, vi_trusted_seed_governance = None,
       vi_adversarial_seed_governance = None, vi_event_receivers = None, vi_sybil_assessment = None, vi_sybil_profile = None,
       vi_drift_report = None, vi_drift_feature_history = None, vi_drift_cohort_baseline_components = None, vi_zk_proofs = None,
       vi_zk_circuit_manifests = None, vi_zk_verification_key_registry = None, vi_delegations = None, vi_delegation_policies = None,
       vi_agent_actions = None, vi_audit_findings = None, vi_consistency_proofs = None, vi_non_membership_proofs = None,
       vi_governance_policy = None, vi_redaction_manifest = None, vi_message_disclosure = None, vi_disclosure_consents = None\<rparr>"

definition noPolicy :: VerifierPolicy where
  "noPolicy =
     \<lparr>po_require_inclusion = None, po_require_checkpoint = None, po_require_settlement = None, po_require_provider_registry = None,
       po_require_chain_revocation = None, po_require_zk_claims = None, po_require_consistency_proof = None,
       po_require_non_membership_proof = None, po_require_governance_policy = None, po_require_agent_scope = None,
       po_require_audit_consistency = None, po_accepted_scoring_profiles = None, po_required_domain_policy = None, po_require_v2_assessment = None,
       po_require_metadata_fingerprint_policy = None, po_require_graph_artifacts = None, po_require_registered_zk_circuit = None,
       po_require_sparse_merkle_revocation_root = None, po_require_research_graph_algorithm = None, po_require_provider_governance_active = None,
       po_production_scoring_required = None, po_require_sybil_provider_issuer = None, po_require_seed_governance_opening = None,
       po_require_full_covariance_drift = None, po_require_manifest_verification_key_hash = None, po_reject_dev_zk_circuits = None,
       po_reject_unsigned_local_proof_bundles = None, po_require_authorized_relay = None, po_authorized_relays = None,
       po_require_receipt_inclusion_for_disclosed_receipts = None, po_require_disclosure_consent_for_private_fields = None,
       po_require_profile_derived_scoring = None, po_require_behavioral_sybil_tiers = None, po_require_fixed_point_drift = None,
       po_require_four_root_checkpoint = None, po_require_exact_graph_formulas = None, po_require_core_drift_formula = None,
       po_require_profile_signed_scoring = None, po_require_offline_settlement_proof = None, po_reject_rpc_attested_settlement_for_mainnet = None,
       po_require_active_zk_manifest = None, po_require_zk_ceremony_evidence = None, po_min_settlement_confirmations = None,
       po_reject_unsafe_fixtures_on_mainnet = None, po_accepted_auditors = None, po_accepted_governance_policy = None,
       po_accepted_scoring_providers = None, po_verifier_or_provider = None, po_disclosure_purpose = None, po_revoked_disclosure_pointers = None,
       po_disclosure_checked_at = None, po_max_assessment_age_ms = None\<rparr>"

text \<open>Up to the call of the verifier, whose reads of the resolver happen in the same turn.\<close>

definition acceptEventStart :: "'g verifierDeps \<Rightarrow> InMemoryRelayStore \<Rightarrow> EventCommitmentV1 \<Rightarrow> (int \<times> VerificationResult) res" where
  "acceptEventStart D S event =
     (let E = vd_env D in
      if \<not> sv_valid (validateSchema E ''event'' (JObj (EventCommitmentV1_obj event))) then Inl ''TSL_SCHEMA_INVALID''
      else case dateParse E (ev_timestamp event) of
             None \<Rightarrow> Inl ''TSL_TIMESTAMP_INVALID''
           | Some eventTime \<Rightarrow>
               if \<bar>now_ms E - eventTime\<bar> > rs_timestamp_window_ms S then Inl ''TSL_TIMESTAMP_OUT_OF_WINDOW''
               else if nonceKey event \<in> set (rs_nonces S) then Inl ''TSL_NONCE_REPLAY''
               else bindE (verifyTSL (D\<lparr>vd_resolver := memoryResolverFn (rs_resolver S), vd_backend := None\<rparr>) (envelopeInput event) noPolicy)
                      (\<lambda>verification. Inr (eventTime, verification)))"

definition acceptEventFinish ::
    "env \<Rightarrow> InMemoryRelayStore \<Rightarrow> EventCommitmentV1 \<Rightarrow> int \<Rightarrow> VerificationResult \<Rightarrow> (AcceptedEvent \<times> InMemoryRelayStore) res" where
  "acceptEventFinish E S event eventTime verification =
     (if \<not> vr_verified verification \<or> \<not> truthyStr (vr_commitment_hash verification) then Inl ''TSL_SIGNATURE_INVALID''
      else let commitment = the (vr_commitment_hash verification); epoch = epochStart (Some eventTime) (rs_epoch_duration_ms S);
               shard = shardForTrustID E (ev_sender event) in
           if map_of (rs_closedSegments S) (checkpointStoreKey epoch shard) \<noteq> None then Inl ''TSL_LOG_SEGMENT_CLOSED''
           else bindE (nowIso E None) (\<lambda>accepted_at.
                let accepted = \<lparr>ae_event = event, ae_commitment_hash = commitment, ae_relay_id = rs_relay_id S, ae_shard = shard,
                      ae_epoch_start_ms = epoch, ae_epoch_duration_ms = rs_epoch_duration_ms S,
                      ae_log_index = int (length (eventsFor S epoch shard)), ae_accepted_at = accepted_at\<rparr>
                in Inr (accepted, S\<lparr>rs_nonces := List.insert (nonceKey event) (rs_nonces S),
                                    rs_events := mapSet (rs_events S) commitment accepted\<rparr>)))"

definition acceptEvent :: "'g verifierDeps \<Rightarrow> InMemoryRelayStore \<Rightarrow> EventCommitmentV1 \<Rightarrow> (AcceptedEvent \<times> InMemoryRelayStore) res" where
  "acceptEvent D S event =
     bindE (acceptEventStart D S event) (\<lambda>(eventTime, verification). acceptEventFinish (vd_env D) S event eventTime verification)"

section \<open>Accepting receipts, attestations and revocations\<close>

definition acceptLogObject ::
    "env \<Rightarrow> InMemoryRelayStore \<Rightarrow> (string \<times> AcceptedLogObject) list \<Rightarrow> string \<Rightarrow> int option \<Rightarrow> string \<Rightarrow> AcceptedLogObject res" where
  "acceptLogObject E S store commitment epoch shard =
     (if map_of (rs_closedSegments S) (checkpointStoreKey epoch shard) \<noteq> None then Inl ''TSL_LOG_SEGMENT_CLOSED''
      else bindE (nowIso E None) (\<lambda>accepted_at.
        Inr \<lparr>ao_commitment_hash = commitment, ao_shard = shard, ao_epoch_start_ms = epoch, ao_epoch_duration_ms = rs_epoch_duration_ms S,
          ao_log_index = int (length (objectsFor store epoch shard)), ao_accepted_at = accepted_at\<rparr>))"

definition acceptReceipt :: "env \<Rightarrow> InMemoryRelayStore \<Rightarrow> ReceiptCommitmentV1 \<Rightarrow> (AcceptedLogObject \<times> InMemoryRelayStore) res" where
  "acceptReceipt E S receipt =
     bindE (receiptHash E (ReceiptCommitmentV1_obj receipt)) (\<lambda>commitment.
     bindE (acceptLogObject E S (rs_receipts S) commitment (epochStart (dateParse E (rc_timestamp receipt)) (rs_epoch_duration_ms S))
              (shardForTrustID E (rc_receiver receipt))) (\<lambda>accepted.
       Inr (accepted, S\<lparr>rs_receipts := mapSet (rs_receipts S) commitment accepted\<rparr>)))"

definition acceptAttestation :: "env \<Rightarrow> InMemoryRelayStore \<Rightarrow> AttestationV1 \<Rightarrow> (AcceptedLogObject \<times> InMemoryRelayStore) res" where
  "acceptAttestation E S attestation =
     bindE (attestationHash E (AttestationV1_obj attestation)) (\<lambda>commitment.
     bindE (acceptLogObject E S (rs_attestations S) commitment (epochStart (dateParse E (att_issued_at attestation)) (rs_epoch_duration_ms S))
              (shardForTrustID E (att_issuer attestation))) (\<lambda>accepted.
       Inr (accepted, S\<lparr>rs_attestations := mapSet (rs_attestations S) commitment accepted\<rparr>)))"

definition acceptRevocation :: "env \<Rightarrow> InMemoryRelayStore \<Rightarrow> RevocationV1 \<Rightarrow> (AcceptedLogObject \<times> InMemoryRelayStore) res" where
  "acceptRevocation E S revocation =
     bindE (revocationHash E (RevocationV1_obj revocation)) (\<lambda>commitment.
     bindE (acceptLogObject E S (rs_revocations S) commitment (epochStart (dateParse E (rev_effective_at revocation)) (rs_epoch_duration_ms S))
              (shardForTrustID E (rev_trust_id revocation))) (\<lambda>accepted.
       Inr (accepted, S\<lparr>rs_revocations := mapSet (rs_revocations S) commitment accepted\<rparr>)))"

definition getAcceptedEvent :: "InMemoryRelayStore \<Rightarrow> string \<Rightarrow> AcceptedEvent option" where
  "getAcceptedEvent S commitment = map_of (rs_events S) commitment"

section \<open>Checkpoints\<close>

definition relayPreviousCheckpointHash :: "env \<Rightarrow> InMemoryRelayStore \<Rightarrow> int \<Rightarrow> string \<Rightarrow> string res" where
  "relayPreviousCheckpointHash E S epoch shard =
     (case sort_key (\<lambda>c. - bc_epoch_start_ms c)
             (filter (\<lambda>c. bc_shard c = shard \<and> bc_epoch_start_ms c < epoch) (map snd (rs_settledCheckpoints S))) of
        [] \<Rightarrow> Inr ZERO_HASH
      | previous # _ \<Rightarrow> checkpointHash E previous)"

definition pseudoRelaySignature :: "env \<Rightarrow> jsobj \<Rightarrow> string res" where
  "pseudoRelaySignature E input =
     bindE (canonicalize (JObj input)) (\<lambda>text.
       commitmentHash E \<lparr>ev_type = ''tsl.event_commitment.v1'', ev_event_class = ''attestation'', ev_sender = ''did:tsl:relay:dev'',
         ev_signing_key_id = ''#relay-pseudo'', ev_receiver_commitment = None,
         ev_content_commitment = hashDomain E ''tsl.relay.signature.payload.v1'' (DText text), ev_metadata_commitment = None,
         ev_previous_event_commitment = None, ev_timestamp = ''2026-05-25T00:00:00Z'', ev_nonce = ZERO_HASH, ev_disclosure_policy = ''public'',
         ev_signature = ''0x00''\<rparr>)"

text \<open>The checkpoint before its identity hash and signature.\<close>

definition openCheckpoint :: "env \<Rightarrow> InMemoryRelayStore \<Rightarrow> int \<Rightarrow> string \<Rightarrow> BatchCheckpointV1 res" where
  "openCheckpoint E S epoch shard =
     (let commitments = map ae_commitment_hash (eventsFor S (Some epoch) shard);
          receiptCommitments = map ao_commitment_hash (objectsFor (rs_receipts S) (Some epoch) shard);
          attestationCommitments = map ao_commitment_hash (objectsFor (rs_attestations S) (Some epoch) shard);
          revocationCommitments = map ao_commitment_hash (objectsFor (rs_revocations S) (Some epoch) shard) in
      bindE (buildMerkleTree E commitments) (\<lambda>eventTree.
      bindE (buildMerkleTree E receiptCommitments) (\<lambda>receiptTree.
      bindE (buildMerkleTree E attestationCommitments) (\<lambda>attestationTree.
      bindE (buildMerkleTree E revocationCommitments) (\<lambda>revocationTree.
      bindE (relayPreviousCheckpointHash E S epoch shard) (\<lambda>previous.
        Inr \<lparr>bc_type = ''tsl.batch_checkpoint.v1'', bc_epoch_start_ms = epoch, bc_epoch_duration_ms = rs_epoch_duration_ms S, bc_shard = shard,
          bc_event_root = mt_root eventTree, bc_receipt_root = mt_root receiptTree, bc_attestation_root = mt_root attestationTree,
          bc_revocation_root = mt_root revocationTree, bc_event_count = int (length commitments), bc_receipt_count = int (length receiptCommitments),
          bc_previous_checkpoint = previous, bc_checkpoint_identity_hash = None,
          bc_settlement_backend = ifTruthy (Option.bind (rs_settlement_backend S) sb_settlementBackendId),
          bc_settlement_tx = None, bc_relay_id = rs_relay_id S, bc_relay_signature = ''0x00''\<rparr>))))))"

definition relaySign :: "env \<Rightarrow> InMemoryRelayStore \<Rightarrow> BatchCheckpointV1 \<Rightarrow> BatchCheckpointV1 res" where
  "relaySign E S checkpoint =
     (if truthyStr (rs_relay_signing_seed_hex S) then signCheckpointWithSeed E checkpoint (the (rs_relay_signing_seed_hex S))
      else bindE (pseudoRelaySignature E [(''epoch_start_ms'', JNum (JInt (bc_epoch_start_ms checkpoint))), (''shard'', JStr (bc_shard checkpoint)),
                    (''event_root'', JStr (bc_event_root checkpoint))]) (\<lambda>s. Inr (checkpoint\<lparr>bc_relay_signature := s\<rparr>)))"

text \<open>For an epoch start that is \<^verbatim>\<open>NaN\<close> the roots are those of empty trees, and the hash of the checkpoint throws.\<close>

definition checkpointFor :: "env \<Rightarrow> InMemoryRelayStore \<Rightarrow> int option \<Rightarrow> string \<Rightarrow> BatchCheckpointV1 res" where
  "checkpointFor E S epoch shard =
     (case map_of (rs_settledCheckpoints S) (checkpointStoreKey epoch shard) of
        Some settled \<Rightarrow> Inr settled
      | None \<Rightarrow>
         (case epoch of
            None \<Rightarrow> Inl ''TSL canonicalization only allows safe integers in signed core objects''
          | Some n \<Rightarrow>
              bindE (openCheckpoint E S n shard) (\<lambda>checkpoint.
              bindE (checkpointHash E checkpoint) (\<lambda>h. relaySign E S (checkpoint\<lparr>bc_checkpoint_identity_hash := Some h\<rparr>)))))"

definition proofFor :: "env \<Rightarrow> InMemoryRelayStore \<Rightarrow> string \<Rightarrow> (InclusionProofV1 \<times> BatchCheckpointV1) option res" where
  "proofFor E S commitment =
     (case map_of (rs_events S) commitment of
        None \<Rightarrow> Inr None
      | Some accepted \<Rightarrow>
          let epoch = ae_epoch_start_ms accepted;
              commitments = orElse (map_of (rs_closedSegments S) (checkpointStoreKey epoch (ae_shard accepted)))
                              (map ae_commitment_hash (eventsFor S epoch (ae_shard accepted))) in
          bindE (checkpointFor E S epoch (ae_shard accepted)) (\<lambda>checkpoint.
          bindE (checkpointHash E checkpoint) (\<lambda>h.
          bindE (buildInclusionProof E \<lparr>ii_commitments = commitments, ii_leaf_index = ae_log_index accepted, ii_tree_kind = ''event'',
                   ii_epoch_start_ms = orElse epoch 0, ii_epoch_duration_ms = ae_epoch_duration_ms accepted, ii_shard = ae_shard accepted,
                   ii_checkpoint_hash = Some h\<rparr>) (\<lambda>proof. Inr (Some (proof, checkpoint))))))"

text \<open>\<^verbatim>\<open>submitCheckpoint\<close>: before and after the call of the backend.\<close>

definition submitCheckpointStart :: "env \<Rightarrow> InMemoryRelayStore \<Rightarrow> int \<Rightarrow> string \<Rightarrow> BatchCheckpointV1 res" where
  "submitCheckpointStart E S epoch shard =
     (case rs_settlement_backend S of
        None \<Rightarrow> Inl ''TSL_SETTLEMENT_BACKEND_MISSING''
      | Some B \<Rightarrow> bindE (checkpointFor E S (Some epoch) shard) (sb_submitCheckpoint B))"

definition submitCheckpointFinish ::
    "env \<Rightarrow> InMemoryRelayStore \<Rightarrow> int \<Rightarrow> string \<Rightarrow> BatchCheckpointV1 \<Rightarrow> (BatchCheckpointV1 \<times> InMemoryRelayStore) res" where
  "submitCheckpointFinish E S epoch shard settled =
     (let segmentKey = checkpointStoreKey (Some epoch) shard in
      bindE (case map_of (rs_settledCheckpoints S) segmentKey of
               None \<Rightarrow> Inr False
             | Some existing \<Rightarrow> bindE (checkpointHash E existing) (\<lambda>h. bindE (checkpointHash E settled) (\<lambda>h'. Inr (h \<noteq> h')))) (\<lambda>conflict.
        if conflict then Inl ''TSL_CHECKPOINT_CONFLICT''
        else Inr (settled, S\<lparr>
          rs_closedSegments := mapSet (rs_closedSegments S) segmentKey (map ae_commitment_hash (eventsFor S (Some epoch) shard)),
          rs_settledCheckpoints := mapSet (rs_settledCheckpoints S) segmentKey settled\<rparr>)))"

definition submitCheckpoint :: "env \<Rightarrow> InMemoryRelayStore \<Rightarrow> int \<Rightarrow> string \<Rightarrow> (BatchCheckpointV1 \<times> InMemoryRelayStore) res" where
  "submitCheckpoint E S epoch shard =
     bindE (submitCheckpointStart E S epoch shard) (submitCheckpointFinish E S epoch shard)"

definition relayIdentities :: "InMemoryRelayStore \<Rightarrow> IdentityDocumentV1 list" where
  "relayIdentities S = (case rs_relay_identity S of Some d \<Rightarrow> [d] | None \<Rightarrow> [])"

end
