(* ===== verification/RelayRun.thy ===== *)
theory RelayRun
  imports RelayStore "HOL-Library.Sublist"
begin

text \<open>
  Runs of the relay of \<open>RelayStore\<close>: the invariant of its store, the append-only log it implements, and the proofs it hands out.
\<close>

section \<open>Independence of the clock\<close>

named_theorems clock_free

abbreviation envAt :: "env \<Rightarrow> int \<Rightarrow> env" where
  "envAt E t \<equiv> E\<lparr>now_ms := t\<rparr>"

lemma hashDomain_clock [clock_free]: "hashDomain (envAt E t) tag d = hashDomain E tag d" "hexToBytes (envAt E t) s = hexToBytes E s"
  by (simp_all add: hashDomain_def sha256Hex_def sha256Bytes_def bytesToHex_def hexToBytes_def)

lemma domainHash_clock [clock_free]: "domainHash (envAt E t) tag x = domainHash E tag x"
  by (simp add: domainHash_def clock_free)

lemma hashes_clock [clock_free]:
  "commitmentHash (envAt E t) ev = commitmentHash E ev" "checkpointHash (envAt E t) c = checkpointHash E c"
  "hashLeaf (envAt E t) i c' = hashLeaf E i c'" "hashNode (envAt E t) l r = hashNode E l r" "shardForTrustID (envAt E t) s = shardForTrustID E s"
  by (simp_all add: commitmentHash_def eventHash_def commitmentHashFromParts_def checkpointHash_def hashLeaf_def hashNode_def shardForTrustID_def
      sha256Hex_def sha256Bytes_def bytesToHex_def clock_free)

lemma signEd25519_clock [clock_free]: "signEd25519 (envAt E t) d seed = signEd25519 E d seed"
  by (simp add: signEd25519_def messageBytes_def bytesToHex_def clock_free split: data.split)

lemma dateParse_clock [clock_free]: "dateParse (envAt E t) s = dateParse E s"
  by (simp add: dateParse_def split: option.split)

lemma nextLevel_clock [clock_free]: "nextLevel (envAt E t) xs = nextLevel E xs"
  by (induction E xs rule: nextLevel.induct) (simp_all add: clock_free)

lemma levelsFrom_clock [clock_free]: "levelsFrom (envAt E t) xs = levelsFrom E xs"
proof (induction E xs rule: levelsFrom.induct)
  case (1 E xs)
  show ?case
    by (subst levelsFrom.simps, subst (2) levelsFrom.simps) (auto simp: clock_free 1 split: sum.split)
qed

lemma buildMerkleTree_clock [clock_free]: "buildMerkleTree (envAt E t) cs = buildMerkleTree E cs"
  by (simp add: buildMerkleTree_def clock_free case_prod_unfold)

lemma buildInclusionProof_clock [clock_free]: "buildInclusionProof (envAt E t) inp = buildInclusionProof E inp"
  by (simp add: buildInclusionProof_def clock_free)

lemma climbPath_clock [clock_free]: "climbPath (envAt E t) path h = climbPath E path h"
  by (induction E path h rule: climbPath.induct) (auto simp: clock_free intro!: arg_cong2 [where f = bindE])

lemma verifyInclusion_clock [clock_free]: "verifyInclusion (envAt E t) p = verifyInclusion E p"
  by (simp add: verifyInclusion_def clock_free cong: if_cong)

section \<open>Segments\<close>

lemma sort_key_snoc:
  assumes "\<forall>x \<in> set xs. f x \<le> f a"
  shows "sort_key f (xs @ [a]) = sort_key f xs @ [a]"
proof (rule properties_for_sort_key)
  have stable: "filter (\<lambda>x. f k = f x) (sort_key f xs) = filter (\<lambda>x. f k = f x) xs" for k
    using sort_key_stable [of f "f k" xs] by (simp add: eq_commute)
  show "filter (\<lambda>x. f k = f x) (sort_key f xs @ [a]) = filter (\<lambda>x. f k = f x) (xs @ [a])" for k by (simp add: stable)
qed (use assms in \<open>auto simp: sorted_append\<close>)

lemma checkpointStoreKey_inject: "checkpointStoreKey (Some e) s = checkpointStoreKey (Some e') s' \<longleftrightarrow> e = e' \<and> s = s'"
proof -
  have "delimited ('':'' @ s)" for s by (simp add: delimited_Cons isDigit_def)
  then show ?thesis using string_of_int_unique [of e "'':'' @ s" e' "'':'' @ s'"] by (auto simp: checkpointStoreKey_def)
qed

section \<open>The contract of a settlement service\<close>

text \<open>A backend returns the checkpoint it was given with the transaction: what is hashed, the relay's signature and a right identity hash stay.\<close>

definition keepsCheckpoint :: "env \<Rightarrow> (BatchCheckpointV1 \<Rightarrow> BatchCheckpointV1 res) \<Rightarrow> bool" where
  "keepsCheckpoint E submit \<longleftrightarrow> (\<forall>c c'. submit c = Inr c' \<longrightarrow> hashedPart c' = hashedPart c \<and> bc_relay_signature c' = bc_relay_signature c
     \<and> (\<forall>h. checkpointHash E c = Inr h \<and> bc_checkpoint_identity_hash c = Some h \<longrightarrow> bc_checkpoint_identity_hash c' = Some h))"

locale settlement_service =
  fixes E :: env and submit :: "BatchCheckpointV1 \<Rightarrow> BatchCheckpointV1 res"
  assumes keeps: "submit c = Inr c' \<Longrightarrow> hashedPart c' = hashedPart c"
    and keeps_signature: "submit c = Inr c' \<Longrightarrow> bc_relay_signature c' = bc_relay_signature c"
    and keeps_identity: "submit c = Inr c' \<Longrightarrow> checkpointHash E c = Inr h \<Longrightarrow> bc_checkpoint_identity_hash c = Some h \<Longrightarrow>
      bc_checkpoint_identity_hash c' = Some h"
begin

lemma keeps_hash: "submit c = Inr c' \<Longrightarrow> checkpointHash E c' = checkpointHash E c"
  by (metis keeps checkpointHash_hashedPart)

lemma keeps_segment:
  assumes "submit c = Inr c'"
  shows "bc_epoch_start_ms c' = bc_epoch_start_ms c" "bc_shard c' = bc_shard c" "bc_event_root c' = bc_event_root c"
    "bc_event_count c' = bc_event_count c" "bc_epoch_duration_ms c' = bc_epoch_duration_ms c" "bc_relay_id c' = bc_relay_id c"
  using arg_cong [OF keeps [OF assms], of bc_relay_id] arg_cong [OF keeps [OF assms], of bc_epoch_start_ms] arg_cong [OF keeps [OF assms], of bc_shard] arg_cong [OF keeps [OF assms], of bc_event_root]
    arg_cong [OF keeps [OF assms], of bc_event_count] arg_cong [OF keeps [OF assms], of bc_epoch_duration_ms]
  by (simp_all add: hashedPart_def)

end

lemma keepsCheckpoint_service: "keepsCheckpoint E submit \<longleftrightarrow> settlement_service E submit"
  by (auto simp: keepsCheckpoint_def settlement_service_def)

interpretation evm: settlement_service E "evmSubmitCheckpoint E X ch B"
proof
  fix c c' h assume "evmSubmitCheckpoint E X ch B c = Inr c'" "checkpointHash E c = Inr h"
  then show "bc_checkpoint_identity_hash c' = Some h" by (auto simp: evmSubmitCheckpoint_def bindE_eq_Inr Let_def split: if_split_asm)
qed (fact evmSubmitCheckpoint_Inr(2) evmSubmitCheckpoint_Inr(4))+

lemma keepsCheckpoint_clock [clock_free]: "keepsCheckpoint (envAt E t) submit \<longleftrightarrow> keepsCheckpoint E submit"
  by (simp add: keepsCheckpoint_def clock_free)

section \<open>Steps and runs\<close>

abbreviation depsAt :: "'g verifierDeps \<Rightarrow> int \<Rightarrow> 'g verifierDeps" where
  "depsAt D t \<equiv> D\<lparr>vd_env := envAt (vd_env D) t\<rparr>"

text \<open>A step is a call that returns, at some time of the clock; the list holds the event it accepts, if any.\<close>

inductive relayStep :: "'g verifierDeps \<Rightarrow> InMemoryRelayStore \<Rightarrow> EventCommitmentV1 list \<Rightarrow> InMemoryRelayStore \<Rightarrow> bool" for D where
  event: "acceptEvent (depsAt D t) S ev = Inr (a, T) \<Longrightarrow> relayStep D S [ev] T"
| identity: "relayUpsertIdentity (envAt (vd_env D) t) S d = Inr T \<Longrightarrow> relayStep D S [] T"
| receipt: "acceptReceipt (envAt (vd_env D) t) S rc = Inr (b, T) \<Longrightarrow> relayStep D S [] T"
| attestation: "acceptAttestation (envAt (vd_env D) t) S att = Inr (b, T) \<Longrightarrow> relayStep D S [] T"
| revocation: "acceptRevocation (envAt (vd_env D) t) S rvk = Inr (b, T) \<Longrightarrow> relayStep D S [] T"
| submit: "submitCheckpoint (envAt (vd_env D) t) S e s = Inr (c, T) \<Longrightarrow> relayStep D S [] T"

inductive relayRun :: "'g verifierDeps \<Rightarrow> InMemoryRelayStore \<Rightarrow> EventCommitmentV1 list \<Rightarrow> InMemoryRelayStore \<Rightarrow> bool" for D S where
  start: "relayRun D S [] S"
| more: "relayRun D S evs T \<Longrightarrow> relayStep D T new U \<Longrightarrow> relayRun D S (evs @ new) U"

inductive_cases relayStepE: "relayStep D S evs T"

section \<open>What the calls do\<close>

lemma expand_envelopeInput [simp]: "fst (expandProofBundleInput (envelopeInput ev)) = envelopeInput ev" "vi_envelope (envelopeInput ev) = ev"
  by (simp_all add: expandProofBundleInput_def envelopeInput_def)

lemma acceptEvent_Inr:
  assumes "acceptEvent D S ev = Inr (a, T)"
  shows "\<exists>k t accepted_at. commitmentHash (vd_env D) ev = Inr k \<and> dateParse (vd_env D) (ev_timestamp ev) = Some t \<and> nonceKey ev \<notin> set (rs_nonces S)
     \<and> map_of (rs_closedSegments S) (checkpointStoreKey (epochStart (Some t) (rs_epoch_duration_ms S)) (shardForTrustID (vd_env D) (ev_sender ev))) = None
     \<and> a = \<lparr>ae_event = ev, ae_commitment_hash = k, ae_relay_id = rs_relay_id S, ae_shard = shardForTrustID (vd_env D) (ev_sender ev),
             ae_epoch_start_ms = epochStart (Some t) (rs_epoch_duration_ms S), ae_epoch_duration_ms = rs_epoch_duration_ms S,
             ae_log_index = int (length (eventsFor S (epochStart (Some t) (rs_epoch_duration_ms S)) (shardForTrustID (vd_env D) (ev_sender ev)))),
             ae_accepted_at = accepted_at\<rparr>
     \<and> T = S\<lparr>rs_nonces := List.insert (nonceKey ev) (rs_nonces S), rs_events := mapSet (rs_events S) k a\<rparr>"
proof -
  let ?D = "D\<lparr>vd_resolver := memoryResolverFn (rs_resolver S), vd_backend := None\<rparr>"
  obtain t v where st: "acceptEventStart D S ev = Inr (t, v)" and fin: "acceptEventFinish (vd_env D) S ev t v = Inr (a, T)"
    using assms by (auto simp: acceptEvent_def bindE_eq_Inr)
  have t: "dateParse (vd_env D) (ev_timestamp ev) = Some t" "nonceKey ev \<notin> set (rs_nonces S)" "verifyTSL ?D (envelopeInput ev) noPolicy = Inr v"
    using st by (auto simp: acceptEventStart_def Let_def bindE_eq_Inr split: if_split_asm option.split_asm)
  have v: "vr_verified v" using fin by (auto simp: acceptEventFinish_def split: if_split_asm)
  obtain c u where "verifiedRun ?D (envelopeInput ev) noPolicy v c u" using verifyTSL_verifiedRun [OF t(3) v] by blast
  then obtain k where k: "commitmentHash (vd_env D) ev = Inr k" "vr_commitment_hash v = Some k"
    by (auto simp: verifiedRun_def Let_def commitmentHash_def)
  show ?thesis
    using fin t(1,2) k v by (auto simp: acceptEventFinish_def Let_def bindE_eq_Inr split: if_split_asm)
qed

text \<open>The other calls, except \<^verbatim>\<open>submitCheckpoint\<close>, leave the log of events alone.\<close>

definition sameLog :: "InMemoryRelayStore \<Rightarrow> InMemoryRelayStore \<Rightarrow> bool" where
  "sameLog S T \<longleftrightarrow> rs_events T = rs_events S \<and> rs_nonces T = rs_nonces S \<and> rs_settledCheckpoints T = rs_settledCheckpoints S
     \<and> rs_closedSegments T = rs_closedSegments S \<and> rs_epoch_duration_ms T = rs_epoch_duration_ms S \<and> rs_settlement_backend T = rs_settlement_backend S
     \<and> rs_relay_id T = rs_relay_id S \<and> rs_relay_signing_seed_hex T = rs_relay_signing_seed_hex S"

lemma sameLog_calls:
  "relayUpsertIdentity E S d = Inr T \<Longrightarrow> sameLog S T" "acceptReceipt E S rc = Inr (b, T) \<Longrightarrow> sameLog S T"
  "acceptAttestation E S att = Inr (b, T) \<Longrightarrow> sameLog S T" "acceptRevocation E S rvk = Inr (b, T) \<Longrightarrow> sameLog S T"
  by (auto simp: sameLog_def relayUpsertIdentity_def acceptReceipt_def acceptAttestation_def acceptRevocation_def bindE_eq_Inr split: if_split_asm)

lemma relaySign_hashedPart: "relaySign E S c = Inr c' \<Longrightarrow> hashedPart c' = hashedPart c"
  by (auto simp: relaySign_def signCheckpointWithSeed_def bindE_eq_Inr hashedPart_def split: if_split_asm)

text \<open>What the relay promises of a checkpoint beside its roots: its own id, the identity hash and, if it has a key, its signature.\<close>

definition relayMade :: "env \<Rightarrow> InMemoryRelayStore \<Rightarrow> BatchCheckpointV1 \<Rightarrow> bool" where
  "relayMade E S c \<longleftrightarrow> bc_relay_id c = rs_relay_id S \<and> (\<exists>h. checkpointHash E c = Inr h \<and> bc_checkpoint_identity_hash c = Some h
     \<and> (\<forall>seed. rs_relay_signing_seed_hex S = Some seed \<and> seed \<noteq> [] \<longrightarrow> signEd25519 E (DText h) seed = Inr (bc_relay_signature c)))"

lemma relaySign_made:
  assumes "checkpointHash E c = Inr h" "bc_checkpoint_identity_hash c = Some h" "bc_relay_id c = rs_relay_id S" "relaySign E S c = Inr c'"
  shows "relayMade E S c'"
  using assms by (auto simp: relayMade_def relaySign_def signCheckpointWithSeed_def bindE_eq_Inr split: if_split_asm)

lemma relayMade_submit:
  assumes "settlement_service E submit" "submit c = Inr c'" "relayMade E S c"
  shows "relayMade E S c'"
  using assms(3) settlement_service.keeps_segment(6) [OF assms(1,2)] settlement_service.keeps_hash [OF assms(1,2)]
    settlement_service.keeps_signature [OF assms(1,2)] settlement_service.keeps_identity [OF assms(1,2)]
  by (auto simp: relayMade_def)

lemma checkpointFor_open:
  assumes "checkpointFor E S (Some e) s = Inr c" "map_of (rs_settledCheckpoints S) (checkpointStoreKey (Some e) s) = None"
  shows "\<exists>tree h. buildMerkleTree E (map ae_commitment_hash (eventsFor S (Some e) s)) = Inr tree \<and> bc_event_root c = mt_root tree
     \<and> bc_event_count c = int (length (eventsFor S (Some e) s)) \<and> bc_epoch_start_ms c = e \<and> bc_shard c = s
     \<and> bc_epoch_duration_ms c = rs_epoch_duration_ms S \<and> checkpointHash E c = Inr h \<and> relayMade E S c"
proof -
  obtain o' h where o': "openCheckpoint E S e s = Inr o'" "checkpointHash E o' = Inr h" "relaySign E S (o'\<lparr>bc_checkpoint_identity_hash := Some h\<rparr>) = Inr c"
    using assms by (auto simp: checkpointFor_def bindE_eq_Inr)
  have hp: "hashedPart c = hashedPart o'" using relaySign_hashedPart [OF o'(3)] by (simp add: hashedPart_def)
  have "checkpointHash E c = Inr h" using o'(2) hp by (metis checkpointHash_hashedPart)
  moreover have "bc_event_root c = bc_event_root o'" "bc_event_count c = bc_event_count o'" "bc_epoch_start_ms c = bc_epoch_start_ms o'"
    "bc_shard c = bc_shard o'" "bc_epoch_duration_ms c = bc_epoch_duration_ms o'"
    using hp by (cases c; cases o'; simp add: hashedPart_def)+
  moreover have "bc_relay_id o' = rs_relay_id S" using o'(1) by (auto simp: openCheckpoint_def Let_def bindE_eq_Inr)
  then have "relayMade E S c" using relaySign_made [OF _ _ _ o'(3)] o'(2) by simp
  ultimately show ?thesis using o'(1) by (auto simp: openCheckpoint_def Let_def bindE_eq_Inr)
qed

section \<open>The invariant of the store\<close>

definition eventOk :: "env \<Rightarrow> int \<Rightarrow> string \<Rightarrow> AcceptedEvent \<Rightarrow> bool" where
  "eventOk E d k a \<longleftrightarrow> ae_commitment_hash a = k \<and> commitmentHash E (ae_event a) = Inr k \<and> ae_shard a = shardForTrustID E (ev_sender (ae_event a))
     \<and> ae_epoch_start_ms a = epochStart (dateParse E (ev_timestamp (ae_event a))) d \<and> ae_epoch_duration_ms a = d"

text \<open>The log indexes of a segment are its positions.\<close>

definition indexed :: "AcceptedEvent list \<Rightarrow> bool" where
  "indexed as \<longleftrightarrow> map ae_log_index as = map int [0..<length as]"

definition settledOk :: "env \<Rightarrow> InMemoryRelayStore \<Rightarrow> int \<Rightarrow> string \<Rightarrow> string list \<Rightarrow> BatchCheckpointV1 \<Rightarrow> bool" where
  "settledOk E S e s cs c \<longleftrightarrow> cs = map ae_commitment_hash (eventsFor S (Some e) s) \<and> bc_epoch_start_ms c = e \<and> bc_shard c = s
     \<and> bc_epoch_duration_ms c = rs_epoch_duration_ms S \<and> bc_event_count c = int (length cs)
     \<and> (\<exists>tree h. buildMerkleTree E cs = Inr tree \<and> bc_event_root c = mt_root tree \<and> checkpointHash E c = Inr h) \<and> relayMade E S c"

definition relayInv :: "env \<Rightarrow> InMemoryRelayStore \<Rightarrow> bool" where
  "relayInv E S \<longleftrightarrow> distinct (map fst (rs_events S))
     \<and> (\<forall>(k, a) \<in> set (rs_events S). eventOk E (rs_epoch_duration_ms S) k a \<and> nonceKey (ae_event a) \<in> set (rs_nonces S))
     \<and> (\<forall>e s. indexed (eventsFor S (Some e) s))
     \<and> (\<forall>k. map_of (rs_settledCheckpoints S) k = None \<longleftrightarrow> map_of (rs_closedSegments S) k = None)
     \<and> (\<forall>k cs c. map_of (rs_closedSegments S) k = Some cs \<and> map_of (rs_settledCheckpoints S) k = Some c \<longrightarrow>
          (\<exists>e s. k = checkpointStoreKey (Some e) s \<and> settledOk E S e s cs c))"

lemma relayInv_closed:
  assumes "relayInv E S" "map_of (rs_closedSegments S) k = Some cs"
  shows "\<exists>e s c. k = checkpointStoreKey (Some e) s \<and> map_of (rs_settledCheckpoints S) k = Some c \<and> settledOk E S e s cs c"
proof -
  obtain c where "map_of (rs_settledCheckpoints S) k = Some c" using assms unfolding relayInv_def by (metis option.distinct(1) option.exhaust)
  then show ?thesis using assms unfolding relayInv_def by metis
qed

lemma eventsFor_cong: "rs_events T = rs_events S \<Longrightarrow> eventsFor T = eventsFor S"
  by (rule ext)+ (simp add: eventsFor_def)

lemma settledOk_cong: "eventsFor T (Some e) s = eventsFor S (Some e) s \<Longrightarrow> rs_epoch_duration_ms T = rs_epoch_duration_ms S \<Longrightarrow>
    rs_relay_id T = rs_relay_id S \<Longrightarrow> rs_relay_signing_seed_hex T = rs_relay_signing_seed_hex S \<Longrightarrow>
    settledOk E T e s cs c \<longleftrightarrow> settledOk E S e s cs c"
  by (simp add: settledOk_def relayMade_def)

lemma relayInv_clock [clock_free]: "relayInv (envAt E t) S \<longleftrightarrow> relayInv E S"
  by (simp add: relayInv_def settledOk_def relayMade_def eventOk_def clock_free)

lemma relayInv_sameLog: "relayInv E S \<Longrightarrow> sameLog S T \<Longrightarrow> relayInv E T"
  by (simp add: relayInv_def sameLog_def eventsFor_cong [of T S] settledOk_def relayMade_def)

lemma relayInv_new: "newRelayStore E options = Inr S \<Longrightarrow> relayInv E S"
  by (auto simp: newRelayStore_def Let_def bindE_eq_Inr relayInv_def eventsFor_def indexed_def split: if_split_asm)

lemma relayInv_indexes:
  assumes "relayInv E S" "a \<in> set (eventsFor S (Some e) s)"
  shows "ae_log_index a < int (length (eventsFor S (Some e) s))" "0 \<le> ae_log_index a"
    "eventsFor S (Some e) s ! nat (ae_log_index a) = a"
proof -
  let ?as = "eventsFor S (Some e) s"
  obtain i where i: "i < length ?as" "?as ! i = a" using assms(2) by (auto simp: in_set_conv_nth)
  have "map ae_log_index ?as ! i = map int [0..<length ?as] ! i" using assms(1) by (simp add: relayInv_def indexed_def)
  then have "ae_log_index a = int i" using i by simp
  then show "ae_log_index a < int (length ?as)" "0 \<le> ae_log_index a" "?as ! nat (ae_log_index a) = a" using i by simp_all
qed

subsection \<open>Accepting an event keeps it\<close>

text \<open>A new commitment is appended to its segment and to no other.\<close>

lemma eventsFor_append:
  assumes "relayInv E S" "k \<notin> fst ` set (rs_events S)" "rs_events T = mapSet (rs_events S) k a"
    and "ae_log_index a = int (length (eventsFor S (ae_epoch_start_ms a) (ae_shard a)))"
  shows "eventsFor T (Some e) s = (if ae_epoch_start_ms a = Some e \<and> ae_shard a = s then eventsFor S (Some e) s @ [a] else eventsFor S (Some e) s)"
proof (cases "ae_epoch_start_ms a = Some e \<and> ae_shard a = s")
  case True
  let ?in = "\<lambda>b. sameNumber (ae_epoch_start_ms b) (Some e) \<and> ae_shard b = s"
  let ?xs = "filter ?in (map snd (rs_events S))"
  have "\<forall>x \<in> set ?xs. ae_log_index x \<le> ae_log_index a"
  proof
    fix x assume "x \<in> set ?xs"
    then have "x \<in> set (eventsFor S (Some e) s)" by (simp add: eventsFor_def)
    then show "ae_log_index x \<le> ae_log_index a" using relayInv_indexes(1) [OF assms(1)] assms(4) True by fastforce
  qed
  then have "sort_key ae_log_index (?xs @ [a]) = sort_key ae_log_index ?xs @ [a]" by (rule sort_key_snoc)
  then show ?thesis using True by (simp add: eventsFor_def assms(3) mapSet_new [OF assms(2)] sameNumber_def)
next
  case False
  then show ?thesis by (auto simp: eventsFor_def assms(3) mapSet_new [OF assms(2)] sameNumber_def)
qed

lemma indexed_snoc: "indexed as \<Longrightarrow> ae_log_index a = int (length as) \<Longrightarrow> indexed (as @ [a])"
  by (simp add: indexed_def)

lemma relayInv_event:
  assumes inv: "relayInv (vd_env D) S" and acc: "acceptEvent D S ev = Inr (a, T)" and new: "ae_commitment_hash a \<notin> fst ` set (rs_events S)"
  shows "relayInv (vd_env D) T"
proof -
  obtain k t w where k: "commitmentHash (vd_env D) ev = Inr k" "dateParse (vd_env D) (ev_timestamp ev) = Some t"
    and open': "map_of (rs_closedSegments S) (checkpointStoreKey (ae_epoch_start_ms a) (ae_shard a)) = None"
    and a: "ae_event a = ev" "ae_commitment_hash a = k" "ae_shard a = shardForTrustID (vd_env D) (ev_sender ev)"
      "ae_epoch_start_ms a = epochStart (Some t) (rs_epoch_duration_ms S)" "ae_epoch_duration_ms a = rs_epoch_duration_ms S"
      "ae_log_index a = int (length (eventsFor S (ae_epoch_start_ms a) (ae_shard a)))"
    and T: "T = S\<lparr>rs_nonces := List.insert (nonceKey ev) (rs_nonces S), rs_events := mapSet (rs_events S) k a\<rparr>"
    using acceptEvent_Inr [OF acc] by (elim exE conjE) (rule that, assumption+, simp_all)
  have evs: "eventsFor T (Some e) s = (if ae_epoch_start_ms a = Some e \<and> ae_shard a = s then eventsFor S (Some e) s @ [a] else eventsFor S (Some e) s)" for e s
    using eventsFor_append [OF inv _ _ a(6), of k T e s] new a(2) T by simp
  have "eventOk (vd_env D) (rs_epoch_duration_ms S) k a" using a k by (simp add: eventOk_def)
  moreover have "indexed (eventsFor T (Some e) s)" for e s
    using inv indexed_snoc [of "eventsFor S (Some e) s" a] a(6) by (auto simp: evs relayInv_def)
  moreover have "\<exists>e s. key = checkpointStoreKey (Some e) s \<and> settledOk (vd_env D) T e s cs c"
    if cl: "map_of (rs_closedSegments S) key = Some cs" "map_of (rs_settledCheckpoints S) key = Some c" for key cs c
  proof -
    obtain e s where e: "key = checkpointStoreKey (Some e) s" "settledOk (vd_env D) S e s cs c" using relayInv_closed [OF inv cl(1)] cl(2) by auto
    then have "eventsFor T (Some e) s = eventsFor S (Some e) s" using cl(1) open' evs [of e s] by (auto split: if_split_asm)
    moreover have "rs_epoch_duration_ms T = rs_epoch_duration_ms S" "rs_relay_id T = rs_relay_id S"
      "rs_relay_signing_seed_hex T = rs_relay_signing_seed_hex S" by (simp_all add: T)
    ultimately show ?thesis using e settledOk_cong by blast
  qed
  ultimately show ?thesis
    using inv new a(1,2) unfolding relayInv_def by (intro conjI) (auto simp: T mapSet_new)
qed

subsection \<open>Submitting a checkpoint keeps it\<close>

text \<open>The checkpoint of a segment is one for the events in it, whether it is settled or not.\<close>

lemma checkpointFor_segment:
  assumes inv: "relayInv E S" and c: "checkpointFor E S (Some e) s = Inr c"
  shows "settledOk E S e s (map ae_commitment_hash (eventsFor S (Some e) s)) c
     \<and> orElse (map_of (rs_closedSegments S) (checkpointStoreKey (Some e) s)) (map ae_commitment_hash (eventsFor S (Some e) s))
         = map ae_commitment_hash (eventsFor S (Some e) s)"
proof (cases "map_of (rs_settledCheckpoints S) (checkpointStoreKey (Some e) s)")
  case None
  then have "map_of (rs_closedSegments S) (checkpointStoreKey (Some e) s) = None" using inv by (simp add: relayInv_def)
  then show ?thesis using checkpointFor_open [OF c None] by (auto simp: settledOk_def)
next
  case (Some old)
  then obtain cs where cs: "map_of (rs_closedSegments S) (checkpointStoreKey (Some e) s) = Some cs"
    using inv unfolding relayInv_def by (metis option.distinct(1) option.exhaust)
  moreover have "old = c" using c Some by (simp add: checkpointFor_def)
  ultimately obtain e' s' where "checkpointStoreKey (Some e) s = checkpointStoreKey (Some e') s'" "settledOk E S e' s' cs c"
    using relayInv_closed [OF inv cs] Some by auto
  then show ?thesis using cs by (auto simp: checkpointStoreKey_inject settledOk_def)
qed

lemma submitCheckpointStart_Inr:
  assumes "submitCheckpointStart E S e s = Inr c"
  shows "\<exists>b c'. rs_settlement_backend S = Some b \<and> checkpointFor E S (Some e) s = Inr c' \<and> sb_submitCheckpoint b c' = Inr c"
  using assms by (auto simp: submitCheckpointStart_def bindE_eq_Inr split: option.split_asm)

lemma submitCheckpointFinish_Inr:
  assumes "submitCheckpointFinish E S e s settled = Inr (c, T)"
  shows "c = settled" "T = S\<lparr>rs_closedSegments := mapSet (rs_closedSegments S) (checkpointStoreKey (Some e) s) (map ae_commitment_hash (eventsFor S (Some e) s)),
     rs_settledCheckpoints := mapSet (rs_settledCheckpoints S) (checkpointStoreKey (Some e) s) settled\<rparr>"
  using assms by (auto simp: submitCheckpointFinish_def Let_def bindE_eq_Inr split: if_split_asm)

lemma submitCheckpoint_Inr:
  assumes inv: "relayInv E S" and B: "\<forall>B. rs_settlement_backend S = Some B \<longrightarrow> keepsCheckpoint E (sb_submitCheckpoint B)"
    and sub: "submitCheckpoint E S e s = Inr (c, T)"
  shows "settledOk E S e s (map ae_commitment_hash (eventsFor S (Some e) s)) c
     \<and> T = S\<lparr>rs_closedSegments := mapSet (rs_closedSegments S) (checkpointStoreKey (Some e) s) (map ae_commitment_hash (eventsFor S (Some e) s)),
              rs_settledCheckpoints := mapSet (rs_settledCheckpoints S) (checkpointStoreKey (Some e) s) c\<rparr>"
proof -
  obtain x where x: "submitCheckpointStart E S e s = Inr x" "submitCheckpointFinish E S e s x = Inr (c, T)"
    using sub unfolding submitCheckpoint_def bindE_eq_Inr by blast
  note fin = submitCheckpointFinish_Inr [OF x(2)]
  obtain b c' where b: "rs_settlement_backend S = Some b" "checkpointFor E S (Some e) s = Inr c'" "sb_submitCheckpoint b c' = Inr c"
    using submitCheckpointStart_Inr [OF x(1)] fin(1) by blast
  then have sv: "settlement_service E (sb_submitCheckpoint b)" using B keepsCheckpoint_service by blast
  note keep = settlement_service.keeps_segment [OF sv b(3)] settlement_service.keeps_hash [OF sv b(3)]
  have "settledOk E S e s (map ae_commitment_hash (eventsFor S (Some e) s)) c'" using checkpointFor_segment [OF inv b(2)] by blast
  then have "settledOk E S e s (map ae_commitment_hash (eventsFor S (Some e) s)) c" using relayMade_submit [OF sv b(3)] by (simp add: settledOk_def keep)
  then show ?thesis using fin by blast
qed

lemma relayInv_submit:
  assumes inv: "relayInv E S" and B: "\<forall>B. rs_settlement_backend S = Some B \<longrightarrow> keepsCheckpoint E (sb_submitCheckpoint B)"
    and sub: "submitCheckpoint E S e s = Inr (c, T)"
  shows "relayInv E T"
proof -
  note T = submitCheckpoint_Inr [OF assms]
  have evs: "eventsFor T = eventsFor S" by (rule eventsFor_cong) (simp add: T)
  have dur: "rs_epoch_duration_ms T = rs_epoch_duration_ms S" "rs_relay_id T = rs_relay_id S" "rs_relay_signing_seed_hex T = rs_relay_signing_seed_hex S"
    by (simp_all add: T)
  have ok: "settledOk E T e' s' cs c' \<longleftrightarrow> settledOk E S e' s' cs c'" for e' s' cs c' by (simp add: settledOk_def relayMade_def evs dur)
  have "\<exists>e' s'. key = checkpointStoreKey (Some e') s' \<and> settledOk E T e' s' cs c'"
    if "map_of (rs_closedSegments T) key = Some cs" "map_of (rs_settledCheckpoints T) key = Some c'" for key cs c'
  proof (cases "key = checkpointStoreKey (Some e) s")
    case True
    then show ?thesis using that T ok by auto
  next
    case False
    then show ?thesis using that T ok relayInv_closed [OF inv] by fastforce
  qed
  then show ?thesis using inv unfolding relayInv_def evs by (intro conjI) (simp_all add: T)
qed

section \<open>Reachable stores\<close>

text \<open>Two events that differ in sender, key or nonce and have the same commitment.\<close>

definition commitmentClash :: "env \<Rightarrow> EventCommitmentV1 \<Rightarrow> EventCommitmentV1 \<Rightarrow> bool" where
  "commitmentClash E x y \<longleftrightarrow> nonceKey x \<noteq> nonceKey y \<and> (\<exists>k. commitmentHash E x = Inr k \<and> commitmentHash E y = Inr k)"

definition commitmentInputs :: "env \<Rightarrow> EventCommitmentV1 \<Rightarrow> bytes set" where
  "commitmentInputs E x = set (commitInputs E EVENT_V1 (unsignedPayload (EventCommitmentV1_obj x)) (ev_signature x))"

lemma nonceKey_truncate: "EventCommitmentUnsignedV1.truncate x = EventCommitmentUnsignedV1.truncate y \<Longrightarrow> nonceKey x = nonceKey y"
  by (cases x; cases y) (simp add: nonceKey_def EventCommitmentUnsignedV1.defs)

lemma commitmentClash_collision:
  assumes "hex_codec E" "sha256_length E" "commitmentClash E x y"
  shows "sha256_collision E (commitmentInputs E x) (commitmentInputs E y)"
proof -
  obtain k where k: "commitmentHash E x = Inr k" "commitmentHash E y = Inr k" "nonceKey x \<noteq> nonceKey y" using assms(3) by (auto simp: commitmentClash_def)
  then show ?thesis using event.commit_binding [OF assms(1,2) k(1,2)] nonceKey_truncate unfolding commitmentInputs_def event.payload_signed by blast
qed

lemma event_new:
  assumes "relayInv (vd_env D) S" "acceptEvent D S ev = Inr (a, T)" "ae_commitment_hash a \<in> fst ` set (rs_events S)"
  shows "\<exists>(k, b) \<in> set (rs_events S). commitmentClash (vd_env D) (ae_event b) ev"
proof -
  obtain k where k: "commitmentHash (vd_env D) ev = Inr k" "ae_commitment_hash a = k" "nonceKey ev \<notin> set (rs_nonces S)"
    using acceptEvent_Inr [OF assms(2)] by (elim exE conjE) (rule that, assumption, simp_all)
  then obtain b where "(k, b) \<in> set (rs_events S)" using assms(3) by auto
  moreover from this have "commitmentHash (vd_env D) (ae_event b) = Inr k" "nonceKey (ae_event b) \<in> set (rs_nonces S)"
    using assms(1) by (auto simp: relayInv_def eventOk_def)
  ultimately show ?thesis using k by (intro bexI [of _ "(k, b)"]) (auto simp: commitmentClash_def)
qed

text \<open>The backend of a store never changes, and every accepted event is one of the run.\<close>

definition fromRun :: "EventCommitmentV1 list \<Rightarrow> InMemoryRelayStore \<Rightarrow> bool" where
  "fromRun evs S \<longleftrightarrow> (\<forall>(k, a) \<in> set (rs_events S). ae_event a \<in> set evs)"

lemma mapSet_set: "set (mapSet m k v) \<subseteq> insert (k, v) (set m)"
  by (induction m) auto

lemma relayStep_backend: "relayStep D S evs T \<Longrightarrow> rs_settlement_backend T = rs_settlement_backend S"
  by (auto elim!: relayStepE dest!: acceptEvent_Inr sameLog_calls simp: sameLog_def)
    (auto simp: submitCheckpoint_def bindE_eq_Inr dest: submitCheckpointFinish_Inr)

lemma relayStep_events:
  assumes "relayStep D S evs T" "fromRun old S"
  shows "fromRun (old @ evs) T"
  using assms(1)
proof cases
  case (event t ev a)
  then show ?thesis using assms(2) mapSet_set by (fastforce simp: fromRun_def dest!: acceptEvent_Inr)
next
  case (submit t e s c)
  then show ?thesis using assms(2) by (auto simp: submitCheckpoint_def bindE_eq_Inr fromRun_def dest!: submitCheckpointFinish_Inr(2))
qed (use assms(2) sameLog_calls in \<open>(fastforce simp: sameLog_def fromRun_def)+\<close>)

lemma event_fresh:
  assumes inv: "relayInv (vd_env D) S" and acc: "acceptEvent (depsAt D t) S ev = Inr (a, T)" and old: "fromRun old S"
    and clash: "\<forall>x \<in> set (old @ [ev]). \<forall>y \<in> set (old @ [ev]). \<not> commitmentClash (vd_env D) x y"
  shows "ae_commitment_hash a \<notin> fst ` set (rs_events S)"
proof
  assume "ae_commitment_hash a \<in> fst ` set (rs_events S)"
  moreover have "relayInv (vd_env (depsAt D t)) S" using inv by (simp add: clock_free)
  ultimately obtain k b where "(k, b) \<in> set (rs_events S)" "commitmentClash (vd_env D) (ae_event b) ev"
    using event_new [OF _ acc] by (auto simp: commitmentClash_def clock_free)
  then show False using clash old by (fastforce simp: fromRun_def)
qed

lemma relayStep_inv:
  assumes inv: "relayInv (vd_env D) S" and B: "\<forall>B. rs_settlement_backend S = Some B \<longrightarrow> keepsCheckpoint (vd_env D) (sb_submitCheckpoint B)"
    and st: "relayStep D S evs T" and old: "fromRun old S"
    and clash: "\<forall>x \<in> set (old @ evs). \<forall>y \<in> set (old @ evs). \<not> commitmentClash (vd_env D) x y"
  shows "relayInv (vd_env D) T"
  using st
proof cases
  case (event t ev a)
  have inv': "relayInv (vd_env (depsAt D t)) S" using inv by (simp add: clock_free)
  have "ae_commitment_hash a \<notin> fst ` set (rs_events S)" using event_fresh [OF inv event(2) old] clash event(1) by simp
  then show ?thesis using relayInv_event [OF inv' event(2)] by (simp add: clock_free)
next
  case (submit t e s c)
  then show ?thesis using relayInv_submit [of "envAt (vd_env D) t" S e s c T] inv B by (simp add: clock_free)
qed (blast intro: relayInv_sameLog [OF inv] dest: sameLog_calls)+

lemma relayRun_inv:
  assumes new: "newRelayStore (vd_env D) options = Inr S0" and B: "\<forall>B. ro_settlement_backend options = Some B \<longrightarrow> keepsCheckpoint (vd_env D) (sb_submitCheckpoint B)"
    and run: "relayRun D S0 evs S" and clash: "\<forall>x \<in> set evs. \<forall>y \<in> set evs. \<not> commitmentClash (vd_env D) x y"
  shows "relayInv (vd_env D) S \<and> fromRun evs S \<and> rs_settlement_backend S = ro_settlement_backend options"
  using run clash
proof (induction rule: relayRun.induct)
  case start
  have "rs_events S0 = []" "rs_settlement_backend S0 = ro_settlement_backend options" using new by (auto simp: newRelayStore_def Let_def bindE_eq_Inr)
  then show ?case using relayInv_new [OF new] by (simp add: fromRun_def)
next
  case (more evs T new' U)
  then have IH: "relayInv (vd_env D) T" "fromRun evs T" "rs_settlement_backend T = ro_settlement_backend options" by auto
  then show ?case
    using relayStep_inv [OF IH(1) _ more.hyps(2) IH(2) more.prems] relayStep_events [OF more.hyps(2) IH(2)] relayStep_backend [OF more.hyps(2)] B by simp
qed

section \<open>The log that the relay implements\<close>

text \<open>
  The specification: a log of segments, one per epoch and shard. A commitment may be appended to a segment that is open, a segment may be closed, and
  nothing else happens.
\<close>

record relayLog =
  lg_entries :: "int \<times> string \<Rightarrow> string list"
  lg_closed :: "(int \<times> string) set"

definition logAppend :: "int \<times> string \<Rightarrow> string \<Rightarrow> relayLog \<Rightarrow> relayLog" where
  "logAppend g k L = L\<lparr>lg_entries := (lg_entries L)(g := lg_entries L g @ [k])\<rparr>"

definition logClose :: "int \<times> string \<Rightarrow> relayLog \<Rightarrow> relayLog" where
  "logClose g L = L\<lparr>lg_closed := insert g (lg_closed L)\<rparr>"

inductive logStep :: "relayLog \<Rightarrow> relayLog \<Rightarrow> bool" where
  append: "g \<notin> lg_closed L \<Longrightarrow> logStep L (logAppend g k L)"
| close: "logStep L (logClose g L)"
| skip: "logStep L L"

locale append_only_log =
  fixes step :: "'l \<Rightarrow> 'l \<Rightarrow> bool" and entries :: "'l \<Rightarrow> 'g \<Rightarrow> 'c list" and closed :: "'l \<Rightarrow> 'g set"
  assumes grows: "step L M \<Longrightarrow> prefix (entries L g) (entries M g)"
    and frozen: "step L M \<Longrightarrow> g \<in> closed L \<Longrightarrow> g \<in> closed M \<and> entries M g = entries L g"
begin

lemma run_grows: "step\<^sup>*\<^sup>* L M \<Longrightarrow> prefix (entries L g) (entries M g)"
  by (induction rule: rtranclp_induct) (auto intro: grows prefix_order.order_trans)

lemma run_frozen: "step\<^sup>*\<^sup>* L M \<Longrightarrow> g \<in> closed L \<Longrightarrow> g \<in> closed M \<and> entries M g = entries L g"
  by (induction rule: rtranclp_induct) (auto dest: frozen)

end

interpretation relay_log: append_only_log logStep lg_entries lg_closed
proof
  show "prefix (lg_entries L g) (lg_entries M g)" if "logStep L M" for L M g
    using that by cases (simp_all add: logAppend_def logClose_def)
  show "g \<in> lg_closed M \<and> lg_entries M g = lg_entries L g" if "logStep L M" "g \<in> lg_closed L" for L M g
    using that by cases (auto simp: logAppend_def logClose_def)
qed

text \<open>The abstraction, and the simulation of every step.\<close>

definition relayLogOf :: "InMemoryRelayStore \<Rightarrow> relayLog" where
  "relayLogOf S = \<lparr>lg_entries = (\<lambda>(e, s). map ae_commitment_hash (eventsFor S (Some e) s)),
     lg_closed = {(e, s). map_of (rs_closedSegments S) (checkpointStoreKey (Some e) s) \<noteq> None}\<rparr>"

lemma relayLogOf_sameLog: "sameLog S T \<Longrightarrow> relayLogOf T = relayLogOf S"
  by (simp add: relayLogOf_def sameLog_def eventsFor_cong [of T S])

lemma relayLogOf_event:
  assumes inv: "relayInv (vd_env D) S" and acc: "acceptEvent D S ev = Inr (a, T)" and new: "ae_commitment_hash a \<notin> fst ` set (rs_events S)"
  shows "relayLogOf T = (case ae_epoch_start_ms a of Some e \<Rightarrow> logAppend (e, ae_shard a) (ae_commitment_hash a) (relayLogOf S) | None \<Rightarrow> relayLogOf S)"
    and "ae_epoch_start_ms a = Some e \<Longrightarrow> (e, ae_shard a) \<notin> lg_closed (relayLogOf S)"
proof -
  obtain k t where a: "ae_commitment_hash a = k" "ae_log_index a = int (length (eventsFor S (ae_epoch_start_ms a) (ae_shard a)))"
    and open': "map_of (rs_closedSegments S) (checkpointStoreKey (ae_epoch_start_ms a) (ae_shard a)) = None"
    and T: "rs_events T = mapSet (rs_events S) k a" "rs_closedSegments T = rs_closedSegments S"
    using acceptEvent_Inr [OF acc] by (elim exE conjE) (rule that, simp_all)
  have evs: "eventsFor T (Some e) s = (if ae_epoch_start_ms a = Some e \<and> ae_shard a = s then eventsFor S (Some e) s @ [a] else eventsFor S (Some e) s)" for e s
    using eventsFor_append [OF inv _ T(1) a(2)] new a(1) by simp
  show "relayLogOf T = (case ae_epoch_start_ms a of Some e \<Rightarrow> logAppend (e, ae_shard a) (ae_commitment_hash a) (relayLogOf S) | None \<Rightarrow> relayLogOf S)"
    by (auto simp: relayLogOf_def evs T logAppend_def fun_eq_iff split: option.split)
  show "ae_epoch_start_ms a = Some e \<Longrightarrow> (e, ae_shard a) \<notin> lg_closed (relayLogOf S)"
    using open' by (simp add: relayLogOf_def)
qed

lemma relayLogOf_submit:
  assumes "submitCheckpoint E S e s = Inr (c, T)"
  shows "relayLogOf T = logClose (e, s) (relayLogOf S)"
proof -
  obtain x where x: "submitCheckpointFinish E S e s x = Inr (c, T)" using assms by (auto simp: submitCheckpoint_def bindE_eq_Inr)
  note T = submitCheckpointFinish_Inr(2) [OF x]
  have "eventsFor T = eventsFor S" by (rule eventsFor_cong) (simp add: T)
  then show ?thesis by (auto simp: relayLogOf_def logClose_def) (auto simp: T checkpointStoreKey_inject split: if_split_asm)
qed

lemma relayStep_logStep:
  assumes inv: "relayInv (vd_env D) S" and st: "relayStep D S evs T" and old: "fromRun old S"
    and clash: "\<forall>x \<in> set (old @ evs). \<forall>y \<in> set (old @ evs). \<not> commitmentClash (vd_env D) x y"
  shows "logStep (relayLogOf S) (relayLogOf T)"
  using st
proof cases
  case (event t ev a)
  have inv': "relayInv (vd_env (depsAt D t)) S" using inv by (simp add: clock_free)
  have new: "ae_commitment_hash a \<notin> fst ` set (rs_events S)" using event_fresh [OF inv event(2) old] clash event(1) by simp
  show ?thesis
    using relayLogOf_event [OF inv' event(2) new] logStep.intros by (cases "ae_epoch_start_ms a") auto
next
  case (submit t e s c)
  then show ?thesis using relayLogOf_submit logStep.close by metis
qed (metis logStep.skip relayLogOf_sameLog sameLog_calls)+

lemma relayRun_trans: "relayRun D T evs U \<Longrightarrow> relayRun D S old T \<Longrightarrow> relayRun D S (old @ evs) U"
  by (induction rule: relayRun.induct) (auto intro: relayRun.more simp flip: append_assoc)

lemma relayRun_logSteps:
  assumes new: "newRelayStore (vd_env D) options = Inr S0" and B: "\<forall>B. ro_settlement_backend options = Some B \<longrightarrow> keepsCheckpoint (vd_env D) (sb_submitCheckpoint B)"
    and run: "relayRun D S evs T" "relayRun D S0 old S"
    and clash: "\<forall>x \<in> set (old @ evs). \<forall>y \<in> set (old @ evs). \<not> commitmentClash (vd_env D) x y"
  shows "logStep\<^sup>*\<^sup>* (relayLogOf S) (relayLogOf T)"
  using run(1) clash
proof (induction rule: relayRun.induct)
  case (more evs T new' U)
  have r: "relayRun D S0 (old @ evs) T" using relayRun_trans [OF more.hyps(1) run(2)] .
  have nc: "\<forall>x \<in> set (old @ evs). \<forall>y \<in> set (old @ evs). \<not> commitmentClash (vd_env D) x y" using more.prems by auto
  have T: "relayInv (vd_env D) T" "fromRun (old @ evs) T" using relayRun_inv [OF new B r nc] by blast+
  then have "logStep (relayLogOf T) (relayLogOf U)" using relayStep_logStep [OF T(1) more.hyps(2) T(2)] more.prems by simp
  with more.IH [OF nc] show ?case by (rule rtranclp.rtrancl_into_rtrancl)
qed simp

section \<open>Proofs of inclusion\<close>

text \<open>A proof and a checkpoint for a commitment, as the verifier compares them.\<close>

definition provesEvent :: "env \<Rightarrow> string \<Rightarrow> InclusionProofV1 \<Rightarrow> BatchCheckpointV1 \<Rightarrow> bool" where
  "provesEvent E k p c \<longleftrightarrow> verifyInclusion E p = Inr True \<and> ip_tree_kind p = ''event'' \<and> ip_commitment p = k \<and> ip_root p = bc_event_root c
     \<and> ip_epoch_start_ms p = bc_epoch_start_ms c \<and> ip_epoch_duration_ms p = bc_epoch_duration_ms c \<and> ip_shard p = bc_shard c
     \<and> (\<exists>h. checkpointHash E c = Inr h \<and> ip_checkpoint_hash p = h)"

lemma checkpointStoreKey_NaN: "checkpointStoreKey None s \<noteq> checkpointStoreKey (Some e) s'"
proof
  assume "checkpointStoreKey None s = checkpointStoreKey (Some e) s'"
  then have "hd (string_of_int e @ '':'' @ s') = CHR ''N''" by (metis checkpointStoreKey_def append_Cons list.sel(1) option.simps(4,5))
  then show False using hd_string_of_nat [of "nat e"] string_of_nat_nonempty [of "nat e"] by (auto simp: string_of_int_def isDigit_def split: if_split_asm)
qed

lemma buildInclusionProof_fields:
  assumes "buildInclusionProof E inp = Inr p"
  shows "ip_tree_kind p = ii_tree_kind inp \<and> ip_epoch_start_ms p = ii_epoch_start_ms inp \<and> ip_epoch_duration_ms p = ii_epoch_duration_ms inp
     \<and> ip_shard p = ii_shard inp \<and> ip_checkpoint_hash p = orElse (ii_checkpoint_hash inp) ZERO_HASH"
  using assms by (auto simp: buildInclusionProof_def bindE_eq_Inr Let_def split: if_split_asm)

lemma commitmentHash_nonempty: "commitmentHash E ev = Inr k \<Longrightarrow> k \<noteq> []"
  by (auto simp: commitmentHash_def commitmentHashFromParts_def bindE_eq_Inr hashDomain_eq bytesToHex_def)

lemma relayInv_event_at:
  assumes inv: "relayInv E S" and a: "map_of (rs_events S) k = Some a" "ae_epoch_start_ms a = Some e"
  shows "a \<in> set (eventsFor S (Some e) (ae_shard a))" "ae_commitment_hash a = k" "k \<noteq> []" "ae_epoch_duration_ms a = rs_epoch_duration_ms S"
proof -
  have in': "(k, a) \<in> set (rs_events S)" using a(1) by (rule map_of_SomeD)
  then show "a \<in> set (eventsFor S (Some e) (ae_shard a))" using a(2) by (force simp: eventsFor_def sameNumber_def)
  have "eventOk E (rs_epoch_duration_ms S) k a" using inv in' by (auto simp: relayInv_def)
  then show "ae_commitment_hash a = k" "k \<noteq> []" "ae_epoch_duration_ms a = rs_epoch_duration_ms S" using commitmentHash_nonempty by (auto simp: eventOk_def)
qed

lemma segment_proof:
  assumes inv: "relayInv E S" and a: "map_of (rs_events S) k = Some a" "ae_epoch_start_ms a = Some e"
    and tree: "buildMerkleTree E (map ae_commitment_hash (eventsFor S (Some e) (ae_shard a))) = Inr tree"
    and inp: "ii_commitments inp = map ae_commitment_hash (eventsFor S (Some e) (ae_shard a))" "ii_leaf_index inp = ae_log_index a"
  shows "\<exists>p. buildInclusionProof E inp = Inr p \<and> verifyInclusion E p = Inr True \<and> ip_commitment p = k \<and> ip_root p = mt_root tree"
proof -
  note at' = relayInv_event_at [OF inv a] and ix = relayInv_indexes [OF inv relayInv_event_at(1) [OF inv a]]
  have "nat (ae_log_index a) < length (eventsFor S (Some e) (ae_shard a))" using ix(1,2) by (simp add: nat_less_iff)
  then show ?thesis using inclusion_complete [of E inp tree "nat (ae_log_index a)"] tree inp at' ix by auto
qed

lemma proofFor_proves:
  assumes inv: "relayInv E S" and a: "map_of (rs_events S) k = Some a" and r: "proofFor E S k = Inr r"
  shows "\<exists>p c. r = Some (p, c) \<and> provesEvent E k p c"
proof -
  let ?key = "checkpointStoreKey (ae_epoch_start_ms a) (ae_shard a)"
  let ?inp = "\<lambda>h. \<lparr>ii_commitments = orElse (map_of (rs_closedSegments S) ?key) (map ae_commitment_hash (eventsFor S (ae_epoch_start_ms a) (ae_shard a))),
       ii_leaf_index = ae_log_index a, ii_tree_kind = ''event'', ii_epoch_start_ms = orElse (ae_epoch_start_ms a) 0,
       ii_epoch_duration_ms = ae_epoch_duration_ms a, ii_shard = ae_shard a, ii_checkpoint_hash = Some h\<rparr>"
  obtain c h p where c: "checkpointFor E S (ae_epoch_start_ms a) (ae_shard a) = Inr c" "checkpointHash E c = Inr h" "r = Some (p, c)"
    and p: "buildInclusionProof E (?inp h) = Inr p"
    using r a by (auto simp: proofFor_def Let_def bindE_eq_Inr)
  obtain e where e: "ae_epoch_start_ms a = Some e"
  proof (cases "ae_epoch_start_ms a")
    case None
    then have "map_of (rs_settledCheckpoints S) ?key = Some c" using c(1) by (auto simp: checkpointFor_def split: option.split_asm)
    then show thesis using inv relayInv_closed [OF inv, of ?key] checkpointStoreKey_NaN None unfolding relayInv_def by (metis option.distinct(1) option.exhaust)
  qed
  have ok: "settledOk E S e (ae_shard a) (map ae_commitment_hash (eventsFor S (Some e) (ae_shard a))) c"
    and list: "orElse (map_of (rs_closedSegments S) ?key) (map ae_commitment_hash (eventsFor S (Some e) (ae_shard a))) = map ae_commitment_hash (eventsFor S (Some e) (ae_shard a))"
    using checkpointFor_segment [OF inv] c(1) e by auto
  then obtain tree where tree: "buildMerkleTree E (map ae_commitment_hash (eventsFor S (Some e) (ae_shard a))) = Inr tree" "bc_event_root c = mt_root tree"
    by (auto simp: settledOk_def)
  have "verifyInclusion E p = Inr True \<and> ip_commitment p = k \<and> ip_root p = mt_root tree"
    using segment_proof [OF inv a e tree(1), of "?inp h"] p e list by auto
  then have "provesEvent E k p c"
    using buildInclusionProof_fields [OF p] ok c(2) tree(2) e relayInv_event_at(4) [OF inv a e] by (simp add: provesEvent_def settledOk_def)
  then show ?thesis using c(3) by blast
qed

lemma proofFor_closed:
  assumes inv: "relayInv E S" and a: "map_of (rs_events S) k = Some a"
    and closed: "map_of (rs_closedSegments S) (checkpointStoreKey (ae_epoch_start_ms a) (ae_shard a)) = Some cs"
  shows "\<exists>p c. proofFor E S k = Inr (Some (p, c)) \<and> map_of (rs_settledCheckpoints S) (checkpointStoreKey (ae_epoch_start_ms a) (ae_shard a)) = Some c"
proof -
  let ?key = "checkpointStoreKey (ae_epoch_start_ms a) (ae_shard a)"
  obtain e s c where key: "?key = checkpointStoreKey (Some e) s" and c: "map_of (rs_settledCheckpoints S) ?key = Some c" "settledOk E S e s cs c"
    using relayInv_closed [OF inv closed] by blast
  have e: "ae_epoch_start_ms a = Some e" "ae_shard a = s"
    using key checkpointStoreKey_NaN checkpointStoreKey_inject by (cases "ae_epoch_start_ms a"; force)+
  obtain tree h where tree: "buildMerkleTree E cs = Inr tree" "checkpointHash E c = Inr h" "cs = map ae_commitment_hash (eventsFor S (Some e) s)"
    using c(2) by (auto simp: settledOk_def)
  have "checkpointFor E S (ae_epoch_start_ms a) (ae_shard a) = Inr c" using c(1) by (simp add: checkpointFor_def)
  moreover have "\<exists>p. buildInclusionProof E \<lparr>ii_commitments = cs, ii_leaf_index = ae_log_index a, ii_tree_kind = ''event'', ii_epoch_start_ms = e,
       ii_epoch_duration_ms = ae_epoch_duration_ms a, ii_shard = s, ii_checkpoint_hash = Some h\<rparr> = Inr p" (is "\<exists>p. buildInclusionProof E ?inp = Inr p")
    using segment_proof [OF inv a e(1), of tree ?inp] tree(1,3) e(2) by auto
  ultimately show ?thesis using a closed c(1) tree(2) e by (auto simp: proofFor_def)
qed

section \<open>An event that arrives while a checkpoint is submitted\<close>

text \<open>
  The checkpoint is computed before the backend is called, the segment is closed after it answered, with the events it has then. An event accepted in between
  is in the closed segment and not under the root of the checkpoint.
\<close>

lemma submit_race:
  assumes E: "hex_codec (vd_env D)" "sha256_length (vd_env D)" and inv: "relayInv (vd_env D) S"
    and seg: "eventsFor S (Some e) s \<noteq> []" "map_of (rs_settledCheckpoints S) (checkpointStoreKey (Some e) s) = None"
    and B: "\<forall>B. rs_settlement_backend S = Some B \<longrightarrow> keepsCheckpoint (vd_env D) (sb_submitCheckpoint B)"
    and start: "submitCheckpointStart (vd_env D) S e s = Inr c"
    and acc: "acceptEvent D S ev = Inr (a, T)" "ae_epoch_start_ms a = Some e" "ae_shard a = s" "ae_commitment_hash a \<notin> fst ` set (rs_events S)"
    and fin: "submitCheckpointFinish (vd_env D) T e s c = Inr (c', U)"
    and pf: "proofFor (vd_env D) U (ae_commitment_hash a) = Inr (Some (p, cp))"
  shows "cp = c \<and> verifyInclusion (vd_env D) p = Inr True
     \<and> map_of (rs_closedSegments U) (checkpointStoreKey (Some e) s) = Some (map ae_commitment_hash (eventsFor S (Some e) s) @ [ae_commitment_hash a])
     \<and> bc_event_count cp = int (length (eventsFor S (Some e) s))
     \<and> (ip_root p \<noteq> bc_event_root cp
        \<or> sha256_collision (vd_env D) (set (verifyInputs (vd_env D) p)) (set (treeInputs (vd_env D) (map ae_commitment_hash (eventsFor S (Some e) s)))))"
proof -
  let ?E = "vd_env D" let ?k = "ae_commitment_hash a" let ?cs = "map ae_commitment_hash (eventsFor S (Some e) s)" let ?key = "checkpointStoreKey (Some e) s"
  have invT: "relayInv ?E T" by (rule relayInv_event [OF inv acc(1,4)])
  obtain b c0 where b: "rs_settlement_backend S = Some b" "checkpointFor ?E S (Some e) s = Inr c0" "sb_submitCheckpoint b c0 = Inr c"
    using submitCheckpointStart_Inr [OF start] by blast
  have sv: "settlement_service (vd_env D) (sb_submitCheckpoint b)" using B b(1) keepsCheckpoint_service by blast
  obtain tree where tree: "buildMerkleTree ?E ?cs = Inr tree" "bc_event_root c = mt_root tree" "bc_event_count c = int (length ?cs)"
    using checkpointFor_open [OF b(2) seg(2)] settlement_service.keeps_segment [OF sv b(3)] by auto
  obtain k' where T: "rs_events T = mapSet (rs_events S) ?k a" "ae_log_index a = int (length (eventsFor S (ae_epoch_start_ms a) (ae_shard a)))"
    using acceptEvent_Inr [OF acc(1)] by (elim exE conjE) (rule that, simp_all)
  have evs: "eventsFor T (Some e) s = eventsFor S (Some e) s @ [a]" using eventsFor_append [OF inv acc(4) T] acc(2,3) by simp
  note U = submitCheckpointFinish_Inr [OF fin]
  have ev: "rs_events U = rs_events T" "map_of (rs_events U) ?k = Some a" using T by (simp_all add: U)
  have cl: "map_of (rs_closedSegments U) ?key = Some (?cs @ [?k])" "map_of (rs_settledCheckpoints U) ?key = Some c" by (simp_all add: U evs)
  obtain h where p: "cp = c" "buildInclusionProof ?E \<lparr>ii_commitments = ?cs @ [?k], ii_leaf_index = ae_log_index a, ii_tree_kind = ''event'', ii_epoch_start_ms = e,
       ii_epoch_duration_ms = ae_epoch_duration_ms a, ii_shard = s, ii_checkpoint_hash = Some h\<rparr> = Inr p" (is "buildInclusionProof ?E ?inp = _")
    using pf ev(2) cl acc(2,3) by (auto simp: proofFor_def Let_def bindE_eq_Inr checkpointFor_def)
  obtain tree' where tree': "buildMerkleTree ?E (map ae_commitment_hash (eventsFor T (Some e) (ae_shard a))) = Inr tree'"
    using p(2) by (auto simp: buildInclusionProof_def bindE_eq_Inr evs acc(3))
  have v: "verifyInclusion ?E p = Inr True" using segment_proof [OF invT _ acc(2) tree', of ?k ?inp] ev evs p(2) acc(3) by simp
  have "ip_leaf_index p = int (length ?cs)" using p(2) T(2) acc(2,3) by (auto simp: buildInclusionProof_def bindE_eq_Inr Let_def split: if_split_asm)
  then have "ip_root p \<noteq> bc_event_root c \<or> sha256_collision ?E (set (verifyInputs ?E p)) (set (treeInputs ?E ?cs))"
    using verifyInclusion_member [OF E tree(1) _ v] seg(1) tree(2) by fastforce
  then show ?thesis using p(1) v cl(1) tree(3) by simp
qed

section \<open>Concrete runs\<close>

text \<open>A verifier accepts a signed event without further evidence; this is the check of the relay.\<close>

lemma envelope_idle:
  assumes "vc_input c = envelopeInput ev" "vc_policy c = withStrictDefaults noPolicy"
  shows "chainRevocation c s = Inr s" "revocationSection c s = Inr s" "messageSection c s = Inr s" "receiptsSection c s = Inr s"
    "attestationsSection c s = Inr s" "attestationsV2Section c s = Inr s" "privateFieldsSection c s = Inr s" "assessmentSection c s = Inr s"
    "scoringSection c s = Inr s" "metadataSection c s = Inr s" "graphSection c s = Inr s" "zkSection c s = Inr s" "agentScopeSection c s = Inr s"
    "delegatedActionsSection c s = Inr s" "consistencySection c s = Inr s" "nonMembershipSection c s = Inr s" "governanceSection c s = Inr s"
    "auditSection c s = Inr s" "settlementEvidenceSection c s = Inr s" "finalGateSection c s = Inr s" "inclusionSection c s = Inr s"
    "checkpointSection c s = Inr s" "checkpointMatch c s = Inr s" "settlementBackendSection c s = Inr s"
  by (simp_all add: assms chainRevocation_def revocationSection_def messageSection_def receiptsSection_def attestationsSection_def attestationsV2Section_def
      privateFieldsSection_def assessmentSection_def scoringSection_def metadataSection_def graphSection_def zkSection_def agentScopeSection_def
      delegatedActionsSection_def consistencySection_def nonMembershipSection_def governanceSection_def auditSection_def settlementEvidenceSection_def
      finalGateSection_def inclusionSection_def checkpointSection_def checkpointMatch_def settlementBackendSection_def
      Let_def withStrictDefaults_def noPolicy_def isOn_def graphScoped_def privateMetadata_def privateGraph_def someList_def envelopeInput_def)

lemma envelope_run:
  assumes "vc_input c = envelopeInput ev" "vc_policy c = withStrictDefaults noPolicy"
  shows "runSections sections c s = bindE (keyExplanations c s) (finalErrors c)"
proof -
  have cons: "runSections (sec # secs) c = (\<lambda>s. bindE (sec c s) (runSections secs c))" for sec secs by (rule ext) (rule runSections_Cons)
  have nil: "bindE m (runSections [] c) = m" for m by (cases m) (simp_all add: runSections_def)
  show ?thesis unfolding sections_def by (simp only: cons nil envelope_idle [OF assms] bindE_simps)
qed

lemma envelope_accepted:
  assumes schema: "sv_valid (validateSchema (vd_env D) ''event'' (JObj (EventCommitmentV1_obj ev)))" and net: "\<not> onMainnet (vd_env D)"
    and h: "eventHash (vd_env D) (EventCommitmentV1_obj ev) = Inr h" "vd_resolver D (ev_sender ev) (Some (ev_timestamp ev)) = Inr (Some d)"
    and key: "findVerificationMethod d (ev_signing_key_id ev) = Some key" "vm_type key = ''ed25519''" "keyActiveAt (vd_env D) (Some key) (ev_timestamp ev)"
      "notRevokedAt (vd_env D) (Some key) (Some (ev_timestamp ev))" "verifyEd25519 (vd_env D) (vm_public_key key) (DText h) (ev_signature ev) = Inr True"
    and k: "commitmentHash (vd_env D) ev = Inr k"
  shows "\<exists>v. verifyTSL D (envelopeInput ev) noPolicy = Inr v \<and> vr_verified v \<and> vr_commitment_hash v = Some k"
proof -
  let ?E = "vd_env D" let ?po = "withStrictDefaults noPolicy" let ?inp = "envelopeInput ev"
  have c: "commitmentHashFromParts ?E h (ev_signature ev) = Inr k" using k h(1) by (simp add: commitmentHash_def)
  obtain l where l: "legacyCommitmentHashFromParts ?E h (ev_signature ev) = Inr l"
    using c by (auto simp: commitmentHashFromParts_def legacyCommitmentHashFromParts_def bindE_eq_Inr)
  let ?c = "contextOf D ?po ?inp h k l" let ?start = "startState ?E ?po ?inp []" let ?s = "onChecks (keyChecks ?E ev (Some key) True) ?start"
  have ex: "expandProofBundleInput ?inp = (?inp, [])" by (simp add: expandProofBundleInput_def envelopeInput_def)
  have red: "redactionManifestMatches ?inp" by (simp add: redactionManifestMatches_def restrictedAttestations_def someList_def envelopeInput_def)
  have e: "vs_errors ?s = []" using schema net red by (simp add: startState_def Let_def bundleErrors_def envelopeInput_def)
  have k': "vs_checks ?s = keyChecks ?E ev (Some key) True (vs_checks ?start)" by simp
  have "\<exists>t. runSections sections ?c ?s = Inr t \<and> vs_errors t = [] \<and> vs_checks t = vs_checks ?s"
    using e key by (simp add: envelope_run contextOf_def keyExplanations_def finalErrors_def Let_def keyChecks_def startState_checks defaultChecks_def
        withStrictDefaults_def noPolicy_def isOn_def)
  then obtain t where t: "runSections sections ?c ?s = Inr t" "vs_errors t = []" "vs_checks t = vs_checks ?s" by blast
  have "verdict ?po ?inp t"
    using t(2) t(3) [unfolded k'] schema key(3,4) red
    by (simp add: verdict_def Let_def startState_checks defaultChecks_def keyChecks_def withStrictDefaults_def noPolicy_def isOn_def)
  moreover have "edSigned ?E (Some key) (Inr h) (ev_signature ev) = Inr True" using key by (simp add: edSigned_True)
  ultimately show ?thesis using schema by (simp add: verifyTSL_def Let_def ex h key(1) c l t(1) startState_checks)
qed

end
