(* ===== verification/Relay.thy ===== *)
theory Relay
  imports RelayRun
begin

text \<open>
  The properties of the relay (\<^verbatim>\<open>relayStore.ts\<close>), with a concrete run of it.
\<close>

section \<open>A concrete relay\<close>

text \<open>
  An environment in which digests are the last 32 bytes of their input and signatures end with the key: the commitment of an event is then the key of its
  signer, so that the runs below can be computed.
\<close>

definition tailHash :: "bytes \<Rightarrow> bytes" where
  "tailHash b = drop (length b) (replicate 32 0 @ b)"

definition tailEnv :: env where
  "tailEnv = demoEnv\<lparr>sha256 := tailHash, edSign := (\<lambda>msg seed. Inr (msg @ seed)), edVerify := (\<lambda>sig msg pk. Inr (sig = msg @ pk))\<rparr>"

lemma tailHash_append: "length y = 32 \<Longrightarrow> tailHash (x @ y) = y"
  by (simp add: tailHash_def)

lemma length_tailHash: "length (tailHash b) = 32"
  by (simp only: tailHash_def length_drop length_append length_replicate)

lemma tail_hyps: "hex_codec tailEnv" "sha256_length tailEnv" "ed25519_correct tailEnv"
  using demo_hyps(1) by (simp_all add: tailEnv_def hex_codec_def sha256_length_def ed25519_correct_def length_tailHash demoEnv_def)

lemma tail_facts:
  "sv_valid (validateSchema tailEnv n v)" "now_ms tailEnv = 1767225600000" "\<not> onMainnet tailEnv" "sha256 tailEnv = tailHash"
  "dateParse tailEnv ''2026-01-01T00:00:00.000Z'' = Some 1767225600000" "dateParse tailEnv ''2026-01-01T00:00:00Z'' = Some 1767225600000"
  "nowIso tailEnv None = Inr (isoOf 1767225600000)"
proof -
  show "dateParse tailEnv ''2026-01-01T00:00:00.000Z'' = Some 1767225600000" "dateParse tailEnv ''2026-01-01T00:00:00Z'' = Some 1767225600000"
    using demo_event_date demo_dates(1) by (simp_all add: tailEnv_def dateParse_def split: option.split_asm option.split)
qed (simp_all add: tailEnv_def validateSchema_def demoEnv_def onMainnet_def nowIso_def toISOString_def)

text \<open>Two parties with a key each.\<close>

definition keyOf :: "bool \<Rightarrow> bytes" where
  "keyOf b = replicate 32 (if b then 0x77 else 0x88)"

definition seedOf :: "bool \<Rightarrow> string" where
  "seedOf b = ''0x'' @ replicate 64 (if b then CHR ''7'' else CHR ''8'')"

definition nameOf :: "bool \<Rightarrow> string" where
  "nameOf b = (if b then ''tsl:alice'' else ''tsl:bob'')"

definition tailDocument :: "bool \<Rightarrow> IdentityDocumentV1" where
  "tailDocument b = \<lparr>idd_type = ''tsl.identity.v1'', idd_id = nameOf b, idd_controller = ''self'', idd_created_at = ''2026-01-01T00:00:00.000Z'',
     idd_verification_methods = [\<lparr>vm_id = ''#key-1'', vm_type = ''ed25519'', vm_public_key = nobleBytesToHex tailEnv (keyOf b), vm_status = ''active'',
       vm_created_at = ''2026-01-01T00:00:00.000Z'', vm_expires_at = None, vm_revoked_at = None\<rparr>],
     idd_recovery = None, idd_privacy_policy_commitment = None\<rparr>"

definition tailUnsigned :: "bool \<Rightarrow> EventCommitmentUnsignedV1" where
  "tailUnsigned b = demoEvent\<lparr>ev_sender := nameOf b, ev_signing_key_id := ''#key-1''\<rparr>"

definition tailHashBytes :: "bool \<Rightarrow> bytes" where
  "tailHashBytes b = projr (hexToBytes tailEnv (projr (eventHash tailEnv (EventCommitmentUnsignedV1_obj (tailUnsigned b)))))"

definition tailEvent :: "bool \<Rightarrow> EventCommitmentV1" where
  "tailEvent b = EventCommitmentUnsignedV1.extend (tailUnsigned b) (EventCommitmentV1.fields (bytesToHex tailEnv (tailHashBytes b @ keyOf b)))"

lemma tailEvent_sel [simp]:
  "ev_sender (tailEvent b) = nameOf b" "ev_signing_key_id (tailEvent b) = ''#key-1''" "ev_timestamp (tailEvent b) = ''2026-01-01T00:00:00.000Z''"
  "ev_signature (tailEvent b) = bytesToHex tailEnv (tailHashBytes b @ keyOf b)" "EventCommitmentUnsignedV1.truncate (tailEvent b) = tailUnsigned b"
  by (simp_all add: tailEvent_def tailUnsigned_def EventCommitmentUnsignedV1.defs EventCommitmentV1.defs demoEvent_def)

lemma tailEvent_hash:
  "\<exists>h. eventHash tailEnv (EventCommitmentV1_obj (tailEvent b)) = Inr h \<and> hexToBytes tailEnv h = Inr (tailHashBytes b)"
proof -
  obtain h where h: "eventHash tailEnv (EventCommitmentUnsignedV1_obj (tailUnsigned b)) = Inr h" using eventHash_total by blast
  then obtain x where "hexToBytes tailEnv h = Inr x" using hexToBytes_hashDomain [OF tail_hyps(1)] by (auto simp: eventHash_def domainHash_Inr)
  then show ?thesis using h by (simp add: event.hash_ignores_signature tailHashBytes_def)
qed

lemma keyOf_length [simp]: "length (keyOf b) = 32"
  by (simp add: keyOf_def)

abbreviation tailCommitment :: "bool \<Rightarrow> string" where
  "tailCommitment b \<equiv> bytesToHex tailEnv (keyOf b)"

lemma tailEvent_commitment: "commitmentHash tailEnv (tailEvent b) = Inr (tailCommitment b)"
proof -
  obtain h where h: "eventHash tailEnv (EventCommitmentV1_obj (tailEvent b)) = Inr h" "hexToBytes tailEnv h = Inr (tailHashBytes b)"
    using tailEvent_hash by blast
  have "tailHash (domainInput COMMITMENT_V1 (tailHashBytes b @ tailHashBytes b @ keyOf b)) = keyOf b"
    using tailHash_append [of "keyOf b" "utf8 COMMITMENT_V1 @ [0] @ tailHashBytes b @ tailHashBytes b"] by (simp add: domainInput_def)
  then show ?thesis
    using h by (simp add: commitmentHash_def commitmentHashFromParts_def hexToBytes_bytesToHex [OF tail_hyps(1)] hashDomain_eq concatBytes_def encodeText_def
        tail_facts(4))
qed

lemma tailEvent_verifies:
  assumes "vd_env D = tailEnv" "vd_resolver D (nameOf b) (Some ''2026-01-01T00:00:00.000Z'') = Inr (Some (tailDocument b))"
  shows "\<exists>v. verifyTSL D (envelopeInput (tailEvent b)) noPolicy = Inr v \<and> vr_verified v \<and> vr_commitment_hash v = Some (tailCommitment b)"
proof -
  obtain h where h: "eventHash tailEnv (EventCommitmentV1_obj (tailEvent b)) = Inr h" "hexToBytes tailEnv h = Inr (tailHashBytes b)"
    using tailEvent_hash by blast
  have "verifyEd25519 tailEnv (nobleBytesToHex tailEnv (keyOf b)) (DText h) (ev_signature (tailEvent b)) = Inr True"
    by (simp add: verifyEd25519_def messageBytes_def h hexToBytes_bytesToHex [OF tail_hyps(1)]) (simp add: tailEnv_def)
  then show ?thesis
    using envelope_accepted [of D "tailEvent b" h "tailDocument b"] h(1) assms tailEvent_commitment [of b]
    by (simp add: tail_facts findVerificationMethod_def tailDocument_def keyActiveAt_def notRevokedAt_def)
qed

section \<open>A run of it\<close>

definition tailBackend :: RelayBackend where
  "tailBackend = \<lparr>sb_verifyCheckpointSettlement = (\<lambda>_. Inr demoSettledResult), sb_isKeyRevokedAt = None, sb_isProviderActive = None,
     sb_isModelRegistered = None, sb_settlementBackendId = Some ''eip155:1'', sb_submitCheckpoint = (\<lambda>c. Inr (c\<lparr>bc_settlement_tx := Some ''0x99''\<rparr>))\<rparr>"

definition tailOptions :: RelayStoreOptions where
  "tailOptions = \<lparr>ro_relay_id = None, ro_relay_signing_key_id = None, ro_relay_signing_seed_hex = Some (seedOf True), ro_epoch_duration_ms = None,
     ro_timestamp_window_ms = None, ro_settlement_backend = Some tailBackend\<rparr>"

abbreviation tailDeps :: "unit verifierDeps" where
  "tailDeps \<equiv> demoDeps tailEnv (tailDocument True)"

definition tailReady :: "InMemoryRelayStore \<Rightarrow> bool" where
  "tailReady S \<longleftrightarrow> (\<forall>b. memoryResolve (rs_resolver S) (nameOf b) = Some (tailDocument b)) \<and> rs_epoch_duration_ms S = 300000
     \<and> rs_timestamp_window_ms S = 600000 \<and> rs_settlement_backend S = Some tailBackend \<and> rs_relay_signing_seed_hex S = Some (seedOf True)
     \<and> rs_relay_id S = ''did:tsl:relay:dev'' \<and> rs_receipts S = [] \<and> rs_attestations S = [] \<and> rs_revocations S = []"

lemma tail_keeps: "keepsCheckpoint tailEnv (sb_submitCheckpoint tailBackend)"
  by (auto simp: keepsCheckpoint_def tailBackend_def hashedPart_def)

lemma seedOf_bytes: "hexToBytes tailEnv (seedOf True) = Inr (keyOf True)"
  using demoSeed_bytes by (simp add: seedOf_def keyOf_def demoSeed_def tailEnv_def hexToBytes_def)

lemma tail_start:
  "\<exists>S0 S. newRelayStore tailEnv tailOptions = Inr S0 \<and> relayRun tailDeps S0 [] S \<and> tailReady S \<and> rs_events S = [] \<and> rs_nonces S = []
     \<and> rs_closedSegments S = [] \<and> rs_settledCheckpoints S = []"
proof -
  have env: "envAt (vd_env tailDeps) 1767225600000 = tailEnv" by (simp add: demoDeps_def tailEnv_def demoEnv_def)
  have "\<exists>pk. deriveEd25519PublicKey tailEnv (seedOf True) = Inr pk" by (simp add: deriveEd25519PublicKey_def seedOf_bytes) (simp add: tailEnv_def demoEnv_def)
  then obtain d where d: "buildIdentityFromSeed tailEnv ''did:tsl:relay:dev'' ''#relay-checkpoint'' (seedOf True) (Some ''2026-01-01T00:00:00Z'') None = Inr d"
    by (auto simp: buildIdentityFromSeed_def nowIso_def)
  have "seedOf True \<noteq> []" by (simp add: seedOf_def)
  then obtain S0 where S0: "newRelayStore tailEnv tailOptions = Inr S0" "rs_epoch_duration_ms S0 = 300000"
     "rs_timestamp_window_ms S0 = 600000" "rs_settlement_backend S0 = Some tailBackend" "rs_relay_signing_seed_hex S0 = Some (seedOf True)"
     "rs_relay_id S0 = ''did:tsl:relay:dev''" "rs_receipts S0 = []" "rs_attestations S0 = []" "rs_revocations S0 = []"
     "rs_events S0 = []" "rs_nonces S0 = []" "rs_closedSegments S0 = []" "rs_settledCheckpoints S0 = []"
    using d by (simp add: newRelayStore_def tailOptions_def)
  define S1 where "S1 = S0\<lparr>rs_resolver := upsertIdentity (rs_resolver S0) (tailDocument True)\<rparr>"
  define S2 where "S2 = S1\<lparr>rs_resolver := upsertIdentity (rs_resolver S1) (tailDocument False)\<rparr>"
  have "relayStep tailDeps S0 [] S1" "relayStep tailDeps S1 [] S2"
    by (rule relayStep.identity [where t = 1767225600000 and d = "tailDocument True"], simp add: env relayUpsertIdentity_def tail_facts S1_def)
      (rule relayStep.identity [where t = 1767225600000 and d = "tailDocument False"], simp add: env relayUpsertIdentity_def tail_facts S2_def)
  then have "relayRun tailDeps S0 ([] @ [] @ []) S2" by (metis relayRun.start relayRun.more append_Nil)
  moreover have "tailReady S2"
    using S0 by (auto simp: tailReady_def S2_def S1_def memoryResolve_def upsertIdentity_def tailDocument_def nameOf_def)
  ultimately show ?thesis using S0 by (intro exI [of _ S0] exI [of _ S2]) (simp add: S2_def S1_def)
qed

lemma tail_shard: "shardForTrustID tailEnv (nameOf b) = ''0000''"
proof -
  have "shardForTrustID tailEnv ''tsl:alice'' = ''0000''" "shardForTrustID tailEnv ''tsl:bob'' = ''0000''" by code_simp+
  then show ?thesis by (simp add: nameOf_def)
qed

abbreviation tailEpoch :: int where
  "tailEpoch \<equiv> 1767225600000"

lemma tail_accept:
  assumes S: "tailReady S" and new: "nonceKey (tailEvent b) \<notin> set (rs_nonces S)"
    and open': "map_of (rs_closedSegments S) (checkpointStoreKey (Some tailEpoch) ''0000'') = None"
  shows "\<exists>a T. acceptEvent tailDeps S (tailEvent b) = Inr (a, T) \<and> ae_commitment_hash a = tailCommitment b \<and> ae_epoch_start_ms a = Some tailEpoch
     \<and> ae_shard a = ''0000'' \<and> ae_event a = tailEvent b \<and> T = S\<lparr>rs_nonces := List.insert (nonceKey (tailEvent b)) (rs_nonces S), rs_events := mapSet (rs_events S) (tailCommitment b) a\<rparr>"
proof -
  let ?D = "tailDeps\<lparr>vd_resolver := memoryResolverFn (rs_resolver S), vd_backend := None\<rparr>"
  have env: "vd_env tailDeps = tailEnv" by (simp add: demoDeps_def)
  obtain v where v: "verifyTSL ?D (envelopeInput (tailEvent b)) noPolicy = Inr v" "vr_verified v" "vr_commitment_hash v = Some (tailCommitment b)"
    using tailEvent_verifies [of ?D b] S by (auto simp: env memoryResolverFn_def tailReady_def)
  have st: "acceptEventStart tailDeps S (tailEvent b) = Inr (tailEpoch, v)"
    using S new v(1) by (simp add: acceptEventStart_def env tail_facts tailReady_def)
  have "tailCommitment b \<noteq> []" by (simp add: bytesToHex_def)
  then show ?thesis
    using S v(2,3) open' by (simp add: acceptEvent_def st acceptEventFinish_def env tail_shard epochStart_def tailReady_def tail_facts Let_def)
qed

lemma nonceKey_tail: "nonceKey (tailEvent True) \<noteq> nonceKey (tailEvent False)"
  by (simp add: nonceKey_def nameOf_def)

lemma tailDeps_at: "depsAt tailDeps tailEpoch = tailDeps" "vd_env tailDeps = tailEnv" "envAt tailEnv tailEpoch = tailEnv"
  by (simp_all add: demoDeps_def tailEnv_def demoEnv_def)

text \<open>The store after Alice's event.\<close>

definition tailFirst :: "InMemoryRelayStore \<Rightarrow> AcceptedEvent \<Rightarrow> bool" where
  "tailFirst S a \<longleftrightarrow> tailReady S \<and> rs_events S = [(tailCommitment True, a)] \<and> rs_nonces S = [nonceKey (tailEvent True)] \<and> rs_closedSegments S = []
     \<and> rs_settledCheckpoints S = [] \<and> ae_commitment_hash a = tailCommitment True \<and> ae_epoch_start_ms a = Some tailEpoch \<and> ae_shard a = ''0000''
     \<and> ae_event a = tailEvent True"

lemma tail_first: "\<exists>S0 S a. newRelayStore tailEnv tailOptions = Inr S0 \<and> relayRun tailDeps S0 [tailEvent True] S \<and> tailFirst S a"
proof -
  obtain S0 S where S: "newRelayStore tailEnv tailOptions = Inr S0" "relayRun tailDeps S0 [] S" "tailReady S" "rs_events S = []" "rs_nonces S = []"
     "rs_closedSegments S = []" "rs_settledCheckpoints S = []" using tail_start by blast
  obtain a T where T: "acceptEvent tailDeps S (tailEvent True) = Inr (a, T)" "ae_commitment_hash a = tailCommitment True" "ae_epoch_start_ms a = Some tailEpoch"
     "ae_shard a = ''0000''" "ae_event a = tailEvent True" "T = S\<lparr>rs_nonces := List.insert (nonceKey (tailEvent True)) (rs_nonces S), rs_events := mapSet (rs_events S) (tailCommitment True) a\<rparr>"
    using tail_accept [OF S(3)] S(5,6) by fastforce
  have "relayStep tailDeps S [tailEvent True] T" using T(1) by (intro relayStep.event [where t = tailEpoch and a = a]) (simp only: tailDeps_at(1))
  then have "relayRun tailDeps S0 ([] @ [tailEvent True]) T" using S(2) by (rule relayRun.more [rotated])
  then show ?thesis using S T by (intro exI [of _ S0] exI [of _ T] exI [of _ a]) (simp add: tailFirst_def tailReady_def)
qed

lemma tail_no_clash: "\<not> commitmentClash tailEnv x x"
  by (simp add: commitmentClash_def)

lemma tail_inv: "tailFirst S a \<Longrightarrow> newRelayStore tailEnv tailOptions = Inr S0 \<Longrightarrow> relayRun tailDeps S0 [tailEvent True] S \<Longrightarrow> relayInv tailEnv S"
  using relayRun_inv [of tailDeps tailOptions S0 "[tailEvent True]" S] tail_keeps tail_no_clash by (simp add: tailDeps_at(2) tailOptions_def)

lemma tail_segment: "tailFirst S a \<Longrightarrow> eventsFor S (Some tailEpoch) ''0000'' = [a]"
  by (simp add: tailFirst_def eventsFor_def sameNumber_def)

lemma tail_hex: "hexToBytes tailEnv (tailCommitment b) = Inr (keyOf b)"
  by (simp add: hexToBytes_bytesToHex [OF tail_hyps(1)])

lemma tail_submit:
  assumes "tailFirst S a"
  shows "\<exists>c. submitCheckpointStart tailEnv S tailEpoch ''0000'' = Inr c"
proof -
  have S: "tailReady S" "rs_settledCheckpoints S = []" "map ae_commitment_hash (eventsFor S (Some tailEpoch) ''0000'') = [tailCommitment True]"
    using assms tail_segment [OF assms] by (simp_all add: tailFirst_def)
  obtain tree where tree: "buildMerkleTree tailEnv [tailCommitment True] = Inr tree"
    using buildMerkleTree_total [OF tail_hyps(1,2), of "[tailCommitment True]"] tail_hex by auto
  obtain c where c: "openCheckpoint tailEnv S tailEpoch ''0000'' = Inr c" "checkpointNumbersSafe c"
    using S tree by (simp add: openCheckpoint_def objectsFor_def tailReady_def buildMerkleTree_def [of _ "[]"] relayPreviousCheckpointHash_def
        checkpointNumbersSafe_def isSafeInteger_def)
  obtain h where h: "checkpointHash tailEnv c = Inr h" using c(2) checkpointHash_total by blast
  obtain sig where "signEd25519 tailEnv (DText h) (seedOf True) = Inr sig"
    using seed_signs_domainHash [OF tail_hyps(1,3) seedOf_bytes keyOf_length] h unfolding checkpointHash_eq by blast
  then have "\<exists>c'. relaySign tailEnv S (c\<lparr>bc_checkpoint_identity_hash := Some h\<rparr>) = Inr c'"
    using S(1) h by (simp add: relaySign_def tailReady_def seedOf_def signCheckpointWithSeed_def)
  then show ?thesis using S c(1) h by (auto simp: submitCheckpointStart_def tailReady_def checkpointFor_def tailBackend_def)
qed

lemma tail_closed:
  assumes "newRelayStore tailEnv tailOptions = Inr S0" "relayRun tailDeps S0 [tailEvent True] S" "tailFirst S a"
  shows "\<exists>c T. submitCheckpoint tailEnv S tailEpoch ''0000'' = Inr (c, T) \<and> relayRun tailDeps S0 [tailEvent True] T \<and> relayRun tailDeps S [] T
     \<and> map_of (rs_events T) (tailCommitment True) = Some a \<and> tailReady T
     \<and> map_of (rs_closedSegments T) (checkpointStoreKey (Some tailEpoch) ''0000'') = Some [tailCommitment True]"
proof -
  obtain c where c: "submitCheckpointStart tailEnv S tailEpoch ''0000'' = Inr c" using tail_submit [OF assms(3)] by blast
  have f: "rs_settledCheckpoints S = []" "rs_events S = [(tailCommitment True, a)]" "ae_commitment_hash a = tailCommitment True" "tailReady S"
    using assms(3) by (simp_all add: tailFirst_def)
  obtain T where T: "submitCheckpointFinish tailEnv S tailEpoch ''0000'' c = Inr (c, T)" using f(1) by (simp add: submitCheckpointFinish_def Let_def)
  then have sub: "submitCheckpoint tailEnv S tailEpoch ''0000'' = Inr (c, T)" by (simp add: submitCheckpoint_def c)
  have st: "relayStep tailDeps S [] T"
    by (rule relayStep.submit [where t = tailEpoch and e = tailEpoch and s = "''0000''" and c = c]) (simp only: tailDeps_at sub)
  have "relayRun tailDeps S0 ([tailEvent True] @ []) T" "relayRun tailDeps S ([] @ []) T"
    by (rule relayRun.more [OF assms(2) st], rule relayRun.more [OF relayRun.start st])
  then show ?thesis using sub submitCheckpointFinish_Inr(2) [OF T] tail_segment [OF assms(3)] f by (simp add: tailReady_def)
qed

text \<open>The trees over the two commitments, and the store after the race of a submission with Bob's event.\<close>

lemma tail_trees:
  "\<exists>tree. buildMerkleTree tailEnv [tailCommitment True] = Inr tree \<and> mt_root tree = tailCommitment True"
  "\<exists>tree. buildMerkleTree tailEnv [tailCommitment True, tailCommitment False] = Inr tree \<and> mt_root tree = tailCommitment False"
proof -
  have d: "digest32 tailEnv (leafInput i (keyOf b)) = keyOf b" "digest32 tailEnv (nodeInput l (keyOf b)) = keyOf b" for i l b
    using tailHash_append [OF keyOf_length, of "utf8 MERKLE_LEAF_V1 @ [0] @ u64 i" b] tailHash_append [OF keyOf_length, of "utf8 MERKLE_NODE_V1 @ [0] @ l" b]
    by (simp_all add: digest32_sha256 [OF tail_hyps(2)] tail_facts(4) leafInput_def nodeInput_def domainInput_def)
  have leaf: "hashLeaf tailEnv i (tailCommitment b) = Inr (tailCommitment b)" if "0 \<le> i" "i < 2 ^ 64" for i b
    using that by (simp add: hashLeaf_Inr [OF tail_hyps(2)] tail_hex d)
  have node: "hashNode tailEnv (tailCommitment a) (tailCommitment b) = Inr (tailCommitment b)" for a b
    by (simp add: hashNode_Inr [OF tail_hyps(2)] tail_hex d)
  have ne: "tailCommitment b \<noteq> []" for b by (simp add: bytesToHex_def)
  show "\<exists>tree. buildMerkleTree tailEnv [tailCommitment True] = Inr tree \<and> mt_root tree = tailCommitment True"
    by (simp add: buildMerkleTree_def leaf levelsFrom.simps)
  show "\<exists>tree. buildMerkleTree tailEnv [tailCommitment True, tailCommitment False] = Inr tree \<and> mt_root tree = tailCommitment False"
    by (simp add: buildMerkleTree_def leaf levelsFrom.simps node ne)
qed

lemma tail_race:
  assumes S: "tailFirst S a" and c: "submitCheckpointStart tailEnv S tailEpoch ''0000'' = Inr c" "bc_event_root c = tailCommitment True"
    and acc: "acceptEvent tailDeps S (tailEvent False) = Inr (b, T)" "ae_commitment_hash b = tailCommitment False" "ae_epoch_start_ms b = Some tailEpoch"
      "ae_shard b = ''0000''" and T: "rs_events T = rs_events S @ [(tailCommitment False, b)]" "rs_settledCheckpoints T = []"
    and ix: "ae_log_index a = 0" "ae_log_index b = 1" and h: "checkpointHash tailEnv c = Inr h"
  shows "\<exists>U p. submitCheckpointFinish tailEnv T tailEpoch ''0000'' c = Inr (c, U) \<and> proofFor tailEnv U (tailCommitment False) = Inr (Some (p, c))
     \<and> ip_root p \<noteq> bc_event_root c"
proof -
  have k: "tailCommitment True \<noteq> tailCommitment False" by (simp add: bytesToHex_inject [OF tail_hyps(1)] keyOf_def)
  have a: "rs_events S = [(tailCommitment True, a)]" "ae_commitment_hash a = tailCommitment True" "ae_epoch_start_ms a = Some tailEpoch" "ae_shard a = ''0000''"
    using S by (simp_all add: tailFirst_def)
  have seg: "map ae_commitment_hash (eventsFor T (Some tailEpoch) ''0000'') = [tailCommitment True, tailCommitment False]"
    using a acc ix by (simp add: eventsFor_def T sameNumber_def)
  obtain U where U: "submitCheckpointFinish tailEnv T tailEpoch ''0000'' c = Inr (c, U)" using T(2) by (simp add: submitCheckpointFinish_def Let_def)
  note U' = submitCheckpointFinish_Inr(2) [OF U]
  obtain tree where tree: "buildMerkleTree tailEnv [tailCommitment True, tailCommitment False] = Inr tree" "mt_root tree = tailCommitment False"
    using tail_trees(2) by blast
  have ne: "tailCommitment False \<noteq> []" by (simp add: bytesToHex_def)
  have "\<exists>p. proofFor tailEnv U (tailCommitment False) = Inr (Some (p, c)) \<and> ip_root p = tailCommitment False"
    using tree k ne a(1) by (simp add: proofFor_def U' T seg acc ix checkpointFor_def h buildInclusionProof_def)
  then show ?thesis using U c(2) k by (auto intro!: exI [of _ U])
qed

section \<open>Properties\<close>



text \<open>
  C8: The relay implements an append-only log. Between two stores of a run, the segments of the log that the relay keeps go through a sequence of appends to open
  segments and closings: commitments are never taken out or reordered, and a closed segment stays as it is. The alternative is a collision of SHA-256
  between two events of the run.
\<close>

theorem relayStore_refines_log:
  assumes E: "hex_codec (vd_env D)" "sha256_length (vd_env D)" and new: "newRelayStore (vd_env D) options = Inr S0"
    and B: "\<forall>B. ro_settlement_backend options = Some B \<longrightarrow> keepsCheckpoint (vd_env D) (sb_submitCheckpoint B)"
    and run: "relayRun D S0 old S" "relayRun D S evs T"
  shows "logStep\<^sup>*\<^sup>* (relayLogOf S) (relayLogOf T)
       \<and> prefix (map ae_commitment_hash (eventsFor S (Some e) s)) (map ae_commitment_hash (eventsFor T (Some e) s))
       \<and> (map_of (rs_closedSegments S) (checkpointStoreKey (Some e) s) \<noteq> None \<longrightarrow>
            map_of (rs_closedSegments T) (checkpointStoreKey (Some e) s) \<noteq> None
            \<and> map ae_commitment_hash (eventsFor T (Some e) s) = map ae_commitment_hash (eventsFor S (Some e) s))
     \<or> (\<exists>x \<in> set (old @ evs). \<exists>y \<in> set (old @ evs). sha256_collision (vd_env D) (commitmentInputs (vd_env D) x) (commitmentInputs (vd_env D) y))"
proof (cases "\<forall>x \<in> set (old @ evs). \<forall>y \<in> set (old @ evs). \<not> commitmentClash (vd_env D) x y")
  case True
  note steps = relayRun_logSteps [OF new B run(2,1) True]
  show ?thesis using steps relay_log.run_grows [OF steps, of "(e, s)"] relay_log.run_frozen [OF steps, of "(e, s)"] by (auto simp: relayLogOf_def)
next
  case False
  then show ?thesis using commitmentClash_collision [OF E] by blast
qed

theorem relayStore_refines_log_witness:
  "\<exists>S0 S a c T. newRelayStore tailEnv tailOptions = Inr S0 \<and> relayRun tailDeps S0 [tailEvent True] S \<and> tailFirst S a
     \<and> submitCheckpoint tailEnv S tailEpoch ''0000'' = Inr (c, T)
     \<and> (logStep\<^sup>*\<^sup>* (relayLogOf S) (relayLogOf T)
        \<or> sha256_collision tailEnv (commitmentInputs tailEnv (tailEvent True)) (commitmentInputs tailEnv (tailEvent True)))"
proof -
  obtain S0 S a where S: "newRelayStore tailEnv tailOptions = Inr S0" "relayRun tailDeps S0 [tailEvent True] S" "tailFirst S a" using tail_first by blast
  obtain c T where T: "submitCheckpoint tailEnv S tailEpoch ''0000'' = Inr (c, T)" "relayRun tailDeps S [] T" using tail_closed [OF S] by blast
  show ?thesis
    using relayStore_refines_log [of tailDeps tailOptions S0 "[tailEvent True]" S "[]" T tailEpoch "''0000''"] S T tail_hyps tail_keeps
    by (simp add: tailDeps_at(2) tailOptions_def) metis
qed



text \<open>
  An event that arrives while a checkpoint is being submitted is lost to its checkpoint. Let a segment with events be open; \<^verbatim>\<open>submitCheckpoint\<close> computes the
  checkpoint and calls the backend; before the backend answers, \<^verbatim>\<open>acceptEvent\<close> accepts another event of the segment; then \<^verbatim>\<open>submitCheckpoint\<close> goes on and closes the
  segment. The closed segment has the new event, the checkpoint does not count it, and \<^verbatim>\<open>proofFor\<close> hands out a proof for it whose root is
  not the root in the checkpoint it comes with (or there is a collision of SHA-256).
\<close>

theorem submitCheckpoint_loses_event:
  assumes E: "hex_codec (vd_env D)" "sha256_length (vd_env D)" and inv: "relayInv (vd_env D) S"
    and seg: "eventsFor S (Some e) s \<noteq> []" "map_of (rs_settledCheckpoints S) (checkpointStoreKey (Some e) s) = None"
    and B: "\<forall>B. rs_settlement_backend S = Some B \<longrightarrow> keepsCheckpoint (vd_env D) (sb_submitCheckpoint B)"
    and start: "submitCheckpointStart (vd_env D) S e s = Inr c"
    and acc: "acceptEvent D S ev = Inr (a, T)" "ae_epoch_start_ms a = Some e" "ae_shard a = s" "getAcceptedEvent S (ae_commitment_hash a) = None"
    and fin: "submitCheckpointFinish (vd_env D) T e s c = Inr (c', U)"
    and pf: "proofFor (vd_env D) U (ae_commitment_hash a) = Inr (Some (p, cp))"
  shows "cp = c \<and> verifyInclusion (vd_env D) p = Inr True
     \<and> map_of (rs_closedSegments U) (checkpointStoreKey (Some e) s) = Some (map ae_commitment_hash (eventsFor S (Some e) s) @ [ae_commitment_hash a])
     \<and> bc_event_count cp = int (length (eventsFor S (Some e) s))
     \<and> (ip_root p \<noteq> bc_event_root cp
        \<or> sha256_collision (vd_env D) (set (verifyInputs (vd_env D) p)) (set (treeInputs (vd_env D) (map ae_commitment_hash (eventsFor S (Some e) s)))))"
  using acc(4) by (intro submit_race [OF E inv seg B start acc(1-3) _ fin pf]) (simp add: getAcceptedEvent_def map_of_eq_None_keys)

theorem submitCheckpoint_loses_event_witness:
  "\<exists>S a c b T U p. tailFirst S a \<and> submitCheckpointStart tailEnv S tailEpoch ''0000'' = Inr c \<and> acceptEvent tailDeps S (tailEvent False) = Inr (b, T)
     \<and> submitCheckpointFinish tailEnv T tailEpoch ''0000'' c = Inr (c, U) \<and> proofFor tailEnv U (ae_commitment_hash b) = Inr (Some (p, c))
     \<and> verifyInclusion tailEnv p = Inr True \<and> bc_event_count c = 1 \<and> ip_root p \<noteq> bc_event_root c
     \<and> map_of (rs_closedSegments U) (checkpointStoreKey (Some tailEpoch) ''0000'') = Some [tailCommitment True, tailCommitment False]"
proof -
  obtain S0 S a where S0: "newRelayStore tailEnv tailOptions = Inr S0" "relayRun tailDeps S0 [tailEvent True] S" and S: "tailFirst S a" using tail_first by blast
  have inv: "relayInv tailEnv S" using tail_inv [OF S S0] .
  obtain c where c: "submitCheckpointStart tailEnv S tailEpoch ''0000'' = Inr c" using tail_submit [OF S] by blast
  have f: "rs_settledCheckpoints S = []" "rs_closedSegments S = []" "tailReady S" "nonceKey (tailEvent False) \<notin> set (rs_nonces S)"
     "rs_events S = [(tailCommitment True, a)]" "ae_commitment_hash a = tailCommitment True"
    using S nonceKey_tail by (simp_all add: tailFirst_def)
  obtain b T where b: "acceptEvent tailDeps S (tailEvent False) = Inr (b, T)" "ae_commitment_hash b = tailCommitment False" "ae_epoch_start_ms b = Some tailEpoch"
     "ae_shard b = ''0000''" "T = S\<lparr>rs_nonces := List.insert (nonceKey (tailEvent False)) (rs_nonces S), rs_events := mapSet (rs_events S) (tailCommitment False) b\<rparr>"
    using tail_accept [OF f(3,4)] f(2) by fastforce
  have k: "tailCommitment True \<noteq> tailCommitment False" by (simp add: bytesToHex_inject [OF tail_hyps(1)] keyOf_def)
  have ix: "ae_log_index a = 0" "ae_log_index b = 1"
    using relayInv_indexes [OF inv, of a tailEpoch "''0000''"] tail_segment [OF S] acceptEvent_Inr [OF b(1)] b(3,4) by auto
  obtain x where x: "rs_settlement_backend S = Some tailBackend" "checkpointFor tailEnv S (Some tailEpoch) ''0000'' = Inr x" "sb_submitCheckpoint tailBackend x = Inr c"
    using submitCheckpointStart_Inr [OF c] f(3) by (auto simp: tailReady_def)
  obtain h where h: "bc_event_root c = tailCommitment True" "checkpointHash tailEnv c = Inr h"
    using checkpointFor_open [OF x(2)] f(1,6) tail_segment [OF S] tail_trees(1) x(3) by (auto simp: tailBackend_def)
  have "rs_events T = rs_events S @ [(tailCommitment False, b)]" "rs_settledCheckpoints T = []" using b(5) f k by (simp_all add: mapSet_new)
  then obtain U p where U: "submitCheckpointFinish tailEnv T tailEpoch ''0000'' c = Inr (c, U)" "proofFor tailEnv U (tailCommitment False) = Inr (Some (p, c))"
     "ip_root p \<noteq> bc_event_root c" using tail_race [OF S c h(1) b(1-4) _ _ ix h(2)] by blast
  have "verifyInclusion tailEnv p = Inr True \<and> bc_event_count c = 1
     \<and> map_of (rs_closedSegments U) (checkpointStoreKey (Some tailEpoch) ''0000'') = Some [tailCommitment True, tailCommitment False]"
    using submitCheckpoint_loses_event [of tailDeps S tailEpoch "''0000''" c "tailEvent False" b T c U p c] tail_hyps inv tail_segment [OF S] f c b U x(1) tail_keeps k
    by (simp add: tailDeps_at(2) getAcceptedEvent_def)
  then show ?thesis using S c b(1,2) U by metis
qed

end
