(* ===== verification/Numbers.thy ===== *)
theory Numbers
  imports Runtime Complex_Main "HOL-Library.Log_Nat"
begin

text \<open>
  Numbers of the second generation of scores (\<^verbatim>\<open>src/packages/core-ts/src/v2.ts\<close>): basis points, integers in which the code keeps scores and weights, and
  the floating-point operations it uses in between.

  A finite double is a rational number. \<^verbatim>\<open>+\<close>, \<^verbatim>\<open>-\<close>, \<^verbatim>\<open>*\<close> and \<^verbatim>\<open>/\<close> are the exact operation followed by \<open>fl\<close>, the rounding to 53 significant bits with ties
  to the even neighbour, as IEEE 754 has it for results that neither overflow nor are subnormal. Integers below \<open>2 ^ 53\<close> are exact, so on those the
  model uses \<open>int\<close>; the floor of a quotient of such integers is the integer quotient.

  ECMAScript leaves \<^verbatim>\<open>Math.exp\<close>, \<^verbatim>\<open>Math.log\<close>, \<^verbatim>\<open>**\<close> and \<^verbatim>\<open>localeCompare\<close> to the implementation: they are fields of \<open>host\<close>, and nothing is assumed of them.
\<close>

section \<open>Doubles\<close>

definition floorLog2 :: "rat \<Rightarrow> int" where
  "floorLog2 x = (let (p, q) = quotient_of \<bar>x\<bar>; k = bitlen p - bitlen q in if \<bar>x\<bar> \<ge> 2 powi k then k else k - 1)"

definition roundHalfEven :: "rat \<Rightarrow> int" where
  "roundHalfEven x = (let n = \<lfloor>x\<rfloor>; r = x - of_int n in if r < 1 / 2 then n else if r > 1 / 2 then n + 1 else if even n then n else n + 1)"

definition fl :: "rat \<Rightarrow> rat" where
  "fl x = (if x = 0 then 0 else let e = floorLog2 x - 52 in of_int (roundHalfEven (x / 2 powi e)) * 2 powi e)"

definition fadd :: "rat \<Rightarrow> rat \<Rightarrow> rat" where "fadd x y = fl (x + y)"

definition fsub :: "rat \<Rightarrow> rat \<Rightarrow> rat" where "fsub x y = fl (x - y)"

definition fmul :: "rat \<Rightarrow> rat \<Rightarrow> rat" where "fmul x y = fl (x * y)"

definition fdiv :: "rat \<Rightarrow> rat \<Rightarrow> rat" where "fdiv x y = fl (x / y)"

record host =
  h_exp :: "rat \<Rightarrow> rat"
  h_log :: "rat \<Rightarrow> rat"
  h_pow :: "rat \<Rightarrow> rat \<Rightarrow> rat"
  h_localeCompare :: "string \<Rightarrow> string \<Rightarrow> int"

section \<open>Basis points\<close>

definition clampBps :: "int \<Rightarrow> int" where
  "clampBps v = max 0 (min 10000 v)"

definition bps :: "int \<Rightarrow> int \<Rightarrow> int" where
  "bps part whole = (if whole \<le> 0 then 0 else clampBps ((part * 10000) div whole))"

definition middleOf :: "int list \<Rightarrow> int" where
  "middleOf xs = (let n = length xs in
     if odd n then xs ! (n div 2) else (xs ! (n div 2 - 1) + xs ! (n div 2)) div 2)"

definition medianNumber :: "int list \<Rightarrow> int" where
  "medianNumber values = (if values = [] then 0 else middleOf (sort values))"

definition averageSignalBps :: "(string \<times> jsval) list option \<Rightarrow> int" where
  "averageSignalBps signal =
     (let values = map clampBps (List.map_filter (\<lambda>(_, v). case v of JNum (JInt n) \<Rightarrow> Some n | _ \<Rightarrow> None) (orElse signal [])) in
      if values = [] then 0 else clampBps (sum_list values div int (length values)))"

definition evidenceCountSignalBps :: "int option list \<Rightarrow> int" where
  "evidenceCountSignalBps values =
     (let count = sum_list (map (\<lambda>v. max 0 (orElse v 0)) values) in clampBps ((min 3 count * 10000) div 3))"

definition sigmoidRiskBps :: "host \<Rightarrow> int \<Rightarrow> int" where
  "sigmoidRiskBps H signalBps =
     (let centered = fdiv (of_int (clampBps signalBps - 5000)) 900 in
      clampBps \<lfloor>fmul (fdiv 1 (fadd 1 (h_exp H (- centered)))) 10000\<rfloor>)"

definition isBps :: "int \<Rightarrow> bool" where
  "isBps v \<longleftrightarrow> 0 \<le> v \<and> v \<le> 10000"

lemma clampBps_isBps [simp, intro]: "isBps (clampBps v)"
  by (simp add: isBps_def clampBps_def)

lemma clampBps_range [simp]: "0 \<le> clampBps v" "clampBps v \<le> 10000"
  by (simp_all add: clampBps_def)

lemma clampBps_id: "isBps v \<Longrightarrow> clampBps v = v"
  by (simp add: isBps_def clampBps_def)

lemma clampBps_mono: "v \<le> w \<Longrightarrow> clampBps v \<le> clampBps w"
  by (simp add: clampBps_def)

lemma bps_isBps [simp, intro]: "isBps (bps part whole)"
  by (simp add: bps_def) (simp add: isBps_def)

lemma bps_share: "0 \<le> part \<Longrightarrow> part \<le> whole \<Longrightarrow> 0 < whole \<Longrightarrow> bps part whole = (part * 10000) div whole"
proof -
  assume h: "0 \<le> part" "part \<le> whole" "0 < whole"
  have "part * 10000 div whole \<le> whole * 10000 div whole" using h by (intro zdiv_mono1) auto
  moreover have "0 \<le> part * 10000 div whole" using h by (simp add: pos_imp_zdiv_nonneg_iff)
  ultimately show ?thesis using h by (simp add: bps_def clampBps_id isBps_def)
qed

section \<open>Rounding\<close>

text \<open>Integers of at most 53 bits are doubles.\<close>

lemma roundHalfEven_of_int [simp]: "roundHalfEven (of_int n) = n"
  by (simp add: roundHalfEven_def)

lemma quotient_of_abs:
  assumes "quotient_of \<bar>x\<bar> = (p, q)"
  shows "\<bar>x\<bar> = of_int p / of_int q" "0 < q" "x \<noteq> 0 \<Longrightarrow> 0 < p"
proof -
  show x: "\<bar>x\<bar> = of_int p / of_int q" using quotient_of_div [OF assms] .
  show q: "0 < q" using quotient_of_denom_pos [OF assms] .
  have "(0 :: rat) < of_int p / of_int q \<longleftrightarrow> 0 < p" using q by (simp add: zero_less_divide_iff)
  then show "x \<noteq> 0 \<Longrightarrow> 0 < p" using x by (metis zero_less_abs_iff)
qed

lemma floorLog2_le:
  assumes "x \<noteq> 0"
  shows "2 powi floorLog2 x \<le> \<bar>x\<bar>"
proof -
  obtain p q where pq: "quotient_of \<bar>x\<bar> = (p, q)" by fastforce
  note x = quotient_of_abs(1) [OF pq] and q = quotient_of_abs(2) [OF pq] and p = quotient_of_abs(3) [OF pq assms]
  define a b where "a = nat (bitlen p)" and "b = nat (bitlen q)"
  have "2 ^ (a - 1) \<le> p" "0 < a" using bitlen_bounds [OF p] bitlen_eq_zero_iff [of p] bitlen_nonneg [of p] p by (auto simp: a_def nat_diff_distrib)
  then have P: "2 ^ (a - 1) \<le> (of_int p :: rat)" by (metis of_int_le_iff of_int_numeral of_int_power)
  have "q < 2 ^ b" using bitlen_bounds [OF q] by (simp add: b_def)
  then have Q: "(of_int q :: rat) < 2 ^ b" by (metis of_int_less_iff of_int_numeral of_int_power)
  have k: "bitlen p - bitlen q - 1 = int (a - 1) - int b" using \<open>0 < a\<close> by (simp add: a_def b_def bitlen_nonneg of_nat_diff)
  have "2 powi (bitlen p - bitlen q - 1) = 2 ^ (a - 1) / (2 ^ b :: rat)" unfolding k by (simp add: power_int_diff)
  also have "\<dots> \<le> of_int p / of_int q" using P Q p q by (intro frac_le) auto
  finally have "2 powi (bitlen p - bitlen q - 1) \<le> \<bar>x\<bar>" using x by simp
  then show ?thesis by (simp add: floorLog2_def pq Let_def)
qed

lemma fl_of_int: "\<bar>n\<bar> < 2 ^ 53 \<Longrightarrow> fl (of_int n) = of_int n"
proof (cases "n = 0")
  case False
  assume n: "\<bar>n\<bar> < 2 ^ 53"
  let ?e = "floorLog2 (of_int n) - 52"
  have "2 powi floorLog2 (of_int n) \<le> (of_int \<bar>n\<bar> :: rat)" using floorLog2_le [of "of_int n"] False by simp
  also have "\<dots> < 2 powi 53" using n by (metis of_int_less_iff of_int_numeral of_int_power power_int_numeral)
  finally have "floorLog2 (of_int n) < 53" using power_int_le_imp_less_exp [of "2 :: rat"] by auto
  then have "?e \<le> 0" by simp
  then obtain k where k: "?e = - int k" by (metis int_nat_eq minus_minus neg_0_le_iff_le)
  have scaled: "(of_int n :: rat) / 2 powi ?e = of_int (n * 2 ^ k)" unfolding k by (simp add: power_int_minus divide_inverse)
  have "fl (of_int n) = of_int (roundHalfEven (of_int n / 2 powi ?e)) * 2 powi ?e" using False by (simp add: fl_def Let_def)
  also have "\<dots> = of_int n" unfolding scaled roundHalfEven_of_int unfolding k by (simp add: power_int_minus)
  finally show ?thesis .
qed (simp add: fl_def)

end
