(* ===== verification/ReferenceScore.thy ===== *)
theory ReferenceScore
  imports Numbers Settlement
begin

text \<open>
  The reference score (\<^verbatim>\<open>computeEvidenceCoverageV0\<close> and \<^verbatim>\<open>computeReferenceScoreV0\<close> of \<^verbatim>\<open>src/packages/core-ts/src/v2.ts\<close>): gates, weighted features,
  calibration, confidence width and label.

  An object used as a table of numbers is a list of pairs. The numbers are integers; the bootstrap draws from \<open>BigInt(sha256Hex(...))\<close>, the big-endian
  value of a digest.
\<close>

section \<open>Evidence coverage\<close>

record EvidenceCoverageInput =
  eci_subject :: string
  eci_valid_signed_event_count :: "int option"
  eci_valid_receipt_count :: "int option"
  eci_unique_counterparty_count :: "int option"
  eci_distinct_community_count :: "int option"
  eci_attestation_count :: "int option"
  eci_recent_revocation_count :: "int option"
  eci_required_evidence :: "string list option"
  eci_present_evidence :: "string list option"
  eci_computed_at :: "string option"
  eci_evidence_commitment :: "string option"

definition coverageTerm :: "host \<Rightarrow> int \<Rightarrow> int \<Rightarrow> rat \<Rightarrow> rat" where
  "coverageTerm H n cap exponent = h_pow H (min 1 (fdiv (of_int n) (of_int cap))) exponent"

definition coverageLabel :: "int \<Rightarrow> string" where
  "coverageLabel b = (if b < 2500 then ''insufficient'' else if b < 5000 then ''low'' else if b < 7500 then ''medium'' else ''high'')"

definition computeEvidenceCoverageV0 :: "env \<Rightarrow> host \<Rightarrow> EvidenceCoverageInput \<Rightarrow> EvidenceCoverageV1 res" where
  "computeEvidenceCoverageV0 E H input =
     (let required = sort (uniqueInOrder (orElse (eci_required_evidence input) []));
          present = set (orElse (eci_present_evidence input) []);
          covered = filter (\<lambda>item. item \<in> present) required;
          eventCount = max 0 (orElse (eci_valid_signed_event_count input) (if ''signature'' \<in> present then 25 else 0));
          receiptCount = max 0 (orElse (eci_valid_receipt_count input) (if ''receipts'' \<in> present then 10 else 0));
          counterpartyCount = max 0 (orElse (eci_unique_counterparty_count input) (if ''receipts'' \<in> present then 5 else 0));
          gateBps = (if required \<noteq> [] then bps (int (length covered)) (int (length required)) else 10000);
          eventTerm = coverageTerm H eventCount 25 (fl (1 / 4)); receiptTerm = coverageTerm H receiptCount 10 (fl (35 / 100));
          counterpartyTerm = coverageTerm H counterpartyCount 5 (fl (4 / 10));
          coverage_bps = clampBps \<lfloor>fmul (fmul (fmul (of_int gateBps) eventTerm) receiptTerm) counterpartyTerm\<rfloor>
      in bindE (case eci_computed_at input of Some t \<Rightarrow> Inr t | None \<Rightarrow> toISOString (now_ms E)) (\<lambda>computed_at.
         Inr \<lparr>ec_type = ''tsl.evidence_coverage.v1'', ec_subject = eci_subject input, ec_computed_at = computed_at,
           ec_valid_signed_event_count = eventCount, ec_valid_receipt_count = receiptCount, ec_unique_counterparty_count = counterpartyCount,
           ec_distinct_community_count = max 0 (orElse (eci_distinct_community_count input) 0),
           ec_attestation_count = max 0 (orElse (eci_attestation_count input) 0),
           ec_recent_revocation_count = max 0 (orElse (eci_recent_revocation_count input) 0), ec_coverage_bps = coverage_bps,
           ec_coverage_label = coverageLabel coverage_bps, ec_missing_evidence = filter (\<lambda>item. item \<notin> present) required,
           ec_evidence_commitment = (if truthyStr (eci_evidence_commitment input) then eci_evidence_commitment input else None)\<rparr>))"

section \<open>The input of the score\<close>

record ConfidenceSettings =
  cs_min_width_bps :: "int option"
  cs_max_width_bps :: "int option"
  cs_coverage_weight_bps :: "int option"
  cs_evidence_weight_bps :: "int option"
  cs_bootstrap_seed :: "string option"
  cs_bootstrap_rounds :: "int option"
  cs_bootstrap_unit :: "string option"
  cs_method :: "string option"

record ReferenceScoreV0Input =
  rsi_subject :: string
  rsi_issuer :: string
  rsi_scoring_profile_id :: string
  rsi_model_version :: string
  rsi_gate_result :: GateResult
  rsi_evidence_coverage :: EvidenceCoverageV1
  rsi_normalized_features_bps :: "(string \<times> int) list"
  rsi_weights_bps :: "(string \<times> int) list"
  rsi_calibration_points :: "CalibrationPoint list option"
  rsi_confidence_profile :: "ConfidenceSettings option"
  rsi_bootstrap_evidence_hashes :: "string list option"
  rsi_feature_vector_commitment :: "string option"
  rsi_coverage_penalty_weight_bps :: "int option"
  rsi_has_adverse_evidence :: "bool option"
  rsi_domain_policy :: DomainPolicyV1
  rsi_issued_at :: string

abbreviation coverageOf :: "ReferenceScoreV0Input \<Rightarrow> int" where
  "coverageOf input \<equiv> ec_coverage_bps (rsi_evidence_coverage input)"

abbreviation adverse :: "ReferenceScoreV0Input \<Rightarrow> bool" where
  "adverse input \<equiv> rsi_has_adverse_evidence input = Some True"

text \<open>\<^verbatim>\<open>input.confidence_profile?.f ?? d\<close>\<close>

definition confidenceOf :: "(ConfidenceSettings \<Rightarrow> 'a option) \<Rightarrow> 'a \<Rightarrow> ReferenceScoreV0Input \<Rightarrow> 'a" where
  "confidenceOf f d input = orElse (Option.bind (rsi_confidence_profile input) f) d"

section \<open>Gates\<close>

definition expiresAt :: "env \<Rightarrow> ReferenceScoreV0Input \<Rightarrow> string res" where
  "expiresAt E input = (case dateParse E (rsi_issued_at input) of
       None \<Rightarrow> Inl ''Invalid time value''
     | Some t \<Rightarrow> toISOString (t + dp_max_assessment_age_seconds (rsi_domain_policy input) * 1000))"

text \<open>The label and the code of the first gate that fails.\<close>

definition gateFailure :: "ReferenceScoreV0Input \<Rightarrow> (string \<times> string) option" where
  "gateFailure input =
     (let gate = rsi_gate_result input; policy = rsi_domain_policy input in
      if \<not> gr_schema_valid gate then Some (''cryptographic_failure'', ''TSL_SCHEMA_INVALID'')
      else if \<not> gr_signature_valid gate then Some (''cryptographic_failure'', ''TSL_SIGNATURE_INVALID'')
      else if \<not> gr_key_active gate \<or> \<not> gr_not_revoked gate then Some (''revoked_or_compromised'', ''TSL_KEY_REVOKED'')
      else if gr_included_in_log gate = Some False \<or> gr_checkpoint_valid gate = Some False then Some (''unsettled_or_unproven'', ''TSL_UNSETTLED_OR_UNPROVEN'')
      else if dp_requires_settlement policy \<and> gr_settlement_satisfied gate \<noteq> Some True then Some (''settlement_missing'', ''TSL_SETTLEMENT_MISSING'')
      else if dp_requires_delegation_check policy = Some True \<and> gr_delegation_valid gate = Some False then Some (''delegation_missing'', ''TSL_DELEGATION_MISSING'')
      else if coverageOf input < dp_min_coverage_bps policy \<and> \<not> adverse input then Some (''insufficient_evidence'', ''TSL_INSUFFICIENT_EVIDENCE'')
      else None)"

definition failureAssessment :: "env \<Rightarrow> ReferenceScoreV0Input \<Rightarrow> string \<Rightarrow> string \<Rightarrow> string \<Rightarrow> TrustAssessmentUnsignedV2 res" where
  "failureAssessment E input expires label code =
     bindE (sha256Canonical E [(''subject'', JStr (rsi_subject input)), (''code'', JStr code), (''at'', JStr (rsi_issued_at input))]) (\<lambda>assessment_id.
       Inr \<lparr>ta2_type = ''tsl.trust_assessment.v2'', ta2_assessment_id = assessment_id, ta2_subject = rsi_subject input, ta2_issuer = rsi_issuer input,
         ta2_domain = dp_domain (rsi_domain_policy input), ta2_scoring_profile_id = rsi_scoring_profile_id input,
         ta2_model_version = rsi_model_version input, ta2_gate_result = rsi_gate_result input, ta2_score_bps = None,
         ta2_confidence_interval_bps = None, ta2_coverage_bps = coverageOf input, ta2_label = label, ta2_reason_codes = [code],
         ta2_risk_codes = [code], ta2_evidence_commitment = None, ta2_feature_vector_commitment = None,
         ta2_evidence_coverage_commitment = None, ta2_privacy_disclosure_level = None, ta2_appeal_uri = None,
         ta2_issued_at = rsi_issued_at input, ta2_expires_at = expires\<rparr>)"

section \<open>Score and calibration\<close>

definition featureShare :: "ReferenceScoreV0Input \<Rightarrow> string \<Rightarrow> int" where
  "featureShare input featureId =
     (clampBps (orElse (map_of (rsi_normalized_features_bps input) featureId) 0) * clampBps (orElse (map_of (rsi_weights_bps input) featureId) 0)) div 10000"

definition featureIds :: "ReferenceScoreV0Input \<Rightarrow> string list" where
  "featureIds input = sort (map fst (rsi_weights_bps input))"

definition rawScore :: "ReferenceScoreV0Input \<Rightarrow> int" where
  "rawScore input =
     (let score = sum_list (map (featureShare input) (featureIds input));
          coveragePenalty = ((10000 - coverageOf input) * clampBps (orElse (rsi_coverage_penalty_weight_bps input) 1000)) div 10000
      in clampBps (score - coveragePenalty))"

definition calibrationPoints :: "ReferenceScoreV0Input \<Rightarrow> CalibrationPoint list" where
  "calibrationPoints input =
     sort_key cpt_raw_bps (map (\<lambda>p. \<lparr>cpt_raw_bps = clampBps (cpt_raw_bps p), cpt_calibrated_bps = clampBps (cpt_calibrated_bps p)\<rparr>)
       (orElse (rsi_calibration_points input) []))"

fun monotonePoints :: "CalibrationPoint list \<Rightarrow> bool" where
  "monotonePoints (p # q # ps) =
     (\<not> cpt_raw_bps q \<le> cpt_raw_bps p \<and> \<not> cpt_calibrated_bps q < cpt_calibrated_bps p \<and> monotonePoints (q # ps))"
| "monotonePoints _ = True"

fun calibrateFrom :: "CalibrationPoint \<Rightarrow> CalibrationPoint list \<Rightarrow> int \<Rightarrow> int" where
  "calibrateFrom left [] raw = cpt_calibrated_bps left"
| "calibrateFrom left (right # ps) raw =
     (if raw \<le> cpt_raw_bps right
      then clampBps (cpt_calibrated_bps left
             + ((raw - cpt_raw_bps left) * (cpt_calibrated_bps right - cpt_calibrated_bps left)) div max 1 (cpt_raw_bps right - cpt_raw_bps left))
      else calibrateFrom right ps raw)"

definition calibrate :: "CalibrationPoint list \<Rightarrow> int \<Rightarrow> int" where
  "calibrate points raw = (case points of
       [] \<Rightarrow> raw
     | p # ps \<Rightarrow> if raw \<le> cpt_raw_bps p then cpt_calibrated_bps p else calibrateFrom p ps raw)"

section \<open>Confidence\<close>

definition analyticWidth :: "ReferenceScoreV0Input \<Rightarrow> int" where
  "analyticWidth input =
     (let e = rsi_evidence_coverage input in
      ((10000 - coverageOf input) * confidenceOf cs_coverage_weight_bps 1000 input) div 10000
      + ((max 0 (25 - ec_valid_signed_event_count e) + max 0 (10 - ec_valid_receipt_count e) + max 0 (5 - ec_unique_counterparty_count e))
          * confidenceOf cs_evidence_weight_bps 20 input) div 40)"

text \<open>\<^verbatim>\<open>Number(BigInt(sha256Hex(canonicalBytes(x))) % BigInt(n))\<close>\<close>

definition drawIndex :: "env \<Rightarrow> jsobj \<Rightarrow> nat \<Rightarrow> nat res" where
  "drawIndex E x n = bindE (canonicalBytes (JObj x)) (\<lambda>b. Inr (nat (foldl (\<lambda>v d. 256 * v + uint d) 0 (sha256Bytes E (DBytes b))) mod n))"

definition bootstrapPick :: "env \<Rightarrow> ReferenceScoreV0Input \<Rightarrow> string \<Rightarrow> string list \<Rightarrow> nat \<Rightarrow> nat \<Rightarrow> int res" where
  "bootstrapPick E input seed hashes r index =
     (let base = [(''seed'', JStr seed), (''round'', JNum (JInt (int r))), (''index'', JNum (JInt (int index)))]; ids = featureIds input in
      bindE (if hashes = [] then Inr JUndefined
             else bindE (drawIndex E (base @ [(''evidence_hashes'', JArr (map JStr hashes))]) (length hashes)) (\<lambda>i. Inr (JStr (hashes ! i)))) (\<lambda>material.
      bindE (drawIndex E (base @ [(''evidenceMaterial'', material)]) (length ids)) (\<lambda>pick. Inr (featureShare input (ids ! pick)))))"

definition bootstrapRound :: "env \<Rightarrow> ReferenceScoreV0Input \<Rightarrow> string \<Rightarrow> string list \<Rightarrow> nat \<Rightarrow> int res" where
  "bootstrapRound E input seed hashes r =
     bindE (sequenceE (map (bootstrapPick E input seed hashes r) [0..<length (featureIds input)])) (\<lambda>shares. Inr (clampBps (sum_list shares)))"

text \<open>
  The quantiles: for \<open>n\<close> from 8 to 256 the doubles \<^verbatim>\<open>n * 0.025\<close> and \<^verbatim>\<open>n * 0.975\<close> have the floor and the ceiling of \<open>n / 40\<close> and \<open>39 * n / 40\<close>.
\<close>

definition bootstrapSpread :: "int list \<Rightarrow> int" where
  "bootstrapSpread scores =
     (let s = sort scores; n = length s; low = s ! (n div 40); high = s ! min (n - 1) ((39 * n + 39) div 40 - 1) in \<bar>high - low\<bar> div 2)"

definition bootstrapWidth :: "env \<Rightarrow> ReferenceScoreV0Input \<Rightarrow> int res" where
  "bootstrapWidth E input =
     (let rounds = max 8 (min 256 (confidenceOf cs_bootstrap_rounds 32 input)); maxWidth = confidenceOf cs_max_width_bps 2000 input;
          hashes = sort (orElse (rsi_bootstrap_evidence_hashes input) []) in
      bindE (case Option.bind (rsi_confidence_profile input) cs_bootstrap_seed of
               Some s \<Rightarrow> Inr s
             | None \<Rightarrow> sha256Canonical E [(''subject'', JStr (rsi_subject input)), (''issued_at'', JStr (rsi_issued_at input)),
                 (''scoring_profile_id'', JStr (rsi_scoring_profile_id input))]) (\<lambda>seed.
      if featureIds input = [] then Inr maxWidth
      else if Option.bind (rsi_confidence_profile input) cs_bootstrap_unit = Some ''edge_counterparty_attestation'' \<and> length hashes < 3 then Inr maxWidth
      else bindE (sequenceE (map (bootstrapRound E input seed hashes) [0..<nat rounds])) (\<lambda>scores.
           Inr (bootstrapSpread scores + analyticWidth input))))"

definition confidenceWidth :: "env \<Rightarrow> ReferenceScoreV0Input \<Rightarrow> int res" where
  "confidenceWidth E input =
     bindE (if confidenceOf cs_method ''deterministic_bootstrap_v1'' input = ''deterministic_bootstrap_v1'' then bootstrapWidth E input
            else Inr (analyticWidth input)) (\<lambda>w.
       Inr (clampBps (max (confidenceOf cs_min_width_bps 150 input) (min (confidenceOf cs_max_width_bps 2000 input) w))))"

section \<open>Label and assessment\<close>

definition scoreLabel :: "ReferenceScoreV0Input \<Rightarrow> int \<Rightarrow> int \<Rightarrow> string" where
  "scoreLabel input score width =
     (let th = dp_thresholds (rsi_domain_policy input); minimum = dp_min_coverage_bps (rsi_domain_policy input); coverage = coverageOf input in
      if score \<ge> th_trusted_bps th \<and> max 0 (score - width) \<ge> 8000 \<and> coverage \<ge> 7500 then ''trusted''
      else if score \<ge> th_likely_trusted_bps th \<and> coverage \<ge> 5000 then ''likely_trusted''
      else if coverage < 5000 \<and> \<not> adverse input
        then (if coverage < 2500 \<or> coverage < minimum then ''insufficient_evidence'' else ''unknown_caution'')
      else if score \<ge> th_medium_bps th then ''medium_trust''
      else if coverage < minimum \<or> coverage < 2500 then ''insufficient_evidence''
      else if score < th_high_risk_bps th then ''high_risk''
      else if score < th_suspicious_bps th \<and> adverse input then ''suspicious''
      else if score < th_suspicious_bps th then ''unknown_caution''
      else if adverse input then ''suspicious'' else ''unknown_caution'')"

definition scoredAssessment :: "env \<Rightarrow> ReferenceScoreV0Input \<Rightarrow> string \<Rightarrow> int \<Rightarrow> int \<Rightarrow> TrustAssessmentUnsignedV2 res" where
  "scoredAssessment E input expires score width =
     bindE (sha256Canonical E [(''subject'', JStr (rsi_subject input)), (''score_bps'', JNum (JInt score)), (''at'', JStr (rsi_issued_at input))]) (\<lambda>assessment_id.
     bindE (case rsi_feature_vector_commitment input of
              Some c \<Rightarrow> Inr c
            | None \<Rightarrow> sha256Canonical E (map (\<lambda>(k, v). (k, JNum (JInt v))) (rsi_normalized_features_bps input))) (\<lambda>features.
     bindE (sha256Canonical E (EvidenceCoverageV1_obj (rsi_evidence_coverage input))) (\<lambda>coverage.
       Inr \<lparr>ta2_type = ''tsl.trust_assessment.v2'', ta2_assessment_id = assessment_id, ta2_subject = rsi_subject input, ta2_issuer = rsi_issuer input,
         ta2_domain = dp_domain (rsi_domain_policy input), ta2_scoring_profile_id = rsi_scoring_profile_id input,
         ta2_model_version = rsi_model_version input, ta2_gate_result = rsi_gate_result input, ta2_score_bps = Some score,
         ta2_confidence_interval_bps = Some (max 0 (score - width), min 10000 (score + width)), ta2_coverage_bps = coverageOf input,
         ta2_label = scoreLabel input score width, ta2_reason_codes = sort (map fst (rsi_normalized_features_bps input)), ta2_risk_codes = [],
         ta2_evidence_commitment = None, ta2_feature_vector_commitment = Some features, ta2_evidence_coverage_commitment = Some coverage,
         ta2_privacy_disclosure_level = Some ''aggregate_only'', ta2_appeal_uri = None, ta2_issued_at = rsi_issued_at input,
         ta2_expires_at = expires\<rparr>)))"

definition computeReferenceScoreV0 :: "env \<Rightarrow> ReferenceScoreV0Input \<Rightarrow> TrustAssessmentUnsignedV2 res" where
  "computeReferenceScoreV0 E input =
     bindE (expiresAt E input) (\<lambda>expires.
       case gateFailure input of
         Some (label, code) \<Rightarrow> failureAssessment E input expires label code
       | None \<Rightarrow>
           if \<not> monotonePoints (calibrationPoints input) then Inl ''TSL_CALIBRATION_PROFILE_NON_MONOTONE''
           else let score = calibrate (calibrationPoints input) (rawScore input) in
             if confidenceOf cs_method ''deterministic_bootstrap_v1'' input = ''dev_heuristic_v0'' \<and> \<not> envFlag E ''TSL_DEV_SCORING_INPUTS''
             then Inl ''TSL_DEV_CONFIDENCE_PROFILE_REJECTED''
             else bindE (confidenceWidth E input) (scoredAssessment E input expires score))"

section \<open>Calibration is monotone\<close>

definition bpsPoints :: "CalibrationPoint list \<Rightarrow> bool" where
  "bpsPoints ps \<longleftrightarrow> (\<forall>p \<in> set ps. isBps (cpt_raw_bps p) \<and> isBps (cpt_calibrated_bps p))"

lemma calibrationPoints_bps: "bpsPoints (calibrationPoints input)"
  by (auto simp: bpsPoints_def calibrationPoints_def)

text \<open>Between two points the interpolation stays between their values.\<close>

lemma interpolate_between:
  fixes x d :: int
  assumes "0 \<le> x" "x \<le> s" "0 < s" "0 \<le> d"
  shows "0 \<le> (x * d) div s" "(x * d) div s \<le> d"
proof -
  have "(x * d) div s \<le> (s * d) div s" using assms by (intro zdiv_mono1 mult_right_mono) auto
  then show "(x * d) div s \<le> d" using assms(3) by simp
  show "0 \<le> (x * d) div s" using assms by (simp add: pos_imp_zdiv_nonneg_iff)
qed

lemma calibrateFrom_segment:
  assumes "bpsPoints (p # q # ps)" "monotonePoints (p # q # ps)" "cpt_raw_bps p \<le> raw" "raw \<le> cpt_raw_bps q"
  shows "calibrateFrom p (q # ps) raw
       = cpt_calibrated_bps p + ((raw - cpt_raw_bps p) * (cpt_calibrated_bps q - cpt_calibrated_bps p)) div (cpt_raw_bps q - cpt_raw_bps p)"
    "cpt_calibrated_bps p \<le> calibrateFrom p (q # ps) raw" "calibrateFrom p (q # ps) raw \<le> cpt_calibrated_bps q"
proof -
  let ?d = "((raw - cpt_raw_bps p) * (cpt_calibrated_bps q - cpt_calibrated_bps p)) div (cpt_raw_bps q - cpt_raw_bps p)"
  have m: "cpt_raw_bps p < cpt_raw_bps q" "cpt_calibrated_bps p \<le> cpt_calibrated_bps q" using assms(2) by simp_all
  have "0 \<le> ?d" "?d \<le> cpt_calibrated_bps q - cpt_calibrated_bps p" using m assms(3,4) by (intro interpolate_between; simp)+
  moreover from this have "clampBps (cpt_calibrated_bps p + ?d) = cpt_calibrated_bps p + ?d"
    using assms(1) by (intro clampBps_id) (auto simp: bpsPoints_def isBps_def)
  moreover have "max 1 (cpt_raw_bps q - cpt_raw_bps p) = cpt_raw_bps q - cpt_raw_bps p" using m by simp
  ultimately show "calibrateFrom p (q # ps) raw = cpt_calibrated_bps p + ?d"
    "cpt_calibrated_bps p \<le> calibrateFrom p (q # ps) raw" "calibrateFrom p (q # ps) raw \<le> cpt_calibrated_bps q" using assms(4) by simp_all
qed

lemma calibrateFrom_range:
  assumes "bpsPoints (p # ps)" "monotonePoints (p # ps)" "cpt_raw_bps p \<le> raw"
  shows "cpt_calibrated_bps p \<le> calibrateFrom p ps raw \<and> isBps (calibrateFrom p ps raw)"
  using assms
proof (induction ps arbitrary: p)
  case (Cons q ps)
  show ?case
  proof (cases "raw \<le> cpt_raw_bps q")
    case True
    then show ?thesis using calibrateFrom_segment(2) [OF Cons.prems] by simp
  next
    case False
    then show ?thesis using Cons.IH [of q] Cons.prems by (auto simp: bpsPoints_def)
  qed
qed (simp add: bpsPoints_def)

lemma calibrateFrom_mono:
  assumes "bpsPoints (p # ps)" "monotonePoints (p # ps)" "cpt_raw_bps p \<le> x" "x \<le> y"
  shows "calibrateFrom p ps x \<le> calibrateFrom p ps y"
  using assms
proof (induction ps arbitrary: p)
  case (Cons q ps)
  note prems = Cons.prems
  have q: "bpsPoints (q # ps)" "monotonePoints (q # ps)" using prems by (auto simp: bpsPoints_def)
  consider "y \<le> cpt_raw_bps q" | "x \<le> cpt_raw_bps q" "cpt_raw_bps q < y" | "cpt_raw_bps q < x" by linarith
  then show ?case
  proof cases
    case 1
    have "((x - cpt_raw_bps p) * (cpt_calibrated_bps q - cpt_calibrated_bps p)) div (cpt_raw_bps q - cpt_raw_bps p)
        \<le> ((y - cpt_raw_bps p) * (cpt_calibrated_bps q - cpt_calibrated_bps p)) div (cpt_raw_bps q - cpt_raw_bps p)"
      using prems by (intro zdiv_mono1 mult_right_mono) auto
    then show ?thesis using 1 prems calibrateFrom_segment(1) [OF prems(1,2)] by simp
  next
    case 2
    then show ?thesis using calibrateFrom_segment(3) [OF prems(1-3)] calibrateFrom_range [OF q, of y] by simp
  next
    case 3
    then show ?thesis using Cons.IH [OF q] prems(4) by simp
  qed
qed simp

lemma calibrate_range: "bpsPoints ps \<Longrightarrow> monotonePoints ps \<Longrightarrow> isBps raw \<Longrightarrow> isBps (calibrate ps raw)"
  using calibrateFrom_range by (cases ps) (auto simp: calibrate_def bpsPoints_def)

lemma calibrate_mono: "bpsPoints ps \<Longrightarrow> monotonePoints ps \<Longrightarrow> x \<le> y \<Longrightarrow> calibrate ps x \<le> calibrate ps y"
  using calibrateFrom_mono calibrateFrom_range by (cases ps) (auto simp: calibrate_def)

section \<open>The parts of a result\<close>

text \<open>A result is that of a failed gate, or has a score and a width.\<close>

lemma confidenceWidth_bps: "confidenceWidth E input = Inr w \<Longrightarrow> isBps w"
  by (auto simp: confidenceWidth_def bindE_eq_Inr)

lemma scoredAssessment_fields:
  "scoredAssessment E input expires score width = Inr a \<Longrightarrow> ta2_label a = scoreLabel input score width \<and> ta2_score_bps a = Some score
     \<and> ta2_confidence_interval_bps a = Some (max 0 (score - width), min 10000 (score + width))"
  by (auto simp: scoredAssessment_def bindE_eq_Inr)

lemma computeReferenceScoreV0_cases:
  assumes "computeReferenceScoreV0 E input = Inr a"
  obtains (failed) label code where "gateFailure input = Some (label, code)" "ta2_label a = label" "ta2_score_bps a = None" "ta2_confidence_interval_bps a = None"
    "ta2_reason_codes a = [code]"
  | (scored) score width where "gateFailure input = None" "monotonePoints (calibrationPoints input)" "score = calibrate (calibrationPoints input) (rawScore input)"
    "isBps width" "ta2_label a = scoreLabel input score width" "ta2_score_bps a = Some score"
    "ta2_confidence_interval_bps a = Some (max 0 (score - width), min 10000 (score + width))"
proof -
  obtain expires where "expiresAt E input = Inr expires" using assms by (auto simp: computeReferenceScoreV0_def bindE_eq_Inr)
  note a = assms [unfolded computeReferenceScoreV0_def this bindE_simps]
  show thesis
  proof (cases "gateFailure input")
    case None
    then obtain w where "monotonePoints (calibrationPoints input)" "confidenceWidth E input = Inr w"
      "scoredAssessment E input expires (calibrate (calibrationPoints input) (rawScore input)) w = Inr a"
      using a by (auto simp: Let_def bindE_eq_Inr split: if_splits)
    then show thesis using that(2) [OF None _ refl confidenceWidth_bps] scoredAssessment_fields by blast
  next
    case (Some f)
    then show thesis using a that(1) by (cases f) (auto simp: failureAssessment_def bindE_eq_Inr)
  qed
qed

lemma gateFailure_labels:
  "gateFailure input = Some (label, code) \<Longrightarrow> label \<in> {''cryptographic_failure'', ''revoked_or_compromised'', ''unsettled_or_unproven'',
     ''settlement_missing'', ''delegation_missing'', ''insufficient_evidence''}"
  by (auto simp: gateFailure_def Let_def split: if_splits)

lemma scoreLabel_labels:
  "scoreLabel input score width \<in> {''trusted'', ''likely_trusted'', ''insufficient_evidence'', ''unknown_caution'', ''medium_trust'', ''high_risk'', ''suspicious''}"
  by (auto simp: scoreLabel_def Let_def)

lemma scoreLabel_trusted:
  "scoreLabel input score width = ''trusted'' \<longleftrightarrow>
     score \<ge> th_trusted_bps (dp_thresholds (rsi_domain_policy input)) \<and> max 0 (score - width) \<ge> 8000 \<and> coverageOf input \<ge> 7500"
  by (simp add: scoreLabel_def Let_def)

lemma gateFailure_None:
  "gateFailure input = None \<longleftrightarrow>
     gr_schema_valid (rsi_gate_result input) \<and> gr_signature_valid (rsi_gate_result input) \<and> gr_key_active (rsi_gate_result input) \<and> gr_not_revoked (rsi_gate_result input)
     \<and> gr_included_in_log (rsi_gate_result input) \<noteq> Some False \<and> gr_checkpoint_valid (rsi_gate_result input) \<noteq> Some False
     \<and> (dp_requires_settlement (rsi_domain_policy input) \<longrightarrow> gr_settlement_satisfied (rsi_gate_result input) = Some True)
     \<and> (dp_requires_delegation_check (rsi_domain_policy input) = Some True \<longrightarrow> gr_delegation_valid (rsi_gate_result input) \<noteq> Some False)
     \<and> (dp_min_coverage_bps (rsi_domain_policy input) \<le> coverageOf input \<or> adverse input)"
  by (auto simp: gateFailure_def Let_def)

lemma rawScore_bps: "isBps (rawScore input)"
  by (simp add: rawScore_def Let_def)

lemma rawScore_mono:
  assumes "input' = input\<lparr>rsi_normalized_features_bps := fs\<rparr>"
    and "\<And>f. orElse (map_of (rsi_normalized_features_bps input) f) 0 \<le> orElse (map_of fs f) 0"
  shows "rawScore input \<le> rawScore input'"
proof -
  have "featureShare input f \<le> featureShare input' f" for f
    using assms(1) clampBps_mono [OF assms(2), of f] by (auto simp: featureShare_def intro!: zdiv_mono1 mult_right_mono)
  then have "sum_list (map (featureShare input) (featureIds input)) \<le> sum_list (map (featureShare input') (featureIds input'))"
    using assms(1) by (simp add: featureIds_def sum_list_mono)
  then show ?thesis using assms(1) by (auto simp: rawScore_def Let_def intro!: clampBps_mono)
qed

section \<open>The bootstrap without evidence\<close>

text \<open>Without evidence hashes the material of a draw is an undefined field, which the canonical encoder rejects.\<close>

lemma bootstrapPick_throws: "bootstrapPick E input seed [] r index = Inl ''TSL canonicalization rejects undefined field: evidenceMaterial''"
proof -
  have "sort_key fst [(''seed'', JStr seed), (''round'', JNum (JInt (int r))), (''index'', JNum (JInt (int index))), (''evidenceMaterial'', JUndefined)]
      = [(''evidenceMaterial'', JUndefined), (''index'', JNum (JInt (int index))), (''round'', JNum (JInt (int r))), (''seed'', JStr seed)]"
    by (simp add: less_char_def less_eq_char_def)
  then show ?thesis
    by (simp add: bootstrapPick_def Let_def drawIndex_def canonicalBytes_def canonicalize_def encodeCanonical_JObj encodeField_def del: encodeCanonical.simps)
qed

lemma sequenceE_first: "ms \<noteq> [] \<Longrightarrow> hd ms = Inl e \<Longrightarrow> sequenceE ms = Inl e"
  by (cases ms) auto

lemma bootstrapWidth_throws:
  assumes "featureIds input \<noteq> []" "orElse (rsi_bootstrap_evidence_hashes input) [] = []"
    and "Option.bind (rsi_confidence_profile input) cs_bootstrap_unit \<noteq> Some ''edge_counterparty_attestation''"
  shows "bootstrapWidth E input = Inl ''TSL canonicalization rejects undefined field: evidenceMaterial''"
proof -
  have r: "bootstrapRound E input seed [] r = Inl ''TSL canonicalization rejects undefined field: evidenceMaterial''" for seed r
    using assms(1) sequenceE_first [of "map (bootstrapPick E input seed [] r) [0..<length (featureIds input)]"]
    by (simp add: bootstrapRound_def bootstrapPick_throws hd_map)
  have "\<exists>h. sha256Canonical E [(''subject'', JStr (rsi_subject input)), (''issued_at'', JStr (rsi_issued_at input)),
     (''scoring_profile_id'', JStr (rsi_scoring_profile_id input))] = Inr h" by (rule sha256Canonical_total) simp
  moreover have "sequenceE (map (bootstrapRound E input seed []) [0..<nat (max 8 n)]) = Inl ''TSL canonicalization rejects undefined field: evidenceMaterial''" for seed n
    by (rule sequenceE_first) (simp_all add: hd_map r)
  ultimately show ?thesis using assms by (auto simp: bootstrapWidth_def Let_def split: option.split)
qed

section \<open>Concrete inputs\<close>

definition demoGates :: GateResult where
  "demoGates = \<lparr>gr_schema_valid = True, gr_canonicalization_valid = Some True, gr_signature_valid = True, gr_key_active = True, gr_not_revoked = True,
     gr_included_in_log = Some True, gr_checkpoint_valid = Some True, gr_settlement_satisfied = Some True, gr_delegation_valid = Some True\<rparr>"

definition demoCoverage :: EvidenceCoverageV1 where
  "demoCoverage = \<lparr>ec_type = ''tsl.evidence_coverage.v1'', ec_subject = ''tsl:alice'', ec_computed_at = ''2026-01-01T00:00:00.000Z'', ec_valid_signed_event_count = 25,
     ec_valid_receipt_count = 10, ec_unique_counterparty_count = 5, ec_distinct_community_count = 2, ec_attestation_count = 1, ec_recent_revocation_count = 0,
     ec_coverage_bps = 10000, ec_coverage_label = ''high'', ec_missing_evidence = [], ec_evidence_commitment = None\<rparr>"

definition demoDomain :: DomainPolicyV1 where
  "demoDomain = \<lparr>dp_type = ''tsl.domain_policy.v1'', dp_domain = ''demo'', dp_policy_version = ''1.0.0'', dp_requires_settlement = True,
     dp_requires_delegation_check = Some True, dp_requires_content_opening = None, dp_min_coverage_bps = 0, dp_max_assessment_age_seconds = 86400,
     dp_false_positive_cost_class = ''high'', dp_false_negative_cost_class = ''high'', dp_sparse_identity_default = ''unknown_caution'',
     dp_thresholds = \<lparr>th_trusted_bps = 9000, th_likely_trusted_bps = 7500, th_medium_bps = 5500, th_suspicious_bps = 3500, th_high_risk_bps = 1500\<rparr>\<rparr>"

definition demoScoreInput :: "int \<Rightarrow> string option \<Rightarrow> ReferenceScoreV0Input" where
  "demoScoreInput feature method = \<lparr>rsi_subject = ''tsl:alice'', rsi_issuer = ''tsl:provider'', rsi_scoring_profile_id = ''p'', rsi_model_version = ''v0'',
     rsi_gate_result = demoGates, rsi_evidence_coverage = demoCoverage, rsi_normalized_features_bps = [(''trust'', feature)], rsi_weights_bps = [(''trust'', 10000)],
     rsi_calibration_points = Some [\<lparr>cpt_raw_bps = 0, cpt_calibrated_bps = 0\<rparr>, \<lparr>cpt_raw_bps = 10000, cpt_calibrated_bps = 9500\<rparr>],
     rsi_confidence_profile = Some \<lparr>cs_min_width_bps = Some 100, cs_max_width_bps = Some 100, cs_coverage_weight_bps = None, cs_evidence_weight_bps = None,
       cs_bootstrap_seed = None, cs_bootstrap_rounds = None, cs_bootstrap_unit = None, cs_method = method\<rparr>,
     rsi_bootstrap_evidence_hashes = None, rsi_feature_vector_commitment = Some ''0x00'', rsi_coverage_penalty_weight_bps = None, rsi_has_adverse_evidence = None,
     rsi_domain_policy = demoDomain, rsi_issued_at = ''2026-01-01T00:00:00.000Z''\<rparr>"

lemma demo_score_parts:
  "gateFailure (demoScoreInput f m) = None" "featureIds (demoScoreInput f m) = [''trust'']" "rawScore (demoScoreInput f m) = clampBps (clampBps f)"
  "calibrationPoints (demoScoreInput f m) = [\<lparr>cpt_raw_bps = 0, cpt_calibrated_bps = 0\<rparr>, \<lparr>cpt_raw_bps = 10000, cpt_calibrated_bps = 9500\<rparr>]"
  by (simp_all add: gateFailure_def Let_def demoScoreInput_def demoGates_def demoDomain_def demoCoverage_def featureIds_def rawScore_def featureShare_def
      calibrationPoints_def clampBps_def insort_key_def)

lemma demo_expires: "\<exists>t. expiresAt demoEnv (demoScoreInput f m) = Inr t"
proof -
  have d: "dateParse demoEnv ''2026-01-01T00:00:00.000Z'' = Some 1767225600000" by code_simp
  show ?thesis by (simp add: expiresAt_def demoScoreInput_def d demoDomain_def toISOString_def)
qed

lemma demo_scored:
  assumes "isBps f"
  shows "\<exists>a. computeReferenceScoreV0 demoEnv (demoScoreInput f (Some ''analytic_profile_v1'')) = Inr a
     \<and> ta2_score_bps a = Some ((f * 9500) div 10000) \<and> ta2_label a = scoreLabel (demoScoreInput f (Some ''analytic_profile_v1'')) ((f * 9500) div 10000) 100"
proof -
  let ?i = "demoScoreInput f (Some ''analytic_profile_v1'')"
  have f: "0 \<le> (f * 9500) div 10000" "(f * 9500) div 10000 \<le> 9500" using assms by (auto simp: isBps_def intro: interpolate_between)
  have score: "calibrate (calibrationPoints ?i) (rawScore ?i) = (f * 9500) div 10000"
    using assms f by (simp add: demo_score_parts calibrate_def clampBps_id) (auto simp: isBps_def clampBps_def)
  have width: "confidenceWidth demoEnv ?i = Inr 100"
    by (simp add: confidenceWidth_def confidenceOf_def demoScoreInput_def clampBps_def)
  have "\<exists>h. sha256Canonical demoEnv [(''subject'', JStr (rsi_subject ?i)), (''score_bps'', JNum (JInt ((f * 9500) div 10000))), (''at'', JStr (rsi_issued_at ?i))] = Inr h"
    using f by (intro sha256Canonical_total) (simp add: isSafeInteger_def)
  moreover have "\<exists>h. sha256Canonical demoEnv (EvidenceCoverageV1_obj (rsi_evidence_coverage ?i)) = Inr h"
    by (rule sha256Canonical_total) (simp add: demoScoreInput_def demoCoverage_def EvidenceCoverageV1_obj_def isSafeInteger_def)
  moreover have "rsi_feature_vector_commitment ?i = Some ''0x00''" by (simp add: demoScoreInput_def)
  ultimately have "\<exists>a. scoredAssessment demoEnv ?i t ((f * 9500) div 10000) 100 = Inr a" for t by (auto simp: scoredAssessment_def)
  moreover obtain t where "expiresAt demoEnv ?i = Inr t" using demo_expires by blast
  moreover have "confidenceOf cs_method ''deterministic_bootstrap_v1'' ?i = ''analytic_profile_v1''" by (simp add: confidenceOf_def demoScoreInput_def)
  moreover have "monotonePoints (calibrationPoints ?i)" by (simp add: demo_score_parts)
  ultimately obtain a where "computeReferenceScoreV0 demoEnv ?i = Inr a" "scoredAssessment demoEnv ?i t ((f * 9500) div 10000) 100 = Inr a"
    using score width by (auto simp: computeReferenceScoreV0_def demo_score_parts(1) Let_def)
  then show ?thesis using scoredAssessment_fields by blast
qed

section \<open>Properties\<close>

text \<open>
  C17: The label \<^verbatim>\<open>trusted\<close> is earned. If \<^verbatim>\<open>computeReferenceScoreV0\<close> returns an assessment with this label, then the schema, the signature and the key passed, no inclusion or
  checkpoint check failed, settlement and delegation hold where the policy asks for them, at least three quarters of the evidence is covered, the score reaches
  the threshold of the policy, and even the lower end of the confidence interval is at least 8000.
\<close>

theorem referenceScore_trusted:
  assumes "computeReferenceScoreV0 E input = Inr a" "ta2_label a = ''trusted''"
  shows "gr_schema_valid (rsi_gate_result input) \<and> gr_signature_valid (rsi_gate_result input) \<and> gr_key_active (rsi_gate_result input)
     \<and> gr_not_revoked (rsi_gate_result input) \<and> gr_included_in_log (rsi_gate_result input) \<noteq> Some False \<and> gr_checkpoint_valid (rsi_gate_result input) \<noteq> Some False
     \<and> (dp_requires_settlement (rsi_domain_policy input) \<longrightarrow> gr_settlement_satisfied (rsi_gate_result input) = Some True)
     \<and> (dp_requires_delegation_check (rsi_domain_policy input) = Some True \<longrightarrow> gr_delegation_valid (rsi_gate_result input) \<noteq> Some False)
     \<and> ec_coverage_bps (rsi_evidence_coverage input) \<ge> 7500
     \<and> (\<exists>score lo hi. ta2_score_bps a = Some score \<and> ta2_confidence_interval_bps a = Some (lo, hi)
          \<and> th_trusted_bps (dp_thresholds (rsi_domain_policy input)) \<le> score \<and> 8000 \<le> lo \<and> lo \<le> score)"
  using assms(1)
proof (cases rule: computeReferenceScoreV0_cases)
  case (failed label code)
  then show ?thesis using gateFailure_labels [of input label code] assms(2) by auto
next
  case (scored score width)
  then have "scoreLabel input score width = ''trusted''" using assms(2) by simp
  then show ?thesis using scored gateFailure_None [of input] by (auto simp: scoreLabel_trusted isBps_def)
qed

theorem referenceScore_trusted_witness:
  "\<exists>a score lo hi. computeReferenceScoreV0 demoEnv (demoScoreInput 10000 (Some ''analytic_profile_v1'')) = Inr a \<and> ta2_label a = ''trusted''
     \<and> ta2_score_bps a = Some score \<and> ta2_confidence_interval_bps a = Some (lo, hi) \<and> 8000 \<le> lo"
proof -
  let ?i = "demoScoreInput 10000 (Some ''analytic_profile_v1'')"
  obtain a where a: "computeReferenceScoreV0 demoEnv ?i = Inr a" "ta2_label a = scoreLabel ?i 9500 100" using demo_scored [of 10000] by (auto simp: isBps_def)
  have "scoreLabel ?i 9500 100 = ''trusted''" by (simp add: scoreLabel_trusted demoScoreInput_def demoCoverage_def demoDomain_def)
  then show ?thesis using a referenceScore_trusted [of demoEnv ?i a] by auto
qed

text \<open>
  C18: The shape of an assessment. \<^verbatim>\<open>computeReferenceScoreV0\<close> returns either one of six failure labels without a score, or a score and a confidence interval around it, all
  within 0 and 10000 basis points, with one of seven labels.
\<close>

theorem referenceScore_wellformed:
  assumes "computeReferenceScoreV0 E input = Inr a"
  shows "ta2_score_bps a = None \<and> ta2_confidence_interval_bps a = None \<and> ta2_label a \<in> {''cryptographic_failure'', ''revoked_or_compromised'',
          ''unsettled_or_unproven'', ''settlement_missing'', ''delegation_missing'', ''insufficient_evidence''}
     \<or> (\<exists>score lo hi. ta2_score_bps a = Some score \<and> ta2_confidence_interval_bps a = Some (lo, hi) \<and> 0 \<le> lo \<and> lo \<le> score \<and> score \<le> hi \<and> hi \<le> 10000
          \<and> ta2_label a \<in> {''trusted'', ''likely_trusted'', ''insufficient_evidence'', ''unknown_caution'', ''medium_trust'', ''high_risk'', ''suspicious''})"
  using assms
proof (cases rule: computeReferenceScoreV0_cases)
  case (failed label code)
  then show ?thesis using gateFailure_labels [of input label code] by simp
next
  case (scored score width)
  have "isBps score" using calibrate_range [OF calibrationPoints_bps scored(2) rawScore_bps] scored(3) by simp
  then show ?thesis using scored(4-7) scoreLabel_labels [of input score width] by (intro disjI2 exI conjI) (auto simp: isBps_def)
qed

theorem referenceScore_wellformed_witness:
  "\<exists>a score lo hi. computeReferenceScoreV0 demoEnv (demoScoreInput 4000 (Some ''analytic_profile_v1'')) = Inr a
     \<and> ta2_score_bps a = Some score \<and> ta2_confidence_interval_bps a = Some (lo, hi) \<and> 0 \<le> lo \<and> lo \<le> score \<and> score \<le> hi \<and> hi \<le> 10000"
proof -
  obtain a where a: "computeReferenceScoreV0 demoEnv (demoScoreInput 4000 (Some ''analytic_profile_v1'')) = Inr a" "ta2_score_bps a = Some 3800"
    using demo_scored [of 4000] by (auto simp: isBps_def)
  then show ?thesis using referenceScore_wellformed [OF a(1)] by auto
qed

text \<open>
  More evidence never lowers the score. If two inputs differ only in their features, and every feature of the second is at least that of the first,
  then the score of the second is at least that of the first, through weighting, rounding, penalty, clamping and calibration.
\<close>

theorem referenceScore_monotone:
  assumes "computeReferenceScoreV0 E input = Inr a" "ta2_score_bps a = Some s"
    and "computeReferenceScoreV0 E (input\<lparr>rsi_normalized_features_bps := fs\<rparr>) = Inr b" "ta2_score_bps b = Some t"
    and "\<And>f. orElse (map_of (rsi_normalized_features_bps input) f) 0 \<le> orElse (map_of fs f) 0"
  shows "s \<le> t"
proof -
  have s: "monotonePoints (calibrationPoints input)" "s = calibrate (calibrationPoints input) (rawScore input)"
    using assms(1,2) by (auto elim: computeReferenceScoreV0_cases)
  have "t = calibrate (calibrationPoints (input\<lparr>rsi_normalized_features_bps := fs\<rparr>)) (rawScore (input\<lparr>rsi_normalized_features_bps := fs\<rparr>))"
    using assms(3,4) by (auto elim: computeReferenceScoreV0_cases)
  then have t: "t = calibrate (calibrationPoints input) (rawScore (input\<lparr>rsi_normalized_features_bps := fs\<rparr>))" by (simp add: calibrationPoints_def)
  show ?thesis unfolding s(2) t by (intro calibrate_mono calibrationPoints_bps s(1) rawScore_mono [OF refl assms(5)])
qed

theorem referenceScore_monotone_witness:
  "\<exists>a b s t. computeReferenceScoreV0 demoEnv (demoScoreInput 4000 (Some ''analytic_profile_v1'')) = Inr a \<and> ta2_score_bps a = Some s
     \<and> computeReferenceScoreV0 demoEnv (demoScoreInput 6000 (Some ''analytic_profile_v1'')) = Inr b \<and> ta2_score_bps b = Some t \<and> s \<le> t"
proof -
  let ?i = "demoScoreInput 4000 (Some ''analytic_profile_v1'')"
  obtain a where a: "computeReferenceScoreV0 demoEnv ?i = Inr a" "ta2_score_bps a = Some 3800" using demo_scored [of 4000] by (auto simp: isBps_def)
  obtain b where b: "computeReferenceScoreV0 demoEnv (demoScoreInput 6000 (Some ''analytic_profile_v1'')) = Inr b" "ta2_score_bps b = Some 5700"
    using demo_scored [of 6000] by (auto simp: isBps_def)
  have i: "demoScoreInput 6000 (Some ''analytic_profile_v1'') = ?i\<lparr>rsi_normalized_features_bps := [(''trust'', 6000)]\<rparr>" by (simp add: demoScoreInput_def)
  have "3800 \<le> (5700 :: int)"
    by (rule referenceScore_monotone [OF a b(1) [unfolded i] b(2)]) (simp add: demoScoreInput_def)
  then show ?thesis using a b by blast
qed

text \<open>
  The default confidence method throws without evidence hashes. If all gates pass, some feature has a weight, the method is the default and the caller gives no evidence
  hashes (and does not ask for the unit that needs them), \<^verbatim>\<open>computeReferenceScoreV0\<close> throws, since it hashes an object with an undefined field.
\<close>

theorem referenceScore_default_throws:
  assumes "expiresAt E input = Inr t" "gateFailure input = None" "monotonePoints (calibrationPoints input)" "rsi_weights_bps input \<noteq> []"
    and "Option.bind (rsi_confidence_profile input) cs_method = None" "orElse (rsi_bootstrap_evidence_hashes input) [] = []"
    and "Option.bind (rsi_confidence_profile input) cs_bootstrap_unit \<noteq> Some ''edge_counterparty_attestation''"
  shows "computeReferenceScoreV0 E input = Inl ''TSL canonicalization rejects undefined field: evidenceMaterial''"
proof -
  have "featureIds input \<noteq> []" using assms(4) by (metis featureIds_def length_0_conv length_map length_sort)
  then have "confidenceWidth E input = Inl ''TSL canonicalization rejects undefined field: evidenceMaterial''"
    using bootstrapWidth_throws [OF _ assms(6,7)] assms(5) by (simp add: confidenceWidth_def confidenceOf_def)
  then show ?thesis using assms by (simp add: computeReferenceScoreV0_def Let_def confidenceOf_def)
qed

theorem referenceScore_default_throws_witness:
  "computeReferenceScoreV0 demoEnv (demoScoreInput 4000 None) = Inl ''TSL canonicalization rejects undefined field: evidenceMaterial''"
proof -
  let ?i = "demoScoreInput 4000 None"
  obtain t where t: "expiresAt demoEnv ?i = Inr t" using demo_expires by blast
  have m: "monotonePoints (calibrationPoints ?i)" by (simp add: demo_score_parts)
  have "rsi_weights_bps ?i \<noteq> []" "Option.bind (rsi_confidence_profile ?i) cs_method = None" "orElse (rsi_bootstrap_evidence_hashes ?i) [] = []"
    "Option.bind (rsi_confidence_profile ?i) cs_bootstrap_unit \<noteq> Some ''edge_counterparty_attestation''" by (simp_all add: demoScoreInput_def)
  then show ?thesis by (rule referenceScore_default_throws [OF t demo_score_parts(1) m])
qed

end
