(* ===== verification/ReferenceFeatures.thy ===== *)
theory ReferenceFeatures
  imports Numbers Demo
begin

text \<open>
  The feature vector that the reference score is computed from (\<^verbatim>\<open>extractReferenceFeatureVectorV0\<close> of \<^verbatim>\<open>src/packages/core-ts/src/v2.ts\<close>): ages, counts, diversity,
  quality of attestations, cadence and distances, each in basis points. An age that is \<^verbatim>\<open>NaN\<close>, because a date does not parse, is \<open>None\<close>.
\<close>

section \<open>Saturation\<close>

definition expSaturationBps :: "host \<Rightarrow> int option \<Rightarrow> int \<Rightarrow> int \<Rightarrow> int" where
  "expSaturationBps H v cap scale = (case v of
       None \<Rightarrow> 0
     | Some n \<Rightarrow> clampBps \<lfloor>fmul (fsub 1 (h_exp H (fdiv (- of_int (max 0 (min n cap))) (of_int scale)))) 10000\<rfloor>)"

definition logCountBps :: "host \<Rightarrow> int \<Rightarrow> int \<Rightarrow> int" where
  "logCountBps H v cap = clampBps \<lfloor>fmul (fdiv (h_log H (of_int (1 + max 0 v))) (h_log H (of_int (1 + cap)))) 10000\<rfloor>"

definition cadenceStabilityBps :: "int list option \<Rightarrow> int option" where
  "cadenceStabilityBps intervals = (case intervals of
       None \<Rightarrow> None
     | Some xs \<Rightarrow>
         if length xs < 3 then None
         else let ordered = sort (map (max 0) xs); centre = middleOf ordered; deviations = sort (map (\<lambda>v. \<bar>v - centre\<bar>) ordered);
                  mad = max 1 (middleOf deviations); madz = (\<bar>last ordered - centre\<bar> * 1000) div mad in
              Some (clampBps (10000 - (min 8000 madz * 10000) div 8000)))"

section \<open>Input\<close>

record verificationFlags =
  vf_signature_valid :: "bool option"
  vf_key_active :: "bool option"
  vf_not_revoked :: "bool option"

record ReferenceFeatureVectorV0Input =
  rfi_identity :: "IdentityDocumentV1 option"
  rfi_envelope :: EventCommitmentV1
  rfi_receipts :: "ReceiptCommitmentV1 list"
  rfi_attestations :: "AttestationV1 list"
  rfi_attestations_v2 :: "AttestationV2 list"
  rfi_graph_feature_vector :: "GraphFeatureVectorV1 option"
  rfi_sybil_assessment :: "SybilAssessmentV1 option"
  rfi_drift_report :: "DriftReportV1 option"
  rfi_verification_checks :: "verificationFlags option"
  rfi_local_relationship_bps :: "int option"
  rfi_local_relationship_disclosed :: bool
  rfi_key_rotation_recovery_valid :: bool
  rfi_valid_signed_event_count :: "int option"
  rfi_clustered_receipt_count :: "int option"
  rfi_cadence_intervals_ms :: "int list option"
  rfi_trusted_neighbor_scores_bps :: "(string \<times> (int \<times> int)) list"
  rfi_trusted_neighbor_edge_weights_bps :: "(string \<times> int) list"
  rfi_computed_at :: "string option"

section \<open>Single features\<close>

definition ageDays :: "env \<Rightarrow> int option \<Rightarrow> string \<Rightarrow> int option" where
  "ageDays E now created = (case (now, dateParse E created) of (Some t, Some c) \<Rightarrow> Some (max 0 ((t - c) div 86400000)) | _ \<Rightarrow> None)"

definition identityAgeDays :: "env \<Rightarrow> ReferenceFeatureVectorV0Input \<Rightarrow> int option \<Rightarrow> int option" where
  "identityAgeDays E x now = (case rfi_identity x of
       None \<Rightarrow> Some 0
     | Some d \<Rightarrow> if idd_created_at d = [] then Some 0 else ageDays E now (idd_created_at d))"

definition activeKeyAgeDays :: "env \<Rightarrow> ReferenceFeatureVectorV0Input \<Rightarrow> int option \<Rightarrow> int option" where
  "activeKeyAgeDays E x now =
     (let age = identityAgeDays E x now;
          raw = (case Option.bind (rfi_identity x) (\<lambda>d. find (\<lambda>m. vm_status m = ''active'') (idd_verification_methods d)) of
                   None \<Rightarrow> age
                 | Some k \<Rightarrow> if vm_created_at k = [] then age else ageDays E now (vm_created_at k)) in
      if rfi_key_rotation_recovery_valid x then (case (raw, age) of (Some a, Some b) \<Rightarrow> Some (max a b) | _ \<Rightarrow> None) else raw)"

definition identityKeyAgeBps :: "int option \<Rightarrow> int option \<Rightarrow> int" where
  "identityKeyAgeBps a b = (case (a, b) of (Some m, Some n) \<Rightarrow> clampBps \<lfloor>fmul (fdiv (of_int (min m n)) 365) 10000\<rfloor> | _ \<Rightarrow> 0)"

definition receiptClusterId :: "ReceiptCommitmentV1 \<Rightarrow> string" where
  "receiptClusterId r = orElse (rc_metadata_commitment r) (rc_receiver r)"

definition attestationQuality :: "env \<Rightarrow> ReferenceFeatureVectorV0Input \<Rightarrow> int option \<Rightarrow> int" where
  "attestationQuality E x now =
     (let kept = filter (\<lambda>a. \<not> truthyStr (att_expires_at a) \<or> dateLt now (dateParse E (the (att_expires_at a)))) (rfi_attestations x);
          kept2 = filter (\<lambda>a. at2_expires_at a = [] \<or> dateLt now (dateParse E (at2_expires_at a))) (rfi_attestations_v2 x);
          points = (\<lambda>a. if at2_claim_polarity a = ''negative'' then -1000
                        else if at2_appeal_status a = Some ''reversed'' then 0
                        else max 0 (2000 - (if at2_severity a = ''critical'' then 2500 else if at2_severity a = ''high'' then 1500
                                            else if at2_severity a = ''medium'' then 750 else 0))) in
      clampBps (2000 * int (length kept) + sum_list (map points kept2)))"

definition cadenceBps :: "ReferenceFeatureVectorV0Input \<Rightarrow> int" where
  "cadenceBps x = (case cadenceStabilityBps (rfi_cadence_intervals_ms x) of
       Some c \<Rightarrow> c
     | None \<Rightarrow> (case Option.bind (rfi_drift_report x) (\<lambda>d. Option.bind (dr_component_scores_bps d) (\<lambda>m. map_of m ''cadence'')) of
                 Some c \<Rightarrow> clampBps (10000 - c)
               | None \<Rightarrow> 5000))"

definition adversarialProximityBps :: "host \<Rightarrow> ReferenceFeatureVectorV0Input \<Rightarrow> int" where
  "adversarialProximityBps H x = (case Option.bind (rfi_graph_feature_vector x) gv_adversarial_seed_distance_bps of
       Some d \<Rightarrow> clampBps \<lfloor>fmul (h_exp H (- h_pow H (fdiv (of_int (10000 - d)) 10000) 2)) 10000\<rfloor>
     | None \<Rightarrow> clampBps (10000 - (case rfi_graph_feature_vector x of
                 Some v \<Rightarrow> gv_adversarial_proximity_bps v
               | None \<Rightarrow> orElse (Option.bind (rfi_sybil_assessment x) sa_seed_contamination_bps) 0)))"

definition trustedNeighborBps :: "ReferenceFeatureVectorV0Input \<Rightarrow> int" where
  "trustedNeighborBps x =
     (let scores = rfi_trusted_neighbor_scores_bps x;
          w = (\<lambda>i. clampBps (orElse (map_of (rfi_trusted_neighbor_edge_weights_bps x) i) 0));
          denominator = sum_list (map (\<lambda>(i, _). w i) scores) in
      if scores \<noteq> [] \<and> 0 < denominator
      then clampBps \<lfloor>fdiv (of_int (sum_list (map (\<lambda>(i, (s, c)). (w i * clampBps s * clampBps c) div 100000000) scores))) (max 1 (fdiv (of_int denominator) 10000))\<rfloor>
      else if scores \<noteq> [] then clampBps (sum_list (map (\<lambda>(_, (s, c)). (clampBps s * clampBps c) div 10000) scores) div int (length scores))
      else orElse (Option.bind (rfi_graph_feature_vector x) gv_trusted_neighbor_mass_bps) 0)"

section \<open>The vector\<close>

definition extractReferenceFeatureVectorV0 :: "host \<Rightarrow> env \<Rightarrow> ReferenceFeatureVectorV0Input \<Rightarrow> (string \<times> int option) list" where
  "extractReferenceFeatureVectorV0 H E x =
     (let now = dateParse E (orElse (rfi_computed_at x) (ev_timestamp (rfi_envelope x)));
          age = identityAgeDays E x now; keyAge = activeKeyAgeDays E x now;
          receipts = rfi_receipts x; counterparties = int (length (uniqueInOrder (map receiptClusterId receipts)));
          disputed = int (length (filter (\<lambda>r. rc_receipt_class r = ''disputed'') receipts));
          flags = rfi_verification_checks x; v = rfi_graph_feature_vector x;
          signatureOk = (Option.bind flags vf_signature_valid = Some True);
          keyOk = (Option.bind flags vf_key_active \<noteq> Some False \<and> Option.bind flags vf_not_revoked \<noteq> Some False) in
      [(''crypto_validity'', Some (if signatureOk \<and> keyOk then 10000 else 0)),
       (''identity_age'', Some (expSaturationBps H age 730 180)),
       (''active_key_age'', Some (expSaturationBps H keyAge 365 90)),
       (''identity_key_age'', Some (identityKeyAgeBps age keyAge)),
       (''signed_event_count'', Some (logCountBps H (orElse (rfi_valid_signed_event_count x) (if signatureOk then 1 else 0)) 1000)),
       (''receipt_count'', Some (logCountBps H (orElse (rfi_clustered_receipt_count x) counterparties) 300)),
       (''counterparty_diversity'', Some (case v of Some g \<Rightarrow> clampBps (10000 - gv_counterparty_hhi_bps g) | None \<Rightarrow> min 10000 (counterparties * 2000))),
       (''community_escape'', Some (orElse (Option.bind v gv_community_escape_bps) 0)),
       (''trusted_neighbor_mass'', Some (trustedNeighborBps x)),
       (''dispute_rate'', Some (if receipts \<noteq> [] then bps disputed (int (length receipts) + disputed) else 0)),
       (''attestation_quality'', Some (attestationQuality E x now)),
       (''revocation_risk'', Some (if Option.bind flags vf_not_revoked = Some False then 0 else 10000)),
       (''cadence'', Some (cadenceBps x)),
       (''dormant_reactivation'', Some (if map_option dr_drift_label (rfi_drift_report x) = Some ''dormant_reactivation'' then 0 else 10000)),
       (''adversarial_proximity'', Some (adversarialProximityBps H x)),
       (''local_relationship'', if rfi_local_relationship_disclosed x then map_option clampBps (rfi_local_relationship_bps x) else None),
       (''evidence_coverage'', None),
       (''reciprocity'', Some (case v of Some g \<Rightarrow> gv_reciprocity_bps g | None \<Rightarrow> 0)),
       (''receipt_quality'', Some (min 10000 (int (length receipts) * 1000 + counterparties * 500))),
       (''temporal_consistency'', Some (case rfi_drift_report x of Some d \<Rightarrow> clampBps (10000 - dr_drift_score_bps d) | None \<Rightarrow> 5000)),
       (''sybil_resistance'', map_option (\<lambda>a. clampBps (10000 - sa_risk_score_bps a)) (rfi_sybil_assessment x)),
       (''cluster_concentration'', Option.bind v gv_cluster_concentration_bps)])"

section \<open>Ranges\<close>

lemma cadenceBps_isBps: "isBps (cadenceBps x)"
proof (cases "cadenceStabilityBps (rfi_cadence_intervals_ms x)")
  case None
  then show ?thesis by (simp add: cadenceBps_def split: option.split) (simp add: isBps_def)
next
  case (Some c)
  then have "isBps c" by (auto simp: cadenceStabilityBps_def Let_def split: option.splits if_splits)
  then show ?thesis using Some by (simp add: cadenceBps_def)
qed

lemma bounded_counts: "0 \<le> (c :: int) \<Longrightarrow> isBps (min 10000 c)"
  by (simp add: isBps_def)

lemma orElse_pred: "P (orElse v 0) \<Longrightarrow> pred_option P v"
  by (cases v) simp_all

text \<open>The features taken over from a graph vector as they are.\<close>

definition graphFieldsInRange :: "GraphFeatureVectorV1 option \<Rightarrow> bool" where
  "graphFieldsInRange v = (case v of None \<Rightarrow> True | Some g \<Rightarrow> isBps (gv_reciprocity_bps g) \<and> isBps (orElse (gv_community_escape_bps g) 0)
     \<and> isBps (orElse (gv_trusted_neighbor_mass_bps g) 0) \<and> isBps (orElse (gv_cluster_concentration_bps g) 0))"

text \<open>
  If the fields of the graph vector are in basis points, every feature that the extraction reports lies between \<open>0\<close> and \<open>10000\<close>, for all dates, counts and
  attestations and whatever the host computes for exponentials and logarithms.
\<close>

theorem referenceFeatures_in_range:
  assumes "graphFieldsInRange (rfi_graph_feature_vector x)"
  shows "list_all (\<lambda>(_, v). pred_option isBps v) (extractReferenceFeatureVectorV0 H E x)"
proof -
  have "isBps (expSaturationBps H a c s)" for a c s by (simp add: expSaturationBps_def isBps_def split: option.split)
  moreover have "isBps (identityKeyAgeBps a b)" for a b by (simp add: identityKeyAgeBps_def isBps_def split: option.split prod.split)
  moreover have "isBps (logCountBps H n c)" for n c by (simp add: logCountBps_def)
  moreover have "isBps (attestationQuality E x n)" for n by (simp add: attestationQuality_def Let_def)
  moreover have "isBps (adversarialProximityBps H x)" by (simp add: adversarialProximityBps_def split: option.split)
  moreover have "isBps (trustedNeighborBps x)"
    using assms(1) by (cases "rfi_graph_feature_vector x") (auto simp: trustedNeighborBps_def Let_def graphFieldsInRange_def isBps_def)
  moreover have "isBps 0" "isBps 10000" "isBps 5000" by (simp_all add: isBps_def)
  moreover have "pred_option isBps (if b then map_option clampBps r else None)" "pred_option isBps (map_option (\<lambda>a. clampBps (h a)) q)" for b r q and h :: "SybilAssessmentV1 \<Rightarrow> int"
    by (cases r; simp) (cases q; simp)
  moreover have "pred_option isBps (Option.bind (rfi_graph_feature_vector x) gv_cluster_concentration_bps)" "isBps (orElse (Option.bind (rfi_graph_feature_vector x) gv_community_escape_bps) 0)"
    "isBps (case rfi_graph_feature_vector x of Some g \<Rightarrow> gv_reciprocity_bps g | None \<Rightarrow> 0)"
    using assms orElse_pred [of isBps] \<open>isBps 0\<close> by (cases "rfi_graph_feature_vector x"; simp add: graphFieldsInRange_def)+
  moreover have "isBps (case rfi_drift_report x of Some d \<Rightarrow> clampBps (10000 - dr_drift_score_bps d) | None \<Rightarrow> 5000)"
    by (simp add: isBps_def split: option.split)
  moreover have "isBps (case rfi_graph_feature_vector x of Some g \<Rightarrow> clampBps (10000 - gv_counterparty_hhi_bps g) | None \<Rightarrow> min 10000 (int n * 2000))" for n
    by (simp add: isBps_def split: option.split)
  ultimately show ?thesis
    using cadenceBps_isBps [of x] bounded_counts by (simp add: extractReferenceFeatureVectorV0_def Let_def)
qed

definition demoReferenceInput :: ReferenceFeatureVectorV0Input where
  "demoReferenceInput = \<lparr>rfi_identity = None, rfi_envelope = demoSigned [], rfi_receipts = [], rfi_attestations = [], rfi_attestations_v2 = [],
     rfi_graph_feature_vector = None, rfi_sybil_assessment = None, rfi_drift_report = None, rfi_verification_checks = None, rfi_local_relationship_bps = Some 20000,
     rfi_local_relationship_disclosed = True, rfi_key_rotation_recovery_valid = False, rfi_valid_signed_event_count = None, rfi_clustered_receipt_count = None,
     rfi_cadence_intervals_ms = Some [1, 2, 900], rfi_trusted_neighbor_scores_bps = [], rfi_trusted_neighbor_edge_weights_bps = [], rfi_computed_at = None\<rparr>"

theorem referenceFeatures_in_range_witness:
  "list_all (\<lambda>(_, v). pred_option isBps v) (extractReferenceFeatureVectorV0 \<lparr>h_exp = (\<lambda>_. 7), h_log = (\<lambda>_. 1), h_pow = (\<lambda>_ _. 1), h_localeCompare = (\<lambda>_ _. 0)\<rparr>
     demoEnv demoReferenceInput)"
  using referenceFeatures_in_range [of demoReferenceInput] by (simp add: graphFieldsInRange_def demoReferenceInput_def)

end
