(* ===== verification/ProofBundle.thy ===== *)
theory ProofBundle
  imports VerifierTypes Delegation Checkpoint
begin

text \<open>
  Redaction of proof bundles (\<^verbatim>\<open>src/packages/core-ts/src/proofBundle.ts\<close>): private parts of a bundle are disclosed only under a signed, current and unrevoked consent
  of the sender for the verifier and the purpose at hand.
\<close>

section \<open>Consents\<close>

record ProofBundleDisclosureOptions =
  op_disclosure_consents :: "DisclosureConsentV1 list"
  op_consent_identities :: "IdentityDocumentV1 list"
  op_resolve_identity :: "(string \<Rightarrow> string \<Rightarrow> IdentityDocumentV1 option) option"
  op_include_receipts :: bool
  op_include_attestations :: bool
  op_verifier_or_provider :: "string option"
  op_purpose :: "string option"
  op_disclosure_purpose :: "string option"
  op_at_time_ms :: "int option"
  op_revoked_disclosure_pointers :: "string list"

definition resolveConsentIdentity :: "ProofBundleDisclosureOptions \<Rightarrow> string \<Rightarrow> string \<Rightarrow> IdentityDocumentV1 option" where
  "resolveConsentIdentity opts subject atTime =
     (case Option.bind (op_resolve_identity opts) (\<lambda>f. f subject atTime) of
        Some d \<Rightarrow> Some d
      | None \<Rightarrow> find (\<lambda>d. idd_id d = subject) (op_consent_identities opts))"

definition consentSignatureValid :: "env \<Rightarrow> ProofBundleDisclosureOptions \<Rightarrow> DisclosureConsentV1 \<Rightarrow> bool res" where
  "consentSignatureValid E opts consent =
     (if \<not> sv_valid (validateSchema E ''disclosureConsentV1'' (JObj (DisclosureConsentV1_obj consent))) then Inr False
      else case Option.bind (resolveConsentIdentity opts (dc_subject consent) (dc_issued_at consent)) (\<lambda>d.
                  find (\<lambda>m. vm_type m = ''ed25519'' \<and> keyActiveAt E (Some m) (dc_issued_at consent) \<and> notRevokedAt E (Some m) (Some (dc_issued_at consent)))
                    (idd_verification_methods d)) of
             None \<Rightarrow> Inr False
           | Some key \<Rightarrow> bindE (disclosureConsentV1Hash E consent) (\<lambda>h. verifyEd25519 E (vm_public_key key) (DText h) (dc_signature consent)))"

fun consentLoop :: "env \<Rightarrow> ProofBundleDisclosureOptions \<Rightarrow> string \<Rightarrow> string list \<Rightarrow> string \<Rightarrow> string \<Rightarrow> int \<Rightarrow> DisclosureConsentV1 list \<Rightarrow> bool res" where
  "consentLoop E opts subject fields' verifier purpose now [] = Inr False"
| "consentLoop E opts subject fields' verifier purpose now (c # cs) =
     (let next = consentLoop E opts subject fields' verifier purpose now cs in
      if dc_subject c \<noteq> subject then next
      else bindE (consentSignatureValid E opts c) (\<lambda>valid.
        if \<not> valid then next
        else if dc_verifier_or_provider c \<noteq> verifier then next
        else if dc_purpose c \<noteq> purpose then next
        else if dateLt (Some now) (dateParse E (dc_issued_at c)) \<or> dateLe (dateParse E (dc_expires_at c)) (Some now) then next
        else if dc_revocation_pointer c \<in> set (op_revoked_disclosure_pointers opts) then next
        else if \<forall>f \<in> set fields'. f \<in> set (dc_allowed_field_classes c) \<and> f \<notin> set (dc_forbidden_field_classes c) then Inr True
        else next))"

definition consentAllows :: "env \<Rightarrow> ProofBundleDisclosureOptions \<Rightarrow> string \<Rightarrow> string list \<Rightarrow> string option \<Rightarrow> string option \<Rightarrow> bool res" where
  "consentAllows E opts subject fieldClasses verifier purpose =
     (if \<not> truthyStr verifier \<or> \<not> truthyStr purpose then Inr False
      else consentLoop E opts subject fieldClasses (the verifier) (the purpose) (orElse (op_at_time_ms opts) (now_ms E)) (op_disclosure_consents opts))"

definition purposeOf :: "ProofBundleDisclosureOptions \<Rightarrow> string option" where
  "purposeOf opts = (case op_purpose opts of Some p \<Rightarrow> Some p | None \<Rightarrow> op_disclosure_purpose opts)"

definition proofBundleAllowsFieldClass :: "env \<Rightarrow> string \<Rightarrow> string list \<Rightarrow> ProofBundleDisclosureOptions \<Rightarrow> bool res" where
  "proofBundleAllowsFieldClass E subject fieldClasses opts = consentAllows E opts subject fieldClasses (op_verifier_or_provider opts) (purposeOf opts)"

section \<open>Redaction\<close>

definition filterAttestations :: "AttestationV1 list option \<Rightarrow> bool \<Rightarrow> AttestationV1 list" where
  "filterAttestations attestations includeRestricted = filter (\<lambda>a. att_visibility a = ''public'' \<or> includeRestricted) (orElse attestations [])"

definition bundlePrivateGraph :: "ProofBundleV1 \<Rightarrow> bool" where
  "bundlePrivateGraph b = (case pb_graph_feature_vector b of
       None \<Rightarrow> False
     | Some v \<Rightarrow> gv_privacy_disclosure_level v \<noteq> ''aggregate_only'' \<and> gv_privacy_disclosure_level v \<noteq> ''public'')"

definition bundlePrivateMetadata :: "ProofBundleV1 \<Rightarrow> bool" where
  "bundlePrivateMetadata b \<longleftrightarrow> (\<exists>m \<in> set (orElse (pb_metadata_fingerprints b) []). mf_scope_class m \<noteq> ''public_commitment'')"

definition rawMessageOf :: "ProofBundleV1 \<Rightarrow> string option" where
  "rawMessageOf b = Option.bind (pb_message_disclosure b) md_raw_message"

definition contentSaltOf :: "ProofBundleV1 \<Rightarrow> string option" where
  "contentSaltOf b = Option.bind (pb_message_disclosure b) md_content_salt"

text \<open>\<^verbatim>\<open>condition && proofBundleAllowsFieldClass(subject, [c], options)\<close>: the consents are searched only if the condition holds.\<close>

definition allowedIf :: "bool \<Rightarrow> env \<Rightarrow> string \<Rightarrow> string \<Rightarrow> ProofBundleDisclosureOptions \<Rightarrow> bool res" where
  "allowedIf b E subject c opts = (if b then proofBundleAllowsFieldClass E subject [c] opts else Inr False)"

text \<open>The six decisions; the last two are also taken if there is nothing private.\<close>

record disclosureFlags =
  df_counterparties :: bool
  df_restrictedAttestations :: bool
  df_rawContent :: bool
  df_contentSalt :: bool
  df_privateGraph :: bool
  df_privateMetadata :: bool

definition disclosureFlagsOf :: "env \<Rightarrow> ProofBundleV1 \<Rightarrow> ProofBundleDisclosureOptions \<Rightarrow> disclosureFlags res" where
  "disclosureFlagsOf E b opts =
     (let subject = ev_sender (pb_envelope b) in
      bindE (allowedIf (op_include_receipts opts) E subject ''exact_counterparties'' opts) (\<lambda>counterparties.
      bindE (allowedIf (op_include_attestations opts) E subject ''attestations'' opts) (\<lambda>restricted.
      bindE (allowedIf (truthyStr (rawMessageOf b)) E subject ''raw_content'' opts) (\<lambda>raw.
      bindE (allowedIf (truthyStr (contentSaltOf b)) E subject ''content_salt'' opts) (\<lambda>salt.
      bindE (allowedIf (bundlePrivateGraph b) E subject ''private_graph'' opts) (\<lambda>graph.
      bindE (allowedIf (bundlePrivateMetadata b) E subject ''private_metadata'' opts) (\<lambda>metadata.
        Inr \<lparr>df_counterparties = counterparties, df_restrictedAttestations = restricted, df_rawContent = raw, df_contentSalt = salt,
          df_privateGraph = (graph \<or> \<not> bundlePrivateGraph b), df_privateMetadata = (metadata \<or> \<not> bundlePrivateMetadata b)\<rparr>)))))))"

definition redactedFields :: "ProofBundleV1 \<Rightarrow> disclosureFlags \<Rightarrow> string list" where
  "redactedFields b d =
     sort (uniqueInOrder ((if df_rawContent d then [] else [''raw_content'']) @ (if df_contentSalt d then [] else [''content_salt''])
       @ (if df_counterparties d then [] else [''exact_counterparties''])
       @ (if \<not> df_restrictedAttestations d \<and> (\<exists>a \<in> set (orElse (pb_attestations b) []). att_visibility a \<noteq> ''public'') then [''restricted_attestations''] else [])
       @ (if \<not> df_privateGraph d \<and> pb_graph_feature_vector b \<noteq> None then [''private_graph''] else [])
       @ (if \<not> df_privateMetadata d \<and> truthyList (pb_metadata_fingerprints b) then [''private_metadata''] else [])
       @ [''platform'', ''ip_address'', ''user_agent'']))"

definition redactBundle :: "ProofBundleV1 \<Rightarrow> disclosureFlags \<Rightarrow> ProofBundleV1" where
  "redactBundle b d =
     (let receipts = (if df_counterparties d then pb_receipts b else None); attestations = filterAttestations (pb_attestations b) (df_restrictedAttestations d) in
      b\<lparr>pb_receipts := receipts, pb_attestations := (if attestations = [] then None else Some attestations),
        pb_metadata_fingerprints := (if df_privateMetadata d then pb_metadata_fingerprints b else None),
        pb_graph_feature_vector := (if df_privateGraph d then pb_graph_feature_vector b else None),
        pb_message_disclosure := (if df_rawContent d \<or> df_contentSalt d
          then Some \<lparr>md_raw_message = (if df_rawContent d then rawMessageOf b else None), md_content_salt = (if df_contentSalt d then contentSaltOf b else None)\<rparr>
          else None),
        pb_redaction_manifest := \<lparr>rm_raw_content_included = df_rawContent d, rm_content_salt_included = Some (df_contentSalt d),
          rm_exact_counterparties_included = truthyList receipts, rm_metadata_fields_redacted = redactedFields b d\<rparr>\<rparr>)"

definition filterProofBundleDisclosures :: "env \<Rightarrow> ProofBundleV1 \<Rightarrow> ProofBundleDisclosureOptions \<Rightarrow> ProofBundleV1 res" where
  "filterProofBundleDisclosures E b opts = bindE (disclosureFlagsOf E b opts) (\<lambda>d. Inr (redactBundle b d))"

section \<open>Detection\<close>

definition refused :: "bool \<Rightarrow> env \<Rightarrow> string \<Rightarrow> string \<Rightarrow> ProofBundleDisclosureOptions \<Rightarrow> bool res" where
  "refused b E subject c opts = (if b then bindE (proofBundleAllowsFieldClass E subject [c] opts) (\<lambda>ok. Inr (\<not> ok)) else Inr False)"

fun orE :: "bool res list \<Rightarrow> bool res" where
  "orE [] = Inr False"
| "orE (m # ms) = bindE m (\<lambda>b. if b then Inr True else orE ms)"

definition proofBundleHasPrivateDisclosureWithoutConsent :: "env \<Rightarrow> ProofBundleV1 \<Rightarrow> ProofBundleDisclosureOptions \<Rightarrow> bool res" where
  "proofBundleHasPrivateDisclosureWithoutConsent E b opts =
     (let subject = ev_sender (pb_envelope b) in
      orE [refused (truthyList (pb_receipts b)) E subject ''exact_counterparties'' opts,
           refused (\<exists>a \<in> set (orElse (pb_attestations b) []). att_visibility a \<noteq> ''public'') E subject ''attestations'' opts,
           refused (truthyStr (rawMessageOf b)) E subject ''raw_content'' opts,
           refused (truthyStr (contentSaltOf b)) E subject ''content_salt'' opts,
           refused (bundlePrivateGraph b) E subject ''private_graph'' opts,
           refused (bundlePrivateMetadata b) E subject ''private_metadata'' opts])"

section \<open>Redaction leaves nothing without consent\<close>

text \<open>A consent in force: signed by a key of the subject that was active when it was issued, for this verifier and purpose, current and not revoked.\<close>

definition consentInForce :: "env \<Rightarrow> ProofBundleDisclosureOptions \<Rightarrow> string \<Rightarrow> string \<Rightarrow> DisclosureConsentV1 \<Rightarrow> bool" where
  "consentInForce E opts subject field' c \<longleftrightarrow> c \<in> set (op_disclosure_consents opts) \<and> dc_subject c = subject
     \<and> op_verifier_or_provider opts = Some (dc_verifier_or_provider c) \<and> purposeOf opts = Some (dc_purpose c)
     \<and> field' \<in> set (dc_allowed_field_classes c) \<and> field' \<notin> set (dc_forbidden_field_classes c)
     \<and> dc_revocation_pointer c \<notin> set (op_revoked_disclosure_pointers opts)
     \<and> (let now = orElse (op_at_time_ms opts) (now_ms E) in
        \<not> dateLt (Some now) (dateParse E (dc_issued_at c)) \<and> \<not> dateLe (dateParse E (dc_expires_at c)) (Some now))
     \<and> (\<exists>d k h. resolveConsentIdentity opts subject (dc_issued_at c) = Some d \<and> k \<in> set (idd_verification_methods d) \<and> vm_type k = ''ed25519''
          \<and> keyActiveAt E (Some k) (dc_issued_at c) \<and> notRevokedAt E (Some k) (Some (dc_issued_at c)) \<and> disclosureConsentV1Hash E c = Inr h
          \<and> verifyEd25519 E (vm_public_key k) (DText h) (dc_signature c) = Inr True)"

lemma consentSignatureValid_True:
  assumes "consentSignatureValid E opts c = Inr True"
  shows "\<exists>d k h. resolveConsentIdentity opts (dc_subject c) (dc_issued_at c) = Some d \<and> k \<in> set (idd_verification_methods d) \<and> vm_type k = ''ed25519''
     \<and> keyActiveAt E (Some k) (dc_issued_at c) \<and> notRevokedAt E (Some k) (Some (dc_issued_at c)) \<and> disclosureConsentV1Hash E c = Inr h
     \<and> verifyEd25519 E (vm_public_key k) (DText h) (dc_signature c) = Inr True"
proof -
  define key where "key = Option.bind (resolveConsentIdentity opts (dc_subject c) (dc_issued_at c)) (\<lambda>d.
    find (\<lambda>m. vm_type m = ''ed25519'' \<and> keyActiveAt E (Some m) (dc_issued_at c) \<and> notRevokedAt E (Some m) (Some (dc_issued_at c))) (idd_verification_methods d))"
  obtain k where k: "key = Some k" "bindE (disclosureConsentV1Hash E c) (\<lambda>h. verifyEd25519 E (vm_public_key k) (DText h) (dc_signature c)) = Inr True"
    using assms by (auto simp: consentSignatureValid_def key_def [symmetric] split: if_splits option.splits)
  then obtain d where d: "resolveConsentIdentity opts (dc_subject c) (dc_issued_at c) = Some d"
    "find (\<lambda>m. vm_type m = ''ed25519'' \<and> keyActiveAt E (Some m) (dc_issued_at c) \<and> notRevokedAt E (Some m) (Some (dc_issued_at c))) (idd_verification_methods d) = Some k"
    by (auto simp: key_def bind_eq_Some_conv)
  show ?thesis using k(2) d(1) find_SomeD [OF d(2)] by (auto simp: bindE_eq_Inr)
qed

lemma consentLoop_True:
  assumes "consentLoop E opts subject [f] verifier purpose now cs = Inr True"
  shows "\<exists>c \<in> set cs. dc_subject c = subject \<and> consentSignatureValid E opts c = Inr True \<and> dc_verifier_or_provider c = verifier \<and> dc_purpose c = purpose
     \<and> \<not> dateLt (Some now) (dateParse E (dc_issued_at c)) \<and> \<not> dateLe (dateParse E (dc_expires_at c)) (Some now)
     \<and> dc_revocation_pointer c \<notin> set (op_revoked_disclosure_pointers opts) \<and> f \<in> set (dc_allowed_field_classes c) \<and> f \<notin> set (dc_forbidden_field_classes c)"
  using assms
proof (induction cs)
  case (Cons c cs)
  show ?case
  proof (cases "consentLoop E opts subject [f] verifier purpose now cs = Inr True")
    case True
    then show ?thesis using Cons.IH by auto
  next
    case False
    then show ?thesis using Cons.prems by (auto simp: Let_def bindE_eq_Inr simp del: dateLt_Some dateLe_Some split: if_splits)
  qed
qed simp

lemma allowed_consent:
  assumes "proofBundleAllowsFieldClass E subject [f] opts = Inr True"
  shows "\<exists>c. consentInForce E opts subject f c"
proof -
  have t: "truthyStr (op_verifier_or_provider opts)" "truthyStr (purposeOf opts)"
    and l: "consentLoop E opts subject [f] (the (op_verifier_or_provider opts)) (the (purposeOf opts)) (orElse (op_at_time_ms opts) (now_ms E)) (op_disclosure_consents opts) = Inr True"
    using assms by (auto simp: proofBundleAllowsFieldClass_def consentAllows_def split: if_splits)
  have v: "op_verifier_or_provider opts = Some (the (op_verifier_or_provider opts))" "purposeOf opts = Some (the (purposeOf opts))"
    using t by (cases "op_verifier_or_provider opts"; simp) (use t in \<open>cases "purposeOf opts"; simp\<close>)
  show ?thesis using consentLoop_True [OF l] v consentSignatureValid_True unfolding consentInForce_def Let_def by metis
qed

lemma allowedIf_refused: "allowedIf b E s f opts = Inr d \<Longrightarrow> (b' \<longrightarrow> b \<and> d) \<Longrightarrow> refused b' E s f opts = Inr False"
  by (auto simp: allowedIf_def refused_def split: if_splits)

lemma redactBundle_sel:
  "pb_envelope (redactBundle b d) = pb_envelope b" "pb_receipts (redactBundle b d) = (if df_counterparties d then pb_receipts b else None)"
  "orElse (pb_attestations (redactBundle b d)) [] = filterAttestations (pb_attestations b) (df_restrictedAttestations d)"
  "rawMessageOf (redactBundle b d) = (if df_rawContent d then rawMessageOf b else None)"
  "contentSaltOf (redactBundle b d) = (if df_contentSalt d then contentSaltOf b else None)"
  "bundlePrivateGraph (redactBundle b d) \<longleftrightarrow> df_privateGraph d \<and> bundlePrivateGraph b" "bundlePrivateMetadata (redactBundle b d) \<longleftrightarrow> df_privateMetadata d \<and> bundlePrivateMetadata b"
  by (simp_all add: redactBundle_def Let_def rawMessageOf_def contentSaltOf_def bundlePrivateGraph_def bundlePrivateMetadata_def)

text \<open>
  C16: A filtered bundle passes the check for private disclosures: whatever the bundle held, what is left of receipts, restricted attestations, the raw message, its salt,
  the private graph and the private metadata is covered by the consents that the filter was given.
\<close>

theorem filtered_bundle_has_consent:
  assumes "filterProofBundleDisclosures E b opts = Inr b'"
  shows "proofBundleHasPrivateDisclosureWithoutConsent E b' opts = Inr False"
proof -
  let ?s = "ev_sender (pb_envelope b)"
  obtain d where d: "disclosureFlagsOf E b opts = Inr d" "b' = redactBundle b d" using assms by (auto simp: filterProofBundleDisclosures_def bindE_eq_Inr)
  obtain f1 f2 f3 f4 f5 f6 where f: "allowedIf (op_include_receipts opts) E ?s ''exact_counterparties'' opts = Inr f1"
    "allowedIf (op_include_attestations opts) E ?s ''attestations'' opts = Inr f2" "allowedIf (truthyStr (rawMessageOf b)) E ?s ''raw_content'' opts = Inr f3"
    "allowedIf (truthyStr (contentSaltOf b)) E ?s ''content_salt'' opts = Inr f4" "allowedIf (bundlePrivateGraph b) E ?s ''private_graph'' opts = Inr f5"
    "allowedIf (bundlePrivateMetadata b) E ?s ''private_metadata'' opts = Inr f6"
    "d = \<lparr>df_counterparties = f1, df_restrictedAttestations = f2, df_rawContent = f3, df_contentSalt = f4, df_privateGraph = (f5 \<or> \<not> bundlePrivateGraph b),
       df_privateMetadata = (f6 \<or> \<not> bundlePrivateMetadata b)\<rparr>"
    using d(1) unfolding disclosureFlagsOf_def Let_def bindE_eq_Inr by (elim exE conjE) (rule that, assumption+, simp)
  have on: "allowedIf b E s c opts = Inr True \<Longrightarrow> b" for b s c by (simp add: allowedIf_def split: if_splits)
  have "refused (truthyList (pb_receipts b')) E ?s ''exact_counterparties'' opts = Inr False" "refused (truthyStr (rawMessageOf b')) E ?s ''raw_content'' opts = Inr False"
    "refused (truthyStr (contentSaltOf b')) E ?s ''content_salt'' opts = Inr False" "refused (bundlePrivateGraph b') E ?s ''private_graph'' opts = Inr False"
    "refused (bundlePrivateMetadata b') E ?s ''private_metadata'' opts = Inr False"
    using f(1-6) on by (auto intro!: allowedIf_refused simp: d(2) redactBundle_sel f(7) split: if_splits)
  moreover have "refused (\<exists>a \<in> set (orElse (pb_attestations b') []). att_visibility a \<noteq> ''public'') E ?s ''attestations'' opts = Inr False"
    unfolding d(2) redactBundle_sel by (rule allowedIf_refused [OF f(2)]) (use f(2,7) on in \<open>auto simp: filterAttestations_def\<close>)
  moreover have "ev_sender (pb_envelope b') = ?s" by (simp add: d(2) redactBundle_sel)
  ultimately show ?thesis by (simp add: proofBundleHasPrivateDisclosureWithoutConsent_def Let_def)
qed

text \<open>
  Receipts are left in a filtered bundle only under a consent in force: one of the given consents, by the sender of the event, signed under a key of the sender that
  was active and not revoked when it was issued, for the verifier and the purpose of the request, current, not revoked, and for exact counterparties.
\<close>

theorem filtered_receipts_consented:
  assumes "filterProofBundleDisclosures E b opts = Inr b'" "pb_receipts b' \<noteq> None"
  shows "\<exists>c. consentInForce E opts (ev_sender (pb_envelope b)) ''exact_counterparties'' c"
proof -
  obtain d where d: "disclosureFlagsOf E b opts = Inr d" "b' = redactBundle b d" using assms by (auto simp: filterProofBundleDisclosures_def bindE_eq_Inr)
  then have "df_counterparties d" using assms(2) by (simp add: redactBundle_sel split: if_splits)
  then have "allowedIf (op_include_receipts opts) E (ev_sender (pb_envelope b)) ''exact_counterparties'' opts = Inr True"
    using d(1) by (auto simp: disclosureFlagsOf_def Let_def bindE_eq_Inr)
  then show ?thesis by (intro allowed_consent) (simp add: allowedIf_def split: if_splits)
qed

text \<open>
  The filter does not touch the map from events to their receivers and the second-generation attestations: without any consent the manifest says that exact
  counterparties are not included, and both are disclosed as they were.
\<close>

theorem redaction_keeps_receivers:
  assumes "op_disclosure_consents opts = []"
  shows "\<exists>b'. filterProofBundleDisclosures E b opts = Inr b' \<and> \<not> rm_exact_counterparties_included (pb_redaction_manifest b') \<and> pb_receipts b' = None
     \<and> pb_event_receivers b' = pb_event_receivers b \<and> pb_attestations_v2 b' = pb_attestations_v2 b"
proof -
  have "allowedIf c E s f opts = Inr False" for c s f using assms by (simp add: allowedIf_def proofBundleAllowsFieldClass_def consentAllows_def)
  then show ?thesis by (simp add: filterProofBundleDisclosures_def disclosureFlagsOf_def redactBundle_def Let_def)
qed

section \<open>A concrete bundle\<close>

definition bundleReceipt :: ReceiptCommitmentV1 where
  "bundleReceipt = \<lparr>rc_type = ''tsl.receipt_commitment.v1'', rc_event_commitment = ZERO_HASH, rc_receiver = ''tsl:bob'', rc_signing_key_id = ''k'', rc_receipt_class = ''received'',
     rc_timestamp = ''2026-01-01T00:00:00.000Z'', rc_metadata_commitment = None, rc_signature = []\<rparr>"

definition demoBundle :: ProofBundleV1 where
  "demoBundle = \<lparr>
     pb_type = ''tsl.proof_bundle.v1'', pb_bundle_id = ''b'', pb_created_at = ''2026-01-01T00:00:00.000Z'', pb_identity = demoIdentity,
     pb_envelope = demoSigned [],
     pb_proof = \<lparr>ip_type = ''tsl.inclusion_proof.v1'', ip_tree_kind = ''event'', ip_commitment = ZERO_HASH, ip_leaf_index = 0, ip_leaf_hash = ZERO_HASH, ip_root = ZERO_HASH,
       ip_epoch_start_ms = 0, ip_epoch_duration_ms = 1000, ip_shard = ''ab01'', ip_path = [], ip_checkpoint_hash = ZERO_HASH\<rparr>,
     pb_checkpoint = demoCheckpoint 0 ZERO_HASH, pb_receipts = Some [bundleReceipt], pb_attestations = None, pb_attestations_v2 = None,
     pb_receipt_disputes = None, pb_revocations = None, pb_settlement_evidence = None, pb_assessment = None, pb_assessment_v2 = None,
     pb_scoring_profile = None, pb_domain_policy = None, pb_evidence_coverage = None, pb_feature_registry = None, pb_normalization_profile = None,
     pb_weight_profile = None, pb_calibration_profile = None, pb_confidence_profile = None, pb_provider_governance_status = None,
     pb_metadata_fingerprints = None, pb_graph_profile = None, pb_graph_feature_vector = None, pb_trusted_seeds = None, pb_adversarial_seeds = None,
     pb_trusted_seed_governance = None, pb_adversarial_seed_governance = None, pb_event_receivers = Some [(ZERO_HASH, ''tsl:bob'')],
     pb_sybil_assessment = None, pb_sybil_profile = None, pb_drift_report = None, pb_drift_feature_history = None,
     pb_drift_cohort_baseline_components = None, pb_zk_proofs = None, pb_zk_circuit_manifests = None, pb_zk_verification_key_registry = None,
     pb_delegations = None, pb_delegation_policies = None, pb_agent_actions = None, pb_audit_findings = None, pb_consistency_proofs = None,
     pb_non_membership_proofs = None, pb_governance_policy = None,
     pb_redaction_manifest = \<lparr>rm_raw_content_included = True, rm_content_salt_included = None, rm_exact_counterparties_included = True, rm_metadata_fields_redacted = []\<rparr>,
     pb_appeal_metadata = None, pb_local_disclosure_warnings = None,
     pb_message_disclosure = Some \<lparr>md_raw_message = Some ''hello'', md_content_salt = None\<rparr>, pb_disclosure_consents = None\<rparr>"

definition bundleKey :: VerificationMethodV1 where
  "bundleKey = \<lparr>vm_id = ''k'', vm_type = ''ed25519'', vm_public_key = ''0x'', vm_status = ''active'', vm_created_at = ''2025-01-01T00:00:00.000Z'', vm_expires_at = None, vm_revoked_at = None\<rparr>"

definition demoConsent :: DisclosureConsentV1 where
  "demoConsent = \<lparr>dc_type = ''tsl.disclosure_consent.v1'', dc_subject = ''tsl:alice'', dc_verifier_or_provider = ''tsl:shop'', dc_allowed_field_classes = [''exact_counterparties''],
     dc_forbidden_field_classes = [], dc_purpose = ''audit'', dc_issued_at = ''2026-01-01T00:00:00.000Z'', dc_expires_at = ''2027-01-01T00:00:00.000Z'',
     dc_revocation_pointer = ''r'', dc_signature = []\<rparr>"

definition demoOptions :: ProofBundleDisclosureOptions where
  "demoOptions = \<lparr>op_disclosure_consents = [demoConsent\<lparr>dc_signature := catchE (disclosureConsentV1Hash demoEnv demoConsent) []\<rparr>],
     op_consent_identities = [demoIdentity\<lparr>idd_verification_methods := [bundleKey]\<rparr>], op_resolve_identity = None, op_include_receipts = True,
     op_include_attestations = False, op_verifier_or_provider = Some ''tsl:shop'', op_purpose = Some ''audit'', op_disclosure_purpose = None,
     op_at_time_ms = Some 1780000000000, op_revoked_disclosure_pointers = []\<rparr>"

lemma demoConsent_valid: "consentSignatureValid demoEnv demoOptions (demoConsent\<lparr>dc_signature := catchE (disclosureConsentV1Hash demoEnv demoConsent) []\<rparr>) = Inr True"
proof -
  let ?c = "\<lambda>s. demoConsent\<lparr>dc_signature := s\<rparr>"
  have same: "withoutSignature (DisclosureConsentV1_obj (?c s)) = withoutSignature (DisclosureConsentV1_obj demoConsent)" for s
    by (simp add: demoConsent_def withoutSignature_def withoutField_def DisclosureConsentV1_obj_def)
  have "jsonSafe (JObj (withoutSignature (DisclosureConsentV1_obj demoConsent)))" by (simp add: demoConsent_def withoutSignature_def withoutField_def DisclosureConsentV1_obj_def)
  from domainHash_demo [OF this, of DISCLOSURE_CONSENT_V1] obtain h where h: "disclosureConsentV1Hash demoEnv demoConsent = Inr h" "verifyEd25519 demoEnv ''0x'' (DText h) h = Inr True"
    by (auto simp: disclosureConsentV1Hash_def hashSignedObject_def)
  have s: "disclosureConsentV1Hash demoEnv (?c h) = Inr h" using h(1) same by (simp add: disclosureConsentV1Hash_def hashSignedObject_def)
  have "keyActiveAt demoEnv (Some bundleKey) ''2026-01-01T00:00:00.000Z''" "notRevokedAt demoEnv (Some bundleKey) (Some ''2026-01-01T00:00:00.000Z'')" by code_simp+
  moreover have "vm_type bundleKey = ''ed25519''" "vm_public_key bundleKey = ''0x''" by (simp_all add: bundleKey_def)
  moreover have "sv_valid (validateSchema demoEnv n v)" for n v by (simp add: validateSchema_def demoEnv_def)
  moreover have "resolveConsentIdentity demoOptions ''tsl:alice'' t = Some (demoIdentity\<lparr>idd_verification_methods := [bundleKey]\<rparr>)" for t
    by (simp add: resolveConsentIdentity_def demoOptions_def demoIdentity_def)
  moreover have "dc_subject demoConsent = ''tsl:alice''" "dc_issued_at demoConsent = ''2026-01-01T00:00:00.000Z''" by (simp_all add: demoConsent_def)
  ultimately show ?thesis using h s by (simp add: consentSignatureValid_def)
qed

lemma demoBundle_filtered: "\<exists>b'. filterProofBundleDisclosures demoEnv demoBundle demoOptions = Inr b' \<and> pb_receipts b' = Some [bundleReceipt] \<and> pb_message_disclosure b' = None"
proof -
  let ?c = "demoConsent\<lparr>dc_signature := catchE (disclosureConsentV1Hash demoEnv demoConsent) []\<rparr>"
  have o: "op_disclosure_consents demoOptions = [?c]" "op_verifier_or_provider demoOptions = Some ''tsl:shop''" "purposeOf demoOptions = Some ''audit''"
    "op_at_time_ms demoOptions = Some 1780000000000" "op_revoked_disclosure_pointers demoOptions = []" "op_include_receipts demoOptions" "\<not> op_include_attestations demoOptions"
    by (simp_all add: demoOptions_def purposeOf_def)
  have c: "dc_subject ?c = ''tsl:alice''" "dc_verifier_or_provider ?c = ''tsl:shop''" "dc_purpose ?c = ''audit''" "dc_issued_at ?c = ''2026-01-01T00:00:00.000Z''"
    "dc_expires_at ?c = ''2027-01-01T00:00:00.000Z''" "dc_allowed_field_classes ?c = [''exact_counterparties'']" "dc_forbidden_field_classes ?c = []"
    by (simp_all add: demoConsent_def)
  have d: "\<not> dateLt (Some 1780000000000) (dateParse demoEnv ''2026-01-01T00:00:00.000Z'')" "\<not> dateLe (dateParse demoEnv ''2027-01-01T00:00:00.000Z'') (Some 1780000000000)" by code_simp+
  have a: "proofBundleAllowsFieldClass demoEnv ''tsl:alice'' [f] demoOptions = Inr (f = ''exact_counterparties'')" for f
    using demoConsent_valid d unfolding proofBundleAllowsFieldClass_def consentAllows_def o consentLoop.simps c
    by (simp add: Let_def del: dateLt_Some dateLe_Some)
  have s: "ev_sender (pb_envelope demoBundle) = ''tsl:alice''" "pb_receipts demoBundle = Some [bundleReceipt]" "rawMessageOf demoBundle = Some ''hello''" "contentSaltOf demoBundle = None"
    by (simp_all add: demoBundle_def demoSigned_def EventCommitmentUnsignedV1.defs EventCommitmentV1.defs demoEvent_def rawMessageOf_def contentSaltOf_def)
  have m: "\<not> bundlePrivateGraph demoBundle" "\<not> bundlePrivateMetadata demoBundle" by (simp_all add: demoBundle_def bundlePrivateGraph_def bundlePrivateMetadata_def)
  show ?thesis by (simp add: filterProofBundleDisclosures_def disclosureFlagsOf_def allowedIf_def a s m o redactBundle_def Let_def)
qed

theorem filtered_bundle_has_consent_witness:
  "\<exists>b'. filterProofBundleDisclosures demoEnv demoBundle demoOptions = Inr b' \<and> proofBundleHasPrivateDisclosureWithoutConsent demoEnv b' demoOptions = Inr False"
  using demoBundle_filtered filtered_bundle_has_consent by blast

theorem filtered_receipts_consented_witness: "\<exists>c. consentInForce demoEnv demoOptions (ev_sender (pb_envelope demoBundle)) ''exact_counterparties'' c"
  using demoBundle_filtered filtered_receipts_consented [of demoEnv demoBundle demoOptions] by auto

theorem redaction_keeps_receivers_witness:
  "\<exists>b'. filterProofBundleDisclosures demoEnv demoBundle (demoOptions\<lparr>op_disclosure_consents := []\<rparr>) = Inr b'
     \<and> \<not> rm_exact_counterparties_included (pb_redaction_manifest b') \<and> pb_event_receivers b' = Some [(ZERO_HASH, ''tsl:bob'')]"
  using redaction_keeps_receivers [of "demoOptions\<lparr>op_disclosure_consents := []\<rparr>" demoEnv demoBundle] by (auto simp: demoBundle_def)

end
