(* ===== verification/Graph.thy ===== *)
theory Graph
  imports Numbers Crypto
begin

text \<open>
  The trust graph of \<^verbatim>\<open>src/packages/core-ts/src/v2.ts\<close>: weighted edges, their projection to arcs, connected components, distances to seed nodes and the
  fixed-point square root. A \<^verbatim>\<open>Map\<close> is a list of pairs in the order of insertion; an infinite distance is \<open>None\<close>.
\<close>

section \<open>Edges and graphs\<close>

text \<open>A missing \<^verbatim>\<open>appeal_status\<close> is \<open>None\<close>; one that is set to \<^verbatim>\<open>undefined\<close> is \<open>Some None\<close>, which the canonical encoder rejects.\<close>

record GraphEdgeV0 =
  ge_src :: string
  ge_dst :: string
  ge_type :: string
  ge_timestamp :: string
  ge_weight_bps :: int
  ge_source_quality_bps :: "int option"
  ge_decay_bps :: "int option"
  ge_receipt_status_bps :: "int option"
  ge_appeal_multiplier_bps :: "int option"
  ge_community :: "string option"
  ge_issuer :: "string option"
  ge_created_at :: "string option"
  ge_evidence_hash :: "string option"
  ge_evidence_commitment :: "string option"
  ge_appeal_uri :: "string option"
  ge_appeal_status :: "string option option"

definition GraphEdgeV0_obj :: "GraphEdgeV0 \<Rightarrow> jsobj" where
  "GraphEdgeV0_obj x =
     [(''src'', JStr (ge_src x)), (''dst'', JStr (ge_dst x)), (''type'', JStr (ge_type x)), (''timestamp'', JStr (ge_timestamp x)),
      (''weight_bps'', JNum (JInt (ge_weight_bps x)))]
     @ optField ''source_quality_bps'' (\<lambda>v. JNum (JInt v)) (ge_source_quality_bps x)
     @ optField ''decay_bps'' (\<lambda>v. JNum (JInt v)) (ge_decay_bps x)
     @ optField ''receipt_status_bps'' (\<lambda>v. JNum (JInt v)) (ge_receipt_status_bps x)
     @ optField ''appeal_multiplier_bps'' (\<lambda>v. JNum (JInt v)) (ge_appeal_multiplier_bps x)
     @ optField ''community'' JStr (ge_community x) @ optField ''issuer'' JStr (ge_issuer x) @ optField ''created_at'' JStr (ge_created_at x)
     @ optField ''evidence_hash'' JStr (ge_evidence_hash x) @ optField ''evidence_commitment'' JStr (ge_evidence_commitment x)
     @ optField ''appeal_uri'' JStr (ge_appeal_uri x)
     @ optField ''appeal_status'' (\<lambda>v. case v of None \<Rightarrow> JUndefined | Some s \<Rightarrow> JStr s) (ge_appeal_status x)"

record GraphV0 =
  g_edges :: "GraphEdgeV0 list"
  g_nodes :: "string list"

definition GraphV0_obj :: "GraphV0 \<Rightarrow> jsobj" where
  "GraphV0_obj g = [(''edges'', JArr (map (\<lambda>e. JObj (GraphEdgeV0_obj e)) (g_edges g))), (''nodes'', JArr (map JStr (g_nodes g)))]"

text \<open>
  Evidence and edges are sorted by time, and those of the same time by a hash or by their canonical bytes, which is computed only then. A sort compares
  every element with its neighbours in the result, so an element whose hash cannot be computed makes it throw exactly if another element has the same time.
\<close>

definition sortDated :: "host \<Rightarrow> ('a \<Rightarrow> string) \<Rightarrow> ('a \<Rightarrow> string res) \<Rightarrow> 'a list \<Rightarrow> 'a list res" where
  "sortDated H time tie xs =
     (let tied = filter (\<lambda>a. 2 \<le> length (filter (\<lambda>b. h_localeCompare H (time a) (time b) = 0) xs)) xs in
      bindE (sequenceE (map tie tied)) (\<lambda>_.
        Inr (sortCmp (\<lambda>a b. cmpOr (h_localeCompare H (time a) (time b)) (h_localeCompare H (catchE (tie a) []) (catchE (tie b) []))) xs)))"

lemma sortDated_set: "sortDated H time tie xs = Inr ys \<Longrightarrow> set ys = set xs"
  by (auto simp: sortDated_def Let_def bindE_eq_Inr)

definition edgeBytes :: "GraphEdgeV0 \<Rightarrow> string res" where
  "edgeBytes e = bindE (canonicalBytes (JObj (GraphEdgeV0_obj e))) (\<lambda>b. Inr (joinStr '','' (map (\<lambda>d. string_of_nat (unat d)) b)))"

definition graphFromVerifiedEdgesV0 :: "host \<Rightarrow> GraphEdgeV0 list \<Rightarrow> GraphV0 res" where
  "graphFromVerifiedEdgesV0 H edgesInput =
     bindE (sortDated H ge_timestamp edgeBytes edgesInput) (\<lambda>edges.
       Inr \<lparr>g_edges = edges, g_nodes = sort (uniqueInOrder (concat (map (\<lambda>e. [ge_src e, ge_dst e]) edges)))\<rparr>)"

definition constructGraphFromRawEdgesForTestV0 :: "host \<Rightarrow> GraphEdgeV0 list \<Rightarrow> GraphV0 res" where
  "constructGraphFromRawEdgesForTestV0 H edges = graphFromVerifiedEdgesV0 H edges"

definition constructGraphV0 :: "unit \<Rightarrow> GraphV0 res" where
  "constructGraphV0 _ = Inl ''TSL_RAW_EDGE_PROTOCOL_INPUT_REJECTED''"

text \<open>\<^verbatim>\<open>sha256Hex(canonicalBytes(v))\<close>\<close>

definition sha256Of :: "env \<Rightarrow> jsval \<Rightarrow> string res" where
  "sha256Of E v = bindE (canonicalBytes v) (\<lambda>b. Inr (sha256Hex E (DBytes b)))"

lemma sha256Of_defined: "jsonSafe v \<Longrightarrow> \<exists>h. sha256Of E v = Inr h"
  using jsonSafe_iff [of v] by (auto simp: sha256Of_def canonicalBytes_def canonicalize_def bindE_eq_Inr)

section \<open>Weights\<close>

definition isNegativeGraphEdge :: "GraphEdgeV0 \<Rightarrow> bool" where
  "isNegativeGraphEdge e \<longleftrightarrow> ge_type e = ''disputed'' \<or> includesSub (ge_type e) ''negative'' \<or> includesSub (ge_type e) ''scam_warning''
     \<or> includesSub (ge_type e) ''revoked'' \<or> includesSub (ge_type e) ''appealed_negative''"

definition isReceiptGraphEdge :: "GraphEdgeV0 \<Rightarrow> bool" where
  "isReceiptGraphEdge e \<longleftrightarrow> ge_type e \<in> {''received'', ''replied'', ''transacted'', ''completed'', ''disputed''} \<or> includesSub (ge_type e) ''receipt''"

definition negativeEvidenceAllowed :: "GraphEdgeV0 \<Rightarrow> GraphProfileV2 \<Rightarrow> bool" where
  "negativeEvidenceAllowed e p =
     (if \<not> isNegativeGraphEdge e then True
      else if ne_requires_evidence_commitment (gpr_negative_edge_policy p) \<and> \<not> truthyStr (ge_evidence_commitment e) then False
      else if ne_requires_appeal_uri (gpr_negative_edge_policy p)
              \<and> (\<not> truthyStr (ge_appeal_uri e) \<or> \<not> truthyStr (Option.bind (ge_appeal_status e) id)) then False
      else True)"

definition treatmentOf :: "GraphProfileV2 option \<Rightarrow> string option" where
  "treatmentOf p = Option.bind p (\<lambda>q. cd_negative_edge_treatment (gpr_community_detection q))"

definition effectiveWeight :: "GraphEdgeV0 \<Rightarrow> GraphProfileV2 option \<Rightarrow> int" where
  "effectiveWeight e p =
     (let scaled = fold (\<lambda>m v. case m of None \<Rightarrow> v | Some b \<Rightarrow> (v * clampBps b) div 10000)
            [ge_source_quality_bps e, ge_decay_bps e, ge_receipt_status_bps e, ge_appeal_multiplier_bps e] (clampBps (ge_weight_bps e)) in
      case p of
        None \<Rightarrow> max 0 scaled
      | Some q \<Rightarrow>
          if \<not> isNegativeGraphEdge e then max 0 scaled
          else let treatment = orElse (treatmentOf p) ''cap'' in
               if treatment = ''ignore'' then 0
               else if treatment = ''cap'' then max 0 (min scaled (clampBps (ne_max_single_negative_weight_bps (gpr_negative_edge_policy q))))
               else max 0 scaled)"

definition signedEffectiveWeight :: "GraphEdgeV0 \<Rightarrow> GraphProfileV2 option \<Rightarrow> int" where
  "signedEffectiveWeight e p =
     (if treatmentOf p = Some ''ignore'' then 0 else if isNegativeGraphEdge e then - effectiveWeight e p else effectiveWeight e p)"

definition graphMetricWeight :: "GraphEdgeV0 \<Rightarrow> GraphProfileV2 option \<Rightarrow> bool \<Rightarrow> int" where
  "graphMetricWeight e p signedSupported = (if signedSupported then signedEffectiveWeight e p else max 0 (signedEffectiveWeight e p))"

definition positiveWeight :: "GraphProfileV2 option \<Rightarrow> GraphEdgeV0 \<Rightarrow> int" where
  "positiveWeight p e = max 0 (signedEffectiveWeight e p)"

record arc =
  a_src :: string
  a_dst :: string
  a_weight :: int

definition projectionOf :: "GraphProfileV2 option \<Rightarrow> string" where
  "projectionOf p = orElse (Option.bind p (\<lambda>q. cd_projection (gpr_community_detection q))) ''undirected_sum''"

definition edgeArcs :: "GraphProfileV2 option \<Rightarrow> bool \<Rightarrow> GraphEdgeV0 \<Rightarrow> arc list" where
  "edgeArcs p signedSupported e =
     (let w = graphMetricWeight e p signedSupported in
      if w = 0 then []
      else \<lparr>a_src = ge_src e, a_dst = ge_dst e, a_weight = w\<rparr>
           # (if projectionOf p \<noteq> ''directed_outbound'' \<and> ge_src e \<noteq> ge_dst e then [\<lparr>a_src = ge_dst e, a_dst = ge_src e, a_weight = w\<rparr>] else []))"

definition projectedGraphArcs :: "GraphV0 \<Rightarrow> GraphProfileV2 option \<Rightarrow> bool \<Rightarrow> arc list" where
  "projectedGraphArcs g p signedSupported = concat (map (edgeArcs p signedSupported) (g_edges g))"

definition projectedNodeMasses :: "GraphV0 \<Rightarrow> string \<Rightarrow> GraphProfileV2 option \<Rightarrow> (string \<times> int) list" where
  "projectedNodeMasses g node p =
     fold (\<lambda>a m. if a_src a \<noteq> node then m else mapAdd m (a_dst a) (a_weight a)) (projectedGraphArcs g p False) []"

definition floorOf :: "GraphProfileV2 option \<Rightarrow> int" where
  "floorOf p = orElse (Option.bind p (\<lambda>q. cd_edge_weight_floor_bps (gpr_community_detection q))) 1000"

section \<open>Connected components\<close>

definition adjacencyOf :: "GraphV0 \<Rightarrow> int \<Rightarrow> GraphProfileV2 option \<Rightarrow> (string \<times> string list) list" where
  "adjacencyOf g edgeFloor p =
     fold (\<lambda>a adj. if \<bar>a_weight a\<bar> < edgeFloor then adj
                   else case map_of adj (a_src a) of
                          None \<Rightarrow> adj
                        | Some ds \<Rightarrow> mapSet adj (a_src a) (if a_dst a \<in> set ds then ds else ds @ [a_dst a]))
       (projectedGraphArcs g p False) (fold (\<lambda>n adj. mapSet adj n []) (g_nodes g) [])"

text \<open>The loop over the stack, whose top is the head of the list.\<close>

function visitStack :: "(string \<times> string list) list \<Rightarrow> int \<Rightarrow> string list \<Rightarrow> (string \<times> int) list \<Rightarrow> (string \<times> int) list" where
  "visitStack adj cid [] comps = comps"
| "visitStack adj cid (current # stack) comps =
     (if map_of comps current \<noteq> None then visitStack adj cid stack comps
      else let comps' = mapSet comps current cid in
           visitStack adj cid (filter (\<lambda>n. map_of comps' n = None) (sort (orElse (map_of adj current) [])) @ stack) comps')"
  by pat_completeness auto

definition unvisited :: "(string \<times> string list) list \<Rightarrow> string list \<Rightarrow> (string \<times> int) list \<Rightarrow> string set" where
  "unvisited adj stack comps = (set stack \<union> \<Union> (set ` snd ` set adj)) - dom (map_of comps)"

lemma neighbours_listed: "set (orElse (map_of adj n) []) \<subseteq> \<Union> (set ` snd ` set adj)"
  by (cases "map_of adj n") (auto dest: map_of_SomeD)

termination visitStack
proof (relation "measures [\<lambda>(adj, cid, stack, comps). card (unvisited adj stack comps), \<lambda>(adj, cid, stack, comps). length stack]", goal_cases)
  case (2 adj cid current stack comps)
  have "unvisited adj stack comps = unvisited adj (current # stack) comps" using 2 by (auto simp: unvisited_def)
  then show ?case by simp
next
  case (3 adj cid current stack comps x)
  then have x: "map_of x = (map_of comps)(current \<mapsto> cid)" "map_of comps current = None" by simp_all
  have "unvisited adj (filter (\<lambda>n. map_of x n = None) (sort (orElse (map_of adj current) [])) @ stack) x \<subset> unvisited adj (current # stack) comps"
    using x neighbours_listed [of adj current] by (auto simp: unvisited_def)
  moreover have "finite (unvisited adj (current # stack) comps)" by (simp add: unvisited_def)
  ultimately show ?case using psubset_card_mono by auto
qed simp

fun componentLoop :: "(string \<times> string list) list \<Rightarrow> string list \<Rightarrow> int \<Rightarrow> (string \<times> int) list \<Rightarrow> (string \<times> int) list" where
  "componentLoop adj [] cid comps = comps"
| "componentLoop adj (n # ns) cid comps =
     (if map_of comps n \<noteq> None then componentLoop adj ns cid comps
      else componentLoop adj ns (cid + 1) (visitStack adj cid [n] comps))"

definition connectedComponents :: "GraphV0 \<Rightarrow> int \<Rightarrow> GraphProfileV2 option \<Rightarrow> (string \<times> int) list" where
  "connectedComponents g edgeFloor p = (let adj = adjacencyOf g edgeFloor p in componentLoop adj (sort (map fst adj)) 0 [])"

section \<open>Distances\<close>

text \<open>One turn of the loop over the queue: the arcs that leave the current node. \<open>Inl d\<close> is the early return.\<close>

fun scanArcs :: "arc list \<Rightarrow> int \<Rightarrow> string set \<Rightarrow> string \<Rightarrow> nat \<Rightarrow> (string \<times> nat) list \<Rightarrow> string set \<Rightarrow> nat + ((string \<times> nat) list \<times> string set)" where
  "scanArcs [] edgeFloor seeds node d queue seen = Inr (queue, seen)"
| "scanArcs (a # arcs) edgeFloor seeds node d queue seen =
     (if a_src a \<noteq> node \<or> \<bar>a_weight a\<bar> < edgeFloor \<or> a_dst a \<in> seen then scanArcs arcs edgeFloor seeds node d queue seen
      else if a_dst a \<in> seeds then Inl (d + 1)
      else scanArcs arcs edgeFloor seeds node d (queue @ [(a_dst a, d + 1)]) (insert (a_dst a) seen))"

lemma scanArcs_progress:
  assumes "scanArcs arcs edgeFloor seeds node d queue seen = Inr (queue', seen')" "finite D" "a_dst ` set arcs \<subseteq> D"
  shows "card (D - seen') + length queue' = card (D - seen) + length queue"
  using assms
proof (induction arcs arbitrary: queue seen)
  case (Cons a arcs)
  show ?case
  proof (cases "a_src a \<noteq> node \<or> \<bar>a_weight a\<bar> < edgeFloor \<or> a_dst a \<in> seen")
    case False
    then have "scanArcs arcs edgeFloor seeds node d (queue @ [(a_dst a, d + 1)]) (insert (a_dst a) seen) = Inr (queue', seen')"
      using Cons.prems(1) by (simp split: if_splits)
    from Cons.IH [OF this Cons.prems(2)] have "card (D - seen') + length queue' = card (D - insert (a_dst a) seen) + Suc (length queue)"
      using Cons.prems(3) by simp
    moreover have "card (D - seen) = Suc (card (D - insert (a_dst a) seen))"
      using False Cons.prems(2,3) card_Suc_Diff1 [of "D - seen" "a_dst a"] Diff_insert [of D "a_dst a" seen] by simp
    ultimately show ?thesis by simp
  qed (use Cons in auto)
qed simp

function seedSearch :: "arc list \<Rightarrow> int \<Rightarrow> string set \<Rightarrow> (string \<times> nat) list \<Rightarrow> string set \<Rightarrow> nat option" where
  "seedSearch arcs edgeFloor seeds [] seen = None"
| "seedSearch arcs edgeFloor seeds ((node, d) # queue) seen =
     (case scanArcs arcs edgeFloor seeds node d queue seen of
        Inl n \<Rightarrow> Some n
      | Inr (queue', seen') \<Rightarrow> seedSearch arcs edgeFloor seeds queue' seen')"
  by pat_completeness auto

termination seedSearch
proof (relation "measure (\<lambda>(arcs, edgeFloor, seeds, queue, seen). card (a_dst ` set arcs - seen) + length queue)", goal_cases)
  case (2 arcs edgeFloor seeds node d queue seen y queue' seen')
  then show ?case using scanArcs_progress [of arcs edgeFloor seeds node d queue seen queue' seen' "a_dst ` set arcs"] by auto
qed simp

definition shortestSeedDistance :: "GraphV0 \<Rightarrow> string \<Rightarrow> string set \<Rightarrow> GraphProfileV2 option \<Rightarrow> nat option" where
  "shortestSeedDistance g subject seeds p =
     (if subject \<in> seeds then Some 0 else seedSearch (projectedGraphArcs g p True) (floorOf p) seeds [(subject, 0)] {subject})"

definition distanceScoreBps :: "nat option \<Rightarrow> int" where
  "distanceScoreBps d = (case d of None \<Rightarrow> 0 | Some n \<Rightarrow> clampBps (10000 div (1 + int n)))"

section \<open>The fixed-point square root\<close>

text \<open>The binary search of \<^verbatim>\<open>fixedPointSqrt\<close>; values up to \<open>2 ^ 53\<close> are exact, and a square above that is larger than every value.\<close>

function sqrtSearch :: "int \<Rightarrow> int \<Rightarrow> int \<Rightarrow> int" where
  "sqrtSearch v low high =
     (if \<not> low \<le> high then high
      else let mid = (low + high) div 2; square = mid * mid in
           if square = v then mid else if square < v then sqrtSearch v (mid + 1) high else sqrtSearch v low (mid - 1))"
  by pat_completeness auto
termination by (relation "measure (\<lambda>(v, low, high). nat (high - low + 1))") auto

definition fixedPointSqrt :: "int \<Rightarrow> int" where
  "fixedPointSqrt v = (if v \<le> 0 then 0 else sqrtSearch v 0 (max 1 v))"

definition centroidCovarianceDistanceBps :: "int list \<Rightarrow> int list option \<Rightarrow> int list list option \<Rightarrow> int option" where
  "centroidCovarianceDistanceBps features centroid inverseCovariance = (case (centroid, inverseCovariance) of
       (Some c, Some m) \<Rightarrow>
         if length c \<noteq> length features \<or> length m \<noteq> length features then None
         else if \<exists>row \<in> set m. length row \<noteq> length features then None
         else let n = length features; delta = (\<lambda>i. features ! i - clampBps (c ! i));
                  quadratic = sum_list (map (\<lambda>r. sum_list (map (\<lambda>k. (delta r * clampBps (m ! r ! k) * delta k) div 100000000) [0..<n])) [0..<n])
              in Some (clampBps (fixedPointSqrt (max 0 quadratic)))
     | _ \<Rightarrow> None)"

end
