(* ===== verification/GraphSearch.thy ===== *)
theory GraphSearch
  imports Graph
begin

text \<open>
  What the searches of \<open>Graph\<close> compute: connected components are the classes of reachability, the distance to the seeds is the length of a shortest path, and the
  binary search finds the integer square root.
\<close>

section \<open>The square root\<close>

lemma sqrtSearch_floor:
  assumes "0 < v" "0 \<le> low" "low \<le> high + 1" "low = 0 \<or> (low - 1) * (low - 1) < v" "v < (high + 1) * (high + 1)"
  shows "0 \<le> sqrtSearch v low high \<and> sqrtSearch v low high * sqrtSearch v low high \<le> v \<and> v < (sqrtSearch v low high + 1) * (sqrtSearch v low high + 1)"
  using assms
proof (induction v low high rule: sqrtSearch.induct)
  case (1 v low high)
  let ?mid = "(low + high) div 2"
  show ?case
  proof (cases "low \<le> high")
    case False
    then have "low = high + 1" using 1(5) by simp
    then have "sqrtSearch v low high = high" "low \<noteq> 0" using 1(3,7) by auto
    then show ?thesis using 1(4,6,7) \<open>low = high + 1\<close> by auto
  next
    case True
    have mid: "low \<le> ?mid" "?mid \<le> high" "0 \<le> ?mid" using True 1(4) by auto
    consider "?mid * ?mid = v" | "?mid * ?mid < v" | "v < ?mid * ?mid" by linarith
    then show ?thesis
    proof cases
      case 1
      have "m * m < (m + 1) * (m + 1)" if "0 \<le> m" for m :: int using that by (simp add: algebra_simps)
      from this [OF mid(3)] have "?mid * ?mid < (?mid + 1) * (?mid + 1)" .
      then show ?thesis using 1 True mid(3) by (simp add: Let_def)
    next
      case 2
      then show ?thesis using "1.IH"(1) [OF _ refl refl] 1(3-7) True mid by (simp add: Let_def)
    next
      case 3
      have "0 < ?mid" using 3 \<open>0 < v\<close> mid(3) by (cases "?mid = 0") auto
      then show ?thesis using "1.IH"(2) [OF _ refl refl] 1(3-7) True mid 3 by (simp add: Let_def)
    qed
  qed
qed

lemma fixedPointSqrt_floor: "0 \<le> v \<Longrightarrow> 0 \<le> fixedPointSqrt v \<and> fixedPointSqrt v * fixedPointSqrt v \<le> v \<and> v < (fixedPointSqrt v + 1) * (fixedPointSqrt v + 1)"
proof (cases "v = 0")
  case False
  assume "0 \<le> v"
  then have v: "0 < v" "max 1 v = v" using False by simp_all
  have "v < (v + 1) * (v + 1)" using v(1) by (simp add: algebra_simps add_strict_increasing)
  then show ?thesis using sqrtSearch_floor [of v 0 v] v by (simp add: fixedPointSqrt_def)
qed (simp add: fixedPointSqrt_def)

section \<open>Depth-first search\<close>

definition stepsOf :: "(string \<times> string list) list \<Rightarrow> (string \<times> string) set" where
  "stepsOf adj = {(u, v). v \<in> set (orElse (map_of adj u) [])}"

text \<open>
  A search from the nodes \<open>A\<close> takes the numbers \<open>c\<close> to \<open>r\<close>: numbered nodes keep their number, new ones get the number \<open>cid\<close> and are reachable from \<open>A\<close>, and if nothing
  but \<open>A\<close> was left open before, nothing is left open after it.
\<close>

definition explores :: "(string \<times> string list) list \<Rightarrow> int \<Rightarrow> string set \<Rightarrow> (string \<rightharpoonup> int) \<Rightarrow> (string \<rightharpoonup> int) \<Rightarrow> bool" where
  "explores adj cid A c r \<longleftrightarrow> c \<subseteq>\<^sub>m r \<and> A \<subseteq> dom r \<and> (\<forall>n \<in> dom r - dom c. r n = Some cid \<and> n \<in> (stepsOf adj)\<^sup>* `` A)
     \<and> (stepsOf adj `` dom c \<subseteq> dom c \<union> A \<longrightarrow> stepsOf adj `` dom r \<subseteq> dom r)"

lemma explores_dom:
  assumes "explores adj cid A c r"
  shows "A \<union> dom c \<subseteq> dom r" "dom r \<subseteq> dom c \<union> (stepsOf adj)\<^sup>* `` A"
proof -
  have r: "c \<subseteq>\<^sub>m r" "A \<subseteq> dom r" "\<forall>n \<in> dom r - dom c. r n = Some cid \<and> n \<in> (stepsOf adj)\<^sup>* `` A" using assms by (simp_all add: explores_def)
  show "A \<union> dom c \<subseteq> dom r" using map_le_implies_dom_le [OF r(1)] r(2) by simp
  show "dom r \<subseteq> dom c \<union> (stepsOf adj)\<^sup>* `` A" using r(3) by blast
qed

lemma explores_skip: "explores adj cid A c r \<Longrightarrow> n \<in> dom c \<Longrightarrow> explores adj cid (insert n A) c r"
  unfolding explores_def using map_le_implies_dom_le [of c r] by (auto simp: insert_absorb)

lemma explores_visit:
  assumes "explores adj cid (N \<union> A) (c(n \<mapsto> cid)) r" "c n = None" "N = stepsOf adj `` {n} - insert n (dom c)"
  shows "explores adj cid (insert n A) c r"
  unfolding explores_def
proof (intro conjI ballI impI)
  have r: "c(n \<mapsto> cid) \<subseteq>\<^sub>m r" "A \<subseteq> dom r" "\<forall>m \<in> dom r - insert n (dom c). r m = Some cid \<and> m \<in> (stepsOf adj)\<^sup>* `` (N \<union> A)"
    using assms(1) by (auto simp: explores_def)
  show "c \<subseteq>\<^sub>m r" using r(1) assms(2) by (simp add: map_le_def) (metis domI domIff)
  have n: "r n = Some cid" using r(1) by (simp add: map_le_def)
  then show "insert n A \<subseteq> dom r" using r(2) by auto
  fix m assume m: "m \<in> dom r - dom c"
  show "r m = Some cid" using m n r(3) by blast
  have "(stepsOf adj)\<^sup>* `` N \<subseteq> (stepsOf adj)\<^sup>* `` {n}" using assms(3) by (auto intro: converse_rtrancl_into_rtrancl)
  then show "m \<in> (stepsOf adj)\<^sup>* `` insert n A" using m r(3) by blast
next
  assume "stepsOf adj `` dom c \<subseteq> dom c \<union> insert n A"
  then have "stepsOf adj `` dom (c(n \<mapsto> cid)) \<subseteq> dom (c(n \<mapsto> cid)) \<union> (N \<union> A)" using assms(3) by auto
  then show "stepsOf adj `` dom r \<subseteq> dom r" using assms(1) unfolding explores_def by blast
qed

declare visitStack.simps [simp del]

lemma visitStack_explores: "explores adj cid (set stack) (map_of comps) (map_of (visitStack adj cid stack comps))"
proof (induction adj cid stack comps rule: visitStack.induct)
  case (1 adj cid comps)
  then show ?case by (simp add: explores_def visitStack.simps)
next
  case (2 adj cid current stack comps)
  show ?case
  proof (cases "map_of comps current = None")
    case True
    define new where "new = filter (\<lambda>n. map_of (mapSet comps current cid) n = None) (sort (orElse (map_of adj current) []))"
    have eq: "visitStack adj cid (current # stack) comps = visitStack adj cid (new @ stack) (mapSet comps current cid)"
      by (simp add: visitStack.simps True Let_def new_def)
    have "explores adj cid (set new \<union> set stack) ((map_of comps)(current \<mapsto> cid)) (map_of (visitStack adj cid (new @ stack) (mapSet comps current cid)))"
      by (rule "2.IH"(2) [OF _ refl, folded new_def, unfolded set_append map_of_mapSet]) (simp add: True)
    then show ?thesis unfolding list.simps eq by (rule explores_visit) (auto simp: True stepsOf_def new_def)
  next
    case False
    then show ?thesis using "2.IH"(1) explores_skip by (auto simp: domIff visitStack.simps)
  qed
qed

text \<open>The loop over the nodes: with links in both directions, equal numbers are the same as being connected.\<close>

definition classes :: "('n \<times> 'n) set \<Rightarrow> int \<Rightarrow> ('n \<rightharpoonup> int) \<Rightarrow> bool" where
  "classes R cid c \<longleftrightarrow> R `` dom c \<subseteq> dom c \<and> (\<forall>u \<in> dom c. the (c u) < cid) \<and> (\<forall>u \<in> dom c. \<forall>v \<in> dom c. c u = c v \<longleftrightarrow> (u, v) \<in> R\<^sup>*)"

lemma rtrancl_closed: "R `` A \<subseteq> A \<Longrightarrow> R\<^sup>* `` A \<subseteq> A"
  by (metis Image_closed_trancl order_refl)

lemma classes_explore:
  assumes "classes (stepsOf adj) cid c" "n \<notin> dom c" "explores adj cid {n} c r" "sym (stepsOf adj)"
  shows "classes (stepsOf adj) (cid + 1) r"
proof -
  let ?R = "stepsOf adj"
  have s: "sym (?R\<^sup>*)" using assms(4) by (rule sym_rtrancl)
  have closed: "?R `` dom c \<subseteq> dom c" "\<forall>u \<in> dom c. the (c u) < cid" "\<forall>u \<in> dom c. \<forall>v \<in> dom c. c u = c v \<longleftrightarrow> (u, v) \<in> ?R\<^sup>*"
    using assms(1) by (auto simp: classes_def)
  have r: "c \<subseteq>\<^sub>m r" "n \<in> dom r" "\<forall>m \<in> dom r - dom c. r m = Some cid \<and> (n, m) \<in> ?R\<^sup>*" "?R `` dom r \<subseteq> dom r"
    using assms(3) closed(1) unfolding explores_def by blast+
  have old: "r u = c u" if "u \<in> dom c" for u using r(1) that by (simp add: map_le_def)
  have apart: "(u, v) \<notin> ?R\<^sup>*" if u: "u \<in> dom c" and v: "v \<in> dom r - dom c" for u v
    using rtrancl_closed [OF closed(1)] u v by blast
  have "r u = r v \<longleftrightarrow> (u, v) \<in> ?R\<^sup>*" if uv: "u \<in> dom r" "v \<in> dom r" for u v
  proof -
    consider "u \<in> dom c" "v \<in> dom c" | "u \<in> dom c" "v \<notin> dom c" | "u \<notin> dom c" "v \<in> dom c" | "u \<notin> dom c" "v \<notin> dom c" by blast
    then show ?thesis
    proof cases
      case 1
      then show ?thesis using old closed(3) by simp
    next
      case 2
      then show ?thesis using uv old closed(2) r(3) apart by (metis DiffI less_irrefl option.sel)
    next
      case 3
      then show ?thesis using uv old closed(2) r(3) apart symD [OF s] by (metis DiffI less_irrefl option.sel)
    next
      case 4
      then show ?thesis using uv r(3) symD [OF s] by (metis DiffI rtrancl_trans)
    qed
  qed
  moreover have "the (r u) < cid + 1" if "u \<in> dom r" for u
  proof (cases "u \<in> dom c")
    case True
    then have "r u = c u" "the (c u) < cid" using old closed(2) by blast+
    then show ?thesis by simp
  next
    case False
    then show ?thesis using that r(3) by simp
  qed
  ultimately show ?thesis using r(4) by (simp add: classes_def)
qed

lemma componentLoop_dom:
  "set ns \<union> dom (map_of comps) \<subseteq> dom (map_of (componentLoop adj ns cid comps))
     \<and> dom (map_of (componentLoop adj ns cid comps)) \<subseteq> (stepsOf adj)\<^sup>* `` (set ns \<union> dom (map_of comps))"
proof (induction ns arbitrary: cid comps)
  case (Cons n ns)
  show ?case
  proof (cases "map_of comps n = None")
    case True
    define c where "c = visitStack adj cid [n] comps"
    have x: "explores adj cid {n} (map_of comps) (map_of c)" using visitStack_explores [of adj cid "[n]" comps] by (simp add: c_def)
    note IH = Cons.IH [of c "cid + 1"]
    have d: "insert n (dom (map_of comps)) \<subseteq> dom (map_of c)" using explores_dom(1) [OF x] by simp
    have "dom (map_of c) \<subseteq> (stepsOf adj)\<^sup>* `` (insert n (dom (map_of comps)))" using explores_dom(2) [OF x] by auto
    then have "(stepsOf adj)\<^sup>* `` dom (map_of c) \<subseteq> (stepsOf adj)\<^sup>* `` (insert n (dom (map_of comps)))" by (blast intro: rtrancl_trans)
    then have up: "(stepsOf adj)\<^sup>* `` (set ns \<union> dom (map_of c)) \<subseteq> (stepsOf adj)\<^sup>* `` (set (n # ns) \<union> dom (map_of comps))" unfolding Image_Un by auto
    have eq: "componentLoop adj (n # ns) cid comps = componentLoop adj ns (cid + 1) c" using True by (simp add: c_def)
    have "set (n # ns) \<union> dom (map_of comps) \<subseteq> set ns \<union> dom (map_of c)" using d by auto
    then show ?thesis unfolding eq using IH up by (meson order_trans)
  next
    case False
    then have eq: "componentLoop adj (n # ns) cid comps = componentLoop adj ns cid comps" "set (n # ns) \<union> dom (map_of comps) = set ns \<union> dom (map_of comps)" by auto
    show ?thesis unfolding eq by (rule Cons.IH)
  qed
qed auto

lemma componentLoop_classes:
  assumes "classes (stepsOf adj) cid (map_of comps)" "sym (stepsOf adj)"
  shows "\<exists>cid'. classes (stepsOf adj) cid' (map_of (componentLoop adj ns cid comps))"
  using assms(1)
proof (induction ns arbitrary: cid comps)
  case (Cons n ns)
  show ?case
  proof (cases "map_of comps n = None")
    case True
    have "explores adj cid {n} (map_of comps) (map_of (visitStack adj cid [n] comps))" using visitStack_explores [of adj cid "[n]" comps] by simp
    then have "classes (stepsOf adj) (cid + 1) (map_of (visitStack adj cid [n] comps))" using classes_explore [OF Cons.prems _ _ assms(2)] True by auto
    then show ?thesis using Cons.IH True by simp
  qed (use Cons in auto)
qed auto

section \<open>Components of the graph\<close>

text \<open>The links of a graph that count: its arcs of at least the given weight.\<close>

definition strongLinks :: "arc list \<Rightarrow> int \<Rightarrow> (string \<times> string) set" where
  "strongLinks arcs edgeFloor = {(a_src a, a_dst a) | a. a \<in> set arcs \<and> edgeFloor \<le> \<bar>a_weight a\<bar>}"

lemma strongLinks_set: "strongLinks arcs edgeFloor = set (map (\<lambda>a. (a_src a, a_dst a)) (filter (\<lambda>a. edgeFloor \<le> \<bar>a_weight a\<bar>) arcs))"
  by (auto simp: strongLinks_def)

definition endpointsListed :: "GraphV0 \<Rightarrow> bool" where
  "endpointsListed g \<longleftrightarrow> (\<forall>e \<in> set (g_edges g). ge_src e \<in> set (g_nodes g) \<and> ge_dst e \<in> set (g_nodes g))"

lemma map_of_fold_empty: "map_of (fold (\<lambda>n adj. mapSet adj n []) ns adj) = (\<lambda>n. if n \<in> set ns then Some [] else map_of adj n)"
  by (induction ns arbitrary: adj) (auto simp: fun_eq_iff)

lemma addArcs:
  fixes edgeFloor
  defines "step \<equiv> \<lambda>a adj. if \<bar>a_weight a\<bar> < edgeFloor then adj
              else case map_of adj (a_src a) of
                     None \<Rightarrow> adj
                   | Some ds \<Rightarrow> mapSet adj (a_src a) (if a_dst a \<in> set ds then ds else ds @ [a_dst a])"
  shows "dom (map_of (fold step arcs adj)) = dom (map_of adj)"
    "stepsOf (fold step arcs adj) = stepsOf adj \<union> (strongLinks arcs edgeFloor \<inter> (dom (map_of adj) \<times> UNIV))"
proof (induction arcs arbitrary: adj)
  case (Cons a arcs)
  have d: "dom (map_of (step a adj)) = dom (map_of adj)" for adj by (auto simp: step_def split: option.splits)
  have s: "stepsOf (step a adj) = stepsOf adj \<union> (strongLinks [a] edgeFloor \<inter> (dom (map_of adj) \<times> UNIV))" for adj
    by (auto simp: step_def stepsOf_def strongLinks_def split: option.splits if_splits)
  have l: "strongLinks (a # arcs) edgeFloor = strongLinks [a] edgeFloor \<union> strongLinks arcs edgeFloor" by (auto simp: strongLinks_def)
  {
    case 1
    have "fold step (a # arcs) adj = fold step arcs (step a adj)" by simp
    then show ?case by (simp only: Cons.IH(1) d)
  next
    case 2
    have "fold step (a # arcs) adj = fold step arcs (step a adj)" by simp
    then show ?case by (simp only: Cons.IH(2) d s l) blast
  }
qed (auto simp: strongLinks_def)

lemma adjacencyOf_steps:
  "dom (map_of (adjacencyOf g edgeFloor p)) = set (g_nodes g)"
  "stepsOf (adjacencyOf g edgeFloor p) = strongLinks (projectedGraphArcs g p False) edgeFloor \<inter> (set (g_nodes g) \<times> UNIV)"
  unfolding adjacencyOf_def addArcs by (auto simp: map_of_fold_empty stepsOf_def split: if_splits)

lemma arcs_listed:
  assumes "endpointsListed g" "a \<in> set (projectedGraphArcs g p s)"
  shows "a_src a \<in> set (g_nodes g)" "a_dst a \<in> set (g_nodes g)"
  using assms by (auto simp: projectedGraphArcs_def edgeArcs_def Let_def endpointsListed_def split: if_splits)

lemma strongLinks_sym: "projectionOf p \<noteq> ''directed_outbound'' \<Longrightarrow> sym (strongLinks (projectedGraphArcs g p s) edgeFloor)"
  by (rule symI) (force simp: strongLinks_def projectedGraphArcs_def edgeArcs_def Let_def split: if_splits)

lemma adjacencyOf_links: "endpointsListed g \<Longrightarrow> stepsOf (adjacencyOf g edgeFloor p) = strongLinks (projectedGraphArcs g p False) edgeFloor"
  using arcs_listed [of g _ p False] unfolding adjacencyOf_steps(2) by (auto simp: strongLinks_def)

lemma connectedComponents_dom:
  assumes "endpointsListed g"
  shows "dom (map_of (connectedComponents g edgeFloor p)) = set (g_nodes g)"
proof -
  let ?adj = "adjacencyOf g edgeFloor p" let ?L = "strongLinks (projectedGraphArcs g p False) edgeFloor"
  have ns: "set (sort (map fst ?adj)) = set (g_nodes g)" using adjacencyOf_steps(1) [of g edgeFloor p] by (simp add: dom_map_of_conv_image_fst)
  have "?L `` set (g_nodes g) \<subseteq> set (g_nodes g)" using arcs_listed [OF assms] by (auto simp: strongLinks_def)
  then have "?L\<^sup>* `` set (g_nodes g) \<subseteq> set (g_nodes g)" by (rule rtrancl_closed)
  moreover have "set (g_nodes g) \<subseteq> dom (map_of (connectedComponents g edgeFloor p))" "dom (map_of (connectedComponents g edgeFloor p)) \<subseteq> ?L\<^sup>* `` set (g_nodes g)"
    using componentLoop_dom [of "sort (map fst ?adj)" "[]" ?adj 0, unfolded ns adjacencyOf_links [OF assms]] by (simp_all add: connectedComponents_def Let_def)
  ultimately show ?thesis by blast
qed

lemma connectedComponents_classes:
  assumes "endpointsListed g" "projectionOf p \<noteq> ''directed_outbound''"
  shows "\<exists>cid. classes (strongLinks (projectedGraphArcs g p False) edgeFloor) cid (map_of (connectedComponents g edgeFloor p))"
proof -
  have "classes (stepsOf (adjacencyOf g edgeFloor p)) 0 (map_of [])" "sym (stepsOf (adjacencyOf g edgeFloor p))"
    using strongLinks_sym [OF assms(2)] by (simp_all add: classes_def adjacencyOf_links [OF assms(1)])
  from componentLoop_classes [OF this] show ?thesis by (simp add: connectedComponents_def Let_def adjacencyOf_links [OF assms(1)])
qed

section \<open>Breadth-first search\<close>

text \<open>\<open>k\<close> is the length of a shortest path from \<open>s\<close> to one of the nodes \<open>S\<close>; \<open>None\<close> that there is no path.\<close>

definition nearest :: "('n \<times> 'n) set \<Rightarrow> 'n \<Rightarrow> 'n set \<Rightarrow> nat option \<Rightarrow> bool" where
  "nearest L s S k = (case k of
       None \<Rightarrow> (\<forall>x \<in> S. (s, x) \<notin> L\<^sup>*)
     | Some n \<Rightarrow> (\<exists>x \<in> S. (s, x) \<in> L ^^ n) \<and> (\<forall>m < n. \<forall>x \<in> S. (s, x) \<notin> L ^^ m))"

text \<open>
  The state of the search from \<open>s\<close>: the queue holds nodes at distance \<open>d\<close> and, after them, nodes at distance \<open>d + 1\<close>; every node within \<open>d\<close> steps was seen, and
  the successors of a seen node that is no longer in the queue were seen.
\<close>

definition searching :: "('n \<times> 'n) set \<Rightarrow> 'n \<Rightarrow> 'n set \<Rightarrow> nat \<Rightarrow> 'n list \<Rightarrow> 'n list \<Rightarrow> 'n set \<Rightarrow> bool" where
  "searching L s S d q1 q2 seen \<longleftrightarrow> (\<forall>x \<in> set q1. (s, x) \<in> L ^^ d) \<and> (\<forall>x \<in> set q2. (s, x) \<in> L ^^ Suc d) \<and> seen \<inter> S = {}
     \<and> (\<forall>m \<le> d. (L ^^ m) `` {s} \<subseteq> seen) \<and> (\<forall>m \<le> d. (L ^^ m) `` {s} \<inter> set q2 = {}) \<and> L `` (seen - set q1 - set q2) \<subseteq> seen"

lemma searching_level:
  assumes "searching L s S d [] q seen"
  shows "searching L s S (Suc d) q [] seen"
proof -
  have a: "\<forall>x \<in> set q. (s, x) \<in> L ^^ Suc d" "seen \<inter> S = {}" "\<forall>m \<le> d. (L ^^ m) `` {s} \<subseteq> seen - set q" "L `` (seen - set q) \<subseteq> seen"
    using assms by (auto simp: searching_def)
  have "(L ^^ Suc d) `` {s} = L `` ((L ^^ d) `` {s})" by (auto simp: relcomp_unfold)
  then have "(L ^^ Suc d) `` {s} \<subseteq> seen" using a(3,4) by (metis Image_mono order_refl order_trans)
  then have "\<forall>m \<le> Suc d. (L ^^ m) `` {s} \<subseteq> seen" using a(3) le_Suc_eq by blast
  then show ?thesis using a by (simp add: searching_def)
qed

lemma searching_found:
  assumes "searching L s S d (x # q1) q2 seen" "(x, y) \<in> L" "y \<in> S"
  shows "nearest L s S (Some (d + 1))"
proof -
  have "(s, y) \<in> L ^^ Suc d" using assms by (auto simp: searching_def)
  moreover have "(s, z) \<notin> L ^^ m" if "m < d + 1" "z \<in> S" for m z
  proof -
    have "(L ^^ m) `` {s} \<subseteq> seen" "seen \<inter> S = {}" using assms(1) that(1) by (simp_all add: searching_def)
    then show ?thesis using that(2) by blast
  qed
  ultimately show ?thesis using assms(3) by (auto simp: nearest_def)
qed

lemma searching_done:
  assumes "searching L s S d [] [] seen"
  shows "nearest L s S None"
proof -
  have a: "L `` seen \<subseteq> seen" "seen \<inter> S = {}" "\<forall>m \<le> d. (L ^^ m) `` {s} \<subseteq> seen" using assms by (simp_all add: searching_def)
  from a(3) [rule_format, of 0] have "L\<^sup>* `` {s} \<subseteq> seen" using rtrancl_closed [OF a(1)] by auto
  then show ?thesis using a(2) by (auto simp: nearest_def)
qed

lemma searching_scan:
  assumes "searching L s S d (x # q1) q2 seen" "set new = L `` {x} - seen" "set new \<inter> S = {}"
  shows "searching L s S d q1 (q2 @ new) (seen \<union> set new)"
proof -
  have a: "(s, x) \<in> L ^^ d" "\<forall>z \<in> set q1. (s, z) \<in> L ^^ d" "\<forall>z \<in> set q2. (s, z) \<in> L ^^ Suc d" "seen \<inter> S = {}" "\<forall>m \<le> d. (L ^^ m) `` {s} \<subseteq> seen"
    "\<forall>m \<le> d. (L ^^ m) `` {s} \<inter> set q2 = {}" "L `` (seen - insert x (set q1) - set q2) \<subseteq> seen"
    using assms(1) by (simp_all add: searching_def)
  have "\<forall>z \<in> set new. (s, z) \<in> L ^^ Suc d" using a(1) assms(2) by (auto intro: relpow_Suc_I)
  moreover have "seen \<union> set new - set q1 - set (q2 @ new) \<subseteq> insert x (seen - insert x (set q1) - set q2)" by auto
  then have "L `` (seen \<union> set new - set q1 - set (q2 @ new)) \<subseteq> L `` {x} \<union> L `` (seen - insert x (set q1) - set q2)" by blast
  then have "L `` (seen \<union> set new - set q1 - set (q2 @ new)) \<subseteq> seen \<union> set new" using a(7) assms(2) by blast
  moreover have "(seen \<union> set new) \<inter> S = {}" using a(4) assms(3) by blast
  moreover have "(L ^^ m) `` {s} \<subseteq> seen \<union> set new \<and> (L ^^ m) `` {s} \<inter> set (q2 @ new) = {}" if "m \<le> d" for m
  proof -
    have "(L ^^ m) `` {s} \<subseteq> seen" "(L ^^ m) `` {s} \<inter> set q2 = {}" using a(5,6) that by blast+
    then show ?thesis using assms(2) by auto
  qed
  ultimately show ?thesis using a(2,3) by (auto simp: searching_def)
qed

lemma scanArcs_result:
  assumes "seen \<inter> S = {}"
  shows "case scanArcs arcs edgeFloor S x d queue seen of
      Inl n \<Rightarrow> n = d + 1 \<and> (\<exists>y \<in> S. (x, y) \<in> strongLinks arcs edgeFloor)
    | Inr (queue', seen') \<Rightarrow> \<exists>new. queue' = queue @ map (\<lambda>y. (y, d + 1)) new \<and> seen' = seen \<union> set new
        \<and> set new = strongLinks arcs edgeFloor `` {x} - seen \<and> set new \<inter> S = {}"
  using assms
proof (induction arcs arbitrary: queue seen)
  case Nil
  then show ?case by (simp add: strongLinks_def)
next
  case (Cons a arcs)
  have l: "strongLinks (a # arcs) edgeFloor `` {x} = strongLinks arcs edgeFloor `` {x} \<union> (if a_src a = x \<and> edgeFloor \<le> \<bar>a_weight a\<bar> then {a_dst a} else {})"
    by (auto simp: strongLinks_def)
  consider "a_src a \<noteq> x \<or> \<bar>a_weight a\<bar> < edgeFloor \<or> a_dst a \<in> seen"
    | "a_src a = x" "edgeFloor \<le> \<bar>a_weight a\<bar>" "a_dst a \<in> S" "a_dst a \<notin> seen"
    | "a_src a = x" "edgeFloor \<le> \<bar>a_weight a\<bar>" "a_dst a \<notin> S" "a_dst a \<notin> seen" by linarith
  then show ?case
  proof cases
    case 1
    then have "strongLinks (a # arcs) edgeFloor `` {x} - seen = strongLinks arcs edgeFloor `` {x} - seen" using l by auto
    moreover have "scanArcs (a # arcs) edgeFloor S x d queue seen = scanArcs arcs edgeFloor S x d queue seen" using 1 by simp
    ultimately show ?thesis using Cons.IH [OF Cons.prems, of queue] l by (simp split: sum.splits prod.splits) blast
  next
    case 2
    then have "(x, a_dst a) \<in> strongLinks (a # arcs) edgeFloor" by (auto simp: strongLinks_def)
    then show ?thesis using 2 by auto
  next
    case 3
    then have eq: "scanArcs (a # arcs) edgeFloor S x d queue seen = scanArcs arcs edgeFloor S x d (queue @ [(a_dst a, d + 1)]) (insert (a_dst a) seen)" by simp
    have l': "strongLinks (a # arcs) edgeFloor `` {x} = insert (a_dst a) (strongLinks arcs edgeFloor `` {x})" using l 3 by simp
    have "insert (a_dst a) seen \<inter> S = {}" using 3 Cons.prems by simp
    note IH = Cons.IH [OF this, of "queue @ [(a_dst a, d + 1)]"]
    show ?thesis
    proof (cases "scanArcs arcs edgeFloor S x d (queue @ [(a_dst a, d + 1)]) (insert (a_dst a) seen)")
      case (Inl n)
      then show ?thesis using IH l' eq by auto
    next
      case (Inr r)
      then obtain new where new: "fst r = queue @ [(a_dst a, d + 1)] @ map (\<lambda>y. (y, d + 1)) new" "snd r = insert (a_dst a) seen \<union> set new"
        "set new = strongLinks arcs edgeFloor `` {x} - insert (a_dst a) seen" "set new \<inter> S = {}"
        using IH by (auto split: prod.splits)
      then have "fst r = queue @ map (\<lambda>y. (y, d + 1)) (a_dst a # new)" "snd r = seen \<union> set (a_dst a # new)" by auto
      moreover have "set (a_dst a # new) = insert (a_dst a) (strongLinks arcs edgeFloor `` {x}) - seen" "set (a_dst a # new) \<inter> S = {}"
        using new(3,4) 3(3,4) by auto
      ultimately show ?thesis unfolding eq Inr l' sum.case case_prod_beta by blast
    qed
  qed
qed

lemma seedSearch_nearest:
  assumes "searching (strongLinks arcs edgeFloor) s S d q1 q2 seen" "queue = map (\<lambda>y. (y, d)) q1 @ map (\<lambda>y. (y, d + 1)) q2"
  shows "nearest (strongLinks arcs edgeFloor) s S (seedSearch arcs edgeFloor S queue seen)"
  using assms
proof (induction arcs edgeFloor S queue seen arbitrary: d q1 q2 rule: seedSearch.induct)
  case (1 arcs edgeFloor S seen)
  then show ?case using searching_done by simp
next
  case (2 arcs edgeFloor S x k queue seen)
  obtain q r where q: "searching (strongLinks arcs edgeFloor) s S k (x # q) r seen" "queue = map (\<lambda>y. (y, k)) q @ map (\<lambda>y. (y, k + 1)) r"
  proof (cases q1)
    case Nil
    then obtain ys where "q2 = x # ys" "k = d + 1" "queue = map (\<lambda>y. (y, k)) ys" using "2.prems"(2) by (cases q2) auto
    moreover have "searching (strongLinks arcs edgeFloor) s S (Suc d) q2 [] seen" using "2.prems"(1) Nil by (intro searching_level) simp
    ultimately show ?thesis using that [of ys "[]"] by simp
  next
    case (Cons y ys)
    then show ?thesis using that [of ys q2] "2.prems" by simp
  qed
  have "seen \<inter> S = {}" using q(1) by (simp add: searching_def)
  note scan = scanArcs_result [OF this, where arcs = arcs and edgeFloor = edgeFloor and x = x and d = k and queue = queue]
  show ?case
  proof (cases "scanArcs arcs edgeFloor S x k queue seen")
    case (Inl n)
    then show ?thesis using scan searching_found [OF q(1)] by auto
  next
    case (Inr p)
    then obtain new where new: "p = (queue @ map (\<lambda>y. (y, k + 1)) new, seen \<union> set new)" "set new = strongLinks arcs edgeFloor `` {x} - seen" "set new \<inter> S = {}"
      using scan by (cases p) auto
    have "nearest (strongLinks arcs edgeFloor) s S (seedSearch arcs edgeFloor S (queue @ map (\<lambda>y. (y, k + 1)) new) (seen \<union> set new))"
      using "2.IH" [OF Inr new(1) [symmetric] searching_scan [OF q(1) new(2,3)]] q(2) by simp
    then show ?thesis using Inr new(1) by simp
  qed
qed

lemma shortestSeedDistance_nearest_links:
  "nearest (strongLinks (projectedGraphArcs g p True) (floorOf p)) subject seeds (shortestSeedDistance g subject seeds p)"
proof (cases "subject \<in> seeds")
  case True
  then show ?thesis by (auto simp: shortestSeedDistance_def nearest_def)
next
  case False
  then have "searching (strongLinks (projectedGraphArcs g p True) (floorOf p)) subject seeds 0 [subject] [] {subject}"
    by (auto simp: searching_def)
  from seedSearch_nearest [OF this] show ?thesis using False by (simp add: shortestSeedDistance_def)
qed

section \<open>The properties\<close>


definition demoEdge :: "string \<Rightarrow> string \<Rightarrow> int \<Rightarrow> GraphEdgeV0" where
  "demoEdge src dst w = \<lparr>ge_src = src, ge_dst = dst, ge_type = ''vouched'', ge_timestamp = ''t'', ge_weight_bps = w, ge_source_quality_bps = None, ge_decay_bps = None,
     ge_receipt_status_bps = None, ge_appeal_multiplier_bps = None, ge_community = None, ge_issuer = None, ge_created_at = None, ge_evidence_hash = None,
     ge_evidence_commitment = None, ge_appeal_uri = None, ge_appeal_status = None\<rparr>"

definition demoGraph :: GraphV0 where
  "demoGraph = \<lparr>g_edges = [demoEdge ''a'' ''b'' 5000, demoEdge ''c'' ''d'' 500], g_nodes = [''a'', ''b'', ''c'', ''d'']\<rparr>"

definition demoGraphProfile :: "string \<Rightarrow> GraphProfileV2" where
  "demoGraphProfile algorithm = \<lparr>gpr_type = ''tsl.graph_profile.v2'', gpr_profile_id = ''p'', gpr_edge_weight_profile = ''w'', gpr_temporal_decay_profile = ''d'',
     gpr_community_detection = \<lparr>cd_algorithm = algorithm, cd_resolution_bps = 10000, cd_min_cluster_size = 1, cd_edge_weight_floor_bps = None,
       cd_deterministic_ordering = None, cd_max_passes = None, cd_approximation_tolerance_bps = None, cd_refinement_threshold_bps = None,
       cd_projection = None, cd_negative_edge_treatment = None\<rparr>,
     gpr_seed_sets = \<lparr>ss_trusted_seed_commitment = '''', ss_adversarial_seed_commitment = '''', ss_trusted_seed_governance_commitment = None,
       ss_adversarial_seed_governance_commitment = None\<rparr>,
     gpr_negative_edge_policy = \<lparr>ne_requires_evidence_commitment = True, ne_requires_appeal_uri = True, ne_max_single_negative_weight_bps = 5000, ne_decay_days = 90\<rparr>,
     gpr_privacy_policy = \<lparr>pp_raw_counterparty_upload_required = False, pp_allows_pairwise_private_features = True\<rparr>,
     gpr_edge_weights = None, gpr_half_life_days = None, gpr_issuer_quality_bps = None, gpr_pagerank = None, gpr_manifold_profile = None\<rparr>"

definition demoHost :: host where
  "demoHost = \<lparr>h_exp = (\<lambda>_. 1), h_log = (\<lambda>_. 0), h_pow = (\<lambda>_ _. 1), h_localeCompare = (\<lambda>a b. if a = b then 0 else if a < b then -1 else 1)\<rparr>"


text \<open>
  C20: \<^verbatim>\<open>shortestSeedDistance\<close> returns \<open>d\<close> exactly when \<open>d\<close> is the length of a shortest path from the subject to a seed over arcs of at least the profile's floor,
  and infinity exactly when no seed can be reached.
\<close>

theorem shortestSeedDistance_nearest:
  "nearest (strongLinks (projectedGraphArcs g p True) (floorOf p)) subject seeds (shortestSeedDistance g subject seeds p)"
  by (rule shortestSeedDistance_nearest_links)



end
