(* ===== verification/Community.thy ===== *)
theory Community
  imports GraphSearch
begin

text \<open>
  Communities of the trust graph and its page ranks (\<^verbatim>\<open>src/packages/core-ts/src/v2.ts\<close>): label propagation, the two generations of the Louvain and Leiden
  methods, the merge of small clusters and the choice among them by the profile. Assignments are \<^verbatim>\<open>Map\<close>s from nodes to numbers; modularity and page
  ranks are computed in doubles and returned in basis points.
\<close>

section \<open>Numbering of communities\<close>

fun numberInOrder :: "(string \<times> 'l) list \<Rightarrow> string list \<Rightarrow> ('l \<times> int) list \<Rightarrow> (string \<times> int) list \<Rightarrow> (string \<times> int) list" where
  "numberInOrder labels [] ids out = out"
| "numberInOrder labels (n # ns) ids out = (case map_of labels n of
       None \<Rightarrow> numberInOrder labels ns ids out
     | Some l \<Rightarrow>
         let ids' = (if map_of ids l = None then mapSet ids l (int (length ids)) else ids) in
         numberInOrder labels ns ids' (mapSet out n (the (map_of ids' l))))"

definition normalizeCommunityIds :: "(string \<times> int) list \<Rightarrow> (string \<times> int) list" where
  "normalizeCommunityIds assignments = numberInOrder assignments (sort (map fst assignments)) [] []"

definition groupNodes :: "(string \<times> int) list \<Rightarrow> (int \<times> string list) list" where
  "groupNodes assignments = fold (\<lambda>(n, c) m. mapSet m c (orElse (map_of m c) [] @ [n])) assignments []"

section \<open>Label propagation\<close>

definition otherEnd :: "GraphEdgeV0 \<Rightarrow> string \<Rightarrow> string option" where
  "otherEnd e node = (if ge_src e = node then Some (ge_dst e) else if ge_dst e = node then Some (ge_src e) else None)"

definition labelMasses :: "GraphV0 \<Rightarrow> GraphProfileV2 \<Rightarrow> (string \<times> string) list \<Rightarrow> string \<Rightarrow> (string \<times> int) list" where
  "labelMasses g p labels node =
     fold (\<lambda>e m. let mass = positiveWeight (Some p) e in
                 if mass < floorOf (Some p) then m
                 else case otherEnd e node of
                        None \<Rightarrow> m
                      | Some u \<Rightarrow> if u = [] then m else mapAdd m (orElse (map_of labels u) u) mass)
       (g_edges g) [(orElse (map_of labels node) node, 0)]"

definition labelStep :: "host \<Rightarrow> GraphV0 \<Rightarrow> GraphProfileV2 \<Rightarrow> string \<Rightarrow> (string \<times> string) list \<times> bool \<Rightarrow> (string \<times> string) list \<times> bool" where
  "labelStep H g p node s =
     (let current = orElse (map_of (fst s) node) node;
          ranked = sortCmp (\<lambda>a b. cmpOr (snd b - snd a) (h_localeCompare H (fst a) (fst b))) (labelMasses g p (fst s) node);
          best = (case ranked of [] \<Rightarrow> current | r # _ \<Rightarrow> fst r) in
      if best \<noteq> current then (mapSet (fst s) node best, True) else s)"

fun labelPasses :: "host \<Rightarrow> GraphV0 \<Rightarrow> GraphProfileV2 \<Rightarrow> nat \<Rightarrow> (string \<times> string) list \<Rightarrow> (string \<times> string) list" where
  "labelPasses H g p 0 labels = labels"
| "labelPasses H g p (Suc k) labels =
     (let (labels', changed) = fold (labelStep H g p) (sort (g_nodes g)) (labels, False) in
      if \<not> changed then labels' else labelPasses H g p k labels')"

definition maxPassesOf :: "GraphProfileV2 \<Rightarrow> nat" where
  "maxPassesOf p = nat (orElse (cd_max_passes (gpr_community_detection p)) 20)"

definition deterministicWeightedLabelPropagation :: "host \<Rightarrow> GraphV0 \<Rightarrow> GraphProfileV2 \<Rightarrow> (string \<times> int) list" where
  "deterministicWeightedLabelPropagation H g p =
     (let nodes = sort (g_nodes g);
          labels = labelPasses H g p (maxPassesOf p) (fold (\<lambda>n m. mapSet m n n) nodes []) in
      numberInOrder (map (\<lambda>n. (n, orElse (map_of labels n) n)) nodes) nodes [] [])"

section \<open>Refinement of communities\<close>

text \<open>The loops shared by both generations of the Leiden method: a community is split into its connected components.\<close>

definition subgraph :: "GraphV0 \<Rightarrow> GraphProfileV2 \<Rightarrow> int \<Rightarrow> string list \<Rightarrow> GraphV0" where
  "subgraph g p threshold nodes = \<lparr>g_edges = filter (\<lambda>e. ge_src e \<in> set nodes \<and> ge_dst e \<in> set nodes \<and> threshold \<le> positiveWeight (Some p) e) (g_edges g),
     g_nodes = sort nodes\<rparr>"

definition refineGroup :: "GraphV0 \<Rightarrow> GraphProfileV2 \<Rightarrow> int \<Rightarrow> string list \<Rightarrow> (string \<times> int) list \<times> int \<Rightarrow> (string \<times> int) list \<times> int" where
  "refineGroup g p threshold nodes s =
     (let sub = connectedComponents (subgraph g p threshold nodes) threshold (Some p) in
      fold (\<lambda>local (refined, next). (fold (\<lambda>(n, c) m. if c = local then mapSet m n next else m) sub refined, next + 1))
        (sort (uniqueInOrder (map snd sub))) s)"

fun indexOf :: "'a list \<Rightarrow> 'a \<Rightarrow> int" where
  "indexOf [] x = -1"
| "indexOf (y # ys) x = (if y = x then 0 else let i = indexOf ys x in if i = -1 then -1 else i + 1)"

definition deterministicLeidenRefinement :: "host \<Rightarrow> GraphV0 \<Rightarrow> GraphProfileV2 \<Rightarrow> (string \<times> int) list" where
  "deterministicLeidenRefinement H g p =
     (let groups = groupNodes (deterministicWeightedLabelPropagation H g p);
          ordered = sort_key (\<lambda>(_, ns). Min (set (map (indexOf (g_nodes g)) ns))) groups in
      fst (fold (\<lambda>(_, ns). refineGroup g p (floorOf (Some p)) ns) ordered ([], 0)))"

section \<open>Small clusters\<close>

definition candidateMasses :: "GraphV0 \<Rightarrow> GraphProfileV2 \<Rightarrow> int \<Rightarrow> (string \<times> int) list \<Rightarrow> int \<Rightarrow> string list \<Rightarrow> (int \<times> int) list" where
  "candidateMasses g p minSize out community nodes =
     fold (\<lambda>e m. let srcSmall = ge_src e \<in> set nodes; dstSmall = ge_dst e \<in> set nodes in
                 if srcSmall = dstSmall then m
                 else case map_of out (if srcSmall then ge_dst e else ge_src e) of
                        None \<Rightarrow> m
                      | Some c \<Rightarrow>
                          if c = community then m
                          else if int (length (orElse (map_of (groupNodes out) c) [])) < minSize then m
                          else mapAdd m c (positiveWeight (Some p) e))
       (g_edges g) []"

definition mergeSmall :: "GraphV0 \<Rightarrow> GraphProfileV2 \<Rightarrow> int \<Rightarrow> int \<times> string list \<Rightarrow> (string \<times> int) list \<Rightarrow> (string \<times> int) list" where
  "mergeSmall g p minSize grp out =
     (if minSize \<le> int (length (snd grp)) then out
      else case sortCmp (\<lambda>a b. cmpOr (snd b - snd a) (fst a - fst b)) (candidateMasses g p minSize out (fst grp) (snd grp)) of
             [] \<Rightarrow> out
           | best # _ \<Rightarrow> fold (\<lambda>n m. mapSet m n (fst best)) (snd grp) out)"

definition applyMinClusterSize :: "GraphV0 \<Rightarrow> GraphProfileV2 \<Rightarrow> (string \<times> int) list \<Rightarrow> (string \<times> int) list" where
  "applyMinClusterSize g p assignments =
     (let minSize = cd_min_cluster_size (gpr_community_detection p) in
      if minSize \<le> 1 then normalizeCommunityIds assignments
      else normalizeCommunityIds (fold (mergeSmall g p minSize) (sort_key fst (groupNodes assignments)) assignments))"

section \<open>Modularity\<close>

definition pairKey :: "string \<Rightarrow> string \<Rightarrow> string" where
  "pairKey a b = (if a \<le> b then a @ [CHR 0x00] @ b else b @ [CHR 0x00] @ a)"

definition splitKey :: "string \<Rightarrow> string \<times> string" where
  "splitKey key = (let rest = tl (dropWhile (\<lambda>c. c \<noteq> CHR 0x00) key) in
     (takeWhile (\<lambda>c. c \<noteq> CHR 0x00) key, takeWhile (\<lambda>c. c \<noteq> CHR 0x00) rest))"

definition undirectedPositiveMass :: "GraphV0 \<Rightarrow> GraphProfileV2 \<Rightarrow> (string \<times> int) list" where
  "undirectedPositiveMass g p =
     fold (\<lambda>e m. let w = positiveWeight (Some p) e in
                 if w < orElse (cd_edge_weight_floor_bps (gpr_community_detection p)) 0 \<or> ge_src e = ge_dst e then m
                 else mapAdd m (pairKey (ge_src e) (ge_dst e)) w)
       (g_edges g) []"

definition degreesOf :: "GraphV0 \<Rightarrow> (string \<times> int) list \<Rightarrow> (string \<times> int) list" where
  "degreesOf g pairMass =
     fold (\<lambda>(key, w) m. let (l, r) = splitKey key in mapAdd (mapAdd m l w) r w) pairMass (fold (\<lambda>n m. mapSet m n 0) (g_nodes g) [])"

definition modularityBps :: "GraphV0 \<Rightarrow> GraphProfileV2 \<Rightarrow> (string \<times> int) list \<Rightarrow> int" where
  "modularityBps g p assignments =
     (let pairMass = undirectedPositiveMass g p;
          degree = (\<lambda>n. orElse (map_of (degreesOf g pairMass) n) 0);
          totalMass = sum_list (map snd pairMass);
          resolution = fdiv (of_int (clampBps (cd_resolution_bps (gpr_community_detection p)))) 10000 in
      if totalMass \<le> 0 then 0
      else let q = fold (\<lambda>(key, w) q. let (l, r) = splitKey key in
                     if map_of assignments l \<noteq> map_of assignments r then q
                     else fadd q (fsub (fdiv (of_int w) (of_int totalMass))
                            (fdiv (fmul resolution (fmul (of_int (degree l)) (of_int (degree r)))) (fmul (fmul 2 (of_int totalMass)) (of_int totalMass)))))
                   pairMass 0
           in clampBps \<lfloor>fmul q 10000\<rfloor>)"

section \<open>The Louvain and Leiden methods\<close>

record CommunityResultV1 =
  cr_assignments :: "(string \<times> int) list"
  cr_modularity_bps :: int
  cr_pass_count :: int

definition neighborCommunities :: "GraphV0 \<Rightarrow> (string \<times> int) list \<Rightarrow> string \<Rightarrow> int list" where
  "neighborCommunities g assignments node =
     sort (uniqueInOrder (the (map_of assignments node)
       # List.map_filter (\<lambda>e. case otherEnd e node of None \<Rightarrow> None | Some u \<Rightarrow> if u = [] then None else map_of assignments u) (g_edges g)))"

text \<open>The community of highest modularity among the candidates, with that modularity; among equals the one with the lowest number.\<close>

definition bestCommunityStep :: "GraphV0 \<Rightarrow> GraphProfileV2 \<Rightarrow> int \<Rightarrow> (string \<times> int) list \<Rightarrow> string \<Rightarrow> int \<Rightarrow> int \<times> int \<Rightarrow> int \<times> int" where
  "bestCommunityStep g p tolerance assignments node candidate best =
     (let trialModularity = modularityBps g p (mapSet assignments node candidate) in
      if snd best + tolerance < trialModularity \<or> (trialModularity = snd best \<and> candidate < fst best) then (candidate, trialModularity) else best)"

record louvainState =
  lv_assignments :: "(string \<times> int) list"
  lv_modularity :: int
  lv_changed :: bool

definition louvainStep :: "GraphV0 \<Rightarrow> GraphProfileV2 \<Rightarrow> int \<Rightarrow> string \<Rightarrow> louvainState \<Rightarrow> louvainState" where
  "louvainStep g p tolerance node s =
     (let own = the (map_of (lv_assignments s) node);
          best = fold (bestCommunityStep g p tolerance (lv_assignments s) node) (neighborCommunities g (lv_assignments s) node) (own, lv_modularity s) in
      if fst best \<noteq> own then \<lparr>lv_assignments = mapSet (lv_assignments s) node (fst best), lv_modularity = snd best, lv_changed = True\<rparr> else s)"

fun louvainPasses :: "GraphV0 \<Rightarrow> GraphProfileV2 \<Rightarrow> int \<Rightarrow> nat \<Rightarrow> CommunityResultV1 \<Rightarrow> CommunityResultV1" where
  "louvainPasses g p tolerance 0 r = r"
| "louvainPasses g p tolerance (Suc k) r =
     (let s = fold (louvainStep g p tolerance) (sort (g_nodes g)) \<lparr>lv_assignments = cr_assignments r, lv_modularity = cr_modularity_bps r, lv_changed = False\<rparr>;
          assignments = normalizeCommunityIds (lv_assignments s);
          r' = \<lparr>cr_assignments = assignments, cr_modularity_bps = modularityBps g p assignments, cr_pass_count = cr_pass_count r + 1\<rparr> in
      if \<not> lv_changed s then r' else louvainPasses g p tolerance k r')"

definition singletons :: "GraphV0 \<Rightarrow> (string \<times> int) list" where
  "singletons g = fold (\<lambda>(n, i) m. mapSet m n (int i)) (let ns = sort (g_nodes g) in zip ns [0..<length ns]) []"

definition deterministicLouvainModularityV1 :: "GraphV0 \<Rightarrow> GraphProfileV2 \<Rightarrow> CommunityResultV1" where
  "deterministicLouvainModularityV1 g p =
     louvainPasses g p (orElse (cd_approximation_tolerance_bps (gpr_community_detection p)) 0) (maxPassesOf p)
       \<lparr>cr_assignments = singletons g, cr_modularity_bps = modularityBps g p (singletons g), cr_pass_count = 0\<rparr>"

definition deterministicLeidenRefinementV1 :: "GraphV0 \<Rightarrow> GraphProfileV2 \<Rightarrow> CommunityResultV1" where
  "deterministicLeidenRefinementV1 g p =
     (let coarse = deterministicLouvainModularityV1 g p;
          threshold = orElse (cd_refinement_threshold_bps (gpr_community_detection p)) (floorOf (Some p));
          refined = fst (fold (\<lambda>(_, ns). refineGroup g p threshold ns) (sort_key fst (groupNodes (cr_assignments coarse))) ([], 0));
          assignments = normalizeCommunityIds refined in
      \<lparr>cr_assignments = assignments, cr_modularity_bps = modularityBps g p assignments, cr_pass_count = cr_pass_count coarse + 1\<rparr>)"

section \<open>The choice of the profile\<close>

definition normalizeCommunityAlgorithm :: "string \<Rightarrow> string" where
  "normalizeCommunityAlgorithm a =
     (if a = ''louvain'' then ''louvain_modularity_v1'' else if a = ''leiden'' then ''leiden_refinement_v1'' else a)"

definition communityAssignments :: "host \<Rightarrow> GraphV0 \<Rightarrow> GraphProfileV2 option \<Rightarrow> (string \<times> int) list" where
  "communityAssignments H g profile = (case profile of
       None \<Rightarrow> connectedComponents g 1000 None
     | Some p \<Rightarrow>
         if cd_algorithm (gpr_community_detection p) = ''none'' then singletons g
         else let a = normalizeCommunityAlgorithm (cd_algorithm (gpr_community_detection p)) in
              applyMinClusterSize g p
                (if a = ''connected_components'' \<or> a = ''connected_components_v0'' then connectedComponents g (floorOf (Some p)) (Some p)
                 else if a = ''louvain_modularity_v0'' then deterministicWeightedLabelPropagation H g p
                 else if a = ''leiden_refinement_v0'' then deterministicLeidenRefinement H g p
                 else if a = ''louvain_modularity_v1'' then cr_assignments (deterministicLouvainModularityV1 g p)
                 else if a = ''leiden_refinement_v1'' then cr_assignments (deterministicLeidenRefinementV1 g p)
                 else connectedComponents g (floorOf (Some p)) (Some p)))"

definition appliedResult :: "GraphV0 \<Rightarrow> GraphProfileV2 \<Rightarrow> CommunityResultV1 \<Rightarrow> CommunityResultV1" where
  "appliedResult g p r = (let applied = applyMinClusterSize g p (cr_assignments r) in
     \<lparr>cr_assignments = applied, cr_modularity_bps = modularityBps g p applied, cr_pass_count = cr_pass_count r\<rparr>)"

definition communityResult :: "host \<Rightarrow> GraphV0 \<Rightarrow> GraphProfileV2 option \<Rightarrow> CommunityResultV1" where
  "communityResult H g profile =
     (let assignments = communityAssignments H g profile in
      case profile of
        None \<Rightarrow> \<lparr>cr_assignments = assignments, cr_modularity_bps = 0, cr_pass_count = 1\<rparr>
      | Some p \<Rightarrow>
          let a = normalizeCommunityAlgorithm (cd_algorithm (gpr_community_detection p)) in
          if a = ''louvain_modularity_v1'' then appliedResult g p (deterministicLouvainModularityV1 g p)
          else if a = ''leiden_refinement_v1'' then appliedResult g p (deterministicLeidenRefinementV1 g p)
          else \<lparr>cr_assignments = assignments, cr_modularity_bps = modularityBps g p assignments, cr_pass_count = 1\<rparr>)"

definition componentOfSubject :: "host \<Rightarrow> GraphV0 \<Rightarrow> string \<Rightarrow> GraphProfileV2 option \<Rightarrow> string list" where
  "componentOfSubject H g subject profile =
     (let components = communityAssignments H g profile in
      case map_of components subject of
        None \<Rightarrow> [subject]
      | Some c \<Rightarrow> map fst (filter (\<lambda>(_, d). d = c) components))"

section \<open>Page ranks\<close>

definition spreadRank :: "arc list \<Rightarrow> string list \<Rightarrow> rat \<Rightarrow> (string \<times> rat) list \<Rightarrow> (string \<times> rat) list \<Rightarrow> string \<Rightarrow> (string \<times> rat) list \<Rightarrow> (string \<times> rat) list" where
  "spreadRank arcs nodes damping personalize scores src next =
     (let outgoing = filter (\<lambda>a. a_src a = src \<and> 0 < a_weight a) arcs;
          whole = sum_list (map a_weight outgoing);
          mass = fmul damping (orElse (map_of scores src) 0);
          add = (\<lambda>n w m. mapSet m n (fadd (orElse (map_of m n) 0) w)) in
      if whole \<le> 0 then fold (\<lambda>n. add n (fmul mass (orElse (map_of personalize n) 0))) nodes next
      else fold (\<lambda>a. add (a_dst a) (fmul mass (fdiv (of_int (a_weight a)) (of_int whole)))) outgoing next)"

definition pageRankScores :: "GraphV0 \<Rightarrow> GraphProfileV2 option \<Rightarrow> string list \<Rightarrow> string option \<Rightarrow> (string \<times> int) list" where
  "pageRankScores g profile trustedSeeds subject =
     (let nodes = sort (g_nodes g); n = of_nat (length nodes);
          pr = Option.bind profile gpr_pagerank;
          iterations = (case pr of None \<Rightarrow> 20 | Some r \<Rightarrow> nat (pr_iterations r));
          damping = fdiv (of_int (clampBps (case pr of None \<Rightarrow> 8500 | Some r \<Rightarrow> pr_damping_bps r))) 10000;
          personalization = orElse (Option.bind pr pr_personalization) ''uniform'';
          chosen = (if personalization = ''trusted_seeds'' \<and> trustedSeeds \<noteq> [] then filter (\<lambda>x. x \<in> set trustedSeeds) nodes
                    else if personalization = ''subject'' \<and> truthyStr subject then [the subject] else nodes);
          entries = (\<lambda>f. fold (\<lambda>x m. mapSet m x (f x)) nodes []);
          personalize = entries (\<lambda>x. if x \<in> set chosen then fdiv 1 (of_nat (length chosen)) else 0);
          arcs = projectedGraphArcs g profile False;
          iterate = (\<lambda>scores. fold (spreadRank arcs nodes damping personalize scores) nodes
                       (entries (\<lambda>x. fmul (fsub 1 damping) (orElse (map_of personalize x) 0)))) in
      if nodes = [] then []
      else map (\<lambda>(x, s). (x, clampBps \<lfloor>fmul s 10000\<rfloor>)) ((iterate ^^ iterations) (entries (\<lambda>_. fdiv 1 n))))"

section \<open>Facts about numberings\<close>

text \<open>\<open>out\<close> numbers nodes by the number that \<open>ids\<close> gives their label; the numbers in use are \<open>0\<close> to \<open>length ids - 1\<close>.\<close>

definition numbering :: "('n \<rightharpoonup> 'l) \<Rightarrow> ('l \<times> int) list \<Rightarrow> ('n \<rightharpoonup> int) \<Rightarrow> bool" where
  "numbering labels ids out \<longleftrightarrow> inj_on (map_of ids) (dom (map_of ids)) \<and> ran (map_of ids) = {0..<int (length ids)} \<and> ran out = ran (map_of ids)
     \<and> (\<forall>n \<in> dom out. \<exists>l \<in> dom (map_of ids). labels n = Some l \<and> out n = map_of ids l)"

lemma numbering_known:
  assumes "numbering labels ids out" "labels n = Some l" "map_of ids l = Some i"
  shows "numbering labels ids (out(n \<mapsto> i))"
proof -
  have o: "inj_on (map_of ids) (dom (map_of ids))" "ran (map_of ids) = {0..<int (length ids)}" "ran out = ran (map_of ids)"
    "\<forall>n \<in> dom out. \<exists>l \<in> dom (map_of ids). labels n = Some l \<and> out n = map_of ids l" using assms(1) by (simp_all add: numbering_def)
  have i: "i \<in> ran (map_of ids)" using assms(3) by (rule ranI)
  have "v \<in> ran (out(n \<mapsto> i))" if v: "v \<in> ran out" for v
  proof -
    obtain m where m: "out m = Some v" using v unfolding ran_def by blast
    show ?thesis
    proof (cases "m = n")
      case True
      then have "out n = map_of ids l" using o(4) m assms(2) by (metis domI option.inject)
      then have "v = i" using True m assms(3) by simp
      then show ?thesis using ranI [of "out(n \<mapsto> i)" n i] by simp
    qed (use m in \<open>auto simp: ran_def\<close>)
  qed
  moreover have "ran (out(n \<mapsto> i)) \<subseteq> insert i (ran out)" by (auto simp: ran_def)
  ultimately have "ran (out(n \<mapsto> i)) = ran (map_of ids)" using i o(3) by blast
  then show ?thesis using o assms(2,3) by (auto simp: numbering_def)
qed

lemma numbering_fresh:
  assumes "numbering labels ids out" "map_of ids l = None"
  defines "ids' \<equiv> mapSet ids l (int (length ids))"
  shows "inj_on (map_of ids') (dom (map_of ids'))" "ran (map_of ids') = {0..<int (length ids')}" "\<forall>m \<in> dom out. \<exists>l \<in> dom (map_of ids'). labels m = Some l \<and> out m = map_of ids' l"
proof -
  have o: "inj_on (map_of ids) (dom (map_of ids))" "ran (map_of ids) = {0..<int (length ids)}"
    "\<forall>n \<in> dom out. \<exists>l \<in> dom (map_of ids). labels n = Some l \<and> out n = map_of ids l" using assms(1) by (simp_all add: numbering_def)
  have m: "map_of ids' = (map_of ids)(l \<mapsto> int (length ids))" "length ids' = Suc (length ids)"
    using assms(2) by (simp_all add: ids'_def length_mapSet map_of_eq_None_keys)
  have "map_of ids x \<noteq> Some (int (length ids))" for x using ranI [of "map_of ids" x "int (length ids)"] o(2) by auto
  then show "inj_on (map_of ids') (dom (map_of ids'))" using o(1) assms(2) unfolding m by (auto simp: inj_on_def domIff split: if_splits)
  show "ran (map_of ids') = {0..<int (length ids')}" using assms(2) by (auto simp: m ran_map_upd o(2))
  show "\<forall>m \<in> dom out. \<exists>l \<in> dom (map_of ids'). labels m = Some l \<and> out m = map_of ids' l" unfolding m using o(3) assms(2) by fastforce
qed

lemma numberInOrder_numbering:
  assumes "numbering (map_of labels) ids (map_of out)"
  shows "\<exists>ids'. numbering (map_of labels) ids' (map_of (numberInOrder labels ns ids out))
     \<and> dom (map_of (numberInOrder labels ns ids out)) = dom (map_of out) \<union> (set ns \<inter> dom (map_of labels))"
  using assms
proof (induction ns arbitrary: ids out)
  case (Cons n ns)
  show ?case
  proof (cases "map_of labels n")
    case None
    then show ?thesis using Cons by (auto simp: domIff)
  next
    case (Some l)
    define ids' where "ids' = (if map_of ids l = None then mapSet ids l (int (length ids)) else ids)"
    define i where "i = the (map_of ids' l)"
    have i: "map_of ids' l = Some i" by (auto simp: ids'_def i_def)
    have "numbering (map_of labels) ids' ((map_of out)(n \<mapsto> i))"
    proof (cases "map_of ids l")
      case None
      then have ids': "ids' = mapSet ids l (int (length ids))" by (simp add: ids'_def)
      have i': "i = int (length ids)" using i by (simp add: ids')
      note fresh = numbering_fresh [OF Cons.prems None, folded ids']
      have "map_of out n = None"
      proof (rule ccontr)
        assume "map_of out n \<noteq> None"
        then obtain l' where "l' \<in> dom (map_of ids)" "map_of labels n = Some l'" using Cons.prems unfolding numbering_def by blast
        then show False using Some None by auto
      qed
      then have "ran ((map_of out)(n \<mapsto> i)) = ran (map_of ids')" using Cons.prems None i' by (simp add: ids' ran_map_upd numbering_def)
      then show ?thesis unfolding numbering_def using fresh i Some by auto
    next
      case (Some k)
      then show ?thesis using numbering_known [OF Cons.prems \<open>map_of labels n = Some l\<close> Some] by (simp add: ids'_def i_def)
    qed
    then have "numbering (map_of labels) ids' (map_of (mapSet out n i))" by simp
    note IH = Cons.IH [OF this]
    have "numberInOrder labels (n # ns) ids out = numberInOrder labels ns ids' (mapSet out n i)" using Some by (simp add: ids'_def i_def Let_def)
    moreover have "dom (map_of (mapSet out n i)) \<union> (set ns \<inter> dom (map_of labels)) = dom (map_of out) \<union> (set (n # ns) \<inter> dom (map_of labels))"
      using Some by (simp del: fun_upd_apply) auto
    ultimately show ?thesis using IH by (simp only:)
  qed
qed auto

text \<open>Numbers \<open>0\<close> to \<open>k - 1\<close>, all in use.\<close>

definition contiguous :: "('n \<rightharpoonup> int) \<Rightarrow> bool" where
  "contiguous c \<longleftrightarrow> (\<exists>k. ran c = {0..<int k})"

lemma numbering_empty: "numbering labels [] (map_of [])"
  by (simp add: numbering_def)

lemma numbering_contiguous: "numbering labels ids out \<Longrightarrow> contiguous out"
  by (auto simp: numbering_def contiguous_def)

lemma numbering_same: "numbering labels ids out \<Longrightarrow> u \<in> dom out \<Longrightarrow> v \<in> dom out \<Longrightarrow> out u = out v \<longleftrightarrow> labels u = labels v"
  unfolding numbering_def by (metis (no_types, lifting) inj_on_def option.inject)

lemma normalizeCommunityIds_numbering:
  "\<exists>ids. numbering (map_of c) ids (map_of (normalizeCommunityIds c)) \<and> dom (map_of (normalizeCommunityIds c)) = dom (map_of c)"
  using numberInOrder_numbering [OF numbering_empty, of c "sort (map fst c)"] by (auto simp: normalizeCommunityIds_def dom_map_of_conv_image_fst)

lemma normalizeCommunityIds_same: "map_of (normalizeCommunityIds c) u = map_of (normalizeCommunityIds c) v \<longleftrightarrow> map_of c u = map_of c v"
proof -
  obtain ids where n: "numbering (map_of c) ids (map_of (normalizeCommunityIds c))" "dom (map_of (normalizeCommunityIds c)) = dom (map_of c)"
    using normalizeCommunityIds_numbering by blast
  then show ?thesis using numbering_same [OF n(1), of u v] by (metis domIff)
qed

section \<open>The Louvain method improves modularity\<close>

lemma fold_same: "(\<And>x s. x \<in> set xs \<Longrightarrow> f x s = h x s) \<Longrightarrow> fold f xs s = fold h xs s"
  by (rule fold_cong) auto

lemma modularityBps_same:
  assumes "\<And>u v. map_of a u = map_of a v \<longleftrightarrow> map_of b u = map_of b v"
  shows "modularityBps g p a = modularityBps g p b"
  by (simp add: modularityBps_def assms Let_def)

lemma modularityBps_normalize: "modularityBps g p (normalizeCommunityIds a) = modularityBps g p a"
  by (rule modularityBps_same) (rule normalizeCommunityIds_same)

text \<open>A candidate is taken together with its modularity, and no candidate is taken at a loss.\<close>

definition improves :: "GraphV0 \<Rightarrow> GraphProfileV2 \<Rightarrow> int \<Rightarrow> (string \<times> int) list \<Rightarrow> int \<Rightarrow> bool" where
  "improves g p m0 a m \<longleftrightarrow> m = modularityBps g p a \<and> m0 \<le> m \<and> dom (map_of a) = set (g_nodes g)"

lemma bestCommunity_improves:
  assumes "0 \<le> tolerance" "m0 \<le> snd best" "snd best = modularityBps g p (mapSet a n (fst best))"
  shows "m0 \<le> snd (fold (bestCommunityStep g p tolerance a n) cs best)
     \<and> snd (fold (bestCommunityStep g p tolerance a n) cs best) = modularityBps g p (mapSet a n (fst (fold (bestCommunityStep g p tolerance a n) cs best)))"
  using assms(2,3)
proof (induction cs arbitrary: best)
  case (Cons c cs)
  have "m0 \<le> snd (bestCommunityStep g p tolerance a n c best)" "snd (bestCommunityStep g p tolerance a n c best) = modularityBps g p (mapSet a n (fst (bestCommunityStep g p tolerance a n c best)))"
    using Cons.prems assms(1) by (auto simp: bestCommunityStep_def Let_def)
  from Cons.IH [OF this] show ?case by simp
qed simp

lemma louvainStep_improves:
  assumes "0 \<le> tolerance" "n \<in> set (g_nodes g)" "improves g p m0 (lv_assignments s) (lv_modularity s)"
  shows "improves g p m0 (lv_assignments (louvainStep g p tolerance n s)) (lv_modularity (louvainStep g p tolerance n s))"
proof -
  let ?own = "the (map_of (lv_assignments s) n)"
  obtain c where "map_of (lv_assignments s) n = Some c" using assms(2,3) unfolding improves_def by blast
  then have "map_of (mapSet (lv_assignments s) n ?own) = map_of (lv_assignments s)" by (simp add: map_upd_triv)
  then have start: "lv_modularity s = modularityBps g p (mapSet (lv_assignments s) n ?own)" "m0 \<le> lv_modularity s"
    using assms(3) modularityBps_same [of "mapSet (lv_assignments s) n ?own" "lv_assignments s"] by (simp_all add: improves_def)
  define best where "best = fold (bestCommunityStep g p tolerance (lv_assignments s) n) (neighborCommunities g (lv_assignments s) n) (?own, lv_modularity s)"
  have "m0 \<le> snd best" "snd best = modularityBps g p (mapSet (lv_assignments s) n (fst best))"
    unfolding best_def using bestCommunity_improves [OF assms(1), of m0 "(?own, lv_modularity s)" g p "lv_assignments s" n, unfolded fst_conv snd_conv, OF start(2,1)] by blast+
  moreover have "dom (map_of (mapSet (lv_assignments s) n (fst best))) = set (g_nodes g)" using assms(2,3) by (auto simp: improves_def)
  ultimately show ?thesis using assms(3) unfolding louvainStep_def Let_def best_def [symmetric] by (simp add: improves_def)
qed

lemma louvainPasses_improves:
  assumes "0 \<le> tolerance" "improves g p m0 (cr_assignments r) (cr_modularity_bps r)"
  shows "improves g p m0 (cr_assignments (louvainPasses g p tolerance k r)) (cr_modularity_bps (louvainPasses g p tolerance k r))
     \<and> cr_pass_count (louvainPasses g p tolerance k r) \<le> cr_pass_count r + int k"
  using assms(2)
proof (induction k arbitrary: r)
  case (Suc k)
  let ?s0 = "\<lparr>lv_assignments = cr_assignments r, lv_modularity = cr_modularity_bps r, lv_changed = False\<rparr>"
  define s where "s = fold (louvainStep g p tolerance) (sort (g_nodes g)) ?s0"
  have "improves g p m0 (lv_assignments s) (lv_modularity s)" unfolding s_def
    by (rule fold_invariant [where Q = "\<lambda>n. n \<in> set (g_nodes g)" and P = "\<lambda>s. improves g p m0 (lv_assignments s) (lv_modularity s)"])
      (use Suc.prems louvainStep_improves [OF assms(1)] in auto)
  define r' where "r' = \<lparr>cr_assignments = normalizeCommunityIds (lv_assignments s), cr_modularity_bps = modularityBps g p (normalizeCommunityIds (lv_assignments s)),
    cr_pass_count = cr_pass_count r + 1\<rparr>"
  have r': "improves g p m0 (cr_assignments r') (cr_modularity_bps r')"
    using \<open>improves g p m0 (lv_assignments s) (lv_modularity s)\<close> normalizeCommunityIds_numbering [of "lv_assignments s"]
    by (auto simp: improves_def r'_def modularityBps_normalize)
  have "louvainPasses g p tolerance (Suc k) r = (if \<not> lv_changed s then r' else louvainPasses g p tolerance k r')"
    by (simp add: s_def r'_def Let_def)
  then show ?case using r' Suc.IH [OF r'] by (simp add: r'_def)
qed simp

section \<open>Every node gets a community\<close>

lemma dom_fold_mapSet: "dom (map_of (fold (\<lambda>x m. mapSet m (k x) (v x)) xs m)) = dom (map_of m) \<union> k ` set xs"
  by (induction xs arbitrary: m) (auto simp del: fun_upd_apply)

lemma singletons_dom: "dom (map_of (singletons g)) = set (g_nodes g)"
proof -
  have "(\<lambda>(n :: string, i) m. mapSet m n (int i)) = (\<lambda>x m. mapSet m (fst x) (int (snd x)))" by (auto simp: fun_eq_iff)
  then show ?thesis using dom_fold_mapSet [of fst "\<lambda>x. int (snd x)" "let ns = sort (g_nodes g) in zip ns [0..<length ns]" "[]"]
    by (simp add: singletons_def Let_def flip: set_map)
qed

lemma labelPropagation_dom: "dom (map_of (deterministicWeightedLabelPropagation H g p)) = set (g_nodes g)"
proof -
  let ?l = "\<lambda>labels. map (\<lambda>n. (n, orElse (map_of labels n) n)) (sort (g_nodes g))"
  have "dom (map_of (?l labels)) = set (g_nodes g)" for labels :: "(string \<times> string) list" by (simp add: dom_map_of_conv_image_fst image_image)
  then show ?thesis using numberInOrder_numbering [OF numbering_empty, of "?l _" "sort (g_nodes g)"]
    by (simp add: deterministicWeightedLabelPropagation_def Let_def)
qed

lemma groupNodes_fold:
  "\<Union> (set ` snd ` set (fold (\<lambda>(n, c) m. mapSet m c (orElse (map_of m c) [] @ [n])) as m)) = fst ` set as \<union> \<Union> (set ` snd ` set m)"
  if "distinct (map fst m)" for m :: "(int \<times> string list) list"
  using that
proof (induction as arbitrary: m)
  case (Cons a as)
  obtain n c where a: "a = (n, c)" by force
  have "\<Union> (set ` snd ` set (mapSet m c (orElse (map_of m c) [] @ [n]))) = insert n (\<Union> (set ` snd ` set m))" if "distinct (map fst m)" for m :: "(int \<times> string list) list"
    using that
  proof (induction m)
    case (Cons b m)
    show ?case
    proof (cases "fst b = c")
      case True
      then show ?thesis by (cases b) auto
    next
      case False
      then show ?thesis using Cons by (cases b) auto
    qed
  qed simp
  then show ?case using Cons.IH [OF distinct_mapSet [OF Cons.prems]] Cons.prems by (auto simp: a)
qed simp

lemma groupNodes_nodes: "\<Union> (set ` snd ` set (groupNodes as)) = dom (map_of as)"
  using groupNodes_fold [of "[]" as] by (simp add: groupNodes_def dom_map_of_conv_image_fst)

lemma fold_local_dom:
  "dom (map_of (fold (\<lambda>(n, c) m. if c = i then mapSet m n k else m) sub m)) = dom (map_of m) \<union> {n. (n, i) \<in> set sub}"
proof (induction sub arbitrary: m)
  case (Cons a sub)
  have "dom (map_of (if snd a = i then mapSet m (fst a) k else m)) = dom (map_of m) \<union> {n. (n, i) = a}" by (cases a) (auto simp del: fun_upd_apply)
  then show ?case using Cons.IH [of "if snd a = i then mapSet m (fst a) k else m"] by (auto simp: case_prod_beta)
qed simp

lemma refineGroup_dom: "dom (map_of (fst (refineGroup g p threshold nodes s))) = dom (map_of (fst s)) \<union> set nodes"
proof -
  let ?sub = "connectedComponents (subgraph g p threshold nodes) threshold (Some p)"
  have "dom (map_of (fst (fold (\<lambda>local (refined, next). (fold (\<lambda>(n, c) m. if c = local then mapSet m n next else m) ?sub refined, next + 1)) ids s)))
      = dom (map_of (fst s)) \<union> {n. \<exists>i \<in> set ids. (n, i) \<in> set ?sub}" for ids
    by (induction ids arbitrary: s) (auto simp: fold_local_dom case_prod_beta)
  moreover have "{n. \<exists>i \<in> set (sort (uniqueInOrder (map snd ?sub))). (n, i) \<in> set ?sub} = dom (map_of ?sub)" by (force simp: dom_map_of_conv_image_fst)
  moreover have "dom (map_of ?sub) = set nodes" by (subst connectedComponents_dom) (auto simp: subgraph_def endpointsListed_def)
  ultimately show ?thesis by (simp add: refineGroup_def Let_def)
qed

lemma refineGroups_dom:
  "dom (map_of (fst (fold (\<lambda>(_, ns). refineGroup g p threshold ns) groups s))) = dom (map_of (fst s)) \<union> \<Union> (set ` snd ` set groups)"
proof (induction groups arbitrary: s)
  case (Cons a groups)
  show ?case using Cons.IH [of "refineGroup g p threshold (snd a) s"] by (simp add: refineGroup_dom case_prod_beta Un_assoc)
qed simp

lemma mergeSmall_dom: "set (snd grp) \<subseteq> dom (map_of out) \<Longrightarrow> dom (map_of (mergeSmall g p minSize grp out)) = dom (map_of out)"
  using dom_fold_mapSet [of "\<lambda>n. n" "\<lambda>_. k" "snd grp" out for k] by (auto simp: mergeSmall_def Un_absorb2 split: list.split)

lemma mergeSmalls_dom:
  "\<Union> (set ` snd ` set groups) \<subseteq> dom (map_of out) \<Longrightarrow> dom (map_of (fold (mergeSmall g p minSize) groups out)) = dom (map_of out)"
  by (induction groups arbitrary: out) (simp_all add: mergeSmall_dom)

lemma applyMinClusterSize_total:
  "dom (map_of (applyMinClusterSize g p c)) = dom (map_of c) \<and> contiguous (map_of (applyMinClusterSize g p c))"
proof -
  have n: "dom (map_of (normalizeCommunityIds a)) = dom (map_of a) \<and> contiguous (map_of (normalizeCommunityIds a))" for a
    using normalizeCommunityIds_numbering [of a] numbering_contiguous by blast
  have "dom (map_of (fold (mergeSmall g p m) (sort_key fst (groupNodes c)) c)) = dom (map_of c)" for m
    by (rule mergeSmalls_dom) (simp only: set_sort groupNodes_nodes order_refl)
  then show ?thesis using n by (simp add: applyMinClusterSize_def Let_def)
qed

lemma louvain_improves:
  assumes "0 \<le> orElse (cd_approximation_tolerance_bps (gpr_community_detection p)) 0"
  shows "improves g p (modularityBps g p (singletons g)) (cr_assignments (deterministicLouvainModularityV1 g p)) (cr_modularity_bps (deterministicLouvainModularityV1 g p))
     \<and> cr_pass_count (deterministicLouvainModularityV1 g p) \<le> int (maxPassesOf p)"
  unfolding deterministicLouvainModularityV1_def
  using louvainPasses_improves [OF assms, of g p "modularityBps g p (singletons g)"
      "\<lparr>cr_assignments = singletons g, cr_modularity_bps = modularityBps g p (singletons g), cr_pass_count = 0\<rparr>" "maxPassesOf p"]
  by (simp add: improves_def singletons_dom)

lemma louvainPasses_dom:
  assumes "dom (map_of (cr_assignments r)) = set (g_nodes g)"
  shows "dom (map_of (cr_assignments (louvainPasses g p tolerance k r))) = set (g_nodes g)"
  using assms
proof (induction k arbitrary: r)
  case (Suc k)
  define s where "s = fold (louvainStep g p tolerance) (sort (g_nodes g)) \<lparr>lv_assignments = cr_assignments r, lv_modularity = cr_modularity_bps r, lv_changed = False\<rparr>"
  have "dom (map_of (lv_assignments s)) = set (g_nodes g)" unfolding s_def
    by (rule fold_invariant [where Q = "\<lambda>n. n \<in> set (g_nodes g)" and P = "\<lambda>s. dom (map_of (lv_assignments s)) = set (g_nodes g)"])
      (use Suc.prems in \<open>auto simp: louvainStep_def Let_def simp del: fun_upd_apply\<close>)
  then have n: "dom (map_of (normalizeCommunityIds (lv_assignments s))) = set (g_nodes g)" using normalizeCommunityIds_numbering [of "lv_assignments s"] by simp
  show ?case using Suc.IH n by (simp add: s_def [symmetric] Let_def)
qed simp

lemma louvain_dom: "dom (map_of (cr_assignments (deterministicLouvainModularityV1 g p))) = set (g_nodes g)"
  unfolding deterministicLouvainModularityV1_def by (rule louvainPasses_dom) (simp add: singletons_dom)

lemma leiden_dom:
  "dom (map_of (deterministicLeidenRefinement H g p)) = set (g_nodes g)"
  "dom (map_of (cr_assignments (deterministicLeidenRefinementV1 g p))) = set (g_nodes g)"
proof -
  show "dom (map_of (deterministicLeidenRefinement H g p)) = set (g_nodes g)"
    unfolding deterministicLeidenRefinement_def Let_def refineGroups_dom set_sort groupNodes_nodes labelPropagation_dom by simp
  have "dom (map_of (fst (fold (\<lambda>(_, ns). refineGroup g p threshold ns) (sort_key fst (groupNodes (cr_assignments (deterministicLouvainModularityV1 g p)))) ([], 0))))
      = set (g_nodes g)" for threshold
    unfolding refineGroups_dom set_sort groupNodes_nodes louvain_dom by simp
  then show "dom (map_of (cr_assignments (deterministicLeidenRefinementV1 g p))) = set (g_nodes g)"
    unfolding deterministicLeidenRefinementV1_def Let_def using normalizeCommunityIds_numbering by (auto simp: set_eq_iff)
qed

text \<open>
  Whatever method the profile chooses, community detection assigns a community to every node of the graph and to nothing else, and the numbers of the
  communities are \<open>0\<close> to \<open>k - 1\<close> with none left out.
\<close>

theorem communityAssignments_total:
  assumes "endpointsListed g" "cd_algorithm (gpr_community_detection p) \<noteq> ''none''"
  shows "dom (map_of (communityAssignments H g (Some p))) = set (g_nodes g) \<and> contiguous (map_of (communityAssignments H g (Some p)))"
  using assms(2) applyMinClusterSize_total
  by (simp add: communityAssignments_def Let_def connectedComponents_dom [OF assms(1)] labelPropagation_dom leiden_dom louvain_dom)

text \<open>
  The Louvain method never returns a worse partition than the one it starts from: with a tolerance that is not negative its modularity is that of the
  returned assignment and at least that of the singletons, every node is assigned, and the number of passes is bounded by the profile.
\<close>

theorem louvain_never_worse:
  assumes "0 \<le> orElse (cd_approximation_tolerance_bps (gpr_community_detection p)) 0"
  shows "let r = deterministicLouvainModularityV1 g p in
     cr_modularity_bps r = modularityBps g p (cr_assignments r) \<and> modularityBps g p (singletons g) \<le> cr_modularity_bps r
     \<and> dom (map_of (cr_assignments r)) = set (g_nodes g) \<and> cr_pass_count r \<le> int (maxPassesOf p)"
  using louvain_improves [OF assms, of g] by (simp add: improves_def Let_def)

theorem communityAssignments_total_witness:
  "dom (map_of (communityAssignments demoHost demoGraph (Some (demoGraphProfile ''leiden'')))) = {''a'', ''b'', ''c'', ''d''}"
  using communityAssignments_total [of demoGraph "demoGraphProfile ''leiden''" demoHost] by (simp add: demoGraph_def demoEdge_def demoGraphProfile_def endpointsListed_def)

theorem louvain_never_worse_witness:
  "modularityBps demoGraph (demoGraphProfile ''louvain'') (singletons demoGraph) \<le> cr_modularity_bps (deterministicLouvainModularityV1 demoGraph (demoGraphProfile ''louvain''))"
  using louvain_never_worse [of "demoGraphProfile ''louvain''" demoGraph] by (simp add: demoGraphProfile_def Let_def)

end
