(* ===== verification/GraphEvidence.thy ===== *)
theory GraphEvidence
  imports GraphSearch Delegation
begin

text \<open>
  The graph from signed evidence (\<^verbatim>\<open>constructGraphFromEvidenceV0\<close> of \<^verbatim>\<open>src/packages/core-ts/src/v2.ts\<close>): events, receipts, attestations of both generations and
  delegation policies become weighted edges if their signatures hold under a key that was active at the time. Looking up a name in a profile's tables finds
  the entries the profile has.
\<close>

section \<open>Weights of evidence\<close>

text \<open>A configured weight of \<^verbatim>\<open>0\<close> is falsy, so the default applies; \<^verbatim>\<open>edge_weight_profile\<close> is a string and holds no weights.\<close>

definition graphBaseWeightBps :: "GraphProfileV2 \<Rightarrow> string \<Rightarrow> int" where
  "graphBaseWeightBps p edgeType =
     (let configured = (case Option.bind (gpr_edge_weights p) (\<lambda>m. map_of m edgeType) of Some w \<Rightarrow> if w \<noteq> 0 then Some w else None | None \<Rightarrow> None) in
      case configured of
        Some w \<Rightarrow> clampBps w
      | None \<Rightarrow>
          if edgeType = ''signed_event'' then 1000
          else if edgeType = ''received'' then 3000
          else if edgeType = ''replied'' then 5000
          else if edgeType = ''transacted'' \<or> edgeType = ''completed'' then 10000
          else if edgeType = ''disputed'' then 5000
          else if edgeType = ''delegation'' then 4000
          else if includesSub edgeType ''attestation'' then 7000
          else 1000)"

text \<open>Half-life decay; a date that does not parse makes the age \<^verbatim>\<open>NaN\<close>, which \<^verbatim>\<open>clampBps\<close> turns into \<open>0\<close>.\<close>

definition halfLifeBps :: "host \<Rightarrow> env \<Rightarrow> int \<Rightarrow> string \<Rightarrow> string \<Rightarrow> int" where
  "halfLifeBps H E halfLifeDays timestamp atTime = (case (dateParse E atTime, dateParse E timestamp) of
       (Some now, Some then') \<Rightarrow>
         let ageDays = fdiv (of_int (max 0 (now - then'))) 86400000 in
         clampBps \<lfloor>fmul 10000 (h_pow H 2 (fdiv (- ageDays) (of_int halfLifeDays)))\<rfloor>
     | _ \<Rightarrow> 0)"

definition defaultDecayProfile :: "(string \<times> int) list" where
  "defaultDecayProfile = [(''signed_event'', 90), (''received'', 180), (''replied'', 180), (''transacted'', 365), (''completed'', 365), (''disputed'', 30),
     (''attestation'', 180), (''delegation'', 365), (''code_release'', 365)]"

definition graphDecayBps :: "host \<Rightarrow> env \<Rightarrow> GraphProfileV2 \<Rightarrow> string \<Rightarrow> string \<Rightarrow> string \<Rightarrow> int" where
  "graphDecayBps H E p edgeType timestamp atTime =
     (let default = (if gpr_temporal_decay_profile p = ''default_decay_v2'' \<or> gpr_temporal_decay_profile p = ''half-life-180d'' then defaultDecayProfile else []);
          own = (\<lambda>k. Option.bind (gpr_half_life_days p) (\<lambda>m. map_of m k)) in
      case (case own edgeType of Some d \<Rightarrow> Some d | None \<Rightarrow> case own ''attestation'' of Some d \<Rightarrow> Some d | None \<Rightarrow> map_of default edgeType) of
        None \<Rightarrow> 10000
      | Some halfLifeDays \<Rightarrow> if halfLifeDays \<le> 0 then 10000 else halfLifeBps H E halfLifeDays timestamp atTime)"

definition negativeGraphDecayBps :: "host \<Rightarrow> env \<Rightarrow> GraphProfileV2 \<Rightarrow> string \<Rightarrow> string \<Rightarrow> int" where
  "negativeGraphDecayBps H E p timestamp atTime =
     (let halfLifeDays = ne_decay_days (gpr_negative_edge_policy p) in
      if halfLifeDays \<le> 0 then 10000 else halfLifeBps H E halfLifeDays timestamp atTime)"

definition issuerQualityBps :: "GraphProfileV2 \<Rightarrow> string option \<Rightarrow> int" where
  "issuerQualityBps p issuer =
     (if truthyStr issuer then clampBps (orElse (Option.bind (gpr_issuer_quality_bps p) (\<lambda>m. map_of m (the issuer))) 10000) else 10000)"

section \<open>Signatures\<close>

definition usableKey :: "env \<Rightarrow> VerificationMethodV1 option \<Rightarrow> string \<Rightarrow> bool" where
  "usableKey E key timestamp \<longleftrightarrow> map_option vm_type key = Some ''ed25519'' \<and> keyActiveAt E key timestamp \<and> notRevokedAt E key (Some timestamp)"

definition identityHasValidSignature :: "env \<Rightarrow> resolver \<Rightarrow> string \<Rightarrow> string \<Rightarrow> string \<Rightarrow> string \<Rightarrow> string \<Rightarrow> bool res" where
  "identityHasValidSignature E resolve identity keyId timestamp hash signature =
     bindE (resolve identity (Some timestamp)) (\<lambda>document.
       let key = Option.bind document (\<lambda>d. findVerificationMethod d keyId) in
       if usableKey E key timestamp then verifyEd25519 E (vm_public_key (the key)) (DText hash) signature else Inr False)"

fun someE :: "('a \<Rightarrow> bool res) \<Rightarrow> 'a list \<Rightarrow> bool res" where
  "someE f [] = Inr False"
| "someE f (x # xs) = bindE (f x) (\<lambda>b. if b then Inr True else someE f xs)"

definition identityHasAnyActiveSignature :: "env \<Rightarrow> resolver \<Rightarrow> string \<Rightarrow> string \<Rightarrow> string \<Rightarrow> string \<Rightarrow> bool res" where
  "identityHasAnyActiveSignature E resolve identity timestamp hash signature =
     bindE (resolve identity (Some timestamp)) (\<lambda>document. case document of
       None \<Rightarrow> Inr False
     | Some d \<Rightarrow> someE (\<lambda>m. if usableKey E (Some m) timestamp then verifyEd25519 E (vm_public_key m) (DText hash) signature else Inr False)
                   (idd_verification_methods d))"

section \<open>Edges\<close>

record evidenceInput =
  xi_events :: "EventCommitmentV1 list"
  xi_receipts :: "ReceiptCommitmentV1 list"
  xi_attestations :: "AttestationV1 list"
  xi_attestations_v2 :: "AttestationV2 list"
  xi_receipt_disputes :: "(string \<times> ReceiptDisputeMetadataV1) list"
  xi_delegation_policies :: "DelegationPolicyV2 list"
  xi_graph_profile :: GraphProfileV2
  xi_at_time :: string
  xi_event_receivers :: "(string \<times> string) list"
  xi_strict_negative_evidence :: bool

definition bareEdge :: "string \<Rightarrow> string \<Rightarrow> string \<Rightarrow> string \<Rightarrow> int \<Rightarrow> int \<Rightarrow> string \<Rightarrow> GraphEdgeV0" where
  "bareEdge src dst type timestamp w decay hash = \<lparr>ge_src = src, ge_dst = dst, ge_type = type, ge_timestamp = timestamp, ge_weight_bps = w,
     ge_source_quality_bps = None, ge_decay_bps = Some decay, ge_receipt_status_bps = None, ge_appeal_multiplier_bps = None, ge_community = None,
     ge_issuer = None, ge_created_at = None, ge_evidence_hash = Some hash, ge_evidence_commitment = None, ge_appeal_uri = None, ge_appeal_status = None\<rparr>"

record evidenceState =
  es_edges :: "GraphEdgeV0 list"
  es_senders :: "(string \<times> string) list"
  es_commitments :: "string list"
  es_nonces :: "string list"

definition eventStep :: "host \<Rightarrow> env \<Rightarrow> resolver \<Rightarrow> evidenceInput \<Rightarrow> EventCommitmentV1 \<Rightarrow> evidenceState \<Rightarrow> evidenceState res" where
  "eventStep H E resolve x ev s =
     bindE (eventHash E (EventCommitmentV1_obj ev)) (\<lambda>hash.
     bindE (identityHasValidSignature E resolve (ev_sender ev) (ev_signing_key_id ev) (ev_timestamp ev) hash (ev_signature ev)) (\<lambda>valid.
       if \<not> valid then Inr s
       else bindE (hexToBytes E hash) (\<lambda>h. bindE (hexToBytes E (ev_signature ev)) (\<lambda>sig.
         let commitment = hashDomain E ''tsl.commitment.v1'' (DBytes (concatBytes [h, sig]));
             replayKey = ev_sender ev @ '':'' @ ev_nonce ev in
         if commitment \<in> set (es_commitments s) \<or> replayKey \<in> set (es_nonces s) then Inl ''TSL_GRAPH_EVENT_REPLAY_DETECTED''
         else let receiver = map_of (xi_event_receivers x) commitment;
                  s' = s\<lparr>es_commitments := es_commitments s @ [commitment], es_nonces := es_nonces s @ [replayKey],
                         es_senders := mapSet (es_senders s) commitment (ev_sender ev)\<rparr> in
              if \<not> truthyStr receiver then Inr s'
              else Inr (s'\<lparr>es_edges := es_edges s @ [bareEdge (ev_sender ev) (the receiver) ''signed_event'' (ev_timestamp ev)
                     (graphBaseWeightBps (xi_graph_profile x) ''signed_event'')
                     (graphDecayBps H E (xi_graph_profile x) ''signed_event'' (ev_timestamp ev) (xi_at_time x)) hash]\<rparr>)))))"

text \<open>\<^verbatim>\<open>if (!allowed && strict) throw ...; if (allowed) edges.push(edge)\<close>\<close>

definition pushAllowed :: "evidenceInput \<Rightarrow> GraphEdgeV0 \<Rightarrow> GraphEdgeV0 list \<Rightarrow> GraphEdgeV0 list res" where
  "pushAllowed x e edges =
     (if negativeEvidenceAllowed e (xi_graph_profile x) then Inr (edges @ [e])
      else if xi_strict_negative_evidence x then Inl ''TSL_NEGATIVE_EVIDENCE_INCOMPLETE''
      else Inr edges)"

definition receiptEdge :: "host \<Rightarrow> env \<Rightarrow> evidenceInput \<Rightarrow> ReceiptCommitmentV1 \<Rightarrow> string \<Rightarrow> string \<Rightarrow> GraphEdgeV0" where
  "receiptEdge H E x r sender hash =
     (let p = xi_graph_profile x; disputed = (rc_receipt_class r = ''disputed'');
          dispute = (case map_of (xi_receipt_disputes x) hash of Some d \<Rightarrow> Some d | None \<Rightarrow> map_of (xi_receipt_disputes x) (rc_event_commitment r));
          commitment = (case dispute of Some d \<Rightarrow> Some (rd_evidence_commitment d) | None \<Rightarrow> rc_metadata_commitment r);
          appealUri = Option.bind dispute rd_appeal_uri; appealStatus = Option.bind dispute rd_appeal_status in
      (bareEdge (rc_receiver r) sender (rc_receipt_class r) (rc_timestamp r) (graphBaseWeightBps p (rc_receipt_class r))
         (if disputed then negativeGraphDecayBps H E p (rc_timestamp r) (xi_at_time x)
          else graphDecayBps H E p (rc_receipt_class r) (rc_timestamp r) (xi_at_time x)) hash)
      \<lparr>ge_receipt_status_bps := Some (if disputed then 5000 else 10000),
       ge_evidence_commitment := (if truthyStr commitment then commitment else None),
       ge_appeal_uri := (if truthyStr appealUri then appealUri else None),
       ge_appeal_status := (if truthyStr appealStatus then Some appealStatus else None),
       ge_appeal_multiplier_bps := (if Option.bind dispute rd_reversal_status = Some ''reversed'' then Some 0
                                    else if appealStatus = Some ''under_review'' then Some 5000 else None)\<rparr>)"

definition receiptEdgeStep :: "host \<Rightarrow> env \<Rightarrow> resolver \<Rightarrow> evidenceInput \<Rightarrow> (string \<times> string) list \<Rightarrow> ReceiptCommitmentV1 \<Rightarrow> GraphEdgeV0 list \<Rightarrow> GraphEdgeV0 list res" where
  "receiptEdgeStep H E resolve x senders r edges =
     bindE (receiptHash E (ReceiptCommitmentV1_obj r)) (\<lambda>hash.
     bindE (identityHasValidSignature E resolve (rc_receiver r) (rc_signing_key_id r) (rc_timestamp r) hash (rc_signature r)) (\<lambda>valid.
       let sender = map_of senders (rc_event_commitment r) in
       if \<not> valid \<or> \<not> truthyStr sender then Inr edges else pushAllowed x (receiptEdge H E x r (the sender) hash) edges))"

definition attestationEdge :: "host \<Rightarrow> env \<Rightarrow> evidenceInput \<Rightarrow> AttestationV1 \<Rightarrow> string \<Rightarrow> GraphEdgeV0" where
  "attestationEdge H E x a hash =
     (let p = xi_graph_profile x; c = att_attestation_class a in
      (bareEdge (att_issuer a) (att_subject a) (''attestation:'' @ c) (att_issued_at a) (graphBaseWeightBps p ''attestation'')
         (if includesSub c ''negative'' \<or> includesSub c ''scam_warning'' \<or> includesSub c ''revoked''
          then negativeGraphDecayBps H E p (att_issued_at a) (xi_at_time x)
          else graphDecayBps H E p ''attestation'' (att_issued_at a) (xi_at_time x)) hash)
      \<lparr>ge_source_quality_bps := Some (issuerQualityBps p (Some (att_issuer a))), ge_issuer := Some (att_issuer a),
       ge_evidence_commitment := Some (att_claim_commitment a)\<rparr>)"

definition attestationEdgeStep :: "host \<Rightarrow> env \<Rightarrow> resolver \<Rightarrow> evidenceInput \<Rightarrow> AttestationV1 \<Rightarrow> GraphEdgeV0 list \<Rightarrow> GraphEdgeV0 list res" where
  "attestationEdgeStep H E resolve x a edges =
     bindE (attestationHash E (AttestationV1_obj a)) (\<lambda>hash.
     bindE (identityHasAnyActiveSignature E resolve (att_issuer a) (att_issued_at a) hash (att_signature a)) (\<lambda>valid.
       if \<not> valid \<or> (truthyStr (att_expires_at a) \<and> dateLe (dateParse E (the (att_expires_at a))) (dateParse E (xi_at_time x))) then Inr edges
       else pushAllowed x (attestationEdge H E x a hash) edges))"

definition attestationV2Edge :: "host \<Rightarrow> env \<Rightarrow> evidenceInput \<Rightarrow> AttestationV2 \<Rightarrow> string \<Rightarrow> GraphEdgeV0" where
  "attestationV2Edge H E x a hash =
     (let p = xi_graph_profile x; status = at2_appeal_status a in
      (bareEdge (at2_issuer a) (at2_subject a) (''attestation:'' @ at2_claim_polarity a @ '':'' @ at2_claim_class a) (at2_issued_at a) (graphBaseWeightBps p ''attestation'')
         (if at2_claim_polarity a = ''negative'' then negativeGraphDecayBps H E p (at2_issued_at a) (xi_at_time x)
          else graphDecayBps H E p ''attestation'' (at2_issued_at a) (xi_at_time x)) hash)
      \<lparr>ge_source_quality_bps := Some (issuerQualityBps p (Some (at2_issuer a))), ge_issuer := Some (at2_issuer a),
       ge_evidence_commitment := Some (at2_evidence_commitment a), ge_appeal_uri := Some (at2_appeal_uri a), ge_appeal_status := Some status,
       ge_appeal_multiplier_bps := Some (if status = Some ''reversed'' then 0 else if status = Some ''under_review'' then 5000
                                         else if status = Some ''submitted'' \<or> status = Some ''escalated'' then 7500 else 10000)\<rparr>)"

definition attestationV2EdgeStep :: "host \<Rightarrow> env \<Rightarrow> resolver \<Rightarrow> evidenceInput \<Rightarrow> AttestationV2 \<Rightarrow> GraphEdgeV0 list \<Rightarrow> GraphEdgeV0 list res" where
  "attestationV2EdgeStep H E resolve x a edges =
     bindE (attestationV2Hash E a) (\<lambda>hash.
     bindE (identityHasValidSignature E resolve (at2_issuer a) (at2_signing_key_id a) (at2_issued_at a) hash (at2_signature a)) (\<lambda>valid.
       if \<not> valid \<or> dateLt (dateParse E (xi_at_time x)) (dateParse E (at2_valid_after a)) \<or> dateLe (dateParse E (at2_expires_at a)) (dateParse E (xi_at_time x))
       then Inr edges else pushAllowed x (attestationV2Edge H E x a hash) edges))"

definition policyEdgeStep :: "env \<Rightarrow> resolver \<Rightarrow> evidenceInput \<Rightarrow> DelegationPolicyV2 \<Rightarrow> GraphEdgeV0 list \<Rightarrow> GraphEdgeV0 list res" where
  "policyEdgeStep E resolve x d edges =
     bindE (resolve (dl_principal d) (Some (dl_valid_from d))) (\<lambda>document.
     let key = Option.bind document (\<lambda>i. find (\<lambda>m. vm_type m = ''ed25519'' \<and> vm_status m = ''active'') (idd_verification_methods i)) in
     bindE (if key \<noteq> None \<and> keyActiveAt E key (dl_valid_from d) \<and> notRevokedAt E key (Some (dl_valid_from d))
            then bindE (delegationPolicyV2Hash E (DelegationPolicyV2_obj d)) (\<lambda>hash. verifyEd25519 E (vm_public_key (the key)) (DText hash) (dl_signature d))
            else Inr False) (\<lambda>valid.
       if \<not> valid \<or> dl_effect d \<noteq> ''allow'' \<or> dateLt (dateParse E (xi_at_time x)) (dateParse E (dl_valid_from d))
          \<or> dateLe (dateParse E (dl_valid_until d)) (dateParse E (xi_at_time x)) then Inr edges
       else bindE (delegationPolicyV2Hash E (DelegationPolicyV2_obj d)) (\<lambda>hash.
         Inr (edges @ [bareEdge (dl_principal d) (dl_delegate d) ''delegation'' (dl_valid_from d)
           (graphBaseWeightBps (xi_graph_profile x) ''delegation'') 10000 hash]))))"

definition constructGraphFromEvidenceV0 :: "host \<Rightarrow> env \<Rightarrow> resolver \<Rightarrow> evidenceInput \<Rightarrow> GraphV0 res" where
  "constructGraphFromEvidenceV0 H E resolve x =
     bindE (sortDated H ev_timestamp (\<lambda>a. eventHash E (EventCommitmentV1_obj a)) (xi_events x)) (\<lambda>events.
     bindE (foldE (eventStep H E resolve x) events \<lparr>es_edges = [], es_senders = [], es_commitments = [], es_nonces = []\<rparr>) (\<lambda>s.
     bindE (sortDated H rc_timestamp (\<lambda>a. receiptHash E (ReceiptCommitmentV1_obj a)) (xi_receipts x)) (\<lambda>receipts.
     bindE (foldE (receiptEdgeStep H E resolve x (es_senders s)) receipts (es_edges s)) (\<lambda>edges1.
     bindE (sortDated H att_issued_at (\<lambda>a. attestationHash E (AttestationV1_obj a)) (xi_attestations x)) (\<lambda>attestations.
     bindE (foldE (attestationEdgeStep H E resolve x) attestations edges1) (\<lambda>edges2.
     bindE (sortDated H at2_issued_at (attestationV2Hash E) (xi_attestations_v2 x)) (\<lambda>attestations2.
     bindE (foldE (attestationV2EdgeStep H E resolve x) attestations2 edges2) (\<lambda>edges3.
     bindE (sortDated H dl_valid_from (\<lambda>a. delegationPolicyV2Hash E (DelegationPolicyV2_obj a)) (xi_delegation_policies x)) (\<lambda>policies.
     bindE (foldE (policyEdgeStep E resolve x) policies edges3) (\<lambda>edges4.
       graphFromVerifiedEdgesV0 H edges4))))))))))"

section \<open>Edges rest on signatures\<close>

text \<open>The items of evidence: who signs, when, the hash and the signature.\<close>

definition evidenceItems :: "env \<Rightarrow> evidenceInput \<Rightarrow> (string \<times> string \<times> string res \<times> string) set" where
  "evidenceItems E x =
     (\<lambda>a. (ev_sender a, ev_timestamp a, eventHash E (EventCommitmentV1_obj a), ev_signature a)) ` set (xi_events x)
     \<union> (\<lambda>a. (rc_receiver a, rc_timestamp a, receiptHash E (ReceiptCommitmentV1_obj a), rc_signature a)) ` set (xi_receipts x)
     \<union> (\<lambda>a. (att_issuer a, att_issued_at a, attestationHash E (AttestationV1_obj a), att_signature a)) ` set (xi_attestations x)
     \<union> (\<lambda>a. (at2_issuer a, at2_issued_at a, attestationV2Hash E a, at2_signature a)) ` set (xi_attestations_v2 x)
     \<union> (\<lambda>a. (dl_principal a, dl_valid_from a, delegationPolicyV2Hash E (DelegationPolicyV2_obj a), dl_signature a)) ` set (xi_delegation_policies x)"

definition signedBy :: "env \<Rightarrow> resolver \<Rightarrow> string \<Rightarrow> string \<Rightarrow> string \<Rightarrow> string \<Rightarrow> bool" where
  "signedBy E resolve identity timestamp hash signature \<longleftrightarrow> (\<exists>d. resolve identity (Some timestamp) = Inr (Some d)
     \<and> (\<exists>k \<in> set (idd_verification_methods d). usableKey E (Some k) timestamp \<and> verifyEd25519 E (vm_public_key k) (DText hash) signature = Inr True))"

definition backed :: "env \<Rightarrow> resolver \<Rightarrow> evidenceInput \<Rightarrow> GraphEdgeV0 \<Rightarrow> bool" where
  "backed E resolve x e \<longleftrightarrow> negativeEvidenceAllowed e (xi_graph_profile x) \<and> (\<exists>hash signature. ge_evidence_hash e = Some hash
     \<and> (ge_src e, ge_timestamp e, Inr hash, signature) \<in> evidenceItems E x \<and> signedBy E resolve (ge_src e) (ge_timestamp e) hash signature)"

lemma identityHasValidSignature_signedBy:
  assumes "identityHasValidSignature E resolve identity keyId timestamp hash signature = Inr True"
  shows "signedBy E resolve identity timestamp hash signature"
proof -
  obtain document where d: "resolve identity (Some timestamp) = Inr document" using assms by (auto simp: identityHasValidSignature_def bindE_eq_Inr)
  define key where "key = Option.bind document (\<lambda>d. findVerificationMethod d keyId)"
  have k: "usableKey E key timestamp" "verifyEd25519 E (vm_public_key (the key)) (DText hash) signature = Inr True"
    using assms d by (simp_all add: identityHasValidSignature_def key_def [symmetric] Let_def split: if_splits)
  obtain m where m: "key = Some m" using k(1) by (auto simp: usableKey_def)
  then obtain d' where "document = Some d'" "m \<in> set (idd_verification_methods d')"
    by (auto simp: key_def bind_eq_Some_conv findVerificationMethod_def dest!: find_SomeD)
  then show ?thesis using d k m unfolding signedBy_def by auto
qed

lemma someE_True: "someE f xs = Inr True \<Longrightarrow> \<exists>x \<in> set xs. f x = Inr True"
  by (induction xs) (auto simp: bindE_eq_Inr split: if_splits)

lemma identityHasAnyActiveSignature_signedBy:
  "identityHasAnyActiveSignature E resolve identity timestamp hash signature = Inr True \<Longrightarrow> signedBy E resolve identity timestamp hash signature"
  by (auto simp: identityHasAnyActiveSignature_def signedBy_def bindE_eq_Inr dest!: someE_True split: if_splits option.splits) blast

lemma pushAllowed_edges:
  "pushAllowed x e edges = Inr edges' \<Longrightarrow> set edges' \<subseteq> insert e (set edges) \<and> (e \<in> set edges' - set edges \<longrightarrow> negativeEvidenceAllowed e (xi_graph_profile x))"
  by (auto simp: pushAllowed_def split: if_splits)

lemma bareEdge_sel [simp]:
  "ge_src (bareEdge s d t ts w c h) = s" "ge_timestamp (bareEdge s d t ts w c h) = ts" "ge_evidence_hash (bareEdge s d t ts w c h) = Some h"
  "ge_type (bareEdge s d t ts w c h) = t"
  by (simp_all add: bareEdge_def)

lemma receiptEdge_sel [simp]:
  "ge_src (receiptEdge H E x r s h) = rc_receiver r" "ge_timestamp (receiptEdge H E x r s h) = rc_timestamp r" "ge_evidence_hash (receiptEdge H E x r s h) = Some h"
  by (simp_all add: receiptEdge_def Let_def)

lemma attestationEdge_sel [simp]:
  "ge_src (attestationEdge H E x a h) = att_issuer a" "ge_timestamp (attestationEdge H E x a h) = att_issued_at a"
  "ge_evidence_hash (attestationEdge H E x a h) = Some h"
  by (simp_all add: attestationEdge_def Let_def)

lemma attestationV2Edge_sel [simp]:
  "ge_src (attestationV2Edge H E x a h) = at2_issuer a" "ge_timestamp (attestationV2Edge H E x a h) = at2_issued_at a"
  "ge_evidence_hash (attestationV2Edge H E x a h) = Some h"
  by (simp_all add: attestationV2Edge_def Let_def)

lemma backedI:
  assumes "negativeEvidenceAllowed e (xi_graph_profile x)" "ge_evidence_hash e = Some hash" "(ge_src e, ge_timestamp e, Inr hash, signature) \<in> evidenceItems E x"
    "signedBy E resolve (ge_src e) (ge_timestamp e) hash signature"
  shows "backed E resolve x e"
  unfolding backed_def using assms by blast

lemma pushAllowed_backed:
  assumes "pushAllowed x e edges = Inr edges'" "\<forall>e \<in> set edges. backed E resolve x e" "ge_evidence_hash e = Some hash"
    "(ge_src e, ge_timestamp e, Inr hash, signature) \<in> evidenceItems E x" "signedBy E resolve (ge_src e) (ge_timestamp e) hash signature"
  shows "\<forall>e \<in> set edges'. backed E resolve x e"
  using pushAllowed_edges [OF assms(1)] backedI [OF _ assms(3-5)] assms(2) by blast

lemma event_not_negative: "negativeEvidenceAllowed (bareEdge s d ''signed_event'' ts w c h) p" "negativeEvidenceAllowed (bareEdge s d ''delegation'' ts w c h) p"
  by (simp_all add: negativeEvidenceAllowed_def isNegativeGraphEdge_def startsWith_def)

lemma eventStep_backed:
  assumes "eventStep H E resolve x ev s = Inr s'" "ev \<in> set (xi_events x)" "\<forall>e \<in> set (es_edges s). backed E resolve x e"
  shows "\<forall>e \<in> set (es_edges s'). backed E resolve x e"
proof -
  obtain hash valid where v: "eventHash E (EventCommitmentV1_obj ev) = Inr hash"
    "identityHasValidSignature E resolve (ev_sender ev) (ev_signing_key_id ev) (ev_timestamp ev) hash (ev_signature ev) = Inr valid"
    using assms(1) by (auto simp: eventStep_def bindE_eq_Inr)
  have i: "(ev_sender ev, ev_timestamp ev, Inr hash, ev_signature ev) \<in> evidenceItems E x" using assms(2) v(1) unfolding evidenceItems_def by force
  have "backed E resolve x (bareEdge (ev_sender ev) d ''signed_event'' (ev_timestamp ev) w c hash)" if valid for d w c
    by (rule backedI [where signature = "ev_signature ev" and hash = hash]) (use that v i identityHasValidSignature_signedBy event_not_negative in simp_all)
  then show ?thesis using assms(1,3) v by (auto simp: eventStep_def bindE_eq_Inr Let_def split: if_splits)
qed

lemma receiptEdgeStep_backed:
  assumes "receiptEdgeStep H E resolve x senders r edges = Inr edges'" "r \<in> set (xi_receipts x)" "\<forall>e \<in> set edges. backed E resolve x e"
  shows "\<forall>e \<in> set edges'. backed E resolve x e"
proof -
  obtain hash valid where v: "receiptHash E (ReceiptCommitmentV1_obj r) = Inr hash"
    "identityHasValidSignature E resolve (rc_receiver r) (rc_signing_key_id r) (rc_timestamp r) hash (rc_signature r) = Inr valid"
    using assms(1) by (auto simp: receiptEdgeStep_def bindE_eq_Inr)
  have i: "(rc_receiver r, rc_timestamp r, Inr hash, rc_signature r) \<in> evidenceItems E x" using assms(2) v(1) unfolding evidenceItems_def by force
  consider "edges' = edges" | d where "valid" "pushAllowed x (receiptEdge H E x r d hash) edges = Inr edges'"
    using assms(1) v by (auto simp: receiptEdgeStep_def Let_def split: if_splits)
  then show ?thesis
  proof cases
    case 2
    then show ?thesis using pushAllowed_backed [OF 2(2) assms(3)] v i identityHasValidSignature_signedBy by simp
  qed (use assms(3) in simp)
qed

lemma attestationEdgeStep_backed:
  assumes "attestationEdgeStep H E resolve x a edges = Inr edges'" "a \<in> set (xi_attestations x)" "\<forall>e \<in> set edges. backed E resolve x e"
  shows "\<forall>e \<in> set edges'. backed E resolve x e"
proof -
  obtain hash valid where v: "attestationHash E (AttestationV1_obj a) = Inr hash"
    "identityHasAnyActiveSignature E resolve (att_issuer a) (att_issued_at a) hash (att_signature a) = Inr valid"
    using assms(1) by (auto simp: attestationEdgeStep_def bindE_eq_Inr)
  have i: "(att_issuer a, att_issued_at a, Inr hash, att_signature a) \<in> evidenceItems E x" using assms(2) v(1) unfolding evidenceItems_def by force
  consider "edges' = edges" | "valid" "pushAllowed x (attestationEdge H E x a hash) edges = Inr edges'"
    using assms(1) v by (auto simp: attestationEdgeStep_def Let_def split: if_splits)
  then show ?thesis
  proof cases
    case 2
    then show ?thesis using pushAllowed_backed [OF 2(2) assms(3)] v i identityHasAnyActiveSignature_signedBy by simp
  qed (use assms(3) in simp)
qed

lemma attestationV2EdgeStep_backed:
  assumes "attestationV2EdgeStep H E resolve x a edges = Inr edges'" "a \<in> set (xi_attestations_v2 x)" "\<forall>e \<in> set edges. backed E resolve x e"
  shows "\<forall>e \<in> set edges'. backed E resolve x e"
proof -
  obtain hash valid where v: "attestationV2Hash E a = Inr hash"
    "identityHasValidSignature E resolve (at2_issuer a) (at2_signing_key_id a) (at2_issued_at a) hash (at2_signature a) = Inr valid"
    using assms(1) by (auto simp: attestationV2EdgeStep_def bindE_eq_Inr)
  have i: "(at2_issuer a, at2_issued_at a, Inr hash, at2_signature a) \<in> evidenceItems E x" using assms(2) v(1) unfolding evidenceItems_def by force
  consider "edges' = edges" | "valid" "pushAllowed x (attestationV2Edge H E x a hash) edges = Inr edges'"
    using assms(1) v by (auto simp: attestationV2EdgeStep_def Let_def split: if_splits)
  then show ?thesis
  proof cases
    case 2
    then show ?thesis using pushAllowed_backed [OF 2(2) assms(3)] v i identityHasValidSignature_signedBy by simp
  qed (use assms(3) in simp)
qed

lemma policyEdgeStep_backed:
  assumes "policyEdgeStep E resolve x d edges = Inr edges'" "d \<in> set (xi_delegation_policies x)" "\<forall>e \<in> set edges. backed E resolve x e"
  shows "\<forall>e \<in> set edges'. backed E resolve x e"
proof -
  obtain document where doc: "resolve (dl_principal d) (Some (dl_valid_from d)) = Inr document" using assms(1) by (auto simp: policyEdgeStep_def bindE_eq_Inr)
  define key where "key = Option.bind document (\<lambda>i. find (\<lambda>m. vm_type m = ''ed25519'' \<and> vm_status m = ''active'') (idd_verification_methods i))"
  consider "edges' = edges"
    | hash where "delegationPolicyV2Hash E (DelegationPolicyV2_obj d) = Inr hash" "key \<noteq> None" "keyActiveAt E key (dl_valid_from d)" "notRevokedAt E key (Some (dl_valid_from d))"
      "verifyEd25519 E (vm_public_key (the key)) (DText hash) (dl_signature d) = Inr True"
      "edges' = edges @ [bareEdge (dl_principal d) (dl_delegate d) ''delegation'' (dl_valid_from d) (graphBaseWeightBps (xi_graph_profile x) ''delegation'') 10000 hash]"
    using assms(1) doc by (auto simp: policyEdgeStep_def bindE_eq_Inr Let_def key_def [symmetric] split: if_splits)
  then show ?thesis
  proof cases
    case 2
    obtain k doc' where k: "document = Some doc'" "key = Some k" "k \<in> set (idd_verification_methods doc')" "vm_type k = ''ed25519''"
      using 2(2) find_SomeD unfolding key_def by (cases document) fastforce+
    then have "signedBy E resolve (dl_principal d) (dl_valid_from d) hash (dl_signature d)" using 2 doc by (auto simp: signedBy_def usableKey_def)
    moreover have "(dl_principal d, dl_valid_from d, Inr hash, dl_signature d) \<in> evidenceItems E x" using assms(2) 2(1) unfolding evidenceItems_def by force
    ultimately show ?thesis using 2(6) assms(3) backedI [of "bareEdge _ _ _ _ _ _ _" x hash "dl_signature d" E resolve] event_not_negative(2) by simp
  qed (use assms(3) in simp)
qed

lemma graphFromVerifiedEdgesV0_edges:
  "graphFromVerifiedEdgesV0 H edges = Inr g \<Longrightarrow> set (g_edges g) = set edges \<and> set (g_nodes g) = ge_src ` set edges \<union> ge_dst ` set edges"
proof -
  assume "graphFromVerifiedEdgesV0 H edges = Inr g"
  then obtain sorted' where s: "sortDated H ge_timestamp edgeBytes edges = Inr sorted'"
    "g = \<lparr>g_edges = sorted', g_nodes = sort (uniqueInOrder (concat (map (\<lambda>e. [ge_src e, ge_dst e]) sorted')))\<rparr>"
    unfolding graphFromVerifiedEdgesV0_def bindE_eq_Inr by blast
  show ?thesis unfolding s(2) by (auto simp: sortDated_set [OF s(1), symmetric])
qed

lemma constructGraph_backed:
  assumes "constructGraphFromEvidenceV0 H E resolve x = Inr g"
  shows "\<forall>e \<in> set (g_edges g). backed E resolve x e"
proof -
  obtain events s receipts edges1 attestations edges2 attestations2 edges3 policies edges4 where r:
    "sortDated H ev_timestamp (\<lambda>a. eventHash E (EventCommitmentV1_obj a)) (xi_events x) = Inr events"
    "foldE (eventStep H E resolve x) events \<lparr>es_edges = [], es_senders = [], es_commitments = [], es_nonces = []\<rparr> = Inr s"
    "sortDated H rc_timestamp (\<lambda>a. receiptHash E (ReceiptCommitmentV1_obj a)) (xi_receipts x) = Inr receipts"
    "foldE (receiptEdgeStep H E resolve x (es_senders s)) receipts (es_edges s) = Inr edges1"
    "sortDated H att_issued_at (\<lambda>a. attestationHash E (AttestationV1_obj a)) (xi_attestations x) = Inr attestations"
    "foldE (attestationEdgeStep H E resolve x) attestations edges1 = Inr edges2"
    "sortDated H at2_issued_at (attestationV2Hash E) (xi_attestations_v2 x) = Inr attestations2"
    "foldE (attestationV2EdgeStep H E resolve x) attestations2 edges2 = Inr edges3"
    "sortDated H dl_valid_from (\<lambda>a. delegationPolicyV2Hash E (DelegationPolicyV2_obj a)) (xi_delegation_policies x) = Inr policies"
    "foldE (policyEdgeStep E resolve x) policies edges3 = Inr edges4" "graphFromVerifiedEdgesV0 H edges4 = Inr g"
    using assms unfolding constructGraphFromEvidenceV0_def bindE_eq_Inr by (elim exE conjE) (rule that; assumption)
  let ?ok = "\<lambda>edges. \<forall>e \<in> set edges. backed E resolve x e"
  have "?ok (es_edges s)"
    by (rule foldE_invariant [OF r(2), where P = "\<lambda>s. ?ok (es_edges s)"]) (use sortDated_set [OF r(1)] eventStep_backed in auto)
  then have "?ok edges1" by (rule foldE_invariant [OF r(4), where P = ?ok]) (use sortDated_set [OF r(3)] receiptEdgeStep_backed in auto)
  then have "?ok edges2" by (rule foldE_invariant [OF r(6), where P = ?ok]) (use sortDated_set [OF r(5)] attestationEdgeStep_backed in auto)
  then have "?ok edges3" by (rule foldE_invariant [OF r(8), where P = ?ok]) (use sortDated_set [OF r(7)] attestationV2EdgeStep_backed in auto)
  then have "?ok edges4" by (rule foldE_invariant [OF r(10), where P = ?ok]) (use sortDated_set [OF r(9)] policyEdgeStep_backed in auto)
  then show ?thesis using graphFromVerifiedEdgesV0_edges [OF r(11)] by simp
qed

section \<open>No event counts twice\<close>

definition replayKey :: "EventCommitmentV1 \<Rightarrow> string" where
  "replayKey ev = ev_sender ev @ '':'' @ ev_nonce ev"

definition validEvent :: "env \<Rightarrow> resolver \<Rightarrow> EventCommitmentV1 \<Rightarrow> bool" where
  "validEvent E resolve ev \<longleftrightarrow> bindE (eventHash E (EventCommitmentV1_obj ev)) (\<lambda>hash.
     identityHasValidSignature E resolve (ev_sender ev) (ev_signing_key_id ev) (ev_timestamp ev) hash (ev_signature ev)) = Inr True"

lemma eventStep_nonces:
  assumes "eventStep H E resolve x ev s = Inr s'"
  shows "if validEvent E resolve ev then es_nonces s' = es_nonces s @ [replayKey ev] \<and> replayKey ev \<notin> set (es_nonces s) else es_nonces s' = es_nonces s"
proof -
  obtain hash valid where v: "eventHash E (EventCommitmentV1_obj ev) = Inr hash"
    "identityHasValidSignature E resolve (ev_sender ev) (ev_signing_key_id ev) (ev_timestamp ev) hash (ev_signature ev) = Inr valid"
    using assms by (auto simp: eventStep_def bindE_eq_Inr)
  then have "validEvent E resolve ev \<longleftrightarrow> valid" by (simp add: validEvent_def)
  then show ?thesis using assms v by (auto simp: eventStep_def bindE_eq_Inr Let_def replayKey_def split: if_splits)
qed

lemma eventSteps_distinct:
  assumes "foldE (eventStep H E resolve x) evs s = Inr t" "distinct (es_nonces s)"
  shows "distinct (es_nonces s @ map replayKey (filter (validEvent E resolve) evs))"
  using assms
proof (induction evs arbitrary: s)
  case (Cons ev evs)
  obtain s' where s': "eventStep H E resolve x ev s = Inr s'" "foldE (eventStep H E resolve x) evs s' = Inr t" using Cons.prems(1) by (auto simp: bindE_eq_Inr)
  note n = eventStep_nonces [OF s'(1)]
  have d: "distinct (es_nonces s')" using n Cons.prems(2) by (auto split: if_splits)
  show ?case
  proof (cases "validEvent E resolve ev")
    case True
    then show ?thesis using Cons.IH [OF s'(2) d] n by simp
  next
    case False
    then show ?thesis using Cons.IH [OF s'(2) d] n by simp
  qed
qed simp

lemma sortDated_mset: "sortDated H time tie xs = Inr ys \<Longrightarrow> mset ys = mset xs"
  by (auto simp: sortDated_def Let_def bindE_eq_Inr)

lemma constructGraph_events_once:
  assumes "constructGraphFromEvidenceV0 H E resolve x = Inr g"
  shows "distinct (map replayKey (filter (validEvent E resolve) (xi_events x)))"
proof -
  obtain events s where r: "sortDated H ev_timestamp (\<lambda>a. eventHash E (EventCommitmentV1_obj a)) (xi_events x) = Inr events"
    "foldE (eventStep H E resolve x) events \<lparr>es_edges = [], es_senders = [], es_commitments = [], es_nonces = []\<rparr> = Inr s"
    using assms unfolding constructGraphFromEvidenceV0_def bindE_eq_Inr by (elim exE conjE) (rule that; assumption)
  have "distinct (map replayKey (filter (validEvent E resolve) events))" using eventSteps_distinct [OF r(2)] by simp
  moreover have "mset (map replayKey (filter (validEvent E resolve) events)) = mset (map replayKey (filter (validEvent E resolve) (xi_events x)))"
    using sortDated_mset [OF r(1)] by simp
  ultimately show ?thesis using mset_eq_imp_distinct_iff by blast
qed

section \<open>The properties\<close>

text \<open>
  C15: Every edge of a graph built from evidence rests on an item of the input: the edge carries its hash, its source is the signer, its time is that of the item,
  and the signature of the item holds under an Ed25519 key of the signer's identity document, resolved for that time, which was active then and not
  revoked. No edge lacks what the profile demands of negative evidence.
\<close>

theorem evidenceGraph_edges_signed:
  assumes "constructGraphFromEvidenceV0 H E resolve x = Inr g" "e \<in> set (g_edges g)"
  shows "negativeEvidenceAllowed e (xi_graph_profile x) \<and> (\<exists>hash signature. ge_evidence_hash e = Some hash
     \<and> (ge_src e, ge_timestamp e, Inr hash, signature) \<in> evidenceItems E x \<and> signedBy E resolve (ge_src e) (ge_timestamp e) hash signature)"
  using constructGraph_backed [OF assms(1)] assms(2) unfolding backed_def by blast

text \<open>
  If the construction succeeds, no two validly signed events of the input have the same sender and nonce: a replayed event makes it throw instead of
  counting twice.
\<close>

theorem evidenceGraph_no_replay:
  assumes "constructGraphFromEvidenceV0 H E resolve x = Inr g"
  shows "distinct (map replayKey (filter (validEvent E resolve) (xi_events x)))"
  using constructGraph_events_once [OF assms] .

text \<open>A weight that a profile sets to zero is not honoured: the default weight of the type applies.\<close>

lemma zero_weight_ignored:
  assumes "gpr_edge_weights p = Some m" "map_of m edgeType = Some 0"
  shows "graphBaseWeightBps p edgeType = graphBaseWeightBps (p\<lparr>gpr_edge_weights := None\<rparr>) edgeType"
  using assms by (simp add: graphBaseWeightBps_def)

text \<open>The edge of an attestation without an appeal status has a field that is \<^verbatim>\<open>undefined\<close>, which canonicalization rejects.\<close>

lemma attestationV2_edge_unencodable:
  assumes "at2_appeal_status a = None"
  shows "\<nexists>b. edgeBytes (attestationV2Edge H E x a hash) = Inr b"
proof -
  have "\<not> jsonSafe (JObj (GraphEdgeV0_obj (attestationV2Edge H E x a hash)))"
    using assms by (simp add: GraphEdgeV0_obj_def attestationV2Edge_def bareEdge_def Let_def)
  then show ?thesis using jsonSafe_iff by (auto simp: edgeBytes_def bindE_eq_Inr canonicalBytes_def canonicalize_def)
qed

section \<open>A concrete graph\<close>

definition graphKey :: VerificationMethodV1 where
  "graphKey = \<lparr>vm_id = ''tsl:alice#key-1'', vm_type = ''ed25519'', vm_public_key = ''0x'', vm_status = ''active'', vm_created_at = ''2025-01-01T00:00:00.000Z'',
     vm_expires_at = None, vm_revoked_at = None\<rparr>"

definition graphResolver :: resolver where
  "graphResolver = (\<lambda>_ _. Inr (Some \<lparr>idd_type = ''tsl.identity.v1'', idd_id = ''tsl:alice'', idd_controller = ''self'', idd_created_at = ''2025-01-01T00:00:00.000Z'',
     idd_verification_methods = [graphKey], idd_recovery = None, idd_privacy_policy_commitment = None\<rparr>))"

definition graphPolicy :: DelegationPolicyV2 where
  "graphPolicy = \<lparr>dl_type = ''tsl.delegation_policy.v2'', dl_policy_id = ''p'', dl_principal = ''tsl:alice'', dl_delegate = ''tsl:bot'', dl_effect = ''allow'',
     dl_actions = [], dl_resources = [], dl_constraints = [], dl_subdelegation = None, dl_parent_policy_id = None, dl_valid_from = ''2026-01-01T00:00:00.000Z'',
     dl_valid_until = ''2027-01-01T00:00:00.000Z'', dl_revocation_pointer = '''', dl_nonce = None, dl_signature = ''''\<rparr>"

definition graphPolicySigned :: DelegationPolicyV2 where
  "graphPolicySigned = graphPolicy\<lparr>dl_signature := catchE (delegationPolicyV2Hash demoEnv (DelegationPolicyV2_obj graphPolicy)) []\<rparr>"

definition graphEvent :: EventCommitmentV1 where
  "graphEvent = demoSigned (catchE (eventHash demoEnv (EventCommitmentV1_obj (demoSigned []))) [])"

definition graphInput :: evidenceInput where
  "graphInput = \<lparr>xi_events = [graphEvent], xi_receipts = [], xi_attestations = [], xi_attestations_v2 = [], xi_receipt_disputes = [], xi_delegation_policies = [graphPolicySigned],
     xi_graph_profile = demoGraphProfile ''louvain'', xi_at_time = ''2026-06-01T00:00:00.000Z'', xi_event_receivers = [], xi_strict_negative_evidence = True\<rparr>"



lemma graphPolicySigned_hash:
  "\<exists>h b. delegationPolicyV2Hash demoEnv (DelegationPolicyV2_obj graphPolicySigned) = Inr h \<and> dl_signature graphPolicySigned = h \<and> hexToBytes demoEnv h = Inr b
     \<and> verifyEd25519 demoEnv ''0x'' (DText h) h = Inr True"
proof -
  have same: "withoutSignature (DelegationPolicyV2_obj graphPolicySigned) = withoutSignature (DelegationPolicyV2_obj graphPolicy)"
    by (simp add: graphPolicySigned_def graphPolicy_def withoutSignature_def withoutField_def DelegationPolicyV2_obj_def DelegationPolicyUnsignedV2_obj_def optField_def)
  have "jsonSafe (JObj (withoutSignature (DelegationPolicyV2_obj graphPolicy)))"
    by (simp add: graphPolicy_def withoutSignature_def withoutField_def DelegationPolicyV2_obj_def DelegationPolicyUnsignedV2_obj_def optField_def)
  from domainHash_demo [OF this, of DELEGATION_POLICY_V2] show ?thesis
    using same by (auto simp: delegationPolicyV2Hash_def hashSignedObject_def graphPolicySigned_def)
qed

lemma graphEvent_hash:
  "\<exists>h b. eventHash demoEnv (EventCommitmentV1_obj graphEvent) = Inr h \<and> ev_signature graphEvent = h \<and> hexToBytes demoEnv h = Inr b
     \<and> verifyEd25519 demoEnv ''0x'' (DText h) h = Inr True"
proof -
  have same: "unsignedPayload (EventCommitmentV1_obj (demoSigned s)) = unsignedPayload (EventCommitmentV1_obj (demoSigned t))" for s t
    by (simp add: demoSigned_def EventCommitmentUnsignedV1.defs EventCommitmentV1.defs demoEvent_def unsignedPayload_def withoutSignature_def withoutField_def
        EventCommitmentV1_obj_def EventCommitmentUnsignedV1_obj_def optField_def)
  have "jsonSafe (JObj (unsignedPayload (EventCommitmentV1_obj (demoSigned []))))"
    by (simp add: demoSigned_def EventCommitmentUnsignedV1.defs EventCommitmentV1.defs demoEvent_def unsignedPayload_def withoutSignature_def withoutField_def
        EventCommitmentV1_obj_def EventCommitmentUnsignedV1_obj_def optField_def)
  from domainHash_demo [OF this, of EVENT_V1] show ?thesis
    using same [of "ev_signature graphEvent" "[]"] by (auto simp: eventHash_def graphEvent_def)
qed

lemma graphEvent_valid: "validEvent demoEnv graphResolver graphEvent"
  "\<exists>s. eventStep demoHost demoEnv graphResolver graphInput graphEvent \<lparr>es_edges = [], es_senders = [], es_commitments = [], es_nonces = []\<rparr> = Inr s \<and> es_edges s = []"
proof -
  obtain h b where h: "eventHash demoEnv (EventCommitmentV1_obj graphEvent) = Inr h" "ev_signature graphEvent = h" "hexToBytes demoEnv h = Inr b"
    "verifyEd25519 demoEnv ''0x'' (DText h) h = Inr True" using graphEvent_hash by blast
  have f: "ev_sender graphEvent = ''tsl:alice''" "ev_signing_key_id graphEvent = ''tsl:alice#key-1''" "ev_timestamp graphEvent = ''2026-01-01T00:00:00.000Z''"
    by (simp_all add: graphEvent_def demoSigned_def EventCommitmentUnsignedV1.defs EventCommitmentV1.defs demoEvent_def)
  have u: "usableKey demoEnv (Some graphKey) ''2026-01-01T00:00:00.000Z''" by code_simp
  have k: "vm_id graphKey = ''tsl:alice#key-1''" "vm_public_key graphKey = ''0x''" by (simp_all add: graphKey_def)
  have v: "identityHasValidSignature demoEnv graphResolver ''tsl:alice'' ''tsl:alice#key-1'' ''2026-01-01T00:00:00.000Z'' h h = Inr True"
    using h(4) u k by (simp add: identityHasValidSignature_def graphResolver_def findVerificationMethod_def)
  show "validEvent demoEnv graphResolver graphEvent" using h v f by (simp add: validEvent_def)
  show "\<exists>s. eventStep demoHost demoEnv graphResolver graphInput graphEvent \<lparr>es_edges = [], es_senders = [], es_commitments = [], es_nonces = []\<rparr> = Inr s \<and> es_edges s = []"
    using h v f by (simp add: eventStep_def graphInput_def Let_def)
qed

lemma graphInput_graph: "\<exists>g e. constructGraphFromEvidenceV0 demoHost demoEnv graphResolver graphInput = Inr g \<and> g_edges g = [e] \<and> ge_src e = ''tsl:alice''"
proof -
  obtain h b where h: "delegationPolicyV2Hash demoEnv (DelegationPolicyV2_obj graphPolicySigned) = Inr h" "dl_signature graphPolicySigned = h" "hexToBytes demoEnv h = Inr b"
    "verifyEd25519 demoEnv ''0x'' (DText h) h = Inr True" using graphPolicySigned_hash by blast
  have "usableKey demoEnv (Some graphKey) ''2026-01-01T00:00:00.000Z''" by code_simp
  then have k: "keyActiveAt demoEnv (Some graphKey) ''2026-01-01T00:00:00.000Z''" "notRevokedAt demoEnv (Some graphKey) (Some ''2026-01-01T00:00:00.000Z'')"
    by (simp_all add: usableKey_def)
  have d: "\<not> dateLt (dateParse demoEnv ''2026-06-01T00:00:00.000Z'') (dateParse demoEnv ''2026-01-01T00:00:00.000Z'')"
    "\<not> dateLe (dateParse demoEnv ''2027-01-01T00:00:00.000Z'') (dateParse demoEnv ''2026-06-01T00:00:00.000Z'')" by code_simp+
  have p: "dl_principal graphPolicySigned = ''tsl:alice''" "dl_effect graphPolicySigned = ''allow''" "dl_valid_from graphPolicySigned = ''2026-01-01T00:00:00.000Z''"
    "dl_valid_until graphPolicySigned = ''2027-01-01T00:00:00.000Z''" by (simp_all add: graphPolicySigned_def graphPolicy_def)
  have v: "verifyEd25519 demoEnv (vm_public_key graphKey) (DText h) h = Inr True" using h(4) by (simp add: graphKey_def)
  have f: "find (\<lambda>m. vm_type m = ''ed25519'' \<and> vm_status m = ''active'') [graphKey] = Some graphKey" by (simp add: graphKey_def)
  have "policyEdgeStep demoEnv graphResolver graphInput graphPolicySigned [] =
      Inr [bareEdge ''tsl:alice'' (dl_delegate graphPolicySigned) ''delegation'' ''2026-01-01T00:00:00.000Z'' (graphBaseWeightBps (xi_graph_profile graphInput) ''delegation'') 10000 h]"
    using h(1,2) k d p v f by (simp add: policyEdgeStep_def graphResolver_def graphInput_def Let_def del: dateLt_Some dateLe_Some)
  moreover obtain s where "eventStep demoHost demoEnv graphResolver graphInput graphEvent \<lparr>es_edges = [], es_senders = [], es_commitments = [], es_nonces = []\<rparr> = Inr s" "es_edges s = []"
    using graphEvent_valid(2) by blast
  moreover have "xi_events graphInput = [graphEvent]" "xi_receipts graphInput = []" "xi_attestations graphInput = []" "xi_attestations_v2 graphInput = []"
    "xi_delegation_policies graphInput = [graphPolicySigned]" by (simp_all add: graphInput_def)
  ultimately show ?thesis by (simp add: constructGraphFromEvidenceV0_def sortDated_def sortCmp_def graphFromVerifiedEdgesV0_def)
qed

theorem evidenceGraph_edges_signed_witness:
  "\<exists>g e hash signature. constructGraphFromEvidenceV0 demoHost demoEnv graphResolver graphInput = Inr g \<and> e \<in> set (g_edges g) \<and> ge_evidence_hash e = Some hash
     \<and> signedBy demoEnv graphResolver ''tsl:alice'' (ge_timestamp e) hash signature"
  using graphInput_graph evidenceGraph_edges_signed [of demoHost demoEnv graphResolver graphInput] by (metis list.set_intros(1))

theorem evidenceGraph_no_replay_witness:
  "validEvent demoEnv graphResolver graphEvent \<and> (\<exists>g. constructGraphFromEvidenceV0 demoHost demoEnv graphResolver graphInput = Inr g
     \<and> distinct (map replayKey (filter (validEvent demoEnv graphResolver) (xi_events graphInput))))"
  using graphInput_graph graphEvent_valid(1) evidenceGraph_no_replay [of demoHost demoEnv graphResolver graphInput] by blast

end
