(* ===== verification/GraphFeatures.thy ===== *)
theory GraphFeatures
  imports Community GraphEvidence
begin

text \<open>
  The feature vector of a subject in the trust graph (\<^verbatim>\<open>computeGraphFeatureVectorV0\<close> of \<^verbatim>\<open>src/packages/core-ts/src/v2.ts\<close>): concentration, entropy and reciprocity of
  its counterparties, how much of its weight leaves its community, distances to seeds, page ranks, and a commitment to the graph they were computed from.
\<close>

section \<open>Masses\<close>

text \<open>The Herfindahl index of masses, as a double between 0 and 1.\<close>

definition herfindahl :: "host \<Rightarrow> int list \<Rightarrow> rat" where
  "herfindahl H masses = fold (\<lambda>m s. fadd s (h_pow H (fdiv (of_int m) (of_int (sum_list masses))) 2)) masses 0"

definition hhiBps :: "host \<Rightarrow> int list \<Rightarrow> int" where
  "hhiBps H masses = (if sum_list masses = 0 then 0 else clampBps \<lfloor>fmul (herfindahl H masses) 10000\<rfloor>)"

text \<open>The index of the masses of communities is not clamped, and \<open>10000\<close> if there are none.\<close>

definition rawHhi :: "host \<Rightarrow> int list \<Rightarrow> int" where
  "rawHhi H masses = (if sum_list masses = 0 then 10000 else \<lfloor>fmul (herfindahl H masses) 10000\<rfloor>)"

definition entropyBps :: "host \<Rightarrow> int list \<Rightarrow> int" where
  "entropyBps H masses =
     (if sum_list masses = 0 \<or> length masses \<le> 1 then 0
      else let s = fold (\<lambda>m s. let p = fdiv (of_int m) (of_int (sum_list masses)) in if p > 0 then fadd s (fmul p (h_log H p)) else s) masses 0
           in clampBps \<lfloor>fmul (fdiv (- s) (h_log H (of_nat (length masses)))) 10000\<rfloor>)"

definition directedMasses :: "(GraphEdgeV0 \<Rightarrow> string) \<Rightarrow> (GraphEdgeV0 \<Rightarrow> string) \<Rightarrow> GraphV0 \<Rightarrow> string \<Rightarrow> GraphProfileV2 option \<Rightarrow> (string \<times> int) list" where
  "directedMasses own far g subject p =
     fold (\<lambda>e m. if own e = subject then mapAdd m (far e) (positiveWeight p e) else m) (g_edges g) []"

definition reciprocityBps :: "GraphV0 \<Rightarrow> string \<Rightarrow> GraphProfileV2 option \<Rightarrow> string list \<Rightarrow> int" where
  "reciprocityBps g subject p counterparties =
     (let out = (\<lambda>c. orElse (map_of (directedMasses ge_src ge_dst g subject p) c) 0);
          inb = (\<lambda>c. orElse (map_of (directedMasses ge_dst ge_src g subject p) c) 0) in
      bps (sum_list (map (\<lambda>c. 2 * min (out c) (inb c)) counterparties)) (sum_list (map (\<lambda>c. out c + inb c) counterparties)))"

definition massWhere :: "(string \<Rightarrow> bool) \<Rightarrow> (string \<times> int) list \<Rightarrow> int" where
  "massWhere P masses = sum_list (map (\<lambda>(n, m). if P n then m else 0) masses)"

definition trustedNeighborMass :: "string list \<Rightarrow> (string \<times> int) list option \<Rightarrow> (string \<times> int) list \<Rightarrow> int" where
  "trustedNeighborMass seeds scores masses =
     sum_list (map (\<lambda>(n, m). (m * clampBps (orElse (Option.bind scores (\<lambda>s. map_of s n)) (if n \<in> set seeds then 10000 else 0))) div 10000) masses)"

definition arcMass :: "(arc \<Rightarrow> bool) \<Rightarrow> arc list \<Rightarrow> int" where
  "arcMass P arcs = sum_list (map (\<lambda>a. if P a then a_weight a else 0) arcs)"

definition communityMasses :: "(string \<times> int) list \<Rightarrow> arc list \<Rightarrow> (int \<times> int) list" where
  "communityMasses communities arcs =
     fold (\<lambda>a m. case map_of communities (a_src a) of None \<Rightarrow> m | Some c \<Rightarrow> mapAdd m c (a_weight a)) arcs []"

section \<open>Personalised page rank\<close>

definition zeroCommitment :: string where
  "zeroCommitment = ''0x'' @ replicate 64 (CHR ''0'')"

definition defaultGraphProfile :: "string \<Rightarrow> GraphProfileV2" where
  "defaultGraphProfile profileId = \<lparr>gpr_type = ''tsl.graph_profile.v2'', gpr_profile_id = profileId, gpr_edge_weight_profile = ''default'',
     gpr_temporal_decay_profile = ''none'',
     gpr_community_detection = \<lparr>cd_algorithm = ''connected_components_v0'', cd_resolution_bps = 10000, cd_min_cluster_size = 1, cd_edge_weight_floor_bps = None,
       cd_deterministic_ordering = None, cd_max_passes = None, cd_approximation_tolerance_bps = None, cd_refinement_threshold_bps = None,
       cd_projection = None, cd_negative_edge_treatment = None\<rparr>,
     gpr_seed_sets = \<lparr>ss_trusted_seed_commitment = zeroCommitment, ss_adversarial_seed_commitment = zeroCommitment,
       ss_trusted_seed_governance_commitment = None, ss_adversarial_seed_governance_commitment = None\<rparr>,
     gpr_negative_edge_policy = \<lparr>ne_requires_evidence_commitment = True, ne_requires_appeal_uri = True, ne_max_single_negative_weight_bps = 1500, ne_decay_days = 30\<rparr>,
     gpr_privacy_policy = \<lparr>pp_raw_counterparty_upload_required = False, pp_allows_pairwise_private_features = True\<rparr>,
     gpr_edge_weights = None, gpr_half_life_days = None, gpr_issuer_quality_bps = None, gpr_pagerank = None, gpr_manifold_profile = None\<rparr>"

definition pprProfile :: "GraphProfileV2 option \<Rightarrow> string \<Rightarrow> GraphProfileV2" where
  "pprProfile p profileId =
     (let pr = Option.bind p gpr_pagerank in
      (orElse p (defaultGraphProfile profileId))
      \<lparr>gpr_pagerank := Some \<lparr>pr_iterations = (case pr of None \<Rightarrow> 20 | Some r \<Rightarrow> pr_iterations r),
         pr_damping_bps = (case pr of None \<Rightarrow> 8500 | Some r \<Rightarrow> pr_damping_bps r), pr_personalization = Some ''trusted_seeds''\<rparr>\<rparr>)"

section \<open>Distances to centroids\<close>

text \<open>The three distances: those of the profile's centroids after a check of their commitments, or the given ones.\<close>

definition commits :: "env \<Rightarrow> string option \<Rightarrow> jsval \<Rightarrow> bool res" where
  "commits E commitment v = bindE (sha256Of E v) (\<lambda>h. Inr (commitment = Some h))"

definition manifoldDistances :: "env \<Rightarrow> ManifoldProfile option \<Rightarrow> int list \<Rightarrow> int \<times> int \<times> int \<Rightarrow> (int \<times> int \<times> int) res" where
  "manifoldDistances E profile features proxies = (case profile of
       None \<Rightarrow> Inr proxies
     | Some m \<Rightarrow>
         if mp_algorithm m \<noteq> ''centroid_covariance_v1'' then Inr proxies
         else let unsupported = Inl ''TSL_MANIFOLD_PROFILE_UNSUPPORTED'' in
           bindE (commits E (mp_trusted_centroid_commitment m) (intArr (orElse (mp_trusted_centroid_bps m) []))) (\<lambda>a.
           if \<not> a then unsupported else
           bindE (commits E (mp_adversarial_centroid_commitment m) (intArr (orElse (mp_adversarial_centroid_bps m) []))) (\<lambda>b.
           if \<not> b then unsupported else
           bindE (commits E (mp_cluster_centroid_commitment m) (intArr (orElse (mp_cluster_centroid_bps m) []))) (\<lambda>c.
           if \<not> c then unsupported else
           bindE (commits E (mp_covariance_commitment m) (JArr (map intArr (orElse (mp_inverse_covariance_bps m) [])))) (\<lambda>d.
           if \<not> d then unsupported else
           (case (centroidCovarianceDistanceBps features (mp_trusted_centroid_bps m) (mp_inverse_covariance_bps m),
                  centroidCovarianceDistanceBps features (mp_adversarial_centroid_bps m) (mp_inverse_covariance_bps m),
                  centroidCovarianceDistanceBps features (mp_cluster_centroid_bps m) (mp_inverse_covariance_bps m)) of
              (Some x, Some y, Some z) \<Rightarrow> Inr (x, y, z)
            | _ \<Rightarrow> unsupported))))))"

section \<open>The feature vector\<close>

record featureInput =
  fi_subject :: string
  fi_graph :: GraphV0
  fi_graph_profile_id :: string
  fi_graph_profile :: "GraphProfileV2 option"
  fi_trusted_seeds :: "string list option"
  fi_adversarial_seeds :: "string list option"
  fi_trusted_neighbor_scores_bps :: "(string \<times> int) list option"
  fi_computed_at :: "string option"
  fi_signature :: "string option"

definition vectorBasis :: "env \<Rightarrow> featureInput \<Rightarrow> jsval res" where
  "vectorBasis E x =
     bindE (sha256Of E (JObj (GraphV0_obj (fi_graph x)))) (\<lambda>graphHash.
     bindE (sha256Of E (JArr (map JStr (sort (orElse (fi_trusted_seeds x) []))))) (\<lambda>trusted.
     bindE (sha256Of E (JArr (map JStr (sort (orElse (fi_adversarial_seeds x) []))))) (\<lambda>adversarial.
       Inr (JObj [(''subject'', JStr (fi_subject x)), (''graph_profile_id'', JStr (fi_graph_profile_id x)), (''graph_hash'', JStr graphHash),
         (''trusted_seed_commitment'', JStr trusted), (''adversarial_seed_commitment'', JStr adversarial)]))))"

definition effectiveCountMilli :: "host \<Rightarrow> int list \<Rightarrow> int" where
  "effectiveCountMilli H masses =
     (if sum_list masses = 0 then 0
      else \<lfloor>fmul (h_exp H (fmul (fdiv (of_int (entropyBps H masses)) 10000) (h_log H (of_int (max 1 (int (length masses))))))) 1000\<rfloor>)"

definition computeGraphFeatureVectorV0 :: "host \<Rightarrow> env \<Rightarrow> featureInput \<Rightarrow> GraphFeatureVectorV1 res" where
  "computeGraphFeatureVectorV0 H E x =
     (let g = fi_graph x; p = fi_graph_profile x; subject = fi_subject x;
          arcs = projectedGraphArcs g p False;
          subjectMasses = projectedNodeMasses g subject p;
          pairMasses = map snd subjectMasses; totalMass = sum_list pairMasses;
          seeds = orElse (fi_trusted_seeds x) []; adversarial = orElse (fi_adversarial_seeds x) [];
          result = communityResult H g p; communities = cr_assignments result;
          community = set (componentOfSubject H g subject p);
          same = (\<lambda>n. map_of communities n = map_of communities subject);
          internalMass = massWhere same subjectMasses; externalMass = massWhere (\<lambda>n. \<not> same n) subjectMasses;
          volume = arcMass (\<lambda>a. a_src a \<in> community) arcs; complement = arcMass (\<lambda>a. a_src a \<notin> community) arcs;
          trustedDistance = shortestSeedDistance g subject (set seeds) p; adversarialDistance = shortestSeedDistance g subject (set adversarial) p;
          pprLite = orElse (map_of (pageRankScores g (Some (pprProfile p (fi_graph_profile_id x))) seeds (Some subject)) subject) 0;
          pprDistance = clampBps (10000 - pprLite);
          trustedProxy = clampBps (10000 - distanceScoreBps trustedDistance); adversarialProxy = clampBps (10000 - distanceScoreBps adversarialDistance);
          clusterProxy = clampBps (10000 - bps internalMass (internalMass + externalMass)) in
      bindE (manifoldDistances E (Option.bind p gpr_manifold_profile) [pprDistance, trustedProxy, adversarialProxy, clusterProxy]
               (trustedProxy, adversarialProxy, clusterProxy)) (\<lambda>(trustedManifold, adversarialManifold, clusterDistance).
      bindE (vectorBasis E x) (\<lambda>basis.
      bindE (case fi_computed_at x of Some t \<Rightarrow> Inr t | None \<Rightarrow> toISOString (now_ms E)) (\<lambda>computedAt.
      bindE (sha256Of E basis) (\<lambda>commitment.
        Inr \<lparr>gv_type = ''tsl.graph_feature_vector.v1'', gv_subject = subject, gv_graph_profile_id = fi_graph_profile_id x, gv_computed_at = computedAt,
          gv_weighted_degree_bps = clampBps totalMass, gv_reciprocity_bps = reciprocityBps g subject p (map fst subjectMasses),
          gv_counterparty_hhi_bps = hhiBps H pairMasses, gv_counterparty_entropy_bps = entropyBps H pairMasses,
          gv_effective_counterparty_count_milli = effectiveCountMilli H pairMasses,
          gv_seed_escape_bps = bps (massWhere (\<lambda>n. n \<in> set seeds) subjectMasses) totalMass,
          gv_adversarial_proximity_bps = bps (massWhere (\<lambda>n. n \<in> set adversarial) subjectMasses) totalMass,
          gv_community_algorithm_id = Some (case p of None \<Rightarrow> ''connected_components_v0'' | Some q \<Rightarrow> normalizeCommunityAlgorithm (cd_algorithm (gpr_community_detection q))),
          gv_community_escape_bps = Some (bps externalMass (internalMass + externalMass)),
          gv_community_diversity_bps = Some (clampBps (10000 - rawHhi H (map snd (communityMasses communities arcs)))),
          gv_conductance_bps = Some (bps (arcMass (\<lambda>a. a_src a \<in> community \<and> a_dst a \<notin> community) arcs) (min volume complement)),
          gv_trusted_neighbor_mass_bps = Some (bps (trustedNeighborMass seeds (fi_trusted_neighbor_scores_bps x) subjectMasses) totalMass),
          gv_trusted_seed_distance_bps = Some (distanceScoreBps trustedDistance), gv_adversarial_seed_distance_bps = Some (distanceScoreBps adversarialDistance),
          gv_pagerank_bps = Some (orElse (map_of (pageRankScores g p seeds (Some subject)) subject) 0),
          gv_ppr_lite_bps = Some pprLite, gv_ppr_distance_bps = Some pprDistance,
          gv_trusted_seed_distance_proxy_bps = Some trustedProxy, gv_adversarial_seed_distance_proxy_bps = Some adversarialProxy,
          gv_cluster_distance_proxy_bps = Some clusterProxy,
          gv_trusted_manifold_distance_bps = Some trustedManifold, gv_adversarial_manifold_distance_bps = Some adversarialManifold,
          gv_cluster_distance_bps = Some clusterDistance,
          gv_modularity_bps = Some (cr_modularity_bps result), gv_community_pass_count = Some (cr_pass_count result),
          gv_cluster_concentration_bps = Some (bps internalMass (internalMass + externalMass)),
          gv_feature_commitment = Some commitment, gv_recomputation_commitment = Some commitment,
          gv_privacy_disclosure_level = ''aggregate_only'', gv_signature = orElse (fi_signature x) ''0x00''\<rparr>)))))"

definition signGraphFeatureVectorV1 :: "env \<Rightarrow> GraphFeatureVectorV1 \<Rightarrow> string \<Rightarrow> GraphFeatureVectorV1 res" where
  "signGraphFeatureVectorV1 E v seedHex =
     bindE (graphFeatureVectorV1Hash E v) (\<lambda>h. bindE (signEd25519 E (DText h) seedHex) (\<lambda>s. Inr (v\<lparr>gv_signature := s\<rparr>)))"

section \<open>Ranges\<close>

text \<open>All the fields in basis points.\<close>

definition bpsFields :: "GraphFeatureVectorV1 \<Rightarrow> int list" where
  "bpsFields v = [gv_weighted_degree_bps v, gv_reciprocity_bps v, gv_counterparty_hhi_bps v, gv_counterparty_entropy_bps v, gv_seed_escape_bps v,
     gv_adversarial_proximity_bps v]
     @ List.map_filter id [gv_community_escape_bps v, gv_community_diversity_bps v, gv_conductance_bps v, gv_trusted_neighbor_mass_bps v,
         gv_trusted_seed_distance_bps v, gv_adversarial_seed_distance_bps v, gv_pagerank_bps v, gv_ppr_lite_bps v, gv_ppr_distance_bps v,
         gv_trusted_seed_distance_proxy_bps v, gv_adversarial_seed_distance_proxy_bps v, gv_cluster_distance_proxy_bps v,
         gv_trusted_manifold_distance_bps v, gv_adversarial_manifold_distance_bps v, gv_cluster_distance_bps v, gv_modularity_bps v,
         gv_cluster_concentration_bps v]"

lemma isBps_0 [simp]: "isBps 0"
  by (simp add: isBps_def)

lemma hhiBps_isBps [simp]: "isBps (hhiBps H ms)"
  by (simp add: hhiBps_def)

lemma entropyBps_isBps [simp]: "isBps (entropyBps H ms)"
  by (simp add: entropyBps_def Let_def)

lemma reciprocityBps_isBps [simp]: "isBps (reciprocityBps g s p cs)"
  by (simp add: reciprocityBps_def Let_def)

lemma distanceScoreBps_isBps [simp]: "isBps (distanceScoreBps d)"
  by (simp add: distanceScoreBps_def split: option.split)

lemma modularityBps_isBps [simp]: "isBps (modularityBps g p a)"
  by (simp add: modularityBps_def Let_def)

lemma pageRankScores_isBps [simp]: "isBps (orElse (map_of (pageRankScores g p seeds subject) n) 0)"
proof (cases "map_of (pageRankScores g p seeds subject) n")
  case (Some v)
  then have "(n, v) \<in> set (pageRankScores g p seeds subject)" by (rule map_of_SomeD)
  then show ?thesis using Some by (auto simp: pageRankScores_def Let_def split: if_splits)
qed simp

lemma centroidCovarianceDistanceBps_isBps: "centroidCovarianceDistanceBps f c m = Some v \<Longrightarrow> isBps v"
  by (auto simp: centroidCovarianceDistanceBps_def Let_def split: option.splits if_splits)

lemma manifoldDistances_isBps:
  assumes "manifoldDistances E m f (a, b, c) = Inr (x, y, z)" "isBps a" "isBps b" "isBps c"
  shows "isBps x \<and> isBps y \<and> isBps z"
  using assms centroidCovarianceDistanceBps_isBps
  by (auto simp: manifoldDistances_def Let_def bindE_eq_Inr split: option.splits if_splits)

lemma communityResult_isBps [simp]: "isBps (cr_modularity_bps (communityResult H g p))"
  by (simp add: communityResult_def appliedResult_def Let_def split: option.split)

lemma featureVector_isBps:
  assumes "computeGraphFeatureVectorV0 H E x = Inr v"
  shows "list_all isBps (bpsFields v)"
proof -
  have m: "isBps (fst r) \<and> isBps (fst (snd r)) \<and> isBps (snd (snd r))" if "manifoldDistances E m f (clampBps i, clampBps j, clampBps k) = Inr r" for m f i j k r
    using manifoldDistances_isBps [of E m f "clampBps i" "clampBps j" "clampBps k"] that by (cases r) simp
  show ?thesis
    using assms unfolding computeGraphFeatureVectorV0_def Let_def bindE_eq_Inr case_prod_beta
    by (elim exE conjE) (drule m, clarsimp simp: bpsFields_def map_filter_simps)
qed

text \<open>
  Every field in basis points of a computed feature vector lies between \<open>0\<close> and \<open>10000\<close>, whatever the graph, the profile and the functions of the host.
\<close>

theorem featureVector_in_range:
  assumes "computeGraphFeatureVectorV0 H E x = Inr v"
  shows "list_all isBps (bpsFields v)"
  using featureVector_isBps [OF assms] .

text \<open>
  An edge with an undefined appeal status, which is what a valid second-generation attestation without that optional field becomes, makes the
  computation of the features of every subject of the graph throw.
\<close>

theorem features_throw_without_appeal_status:
  assumes "attestationV2Edge H' E' y a hash \<in> set (g_edges (fi_graph x))" "at2_appeal_status a = None"
  shows "\<nexists>v. computeGraphFeatureVectorV0 H E x = Inr v"
proof -
  have "\<not> jsonSafe (JObj (GraphEdgeV0_obj (attestationV2Edge H' E' y a hash)))"
    using assms(2) by (simp add: GraphEdgeV0_obj_def attestationV2Edge_def bareEdge_def Let_def)
  then have "\<not> jsonSafe (JObj (GraphV0_obj (fi_graph x)))" using assms(1) by (auto simp: GraphV0_obj_def list_all_iff)
  then have "\<nexists>b. canonicalBytes (JObj (GraphV0_obj (fi_graph x))) = Inr b"
    using jsonSafe_iff [of "JObj (GraphV0_obj (fi_graph x))"] by (auto simp: canonicalBytes_def canonicalize_def bindE_eq_Inr simp del: jsonSafe.simps)
  then have "\<nexists>b. vectorBasis E x = Inr b" by (auto simp: vectorBasis_def sha256Of_def bindE_eq_Inr)
  then show ?thesis unfolding computeGraphFeatureVectorV0_def Let_def bindE_eq_Inr case_prod_beta by blast
qed

definition demoFeatures :: featureInput where
  "demoFeatures = \<lparr>fi_subject = ''a'', fi_graph = \<lparr>g_edges = [], g_nodes = []\<rparr>, fi_graph_profile_id = ''p'', fi_graph_profile = None, fi_trusted_seeds = None,
     fi_adversarial_seeds = None, fi_trusted_neighbor_scores_bps = None, fi_computed_at = Some ''t'', fi_signature = None\<rparr>"

theorem featureVector_in_range_witness:
  "\<exists>v. computeGraphFeatureVectorV0 demoHost demoEnv demoFeatures = Inr v \<and> list_all isBps (bpsFields v)"
proof -
  obtain h1 h2 where "sha256Of demoEnv (JObj (GraphV0_obj (fi_graph demoFeatures))) = Inr h1" "sha256Of demoEnv (JArr []) = Inr h2"
    using sha256Of_defined [of "JObj (GraphV0_obj (fi_graph demoFeatures))" demoEnv] sha256Of_defined [of "JArr []" demoEnv] by (auto simp: GraphV0_obj_def demoFeatures_def)
  then obtain b where b: "vectorBasis demoEnv demoFeatures = Inr b" "jsonSafe b" by (simp add: vectorBasis_def demoFeatures_def)
  obtain h where "sha256Of demoEnv b = Inr h" using sha256Of_defined [OF b(2)] by blast
  then have "\<exists>v. computeGraphFeatureVectorV0 demoHost demoEnv demoFeatures = Inr v"
    using b(1) by (simp add: computeGraphFeatureVectorV0_def manifoldDistances_def demoFeatures_def Let_def)
  then show ?thesis using featureVector_in_range [of demoHost demoEnv demoFeatures] by blast
qed

definition demoAttestationV2 :: AttestationV2 where
  "demoAttestationV2 = \<lparr>at2_type = ''tsl.attestation.v2'', at2_attestation_id = ''a'', at2_issuer = ''tsl:alice'', at2_signing_key_id = ''k'', at2_subject = ''tsl:bob'',
     at2_claim_class = ''identity'', at2_claim_polarity = ''positive'', at2_severity = ''none'', at2_claim_commitment = '''', at2_evidence_commitment = '''',
     at2_evidence_policy = '''', at2_visibility = ''public'', at2_appeal_uri = '''', at2_issued_at = ''t'', at2_valid_after = ''t'', at2_expires_at = ''u'',
     at2_revocation_pointer = '''', at2_appeal_status = None, at2_signature = ''''\<rparr>"

theorem features_throw_without_appeal_status_witness:
  "\<nexists>v. computeGraphFeatureVectorV0 demoHost demoEnv
     (demoFeatures\<lparr>fi_graph := \<lparr>g_edges = [attestationV2Edge demoHost demoEnv graphInput demoAttestationV2 ''h''], g_nodes = [''tsl:alice'', ''tsl:bob'']\<rparr>\<rparr>) = Inr v"
  by (rule features_throw_without_appeal_status [of demoHost demoEnv graphInput demoAttestationV2 "''h''"]) (simp_all add: demoAttestationV2_def)

end
