(* ===== verification/Sybil.thy ===== *)
theory Sybil
  imports GraphFeatures
begin

text \<open>
  The sybil assessment of a subject's cluster (\<^verbatim>\<open>computeSybilAssessmentV0\<close> and \<^verbatim>\<open>runSybilSimulationProfileV1\<close> of \<^verbatim>\<open>src/packages/core-ts/src/v2.ts\<close>): ratios of the masses inside
  and around the cluster, signals of compromise and collusion, the cost of the attack under the tier of the adversary, a risk score and a label.
\<close>

section \<open>Tiers of adversaries\<close>

record tierConfig =
  tc_risk_adjustment_bps :: int
  tc_high_threshold_bps :: int
  tc_elevated_threshold_bps :: int
  tc_contamination_threshold_bps :: int
  tc_cost_multiplier_bps :: int
  tc_min_evidence_mass :: int
  tc_default_scenario :: string

definition tierPolicy :: "(string \<times> tierConfig) list" where
  "tierPolicy =
     [(''B0'', \<lparr>tc_risk_adjustment_bps = -750, tc_high_threshold_bps = 7800, tc_elevated_threshold_bps = 6800, tc_contamination_threshold_bps = 3500,
         tc_cost_multiplier_bps = 7000, tc_min_evidence_mass = 500, tc_default_scenario = ''low_capability_dense_farm''\<rparr>),
      (''B1'', \<lparr>tc_risk_adjustment_bps = -250, tc_high_threshold_bps = 7400, tc_elevated_threshold_bps = 6400, tc_contamination_threshold_bps = 3000,
         tc_cost_multiplier_bps = 8500, tc_min_evidence_mass = 750, tc_default_scenario = ''basic_aged_farm''\<rparr>),
      (''B2'', \<lparr>tc_risk_adjustment_bps = 0, tc_high_threshold_bps = 7000, tc_elevated_threshold_bps = 6500, tc_contamination_threshold_bps = 2500,
         tc_cost_multiplier_bps = 10000, tc_min_evidence_mass = 1000, tc_default_scenario = ''reference_cluster_assessment''\<rparr>),
      (''B3'', \<lparr>tc_risk_adjustment_bps = 400, tc_high_threshold_bps = 6600, tc_elevated_threshold_bps = 5900, tc_contamination_threshold_bps = 2200,
         tc_cost_multiplier_bps = 13500, tc_min_evidence_mass = 1250, tc_default_scenario = ''compromised_account_cluster''\<rparr>),
      (''B4'', \<lparr>tc_risk_adjustment_bps = 750, tc_high_threshold_bps = 6200, tc_elevated_threshold_bps = 5500, tc_contamination_threshold_bps = 1800,
         tc_cost_multiplier_bps = 18000, tc_min_evidence_mass = 1500, tc_default_scenario = ''issuer_collusion_bridge''\<rparr>),
      (''B5'', \<lparr>tc_risk_adjustment_bps = 1100, tc_high_threshold_bps = 5800, tc_elevated_threshold_bps = 5000, tc_contamination_threshold_bps = 1500,
         tc_cost_multiplier_bps = 25000, tc_min_evidence_mass = 2000, tc_default_scenario = ''relay_provider_auditor_consistency_attack''\<rparr>)]"

section \<open>Masses of a cluster\<close>

record sybilInput =
  si_subject :: string
  si_issuer :: "string option"
  si_graph :: GraphV0
  si_graph_profile :: GraphProfileV2
  si_trusted_seeds :: "string list"
  si_adversarial_seeds :: "string list"
  si_sybil_profile :: "SybilProfile option"
  si_evidence_commitment :: "string option"
  si_computed_at :: "string option"
  si_signature :: "string option"

record clusterSignals =
  cl_size :: int
  cl_internalMass :: int
  cl_touchingMass :: int
  cl_externalMass :: int
  cl_attestations :: int
  cl_concentration :: int
  cl_trustedEscape :: int
  cl_internalReceiptRatio :: int
  cl_receiptSymmetry :: int
  cl_creationSync :: int
  cl_issuerReuse :: int
  cl_externalDiversity :: int
  cl_seedContamination :: int

definition edgeMass :: "GraphProfileV2 \<Rightarrow> GraphEdgeV0 list \<Rightarrow> int" where
  "edgeMass p edges = sum_list (map (positiveWeight (Some p)) edges)"

text \<open>Masses of receipts per pair of nodes, in both directions; a pair is kept under its sorted key.\<close>

definition receiptPairs :: "GraphProfileV2 \<Rightarrow> GraphEdgeV0 list \<Rightarrow> (string \<times> (int \<times> int)) list" where
  "receiptPairs p edges =
     fold (\<lambda>e m. let key = pairKey (ge_src e) (ge_dst e); pair = orElse (map_of m key) (0, 0); w = positiveWeight (Some p) e in
                 mapSet m key (if ge_src e \<le> ge_dst e then (fst pair + w, snd pair) else (fst pair, snd pair + w))) edges []"

definition creationSyncBps :: "int list \<Rightarrow> int" where
  "creationSyncBps stamps =
     (let creationMedian = medianNumber stamps; mad = max 1 (medianNumber (map (\<lambda>t. \<bar>t - creationMedian\<bar>) stamps)) in
      if length stamps < 2 then 0 else clampBps (10000 - bps mad (1000 * 60 * 60 * 24 * 30)))"

definition issuerReuseBps :: "string list \<Rightarrow> int" where
  "issuerReuseBps issuers =
     (if issuers = [] then 0 else bps (Max (set (map (\<lambda>i. int (length (filter (\<lambda>c. c = i) issuers))) (uniqueInOrder issuers)))) (int (length issuers)))"

definition externalMasses :: "GraphProfileV2 \<Rightarrow> string set \<Rightarrow> GraphEdgeV0 list \<Rightarrow> (string \<times> int) list" where
  "externalMasses p cluster edges =
     fold (\<lambda>e m. mapAdd m (if ge_src e \<in> cluster then ge_dst e else ge_src e) (positiveWeight (Some p) e)) edges []"

definition clusterSignalsOf :: "host \<Rightarrow> env \<Rightarrow> sybilInput \<Rightarrow> clusterSignals" where
  "clusterSignalsOf H E x =
     (let g = si_graph x; p = si_graph_profile x; nodes = componentOfSubject H g (si_subject x) (Some p); cluster = set nodes;
          internalEdges = filter (\<lambda>e. ge_src e \<in> cluster \<and> ge_dst e \<in> cluster) (g_edges g);
          touchingEdges = filter (\<lambda>e. ge_src e \<in> cluster \<or> ge_dst e \<in> cluster) (g_edges g);
          outboundEdges = filter (\<lambda>e. ge_src e \<in> cluster) (g_edges g);
          externalEdges = filter (\<lambda>e. \<not> (ge_src e \<in> cluster \<and> ge_dst e \<in> cluster)) touchingEdges;
          internalMass = edgeMass p internalEdges; touchingMass = edgeMass p outboundEdges;
          trustedMass = edgeMass p (filter (\<lambda>e. ge_dst e \<notin> cluster \<and> ge_dst e \<in> set (si_trusted_seeds x)) outboundEdges);
          adversarialMass = edgeMass p (filter (\<lambda>e. ge_src e \<in> set (si_adversarial_seeds x) \<or> ge_dst e \<in> set (si_adversarial_seeds x)) touchingEdges);
          pairs = map snd (receiptPairs p (filter isReceiptGraphEdge internalEdges));
          external = map snd (externalMasses p cluster externalEdges) in
      \<lparr>cl_size = int (length nodes), cl_internalMass = internalMass, cl_touchingMass = touchingMass, cl_externalMass = sum_list external,
       cl_attestations = int (length (filter (\<lambda>e. includesSub (ge_type e) ''attestation'') internalEdges)),
       cl_concentration = bps internalMass touchingMass, cl_trustedEscape = bps trustedMass touchingMass,
       cl_internalReceiptRatio = bps (edgeMass p (filter isReceiptGraphEdge internalEdges)) (edgeMass p (filter isReceiptGraphEdge outboundEdges)),
       cl_receiptSymmetry = bps (sum_list (map (\<lambda>(f, r). min f r) pairs)) (sum_list (map (\<lambda>(f, r). max f r) pairs)),
       cl_creationSync = creationSyncBps (List.map_filter (\<lambda>e. dateParse E (orElse (ge_created_at e) (ge_timestamp e))) internalEdges),
       cl_issuerReuse = issuerReuseBps (List.map_filter (\<lambda>e. if truthyStr (ge_issuer e) then ge_issuer e else None) internalEdges),
       cl_externalDiversity = clampBps (10000 - rawHhi H external), cl_seedContamination = bps adversarialMass touchingMass\<rparr>)"

section \<open>Signals of compromise and collusion\<close>

definition compromiseSignals :: "env \<Rightarrow> SybilProfile option \<Rightarrow> SybilCompromiseSignalsV1 option" where
  "compromiseSignals E profile = (case Option.bind profile spf_compromise_evidence of
       Some e \<Rightarrow> Some \<lparr>scs_key_revocation_bps = Some (evidenceCountSignalBps [sce_key_revocation_count e]),
          scs_severe_drift_bps = Some (evidenceCountSignalBps [sce_severe_drift_count e]),
          scs_recovery_anomaly_bps = Some (evidenceCountSignalBps [sce_recovery_anomaly_count e])\<rparr>
     | None \<Rightarrow> if envFlag E ''TSL_DEV_SYBIL_SIGNALS'' then Option.bind profile spf_compromise_signals else None)"

definition issuerCollusionSignals :: "env \<Rightarrow> SybilProfile option \<Rightarrow> int \<Rightarrow> SybilIssuerCollusionSignalsV1 option" where
  "issuerCollusionSignals E profile issuerReuse = (case Option.bind profile spf_issuer_collusion_evidence of
       Some e \<Rightarrow> Some \<lparr>sis_issuer_reversal_bps = Some (evidenceCountSignalBps [sie_issuer_reversal_count e]), sis_issuer_reuse_bps = Some issuerReuse,
          sis_low_quality_issuer_bps = Some (evidenceCountSignalBps [sie_low_quality_issuer_count e]),
          sis_collusion_indicator_bps = Some (evidenceCountSignalBps [sie_false_attestation_count e, sie_collusion_indicator_count e])\<rparr>
     | None \<Rightarrow> if envFlag E ''TSL_DEV_SYBIL_SIGNALS'' then Option.bind profile spf_issuer_collusion_signals else None)"

definition infrastructureCollusionSignals :: "env \<Rightarrow> SybilProfile option \<Rightarrow> SybilInfrastructureCollusionSignalsV1 option" where
  "infrastructureCollusionSignals E profile = (case Option.bind profile spf_infrastructure_collusion_evidence of
       Some e \<Rightarrow> Some \<lparr>sns_checkpoint_conflict_bps = Some (evidenceCountSignalBps [sne_checkpoint_conflict_count e]),
          sns_provider_auditor_disagreement_bps = Some (evidenceCountSignalBps [sne_provider_auditor_disagreement_count e]),
          sns_settlement_anomaly_bps = Some (evidenceCountSignalBps [sne_settlement_anomaly_count e, sne_selective_visibility_count e])\<rparr>
     | None \<Rightarrow> if envFlag E ''TSL_DEV_SYBIL_SIGNALS'' then Option.bind profile spf_infrastructure_collusion_signals else None)"

section \<open>Risk and cost\<close>

text \<open>\<^verbatim>\<open>Math.floor(signal * 0.35)\<close>, where the literal is the double nearest to it.\<close>

definition behavioralRiskAdjustment :: "string \<Rightarrow> int \<Rightarrow> int \<Rightarrow> int \<Rightarrow> int" where
  "behavioralRiskAdjustment tier compromise issuer infrastructure =
     (if tier = ''B3'' then \<lfloor>fmul (of_int compromise) (fl (35 / 100))\<rfloor>
      else if tier = ''B4'' then \<lfloor>fmul (of_int issuer) (fl (4 / 10))\<rfloor>
      else if tier = ''B5'' then \<lfloor>fmul (of_int infrastructure) (fl (45 / 100))\<rfloor>
      else 0)"

definition linearSignalBps :: "clusterSignals \<Rightarrow> tierConfig \<Rightarrow> int \<Rightarrow> int" where
  "linearSignalBps c t adjustment =
     clampBps ((cl_concentration c * 20 + cl_internalReceiptRatio c * 12 + cl_receiptSymmetry c * 8 + cl_creationSync c * 12 + cl_issuerReuse c * 10
        + cl_seedContamination c * 22 + (10000 - cl_trustedEscape c) * 10 + (10000 - cl_externalDiversity c) * 6) div 100
      + tc_risk_adjustment_bps t + adjustment)"

text \<open>\<^verbatim>\<open>Math.floor((quantity * unit * multiplier) / 10000)\<close>\<close>

definition costOf :: "rat \<Rightarrow> int \<Rightarrow> tierConfig \<Rightarrow> int" where
  "costOf quantity unitCost t = \<lfloor>fdiv (fmul (fmul quantity (of_int unitCost)) (of_int (tc_cost_multiplier_bps t))) 10000\<rfloor>"

definition costComponentsOf :: "clusterSignals \<Rightarrow> tierConfig \<Rightarrow> SybilProfile option \<Rightarrow> int \<Rightarrow> int \<Rightarrow> int \<Rightarrow> int \<Rightarrow> SybilCostComponents" where
  "costComponentsOf c t profile risk compromise issuer infrastructure =
     (let configured = (\<lambda>f d. orElse (Option.bind profile f) d) in
      \<lparr>sco_identity_cost_minor_units = costOf (of_int (cl_size c)) (configured spf_base_identity_cost_minor_units 25000) t,
       sco_time_aging_cost_minor_units = costOf (of_int (cl_size c)) (configured spf_time_aging_cost_minor_units 1000) t,
       sco_external_receipt_cost_minor_units = costOf (fdiv (of_int (cl_externalMass c)) 10000) (configured spf_external_receipt_cost_minor_units 7500) t,
       sco_attestation_cost_minor_units = costOf (of_int (cl_attestations c)) (configured spf_attestation_cost_minor_units 10000) t,
       sco_compromise_cost_minor_units =
         \<lfloor>fdiv (fmul (fdiv (fmul (of_int (configured spf_compromise_cost_minor_units 0)) (of_int (max 1 compromise))) 10000) (of_int (tc_cost_multiplier_bps t))) 10000\<rfloor>,
       sco_evasion_cost_minor_units = costOf (fdiv (of_int risk) 10000) (configured spf_evasion_cost_minor_units 5000) t,
       sco_issuer_collusion_cost_minor_units = Some (costOf (fdiv (of_int issuer) 10000) 15000 t),
       sco_infrastructure_consistency_cost_minor_units = Some (costOf (fdiv (of_int infrastructure) 10000) 25000 t)\<rparr>)"

definition attackCostOf :: "clusterSignals \<Rightarrow> SybilCostComponents \<Rightarrow> SybilProfile option \<Rightarrow> int" where
  "attackCostOf c k profile =
     sco_identity_cost_minor_units k + sco_time_aging_cost_minor_units k + sco_external_receipt_cost_minor_units k + sco_attestation_cost_minor_units k
     + sco_compromise_cost_minor_units k + sco_evasion_cost_minor_units k + orElse (sco_issuer_collusion_cost_minor_units k) 0
     + orElse (sco_infrastructure_consistency_cost_minor_units k) 0
     + (cl_internalMass c div 10000) * orElse (Option.bind profile spf_internal_edge_cost_minor_units) 5000"

definition sybilRiskLabel :: "string \<Rightarrow> clusterSignals \<Rightarrow> tierConfig \<Rightarrow> SybilProfile option \<Rightarrow> int \<Rightarrow> int \<Rightarrow> int \<Rightarrow> int \<Rightarrow> int \<Rightarrow> string" where
  "sybilRiskLabel tier c t profile risk attackCost compromise issuer infrastructure =
     (let benefit = orElse (Option.bind profile spf_expected_benefit_minor_units) 0 in
      if cl_touchingMass c < orElse (Option.bind profile spf_min_evidence_mass) (tc_min_evidence_mass t) then ''insufficient_evidence''
      else if 0 < benefit \<and> attackCost \<le> benefit then ''high''
      else if 8500 < cl_concentration c \<and> cl_trustedEscape c < 500 then ''high''
      else if tier = ''B5'' \<and> 5000 \<le> infrastructure then ''high''
      else if tier = ''B4'' \<and> 5000 \<le> issuer then ''high''
      else if tier = ''B3'' \<and> 5000 \<le> compromise then ''elevated''
      else if tc_contamination_threshold_bps t < cl_seedContamination c then ''elevated''
      else if tc_high_threshold_bps t \<le> risk then ''high''
      else if tc_elevated_threshold_bps t \<le> risk then ''elevated''
      else if 7500 < cl_internalReceiptRatio c \<and> cl_trustedEscape c < 1500 then ''medium''
      else ''low'')"

section \<open>The assessment\<close>

definition scenarioEvidenceChecks :: "string \<Rightarrow> string list" where
  "scenarioEvidenceChecks tier =
     (if tier = ''B3'' then [''key_revocation'', ''drift_compromise'', ''recovery_anomaly'']
      else if tier = ''B4'' then [''issuer_reversal'', ''issuer_quality'', ''collusion_indicator'']
      else if tier = ''B5'' then [''checkpoint_conflict'', ''provider_auditor_disagreement'', ''settlement_anomaly'']
      else [])"

definition seedSetCommitment :: "env \<Rightarrow> sybilInput \<Rightarrow> string res" where
  "seedSetCommitment E x = sha256Of E (JObj [(''trusted'', JArr (map JStr (sort (uniqueInOrder (si_trusted_seeds x))))),
     (''adversarial'', JArr (map JStr (sort (uniqueInOrder (si_adversarial_seeds x))))), (''graph_profile_id'', JStr (gpr_profile_id (si_graph_profile x)))])"

definition computeSybilAssessmentV0 :: "host \<Rightarrow> env \<Rightarrow> sybilInput \<Rightarrow> SybilAssessmentV1 res" where
  "computeSybilAssessmentV0 H E x =
     (let profile = si_sybil_profile x; tier = orElse (Option.bind profile spf_adversary_tier) ''B2''; c = clusterSignalsOf H E x in
      case map_of tierPolicy tier of
        None \<Rightarrow> Inl ''TypeError''
      | Some t \<Rightarrow>
        let cs = compromiseSignals E profile; is = issuerCollusionSignals E profile (cl_issuerReuse c); ns = infrastructureCollusionSignals E profile;
            compromise = averageSignalBps (map_option SybilCompromiseSignalsV1_obj cs);
            issuer = averageSignalBps (map_option SybilIssuerCollusionSignalsV1_obj is);
            infrastructure = averageSignalBps (map_option SybilInfrastructureCollusionSignalsV1_obj ns);
            risk = sigmoidRiskBps H (linearSignalBps c t (behavioralRiskAdjustment tier compromise issuer infrastructure));
            costs = costComponentsOf c t profile risk compromise issuer infrastructure;
            attackCost = attackCostOf c costs profile;
            profileId = gpr_profile_id (si_graph_profile x) in
        bindE (seedSetCommitment E x) (\<lambda>seedCommitment.
        bindE (case si_evidence_commitment x of
                 Some e \<Rightarrow> Inr e
               | None \<Rightarrow> bindE (sha256Of E (JObj (GraphV0_obj (si_graph x)))) (\<lambda>graphHash.
                   sha256Of E (JObj [(''graph_hash'', JStr graphHash), (''seed_set_commitment'', JStr seedCommitment)]))) (\<lambda>evidenceCommitment.
        bindE (sha256Of E (JObj [(''subject'', JStr (si_subject x)), (''graph_profile_id'', JStr profileId)])) (\<lambda>clusterCommitment.
        bindE (case si_computed_at x of Some d \<Rightarrow> Inr d | None \<Rightarrow> toISOString (now_ms E)) (\<lambda>computedAt.
          Inr \<lparr>sa_type = ''tsl.sybil_assessment.v1'', sa_subject = si_subject x, sa_issuer = orElse (si_issuer x) ''did:tsl:provider:reference-sybil'',
            sa_sybil_profile_id = (case profile of None \<Rightarrow> ''sybil-reference-v0'' | Some q \<Rightarrow> spf_profile_id q), sa_graph_profile_id = profileId,
            sa_seed_set_commitment = seedCommitment, sa_evidence_commitment = evidenceCommitment, sa_cluster_id_commitment = clusterCommitment,
            sa_computed_at = computedAt, sa_adversary_tier_assumed = tier,
            sa_cluster_size_bucket = Some (string_of_int (cl_size c) @ ''-'' @ string_of_int (cl_size c)),
            sa_cluster_concentration_bps = cl_concentration c, sa_trusted_escape_bps = cl_trustedEscape c,
            sa_internal_receipt_ratio_bps = cl_internalReceiptRatio c, sa_creation_sync_bps = Some (cl_creationSync c),
            sa_issuer_reuse_bps = Some (cl_issuerReuse c), sa_external_diversity_bps = Some (cl_externalDiversity c),
            sa_seed_contamination_bps = Some (cl_seedContamination c), sa_receipt_symmetry_bps = Some (cl_receiptSymmetry c),
            sa_attack_cost_minor_units = max 0 attackCost, sa_cost_components = costs,
            sa_expected_benefit_minor_units = orElse (Option.bind profile spf_expected_benefit_minor_units) 0,
            sa_attack_scenario = orElse (Option.bind profile spf_attack_scenario) (tc_default_scenario t),
            sa_compromise_signals = cs, sa_issuer_collusion_signals = is, sa_infrastructure_collusion_signals = ns,
            sa_compromise_evidence = Option.bind profile spf_compromise_evidence,
            sa_issuer_collusion_evidence = Option.bind profile spf_issuer_collusion_evidence,
            sa_infrastructure_collusion_evidence = Option.bind profile spf_infrastructure_collusion_evidence,
            sa_scenario_evidence_checks = Some (scenarioEvidenceChecks tier), sa_risk_score_bps = risk,
            sa_risk_label = sybilRiskLabel tier c t profile risk attackCost compromise issuer infrastructure,
            sa_privacy_level = ''cluster_commitment_only'', sa_signature = orElse (si_signature x) ''0x00''\<rparr>)))))"

definition signSybilAssessmentV1 :: "env \<Rightarrow> SybilAssessmentV1 \<Rightarrow> string \<Rightarrow> SybilAssessmentV1 res" where
  "signSybilAssessmentV1 E a seedHex =
     bindE (sybilAssessmentV1Hash E a) (\<lambda>h. bindE (signEd25519 E (DText h) seedHex) (\<lambda>s. Inr (a\<lparr>sa_signature := s\<rparr>)))"

section \<open>Simulations\<close>

record costOverrides =
  ov_identity_cost_minor_units :: "int option"
  ov_time_aging_cost_minor_units :: "int option"
  ov_external_receipt_cost_minor_units :: "int option"
  ov_attestation_cost_minor_units :: "int option"
  ov_compromise_cost_minor_units :: "int option"
  ov_evasion_cost_minor_units :: "int option"

record sybilScenario =
  sx_scenario_id :: string
  sx_adversary_tier :: string
  sx_subject :: string
  sx_attack_scenario :: string
  sx_expected_benefit_minor_units :: int
  sx_evidence_commitment :: string
  sx_cost_overrides :: "costOverrides option"
  sx_compromise_evidence :: "SybilCompromiseEvidenceV1 option"
  sx_issuer_collusion_evidence :: "SybilIssuerCollusionEvidenceV1 option"
  sx_infrastructure_collusion_evidence :: "SybilInfrastructureCollusionEvidenceV1 option"

record SybilSimulationProfileV1 =
  sm_type :: string
  sm_profile_id :: string
  sm_issuer :: string
  sm_graph_profile_id :: string
  sm_scenarios :: "sybilScenario list"
  sm_issued_at :: string
  sm_signature :: "string option"

definition scenarioProfile :: "SybilSimulationProfileV1 \<Rightarrow> sybilScenario \<Rightarrow> SybilProfile" where
  "scenarioProfile m s =
     (let ov = sx_cost_overrides s in
      \<lparr>spf_profile_id = sm_profile_id m @ '':'' @ sx_scenario_id s, spf_adversary_tier = Some (sx_adversary_tier s), spf_min_evidence_mass = None,
       spf_base_identity_cost_minor_units = Option.bind ov ov_identity_cost_minor_units,
       spf_time_aging_cost_minor_units = Option.bind ov ov_time_aging_cost_minor_units,
       spf_external_receipt_cost_minor_units = Option.bind ov ov_external_receipt_cost_minor_units,
       spf_attestation_cost_minor_units = Option.bind ov ov_attestation_cost_minor_units,
       spf_compromise_cost_minor_units = Option.bind ov ov_compromise_cost_minor_units,
       spf_evasion_cost_minor_units = Option.bind ov ov_evasion_cost_minor_units,
       spf_internal_edge_cost_minor_units = None, spf_expected_benefit_minor_units = Some (sx_expected_benefit_minor_units s),
       spf_attack_scenario = Some (sx_attack_scenario s), spf_compromise_signals = None, spf_issuer_collusion_signals = None,
       spf_infrastructure_collusion_signals = None, spf_compromise_evidence = sx_compromise_evidence s,
       spf_issuer_collusion_evidence = sx_issuer_collusion_evidence s,
       spf_infrastructure_collusion_evidence = sx_infrastructure_collusion_evidence s\<rparr>)"

definition scenarioEvidenceMissing :: "sybilScenario \<Rightarrow> bool" where
  "scenarioEvidenceMissing s \<longleftrightarrow> (sx_adversary_tier s = ''B3'' \<and> sx_compromise_evidence s = None)
     \<or> (sx_adversary_tier s = ''B4'' \<and> sx_issuer_collusion_evidence s = None)
     \<or> (sx_adversary_tier s = ''B5'' \<and> sx_infrastructure_collusion_evidence s = None)"

definition runSybilSimulationProfileV1 :: "host \<Rightarrow> env \<Rightarrow> SybilSimulationProfileV1 \<Rightarrow> GraphV0 \<Rightarrow> GraphProfileV2 \<Rightarrow> string list \<Rightarrow> string list \<Rightarrow> string option
    \<Rightarrow> SybilAssessmentV1 list res" where
  "runSybilSimulationProfileV1 H E m g p trusted adversarial computedAt =
     (if sm_graph_profile_id m \<noteq> gpr_profile_id p then Inl ''TSL_GRAPH_ARTIFACTS_INVALID''
      else sequenceE (map (\<lambda>s.
        if scenarioEvidenceMissing s then Inl ''TSL_SYBIL_EVIDENCE_INCOMPLETE''
        else computeSybilAssessmentV0 H E \<lparr>si_subject = sx_subject s, si_issuer = Some (sm_issuer m), si_graph = g, si_graph_profile = p,
               si_trusted_seeds = trusted, si_adversarial_seeds = adversarial, si_sybil_profile = Some (scenarioProfile m s),
               si_evidence_commitment = Some (sx_evidence_commitment s), si_computed_at = Some (orElse computedAt (sm_issued_at m)), si_signature = None\<rparr>)
        (sm_scenarios m)))"

section \<open>Declared signals\<close>

text \<open>The signals a profile declares about itself, as opposed to those derived from evidence.\<close>

definition withDeclaredSignals :: "sybilInput \<Rightarrow> SybilCompromiseSignalsV1 option \<Rightarrow> SybilIssuerCollusionSignalsV1 option \<Rightarrow> SybilInfrastructureCollusionSignalsV1 option \<Rightarrow> sybilInput" where
  "withDeclaredSignals x c i n = x\<lparr>si_sybil_profile := map_option (\<lambda>p. p\<lparr>spf_compromise_signals := c, spf_issuer_collusion_signals := i,
     spf_infrastructure_collusion_signals := n\<rparr>) (si_sybil_profile x)\<rparr>"

text \<open>
  Outside of development mode a sybil assessment does not depend on the signals that the profile declares: only signals derived from counted evidence
  enter the risk, the costs and the label.
\<close>

theorem sybil_ignores_declared_signals:
  assumes "\<not> envFlag E ''TSL_DEV_SYBIL_SIGNALS''"
  shows "computeSybilAssessmentV0 H E (withDeclaredSignals x c i n) = computeSybilAssessmentV0 H E x"
proof (cases "si_sybil_profile x")
  case None
  then have "withDeclaredSignals x c i n = x" by (cases x) (simp add: withDeclaredSignals_def)
  then show ?thesis by simp
next
  case (Some p)
  let ?x = "withDeclaredSignals x c i n"
  define q where "q = p\<lparr>spf_compromise_signals := c, spf_issuer_collusion_signals := i, spf_infrastructure_collusion_signals := n\<rparr>"
  have q: "si_sybil_profile ?x = Some q" by (simp add: withDeclaredSignals_def Some q_def)
  have sel: "si_graph ?x = si_graph x" "si_evidence_commitment ?x = si_evidence_commitment x" "si_subject ?x = si_subject x" "si_computed_at ?x = si_computed_at x"
    "si_graph_profile ?x = si_graph_profile x" "si_issuer ?x = si_issuer x" "si_signature ?x = si_signature x" "si_trusted_seeds ?x = si_trusted_seeds x"
    "si_adversarial_seeds ?x = si_adversarial_seeds x" by (simp_all add: withDeclaredSignals_def)
  have "clusterSignalsOf H E ?x = clusterSignalsOf H E x" "seedSetCommitment E ?x = seedSetCommitment E x"
    unfolding clusterSignalsOf_def seedSetCommitment_def sel by (rule refl)+
  moreover have "compromiseSignals E (Some q) = compromiseSignals E (Some p)" "issuerCollusionSignals E (Some q) r = issuerCollusionSignals E (Some p) r"
    "infrastructureCollusionSignals E (Some q) = infrastructureCollusionSignals E (Some p)" for r
    using assms by (simp_all add: q_def compromiseSignals_def issuerCollusionSignals_def infrastructureCollusionSignals_def)
  moreover have "costComponentsOf d t (Some q) = costComponentsOf d t (Some p)" "attackCostOf d k (Some q) = attackCostOf d k (Some p)"
    "sybilRiskLabel tier d t (Some q) = sybilRiskLabel tier d t (Some p)" for d t k tier
    by (simp_all add: q_def costComponentsOf_def attackCostOf_def sybilRiskLabel_def fun_eq_iff)
  moreover have "spf_adversary_tier q = spf_adversary_tier p" "spf_profile_id q = spf_profile_id p" "spf_attack_scenario q = spf_attack_scenario p"
    "spf_expected_benefit_minor_units q = spf_expected_benefit_minor_units p" "spf_compromise_evidence q = spf_compromise_evidence p"
    "spf_issuer_collusion_evidence q = spf_issuer_collusion_evidence p" "spf_infrastructure_collusion_evidence q = spf_infrastructure_collusion_evidence p"
    by (simp_all add: q_def)
  ultimately show ?thesis
    unfolding computeSybilAssessmentV0_def Let_def [of "si_sybil_profile ?x"] Let_def [of "si_sybil_profile x"] by (simp only: sel q Some bind.bind_lunit option.case)
qed

definition sybilExample :: sybilInput where
  "sybilExample = \<lparr>si_subject = ''a'', si_issuer = None, si_graph = demoGraph, si_graph_profile = demoGraphProfile ''louvain'', si_trusted_seeds = [''b''],
     si_adversarial_seeds = [], si_sybil_profile = Some \<lparr>spf_profile_id = ''p'', spf_adversary_tier = Some ''B3'', spf_min_evidence_mass = None,
       spf_base_identity_cost_minor_units = None, spf_time_aging_cost_minor_units = None, spf_external_receipt_cost_minor_units = None,
       spf_attestation_cost_minor_units = None, spf_compromise_cost_minor_units = None, spf_evasion_cost_minor_units = None, spf_internal_edge_cost_minor_units = None,
       spf_expected_benefit_minor_units = None, spf_attack_scenario = None, spf_compromise_signals = None, spf_issuer_collusion_signals = None,
       spf_infrastructure_collusion_signals = None, spf_compromise_evidence = None, spf_issuer_collusion_evidence = None, spf_infrastructure_collusion_evidence = None\<rparr>,
     si_evidence_commitment = None, si_computed_at = None, si_signature = None\<rparr>"

theorem sybil_ignores_declared_signals_witness:
  "computeSybilAssessmentV0 demoHost demoEnv (withDeclaredSignals sybilExample (Some \<lparr>scs_key_revocation_bps = Some 10000, scs_severe_drift_bps = None, scs_recovery_anomaly_bps = None\<rparr>) None None)
     = computeSybilAssessmentV0 demoHost demoEnv sybilExample"
  using sybil_ignores_declared_signals [of demoEnv] by (simp add: envFlag_def demoEnv_def)

end
