(* ===== verification/Drift.thy ===== *)
theory Drift
  imports Graph Delegation
begin

text \<open>
  Drift of an identity's behaviour (\<^verbatim>\<open>computeDriftReportV0\<close> of \<^verbatim>\<open>src/packages/core-ts/src/v2.ts\<close>): a history of component scores is split into a baseline and an
  observation window, whose distance is measured per component by medians and as a whole by a fixed-point Mahalanobis distance. The inverse of the covariance
  matrix is computed on big integers, whose division truncates.

  Where a median of nothing or a date that does not parse would bring \<^verbatim>\<open>NaN\<close> into a report (a minimum of baseline points below one, or a time of
  computation that is no date, and enough baseline points at once), the model stops with \<open>NaN\<close>.
\<close>

section \<open>The inverse of a matrix in fixed point\<close>

definition quotBig :: "int \<Rightarrow> int \<Rightarrow> int" where
  "quotBig a b = sgn a * sgn b * (\<bar>a\<bar> div \<bar>b\<bar>)"

definition augmentedMatrix :: "int list list \<Rightarrow> int \<Rightarrow> int list list" where
  "augmentedMatrix matrix regularization =
     (let size = length matrix in
      map (\<lambda>r. map (\<lambda>c. matrix ! r ! c + (if r = c then regularization else 0)) [0..<size] @ map (\<lambda>c. if c = r then 1 else 0) [0..<size]) [0..<size])"

definition pivotRow :: "int list list \<Rightarrow> nat \<Rightarrow> nat" where
  "pivotRow m column = fold (\<lambda>r pivot. if \<bar>m ! pivot ! column\<bar> < \<bar>m ! r ! column\<bar> then r else pivot) [column + 1..<length m] column"

definition swapRows :: "int list list \<Rightarrow> nat \<Rightarrow> nat \<Rightarrow> int list list" where
  "swapRows m i j = m[i := m ! j, j := m ! i]"

definition scaleBig :: int where
  "scaleBig = 1000000"

definition eliminateColumn :: "nat \<Rightarrow> int list list \<Rightarrow> int list list option" where
  "eliminateColumn column m =
     (let pivot = pivotRow m column in
      if m ! pivot ! column = 0 then None
      else let swapped = swapRows m pivot column;
               pivotValue = swapped ! column ! column;
               pivotLine = map (\<lambda>v. quotBig (v * scaleBig) pivotValue) (swapped ! column) in
           Some (map (\<lambda>r. if r = column then pivotLine
                          else let factor = swapped ! r ! column in map (\<lambda>(v, w). v - quotBig (factor * w) scaleBig) (zip (swapped ! r) pivotLine))
                  [0..<length m]))"

definition invertRegularizedMatrixFixed :: "int list list \<Rightarrow> int \<Rightarrow> int list list option" where
  "invertRegularizedMatrixFixed matrix regularization =
     (let size = length matrix in
      if size = 0 \<or> (\<exists>row \<in> set matrix. length row \<noteq> size) then None
      else map_option (map (drop size))
             (fold (\<lambda>column acc. Option.bind acc (eliminateColumn column)) [0..<size] (Some (augmentedMatrix matrix regularization))))"

section \<open>Windows and medians\<close>

record driftInput =
  di_subject :: string
  di_issuer :: "string option"
  di_drift_profile_id :: "string option"
  di_baseline_values_bps :: "int list option"
  di_observation_values_bps :: "int list option"
  di_feature_history :: "DriftFeatureEntry list option"
  di_baseline_window_days :: int
  di_observation_window_days :: int
  di_min_baseline_points :: "int option"
  di_dormant_days :: "int option"
  di_last_verified_event_at :: "string option"
  di_cohort_baseline_components :: "(string \<times> int) list list option"
  di_high_value_action :: bool
  di_new_delegation_pattern :: bool
  di_adverse_evidence :: bool
  di_coverage_bps :: "int option"
  di_dcrit_bps :: "int option"
  di_dormant_penalty_bps :: "int option"
  di_key_penalty_bps :: "int option"
  di_severe_action :: "string option"
  di_component_scores_bps :: "(string \<times> int) list option"
  di_computed_at :: "string option"
  di_signature :: "string option"

definition componentKeys :: "string list" where
  "componentKeys = [''key'', ''graph'', ''action'', ''cadence'', ''claim'', ''agent'', ''local'']"

definition dayMs :: int where
  "dayMs = 86400000"

definition historyOf :: "driftInput \<Rightarrow> DriftFeatureEntry list" where
  "historyOf x = orElse (di_feature_history x) []"

definition baselineHistory :: "env \<Rightarrow> driftInput \<Rightarrow> int option \<Rightarrow> DriftFeatureEntry list" where
  "baselineHistory E x atMs =
     filter (\<lambda>q. case (dateParse E (dfe_timestamp q), atMs) of
         (Some ms, Some now) \<Rightarrow> now - (di_baseline_window_days x + di_observation_window_days x) * dayMs \<le> ms \<and> ms < now - di_observation_window_days x * dayMs
       | _ \<Rightarrow> False) (historyOf x)"

definition observationHistory :: "env \<Rightarrow> driftInput \<Rightarrow> int option \<Rightarrow> DriftFeatureEntry list" where
  "observationHistory E x atMs =
     filter (\<lambda>q. case (dateParse E (dfe_timestamp q), atMs) of
         (Some ms, Some now) \<Rightarrow> now - di_observation_window_days x * dayMs \<le> ms \<and> ms \<le> now
       | _ \<Rightarrow> False) (historyOf x)"

definition toVector :: "DriftFeatureEntry \<Rightarrow> int list" where
  "toVector q = map (\<lambda>c. clampBps (orElse (map_of (dfe_components q) c) 0)) componentKeys"

definition averageValue :: "DriftFeatureEntry \<Rightarrow> int" where
  "averageValue q = sum_list (toVector q) div int (length componentKeys)"

definition medianBps :: "int list \<Rightarrow> int" where
  "medianBps values = middleOf (sort (map clampBps values))"

definition robustDistance :: "int list \<Rightarrow> int list \<Rightarrow> int" where
  "robustDistance baseline observation =
     (let baselineMedian = medianBps baseline; mad = max 100 (medianBps (map (\<lambda>v. \<bar>v - baselineMedian\<bar>) baseline));
          observationMedian = (if observation = [] then baselineMedian else medianBps observation) in
      clampBps ((\<bar>observationMedian - baselineMedian\<bar> * 1000) div mad))"

definition medianVector :: "int list list \<Rightarrow> int list" where
  "medianVector vectors = map (\<lambda>i. medianBps (map (\<lambda>v. v ! i) vectors)) [0..<length componentKeys]"

definition covarianceMatrix :: "int list list \<Rightarrow> int list \<Rightarrow> int list list" where
  "covarianceMatrix vectors center =
     (let size = length componentKeys; denominator = max 1 (int (length vectors) - 1);
          entry = (\<lambda>r c. sum_list (map (\<lambda>v. (v ! r - center ! r) * (v ! c - center ! c)) vectors) div denominator) in
      map (\<lambda>r. map (\<lambda>c. if r = c then max (entry r r) 10000 else entry r c) [0..<size]) [0..<size])"

text \<open>\<^verbatim>\<open>Math.trunc\<close> and the sum over the entries of the inverse, in doubles; an entry of the inverse becomes a double by \<^verbatim>\<open>Number(value)\<close>.\<close>

definition truncRat :: "rat \<Rightarrow> int" where
  "truncRat x = (if x < 0 then \<lceil>x\<rceil> else \<lfloor>x\<rfloor>)"

definition quadraticScaled :: "int list list \<Rightarrow> int list \<Rightarrow> rat" where
  "quadraticScaled inverseMatrix delta =
     fold (\<lambda>(r, c) q. fadd q (of_int (truncRat (fdiv (fmul (fmul (of_int (delta ! r)) (fl (of_int (inverseMatrix ! r ! c)))) (of_int (delta ! c))) 1000000))))
       (concat (map (\<lambda>r. map (\<lambda>c. (r, c)) [0..<length delta]) [0..<length delta])) 0"

record mahalanobisResult =
  mh_score :: int
  mh_covariance :: "int list list"
  mh_center :: "int list"

definition robustMahalanobis :: "int \<Rightarrow> DriftFeatureEntry list \<Rightarrow> DriftFeatureEntry list \<Rightarrow> mahalanobisResult" where
  "robustMahalanobis minPoints baseline observation =
     (let baselineVectors = map toVector baseline; observationVectors = map toVector observation in
      if int (length baselineVectors) < minPoints \<or> observationVectors = [] then \<lparr>mh_score = 0, mh_covariance = [], mh_center = []\<rparr>
      else let center = medianVector baselineVectors; covariance = covarianceMatrix baselineVectors center;
               observationMean = map (\<lambda>i. sum_list (map (\<lambda>v. v ! i) observationVectors) div int (length observationVectors)) [0..<length componentKeys] in
           case invertRegularizedMatrixFixed covariance 10000 of
             None \<Rightarrow> \<lparr>mh_score = 0, mh_covariance = covariance, mh_center = center\<rparr>
           | Some inverseMatrix \<Rightarrow>
               let delta = map (\<lambda>i. observationMean ! i - center ! i) [0..<length componentKeys] in
               \<lparr>mh_score = clampBps (fixedPointSqrt (max 0 \<lfloor>quadraticScaled inverseMatrix delta\<rfloor>) * 1000), mh_covariance = covariance, mh_center = center\<rparr>)"

section \<open>The report\<close>

definition minPointsOf :: "driftInput \<Rightarrow> int" where
  "minPointsOf x = orElse (di_min_baseline_points x) 2"

definition componentScoresOf :: "driftInput \<Rightarrow> DriftFeatureEntry list \<Rightarrow> DriftFeatureEntry list \<Rightarrow> (string \<times> int) list" where
  "componentScoresOf x baseline observation =
     (let values = (\<lambda>qs c. List.map_filter (\<lambda>q. map_of (dfe_components q) c) qs);
          derived = List.map_filter (\<lambda>c. if minPointsOf x \<le> int (length (values baseline c)) then Some (c, robustDistance (values baseline c) (values observation c)) else None)
                      componentKeys in
      map (\<lambda>(c, s). (c, clampBps s)) (fold (\<lambda>(c, s) m. mapSet m c s) (orElse (di_component_scores_bps x) []) derived))"

definition lastVerifiedEventAt :: "driftInput \<Rightarrow> string option" where
  "lastVerifiedEventAt x = (case di_last_verified_event_at x of
       Some t \<Rightarrow> Some t
     | None \<Rightarrow> (let ts = sort (map dfe_timestamp (filter (\<lambda>q. dfe_verified_event q = Some True) (historyOf x))) in if ts = [] then None else Some (last ts)))"

definition daysSinceLastVerifiedEvent :: "env \<Rightarrow> driftInput \<Rightarrow> int \<Rightarrow> int option" where
  "daysSinceLastVerifiedEvent E x now = (case Option.bind (lastVerifiedEventAt x) (\<lambda>t. if t = [] then None else dateParse E t) of
       Some ms \<Rightarrow> Some ((now - ms) div dayMs)
     | None \<Rightarrow> if envFlag E ''TSL_DEV_DRIFT_INPUTS'' then di_dormant_days x else None)"

definition upperCase :: "string \<Rightarrow> string" where
  "upperCase s = map (\<lambda>c. let n = (of_char c :: nat) in if 97 \<le> n \<and> n \<le> 122 then char_of (n - 32) else c) s"

record driftVerdict =
  dv_score :: int
  dv_label :: string
  dv_action :: string
  dv_reasons :: "string list"

definition isDormant :: "driftInput \<Rightarrow> DriftFeatureEntry list \<Rightarrow> int option \<Rightarrow> bool" where
  "isDormant x observation days \<longleftrightarrow> orElse (di_dormant_days x) 90 \<le> orElse days 0
     \<and> (di_high_value_action x \<or> di_new_delegation_pattern x \<or> (\<exists>q \<in> set observation. dfe_high_value_action q = Some True)
         \<or> (\<exists>q \<in> set observation. dfe_new_delegation_pattern q = Some True))"

definition dcritOf :: "driftInput \<Rightarrow> int" where
  "dcritOf x = max 1 (clampBps (orElse (di_dcrit_bps x) 7500))"

definition driftCoverage :: "driftInput \<Rightarrow> int" where
  "driftCoverage x = clampBps (orElse (di_coverage_bps x) 10000)"

definition driftScore :: "driftInput \<Rightarrow> bool \<Rightarrow> int \<Rightarrow> (string \<times> int) list \<Rightarrow> int" where
  "driftScore x dormant mahalanobis scores =
     (let mahaRisk = min 10000 ((mahalanobis * 10000) div dcritOf x);
          dormantPenalty = (if dormant then clampBps (orElse (di_dormant_penalty_bps x) 2500) else 0);
          keyPenalty = max (orElse (map_of scores ''key'') 0) (clampBps (orElse (di_key_penalty_bps x) 0));
          baseDrift = clampBps ((mahaRisk * driftCoverage x) div 10000 + dormantPenalty + keyPenalty) in
      if dormant then max 8000 baseDrift else baseDrift)"

definition driftVerdictOf :: "driftInput \<Rightarrow> bool \<Rightarrow> bool \<Rightarrow> int \<Rightarrow> (string \<times> int) list \<Rightarrow> driftVerdict" where
  "driftVerdictOf x dormant historyAdverse mahalanobis scores =
     (let drift = driftScore x dormant mahalanobis scores;
          severeAdverse = ((di_adverse_evidence x \<or> historyAdverse) \<and> 7500 \<le> drift);
          hardCompromise = (case map_of scores ''key'' of None \<Rightarrow> False | Some k \<Rightarrow> 7500 \<le> k);
          lab = (if dormant then ''dormant_reactivation'' else if severeAdverse \<or> (hardCompromise \<and> 7500 \<le> drift) then ''severe''
                 else if 5000 \<le> drift then ''high'' else if 2500 \<le> drift then ''moderate'' else ''stable'') in
      \<lparr>dv_score = drift, dv_label = lab,
       dv_action = (if dormant then ''step_up'' else if lab = ''severe'' then orElse (di_severe_action x) ''human_review''
                    else if lab = ''high'' then ''step_up'' else if lab = ''moderate'' then ''lower_confidence'' else ''none''),
       dv_reasons = (if dormant then [''DORMANT_REACTIVATION'', ''NEW_HIGH_VALUE_ACTION''] @ map (\<lambda>(c, _). ''DRIFT_'' @ upperCase c) scores
                     else (if di_adverse_evidence x then [''ADVERSE_EVIDENCE''] else [])
                          @ map (\<lambda>(c, _). ''DRIFT_'' @ upperCase c) (filter (\<lambda>(_, s). 2500 \<le> s) scores))\<rparr>)"

definition emptyReport :: "driftInput \<Rightarrow> string \<Rightarrow> DriftReportV1" where
  "emptyReport x computedAt = \<lparr>dr_type = ''tsl.drift_report.v1'', dr_subject = di_subject x,
     dr_issuer = (if truthyStr (di_issuer x) then di_issuer x else None),
     dr_drift_profile_id = (if truthyStr (di_drift_profile_id x) then di_drift_profile_id x else None), dr_computed_at = computedAt,
     dr_baseline_window_days = di_baseline_window_days x, dr_observation_window_days = di_observation_window_days x, dr_coverage_bps = None, dr_dcrit_bps = None,
     dr_dormant_penalty_bps = None, dr_key_penalty_bps = None, dr_feature_history_commitment = None, dr_baseline_profile_commitment = None,
     dr_covariance_profile_commitment = None, dr_robust_covariance_commitment = None, dr_mahalanobis_bps = None, dr_cohort_baseline_profile_commitment = None,
     dr_uncertainty_widening_bps = None, dr_last_verified_event_at = None, dr_days_since_last_verified_event = None, dr_sparse_mode = None,
     dr_recomputation_status = Some ''recomputed_match'', dr_drift_score_bps = 0, dr_drift_label = ''insufficient_baseline'', dr_action = ''none'',
     dr_reason_codes = [''INSUFFICIENT_BASELINE''], dr_component_scores_bps = None, dr_signature = orElse (di_signature x) ''0x00''\<rparr>"

definition insufficientReport :: "driftInput \<Rightarrow> string \<Rightarrow> bool \<Rightarrow> DriftReportV1" where
  "insufficientReport x computedAt cohortAvailable =
     (emptyReport x computedAt)
     \<lparr>dr_coverage_bps := Some (driftCoverage x), dr_dcrit_bps := Some (dcritOf x), dr_dormant_penalty_bps := Some (clampBps (orElse (di_dormant_penalty_bps x) 2500)),
      dr_key_penalty_bps := Some (clampBps (orElse (di_key_penalty_bps x) 0)),
      dr_last_verified_event_at := (if truthyStr (di_last_verified_event_at x) then di_last_verified_event_at x else None),
      dr_sparse_mode := Some (if cohortAvailable then ''cohort_baseline'' else ''insufficient_baseline''),
      dr_uncertainty_widening_bps := Some (if cohortAvailable then 1500 else 3000)\<rparr>"

definition estimatorObj :: "(string \<times> jsval) list \<Rightarrow> jsval" where
  "estimatorObj rest = JObj ([(''estimator'', JStr ''robust_median_covariance_fixed_point_v1''), (''regularization'', JNum (JInt 10000))] @ rest)"

definition fullReport :: "env \<Rightarrow> driftInput \<Rightarrow> string \<Rightarrow> int \<Rightarrow> DriftReportV1 res" where
  "fullReport E x computedAt now =
     (let baseline = baselineHistory E x (Some now); observation = observationHistory E x (Some now);
          scores = componentScoresOf x baseline observation; days = daysSinceLastVerifiedEvent E x now;
          mahalanobis = robustMahalanobis (minPointsOf x) baseline observation;
          v = driftVerdictOf x (isDormant x observation days) (\<exists>q \<in> set observation. dfe_adverse_evidence q = Some True) (mh_score mahalanobis) scores in
      bindE (case di_feature_history x of None \<Rightarrow> Inr None
             | Some qs \<Rightarrow> bindE (sha256Of E (JArr (map (\<lambda>q. JObj (DriftFeatureEntry_obj q)) qs))) (\<lambda>h. Inr (Some h))) (\<lambda>history.
      bindE (sha256Of E (JObj [(''baseline_window_days'', JNum (JInt (di_baseline_window_days x))), (''min_baseline_points'', JNum (JInt (minPointsOf x)))])) (\<lambda>bp.
      bindE (sha256Of E (estimatorObj [(''dcrit_bps'', JNum (JInt (dcritOf x))), (''coverage_bps'', JNum (JInt (driftCoverage x)))])) (\<lambda>cp.
      bindE (sha256Of E (JObj [(''covariance'', JArr (map intArr (mh_covariance mahalanobis))), (''center'', intArr (mh_center mahalanobis))])) (\<lambda>rc.
        Inr ((emptyReport x computedAt)
          \<lparr>dr_feature_history_commitment := history, dr_baseline_profile_commitment := Some bp, dr_covariance_profile_commitment := Some cp,
           dr_robust_covariance_commitment := Some rc, dr_mahalanobis_bps := Some (mh_score mahalanobis),
           dr_last_verified_event_at := (if truthyStr (lastVerifiedEventAt x) then lastVerifiedEventAt x else None),
           dr_days_since_last_verified_event := map_option (max 0) days, dr_sparse_mode := Some ''none'', dr_drift_score_bps := dv_score v,
           dr_drift_label := dv_label v, dr_action := dv_action v, dr_reason_codes := dv_reasons v, dr_component_scores_bps := Some scores\<rparr>))))))"

definition syntheticHistory :: "driftInput \<Rightarrow> int \<Rightarrow> (string \<times> int) list list \<Rightarrow> DriftFeatureEntry list res" where
  "syntheticHistory x now cohort =
     sequenceE (map (\<lambda>(i, components). bindE (toISOString (now - (di_observation_window_days x + int i + 1) * dayMs)) (\<lambda>t.
       Inr \<lparr>dfe_timestamp = t, dfe_components = components, dfe_verified_event = None, dfe_high_value_action = None, dfe_new_delegation_pattern = None,
            dfe_adverse_evidence = None\<rparr>)) (zip [0..<length cohort] cohort))"

text \<open>The report with a cohort in place of the missing baseline: computed from the lengthened history without the cohort, then marked.\<close>

definition cohortReport :: "env \<Rightarrow> (string \<times> int) list list \<Rightarrow> DriftReportV1 \<Rightarrow> DriftReportV1 res" where
  "cohortReport E cohort r =
     bindE (sha256Of E (JArr (map (\<lambda>c. JObj (map (\<lambda>(k, i). (k, JNum (JInt i))) c)) cohort))) (\<lambda>profile.
     bindE (sha256Of E (estimatorObj [(''sparse_mode'', JStr ''cohort_baseline'')])) (\<lambda>covariance.
       Inr (r\<lparr>dr_sparse_mode := Some ''cohort_baseline'', dr_uncertainty_widening_bps := Some 1500, dr_cohort_baseline_profile_commitment := Some profile,
              dr_reason_codes := uniqueInOrder (''COHORT_BASELINE'' # dr_reason_codes r), dr_covariance_profile_commitment := Some covariance\<rparr>)))"

definition devInputsRefused :: "env \<Rightarrow> driftInput \<Rightarrow> bool" where
  "devInputsRefused E x \<longleftrightarrow> (di_baseline_values_bps x \<noteq> None \<or> di_observation_values_bps x \<noteq> None) \<and> \<not> envFlag E ''TSL_DEV_DRIFT_INPUTS''"

definition baselineCount :: "env \<Rightarrow> driftInput \<Rightarrow> int option \<Rightarrow> int" where
  "baselineCount E x atMs = int (length (orElse (di_baseline_values_bps x) (map averageValue (baselineHistory E x atMs))))"

function computeDriftReportV0 :: "env \<Rightarrow> driftInput \<Rightarrow> DriftReportV1 res" where
  "computeDriftReportV0 E x =
     (if devInputsRefused E x then Inl ''TSL_DEV_DRIFT_INPUTS_REQUIRED''
      else bindE (case di_computed_at x of Some t \<Rightarrow> Inr t | None \<Rightarrow> toISOString (now_ms E)) (\<lambda>computedAt.
        let atMs = dateParse E computedAt in
        if baselineCount E x atMs < minPointsOf x then
          (case (di_cohort_baseline_components x, atMs) of
             (Some (c # cohort), Some now) \<Rightarrow>
               if observationHistory E x atMs = [] then Inr (insufficientReport x computedAt True)
               else bindE (syntheticHistory x now (c # cohort)) (\<lambda>synthetic.
                 bindE (computeDriftReportV0 E (x\<lparr>di_feature_history := Some (synthetic @ historyOf x), di_cohort_baseline_components := None\<rparr>))
                   (cohortReport E (c # cohort)))
           | (cohort, _) \<Rightarrow> Inr (insufficientReport x computedAt (truthyList cohort)))
        else (case atMs of
                Some now \<Rightarrow> if minPointsOf x < 1 then Inl ''NaN'' else fullReport E x computedAt now
              | None \<Rightarrow> Inl ''NaN'')))"
  by pat_completeness auto

termination
  by (relation "measure (\<lambda>(E, x). case di_cohort_baseline_components x of None \<Rightarrow> 0 | Some _ \<Rightarrow> 1)", simp, auto split: option.split, metis)

declare computeDriftReportV0.simps [simp del]

definition signDriftReportV1 :: "env \<Rightarrow> DriftReportV1 \<Rightarrow> string \<Rightarrow> DriftReportV1 res" where
  "signDriftReportV1 E d seedHex =
     bindE (driftReportV1Hash E d) (\<lambda>h. bindE (signEd25519 E (DText h) seedHex) (\<lambda>s. Inr (d\<lparr>dr_signature := s\<rparr>)))"

section \<open>What a report says\<close>

text \<open>The label, the action and the score of a report fit each other.\<close>

definition consistentReport :: "DriftReportV1 \<Rightarrow> bool" where
  "consistentReport r \<longleftrightarrow> isBps (dr_drift_score_bps r)
     \<and> dr_drift_label r \<in> {''insufficient_baseline'', ''dormant_reactivation'', ''severe'', ''high'', ''moderate'', ''stable''}
     \<and> (dr_drift_label r = ''dormant_reactivation'' \<longrightarrow> 8000 \<le> dr_drift_score_bps r \<and> dr_action r = ''step_up'')
     \<and> (dr_drift_label r = ''severe'' \<longrightarrow> 7500 \<le> dr_drift_score_bps r)
     \<and> (dr_drift_label r = ''high'' \<longrightarrow> 5000 \<le> dr_drift_score_bps r \<and> dr_action r = ''step_up'')
     \<and> (dr_drift_label r = ''moderate'' \<longrightarrow> 2500 \<le> dr_drift_score_bps r \<and> dr_drift_score_bps r < 5000 \<and> dr_action r = ''lower_confidence'')
     \<and> (dr_drift_label r = ''stable'' \<longrightarrow> dr_drift_score_bps r < 2500 \<and> dr_action r = ''none'')
     \<and> (dr_drift_label r = ''insufficient_baseline'' \<longrightarrow> dr_drift_score_bps r = 0 \<and> dr_action r = ''none'')"

lemma driftScore_range: "isBps (driftScore x dormant m scores)" "dormant \<Longrightarrow> 8000 \<le> driftScore x dormant m scores"
  unfolding driftScore_def Let_def isBps_def by (simp_all add: max_def)

lemma driftVerdict_cases:
  fixes x dormant adverse m scores
  defines "v \<equiv> driftVerdictOf x dormant adverse m scores"
  obtains "dv_label v = ''dormant_reactivation''" "8000 \<le> dv_score v" "dv_action v = ''step_up''" | "dv_label v = ''severe''" "7500 \<le> dv_score v"
  | "dv_label v = ''high''" "5000 \<le> dv_score v" "dv_action v = ''step_up''"
  | "dv_label v = ''moderate''" "2500 \<le> dv_score v" "dv_score v < 5000" "dv_action v = ''lower_confidence''"
  | "dv_label v = ''stable''" "dv_score v < 2500" "dv_action v = ''none''"
proof -
  let ?d = "driftScore x dormant m scores" let ?k = "case map_of scores ''key'' of None \<Rightarrow> False | Some k \<Rightarrow> 7500 \<le> k"
  let ?s = "(di_adverse_evidence x \<or> adverse) \<and> 7500 \<le> ?d \<or> ?k \<and> 7500 \<le> ?d"
  have score: "dv_score v = ?d" by (simp add: v_def driftVerdictOf_def Let_def)
  consider dormant | "\<not> dormant" ?s | "\<not> dormant" "\<not> ?s" "5000 \<le> ?d" | "\<not> dormant" "\<not> ?s" "2500 \<le> ?d" "?d < 5000" | "\<not> dormant" "\<not> ?s" "?d < 2500" by linarith
  then show thesis
  proof cases
    case 1
    then show thesis using that(1) driftScore_range(2) score by (simp add: v_def driftVerdictOf_def)
  next
    case 2
    then show thesis using that(2) score by (auto simp: v_def driftVerdictOf_def Let_def)
  next
    case 3
    then show thesis using that(3) score by (simp add: v_def driftVerdictOf_def Let_def)
  next
    case 4
    then show thesis using that(4) score by (simp add: v_def driftVerdictOf_def Let_def)
  next
    case 5
    then show thesis using that(5) score by (simp add: v_def driftVerdictOf_def Let_def)
  qed
qed

lemma fullReport_consistent:
  assumes "fullReport E x computedAt now = Inr r"
  shows "consistentReport r \<and> dr_sparse_mode r = Some ''none'' \<and> dr_dcrit_bps r = None \<and> dr_coverage_bps r = None"
proof -
  obtain d a m s where v: "dr_drift_score_bps r = dv_score (driftVerdictOf x d a m s)" "dr_drift_label r = dv_label (driftVerdictOf x d a m s)"
    "dr_action r = dv_action (driftVerdictOf x d a m s)" "dr_sparse_mode r = Some ''none''" "dr_dcrit_bps r = None" "dr_coverage_bps r = None"
    using assms unfolding fullReport_def Let_def bindE_eq_Inr by (elim exE conjE) (drule Inr_inject, rule that, auto simp: emptyReport_def)
  have b: "isBps (dv_score (driftVerdictOf x d a m s))" using driftScore_range(1) by (simp add: driftVerdictOf_def Let_def)
  have "consistentReport r" by (rule driftVerdict_cases [of x d a m s]) (simp_all add: consistentReport_def v(1-3) b)
  then show ?thesis using v by simp
qed

lemma insufficientReport_consistent: "consistentReport (insufficientReport x computedAt c)"
  by (simp add: consistentReport_def insufficientReport_def emptyReport_def isBps_def)

lemma cohortReport_keeps:
  assumes "cohortReport E cohort r = Inr r'"
  shows "consistentReport r' = consistentReport r" "dr_sparse_mode r' = Some ''cohort_baseline''"
proof -
  have "dr_drift_score_bps r' = dr_drift_score_bps r" "dr_drift_label r' = dr_drift_label r" "dr_action r' = dr_action r" "dr_sparse_mode r' = Some ''cohort_baseline''"
    using assms by (auto simp: cohortReport_def bindE_eq_Inr)
  then show "consistentReport r' = consistentReport r" "dr_sparse_mode r' = Some ''cohort_baseline''" by (simp_all add: consistentReport_def)
qed

lemma computeDriftReportV0_cases:
  assumes "computeDriftReportV0 E x = Inr r"
  obtains t c where "r = insufficientReport x t c"
  | t now where "fullReport E x t now = Inr r" "minPointsOf x \<le> baselineCount E x (Some now)"
  | y c r' where "computeDriftReportV0 E y = Inr r'" "di_cohort_baseline_components y = None" "cohortReport E c r' = Inr r"
  using assms
  by (subst (asm) computeDriftReportV0.simps)
    (auto simp: bindE_eq_Inr Let_def split: if_splits option.splits list.splits)

lemma computeDriftReportV0_consistent: "computeDriftReportV0 E x = Inr r \<Longrightarrow> consistentReport r"
proof -
  have base: "consistentReport r" if "computeDriftReportV0 E x = Inr r" "di_cohort_baseline_components x = None" for x r
    using that
    by (subst (asm) computeDriftReportV0.simps)
      (auto simp: bindE_eq_Inr Let_def insufficientReport_consistent dest: fullReport_consistent split: if_splits option.splits)
  assume "computeDriftReportV0 E x = Inr r"
  then show ?thesis
    by (cases rule: computeDriftReportV0_cases) (use base insufficientReport_consistent fullReport_consistent cohortReport_keeps in blast)+
qed

text \<open>
  Whatever the history, the cohort and the settings, the score of a drift report lies between \<open>0\<close> and \<open>10000\<close>, the label is one of the six, and score, label and
  action fit: a dormant reactivation scores at least 8000 and asks for a step-up, a severe drift at least 7500, a high one at least 5000, a moderate one
  between 2500 and 5000, a stable one below, and a report without a baseline claims no drift.
\<close>

theorem driftReport_consistent:
  assumes "computeDriftReportV0 E x = Inr r"
  shows "consistentReport r"
  using computeDriftReportV0_consistent [OF assms] .

text \<open>
  A report that is computed from a baseline does not record the threshold and the coverage it was computed with, even where the caller sets them.
\<close>

theorem driftReport_omits_settings:
  assumes "computeDriftReportV0 E x = Inr r" "dr_sparse_mode r = Some ''none''"
  shows "dr_dcrit_bps r = None \<and> dr_coverage_bps r = None"
  using assms(1)
proof (cases rule: computeDriftReportV0_cases)
  case (1 t c)
  then show ?thesis using assms(2) by (simp add: insufficientReport_def split: if_splits)
next
  case (2 t now)
  then show ?thesis using fullReport_consistent by blast
next
  case (3 y c r')
  then show ?thesis using cohortReport_keeps(2) [OF 3(3)] assms(2) by simp
qed

definition driftPoint :: DriftFeatureEntry where
  "driftPoint = \<lparr>dfe_timestamp = ''2025-12-01T00:00:00.000Z'', dfe_components = [(''key'', 100)], dfe_verified_event = None, dfe_high_value_action = None,
     dfe_new_delegation_pattern = None, dfe_adverse_evidence = None\<rparr>"

definition driftExample :: driftInput where
  "driftExample = \<lparr>di_subject = ''tsl:alice'', di_issuer = None, di_drift_profile_id = None, di_baseline_values_bps = None, di_observation_values_bps = None,
     di_feature_history = Some [driftPoint, driftPoint], di_baseline_window_days = 60, di_observation_window_days = 10, di_min_baseline_points = None,
     di_dormant_days = None, di_last_verified_event_at = None, di_cohort_baseline_components = None, di_high_value_action = False,
     di_new_delegation_pattern = False, di_adverse_evidence = False, di_coverage_bps = None, di_dcrit_bps = Some 5000, di_dormant_penalty_bps = None,
     di_key_penalty_bps = None, di_severe_action = None, di_component_scores_bps = None, di_computed_at = Some ''2026-01-01T00:00:00.000Z'', di_signature = None\<rparr>"

lemma driftExample_report: "\<exists>r. computeDriftReportV0 demoEnv driftExample = Inr r \<and> dr_sparse_mode r = Some ''none''"
proof -
  have now: "dateParse demoEnv ''2026-01-01T00:00:00.000Z'' = Some 1767225600000" by code_simp
  have b: "baselineCount demoEnv driftExample (Some 1767225600000) = 2" "observationHistory demoEnv driftExample (Some 1767225600000) = []" by code_simp+
  have mh: "robustMahalanobis k baseline [] = \<lparr>mh_score = 0, mh_covariance = [], mh_center = []\<rparr>" for k baseline by (simp add: robustMahalanobis_def Let_def)
  have h: "\<exists>h. sha256Of demoEnv (JArr (map (\<lambda>q. JObj (DriftFeatureEntry_obj q)) [driftPoint, driftPoint])) = Inr h"
    by (rule sha256Of_defined) (simp add: driftPoint_def DriftFeatureEntry_obj_def optField_def isSafeInteger_def)
  have bp: "\<exists>h. sha256Of demoEnv (JObj [(''baseline_window_days'', JNum (JInt 60)), (''min_baseline_points'', JNum (JInt 2))]) = Inr h"
    by (rule sha256Of_defined) (simp add: isSafeInteger_def)
  have cp: "\<exists>h. sha256Of demoEnv (estimatorObj [(''dcrit_bps'', JNum (JInt 5000)), (''coverage_bps'', JNum (JInt 10000))]) = Inr h"
    by (rule sha256Of_defined) (simp add: isSafeInteger_def estimatorObj_def)
  have rc: "\<exists>h. sha256Of demoEnv (JObj [(''covariance'', JArr []), (''center'', intArr [])]) = Inr h" by (rule sha256Of_defined) (simp add: intArr_def)
  have x: "di_computed_at driftExample = Some ''2026-01-01T00:00:00.000Z''" "minPointsOf driftExample = 2" "di_feature_history driftExample = Some [driftPoint, driftPoint]"
    "di_baseline_window_days driftExample = 60" "dcritOf driftExample = 5000" "driftCoverage driftExample = 10000" "\<not> devInputsRefused demoEnv driftExample"
    by (simp_all add: driftExample_def minPointsOf_def dcritOf_def driftCoverage_def clampBps_def devInputsRefused_def)
  have "\<exists>r. fullReport demoEnv driftExample ''2026-01-01T00:00:00.000Z'' 1767225600000 = Inr r"
    using h bp cp rc by (auto simp: fullReport_def Let_def x b mh)
  moreover have "computeDriftReportV0 demoEnv driftExample = fullReport demoEnv driftExample ''2026-01-01T00:00:00.000Z'' 1767225600000"
    by (subst computeDriftReportV0.simps) (simp add: x now b Let_def)
  ultimately show ?thesis using fullReport_consistent by metis
qed

theorem driftReport_consistent_witness: "\<exists>r. computeDriftReportV0 demoEnv driftExample = Inr r \<and> consistentReport r"
  using driftExample_report driftReport_consistent by blast

theorem driftReport_omits_settings_witness: "di_dcrit_bps driftExample = Some 5000 \<and> (\<exists>r. computeDriftReportV0 demoEnv driftExample = Inr r \<and> dr_dcrit_bps r = None)"
  using driftExample_report driftReport_omits_settings by (simp add: driftExample_def) blast

end
