(* ===== verification/VerifierGraph.thy ===== *)
theory VerifierGraph
  imports Verifier Sybil Drift
begin

text \<open>
  The verifier with the reference computations: the graph, feature vector, sybil assessment and drift report that \<^verbatim>\<open>verifyTSL\<close> (\<^verbatim>\<open>verifier.ts\<close>, lines 975 to 1128)
  recomputes from the evidence are those of \<^verbatim>\<open>v2.ts\<close>. What the theories \<open>GraphEvidence\<close>, \<open>GraphFeatures\<close>, \<open>Sybil\<close> and \<open>Drift\<close> show of them becomes a
  consequence of a positive verdict.
\<close>

section \<open>The calls of the verifier\<close>

definition evidenceOf :: "VerifyTSLInput \<Rightarrow> GraphProfileV2 \<Rightarrow> string \<Rightarrow> evidenceInput" where
  "evidenceOf inp p at_time = \<lparr>xi_events = [vi_envelope inp], xi_receipts = orElse (vi_receipts inp) [], xi_attestations = orElse (vi_attestations inp) [],
     xi_attestations_v2 = orElse (vi_attestations_v2 inp) [], xi_receipt_disputes = orElse (vi_receipt_disputes inp) [],
     xi_delegation_policies = orElse (vi_delegation_policies inp) [], xi_graph_profile = p, xi_at_time = at_time,
     xi_event_receivers = orElse (vi_event_receivers inp) [], xi_strict_negative_evidence = True\<rparr>"

definition featuresOf :: "string \<Rightarrow> GraphV0 \<Rightarrow> GraphProfileV2 \<Rightarrow> string list option \<Rightarrow> string list option \<Rightarrow> string \<Rightarrow> featureInput" where
  "featuresOf subject g p trusted adversarial computed_at = \<lparr>fi_subject = subject, fi_graph = g, fi_graph_profile_id = gpr_profile_id p, fi_graph_profile = Some p,
     fi_trusted_seeds = trusted, fi_adversarial_seeds = adversarial, fi_trusted_neighbor_scores_bps = None, fi_computed_at = Some computed_at, fi_signature = None\<rparr>"

definition sybilOf :: "string \<Rightarrow> string \<Rightarrow> GraphV0 \<Rightarrow> GraphProfileV2 \<Rightarrow> string list option \<Rightarrow> string list option \<Rightarrow> string \<Rightarrow> SybilProfile option \<Rightarrow> sybilInput" where
  "sybilOf subject issuer g p trusted adversarial computed_at profile = \<lparr>si_subject = subject, si_issuer = Some issuer, si_graph = g, si_graph_profile = p,
     si_trusted_seeds = orElse trusted [], si_adversarial_seeds = orElse adversarial [], si_sybil_profile = profile, si_evidence_commitment = None,
     si_computed_at = Some computed_at, si_signature = None\<rparr>"

definition driftOf :: "DriftReportV1 \<Rightarrow> DriftFeatureEntry list \<Rightarrow> (string \<times> int) list list option \<Rightarrow> driftInput" where
  "driftOf d history cohort = \<lparr>di_subject = dr_subject d, di_issuer = dr_issuer d, di_drift_profile_id = dr_drift_profile_id d, di_baseline_values_bps = None,
     di_observation_values_bps = None, di_feature_history = Some history, di_baseline_window_days = dr_baseline_window_days d,
     di_observation_window_days = dr_observation_window_days d, di_min_baseline_points = None, di_dormant_days = None,
     di_last_verified_event_at = dr_last_verified_event_at d, di_cohort_baseline_components = cohort, di_high_value_action = False,
     di_new_delegation_pattern = False, di_adverse_evidence = False, di_coverage_bps = dr_coverage_bps d, di_dcrit_bps = dr_dcrit_bps d,
     di_dormant_penalty_bps = dr_dormant_penalty_bps d, di_key_penalty_bps = dr_key_penalty_bps d, di_severe_action = None, di_component_scores_bps = None,
     di_computed_at = Some (dr_computed_at d), di_signature = None\<rparr>"

definition referenceGraphOps :: "host \<Rightarrow> env \<Rightarrow> GraphV0 graphOps" where
  "referenceGraphOps H E = \<lparr>
     go_construct = (\<lambda>inp resolve p at_time. constructGraphFromEvidenceV0 H E resolve (evidenceOf inp p at_time)),
     go_features = (\<lambda>subject g p trusted adversarial computed_at. computeGraphFeatureVectorV0 H E (featuresOf subject g p trusted adversarial computed_at)),
     go_sybil = (\<lambda>subject issuer g p trusted adversarial computed_at profile.
       computeSybilAssessmentV0 H E (sybilOf subject issuer g p trusted adversarial computed_at profile)),
     go_drift = (\<lambda>d history cohort. computeDriftReportV0 E (driftOf d history cohort))\<rparr>"

section \<open>A run without errors recomputes every artifact\<close>

lemma graphRecompute_error_free:
  assumes "vs_errors (graphRecomputeStep c (graphEvidenceStep c s)) = []" "vi_graph_profile (vc_input c) = Some p" "vi_graph_feature_vector (vc_input c) = Some v"
  shows "\<exists>g w. go_construct (vc_graphOps c) (vc_input c) (vc_resolver c) p (gv_computed_at v) = Inr g
     \<and> go_features (vc_graphOps c) (gv_subject v) g p (vi_trusted_seeds (vc_input c)) (vi_adversarial_seeds (vc_input c)) (gv_computed_at v) = Inr w \<and> fullGraphMatches w v"
proof -
  let ?e = "go_construct (vc_graphOps c) (vc_input c) (vc_resolver c) p (gv_computed_at v)"
  have e: "evidenceGraphOf c = Some ?e" using assms(2,3) by (simp add: evidenceGraphOf_def Let_def orFrom_def)
  show ?thesis
  proof (cases ?e)
    case (Inl m)
    then show ?thesis using assms(1) by (simp add: graphRecomputeStep_def graphEvidenceStep_def e assms(2,3) rejectIf_def push_def)
  next
    case (Inr g)
    then show ?thesis using assms
      by (cases "go_features (vc_graphOps c) (gv_subject v) g p (vi_trusted_seeds (vc_input c)) (vi_adversarial_seeds (vc_input c)) (gv_computed_at v)")
        (auto simp: graphRecomputeStep_def graphEvidenceStep_def e rejectIf_def push_def split: if_splits)
  qed
qed

lemma sybilRecompute_error_free:
  assumes "sybilRecomputeStep c s = Inr t" "vs_errors t = []" "vi_graph_profile (vc_input c) = Some p" "vi_sybil_assessment (vc_input c) = Some a"
    and "evidenceGraphOf c = Some (Inr g)"
  shows "\<exists>w. go_sybil (vc_graphOps c) (sa_subject a) (sa_issuer a) g p (vi_trusted_seeds (vc_input c)) (vi_adversarial_seeds (vc_input c)) (sa_computed_at a)
     (vi_sybil_profile (vc_input c)) = Inr w \<and> sybilMatches w a"
  using assms by (auto simp: sybilRecomputeStep_def Let_def bindE_eq_Inr split: if_splits)

lemma driftRecompute_error_free:
  assumes "driftRecomputeStep c s = Inr t" "vs_errors t = []" "vi_drift_report (vc_input c) = Some d" "vi_drift_feature_history (vc_input c) = Some history"
  shows "\<exists>w. go_drift (vc_graphOps c) d history (vi_drift_cohort_baseline_components (vc_input c)) = Inr w \<and> driftMatches w d"
  using assms by (auto simp: driftRecomputeStep_def Let_def bindE_eq_Inr split: if_splits)

text \<open>The states between the steps of the section have no errors if its last state has none.\<close>

lemma graphSection_steps:
  assumes "graphSection c s = Inr t" "vs_errors t = []" "graphScoped c"
  shows "\<exists>s5 s6 s7. vs_errors (graphRecomputeStep c (graphEvidenceStep c s5)) = []
     \<and> sybilRecomputeStep c (graphRecomputeStep c (graphEvidenceStep c s5)) = Inr s6 \<and> vs_errors s6 = [] \<and> driftRecomputeStep c s6 = Inr s7 \<and> vs_errors s7 = []"
proof -
  obtain s5 s6 s7 where s: "sybilRecomputeStep c (graphRecomputeStep c (graphEvidenceStep c s5)) = Inr s6" "driftRecomputeStep c s6 = Inr s7"
     "t = graphConclude c (graphValidationsOf c) (covarianceStep c s7)"
    using assms(1,3) unfolding graphSection_def Let_def bindE_eq_Inr by (auto simp: bindE_eq_Inr)
  have "steps {} s7 t" unfolding s(3) by (intro graph_pure_steps steps_refl)
  then have 7: "vs_errors s7 = []" using assms(2) steps_error_free by blast
  have "steps {} s6 s7" using graph_step_goes(7) [OF steps_refl, of "{}" s6 c] s(2) by (simp add: goes_def)
  then have 6: "vs_errors s6 = []" using 7 steps_error_free by blast
  have "steps {} (graphRecomputeStep c (graphEvidenceStep c s5)) s6"
    using graph_step_goes(6) [OF steps_refl, of "{}" "graphRecomputeStep c (graphEvidenceStep c s5)" c] s(1) by (simp add: goes_def)
  then have "vs_errors (graphRecomputeStep c (graphEvidenceStep c s5)) = []" using 6 steps_error_free by blast
  then show ?thesis using s 6 7 by blast
qed

text \<open>The section within an accepted run.\<close>

lemma verified_graphSection:
  assumes "verifyTSL D input policy = Inr r" "vr_verified r" "inp = fst (expandProofBundleInput input)"
  shows "\<exists>c s t. graphSection c s = Inr t \<and> vs_errors t = [] \<and> vc_input c = inp \<and> vc_graphOps c = vd_graphOps D \<and> vc_resolver c = vd_resolver D"
proof -
  obtain c t where run: "verifiedRun D input policy r c t" using verifyTSL_verifiedRun [OF assms(1,2)] by blast
  then obtain s h commitment legacy where p: "c = contextOf D (withStrictDefaults policy) inp h commitment legacy" "runSections sections c s = Inr t"
     "verdict (withStrictDefaults policy) inp t"
    unfolding verifiedRun_def Let_def assms(3) [symmetric] by (elim exE conjE) (rule that, assumption+)
  have split: "sections = [chainRevocation, keyExplanations, revocationSection, messageSection, inclusionSection, receiptsSection, attestationsSection,
     attestationsV2Section, privateFieldsSection, assessmentSection, scoringSection, metadataSection] @ graphSection # [zkSection, agentScopeSection,
     delegatedActionsSection, consistencySection, nonMembershipSection, governanceSection, auditSection, checkpointSection, checkpointMatch,
     settlementEvidenceSection, settlementBackendSection, finalGateSection, finalErrors]" by (simp add: sections_def)
  obtain s1 s2 where "graphSection c s1 = Inr s2" "vs_errors s2 = []" using run_section [OF p(2) split verdict_core(5) [OF p(3)]] by blast
  then show ?thesis by (intro exI [of _ c] exI [of _ s1] exI [of _ s2]) (simp add: p(1) contextOf_def)
qed

lemma consistentReport_cong:
  "consistentReport r \<Longrightarrow> dr_drift_score_bps r = dr_drift_score_bps d \<Longrightarrow> dr_drift_label r = dr_drift_label d \<Longrightarrow> dr_action r = dr_action d \<Longrightarrow> consistentReport d"
  by (simp add: consistentReport_def)

section \<open>Properties\<close>

text \<open>
  C14: What a positive verdict says of the disclosed graph artifacts, when the verifier uses the reference computations. If the input has a graph profile and
  a feature vector, then the graph was built from the disclosed evidence; every edge of it rests on an item of this evidence that is signed under an active key of
  its source; the vector is, field by field, the one computed from that graph, with every share between 0 and 10000 basis points; a disclosed sybil
  assessment is the one computed from the same graph; and score, label and action of a disclosed drift report with its history agree with each other.
\<close>

theorem verified_graph_artifacts:
  assumes v: "verifyTSL D input policy = Inr r" "vr_verified r" "inp = fst (expandProofBundleInput input)"
    and ops: "vd_graphOps D = referenceGraphOps H (vd_env D)" and given: "vi_graph_profile inp = Some p" "vi_graph_feature_vector inp = Some v"
  shows "\<exists>g w. constructGraphFromEvidenceV0 H (vd_env D) (vd_resolver D) (evidenceOf inp p (gv_computed_at v)) = Inr g
     \<and> (\<forall>e \<in> set (g_edges g). backed (vd_env D) (vd_resolver D) (evidenceOf inp p (gv_computed_at v)) e)
     \<and> computeGraphFeatureVectorV0 H (vd_env D) (featuresOf (gv_subject v) g p (vi_trusted_seeds inp) (vi_adversarial_seeds inp) (gv_computed_at v)) = Inr w
     \<and> fullGraphMatches w v \<and> list_all isBps (bpsFields v)
     \<and> (\<forall>a. vi_sybil_assessment inp = Some a \<longrightarrow> (\<exists>z. computeSybilAssessmentV0 H (vd_env D) (sybilOf (sa_subject a) (sa_issuer a) g p (vi_trusted_seeds inp)
            (vi_adversarial_seeds inp) (sa_computed_at a) (vi_sybil_profile inp)) = Inr z \<and> sybilMatches z a))
     \<and> (\<forall>d. vi_drift_report inp = Some d \<and> vi_drift_feature_history inp \<noteq> None \<longrightarrow> consistentReport d)"
proof -
  obtain c s t where c: "graphSection c s = Inr t" "vs_errors t = []" "vc_input c = inp" "vc_graphOps c = referenceGraphOps H (vd_env D)" "vc_resolver c = vd_resolver D"
    using verified_graphSection [OF v] ops by auto
  have "graphScoped c" using given by (simp add: graphScoped_def c(3))
  then obtain s5 s6 s7 where st: "vs_errors (graphRecomputeStep c (graphEvidenceStep c s5)) = []"
     "sybilRecomputeStep c (graphRecomputeStep c (graphEvidenceStep c s5)) = Inr s6" "vs_errors s6 = []" "driftRecomputeStep c s6 = Inr s7" "vs_errors s7 = []"
    using graphSection_steps [OF c(1,2)] by blast
  obtain g w where g: "constructGraphFromEvidenceV0 H (vd_env D) (vd_resolver D) (evidenceOf inp p (gv_computed_at v)) = Inr g"
     "computeGraphFeatureVectorV0 H (vd_env D) (featuresOf (gv_subject v) g p (vi_trusted_seeds inp) (vi_adversarial_seeds inp) (gv_computed_at v)) = Inr w" "fullGraphMatches w v"
    using graphRecompute_error_free [OF st(1), unfolded c(3), OF given] by (auto simp: c referenceGraphOps_def)
  have "evidenceGraphOf c = Some (Inr g)" using g(1) given by (simp add: evidenceGraphOf_def c referenceGraphOps_def Let_def)
  then have "\<exists>z. computeSybilAssessmentV0 H (vd_env D) (sybilOf (sa_subject a) (sa_issuer a) g p (vi_trusted_seeds inp) (vi_adversarial_seeds inp) (sa_computed_at a)
      (vi_sybil_profile inp)) = Inr z \<and> sybilMatches z a" if "vi_sybil_assessment inp = Some a" for a
    using sybilRecompute_error_free [OF st(2,3), unfolded c(3), OF given(1) that] by (auto simp: c referenceGraphOps_def)
  moreover have "consistentReport d" if d: "vi_drift_report inp = Some d" "vi_drift_feature_history inp \<noteq> None" for d
  proof -
    obtain history where h: "vi_drift_feature_history inp = Some history" using d(2) by auto
    obtain z where z: "computeDriftReportV0 (vd_env D) (driftOf d history (vi_drift_cohort_baseline_components inp)) = Inr z" "driftMatches z d"
      using driftRecompute_error_free [OF st(4,5), unfolded c(3), OF d(1) h] by (auto simp: c referenceGraphOps_def)
    have "dr_drift_score_bps z = dr_drift_score_bps d" "dr_drift_label z = dr_drift_label d" "dr_action z = dr_action d" using z(2) unfolding driftMatches_def by simp_all
    then show ?thesis by (rule consistentReport_cong [OF computeDriftReportV0_consistent [OF z(1)]])
  qed
  moreover have "bpsFields v = bpsFields w" using g(3) by (simp add: bpsFields_def fullGraphMatches_def)
  ultimately show ?thesis using g constructGraph_backed [OF g(1)] featureVector_isBps [OF g(2)] by metis
qed

section \<open>A concrete run\<close>

definition graphDeps :: "IdentityDocumentV1 \<Rightarrow> GraphV0 verifierDeps" where
  "graphDeps d = \<lparr>vd_env = demoMainnet, vd_eth = demoEth, vd_rlp = demoRlp [], vd_groth16 = demoGroth16, vd_graphOps = referenceGraphOps demoHost demoMainnet,
     vd_resolver = vd_resolver (demoDeps demoMainnet d), vd_backend = vd_backend (demoDeps demoMainnet d)\<rparr>"

text \<open>The evidence of an event alone gives a graph without edges.\<close>

lemma bare_evidence_graph:
  assumes "eventHash E (EventCommitmentV1_obj ev) = Inr h" "commitmentHashFromParts E h (ev_signature ev) = Inr c" "resolve (ev_sender ev) (Some (ev_timestamp ev)) = Inr d"
  shows "constructGraphFromEvidenceV0 H E resolve (evidenceOf (graphLogInput ev p cp gp v) q t) = Inr \<lparr>g_edges = [], g_nodes = []\<rparr>"
proof -
  obtain b c' where "hexToBytes E h = Inr b" "hexToBytes E (ev_signature ev) = Inr c'" using assms(2) by (auto simp: commitmentHashFromParts_def bindE_eq_Inr)
  moreover then have "\<exists>valid. identityHasValidSignature E resolve (ev_sender ev) (ev_signing_key_id ev) (ev_timestamp ev) h (ev_signature ev) = Inr valid"
    by (simp add: identityHasValidSignature_def verifyEd25519_def messageBytes_def Let_def assms(3)) (rule impI, rule exI [of _ False], simp)
  ultimately show ?thesis
    using assms(1) by (auto simp: constructGraphFromEvidenceV0_def evidenceOf_def graphLogInput_def sortDated_def sortCmp_def eventStep_def graphFromVerifiedEdgesV0_def uniqueInOrder_def Let_def)
qed

text \<open>The feature vector of a subject without edges.\<close>

definition emptyFeatures :: featureInput where
  "emptyFeatures = featuresOf ''tsl:alice'' \<lparr>g_edges = [], g_nodes = []\<rparr> (defaultGraphProfile ''p'') None None ''2026-01-01T00:00:00.000Z''"

lemma empty_vector:
  "\<exists>w. computeGraphFeatureVectorV0 H E emptyFeatures = Inr w \<and> gv_subject w = ''tsl:alice'' \<and> gv_computed_at w = ''2026-01-01T00:00:00.000Z''
     \<and> gv_privacy_disclosure_level w = ''aggregate_only'' \<and> gv_effective_counterparty_count_milli w = 0 \<and> gv_community_pass_count w = Some 1"
proof -
  obtain h1 h2 where "sha256Of E (JObj (GraphV0_obj (fi_graph emptyFeatures))) = Inr h1" "sha256Of E (JArr []) = Inr h2"
    using sha256Of_defined [of "JObj (GraphV0_obj (fi_graph emptyFeatures))" E] sha256Of_defined [of "JArr []" E] by (auto simp: GraphV0_obj_def emptyFeatures_def featuresOf_def)
  then obtain b where b: "vectorBasis E emptyFeatures = Inr b" "jsonSafe b" by (simp add: vectorBasis_def emptyFeatures_def featuresOf_def)
  obtain h where "sha256Of E b = Inr h" using sha256Of_defined [OF b(2)] by blast
  then show ?thesis
    using b(1) by (simp add: computeGraphFeatureVectorV0_def manifoldDistances_def emptyFeatures_def featuresOf_def defaultGraphProfile_def Let_def
        projectedNodeMasses_def projectedGraphArcs_def effectiveCountMilli_def communityResult_def normalizeCommunityAlgorithm_def)
qed

lemma list_all_map_filter: "list_all P (List.map_filter id xs) \<longleftrightarrow> list_all (pred_option P) xs"
  by (induction xs) (auto simp: map_filter_simps split: option.split)

lemma optField_safe: "list_all (\<lambda>kv. jsonSafe (snd kv)) (optField n f x) \<longleftrightarrow> pred_option (\<lambda>v. jsonSafe (f v)) x"
  by (cases x) (simp_all add: optField_def)

lemma vector_hash_defined:
  assumes "list_all isBps (bpsFields w)" "gv_effective_counterparty_count_milli w = 0" "gv_community_pass_count w = Some 1"
  shows "\<exists>h. graphFeatureVectorV1Hash E w = Inr h"
proof -
  have 1: "isBps i \<Longrightarrow> isSafeInteger i" for i by (simp add: isBps_def isSafeInteger_def)
  then have "pred_option isBps x \<Longrightarrow> pred_option isSafeInteger x" for x by (cases x) simp_all
  moreover have "pred_option (\<lambda>_. True) x" for x :: "string option" by (cases x) simp_all
  moreover have "isSafeInteger 0" "isSafeInteger 1" by (simp_all add: isSafeInteger_def)
  ultimately have "jsonSafe (JObj (GraphFeatureVectorV1_obj w))"
    using assms 1 by (simp add: GraphFeatureVectorV1_obj_def bpsFields_def list_all_map_filter optField_safe del: map_filter_simps)
  then have "jsonSafe (JObj (withoutSignature (GraphFeatureVectorV1_obj w)))" by (auto simp: withoutSignature_def withoutField_def list_all_iff)
  then show ?thesis by (simp add: graphFeatureVectorV1Hash_def hashSignedObject_def domainHash_defined)
qed

text \<open>The graph section on an input with a profile and the signed vector that is recomputed from it.\<close>

lemma graphSection_recomputed:
  assumes c: "vc_input c = graphLogInput ev p cp (Some gp) (Some v)" "vc_policy c = withStrictDefaults (logPolicy\<lparr>po_require_exact_graph_formulas := Some False\<rparr>)"
    and schema: "\<And>n x. sv_valid (schemaOf c n x)" and subject: "gv_subject v = ev_sender ev"
    and signed: "vc_resolver c (gv_subject v) (Some (gv_computed_at v)) = Inr d"
      "edSigned (vc_env c) (activeKey (vc_env c) (gv_computed_at v) d) (graphFeatureVectorV1Hash (vc_env c) v) (gv_signature v) = Inr True"
    and graph: "go_construct (vc_graphOps c) (vc_input c) (vc_resolver c) gp (gv_computed_at v) = Inr g"
      "go_features (vc_graphOps c) (gv_subject v) g gp None None (gv_computed_at v) = Inr w" "fullGraphMatches w v"
    and s: "vs_errors s = []" "ck_graph_artifacts_valid (vs_checks s) = None"
  shows "\<exists>t. graphSection c s = Inr t \<and> vs_errors t = [] \<and> vs_checks t = (vs_checks s)\<lparr>ck_graph_artifacts_valid := Some True\<rparr>"
proof -
  have po: "\<not> isOn (po_require_graph_artifacts (vc_policy c))" "\<not> isOn (po_require_exact_graph_formulas (vc_policy c))" "\<not> isOn (po_require_research_graph_algorithm (vc_policy c))"
    "\<not> isOn (po_require_seed_governance_opening (vc_policy c))" by (simp_all add: c(2) withStrictDefaults_def logPolicy_def isOn_def)
  have e: "evidenceGraphOf c = Some (Inr g)" using graph(1) by (simp add: evidenceGraphOf_def c(1) Let_def)
  have seeds: "vi_trusted_seeds (graphLogInput ev p cp x y) = None" "vi_adversarial_seeds (graphLogInput ev p cp x y) = None" for x y by (simp_all add: graphLogInput_def)
  define t where "t = onChecks (\<lambda>k. k\<lparr>ck_graph_artifacts_valid := Some True\<rparr>) s"
  have "graphScoped c" by (simp add: graphScoped_def c(1))
  moreover have "graphShapeStep c (graphValidationsOf c) s = t"
    using s schema by (simp add: graphShapeStep_def requireGraphArtifacts_def po graphValidationsOf_def c(1) optValid_def rejectIf_def t_def onChecks_def)
  moreover have "graphVectorStep c t = Inr t" using subject signed by (simp add: graphVectorStep_def c(1) po andE_def t_def onChecks_def)
  moreover have "graphAlgorithmStep c t = t" "manifoldStep c t = Inr t" "seedGovernanceStep c t = Inr t" "sybilSignatureStep c t = Inr t" "driftSignatureStep c t = Inr t"
    by (simp_all add: graphAlgorithmStep_def manifoldStep_def seedGovernanceStep_def sybilSignatureStep_def driftSignatureStep_def po c(1) Let_def)
  moreover have "graphEvidenceStep c t = t" "sybilRecomputeStep c t = Inr t" "driftRecomputeStep c t = Inr t" "covarianceStep c t = t"
    "graphConclude c (graphValidationsOf c) t = t"
    by (simp_all add: graphEvidenceStep_def e sybilRecomputeStep_def driftRecomputeStep_def covarianceStep_def graphConclude_def requireGraphArtifacts_def po c(1) pushIf_def Let_def)
  moreover have "graphRecomputeStep c t = t"
    using graph(2,3) by (simp add: graphRecomputeStep_def c(1) seeds e Let_def pushIf_def andGraph_def t_def onChecks_def)
  ultimately have "graphSection c s = Inr t" by (simp add: graphSection_def Let_def)
  then show ?thesis using s by (simp add: t_def)
qed

theorem verified_graph_artifacts_witness:
  "\<exists>d input r v g. verifyTSL (graphDeps d) input (logPolicy\<lparr>po_require_exact_graph_formulas := Some False\<rparr>) = Inr r \<and> vr_verified r
     \<and> vi_graph_feature_vector input = Some v \<and> constructGraphFromEvidenceV0 demoHost demoMainnet (vd_resolver (graphDeps d)) (evidenceOf input (defaultGraphProfile ''p'') (gv_computed_at v)) = Inr g
     \<and> list_all isBps (bpsFields v)"
proof -
  let ?E = demoMainnet let ?T = "''2026-01-01T00:00:00.000Z''" let ?gp = "defaultGraphProfile ''p''"
  obtain pk z p cp where log: "deriveEd25519PublicKey ?E demoSeed = Inr pk" "logEvidence (demoDeps ?E (demoDocument pk)) (demoSigned z) p cp"
    using demo_log_evidence by blast
  let ?ev = "demoSigned z" let ?D = "graphDeps (demoDocument pk)"
  obtain w where w: "computeGraphFeatureVectorV0 demoHost ?E emptyFeatures = Inr w" "gv_subject w = ''tsl:alice''" "gv_computed_at w = ?T"
     "gv_privacy_disclosure_level w = ''aggregate_only''" "gv_effective_counterparty_count_milli w = 0" "gv_community_pass_count w = Some 1" using empty_vector by blast
  obtain h where h: "graphFeatureVectorV1Hash ?E w = Inr h" using vector_hash_defined [OF featureVector_isBps [OF w(1)] w(5,6)] by blast
  then obtain pk' sig where sig: "deriveEd25519PublicKey ?E demoSeed = Inr pk'" "verifyEd25519 ?E pk' (DText h) sig = Inr True"
    using seed_signs_domainHash [OF demoMainnet_hyps(1) demoMainnet_facts(1,2)] unfolding graphFeatureVectorV1Hash_def hashSignedObject_def by fastforce
  let ?v = "w\<lparr>gv_signature := sig\<rparr>" let ?inp = "graphLogInput ?ev p cp (Some ?gp) (Some ?v)"
  have hv: "graphFeatureVectorV1Hash ?E ?v = Inr h"
    using h by (simp add: graphFeatureVectorV1Hash_def hashSignedObject_def withoutSignature_def withoutField_def GraphFeatureVectorV1_obj_def)
  have ev: "\<exists>h c d. eventHash ?E (EventCommitmentV1_obj ?ev) = Inr h \<and> commitmentHashFromParts ?E h (ev_signature ?ev) = Inr c"
    using log(2) unfolding logEvidence_def Let_def by (auto simp: demoDeps_def commitmentHash_def)
  have log': "logEvidence ?D ?ev p cp" using log(2) by (simp add: logEvidence_def graphDeps_def demoDeps_def)
  have graph: "constructGraphFromEvidenceV0 demoHost ?E (vd_resolver ?D) (evidenceOf ?inp ?gp ?T) = Inr \<lparr>g_edges = [], g_nodes = []\<rparr>"
    using ev bare_evidence_graph [of ?E ?ev] by (auto simp: graphDeps_def demoDeps_def)
  have match: "fullGraphMatches w ?v" by (simp add: fullGraphMatches_def)
  have sender: "ev_sender ?ev = ''tsl:alice''" by (simp add: demoSigned_def EventCommitmentUnsignedV1.defs EventCommitmentV1.defs demoEvent_def)
  have key: "edSigned ?E (activeKey ?E ?T (Some (demoDocument pk))) (graphFeatureVectorV1Hash ?E ?v) sig = Inr True"
    using demoDocument_key [of pk] sig log(1) hv by (auto simp: edSigned_True)
  have "\<exists>t. graphSection (contextOf ?D (withStrictDefaults (logPolicy\<lparr>po_require_exact_graph_formulas := Some False\<rparr>)) ?inp a b l) s = Inr t \<and> vs_errors t = []
      \<and> vs_checks t = (vs_checks s)\<lparr>ck_graph_artifacts_valid := Some True\<rparr>" if "vs_errors s = []" "ck_graph_artifacts_valid (vs_checks s) = None" for a b l s
    by (rule graphSection_recomputed [of _ ?ev p cp ?gp ?v "Some (demoDocument pk)" "\<lparr>g_edges = [], g_nodes = []\<rparr>" w])
      (use w graph match sender key that in \<open>simp_all add: contextOf_def graphDeps_def demoDeps_def referenceGraphOps_def emptyFeatures_def schemaOf_def demoMainnet_facts(3)\<close>)
  moreover have "\<not> privateGraph ?inp" using w(4) by (simp add: privateGraph_def)
  moreover have "\<not> onMainnet (vd_env ?D) \<or> list_all (\<lambda>f. \<not> envFlag (vd_env ?D) f) unsafeFlags" using demoMainnet_facts(6) by (simp add: graphDeps_def)
  ultimately obtain r where r: "verifyTSL ?D ?inp (logPolicy\<lparr>po_require_exact_graph_formulas := Some False\<rparr>) = Inr r" "vr_verified r"
    using graph_log_accepted [OF log', of "Some ?gp" "Some ?v" "Some True" "Some False"] by blast
  have "vd_graphOps ?D = referenceGraphOps demoHost (vd_env ?D)" by (simp add: graphDeps_def)
  from verified_graph_artifacts [OF r refl this, of ?gp ?v] have "list_all isBps (bpsFields ?v)" by auto
  then show ?thesis using r graph w(3) by (intro exI conjI) (assumption, assumption, simp_all)
qed

end
