(* ===== verification/Rounding.thy ===== *)
theory Rounding
  imports Numbers
begin

text \<open>
  Rounding to a double is monotone. This is what bounds on sums of weighted shares rest on: the rounded sum of numbers below integers stays below the sum of
  these integers.
\<close>

section \<open>The binary exponent\<close>

lemma floorLog2_greater:
  assumes "x \<noteq> 0"
  shows "\<bar>x\<bar> < 2 powi (floorLog2 x + 1)"
proof -
  obtain p q where pq: "quotient_of \<bar>x\<bar> = (p, q)" by fastforce
  note x = quotient_of_abs(1) [OF pq] and q = quotient_of_abs(2) [OF pq] and p = quotient_of_abs(3) [OF pq assms]
  define a b where "a = nat (bitlen p)" and "b = nat (bitlen q)"
  have "p < 2 ^ a" using bitlen_bounds [OF p] by (simp add: a_def)
  then have P: "(of_int p :: rat) < 2 ^ a" by (metis of_int_less_iff of_int_numeral of_int_power)
  have "2 ^ (b - 1) \<le> q" "0 < b" using bitlen_bounds [OF q] bitlen_eq_zero_iff [of q] bitlen_nonneg [of q] q by (auto simp: b_def nat_diff_distrib)
  then have Q: "2 ^ (b - 1) \<le> (of_int q :: rat)" by (metis of_int_le_iff of_int_numeral of_int_power)
  have k: "bitlen p - bitlen q + 1 = int a - int (b - 1)" using \<open>0 < b\<close> by (simp add: a_def b_def bitlen_nonneg of_nat_diff)
  have "\<bar>x\<bar> < 2 ^ a / 2 ^ (b - 1)" unfolding x using P Q p q by (intro frac_less) auto
  also have "\<dots> = 2 powi (bitlen p - bitlen q + 1)" unfolding k by (simp add: power_int_diff)
  finally show ?thesis by (simp add: floorLog2_def pq Let_def)
qed

lemma floorLog2_mono:
  assumes "0 < x" "x \<le> y"
  shows "floorLog2 x \<le> floorLog2 y"
proof -
  have "2 powi floorLog2 x \<le> x" using floorLog2_le [of x] assms(1) by simp
  also have "\<dots> < 2 powi (floorLog2 y + 1)" using floorLog2_greater [of y] assms by simp
  finally have less: "2 powi floorLog2 x < (2 :: rat) powi (floorLog2 y + 1)" .
  show ?thesis
  proof (rule ccontr)
    assume "\<not> floorLog2 x \<le> floorLog2 y"
    then have "(2 :: rat) powi (floorLog2 y + 1) \<le> 2 powi floorLog2 x" by (intro power_int_increasing) simp_all
    then show False using less by simp
  qed
qed

section \<open>Rounding to an integer\<close>

lemma roundHalfEven_mono:
  assumes "x \<le> y"
  shows "roundHalfEven x \<le> roundHalfEven y"
proof (cases "\<lfloor>x\<rfloor> = \<lfloor>y\<rfloor>")
  case True
  then show ?thesis using assms by (auto simp: roundHalfEven_def Let_def)
next
  case False
  then have "\<lfloor>x\<rfloor> + 1 \<le> \<lfloor>y\<rfloor>" using floor_mono [OF assms] by simp
  moreover have "roundHalfEven x \<le> \<lfloor>x\<rfloor> + 1" "\<lfloor>y\<rfloor> \<le> roundHalfEven y" by (auto simp: roundHalfEven_def Let_def)
  ultimately show ?thesis by linarith
qed

section \<open>Rounding to a double\<close>

lemma fl_between:
  assumes "0 < x"
  shows "2 powi floorLog2 x \<le> fl x" "fl x \<le> 2 powi (floorLog2 x + 1)"
proof -
  let ?e = "floorLog2 x - 52" let ?m = "roundHalfEven (x / 2 powi ?e)"
  have fl: "fl x = of_int ?m * 2 powi ?e" using assms by (simp add: fl_def Let_def)
  have pos: "(0 :: rat) < 2 powi ?e" by simp
  have lo: "of_int (2 ^ 52) \<le> x / 2 powi ?e"
    using floorLog2_le [of x] assms by (simp add: pos_le_divide_eq power_int_diff)
  have hi: "x / 2 powi ?e \<le> of_int (2 ^ 53)"
    using floorLog2_greater [of x] assms by (simp add: pos_divide_le_eq power_int_diff power_int_add)
  have "2 ^ 52 \<le> ?m" "?m \<le> 2 ^ 53" using roundHalfEven_mono [OF lo] roundHalfEven_mono [OF hi] by (simp_all only: roundHalfEven_of_int)
  then have "(of_int (2 ^ 52) :: rat) \<le> of_int ?m" "(of_int ?m :: rat) \<le> of_int (2 ^ 53)" by (simp_all only: of_int_le_iff)
  then have "of_int (2 ^ 52) * 2 powi ?e \<le> fl x" "fl x \<le> of_int (2 ^ 53) * 2 powi ?e" unfolding fl using pos by (simp_all only: mult_right_mono less_imp_le)
  then show "2 powi floorLog2 x \<le> fl x" "fl x \<le> 2 powi (floorLog2 x + 1)" by (simp_all add: power_int_diff power_int_add)
qed

lemma fl_mono_pos:
  assumes "0 < x" "x \<le> y"
  shows "fl x \<le> fl y"
proof (cases "floorLog2 x = floorLog2 y")
  case True
  let ?e = "floorLog2 y - 52"
  have "x / 2 powi ?e \<le> y / 2 powi ?e" using assms(2) by (simp add: divide_right_mono)
  then have "of_int (roundHalfEven (x / 2 powi ?e)) \<le> (of_int (roundHalfEven (y / 2 powi ?e)) :: rat)" using roundHalfEven_mono by simp
  then show ?thesis using assms True by (simp add: fl_def Let_def mult_right_mono)
next
  case False
  then have "floorLog2 x + 1 \<le> floorLog2 y" using floorLog2_mono [OF assms] by simp
  then have "(2 :: rat) powi (floorLog2 x + 1) \<le> 2 powi floorLog2 y" by (simp add: power_int_increasing)
  then show ?thesis using fl_between(2) [OF assms(1)] fl_between(1) [of y] assms by linarith
qed

lemma fl_nonneg: "0 \<le> x \<Longrightarrow> 0 \<le> fl x"
  using order_trans [OF _ fl_between(1), of 0 x] by (cases "x = 0") (simp add: fl_def, simp)

lemma fl_mono: "0 \<le> x \<Longrightarrow> x \<le> y \<Longrightarrow> fl x \<le> fl y"
  using fl_mono_pos [of x y] fl_nonneg [of y] by (cases "x = 0") (auto simp: fl_def)

text \<open>Bounds of rounded operations by integers of at most 53 bits.\<close>

lemma fl_nonpos: "x \<le> 0 \<Longrightarrow> fl x \<le> 0"
proof (cases "x = 0")
  case False
  let ?e = "floorLog2 x - 52"
  assume "x \<le> 0"
  then have "x / 2 powi ?e \<le> of_int 0" by (simp add: divide_nonpos_pos)
  then have "roundHalfEven (x / 2 powi ?e) \<le> 0" using roundHalfEven_mono roundHalfEven_of_int by metis
  then show ?thesis using False by (simp add: fl_def Let_def mult_nonpos_nonneg)
qed (simp add: fl_def)

lemma fl_le_int:
  assumes "x \<le> of_int n" "0 \<le> n" "n < 2 ^ 53"
  shows "fl x \<le> of_int n"
proof (cases "0 \<le> x")
  case True
  then have "fl x \<le> fl (of_int n)" using assms(1) by (rule fl_mono)
  then show ?thesis using assms by (simp add: fl_of_int)
next
  case False
  then show ?thesis using fl_nonpos [of x] assms(2) by (simp add: order_trans [of _ 0])
qed

lemma fl_numeral [simp]: "fl 0 = 0" "fl 1 = 1"
  using fl_of_int [of 0] fl_of_int [of 1] by simp_all

end
