(* ===== verification/Scoring.thy ===== *)
theory Scoring
  imports Rounding Demo
begin

text \<open>
  The heuristic score of \<^verbatim>\<open>src/packages/core-ts/src/scoring.ts\<close>, which the scoring provider serves: a vector of features from summaries of verified objects,
  a weighted sum of eight of them and a label.

  The numbers of the inputs are finite doubles, hence rational; ages are \<open>None\<close> where the code computes NaN from a date that does not parse. The operations
  are those of \<open>Numbers\<close>; \<open>jsRound\<close> is \<^verbatim>\<open>Math.round\<close>, which rounds ties up. The properties rest on the monotonicity of rounding (\<open>Rounding\<close>).
\<close>

section \<open>Data\<close>

record ReferenceScoreInput =
  rs_crypto_validity_bps :: "rat option"
  rs_identity_age_bps :: "rat option"
  rs_reciprocity_bps :: "rat option"
  rs_trusted_neighbor_ratio_bps :: "rat option"
  rs_receipt_quality_bps :: "rat option"
  rs_attestation_quality_bps :: "rat option"
  rs_temporal_consistency_bps :: "rat option"
  rs_local_relationship_bps :: "rat option option"

record VerifiedEventSummary =
  es_sender :: string
  es_timestamp :: string
  es_event_class :: "string option"
  es_signature_valid :: "bool option"
  es_counterparty :: "string option"

record VerifiedReceiptSummary =
  vrs_receiver :: string
  vrs_timestamp :: string
  vrs_receipt_class :: "string option"

record VerifiedAttestationSummary =
  as_issuer :: string
  as_subject :: string
  as_attestation_class :: string
  as_issued_at :: string
  as_expires_at :: "string option"
  as_issuer_quality_bps :: "rat option"

record RevocationSummary =
  rvs_revoked :: bool
  rvs_revocation_count :: rat
  rvs_latest_effective_at :: "string option"

record LocalVerifierContext =
  lc_local_relationship_bps :: "rat option"
  lc_first_seen_at :: "string option"
  lc_reciprocal_receipt_count :: "rat option"

record FeatureVectorV1 =
  fv_subject :: string
  fv_computed_at :: string
  fv_identity_age_days :: "int option"
  fv_active_key_age_days :: "int option"
  fv_signed_event_count :: int
  fv_reciprocal_receipt_count :: rat
  fv_unique_counterparty_count :: int
  fv_trusted_neighbor_ratio_bps :: int
  fv_attestation_quality_bps :: rat
  fv_temporal_consistency_bps :: rat
  fv_revocation_risk_bps :: rat
  fv_cluster_concentration_bps :: int
  fv_dormant_reactivation_bps :: int
  fv_outbound_burst_bps :: int
  fv_sybil_risk_bps :: int
  fv_issuer_quality_bps :: int
  fv_receipt_quality_bps :: int
  fv_local_relationship_bps :: "rat option"

record extractorInput =
  ex_subject :: string
  ex_identity_created_at :: "string option"
  ex_active_key_created_at :: "string option"
  ex_verifiedEvents :: "VerifiedEventSummary list"
  ex_verifiedReceipts :: "VerifiedReceiptSummary list"
  ex_attestations :: "VerifiedAttestationSummary list"
  ex_revocationState :: RevocationSummary
  ex_localContext :: "LocalVerifierContext option"

section \<open>Features\<close>

definition jsRound :: "rat \<Rightarrow> int" where
  "jsRound x = \<lfloor>x + 1 / 2\<rfloor>"

text \<open>The age in days of an optional date; the empty string counts as absent.\<close>

definition daysSince :: "env \<Rightarrow> string option \<Rightarrow> int option \<Rightarrow> int option" where
  "daysSince E created absent =
     (if truthyStr created then map_option (\<lambda>c. max 0 ((now_ms E - c) div 86400000)) (dateParse E (the created)) else absent)"

definition issuerQuality :: "VerifiedAttestationSummary list \<Rightarrow> int" where
  "issuerQuality atts = (if atts = [] then 0
     else jsRound (fdiv (foldl (\<lambda>s a. fadd s (orElse (as_issuer_quality_bps a) 5000)) 0 atts) (of_nat (length atts))))"

definition clusterConcentration :: "nat \<Rightarrow> nat \<Rightarrow> int" where
  "clusterConcentration receipts parties =
     (if receipts > 0 then jsRound (fmul (fdiv (of_int (max 0 (int receipts - int parties))) (of_nat receipts)) 10000) else 0)"

definition dormantDaysOf :: "int list \<Rightarrow> int" where
  "dormantDaysOf eventTimes = (let n = length eventTimes in if n > 1 then (eventTimes ! (n - 1) - eventTimes ! (n - 2)) div 86400000 else 0)"

definition lastHourEvents :: "int list \<Rightarrow> int" where
  "lastHourEvents eventTimes = int (length (filter (\<lambda>t. last eventTimes - t \<le> 3600000) eventTimes))"

definition burstRiskOf :: "int list \<Rightarrow> int" where
  "burstRiskOf eventTimes = min 10000 (max 0 ((lastHourEvents eventTimes - 25) * 250))"

definition dormantRiskOf :: "int list \<Rightarrow> int" where
  "dormantRiskOf eventTimes = (let d = dormantDaysOf eventTimes in if d \<ge> 90 then min 10000 (d * 50) else 0)"

definition sybilRiskOf :: "int \<Rightarrow> int \<Rightarrow> int \<Rightarrow> nat \<Rightarrow> int" where
  "sybilRiskOf concentration burst dormant parties =
     min 10000 (jsRound (fadd (fadd (fadd (fmul (of_int concentration) (fl (45 / 100))) (fmul (of_int burst) (1 / 4))) (fmul (of_int dormant) (fl (1 / 5))))
       (if parties < 3 then 1000 else 0)))"

definition temporalConsistency :: "nat \<Rightarrow> int \<Rightarrow> int \<Rightarrow> rat" where
  "temporalConsistency events burst dormant =
     max 0 (min 10000 (fsub (fsub (if events > 0 then 8000 else 5000) (of_int burst)) (fdiv (of_int dormant) 2)))"

definition referenceFeatureExtractor :: "env \<Rightarrow> extractorInput \<Rightarrow> FeatureVectorV1 res" where
  "referenceFeatureExtractor E x =
     (let age = daysSince E (ex_identity_created_at x) (Some 0);
          keyAge = daysSince E (ex_active_key_created_at x) age;
          receipts = ex_verifiedReceipts x; events = ex_verifiedEvents x;
          counterparties = remdups (map vrs_receiver receipts);
          eventCounterparties = remdups (filter (\<lambda>c. c \<noteq> []) (List.map_filter es_counterparty events));
          kept = filter (\<lambda>a. \<not> truthyStr (as_expires_at a) \<or> dateLt (Some (now_ms E)) (dateParse E (the (as_expires_at a)))) (ex_attestations x);
          eventTimes = sort (List.map_filter (\<lambda>e. dateParse E (es_timestamp e)) events);
          quality = issuerQuality kept;
          concentration = clusterConcentration (length receipts) (length counterparties);
          burst = burstRiskOf eventTimes; dormant = dormantRiskOf eventTimes; parties = length counterparties
      in bindE (toISOString (now_ms E)) (\<lambda>computed_at.
        Inr \<lparr>fv_subject = ex_subject x, fv_computed_at = computed_at, fv_identity_age_days = age, fv_active_key_age_days = keyAge,
          fv_signed_event_count = int (length events),
          fv_reciprocal_receipt_count = orElse (Option.bind (ex_localContext x) lc_reciprocal_receipt_count) (of_nat (length receipts)),
          fv_unique_counterparty_count = int (length (remdups (counterparties @ eventCounterparties))),
          fv_trusted_neighbor_ratio_bps = (if parties > 0 then min 10000 (int parties * 1000) else 0),
          fv_attestation_quality_bps = min 10000 (fadd (of_nat (length kept * 2000)) (fmul (of_int quality) (fl (1 / 5)))),
          fv_temporal_consistency_bps = temporalConsistency (length events) burst dormant,
          fv_revocation_risk_bps = (if rvs_revoked (ex_revocationState x) then 10000 else min 10000 (fmul (rvs_revocation_count (ex_revocationState x)) 2000)),
          fv_cluster_concentration_bps = concentration, fv_dormant_reactivation_bps = dormant, fv_outbound_burst_bps = burst,
          fv_sybil_risk_bps = sybilRiskOf concentration burst dormant parties, fv_issuer_quality_bps = quality,
          fv_receipt_quality_bps = min 10000 (int parties * 1200 + int (length receipts) * 200),
          fv_local_relationship_bps = Option.bind (ex_localContext x) lc_local_relationship_bps\<rparr>))"

section \<open>Score and label\<close>

definition scoreInputFromFeatureVector :: "FeatureVectorV1 \<Rightarrow> ReferenceScoreInput" where
  "scoreInputFromFeatureVector f = \<lparr>
     rs_crypto_validity_bps = Some (if fv_revocation_risk_bps f \<ge> 10000 then 0 else 10000),
     rs_identity_age_bps = map_option (\<lambda>d. of_int (min 10000 (jsRound (fmul (fdiv (of_int d) 365) 10000)))) (fv_identity_age_days f),
     rs_reciprocity_bps = Some (min 10000 (fmul (fv_reciprocal_receipt_count f) 1000)),
     rs_trusted_neighbor_ratio_bps = Some (of_int (fv_trusted_neighbor_ratio_bps f)),
     rs_receipt_quality_bps = Some (of_int (fv_receipt_quality_bps f)),
     rs_attestation_quality_bps = Some (fv_attestation_quality_bps f),
     rs_temporal_consistency_bps = Some (fv_temporal_consistency_bps f),
     rs_local_relationship_bps = Some (Some (orElse (fv_local_relationship_bps f) 0))\<rparr>"

text \<open>\<^verbatim>\<open>clampBps\<close> of \<^verbatim>\<open>scoring.ts\<close>: 0 for a value that is not finite.\<close>

definition clampNumber :: "rat option \<Rightarrow> int" where
  "clampNumber v = (case v of None \<Rightarrow> 0 | Some x \<Rightarrow> max 0 (min 10000 (jsRound x)))"

definition weighted :: "int \<Rightarrow> rat option \<Rightarrow> rat" where
  "weighted weight v = fdiv (of_int (weight * clampNumber v)) 10000"

definition referenceScoreBps :: "ReferenceScoreInput \<Rightarrow> int" where
  "referenceScoreBps x =
     (let local = orElse (rs_local_relationship_bps x) (Some 0)
      in clampNumber (Some (fadd (fadd (fadd (fadd (fadd (fadd (fadd (weighted 2000 (rs_crypto_validity_bps x)) (weighted 1500 (rs_identity_age_bps x)))
           (weighted 1500 (rs_reciprocity_bps x))) (weighted 1500 (rs_trusted_neighbor_ratio_bps x))) (weighted 1000 (rs_receipt_quality_bps x)))
           (weighted 1000 (rs_attestation_quality_bps x))) (weighted 1000 (rs_temporal_consistency_bps x))) (weighted 500 local))))"

definition labelForScore :: "rat option \<Rightarrow> string" where
  "labelForScore scoreBps =
     (let score = fdiv (of_int (clampNumber scoreBps)) 100
      in if score \<ge> 90 then ''trusted'' else if score \<ge> 75 then ''likely_trusted'' else if score \<ge> 55 then ''medium_trust''
         else if score \<ge> 35 then ''unknown_caution'' else if score \<ge> 15 then ''suspicious'' else ''high_risk'')"

section \<open>Rounding and clamping\<close>

lemma jsRound_of_int [simp]: "jsRound (of_int n) = n"
  unfolding jsRound_def by linarith

lemma jsRound_mono: "x \<le> y \<Longrightarrow> jsRound x \<le> jsRound y"
  unfolding jsRound_def by (rule floor_mono) simp

lemma clampNumber_range [simp]: "0 \<le> clampNumber v" "clampNumber v \<le> 10000"
  by (simp_all add: clampNumber_def split: option.split)

lemma clampNumber_mono: "x \<le> y \<Longrightarrow> clampNumber (Some x) \<le> clampNumber (Some y)"
  using jsRound_mono [of x y] by (simp add: clampNumber_def)

lemma clampNumber_of_int: "isBps n \<Longrightarrow> clampNumber (Some (of_int n)) = n"
  by (simp add: clampNumber_def isBps_def)

lemma clampNumber_le: "x \<le> of_int n \<Longrightarrow> isBps n \<Longrightarrow> clampNumber (Some x) \<le> n"
  using clampNumber_mono [of x "of_int n"] by (simp add: clampNumber_of_int)

text \<open>A weighted feature lies between 0 and its weight, in proportion to the bound of the feature.\<close>

lemma weighted_nonneg [simp]: "0 \<le> weight \<Longrightarrow> 0 \<le> weighted weight v"
  by (simp add: weighted_def fdiv_def fl_nonneg)

lemma weighted_mono: "clampNumber v \<le> clampNumber w \<Longrightarrow> 0 \<le> weight \<Longrightarrow> weighted weight v \<le> weighted weight w"
  unfolding weighted_def fdiv_def by (rule fl_mono) (simp_all add: divide_right_mono mult_left_mono flip: of_int_mult)

lemma weighted_le:
  assumes "clampNumber v \<le> b" "weight * b = 10000 * m" "0 \<le> weight" "0 \<le> m" "m < 2 ^ 53"
  shows "weighted weight v \<le> of_int m"
  unfolding weighted_def fdiv_def
proof (rule fl_le_int)
  have "weight * clampNumber v \<le> 10000 * m" using assms(1,3) by (simp add: mult_left_mono flip: assms(2))
  then have "(of_int (weight * clampNumber v) :: rat) \<le> of_int (10000 * m)" by (simp only: of_int_le_iff)
  then show "of_int (weight * clampNumber v) / 10000 \<le> (of_int m :: rat)" by simp
qed (use assms in simp_all)

lemma fadd_mono: "0 \<le> a \<Longrightarrow> a \<le> b \<Longrightarrow> 0 \<le> x \<Longrightarrow> x \<le> y \<Longrightarrow> fadd a x \<le> fadd b y"
  unfolding fadd_def by (rule fl_mono) simp_all

lemma fadd_nonneg [simp]: "0 \<le> a \<Longrightarrow> 0 \<le> x \<Longrightarrow> 0 \<le> fadd a x"
  by (simp add: fadd_def fl_nonneg)

lemma fadd_le: "a \<le> of_int m \<Longrightarrow> x \<le> of_int n \<Longrightarrow> 0 \<le> m + n \<Longrightarrow> m + n < 2 ^ 53 \<Longrightarrow> fadd a x \<le> of_int (m + n)"
  unfolding fadd_def by (rule fl_le_int) simp_all

text \<open>The thresholds of the labels, in basis points.\<close>

lemma fdiv_hundred:
  assumes "0 \<le> n" "0 \<le> k" "k < 2 ^ 53" "fl (of_int (100 * k - 1) / 100) < of_int k"
  shows "fdiv (of_int n) 100 \<ge> of_int k \<longleftrightarrow> n \<ge> 100 * k"
proof
  assume le: "of_int k \<le> fdiv (of_int n) 100"
  show "100 * k \<le> n"
  proof (rule ccontr)
    assume "\<not> 100 * k \<le> n"
    then have "fdiv (of_int n) 100 \<le> fl (of_int (100 * k - 1) / 100)" unfolding fdiv_def using assms(1) by (intro fl_mono divide_right_mono) simp_all
    then show False using le assms(4) by simp
  qed
next
  assume "100 * k \<le> n"
  then have "(of_int (100 * k) :: rat) \<le> of_int n" by (simp only: of_int_le_iff)
  then have "fl (of_int k) \<le> fl (of_int n / 100)" using assms(2) by (intro fl_mono) simp_all
  then show "of_int k \<le> fdiv (of_int n) 100" using assms by (simp add: fl_of_int fdiv_def)
qed

lemma fl_thresholds:
  "fl (of_int (100 * 90 - 1) / 100) < of_int 90" "fl (of_int (100 * 75 - 1) / 100) < of_int 75" "fl (of_int (100 * 55 - 1) / 100) < of_int 55"
  "fl (of_int (100 * 35 - 1) / 100) < of_int 35" "fl (of_int (100 * 15 - 1) / 100) < of_int 15"
  by code_simp+

lemma labelForScore_cases:
  "labelForScore v = (let n = clampNumber v in if n \<ge> 9000 then ''trusted'' else if n \<ge> 7500 then ''likely_trusted'' else if n \<ge> 5500 then ''medium_trust''
     else if n \<ge> 3500 then ''unknown_caution'' else if n \<ge> 1500 then ''suspicious'' else ''high_risk'')"
  using fl_thresholds [THEN fdiv_hundred [of "clampNumber v", OF clampNumber_range(1), rotated 2]] by (simp add: labelForScore_def Let_def)

section \<open>The sum\<close>

definition scoreFields :: "ReferenceScoreInput \<Rightarrow> rat option list" where
  "scoreFields x = [rs_crypto_validity_bps x, rs_identity_age_bps x, rs_reciprocity_bps x, rs_trusted_neighbor_ratio_bps x, rs_receipt_quality_bps x,
     rs_attestation_quality_bps x, rs_temporal_consistency_bps x, orElse (rs_local_relationship_bps x) (Some 0)]"

lemma referenceScoreBps_mono:
  assumes "list_all2 (\<lambda>a b. clampNumber a \<le> clampNumber b) (scoreFields x) (scoreFields y)"
  shows "referenceScoreBps x \<le> referenceScoreBps y"
  using assms unfolding referenceScoreBps_def Let_def scoreFields_def list_all2_Cons list_all2_Nil
  by (elim conjE) (intro clampNumber_mono fadd_mono weighted_mono fadd_nonneg weighted_nonneg; (assumption | simp))

lemma score_without_validity:
  assumes "rs_crypto_validity_bps x = Some 0" "clampNumber (rs_temporal_consistency_bps x) \<le> 8000"
  shows "referenceScoreBps x \<le> 7800"
proof -
  have "clampNumber (Some 0) \<le> (0 :: int)" by (simp add: clampNumber_def jsRound_def)
  then have c: "weighted 2000 (rs_crypto_validity_bps x) \<le> of_int 0" unfolding assms(1) by (rule weighted_le) simp_all
  have t: "weighted 1000 (rs_temporal_consistency_bps x) \<le> of_int 800" using assms(2) by (rule weighted_le) simp_all
  have w: "weighted 1500 v \<le> of_int 1500" "weighted 1000 v \<le> of_int 1000" "weighted 500 v \<le> of_int 500" for v by (rule weighted_le [of v 10000]; simp)+
  note fadd_le [OF fadd_le [OF fadd_le [OF fadd_le [OF fadd_le [OF fadd_le [OF fadd_le [OF c w(1)] w(1)] w(1)] w(2)] w(2)] t] w(3)]
  then show ?thesis unfolding referenceScoreBps_def Let_def by (intro clampNumber_le) (simp_all add: isBps_def)
qed

section \<open>The vector\<close>

lemma dormantRisk_nonneg [simp]: "0 \<le> dormantRiskOf ts"
  by (simp add: dormantRiskOf_def Let_def)

lemma burstRisk_nonneg [simp]: "0 \<le> burstRiskOf ts"
  by (simp add: burstRiskOf_def)

lemma temporalConsistency_le:
  assumes "0 \<le> burst" "0 \<le> dormant"
  shows "temporalConsistency events burst dormant \<le> of_int 8000"
proof -
  have "fsub (if events > 0 then 8000 else 5000) (of_int burst) \<le> of_int 8000" unfolding fsub_def using assms(1) by (intro fl_le_int) auto
  moreover have "0 \<le> fdiv (of_int dormant) 2" using assms(2) by (simp add: fdiv_def fl_nonneg)
  ultimately have "fsub (fsub (if events > 0 then 8000 else 5000) (of_int burst)) (fdiv (of_int dormant) 2) \<le> of_int 8000"
    by (subst fsub_def) (intro fl_le_int, simp_all)
  then show ?thesis by (simp add: temporalConsistency_def)
qed

section \<open>Properties\<close>


text \<open>
  The score of a revoked identity: it is at most 7800 basis points, so the label is never the highest one.
\<close>

theorem heuristicScore_revoked:
  assumes "referenceFeatureExtractor E x = Inr v" "rvs_revoked (ex_revocationState x)" "score = referenceScoreBps (scoreInputFromFeatureVector v)"
  shows "0 \<le> score \<and> score \<le> 7800 \<and> labelForScore (Some (of_int score)) \<noteq> ''trusted''"
proof -
  have "fv_revocation_risk_bps v = 10000 \<and> fv_temporal_consistency_bps v \<le> of_int 8000"
    using assms(1,2) temporalConsistency_le [OF burstRisk_nonneg dormantRisk_nonneg]
    by (auto simp: referenceFeatureExtractor_def Let_def bindE_eq_Inr simp del: of_int_numeral)
  then have "score \<le> 7800" unfolding assms(3)
    by (intro score_without_validity) (simp_all add: scoreInputFromFeatureVector_def clampNumber_le isBps_def)
  moreover have "0 \<le> score" by (simp add: assms(3) referenceScoreBps_def)
  ultimately show ?thesis by (simp add: labelForScore_cases clampNumber_of_int isBps_def Let_def)
qed

section \<open>A concrete identity\<close>

definition demoReceipts :: "VerifiedReceiptSummary list" where
  "demoReceipts = map (\<lambda>r. \<lparr>vrs_receiver = [r], vrs_timestamp = ''2026-01-01T00:00:00Z'', vrs_receipt_class = None\<rparr>) ''abcdefghij''"

definition demoExtraction :: "bool \<Rightarrow> extractorInput" where
  "demoExtraction revoked = \<lparr>ex_subject = ''tsl:alice'', ex_identity_created_at = Some ''2020-01-01T00:00:00Z'', ex_active_key_created_at = None,
     ex_verifiedEvents = [\<lparr>es_sender = ''tsl:alice'', es_timestamp = ''2026-01-01T00:00:00Z'', es_event_class = None, es_signature_valid = None, es_counterparty = None\<rparr>],
     ex_verifiedReceipts = demoReceipts,
     ex_attestations = replicate 5 \<lparr>as_issuer = ''tsl:bob'', as_subject = ''tsl:alice'', as_attestation_class = ''employment'', as_issued_at = ''2026-01-01T00:00:00Z'',
       as_expires_at = None, as_issuer_quality_bps = Some 9000\<rparr>,
     ex_revocationState = \<lparr>rvs_revoked = revoked, rvs_revocation_count = 1, rvs_latest_effective_at = None\<rparr>,
     ex_localContext = Some \<lparr>lc_local_relationship_bps = Some 10000, lc_first_seen_at = None, lc_reciprocal_receipt_count = None\<rparr>\<rparr>"

definition demoFeatures :: "bool \<Rightarrow> ReferenceScoreInput" where
  "demoFeatures revoked = \<lparr>rs_crypto_validity_bps = Some (if revoked then 0 else 10000), rs_identity_age_bps = Some 10000, rs_reciprocity_bps = Some 10000,
     rs_trusted_neighbor_ratio_bps = Some 10000, rs_receipt_quality_bps = Some 10000, rs_attestation_quality_bps = Some 10000,
     rs_temporal_consistency_bps = Some 8000, rs_local_relationship_bps = Some (Some 10000)\<rparr>"

lemma demoFeatures_score: "referenceScoreBps (demoFeatures True) = 7800"
  by code_simp

lemma demo_parts:
  "daysSince demoEnv (ex_identity_created_at (demoExtraction revoked)) (Some 0) = Some 2192"
  "sort (List.map_filter (\<lambda>e. dateParse demoEnv (es_timestamp e)) (ex_verifiedEvents (demoExtraction revoked))) = [1767225600000]"
  "length (remdups (map vrs_receiver (ex_verifiedReceipts (demoExtraction revoked)))) = 10"
  "issuerQuality (ex_attestations (demoExtraction revoked)) = 9000"
  by code_simp+

lemma demo_vector:
  "\<exists>v. referenceFeatureExtractor demoEnv (demoExtraction revoked) = Inr v
     \<and> scoreInputFromFeatureVector v = demoFeatures revoked"
proof -
  have age: "10000 \<le> jsRound (fmul (fdiv 2192 365) 10000)" by code_simp
  have n: "fmul 1 2000 = 2000" "fmul 10 1000 = 10000" "burstRiskOf [1767225600000] = 0" "dormantRiskOf [1767225600000] = 0" "temporalConsistency (Suc 0) 0 0 = 8000"
    "fadd 10000 (fmul 9000 (fl (1 / 5))) \<ge> 10000" by code_simp+
  have kept: "filter (\<lambda>a. truthyStr (as_expires_at a) \<longrightarrow> P a) (ex_attestations (demoExtraction revoked)) = ex_attestations (demoExtraction revoked)" for P
    by (simp add: demoExtraction_def truthyStr_def)
  obtain t where t: "toISOString (now_ms demoEnv) = Inr t" by (simp add: toISOString_def demoEnv_def)
  show ?thesis
    by (simp add: referenceFeatureExtractor_def Let_def t kept demo_parts)
      (simp add: demoExtraction_def demoReceipts_def scoreInputFromFeatureVector_def demoFeatures_def age n min_def orElse_def)
qed

text \<open>Nor is it kept far from the highest label: a revoked identity with a history is still \<^verbatim>\<open>likely_trusted\<close>, and the bound 7800 is attained.\<close>

lemma revoked_identity_likely_trusted:
  "\<exists>x v. rvs_revoked (ex_revocationState x) \<and> referenceFeatureExtractor demoEnv x = Inr v
     \<and> referenceScoreBps (scoreInputFromFeatureVector v) = 7800
     \<and> labelForScore (Some (of_int (referenceScoreBps (scoreInputFromFeatureVector v)))) = ''likely_trusted''"
proof -
  obtain v where "referenceFeatureExtractor demoEnv (demoExtraction True) = Inr v" "scoreInputFromFeatureVector v = demoFeatures True" using demo_vector by blast
  moreover have "rvs_revoked (ex_revocationState (demoExtraction True))" by (simp add: demoExtraction_def)
  moreover have "labelForScore (Some (of_int 7800)) = ''likely_trusted''" by code_simp
  ultimately show ?thesis using demoFeatures_score by (metis (full_types))
qed


theorem heuristicScore_revoked_witness:
  "\<exists>v. referenceFeatureExtractor demoEnv (demoExtraction True) = Inr v \<and> referenceScoreBps (scoreInputFromFeatureVector v) \<le> 7800
     \<and> labelForScore (Some (of_int (referenceScoreBps (scoreInputFromFeatureVector v)))) \<noteq> ''trusted''"
proof -
  obtain v where v: "referenceFeatureExtractor demoEnv (demoExtraction True) = Inr v" using demo_vector by blast
  have "rvs_revoked (ex_revocationState (demoExtraction True))" by (simp add: demoExtraction_def)
  then show ?thesis using heuristicScore_revoked [OF v _ refl] v by blast
qed

end
