(* ===== verification/Metadata.thy ===== *)
theory Metadata
  imports Zk Delegation
begin

text \<open>
  Metadata fingerprints (\<^verbatim>\<open>bucketizeMetadataV0\<close> and \<^verbatim>\<open>computeMetadataFingerprintCommitmentV0\<close> of \<^verbatim>\<open>src/packages/core-ts/src/v2.ts\<close>) and the builders of
  second-generation objects that no other theory holds.

  The metadata is a JSON value. HMAC-SHA-256 is a function of the package \<^verbatim>\<open>@noble/hashes\<close>: it is the argument \<open>hm\<close> (key, then message), and the only fact
  used of it is that its results have 32 bytes. A number that is not an integer is given by its decimal text; comparing it with an integer needs the
  integer part only. NaN and the infinities do not occur in JSON; the text that stands for them compares as NaN does.
\<close>

section \<open>Buckets\<close>

text \<open>The floor of a number that is not an integer; exponents are negative there, so its absolute value is below 1.\<close>

definition integerPart :: "string \<Rightarrow> int option" where
  "integerPart t = (let ds = takeWhile isDigit t in if ds = [] then None else Some (if CHR ''e'' \<in> set t then 0 else int (nat_of_string ds)))"

definition floorText :: "string \<Rightarrow> int option" where
  "floorText t = (case t of CHR ''-'' # u \<Rightarrow> map_option (\<lambda>k. - k - 1) (integerPart u) | _ \<Rightarrow> integerPart t)"

definition numLess :: "jsnum \<Rightarrow> int \<Rightarrow> bool" where
  "numLess x n = (case x of JInt i \<Rightarrow> i < n | JNegZero \<Rightarrow> 0 < n | JNonInteger t \<Rightarrow> (case floorText t of Some k \<Rightarrow> k < n | None \<Rightarrow> False))"

definition numLe :: "jsnum \<Rightarrow> int \<Rightarrow> bool" where
  "numLe x n = (case x of JInt i \<Rightarrow> i \<le> n | JNegZero \<Rightarrow> 0 \<le> n | JNonInteger t \<Rightarrow> numLess x n)"

definition fieldOf :: "jsobj \<Rightarrow> string \<Rightarrow> jsval" where
  "fieldOf r name = orElse (map_of r name) JUndefined"

text \<open>\<^verbatim>\<open>x ?? d\<close>\<close>

definition nullish :: "jsval \<Rightarrow> string \<Rightarrow> jsval" where
  "nullish v d = (if v = JUndefined \<or> v = JNull then JStr d else v)"

definition lengthBucket :: "jsnum \<Rightarrow> string" where
  "lengthBucket n = (if numLe n 256 then ''0-256'' else if numLe n 1024 then ''257-1024'' else if numLe n 4096 then ''1025-4096''
     else if numLe n 16384 then ''4097-16384'' else ''above-16384'')"

definition latencyBucket :: "jsnum \<Rightarrow> string" where
  "latencyBucket n = (if numLess n 60 then ''below-1-minute'' else if numLess n 600 then ''1-10-minutes'' else if numLess n 3600 then ''10-60-minutes''
     else if numLess n 86400 then ''1-24-hours'' else ''above-24-hours'')"

definition timeBucket :: "env \<Rightarrow> jsobj \<Rightarrow> jsval res" where
  "timeBucket E r =
     (case (case fieldOf r ''timestamp'' of JStr s \<Rightarrow> dateParse E s | _ \<Rightarrow> None) of
        Some t \<Rightarrow> bindE (toISOString (t div 3600000 * 3600000)) (\<lambda>s. Inr (JStr s))
      | None \<Rightarrow> Inr (fieldOf r ''time_bucket''))"

definition bucketizeMetadataV0 :: "env \<Rightarrow> jsval \<Rightarrow> jsobj res" where
  "bucketizeMetadataV0 E metadata =
     (let r = (case metadata of JObj kvs \<Rightarrow> kvs | _ \<Rightarrow> []) in
      bindE (timeBucket E r) (\<lambda>time. Inr
        [(''event_class'', nullish (fieldOf r ''event_class'') ''unknown''),
         (''time_bucket'', nullish time ''unknown''),
         (''length_bucket'', case fieldOf r ''content_length_bytes'' of JNum n \<Rightarrow> JStr (lengthBucket n) | _ \<Rightarrow> nullish (fieldOf r ''length_bucket'') ''unknown''),
         (''response_latency_bucket'', case fieldOf r ''response_latency_seconds'' of JNum n \<Rightarrow> JStr (latencyBucket n)
            | _ \<Rightarrow> nullish (fieldOf r ''response_latency_bucket'') ''unknown''),
         (''counterparty_class'', nullish (fieldOf r ''counterparty_class'') ''private-undisclosed''),
         (''key_lineage'', nullish (fieldOf r ''key_lineage'') ''same-key''),
         (''receipt_class'', nullish (fieldOf r ''receipt_class'') ''none'')]))"

section \<open>The commitment\<close>

record fingerprintInput =
  fp_subject :: string
  fp_metadata :: jsval
  fp_master_key_hex :: string
  fp_verifier_domain :: string
  fp_epoch :: string
  fp_purpose :: string
  fp_bucket_profile :: string
  fp_salt_hex :: string
  fp_expires_at :: string
  fp_signature :: "string option"

definition scopeMaterial :: "fingerprintInput \<Rightarrow> jsobj" where
  "scopeMaterial x = [(''verifier_domain'', JStr (fp_verifier_domain x)), (''epoch'', JStr (fp_epoch x)), (''purpose'', JStr (fp_purpose x))]"

definition disclosurePolicyOf :: "string \<Rightarrow> string" where
  "disclosurePolicyOf purpose = (if purpose = ''local_only'' then ''local_only'' else if purpose = ''public_commitment'' then ''public_commitment_only''
     else if purpose = ''provider_ephemeral'' then ''zk_only'' else ''selective'')"

definition scopeKeyInput :: "bytes \<Rightarrow> bytes" where
  "scopeKeyInput scope = concatBytes [utf8 ''tsl-fp-v1'', scope]"

definition fingerprintMessage :: "bytes \<Rightarrow> bytes" where
  "fingerprintMessage bucketed = concatBytes [utf8 ''tsl.metadata.fp.v1'', bucketed]"

definition fingerprintCommit :: "bytes \<Rightarrow> bytes \<Rightarrow> bytes" where
  "fingerprintCommit fingerprint salt = concatBytes [utf8 ''tsl.metadata.commit.v1'', fingerprint, salt]"

definition computeMetadataFingerprintCommitmentV0 :: "(bytes \<Rightarrow> bytes \<Rightarrow> bytes) \<Rightarrow> env \<Rightarrow> fingerprintInput \<Rightarrow> MetadataFingerprintCommitmentV1 res" where
  "computeMetadataFingerprintCommitmentV0 hm E x =
     bindE (canonicalBytes (JObj (scopeMaterial x))) (\<lambda>scope.
     bindE (hexToBytes E (fp_master_key_hex x)) (\<lambda>master. let scopeKey = hm master (scopeKeyInput scope) in
     bindE (bucketizeMetadataV0 E (fp_metadata x)) (\<lambda>bucketed.
     bindE (canonicalBytes (JObj bucketed)) (\<lambda>b. let fingerprint = hm scopeKey (fingerprintMessage b) in
     bindE (hexToBytes E (fp_salt_hex x)) (\<lambda>salt. Inr
       \<lparr>mf_type = ''tsl.metadata_fingerprint_commitment.v1'', mf_subject = fp_subject x, mf_scope_class = fp_purpose x,
        mf_scope_commitment = sha256Hex E (DBytes scope), mf_bucket_profile = fp_bucket_profile x,
        mf_fingerprint_commitment = sha256Hex E (DBytes (fingerprintCommit fingerprint salt)), mf_salt_commitment = Some (sha256Hex E (DBytes salt)),
        mf_created_at_bucket = jsString (fieldOf bucketed ''time_bucket''), mf_expires_at = fp_expires_at x,
        mf_disclosure_policy = disclosurePolicyOf (fp_purpose x), mf_signature = orElse (fp_signature x) ''0x00''\<rparr>)))))"

section \<open>Builders\<close>

definition buildScoringProfileV2 :: "ScoringProfileV2 \<Rightarrow> ScoringProfileV2" where
  "buildScoringProfileV2 p = p"

definition signScoringProfileV2 :: "env \<Rightarrow> ScoringProfileV2 \<Rightarrow> string \<Rightarrow> ScoringProfileV2 res" where
  "signScoringProfileV2 E p seedHex =
     bindE (scoringProfileV2Hash E p) (\<lambda>h. bindE (signEd25519 E (DText h) seedHex) (\<lambda>s. Inr (p\<lparr>sp_signature := s\<rparr>)))"

definition buildTrustAssessmentV2 :: "TrustAssessmentUnsignedV2 \<Rightarrow> TrustAssessmentUnsignedV2" where
  "buildTrustAssessmentV2 u = u"

definition SYBIL_SIMULATION_PROFILE_V1 :: string where "SYBIL_SIMULATION_PROFILE_V1 = ''tsl.sybil_simulation_profile.v1''"

definition sybilSimulationProfileV1Hash :: "env \<Rightarrow> jsobj \<Rightarrow> string res" where
  "sybilSimulationProfileV1Hash E x = hashSignedObject E SYBIL_SIMULATION_PROFILE_V1 x"

definition signaturePlaceholder :: "env \<Rightarrow> string" where
  "signaturePlaceholder E = bytesToHex E [0]"

section \<open>Binding\<close>

lemma scopeMaterial_inject:
  assumes "normKeys (JObj (scopeMaterial x)) = normKeys (JObj (scopeMaterial y))"
  shows "fp_verifier_domain x = fp_verifier_domain y \<and> fp_epoch x = fp_epoch y \<and> fp_purpose x = fp_purpose y"
  using objGet_eq [OF assms, of "''verifier_domain''"] objGet_eq [OF assms, of "''epoch''"] objGet_eq [OF assms, of "''purpose''"]
  by (simp add: scopeMaterial_def objGet_def)

text \<open>What is hashed for an input, when nothing throws: key and message of either use of HMAC and the input of the commitment.\<close>

definition scopeKeyPair :: "env \<Rightarrow> fingerprintInput \<Rightarrow> bytes \<times> bytes" where
  "scopeKeyPair E x = (projr (hexToBytes E (fp_master_key_hex x)), scopeKeyInput (projr (canonicalBytes (JObj (scopeMaterial x)))))"

definition fingerprintPair :: "(bytes \<Rightarrow> bytes \<Rightarrow> bytes) \<Rightarrow> env \<Rightarrow> fingerprintInput \<Rightarrow> bytes \<times> bytes" where
  "fingerprintPair hm E x = (case_prod hm (scopeKeyPair E x), fingerprintMessage (projr (canonicalBytes (JObj (projr (bucketizeMetadataV0 E (fp_metadata x)))))))"

definition commitInput :: "(bytes \<Rightarrow> bytes \<Rightarrow> bytes) \<Rightarrow> env \<Rightarrow> fingerprintInput \<Rightarrow> bytes" where
  "commitInput hm E x = fingerprintCommit (case_prod hm (fingerprintPair hm E x)) (projr (hexToBytes E (fp_salt_hex x)))"

definition hmac_collision :: "(bytes \<Rightarrow> bytes \<Rightarrow> bytes) \<Rightarrow> bytes \<times> bytes \<Rightarrow> bytes \<times> bytes \<Rightarrow> bool" where
  "hmac_collision hm p q \<longleftrightarrow> p \<noteq> q \<and> case_prod hm p = case_prod hm q"

lemma computeFingerprint_parts:
  assumes "computeMetadataFingerprintCommitmentV0 hm E x = Inr m"
  shows "\<exists>scope bucketed b. canonicalBytes (JObj (scopeMaterial x)) = Inr scope \<and> snd (scopeKeyPair E x) = scopeKeyInput scope
     \<and> bucketizeMetadataV0 E (fp_metadata x) = Inr bucketed \<and> canonicalBytes (JObj bucketed) = Inr b \<and> snd (fingerprintPair hm E x) = fingerprintMessage b
     \<and> mf_fingerprint_commitment m = bytesToHex E (sha256 E (commitInput hm E x))"
  using assms
  by (auto simp: computeMetadataFingerprintCommitmentV0_def bindE_eq_Inr Let_def scopeKeyPair_def fingerprintPair_def commitInput_def sha256Hex_def sha256Bytes_def encodeText_def)

lemma tagged_inject [simp]:
  "scopeKeyInput a = scopeKeyInput b \<longleftrightarrow> a = b" "fingerprintMessage a = fingerprintMessage b \<longleftrightarrow> a = b"
  "length f = length g \<Longrightarrow> fingerprintCommit f s = fingerprintCommit g t \<longleftrightarrow> f = g \<and> s = t"
  by (simp_all add: scopeKeyInput_def fingerprintMessage_def fingerprintCommit_def concatBytes_def)

section \<open>Properties\<close>

text \<open>
  C24: A metadata fingerprint is bound to its scope: if two computed commitments carry the same fingerprint commitment, then they were made for the same verifier
  domain, epoch and purpose, with the same bucketed metadata and the same salt, or the inputs of one of the two uses of HMAC or of SHA-256 are a collision. So the
  fingerprint of one tuple of metadata is no identifier across verifiers.
\<close>

theorem metadataFingerprint_scoped:
  assumes E: "hex_codec E" "\<And>k m. length (hm k m) = 32"
    and x: "computeMetadataFingerprintCommitmentV0 hm E x = Inr m" and y: "computeMetadataFingerprintCommitmentV0 hm E y = Inr n"
    and same: "mf_fingerprint_commitment m = mf_fingerprint_commitment n"
  shows "fp_verifier_domain x = fp_verifier_domain y \<and> fp_epoch x = fp_epoch y \<and> fp_purpose x = fp_purpose y
       \<and> hexToBytes E (fp_master_key_hex x) = hexToBytes E (fp_master_key_hex y) \<and> hexToBytes E (fp_salt_hex x) = hexToBytes E (fp_salt_hex y)
       \<and> (\<exists>b c. bucketizeMetadataV0 E (fp_metadata x) = Inr b \<and> bucketizeMetadataV0 E (fp_metadata y) = Inr c \<and> normKeys (JObj b) = normKeys (JObj c))
     \<or> hmac_collision hm (scopeKeyPair E x) (scopeKeyPair E y) \<or> hmac_collision hm (fingerprintPair hm E x) (fingerprintPair hm E y)
     \<or> sha256_collision E {commitInput hm E x} {commitInput hm E y}"
proof (rule ccontr)
  assume no: "\<not> ?thesis"
  then have n: "\<not> hmac_collision hm (scopeKeyPair E x) (scopeKeyPair E y)" "\<not> hmac_collision hm (fingerprintPair hm E x) (fingerprintPair hm E y)"
    "\<not> sha256_collision E {commitInput hm E x} {commitInput hm E y}" by blast+
  obtain s u b where px: "canonicalBytes (JObj (scopeMaterial x)) = Inr s" "snd (scopeKeyPair E x) = scopeKeyInput s" "bucketizeMetadataV0 E (fp_metadata x) = Inr u"
     "canonicalBytes (JObj u) = Inr b" "snd (fingerprintPair hm E x) = fingerprintMessage b" "mf_fingerprint_commitment m = bytesToHex E (sha256 E (commitInput hm E x))"
    using computeFingerprint_parts [OF x] by blast
  obtain t v c where py: "canonicalBytes (JObj (scopeMaterial y)) = Inr t" "snd (scopeKeyPair E y) = scopeKeyInput t" "bucketizeMetadataV0 E (fp_metadata y) = Inr v"
     "canonicalBytes (JObj v) = Inr c" "snd (fingerprintPair hm E y) = fingerprintMessage c" "mf_fingerprint_commitment n = bytesToHex E (sha256 E (commitInput hm E y))"
    using computeFingerprint_parts [OF y] by blast
  have "commitInput hm E x = commitInput hm E y" using same px(6) py(6) n(3) E(1) by (auto simp: bytesToHex_inject sha256_collision_def)
  then have fp: "case_prod hm (fingerprintPair hm E x) = case_prod hm (fingerprintPair hm E y)" and salt: "projr (hexToBytes E (fp_salt_hex x)) = projr (hexToBytes E (fp_salt_hex y))"
    by (simp_all add: commitInput_def E(2) split_beta)
  have p: "fingerprintPair hm E x = fingerprintPair hm E y" using n(2) fp by (auto simp: hmac_collision_def)
  have k: "scopeKeyPair E x = scopeKeyPair E y" using n(1) p by (auto simp: hmac_collision_def fingerprintPair_def)
  have "b = c" "s = t" using p k px py by (metis tagged_inject)+
  then have "normKeys (JObj (scopeMaterial x)) = normKeys (JObj (scopeMaterial y))" "normKeys (JObj u) = normKeys (JObj v)" using px py canonicalBytes_eq_iff by blast+
  moreover have "hexToBytes E (fp_master_key_hex x) = hexToBytes E (fp_master_key_hex y)" "hexToBytes E (fp_salt_hex x) = hexToBytes E (fp_salt_hex y)"
    using x y k salt by (auto simp: computeMetadataFingerprintCommitmentV0_def bindE_eq_Inr Let_def scopeKeyPair_def)
  ultimately show False using no scopeMaterial_inject px(3) py(3) by blast
qed

text \<open>
  Minimisation: exact length, latency and time enter the fingerprint only through their buckets, and fields that are not named do not enter it at all.
\<close>

theorem metadataFingerprint_minimised:
  assumes "fieldOf r ''content_length_bytes'' = JNum a" "fieldOf q ''content_length_bytes'' = JNum b" "lengthBucket a = lengthBucket b"
    and "fieldOf r ''response_latency_seconds'' = JNum c" "fieldOf q ''response_latency_seconds'' = JNum d" "latencyBucket c = latencyBucket d"
    and "fieldOf r ''timestamp'' = JStr s" "dateParse E s = Some t" "fieldOf q ''timestamp'' = JStr s'" "dateParse E s' = Some t'" "t div 3600000 = t' div 3600000"
    and "\<forall>k \<in> {''event_class'', ''counterparty_class'', ''key_lineage'', ''receipt_class''}. fieldOf r k = fieldOf q k"
  shows "computeMetadataFingerprintCommitmentV0 hm E (x\<lparr>fp_metadata := JObj r\<rparr>) = computeMetadataFingerprintCommitmentV0 hm E (x\<lparr>fp_metadata := JObj q\<rparr>)"
proof -
  have "bucketizeMetadataV0 E (JObj r) = bucketizeMetadataV0 E (JObj q)" using assms by (simp add: bucketizeMetadataV0_def timeBucket_def Let_def)
  then show ?thesis by (simp add: computeMetadataFingerprintCommitmentV0_def scopeMaterial_def)
qed

text \<open>The signature of a scoring profile verifies under the key of the seed.\<close>

theorem signScoringProfileV2_verifies:
  assumes E: "hex_codec E" "ed25519_correct E" and seed: "hexToBytes E seedHex = Inr seed" "length seed = 32" and h: "scoringProfileV2Hash E (buildScoringProfileV2 p) = Inr h"
  shows "\<exists>pk q. deriveEd25519PublicKey E seedHex = Inr pk \<and> signScoringProfileV2 E (buildScoringProfileV2 p) seedHex = Inr q \<and> verifyScoringProfileV2 E q pk = Inr True"
proof -
  obtain pk s where s: "deriveEd25519PublicKey E seedHex = Inr pk" "signEd25519 E (DText h) seedHex = Inr s" "verifyEd25519 E pk (DText h) s = Inr True"
    using seed_signs_object [OF E seed h [unfolded scoringProfileV2Hash_def]] by blast
  have "scoringProfileV2Hash E (p\<lparr>sp_signature := s\<rparr>) = scoringProfileV2Hash E p"
    by (simp add: scoringProfileV2Hash_def hashSignedObject_def withoutSignature_def withoutField_def ScoringProfileV2_obj_def)
  then show ?thesis using s h by (simp add: signScoringProfileV2_def verifyScoringProfileV2_def buildScoringProfileV2_def)
qed

section \<open>A concrete fingerprint\<close>

definition demoMetadata :: "int \<Rightarrow> jsval" where
  "demoMetadata bytes = JObj [(''event_class'', JStr ''message''), (''content_length_bytes'', JNum (JInt bytes)), (''time_bucket'', JStr ''morning'')]"

definition demoFingerprint :: "int \<Rightarrow> fingerprintInput" where
  "demoFingerprint bytes = \<lparr>fp_subject = ''tsl:alice'', fp_metadata = demoMetadata bytes, fp_master_key_hex = demoSeed, fp_verifier_domain = ''one.example'', fp_epoch = ''7'',
     fp_purpose = ''local_only'', fp_bucket_profile = ''p'', fp_salt_hex = demoSeed, fp_expires_at = ''2027-01-01T00:00:00Z'', fp_signature = None\<rparr>"

definition demoHmac :: "bytes \<Rightarrow> bytes \<Rightarrow> bytes" where
  "demoHmac k m = demoSha256 (k @ m)"

lemma demo_buckets: "bucketizeMetadataV0 demoEnv (demoMetadata 100) = bucketizeMetadataV0 demoEnv (demoMetadata 200)"
  by code_simp

lemma demo_fingerprint: "\<exists>m. computeMetadataFingerprintCommitmentV0 demoHmac demoEnv (demoFingerprint 100) = Inr m"
proof -
  obtain b where b: "bucketizeMetadataV0 demoEnv (demoMetadata 100) = Inr b" "jsonSafe (JObj b)"
    by (simp add: bucketizeMetadataV0_def demoMetadata_def timeBucket_def fieldOf_def nullish_def)
  have "jsonSafe (JObj (scopeMaterial (demoFingerprint 100)))" by (simp add: scopeMaterial_def)
  then obtain u v where "canonicalBytes (JObj (scopeMaterial (demoFingerprint 100))) = Inr u" "canonicalBytes (JObj b) = Inr v"
    using canonicalBytes_total b(2) by metis
  then show ?thesis using b(1) by (simp add: computeMetadataFingerprintCommitmentV0_def Let_def) (simp add: demoFingerprint_def demoSeed_bytes)
qed

theorem metadataFingerprint_scoped_witness:
  "\<exists>m. computeMetadataFingerprintCommitmentV0 demoHmac demoEnv (demoFingerprint 100) = Inr m \<and> computeMetadataFingerprintCommitmentV0 demoHmac demoEnv (demoFingerprint 200) = Inr m
    \<and> (normKeys (JObj (projr (bucketizeMetadataV0 demoEnv (demoMetadata 100)))) = normKeys (JObj (projr (bucketizeMetadataV0 demoEnv (demoMetadata 200))))
      \<or> hmac_collision demoHmac (scopeKeyPair demoEnv (demoFingerprint 100)) (scopeKeyPair demoEnv (demoFingerprint 200))
      \<or> hmac_collision demoHmac (fingerprintPair demoHmac demoEnv (demoFingerprint 100)) (fingerprintPair demoHmac demoEnv (demoFingerprint 200))
      \<or> sha256_collision demoEnv {commitInput demoHmac demoEnv (demoFingerprint 100)} {commitInput demoHmac demoEnv (demoFingerprint 200)})"
proof -
  obtain m where m: "computeMetadataFingerprintCommitmentV0 demoHmac demoEnv (demoFingerprint 100) = Inr m" using demo_fingerprint by blast
  have "computeMetadataFingerprintCommitmentV0 demoHmac demoEnv (demoFingerprint 200) = computeMetadataFingerprintCommitmentV0 demoHmac demoEnv (demoFingerprint 100)"
    using demo_buckets by (simp add: computeMetadataFingerprintCommitmentV0_def demoFingerprint_def scopeMaterial_def)
  then have n: "computeMetadataFingerprintCommitmentV0 demoHmac demoEnv (demoFingerprint 200) = Inr m" using m by simp
  have "length (demoHmac k b) = 32" for k b by (simp add: demoHmac_def demoSha256_def)
  from metadataFingerprint_scoped [OF hex_codec_demo this m n refl] show ?thesis using m n by (auto simp: demoFingerprint_def)
qed

end
