(* ===== verification/Signing.thy ===== *)
theory Signing
  imports NonMembership
begin

text \<open>
  Signing adapters (\<^verbatim>\<open>src/packages/core-ts/src/signing.ts\<close>): what the URI of a key selects and how it signs. Reading a file is the argument \<open>readFile\<close>, which
  returns its text or fails. The adapters for key services are placeholders that always fail, which is a property below: a production URI never falls back to
  a seed.
\<close>

section \<open>Splitting strings\<close>

text \<open>\<^verbatim>\<open>s.split(c)\<close> for a separator of one character.\<close>

fun splitOn :: "char \<Rightarrow> string \<Rightarrow> string list" where
  "splitOn c [] = [[]]"
| "splitOn c (x # xs) = (if x = c then [] # splitOn c xs else (case splitOn c xs of [] \<Rightarrow> [[x]] | p # ps \<Rightarrow> (x # p) # ps))"

lemma splitOn_nonempty [simp]: "splitOn c s \<noteq> []"
  by (induction s) (auto split: list.split)

lemma splitOn_join: "concat (map (\<lambda>p. p @ [c]) (splitOn c s)) = s @ [c]"
proof (induction s)
  case (Cons x xs)
  then show ?case by (cases "splitOn c xs") (auto split: list.split_asm)
qed simp

lemma splitOn_plain: "p \<in> set (splitOn c s) \<Longrightarrow> c \<notin> set p"
proof (induction s arbitrary: p)
  case (Cons x xs)
  then show ?case by (cases "splitOn c xs") (auto split: if_split_asm)
qed simp

section \<open>Adapters\<close>

datatype SigningAdapter =
    EnvSigningAdapter string
  | FileSigningAdapter string
  | FailClosedKmsSigningAdapter string string string
  | FailClosedHsmSigningAdapter string string

text \<open>\<^verbatim>\<open>const [, provider = "aws-kms", keyId = ""] = key_uri.split(":", 3)\<close>\<close>

definition newKmsAdapter :: "string \<Rightarrow> SigningAdapter" where
  "newKmsAdapter uri =
     (let parts = take 3 (splitOn (CHR '':'') uri); provider = (if length parts > 1 then parts ! 1 else ''aws-kms''); keyId = (if length parts > 2 then parts ! 2 else [])
      in FailClosedKmsSigningAdapter uri (if provider = ''gcp-kms'' \<or> provider = ''azure-keyvault'' then provider else ''aws-kms'') keyId)"

definition createSigningAdapter :: "string \<Rightarrow> SigningAdapter res" where
  "createSigningAdapter uri =
     (if startsWith uri ''env:'' then Inr (EnvSigningAdapter (drop 4 uri))
      else if startsWith uri ''file:'' then Inr (FileSigningAdapter (drop 5 uri))
      else if startsWith uri ''kms:'' then Inr (newKmsAdapter uri)
      else if startsWith uri ''hsm:'' then Inr (FailClosedHsmSigningAdapter uri (drop 4 uri))
      else Inl (''Unsupported signing adapter URI: '' @ uri))"

definition createDevSigningAdapter :: "string \<Rightarrow> SigningAdapter res" where
  "createDevSigningAdapter uri = createSigningAdapter uri"

fun keyUri :: "SigningAdapter \<Rightarrow> string" where
  "keyUri (EnvSigningAdapter v) = ''env:'' @ v"
| "keyUri (FileSigningAdapter p) = ''file:'' @ p"
| "keyUri (FailClosedKmsSigningAdapter uri _ _) = uri"
| "keyUri (FailClosedHsmSigningAdapter uri _) = uri"

fun adapterSign :: "env \<Rightarrow> (string \<Rightarrow> string res) \<Rightarrow> SigningAdapter \<Rightarrow> data \<Rightarrow> string res" where
  "adapterSign E readFile (EnvSigningAdapter v) m =
     (if truthyStr (getenv E v) then signEd25519 E m (the (getenv E v)) else Inl (''Missing signing seed env var '' @ v))"
| "adapterSign E readFile (FileSigningAdapter p) m = bindE (readFile p) (\<lambda>text. signEd25519 E m (trimStr text))"
| "adapterSign E readFile (FailClosedKmsSigningAdapter uri _ _) m =
     Inl (''TSL_SIGNING_ADAPTER_UNAVAILABLE: '' @ uri @ '' is configured but no production KMS implementation is installed'')"
| "adapterSign E readFile (FailClosedHsmSigningAdapter uri _) m =
     Inl (''TSL_SIGNING_ADAPTER_UNAVAILABLE: '' @ uri @ '' is configured but no HSM implementation is installed'')"

section \<open>Properties\<close>

lemma startsWith_split: "startsWith s p \<Longrightarrow> p @ drop (length p) s = s"
  unfolding startsWith_def by (metis append_take_drop_id)

text \<open>
  An adapter has the URI it was made from; it signs only with the seed that the URI names, from the environment or from a file; and a URI of a key service or of a
  hardware module never yields a signature.
\<close>

theorem signingAdapter_uri:
  assumes "createSigningAdapter uri = Inr a"
  shows "keyUri a = uri
     \<and> (adapterSign E readFile a m = Inr s \<longrightarrow> \<not> startsWith uri ''kms:'' \<and> \<not> startsWith uri ''hsm:''
         \<and> (\<exists>seed. signEd25519 E m seed = Inr s \<and> ((\<exists>v. uri = ''env:'' @ v \<and> getenv E v = Some seed) \<or> (\<exists>p text. uri = ''file:'' @ p \<and> readFile p = Inr text \<and> seed = trimStr text))))"
proof -
  have "uri = ''env:'' @ drop 4 uri" if "startsWith uri ''env:''" using startsWith_split [OF that] by (simp add: numeral_eq_Suc)
  moreover have "uri = ''file:'' @ drop 5 uri" if "startsWith uri ''file:''" using startsWith_split [OF that] by (simp add: numeral_eq_Suc)
  ultimately have "(\<exists>v. uri = ''env:'' @ v \<and> a = EnvSigningAdapter v) \<or> (\<exists>p. uri = ''file:'' @ p \<and> a = FileSigningAdapter p)
     \<or> keyUri a = uri \<and> adapterSign E readFile a m \<noteq> Inr s"
    using assms by (auto simp: createSigningAdapter_def newKmsAdapter_def Let_def simp del: append_Cons split: if_split_asm)
  then show ?thesis by (auto simp: truthyStr_def startsWith_def bindE_eq_Inr split: option.split_asm if_split_asm)
qed

text \<open>A key id with a colon, as the names of AWS keys have, is cut at the colon.\<close>

lemma kms_key_id_cut:
  "createSigningAdapter ''kms:aws-kms:arn:aws:kms:eu-west-1:111122223333:key/k'' =
     Inr (FailClosedKmsSigningAdapter ''kms:aws-kms:arn:aws:kms:eu-west-1:111122223333:key/k'' ''aws-kms'' ''arn'')"
  by code_simp

end
