(* ===== verification/Gossip.thy ===== *)
theory Gossip
  imports Signing
begin

text \<open>
  Addresses of gossip peers (\<^verbatim>\<open>src/services/shared/gossip-peers.ts\<close>), which the auditor and the log service contact on request.

  The parser of URLs and \<^verbatim>\<open>isIP\<close> are functions of the platform: fields of \<open>net\<close>. A URL is the record of the parts that the code reads. An error is its code.
\<close>

section \<open>Data\<close>

record url =
  u_protocol :: string
  u_username :: string
  u_password :: string
  u_search :: string
  u_hash :: string
  u_hostname :: string
  u_origin :: string

record net =
  n_parseUrl :: "string \<Rightarrow> url option"
  n_isIP :: "string \<Rightarrow> int"

definition allowPrivateGossipPeers :: "env \<Rightarrow> bool" where
  "allowPrivateGossipPeers E \<longleftrightarrow> envFlag E ''TSL_ALLOW_PRIVATE_GOSSIP_PEERS''"

section \<open>Private hosts\<close>

text \<open>\<^verbatim>\<open>hostname.replace(/^\[|\]$/g, "").toLowerCase()\<close>\<close>

definition bareHost :: "string \<Rightarrow> string" where
  "bareHost h = toLowerCase
     (let s = (if h \<noteq> [] \<and> hd h = CHR ''['' then tl h else h) in if s \<noteq> [] \<and> last s = CHR '']'' then butlast s else s)"

definition privateIPv4 :: "nat \<Rightarrow> nat \<Rightarrow> bool" where
  "privateIPv4 a b \<longleftrightarrow> a = 0 \<or> a = 10 \<or> a = 127 \<or> (a = 100 \<and> b \<ge> 64 \<and> b \<le> 127) \<or> (a = 169 \<and> b = 254) \<or> (a = 172 \<and> b \<ge> 16 \<and> b \<le> 31)
     \<or> (a = 192 \<and> b = 168) \<or> a \<ge> 224"

definition privateIPv6 :: "string \<Rightarrow> bool" where
  "privateIPv6 host \<longleftrightarrow> host = ''::1'' \<or> host = ''::'' \<or> startsWith host ''::ffff:'' \<or> startsWith host ''fc'' \<or> startsWith host ''fd'' \<or> startsWith host ''fe80:''"

definition privateOrLocalHost :: "net \<Rightarrow> string \<Rightarrow> bool" where
  "privateOrLocalHost H hostname =
     (let host = bareHost hostname in
      if host = ''localhost'' \<or> endsWith host ''.localhost'' then True
      else if n_isIP H host = 4 then (let octets = map nat_of_string (splitOn (CHR ''.'') host) in privateIPv4 (octets ! 0) (octets ! 1))
      else if n_isIP H host = 6 then privateIPv6 host
      else False)"

section \<open>Peers\<close>

text \<open>The address comes from a request: it may be any value.\<close>

definition normalizeGossipPeerUrl :: "net \<Rightarrow> bool \<Rightarrow> jsval \<Rightarrow> string res" where
  "normalizeGossipPeerUrl H allowPrivateHosts peerUrl =
     (case peerUrl of
        JStr s \<Rightarrow>
          (case n_parseUrl H s of
             None \<Rightarrow> Inl ''TSL_GOSSIP_PEER_URL_INVALID''
           | Some u \<Rightarrow>
               if u_protocol u \<notin> {''http:'', ''https:''} then Inl ''TSL_GOSSIP_PEER_URL_INVALID''
               else if u_username u \<noteq> [] \<or> u_password u \<noteq> [] \<or> u_search u \<noteq> [] \<or> u_hash u \<noteq> [] then Inl ''TSL_GOSSIP_PEER_URL_INVALID''
               else if \<not> allowPrivateHosts \<and> privateOrLocalHost H (u_hostname u) then Inl ''TSL_GOSSIP_PEER_URL_INVALID''
               else Inr (u_origin u))
      | _ \<Rightarrow> Inl ''TSL_GOSSIP_PEER_URL_INVALID'')"

definition normalizePeers :: "env \<Rightarrow> net \<Rightarrow> string list \<Rightarrow> string list res" where
  "normalizePeers E H peers = sequenceE (map (\<lambda>p. normalizeGossipPeerUrl H (allowPrivateGossipPeers E) (JStr p)) peers)"

definition initialGossipPeers :: "env \<Rightarrow> net \<Rightarrow> string list res" where
  "initialGossipPeers E H =
     bindE (normalizePeers E H (filter (\<lambda>p. p \<noteq> []) (map trimStr (splitOn (CHR '','') (orElse (getenv E ''TSL_GOSSIP_PEERS'') []))))) (\<lambda>ps. Inr (uniqueInOrder ps))"

definition listNormalizedGossipPeers :: "env \<Rightarrow> net \<Rightarrow> string list \<Rightarrow> string list res" where
  "listNormalizedGossipPeers E H peers = bindE (normalizePeers E H peers) (\<lambda>ps. Inr (uniqueInOrder ps))"

definition selectKnownGossipPeers :: "env \<Rightarrow> net \<Rightarrow> jsval \<Rightarrow> string list \<Rightarrow> string list res" where
  "selectKnownGossipPeers E H peerUrl knownPeers =
     bindE (listNormalizedGossipPeers E H knownPeers) (\<lambda>known.
       if peerUrl \<in> {JUndefined, JNull, JStr []} then Inr known
       else bindE (normalizeGossipPeerUrl H (allowPrivateGossipPeers E) peerUrl) (\<lambda>requested.
              if requested \<in> set known \<and> requested \<noteq> [] then Inr [requested] else Inl ''TSL_GOSSIP_PEER_NOT_REGISTERED''))"

definition registerRequestedGossipPeer :: "env \<Rightarrow> net \<Rightarrow> jsval \<Rightarrow> string res" where
  "registerRequestedGossipPeer E H peerUrl =
     (if \<not> envFlag E ''TSL_ALLOW_DYNAMIC_GOSSIP_PEERS'' then Inl ''TSL_GOSSIP_DYNAMIC_PEERS_DISABLED''
      else normalizeGossipPeerUrl H (allowPrivateGossipPeers E) peerUrl)"

text \<open>The address that is fetched: origin and path.\<close>

definition buildGossipUrl :: "env \<Rightarrow> net \<Rightarrow> string \<Rightarrow> string \<Rightarrow> (string \<times> string) res" where
  "buildGossipUrl E H peerUrl pathname =
     bindE (normalizeGossipPeerUrl H (allowPrivateGossipPeers E) (JStr peerUrl)) (\<lambda>o'.
       case n_parseUrl H o' of
         None \<Rightarrow> Inl ''Invalid URL''
       | Some u \<Rightarrow> Inr (u_origin u, if startsWith pathname ''/'' then pathname else CHR ''/'' # pathname))"

section \<open>What is accepted\<close>

definition peerOk :: "env \<Rightarrow> net \<Rightarrow> string \<Rightarrow> string \<Rightarrow> bool" where
  "peerOk E H peer origin \<longleftrightarrow> (\<exists>u. n_parseUrl H peer = Some u \<and> u_origin u = origin \<and> u_protocol u \<in> {''http:'', ''https:''} \<and> u_username u = [] \<and> u_password u = []
     \<and> (allowPrivateGossipPeers E \<or> \<not> privateOrLocalHost H (u_hostname u)))"

lemma normalize_ok: "normalizeGossipPeerUrl H (allowPrivateGossipPeers E) v = Inr o' \<Longrightarrow> \<exists>s. v = JStr s \<and> peerOk E H s o'"
  by (cases v) (auto simp: normalizeGossipPeerUrl_def peerOk_def split: option.split_asm if_split_asm)

lemma listNormalized_ok:
  assumes "listNormalizedGossipPeers E H peers = Inr ps" "p \<in> set ps"
  shows "\<exists>peer \<in> set peers. peerOk E H peer p"
proof -
  obtain qs where qs: "map (\<lambda>p. normalizeGossipPeerUrl H (allowPrivateGossipPeers E) (JStr p)) peers = map Inr qs" "p \<in> set qs"
    using assms by (auto simp: listNormalizedGossipPeers_def normalizePeers_def bindE_eq_Inr sequenceE_eq_Inr)
  then obtain i where i: "i < length qs" "qs ! i = p" by (auto simp: in_set_conv_nth)
  have len: "length qs = length peers" using arg_cong [OF qs(1), of length] by simp
  then have "normalizeGossipPeerUrl H (allowPrivateGossipPeers E) (JStr (peers ! i)) = Inr p" using arg_cong [OF qs(1), of "\<lambda>xs. xs ! i"] i by simp
  then show ?thesis using normalize_ok i len by (metis nth_mem jsval.inject(3))
qed

lemma selectKnown_ok:
  assumes "selectKnownGossipPeers E H peerUrl known = Inr ps" "p \<in> set ps"
  shows "\<exists>peer \<in> set known. peerOk E H peer p"
  using assms listNormalized_ok by (fastforce simp: selectKnownGossipPeers_def bindE_eq_Inr split: if_split_asm)

text \<open>Two kinds of local addresses that are not recognised: a name with the final dot of the root zone, and link-local addresses other than \<^verbatim>\<open>fe80:\<close>.\<close>

lemma local_hosts_accepted:
  "n_isIP H ''localhost.'' = 0 \<Longrightarrow> \<not> privateOrLocalHost H ''localhost.''" "n_isIP H ''fe90::1'' = 6 \<Longrightarrow> \<not> privateOrLocalHost H ''[fe90::1]''"
proof -
  have "bareHost ''localhost.'' = ''localhost.''" "bareHost ''[fe90::1]'' = ''fe90::1''" by code_simp+
  then show "n_isIP H ''localhost.'' = 0 \<Longrightarrow> \<not> privateOrLocalHost H ''localhost.''" "n_isIP H ''fe90::1'' = 6 \<Longrightarrow> \<not> privateOrLocalHost H ''[fe90::1]''"
    by (simp_all add: privateOrLocalHost_def endsWith_def privateIPv6_def startsWith_def)
qed

end
