(* ===== verification/RelayNode.thy ===== *)
theory RelayNode
  imports Relay
begin

text \<open>
  The relay service (\<^verbatim>\<open>src/services/relay-node/src/index.ts\<close>): the rate limiter and the handlers of its HTTP routes, over the store of \<open>RelayStore\<close>.

  The configuration is the one without a database and without a queue (\<^verbatim>\<open>repo\<close> and \<^verbatim>\<open>queue\<close> are null). A handler takes the node and the cast
  body of the request and returns the reply and the new node: a handler that fails after it has changed the store keeps the change. \<open>Rejected\<close> carries the
  status and the code of an error; its message and details are left out. The calls of the settlement registry are functions of \<open>registryCalls\<close>, each present or
  absent as in the code.
\<close>

section \<open>The rate limiter\<close>

record rateBucket =
  rb_count :: int
  rb_resetAt :: int

definition rateCheck :: "(string \<times> rateBucket) list \<Rightarrow> int \<Rightarrow> string \<Rightarrow> int \<Rightarrow> int \<Rightarrow> bool \<times> (string \<times> rateBucket) list" where
  "rateCheck buckets now key limit windowMs =
     (case map_of buckets key of
        None \<Rightarrow> (True, mapSet buckets key \<lparr>rb_count = 1, rb_resetAt = now + windowMs\<rparr>)
      | Some b \<Rightarrow>
          if rb_resetAt b \<le> now then (True, mapSet buckets key \<lparr>rb_count = 1, rb_resetAt = now + windowMs\<rparr>)
          else (rb_count b + 1 \<le> limit, mapSet buckets key (b\<lparr>rb_count := rb_count b + 1\<rparr>)))"

section \<open>State and replies\<close>

record relayNode =
  rn_store :: InMemoryRelayStore
  rn_buckets :: "(string \<times> rateBucket) list"
  rn_appealRecords :: "jsobj list"
  rn_evidenceRecords :: "jsobj list"

record registryCalls =
  rg_registerIdentity :: "(IdentityDocumentV1 \<Rightarrow> string res) option"
  rg_recordRevocation :: "(RevocationV1 \<Rightarrow> int \<Rightarrow> int option \<Rightarrow> string option \<Rightarrow> unit res) option"
  rg_revokeIdentityKey :: "(string \<Rightarrow> string \<Rightarrow> int \<Rightarrow> unit res) option"
  rg_rotateIdentityKey :: "(string \<Rightarrow> string \<Rightarrow> string \<Rightarrow> unit res) option"

datatype nodeReply = Sent jsval | Rejected int string

text \<open>The codes that are thrown as \<^verbatim>\<open>RelayValidationError\<close>.\<close>

definition relayCodes :: "string list" where
  "relayCodes = [''TSL_SCHEMA_INVALID'', ''TSL_TIMESTAMP_INVALID'', ''TSL_TIMESTAMP_OUT_OF_WINDOW'', ''TSL_NONCE_REPLAY'', ''TSL_SIGNATURE_INVALID'',
     ''TSL_LOG_SEGMENT_CLOSED'', ''TSL_SETTLEMENT_BACKEND_MISSING'', ''TSL_CHECKPOINT_CONFLICT'', ''TSL_RATE_LIMITED'', ''TSL_KEY_NOT_FOUND'',
     ''TSL_KEY_INACTIVE'', ''TSL_EVENT_NOT_FOUND'', ''TSL_RECEIPT_SIGNATURE_INVALID'', ''TSL_ATTESTATION_EXPIRED'', ''TSL_ATTESTATION_SIGNATURE_INVALID'',
     ''TSL_REVOCATION_SIGNATURE_INVALID'', ''TSL_ASSESSMENT_EVIDENCE_INCOMPLETE'', ''TSL_ASSESSMENT_SIGNATURE_INVALID'']"

definition sendRelayError :: "string \<Rightarrow> nodeReply" where
  "sendRelayError e = (if e \<in> set relayCodes then Rejected 422 e else Rejected 400 ''TSL_REQUEST_INVALID'')"

text \<open>The reply of a handler whose \<^verbatim>\<open>try\<close> block gives a result or throws.\<close>

definition answer :: "jsval res \<Rightarrow> nodeReply" where
  "answer r = (case r of Inr v \<Rightarrow> Sent v | Inl e \<Rightarrow> sendRelayError e)"

definition checkRate :: "env \<Rightarrow> relayNode \<Rightarrow> string \<Rightarrow> string \<Rightarrow> int \<Rightarrow> int \<Rightarrow> bool \<times> relayNode" where
  "checkRate E N ip action limit windowMs =
     (let (ok, buckets) = rateCheck (rn_buckets N) (now_ms E) (action @ '':'' @ ip) limit windowMs in (ok, N\<lparr>rn_buckets := buckets\<rparr>))"

text \<open>A handler that checks the rate inside its \<^verbatim>\<open>try\<close> block; the window is an hour by default.\<close>

definition rated :: "env \<Rightarrow> relayNode \<Rightarrow> string \<Rightarrow> string \<Rightarrow> int \<Rightarrow> int \<Rightarrow> (relayNode \<Rightarrow> nodeReply \<times> relayNode) \<Rightarrow> nodeReply \<times> relayNode" where
  "rated E N ip action limit windowMs body =
     (let (ok, M) = checkRate E N ip action limit windowMs in if ok then body M else (sendRelayError ''TSL_RATE_LIMITED'', M))"

definition hour :: int where "hour = 60 * 60 * 1000"

section \<open>Guards\<close>

definition assertTimestampInWindow :: "env \<Rightarrow> InMemoryRelayStore \<Rightarrow> string \<Rightarrow> unit res" where
  "assertTimestampInWindow E S timestamp =
     (case dateParse E timestamp of
        None \<Rightarrow> Inl ''TSL_TIMESTAMP_INVALID''
      | Some parsed \<Rightarrow> if \<bar>now_ms E - parsed\<bar> > rs_timestamp_window_ms S then Inl ''TSL_TIMESTAMP_OUT_OF_WINDOW'' else Inr ())"

definition assertSignedByIdentity :: "env \<Rightarrow> resolver \<Rightarrow> string \<Rightarrow> string \<Rightarrow> string \<Rightarrow> string \<Rightarrow> string \<Rightarrow> string \<Rightarrow> unit res" where
  "assertSignedByIdentity E resolve trustId signingKeyId timestamp hash signature code =
     bindE (resolve trustId (Some timestamp)) (\<lambda>identity.
       case Option.bind identity (\<lambda>d. findVerificationMethod d signingKeyId) of
         None \<Rightarrow> Inl ''TSL_KEY_NOT_FOUND''
       | Some key \<Rightarrow>
           if \<not> keyActiveAt E (Some key) timestamp then Inl ''TSL_KEY_INACTIVE''
           else if vm_type key \<noteq> ''ed25519'' then Inl code
           else bindE (verifyEd25519 E (vm_public_key key) (DText hash) signature) (\<lambda>ok. if ok then Inr () else Inl code))"

definition firstActiveKey :: "env \<Rightarrow> IdentityDocumentV1 \<Rightarrow> string \<Rightarrow> VerificationMethodV1 option" where
  "firstActiveKey E d timestamp = find (\<lambda>m. keyActiveAt E (Some m) timestamp) (idd_verification_methods d)"

text \<open>\<^verbatim>\<open>!key || key.type !== "ed25519" || !verifyEd25519(...)\<close> throws the code.\<close>

definition assertKeySigned :: "env \<Rightarrow> VerificationMethodV1 option \<Rightarrow> string res \<Rightarrow> string \<Rightarrow> string \<Rightarrow> unit res" where
  "assertKeySigned E key hashed signature code =
     (case key of
        None \<Rightarrow> Inl code
      | Some k \<Rightarrow> if vm_type k \<noteq> ''ed25519'' then Inl code
                  else bindE hashed (\<lambda>hash. bindE (verifyEd25519 E (vm_public_key k) (DText hash) signature) (\<lambda>ok. if ok then Inr () else Inl code)))"

definition storeResolver :: "relayNode \<Rightarrow> resolver" where
  "storeResolver N = memoryResolverFn (rs_resolver (rn_store N))"

section \<open>Identities\<close>

definition postIdentity :: "env \<Rightarrow> registryCalls \<Rightarrow> relayNode \<Rightarrow> string \<Rightarrow> IdentityDocumentV1 \<Rightarrow> nodeReply \<times> relayNode" where
  "postIdentity E G N ip identity = rated E N ip ''identity_create'' 100 hour (\<lambda>M.
     case relayUpsertIdentity E (rn_store M) identity of
       Inl e \<Rightarrow> (sendRelayError e, M)
     | Inr S \<Rightarrow>
         (answer (bindE (case rg_registerIdentity G of None \<Rightarrow> Inr [] | Some register \<Rightarrow> register identity) (\<lambda>tx.
            Inr (JObj ([(''trust_id'', JStr (idd_id identity)), (''registry_status'', JStr (if tx \<noteq> [] then ''registered'' else ''local_only''))]
              @ (if tx \<noteq> [] then [(''registry_tx'', JStr tx)] else []))))),
          M\<lparr>rn_store := S\<rparr>))"

definition getIdentity :: "relayNode \<Rightarrow> string \<Rightarrow> nodeReply" where
  "getIdentity N trustId =
     (case memoryResolve (rs_resolver (rn_store N)) trustId of
        Some d \<Rightarrow> Sent (JObj (IdentityDocumentV1_obj d))
      | None \<Rightarrow> Rejected 404 ''TSL_KEY_NOT_FOUND'')"

section \<open>Events\<close>

definition epochField :: "int option \<Rightarrow> jsval" where
  "epochField e = (case e of Some n \<Rightarrow> JNum (JInt n) | None \<Rightarrow> JNull)"

definition acceptedReply :: "AcceptedEvent \<Rightarrow> jsval" where
  "acceptedReply a = JObj [(''status'', JStr ''accepted''), (''commitment_hash'', JStr (ae_commitment_hash a)), (''relay_id'', JStr (ae_relay_id a)),
     (''epoch_start_ms'', epochField (ae_epoch_start_ms a)), (''epoch_duration_ms'', JNum (JInt (ae_epoch_duration_ms a))), (''shard'', JStr (ae_shard a)),
     (''log_index'', JNum (JInt (ae_log_index a))), (''inclusion_promise'', JStr (''0x'' @ take 16 (drop 2 (ae_commitment_hash a))))]"

definition postCommitment :: "'g verifierDeps \<Rightarrow> relayNode \<Rightarrow> string \<Rightarrow> EventCommitmentV1 \<Rightarrow> nodeReply \<times> relayNode" where
  "postCommitment D N ip event = rated (vd_env D) N ip ''commitments'' 10000 hour (\<lambda>M.
     case acceptEvent D (rn_store M) event of
       Inl e \<Rightarrow> (sendRelayError e, M)
     | Inr (accepted, S) \<Rightarrow> (Sent (acceptedReply accepted), M\<lparr>rn_store := S\<rparr>))"

section \<open>Receipts and attestations\<close>

definition receiptGuards :: "env \<Rightarrow> relayNode \<Rightarrow> ReceiptCommitmentV1 \<Rightarrow> string res" where
  "receiptGuards E M receipt =
     (if \<not> sv_valid (validateSchema E ''receipt'' (JObj (ReceiptCommitmentV1_obj receipt))) then Inl ''TSL_SCHEMA_INVALID''
      else bindE (assertTimestampInWindow E (rn_store M) (rc_timestamp receipt)) (\<lambda>_.
           bindE (receiptCommitmentHash E receipt) (\<lambda>commitment.
           if getAcceptedEvent (rn_store M) (rc_event_commitment receipt) = None then Inl ''TSL_EVENT_NOT_FOUND''
           else bindE (receiptHash E (ReceiptCommitmentV1_obj receipt)) (\<lambda>hash.
                bindE (assertSignedByIdentity E (storeResolver M) (rc_receiver receipt) (rc_signing_key_id receipt) (rc_timestamp receipt) hash
                         (rc_signature receipt) ''TSL_RECEIPT_SIGNATURE_INVALID'') (\<lambda>_. Inr commitment)))))"

definition loggedReply :: "string \<Rightarrow> string \<Rightarrow> InMemoryRelayStore \<Rightarrow> int option \<Rightarrow> jsval" where
  "loggedReply field commitment S epoch = JObj [(''status'', JStr ''accepted''), (field, JStr commitment), (''relay_id'', JStr (rs_relay_id S)),
     (''epoch_start_ms'', epochField epoch)]"

definition postReceipt :: "env \<Rightarrow> relayNode \<Rightarrow> string \<Rightarrow> ReceiptCommitmentV1 \<Rightarrow> nodeReply \<times> relayNode" where
  "postReceipt E N ip receipt = rated E N ip ''receipts'' 10000 hour (\<lambda>M.
     case bindE (receiptGuards E M receipt) (\<lambda>commitment. bindE (acceptReceipt E (rn_store M) receipt) (\<lambda>(_, S). Inr (commitment, S))) of
       Inl e \<Rightarrow> (sendRelayError e, M)
     | Inr (commitment, S) \<Rightarrow>
         (Sent (loggedReply ''receipt_hash'' commitment S (epochStart (dateParse E (rc_timestamp receipt)) (rs_epoch_duration_ms S))), M\<lparr>rn_store := S\<rparr>))"

text \<open>The named key, or else the first active one: the fallback catches every error of the first attempt.\<close>

definition attestationSigned :: "env \<Rightarrow> relayNode \<Rightarrow> string option \<Rightarrow> AttestationV1 \<Rightarrow> string \<Rightarrow> unit res" where
  "attestationSigned E M signing_key_id att hash =
     (case assertSignedByIdentity E (storeResolver M) (att_issuer att) (orElse signing_key_id ''#device-key-1'') (att_issued_at att) hash (att_signature att)
             ''TSL_ATTESTATION_SIGNATURE_INVALID'' of
        Inr _ \<Rightarrow> Inr ()
      | Inl _ \<Rightarrow> bindE (storeResolver M (att_issuer att) (Some (att_issued_at att))) (\<lambda>identity.
          assertKeySigned E (Option.bind identity (\<lambda>d. firstActiveKey E d (att_issued_at att))) (Inr hash) (att_signature att) ''TSL_ATTESTATION_SIGNATURE_INVALID''))"

definition attestationGuards :: "env \<Rightarrow> relayNode \<Rightarrow> string option \<Rightarrow> AttestationV1 \<Rightarrow> string res" where
  "attestationGuards E M signing_key_id att =
     (if \<not> sv_valid (validateSchema E ''attestation'' (JObj (AttestationV1_obj att))) then Inl ''TSL_SCHEMA_INVALID''
      else bindE (assertTimestampInWindow E (rn_store M) (att_issued_at att)) (\<lambda>_.
           if truthyStr (att_expires_at att) \<and> dateLe (dateParse E (the (att_expires_at att))) (dateParse E (att_issued_at att)) then Inl ''TSL_ATTESTATION_EXPIRED''
           else bindE (attestationHash E (AttestationV1_obj att)) (\<lambda>hash.
                bindE (attestationSigned E M signing_key_id att hash) (\<lambda>_. attestationCommitmentHash E att))))"

definition postAttestation :: "env \<Rightarrow> relayNode \<Rightarrow> string \<Rightarrow> string option \<Rightarrow> AttestationV1 \<Rightarrow> nodeReply \<times> relayNode" where
  "postAttestation E N ip signing_key_id att = rated E N ip ''attestations'' 10000 hour (\<lambda>M.
     case bindE (attestationGuards E M signing_key_id att) (\<lambda>commitment. bindE (acceptAttestation E (rn_store M) att) (\<lambda>(_, S). Inr (commitment, S))) of
       Inl e \<Rightarrow> (sendRelayError e, M)
     | Inr (commitment, S) \<Rightarrow>
         (Sent (loggedReply ''attestation_hash'' commitment S (epochStart (dateParse E (att_issued_at att)) (rs_epoch_duration_ms S))), M\<lparr>rn_store := S\<rparr>))"

section \<open>Revocations and rotations\<close>

definition reasonCode :: "string \<Rightarrow> int" where
  "reasonCode reason = (if reason = ''rotation'' then 0 else if reason = ''compromise'' then 1 else if reason = ''device_loss'' then 2 else 3)"

definition revocationGuards :: "env \<Rightarrow> relayNode \<Rightarrow> RevocationV1 \<Rightarrow> string res" where
  "revocationGuards E M rvk =
     bindE (assertTimestampInWindow E (rn_store M) (rev_effective_at rvk)) (\<lambda>_.
     bindE (storeResolver M (rev_trust_id rvk) (Some (rev_effective_at rvk))) (\<lambda>identity.
     bindE (assertKeySigned E (Option.bind identity (\<lambda>d. orFrom (findVerificationMethod d (rev_revoked_key rvk)) (firstActiveKey E d (rev_effective_at rvk))))
              (revocationHash E (RevocationV1_obj rvk)) (rev_signature rvk) ''TSL_REVOCATION_SIGNATURE_INVALID'') (\<lambda>_. revocationCommitmentHash E rvk)))"

text \<open>\<^verbatim>\<open>store.acceptRevocation\<close>, then \<^verbatim>\<open>store.resolver.revokeKey\<close>.\<close>

definition recordRevoked :: "env \<Rightarrow> InMemoryRelayStore \<Rightarrow> RevocationV1 \<Rightarrow> InMemoryRelayStore res" where
  "recordRevoked E S rvk = bindE (acceptRevocation E S rvk) (\<lambda>(_, T).
     Inr (T\<lparr>rs_resolver := revokeKey (rs_resolver T) (rev_trust_id rvk) (rev_revoked_key rvk)\<rparr>))"

definition callOptional :: "'a option \<Rightarrow> ('a \<Rightarrow> unit res) \<Rightarrow> unit res" where
  "callOptional f k = (case f of None \<Rightarrow> Inr () | Some g \<Rightarrow> k g)"

definition postRevocation :: "env \<Rightarrow> registryCalls \<Rightarrow> relayNode \<Rightarrow> string \<Rightarrow> string option \<Rightarrow> RevocationV1 \<Rightarrow> nodeReply \<times> relayNode" where
  "postRevocation E G N ip controller_signature rvk = rated E N ip ''revocations'' 100 hour (\<lambda>M.
     case (if \<not> sv_valid (validateSchema E ''revocation'' (JObj (RevocationV1_obj rvk))) then Inl ''TSL_SCHEMA_INVALID''
           else bindE (revocationGuards E M rvk) (\<lambda>commitment. bindE (recordRevoked E (rn_store M) rvk) (\<lambda>S. Inr (commitment, S)))) of
       Inl e \<Rightarrow> (sendRelayError e, M)
     | Inr (commitment, S) \<Rightarrow>
         (answer (bindE (callOptional (rg_recordRevocation G)
              (\<lambda>f. f rvk (reasonCode (rev_reason_class rvk)) (dateParse E (rev_effective_at rvk)) controller_signature)) (\<lambda>_.
            bindE (callOptional (rg_revokeIdentityKey G) (\<lambda>f. f (rev_trust_id rvk) (rev_revoked_key rvk) (reasonCode (rev_reason_class rvk)))) (\<lambda>_.
              Inr (JObj [(''status'', JStr ''accepted''), (''revocation_hash'', JStr commitment)])))),
          M\<lparr>rn_store := S\<rparr>))"

definition postRotation :: "env \<Rightarrow> registryCalls \<Rightarrow> relayNode \<Rightarrow> string \<Rightarrow> string option \<Rightarrow> RevocationV1 \<Rightarrow> nodeReply \<times> relayNode" where
  "postRotation E G N ip controller_signature rvk = rated E N ip ''rotations'' 100 hour (\<lambda>M.
     case (if \<not> sv_valid (validateSchema E ''revocation'' (JObj (RevocationV1_obj rvk))) \<or> rev_reason_class rvk \<noteq> ''rotation'' \<or> \<not> truthyStr (rev_replacement_key rvk)
           then Inl ''TSL_SCHEMA_INVALID''
           else bindE (revocationGuards E M rvk) (\<lambda>commitment. bindE (recordRevoked E (rn_store M) rvk) (\<lambda>S. Inr (commitment, S)))) of
       Inl e \<Rightarrow> (sendRelayError e, M)
     | Inr (commitment, S) \<Rightarrow>
         (answer (bindE (callOptional (rg_rotateIdentityKey G) (\<lambda>f. f (rev_trust_id rvk) (rev_revoked_key rvk) (the (rev_replacement_key rvk)))) (\<lambda>_.
            bindE (callOptional (rg_recordRevocation G) (\<lambda>f. f rvk (reasonCode ''rotation'') (dateParse E (rev_effective_at rvk)) controller_signature)) (\<lambda>_.
              Inr (JObj [(''status'', JStr ''accepted''), (''rotation_hash'', JStr commitment)])))),
          M\<lparr>rn_store := S\<rparr>))"

section \<open>Assessments, proofs and checkpoints\<close>

definition postAssessment :: "env \<Rightarrow> relayNode \<Rightarrow> string \<Rightarrow> TrustAssessmentV1 \<Rightarrow> nodeReply \<times> relayNode" where
  "postAssessment E N ip assessment = rated E N ip ''assessments'' 1000 hour (\<lambda>M.
     (answer (if \<not> sv_valid (validateSchema E ''trustAssessment'' (JObj (TrustAssessmentV1_obj assessment))) then Inl ''TSL_SCHEMA_INVALID''
        else if orElse (ta_features_disclosed assessment) [] = [] \<or> orElse (ta_explanation assessment) [] = [] then Inl ''TSL_ASSESSMENT_EVIDENCE_INCOMPLETE''
        else bindE (storeResolver M (ta_issuer assessment) (Some (ta_issued_at assessment))) (\<lambda>identity.
             bindE (assertKeySigned E (Option.bind identity (\<lambda>d. firstActiveKey E d (ta_issued_at assessment)))
                      (assessmentHash E (TrustAssessmentV1_obj assessment)) (ta_signature assessment) ''TSL_ASSESSMENT_SIGNATURE_INVALID'') (\<lambda>_.
             bindE (assessmentCommitmentHash E assessment) (\<lambda>commitment.
               Inr (JObj [(''status'', JStr ''accepted''), (''assessment_hash'', JStr commitment)]))))), M))"

text \<open>Outside a \<^verbatim>\<open>try\<close> block an error becomes the status 500 of the framework.\<close>

definition getProof :: "env \<Rightarrow> relayNode \<Rightarrow> string \<Rightarrow> string \<Rightarrow> nodeReply \<times> relayNode" where
  "getProof E N ip commitment =
     (let (ok, M) = checkRate E N ip ''proofs'' 1000 hour in
      ((if \<not> ok then Rejected 500 ''TSL_RATE_LIMITED''
        else case proofFor E (rn_store M) commitment of
               Inl e \<Rightarrow> Rejected 500 e
             | Inr None \<Rightarrow> Rejected 404 ''TSL_PROOF_NOT_FOUND''
             | Inr (Some (p, c)) \<Rightarrow> Sent (JObj [(''proof'', JObj (InclusionProofV1_obj p)), (''checkpoint'', JObj (BatchCheckpointV1_obj c))])), M))"

definition getCheckpoint :: "env \<Rightarrow> relayNode \<Rightarrow> int option \<Rightarrow> string \<Rightarrow> nodeReply" where
  "getCheckpoint E N epoch shard =
     (case checkpointFor E (rn_store N) epoch shard of Inl e \<Rightarrow> Rejected 500 e | Inr c \<Rightarrow> Sent (JObj (BatchCheckpointV1_obj c)))"

definition postSubmit :: "env \<Rightarrow> relayNode \<Rightarrow> string \<Rightarrow> int \<Rightarrow> string \<Rightarrow> nodeReply \<times> relayNode" where
  "postSubmit E N ip epoch shard = rated E N ip ''checkpoint_submit'' 1 (rs_epoch_duration_ms (rn_store N)) (\<lambda>M.
     case submitCheckpoint E (rn_store M) epoch shard of
       Inl e \<Rightarrow> (sendRelayError e, M)
     | Inr (c, S) \<Rightarrow> (Sent (JObj [(''status'', JStr ''settled''), (''checkpoint'', JObj (BatchCheckpointV1_obj c))]), M\<lparr>rn_store := S\<rparr>))"

section \<open>Verification\<close>

text \<open>The identities that a request brings along are asked before the store.\<close>

definition requestResolver :: "relayNode \<Rightarrow> IdentityDocumentV1 list \<Rightarrow> resolver" where
  "requestResolver N identities =
     (if identities \<noteq> [] then compositeResolve [memoryResolverFn (newMemoryResolver identities), storeResolver N] else storeResolver N)"

text \<open>
  The input of \<^verbatim>\<open>/v1/verify\<close>: the fields of the body, or else those of its bundle, except for some that only the bundle can give; the envelope
  of \<open>body\<close> stands for the one of the body or else of the bundle.
\<close>

definition verifyInputOf :: "VerifyTSLInput \<Rightarrow> VerifyTSLInput" where
  "verifyInputOf body =
     (case vi_proof_bundle body of None \<Rightarrow> body | Some b \<Rightarrow> mergeBundle body b)
       \<lparr>vi_attestations_v2 := None, vi_receipt_disputes := None, vi_feature_registry := None, vi_normalization_profile := None, vi_weight_profile := None,
        vi_calibration_profile := None, vi_confidence_profile := None, vi_provider_governance_status := None\<rparr>"

definition defaultVerifyPolicy :: "VerifyTSLInput \<Rightarrow> VerifierPolicy" where
  "defaultVerifyPolicy inp = noPolicy\<lparr>po_require_inclusion := Some (vi_proof inp \<noteq> None), po_require_checkpoint := Some (vi_checkpoint inp \<noteq> None),
     po_require_settlement := Some False\<rparr>"

definition postVerify :: "'g verifierDeps \<Rightarrow> relayNode \<Rightarrow> VerifyTSLInput \<Rightarrow> VerifierPolicy option \<Rightarrow> VerificationResult res" where
  "postVerify D N body policy =
     (let inp = verifyInputOf body; identities = (case vi_proof_bundle body of None \<Rightarrow> [] | Some b \<Rightarrow> [pb_identity b]) in
      verifyTSL (D\<lparr>vd_resolver := requestResolver N identities\<rparr>) inp (orElse policy (defaultVerifyPolicy inp)))"

record delegationsBody =
  db_identities :: "IdentityDocumentV1 list"
  db_envelope :: EventCommitmentV1
  db_proof :: "InclusionProofV1 option"
  db_receipt_proofs :: "InclusionProofV1 list option"
  db_checkpoint :: "BatchCheckpointV1 option"
  db_delegations :: "AgentDelegationV1 list option"
  db_delegation_policies :: "DelegationPolicyV2 list option"
  db_agent_actions :: "AgentActionV2 list option"
  db_disclosure_consents :: "DisclosureConsentV1 list option"
  db_policy :: "VerifierPolicy option"
  db_require_agent_scope :: "string option"
  db_require_settlement :: bool

definition delegationsInput :: "delegationsBody \<Rightarrow> VerifyTSLInput" where
  "delegationsInput b = (envelopeInput (db_envelope b))\<lparr>vi_proof := db_proof b, vi_receipt_proofs := db_receipt_proofs b, vi_checkpoint := db_checkpoint b,
     vi_delegations := db_delegations b, vi_delegation_policies := db_delegation_policies b, vi_agent_actions := db_agent_actions b,
     vi_disclosure_consents := db_disclosure_consents b\<rparr>"

definition insideScope :: "VerificationResult \<Rightarrow> bool" where
  "insideScope r \<longleftrightarrow> ck_delegated_action_valid (vr_checks r) = Some True \<or> ck_agent_scope_valid (vr_checks r) = Some True"

definition postDelegationsVerify :: "'g verifierDeps \<Rightarrow> relayNode \<Rightarrow> delegationsBody \<Rightarrow> nodeReply" where
  "postDelegationsVerify D N b =
     (case verifyTSL (D\<lparr>vd_resolver := requestResolver N (db_identities b)\<rparr>) (delegationsInput b)
             (orElse (db_policy b) (noPolicy\<lparr>po_require_agent_scope := Some (orElse (db_require_agent_scope b) ''inside_scope''),
                po_require_settlement := Some (db_require_settlement b)\<rparr>)) of
        Inl e \<Rightarrow> sendRelayError e
      | Inr r \<Rightarrow> if insideScope r then Sent (JObj [(''status'', JStr ''agent_inside_scope'')])
                 else Rejected 422 (case vr_errors r of e # _ \<Rightarrow> e | [] \<Rightarrow> ''TSL_DELEGATED_ACTION_INVALID''))"

section \<open>Reports of abuse\<close>

text \<open>\<^verbatim>\<open>Date.now().toString(36)\<close>\<close>

fun digits36 :: "nat \<Rightarrow> string" where
  "digits36 n = (if n < 36 then [hexDigit n] else digits36 (n div 36) @ [hexDigit (n mod 36)])"

declare digits36.simps [simp del]

definition postEvidence :: "env \<Rightarrow> relayNode \<Rightarrow> (string \<Rightarrow> jsval) \<Rightarrow> nodeReply \<times> relayNode" where
  "postEvidence E N body =
     (case toISOString (now_ms E) of
        Inl e \<Rightarrow> (sendRelayError e, N)
      | Inr created_at \<Rightarrow>
          let review = body ''review_state'';
              r = [(''type'', JStr ''tsl.abuse.evidence_metadata.v1''), (''evidence_commitment'', body ''evidence_commitment''), (''issuer'', body ''issuer''),
                (''subject'', body ''subject''), (''claim_class'', body ''claim_class''), (''appeal_pointer'', body ''appeal_pointer''),
                (''review_state'', if review = JUndefined \<or> review = JNull then JStr ''pending_review'' else review), (''created_at'', JStr created_at)]
          in (Sent (JObj [(''status'', JStr ''accepted''), (''record'', JObj r)]), N\<lparr>rn_evidenceRecords := rn_evidenceRecords N @ [r]\<rparr>))"

definition postAppeal :: "env \<Rightarrow> relayNode \<Rightarrow> (string \<Rightarrow> jsval) \<Rightarrow> nodeReply \<times> relayNode" where
  "postAppeal E N body =
     (case toISOString (now_ms E) of
        Inl e \<Rightarrow> (sendRelayError e, N)
      | Inr created_at \<Rightarrow>
          let r = [(''type'', JStr ''tsl.abuse.appeal.v1''),
                (''appeal_id'', JStr (''appeal_'' @ digits36 (nat (now_ms E)) @ ''_'' @ string_of_nat (length (rn_appealRecords N)))),
                (''subject'', body ''subject''), (''evidence_commitment'', body ''evidence_commitment''), (''appeal_pointer'', body ''appeal_pointer''),
                (''review_state'', JStr ''submitted''), (''created_at'', JStr created_at)]
          in (Sent (JObj [(''status'', JStr ''accepted''), (''record'', JObj r)]), N\<lparr>rn_appealRecords := rn_appealRecords N @ [r]\<rparr>))"

definition getAppeals :: "relayNode \<Rightarrow> nodeReply" where
  "getAppeals N = Sent (JObj [(''appeals'', JArr (map JObj (rn_appealRecords N)))])"

section \<open>Runs of the node\<close>

text \<open>The requests that can change the node, and their routing; a run is a list of requests with their times and addresses.\<close>

datatype nodeRequest =
    PostIdentity IdentityDocumentV1
  | PostCommitment EventCommitmentV1
  | PostReceipt ReceiptCommitmentV1
  | PostAttestation "string option" AttestationV1
  | PostRevocation "string option" RevocationV1
  | PostRotation "string option" RevocationV1
  | PostAssessment TrustAssessmentV1
  | GetProof string
  | PostSubmit int string
  | PostEvidence "string \<Rightarrow> jsval"
  | PostAppeal "string \<Rightarrow> jsval"

fun handle :: "'g verifierDeps \<Rightarrow> registryCalls \<Rightarrow> relayNode \<Rightarrow> int \<Rightarrow> string \<Rightarrow> nodeRequest \<Rightarrow> nodeReply \<times> relayNode" where
  "handle D G N t ip (PostIdentity d) = postIdentity (envAt (vd_env D) t) G N ip d"
| "handle D G N t ip (PostCommitment ev) = postCommitment (depsAt D t) N ip ev"
| "handle D G N t ip (PostReceipt rc) = postReceipt (envAt (vd_env D) t) N ip rc"
| "handle D G N t ip (PostAttestation key att) = postAttestation (envAt (vd_env D) t) N ip key att"
| "handle D G N t ip (PostRevocation sig rvk) = postRevocation (envAt (vd_env D) t) G N ip sig rvk"
| "handle D G N t ip (PostRotation sig rvk) = postRotation (envAt (vd_env D) t) G N ip sig rvk"
| "handle D G N t ip (PostAssessment a) = postAssessment (envAt (vd_env D) t) N ip a"
| "handle D G N t ip (GetProof k) = getProof (envAt (vd_env D) t) N ip k"
| "handle D G N t ip (PostSubmit e s) = postSubmit (envAt (vd_env D) t) N ip e s"
| "handle D G N t ip (PostEvidence body) = postEvidence (envAt (vd_env D) t) N body"
| "handle D G N t ip (PostAppeal body) = postAppeal (envAt (vd_env D) t) N body"

definition newNode :: "InMemoryRelayStore \<Rightarrow> relayNode" where
  "newNode S = \<lparr>rn_store = S, rn_buckets = [], rn_appealRecords = [], rn_evidenceRecords = []\<rparr>"

definition serve :: "'g verifierDeps \<Rightarrow> registryCalls \<Rightarrow> relayNode \<Rightarrow> (int \<times> string \<times> nodeRequest) list \<Rightarrow> relayNode" where
  "serve D G N requests = foldl (\<lambda>M (t, ip, rq). snd (handle D G M t ip rq)) N requests"

lemma serve_Nil [simp]: "serve D G N [] = N"
  by (simp add: serve_def)

lemma serve_snoc [simp]: "serve D G N (rs @ [(t, ip, rq)]) = snd (handle D G (serve D G N rs) t ip rq)"
  by (simp add: serve_def)

section \<open>What a request does to the store\<close>

text \<open>A call of the store, or none, and then perhaps a change of the identities alone.\<close>

definition storeMove :: "'g verifierDeps \<Rightarrow> InMemoryRelayStore \<Rightarrow> EventCommitmentV1 list \<Rightarrow> InMemoryRelayStore \<Rightarrow> bool" where
  "storeMove D S evs T \<longleftrightarrow> (\<exists>U m. (relayStep D S evs U \<or> evs = [] \<and> U = S) \<and> T = U\<lparr>rs_resolver := m\<rparr>)"

lemma storeMove_refl [simp]: "storeMove D S [] S"
  unfolding storeMove_def by (intro exI [of _ S] exI [of _ "rs_resolver S"]) simp

lemma storeMove_step: "relayStep D S evs T \<Longrightarrow> storeMove D S evs T"
  unfolding storeMove_def by (intro exI [of _ T] exI [of _ "rs_resolver T"]) simp

lemma checkRate_store [simp]: "checkRate E N ip action limit w = (ok, M) \<Longrightarrow> rn_store M = rn_store N"
  by (auto simp: checkRate_def split: prod.splits)

lemma rated_store:
  assumes "rated E N ip action limit w body = (r, M)" "\<And>N' r' M'. rn_store N' = rn_store N \<Longrightarrow> body N' = (r', M') \<Longrightarrow> P (rn_store M')" "P (rn_store N)"
  shows "P (rn_store M)"
proof (cases "checkRate E N ip action limit w")
  case (Pair ok N')
  then have "rn_store N' = rn_store N" by simp
  then show ?thesis using assms(1,3) assms(2) [of N' r M] Pair by (cases ok) (auto simp: rated_def)
qed

definition postedBy :: "nodeRequest \<Rightarrow> EventCommitmentV1 list" where
  "postedBy rq = (case rq of PostCommitment ev \<Rightarrow> [ev] | _ \<Rightarrow> [])"

definition posted :: "(int \<times> string \<times> nodeRequest) list \<Rightarrow> EventCommitmentV1 list" where
  "posted requests = concat (map (\<lambda>(t, ip, rq). postedBy rq) requests)"

lemma recordRevoked_move:
  assumes "recordRevoked (envAt (vd_env D) t) S rvk = Inr T"
  shows "storeMove D S [] T"
proof -
  obtain b U where "acceptRevocation (envAt (vd_env D) t) S rvk = Inr (b, U)" "T = U\<lparr>rs_resolver := revokeKey (rs_resolver U) (rev_trust_id rvk) (rev_revoked_key rvk)\<rparr>"
    using assms by (auto simp: recordRevoked_def bindE_eq_Inr)
  then show ?thesis unfolding storeMove_def by (blast intro: relayStep.revocation)
qed

lemma postCommitment_move:
  assumes "postCommitment (depsAt D t) N ip ev = (r, M)"
  shows "\<exists>evs. set evs \<subseteq> {ev} \<and> storeMove D (rn_store N) evs (rn_store M)"
proof -
  let ?P = "\<lambda>T. \<exists>evs. set evs \<subseteq> {ev} \<and> storeMove D (rn_store N) evs T"
  have none: "?P (rn_store N)" by (rule exI [of _ "[]"]) simp
  have "?P T" if "acceptEvent (depsAt D t) (rn_store N) ev = Inr (a, T)" for a T
    by (rule exI [of _ "[ev]"]) (simp add: storeMove_step [OF relayStep.event [OF that]])
  then show ?thesis by (rule_tac rated_store [OF assms [unfolded postCommitment_def]]) (auto split: sum.split_asm intro: none)
qed


lemma plain_moves:
  "postIdentity (envAt (vd_env D) t) G N ip d = (r, M) \<Longrightarrow> storeMove D (rn_store N) [] (rn_store M)"
  "postReceipt (envAt (vd_env D) t) N ip rc = (r, M) \<Longrightarrow> storeMove D (rn_store N) [] (rn_store M)"
  "postAttestation (envAt (vd_env D) t) N ip key att = (r, M) \<Longrightarrow> storeMove D (rn_store N) [] (rn_store M)"
  "postRevocation (envAt (vd_env D) t) G N ip sig rvk = (r, M) \<Longrightarrow> storeMove D (rn_store N) [] (rn_store M)"
  "postRotation (envAt (vd_env D) t) G N ip sig rvk = (r, M) \<Longrightarrow> storeMove D (rn_store N) [] (rn_store M)"
  "postSubmit (envAt (vd_env D) t) N ip e s = (r, M) \<Longrightarrow> storeMove D (rn_store N) [] (rn_store M)"
  unfolding postIdentity_def postReceipt_def postAttestation_def postRevocation_def postRotation_def postSubmit_def
  by (erule rated_store, auto simp: bindE_eq_Inr split: sum.split_asm if_split_asm prod.split_asm
      intro: storeMove_step relayStep.identity relayStep.receipt relayStep.attestation relayStep.submit recordRevoked_move)+

lemma store_kept:
  "postAssessment E N ip a = (r, M) \<Longrightarrow> rn_store M = rn_store N" "getProof E N ip k = (r, M) \<Longrightarrow> rn_store M = rn_store N"
  "postEvidence E N body = (r, M) \<Longrightarrow> rn_store M = rn_store N" "postAppeal E N body = (r, M) \<Longrightarrow> rn_store M = rn_store N"
  by (auto simp: postAssessment_def getProof_def postEvidence_def postAppeal_def rated_def Let_def split: prod.splits sum.splits if_split_asm)

lemma handle_move: "\<exists>evs. set evs \<subseteq> set (postedBy rq) \<and> storeMove D (rn_store N) evs (rn_store (snd (handle D G N t ip rq)))"
proof (cases "\<exists>ev. rq = PostCommitment ev")
  case True
  then show ?thesis using postCommitment_move [OF surjective_pairing] by (auto simp: postedBy_def)
next
  case False
  then have "storeMove D (rn_store N) [] (rn_store (snd (handle D G N t ip rq)))"
    using plain_moves [OF surjective_pairing] store_kept [OF surjective_pairing] by (cases rq) simp_all
  then show ?thesis by (intro exI [of _ "[]"]) simp
qed

section \<open>The invariant of the node\<close>

lemma sameLog_resolver: "sameLog S (S\<lparr>rs_resolver := m\<rparr>)"
  by (simp add: sameLog_def)

lemma storeMove_inv:
  assumes inv: "relayInv (vd_env D) S" "fromRun old S" "\<forall>B. rs_settlement_backend S = Some B \<longrightarrow> keepsCheckpoint (vd_env D) (sb_submitCheckpoint B)"
    and move: "storeMove D S evs T" and clash: "\<forall>x \<in> set (old @ evs). \<forall>y \<in> set (old @ evs). \<not> commitmentClash (vd_env D) x y"
  shows "relayInv (vd_env D) T \<and> fromRun (old @ evs) T \<and> rs_settlement_backend T = rs_settlement_backend S"
proof -
  obtain U m where U: "relayStep D S evs U \<or> evs = [] \<and> U = S" and T: "T = U\<lparr>rs_resolver := m\<rparr>" using move unfolding storeMove_def by blast
  have "relayInv (vd_env D) U \<and> fromRun (old @ evs) U \<and> rs_settlement_backend U = rs_settlement_backend S"
    using U relayStep_inv [OF inv(1,3) _ inv(2) clash] relayStep_events [OF _ inv(2)] relayStep_backend inv by auto
  then show ?thesis using relayInv_sameLog [OF _ sameLog_resolver, of "vd_env D" U m] by (simp add: T fromRun_def)
qed

lemma fromRun_mono: "fromRun evs S \<Longrightarrow> set evs \<subseteq> set evs' \<Longrightarrow> fromRun evs' S"
  by (fastforce simp: fromRun_def)

lemma serve_inv:
  assumes new: "newRelayStore (vd_env D) options = Inr S" and B: "\<forall>B. ro_settlement_backend options = Some B \<longrightarrow> keepsCheckpoint (vd_env D) (sb_submitCheckpoint B)"
    and clash: "\<forall>x \<in> set (posted requests). \<forall>y \<in> set (posted requests). \<not> commitmentClash (vd_env D) x y"
  shows "let T = rn_store (serve D G (newNode S) requests) in relayInv (vd_env D) T \<and> fromRun (posted requests) T \<and> rs_settlement_backend T = ro_settlement_backend options"
  using clash
proof (induction requests rule: rev_induct)
  case Nil
  show ?case using relayInv_new [OF new] new by (auto simp: newNode_def fromRun_def newRelayStore_def Let_def bindE_eq_Inr)
next
  case (snoc x requests)
  obtain t ip rq where x: "x = (t, ip, rq)" by (metis prod_cases3)
  let ?T = "rn_store (serve D G (newNode S) requests)"
  have p: "posted (requests @ [(t, ip, rq)]) = posted requests @ postedBy rq" by (simp add: posted_def)
  have IH: "relayInv (vd_env D) ?T" "fromRun (posted requests) ?T" "rs_settlement_backend ?T = ro_settlement_backend options"
    using snoc.IH snoc.prems unfolding x p by (simp_all add: Let_def)
  obtain evs where evs: "set evs \<subseteq> set (postedBy rq)" "storeMove D ?T evs (rn_store (snd (handle D G (serve D G (newNode S) requests) t ip rq)))"
    using handle_move by blast
  have "\<forall>x \<in> set (posted requests @ evs). \<forall>y \<in> set (posted requests @ evs). \<not> commitmentClash (vd_env D) x y" using snoc.prems evs(1) unfolding x p by auto
  note inv = storeMove_inv [OF IH(1,2) _ evs(2) this, unfolded IH(3), OF B]
  have "set (posted requests @ evs) \<subseteq> set (posted requests @ postedBy rq)" using evs(1) by auto
  then show ?case using inv fromRun_mono unfolding x p serve_snoc Let_def by blast
qed

section \<open>Revoked keys\<close>

definition keyIn :: "memoryResolver \<Rightarrow> string \<Rightarrow> string \<Rightarrow> VerificationMethodV1 option" where
  "keyIn m trustId keyId = Option.bind (memoryResolve m trustId) (\<lambda>d. findVerificationMethod d keyId)"

lemma keyIn_memory: "keyIn = memory.keyOf"
  by (intro ext) (simp add: keyIn_def memory.keyOf_def)

text \<open>A key that cannot become active again: unknown, or revoked without a time of revocation.\<close>

definition deadKey :: "memoryResolver \<Rightarrow> string \<Rightarrow> string \<Rightarrow> bool" where
  "deadKey m trustId keyId \<longleftrightarrow> (\<forall>key. keyIn m trustId keyId = Some key \<longrightarrow> vm_status key = ''revoked'' \<and> vm_revoked_at key = None)"

lemma deadKey_revokeKey: "deadKey m t k \<Longrightarrow> deadKey (revokeKey m u j) t k"
  by (auto simp: deadKey_def keyIn_memory memory.keyOf_revoke)

lemma deadKey_upsert: "deadKey m t k \<Longrightarrow> idd_id d \<noteq> t \<Longrightarrow> deadKey (upsertIdentity m d) t k"
  by (simp add: deadKey_def keyIn_def memory.resolve_upsert)

lemma acceptEvent_key:
  assumes "acceptEvent D S ev = Inr (a, T)"
  shows "keyActiveAt (vd_env D) (keyIn (rs_resolver S) (ev_sender ev) (ev_signing_key_id ev)) (ev_timestamp ev)"
proof -
  let ?D = "D\<lparr>vd_resolver := memoryResolverFn (rs_resolver S), vd_backend := None\<rparr>"
  obtain t v where st: "acceptEventStart D S ev = Inr (t, v)" and fin: "acceptEventFinish (vd_env D) S ev t v = Inr (a, T)"
    using assms by (auto simp: acceptEvent_def bindE_eq_Inr)
  have v: "verifyTSL ?D (envelopeInput ev) noPolicy = Inr v" "vr_verified v"
    using st fin by (auto simp: acceptEventStart_def acceptEventFinish_def Let_def bindE_eq_Inr split: if_split_asm option.split_asm)
  then obtain c u where "verifiedRun ?D (envelopeInput ev) noPolicy v c u" using verifyTSL_verifiedRun by blast
  then show ?thesis by (auto simp: verifiedRun_def Let_def memoryResolverFn_def keyIn_def)
qed

lemma deadKey_rejects: "deadKey (rs_resolver S) (ev_sender ev) (ev_signing_key_id ev) \<Longrightarrow> acceptEvent D S ev \<noteq> Inr (a, T)"
  using acceptEvent_key [of D S ev a T] keyActiveAt_Some by (fastforce simp: deadKey_def keyActiveAt_def split: option.split_asm if_split_asm)

text \<open>Identities change by \<^verbatim>\<open>/v1/identity/create\<close> and by the revocation of keys only.\<close>

definition identityMove :: "nodeRequest \<Rightarrow> memoryResolver \<Rightarrow> memoryResolver \<Rightarrow> bool" where
  "identityMove rq m n \<longleftrightarrow> n = m \<or> (\<exists>d. rq = PostIdentity d \<and> n = upsertIdentity m d) \<or> (\<exists>t k. n = revokeKey m t k)"

lemma identityMove_simps [simp]: "identityMove rq m m" "identityMove rq m (revokeKey m t k)" "identityMove (PostIdentity d) m (upsertIdentity m d)"
  by (auto simp: identityMove_def)

lemma resolver_calls:
  "relayUpsertIdentity E S d = Inr T \<Longrightarrow> rs_resolver T = upsertIdentity (rs_resolver S) d" "acceptEvent D S ev = Inr (a, T) \<Longrightarrow> rs_resolver T = rs_resolver S"
  "acceptReceipt E S rc = Inr (b, T) \<Longrightarrow> rs_resolver T = rs_resolver S" "acceptAttestation E S att = Inr (b, T) \<Longrightarrow> rs_resolver T = rs_resolver S"
  "recordRevoked E S rvk = Inr T \<Longrightarrow> rs_resolver T = revokeKey (rs_resolver S) (rev_trust_id rvk) (rev_revoked_key rvk)"
  "submitCheckpoint E S e s = Inr (c, T) \<Longrightarrow> rs_resolver T = rs_resolver S"
  by (auto simp: relayUpsertIdentity_def acceptReceipt_def acceptAttestation_def acceptRevocation_def recordRevoked_def submitCheckpoint_def bindE_eq_Inr
      split: if_split_asm dest!: acceptEvent_Inr submitCheckpointFinish_Inr(2))

lemma handle_identity: "identityMove rq (rs_resolver (rn_store N)) (rs_resolver (rn_store (snd (handle D G N t ip rq))))"
proof (cases rq)
  case (PostIdentity d)
  show ?thesis unfolding PostIdentity handle.simps postIdentity_def
    by (rule rated_store [OF surjective_pairing]) (auto dest: resolver_calls split: sum.split_asm)
next
  case (PostRevocation sig rvk)
  show ?thesis unfolding PostRevocation handle.simps postRevocation_def
    by (rule rated_store [OF surjective_pairing]) (auto simp: bindE_eq_Inr dest!: resolver_calls(5) split: sum.split_asm if_split_asm)
next
  case (PostRotation sig rvk)
  show ?thesis unfolding PostRotation handle.simps postRotation_def
    by (rule rated_store [OF surjective_pairing]) (auto simp: bindE_eq_Inr dest!: resolver_calls(5) split: sum.split_asm if_split_asm)
next
  case (PostCommitment ev)
  show ?thesis unfolding PostCommitment handle.simps postCommitment_def
    by (rule rated_store [OF surjective_pairing]) (auto dest: resolver_calls split: sum.split_asm)
next
  case (PostReceipt rc)
  show ?thesis unfolding PostReceipt handle.simps postReceipt_def
    by (rule rated_store [OF surjective_pairing]) (auto simp: bindE_eq_Inr dest: resolver_calls split: sum.split_asm prod.split_asm)
next
  case (PostAttestation key att)
  show ?thesis unfolding PostAttestation handle.simps postAttestation_def
    by (rule rated_store [OF surjective_pairing]) (auto simp: bindE_eq_Inr dest: resolver_calls split: sum.split_asm prod.split_asm)
next
  case (PostSubmit e s)
  show ?thesis unfolding PostSubmit handle.simps postSubmit_def
    by (rule rated_store [OF surjective_pairing]) (auto dest: resolver_calls split: sum.split_asm)
qed (simp_all add: store_kept [OF surjective_pairing])

lemma serve_deadKey:
  assumes "deadKey (rs_resolver (rn_store N)) trustId keyId" "\<forall>(t, ip, rq) \<in> set requests. \<forall>d. rq = PostIdentity d \<longrightarrow> idd_id d \<noteq> trustId"
  shows "deadKey (rs_resolver (rn_store (serve D G N requests))) trustId keyId"
  using assms(2)
proof (induction requests rule: rev_induct)
  case (snoc x requests)
  obtain t ip rq where x: "x = (t, ip, rq)" by (metis prod_cases3)
  have "deadKey (rs_resolver (rn_store (serve D G N requests))) trustId keyId" using snoc by auto
  then show ?case using handle_identity [of rq "serve D G N requests" D G t ip] snoc.prems deadKey_revokeKey deadKey_upsert by (auto simp: x identityMove_def)
qed (simp add: assms(1))

text \<open>A revocation that is answered with success kills the key.\<close>

lemma postRevocation_kills:
  assumes "postRevocation E G N ip sig rvk = (Sent v, M)" "\<forall>key. keyIn (rs_resolver (rn_store N)) (rev_trust_id rvk) (rev_revoked_key rvk) = Some key \<longrightarrow> vm_revoked_at key = None"
  shows "deadKey (rs_resolver (rn_store M)) (rev_trust_id rvk) (rev_revoked_key rvk)"
proof -
  obtain S where S: "recordRevoked E (rn_store N) rvk = Inr S" "rn_store M = S"
    using assms(1) by (auto simp: postRevocation_def rated_def sendRelayError_def bindE_eq_Inr split: prod.splits if_split_asm sum.split_asm)
  then show ?thesis using assms(2) resolver_calls(5) [OF S(1)] by (auto simp: deadKey_def keyIn_memory memory.keyOf_revoke)
qed


section \<open>The rate limiter over time\<close>

text \<open>The calls for one key, at given times: which of them pass. The bucket of a key depends on the calls for this key only.\<close>

fun passes :: "rateBucket option \<Rightarrow> int \<Rightarrow> int \<Rightarrow> int list \<Rightarrow> int list" where
  "passes b limit windowMs [] = []"
| "passes b limit windowMs (t # ts) =
     (case b of
        Some c \<Rightarrow> if rb_resetAt c \<le> t then t # passes (Some \<lparr>rb_count = 1, rb_resetAt = t + windowMs\<rparr>) limit windowMs ts
          else (if rb_count c + 1 \<le> limit then [t] else []) @ passes (Some (c\<lparr>rb_count := rb_count c + 1\<rparr>)) limit windowMs ts
      | None \<Rightarrow> t # passes (Some \<lparr>rb_count = 1, rb_resetAt = t + windowMs\<rparr>) limit windowMs ts)"

fun rateRun :: "(string \<times> rateBucket) list \<Rightarrow> int \<Rightarrow> int \<Rightarrow> (string \<times> int) list \<Rightarrow> (string \<times> int) list" where
  "rateRun buckets limit windowMs [] = []"
| "rateRun buckets limit windowMs ((key, t) # calls) =
     (let (ok, bs) = rateCheck buckets t key limit windowMs in (if ok then [(key, t)] else []) @ rateRun bs limit windowMs calls)"

lemma rateRun_key:
  "map snd (filter (\<lambda>c. fst c = key) (rateRun buckets limit w calls)) = passes (map_of buckets key) limit w (map snd (filter (\<lambda>c. fst c = key) calls))"
proof (induction buckets limit w calls rule: rateRun.induct)
  case (2 buckets limit w k t calls)
  then show ?case by (cases "map_of buckets k") (auto simp: rateCheck_def)
qed simp

definition inWindow :: "int \<Rightarrow> int \<Rightarrow> int list \<Rightarrow> int" where
  "inWindow a b ts = int (length (filter (\<lambda>t. a \<le> t \<and> t < b) ts))"

lemma inWindow_simps [simp]:
  "inWindow a b [] = 0" "inWindow a b (t # ts) = (if a \<le> t \<and> t < b then 1 else 0) + inWindow a b ts"
  by (simp_all add: inWindow_def)

lemma inWindow_late: "\<forall>t \<in> set ts. b \<le> t \<Longrightarrow> inWindow a b ts = 0"
  by (auto simp: inWindow_def filter_empty_conv)

lemma inWindow_mono: "b \<le> b' \<Longrightarrow> inWindow a b ts \<le> inWindow a b' ts"
  by (induction ts) auto

lemma passes_subset: "set (passes b limit w ts) \<subseteq> set ts"
  by (induction b limit w ts rule: passes.induct) (auto split: option.splits if_split_asm)

text \<open>Until its window ends, a bucket lets pass what its count leaves of the limit.\<close>

lemma passes_open:
  assumes "sorted ts"
  shows "inWindow a (rb_resetAt c) (passes (Some c) limit w ts) \<le> max 0 (limit - rb_count c)"
  using assms
proof (induction ts arbitrary: c)
  case (Cons t ts)
  show ?case
  proof (cases "rb_resetAt c \<le> t")
    case True
    have "\<forall>u \<in> set (passes (Some c) limit w (t # ts)). rb_resetAt c \<le> u" using True Cons.prems passes_subset [of "Some c" limit w "t # ts"] by fastforce
    then show ?thesis by (simp add: inWindow_late del: passes.simps)
  next
    case False
    then show ?thesis using Cons.IH [of "c\<lparr>rb_count := rb_count c + 1\<rparr>"] Cons.prems by auto
  qed
qed simp

text \<open>A window that opens within an interval of the same length covers the rest of it.\<close>

lemma passes_fresh:
  assumes "sorted (t # ts)" "a \<le> t" "1 \<le> limit"
  shows "inWindow a (a + w) (t # passes (Some \<lparr>rb_count = 1, rb_resetAt = t + w\<rparr>) limit w ts) \<le> limit"
  using passes_open [of ts a "\<lparr>rb_count = 1, rb_resetAt = t + w\<rparr>" limit w]
    inWindow_mono [of "a + w" "t + w" a "passes (Some \<lparr>rb_count = 1, rb_resetAt = t + w\<rparr>) limit w ts"] assms by simp

lemma passes_from:
  assumes "sorted ts" "\<forall>t \<in> set ts. a \<le> t" "1 \<le> limit"
  shows "inWindow a (a + w) (passes (Some c) limit w ts) \<le> max 0 (limit - rb_count c) + limit"
  using assms(1,2)
proof (induction ts arbitrary: c)
  case (Cons t ts)
  show ?case
  proof (cases "rb_resetAt c \<le> t")
    case True
    then show ?thesis using passes_fresh [OF Cons.prems(1), of a limit w] Cons.prems(2) assms(3) by simp
  next
    case False
    then show ?thesis using Cons.IH [of "c\<lparr>rb_count := rb_count c + 1\<rparr>"] Cons.prems by auto
  qed
qed (use assms(3) in simp)

lemma passes_any:
  assumes "sorted ts" "1 \<le> limit" "\<forall>c. b = Some c \<longrightarrow> 1 \<le> rb_count c"
  shows "inWindow a (a + w) (passes b limit w ts) \<le> 2 * limit - 1"
  using assms(1,3)
proof (induction ts arbitrary: b)
  case (Cons t ts)
  show ?case
  proof (cases "a \<le> t")
    case True
    then have late: "\<forall>u \<in> set (t # ts). a \<le> u" using Cons.prems(1) by fastforce
    show ?thesis
    proof (cases b)
      case None
      then show ?thesis using passes_fresh [OF Cons.prems(1) True assms(2), of w] assms(2) by simp
    next
      case (Some c)
      then show ?thesis using passes_from [OF Cons.prems(1) late assms(2), of w c] Cons.prems(2) assms(2) by auto
    qed
  next
    case False
    let ?fresh = "\<lparr>rb_count = 1, rb_resetAt = t + w\<rparr>"
    define c' where "c' = (case b of None \<Rightarrow> ?fresh | Some c \<Rightarrow> if rb_resetAt c \<le> t then ?fresh else c\<lparr>rb_count := rb_count c + 1\<rparr>)"
    have "inWindow a (a + w) (passes b limit w (t # ts)) = inWindow a (a + w) (passes (Some c') limit w ts)" "1 \<le> rb_count c'"
      using False Cons.prems(2) by (auto simp: c'_def split: option.split)
    then show ?thesis using Cons.IH [of "Some c'"] Cons.prems(1) by simp
  qed
qed (use assms(2) in simp)

section \<open>Properties\<close>

text \<open>
  C22: The rate limiter: with calls at increasing times, at most \<open>2 * limit - 1\<close> calls for one key pass within any interval of the length of the window, whatever is
  called for other keys.
\<close>

theorem rateLimiter_bound:
  assumes "sorted (map snd calls)" "1 \<le> limit"
  shows "inWindow a (a + windowMs) (map snd (filter (\<lambda>c. fst c = key) (rateRun [] limit windowMs calls))) \<le> 2 * limit - 1"
proof -
  have "sorted (map snd (filter (\<lambda>c. fst c = key) calls))" using assms(1) by (rule sorted_filter)
  then show ?thesis unfolding rateRun_key using assms(2) by (intro passes_any) simp_all
qed

theorem rateLimiter_bound_witness:
  "inWindow 0 60 (map snd (filter (\<lambda>c. fst c = ''x'') (rateRun [] 2 60 [(''x'', 0), (''y'', 1), (''x'', 2), (''x'', 3)]))) \<le> 3"
  using rateLimiter_bound [of "[(''x'', 0), (''y'', 1), (''x'', 2), (''x'', 3)]" 2 0 60 "''x''"] by simp



section \<open>A concrete node\<close>

definition noRegistry :: registryCalls where
  "noRegistry = \<lparr>rg_registerIdentity = None, rg_recordRevocation = None, rg_revokeIdentityKey = None, rg_rotateIdentityKey = None\<rparr>"

definition tailRevocationUnsigned :: RevocationUnsignedV1 where
  "tailRevocationUnsigned = \<lparr>rev_type = ''tsl.revocation.v1'', rev_trust_id = ''tsl:alice'', rev_revoked_key = ''#key-1'', rev_replacement_key = None,
     rev_reason_class = ''compromise'', rev_effective_at = ''2026-01-01T00:00:00.000Z''\<rparr>"

definition tailRevocationBytes :: bytes where
  "tailRevocationBytes = projr (hexToBytes tailEnv (projr (revocationHash tailEnv (RevocationUnsignedV1_obj tailRevocationUnsigned))))"

definition tailRevocation :: RevocationV1 where
  "tailRevocation = RevocationUnsignedV1.extend tailRevocationUnsigned (RevocationV1.fields (bytesToHex tailEnv (tailRevocationBytes @ keyOf True)))"

lemma tailRevocation_sel [simp]:
  "rev_trust_id tailRevocation = ''tsl:alice''" "rev_revoked_key tailRevocation = ''#key-1''" "rev_effective_at tailRevocation = ''2026-01-01T00:00:00.000Z''"
  "rev_signature tailRevocation = bytesToHex tailEnv (tailRevocationBytes @ keyOf True)" "RevocationUnsignedV1.truncate tailRevocation = tailRevocationUnsigned"
  by (simp_all add: tailRevocation_def tailRevocationUnsigned_def RevocationUnsignedV1.defs RevocationV1.defs)

lemma tailRevocation_hash:
  "\<exists>h. revocationHash tailEnv (RevocationV1_obj tailRevocation) = Inr h \<and> hexToBytes tailEnv h = Inr tailRevocationBytes"
proof -
  have "jsonSafe (JObj (RevocationUnsignedV1_obj tailRevocationUnsigned))" by (simp add: RevocationUnsignedV1_obj_def tailRevocationUnsigned_def optField_def)
  then obtain h where h: "revocationHash tailEnv (RevocationUnsignedV1_obj tailRevocationUnsigned) = Inr h"
    using revocation.hash_Inr canonicalBytes_total by blast
  then obtain x where "hexToBytes tailEnv h = Inr x" using hexToBytes_hashDomain [OF tail_hyps(1)] by (auto simp: revocationHash_def domainHash_Inr)
  then show ?thesis using h by (simp add: revocation.hash_ignores_signature tailRevocationBytes_def)
qed

lemma tail_alice: "tailReady S \<Longrightarrow> memoryResolve (rs_resolver S) ''tsl:alice'' = Some (tailDocument True)"
  unfolding tailReady_def by (elim conjE allE [of _ True]) (simp add: nameOf_def)

lemma tail_revocation_accepted:
  assumes "tailReady S" "rs_closedSegments S = []"
  shows "\<exists>v M. handle tailDeps noRegistry (newNode S) tailEpoch ip (PostRevocation None tailRevocation) = (Sent v, M)"
proof -
  obtain h where h: "revocationHash tailEnv (RevocationV1_obj tailRevocation) = Inr h" "hexToBytes tailEnv h = Inr tailRevocationBytes" using tailRevocation_hash by blast
  have sig: "verifyEd25519 tailEnv (nobleBytesToHex tailEnv (keyOf True)) (DText h) (rev_signature tailRevocation) = Inr True"
    by (simp add: verifyEd25519_def messageBytes_def h hexToBytes_bytesToHex [OF tail_hyps(1)]) (simp add: tailEnv_def)
  note res = tail_alice [OF assms(1)]
  obtain c where c: "revocationCommitmentHash tailEnv tailRevocation = Inr c"
    by (auto simp: revocationCommitmentHash_def h commitmentHashFromParts_def hexToBytes_bytesToHex [OF tail_hyps(1)])
  have g: "revocationGuards tailEnv M tailRevocation = Inr c" if "rn_store M = S" for M
    using assms(1) by (simp add: revocationGuards_def assertTimestampInWindow_def storeResolver_def memoryResolverFn_def that res c h(1) tail_facts tailReady_def
        findVerificationMethod_def tailDocument_def assertKeySigned_def sig del: tailRevocation_sel(4))
  obtain T where "recordRevoked tailEnv S tailRevocation = Inr T"
    using assms by (auto simp: recordRevoked_def acceptRevocation_def acceptLogObject_def h(1) tail_facts tailReady_def)
  then show ?thesis
    by (simp add: tailDeps_at postRevocation_def rated_def checkRate_def rateCheck_def newNode_def g tail_facts noRegistry_def callOptional_def answer_def)
qed



section \<open>What requests can do without a signature\<close>

text \<open>\<^verbatim>\<open>/v1/identity/create\<close> replaces the document of an identity that exists, without a proof of control: its keys and their revocations are gone.\<close>

lemma identity_create_replaces:
  assumes "fst (checkRate E N ip ''identity_create'' 100 hour)" "sv_valid (validateSchema E ''identity'' (JObj (IdentityDocumentV1_obj d)))"
  shows "memoryResolve (rs_resolver (rn_store (snd (postIdentity E G N ip d)))) (idd_id d) = Some d"
  using assms by (auto simp: postIdentity_def rated_def relayUpsertIdentity_def memory.resolve_upsert split: prod.split)

text \<open>\<^verbatim>\<open>/v1/verify\<close> asks the identity of the bundle before the store: what the relay knows of the sender, revocations included, is not consulted.\<close>

lemma request_identity_wins: "requestResolver N [d] (idd_id d) at_time = Inr (Some d)"
  by (simp add: requestResolver_def memoryResolverFn_def newMemoryResolver_def memory.resolve_upsert)

text \<open>The \<^verbatim>\<open>receipt_hash\<close> of the reply to a receipt is not the leaf under which the store has logged the receipt, unless SHA-256 has a collision.\<close>

lemma receipt_reply_is_no_leaf:
  assumes E: "hex_codec E" and reply: "postReceipt E N ip rc = (Sent v, M)"
  shows "\<exists>c h a. v = loggedReply ''receipt_hash'' c (rn_store M) (epochStart (dateParse E (rc_timestamp rc)) (rs_epoch_duration_ms (rn_store M)))
     \<and> map_of (rs_receipts (rn_store M)) h = Some a \<and> receiptHash E (ReceiptCommitmentV1_obj rc) = Inr h
     \<and> (c = h \<longrightarrow> (\<exists>x y. sha256_collision E {domainInput COMMITMENT_V1 x} {domainInput RECEIPT_V1 y}))"
proof -
  obtain ok N' where N': "checkRate E N ip ''receipts'' 10000 hour = (ok, N')" by fastforce
  have "ok" using reply by (cases ok) (simp_all add: postReceipt_def rated_def N' sendRelayError_def split: if_split_asm)
  then obtain c b S where p: "receiptGuards E N' rc = Inr c" "acceptReceipt E (rn_store N') rc = Inr (b, S)" "rn_store M = S"
     "v = loggedReply ''receipt_hash'' c S (epochStart (dateParse E (rc_timestamp rc)) (rs_epoch_duration_ms S))"
    using reply by (auto simp: postReceipt_def rated_def N' sendRelayError_def bindE_eq_Inr split: if_split_asm sum.split_asm)
  obtain h where h: "receiptHash E (ReceiptCommitmentV1_obj rc) = Inr h" "map_of (rs_receipts S) h = Some b" using p(2) by (auto simp: acceptReceipt_def bindE_eq_Inr)
  have "receiptCommitmentHash E rc = Inr c" using p(1) by (auto simp: receiptGuards_def bindE_eq_Inr split: if_split_asm)
  then obtain x where x: "c = hashDomain E COMMITMENT_V1 (DBytes x)" by (auto simp: receiptCommitmentHash_def commitmentHashFromParts_def bindE_eq_Inr)
  obtain y where y: "h = hashDomain E RECEIPT_V1 (DBytes y)" using h(1) by (auto simp: receiptHash_def domainHash_Inr)
  have "c = h \<longrightarrow> sha256_collision E {domainInput COMMITMENT_V1 x} {domainInput RECEIPT_V1 y}"
    using hashDomain_binding [OF E, of COMMITMENT_V1 RECEIPT_V1 x y] x y by (simp add: tag_defs)
  then show ?thesis using p(3,4) h by blast
qed

end
