(* ===== verification/Auditor.thy ===== *)
theory Auditor
  imports Gossip RelayNode
begin

text \<open>
  The auditor service (\<^verbatim>\<open>src/services/auditor-node/src/index.ts\<close>) without a database and a queue, and the verifier service
  (\<^verbatim>\<open>src/services/verifier-api/src/index.ts\<close>) without a database.

  The settlement backend is the one of the verifier. \<open>fetch\<close> stands for the request to a peer: an error, no findings (a status other than success), or the
  list of findings of the peer. A handler returns the reply and the new state.
\<close>

section \<open>State\<close>

record auditorNode =
  an_findings :: "AuditFindingV1 list"
  an_peers :: "string list"

record auditorDeps =
  ad_env :: env
  ad_net :: net
  ad_readFile :: "string \<Rightarrow> string res"
  ad_settlement :: "SettlementBackend option"

definition newAuditor :: "auditorDeps \<Rightarrow> auditorNode res" where
  "newAuditor A = bindE (initialGossipPeers (ad_env A) (ad_net A)) (\<lambda>peers. Inr \<lparr>an_findings = [], an_peers = peers\<rparr>)"

definition rememberFinding :: "auditorNode \<Rightarrow> AuditFindingV1 \<Rightarrow> auditorNode" where
  "rememberFinding N finding = N\<lparr>an_findings := an_findings N @ [finding]\<rparr>"

section \<open>Signed findings\<close>

record findingInput =
  fd_checkpoint_hash :: "string option"
  fd_epoch_start_ms :: "int option"
  fd_shard :: "string option"
  fd_finding_class :: string
  fd_severity :: string
  fd_evidence_commitment :: string

definition unsignedFinding :: "env \<Rightarrow> findingInput \<Rightarrow> string \<Rightarrow> AuditFindingUnsignedV1" where
  "unsignedFinding E x issued_at = \<lparr>af_type = ''tsl.audit.finding.v1'', af_auditor = orElse (getenv E ''TSL_AUDITOR_ID'') ''did:tsl:auditor:local'',
     af_checkpoint_hash = fd_checkpoint_hash x, af_epoch_start_ms = fd_epoch_start_ms x, af_shard = fd_shard x, af_finding_class = fd_finding_class x,
     af_severity = fd_severity x, af_evidence_commitment = fd_evidence_commitment x, af_issued_at = issued_at\<rparr>"

definition withFindingSignature :: "AuditFindingUnsignedV1 \<Rightarrow> string \<Rightarrow> AuditFindingV1" where
  "withFindingSignature u s = AuditFindingUnsignedV1.extend u (AuditFindingV1.fields s)"

definition signedFinding :: "auditorDeps \<Rightarrow> findingInput \<Rightarrow> AuditFindingV1 res" where
  "signedFinding A x =
     (let E = ad_env A in
      bindE (toISOString (now_ms E)) (\<lambda>issued_at.
        let unsigned = unsignedFinding E x issued_at; uri = getenv E ''TSL_AUDITOR_PRIVATE_KEY_URI''; seed = getenv E ''TSL_AUDITOR_SEED_HEX'' in
        if truthyStr uri then bindE (createSigningAdapter (the uri)) (\<lambda>adapter. bindE (auditFindingHash E (AuditFindingUnsignedV1_obj unsigned)) (\<lambda>h.
          bindE (adapterSign E (ad_readFile A) adapter (DText h)) (\<lambda>s. Inr (withFindingSignature unsigned s))))
        else if \<not> truthyStr seed then Inl ''TSL_AUDITOR_PRIVATE_KEY_URI or TSL_AUDITOR_SEED_HEX is required to sign audit findings''
        else signAuditFinding E unsigned (the seed)))"

section \<open>Handlers\<close>

definition postAuditCheckpoint :: "auditorDeps \<Rightarrow> auditorNode \<Rightarrow> BatchCheckpointV1 \<Rightarrow> string option \<Rightarrow> string option \<Rightarrow> nodeReply \<times> auditorNode" where
  "postAuditCheckpoint A N checkpoint checkpoint_hash evidence_commitment =
     (case bindE (case ad_settlement A of
               Some B \<Rightarrow> bindE (sb_verifyCheckpointSettlement B checkpoint) (\<lambda>r. Inr (svr_settled r, svr_error r))
             | None \<Rightarrow> Inr (False, Some ''TSL_SETTLEMENT_BACKEND_MISSING'')) (\<lambda>(settled, error).
           bindE (case checkpoint_hash of Some h \<Rightarrow> Inr h | None \<Rightarrow> checkpointHash (ad_env A) checkpoint) (\<lambda>h.
           bindE (signedFinding A \<lparr>fd_checkpoint_hash = Some h, fd_epoch_start_ms = Some (bc_epoch_start_ms checkpoint), fd_shard = Some (bc_shard checkpoint),
              fd_finding_class = (if settled then ''checkpoint_valid'' else if error = Some ''TSL_SETTLEMENT_MISMATCH'' then ''settlement_mismatch'' else ''settlement_missing''),
              fd_severity = (if settled then ''info'' else ''warning''), fd_evidence_commitment = orElse evidence_commitment ZERO_HASH\<rparr>) (\<lambda>finding.
             Inr (settled, finding)))) of
        Inl _ \<Rightarrow> (Rejected 400 ''TSL_AUDIT_FAILED'', N)
      | Inr (settled, finding) \<Rightarrow>
          (Sent (JObj [(''status'', JStr (if settled then ''accepted'' else ''rejected'')), (''finding'', JObj (AuditFindingV1_obj finding))]), rememberFinding N finding))"

definition postAuditConflict :: "auditorDeps \<Rightarrow> auditorNode \<Rightarrow> string option \<Rightarrow> int option \<Rightarrow> string option \<Rightarrow> string option \<Rightarrow> nodeReply \<times> auditorNode" where
  "postAuditConflict A N checkpoint_hash epoch_start_ms shard evidence_commitment =
     (case signedFinding A \<lparr>fd_checkpoint_hash = checkpoint_hash, fd_epoch_start_ms = epoch_start_ms, fd_shard = shard, fd_finding_class = ''checkpoint_conflict'',
        fd_severity = ''critical'', fd_evidence_commitment = orElse evidence_commitment ZERO_HASH\<rparr> of
        Inl _ \<Rightarrow> (Rejected 400 ''TSL_AUDIT_CONFLICT_FAILED'', N)
      | Inr finding \<Rightarrow> (Sent (JObj [(''status'', JStr ''accepted''), (''finding'', JObj (AuditFindingV1_obj finding))]), rememberFinding N finding))"

definition postGossipFinding :: "auditorNode \<Rightarrow> AuditFindingV1 \<Rightarrow> nodeReply \<times> auditorNode" where
  "postGossipFinding N finding = (Sent (JObj [(''status'', JStr ''accepted'')]), rememberFinding N finding)"

definition getFindings :: "auditorNode \<Rightarrow> nodeReply" where
  "getFindings N = Sent (JObj [(''findings'', JArr (map (\<lambda>f. JObj (AuditFindingV1_obj f)) (an_findings N)))])"

definition gossipStatus :: "string \<Rightarrow> int" where
  "gossipStatus code = (if code \<in> {''TSL_GOSSIP_PEER_NOT_REGISTERED'', ''TSL_GOSSIP_DYNAMIC_PEERS_DISABLED''} then 403 else 400)"

definition postPeers :: "auditorDeps \<Rightarrow> auditorNode \<Rightarrow> jsval \<Rightarrow> nodeReply \<times> auditorNode" where
  "postPeers A N peerUrl =
     (case (if jsTruthy peerUrl then bindE (registerRequestedGossipPeer (ad_env A) (ad_net A) peerUrl) (\<lambda>p. Inr (if p \<in> set (an_peers N) then an_peers N else an_peers N @ [p])) else Inr (an_peers N)) of
        Inl code \<Rightarrow> (Rejected (gossipStatus code) code, N)
      | Inr peers \<Rightarrow> (Sent (JObj [(''status'', JStr ''accepted''), (''peers'', JArr (map JStr peers))]), N\<lparr>an_peers := peers\<rparr>))"

text \<open>The loop over the peers: the findings of those that answer, the addresses that were fetched, and whether it ended without an error.\<close>

fun syncPeers :: "auditorDeps \<Rightarrow> (string \<times> string \<Rightarrow> AuditFindingV1 list option res) \<Rightarrow> auditorNode \<Rightarrow> string list \<Rightarrow> bool \<times> (string \<times> string) list \<times> auditorNode" where
  "syncPeers A fetch N [] = (True, [], N)"
| "syncPeers A fetch N (p # ps) =
     (case buildGossipUrl (ad_env A) (ad_net A) p ''/v1/gossip/audit-findings'' of
        Inl _ \<Rightarrow> (False, [], N)
      | Inr u \<Rightarrow>
          (case fetch u of
             Inl _ \<Rightarrow> (False, [u], N)
           | Inr found \<Rightarrow>
               let (ok, us, M) = syncPeers A fetch (foldl rememberFinding N (orElse found [])) ps in (ok, u # us, M)))"

definition postSync :: "auditorDeps \<Rightarrow> (string \<times> string \<Rightarrow> AuditFindingV1 list option res) \<Rightarrow> auditorNode \<Rightarrow> jsval \<Rightarrow> nodeReply \<times> (string \<times> string) list \<times> auditorNode" where
  "postSync A fetch N peerUrl =
     (case selectKnownGossipPeers (ad_env A) (ad_net A) peerUrl (an_peers N) of
        Inl _ \<Rightarrow> (Rejected 400 ''TSL_GOSSIP_SYNC_FAILED'', [], N)
      | Inr peers \<Rightarrow>
          let (ok, us, M) = syncPeers A fetch N peers in
          (if ok then Sent (JObj [(''status'', JStr ''accepted''), (''peers'', JArr (map JStr peers)),
              (''imported_findings'', JNum (JInt (int (length (an_findings M)) - int (length (an_findings N)))))])
           else Rejected 400 ''TSL_GOSSIP_SYNC_FAILED'', us, M))"

section \<open>The verifier service\<close>

record verifyBody =
  vb_input :: VerifyTSLInput
  vb_identity :: "IdentityDocumentV1 option"
  vb_identity_document :: "IdentityDocumentV1 option"
  vb_identities :: "IdentityDocumentV1 list"
  vb_policy :: "VerifierPolicy option"

definition bodyIdentities :: "verifyBody \<Rightarrow> IdentityDocumentV1 list" where
  "bodyIdentities b = (case vi_proof_bundle (vb_input b) of None \<Rightarrow> [] | Some p \<Rightarrow> [pb_identity p]) @ List.map_filter id [vb_identity b, vb_identity_document b] @ vb_identities b"

definition apiVerify :: "'g verifierDeps \<Rightarrow> verifyBody \<Rightarrow> VerificationResult res" where
  "apiVerify D b =
     (let inp = verifyInputOf (vb_input b) in
      verifyTSL (D\<lparr>vd_resolver := memoryResolverFn (newMemoryResolver (bodyIdentities b))\<rparr>) inp (orElse (vb_policy b) (defaultVerifyPolicy inp)))"

definition apiStatus :: "VerificationResult res \<Rightarrow> int" where
  "apiStatus r = (case r of Inl _ \<Rightarrow> 400 | Inr v \<Rightarrow> if vr_verified v then 200 else 422)"

section \<open>Properties\<close>

text \<open>What the URL standard says of origins: the origin of a web address is itself an address with the same origin, scheme and host and nothing else.\<close>

definition origin_stable :: "net \<Rightarrow> bool" where
  "origin_stable H \<longleftrightarrow> (\<forall>s u. n_parseUrl H s = Some u \<and> u_protocol u \<in> {''http:'', ''https:''} \<longrightarrow>
     (\<exists>v. n_parseUrl H (u_origin u) = Some v \<and> u_origin v = u_origin u \<and> u_protocol v = u_protocol u \<and> u_hostname v = u_hostname u))"

lemma origin_parses:
  assumes "origin_stable H" "n_parseUrl H s = Some u" "u_protocol u \<in> {''http:'', ''https:''}"
  shows "\<exists>v. n_parseUrl H (u_origin u) = Some v \<and> u_origin v = u_origin u \<and> u_protocol v = u_protocol u \<and> u_hostname v = u_hostname u"
  using assms unfolding origin_stable_def by blast

lemma peerOk_origin:
  assumes "origin_stable H" "peerOk E H peer p" "n_parseUrl H p = Some w"
  shows "u_origin w = p \<and> u_protocol w \<in> {''http:'', ''https:''}"
proof -
  obtain u where u: "n_parseUrl H peer = Some u" "u_origin u = p" "u_protocol u \<in> {''http:'', ''https:''}" using assms(2) by (auto simp: peerOk_def)
  then show ?thesis using origin_parses [OF assms(1) u(1,3)] assms(3) by auto
qed

lemma buildGossipUrl_known:
  assumes stable: "origin_stable H" and peer: "peerOk E H peer p" and build: "buildGossipUrl E H p path = Inr (o', path')"
  shows "o' = p"
proof -
  obtain q u where q: "normalizeGossipPeerUrl H (allowPrivateGossipPeers E) (JStr p) = Inr q" "n_parseUrl H q = Some u" "o' = u_origin u"
    using build by (auto simp: buildGossipUrl_def bindE_eq_Inr split: option.split_asm)
  obtain w where w: "n_parseUrl H p = Some w" "u_origin w = q" using normalize_ok [OF q(1)] by (auto simp: peerOk_def)
  have "q = p" using peerOk_origin [OF stable peer w(1)] w(2) by simp
  then show ?thesis using peerOk_origin [OF stable peer] q(2,3) by simp
qed

lemma syncPeers_fetches:
  assumes "origin_stable (ad_net A)" "syncPeers A fetch N ps = (ok, us, M)" "u \<in> set us" "\<forall>p \<in> set ps. \<exists>peer \<in> K. peerOk (ad_env A) (ad_net A) peer p"
  shows "\<exists>peer \<in> K. peerOk (ad_env A) (ad_net A) peer (fst u)"
  using assms(2,3,4)
proof (induction ps arbitrary: N ok us M)
  case (Cons p ps)
  obtain peer where peer: "peer \<in> K" "peerOk (ad_env A) (ad_net A) peer p" using Cons.prems(3) by auto
  show ?case
  proof (cases "buildGossipUrl (ad_env A) (ad_net A) p ''/v1/gossip/audit-findings''")
    case (Inl e)
    then show ?thesis using Cons.prems by simp
  next
    case (Inr v)
    then have "fst v = p" using buildGossipUrl_known [OF assms(1) peer(2)] by (cases v) simp
    then have here: ?thesis if "u = v" using peer that by auto
    obtain rs ok' M' where "us = v # rs" "rs = [] \<or> (\<exists>N'. syncPeers A fetch N' ps = (ok', rs, M'))"
      using Cons.prems(1) Inr by (auto split: sum.split_asm prod.split_asm)
    then show ?thesis using here Cons.IH [of _ ok' rs M'] Cons.prems(2,3) by auto
  qed
qed simp


lemma signedFinding_seed:
  assumes E: "hex_codec (ad_env A)" "ed25519_correct (ad_env A)" and seed: "getenv (ad_env A) ''TSL_AUDITOR_SEED_HEX'' = Some seedHex"
     "hexToBytes (ad_env A) seedHex = Inr seed" "length seed = 32" and uri: "getenv (ad_env A) ''TSL_AUDITOR_PRIVATE_KEY_URI'' = None"
    and f: "signedFinding A x = Inr f"
  shows "\<exists>pk h. deriveEd25519PublicKey (ad_env A) seedHex = Inr pk \<and> auditFindingHash (ad_env A) (AuditFindingV1_obj f) = Inr h
     \<and> verifyEd25519 (ad_env A) pk (DText h) (af_signature f) = Inr True \<and> af_finding_class f = fd_finding_class x \<and> af_checkpoint_hash f = fd_checkpoint_hash x
     \<and> af_severity f = fd_severity x"
proof -
  let ?E = "ad_env A"
  obtain t h s where s: "auditFindingHash ?E (AuditFindingUnsignedV1_obj (unsignedFinding ?E x t)) = Inr h" "signEd25519 ?E (DText h) seedHex = Inr s"
     "f = AuditFindingUnsignedV1.extend (unsignedFinding ?E x t) (AuditFindingV1.fields s)"
    using f seed(1) uri by (auto simp: signedFinding_def signAuditFinding_def truthyStr_def Let_def bindE_eq_Inr split: if_split_asm)
  obtain pk where pk: "deriveEd25519PublicKey ?E seedHex = Inr pk" "verifyEd25519 ?E pk (DText h) s = Inr True"
    using seed_signs_domainHash [OF E seed(2,3) s(1) [unfolded auditFindingHash_def]] s(2) by auto
  have sel: "af_signature f = s" "af_finding_class f = fd_finding_class x" "af_checkpoint_hash f = fd_checkpoint_hash x" "af_severity f = fd_severity x"
    by (simp_all add: s(3) unsignedFinding_def AuditFindingUnsignedV1.defs AuditFindingV1.defs)
  have "unsignedPayload (AuditFindingV1_obj f) = unsignedPayload (AuditFindingUnsignedV1_obj (unsignedFinding ?E x t))"
    by (simp add: AuditFindingV1_obj_def AuditFindingUnsignedV1_obj_def s(3) unsignedFinding_def AuditFindingUnsignedV1.defs AuditFindingV1.defs
        unsignedPayload_def withoutSignature_def withoutField_def optField_def split: option.split)
  then show ?thesis using pk s(1) sel by (simp add: auditFindingHash_def)
qed

text \<open>
  The findings of the auditor: with a seed configured, a successful audit appends one finding, signed by the key of the seed, and it declares the checkpoint valid exactly if
  the settlement backend reports it as settled.
\<close>

theorem auditor_checkpoint_valid:
  assumes E: "hex_codec (ad_env A)" "ed25519_correct (ad_env A)" and seed: "getenv (ad_env A) ''TSL_AUDITOR_SEED_HEX'' = Some seedHex"
     "hexToBytes (ad_env A) seedHex = Inr seed" "length seed = 32" and uri: "getenv (ad_env A) ''TSL_AUDITOR_PRIVATE_KEY_URI'' = None"
    and reply: "postAuditCheckpoint A N c checkpoint_hash evidence = (Sent v, M)"
  shows "\<exists>f pk h. an_findings M = an_findings N @ [f] \<and> deriveEd25519PublicKey (ad_env A) seedHex = Inr pk \<and> auditFindingHash (ad_env A) (AuditFindingV1_obj f) = Inr h
     \<and> verifyEd25519 (ad_env A) pk (DText h) (af_signature f) = Inr True
     \<and> (af_finding_class f = ''checkpoint_valid'' \<longleftrightarrow> (\<exists>B r. ad_settlement A = Some B \<and> sb_verifyCheckpointSettlement B c = Inr r \<and> svr_settled r))
     \<and> (checkpoint_hash = None \<longrightarrow> (\<exists>k. af_checkpoint_hash f = Some k \<and> checkpointHash (ad_env A) c = Inr k))"
proof -
  obtain settled error k f where p: "(case ad_settlement A of Some B \<Rightarrow> bindE (sb_verifyCheckpointSettlement B c) (\<lambda>r. Inr (svr_settled r, svr_error r))
        | None \<Rightarrow> Inr (False, Some ''TSL_SETTLEMENT_BACKEND_MISSING'')) = Inr (settled, error)"
     "(case checkpoint_hash of Some h \<Rightarrow> Inr h | None \<Rightarrow> checkpointHash (ad_env A) c) = Inr k" "M = rememberFinding N f"
     "signedFinding A \<lparr>fd_checkpoint_hash = Some k, fd_epoch_start_ms = Some (bc_epoch_start_ms c), fd_shard = Some (bc_shard c),
        fd_finding_class = (if settled then ''checkpoint_valid'' else if error = Some ''TSL_SETTLEMENT_MISMATCH'' then ''settlement_mismatch'' else ''settlement_missing''),
        fd_severity = (if settled then ''info'' else ''warning''), fd_evidence_commitment = orElse evidence ZERO_HASH\<rparr> = Inr f"
    using reply unfolding postAuditCheckpoint_def by (auto simp: bindE_eq_Inr split: sum.split_asm prod.split_asm)
  have "settled \<longleftrightarrow> (\<exists>B r. ad_settlement A = Some B \<and> sb_verifyCheckpointSettlement B c = Inr r \<and> svr_settled r)"
    using p(1) by (auto simp: bindE_eq_Inr split: option.split_asm)
  then show ?thesis using signedFinding_seed [OF E seed uri p(4)] p(2,3) by (auto simp: rememberFinding_def split: option.split_asm)
qed

section \<open>What requests make the auditor sign\<close>

text \<open>The hash that a finding names is the one of the request: a settled checkpoint gives a valid finding for any other hash.\<close>

lemma auditor_names_given_hash:
  assumes "postAuditCheckpoint A N c (Some k) evidence = (Sent v, M)"
  shows "\<exists>f. an_findings M = an_findings N @ [f] \<and> af_checkpoint_hash f = Some k"
  using assms unfolding postAuditCheckpoint_def
  by (auto simp: bindE_eq_Inr rememberFinding_def signedFinding_def signAuditFinding_def withFindingSignature_def unsignedFinding_def Let_def
      AuditFindingUnsignedV1.defs AuditFindingV1.defs split: sum.split_asm prod.split_asm if_split_asm)

text \<open>A critical finding against any checkpoint is signed on request, without evidence; and findings from peers are recorded unseen.\<close>

lemma auditor_conflict_on_demand:
  assumes "postAuditConflict A N (Some k) e s evidence = (Sent v, M)"
  shows "\<exists>f. an_findings M = an_findings N @ [f] \<and> af_checkpoint_hash f = Some k \<and> af_severity f = ''critical''"
  using assms unfolding postAuditConflict_def
  by (auto simp: bindE_eq_Inr rememberFinding_def signedFinding_def signAuditFinding_def withFindingSignature_def unsignedFinding_def Let_def
      AuditFindingUnsignedV1.defs AuditFindingV1.defs split: sum.split_asm if_split_asm)

text \<open>The backend appends the names of the fields to its error, so the auditor never reports a mismatch: it signs that the settlement is missing.\<close>

lemma settlementCompare_error:
  assumes "settlementCompare E X ch B c stored = Inr r"
  shows "svr_error r \<noteq> Some ''TSL_SETTLEMENT_MISMATCH''"
  using assms unfolding settlementCompare_def Let_def by (auto simp: bindE_eq_Inr simp del: if_image_distrib split: if_split_asm)

lemma settlementAttempt_error:
  assumes "settlementAttempt E X ch B c = Inr r"
  shows "svr_error r \<noteq> Some ''TSL_SETTLEMENT_MISMATCH''"
proof -
  obtain found where "(case found of None \<Rightarrow> Inr settlementMissing
      | Some stored \<Rightarrow> if cc_submittedAt stored = 0 then Inr settlementMissing else settlementCompare E X ch B c stored) = Inr r"
    using assms by (auto simp: settlementAttempt_def bindE_eq_Inr)
  then have "r = settlementMissing \<or> (\<exists>stored. settlementCompare E X ch B c stored = Inr r)" by (cases found) (auto split: if_split_asm)
  then show ?thesis using settlementCompare_error by (auto simp: settlementMissing_def)
qed

lemma mismatch_reported_as_missing:
  assumes "ad_settlement A = Some S" "sb_verifyCheckpointSettlement S c = Inr (verifyCheckpointSettlement E X ch B c)" "settlementAttempt E X ch B c = Inr r"
    "\<not> svr_settled r" "postAuditCheckpoint A N c k evidence = (Sent v, M)"
  shows "\<exists>f. an_findings M = an_findings N @ [f] \<and> af_finding_class f = ''settlement_missing''"
  using assms settlementAttempt_error [OF assms(3)] unfolding postAuditCheckpoint_def
  by (auto simp: bindE_eq_Inr verifyCheckpointSettlement_def rememberFinding_def signedFinding_def signAuditFinding_def withFindingSignature_def unsignedFinding_def Let_def
      AuditFindingUnsignedV1.defs AuditFindingV1.defs split: sum.split_asm prod.split_asm if_split_asm)

section \<open>A concrete auditor\<close>

definition demoNet :: net where
  "demoNet = \<lparr>n_parseUrl = (\<lambda>s. if s = ''https://peer.example'' then Some \<lparr>u_protocol = ''https:'', u_username = [], u_password = [], u_search = [], u_hash = [],
     u_hostname = ''peer.example'', u_origin = ''https://peer.example''\<rparr> else None), n_isIP = (\<lambda>_. 0)\<rparr>"

definition auditorEnv :: env where
  "auditorEnv = demoEnv\<lparr>getenv := (\<lambda>v. if v = ''TSL_AUDITOR_SEED_HEX'' then Some demoSeed else None)\<rparr>"

definition demoAuditor :: auditorDeps where
  "demoAuditor = \<lparr>ad_env = auditorEnv, ad_net = demoNet, ad_readFile = Inl, ad_settlement = None\<rparr>"

lemma auditorEnv_hyps: "hex_codec auditorEnv" "ed25519_correct auditorEnv" "hexToBytes auditorEnv demoSeed = Inr (replicate 32 0x77)" "toISOString (now_ms auditorEnv) = Inr (isoOf 1767225600000)"
  using demo_hyps(1,3) demoSeed_bytes
  by (simp_all add: auditorEnv_def hex_codec_def ed25519_correct_def hexToBytes_def toISOString_def) (simp_all add: demoEnv_def)

lemma demoNet_peer: "normalizeGossipPeerUrl demoNet b (JStr ''https://peer.example'') = Inr ''https://peer.example''"
  by (simp add: normalizeGossipPeerUrl_def demoNet_def privateOrLocalHost_def bareHost_def toLowerCase_def lowerChar_def endsWith_def)


theorem auditor_checkpoint_valid_witness:
  "\<exists>v M f. postAuditCheckpoint demoAuditor \<lparr>an_findings = [], an_peers = []\<rparr> (demoCheckpoint 1000 ZERO_HASH) (Some ''0x11'') None = (Sent v, M)
     \<and> an_findings M = [f] \<and> af_finding_class f \<noteq> ''checkpoint_valid''"
proof -
  let ?x = "\<lparr>fd_checkpoint_hash = Some ''0x11'', fd_epoch_start_ms = Some (bc_epoch_start_ms (demoCheckpoint 1000 ZERO_HASH)), fd_shard = Some (bc_shard (demoCheckpoint 1000 ZERO_HASH)),
     fd_finding_class = ''settlement_missing'', fd_severity = ''warning'', fd_evidence_commitment = ZERO_HASH\<rparr>"
  let ?N = "\<lparr>an_findings = [], an_peers = []\<rparr> :: auditorNode"
  let ?u = "unsignedFinding auditorEnv ?x (isoOf 1767225600000)"
  have env: "getenv auditorEnv ''TSL_AUDITOR_SEED_HEX'' = Some demoSeed" "getenv auditorEnv ''TSL_AUDITOR_PRIVATE_KEY_URI'' = None" by (simp_all add: auditorEnv_def)
  have "isSafeInteger (bc_epoch_start_ms (demoCheckpoint 1000 ZERO_HASH))" by (simp add: isSafeInteger_def)
  then have "jsonSafe (JObj (unsignedPayload (AuditFindingUnsignedV1_obj ?u)))"
    by (simp add: AuditFindingUnsignedV1_obj_def unsignedFinding_def unsignedPayload_def withoutSignature_def withoutField_def optField_def)
  then obtain h where h: "auditFindingHash auditorEnv (AuditFindingUnsignedV1_obj ?u) = Inr h" using domainHash_defined unfolding auditFindingHash_def by blast
  obtain s where "signEd25519 auditorEnv (DText h) demoSeed = Inr s"
    using seed_signs_domainHash [OF auditorEnv_hyps(1-3) _ h [unfolded auditFindingHash_def]] by auto
  then obtain f where "signedFinding demoAuditor ?x = Inr f"
    using h auditorEnv_hyps(4) env by (auto simp: signedFinding_def demoAuditor_def signAuditFinding_def truthyStr_def demoSeed_def Let_def)
  then obtain v M where r: "postAuditCheckpoint demoAuditor ?N (demoCheckpoint 1000 ZERO_HASH) (Some ''0x11'') None = (Sent v, M)"
    by (simp add: postAuditCheckpoint_def demoAuditor_def orElse_def)
  from auditor_checkpoint_valid [OF _ _ _ _ _ _ this, of demoSeed "replicate 32 0x77"] obtain f' where "an_findings M = [f']" "af_finding_class f' \<noteq> ''checkpoint_valid''"
    using auditorEnv_hyps env by (auto simp: demoAuditor_def)
  then show ?thesis using r by blast
qed

end
