(* ===== verification/Contracts.thy ===== *)
theory Contracts
  imports Settlement
begin

text \<open>
  The registry contracts that the settlement backend calls: \<^verbatim>\<open>src/contracts/src/TrustIDRegistry.sol\<close>, \<^verbatim>\<open>RevocationRegistry.sol\<close> and
  \<^verbatim>\<open>ProviderRegistry.sol\<close>. A value of 32 bytes is its hexadecimal text in lower case, an address likewise; a mapping is a function with the zero value as
  default; a revert is \<open>Inl\<close> with the name of the error, and leaves the state alone. The hash \<^verbatim>\<open>keccak256\<close> of encoded values and the recovery of a signer are the
  record \<open>evm\<close>. Events are left out. The chain is a map from addresses to contracts, and a transaction names its time, sender and target.
\<close>

datatype solVal = SolUint int | SolBytes32 string | SolString string | SolAddress string

record evm =
  evm_keccak :: "solVal list \<Rightarrow> string"
  evm_personal :: "string \<Rightarrow> string"
  evm_ecrecover :: "string \<Rightarrow> 8 word \<Rightarrow> bytes \<Rightarrow> bytes \<Rightarrow> string"

definition ZeroAddress :: string where
  "ZeroAddress = ''0x'' @ replicate 40 (CHR ''0'')"

section \<open>The registry of identities\<close>

record TrustIdentity =
  ti_controller :: string
  ti_activeKey :: string
  ti_policyCommitment :: string
  ti_createdAt :: int

record TrustIDRegistry =
  tr_identities :: "string \<Rightarrow> TrustIdentity"
  tr_revokedKeys :: "string \<Rightarrow> string \<Rightarrow> bool"

definition newTrustIDRegistry :: TrustIDRegistry where
  "newTrustIDRegistry = \<lparr>tr_identities = (\<lambda>_. \<lparr>ti_controller = ZeroAddress, ti_activeKey = ZeroHash, ti_policyCommitment = ZeroHash, ti_createdAt = 0\<rparr>),
     tr_revokedKeys = (\<lambda>_ _. False)\<rparr>"

definition trustRegister :: "int \<Rightarrow> string \<Rightarrow> TrustIDRegistry \<Rightarrow> string \<Rightarrow> string \<Rightarrow> string \<Rightarrow> TrustIDRegistry res" where
  "trustRegister now sender R trustId activeKey policyCommitment =
     (if ti_createdAt (tr_identities R trustId) \<noteq> 0 then Inl ''TrustIDExists''
      else Inr (R\<lparr>tr_identities := (tr_identities R)(trustId := \<lparr>ti_controller = sender, ti_activeKey = activeKey, ti_policyCommitment = policyCommitment,
        ti_createdAt = now mod 2 ^ 64\<rparr>)\<rparr>))"

definition onlyController :: "string \<Rightarrow> TrustIDRegistry \<Rightarrow> string \<Rightarrow> 'a res \<Rightarrow> 'a res" where
  "onlyController sender R trustId body =
     (if ti_createdAt (tr_identities R trustId) = 0 then Inl ''TrustIDNotFound''
      else if ti_controller (tr_identities R trustId) \<noteq> sender then Inl ''NotController'' else body)"

definition withRevoked :: "TrustIDRegistry \<Rightarrow> string \<Rightarrow> string \<Rightarrow> TrustIDRegistry" where
  "withRevoked R trustId key = R\<lparr>tr_revokedKeys := (tr_revokedKeys R)(trustId := (tr_revokedKeys R trustId)(key := True))\<rparr>"

definition withActiveKey :: "TrustIDRegistry \<Rightarrow> string \<Rightarrow> string \<Rightarrow> TrustIDRegistry" where
  "withActiveKey R trustId key = R\<lparr>tr_identities := (tr_identities R)(trustId := (tr_identities R trustId)\<lparr>ti_activeKey := key\<rparr>)\<rparr>"

definition trustRotateKey :: "string \<Rightarrow> TrustIDRegistry \<Rightarrow> string \<Rightarrow> string \<Rightarrow> string \<Rightarrow> TrustIDRegistry res" where
  "trustRotateKey sender R trustId oldKey newKey =
     onlyController sender R trustId
       (if ti_createdAt (tr_identities R trustId) = 0 then Inl ''TrustIDNotFound'' else Inr (withActiveKey (withRevoked R trustId oldKey) trustId newKey))"

definition trustRevokeKey :: "string \<Rightarrow> TrustIDRegistry \<Rightarrow> string \<Rightarrow> string \<Rightarrow> int \<Rightarrow> TrustIDRegistry res" where
  "trustRevokeKey sender R trustId key reason =
     onlyController sender R trustId
       (let S = withRevoked R trustId key in
        Inr (if ti_activeKey (tr_identities S trustId) = key then withActiveKey S trustId ZeroHash else S))"

definition trustGetActiveKey :: "TrustIDRegistry \<Rightarrow> string \<Rightarrow> string" where
  "trustGetActiveKey R trustId = ti_activeKey (tr_identities R trustId)"

definition trustGetController :: "TrustIDRegistry \<Rightarrow> string \<Rightarrow> string res" where
  "trustGetController R trustId =
     (if ti_createdAt (tr_identities R trustId) = 0 then Inl ''TrustIDNotFound'' else Inr (ti_controller (tr_identities R trustId)))"

definition trustIsRevoked :: "TrustIDRegistry \<Rightarrow> string \<Rightarrow> string \<Rightarrow> bool" where
  "trustIsRevoked R trustId key = tr_revokedKeys R trustId key"

section \<open>The registry of revocations\<close>

record ChainRevocation =
  cn_trustId :: string
  cn_key :: string
  cn_reason :: int
  cn_effectiveAt :: int
  cn_replacementKey :: string
  cn_submitter :: string

record RevocationRegistry =
  rg_owner :: string
  rg_trustIDRegistry :: string
  rg_authorizedSubmitters :: "string \<Rightarrow> bool"
  rg_revocationsByHash :: "string \<Rightarrow> ChainRevocation"
  rg_latest :: "string \<Rightarrow> string \<Rightarrow> string"
  rg_history :: "string \<Rightarrow> string \<Rightarrow> string list"

definition newRevocationRegistry :: "string \<Rightarrow> RevocationRegistry" where
  "newRevocationRegistry sender =
     \<lparr>rg_owner = sender, rg_trustIDRegistry = ZeroAddress, rg_authorizedSubmitters = (\<lambda>a. a = sender),
      rg_revocationsByHash = (\<lambda>_. \<lparr>cn_trustId = ZeroHash, cn_key = ZeroHash, cn_reason = 0, cn_effectiveAt = 0, cn_replacementKey = ZeroHash,
        cn_submitter = ZeroAddress\<rparr>),
      rg_latest = (\<lambda>_ _. ZeroHash), rg_history = (\<lambda>_ _. [])\<rparr>"

definition onlyOwner :: "string \<Rightarrow> string \<Rightarrow> 'a res \<Rightarrow> 'a res" where
  "onlyOwner owner sender body = (if sender \<noteq> owner then Inl ''NotOwner'' else body)"

definition setTrustIDRegistry :: "string \<Rightarrow> RevocationRegistry \<Rightarrow> string \<Rightarrow> RevocationRegistry res" where
  "setTrustIDRegistry sender R registry = onlyOwner (rg_owner R) sender (Inr (R\<lparr>rg_trustIDRegistry := registry\<rparr>))"

definition setAuthorizedSubmitter :: "string \<Rightarrow> RevocationRegistry \<Rightarrow> string \<Rightarrow> bool \<Rightarrow> RevocationRegistry res" where
  "setAuthorizedSubmitter sender R submitter authorized =
     onlyOwner (rg_owner R) sender (Inr (R\<lparr>rg_authorizedSubmitters := (rg_authorizedSubmitters R)(submitter := authorized)\<rparr>))"

text \<open>The call of the other registry: an address without a contract makes the caller revert, a revert of the called contract is caught.\<close>

definition controllerFor :: "(string \<Rightarrow> TrustIDRegistry option) \<Rightarrow> RevocationRegistry \<Rightarrow> string \<Rightarrow> string res" where
  "controllerFor contracts R trustId =
     (if rg_trustIDRegistry R = ZeroAddress then Inr ZeroAddress
      else case contracts (rg_trustIDRegistry R) of
        None \<Rightarrow> Inl ''NoContract''
      | Some T \<Rightarrow> Inr (catchE (trustGetController T trustId) ZeroAddress))"

definition requireControllerOrAuthorizedSubmitter :: "(string \<Rightarrow> TrustIDRegistry option) \<Rightarrow> RevocationRegistry \<Rightarrow> string \<Rightarrow> string \<Rightarrow> unit res" where
  "requireControllerOrAuthorizedSubmitter contracts R trustId caller =
     bindE (controllerFor contracts R trustId) (\<lambda>controller.
       if controller \<noteq> ZeroAddress then (if caller \<noteq> controller then Inl ''UnauthorizedRevocation'' else Inr ())
       else if \<not> rg_authorizedSubmitters R caller then Inl ''UnauthorizedRevocation'' else Inr ())"

text \<open>The values that are hashed for a revocation: two revocations with one tuple are the same.\<close>

definition revocationTuple :: "string \<Rightarrow> ChainRevocation \<Rightarrow> solVal list" where
  "revocationTuple sender v = [SolBytes32 (cn_trustId v), SolBytes32 (cn_key v), SolUint (cn_reason v), SolUint (cn_effectiveAt v), SolBytes32 (cn_replacementKey v),
     SolAddress sender]"

definition storeRevocation :: "evm \<Rightarrow> RevocationRegistry \<Rightarrow> ChainRevocation \<Rightarrow> RevocationRegistry" where
  "storeRevocation V R v =
     (let h = evm_keccak V (revocationTuple (cn_submitter v) v); t = cn_trustId v; k = cn_key v in
      R\<lparr>rg_revocationsByHash := (rg_revocationsByHash R)(h := v), rg_latest := (rg_latest R)(t := (rg_latest R t)(k := h)),
        rg_history := (rg_history R)(t := (rg_history R t)(k := rg_history R t k @ [h]))\<rparr>)"

definition registryRecordRevocation :: "evm \<Rightarrow> (string \<Rightarrow> TrustIDRegistry option) \<Rightarrow> string \<Rightarrow> RevocationRegistry \<Rightarrow> ChainRevocation \<Rightarrow> RevocationRegistry res" where
  "registryRecordRevocation V contracts sender R v =
     bindE (requireControllerOrAuthorizedSubmitter contracts R (cn_trustId v) sender) (\<lambda>_. Inr (storeRevocation V R (v\<lparr>cn_submitter := sender\<rparr>)))"

definition revocationAuthorizationHash :: "evm \<Rightarrow> ChainRevocation \<Rightarrow> string" where
  "revocationAuthorizationHash V v =
     evm_keccak V [SolString ''tsl.revocation.authorization.v1'', SolBytes32 (cn_trustId v), SolBytes32 (cn_key v), SolUint (cn_reason v), SolUint (cn_effectiveAt v),
       SolBytes32 (cn_replacementKey v)]"

definition recoverControllerSigner :: "evm \<Rightarrow> string \<Rightarrow> bytes \<Rightarrow> string" where
  "recoverControllerSigner V authorizationHash signature =
     (if length signature \<noteq> 65 then ZeroAddress
      else let r = take 32 signature; s = take 32 (drop 32 signature); u = signature ! 64; v = (if u < 27 then u + 27 else u) in
        if v \<noteq> 27 \<and> v \<noteq> 28 then ZeroAddress else evm_ecrecover V (evm_personal V authorizationHash) v r s)"

definition registryRecordWithAuthorization ::
    "evm \<Rightarrow> (string \<Rightarrow> TrustIDRegistry option) \<Rightarrow> string \<Rightarrow> RevocationRegistry \<Rightarrow> ChainRevocation \<Rightarrow> bytes \<Rightarrow> RevocationRegistry res" where
  "registryRecordWithAuthorization V contracts sender R v signature =
     bindE (controllerFor contracts R (cn_trustId v)) (\<lambda>controller.
       if controller = ZeroAddress \<or> recoverControllerSigner V (revocationAuthorizationHash V v) signature \<noteq> controller then Inl ''InvalidControllerSignature''
       else Inr (storeRevocation V R (v\<lparr>cn_submitter := sender\<rparr>)))"

definition registryIsRevoked :: "RevocationRegistry \<Rightarrow> string \<Rightarrow> string \<Rightarrow> int \<Rightarrow> bool" where
  "registryIsRevoked R trustId key atTime \<longleftrightarrow> (\<exists>h \<in> set (rg_history R trustId key). cn_effectiveAt (rg_revocationsByHash R h) \<le> atTime)"

section \<open>The registry of providers\<close>

record ChainProvider =
  pv_publicKey :: string
  pv_policyCommitment :: string
  pv_active :: bool

record ProviderRegistry =
  pg_owner :: string
  pg_providers :: "string \<Rightarrow> ChainProvider"
  pg_modelCards :: "string \<Rightarrow> string \<Rightarrow> string"

definition newProviderRegistry :: "string \<Rightarrow> ProviderRegistry" where
  "newProviderRegistry sender = \<lparr>pg_owner = sender, pg_providers = (\<lambda>_. \<lparr>pv_publicKey = ZeroHash, pv_policyCommitment = ZeroHash, pv_active = False\<rparr>),
     pg_modelCards = (\<lambda>_ _. ZeroHash)\<rparr>"

definition registerProvider :: "string \<Rightarrow> ProviderRegistry \<Rightarrow> string \<Rightarrow> string \<Rightarrow> string \<Rightarrow> ProviderRegistry res" where
  "registerProvider sender R providerId publicKey policyCommitment = onlyOwner (pg_owner R) sender
     (Inr (R\<lparr>pg_providers := (pg_providers R)(providerId := \<lparr>pv_publicKey = publicKey, pv_policyCommitment = policyCommitment, pv_active = True\<rparr>)\<rparr>))"

definition registerModel :: "string \<Rightarrow> ProviderRegistry \<Rightarrow> string \<Rightarrow> string \<Rightarrow> string \<Rightarrow> ProviderRegistry res" where
  "registerModel sender R providerId modelId modelCardCommitment = onlyOwner (pg_owner R) sender
     (Inr (R\<lparr>pg_modelCards := (pg_modelCards R)(providerId := (pg_modelCards R providerId)(modelId := modelCardCommitment))\<rparr>))"

definition revokeProvider :: "string \<Rightarrow> ProviderRegistry \<Rightarrow> string \<Rightarrow> int \<Rightarrow> ProviderRegistry res" where
  "revokeProvider sender R providerId reason = onlyOwner (pg_owner R) sender
     (Inr (R\<lparr>pg_providers := (pg_providers R)(providerId := (pg_providers R providerId)\<lparr>pv_active := False\<rparr>)\<rparr>))"

section \<open>The chain\<close>

record world =
  wd_trust :: "string \<Rightarrow> TrustIDRegistry option"
  wd_revocation :: "string \<Rightarrow> RevocationRegistry option"
  wd_provider :: "string \<Rightarrow> ProviderRegistry option"

datatype registryTx =
    TxRegister string string string
  | TxRotateKey string string string
  | TxRevokeKey string string int
  | TxSetTrustIDRegistry string
  | TxSetAuthorizedSubmitter string bool
  | TxRecordRevocation ChainRevocation
  | TxRecordWithAuthorization ChainRevocation bytes
  | TxRegisterProvider string string string
  | TxRegisterModel string string string
  | TxRevokeProvider string int

definition onTrust :: "world \<Rightarrow> string \<Rightarrow> (TrustIDRegistry \<Rightarrow> TrustIDRegistry res) \<Rightarrow> world res" where
  "onTrust W a f = (case wd_trust W a of None \<Rightarrow> Inr W | Some R \<Rightarrow> bindE (f R) (\<lambda>S. Inr (W\<lparr>wd_trust := (wd_trust W)(a := Some S)\<rparr>)))"

definition onRevocation :: "world \<Rightarrow> string \<Rightarrow> (RevocationRegistry \<Rightarrow> RevocationRegistry res) \<Rightarrow> world res" where
  "onRevocation W a f = (case wd_revocation W a of None \<Rightarrow> Inr W | Some R \<Rightarrow> bindE (f R) (\<lambda>S. Inr (W\<lparr>wd_revocation := (wd_revocation W)(a := Some S)\<rparr>)))"

definition onProvider :: "world \<Rightarrow> string \<Rightarrow> (ProviderRegistry \<Rightarrow> ProviderRegistry res) \<Rightarrow> world res" where
  "onProvider W a f = (case wd_provider W a of None \<Rightarrow> Inr W | Some R \<Rightarrow> bindE (f R) (\<lambda>S. Inr (W\<lparr>wd_provider := (wd_provider W)(a := Some S)\<rparr>)))"

fun execute :: "evm \<Rightarrow> int \<Rightarrow> string \<Rightarrow> world \<Rightarrow> string \<Rightarrow> registryTx \<Rightarrow> world res" where
  "execute V now sender W a (TxRegister t k p) = onTrust W a (\<lambda>R. trustRegister now sender R t k p)"
| "execute V now sender W a (TxRotateKey t old new) = onTrust W a (\<lambda>R. trustRotateKey sender R t old new)"
| "execute V now sender W a (TxRevokeKey t k reason) = onTrust W a (\<lambda>R. trustRevokeKey sender R t k reason)"
| "execute V now sender W a (TxSetTrustIDRegistry r) = onRevocation W a (\<lambda>R. setTrustIDRegistry sender R r)"
| "execute V now sender W a (TxSetAuthorizedSubmitter s b) = onRevocation W a (\<lambda>R. setAuthorizedSubmitter sender R s b)"
| "execute V now sender W a (TxRecordRevocation v) = onRevocation W a (\<lambda>R. registryRecordRevocation V (wd_trust W) sender R v)"
| "execute V now sender W a (TxRecordWithAuthorization v sig) = onRevocation W a (\<lambda>R. registryRecordWithAuthorization V (wd_trust W) sender R v sig)"
| "execute V now sender W a (TxRegisterProvider p k c) = onProvider W a (\<lambda>R. registerProvider sender R p k c)"
| "execute V now sender W a (TxRegisterModel p m c) = onProvider W a (\<lambda>R. registerModel sender R p m c)"
| "execute V now sender W a (TxRevokeProvider p reason) = onProvider W a (\<lambda>R. revokeProvider sender R p reason)"

type_synonym sentTx = "int \<times> string \<times> string \<times> registryTx"

text \<open>A transaction that reverts changes nothing.\<close>

fun sendAll :: "evm \<Rightarrow> world \<Rightarrow> sentTx list \<Rightarrow> world" where
  "sendAll V W [] = W"
| "sendAll V W ((now, sender, a, tx) # txs) = sendAll V (catchE (execute V now sender W a tx) W) txs"

end
