(* ===== verification/Registry.thy ===== *)
theory Registry
  imports Contracts RelayRun
begin

text \<open>
  The registry calls of the settlement backend (\<^verbatim>\<open>src/packages/core-ts/src/settlement.ts\<close>), composed with the contracts of the theory \<^verbatim>\<open>Contracts\<close> and with the
  verifier. A call that writes returns its result and the chain after it. What the RPC node supplies, the address of the signer, the time of the block and the
  hash of the receipt, is the record \<open>rpcNode\<close>. Milliseconds are divided exactly: the dates of the language are below \<^verbatim>\<open>2^53\<close>.
\<close>

record registryBackend =
  rb_evm :: LocalEvmSettlementBackend
  rb_trustIDRegistryAddress :: "string option"
  rb_revocationRegistryAddress :: "string option"
  rb_providerRegistryAddress :: "string option"
  rb_privateKey :: "string option"

record rpcNode =
  nd_wallet :: "string \<Rightarrow> string res"
  nd_account0 :: "string res"
  nd_now :: int
  nd_receipt :: "string option"

section \<open>Encoding of arguments\<close>

definition abiBytes32 :: "string \<Rightarrow> string res" where
  "abiBytes32 s = (if isHexOf 64 64 s then Inr (toLowerCase s) else Inl ''INVALID_ARGUMENT'')"

definition abiUint :: "nat \<Rightarrow> int option \<Rightarrow> int res" where
  "abiUint w v = (case v of None \<Rightarrow> Inl ''INVALID_ARGUMENT'' | Some n \<Rightarrow> if 0 \<le> n \<and> n < 2 ^ w then Inr n else Inl ''INVALID_ARGUMENT'')"

definition abiBytes :: "env \<Rightarrow> string \<Rightarrow> bytes res" where
  "abiBytes E s = (if startsWith s ''0x'' \<and> list_all isHexDigit (drop 2 s) \<and> even (length s) then hexToBytes E s else Inl ''INVALID_ARGUMENT'')"

definition inSeconds :: "int option \<Rightarrow> int option" where
  "inSeconds ms = map_option (\<lambda>n. n div 1000) ms"

section \<open>Writing\<close>

definition writeSigner :: "registryBackend \<Rightarrow> rpcNode \<Rightarrow> string res" where
  "writeSigner B nd = (if truthyStr (rb_privateKey B) then nd_wallet nd (the (rb_privateKey B)) else nd_account0 nd)"

definition optionalWritableContract :: "registryBackend \<Rightarrow> rpcNode \<Rightarrow> string option \<Rightarrow> string \<Rightarrow> (string \<times> string) res" where
  "optionalWritableContract B nd address missingCode =
     (if \<not> truthyStr address then Inl missingCode else bindE (writeSigner B nd) (\<lambda>signer. Inr (the address, signer)))"

text \<open>A transaction is sent and its receipt awaited; a revert is reported, and \<^verbatim>\<open>receipt.hash\<close> of an absent receipt throws after the transaction took effect.\<close>

definition sendTx :: "evm \<Rightarrow> rpcNode \<Rightarrow> world \<Rightarrow> (string \<times> string) \<Rightarrow> registryTx \<Rightarrow> string res \<times> world" where
  "sendTx V nd W contract tx =
     (case execute V (nd_now nd) (snd contract) W (fst contract) tx of
        Inl e \<Rightarrow> (Inl e, W)
      | Inr T \<Rightarrow> (case nd_receipt nd of None \<Rightarrow> (Inl ''TypeError'', T) | Some h \<Rightarrow> (Inr h, T)))"

definition writeCall :: "evm \<Rightarrow> rpcNode \<Rightarrow> world \<Rightarrow> ((string \<times> string) \<times> registryTx) res \<Rightarrow> string res \<times> world" where
  "writeCall V nd W call = (case call of Inl e \<Rightarrow> (Inl e, W) | Inr (contract, tx) \<Rightarrow> sendTx V nd W contract tx)"

definition registerIdentity :: "eth \<Rightarrow> evm \<Rightarrow> rpcNode \<Rightarrow> registryBackend \<Rightarrow> world \<Rightarrow> IdentityDocumentV1 \<Rightarrow> string res \<times> world" where
  "registerIdentity X V nd B W identity = writeCall V nd W
     (let ms = idd_verification_methods identity in
      case (case List.find (\<lambda>m. vm_status m = ''active'') ms of Some m \<Rightarrow> Some m | None \<Rightarrow> (case ms of [] \<Rightarrow> None | m # _ \<Rightarrow> Some m)) of
        None \<Rightarrow> Inl ''Identity has no verification key''
      | Some key \<Rightarrow>
          bindE (optionalWritableContract B nd (rb_trustIDRegistryAddress B) ''TSL_TRUST_ID_REGISTRY_MISSING'') (\<lambda>contract.
          bindE (abiBytes32 (trustIdToBytes32 X (idd_id identity))) (\<lambda>t.
          bindE (abiBytes32 (keyIdToBytes32 X (vm_id key))) (\<lambda>k.
          bindE (abiBytes32 (orElse (idd_privacy_policy_commitment identity) ZeroHash)) (\<lambda>p.
            Inr (contract, TxRegister t k p))))))"

definition rotateIdentityKey :: "eth \<Rightarrow> evm \<Rightarrow> rpcNode \<Rightarrow> registryBackend \<Rightarrow> world \<Rightarrow> string \<Rightarrow> string \<Rightarrow> string \<Rightarrow> string res \<times> world" where
  "rotateIdentityKey X V nd B W trustId oldKeyId newKeyId = writeCall V nd W
     (bindE (optionalWritableContract B nd (rb_trustIDRegistryAddress B) ''TSL_TRUST_ID_REGISTRY_MISSING'') (\<lambda>contract.
      bindE (abiBytes32 (trustIdToBytes32 X trustId)) (\<lambda>t.
      bindE (abiBytes32 (keyIdToBytes32 X oldKeyId)) (\<lambda>old.
      bindE (abiBytes32 (keyIdToBytes32 X newKeyId)) (\<lambda>new. Inr (contract, TxRotateKey t old new))))))"

definition revokeIdentityKey :: "eth \<Rightarrow> evm \<Rightarrow> rpcNode \<Rightarrow> registryBackend \<Rightarrow> world \<Rightarrow> string \<Rightarrow> string \<Rightarrow> int \<Rightarrow> string res \<times> world" where
  "revokeIdentityKey X V nd B W trustId keyId reason = writeCall V nd W
     (bindE (optionalWritableContract B nd (rb_trustIDRegistryAddress B) ''TSL_TRUST_ID_REGISTRY_MISSING'') (\<lambda>contract.
      bindE (abiBytes32 (trustIdToBytes32 X trustId)) (\<lambda>t.
      bindE (abiBytes32 (keyIdToBytes32 X keyId)) (\<lambda>k.
      bindE (abiUint 8 (Some reason)) (\<lambda>r. Inr (contract, TxRevokeKey t k r))))))"

record revocationCall =
  rc_trustId :: string
  rc_keyId :: string
  rc_reason :: int
  rc_effectiveAtMs :: "int option"
  rc_replacementKeyId :: "string option"
  rc_controllerSignature :: "string option"

definition recordArgs :: "eth \<Rightarrow> revocationCall \<Rightarrow> ChainRevocation res" where
  "recordArgs X c =
     bindE (abiBytes32 (trustIdToBytes32 X (rc_trustId c))) (\<lambda>t.
     bindE (abiBytes32 (keyIdToBytes32 X (rc_keyId c))) (\<lambda>k.
     bindE (abiUint 8 (Some (rc_reason c))) (\<lambda>r.
     bindE (abiUint 64 (inSeconds (rc_effectiveAtMs c))) (\<lambda>e.
     bindE (abiBytes32 (if truthyStr (rc_replacementKeyId c) then keyIdToBytes32 X (the (rc_replacementKeyId c)) else ZeroHash)) (\<lambda>p.
       Inr \<lparr>cn_trustId = t, cn_key = k, cn_reason = r, cn_effectiveAt = e, cn_replacementKey = p, cn_submitter = ZeroAddress\<rparr>)))))"

definition recordRevocation :: "env \<Rightarrow> eth \<Rightarrow> evm \<Rightarrow> rpcNode \<Rightarrow> registryBackend \<Rightarrow> world \<Rightarrow> revocationCall \<Rightarrow> string res \<times> world" where
  "recordRevocation E X V nd B W c = writeCall V nd W
     (bindE (optionalWritableContract B nd (rb_revocationRegistryAddress B) ''TSL_REVOCATION_REGISTRY_MISSING'') (\<lambda>contract.
      bindE (recordArgs X c) (\<lambda>v.
        if truthyStr (rc_controllerSignature c)
        then bindE (abiBytes E (the (rc_controllerSignature c))) (\<lambda>s. Inr (contract, TxRecordWithAuthorization v s))
        else Inr (contract, TxRecordRevocation v))))"

section \<open>Reading\<close>

text \<open>A call to an address without a contract returns no data, which the package reports as an error.\<close>

definition readFrom :: "'c option \<Rightarrow> ('c \<Rightarrow> 'a res) \<Rightarrow> 'a res" where
  "readFrom contract f = (case contract of None \<Rightarrow> Inl ''BAD_DATA'' | Some c \<Rightarrow> f c)"

definition getActiveIdentityKey :: "eth \<Rightarrow> registryBackend \<Rightarrow> world \<Rightarrow> string \<Rightarrow> string option res" where
  "getActiveIdentityKey X B W trustId =
     (if \<not> truthyStr (rb_trustIDRegistryAddress B) then Inr None
      else bindE (abiBytes32 (trustIdToBytes32 X trustId)) (\<lambda>t. readFrom (wd_trust W (the (rb_trustIDRegistryAddress B))) (\<lambda>R.
        let key = trustGetActiveKey R t in Inr (if key = ZeroHash then None else Some key))))"

definition isIdentityKeyRevoked :: "eth \<Rightarrow> registryBackend \<Rightarrow> world \<Rightarrow> string \<Rightarrow> string \<Rightarrow> bool res" where
  "isIdentityKeyRevoked X B W trustId keyId =
     (if \<not> truthyStr (rb_trustIDRegistryAddress B) then Inr False
      else bindE (abiBytes32 (trustIdToBytes32 X trustId)) (\<lambda>t. bindE (abiBytes32 (keyIdToBytes32 X keyId)) (\<lambda>k.
        readFrom (wd_trust W (the (rb_trustIDRegistryAddress B))) (\<lambda>R. Inr (trustIsRevoked R t k)))))"

definition isKeyRevokedAt :: "eth \<Rightarrow> registryBackend \<Rightarrow> world \<Rightarrow> string \<Rightarrow> string \<Rightarrow> int option \<Rightarrow> bool res" where
  "isKeyRevokedAt X B W trustId keyId atTimeMs =
     (if \<not> truthyStr (rb_revocationRegistryAddress B) then Inr False
      else bindE (abiBytes32 (trustIdToBytes32 X trustId)) (\<lambda>t. bindE (abiBytes32 (keyIdToBytes32 X keyId)) (\<lambda>k. bindE (abiUint 64 (inSeconds atTimeMs)) (\<lambda>time.
        readFrom (wd_revocation W (the (rb_revocationRegistryAddress B))) (\<lambda>R. Inr (registryIsRevoked R t k time))))))"

definition isProviderActive :: "eth \<Rightarrow> registryBackend \<Rightarrow> world \<Rightarrow> string \<Rightarrow> bool res" where
  "isProviderActive X B W providerId =
     (if \<not> truthyStr (rb_providerRegistryAddress B) then Inr False
      else bindE (abiBytes32 (providerIdToBytes32 X providerId)) (\<lambda>p.
        readFrom (wd_provider W (the (rb_providerRegistryAddress B))) (\<lambda>R. Inr (pv_active (pg_providers R p)))))"

definition isModelRegistered :: "eth \<Rightarrow> registryBackend \<Rightarrow> world \<Rightarrow> string \<Rightarrow> string \<Rightarrow> bool res" where
  "isModelRegistered X B W providerId modelVersion =
     (if \<not> truthyStr (rb_providerRegistryAddress B) then Inr False
      else bindE (abiBytes32 (providerIdToBytes32 X providerId)) (\<lambda>p. bindE (abiBytes32 (modelVersionToBytes32 X modelVersion)) (\<lambda>m.
        readFrom (wd_provider W (the (rb_providerRegistryAddress B))) (\<lambda>R. Inr (pg_modelCards R p m \<noteq> ZeroHash)))))"

text \<open>The backend as the verifier sees it.\<close>

definition evmBackend :: "env \<Rightarrow> eth \<Rightarrow> chain \<Rightarrow> registryBackend \<Rightarrow> world \<Rightarrow> SettlementBackend" where
  "evmBackend E X ch B W =
     \<lparr>sb_verifyCheckpointSettlement = (\<lambda>c. Inr (verifyCheckpointSettlement E X ch (rb_evm B) c)), sb_isKeyRevokedAt = Some (isKeyRevokedAt X B W),
      sb_isProviderActive = Some (isProviderActive X B W), sb_isModelRegistered = Some (isModelRegistered X B W)\<rparr>"

section \<open>Revocations are final\<close>

text \<open>The revocation that a transaction writes, with its submitter, and what it hashes.\<close>

fun writtenRevocation :: "string \<Rightarrow> registryTx \<Rightarrow> ChainRevocation option" where
  "writtenRevocation sender (TxRecordRevocation v) = Some (v\<lparr>cn_submitter := sender\<rparr>)"
| "writtenRevocation sender (TxRecordWithAuthorization v _) = Some (v\<lparr>cn_submitter := sender\<rparr>)"
| "writtenRevocation sender _ = None"

definition hashedTuple :: "ChainRevocation \<Rightarrow> solVal list" where
  "hashedTuple v = revocationTuple (cn_submitter v) v"

definition held :: "evm \<Rightarrow> world \<Rightarrow> string \<Rightarrow> ChainRevocation \<Rightarrow> bool" where
  "held V W a v \<longleftrightarrow> (\<exists>R. wd_revocation W a = Some R \<and> evm_keccak V (hashedTuple v) \<in> set (rg_history R (cn_trustId v) (cn_key v))
     \<and> cn_effectiveAt (rg_revocationsByHash R (evm_keccak V (hashedTuple v))) = cn_effectiveAt v)"

text \<open>A later revocation with the same hash and other values would be a collision of the hash function.\<close>

definition hashClash :: "evm \<Rightarrow> ChainRevocation \<Rightarrow> sentTx list \<Rightarrow> bool" where
  "hashClash V v txs \<longleftrightarrow> (\<exists>(now, sender, a, tx) \<in> set txs. \<exists>u \<in> set_option (writtenRevocation sender tx).
     hashedTuple u \<noteq> hashedTuple v \<and> evm_keccak V (hashedTuple u) = evm_keccak V (hashedTuple v))"

lemma tuple_effectiveAt: "hashedTuple u = hashedTuple v \<Longrightarrow> cn_effectiveAt u = cn_effectiveAt v"
  by (simp add: hashedTuple_def revocationTuple_def)

lemma storeRevocation_written:
  "evm_keccak V (hashedTuple v) \<in> set (rg_history (storeRevocation V R v) (cn_trustId v) (cn_key v))"
  "rg_revocationsByHash (storeRevocation V R v) (evm_keccak V (hashedTuple v)) = v"
  by (simp_all add: storeRevocation_def hashedTuple_def Let_def)

lemma storeRevocation_keeps:
  "h \<in> set (rg_history R t k) \<Longrightarrow> h \<in> set (rg_history (storeRevocation V R u) t k)"
  "rg_revocationsByHash (storeRevocation V R u) h = (if h = evm_keccak V (hashedTuple u) then u else rg_revocationsByHash R h)"
  by (auto simp: storeRevocation_def hashedTuple_def Let_def)

text \<open>What a transaction does to the revocation registries: nothing, a change of settings, or one revocation more.\<close>

lemma execute_revocations:
  assumes "execute V now sender W b tx = Inr T"
  shows "wd_revocation T = wd_revocation W
     \<or> (\<exists>R S. wd_revocation W b = Some R \<and> wd_revocation T = (wd_revocation W)(b := Some S)
          \<and> (rg_history S = rg_history R \<and> rg_revocationsByHash S = rg_revocationsByHash R
             \<or> (\<exists>u. writtenRevocation sender tx = Some u \<and> S = storeRevocation V R u)))"
  using assms
  by (cases tx) (auto simp: onTrust_def onRevocation_def onProvider_def bindE_eq_Inr setTrustIDRegistry_def setAuthorizedSubmitter_def onlyOwner_def
      registryRecordRevocation_def registryRecordWithAuthorization_def split: option.split_asm if_split_asm)

lemma held_same:
  assumes "held V W a v" "wd_revocation W b = Some R" "wd_revocation T = (wd_revocation W)(b := Some S)"
    "rg_history S = rg_history R" "rg_revocationsByHash S = rg_revocationsByHash R"
  shows "held V T a v"
  using assms by (auto simp: held_def)

lemma held_store:
  assumes "held V W a v" "wd_revocation W b = Some R" "wd_revocation T = (wd_revocation W)(b := Some (storeRevocation V R u))"
    "evm_keccak V (hashedTuple u) = evm_keccak V (hashedTuple v) \<Longrightarrow> hashedTuple u = hashedTuple v"
  shows "held V T a v"
proof (cases "b = a")
  case True
  then show ?thesis using assms tuple_effectiveAt [of u v] storeRevocation_keeps(1) [of _ R _ _ V u] by (auto simp: held_def storeRevocation_keeps(2))
qed (use assms in \<open>auto simp: held_def\<close>)

lemma held_execute:
  assumes "held V W a v" "\<not> hashClash V v [(now, sender, b, tx)]"
  shows "held V (catchE (execute V now sender W b tx) W) a v"
proof (cases "execute V now sender W b tx")
  case (Inr T)
  have clash: "evm_keccak V (hashedTuple u) = evm_keccak V (hashedTuple v) \<Longrightarrow> hashedTuple u = hashedTuple v" if "writtenRevocation sender tx = Some u" for u
    using assms(2) that by (auto simp: hashClash_def)
  from execute_revocations [OF Inr] have "held V T a v"
  proof (elim disjE exE conjE)
    assume "wd_revocation T = wd_revocation W"
    then show ?thesis using assms(1) by (simp add: held_def)
  qed (use held_same [OF assms(1)] held_store [OF assms(1)] clash in blast)+
  then show ?thesis by (simp add: Inr catchE_def)
qed (use assms in \<open>simp add: catchE_def\<close>)

lemma held_sendAll: "held V W a v \<Longrightarrow> \<not> hashClash V v txs \<Longrightarrow> held V (sendAll V W txs) a v"
proof (induction V W txs rule: sendAll.induct)
  case (2 V W now sender b tx txs)
  then show ?case using held_execute by (auto simp: hashClash_def)
qed simp

lemma recordArgs_Inr:
  assumes "recordArgs X c = Inr v"
  shows "abiBytes32 (trustIdToBytes32 X (rc_trustId c)) = Inr (cn_trustId v)" "abiBytes32 (keyIdToBytes32 X (rc_keyId c)) = Inr (cn_key v)"
    "abiUint 64 (inSeconds (rc_effectiveAtMs c)) = Inr (cn_effectiveAt v)"
  using assms by (auto simp: recordArgs_def bindE_eq_Inr)

lemma recordRevocation_call:
  assumes "recordRevocation E X V nd B W c = (Inr h, T)"
  shows "\<exists>sender v tx. truthyStr (rb_revocationRegistryAddress B) \<and> writeSigner B nd = Inr sender \<and> recordArgs X c = Inr v
     \<and> writtenRevocation sender tx = Some (v\<lparr>cn_submitter := sender\<rparr>) \<and> sendTx V nd W (the (rb_revocationRegistryAddress B), sender) tx = (Inr h, T)"
proof -
  obtain contract tx where tx: "bindE (optionalWritableContract B nd (rb_revocationRegistryAddress B) ''TSL_REVOCATION_REGISTRY_MISSING'') (\<lambda>contract.
      bindE (recordArgs X c) (\<lambda>v.
        if truthyStr (rc_controllerSignature c)
        then bindE (abiBytes E (the (rc_controllerSignature c))) (\<lambda>s. Inr (contract, TxRecordWithAuthorization v s))
        else Inr (contract, TxRecordRevocation v))) = Inr (contract, tx)" "sendTx V nd W contract tx = (Inr h, T)"
    using assms by (auto simp: recordRevocation_def writeCall_def split: sum.split_asm)
  then show ?thesis by (auto simp: optionalWritableContract_def bindE_eq_Inr intro!: exI [of _ tx] split: if_split_asm)
qed

lemma recordRevocation_held:
  assumes "recordRevocation E X V nd B W c = (Inr h, T)" "wd_revocation W (the (rb_revocationRegistryAddress B)) \<noteq> None"
  shows "\<exists>v sender. recordArgs X c = Inr v \<and> truthyStr (rb_revocationRegistryAddress B) \<and> writeSigner B nd = Inr sender
     \<and> held V T (the (rb_revocationRegistryAddress B)) (v\<lparr>cn_submitter := sender\<rparr>)"
proof -
  obtain sender v tx where c: "truthyStr (rb_revocationRegistryAddress B)" "writeSigner B nd = Inr sender" "recordArgs X c = Inr v"
      "writtenRevocation sender tx = Some (v\<lparr>cn_submitter := sender\<rparr>)" "sendTx V nd W (the (rb_revocationRegistryAddress B), sender) tx = (Inr h, T)"
    using recordRevocation_call [OF assms(1)] by blast
  then have "execute V (nd_now nd) sender W (the (rb_revocationRegistryAddress B)) tx = Inr T"
    by (auto simp: sendTx_def split: sum.split_asm option.split_asm)
  then have "\<exists>R. wd_revocation T (the (rb_revocationRegistryAddress B)) = Some (storeRevocation V R (v\<lparr>cn_submitter := sender\<rparr>))"
    using assms(2) c(4) by (cases tx) (auto simp: onRevocation_def bindE_eq_Inr registryRecordRevocation_def registryRecordWithAuthorization_def split: if_split_asm, blast+)
  then have "held V T (the (rb_revocationRegistryAddress B)) (v\<lparr>cn_submitter := sender\<rparr>)"
    using storeRevocation_written [where V = V and v = "v\<lparr>cn_submitter := sender\<rparr>"] by (auto simp: held_def)
  then show ?thesis using c by blast
qed

text \<open>The verifier rejects an event whose key the backend reports as revoked, and one whose check of the chain fails.\<close>

lemma chain_revoked_rejected:
  assumes "verifyTSL D input policy = Inr r" "isOn (po_require_chain_revocation policy)" "vd_backend D = Some b" "sb_isKeyRevokedAt b = Some f"
    and ev: "ev = vi_envelope (fst (expandProofBundleInput input))"
    and f: "f (ev_sender ev) (ev_signing_key_id ev) (dateParse (vd_env D) (ev_timestamp ev)) \<noteq> Inr False"
  shows "\<not> vr_verified r"
proof
  assume "vr_verified r"
  then obtain c t where "verifiedRun D input policy r c t" using verifyTSL_verifiedRun [OF assms(1)] by blast
  then obtain s where run: "runSections sections c s = Inr t" "vs_errors t = []" and c: "vc_env c = vd_env D" "vc_backend c = vd_backend D"
     "vc_policy c = withStrictDefaults policy" "vi_envelope (vc_input c) = ev"
    using ev verdict_core(5) by (auto simp: verifiedRun_def Let_def contextOf_def)
  have "\<forall>sec \<in> set (tl sections). \<forall>r. goes UNIV r (sec c r)" by (auto simp: sections_def intro!: contracts [THEN goes_mono])
  moreover have "runSections ([] @ chainRevocation # tl sections) c s = Inr t" using run(1) by (simp add: sections_def)
  ultimately obtain u where u: "chainRevocation c s = Inr u" "steps UNIV u t"
    using runSections_split [of "[]" chainRevocation "tl sections" c s t UNIV] by (auto simp: runSections_def)
  have "vs_errors u = []" using steps_error_free [OF u(2) run(2)] .
  with u(1) f show False using assms(2-4) c by (auto simp: chainRevocation_def withStrictDefaults_def Let_def bindE_eq_Inr split: if_split_asm)
qed

lemma isKeyRevokedAt_held:
  assumes "recordArgs X c = Inr v" "truthyStr (rb_revocationRegistryAddress B)" "held V W (the (rb_revocationRegistryAddress B)) (v\<lparr>cn_submitter := sender\<rparr>)"
    "rc_effectiveAtMs c = Some e" "e \<le> t"
  shows "isKeyRevokedAt X B W (rc_trustId c) (rc_keyId c) (Some t) \<noteq> Inr False"
proof -
  have e: "cn_effectiveAt v = e div 1000" using recordArgs_Inr(3) [OF assms(1)] assms(4) by (auto simp: abiUint_def inSeconds_def split: if_split_asm)
  have "e div 1000 \<le> t div 1000" using assms(5) by (rule zdiv_mono1) simp
  then show ?thesis using assms(2,3) e recordArgs_Inr(1,2) [OF assms(1)]
    by (auto simp: isKeyRevokedAt_def held_def readFrom_def registryIsRevoked_def bindE_eq_Inr inSeconds_def abiUint_def split: if_split_asm, force)
qed

text \<open>
  C12: From the contract to the verifier: once a revocation is recorded through the backend, whatever transactions anybody sends to the contracts afterwards, a verifier
  that asks the chain accepts no event of the revoked key from the effective time on, unless one of these transactions contains a collision of the hash function.
\<close>

theorem chain_revocation_final:
  assumes rec: "recordRevocation E X V nd B W c = (Inr h, T)" "wd_revocation W (the (rb_revocationRegistryAddress B)) \<noteq> None" "rc_effectiveAtMs c = Some e"
    and D: "isOn (po_require_chain_revocation policy)" "vd_backend D = Some (evmBackend (vd_env D) X ch B (sendAll V T txs))"
    and ev: "ev = vi_envelope (fst (expandProofBundleInput input))" "ev_sender ev = rc_trustId c" "ev_signing_key_id ev = rc_keyId c"
      "dateParse (vd_env D) (ev_timestamp ev) = Some t" "e \<le> t"
  shows "\<not> (\<exists>r. verifyTSL D input policy = Inr r \<and> vr_verified r)
     \<or> (\<exists>v sender. recordArgs X c = Inr v \<and> writeSigner B nd = Inr sender \<and> hashClash V (v\<lparr>cn_submitter := sender\<rparr>) txs)"
proof -
  obtain v sender where v: "recordArgs X c = Inr v" "truthyStr (rb_revocationRegistryAddress B)" "writeSigner B nd = Inr sender"
    "held V T (the (rb_revocationRegistryAddress B)) (v\<lparr>cn_submitter := sender\<rparr>)"
    using recordRevocation_held [OF rec(1,2)] by blast
  show ?thesis
  proof (cases "hashClash V (v\<lparr>cn_submitter := sender\<rparr>) txs")
    case False
    note kept = isKeyRevokedAt_held [OF v(1,2) held_sendAll [OF v(4) False] rec(3) ev(5)]
    have "\<not> vr_verified r" if "verifyTSL D input policy = Inr r" for r
      by (rule chain_revoked_rejected [OF that D _ ev(1)]) (use kept ev(2-4) in \<open>simp_all add: evmBackend_def\<close>)
    then show ?thesis by blast
  qed (use v in blast)
qed

section \<open>Control of an identity\<close>

text \<open>What a transaction does to one identity of a registry.\<close>

definition identityAt :: "world \<Rightarrow> string \<Rightarrow> string \<Rightarrow> TrustIdentity option" where
  "identityAt W a t = map_option (\<lambda>R. tr_identities R t) (wd_trust W a)"

definition revokedAt :: "world \<Rightarrow> string \<Rightarrow> string \<Rightarrow> string \<Rightarrow> bool" where
  "revokedAt W a t k \<longleftrightarrow> (\<exists>R. wd_trust W a = Some R \<and> tr_revokedKeys R t k)"

definition controlled :: "world \<Rightarrow> string \<Rightarrow> string \<Rightarrow> string \<Rightarrow> bool" where
  "controlled W a t c \<longleftrightarrow> (\<exists>i. identityAt W a t = Some i \<and> ti_createdAt i \<noteq> 0 \<and> ti_controller i = c)"

lemma execute_identity:
  assumes "controlled W a t c" "execute V now sender W b tx = Inr T"
  shows "controlled T a t c" "revokedAt W a t k \<Longrightarrow> revokedAt T a t k"
    "sender \<noteq> c \<Longrightarrow> identityAt T a t = identityAt W a t \<and> revokedAt T a t k = revokedAt W a t k"
  using assms
  by (cases tx; auto simp: onTrust_def onRevocation_def onProvider_def bindE_eq_Inr controlled_def identityAt_def revokedAt_def trustRegister_def trustRotateKey_def
      trustRevokeKey_def onlyController_def withRevoked_def withActiveKey_def Let_def split: option.split_asm if_split_asm)+

text \<open>
  An identity keeps the controller who registered it, its revoked keys stay revoked, and without a transaction of the controller nothing of it changes.
\<close>

theorem trustId_control:
  assumes "controlled W a t c"
  shows "controlled (sendAll V W txs) a t c \<and> (revokedAt W a t k \<longrightarrow> revokedAt (sendAll V W txs) a t k)
     \<and> ((\<forall>(now, sender, b, tx) \<in> set txs. sender \<noteq> c) \<longrightarrow>
          identityAt (sendAll V W txs) a t = identityAt W a t \<and> revokedAt (sendAll V W txs) a t k = revokedAt W a t k)"
  using assms
proof (induction V W txs rule: sendAll.induct)
  case (2 V W now sender b tx txs)
  have "controlled (catchE (execute V now sender W b tx) W) a t c \<and> (revokedAt W a t k \<longrightarrow> revokedAt (catchE (execute V now sender W b tx) W) a t k)
     \<and> (sender \<noteq> c \<longrightarrow> identityAt (catchE (execute V now sender W b tx) W) a t = identityAt W a t
          \<and> revokedAt (catchE (execute V now sender W b tx) W) a t k = revokedAt W a t k)"
    using execute_identity [OF "2.prems"] "2.prems" by (cases "execute V now sender W b tx") (simp_all add: catchE_def)
  then show ?case using "2.IH" by auto
qed simp

text \<open>The rotation of a key asks neither whether the old key is the active one nor whether the new key is revoked.\<close>

lemma rotation_to_revoked_key:
  assumes "ti_createdAt (tr_identities R t) \<noteq> 0" "ti_controller (tr_identities R t) = sender" "trustIsRevoked R t new"
  shows "\<exists>S. trustRotateKey sender R t old new = Inr S \<and> trustGetActiveKey S t = new \<and> trustIsRevoked S t new"
  using assms by (simp add: trustRotateKey_def onlyController_def trustGetActiveKey_def trustIsRevoked_def withActiveKey_def withRevoked_def)

text \<open>Without the address of a revocation registry the verifier reports the check of the chain as done.\<close>

lemma unconfigured_registry_passes:
  assumes "\<not> truthyStr (rb_revocationRegistryAddress B)" "isOn (po_require_chain_revocation (vc_policy c))" "vc_backend c = Some (evmBackend E X ch B W)"
  shows "chainRevocation c s = Inr (onChecks (\<lambda>k. k\<lparr>ck_chain_revocation_checked := Some True\<rparr>) s)"
  using assms by (simp add: chainRevocation_def evmBackend_def isKeyRevokedAt_def rejectIf_def Let_def)

section \<open>A concrete chain\<close>

definition registryEth :: eth where
  "registryEth = demoEth\<lparr>ethId := (\<lambda>s. ZeroHash)\<rparr>"

definition registryEvm :: evm where
  "registryEvm = \<lparr>evm_keccak = (\<lambda>vs. ZeroHash), evm_personal = (\<lambda>s. s), evm_ecrecover = (\<lambda>h v r s. ZeroAddress)\<rparr>"

definition registryNode :: rpcNode where
  "registryNode = \<lparr>nd_wallet = Inr, nd_account0 = Inr ''0x01'', nd_now = 5, nd_receipt = Some ''0x99''\<rparr>"

definition registryDemo :: registryBackend where
  "registryDemo = \<lparr>rb_evm = demoBackend, rb_trustIDRegistryAddress = None, rb_revocationRegistryAddress = Some ''0xaa'', rb_providerRegistryAddress = None,
     rb_privateKey = None\<rparr>"

definition registryWorld :: world where
  "registryWorld = \<lparr>wd_trust = Map.empty, wd_revocation = Map.empty(''0xaa'' \<mapsto> newRevocationRegistry ''0x01''), wd_provider = Map.empty\<rparr>"

definition registryCall :: revocationCall where
  "registryCall = \<lparr>rc_trustId = ''tsl:alice'', rc_keyId = ''tsl:alice#key-1'', rc_reason = 1, rc_effectiveAtMs = Some 1767225600000, rc_replacementKeyId = None,
     rc_controllerSignature = None\<rparr>"

lemma zero_bytes32: "abiBytes32 ZeroHash = Inr ZeroHash"
  by code_simp

lemma registryIds: "trustIdToBytes32 registryEth ''tsl:alice'' = ZeroHash" "keyIdToBytes32 registryEth ''tsl:alice#key-1'' = ZeroHash"
  by (simp_all add: trustIdToBytes32_def keyIdToBytes32_def isHexOf_def startsWith_def registryEth_def)

lemma registry_records: "\<exists>T. recordRevocation demoEnv registryEth registryEvm registryNode registryDemo registryWorld registryCall = (Inr ''0x99'', T)"
  by (simp add: recordRevocation_def writeCall_def optionalWritableContract_def recordArgs_def registryIds zero_bytes32 abiUint_def inSeconds_def truthyStr_def writeSigner_def
      registryDemo_def registryNode_def registryCall_def sendTx_def onRevocation_def registryWorld_def registryRecordRevocation_def
      requireControllerOrAuthorizedSubmitter_def controllerFor_def newRevocationRegistry_def)

definition registryVerifier :: "world \<Rightarrow> unit verifierDeps" where
  "registryVerifier T = (demoDeps demoEnv demoIdentity)\<lparr>vd_backend := Some (evmBackend demoEnv registryEth (demoChain ''0xff'') registryDemo
     (sendAll registryEvm T [(6, ''0x01'', ''0xaa'', TxSetAuthorizedSubmitter ''0x02'' True)]))\<rparr>"

theorem chain_revocation_final_witness:
  "\<exists>T. recordRevocation demoEnv registryEth registryEvm registryNode registryDemo registryWorld registryCall = (Inr ''0x99'', T)
     \<and> \<not> (\<exists>r. verifyTSL (registryVerifier T) (envelopeInput (demoSigned ''0x00'')) (noPolicy\<lparr>po_require_chain_revocation := Some True\<rparr>) = Inr r \<and> vr_verified r)"
proof -
  obtain T where T: "recordRevocation demoEnv registryEth registryEvm registryNode registryDemo registryWorld registryCall = (Inr ''0x99'', T)"
    using registry_records by blast
  let ?ev = "vi_envelope (fst (expandProofBundleInput (envelopeInput (demoSigned ''0x00''))))"
  have ev: "ev_sender ?ev = rc_trustId registryCall" "ev_signing_key_id ?ev = rc_keyId registryCall" "dateParse (vd_env (registryVerifier T)) (ev_timestamp ?ev) = Some 1767225600000"
    using demo_event_date by (simp_all add: demoSigned_def demoEvent_def EventCommitmentUnsignedV1.defs EventCommitmentV1.defs registryCall_def registryVerifier_def demoDeps_def isOn_def)
  have "wd_revocation registryWorld (the (rb_revocationRegistryAddress registryDemo)) \<noteq> None" "rc_effectiveAtMs registryCall = Some 1767225600000"
    "isOn (po_require_chain_revocation (noPolicy\<lparr>po_require_chain_revocation := Some True\<rparr>))"
    "vd_backend (registryVerifier T) = Some (evmBackend (vd_env (registryVerifier T)) registryEth (demoChain ''0xff'') registryDemo
       (sendAll registryEvm T [(6, ''0x01'', ''0xaa'', TxSetAuthorizedSubmitter ''0x02'' True)]))"
    by (simp_all add: registryWorld_def registryDemo_def registryCall_def registryVerifier_def demoDeps_def isOn_def)
  from chain_revocation_final [OF T this refl ev order_refl] T show ?thesis by (auto simp: hashClash_def)
qed

end
