(* ===== verification/Spec2Isabelle.thy ===== *)
theory Spec2Isabelle
  imports NonMembership CheckpointImport Relay ReferenceScore ReferenceFeatures ProofBundle VerifierGraph Scoring Metadata Auditor Registry
begin

text \<open>
  Verification of the core package of the Continuity Protocol (Trust Signature Layer), \<^verbatim>\<open>src/packages/core-ts\<close>, with the services that are built on
  it (\<^verbatim>\<open>src/services\<close>) and the registry contracts that it calls (\<^verbatim>\<open>src/contracts/src\<close>).

  \<^bold>\<open>The program.\<close> A sender signs an event that commits to a message. A relay checks the event, appends it to the segment of its epoch
  and shard, and closes the segment with a checkpoint: Merkle roots over the segment, the hash of the previous checkpoint, the relay's signature. The
  checkpoint is submitted to a contract (settlement). A verifier receives the event with an inclusion proof, the checkpoint, evidence of settlement and
  further claims (receipts, attestations, revocations, delegations, zero-knowledge and non-membership proofs), and decides under a policy
  whether to accept it.

  \<^bold>\<open>The theories\<close>, from the bottom up; file names are under \<^verbatim>\<open>src/packages/core-ts/src\<close>.
    \<^item> \<open>Prelude\<close>: results of code that may throw (\<open>res\<close>, \<open>bindE\<close>, \<open>mapE\<close>, \<open>foldE\<close>), JavaScript strings and numbers, UTF-8, association lists.
      \<open>Canonicalize\<close> (\<^verbatim>\<open>canonicalize.ts\<close>): JavaScript values, the canonical encoder and its errors.
      \<open>Runtime\<close>: the record \<open>env\<close> of what comes from outside the repository, the hypotheses on it, and the \<^verbatim>\<open>Date\<close> functions; \<^verbatim>\<open>validation.ts\<close>.
      \<open>Types\<close> and \<open>VerifierTypes\<close> (\<^verbatim>\<open>types.ts\<close>): one record per interface, and the object that is hashed for a value of it. \<open>Demo\<close>: a concrete \<open>env\<close>.
    \<^item> \<open>Crypto\<close> (\<^verbatim>\<open>crypto.ts\<close>): domain-separated hashes, hexadecimal text, Ed25519, hashes and commitments of the signed objects. The locale \<open>signing_scheme\<close> is
      the contract of a kind of signed object; it is interpreted on events, receipts, attestations, revocations and assessments.
    \<^item> \<open>Merkle\<close> (\<^verbatim>\<open>merkle.ts\<close>) and \<open>NonMembership\<close> (\<^verbatim>\<open>nonMembership.ts\<close>): the trees of the log and the sparse trees, with the locales \<open>merkle_hash\<close> and
      \<open>sparse_hash\<close> for the tree hashes they need.
    \<^item> \<open>Identity\<close> (\<^verbatim>\<open>identity.ts\<close>, \<^verbatim>\<open>resolver.ts\<close>; locale \<open>trust_store\<close>), \<open>Commitments\<close> (\<^verbatim>\<open>commitments.ts\<close>), \<open>Agent\<close> (\<^verbatim>\<open>agent.ts\<close>),
      \<open>Delegation\<close> (the signed objects and delegated actions of \<^verbatim>\<open>v2.ts\<close>).
    \<^item> \<open>Checkpoint\<close> (checkpoint hashes of \<^verbatim>\<open>relayStore.ts\<close>, \<^verbatim>\<open>consistency.ts\<close>), \<open>Settlement\<close> (\<^verbatim>\<open>settlement.ts\<close>), \<open>SettlementProof\<close> (\<^verbatim>\<open>settlementProof.ts\<close>),
      \<open>CheckpointImport\<close> (\<^verbatim>\<open>checkpointImport.ts\<close>), \<open>Zk\<close> (\<^verbatim>\<open>zk.ts\<close>).
    \<^item> \<open>VerifierInput\<close>, \<open>VerifierSections\<close>, \<open>VerifierScoring\<close>, \<open>VerifierLog\<close> and \<open>Verifier\<close> (\<^verbatim>\<open>verifier.ts\<close>): the helpers, the blocks of \<^verbatim>\<open>verifyTSL\<close> as one
      function each on the state \<open>vstate\<close> of its local variables, and the entry point. The locale \<open>verifier_section\<close> is the contract of a block: it only
      adds errors, and of the checks that decide only those it names can change. It is interpreted on every block.
    \<^item> \<open>RelayStore\<close>, \<open>RelayRun\<close> and \<open>Relay\<close> (\<^verbatim>\<open>relayStore.ts\<close>): the store and its operations, runs of it (\<open>relayStep\<close>, \<open>relayRun\<close>), the invariant and the
      append-only log that it refines (locale \<open>append_only_log\<close>), and its properties. Locale \<open>settlement_service\<close> is what the relay needs of a
      settlement backend; it is interpreted on the EVM backend of \<open>Settlement\<close>.
    \<^item> \<open>Numbers\<close> and \<open>Rounding\<close>: doubles and the rounding of their operations, fixed-point numbers. \<open>ReferenceScore\<close>, \<open>ReferenceFeatures\<close> (the reference score of
      \<^verbatim>\<open>v2.ts\<close>, its gates, calibration, confidence and features), \<open>Scoring\<close> (\<^verbatim>\<open>scoring.ts\<close>), \<open>Metadata\<close> (metadata fingerprints and the remaining
      builders of \<^verbatim>\<open>v2.ts\<close>).
    \<^item> \<open>Graph\<close>, \<open>GraphSearch\<close>, \<open>Community\<close>, \<open>GraphEvidence\<close>, \<open>GraphFeatures\<close>, \<open>Sybil\<close>, \<open>Drift\<close> (\<^verbatim>\<open>v2.ts\<close>): the graph of the signed evidence and its weights,
      components and distances, communities and page rank, the feature vector, the sybil assessment and the drift report. \<open>VerifierGraph\<close> instantiates with them
      the recomputations (\<open>graphOps\<close>) that the verifier takes as an argument. \<open>ProofBundle\<close> (\<^verbatim>\<open>proofBundle.ts\<close>): redaction and consent.
    \<^item> \<open>RelayNode\<close> (\<^verbatim>\<open>relay-node\<close>): the rate limiter and the routes of the relay service over the store, as one function \<open>handle\<close> on requests. \<open>Signing\<close>
      (\<^verbatim>\<open>signing.ts\<close>), \<open>Gossip\<close> (\<^verbatim>\<open>shared/gossip-peers.ts\<close>) and \<open>Auditor\<close> (\<^verbatim>\<open>auditor-node\<close>, \<^verbatim>\<open>verifier-api\<close>): signing adapters, addresses of peers, and the other
      services that run without a database.
    \<^item> \<open>Contracts\<close> (\<^verbatim>\<open>TrustIDRegistry.sol\<close>, \<^verbatim>\<open>RevocationRegistry.sol\<close>, \<^verbatim>\<open>ProviderRegistry.sol\<close>): storage, calls and transactions of the registries. \<open>Registry\<close>:
      the registry calls of \<^verbatim>\<open>settlement.ts\<close> on these contracts, as the backend of the verifier.
    \<^item> This theory: the properties that span the relay and the verifier.

  \<^bold>\<open>How the code is represented.\<close> An interface is a record with a prefix per field, an optional field an option. A union of literals stays a string. Code that
  throws returns \<open>Inl\<close> the message. Strings are lists of characters up to 255. JavaScript numbers that the code uses as integers are \<open>int\<close>; where the
  64-bit range or \<^verbatim>\<open>Number.isSafeInteger\<close> matters, the test is in the model; a date that does not parse (\<^verbatim>\<open>NaN\<close>) is \<open>None\<close>. A \<^verbatim>\<open>Map\<close> or \<^verbatim>\<open>Set\<close> whose order of insertion
  matters is a list (of pairs). An operation that changes a store returns the new store. An operation that waits (\<^verbatim>\<open>await\<close>) in the middle
  is also given as the part before and the part after, so that other operations can come between. One call sees one value of the clock; each step of a
  run of the relay may see another. All definitions are total functions: most loops follow lists; the levels of the trees shrink; the searches of the graph, the
  bisection of the square root, the drift report and the digits of a number end by a measure that is given with them; there is no fuel. A double is a
  rational number, and every operation is followed by the rounding \<open>fl\<close> to 53 bits; exponential, logarithm, power and \<^verbatim>\<open>localeCompare\<close> of the host are functions of the
  record \<open>host\<close>. Services are modelled without database and queue, the configuration in which their state is in memory.

  \<^bold>\<open>What comes from outside\<close> is an argument: SHA-256, Ed25519, the hexadecimal codec, the schema validator, the clock, the process environment and the random
  source in \<open>env\<close>; the contract and the node (\<open>chain\<close>), Keccak and ABI coding (\<open>eth\<close>), RLP and the trie (\<open>rlp\<close>), the Groth16 verifier, the
  platform's URL parser (\<open>net\<close>), hashing and the recovery of signers on the chain (\<open>evm\<close>). Hypotheses on them are \<open>hex_codec\<close>, \<open>sha256_length\<close>, \<open>ed25519_correct\<close> and few
  others next to their use. Collision resistance is never assumed: statements that need it name the finite sets of inputs among which the
  collision would be.

  \<^bold>\<open>What is shown.\<close> The encoder is injective and throws exactly where stated; commitments bind; signatures round trip. Trees: proofs
  verify, and what verifies is in the tree; the sparse tree has the root of the full tree. Checkpoint chains fix their history; settlement on line and off line
  and imports are sound. Delegations and delegated actions are sound and round trip. The verifier: a positive verdict implies the signature, key,
  inclusion, checkpoint, settlement and policy facts it reports, and a well-formed event with evidence is accepted. The relay: invariant,
  refinement of an append-only log, good proofs. Across: what the relay hands out the verifier accepts, and what the
  verifier accepts under the relay's root is in the relay's log. Graphs and scores: every edge is backed by signed evidence, components are the classes of
  reachability, distances are least, the square root is exact, scores, vectors and reports are in range and consistent, and the verifier accepts only artifacts that
  it recomputed. Redacted bundles disclose nothing without consent. The services: the relay service keeps the invariant of the store and refuses a revoked key,
  its rate limiter has a bound, the auditor contacts known peers only and reports a checkpoint as valid only if it is settled. The contracts: a revocation
  on the chain is final for every verifier that asks it, and only its controller changes an identity. Theorems also state where the code falls short: content commitments without a boundary, forgeable
  sparse non-membership proofs, a prover that throws at the ends, deny policies that authorise, events lost while a checkpoint is submitted, a chain check that passes
  when no registry is configured, settlement mismatches that the auditor signs as missing, and others next to their components.

  \<^bold>\<open>Not modelled.\<close> The Groth16 prover of \<^verbatim>\<open>zk.ts\<close>, which prepares inputs for an external prover. The Postgres and Redis adapters, and the routes and services that
  only read or write the database (\<^verbatim>\<open>log-node\<close>, \<^verbatim>\<open>resolver-node\<close>, \<^verbatim>\<open>checkpoint-submitter\<close>, \<^verbatim>\<open>scoring-provider\<close>): their behaviour is that of SQL statements. The
  contracts for checkpoints and governance: the former is seen through what the node answers. Command line, browser client, SDK and scripts: input and output
  around the core package.
\<close>

section \<open>The relay and the verifier\<close>

lemma commitmentHash_bytes_inject:
  assumes "hex_codec E" "commitmentHash E x = Inr c" "commitmentHash E y = Inr d" "hexToBytes E c = hexToBytes E d"
  shows "c = d"
  using assms hexToBytes_hashDomain [OF assms(1)] by (auto simp: commitmentHash_def commitmentHashFromParts_def bindE_eq_Inr hashDomain_eq)

text \<open>What a positive verdict on the bare event says of its key.\<close>

lemma envelope_verified:
  assumes "verifyTSL V (envelopeInput ev) noPolicy = Inr r" "vr_verified r"
  shows "\<exists>h d key. sv_valid (validateSchema (vd_env V) ''event'' (JObj (EventCommitmentV1_obj ev))) \<and> eventHash (vd_env V) (EventCommitmentV1_obj ev) = Inr h
     \<and> vd_resolver V (ev_sender ev) (Some (ev_timestamp ev)) = Inr (Some d) \<and> findVerificationMethod d (ev_signing_key_id ev) = Some key
     \<and> vm_type key = ''ed25519'' \<and> keyActiveAt (vd_env V) (Some key) (ev_timestamp ev) \<and> notRevokedAt (vd_env V) (Some key) (Some (ev_timestamp ev))
     \<and> verifyEd25519 (vd_env V) (vm_public_key key) (DText h) (ev_signature ev) = Inr True"
proof -
  obtain c t where "verifiedRun V (envelopeInput ev) noPolicy r c t" using verifyTSL_verifiedRun [OF assms] by blast
  then show ?thesis by (auto simp: verifiedRun_def Let_def startState_checks edSigned_True)
qed

text \<open>The evidence that the relay hands out for an event of a closed segment.\<close>

lemma relay_evidence:
  assumes E: "hex_codec E" "ed25519_correct E" and inv: "relayInv E S" and a: "map_of (rs_events S) k = Some a"
    and closed: "map_of (rs_closedSegments S) (checkpointStoreKey (ae_epoch_start_ms a) (ae_shard a)) \<noteq> None"
    and seed: "rs_relay_signing_seed_hex S = Some seed" "hexToBytes E seed = Inr b" "length b = 32"
  shows "\<exists>p c pk. proofFor E S k = Inr (Some (p, c)) \<and> provesEvent E k p c \<and> commitmentHash E (ae_event a) = Inr k
     \<and> bc_relay_id c = rs_relay_id S \<and> bc_checkpoint_identity_hash c = Some (ip_checkpoint_hash p)
     \<and> deriveEd25519PublicKey E seed = Inr pk \<and> verifyEd25519 E pk (DText (ip_checkpoint_hash p)) (bc_relay_signature c) = Inr True"
proof -
  obtain cs where cs: "map_of (rs_closedSegments S) (checkpointStoreKey (ae_epoch_start_ms a) (ae_shard a)) = Some cs" using closed by blast
  obtain p c where p: "proofFor E S k = Inr (Some (p, c))" "map_of (rs_settledCheckpoints S) (checkpointStoreKey (ae_epoch_start_ms a) (ae_shard a)) = Some c"
    using proofFor_closed [OF inv a cs] by blast
  have proves: "provesEvent E k p c" using proofFor_proves [OF inv a p(1)] by blast
  have made: "relayMade E S c" using relayInv_closed [OF inv cs] p(2) by (auto simp: settledOk_def)
  have "nobleHexToBytes E [] = []" using E(1) by (metis hex_codec_def length_0_conv mult_0_right list.size(3))
  then have "seed \<noteq> []" using seed(2,3) by (auto simp: hexToBytes_def normalizeHex_def toLowerCase_def startsWith_def)
  then have h: "checkpointHash E c = Inr (ip_checkpoint_hash p)" "signEd25519 E (DText (ip_checkpoint_hash p)) seed = Inr (bc_relay_signature c)"
     "bc_checkpoint_identity_hash c = Some (ip_checkpoint_hash p)" "bc_relay_id c = rs_relay_id S"
    using made proves seed(1) by (auto simp: relayMade_def provesEvent_def)
  have "(k, a) \<in> set (rs_events S)" using a by (rule map_of_SomeD)
  then have "commitmentHash E (ae_event a) = Inr k" using inv by (auto simp: relayInv_def eventOk_def)
  then show ?thesis using p(1) proves h seed_signs_domainHash [OF E seed(2,3)] unfolding checkpointHash_eq by fastforce
qed

text \<open>With this evidence a verifier that accepts the bare event accepts the event in its segment.\<close>

lemma relay_logEvidence:
  assumes E: "hex_codec E" "ed25519_correct E" and inv: "relayInv E S" and a: "map_of (rs_events S) k = Some a"
    and closed: "map_of (rs_closedSegments S) (checkpointStoreKey (ae_epoch_start_ms a) (ae_shard a)) \<noteq> None"
    and seed: "rs_relay_signing_seed_hex S = Some seed" "hexToBytes E seed = Inr b" "length b = 32" "deriveEd25519PublicKey E seed = Inr pk"
    and V: "vd_env V = E" "verifyTSL V (envelopeInput (ae_event a)) noPolicy = Inr r" "vr_verified r" "\<not> envFlag E ''ALLOW_LEGACY_CHECKPOINT_HASH_V0''"
    and relay: "vd_resolver V (rs_relay_id S) (Some (ev_timestamp (ae_event a))) = Inr (Some rd)" "activeKey E (ev_timestamp (ae_event a)) (Some rd) = Some rk"
      "vm_type rk = ''ed25519''" "vm_public_key rk = pk"
    and ok: "\<forall>p. sv_valid (validateSchema E ''inclusionProof'' (JObj (InclusionProofV1_obj p)))"
      "\<forall>c. sv_valid (validateSchema E ''checkpoint'' (JObj (BatchCheckpointV1_obj c)))"
    and settled: "vd_backend V = Some be" "\<forall>c. \<exists>sr. sb_verifyCheckpointSettlement be c = Inr sr \<and> svr_settled sr"
  shows "\<exists>p c. proofFor E S k = Inr (Some (p, c)) \<and> logEvidence V (ae_event a) p c"
proof -
  obtain p c pk' where p: "proofFor E S k = Inr (Some (p, c))" "provesEvent E k p c" "commitmentHash E (ae_event a) = Inr k"
     "bc_relay_id c = rs_relay_id S" "bc_checkpoint_identity_hash c = Some (ip_checkpoint_hash p)" "deriveEd25519PublicKey E seed = Inr pk'"
     "verifyEd25519 E pk' (DText (ip_checkpoint_hash p)) (bc_relay_signature c) = Inr True"
    using relay_evidence [OF E inv a closed seed(1-3)] by blast
  obtain sr where sr: "sb_verifyCheckpointSettlement be c = Inr sr" "svr_settled sr" using settled(2) by blast
  have "logEvidence V (ae_event a) p c"
    using envelope_verified [OF V(2,3)] p seed(4) relay ok sr settled(1) V(1,4)
    unfolding logEvidence_def Let_def by (auto simp: provesEvent_def checkpointHashForPolicy_def)
  then show ?thesis using p(1) by blast
qed

text \<open>The relay of the concrete run, its closed segment and the evidence for its event.\<close>

lemma tail_relay_key:
  "deriveEd25519PublicKey tailEnv (seedOf True) = Inr (nobleBytesToHex tailEnv (keyOf True))"
  "\<exists>rk. activeKey tailEnv ''2026-01-01T00:00:00.000Z'' (Some (tailDocument True)) = Some rk \<and> vm_type rk = ''ed25519'' \<and> vm_public_key rk = nobleBytesToHex tailEnv (keyOf True)"
  "\<not> envFlag tailEnv flag" "vd_resolver tailDeps x t = Inr (Some (tailDocument True))"
  "\<exists>be. vd_backend tailDeps = Some be \<and> (\<forall>c. \<exists>sr. sb_verifyCheckpointSettlement be c = Inr sr \<and> svr_settled sr)"
  by (simp add: deriveEd25519PublicKey_def seedOf_bytes, simp add: tailEnv_def demoEnv_def)
    (simp_all add: activeKey_def tailDocument_def keyActiveAt_def tail_facts, simp_all add: tailEnv_def demoEnv_def envFlag_def demoDeps_def demoSettledResult_def)

lemma tail_evidence:
  "\<exists>S0 T a p c. newRelayStore tailEnv tailOptions = Inr S0 \<and> relayRun tailDeps S0 [tailEvent True] T \<and> getAcceptedEvent T (tailCommitment True) = Some a
     \<and> ae_event a = tailEvent True \<and> ae_epoch_start_ms a = Some tailEpoch \<and> ae_shard a = ''0000'' \<and> relayInv tailEnv T \<and> tailReady T
     \<and> map_of (rs_closedSegments T) (checkpointStoreKey (Some tailEpoch) ''0000'') = Some [tailCommitment True]
     \<and> map_of (rs_settledCheckpoints T) (checkpointStoreKey (Some tailEpoch) ''0000'') = Some c
     \<and> proofFor tailEnv T (tailCommitment True) = Inr (Some (p, c)) \<and> logEvidence tailDeps (tailEvent True) p c"
proof -
  obtain S0 S a where S: "newRelayStore tailEnv tailOptions = Inr S0" "relayRun tailDeps S0 [tailEvent True] S" "tailFirst S a" using tail_first by blast
  obtain T where T: "relayRun tailDeps S0 [tailEvent True] T" "map_of (rs_events T) (tailCommitment True) = Some a" "tailReady T"
     "map_of (rs_closedSegments T) (checkpointStoreKey (Some tailEpoch) ''0000'') = Some [tailCommitment True]" using tail_closed [OF S] by blast
  have a: "ae_event a = tailEvent True" "ae_epoch_start_ms a = Some tailEpoch" "ae_shard a = ''0000''" using S(3) by (simp_all add: tailFirst_def)
  have inv: "relayInv tailEnv T"
    using relayRun_inv [of tailDeps tailOptions S0 "[tailEvent True]" T] S(1) T(1) tail_keeps tail_no_clash by (simp add: tailDeps_at(2) tailOptions_def)
  obtain v where v: "verifyTSL tailDeps (envelopeInput (tailEvent True)) noPolicy = Inr v" "vr_verified v"
    using tailEvent_verifies [of tailDeps True] by (auto simp: tailDeps_at(2) tail_relay_key(4))
  obtain rk where rk: "activeKey tailEnv ''2026-01-01T00:00:00.000Z'' (Some (tailDocument True)) = Some rk" "vm_type rk = ''ed25519''"
    "vm_public_key rk = nobleBytesToHex tailEnv (keyOf True)" using tail_relay_key(2) by blast
  obtain be where be: "vd_backend tailDeps = Some be" "\<forall>c. \<exists>sr. sb_verifyCheckpointSettlement be c = Inr sr \<and> svr_settled sr" using tail_relay_key(5) by blast
  have "rs_relay_signing_seed_hex T = Some (seedOf True)" using T(3) by (simp add: tailReady_def)
  then obtain p c where p: "proofFor tailEnv T (tailCommitment True) = Inr (Some (p, c))" "logEvidence tailDeps (tailEvent True) p c"
    using relay_logEvidence [OF tail_hyps(1,3) inv T(2) _ _ seedOf_bytes keyOf_length tail_relay_key(1), of tailDeps v "tailDocument True" rk be]
      v rk be T(4) a tail_relay_key(3,4) tail_facts(1) by (auto simp: tailDeps_at(2))
  then have "map_of (rs_settledCheckpoints T) (checkpointStoreKey (Some tailEpoch) ''0000'') = Some c"
    using proofFor_closed [OF inv T(2), of "[tailCommitment True]"] T(4) a by auto
  then show ?thesis using S(1) T a inv p by (auto simp: getAcceptedEvent_def)
qed

section \<open>Properties\<close>



text \<open>
  C4: From the verifier to the relay. If \<^verbatim>\<open>verifyTSL\<close> accepts an event under a policy that requires inclusion and a checkpoint, and the checkpoint has the event root that
  the relay's settled checkpoint of a closed segment has, then the relay accepted this event, with the same fields and signature, into that segment. The exceptions: the
  proof uses the older form of the commitment, the segment is empty, or there is a collision of SHA-256 between what the verifier and what the relay hashed.
\<close>

theorem verified_event_in_relay_log:
  assumes E: "hex_codec (vd_env D)" "sha256_length (vd_env D)" and inv: "relayInv (vd_env D) S"
    and seg: "map_of (rs_settledCheckpoints S) (checkpointStoreKey (Some e) s) = Some c" "eventsFor S (Some e) s \<noteq> []"
    and V: "vd_env V = vd_env D" "verifyTSL V input policy = Inr r" "vr_verified r" "inp = fst (expandProofBundleInput input)"
      "po_require_inclusion policy = Some True" "po_require_checkpoint policy = Some True"
    and cp: "vi_checkpoint inp = Some cp" "bc_event_root cp = bc_event_root c" and p: "vi_proof inp = Some p"
  shows "(\<exists>a \<in> set (eventsFor S (Some e) s). EventCommitmentUnsignedV1.truncate (ae_event a) = EventCommitmentUnsignedV1.truncate (vi_envelope inp)
        \<and> hexToBytes (vd_env D) (ev_signature (ae_event a)) = hexToBytes (vd_env D) (ev_signature (vi_envelope inp)))
     \<or> legacyCommitmentHash (vd_env D) (vi_envelope inp) = Inr (ip_commitment p)
     \<or> (\<exists>a \<in> set (eventsFor S (Some e) s). sha256_collision (vd_env D) (commitmentInputs (vd_env D) (ae_event a)) (commitmentInputs (vd_env D) (vi_envelope inp)))
     \<or> sha256_collision (vd_env D) (set (verifyInputs (vd_env D) p)) (set (treeInputs (vd_env D) (map ae_commitment_hash (eventsFor S (Some e) s))))"
proof -
  let ?E = "vd_env D" let ?as = "eventsFor S (Some e) s" let ?ev = "vi_envelope inp"
  obtain tree where tree: "buildMerkleTree ?E (map ae_commitment_hash ?as) = Inr tree" "bc_event_root c = mt_root tree"
    using checkpointFor_segment [OF inv, of e s c] seg(1) by (auto simp: checkpointFor_def settledOk_def)
  have v: "verifyInclusion ?E p = Inr True" "ip_root p = mt_root tree"
     "commitmentHash ?E ?ev = Inr (ip_commitment p) \<or> legacyCommitmentHash ?E ?ev = Inr (ip_commitment p)"
    using verified_anchored [OF V(2-6)] V(1) cp p tree(2) by auto
  consider i where "i < length ?as" "hexToBytes ?E (ip_commitment p) = hexToBytes ?E (ae_commitment_hash (?as ! i))"
    | "sha256_collision ?E (set (verifyInputs ?E p)) (set (treeInputs ?E (map ae_commitment_hash ?as)))"
    using verifyInclusion_member [OF E tree(1) _ v(1,2)] seg(2) by fastforce
  then show ?thesis
  proof cases
    case 1
    have in': "?as ! i \<in> set ?as" using 1(1) by simp
    then have ok: "commitmentHash ?E (ae_event (?as ! i)) = Inr (ae_commitment_hash (?as ! i))"
      using inv by (force simp: relayInv_def eventOk_def eventsFor_def)
    show ?thesis
    proof (cases "legacyCommitmentHash ?E ?ev = Inr (ip_commitment p)")
      case False
      then have "commitmentHash ?E ?ev = Inr (ae_commitment_hash (?as ! i))" using v(3) commitmentHash_bytes_inject [OF E(1) _ ok 1(2)] by auto
      then show ?thesis using event.commit_binding [OF E ok] in' unfolding commitmentInputs_def event.payload_signed by blast
    qed simp
  qed simp
qed

theorem verified_event_in_relay_log_witness:
  "\<exists>S c p r. relayInv tailEnv S \<and> map_of (rs_settledCheckpoints S) (checkpointStoreKey (Some tailEpoch) ''0000'') = Some c
     \<and> verifyTSL tailDeps (logInput (tailEvent True) p c) logPolicy = Inr r \<and> vr_verified r
     \<and> ((\<exists>a \<in> set (eventsFor S (Some tailEpoch) ''0000''). EventCommitmentUnsignedV1.truncate (ae_event a) = tailUnsigned True)
        \<or> legacyCommitmentHash tailEnv (tailEvent True) = Inr (ip_commitment p)
        \<or> (\<exists>a \<in> set (eventsFor S (Some tailEpoch) ''0000''). sha256_collision tailEnv (commitmentInputs tailEnv (ae_event a)) (commitmentInputs tailEnv (tailEvent True)))
        \<or> sha256_collision tailEnv (set (verifyInputs tailEnv p)) (set (treeInputs tailEnv (map ae_commitment_hash (eventsFor S (Some tailEpoch) ''0000'')))))"
proof -
  obtain T a p c where T: "getAcceptedEvent T (tailCommitment True) = Some a" "ae_epoch_start_ms a = Some tailEpoch" "ae_shard a = ''0000''" "relayInv tailEnv T"
     "map_of (rs_settledCheckpoints T) (checkpointStoreKey (Some tailEpoch) ''0000'') = Some c" and ok: "logEvidence tailDeps (tailEvent True) p c"
    using tail_evidence by blast
  obtain r where r: "verifyTSL tailDeps (logInput (tailEvent True) p c) logPolicy = Inr r" "vr_verified r"
    using log_accepted [OF ok] tail_facts(3) by (auto simp: tailDeps_at(2))
  have "a \<in> set (eventsFor T (Some tailEpoch) ''0000'')"
    using T(1-3) map_of_SomeD [of "rs_events T"] by (auto simp: getAcceptedEvent_def eventsFor_def sameNumber_def intro!: image_eqI)
  then have "eventsFor T (Some tailEpoch) ''0000'' \<noteq> []" by auto
  from verified_event_in_relay_log [of tailDeps T tailEpoch "''0000''" c tailDeps "logInput (tailEvent True) p c" logPolicy r "logInput (tailEvent True) p c" c p]
  show ?thesis using T(4,5) r tail_hyps(1,2) \<open>eventsFor T (Some tailEpoch) ''0000'' \<noteq> []\<close>
    by (intro exI [of _ T] exI [of _ c] exI [of _ p] exI [of _ r]) (auto simp: tailDeps_at(2) logPolicy_def)
qed

end
